(* ===== verification/Prelude.thy ===== *)
theory Prelude
  imports Main "HOL-Library.Char_ord" "HOL-Library.List_Lexorder" "HOL-Library.Product_Lexorder"
    "HOL-Library.Word"
begin

text \<open>
  Shared vocabulary of the development: the theorem collections, Go strings with
  \<open>strings.TrimSpace\<close>, fallible programs over an explicit world, database transactions that
  roll back on an error, and the preservation calculus with which every invariant of the
  services is proved.
\<close>

named_theorems pres_intros "introduction rules of the preservation calculus"
named_theorems tx_simps "evaluation rules of transactions"
named_theorems prog_simps "evaluation rules of programs"

section \<open>Results\<close>

text \<open>A Go function that returns \<open>(T, error)\<close> is a value of \<open>'e + 'a\<close>, \<open>Inl\<close> the error.\<close>

definition bindS :: "'e + 'a \<Rightarrow> ('a \<Rightarrow> 'e + 'b) \<Rightarrow> 'e + 'b" where
  "bindS r f = (case r of Inl e \<Rightarrow> Inl e | Inr x \<Rightarrow> f x)"

lemma bindS_simps [simp]:
  "bindS (Inl e) f = Inl e"
  "bindS (Inr x) f = f x"
  by (simp_all add: bindS_def)

lemma bindS_Inr_iff: "bindS r f = Inr y \<longleftrightarrow> (\<exists>x. r = Inr x \<and> f x = Inr y)"
  by (cases r) simp_all

section \<open>Lists\<close>

text \<open>The key of a row and a partial unique index survive an update that keeps the key and adds no
  row to the index.\<close>

lemma distinct_map_update:
  assumes "distinct (map k xs)" and "\<And>x. k (g x) = k x"
  shows "distinct (map k (map g xs))"
  using assms by (simp add: o_def)

lemma distinct_filter_update:
  assumes "distinct (map k (filter P xs))" and "\<And>x. k (g x) = k x" and "\<And>x. P (g x) \<Longrightarrow> P x"
  shows "distinct (map k (filter P (map g xs)))"
  using assms(1)
proof (induction xs)
  case Nil
  then show ?case by simp
next
  case (Cons x xs)
  have "k ` {y \<in> set (map g xs). P y} \<subseteq> k ` {y \<in> set xs. P y}"
    using assms(2,3) by (force simp: image_iff)
  with Cons assms(2,3) show ?case by (auto split: if_splits)
qed

lemma image_key_update:
  assumes "\<And>x. k (g x) = k x"
  shows "k ` set (map g xs) = k ` set xs"
  using assms by (induction xs) simp_all

lemma distinct_filter_keyD:
  assumes "distinct (map k (filter P xs))" and "x \<in> set xs" and "y \<in> set xs" and "P x" and "P y" and "k x = k y"
  shows "x = y"
  using assms by (auto simp: distinct_map inj_on_def)

lemma distinct_keyD:
  assumes "distinct (map k xs)" and "x \<in> set xs" and "y \<in> set xs" and "k x = k y"
  shows "x = y"
  using assms by (auto simp: distinct_map inj_on_def)

lemma find_distinct_key:
  "distinct (map k xs) \<Longrightarrow> x \<in> set xs \<Longrightarrow> find (\<lambda>y. k y = k x) xs = Some x"
  by (induction xs) (auto simp: rev_image_eqI)

lemma find_SomeD: "find P xs = Some x \<Longrightarrow> x \<in> set xs \<and> P x"
  by (metis find_Some_iff nth_mem)

lemma find_append_iff: "find P (xs @ ys) = (case find P xs of None \<Rightarrow> find P ys | Some x \<Rightarrow> Some x)"
  by (induction xs) auto

lemma find_None_set: "find P xs = None \<longleftrightarrow> (\<forall>x\<in>set xs. \<not> P x)"
  by (induction xs) auto

section \<open>Go strings\<close>

text \<open>
  A Go string is a sequence of bytes, here a \<open>string\<close> (a list of 8-bit characters).
  \<open>strings.TrimSpace\<close> removes leading and trailing runes of \<open>unicode.IsSpace\<close>; the list below
  holds the UTF-8 encodings of all of them (ASCII white space, U+0085, U+00A0, U+1680, U+2000 to
  U+200A, U+2028, U+2029, U+202F, U+205F and U+3000). No encoding is a prefix of another one, and a
  byte sequence that is not valid UTF-8 decodes to U+FFFD, which is not white space.
\<close>

definition space_runes :: "string list" where
  "space_runes =
     [[CHR 0x09], [CHR 0x0A], [CHR 0x0B], [CHR 0x0C], [CHR 0x0D], [CHR 0x20],
      [CHR 0xC2, CHR 0x85], [CHR 0xC2, CHR 0xA0], [CHR 0xE1, CHR 0x9A, CHR 0x80],
      [CHR 0xE2, CHR 0x80, CHR 0x80], [CHR 0xE2, CHR 0x80, CHR 0x81], [CHR 0xE2, CHR 0x80, CHR 0x82],
      [CHR 0xE2, CHR 0x80, CHR 0x83], [CHR 0xE2, CHR 0x80, CHR 0x84], [CHR 0xE2, CHR 0x80, CHR 0x85],
      [CHR 0xE2, CHR 0x80, CHR 0x86], [CHR 0xE2, CHR 0x80, CHR 0x87], [CHR 0xE2, CHR 0x80, CHR 0x88],
      [CHR 0xE2, CHR 0x80, CHR 0x89], [CHR 0xE2, CHR 0x80, CHR 0x8A], [CHR 0xE2, CHR 0x80, CHR 0xA8],
      [CHR 0xE2, CHR 0x80, CHR 0xA9], [CHR 0xE2, CHR 0x80, CHR 0xAF], [CHR 0xE2, CHR 0x81, CHR 0x9F],
      [CHR 0xE3, CHR 0x80, CHR 0x80]]"

fun drop_prefix :: "string \<Rightarrow> string \<Rightarrow> string option" where
  "drop_prefix [] s = Some s"
| "drop_prefix (c # cs) [] = None"
| "drop_prefix (c # cs) (d # ds) = (if c = d then drop_prefix cs ds else None)"

lemma drop_prefix_Some: "drop_prefix p s = Some r \<longleftrightarrow> s = p @ r"
  by (induction p s rule: drop_prefix.induct) auto

lemma drop_prefix_None: "drop_prefix p s = None \<longleftrightarrow> (\<forall>r. s \<noteq> p @ r)"
  by (metis drop_prefix_Some option.exhaust option.distinct(1))

fun strip_one :: "string list \<Rightarrow> string \<Rightarrow> string option" where
  "strip_one [] s = None"
| "strip_one (e # es) s =
     (if e = [] then strip_one es s
      else case drop_prefix e s of Some r \<Rightarrow> Some r | None \<Rightarrow> strip_one es s)"

lemma strip_one_length: "strip_one es s = Some r \<Longrightarrow> length r < length s"
  by (induction es) (auto simp: drop_prefix_Some split: if_splits option.splits)

lemma strip_one_suffix: "strip_one es s = Some r \<Longrightarrow> \<exists>p. s = p @ r"
  by (induction es) (auto simp: drop_prefix_Some split: if_splits option.splits)

lemma strip_one_mono: "strip_one es s = None \<Longrightarrow> s = p @ q \<Longrightarrow> strip_one es p = None"
proof (induction es)
  case Nil
  then show ?case by simp
next
  case (Cons e es)
  have "drop_prefix e p = None" if "e \<noteq> []"
    using Cons.prems that by (auto simp: drop_prefix_None split: option.splits)
  with Cons show ?case by (auto split: if_splits option.splits)
qed

function strip_all :: "string list \<Rightarrow> string \<Rightarrow> string" where
  "strip_all es s = (case strip_one es s of None \<Rightarrow> s | Some r \<Rightarrow> strip_all es r)"
  by pat_completeness auto
termination
  by (relation "measure (\<lambda>(es, s). length s)") (auto dest: strip_one_length)

declare strip_all.simps [simp del]

lemma strip_all_fixed: "strip_one es s = None \<Longrightarrow> strip_all es s = s"
  by (subst strip_all.simps) simp

lemma strip_one_strip_all: "strip_one es (strip_all es s) = None"
proof (induction es s rule: strip_all.induct)
  case (1 es s)
  show ?case
    by (subst strip_all.simps, cases "strip_one es s") (auto simp: "1.IH")
qed

lemma strip_all_suffix: "\<exists>p. s = p @ strip_all es s"
proof (induction es s rule: strip_all.induct)
  case (1 es s)
  show ?case
  proof (cases "strip_one es s")
    case None
    then show ?thesis by (simp add: strip_all_fixed)
  next
    case (Some r)
    with "1.IH" obtain q where q: "r = q @ strip_all es r" by blast
    from strip_one_suffix [OF Some] obtain p where "s = p @ r" by blast
    with q have "s = (p @ q) @ strip_all es r" by simp
    with Some show ?thesis by (subst strip_all.simps) auto
  qed
qed

definition trim_space :: "string \<Rightarrow> string" where
  "trim_space s = rev (strip_all (map rev space_runes) (rev (strip_all space_runes s)))"

lemma trim_space_Nil [simp]: "trim_space [] = []"
  by (simp add: trim_space_def strip_all_fixed space_runes_def)

lemma trim_space_idem [simp]: "trim_space (trim_space s) = trim_space s"
proof -
  let ?l = "strip_all space_runes s"
  let ?r = "strip_all (map rev space_runes) (rev ?l)"
  obtain p where p: "rev ?l = p @ ?r" using strip_all_suffix by blast
  then have "?l = rev ?r @ rev p" by (metis rev_append rev_rev_ident)
  with strip_one_strip_all [of space_runes s] have "strip_one space_runes (rev ?r) = None"
    by (rule strip_one_mono)
  then have "strip_all space_runes (trim_space s) = trim_space s"
    by (simp add: trim_space_def strip_all_fixed)
  moreover have "strip_all (map rev space_runes) ?r = ?r"
    by (rule strip_all_fixed) (rule strip_one_strip_all)
  ultimately show ?thesis by (simp add: trim_space_def)
qed

section \<open>Identifiers\<close>

text \<open>
  A \<open>uuid.UUID\<close> is its canonical text. The parser of \<open>github.com/google/uuid\<close> is a parameter: it maps
  an accepted spelling to the canonical text.
\<close>

type_synonym uuid = string
type_synonym uuid_parser = "string \<Rightarrow> uuid option"

definition uuid_Nil :: uuid where
  "uuid_Nil = ''00000000-0000-0000-0000-000000000000''"

section \<open>Transactions\<close>

text \<open>
  A database transaction either fails with an error, and then leaves the database as it was
  (Postgres rolls it back), or returns a value and the changed database.
\<close>

type_synonym ('s, 'e, 'a) tx = "'s \<Rightarrow> 'e + ('a \<times> 's)"

definition returnT :: "'a \<Rightarrow> ('s, 'e, 'a) tx" where
  "returnT x = (\<lambda>s. Inr (x, s))"

definition failT :: "'e \<Rightarrow> ('s, 'e, 'a) tx" where
  "failT e = (\<lambda>s. Inl e)"

definition bindT :: "('s, 'e, 'a) tx \<Rightarrow> ('a \<Rightarrow> ('s, 'e, 'b) tx) \<Rightarrow> ('s, 'e, 'b) tx" where
  "bindT m f = (\<lambda>s. case m s of Inl e \<Rightarrow> Inl e | Inr (x, s') \<Rightarrow> f x s')"

text \<open>\<open>attemptT m k\<close> runs \<open>m\<close> and hands its error or value to \<open>k\<close>: the code inspects \<open>err\<close>. It is used
  where the code tells ``no rows'' from other outcomes; a statement that fails changes nothing.\<close>

definition attemptT :: "('s, 'e, 'a) tx \<Rightarrow> ('e + 'a \<Rightarrow> ('s, 'e, 'b) tx) \<Rightarrow> ('s, 'e, 'b) tx" where
  "attemptT m k = (\<lambda>s. case m s of Inl e \<Rightarrow> k (Inl e) s | Inr (x, s') \<Rightarrow> k (Inr x) s')"

definition liftT :: "'e + 'a \<Rightarrow> ('s, 'e, 'a) tx" where
  "liftT r = (\<lambda>s. case r of Inl e \<Rightarrow> Inl e | Inr x \<Rightarrow> Inr (x, s))"

definition mapErrT :: "('e \<Rightarrow> 'e) \<Rightarrow> ('s, 'e, 'a) tx \<Rightarrow> ('s, 'e, 'a) tx" where
  "mapErrT f m = (\<lambda>s. case m s of Inl e \<Rightarrow> Inl (f e) | Inr r \<Rightarrow> Inr r)"

lemmas tx_defs = returnT_def failT_def bindT_def attemptT_def liftT_def mapErrT_def

lemma tx_run [tx_simps]:
  "returnT x s = Inr (x, s)"
  "failT e s = Inl e"
  "liftT (Inl e) s = Inl e"
  "liftT (Inr x) s = Inr (x, s)"
  by (simp_all add: tx_defs)

lemma bindT_Inr_iff [tx_simps]:
  "bindT m f s = Inr r \<longleftrightarrow> (\<exists>x s'. m s = Inr (x, s') \<and> f x s' = Inr r)"
  by (auto simp: bindT_def split: sum.splits)

lemma bindT_InrE:
  assumes "bindT m f s = Inr r"
  obtains x s' where "m s = Inr (x, s')" and "f x s' = Inr r"
  using assms by (auto simp: bindT_Inr_iff)

lemma mapErrT_Inr_iff [tx_simps]: "mapErrT f m s = Inr r \<longleftrightarrow> m s = Inr r"
  by (auto simp: mapErrT_def split: sum.splits)

lemma liftT_Inr_iff [tx_simps]: "liftT r s = Inr (x, s') \<longleftrightarrow> r = Inr x \<and> s' = s"
  by (auto simp: liftT_def split: sum.splits)

text \<open>A transaction keeps \<open>P\<close> when its successful runs lead from \<open>P\<close> to \<open>P\<close>.\<close>

definition keeps :: "('s \<Rightarrow> bool) \<Rightarrow> ('s, 'e, 'a) tx \<Rightarrow> bool" where
  "keeps P m \<longleftrightarrow> (\<forall>s x s'. P s \<longrightarrow> m s = Inr (x, s') \<longrightarrow> P s')"

lemma keepsD: "keeps P m \<Longrightarrow> P s \<Longrightarrow> m s = Inr (x, s') \<Longrightarrow> P s'"
  by (auto simp: keeps_def)

lemma keeps_returnT [pres_intros]: "keeps P (returnT x)"
  by (simp add: keeps_def tx_simps)

lemma keeps_failT [pres_intros]: "keeps P (failT e)"
  by (simp add: keeps_def tx_simps)

lemma keeps_liftT [pres_intros]: "keeps P (liftT r)"
  by (simp add: keeps_def tx_simps)

lemma keeps_bindT [pres_intros]:
  "keeps P m \<Longrightarrow> (\<And>x. keeps P (f x)) \<Longrightarrow> keeps P (bindT m f)"
  unfolding keeps_def bindT_Inr_iff by blast

lemma keeps_attemptT [pres_intros]:
  assumes m: "keeps P m" and k: "\<And>r. keeps P (k r)"
  shows "keeps P (attemptT m k)"
  unfolding keeps_def
proof (intro allI impI)
  fix s x s' assume P: "P s" and run: "attemptT m k s = Inr (x, s')"
  show "P s'"
  proof (cases "m s")
    case (Inl e)
    with run have "k (Inl e) s = Inr (x, s')" by (simp add: attemptT_def)
    with k P show ?thesis by (rule keepsD)
  next
    case (Inr r)
    then obtain y t where y: "m s = Inr (y, t)" by (cases r) simp
    with m P have "P t" by (rule keepsD)
    moreover from run y have "k (Inr y) t = Inr (x, s')" by (simp add: attemptT_def)
    ultimately show ?thesis using k by (blast dest: keepsD)
  qed
qed

lemma keeps_mapErrT [pres_intros]: "keeps P m \<Longrightarrow> keeps P (mapErrT f m)"
  by (simp add: keeps_def tx_simps)

lemma keeps_if [pres_intros]:
  "(b \<Longrightarrow> keeps P m) \<Longrightarrow> (\<not> b \<Longrightarrow> keeps P n) \<Longrightarrow> keeps P (if b then m else n)"
  by simp

lemma keeps_case_option [pres_intros]:
  "(x = None \<Longrightarrow> keeps P m) \<Longrightarrow> (\<And>y. x = Some y \<Longrightarrow> keeps P (n y)) \<Longrightarrow>
   keeps P (case x of None \<Rightarrow> m | Some y \<Rightarrow> n y)"
  by (cases x) simp_all

lemma keeps_case_sum [pres_intros]:
  "(\<And>e. x = Inl e \<Longrightarrow> keeps P (m e)) \<Longrightarrow> (\<And>y. x = Inr y \<Longrightarrow> keeps P (n y)) \<Longrightarrow>
   keeps P (case x of Inl e \<Rightarrow> m e | Inr y \<Rightarrow> n y)"
  by (cases x) simp_all

lemma keeps_case_prod [pres_intros]:
  "(\<And>a b. x = (a, b) \<Longrightarrow> keeps P (m a b)) \<Longrightarrow> keeps P (case x of (a, b) \<Rightarrow> m a b)"
  by (cases x) simp_all

text \<open>A transaction that changes nothing keeps everything.\<close>

definition read_only :: "('s, 'e, 'a) tx \<Rightarrow> bool" where
  "read_only m \<longleftrightarrow> (\<forall>s x s'. m s = Inr (x, s') \<longrightarrow> s' = s)"

lemma read_only_keeps: "read_only m \<Longrightarrow> keeps P m"
  by (auto simp: read_only_def keeps_def)

lemma read_only_intros [intro]:
  "read_only (returnT x)" "read_only (failT e)" "read_only (liftT r)"
  "read_only m \<Longrightarrow> read_only (mapErrT h m)"
  "read_only m \<Longrightarrow> (\<And>x. read_only (f x)) \<Longrightarrow> read_only (bindT m f)"
  unfolding read_only_def by (simp_all add: tx_simps) metis

lemma read_only_case_prod [intro]: "(\<And>a b. read_only (f a b)) \<Longrightarrow> read_only (case x of (a, b) \<Rightarrow> f a b)"
  by (cases x) simp

lemma read_only_case_option [intro]:
  "read_only m \<Longrightarrow> (\<And>y. read_only (f y)) \<Longrightarrow> read_only (case x of None \<Rightarrow> m | Some y \<Rightarrow> f y)"
  by (cases x) simp_all

section \<open>Programs\<close>

text \<open>
  A service method runs in a world that other actors change as well. It returns an error or a
  value and the new world; an error does not undo what was committed before it.
\<close>

type_synonym ('w, 'e, 'a) prog = "'w \<Rightarrow> ('e + 'a) \<times> 'w"

definition returnE :: "'a \<Rightarrow> ('w, 'e, 'a) prog" where
  "returnE x = (\<lambda>w. (Inr x, w))"

definition failE :: "'e \<Rightarrow> ('w, 'e, 'a) prog" where
  "failE e = (\<lambda>w. (Inl e, w))"

definition bindE :: "('w, 'e, 'a) prog \<Rightarrow> ('a \<Rightarrow> ('w, 'e, 'b) prog) \<Rightarrow> ('w, 'e, 'b) prog" where
  "bindE m f = (\<lambda>w. case m w of (Inl e, w') \<Rightarrow> (Inl e, w') | (Inr x, w') \<Rightarrow> f x w')"

definition attemptE :: "('w, 'e, 'a) prog \<Rightarrow> ('e + 'a \<Rightarrow> ('w, 'e, 'b) prog) \<Rightarrow> ('w, 'e, 'b) prog" where
  "attemptE m k = (\<lambda>w. case m w of (r, w') \<Rightarrow> k r w')"

definition liftE :: "'e + 'a \<Rightarrow> ('w, 'e, 'a) prog" where
  "liftE r = (\<lambda>w. (r, w))"

lemmas prog_defs = returnE_def failE_def bindE_def attemptE_def liftE_def

lemma prog_run [prog_simps]:
  "returnE x w = (Inr x, w)"
  "failE e w = (Inl e, w)"
  "liftE r w = (r, w)"
  by (simp_all add: prog_defs)

lemma bindE_Inr_iff [prog_simps]:
  "bindE m f w = (Inr y, w') \<longleftrightarrow> (\<exists>x v. m w = (Inr x, v) \<and> f x v = (Inr y, w'))"
  by (auto simp: bindE_def split: prod.splits sum.splits)

lemma attemptE_iff [prog_simps]:
  "attemptE m k w = rw \<longleftrightarrow> (\<exists>r v. m w = (r, v) \<and> k r v = rw)"
  by (auto simp: attemptE_def split: prod.splits)

definition pres :: "('w \<Rightarrow> bool) \<Rightarrow> ('w, 'e, 'a) prog \<Rightarrow> bool" where
  "pres I m \<longleftrightarrow> (\<forall>w. I w \<longrightarrow> I (snd (m w)))"

lemma presD: "pres I m \<Longrightarrow> I w \<Longrightarrow> m w = (r, w') \<Longrightarrow> I w'"
  by (metis pres_def snd_conv)

lemma pres_returnE [pres_intros]: "pres I (returnE x)"
  by (simp add: pres_def prog_simps)

lemma pres_failE [pres_intros]: "pres I (failE e)"
  by (simp add: pres_def prog_simps)

lemma pres_liftE [pres_intros]: "pres I (liftE r)"
  by (simp add: pres_def prog_simps)

lemma pres_bindE [pres_intros]:
  assumes "pres I m" and "\<And>x. pres I (f x)"
  shows "pres I (bindE m f)"
  unfolding pres_def
proof (intro allI impI)
  fix w assume "I w"
  with assms(1) have "I (snd (m w))" by (simp add: pres_def)
  with assms(2) show "I (snd (bindE m f w))"
    by (auto simp: bindE_def pres_def split: prod.splits sum.splits)
qed

lemma pres_attemptE [pres_intros]:
  assumes "pres I m" and "\<And>r. pres I (k r)"
  shows "pres I (attemptE m k)"
  unfolding pres_def
proof (intro allI impI)
  fix w assume "I w"
  with assms(1) have "I (snd (m w))" by (simp add: pres_def)
  with assms(2) show "I (snd (attemptE m k w))"
    by (auto simp: attemptE_def pres_def split: prod.splits)
qed

lemma pres_if [pres_intros]:
  "(b \<Longrightarrow> pres I m) \<Longrightarrow> (\<not> b \<Longrightarrow> pres I n) \<Longrightarrow> pres I (if b then m else n)"
  by simp

lemma pres_case_option [pres_intros]:
  "(x = None \<Longrightarrow> pres I m) \<Longrightarrow> (\<And>y. x = Some y \<Longrightarrow> pres I (n y)) \<Longrightarrow>
   pres I (case x of None \<Rightarrow> m | Some y \<Rightarrow> n y)"
  by (cases x) simp_all

lemma pres_case_sum [pres_intros]:
  "(\<And>e. x = Inl e \<Longrightarrow> pres I (m e)) \<Longrightarrow> (\<And>y. x = Inr y \<Longrightarrow> pres I (n y)) \<Longrightarrow>
   pres I (case x of Inl e \<Rightarrow> m e | Inr y \<Rightarrow> n y)"
  by (cases x) simp_all

lemma pres_case_prod [pres_intros]:
  "(\<And>a b. x = (a, b) \<Longrightarrow> pres I (m a b)) \<Longrightarrow> pres I (case x of (a, b) \<Rightarrow> m a b)"
  by (cases x) simp_all

lemma pres_Let [pres_intros]: "(\<And>x. x = a \<Longrightarrow> pres I (m x)) \<Longrightarrow> pres I (let x = a in m x)"
  by simp

text \<open>What a successful run returns.\<close>

definition gives :: "('w \<Rightarrow> bool) \<Rightarrow> ('w, 'e, 'a) prog \<Rightarrow> ('a \<Rightarrow> bool) \<Rightarrow> bool" where
  "gives I m Q \<longleftrightarrow> (\<forall>w x w'. I w \<longrightarrow> m w = (Inr x, w') \<longrightarrow> Q x)"

lemma givesD: "gives I m Q \<Longrightarrow> I w \<Longrightarrow> m w = (Inr x, w') \<Longrightarrow> Q x"
  by (auto simp: gives_def)

lemma pres_bind_gives:
  assumes "pres I m" and "gives I m Q" and "\<And>x. Q x \<Longrightarrow> pres I (f x)"
  shows "pres I (bindE m f)"
  unfolding pres_def
proof (intro allI impI)
  fix w assume I: "I w"
  obtain r w' where run: "m w = (r, w')" by fastforce
  with presD [OF assms(1) I] have I': "I w'" by simp
  show "I (snd (bindE m f w))"
  proof (cases r)
    case (Inr x)
    with givesD [OF assms(2) I] run have "Q x" by simp
    with assms(3) I' Inr run show ?thesis by (simp add: pres_def bindE_def)
  qed (use I' run in \<open>simp add: bindE_def\<close>)
qed

lemma gives_returnE: "Q x \<Longrightarrow> gives I (returnE x) Q"
  by (simp add: gives_def prog_simps)

lemma gives_failE: "gives I (failE e) Q"
  by (simp add: gives_def prog_simps)

lemma gives_if: "(b \<Longrightarrow> gives I m Q) \<Longrightarrow> (\<not> b \<Longrightarrow> gives I n Q) \<Longrightarrow> gives I (if b then m else n) Q"
  by simp

lemma gives_bindE:
  assumes "pres I m" and "gives I m R" and "\<And>x. R x \<Longrightarrow> gives I (f x) Q"
  shows "gives I (bindE m f) Q"
  unfolding gives_def bindE_Inr_iff
proof (intro allI impI; elim exE conjE)
  fix w y w' x v assume I: "I w" and m: "m w = (Inr x, v)" and f: "f x v = (Inr y, w')"
  show "Q y" by (rule givesD [OF assms(3) [OF givesD [OF assms(2) I m]] presD [OF assms(1) I m] f])
qed

lemma gives_True: "gives I m (\<lambda>_. True)"
  by (simp add: gives_def)

lemmas gives_then = gives_bindE [OF _ gives_True]

text \<open>What a run returns, error or value, while \<open>I\<close> holds before and after it.\<close>

definition yields :: "('w \<Rightarrow> bool) \<Rightarrow> ('w, 'e, 'a) prog \<Rightarrow> ('e + 'a \<Rightarrow> bool) \<Rightarrow> bool" where
  "yields I m Q \<longleftrightarrow> (\<forall>w. I w \<longrightarrow> I (snd (m w)) \<and> Q (fst (m w)))"

lemma yieldsD: "yields I m Q \<Longrightarrow> I w \<Longrightarrow> m w = (r, w') \<Longrightarrow> I w' \<and> Q r"
  by (metis yields_def fst_conv snd_conv)

lemma yields_returnE: "Q (Inr x) \<Longrightarrow> yields I (returnE x) Q"
  by (simp add: yields_def prog_simps)

lemma yields_failE: "Q (Inl e) \<Longrightarrow> yields I (failE e) Q"
  by (simp add: yields_def prog_simps)

lemma yields_liftE: "Q r \<Longrightarrow> yields I (liftE r) Q"
  by (simp add: yields_def prog_simps)

lemma yields_if: "(b \<Longrightarrow> yields I m Q) \<Longrightarrow> (\<not> b \<Longrightarrow> yields I n Q) \<Longrightarrow> yields I (if b then m else n) Q"
  by simp

lemma yields_weaken: "yields I m R \<Longrightarrow> (\<And>r. R r \<Longrightarrow> Q r) \<Longrightarrow> yields I m Q"
  by (simp add: yields_def)

lemma yields_bindE:
  assumes "yields I m R" and "\<And>x. R (Inr x) \<Longrightarrow> yields I (f x) Q" and "\<And>e. R (Inl e) \<Longrightarrow> Q (Inl e)"
  shows "yields I (bindE m f) Q"
  unfolding yields_def
proof (intro allI impI)
  fix w assume I: "I w"
  obtain r w' where run: "m w = (r, w')" by fastforce
  with yieldsD [OF assms(1) I] have "I w'" "R r" by simp_all
  then show "I (snd (bindE m f w)) \<and> Q (fst (bindE m f w))"
    using run assms(2,3) by (cases r) (auto simp: bindE_def yields_def)
qed

lemma yields_attemptE:
  assumes "yields I m R" and "\<And>r. R r \<Longrightarrow> yields I (k r) Q"
  shows "yields I (attemptE m k) Q"
  unfolding yields_def
proof (intro allI impI)
  fix w assume I: "I w"
  obtain r w' where run: "m w = (r, w')" by fastforce
  with yieldsD [OF assms(1) I] have "I w'" "R r" by simp_all
  then show "I (snd (attemptE m k w)) \<and> Q (fst (attemptE m k w))"
    using run assms(2) by (auto simp: attemptE_def yields_def)
qed

lemma yields_bind_liftE:
  "(\<And>x. r = Inr x \<Longrightarrow> yields I (f x) Q) \<Longrightarrow> (\<And>e. r = Inl e \<Longrightarrow> Q (Inl e)) \<Longrightarrow> yields I (bindE (liftE r) f) Q"
  by (rule yields_bindE [of _ _ "\<lambda>x. x = r"]) (auto intro: yields_liftE)

end
