(* ===== verification/Go_Text.thy ===== *)
theory Go_Text
  imports Prelude
begin

text \<open>Go's text functions that several services use: ASCII lower case and the number of runes of a string.\<close>

definition lower_ascii :: "char \<Rightarrow> char" where
  "lower_ascii c = (if CHR ''A'' \<le> c \<and> c \<le> CHR ''Z'' then char_of (of_char c + 32 :: nat) else c)"

text \<open>\<open>len([]rune(s))\<close>: the width of the first rune as \<open>utf8.DecodeRune\<close> reads it (an invalid byte counts as one
  rune), and the number of runes.\<close>

definition in_range :: "nat \<Rightarrow> nat \<Rightarrow> nat \<Rightarrow> string \<Rightarrow> bool" where
  "in_range i lo hi s \<longleftrightarrow> i < length s \<and> lo \<le> of_char (s ! i) \<and> of_char (s ! i) \<le> hi"

definition rune_width :: "string \<Rightarrow> nat" where
  "rune_width s =
     (let b = (if s = [] then 0 else of_char (hd s) :: nat) in
      if b < 0x80 then 1
      else if 0xC2 \<le> b \<and> b \<le> 0xDF then (if in_range 1 0x80 0xBF s then 2 else 1)
      else if 0xE0 \<le> b \<and> b \<le> 0xEF then
        (if in_range 1 (if b = 0xE0 then 0xA0 else 0x80) (if b = 0xED then 0x9F else 0xBF) s \<and>
            in_range 2 0x80 0xBF s then 3 else 1)
      else if 0xF0 \<le> b \<and> b \<le> 0xF4 then
        (if in_range 1 (if b = 0xF0 then 0x90 else 0x80) (if b = 0xF4 then 0x8F else 0xBF) s \<and>
            in_range 2 0x80 0xBF s \<and> in_range 3 0x80 0xBF s then 4 else 1)
      else 1)"

lemma rune_width_pos: "0 < rune_width s"
  by (simp add: rune_width_def Let_def)

function rune_count :: "string \<Rightarrow> nat" where
  "rune_count s = (if s = [] then 0 else Suc (rune_count (drop (rune_width s) s)))"
  by pat_completeness auto
termination
  by (relation "measure length") (auto simp: rune_width_pos)

declare rune_count.simps [simp del]

lemma rune_count_le: "rune_count s \<le> length s"
proof (induction s rule: rune_count.induct)
  case (1 s)
  show ?case
  proof (cases "s = []")
    case False
    with 1 have "rune_count (drop (rune_width s) s) \<le> length s - rune_width s" by simp
    moreover have "0 < rune_width s" "0 < length s" using False by (auto simp: rune_width_pos)
    ultimately have "Suc (rune_count (drop (rune_width s) s)) \<le> length s" by linarith
    with False show ?thesis by (subst rune_count.simps) simp
  qed (simp add: rune_count.simps)
qed

section \<open>Numbers\<close>

text \<open>\<open>show_int\<close> is the verb \<open>%d\<close> of \<open>fmt\<close>.\<close>

fun show_nat :: "nat \<Rightarrow> string" where
  "show_nat n =
     (if n < 10 then [char_of (48 + n)] else show_nat (n div 10) @ [char_of (48 + n mod 10)])"

declare show_nat.simps [simp del]

definition show_int :: "int \<Rightarrow> string" where
  "show_int i = (if i < 0 then ''-'' @ show_nat (nat (- i)) else show_nat (nat i))"

end
