(* ===== verification/Rtc_Model.thy ===== *)
theory Rtc_Model
  imports Go_Text
begin

text \<open>
  The domain vocabulary of \<open>services/aero-rtc-control/internal/domain/rtc\<close>: the structs of
  \<open>model.go\<close>, the sentinel errors of \<open>errors.go\<close>, the validators at the end of \<open>service.go\<close> and the
  ICE server provider of \<open>ice_servers.go\<close>. A \<open>time.Time\<close> is the number of nanoseconds since the
  Unix epoch and a \<open>time.Duration\<close> a number of nanoseconds, both as \<open>int\<close>.
\<close>

section \<open>Constants and structs\<close>

definition ScopeTypeDirect :: string where "ScopeTypeDirect = ''direct''"
definition ScopeTypeGroup :: string where "ScopeTypeGroup = ''group''"
definition CallStatusActive :: string where "CallStatusActive = ''active''"
definition CallStatusEnded :: string where "CallStatusEnded = ''ended''"
definition CallEndReasonManual :: string where "CallEndReasonManual = ''manual''"
definition CallEndReasonLastParticipant :: string where
  "CallEndReasonLastParticipant = ''last_participant_left''"
definition ParticipantStateActive :: string where "ParticipantStateActive = ''active''"
definition ParticipantStateLeft :: string where "ParticipantStateLeft = ''left''"
definition GroupRoleOwner :: string where "GroupRoleOwner = ''owner''"
definition GroupRoleAdmin :: string where "GroupRoleAdmin = ''admin''"
definition GroupRoleMember :: string where "GroupRoleMember = ''member''"
definition GroupRoleReader :: string where "GroupRoleReader = ''reader''"
definition SignalTypeOffer :: string where "SignalTypeOffer = ''offer''"
definition SignalTypeAnswer :: string where "SignalTypeAnswer = ''answer''"
definition SignalTypeICECandidate :: string where "SignalTypeICECandidate = ''ice_candidate''"
definition maxSignalRelayPayloadBytes :: int where "maxSignalRelayPayloadBytes = 16 * 1024"

lemmas rtc_const_defs =
  ScopeTypeDirect_def ScopeTypeGroup_def CallStatusActive_def CallStatusEnded_def
  CallEndReasonManual_def CallEndReasonLastParticipant_def ParticipantStateActive_def
  ParticipantStateLeft_def GroupRoleOwner_def GroupRoleAdmin_def GroupRoleMember_def
  GroupRoleReader_def SignalTypeOffer_def SignalTypeAnswer_def SignalTypeICECandidate_def

lemma rtc_const_distinct [simp]:
  "ScopeTypeDirect \<noteq> ScopeTypeGroup" "ScopeTypeGroup \<noteq> ScopeTypeDirect"
  "CallStatusActive \<noteq> CallStatusEnded" "CallStatusEnded \<noteq> CallStatusActive"
  "ParticipantStateActive \<noteq> ParticipantStateLeft" "ParticipantStateLeft \<noteq> ParticipantStateActive"
  "GroupRoleOwner \<noteq> GroupRoleReader" "GroupRoleAdmin \<noteq> GroupRoleReader"
  "GroupRoleMember \<noteq> GroupRoleReader" "GroupRoleReader \<noteq> GroupRoleOwner"
  "GroupRoleReader \<noteq> GroupRoleAdmin" "GroupRoleReader \<noteq> GroupRoleMember"
  by (simp_all add: rtc_const_defs)

record ConversationScope =
  scope_Type :: string
  scope_DirectChatID :: string
  scope_GroupID :: string

record Call =
  call_ID :: string
  call_Scope :: ConversationScope
  call_CreatedByUserID :: string
  call_Status :: string
  call_ActiveParticipantCount :: "32 word"
  call_CreatedAt :: int
  call_UpdatedAt :: int
  call_StartedAt :: int
  call_EndedAt :: "int option"
  call_EndedByUserID :: "string option"
  call_EndReason :: string

record CallParticipant =
  part_ID :: string
  part_CallID :: string
  part_UserID :: string
  part_State :: string
  part_JoinedAt :: int
  part_LeftAt :: "int option"
  part_UpdatedAt :: int
  part_LastSignalAt :: "int option"

record ActiveParticipation =
  participation_Call :: Call
  participation_Participant :: CallParticipant

record SignalEnvelope =
  signal_CallID :: string
  signal_FromUserID :: string
  signal_TargetUserID :: string
  signal_Type :: string
  signal_Payload :: string
  signal_CreatedAt :: int

record ScopeAccess =
  access_Scope :: ConversationScope
  access_GroupRole :: string

section \<open>Errors\<close>

text \<open>
  The first seven are the sentinels of \<open>errors.go\<close>, then the typed conflict. The storage layer adds
  \<open>pgx.ErrNoRows\<close>, a Postgres error with its code and constraint name, and
  \<open>errSlotParentsChanged\<close>; \<open>ErrOther\<close> is any other error value (a lost connection, say), \<open>ErrContext\<close>
  a cancelled or expired context, and \<open>Panic\<close> the panic of \<open>mustParseUUID\<close>.
\<close>

datatype rtc_error =
    ErrInvalidArgument
  | ErrUnauthorized
  | ErrNotFound
  | ErrConflict
  | ErrMediaCleanupPending
  | ErrUnavailable
  | ErrPermissionDenied
  | ActiveCallConflictError Call CallParticipant
  | ErrNoRows
  | PgError string string
  | ErrSlotParentsChanged
  | ErrContext
  | ErrOther
  | Panic

text \<open>\<open>ActiveCallConflictError\<close> unwraps to \<open>ErrConflict\<close>; nothing else of the type wraps a sentinel.\<close>

definition errors_Is :: "rtc_error \<Rightarrow> rtc_error \<Rightarrow> bool" where
  "errors_Is err target =
     (err = target \<or>
      (case err of ActiveCallConflictError _ _ \<Rightarrow> target = ErrConflict | _ \<Rightarrow> False))"

section \<open>Validators of the service\<close>

definition normalizeID :: "uuid_parser \<Rightarrow> string \<Rightarrow> rtc_error + string" where
  "normalizeID parse value =
     (let trimmed = trim_space value in
      if trimmed = '''' then Inl ErrInvalidArgument
      else case parse trimmed of
             None \<Rightarrow> Inl ErrInvalidArgument
           | Some _ \<Rightarrow> Inr trimmed)"

definition normalizeScope :: "uuid_parser \<Rightarrow> ConversationScope \<Rightarrow> rtc_error + ConversationScope" where
  "normalizeScope parse scope =
     (if scope_Type scope = ScopeTypeDirect then
        bindS (normalizeID parse (scope_DirectChatID scope)) (\<lambda>directChatID.
        if trim_space (scope_GroupID scope) \<noteq> '''' then Inl ErrInvalidArgument
        else Inr \<lparr>scope_Type = ScopeTypeDirect, scope_DirectChatID = directChatID, scope_GroupID = ''''\<rparr>)
      else if scope_Type scope = ScopeTypeGroup then
        bindS (normalizeID parse (scope_GroupID scope)) (\<lambda>groupID.
        if trim_space (scope_DirectChatID scope) \<noteq> '''' then Inl ErrInvalidArgument
        else Inr \<lparr>scope_Type = ScopeTypeGroup, scope_DirectChatID = '''', scope_GroupID = groupID\<rparr>)
      else Inl ErrInvalidArgument)"

definition ensureCanActivelyParticipate :: "ScopeAccess option \<Rightarrow> rtc_error + unit" where
  "ensureCanActivelyParticipate access =
     (case access of
        None \<Rightarrow> Inl ErrUnauthorized
      | Some a \<Rightarrow>
          if scope_Type (access_Scope a) = ScopeTypeGroup \<and> access_GroupRole a = GroupRoleReader
          then Inl ErrPermissionDenied
          else Inr ())"

definition validateSignalType :: "string \<Rightarrow> rtc_error + unit" where
  "validateSignalType signalType =
     (if signalType \<in> {SignalTypeOffer, SignalTypeAnswer, SignalTypeICECandidate}
      then Inr () else Inl ErrInvalidArgument)"

lemma normalizeID_Inr:
  "normalizeID parse v = Inr r \<longleftrightarrow> r = trim_space v \<and> r \<noteq> '''' \<and> (\<exists>u. parse r = Some u)"
  by (auto simp: normalizeID_def Let_def split: option.splits)

lemma normalizeID_errors: "normalizeID parse v = Inl e \<Longrightarrow> e = ErrInvalidArgument"
  by (auto simp: normalizeID_def Let_def split: if_splits option.splits)

text \<open>A normalised scope names exactly one conversation, with a parseable identifier.\<close>

definition scope_valid :: "uuid_parser \<Rightarrow> ConversationScope \<Rightarrow> bool" where
  "scope_valid parse s \<longleftrightarrow>
     (scope_Type s = ScopeTypeDirect \<and> scope_GroupID s = '''' \<and> scope_DirectChatID s \<noteq> '''' \<and>
        parse (scope_DirectChatID s) \<noteq> None \<and> trim_space (scope_DirectChatID s) = scope_DirectChatID s) \<or>
     (scope_Type s = ScopeTypeGroup \<and> scope_DirectChatID s = '''' \<and> scope_GroupID s \<noteq> '''' \<and>
        parse (scope_GroupID s) \<noteq> None \<and> trim_space (scope_GroupID s) = scope_GroupID s)"

lemma normalizeScope_valid: "normalizeScope parse s = Inr t \<Longrightarrow> scope_valid parse t"
  by (auto simp: normalizeScope_def scope_valid_def bindS_Inr_iff normalizeID_Inr split: if_splits)

lemma normalizeScope_fixed: "scope_valid parse s \<Longrightarrow> normalizeScope parse s = Inr s"
  by (cases s) (auto simp: normalizeScope_def scope_valid_def normalizeID_def Let_def)

section \<open>ICE servers\<close>

text \<open>
  \<open>turn_mac secret username\<close> stands for \<open>base64.StdEncoding.EncodeToString\<close> of the HMAC-SHA1 of the
  user name.
\<close>

record ICEServer =
  ice_URLs :: "string list"
  ice_Username :: string
  ice_Credential :: string
  ice_ExpiresAt :: "int option"

record ConfigurableICEServerProvider =
  stunURLs :: "string list"
  turnURLs :: "string list"
  turnAuthSecret :: string
  turnUsernameTTL :: int

definition normalizeICEServerURLs :: "string list \<Rightarrow> string list" where
  "normalizeICEServerURLs urls = filter (\<lambda>u. u \<noteq> '''') (map trim_space urls)"

definition NewConfigurableICEServerProvider ::
    "string list \<Rightarrow> string list \<Rightarrow> string \<Rightarrow> int \<Rightarrow> ConfigurableICEServerProvider" where
  "NewConfigurableICEServerProvider stun turn secret ttl =
     \<lparr>stunURLs = normalizeICEServerURLs stun, turnURLs = normalizeICEServerURLs turn,
      turnAuthSecret = trim_space secret, turnUsernameTTL = ttl\<rparr>"

definition BuildForUser ::
    "(string \<Rightarrow> string \<Rightarrow> string) \<Rightarrow> ConfigurableICEServerProvider \<Rightarrow> string \<Rightarrow> int \<Rightarrow>
     ICEServer list \<times> ConfigurableICEServerProvider" where
  "BuildForUser turn_mac p userID now =
     (let servers = (if stunURLs p \<noteq> []
                     then [\<lparr>ice_URLs = stunURLs p, ice_Username = '''', ice_Credential = '''',
                            ice_ExpiresAt = None\<rparr>]
                     else [])
      in if turnURLs p = [] \<or> turnAuthSecret p = '''' \<or> userID = '''' then (servers, p)
         else
           let p = (if turnUsernameTTL p \<le> 0 then p\<lparr>turnUsernameTTL := 600 * 1000000000\<rparr> else p);
               expiresAt = now + turnUsernameTTL p;
               username = show_int (expiresAt div 1000000000) @ '':'' @ userID
           in (servers @ [\<lparr>ice_URLs = turnURLs p, ice_Username = username,
                           ice_Credential = turn_mac (turnAuthSecret p) username,
                           ice_ExpiresAt = Some expiresAt\<rparr>], p))"

lemma normalizeICEServerURLs_idem:
  "normalizeICEServerURLs (normalizeICEServerURLs urls) = normalizeICEServerURLs urls"
  by (induction urls) (auto simp: normalizeICEServerURLs_def)

end
