(* ===== verification/Rtc_Store.thy ===== *)
theory Rtc_Store
  imports Rtc_Model
begin

text \<open>
  The Postgres tables of \<open>aero-rtc-control\<close> (\<open>db/schema\<close>) and the queries that the call repository
  runs on them (\<open>db/queries\<close>, in Go \<open>internal/storage/sqlc\<close>). A table is the list of its rows; a
  query is a transaction on the database. An \<open>INSERT\<close> or \<open>UPDATE\<close> that would break a CHECK (code
  23514), a unique index (23505) or a foreign key (23503) of the schema fails with that code.
  Instants are stored as given (Postgres rounds them to microseconds).
\<close>

section \<open>Rows\<close>

record RtcCall =
  c_ID :: uuid
  c_ScopeType :: string
  c_DirectChatID :: "uuid option"
  c_GroupID :: "uuid option"
  c_CreatedByUserID :: uuid
  c_Status :: string
  c_CreatedAt :: int
  c_StartedAt :: int
  c_UpdatedAt :: int
  c_EndedAt :: "int option"
  c_EndedByUserID :: "uuid option"
  c_EndReason :: "string option"

record RtcCallParticipant =
  p_ID :: uuid
  p_CallID :: uuid
  p_UserID :: uuid
  p_State :: string
  p_JoinedAt :: int
  p_LeftAt :: "int option"
  p_UpdatedAt :: int
  p_LastSignalAt :: "int option"

record RtcMediaControlIntent =
  i_ID :: uuid
  i_RequestID :: uuid
  i_ActorUserID :: uuid
  i_ActorSessionID :: uuid
  i_ActorDeviceID :: uuid
  i_ActorSessionRevision :: int
  i_ActorDeviceRevision :: int
  i_CallID :: uuid
  i_GroupID :: uuid
  i_Kind :: string
  i_Resolution :: string
  i_State :: string
  i_CreatedAt :: int
  i_CompletedAt :: "int option"

record RtcMediaRoom =
  r_ID :: uuid
  r_CallID :: uuid
  r_GroupID :: uuid
  r_RoomGeneration :: int
  r_RoomName :: uuid
  r_State :: string
  r_CreatedAt :: int
  r_ClosedAt :: "int option"

record RtcMediaGrant =
  g_ID :: uuid
  g_RequestID :: uuid
  g_RoomID :: uuid
  g_CallID :: uuid
  g_ParticipantID :: uuid
  g_GroupID :: uuid
  g_UserID :: uuid
  g_SessionID :: uuid
  g_DeviceID :: uuid
  g_SessionRevision :: int
  g_DeviceRevision :: int
  g_EligibilityEpoch :: int
  g_GrantGeneration :: int
  g_ParticipantIdentity :: uuid
  g_State :: string
  g_PreparedAt :: int
  g_PrepareDeadline :: int
  g_ActivationIntentAt :: "int option"
  g_RevokedAt :: "int option"
  g_OperationID :: "uuid option"

record RtcMediaUserGeneration =
  u_UserID :: uuid
  u_NextGeneration :: int

text \<open>\<open>users\<close> is the table of the identity service that the foreign keys refer to.\<close>

record rtc_db =
  users :: "uuid list"
  rtc_calls :: "RtcCall list"
  rtc_call_participants :: "RtcCallParticipant list"
  rtc_media_control_intents :: "RtcMediaControlIntent list"
  rtc_media_rooms :: "RtcMediaRoom list"
  rtc_media_grants :: "RtcMediaGrant list"
  rtc_media_user_generations :: "RtcMediaUserGeneration list"

type_synonym 'a rtc_tx = "(rtc_db, rtc_error, 'a) tx"

abbreviation call_active :: "RtcCall \<Rightarrow> bool" where
  "call_active c \<equiv> c_Status c = CallStatusActive"

abbreviation part_active :: "RtcCallParticipant \<Rightarrow> bool" where
  "part_active p \<equiv> p_State p = ParticipantStateActive"

section \<open>Constraints of the schema\<close>

definition rtc_calls_check :: "RtcCall \<Rightarrow> bool" where
  "rtc_calls_check c \<longleftrightarrow>
     c_ScopeType c \<in> {ScopeTypeDirect, ScopeTypeGroup} \<and>
     c_Status c \<in> {CallStatusActive, CallStatusEnded} \<and>
     (c_EndReason c = None \<or> c_EndReason c \<in> {Some CallEndReasonManual, Some CallEndReasonLastParticipant}) \<and>
     ((c_ScopeType c = ScopeTypeDirect \<and> c_DirectChatID c \<noteq> None \<and> c_GroupID c = None) \<or>
      (c_ScopeType c = ScopeTypeGroup \<and> c_GroupID c \<noteq> None \<and> c_DirectChatID c = None)) \<and>
     ((c_Status c = CallStatusActive \<and> c_EndedAt c = None \<and> c_EndedByUserID c = None \<and> c_EndReason c = None) \<or>
      (c_Status c = CallStatusEnded \<and> c_EndedAt c \<noteq> None \<and> c_EndReason c \<noteq> None))"

definition rtc_call_participants_check :: "RtcCallParticipant \<Rightarrow> bool" where
  "rtc_call_participants_check p \<longleftrightarrow>
     p_State p \<in> {ParticipantStateActive, ParticipantStateLeft} \<and>
     ((p_State p = ParticipantStateActive \<and> p_LeftAt p = None) \<or>
      (p_State p = ParticipantStateLeft \<and> p_LeftAt p \<noteq> None))"

text \<open>The unique index that a new row breaks, if any.\<close>

definition rtc_calls_unique :: "RtcCall list \<Rightarrow> RtcCall \<Rightarrow> string option" where
  "rtc_calls_unique cs c =
     (if \<exists>d\<in>set cs. c_ID d = c_ID c then Some ''rtc_calls_pkey''
      else if call_active c \<and> c_DirectChatID c \<noteq> None \<and>
              (\<exists>d\<in>set cs. call_active d \<and> c_DirectChatID d = c_DirectChatID c)
      then Some ''rtc_calls_active_direct_scope_idx''
      else if call_active c \<and> c_GroupID c \<noteq> None \<and>
              (\<exists>d\<in>set cs. call_active d \<and> c_GroupID d = c_GroupID c)
      then Some ''rtc_calls_active_group_scope_idx''
      else None)"

definition rtc_call_participants_unique :: "RtcCallParticipant list \<Rightarrow> RtcCallParticipant \<Rightarrow> string option" where
  "rtc_call_participants_unique ps p =
     (if \<exists>q\<in>set ps. p_ID q = p_ID p then Some ''rtc_call_participants_pkey''
      else if part_active p \<and>
              (\<exists>q\<in>set ps. part_active q \<and> p_CallID q = p_CallID p \<and> p_UserID q = p_UserID p)
      then Some ''rtc_call_participants_active_call_user_idx''
      else if part_active p \<and> (\<exists>q\<in>set ps. part_active q \<and> p_UserID q = p_UserID p)
      then Some ''rtc_call_participants_active_user_idx''
      else None)"

section \<open>Queries\<close>

definition oneT :: "(rtc_db \<Rightarrow> 'a option) \<Rightarrow> 'a rtc_tx" where
  "oneT f = (\<lambda>db. case f db of None \<Rightarrow> Inl ErrNoRows | Some r \<Rightarrow> Inr (r, db))"

definition manyT :: "(rtc_db \<Rightarrow> 'a) \<Rightarrow> 'a rtc_tx" where
  "manyT f = (\<lambda>db. Inr (f db, db))"

definition update_calls :: "(RtcCall \<Rightarrow> bool) \<Rightarrow> (RtcCall \<Rightarrow> RtcCall) \<Rightarrow> rtc_db \<Rightarrow> rtc_db" where
  "update_calls hit f db = db\<lparr>rtc_calls := map (\<lambda>c. if hit c then f c else c) (rtc_calls db)\<rparr>"

definition update_parts ::
    "(RtcCallParticipant \<Rightarrow> bool) \<Rightarrow> (RtcCallParticipant \<Rightarrow> RtcCallParticipant) \<Rightarrow> rtc_db \<Rightarrow> rtc_db" where
  "update_parts hit f db =
     db\<lparr>rtc_call_participants := map (\<lambda>p. if hit p then f p else p) (rtc_call_participants db)\<rparr>"

definition active_parts :: "rtc_db \<Rightarrow> uuid \<Rightarrow> RtcCallParticipant list" where
  "active_parts db callID =
     filter (\<lambda>p. p_CallID p = callID \<and> part_active p) (rtc_call_participants db)"

definition CountActiveParticipantsByCallID :: "uuid \<Rightarrow> nat rtc_tx" where
  "CountActiveParticipantsByCallID callID = manyT (\<lambda>db. length (active_parts db callID))"

definition CreateCall ::
    "uuid \<Rightarrow> string \<Rightarrow> uuid option \<Rightarrow> uuid option \<Rightarrow> uuid \<Rightarrow> string \<Rightarrow> int \<Rightarrow> int \<Rightarrow> int \<Rightarrow> RtcCall rtc_tx" where
  "CreateCall rowID scopeType directChatID groupID createdBy status createdAt startedAt updatedAt = (\<lambda>db.
     let row = \<lparr>c_ID = rowID, c_ScopeType = scopeType, c_DirectChatID = directChatID, c_GroupID = groupID,
                c_CreatedByUserID = createdBy, c_Status = status, c_CreatedAt = createdAt,
                c_StartedAt = startedAt, c_UpdatedAt = updatedAt, c_EndedAt = None,
                c_EndedByUserID = None, c_EndReason = None\<rparr>
     in if \<not> rtc_calls_check row then Inl (PgError ''23514'' ''rtc_calls'')
        else case rtc_calls_unique (rtc_calls db) row of
          Some idx \<Rightarrow> Inl (PgError ''23505'' idx)
        | None \<Rightarrow>
            if createdBy \<notin> set (users db) then Inl (PgError ''23503'' ''rtc_calls_created_by_user_id_fkey'')
            else Inr (row, db\<lparr>rtc_calls := rtc_calls db @ [row]\<rparr>))"

definition CreateParticipant :: "uuid \<Rightarrow> uuid \<Rightarrow> uuid \<Rightarrow> string \<Rightarrow> int \<Rightarrow> int \<Rightarrow> RtcCallParticipant rtc_tx" where
  "CreateParticipant rowID callID userID state joinedAt updatedAt = (\<lambda>db.
     let row = \<lparr>p_ID = rowID, p_CallID = callID, p_UserID = userID, p_State = state, p_JoinedAt = joinedAt,
                p_LeftAt = None, p_UpdatedAt = updatedAt, p_LastSignalAt = None\<rparr>
     in if \<not> rtc_call_participants_check row then Inl (PgError ''23514'' ''rtc_call_participants'')
        else case rtc_call_participants_unique (rtc_call_participants db) row of
          Some idx \<Rightarrow> Inl (PgError ''23505'' idx)
        | None \<Rightarrow>
            if callID \<notin> c_ID ` set (rtc_calls db)
            then Inl (PgError ''23503'' ''rtc_call_participants_call_id_fkey'')
            else if userID \<notin> set (users db)
            then Inl (PgError ''23503'' ''rtc_call_participants_user_id_fkey'')
            else Inr (row, db\<lparr>rtc_call_participants := rtc_call_participants db @ [row]\<rparr>))"

definition end_call_row :: "int \<Rightarrow> int \<Rightarrow> uuid option \<Rightarrow> string option \<Rightarrow> RtcCall \<Rightarrow> RtcCall" where
  "end_call_row updatedAt endedAt endedBy endReason c =
     c\<lparr>c_Status := CallStatusEnded, c_UpdatedAt := updatedAt, c_EndedAt := Some endedAt,
       c_EndedByUserID := endedBy, c_EndReason := endReason\<rparr>"

definition EndCall_sql :: "uuid \<Rightarrow> int \<Rightarrow> int \<Rightarrow> uuid option \<Rightarrow> string option \<Rightarrow> nat rtc_tx" where
  "EndCall_sql rowID updatedAt endedAt endedBy endReason = (\<lambda>db.
     let hit = (\<lambda>c. c_ID c = rowID \<and> call_active c);
         n = length (filter hit (rtc_calls db));
         upd = end_call_row updatedAt endedAt endedBy endReason
     in if n = 0 then Inr (0, db)
        else if \<exists>c\<in>set (rtc_calls db). hit c \<and> \<not> rtc_calls_check (upd c)
        then Inl (PgError ''23514'' ''rtc_calls'')
        else if endedBy \<noteq> None \<and> the endedBy \<notin> set (users db)
        then Inl (PgError ''23503'' ''rtc_calls_ended_by_user_id_fkey'')
        else Inr (n, update_calls hit upd db))"

definition GetCallByID :: "uuid \<Rightarrow> (RtcCall \<times> nat) rtc_tx" where
  "GetCallByID rowID = oneT (\<lambda>db.
     map_option (\<lambda>c. (c, length (active_parts db rowID))) (find (\<lambda>c. c_ID c = rowID) (rtc_calls db)))"

definition GetActiveCallByDirectChatID :: "uuid option \<Rightarrow> (RtcCall \<times> nat) rtc_tx" where
  "GetActiveCallByDirectChatID directChatID = oneT (\<lambda>db.
     map_option (\<lambda>c. (c, length (active_parts db (c_ID c))))
       (find (\<lambda>c. directChatID \<noteq> None \<and> c_DirectChatID c = directChatID \<and> call_active c) (rtc_calls db)))"

definition GetActiveCallByGroupID :: "uuid option \<Rightarrow> (RtcCall \<times> nat) rtc_tx" where
  "GetActiveCallByGroupID groupID = oneT (\<lambda>db.
     map_option (\<lambda>c. (c, length (active_parts db (c_ID c))))
       (find (\<lambda>c. groupID \<noteq> None \<and> c_GroupID c = groupID \<and> call_active c) (rtc_calls db)))"

definition GetActiveParticipantByCallIDAndUserID :: "uuid \<Rightarrow> uuid \<Rightarrow> RtcCallParticipant rtc_tx" where
  "GetActiveParticipantByCallIDAndUserID callID userID = oneT (\<lambda>db.
     find (\<lambda>p. p_CallID p = callID \<and> p_UserID p = userID \<and> part_active p) (rtc_call_participants db))"

definition GetActiveParticipationByUserID :: "uuid \<Rightarrow> (RtcCall \<times> RtcCallParticipant) rtc_tx" where
  "GetActiveParticipationByUserID userID = oneT (\<lambda>db.
     let rows = [(c, p). p \<leftarrow> rtc_call_participants db, c \<leftarrow> rtc_calls db,
                         c_ID c = p_CallID p \<and> p_UserID p = userID \<and> part_active p \<and> call_active c]
     in case rev (sort_key (\<lambda>(c, p). (p_JoinedAt p, p_ID p)) rows) of
          [] \<Rightarrow> None | r # _ \<Rightarrow> Some r)"

definition leave_part_row :: "int \<Rightarrow> int \<Rightarrow> RtcCallParticipant \<Rightarrow> RtcCallParticipant" where
  "leave_part_row leftAt updatedAt p =
     p\<lparr>p_State := ParticipantStateLeft, p_LeftAt := Some leftAt, p_UpdatedAt := updatedAt\<rparr>"

definition LeaveActiveParticipantsByCallID :: "uuid \<Rightarrow> int \<Rightarrow> int \<Rightarrow> nat rtc_tx" where
  "LeaveActiveParticipantsByCallID callID leftAt updatedAt = (\<lambda>db.
     let hit = (\<lambda>p. p_CallID p = callID \<and> part_active p)
     in Inr (length (filter hit (rtc_call_participants db)),
             update_parts hit (leave_part_row leftAt updatedAt) db))"

definition LeaveParticipant :: "uuid \<Rightarrow> int \<Rightarrow> int \<Rightarrow> nat rtc_tx" where
  "LeaveParticipant rowID leftAt updatedAt = (\<lambda>db.
     let hit = (\<lambda>p. p_ID p = rowID \<and> part_active p)
     in Inr (length (filter hit (rtc_call_participants db)),
             update_parts hit (leave_part_row leftAt updatedAt) db))"

definition ListActiveParticipantsByCallID :: "uuid \<Rightarrow> RtcCallParticipant list rtc_tx" where
  "ListActiveParticipantsByCallID callID =
     manyT (\<lambda>db. sort_key (\<lambda>p. (p_JoinedAt p, p_ID p)) (active_parts db callID))"

definition LockCallByID :: "uuid \<Rightarrow> RtcCall rtc_tx" where
  "LockCallByID rowID = oneT (\<lambda>db. find (\<lambda>c. c_ID c = rowID) (rtc_calls db))"

definition ReleaseEndedParticipationByUserID :: "uuid \<Rightarrow> int \<Rightarrow> unit rtc_tx" where
  "ReleaseEndedParticipationByUserID userID at = (\<lambda>db.
     let hit = (\<lambda>p. p_UserID p = userID \<and> part_active p \<and>
                    (\<exists>c\<in>set (rtc_calls db). c_ID c = p_CallID p \<and> c_Status c = CallStatusEnded))
     in Inr ((), update_parts hit (leave_part_row at at) db))"

definition touch_part_row :: "int \<Rightarrow> int \<Rightarrow> RtcCallParticipant \<Rightarrow> RtcCallParticipant" where
  "touch_part_row lastSignalAt updatedAt p =
     p\<lparr>p_LastSignalAt := Some lastSignalAt, p_UpdatedAt := updatedAt\<rparr>"

definition TouchParticipantSignal :: "uuid \<Rightarrow> int \<Rightarrow> int \<Rightarrow> nat rtc_tx" where
  "TouchParticipantSignal rowID lastSignalAt updatedAt = (\<lambda>db.
     let hit = (\<lambda>p. p_ID p = rowID \<and> part_active p)
     in Inr (length (filter hit (rtc_call_participants db)),
             update_parts hit (touch_part_row lastSignalAt updatedAt) db))"

text \<open>Media control intents and the tables of the media slot guard.\<close>

definition GetOpenMediaEndByCall :: "uuid \<Rightarrow> RtcMediaControlIntent rtc_tx" where
  "GetOpenMediaEndByCall callID = oneT (\<lambda>db.
     find (\<lambda>i. i_CallID i = callID \<and> i_Kind i = ''end'' \<and> i_State i = ''pending'')
       (rtc_media_control_intents db))"

definition first_intent :: "RtcMediaControlIntent list \<Rightarrow> RtcMediaControlIntent option" where
  "first_intent intents =
     (case sort_key (\<lambda>i. (i_CreatedAt i, i_ID i)) intents of [] \<Rightarrow> None | i # _ \<Rightarrow> Some i)"

definition GetOpenMediaEndByGroup :: "uuid \<Rightarrow> RtcMediaControlIntent rtc_tx" where
  "GetOpenMediaEndByGroup groupID = oneT (\<lambda>db.
     first_intent (filter (\<lambda>i. i_GroupID i = groupID \<and> i_Kind i = ''end'' \<and> i_State i = ''pending'')
       (rtc_media_control_intents db)))"

definition GetOpenMediaEndForActiveUser :: "uuid \<Rightarrow> RtcMediaControlIntent rtc_tx" where
  "GetOpenMediaEndForActiveUser userID = oneT (\<lambda>db.
     first_intent [i. i \<leftarrow> rtc_media_control_intents db, p \<leftarrow> rtc_call_participants db,
       p_CallID p = i_CallID i \<and> p_UserID p = userID \<and> part_active p \<and>
       i_Kind i = ''end'' \<and> i_State i = ''pending''])"

definition ListSlotParticipationsByUser :: "uuid \<Rightarrow> RtcCallParticipant list rtc_tx" where
  "ListSlotParticipationsByUser userID = manyT (\<lambda>db.
     sort_key (\<lambda>p. (p_CallID p, p_ID p))
       (filter (\<lambda>p. p_UserID p = userID \<and> part_active p) (rtc_call_participants db)))"

definition GetSlotParticipant :: "uuid \<Rightarrow> RtcCallParticipant rtc_tx" where
  "GetSlotParticipant rowID = oneT (\<lambda>db. find (\<lambda>p. p_ID p = rowID) (rtc_call_participants db))"

definition grant_rooms :: "rtc_db \<Rightarrow> (RtcMediaGrant \<times> RtcMediaRoom) list" where
  "grant_rooms db = [(g, r). g \<leftarrow> rtc_media_grants db, r \<leftarrow> rtc_media_rooms db, r_ID r = g_RoomID g]"

definition ListHeldMediaGrantsByCall :: "uuid \<Rightarrow> (RtcMediaGrant \<times> RtcMediaRoom) list rtc_tx" where
  "ListHeldMediaGrantsByCall callID = manyT (\<lambda>db.
     sort_key (\<lambda>(g, r). g_UserID g)
       (filter (\<lambda>(g, r). g_CallID g = callID \<and> g_State g \<noteq> ''revoked'') (grant_rooms db)))"

definition FindHeldMediaRoomByCall :: "uuid \<Rightarrow> RtcMediaRoom rtc_tx" where
  "FindHeldMediaRoomByCall callID = oneT (\<lambda>db.
     find (\<lambda>r. r_CallID r = callID \<and> r_State r \<noteq> ''closed'') (rtc_media_rooms db))"

definition GetHeldMediaGrantByUser :: "uuid \<Rightarrow> (RtcMediaGrant \<times> RtcMediaRoom) rtc_tx" where
  "GetHeldMediaGrantByUser userID = oneT (\<lambda>db.
     find (\<lambda>(g, r). g_UserID g = userID \<and> g_State g \<noteq> ''revoked'') (grant_rooms db))"

definition LockMediaRoom :: "uuid \<Rightarrow> RtcMediaRoom rtc_tx" where
  "LockMediaRoom rowID = oneT (\<lambda>db. find (\<lambda>r. r_ID r = rowID) (rtc_media_rooms db))"

definition EnsureMediaUserMutex :: "uuid \<Rightarrow> unit rtc_tx" where
  "EnsureMediaUserMutex userID = (\<lambda>db.
     Inr ((), if \<exists>u\<in>set (rtc_media_user_generations db). u_UserID u = userID then db
              else db\<lparr>rtc_media_user_generations :=
                        rtc_media_user_generations db @ [\<lparr>u_UserID = userID, u_NextGeneration = 1\<rparr>]\<rparr>))"

definition LockMediaUserMutex :: "uuid \<Rightarrow> RtcMediaUserGeneration rtc_tx" where
  "LockMediaUserMutex userID = oneT (\<lambda>db.
     find (\<lambda>u. u_UserID u = userID) (rtc_media_user_generations db))"

end
