(* ===== verification/Rtc_Schema.thy ===== *)
theory Rtc_Schema
  imports Rtc_Store
begin

text \<open>
  The schema as an invariant: \<open>schema_ok\<close> collects the primary keys, CHECKs, partial unique indexes
  and foreign keys of \<open>rtc_calls\<close> and \<open>rtc_call_participants\<close>. Every query keeps it, and a read
  leaves the database alone.
\<close>

definition schema_ok :: "rtc_db \<Rightarrow> bool" where
  "schema_ok db \<longleftrightarrow>
     distinct (map c_ID (rtc_calls db)) \<and>
     distinct (map p_ID (rtc_call_participants db)) \<and>
     (\<forall>c\<in>set (rtc_calls db). rtc_calls_check c) \<and>
     (\<forall>p\<in>set (rtc_call_participants db). rtc_call_participants_check p) \<and>
     distinct (map c_DirectChatID
       (filter (\<lambda>c. call_active c \<and> c_DirectChatID c \<noteq> None) (rtc_calls db))) \<and>
     distinct (map c_GroupID
       (filter (\<lambda>c. call_active c \<and> c_GroupID c \<noteq> None) (rtc_calls db))) \<and>
     distinct (map p_UserID (filter part_active (rtc_call_participants db))) \<and>
     (\<forall>p\<in>set (rtc_call_participants db). p_CallID p \<in> c_ID ` set (rtc_calls db)) \<and>
     (\<forall>p\<in>set (rtc_call_participants db). p_UserID p \<in> set (users db)) \<and>
     (\<forall>c\<in>set (rtc_calls db). c_CreatedByUserID c \<in> set (users db))"

lemma update_sel [simp]:
  "rtc_call_participants (update_calls hit f db) = rtc_call_participants db"
  "users (update_calls hit f db) = users db"
  "rtc_calls (update_parts hitp fp db) = rtc_calls db"
  "users (update_parts hitp fp db) = users db"
  "rtc_media_grants (update_parts hitp fp db) = rtc_media_grants db"
  "rtc_media_grants (update_calls hit f db) = rtc_media_grants db"
  "rtc_media_rooms (update_parts hitp fp db) = rtc_media_rooms db"
  "rtc_media_rooms (update_calls hit f db) = rtc_media_rooms db"
  "rtc_media_control_intents (update_parts hitp fp db) = rtc_media_control_intents db"
  "rtc_media_control_intents (update_calls hit f db) = rtc_media_control_intents db"
  by (simp_all add: update_calls_def update_parts_def)

lemma update_calls_set:
  "set (rtc_calls (update_calls hit f db)) = (\<lambda>c. if hit c then f c else c) ` set (rtc_calls db)"
  by (simp add: update_calls_def)

lemma update_parts_set:
  "set (rtc_call_participants (update_parts hit f db)) =
     (\<lambda>p. if hit p then f p else p) ` set (rtc_call_participants db)"
  by (simp add: update_parts_def)

lemma schema_ok_update_parts:
  assumes ok: "schema_ok db"
    and key: "\<And>p. p_ID (f p) = p_ID p" "\<And>p. p_CallID (f p) = p_CallID p" "\<And>p. p_UserID (f p) = p_UserID p"
    and act: "\<And>p. part_active (f p) \<Longrightarrow> part_active p"
    and chk: "\<And>p. hit p \<Longrightarrow> rtc_call_participants_check p \<Longrightarrow> rtc_call_participants_check (f p)"
  shows "schema_ok (update_parts hit f db)"
proof -
  let ?g = "\<lambda>p. if hit p then f p else p"
  have "distinct (map p_ID (map ?g (rtc_call_participants db)))"
    using ok key by (intro distinct_map_update) (auto simp: schema_ok_def)
  moreover have "distinct (map p_UserID (filter part_active (map ?g (rtc_call_participants db))))"
    using ok key act by (intro distinct_filter_update) (auto simp: schema_ok_def split: if_splits)
  moreover have "\<forall>p\<in>set (map ?g (rtc_call_participants db)). rtc_call_participants_check p \<and>
      p_CallID p \<in> c_ID ` set (rtc_calls db) \<and> p_UserID p \<in> set (users db)"
    using ok key chk by (auto simp: schema_ok_def)
  ultimately show ?thesis
    using ok unfolding schema_ok_def update_parts_def by simp
qed

lemma schema_ok_update_calls:
  assumes ok: "schema_ok db"
    and key: "\<And>c. c_ID (f c) = c_ID c" "\<And>c. c_CreatedByUserID (f c) = c_CreatedByUserID c"
      "\<And>c. c_DirectChatID (f c) = c_DirectChatID c" "\<And>c. c_GroupID (f c) = c_GroupID c"
    and act: "\<And>c. call_active (f c) \<Longrightarrow> call_active c"
    and chk: "\<forall>c\<in>set (rtc_calls db). hit c \<longrightarrow> rtc_calls_check (f c)"
  shows "schema_ok (update_calls hit f db)"
proof -
  let ?g = "\<lambda>c. if hit c then f c else c"
  have "distinct (map c_ID (map ?g (rtc_calls db)))"
    using ok key by (intro distinct_map_update) (auto simp: schema_ok_def)
  moreover have "distinct (map c_DirectChatID
      (filter (\<lambda>c. call_active c \<and> c_DirectChatID c \<noteq> None) (map ?g (rtc_calls db))))"
    using ok key act by (intro distinct_filter_update) (auto simp: schema_ok_def split: if_splits)
  moreover have "distinct (map c_GroupID
      (filter (\<lambda>c. call_active c \<and> c_GroupID c \<noteq> None) (map ?g (rtc_calls db))))"
    using ok key act by (intro distinct_filter_update) (auto simp: schema_ok_def split: if_splits)
  moreover have "\<forall>c\<in>set (map ?g (rtc_calls db)). rtc_calls_check c \<and> c_CreatedByUserID c \<in> set (users db)"
    using ok key chk by (auto simp: schema_ok_def)
  moreover have "c_ID ` set (map ?g (rtc_calls db)) = c_ID ` set (rtc_calls db)"
    by (rule image_key_update) (simp add: key(1))
  ultimately show ?thesis
    using ok unfolding schema_ok_def update_calls_def by simp
qed

lemma leave_part_row_sel [simp]:
  "p_ID (leave_part_row l u p) = p_ID p" "p_CallID (leave_part_row l u p) = p_CallID p"
  "p_UserID (leave_part_row l u p) = p_UserID p" "p_State (leave_part_row l u p) = ParticipantStateLeft"
  "p_LeftAt (leave_part_row l u p) = Some l" "p_UpdatedAt (leave_part_row l u p) = u"
  by (simp_all add: leave_part_row_def)

lemma touch_part_row_sel [simp]:
  "p_ID (touch_part_row l u p) = p_ID p" "p_CallID (touch_part_row l u p) = p_CallID p"
  "p_UserID (touch_part_row l u p) = p_UserID p" "p_State (touch_part_row l u p) = p_State p"
  "p_LeftAt (touch_part_row l u p) = p_LeftAt p"
  by (simp_all add: touch_part_row_def)

lemma end_call_row_sel [simp]:
  "c_ID (end_call_row u e b r c) = c_ID c" "c_CreatedByUserID (end_call_row u e b r c) = c_CreatedByUserID c"
  "c_DirectChatID (end_call_row u e b r c) = c_DirectChatID c" "c_GroupID (end_call_row u e b r c) = c_GroupID c"
  "c_ScopeType (end_call_row u e b r c) = c_ScopeType c"
  "c_Status (end_call_row u e b r c) = CallStatusEnded" "c_EndedAt (end_call_row u e b r c) = Some e"
  "c_EndReason (end_call_row u e b r c) = r" "c_EndedByUserID (end_call_row u e b r c) = b"
  by (simp_all add: end_call_row_def)

lemma schema_ok_leave: "schema_ok db \<Longrightarrow> schema_ok (update_parts hit (leave_part_row l u) db)"
  by (rule schema_ok_update_parts) (auto simp: rtc_call_participants_check_def)

lemma schema_ok_touch: "schema_ok db \<Longrightarrow> schema_ok (update_parts hit (touch_part_row l u) db)"
  by (rule schema_ok_update_parts) (auto simp: rtc_call_participants_check_def)

section \<open>Reads\<close>

definition reads :: "'a rtc_tx \<Rightarrow> bool" where
  "reads m \<longleftrightarrow> (\<forall>db x db'. m db = Inr (x, db') \<longrightarrow> db' = db)"

lemma readsD: "reads m \<Longrightarrow> m db = Inr (x, db') \<Longrightarrow> db' = db"
  by (simp add: reads_def)

lemma reads_keeps: "reads m \<Longrightarrow> keeps P m"
  by (auto simp: reads_def keeps_def)

lemma oneT_Inr [tx_simps]: "oneT f db = Inr (r, db') \<longleftrightarrow> f db = Some r \<and> db' = db"
  by (auto simp: oneT_def split: option.splits)

lemma oneT_Inl [tx_simps]: "oneT f db = Inl e \<longleftrightarrow> f db = None \<and> e = ErrNoRows"
  by (auto simp: oneT_def split: option.splits)

lemma manyT_run [tx_simps]: "manyT f db = Inr (f db, db)"
  by (simp add: manyT_def)

lemma reads_oneT: "reads (oneT f)"
  by (simp add: reads_def tx_simps)

lemma reads_manyT: "reads (manyT f)"
  by (simp add: reads_def tx_simps)

lemmas query_read_defs =
  CountActiveParticipantsByCallID_def GetCallByID_def GetActiveCallByDirectChatID_def
  GetActiveCallByGroupID_def GetActiveParticipantByCallIDAndUserID_def
  GetActiveParticipationByUserID_def ListActiveParticipantsByCallID_def LockCallByID_def
  GetOpenMediaEndByCall_def GetOpenMediaEndByGroup_def GetOpenMediaEndForActiveUser_def
  ListSlotParticipationsByUser_def GetSlotParticipant_def ListHeldMediaGrantsByCall_def
  FindHeldMediaRoomByCall_def GetHeldMediaGrantByUser_def LockMediaRoom_def LockMediaUserMutex_def

lemma reads_queries:
  "reads (CountActiveParticipantsByCallID a)" "reads (GetCallByID a)"
  "reads (GetActiveCallByDirectChatID d)" "reads (GetActiveCallByGroupID d)"
  "reads (GetActiveParticipantByCallIDAndUserID a b)" "reads (GetActiveParticipationByUserID a)"
  "reads (ListActiveParticipantsByCallID a)" "reads (LockCallByID a)" "reads (GetOpenMediaEndByCall a)"
  "reads (GetOpenMediaEndByGroup a)" "reads (GetOpenMediaEndForActiveUser a)"
  "reads (ListSlotParticipationsByUser a)" "reads (GetSlotParticipant a)"
  "reads (ListHeldMediaGrantsByCall a)" "reads (FindHeldMediaRoomByCall a)"
  "reads (GetHeldMediaGrantByUser a)" "reads (LockMediaRoom a)" "reads (LockMediaUserMutex a)"
  by (simp_all add: query_read_defs reads_oneT reads_manyT)

lemmas keeps_queries [pres_intros] = reads_queries [THEN reads_keeps]

section \<open>Writes keep the schema\<close>

lemma schema_CreateCall [pres_intros]: "keeps schema_ok (CreateCall i t d g b s ca sa ua)"
  unfolding keeps_def
proof (intro allI impI)
  fix db x db'
  assume ok: "schema_ok db" and run: "CreateCall i t d g b s ca sa ua db = Inr (x, db')"
  from run have x: "rtc_calls_check x" "rtc_calls_unique (rtc_calls db) x = None"
      "c_CreatedByUserID x \<in> set (users db)" "db' = db\<lparr>rtc_calls := rtc_calls db @ [x]\<rparr>"
    by (auto simp: CreateCall_def Let_def split: if_splits option.splits)
  from x(2) have u: "c_ID x \<notin> c_ID ` set (rtc_calls db)"
      "call_active x \<Longrightarrow> c_DirectChatID x \<noteq> None \<Longrightarrow>
         c_DirectChatID x \<notin> c_DirectChatID ` {c \<in> set (rtc_calls db). call_active c \<and> c_DirectChatID c \<noteq> None}"
      "call_active x \<Longrightarrow> c_GroupID x \<noteq> None \<Longrightarrow>
         c_GroupID x \<notin> c_GroupID ` {c \<in> set (rtc_calls db). call_active c \<and> c_GroupID c \<noteq> None}"
    by (auto simp: rtc_calls_unique_def split: if_splits)
  from ok x(1,3,4) u show "schema_ok db'"
    unfolding schema_ok_def by (auto simp del: not_None_eq)
qed

lemma schema_CreateParticipant [pres_intros]: "keeps schema_ok (CreateParticipant i c u s ja ua)"
  unfolding keeps_def
proof (intro allI impI)
  fix db x db'
  assume ok: "schema_ok db" and run: "CreateParticipant i c u s ja ua db = Inr (x, db')"
  from run have x: "rtc_call_participants_check x"
      "rtc_call_participants_unique (rtc_call_participants db) x = None"
      "p_CallID x \<in> c_ID ` set (rtc_calls db)" "p_UserID x \<in> set (users db)"
      "db' = db\<lparr>rtc_call_participants := rtc_call_participants db @ [x]\<rparr>"
    by (auto simp: CreateParticipant_def Let_def split: if_splits option.splits)
  from x(2) have q: "p_ID x \<notin> p_ID ` set (rtc_call_participants db)"
      "part_active x \<Longrightarrow> p_UserID x \<notin> p_UserID ` {p \<in> set (rtc_call_participants db). part_active p}"
    by (auto simp: rtc_call_participants_unique_def split: if_splits)
  from ok x(1,3,4,5) q show "schema_ok db'"
    unfolding schema_ok_def by auto
qed

lemma schema_EndCall_sql [pres_intros]: "keeps schema_ok (EndCall_sql i ua ea b r)"
  unfolding keeps_def
proof (intro allI impI)
  fix db x db'
  assume ok: "schema_ok db" and run: "EndCall_sql i ua ea b r db = Inr (x, db')"
  let ?hit = "\<lambda>c. c_ID c = i \<and> call_active c" and ?f = "end_call_row ua ea b r"
  from run consider "db' = db"
    | "db' = update_calls ?hit ?f db" "\<forall>c\<in>set (rtc_calls db). ?hit c \<longrightarrow> rtc_calls_check (?f c)"
    by (auto simp: EndCall_sql_def Let_def split: if_splits)
  then show "schema_ok db'"
  proof cases
    case 1
    with ok show ?thesis by simp
  next
    case 2
    with ok show ?thesis
      by (simp only:) (rule schema_ok_update_calls, auto)
  qed
qed

lemma schema_leave_writes [pres_intros]:
  "keeps schema_ok (LeaveActiveParticipantsByCallID a l u)"
  "keeps schema_ok (LeaveParticipant a l u)"
  "keeps schema_ok (ReleaseEndedParticipationByUserID a l)"
  "keeps schema_ok (TouchParticipantSignal a l u)"
  by (auto simp: keeps_def LeaveActiveParticipantsByCallID_def LeaveParticipant_def
      ReleaseEndedParticipationByUserID_def TouchParticipantSignal_def Let_def
      intro: schema_ok_leave schema_ok_touch)

lemma schema_EnsureMediaUserMutex [pres_intros]: "keeps schema_ok (EnsureMediaUserMutex u)"
  by (auto simp: keeps_def EnsureMediaUserMutex_def schema_ok_def)

end
