(* ===== verification/Rtc_Slot.thy ===== *)
theory Rtc_Slot
  imports Rtc_Schema
begin

text \<open>
  The media slot guard of \<open>internal/storage/postgres/media_slot_guard.go\<close>: discovery of the calls,
  rooms and users a transaction must lock, the locking transaction itself, and the decisions taken
  on its snapshot. The guard is a constructor policy of the repository; \<open>main\<close> leaves it off.
\<close>

section \<open>Grants of the media store\<close>

record MediaKey =
  key_GrantID :: uuid
  key_RoomID :: uuid
  key_RoomName :: uuid
  key_ParticipantIdentity :: uuid
  key_RoomGeneration :: int
  key_GrantGeneration :: int

record MediaAuthority =
  auth_GroupID :: uuid
  auth_UserID :: uuid
  auth_SessionID :: uuid
  auth_DeviceID :: uuid
  auth_SessionRevision :: int
  auth_DeviceRevision :: int
  auth_EligibilityEpoch :: int

record MediaGrant =
  grant_Key :: MediaKey
  grant_Authority :: MediaAuthority
  grant_RequestID :: uuid
  grant_CallID :: uuid
  grant_ParticipantID :: uuid
  grant_State :: string
  grant_PreparedAt :: int
  grant_PrepareDeadline :: int
  grant_ActivationIntentAt :: "int option"
  grant_OperationID :: uuid

definition grantFromRow :: "RtcMediaGrant \<times> RtcMediaRoom \<Rightarrow> MediaGrant" where
  "grantFromRow row = (case row of (g, r) \<Rightarrow>
     \<lparr>grant_Key = \<lparr>key_GrantID = g_ID g, key_RoomID = g_RoomID g, key_RoomName = r_RoomName r,
                   key_ParticipantIdentity = g_ParticipantIdentity g,
                   key_RoomGeneration = r_RoomGeneration r, key_GrantGeneration = g_GrantGeneration g\<rparr>,
      grant_Authority = \<lparr>auth_GroupID = g_GroupID g, auth_UserID = g_UserID g, auth_SessionID = g_SessionID g,
                         auth_DeviceID = g_DeviceID g, auth_SessionRevision = g_SessionRevision g,
                         auth_DeviceRevision = g_DeviceRevision g,
                         auth_EligibilityEpoch = g_EligibilityEpoch g\<rparr>,
      grant_RequestID = g_RequestID g, grant_CallID = g_CallID g, grant_ParticipantID = g_ParticipantID g,
      grant_State = g_State g, grant_PreparedAt = g_PreparedAt g, grant_PrepareDeadline = g_PrepareDeadline g,
      grant_ActivationIntentAt = g_ActivationIntentAt g,
      grant_OperationID = (case g_OperationID g of None \<Rightarrow> uuid_Nil | Some i \<Rightarrow> i)\<rparr>)"

section \<open>Discovery\<close>

record slotSpec =
  spec_call :: uuid
  spec_user :: uuid
  spec_participant :: uuid
  spec_create :: bool
  spec_end :: bool
  spec_extraUsers :: "uuid list"
  spec_extraRooms :: "uuid list"

record slotSnapshot =
  snap_calls :: "uuid list"
  snap_rooms :: "uuid list"
  snap_users :: "uuid list"
  snap_held :: "uuid \<rightharpoonup> MediaGrant"
  snap_parts :: "uuid \<rightharpoonup> RtcCallParticipant list"

record slotTransaction =
  slot_snapshot :: slotSnapshot
  slot_calls :: "uuid \<rightharpoonup> RtcCall"
  slot_rooms :: "uuid \<rightharpoonup> RtcMediaRoom"

definition sortedSlotIDs :: "uuid list \<Rightarrow> uuid list" where
  "sortedSlotIDs ids = sort (remdups ids)"

text \<open>\<open>row, err := q(...)\<close> followed by a test for \<open>pgx.ErrNoRows\<close>, other errors being returned.\<close>

definition optionalT :: "'a rtc_tx \<Rightarrow> 'a option rtc_tx" where
  "optionalT m = attemptT m (\<lambda>r. case r of
     Inr x \<Rightarrow> returnT (Some x)
   | Inl e \<Rightarrow> if e = ErrNoRows then returnT None else failT e)"

fun mapT :: "('a \<Rightarrow> 'b rtc_tx) \<Rightarrow> 'a list \<Rightarrow> 'b list rtc_tx" where
  "mapT f [] = returnT []"
| "mapT f (x # xs) = bindT (f x) (\<lambda>y. bindT (mapT f xs) (\<lambda>ys. returnT (y # ys)))"

definition slotUserInfo :: "uuid \<Rightarrow> (uuid \<times> RtcCallParticipant list \<times> MediaGrant option) rtc_tx" where
  "slotUserInfo user =
     bindT (ListSlotParticipationsByUser user) (\<lambda>ps.
     bindT (optionalT (GetHeldMediaGrantByUser user)) (\<lambda>g.
     returnT (user, ps, map_option grantFromRow g)))"

text \<open>The first half of \<open>discoverSlot\<close>: the owner of the participant, and the users whose grants an exit
  or an end of the call touches (the last participant's exit ends the call).\<close>

definition slotOwner :: "slotSpec \<Rightarrow> uuid list rtc_tx" where
  "slotOwner s =
     (if spec_participant s \<noteq> uuid_Nil
      then bindT (optionalT (GetSlotParticipant (spec_participant s))) (\<lambda>found.
           returnT (case found of
                      Some p \<Rightarrow> if p_CallID p = spec_call s then [p_UserID p] else []
                    | None \<Rightarrow> []))
      else returnT [])"

definition slotTouched :: "slotSpec \<Rightarrow> uuid list rtc_tx" where
  "slotTouched s =
     (if spec_end s \<or> spec_participant s \<noteq> uuid_Nil
      then bindT (ListActiveParticipantsByCallID (spec_call s)) (\<lambda>ps.
           let present = (if spec_end s then map p_UserID ps else [])
           in if spec_end s \<or> length ps \<le> 1
              then bindT (ListHeldMediaGrantsByCall (spec_call s)) (\<lambda>gs.
                   returnT (present @ map (\<lambda>(g, r). g_UserID g) gs))
              else returnT present)
      else returnT [])"

definition discoverSlot :: "slotSpec \<Rightarrow> slotSnapshot rtc_tx" where
  "discoverSlot s =
     bindT (slotOwner s) (\<lambda>owner.
     bindT (slotTouched s) (\<lambda>touched.
     let users = sortedSlotIDs (spec_extraUsers s @
                   (if spec_user s \<noteq> uuid_Nil then [spec_user s] else []) @ owner @ touched)
     in bindT (mapT slotUserInfo users) (\<lambda>infos.
        let grants = concat (map (\<lambda>(u, ps, g). case g of None \<Rightarrow> [] | Some h \<Rightarrow> [h]) infos);
            calls = sortedSlotIDs ((if spec_create s then [] else [spec_call s]) @
                      concat (map (\<lambda>(u, ps, g). map p_CallID ps) infos) @ map grant_CallID grants)
        in bindT (mapT (\<lambda>c. optionalT (FindHeldMediaRoomByCall c)) calls) (\<lambda>found.
           let rooms = sortedSlotIDs (spec_extraRooms s @ map (\<lambda>g. key_RoomID (grant_Key g)) grants @
                         concat (map (\<lambda>r. case r of None \<Rightarrow> [] | Some room \<Rightarrow> [r_ID room]) found))
           in returnT \<lparr>snap_calls = calls, snap_rooms = rooms, snap_users = users,
                snap_held = map_of (concat (map (\<lambda>(u, ps, g). case g of None \<Rightarrow> [] | Some h \<Rightarrow> [(u, h)]) infos)),
                snap_parts = map_of (map (\<lambda>(u, ps, g). (u, ps)) infos)\<rparr>))))"

definition lockMediaUser :: "uuid \<Rightarrow> unit rtc_tx" where
  "lockMediaUser user =
     bindT (EnsureMediaUserMutex user) (\<lambda>_. bindT (LockMediaUserMutex user) (\<lambda>_. returnT ()))"

text \<open>\<open>snapBefore\<close> is the snapshot that \<open>discoverSlot\<close> took outside the transaction.\<close>

definition beginSlotTransaction :: "slotSnapshot \<Rightarrow> slotSpec \<Rightarrow> slotTransaction rtc_tx" where
  "beginSlotTransaction snapBefore s =
     bindT (mapT LockCallByID (snap_calls snapBefore)) (\<lambda>calls.
     bindT (mapT LockMediaRoom (snap_rooms snapBefore)) (\<lambda>rooms.
     bindT (mapT lockMediaUser (snap_users snapBefore)) (\<lambda>_.
     bindT (discoverSlot s) (\<lambda>after.
     if snap_calls snapBefore \<noteq> snap_calls after \<or> snap_rooms snapBefore \<noteq> snap_rooms after \<or>
        snap_users snapBefore \<noteq> snap_users after
     then failT ErrSlotParentsChanged
     else returnT \<lparr>slot_snapshot = after,
                   slot_calls = map_of (zip (snap_calls snapBefore) calls),
                   slot_rooms = map_of (zip (snap_rooms snapBefore) rooms)\<rparr>))))"

section \<open>Decisions on the snapshot\<close>

definition slot_parts_of :: "slotTransaction \<Rightarrow> uuid \<Rightarrow> RtcCallParticipant list" where
  "slot_parts_of t user = (case snap_parts (slot_snapshot t) user of None \<Rightarrow> [] | Some ps \<Rightarrow> ps)"

definition slot_call_status :: "slotTransaction \<Rightarrow> uuid \<Rightarrow> string" where
  "slot_call_status t callID = (case slot_calls t callID of None \<Rightarrow> '''' | Some c \<Rightarrow> c_Status c)"

definition allowLegacyJoin :: "slotTransaction \<Rightarrow> slotSpec \<Rightarrow> rtc_error + unit" where
  "allowLegacyJoin t s =
     (case snap_held (slot_snapshot t) (spec_user s) of
        Some g \<Rightarrow>
          if spec_create s \<or> grant_CallID g \<noteq> spec_call s then Inl ErrConflict
          else if grant_State g = ''revoking'' then Inl ErrMediaCleanupPending
          else if \<exists>p\<in>set (slot_parts_of t (spec_user s)).
                    p_CallID p = spec_call s \<and> p_ID p = grant_ParticipantID g
          then Inr () else Inl ErrMediaCleanupPending
      | None \<Rightarrow>
          if \<exists>p\<in>set (slot_parts_of t (spec_user s)).
               p_CallID p \<noteq> spec_call s \<and> slot_call_status t (p_CallID p) = CallStatusActive
          then Inl ErrConflict else Inr ())"

definition allowLegacyRelease :: "slotTransaction \<Rightarrow> rtc_error + unit" where
  "allowLegacyRelease t =
     (if \<exists>u\<in>set (snap_users (slot_snapshot t)). snap_held (slot_snapshot t) u \<noteq> None
      then Inl ErrMediaCleanupPending else Inr ())"

definition slotLegacyError :: "rtc_error \<Rightarrow> rtc_error" where
  "slotLegacyError err =
     (if err = ErrContext \<or> err = Panic then err
      else if errors_Is err ErrConflict then ErrConflict
      else if err \<in> {ErrMediaCleanupPending, ErrNotFound, ErrPermissionDenied, ErrInvalidArgument,
                     ErrSlotParentsChanged} then err
      else if err = ErrNoRows then ErrNotFound
      else ErrUnavailable)"

definition slotLockedCall :: "slotTransaction option \<Rightarrow> uuid \<Rightarrow> RtcCall rtc_tx" where
  "slotLockedCall slot callID =
     (case slot of
        None \<Rightarrow> LockCallByID callID
      | Some t \<Rightarrow> (case slot_calls t callID of None \<Rightarrow> failT ErrUnavailable | Some c \<Rightarrow> returnT c))"

text \<open>\<open>mediaEndPending\<close> of \<open>media_control.go\<close>.\<close>

definition mediaEndPending :: "uuid \<Rightarrow> bool rtc_tx" where
  "mediaEndPending callID =
     bindT (optionalT (GetOpenMediaEndByCall callID)) (\<lambda>i. returnT (i \<noteq> None))"

section \<open>Discovery reads, locking only adds mutex rows\<close>

lemma reads_returnT [intro]: "reads (returnT x)"
  by (simp add: reads_def tx_simps)

lemma reads_failT [intro]: "reads (failT e)"
  by (simp add: reads_def tx_simps)

lemma reads_bindT [intro]: "reads m \<Longrightarrow> (\<And>x. reads (f x)) \<Longrightarrow> reads (bindT m f)"
  unfolding reads_def bindT_Inr_iff by blast

lemma reads_attemptT [intro]: "reads m \<Longrightarrow> (\<And>r. reads (k r)) \<Longrightarrow> reads (attemptT m k)"
  unfolding reads_def attemptT_def by (fastforce split: sum.splits)

lemma reads_optionalT [intro]: "reads m \<Longrightarrow> reads (optionalT m)"
  unfolding optionalT_def by (intro reads_attemptT) (auto split: sum.splits)

lemma reads_mapT [intro]: "(\<And>x. reads (f x)) \<Longrightarrow> reads (mapT f xs)"
  by (induction xs) auto

lemma reads_slotUserInfo: "reads (slotUserInfo u)"
  unfolding slotUserInfo_def by (intro reads_bindT reads_optionalT reads_queries reads_returnT)

lemma reads_slotOwner: "reads (slotOwner s)"
  unfolding slotOwner_def by (auto intro!: reads_bindT reads_optionalT reads_queries)

lemma reads_slotTouched: "reads (slotTouched s)"
  unfolding slotTouched_def Let_def by (auto intro!: reads_bindT reads_queries)

lemma reads_discoverSlot: "reads (discoverSlot s)"
  unfolding discoverSlot_def Let_def
  by (intro reads_bindT reads_mapT reads_slotOwner reads_slotTouched)
    (auto intro!: reads_bindT reads_optionalT reads_queries reads_slotUserInfo)

lemma reads_mediaEndPending: "reads (mediaEndPending c)"
  unfolding mediaEndPending_def by (intro reads_bindT reads_optionalT reads_queries reads_returnT)

lemma reads_slotLockedCall: "reads (slotLockedCall slot c)"
  by (auto simp: slotLockedCall_def intro: reads_queries split: option.splits)

lemma optionalT_Inr [tx_simps]:
  "optionalT m db = Inr (x, db') \<longleftrightarrow>
     (case x of Some y \<Rightarrow> m db = Inr (y, db') | None \<Rightarrow> m db = Inl ErrNoRows \<and> db' = db)"
  by (auto simp: optionalT_def attemptT_def tx_simps split: sum.splits option.splits if_splits)

lemma mapT_Inr:
  assumes f: "\<And>x. reads (f x)" and run: "mapT f xs db = Inr (ys, db')"
  shows "db' = db \<and> list_all2 (\<lambda>x y. f x db = Inr (y, db)) xs ys"
  using run
proof (induction xs arbitrary: ys)
  case Nil
  then show ?case by (simp add: tx_simps)
next
  case (Cons x xs)
  then obtain y t zs where *: "f x db = Inr (y, t)" "mapT f xs t = Inr (zs, db')" "ys = y # zs"
    by (auto simp: tx_simps)
  from f *(1) have "t = db" by (rule readsD)
  with * Cons.IH show ?case by auto
qed

end
