(* ===== verification/Rtc_Repository.thy ===== *)
theory Rtc_Repository
  imports Rtc_Slot
begin

text \<open>
  The call repository of \<open>internal/storage/postgres/repository.go\<close>. Each method is one transaction
  (the \<open>_tx\<close> definitions, from the first query to the commit) run in a world where other clients
  commit transactions of their own before it: \<open>env_others\<close> lists them for every point in time, as
  values of \<open>store_op\<close>, and \<open>env_fault\<close> says when the database connection fails. With the media slot
  guard a method first discovers its locks and retries three times when they changed.
\<close>

section \<open>Conversions\<close>

definition convertError :: "rtc_error \<Rightarrow> rtc_error" where
  "convertError err =
     (case err of
        ErrNoRows \<Rightarrow> ErrNotFound
      | PgError code constraint \<Rightarrow> if code = ''23505'' then ErrConflict else err
      | _ \<Rightarrow> err)"

definition mustParseUUID :: "uuid_parser \<Rightarrow> string \<Rightarrow> rtc_error + uuid" where
  "mustParseUUID parse value =
     (case parse (trim_space value) of None \<Rightarrow> Inl Panic | Some u \<Rightarrow> Inr u)"

definition uuidValue :: "uuid_parser \<Rightarrow> string \<Rightarrow> rtc_error + uuid option" where
  "uuidValue parse value =
     (if trim_space value = '''' then Inr None else bindS (mustParseUUID parse value) (\<lambda>u. Inr (Some u)))"

definition stringPointer :: "string \<Rightarrow> string option" where
  "stringPointer value = (if trim_space value = '''' then None else Some value)"

definition textValue :: "string option \<Rightarrow> string" where
  "textValue value = (case value of None \<Rightarrow> '''' | Some s \<Rightarrow> s)"

definition toDomainScope :: "string \<Rightarrow> uuid option \<Rightarrow> uuid option \<Rightarrow> ConversationScope" where
  "toDomainScope scopeType directChatID groupID =
     (if scopeType = ScopeTypeDirect
      then \<lparr>scope_Type = ScopeTypeDirect, scope_DirectChatID = textValue directChatID, scope_GroupID = ''''\<rparr>
      else \<lparr>scope_Type = ScopeTypeGroup, scope_DirectChatID = '''', scope_GroupID = textValue groupID\<rparr>)"

definition toDomainCallFromBase :: "RtcCall \<Rightarrow> Call" where
  "toDomainCallFromBase row =
     \<lparr>call_ID = c_ID row,
      call_Scope = toDomainScope (c_ScopeType row) (c_DirectChatID row) (c_GroupID row),
      call_CreatedByUserID = c_CreatedByUserID row, call_Status = c_Status row,
      call_ActiveParticipantCount = 0, call_CreatedAt = c_CreatedAt row,
      call_UpdatedAt = c_UpdatedAt row, call_StartedAt = c_StartedAt row, call_EndedAt = c_EndedAt row,
      call_EndedByUserID = c_EndedByUserID row, call_EndReason = textValue (c_EndReason row)\<rparr>"

text \<open>The three row conversions with a participant count (\<open>toDomainCallFromGetCallRow\<close>,
  \<open>toDomainCallFromDirectScopeRow\<close>, \<open>toDomainCallFromGroupScopeRow\<close>) are the same function.\<close>

definition toDomainCallFromGetCallRow :: "RtcCall \<times> nat \<Rightarrow> Call" where
  "toDomainCallFromGetCallRow row =
     (toDomainCallFromBase (fst row))\<lparr>call_ActiveParticipantCount := of_nat (snd row)\<rparr>"

definition toDomainParticipant :: "RtcCallParticipant \<Rightarrow> CallParticipant" where
  "toDomainParticipant row =
     \<lparr>part_ID = p_ID row, part_CallID = p_CallID row, part_UserID = p_UserID row, part_State = p_State row,
      part_JoinedAt = p_JoinedAt row, part_LeftAt = p_LeftAt row, part_UpdatedAt = p_UpdatedAt row,
      part_LastSignalAt = p_LastSignalAt row\<rparr>"

section \<open>The transactions\<close>

definition GetCallByID_tx :: "uuid_parser \<Rightarrow> string \<Rightarrow> Call rtc_tx" where
  "GetCallByID_tx parse callID =
     bindT (liftT (mustParseUUID parse callID)) (\<lambda>cid.
     bindT (mapErrT convertError (GetCallByID cid)) (\<lambda>row.
     returnT (toDomainCallFromGetCallRow row)))"

definition GetActiveCallByScope_tx :: "uuid_parser \<Rightarrow> ConversationScope \<Rightarrow> Call rtc_tx" where
  "GetActiveCallByScope_tx parse scope =
     (if scope_Type scope = ScopeTypeDirect then
        bindT (liftT (uuidValue parse (scope_DirectChatID scope))) (\<lambda>d.
        bindT (mapErrT convertError (GetActiveCallByDirectChatID d)) (\<lambda>row.
        returnT (toDomainCallFromGetCallRow row)))
      else if scope_Type scope = ScopeTypeGroup then
        bindT (liftT (uuidValue parse (scope_GroupID scope))) (\<lambda>g.
        bindT (mapErrT convertError (GetActiveCallByGroupID g)) (\<lambda>row.
        returnT (toDomainCallFromGetCallRow row)))
      else failT ErrInvalidArgument)"

definition GetActiveParticipationByUserID_tx :: "uuid_parser \<Rightarrow> string \<Rightarrow> ActiveParticipation rtc_tx" where
  "GetActiveParticipationByUserID_tx parse userID =
     bindT (liftT (mustParseUUID parse userID)) (\<lambda>uid.
     bindT (mapErrT convertError (GetActiveParticipationByUserID uid)) (\<lambda>row.
     returnT \<lparr>participation_Call = toDomainCallFromBase (fst row),
              participation_Participant = toDomainParticipant (snd row)\<rparr>))"

text \<open>The pattern \<open>if _, err := q(...); err == nil { pending } else if not ErrNoRows { unavailable }\<close>.\<close>

definition refuseMediaEnd :: "RtcMediaControlIntent rtc_tx \<Rightarrow> unit rtc_tx" where
  "refuseMediaEnd q = attemptT q (\<lambda>r. case r of
     Inr _ \<Rightarrow> failT ErrMediaCleanupPending
   | Inl e \<Rightarrow> if e = ErrNoRows then returnT () else failT ErrUnavailable)"

definition CreateCallWithParticipant_tx ::
    "uuid_parser \<Rightarrow> slotTransaction option \<Rightarrow> slotSpec \<Rightarrow> Call \<Rightarrow> CallParticipant \<Rightarrow>
     (Call \<times> CallParticipant) rtc_tx" where
  "CreateCallWithParticipant_tx parse slot spec call participant =
     bindT (if scope_Type (call_Scope call) = ScopeTypeGroup
            then bindT (liftT (mustParseUUID parse (scope_GroupID (call_Scope call)))) (\<lambda>g.
                 refuseMediaEnd (GetOpenMediaEndByGroup g))
            else returnT ()) (\<lambda>_.
     bindT (liftT (mustParseUUID parse (part_UserID participant))) (\<lambda>uid.
     bindT (refuseMediaEnd (GetOpenMediaEndForActiveUser uid)) (\<lambda>_.
     bindT (case slot of None \<Rightarrow> returnT () | Some t \<Rightarrow> liftT (allowLegacyJoin t spec)) (\<lambda>_.
     bindT (mapErrT convertError (ReleaseEndedParticipationByUserID uid (part_UpdatedAt participant))) (\<lambda>_.
     bindT (liftT (mustParseUUID parse (call_ID call))) (\<lambda>cid.
     bindT (liftT (uuidValue parse (scope_DirectChatID (call_Scope call)))) (\<lambda>d.
     bindT (liftT (uuidValue parse (scope_GroupID (call_Scope call)))) (\<lambda>g.
     bindT (liftT (mustParseUUID parse (call_CreatedByUserID call))) (\<lambda>creator.
     bindT (mapErrT convertError (CreateCall cid (scope_Type (call_Scope call)) d g creator (call_Status call)
              (call_CreatedAt call) (call_StartedAt call) (call_UpdatedAt call))) (\<lambda>callRow.
     bindT (liftT (mustParseUUID parse (part_ID participant))) (\<lambda>pid.
     bindT (liftT (mustParseUUID parse (part_CallID participant))) (\<lambda>pcid.
     bindT (mapErrT convertError (CreateParticipant pid pcid uid (part_State participant)
              (part_JoinedAt participant) (part_UpdatedAt participant))) (\<lambda>participantRow.
     returnT ((toDomainCallFromBase callRow)\<lparr>call_ActiveParticipantCount := 1\<rparr>,
              toDomainParticipant participantRow))))))))))))))"

definition JoinParticipant_tx ::
    "uuid_parser \<Rightarrow> slotTransaction option \<Rightarrow> slotSpec \<Rightarrow> CallParticipant \<Rightarrow> (Call \<times> CallParticipant) rtc_tx" where
  "JoinParticipant_tx parse slot spec participant =
     bindT (case slot of None \<Rightarrow> returnT () | Some t \<Rightarrow> liftT (allowLegacyJoin t spec)) (\<lambda>_.
     bindT (liftT (mustParseUUID parse (part_CallID participant))) (\<lambda>cid.
     bindT (mapErrT convertError (slotLockedCall slot cid)) (\<lambda>locked.
     bindT (mediaEndPending (c_ID locked)) (\<lambda>pending.
     if pending then failT ErrMediaCleanupPending
     else if c_Status locked \<noteq> CallStatusActive then failT ErrConflict
     else
     bindT (liftT (mustParseUUID parse (part_UserID participant))) (\<lambda>uid.
     bindT (mapErrT convertError (optionalT (GetActiveParticipantByCallIDAndUserID cid uid))) (\<lambda>existing.
     bindT (case existing of
              Some row \<Rightarrow> returnT row
            | None \<Rightarrow>
                bindT (mapErrT convertError
                         (ReleaseEndedParticipationByUserID uid (part_UpdatedAt participant))) (\<lambda>_.
                bindT (liftT (mustParseUUID parse (part_ID participant))) (\<lambda>pid.
                mapErrT convertError (CreateParticipant pid cid uid (part_State participant)
                  (part_JoinedAt participant) (part_UpdatedAt participant))))) (\<lambda>row.
     bindT (mapErrT convertError (CountActiveParticipantsByCallID (c_ID locked))) (\<lambda>count.
     returnT ((toDomainCallFromBase locked)\<lparr>call_ActiveParticipantCount := of_nat count\<rparr>,
              toDomainParticipant row)))))))))"

definition LeaveParticipantAndMaybeEndCall_tx ::
    "uuid_parser \<Rightarrow> slotTransaction option \<Rightarrow> string \<Rightarrow> string \<Rightarrow> int \<Rightarrow> bool rtc_tx" where
  "LeaveParticipantAndMaybeEndCall_tx parse slot callID participantID at =
     bindT (case slot of None \<Rightarrow> returnT () | Some t \<Rightarrow> liftT (allowLegacyRelease t)) (\<lambda>_.
     bindT (liftT (mustParseUUID parse callID)) (\<lambda>cid.
     bindT (mapErrT convertError (slotLockedCall slot cid)) (\<lambda>call.
     bindT (mediaEndPending (c_ID call)) (\<lambda>pending.
     if pending then failT ErrMediaCleanupPending
     else
     bindT (mapErrT convertError (ListActiveParticipantsByCallID (c_ID call))) (\<lambda>rows.
     if \<not> (\<exists>row\<in>set rows. p_ID row = participantID) then returnT False
     else
     bindT (liftT (mustParseUUID parse participantID)) (\<lambda>pid.
     bindT (mapErrT convertError (LeaveParticipant pid at at)) (\<lambda>_.
     bindT (mapErrT convertError (CountActiveParticipantsByCallID (c_ID call))) (\<lambda>count.
     bindT (if count = 0
            then bindT (mapErrT convertError (EndCall_sql (c_ID call) at at None
                   (stringPointer CallEndReasonLastParticipant))) (\<lambda>_. returnT ())
            else returnT ()) (\<lambda>_.
     returnT True)))))))))"

definition EndCallWithParticipants_tx ::
    "uuid_parser \<Rightarrow> slotTransaction option \<Rightarrow> string \<Rightarrow> string \<Rightarrow> int \<Rightarrow> (Call \<times> CallParticipant list) rtc_tx" where
  "EndCallWithParticipants_tx parse slot callID userID at =
     bindT (liftT (mustParseUUID parse callID)) (\<lambda>cid.
     bindT (mapErrT convertError (slotLockedCall slot cid)) (\<lambda>call.
     bindT (mediaEndPending (c_ID call)) (\<lambda>pending.
     if pending then
       if c_CreatedByUserID call \<noteq> userID then failT ErrPermissionDenied else failT ErrMediaCleanupPending
     else if c_Status call \<noteq> CallStatusActive then failT ErrConflict
     else if c_CreatedByUserID call \<noteq> userID then failT ErrPermissionDenied
     else
     bindT (case slot of None \<Rightarrow> returnT () | Some t \<Rightarrow> liftT (allowLegacyRelease t)) (\<lambda>_.
     bindT (mapErrT convertError (ListActiveParticipantsByCallID (c_ID call))) (\<lambda>rows.
     bindT (mapErrT convertError (LeaveActiveParticipantsByCallID (c_ID call) at at)) (\<lambda>_.
     bindT (liftT (uuidValue parse userID)) (\<lambda>ender.
     bindT (mapErrT convertError (EndCall_sql (c_ID call) at at ender (stringPointer CallEndReasonManual))) (\<lambda>_.
     returnT ((toDomainCallFromBase call)\<lparr>call_Status := CallStatusEnded, call_UpdatedAt := at,
                call_EndedAt := Some at, call_EndedByUserID := Some userID,
                call_EndReason := CallEndReasonManual\<rparr>,
              map (\<lambda>row. (toDomainParticipant row)\<lparr>part_State := ParticipantStateLeft,
                           part_LeftAt := Some at, part_UpdatedAt := at\<rparr>) rows)))))))))"

definition GetActiveParticipant_tx :: "uuid_parser \<Rightarrow> string \<Rightarrow> string \<Rightarrow> CallParticipant rtc_tx" where
  "GetActiveParticipant_tx parse callID userID =
     bindT (liftT (mustParseUUID parse callID)) (\<lambda>cid.
     bindT (liftT (mustParseUUID parse userID)) (\<lambda>uid.
     bindT (mapErrT convertError (GetActiveParticipantByCallIDAndUserID cid uid)) (\<lambda>row.
     returnT (toDomainParticipant row))))"

definition ListActiveParticipants_tx :: "uuid_parser \<Rightarrow> string \<Rightarrow> CallParticipant list rtc_tx" where
  "ListActiveParticipants_tx parse callID =
     bindT (liftT (mustParseUUID parse callID)) (\<lambda>cid.
     bindT (mapErrT convertError (ListActiveParticipantsByCallID cid)) (\<lambda>rows.
     returnT (map toDomainParticipant rows)))"

definition TouchParticipantSignal_tx :: "uuid_parser \<Rightarrow> string \<Rightarrow> int \<Rightarrow> unit rtc_tx" where
  "TouchParticipantSignal_tx parse participantID at =
     bindT (liftT (mustParseUUID parse participantID)) (\<lambda>pid.
     bindT (mapErrT convertError (TouchParticipantSignal pid at at)) (\<lambda>_. returnT ()))"

end
