(* ===== verification/Rtc_Lifecycle.thy ===== *)
theory Rtc_Lifecycle
  imports Rtc_Repository
begin

text \<open>
  The life cycle of a call: a call is active exactly as long as it has an active participant.
  The schema does not say so; the repository transactions keep it. Together with the schema and
  with canonical participant identifiers it forms \<open>rtc_inv\<close>, which every transaction keeps.
\<close>

definition lifecycle_ok :: "rtc_db \<Rightarrow> bool" where
  "lifecycle_ok db \<longleftrightarrow>
     (\<forall>p\<in>set (rtc_call_participants db). part_active p \<longrightarrow>
        (\<exists>c\<in>set (rtc_calls db). c_ID c = p_CallID p \<and> call_active c)) \<and>
     (\<forall>c\<in>set (rtc_calls db). call_active c \<longrightarrow>
        (\<exists>p\<in>set (rtc_call_participants db). p_CallID p = c_ID c \<and> part_active p))"

definition canonical :: "uuid_parser \<Rightarrow> uuid \<Rightarrow> bool" where
  "canonical parse u \<longleftrightarrow> parse (trim_space u) = Some u"

text \<open>Documented behaviour of \<open>google/uuid\<close>: \<open>String\<close> prints a form that \<open>Parse\<close> reads back.\<close>

definition parser_ok :: "uuid_parser \<Rightarrow> bool" where
  "parser_ok parse \<longleftrightarrow> (\<forall>s u. parse s = Some u \<longrightarrow> canonical parse u)"

definition rtc_inv :: "uuid_parser \<Rightarrow> rtc_db \<Rightarrow> bool" where
  "rtc_inv parse db \<longleftrightarrow> schema_ok db \<and> lifecycle_ok db \<and>
     (\<forall>p\<in>set (rtc_call_participants db). canonical parse (p_ID p))"

lemma rtc_invD:
  assumes "rtc_inv parse db"
  shows "schema_ok db" "lifecycle_ok db" "p \<in> set (rtc_call_participants db) \<Longrightarrow> canonical parse (p_ID p)"
  using assms by (simp_all add: rtc_inv_def)

lemma mustParseUUID_Inr: "mustParseUUID parse v = Inr u \<longleftrightarrow> parse (trim_space v) = Some u"
  by (auto simp: mustParseUUID_def split: option.splits)

lemma parser_okD: "parser_ok parse \<Longrightarrow> mustParseUUID parse v = Inr u \<Longrightarrow> canonical parse u"
  by (auto simp: parser_ok_def mustParseUUID_Inr)

lemma call_unique: "schema_ok db \<Longrightarrow> c \<in> set (rtc_calls db) \<Longrightarrow> d \<in> set (rtc_calls db) \<Longrightarrow>
    c_ID c = c_ID d \<Longrightarrow> c = d"
  unfolding schema_ok_def by (elim conjE) (rule distinct_keyD)

lemma part_unique: "schema_ok db \<Longrightarrow> p \<in> set (rtc_call_participants db) \<Longrightarrow>
    q \<in> set (rtc_call_participants db) \<Longrightarrow> p_ID p = p_ID q \<Longrightarrow> p = q"
  unfolding schema_ok_def by (elim conjE) (rule distinct_keyD)

lemma active_user_unique: "schema_ok db \<Longrightarrow> p \<in> set (rtc_call_participants db) \<Longrightarrow>
    q \<in> set (rtc_call_participants db) \<Longrightarrow> part_active p \<Longrightarrow> part_active q \<Longrightarrow> p_UserID p = p_UserID q \<Longrightarrow> p = q"
  unfolding schema_ok_def by (elim conjE) (rule distinct_filter_keyD)

lemma active_parts_set: "p \<in> set (active_parts db c) \<longleftrightarrow>
    p \<in> set (rtc_call_participants db) \<and> p_CallID p = c \<and> part_active p"
  by (auto simp: active_parts_def)

section \<open>Changes of the database, seen through the invariant\<close>

lemma update_parts_rows:
  "rtc_call_participants (update_parts hit f db) =
     map (\<lambda>p. if hit p then f p else p) (rtc_call_participants db)"
  by (simp add: update_parts_def)

lemma inv_release_noop:
  assumes "schema_ok db" "lifecycle_ok db"
  shows "ReleaseEndedParticipationByUserID u at db = Inr ((), db)"
proof -
  have no: "\<not> (c_ID c = p_CallID p \<and> c_Status c = CallStatusEnded)"
    if "p \<in> set (rtc_call_participants db)" "part_active p" "c \<in> set (rtc_calls db)" for p c
  proof
    assume c: "c_ID c = p_CallID p \<and> c_Status c = CallStatusEnded"
    from assms(2) that(1,2) obtain d where d: "d \<in> set (rtc_calls db)" "c_ID d = p_CallID p" "call_active d"
      by (auto simp: lifecycle_ok_def)
    with assms(1) that(3) c have "c = d" by (metis call_unique)
    with c d(3) show False by simp
  qed
  have "map (\<lambda>p. if p_UserID p = u \<and> part_active p \<and>
             (\<exists>c\<in>set (rtc_calls db). c_ID c = p_CallID p \<and> c_Status c = CallStatusEnded)
           then leave_part_row at at p else p) (rtc_call_participants db) = rtc_call_participants db"
    by (rule map_idI) (use no in auto)
  then show ?thesis
    by (simp add: ReleaseEndedParticipationByUserID_def update_parts_def)
qed

lemma lifecycle_new_call:
  assumes ok: "lifecycle_ok db" "schema_ok db"
    and c: "call_active c" "c_ID c \<notin> c_ID ` set (rtc_calls db)"
    and p: "part_active p" "p_CallID p = c_ID c"
    and db': "rtc_calls db' = rtc_calls db @ [c]" "rtc_call_participants db' = rtc_call_participants db @ [p]"
  shows "lifecycle_ok db'"
  using ok c p unfolding lifecycle_ok_def db' by auto

lemma lifecycle_new_part:
  assumes ok: "lifecycle_ok db"
    and p: "c \<in> set (rtc_calls db)" "call_active c" "p_CallID p = c_ID c"
    and db': "rtc_calls db' = rtc_calls db" "rtc_call_participants db' = rtc_call_participants db @ [p]"
  shows "lifecycle_ok db'"
  using ok p unfolding lifecycle_ok_def db' by auto

lemma lifecycle_ok_keys:
  "lifecycle_ok db \<longleftrightarrow>
     (\<forall>k. (k, ParticipantStateActive) \<in> (\<lambda>p. (p_CallID p, p_State p)) ` set (rtc_call_participants db) \<longleftrightarrow>
          (k, CallStatusActive) \<in> (\<lambda>c. (c_ID c, c_Status c)) ` set (rtc_calls db))"
proof -
  have pair: "(k, a) \<in> (\<lambda>x. (f x, g x)) ` S \<longleftrightarrow> (\<exists>x\<in>S. f x = k \<and> g x = a)"
    for k a and f :: "'b \<Rightarrow> 'c" and g :: "'b \<Rightarrow> 'd" and S by auto
  show ?thesis unfolding lifecycle_ok_def pair by blast
qed

lemma lifecycle_touch: "lifecycle_ok db \<Longrightarrow> lifecycle_ok (update_parts hit (touch_part_row l u) db)"
proof -
  assume ok: "lifecycle_ok db"
  have "(\<lambda>p. (p_CallID p, p_State p)) ` set (rtc_call_participants (update_parts hit (touch_part_row l u) db))
      = (\<lambda>p. (p_CallID p, p_State p)) ` set (rtc_call_participants db)"
    unfolding update_parts_rows by (rule image_key_update) simp
  with ok show ?thesis by (simp add: lifecycle_ok_keys)
qed

text \<open>
  Leaving: some participants of one call \<open>c\<close> become inactive, and \<open>c\<close> is ended exactly when none of
  its participants stays active.
\<close>

lemma lifecycle_leave:
  assumes ok: "lifecycle_ok db" "schema_ok db" and c: "c \<in> set (rtc_calls db)"
    and hit: "\<And>p. p \<in> set (rtc_call_participants db) \<Longrightarrow> hit p \<Longrightarrow> p_CallID p = c_ID c"
    and parts: "rtc_call_participants db' = rtc_call_participants (update_parts hit (leave_part_row l u) db)"
    and calls: "rtc_calls db' = rtc_calls (if active_parts (update_parts hit (leave_part_row l u) db) (c_ID c) = []
        then update_calls (\<lambda>d. c_ID d = c_ID c \<and> call_active d) (end_call_row a e b r) db else db)"
  shows "lifecycle_ok db'"
proof -
  let ?db1 = "update_parts hit (leave_part_row l u) db"
  let ?ended = "active_parts ?db1 (c_ID c) = []"
  have stay: "p \<in> set (rtc_call_participants db') \<Longrightarrow> part_active p \<Longrightarrow>
      p \<in> set (rtc_call_participants db) \<and> \<not> hit p" for p
    unfolding parts update_parts_set by (auto split: if_splits)
  have kept: "p \<in> set (rtc_call_participants db) \<Longrightarrow> \<not> hit p \<Longrightarrow> p \<in> set (rtc_call_participants db')" for p
    unfolding parts update_parts_set by (auto intro: image_eqI [where x = p])
  have other: "d \<in> set (rtc_calls db) \<Longrightarrow> c_ID d \<noteq> c_ID c \<or> \<not> ?ended \<Longrightarrow> d \<in> set (rtc_calls db')" for d
    unfolding calls by (auto simp: update_calls_set intro: image_eqI [where x = d])
  have snapBefore: "d \<in> set (rtc_calls db') \<Longrightarrow> call_active d \<Longrightarrow>
      d \<in> set (rtc_calls db) \<and> (c_ID d = c_ID c \<longrightarrow> \<not> ?ended)" for d
    unfolding calls by (auto simp: update_calls_set split: if_splits)
  have some: "\<not> ?ended \<Longrightarrow> \<exists>p\<in>set (rtc_call_participants db'). p_CallID p = c_ID c \<and> part_active p"
    by (auto simp: active_parts_def filter_empty_conv parts)
  have none: "p \<in> set (rtc_call_participants db') \<Longrightarrow> part_active p \<Longrightarrow> p_CallID p = c_ID c \<Longrightarrow> \<not> ?ended" for p
    by (auto simp: active_parts_def filter_empty_conv parts)
  show ?thesis
    unfolding lifecycle_ok_def
  proof (intro conjI ballI impI)
    fix p assume p: "p \<in> set (rtc_call_participants db')" "part_active p"
    with stay ok(1) obtain d where d: "d \<in> set (rtc_calls db)" "c_ID d = p_CallID p" "call_active d"
      unfolding lifecycle_ok_def by blast
    with none [OF p] other [OF d(1)] show "\<exists>c\<in>set (rtc_calls db'). c_ID c = p_CallID p \<and> call_active c"
      by metis
  next
    fix d assume d: "d \<in> set (rtc_calls db')" "call_active d"
    show "\<exists>p\<in>set (rtc_call_participants db'). p_CallID p = c_ID d \<and> part_active p"
    proof (cases "c_ID d = c_ID c")
      case True
      with snapBefore [OF d] some show ?thesis by simp
    next
      case False
      from snapBefore [OF d] ok(1) d(2) obtain p where p: "p \<in> set (rtc_call_participants db)"
        "p_CallID p = c_ID d" "part_active p" unfolding lifecycle_ok_def by blast
      with hit False kept show ?thesis by metis
    qed
  qed
qed

section \<open>Every transaction keeps the invariant\<close>

text \<open>What the slot of a guarded transaction knows of the database it was taken in.\<close>

definition slot_ok :: "slotTransaction option \<Rightarrow> rtc_db \<Rightarrow> bool" where
  "slot_ok slot db \<longleftrightarrow>
     (\<forall>t i c. slot = Some t \<longrightarrow> slot_calls t i = Some c \<longrightarrow> c \<in> set (rtc_calls db) \<and> c_ID c = i)"

lemma slot_ok_None [simp]: "slot_ok None db"
  by (simp add: slot_ok_def)

lemma slotLockedCall_Inr:
  assumes "slot_ok slot db" and "slotLockedCall slot i db = Inr (c, db')"
  shows "db' = db \<and> c \<in> set (rtc_calls db) \<and> c_ID c = i"
  using assms
  by (auto simp: slotLockedCall_def slot_ok_def LockCallByID_def tx_simps
      dest: find_SomeD split: option.splits)

lemma inv_gen:
  assumes "rtc_inv parse db" "rtc_calls db' = rtc_calls db"
    "rtc_call_participants db' = rtc_call_participants db" "users db' = users db"
  shows "rtc_inv parse db'"
  using assms by (simp add: rtc_inv_def schema_ok_def lifecycle_ok_def)

lemma refuseMediaEnd_Inr [tx_simps]:
  "reads q \<Longrightarrow> refuseMediaEnd q db = Inr (u, db') \<longleftrightarrow> q db = Inl ErrNoRows \<and> db' = db"
  by (auto simp: refuseMediaEnd_def attemptT_def tx_simps split: sum.splits if_splits)

lemma CreateCall_Inr:
  assumes "CreateCall i t d g b s ca sa ua db = Inr (x, db')"
  shows "db' = db\<lparr>rtc_calls := rtc_calls db @ [x]\<rparr>" "c_ID x = i" "c_ScopeType x = t"
    "c_DirectChatID x = d" "c_GroupID x = g" "c_CreatedByUserID x = b" "c_Status x = CallStatusActive"
    "c_ID x \<notin> c_ID ` set (rtc_calls db)" "c_EndedAt x = None" "c_CreatedAt x = ca" "c_StartedAt x = sa"
  using assms
  by (auto simp: CreateCall_def Let_def rtc_calls_check_def rtc_calls_unique_def
      split: if_splits option.splits)

lemma CreateParticipant_Inr:
  assumes "CreateParticipant i c u s ja ua db = Inr (x, db')"
  shows "db' = db\<lparr>rtc_call_participants := rtc_call_participants db @ [x]\<rparr>" "p_ID x = i"
    "p_CallID x = c" "p_UserID x = u" "part_active x" "p_JoinedAt x = ja" "p_UpdatedAt x = ua"
    "\<forall>q\<in>set (rtc_call_participants db). part_active q \<longrightarrow> p_UserID q \<noteq> u"
  using assms
  by (auto simp: CreateParticipant_def Let_def rtc_call_participants_check_def
      rtc_call_participants_unique_def split: if_splits option.splits)

lemma CreateCallWithParticipant_run:
  assumes inv: "rtc_inv parse db"
    and same: "mustParseUUID parse (part_CallID p) = mustParseUUID parse (call_ID c)"
    and run: "CreateCallWithParticipant_tx parse slot spec c p db = Inr (r, db')"
  shows "\<exists>uid cid pid cr pr d g b db1.
      CreateCall cid (scope_Type (call_Scope c)) d g b (call_Status c) (call_CreatedAt c)
        (call_StartedAt c) (call_UpdatedAt c) db = Inr (cr, db1) \<and>
      CreateParticipant pid cid uid (part_State p) (part_JoinedAt p) (part_UpdatedAt p) db1 = Inr (pr, db') \<and>
      mustParseUUID parse (part_ID p) = Inr pid \<and> mustParseUUID parse (part_UserID p) = Inr uid \<and>
      mustParseUUID parse (call_ID c) = Inr cid \<and> mustParseUUID parse (call_CreatedByUserID c) = Inr b \<and>
      uuidValue parse (scope_DirectChatID (call_Scope c)) = Inr d \<and>
      uuidValue parse (scope_GroupID (call_Scope c)) = Inr g \<and>
      r = ((toDomainCallFromBase cr)\<lparr>call_ActiveParticipantCount := 1\<rparr>, toDomainParticipant pr)"
  using run rtc_invD(1,2) [OF inv]
  unfolding CreateCallWithParticipant_tx_def
  apply (elim bindT_InrE)
  apply (simp add: tx_simps reads_queries same split: if_splits option.splits)
     apply (clarsimp simp: tx_simps reads_queries inv_release_noop; blast)+
  done

lemma inv_CreateCallWithParticipant:
  assumes inv: "rtc_inv parse db" and parser: "parser_ok parse"
    and same: "mustParseUUID parse (part_CallID p) = mustParseUUID parse (call_ID c)"
    and run: "CreateCallWithParticipant_tx parse slot spec c p db = Inr (r, db')"
  shows "rtc_inv parse db'"
proof -
  from CreateCallWithParticipant_run [OF inv same run] obtain uid cid pid cr pr d g b db1 where
      cr: "CreateCall cid (scope_Type (call_Scope c)) d g b (call_Status c) (call_CreatedAt c)
             (call_StartedAt c) (call_UpdatedAt c) db = Inr (cr, db1)" and
      pr: "CreateParticipant pid cid uid (part_State p) (part_JoinedAt p) (part_UpdatedAt p) db1 = Inr (pr, db')" and
      pid: "mustParseUUID parse (part_ID p) = Inr pid" by blast
  note C = CreateCall_Inr [OF cr] and P = CreateParticipant_Inr [OF pr]
  from schema_CreateCall rtc_invD(1) [OF inv] cr have "schema_ok db1" by (rule keepsD)
  with schema_CreateParticipant have "schema_ok db'" using pr by (rule keepsD)
  moreover have "lifecycle_ok db'"
    by (rule lifecycle_new_call [OF rtc_invD(2) [OF inv] rtc_invD(1) [OF inv] C(7,8) P(5)])
      (simp_all add: P(1,3) C(1,2))
  moreover from parser pid have "canonical parse pid" by (rule parser_okD)
  moreover have "rtc_call_participants db' = rtc_call_participants db @ [pr]"
    by (simp add: P(1) C(1))
  ultimately show ?thesis
    using rtc_invD(3) [OF inv] P(2) by (auto simp: rtc_inv_def)
qed

lemma slot_check_Inr: "(case slot of None \<Rightarrow> returnT () | Some t \<Rightarrow> liftT (f t)) db = Inr (u, db') \<Longrightarrow> db' = db"
  by (auto simp: tx_simps split: option.splits)

lemma CountActive_Inr [tx_simps]:
  "CountActiveParticipantsByCallID c db = Inr (n, db') \<longleftrightarrow> n = length (active_parts db c) \<and> db' = db"
  by (auto simp: CountActiveParticipantsByCallID_def tx_simps)

lemma GetActiveParticipant_Inr [tx_simps]:
  "GetActiveParticipantByCallIDAndUserID c u db = Inr (p, db') \<longleftrightarrow> db' = db \<and>
     find (\<lambda>p. p_CallID p = c \<and> p_UserID p = u \<and> part_active p) (rtc_call_participants db) = Some p"
  "GetActiveParticipantByCallIDAndUserID c u db = Inl e \<longleftrightarrow> e = ErrNoRows \<and>
     find (\<lambda>p. p_CallID p = c \<and> p_UserID p = u \<and> part_active p) (rtc_call_participants db) = None"
  by (auto simp: GetActiveParticipantByCallIDAndUserID_def tx_simps)

lemma JoinParticipant_run:
  assumes inv: "rtc_inv parse db" and slot: "slot_ok slot db"
    and run: "JoinParticipant_tx parse slot spec p db = Inr (r, db')"
  shows "\<exists>cid uid locked row.
      mustParseUUID parse (part_CallID p) = Inr cid \<and> mustParseUUID parse (part_UserID p) = Inr uid \<and>
      locked \<in> set (rtc_calls db) \<and> c_ID locked = cid \<and> call_active locked \<and>
      r = ((toDomainCallFromBase locked)\<lparr>call_ActiveParticipantCount := of_nat (length (active_parts db' cid))\<rparr>,
           toDomainParticipant row) \<and>
      (find (\<lambda>p. p_CallID p = cid \<and> p_UserID p = uid \<and> part_active p) (rtc_call_participants db) = Some row \<and>
         db' = db \<or>
       find (\<lambda>p. p_CallID p = cid \<and> p_UserID p = uid \<and> part_active p) (rtc_call_participants db) = None \<and>
       (\<exists>pid. mustParseUUID parse (part_ID p) = Inr pid \<and>
          CreateParticipant pid cid uid (part_State p) (part_JoinedAt p) (part_UpdatedAt p) db = Inr (row, db')))"
  using run rtc_invD(1,2) [OF inv]
  unfolding JoinParticipant_tx_def
  apply (elim bindT_InrE)
  apply (drule slot_check_Inr)
  apply (simp add: tx_simps split: if_splits)
  apply (drule slotLockedCall_Inr [OF slot])
  apply (drule readsD [OF reads_mediaEndPending])
  apply (clarsimp simp: tx_simps inv_release_noop split: option.splits)
  apply (elim disjE exE conjE; clarsimp simp: tx_simps inv_release_noop; blast)
  done

lemma inv_new_participant:
  assumes inv: "rtc_inv parse db" and parser: "parser_ok parse"
    and locked: "locked \<in> set (rtc_calls db)" "call_active locked"
    and pid: "mustParseUUID parse v = Inr pid"
    and run: "CreateParticipant pid (c_ID locked) uid s ja ua db = Inr (row, db')"
  shows "rtc_inv parse db'"
proof -
  note P = CreateParticipant_Inr [OF run]
  from schema_CreateParticipant rtc_invD(1) [OF inv] run have "schema_ok db'" by (rule keepsD)
  moreover have "lifecycle_ok db'"
    by (rule lifecycle_new_part [OF rtc_invD(2) [OF inv] locked P(3)]) (simp_all add: P(1))
  moreover from parser pid have "canonical parse pid" by (rule parser_okD)
  moreover have "rtc_call_participants db' = rtc_call_participants db @ [row]" by (simp add: P(1))
  ultimately show ?thesis
    using rtc_invD(3) [OF inv] P(2) by (auto simp: rtc_inv_def)
qed

lemma inv_JoinParticipant:
  assumes "rtc_inv parse db" "parser_ok parse" "slot_ok slot db"
    and "JoinParticipant_tx parse slot spec p db = Inr (r, db')"
  shows "rtc_inv parse db'"
  using JoinParticipant_run [OF assms(1,3,4)] assms(1) inv_new_participant [OF assms(1,2)] by blast

lemma update_calls_none: "(\<And>c. c \<in> set (rtc_calls db) \<Longrightarrow> \<not> hit c) \<Longrightarrow> update_calls hit f db = db"
proof -
  assume no: "\<And>c. c \<in> set (rtc_calls db) \<Longrightarrow> \<not> hit c"
  have "map (\<lambda>c. if hit c then f c else c) (rtc_calls db) = rtc_calls db"
    by (rule map_idI) (use no in simp)
  then show ?thesis by (simp add: update_calls_def)
qed

lemma EndCall_sql_Inr:
  assumes run: "EndCall_sql i u e b r db = Inr (n, db')"
  shows "db' = update_calls (\<lambda>c. c_ID c = i \<and> call_active c) (end_call_row u e b r) db"
proof (cases "filter (\<lambda>c. c_ID c = i \<and> call_active c) (rtc_calls db) = []")
  case True
  then have "update_calls (\<lambda>c. c_ID c = i \<and> call_active c) (end_call_row u e b r) db = db"
    by (intro update_calls_none) (auto simp: filter_empty_conv)
  with True run show ?thesis by (simp add: EndCall_sql_def)
next
  case False
  with run show ?thesis by (auto simp: EndCall_sql_def Let_def split: if_splits)
qed

text \<open>The database after participants of a call left: the call ends with the last of them.\<close>

definition after_leave ::
    "(RtcCallParticipant \<Rightarrow> bool) \<Rightarrow> uuid \<Rightarrow> int \<Rightarrow> uuid option \<Rightarrow> string option \<Rightarrow> rtc_db \<Rightarrow> rtc_db" where
  "after_leave hit c at endedBy reason db =
     (let db1 = update_parts hit (leave_part_row at at) db
      in if active_parts db1 c = []
         then update_calls (\<lambda>d. c_ID d = c \<and> call_active d) (end_call_row at at endedBy reason) db1 else db1)"

lemma active_parts_update_calls [simp]: "active_parts (update_calls hit f db) c = active_parts db c"
  by (simp add: active_parts_def)

lemma inv_after_leave:
  assumes inv: "rtc_inv parse db" and c: "c \<in> set (rtc_calls db)"
    and hit: "\<And>p. p \<in> set (rtc_call_participants db) \<Longrightarrow> hit p \<Longrightarrow> p_CallID p = c_ID c"
    and reason: "reason \<in> {Some CallEndReasonManual, Some CallEndReasonLastParticipant}"
  shows "rtc_inv parse (after_leave hit (c_ID c) at endedBy reason db)"
proof -
  let ?db1 = "update_parts hit (leave_part_row at at) db"
  let ?db2 = "after_leave hit (c_ID c) at endedBy reason db"
  let ?ended = "\<lambda>d. c_ID d = c_ID c \<and> call_active d" and ?row = "end_call_row at at endedBy reason"
  have s1: "schema_ok ?db1" using rtc_invD(1) [OF inv] by (rule schema_ok_leave)
  have "rtc_calls_check (?row d)" if "d \<in> set (rtc_calls db)" for d
    using rtc_invD(1) [OF inv] that reason by (auto simp: schema_ok_def rtc_calls_check_def)
  then have "schema_ok (update_calls ?ended ?row ?db1)"
    by (intro schema_ok_update_calls [OF s1]) auto
  with s1 have "schema_ok ?db2" by (simp add: after_leave_def Let_def)
  moreover have parts: "rtc_call_participants ?db2 = rtc_call_participants ?db1"
    by (simp add: after_leave_def Let_def)
  have calls: "rtc_calls ?db2 = rtc_calls (if active_parts ?db1 (c_ID c) = []
      then update_calls ?ended ?row db else db)"
    by (simp add: after_leave_def Let_def update_calls_def)
  have "lifecycle_ok ?db2"
    by (rule lifecycle_leave [OF rtc_invD(2,1) [OF inv] c hit parts calls])
  moreover have "canonical parse (p_ID p)" if "p \<in> set (rtc_call_participants ?db1)" for p
    using that rtc_invD(3) [OF inv] by (auto simp: update_parts_set split: if_splits)
  then have "\<forall>p\<in>set (rtc_call_participants ?db2). canonical parse (p_ID p)"
    by (simp add: parts)
  ultimately show ?thesis by (simp add: rtc_inv_def)
qed

lemma ListActive_Inr [tx_simps]:
  "ListActiveParticipantsByCallID c db = Inr (ps, db') \<longleftrightarrow>
     ps = sort_key (\<lambda>p. (p_JoinedAt p, p_ID p)) (active_parts db c) \<and> db' = db"
  by (auto simp: ListActiveParticipantsByCallID_def tx_simps)

lemma leave_writes_run [tx_simps]:
  "LeaveParticipant i l u db =
     Inr (length (filter (\<lambda>p. p_ID p = i \<and> part_active p) (rtc_call_participants db)),
          update_parts (\<lambda>p. p_ID p = i \<and> part_active p) (leave_part_row l u) db)"
  "LeaveActiveParticipantsByCallID c l u db =
     Inr (length (active_parts db c), update_parts (\<lambda>p. p_CallID p = c \<and> part_active p) (leave_part_row l u) db)"
  "TouchParticipantSignal i l u db =
     Inr (length (filter (\<lambda>p. p_ID p = i \<and> part_active p) (rtc_call_participants db)),
          update_parts (\<lambda>p. p_ID p = i \<and> part_active p) (touch_part_row l u) db)"
  by (simp_all add: LeaveParticipant_def LeaveActiveParticipantsByCallID_def TouchParticipantSignal_def
      active_parts_def Let_def)

lemma stringPointer_reasons:
  "stringPointer CallEndReasonLastParticipant = Some CallEndReasonLastParticipant"
  "stringPointer CallEndReasonManual = Some CallEndReasonManual"
  by code_simp+

lemma LeaveParticipant_run:
  assumes slot: "slot_ok slot db"
    and run: "LeaveParticipantAndMaybeEndCall_tx parse slot callID participantID at db = Inr (left, db')"
  shows "if left
    then \<exists>pid call row. mustParseUUID parse callID = Inr (c_ID call) \<and>
           mustParseUUID parse participantID = Inr pid \<and> call \<in> set (rtc_calls db) \<and>
           row \<in> set (active_parts db (c_ID call)) \<and> p_ID row = participantID \<and>
           db' = after_leave (\<lambda>p. p_ID p = pid \<and> part_active p) (c_ID call) at None
                   (Some CallEndReasonLastParticipant) db
    else db' = db"
  using run
  unfolding LeaveParticipantAndMaybeEndCall_tx_def
  apply (elim bindT_InrE)
  apply (drule slot_check_Inr)
  apply (simp only: mapErrT_Inr_iff liftT_Inr_iff)
  apply (elim conjE)
  apply (drule slotLockedCall_Inr [OF slot])
  apply (drule readsD [OF reads_mediaEndPending])
  apply (simp add: tx_simps stringPointer_reasons split: if_splits)
  apply (elim exE conjE)
  apply (rename_tac call pending n x)
  apply (subgoal_tac "left \<and> mustParseUUID parse participantID = Inr x \<and>
      db' = after_leave (\<lambda>p. p_ID p = x \<and> part_active p) (c_ID call) at None
              (Some CallEndReasonLastParticipant) db")
   apply blast
  apply (auto simp: after_leave_def Let_def dest!: EndCall_sql_Inr)
  done

lemma inv_LeaveParticipant:
  assumes inv: "rtc_inv parse db" and slot: "slot_ok slot db"
    and run: "LeaveParticipantAndMaybeEndCall_tx parse slot callID participantID at db = Inr (left, db')"
  shows "rtc_inv parse db'"
proof (cases left)
  case False
  with LeaveParticipant_run [OF slot run] inv show ?thesis by simp
next
  case True
  with LeaveParticipant_run [OF slot run] obtain pid call row where
    pid: "mustParseUUID parse participantID = Inr pid" and call: "call \<in> set (rtc_calls db)" and
    row: "row \<in> set (active_parts db (c_ID call))" "p_ID row = participantID" and
    db': "db' = after_leave (\<lambda>p. p_ID p = pid \<and> part_active p) (c_ID call) at None
            (Some CallEndReasonLastParticipant) db" by auto
  from row have r: "row \<in> set (rtc_call_participants db)" "p_CallID row = c_ID call"
    by (auto simp: active_parts_set)
  from rtc_invD(3) [OF inv r(1)] row(2) pid have same: "pid = p_ID row"
    by (simp add: canonical_def mustParseUUID_Inr)
  have "p_CallID p = c_ID call" if "p \<in> set (rtc_call_participants db)" "p_ID p = pid \<and> part_active p" for p
    using part_unique [OF rtc_invD(1) [OF inv] that(1) r(1)] that(2) same r(2) by simp
  then show ?thesis unfolding db' by (rule inv_after_leave [OF inv call]) simp_all
qed

lemma active_parts_left [simp]:
  "active_parts (update_parts (\<lambda>p. p_CallID p = c \<and> part_active p) (leave_part_row l u) db) c = []"
proof -
  have "\<not> (p_CallID q = c \<and> part_active q)" if "q \<in> set (rtc_call_participants
      (update_parts (\<lambda>p. p_CallID p = c \<and> part_active p) (leave_part_row l u) db))" for q
    using that unfolding update_parts_set by (elim imageE) (simp split: if_splits)
  then show ?thesis unfolding active_parts_def filter_empty_conv by blast
qed

lemma EndCallWithParticipants_run:
  assumes slot: "slot_ok slot db"
    and run: "EndCallWithParticipants_tx parse slot callID userID at db = Inr (r, db')"
  shows "\<exists>call ender. mustParseUUID parse callID = Inr (c_ID call) \<and> uuidValue parse userID = Inr ender \<and>
      call \<in> set (rtc_calls db) \<and> call_active call \<and> c_CreatedByUserID call = userID \<and>
      fst r = (toDomainCallFromBase call)\<lparr>call_Status := CallStatusEnded, call_UpdatedAt := at,
                call_EndedAt := Some at, call_EndedByUserID := Some userID,
                call_EndReason := CallEndReasonManual\<rparr> \<and>
      snd r = map (\<lambda>row. (toDomainParticipant row)\<lparr>part_State := ParticipantStateLeft,
                           part_LeftAt := Some at, part_UpdatedAt := at\<rparr>)
                (sort_key (\<lambda>p. (p_JoinedAt p, p_ID p)) (active_parts db (c_ID call))) \<and>
      db' = after_leave (\<lambda>p. p_CallID p = c_ID call \<and> part_active p) (c_ID call) at ender
              (Some CallEndReasonManual) db"
  using run
  unfolding EndCallWithParticipants_tx_def
  apply (elim bindT_InrE)
  apply (simp only: mapErrT_Inr_iff liftT_Inr_iff)
  apply (elim conjE)
  apply (drule slotLockedCall_Inr [OF slot])
  apply (drule readsD [OF reads_mediaEndPending])
  apply (clarsimp simp: tx_simps stringPointer_reasons split: if_splits)
  apply (drule slot_check_Inr)
  apply (force simp: after_leave_def dest!: EndCall_sql_Inr)
  done

lemma inv_EndCallWithParticipants:
  assumes "rtc_inv parse db" "slot_ok slot db"
    and "EndCallWithParticipants_tx parse slot callID userID at db = Inr (r, db')"
  shows "rtc_inv parse db'"
proof -
  from EndCallWithParticipants_run [OF assms(2,3)] obtain call ender where
    call: "call \<in> set (rtc_calls db)" and
    db': "db' = after_leave (\<lambda>p. p_CallID p = c_ID call \<and> part_active p) (c_ID call) at ender
            (Some CallEndReasonManual) db" by blast
  show ?thesis unfolding db' by (rule inv_after_leave [OF assms(1) call]) simp_all
qed

lemma inv_TouchParticipantSignal:
  assumes inv: "rtc_inv parse db" and run: "TouchParticipantSignal_tx parse participantID at db = Inr (r, db')"
  shows "rtc_inv parse db'"
proof -
  from run obtain pid where
    "db' = update_parts (\<lambda>p. p_ID p = pid \<and> part_active p) (touch_part_row at at) db"
    unfolding TouchParticipantSignal_tx_def by (elim bindT_InrE) (simp add: tx_simps, blast)
  moreover have "canonical parse (p_ID p)"
    if "p \<in> set (rtc_call_participants (update_parts hit (touch_part_row at at) db))" for p hit
    using that rtc_invD(3) [OF inv] unfolding update_parts_set by (auto split: if_splits)
  ultimately show ?thesis
    using rtc_invD(1,2) [OF inv] by (simp add: rtc_inv_def schema_ok_touch lifecycle_touch)
qed

section \<open>The locking transaction of the slot guard\<close>

definition only_mutex :: "rtc_db \<Rightarrow> rtc_db \<Rightarrow> bool" where
  "only_mutex db db' \<longleftrightarrow>
     rtc_media_user_generations_update (\<lambda>_. []) db' = rtc_media_user_generations_update (\<lambda>_. []) db"

lemma only_mutexD:
  assumes "only_mutex db db'"
  shows "users db' = users db" "rtc_calls db' = rtc_calls db"
    "rtc_call_participants db' = rtc_call_participants db" "rtc_media_grants db' = rtc_media_grants db"
    "rtc_media_rooms db' = rtc_media_rooms db"
  using assms unfolding only_mutex_def by (cases db; cases db'; simp)+

lemma keeps_mapT [pres_intros]: "(\<And>x. keeps P (f x)) \<Longrightarrow> keeps P (mapT f xs)"
  by (induction xs) (auto intro!: pres_intros)

lemma only_mutex_lock: "keeps (only_mutex db0) (mapT lockMediaUser us)"
proof -
  have "keeps (only_mutex db0) (EnsureMediaUserMutex u)" for u
    by (auto simp: keeps_def only_mutex_def EnsureMediaUserMutex_def)
  then show ?thesis unfolding lockMediaUser_def by (intro pres_intros)
qed

lemma zip_list_all2: "list_all2 P xs ys \<Longrightarrow> map_of (zip xs ys) i = Some y \<Longrightarrow> P i y"
  by (auto dest!: map_of_SomeD simp: list_all2_iff)

lemma beginSlotTransaction_run:
  assumes run: "beginSlotTransaction snapBefore s db = Inr (t, db')"
  shows "only_mutex db db' \<and> slot_ok (Some t) db' \<and> discoverSlot s db' = Inr (slot_snapshot t, db')"
proof -
  from run obtain calls rooms us db1 db2 db3 after db4 where
    calls: "mapT LockCallByID (snap_calls snapBefore) db = Inr (calls, db1)" and
    rooms: "mapT LockMediaRoom (snap_rooms snapBefore) db1 = Inr (rooms, db2)" and
    us: "mapT lockMediaUser (snap_users snapBefore) db2 = Inr (us, db3)" and
    after: "discoverSlot s db3 = Inr (after, db4)" and
    t: "t = \<lparr>slot_snapshot = after, slot_calls = map_of (zip (snap_calls snapBefore) calls),
              slot_rooms = map_of (zip (snap_rooms snapBefore) rooms)\<rparr>" "db' = db4"
    unfolding beginSlotTransaction_def by (elim bindT_InrE) (simp add: tx_simps split: if_splits)
  have db4: "db4 = db3" by (rule readsD [OF reads_discoverSlot after])
  have db2: "db2 = db1" using mapT_Inr [OF reads_queries(17) rooms] by simp
  have db1: "db1 = db" and all: "list_all2 (\<lambda>x y. LockCallByID x db = Inr (y, db)) (snap_calls snapBefore) calls"
    using mapT_Inr [OF reads_queries(8) calls] by simp_all
  have only: "only_mutex db db3"
    by (rule keepsD [OF only_mutex_lock _ us]) (simp add: db1 db2 only_mutex_def)
  have "slot_ok (Some t) db3"
    using zip_list_all2 [OF all] unfolding slot_ok_def t
    by (auto simp: only_mutexD [OF only] LockCallByID_def tx_simps dest!: find_SomeD)
  with only after t show ?thesis by (simp add: db4)
qed

lemma inv_beginSlotTransaction:
  "rtc_inv parse db \<Longrightarrow> beginSlotTransaction snapBefore s db = Inr (t, db') \<Longrightarrow> rtc_inv parse db'"
  using beginSlotTransaction_run [of snapBefore s db t db'] only_mutexD(1-3) [of db db'] inv_gen [of parse db db']
  by simp

end
