(* ===== verification/Rtc_Service.thy ===== *)
theory Rtc_Service
  imports Rtc_Model
begin

text \<open>
  The call service of \<open>internal/domain/rtc/service.go\<close>. The interfaces \<open>Repository\<close>,
  \<open>Authenticator\<close> and \<open>ScopeAuthorizer\<close> that its struct holds are records of programs over a world
  \<open>'w\<close> that the service itself never looks into; a nil pointer is \<open>None\<close>. The locale
  \<open>rtc_repository\<close> states what the service needs to keep an invariant of that world.
\<close>

section \<open>The interfaces\<close>

record 'w Repository =
  repo_GetCallByID :: "string \<Rightarrow> ('w, rtc_error, Call) prog"
  repo_GetActiveCallByScope :: "ConversationScope \<Rightarrow> ('w, rtc_error, Call) prog"
  repo_GetActiveParticipationByUserID :: "string \<Rightarrow> ('w, rtc_error, ActiveParticipation) prog"
  repo_CreateCallWithParticipant :: "Call \<Rightarrow> CallParticipant \<Rightarrow> ('w, rtc_error, Call \<times> CallParticipant) prog"
  repo_JoinParticipant :: "CallParticipant \<Rightarrow> ('w, rtc_error, Call \<times> CallParticipant) prog"
  repo_GetActiveParticipant :: "string \<Rightarrow> string \<Rightarrow> ('w, rtc_error, CallParticipant) prog"
  repo_ListActiveParticipants :: "string \<Rightarrow> ('w, rtc_error, CallParticipant list) prog"
  repo_LeaveParticipantAndMaybeEndCall :: "string \<Rightarrow> string \<Rightarrow> int \<Rightarrow> ('w, rtc_error, bool) prog"
  repo_TouchParticipantSignal :: "string \<Rightarrow> int \<Rightarrow> ('w, rtc_error, unit) prog"
  repo_EndCallWithParticipants :: "string \<Rightarrow> string \<Rightarrow> int \<Rightarrow> ('w, rtc_error, Call \<times> CallParticipant list) prog"

record 'w Service =
  repo :: "'w Repository"
  Authenticate :: "string \<Rightarrow> ('w, rtc_error, string) prog"
  GetScopeAccess :: "string \<Rightarrow> ConversationScope \<Rightarrow> ('w, rtc_error, ScopeAccess option) prog"
  GetParticipantAccess :: "string \<Rightarrow> ConversationScope \<Rightarrow> string \<Rightarrow> ('w, rtc_error, ScopeAccess option) prog"
  iceServerProvider :: "(string \<Rightarrow> int \<Rightarrow> ('w, rtc_error, ICEServer list) prog) option"
  maxSignalPayloadSize :: int
  activeParticipantStaleTimeout :: int
  now :: "('w, rtc_error, int) prog"
  newID :: "('w, rtc_error, string) prog"
  uuid_Parse :: uuid_parser

definition defaultActiveParticipantStaleTimeout :: int where
  "defaultActiveParticipantStaleTimeout = 75 * 1000000000"

definition NewService ::
    "'w Repository \<Rightarrow> (string \<Rightarrow> ('w, rtc_error, string) prog) \<Rightarrow>
     (string \<Rightarrow> ConversationScope \<Rightarrow> ('w, rtc_error, ScopeAccess option) prog) \<Rightarrow>
     (string \<Rightarrow> ConversationScope \<Rightarrow> string \<Rightarrow> ('w, rtc_error, ScopeAccess option) prog) \<Rightarrow> int \<Rightarrow>
     ('w, rtc_error, int) prog \<Rightarrow> ('w, rtc_error, string) prog \<Rightarrow> uuid_parser \<Rightarrow> 'w Service" where
  "NewService r authenticate scopeAccess participantAccess maxSize time_Now uuid_NewString parse =
     \<lparr>repo = r, Authenticate = authenticate, GetScopeAccess = scopeAccess,
      GetParticipantAccess = participantAccess, iceServerProvider = None,
      maxSignalPayloadSize = (if maxSize \<le> 0 then maxSignalRelayPayloadBytes else maxSize),
      activeParticipantStaleTimeout = defaultActiveParticipantStaleTimeout,
      now = time_Now, newID = uuid_NewString, uuid_Parse = parse\<rparr>"

definition WithICEServerProvider ::
    "'w Service \<Rightarrow> (string \<Rightarrow> int \<Rightarrow> ('w, rtc_error, ICEServer list) prog) \<Rightarrow> 'w Service" where
  "WithICEServerProvider s provider = s\<lparr>iceServerProvider := Some provider\<rparr>"

definition WithActiveParticipantStaleTimeout :: "'w Service \<Rightarrow> int \<Rightarrow> 'w Service" where
  "WithActiveParticipantStaleTimeout s timeout =
     (if timeout > 0 then s\<lparr>activeParticipantStaleTimeout := timeout\<rparr> else s)"

section \<open>Authorisation\<close>

definition authorizeCallView ::
    "'w Service \<Rightarrow> string \<Rightarrow> string \<Rightarrow> ('w, rtc_error, Call \<times> string \<times> ScopeAccess option) prog" where
  "authorizeCallView s token callID =
     bindE (liftE (normalizeID (uuid_Parse s) callID)) (\<lambda>callID.
     bindE (repo_GetCallByID (repo s) callID) (\<lambda>call.
     bindE (Authenticate s token) (\<lambda>user.
     bindE (GetScopeAccess s token (call_Scope call)) (\<lambda>access.
     returnE (call, user, access)))))"

definition authorizeCallForActiveParticipation ::
    "'w Service \<Rightarrow> string \<Rightarrow> string \<Rightarrow> ('w, rtc_error, Call \<times> string \<times> ScopeAccess option) prog" where
  "authorizeCallForActiveParticipation s token callID =
     bindE (authorizeCallView s token callID) (\<lambda>(call, user, access).
     if call_Status call \<noteq> CallStatusActive then failE ErrConflict
     else bindE (liftE (ensureCanActivelyParticipate access)) (\<lambda>_. returnE (call, user, access)))"

definition authorizeScope ::
    "'w Service \<Rightarrow> string \<Rightarrow> ConversationScope \<Rightarrow> bool \<Rightarrow> ('w, rtc_error, ScopeAccess option) prog" where
  "authorizeScope s token scope requireActiveParticipation =
     bindE (Authenticate s token) (\<lambda>_.
     bindE (liftE (normalizeScope (uuid_Parse s) scope)) (\<lambda>scope.
     bindE (GetScopeAccess s token scope) (\<lambda>access.
     bindE (if requireActiveParticipation then liftE (ensureCanActivelyParticipate access) else returnE ())
       (\<lambda>_. returnE access))))"

definition authorizeForActiveParticipation ::
    "'w Service \<Rightarrow> string \<Rightarrow> ConversationScope \<Rightarrow> ('w, rtc_error, string \<times> ScopeAccess) prog" where
  "authorizeForActiveParticipation s token scope =
     bindE (Authenticate s token) (\<lambda>user.
     bindE (liftE (normalizeScope (uuid_Parse s) scope)) (\<lambda>scope.
     bindE (GetScopeAccess s token scope) (\<lambda>access.
     bindE (liftE (ensureCanActivelyParticipate access)) (\<lambda>_.
     case access of None \<Rightarrow> failE ErrUnauthorized | Some a \<Rightarrow> returnE (user, a)))))"

section \<open>Stale participants\<close>

definition isParticipantStale :: "'w Service \<Rightarrow> CallParticipant \<Rightarrow> int \<Rightarrow> bool" where
  "isParticipantStale s participant at =
     (if activeParticipantStaleTimeout s \<le> 0 \<or> part_State participant \<noteq> ParticipantStateActive then False
      else \<not> part_UpdatedAt participant > at - activeParticipantStaleTimeout s)"

fun pruneStale :: "'w Service \<Rightarrow> string \<Rightarrow> string \<Rightarrow> int \<Rightarrow> CallParticipant list \<Rightarrow> bool \<Rightarrow> ('w, rtc_error, bool) prog" where
  "pruneStale s callID preservedUserID at [] pruned = returnE pruned"
| "pruneStale s callID preservedUserID at (participant # participants) pruned =
     (if part_UserID participant = preservedUserID \<or> \<not> isParticipantStale s participant at
      then pruneStale s callID preservedUserID at participants pruned
      else bindE (repo_LeaveParticipantAndMaybeEndCall (repo s) callID (part_ID participant) at) (\<lambda>updated.
           pruneStale s callID preservedUserID at participants (pruned \<or> updated)))"

definition pruneStaleParticipantsForCall ::
    "'w Service \<Rightarrow> string \<Rightarrow> string \<Rightarrow> int \<Rightarrow> ('w, rtc_error, bool) prog" where
  "pruneStaleParticipantsForCall s callID preservedUserID at =
     (if activeParticipantStaleTimeout s \<le> 0 then returnE False
      else bindE (repo_ListActiveParticipants (repo s) callID) (\<lambda>participants.
           pruneStale s callID preservedUserID at participants False))"

definition refreshCallSnapshotAfterStalePrune ::
    "'w Service \<Rightarrow> Call \<Rightarrow> string \<Rightarrow> int \<Rightarrow> ('w, rtc_error, Call) prog" where
  "refreshCallSnapshotAfterStalePrune s call preservedUserID at =
     (if call_Status call \<noteq> CallStatusActive then returnE call
      else bindE (pruneStaleParticipantsForCall s (call_ID call) preservedUserID at) (\<lambda>pruned.
           if \<not> pruned then returnE call else repo_GetCallByID (repo s) (call_ID call)))"

definition ensureNoOtherActiveParticipation :: "'w Service \<Rightarrow> string \<Rightarrow> string \<Rightarrow> ('w, rtc_error, unit) prog" where
  "ensureNoOtherActiveParticipation s userID allowedCallID =
     attemptE (repo_GetActiveParticipationByUserID (repo s) userID) (\<lambda>r. case r of
       Inl err \<Rightarrow> if errors_Is err ErrNotFound then returnE () else failE err
     | Inr participation \<Rightarrow>
         let call = participation_Call participation; participant = participation_Participant participation
         in if allowedCallID \<noteq> '''' \<and> call_ID call = allowedCallID then returnE ()
            else bindE (now s) (\<lambda>at.
              if isParticipantStale s participant at
              then bindE (now s) (\<lambda>at.
                   bindE (repo_LeaveParticipantAndMaybeEndCall (repo s) (call_ID call) (part_ID participant) at)
                     (\<lambda>_. returnE ()))
              else failE (ActiveCallConflictError call participant)))"

definition resolveActiveParticipationConflict :: "'w Service \<Rightarrow> string \<Rightarrow> string \<Rightarrow> ('w, rtc_error, unit) prog" where
  "resolveActiveParticipationConflict s userID allowedCallID =
     attemptE (repo_GetActiveParticipationByUserID (repo s) userID) (\<lambda>r. case r of
       Inl err \<Rightarrow> if errors_Is err ErrNotFound then returnE () else failE err
     | Inr participation \<Rightarrow>
         let call = participation_Call participation; participant = participation_Participant participation
         in bindE (now s) (\<lambda>at.
            if isParticipantStale s participant at
            then bindE (now s) (\<lambda>at.
                 bindE (repo_LeaveParticipantAndMaybeEndCall (repo s) (call_ID call) (part_ID participant) at)
                   (\<lambda>_. returnE ()))
            else if allowedCallID \<noteq> '''' \<and> call_ID call = allowedCallID then returnE ()
            else failE (ActiveCallConflictError call participant)))"

section \<open>The operations\<close>

definition GetICEServers :: "'w Service \<Rightarrow> string \<Rightarrow> ('w, rtc_error, ICEServer list) prog" where
  "GetICEServers s token =
     bindE (Authenticate s token) (\<lambda>user.
     case iceServerProvider s of
       None \<Rightarrow> returnE []
     | Some provider \<Rightarrow> bindE (now s) (\<lambda>at. provider user at))"

definition GetActiveCall :: "'w Service \<Rightarrow> string \<Rightarrow> ConversationScope \<Rightarrow> ('w, rtc_error, Call option) prog" where
  "GetActiveCall s token scope =
     bindE (authorizeScope s token scope False) (\<lambda>_.
     attemptE (repo_GetActiveCallByScope (repo s) scope) (\<lambda>r. case r of
       Inl err \<Rightarrow> if errors_Is err ErrNotFound then returnE None else failE err
     | Inr call \<Rightarrow>
         bindE (now s) (\<lambda>at.
         bindE (refreshCallSnapshotAfterStalePrune s call '''' at) (\<lambda>call.
         if call_Status call \<noteq> CallStatusActive then returnE None else returnE (Some call)))))"

definition GetCall :: "'w Service \<Rightarrow> string \<Rightarrow> string \<Rightarrow> ('w, rtc_error, Call) prog" where
  "GetCall s token callID =
     bindE (liftE (normalizeID (uuid_Parse s) callID)) (\<lambda>callID.
     bindE (repo_GetCallByID (repo s) callID) (\<lambda>call.
     bindE (authorizeScope s token (call_Scope call) False) (\<lambda>_.
     bindE (now s) (\<lambda>at.
     refreshCallSnapshotAfterStalePrune s call '''' at))))"

text \<open>The error path of a conflicting insert, shared by \<open>StartCall\<close> and \<open>JoinCall\<close>.\<close>

definition orResolveConflict ::
    "'w Service \<Rightarrow> string \<Rightarrow> string \<Rightarrow> ('w, rtc_error, 'a) prog \<Rightarrow> ('w, rtc_error, 'a) prog" where
  "orResolveConflict s userID allowedCallID m =
     attemptE m (\<lambda>r. case r of
       Inr x \<Rightarrow> returnE x
     | Inl err \<Rightarrow>
         if errors_Is err ErrConflict
         then bindE (resolveActiveParticipationConflict s userID allowedCallID) (\<lambda>_. failE err)
         else failE err)"

definition StartCall :: "'w Service \<Rightarrow> string \<Rightarrow> ConversationScope \<Rightarrow> ('w, rtc_error, Call \<times> CallParticipant) prog" where
  "StartCall s token scope =
     bindE (authorizeForActiveParticipation s token scope) (\<lambda>(user, access).
     bindE (ensureNoOtherActiveParticipation s user '''') (\<lambda>_.
     bindE (attemptE (repo_GetActiveCallByScope (repo s) (access_Scope access)) (\<lambda>r. case r of
              Inr existingCall \<Rightarrow>
                bindE (now s) (\<lambda>at.
                bindE (refreshCallSnapshotAfterStalePrune s existingCall user at) (\<lambda>existingCall.
                if call_Status existingCall = CallStatusActive then failE ErrConflict else returnE ()))
            | Inl err \<Rightarrow> if \<not> errors_Is err ErrNotFound then failE err else returnE ())) (\<lambda>_.
     bindE (now s) (\<lambda>at.
     bindE (newID s) (\<lambda>callID.
     bindE (newID s) (\<lambda>participantID.
     orResolveConflict s user ''''
       (repo_CreateCallWithParticipant (repo s)
          \<lparr>call_ID = callID, call_Scope = access_Scope access, call_CreatedByUserID = user,
           call_Status = CallStatusActive, call_ActiveParticipantCount = 0, call_CreatedAt = at,
           call_UpdatedAt = at, call_StartedAt = at, call_EndedAt = None, call_EndedByUserID = None,
           call_EndReason = ''''\<rparr>
          \<lparr>part_ID = participantID, part_CallID = callID, part_UserID = user,
           part_State = ParticipantStateActive, part_JoinedAt = at, part_LeftAt = None,
           part_UpdatedAt = at, part_LastSignalAt = None\<rparr>)))))))"

definition JoinCall :: "'w Service \<Rightarrow> string \<Rightarrow> string \<Rightarrow> ('w, rtc_error, Call \<times> CallParticipant) prog" where
  "JoinCall s token callID =
     bindE (authorizeCallForActiveParticipation s token callID) (\<lambda>(call, user, _).
     bindE (now s) (\<lambda>at.
     bindE (refreshCallSnapshotAfterStalePrune s call user at) (\<lambda>call.
     if call_Status call \<noteq> CallStatusActive then failE ErrConflict
     else
     bindE (ensureNoOtherActiveParticipation s user (call_ID call)) (\<lambda>_.
     bindE (now s) (\<lambda>at.
     bindE (newID s) (\<lambda>participantID.
     orResolveConflict s user (call_ID call)
       (repo_JoinParticipant (repo s)
          \<lparr>part_ID = participantID, part_CallID = call_ID call, part_UserID = user,
           part_State = ParticipantStateActive, part_JoinedAt = at, part_LeftAt = None,
           part_UpdatedAt = at, part_LastSignalAt = None\<rparr>)))))))"

definition LeaveCall :: "'w Service \<Rightarrow> string \<Rightarrow> string \<Rightarrow> ('w, rtc_error, Call \<times> CallParticipant) prog" where
  "LeaveCall s token callID =
     bindE (authorizeCallView s token callID) (\<lambda>(call, user, _).
     bindE (now s) (\<lambda>at.
     bindE (refreshCallSnapshotAfterStalePrune s call user at) (\<lambda>call.
     if call_Status call \<noteq> CallStatusActive then failE ErrConflict
     else
     bindE (repo_GetActiveParticipant (repo s) (call_ID call) user) (\<lambda>participant.
     bindE (now s) (\<lambda>at.
     bindE (repo_LeaveParticipantAndMaybeEndCall (repo s) (call_ID call) (part_ID participant) at) (\<lambda>updated.
     if \<not> updated then failE ErrConflict
     else
     bindE (repo_GetCallByID (repo s) (call_ID call)) (\<lambda>call.
     returnE (call, participant\<lparr>part_State := ParticipantStateLeft, part_LeftAt := Some at,
                                part_UpdatedAt := at\<rparr>))))))))"

definition EndCall :: "'w Service \<Rightarrow> string \<Rightarrow> string \<Rightarrow> ('w, rtc_error, Call \<times> CallParticipant list) prog" where
  "EndCall s token callID =
     bindE (authorizeCallView s token callID) (\<lambda>(call, user, _).
     bindE (now s) (\<lambda>at.
     bindE (refreshCallSnapshotAfterStalePrune s call user at) (\<lambda>call.
     if call_Status call \<noteq> CallStatusActive then failE ErrConflict
     else if call_CreatedByUserID call \<noteq> user then failE ErrPermissionDenied
     else
     bindE (now s) (\<lambda>at.
     repo_EndCallWithParticipants (repo s) (call_ID call) user at))))"

definition ListCallParticipants :: "'w Service \<Rightarrow> string \<Rightarrow> string \<Rightarrow> ('w, rtc_error, CallParticipant list) prog" where
  "ListCallParticipants s token callID =
     bindE (authorizeCallView s token callID) (\<lambda>(call, user, _).
     bindE (now s) (\<lambda>at.
     bindE (refreshCallSnapshotAfterStalePrune s call user at) (\<lambda>call.
     if call_Status call \<noteq> CallStatusActive then returnE []
     else repo_ListActiveParticipants (repo s) (call_ID call))))"

definition TouchCallParticipant :: "'w Service \<Rightarrow> string \<Rightarrow> string \<Rightarrow> ('w, rtc_error, CallParticipant) prog" where
  "TouchCallParticipant s token callID =
     bindE (authorizeCallForActiveParticipation s token callID) (\<lambda>(call, user, _).
     bindE (now s) (\<lambda>at.
     bindE (refreshCallSnapshotAfterStalePrune s call user at) (\<lambda>call.
     if call_Status call \<noteq> CallStatusActive then failE ErrConflict
     else
     bindE (repo_GetActiveParticipant (repo s) (call_ID call) user) (\<lambda>participant.
     bindE (now s) (\<lambda>at.
     bindE (repo_TouchParticipantSignal (repo s) (part_ID participant) at) (\<lambda>_.
     returnE (participant\<lparr>part_UpdatedAt := at, part_LastSignalAt := Some at\<rparr>)))))))"

definition eligible :: "ConversationScope \<Rightarrow> ScopeAccess option \<Rightarrow> bool" where
  "eligible scope access =
     (case access of
        None \<Rightarrow> False
      | Some a \<Rightarrow> access_Scope a = scope \<and>
          (scope_Type scope = ScopeTypeGroup \<longrightarrow>
             access_GroupRole a \<in> {GroupRoleOwner, GroupRoleAdmin, GroupRoleMember}))"

definition SendSignal ::
    "'w Service \<Rightarrow> string \<Rightarrow> string \<Rightarrow> string \<Rightarrow> string \<Rightarrow> string \<Rightarrow> ('w, rtc_error, SignalEnvelope) prog" where
  "SendSignal s token callID targetUserID signalType payload =
     bindE (authorizeCallForActiveParticipation s token callID) (\<lambda>(call, user, _).
     bindE (now s) (\<lambda>at.
     bindE (refreshCallSnapshotAfterStalePrune s call user at) (\<lambda>call.
     if call_Status call \<noteq> CallStatusActive then failE ErrConflict
     else
     bindE (liftE (normalizeID (uuid_Parse s) targetUserID)) (\<lambda>targetUserID.
     if user = targetUserID then failE ErrInvalidArgument
     else
     bindE (liftE (validateSignalType signalType)) (\<lambda>_.
     if payload = '''' then failE ErrInvalidArgument
     else if int (length payload) > maxSignalPayloadSize s then failE ErrInvalidArgument
     else
     bindE (repo_GetActiveParticipant (repo s) (call_ID call) user) (\<lambda>senderParticipant.
     bindE (repo_GetActiveParticipant (repo s) (call_ID call) targetUserID) (\<lambda>targetParticipant.
     attemptE (GetParticipantAccess s token (call_Scope call) targetUserID) (\<lambda>targetAccess.
     let eligibilityErr = (case targetAccess of
           Inl err \<Rightarrow> Some err
         | Inr access \<Rightarrow> if eligible (call_Scope call) access then None else Some ErrPermissionDenied)
     in case eligibilityErr of
          Some err \<Rightarrow>
            if errors_Is err ErrPermissionDenied \<or> errors_Is err ErrNotFound
            then bindE (now s) (\<lambda>at.
                 bindE (repo_LeaveParticipantAndMaybeEndCall (repo s) (call_ID call)
                          (part_ID targetParticipant) at) (\<lambda>_. failE ErrPermissionDenied))
            else failE err
        | None \<Rightarrow>
            bindE (now s) (\<lambda>at.
            bindE (repo_TouchParticipantSignal (repo s) (part_ID senderParticipant) at) (\<lambda>_.
            returnE \<lparr>signal_CallID = call_ID call, signal_FromUserID = user,
                     signal_TargetUserID = targetUserID, signal_Type = signalType,
                     signal_Payload = payload, signal_CreatedAt = at\<rparr>))))))))))"

section \<open>The contract of the repository\<close>

text \<open>
  What the service relies on: every call of an interface keeps the invariant \<open>I\<close> of the world, the
  insert of a call with its first participant under the condition that the participant is in that call.
\<close>

locale rtc_repository =
  fixes s :: "'w Service" and I :: "'w \<Rightarrow> bool"
  assumes GetCallByID: "pres I (repo_GetCallByID (repo s) i)"
    and GetActiveCallByScope: "pres I (repo_GetActiveCallByScope (repo s) scope)"
    and GetActiveParticipationByUserID: "pres I (repo_GetActiveParticipationByUserID (repo s) u)"
    and CreateCallWithParticipant:
      "part_CallID p = call_ID c \<Longrightarrow> pres I (repo_CreateCallWithParticipant (repo s) c p)"
    and JoinParticipant: "pres I (repo_JoinParticipant (repo s) p)"
    and GetActiveParticipant: "pres I (repo_GetActiveParticipant (repo s) i u)"
    and ListActiveParticipants: "pres I (repo_ListActiveParticipants (repo s) i)"
    and LeaveParticipantAndMaybeEndCall: "pres I (repo_LeaveParticipantAndMaybeEndCall (repo s) i j at)"
    and TouchParticipantSignal: "pres I (repo_TouchParticipantSignal (repo s) j at)"
    and EndCallWithParticipants: "pres I (repo_EndCallWithParticipants (repo s) i u at)"
    and Authenticate: "pres I (Authenticate s token)"
    and GetScopeAccess: "pres I (GetScopeAccess s token scope)"
    and GetParticipantAccess: "pres I (GetParticipantAccess s token scope u)"
    and iceServerProvider: "iceServerProvider s = Some provider \<Longrightarrow> pres I (provider u at)"
    and now: "pres I (now s)"
    and newID: "pres I (newID s)"
begin

lemmas calls = GetCallByID GetActiveCallByScope GetActiveParticipationByUserID JoinParticipant
  GetActiveParticipant ListActiveParticipants LeaveParticipantAndMaybeEndCall TouchParticipantSignal
  EndCallWithParticipants Authenticate GetScopeAccess GetParticipantAccess now newID

lemma authorizeCallView_pres: "pres I (authorizeCallView s token callID)"
  unfolding authorizeCallView_def by (intro pres_intros calls)

lemma authorizeCallForActiveParticipation_pres:
  "pres I (authorizeCallForActiveParticipation s token callID)"
  unfolding authorizeCallForActiveParticipation_def by (intro pres_intros authorizeCallView_pres)

lemma authorizeScope_pres: "pres I (authorizeScope s token scope active)"
  unfolding authorizeScope_def by (intro pres_intros calls)

lemma authorizeForActiveParticipation_pres: "pres I (authorizeForActiveParticipation s token scope)"
  unfolding authorizeForActiveParticipation_def by (intro pres_intros calls)

lemma pruneStale_pres: "pres I (pruneStale s callID preserved at ps pruned)"
  by (induction ps arbitrary: pruned) (auto intro!: pres_intros calls)

lemma refresh_pres: "pres I (refreshCallSnapshotAfterStalePrune s call preserved at)"
  unfolding refreshCallSnapshotAfterStalePrune_def pruneStaleParticipantsForCall_def
  by (intro pres_intros calls pruneStale_pres)

lemma ensureNoOtherActiveParticipation_pres: "pres I (ensureNoOtherActiveParticipation s u allowed)"
  unfolding ensureNoOtherActiveParticipation_def by (intro pres_intros calls)

lemma orResolveConflict_pres: "pres I m \<Longrightarrow> pres I (orResolveConflict s u allowed m)"
  unfolding orResolveConflict_def resolveActiveParticipationConflict_def by (intro pres_intros calls)

lemmas parts_pres = calls authorizeCallView_pres authorizeCallForActiveParticipation_pres
  authorizeScope_pres authorizeForActiveParticipation_pres refresh_pres
  ensureNoOtherActiveParticipation_pres orResolveConflict_pres

lemma GetICEServers_pres: "pres I (GetICEServers s token)"
  unfolding GetICEServers_def by (intro pres_intros parts_pres iceServerProvider)

lemma GetActiveCall_pres: "pres I (GetActiveCall s token scope)"
  unfolding GetActiveCall_def by (intro pres_intros parts_pres)

lemma GetCall_pres: "pres I (GetCall s token callID)"
  unfolding GetCall_def by (intro pres_intros parts_pres)

lemma StartCall_pres: "pres I (StartCall s token scope)"
  unfolding StartCall_def by (intro pres_intros parts_pres CreateCallWithParticipant) simp

lemma JoinCall_pres: "pres I (JoinCall s token callID)"
  unfolding JoinCall_def by (intro pres_intros parts_pres)

lemma LeaveCall_pres: "pres I (LeaveCall s token callID)"
  unfolding LeaveCall_def by (intro pres_intros parts_pres)

lemma EndCall_pres: "pres I (EndCall s token callID)"
  unfolding EndCall_def by (intro pres_intros parts_pres)

lemma ListCallParticipants_pres: "pres I (ListCallParticipants s token callID)"
  unfolding ListCallParticipants_def by (intro pres_intros parts_pres)

lemma TouchCallParticipant_pres: "pres I (TouchCallParticipant s token callID)"
  unfolding TouchCallParticipant_def by (intro pres_intros parts_pres)

lemma SendSignal_pres: "pres I (SendSignal s token callID target kind payload)"
  unfolding SendSignal_def by (intro pres_intros parts_pres)

end

end
