(* ===== verification/Rtc_Handler.thy ===== *)
theory Rtc_Handler
  imports Rtc_Service
begin

text \<open>
  The Connect handlers of \<open>internal/transport/connect/handler.go\<close>: the bearer token, the translation
  of messages and enums, and the translation of errors into Connect codes. A protobuf message is a
  record, a nil message \<open>None\<close>; an enum number this build does not know is \<open>..._OTHER\<close>.
\<close>

section \<open>Messages\<close>

datatype ConversationScopeType = SCOPE_TYPE_UNSPECIFIED | SCOPE_TYPE_DIRECT | SCOPE_TYPE_GROUP | SCOPE_TYPE_OTHER int
datatype CallStatus = CALL_STATUS_UNSPECIFIED | CALL_STATUS_ACTIVE | CALL_STATUS_ENDED
datatype CallEndReason =
    CALL_END_REASON_UNSPECIFIED | CALL_END_REASON_MANUAL | CALL_END_REASON_LAST_PARTICIPANT_LEFT
datatype ParticipantState =
    PARTICIPANT_STATE_UNSPECIFIED | PARTICIPANT_STATE_ACTIVE | PARTICIPANT_STATE_LEFT
datatype SignalEnvelopeType =
    SIGNAL_ENVELOPE_TYPE_UNSPECIFIED | SIGNAL_ENVELOPE_TYPE_OFFER | SIGNAL_ENVELOPE_TYPE_ANSWER
  | SIGNAL_ENVELOPE_TYPE_ICE_CANDIDATE | SIGNAL_ENVELOPE_TYPE_OTHER int

record ProtoScope =
  ps_Type :: ConversationScopeType
  ps_DirectChatId :: string
  ps_GroupId :: string

record ProtoCall =
  pc_Id :: string
  pc_Scope :: ProtoScope
  pc_CreatedByUserId :: string
  pc_Status :: CallStatus
  pc_ActiveParticipantCount :: "32 word"
  pc_CreatedAt :: int
  pc_UpdatedAt :: int
  pc_StartedAt :: int
  pc_EndedAt :: "int option"
  pc_EndedByUserId :: string
  pc_EndReason :: CallEndReason

record ProtoParticipant =
  pp_Id :: string
  pp_CallId :: string
  pp_UserId :: string
  pp_State :: ParticipantState
  pp_JoinedAt :: int
  pp_LeftAt :: "int option"
  pp_UpdatedAt :: int
  pp_LastSignalAt :: "int option"

record ProtoSignal =
  psig_CallId :: string
  psig_FromUserId :: string
  psig_TargetUserId :: string
  psig_Type :: SignalEnvelopeType
  psig_Payload :: string
  psig_CreatedAt :: int

record ProtoIceServer =
  pi_Urls :: "string list"
  pi_Username :: string
  pi_Credential :: string
  pi_ExpiresAt :: "int option"

section \<open>Errors\<close>

datatype Code = CodeUnauthenticated | CodeFailedPrecondition | CodeUnavailable | CodeInvalidArgument
  | CodeNotFound | CodePermissionDenied | CodeInternal | CodeUnimplemented

datatype cause = RtcError rtc_error | Message string

record ConnectError =
  err_Code :: Code
  err_Cause :: cause
  err_Meta :: "(string \<times> string) list"

text \<open>A handler returns a Connect error or panics with the panic of the service.\<close>

datatype handler_error = Failed ConnectError | Panicked

definition NewError :: "Code \<Rightarrow> cause \<Rightarrow> ConnectError" where
  "NewError code c = \<lparr>err_Code = code, err_Cause = c, err_Meta = []\<rparr>"

definition applyActiveCallConflictMetadata :: "Call \<Rightarrow> CallParticipant \<Rightarrow> (string \<times> string) list" where
  "applyActiveCallConflictMetadata c p =
     [(''X-Aerochat-Rtc-Conflict-Reason'', ''active_participation_exists''),
      (''X-Aerochat-Rtc-Conflict-Call-Id'', call_ID c),
      (''X-Aerochat-Rtc-Conflict-Participant-Id'', part_ID p),
      (''X-Aerochat-Rtc-Conflict-Scope-Type'', scope_Type (call_Scope c))] @
     (if scope_DirectChatID (call_Scope c) \<noteq> ''''
      then [(''X-Aerochat-Rtc-Conflict-Direct-Chat-Id'', scope_DirectChatID (call_Scope c))] else []) @
     (if scope_GroupID (call_Scope c) \<noteq> ''''
      then [(''X-Aerochat-Rtc-Conflict-Group-Id'', scope_GroupID (call_Scope c))] else [])"

definition mapError :: "rtc_error \<Rightarrow> ConnectError" where
  "mapError err =
     (case err of
        ActiveCallConflictError c p \<Rightarrow>
          (NewError CodeFailedPrecondition (RtcError err))\<lparr>err_Meta := applyActiveCallConflictMetadata c p\<rparr>
      | _ \<Rightarrow>
          if errors_Is err ErrMediaCleanupPending
          then NewError CodeFailedPrecondition (RtcError ErrMediaCleanupPending)
          else if errors_Is err ErrUnavailable then NewError CodeUnavailable (RtcError ErrUnavailable)
          else if errors_Is err ErrInvalidArgument then NewError CodeInvalidArgument (RtcError err)
          else if errors_Is err ErrUnauthorized then NewError CodeUnauthenticated (RtcError err)
          else if errors_Is err ErrNotFound then NewError CodeNotFound (RtcError err)
          else if errors_Is err ErrPermissionDenied then NewError CodePermissionDenied (RtcError err)
          else if errors_Is err ErrConflict then NewError CodeFailedPrecondition (RtcError err)
          else NewError CodeInternal (RtcError err))"

definition bearerToken :: "string \<Rightarrow> ConnectError + string" where
  "bearerToken header =
     (case drop_prefix ''Bearer '' header of
        None \<Rightarrow> Inl (NewError CodeUnauthenticated (Message ''authorization header is required''))
      | Some rest \<Rightarrow>
          let token = trim_space rest
          in if token = '''' then Inl (NewError CodeUnauthenticated (Message ''authorization token is empty''))
             else Inr token)"

section \<open>Translation\<close>

definition fromProtoScopeType :: "ConversationScopeType \<Rightarrow> string" where
  "fromProtoScopeType t =
     (case t of SCOPE_TYPE_DIRECT \<Rightarrow> ScopeTypeDirect | SCOPE_TYPE_GROUP \<Rightarrow> ScopeTypeGroup | _ \<Rightarrow> '''')"

definition fromProtoScope :: "ProtoScope option \<Rightarrow> ConversationScope" where
  "fromProtoScope scope =
     (case scope of
        None \<Rightarrow> \<lparr>scope_Type = '''', scope_DirectChatID = '''', scope_GroupID = ''''\<rparr>
      | Some sc \<Rightarrow> \<lparr>scope_Type = fromProtoScopeType (ps_Type sc), scope_DirectChatID = ps_DirectChatId sc,
                    scope_GroupID = ps_GroupId sc\<rparr>)"

definition toProtoScopeType :: "string \<Rightarrow> ConversationScopeType" where
  "toProtoScopeType t =
     (if t = ScopeTypeDirect then SCOPE_TYPE_DIRECT
      else if t = ScopeTypeGroup then SCOPE_TYPE_GROUP else SCOPE_TYPE_UNSPECIFIED)"

definition toProtoScope :: "ConversationScope \<Rightarrow> ProtoScope" where
  "toProtoScope scope = \<lparr>ps_Type = toProtoScopeType (scope_Type scope),
     ps_DirectChatId = scope_DirectChatID scope, ps_GroupId = scope_GroupID scope\<rparr>"

definition toProtoCallStatus :: "string \<Rightarrow> CallStatus" where
  "toProtoCallStatus status =
     (if status = CallStatusActive then CALL_STATUS_ACTIVE
      else if status = CallStatusEnded then CALL_STATUS_ENDED else CALL_STATUS_UNSPECIFIED)"

definition toProtoEndReason :: "string \<Rightarrow> CallEndReason" where
  "toProtoEndReason reason =
     (if reason = CallEndReasonManual then CALL_END_REASON_MANUAL
      else if reason = CallEndReasonLastParticipant then CALL_END_REASON_LAST_PARTICIPANT_LEFT
      else CALL_END_REASON_UNSPECIFIED)"

definition toProtoParticipantState :: "string \<Rightarrow> ParticipantState" where
  "toProtoParticipantState state =
     (if state = ParticipantStateActive then PARTICIPANT_STATE_ACTIVE
      else if state = ParticipantStateLeft then PARTICIPANT_STATE_LEFT else PARTICIPANT_STATE_UNSPECIFIED)"

definition fromProtoSignalType :: "SignalEnvelopeType \<Rightarrow> string" where
  "fromProtoSignalType t =
     (case t of
        SIGNAL_ENVELOPE_TYPE_OFFER \<Rightarrow> SignalTypeOffer
      | SIGNAL_ENVELOPE_TYPE_ANSWER \<Rightarrow> SignalTypeAnswer
      | SIGNAL_ENVELOPE_TYPE_ICE_CANDIDATE \<Rightarrow> SignalTypeICECandidate
      | _ \<Rightarrow> '''')"

definition toProtoSignalType :: "string \<Rightarrow> SignalEnvelopeType" where
  "toProtoSignalType t =
     (if t = SignalTypeOffer then SIGNAL_ENVELOPE_TYPE_OFFER
      else if t = SignalTypeAnswer then SIGNAL_ENVELOPE_TYPE_ANSWER
      else if t = SignalTypeICECandidate then SIGNAL_ENVELOPE_TYPE_ICE_CANDIDATE
      else SIGNAL_ENVELOPE_TYPE_UNSPECIFIED)"

definition stringValue :: "string option \<Rightarrow> string" where
  "stringValue v = (case v of None \<Rightarrow> '''' | Some s \<Rightarrow> s)"

definition toProtoCall :: "Call option \<Rightarrow> ProtoCall option" where
  "toProtoCall call = map_option (\<lambda>c.
     \<lparr>pc_Id = call_ID c, pc_Scope = toProtoScope (call_Scope c),
      pc_CreatedByUserId = call_CreatedByUserID c, pc_Status = toProtoCallStatus (call_Status c),
      pc_ActiveParticipantCount = call_ActiveParticipantCount c, pc_CreatedAt = call_CreatedAt c,
      pc_UpdatedAt = call_UpdatedAt c, pc_StartedAt = call_StartedAt c, pc_EndedAt = call_EndedAt c,
      pc_EndedByUserId = stringValue (call_EndedByUserID c),
      pc_EndReason = toProtoEndReason (call_EndReason c)\<rparr>) call"

definition toProtoParticipant :: "CallParticipant option \<Rightarrow> ProtoParticipant option" where
  "toProtoParticipant participant = map_option (\<lambda>p.
     \<lparr>pp_Id = part_ID p, pp_CallId = part_CallID p, pp_UserId = part_UserID p,
      pp_State = toProtoParticipantState (part_State p), pp_JoinedAt = part_JoinedAt p,
      pp_LeftAt = part_LeftAt p, pp_UpdatedAt = part_UpdatedAt p, pp_LastSignalAt = part_LastSignalAt p\<rparr>)
     participant"

definition toProtoSignal :: "SignalEnvelope option \<Rightarrow> ProtoSignal option" where
  "toProtoSignal signal = map_option (\<lambda>s.
     \<lparr>psig_CallId = signal_CallID s, psig_FromUserId = signal_FromUserID s,
      psig_TargetUserId = signal_TargetUserID s, psig_Type = toProtoSignalType (signal_Type s),
      psig_Payload = signal_Payload s, psig_CreatedAt = signal_CreatedAt s\<rparr>) signal"

definition toProtoIceServer :: "ICEServer \<Rightarrow> ProtoIceServer" where
  "toProtoIceServer server =
     \<lparr>pi_Urls = ice_URLs server, pi_Username = ice_Username server,
      pi_Credential = ice_Credential server, pi_ExpiresAt = ice_ExpiresAt server\<rparr>"

section \<open>Handlers\<close>

datatype RtcRequest =
    PingRequest
  | GetIceServersRequest
  | GetActiveCallRequest "ProtoScope option"
  | GetCallRequest string
  | StartCallRequest "ProtoScope option"
  | JoinCallRequest string
  | LeaveCallRequest string
  | EndCallRequest string
  | ListCallParticipantsRequest string
  | TouchCallParticipantRequest string
  | SendSignalRequest string string SignalEnvelopeType string
  | RequestGroupMediaLeaveRequest
  | RequestGroupMediaEndRequest
  | GetGroupMediaOperationRequest

datatype RtcResponse =
    PingResponse string string
  | GetIceServersResponse "ProtoIceServer list"
  | GetActiveCallResponse "ProtoCall option"
  | GetCallResponse "ProtoCall option"
  | CallAndSelfResponse "ProtoCall option" "ProtoParticipant option"
  | EndCallResponse "ProtoCall option" "ProtoParticipant option list"
  | ListCallParticipantsResponse "ProtoParticipant option list"
  | TouchCallParticipantResponse "ProtoParticipant option"
  | SendSignalResponse "ProtoSignal option"

record 'w Handler =
  serviceName :: string
  version :: string
  service :: "'w Service"

text \<open>The common frame of a handler: the token first, then the service, then the answer.\<close>

definition withToken ::
    "string \<Rightarrow> (string \<Rightarrow> ('w, rtc_error, 'a) prog) \<Rightarrow> ('a \<Rightarrow> RtcResponse) \<Rightarrow> ('w, handler_error, RtcResponse) prog" where
  "withToken header m answer = (\<lambda>w.
     case bearerToken header of
       Inl e \<Rightarrow> (Inl (Failed e), w)
     | Inr token \<Rightarrow>
         (case m token w of
            (Inl err, w') \<Rightarrow> (Inl (if err = Panic then Panicked else Failed (mapError err)), w')
          | (Inr x, w') \<Rightarrow> (Inr (answer x), w')))"

definition unimplemented :: "('w, handler_error, RtcResponse) prog" where
  "unimplemented = (\<lambda>w. (Inl (Failed (NewError CodeUnimplemented
     (Message ''media control adapter unavailable''))), w))"

definition pair_response :: "Call \<times> CallParticipant \<Rightarrow> RtcResponse" where
  "pair_response r = CallAndSelfResponse (toProtoCall (Some (fst r))) (toProtoParticipant (Some (snd r)))"

definition Handler_Ping :: "'w Handler \<Rightarrow> ('w, handler_error, RtcResponse) prog" where
  "Handler_Ping h = (\<lambda>w. (Inr (PingResponse (serviceName h) (version h)), w))"

definition Handler_GetIceServers :: "'w Handler \<Rightarrow> string \<Rightarrow> ('w, handler_error, RtcResponse) prog" where
  "Handler_GetIceServers h header =
     withToken header (\<lambda>token. GetICEServers (service h) token)
       (\<lambda>servers. GetIceServersResponse (map toProtoIceServer servers))"

definition Handler_GetActiveCall ::
    "'w Handler \<Rightarrow> string \<Rightarrow> ProtoScope option \<Rightarrow> ('w, handler_error, RtcResponse) prog" where
  "Handler_GetActiveCall h header scope =
     withToken header (\<lambda>token. GetActiveCall (service h) token (fromProtoScope scope))
       (\<lambda>call. GetActiveCallResponse (toProtoCall call))"

definition Handler_GetCall :: "'w Handler \<Rightarrow> string \<Rightarrow> string \<Rightarrow> ('w, handler_error, RtcResponse) prog" where
  "Handler_GetCall h header callID =
     withToken header (\<lambda>token. GetCall (service h) token callID)
       (\<lambda>call. GetCallResponse (toProtoCall (Some call)))"

definition Handler_StartCall ::
    "'w Handler \<Rightarrow> string \<Rightarrow> ProtoScope option \<Rightarrow> ('w, handler_error, RtcResponse) prog" where
  "Handler_StartCall h header scope =
     withToken header (\<lambda>token. StartCall (service h) token (fromProtoScope scope)) pair_response"

definition Handler_JoinCall :: "'w Handler \<Rightarrow> string \<Rightarrow> string \<Rightarrow> ('w, handler_error, RtcResponse) prog" where
  "Handler_JoinCall h header callID = withToken header (\<lambda>token. JoinCall (service h) token callID) pair_response"

definition Handler_LeaveCall :: "'w Handler \<Rightarrow> string \<Rightarrow> string \<Rightarrow> ('w, handler_error, RtcResponse) prog" where
  "Handler_LeaveCall h header callID = withToken header (\<lambda>token. LeaveCall (service h) token callID) pair_response"

definition Handler_EndCall :: "'w Handler \<Rightarrow> string \<Rightarrow> string \<Rightarrow> ('w, handler_error, RtcResponse) prog" where
  "Handler_EndCall h header callID =
     withToken header (\<lambda>token. EndCall (service h) token callID)
       (\<lambda>(call, ps). EndCallResponse (toProtoCall (Some call)) (map (\<lambda>p. toProtoParticipant (Some p)) ps))"

definition Handler_ListCallParticipants ::
    "'w Handler \<Rightarrow> string \<Rightarrow> string \<Rightarrow> ('w, handler_error, RtcResponse) prog" where
  "Handler_ListCallParticipants h header callID =
     withToken header (\<lambda>token. ListCallParticipants (service h) token callID)
       (\<lambda>ps. ListCallParticipantsResponse (map (\<lambda>p. toProtoParticipant (Some p)) ps))"

definition Handler_TouchCallParticipant ::
    "'w Handler \<Rightarrow> string \<Rightarrow> string \<Rightarrow> ('w, handler_error, RtcResponse) prog" where
  "Handler_TouchCallParticipant h header callID =
     withToken header (\<lambda>token. TouchCallParticipant (service h) token callID)
       (\<lambda>p. TouchCallParticipantResponse (toProtoParticipant (Some p)))"

definition Handler_SendSignal ::
    "'w Handler \<Rightarrow> string \<Rightarrow> string \<Rightarrow> string \<Rightarrow> SignalEnvelopeType \<Rightarrow> string \<Rightarrow>
     ('w, handler_error, RtcResponse) prog" where
  "Handler_SendSignal h header callID target kind payload =
     withToken header
       (\<lambda>token. SendSignal (service h) token callID target (fromProtoSignalType kind) payload)
       (\<lambda>sig. SendSignalResponse (toProtoSignal (Some sig)))"

definition handle :: "'w Handler \<Rightarrow> string \<Rightarrow> RtcRequest \<Rightarrow> ('w, handler_error, RtcResponse) prog" where
  "handle h header req =
     (case req of
        PingRequest \<Rightarrow> Handler_Ping h
      | GetIceServersRequest \<Rightarrow> Handler_GetIceServers h header
      | GetActiveCallRequest scope \<Rightarrow> Handler_GetActiveCall h header scope
      | GetCallRequest callID \<Rightarrow> Handler_GetCall h header callID
      | StartCallRequest scope \<Rightarrow> Handler_StartCall h header scope
      | JoinCallRequest callID \<Rightarrow> Handler_JoinCall h header callID
      | LeaveCallRequest callID \<Rightarrow> Handler_LeaveCall h header callID
      | EndCallRequest callID \<Rightarrow> Handler_EndCall h header callID
      | ListCallParticipantsRequest callID \<Rightarrow> Handler_ListCallParticipants h header callID
      | TouchCallParticipantRequest callID \<Rightarrow> Handler_TouchCallParticipant h header callID
      | SendSignalRequest callID target kind payload \<Rightarrow> Handler_SendSignal h header callID target kind payload
      | RequestGroupMediaLeaveRequest \<Rightarrow> unimplemented
      | RequestGroupMediaEndRequest \<Rightarrow> unimplemented
      | GetGroupMediaOperationRequest \<Rightarrow> unimplemented)"

lemmas Handler_defs = Handler_Ping_def Handler_GetIceServers_def Handler_GetActiveCall_def Handler_GetCall_def
  Handler_StartCall_def Handler_JoinCall_def Handler_LeaveCall_def Handler_EndCall_def
  Handler_ListCallParticipants_def Handler_TouchCallParticipant_def Handler_SendSignal_def

lemma pres_withToken: "(\<And>token. pres I (m token)) \<Longrightarrow> pres I (withToken header m answer)"
  by (auto simp: pres_def withToken_def split: sum.splits prod.splits) (metis snd_conv)+

context rtc_repository
begin

lemma handle_pres: "pres I (handle \<lparr>serviceName = n, version = v, service = s\<rparr> header req)"
  by (cases req)
    (simp_all add: handle_def Handler_defs unimplemented_def pres_withToken GetICEServers_pres GetActiveCall_pres
      GetCall_pres StartCall_pres JoinCall_pres LeaveCall_pres EndCall_pres ListCallParticipants_pres
      TouchCallParticipant_pres SendSignal_pres, simp_all add: pres_def)

end

section \<open>The translation loses nothing that the service needs\<close>

lemma signalType_roundtrip: "validateSignalType t = Inr () \<Longrightarrow> fromProtoSignalType (toProtoSignalType t) = t"
  by (auto simp: validateSignalType_def fromProtoSignalType_def toProtoSignalType_def split: if_splits)

lemma scope_roundtrip:
  "scope_valid parse s \<Longrightarrow> fromProtoScope (Some (toProtoScope s)) = s"
  by (cases s) (auto simp: scope_valid_def fromProtoScope_def toProtoScope_def fromProtoScopeType_def
      toProtoScopeType_def)

end
