(* ===== verification/Rtc_World.thy ===== *)
theory Rtc_World
  imports Rtc_Lifecycle Rtc_Handler
begin

text \<open>
  The world a call service runs in, and the repository methods of
  \<open>internal/storage/postgres/repository.go\<close> over it.

  The world holds the database, the ICE server provider and a tick that counts the interactions
  with anything outside the process. \<open>rtc_env\<close> fixes what happens at each tick: which transactions
  other clients of the same database commit just before ours (\<open>env_others\<close>), whether our statement
  reaches the database and its reply reaches us (\<open>env_fault\<close>), what the clock, the UUID generator, the
  identity service and the chat service answer. A theorem that holds for every \<open>env\<close> holds for every
  interleaving of transactions and for every failure.

  A transaction is atomic here: the code takes its row locks (\<open>SELECT ... FOR UPDATE\<close> on the call,
  the rooms and the user mutexes) before it writes, and Postgres rolls back what it does not commit.
  The reads of one unlocked \<open>discoverSlot\<close> see one state of the database.
\<close>

section \<open>Other clients, failures, the environment\<close>

datatype fault = Healthy | Broken | Cancelled | Unavailable | LostReply

text \<open>\<open>Broken\<close>, \<open>Cancelled\<close> and \<open>Unavailable\<close>: the transaction does not commit. \<open>LostReply\<close>: it commits, but
  the caller sees an error.\<close>

definition fault_error :: "fault \<Rightarrow> rtc_error" where
  "fault_error f = (case f of Cancelled \<Rightarrow> ErrContext | Unavailable \<Rightarrow> ErrUnavailable | _ \<Rightarrow> ErrOther)"

datatype store_op =
    OpCreate Call CallParticipant
  | OpJoin CallParticipant
  | OpLeave string string int
  | OpEnd string string int
  | OpTouch string int

record rtc_env =
  env_parse :: uuid_parser
  env_mac :: "string \<Rightarrow> string \<Rightarrow> string"
  env_guard :: bool
  env_others :: "nat \<Rightarrow> store_op list"
  env_fault :: "nat \<Rightarrow> fault"
  env_clock :: "nat \<Rightarrow> int"
  env_id :: "nat \<Rightarrow> string"
  env_authenticate :: "nat \<Rightarrow> string \<Rightarrow> rtc_error + string"
  env_scope_access :: "nat \<Rightarrow> string \<Rightarrow> ConversationScope \<Rightarrow> rtc_error + ScopeAccess option"
  env_participant_access :: "nat \<Rightarrow> string \<Rightarrow> ConversationScope \<Rightarrow> string \<Rightarrow> rtc_error + ScopeAccess option"

record rtc_world =
  w_db :: rtc_db
  w_tick :: nat
  w_ice :: ConfigurableICEServerProvider

section \<open>The slots of the methods\<close>

text \<open>The \<open>slotSpec\<close> each method builds. \<open>parsed\<close> is \<open>mustParseUUID\<close> after the check that it did not panic.\<close>

definition parsed :: "uuid_parser \<Rightarrow> string \<Rightarrow> uuid" where
  "parsed parse v = (case mustParseUUID parse v of Inl _ \<Rightarrow> uuid_Nil | Inr u \<Rightarrow> u)"

definition no_slot :: slotSpec where
  "no_slot = \<lparr>spec_call = uuid_Nil, spec_user = uuid_Nil, spec_participant = uuid_Nil, spec_create = False,
             spec_end = False, spec_extraUsers = [], spec_extraRooms = []\<rparr>"

definition create_spec :: "uuid_parser \<Rightarrow> Call \<Rightarrow> CallParticipant \<Rightarrow> slotSpec" where
  "create_spec parse c p = no_slot\<lparr>spec_call := parsed parse (call_ID c),
     spec_user := parsed parse (part_UserID p), spec_create := True\<rparr>"

definition join_spec :: "uuid_parser \<Rightarrow> CallParticipant \<Rightarrow> slotSpec" where
  "join_spec parse p = no_slot\<lparr>spec_call := parsed parse (part_CallID p),
     spec_user := parsed parse (part_UserID p)\<rparr>"

definition leave_spec :: "uuid_parser \<Rightarrow> string \<Rightarrow> string \<Rightarrow> slotSpec" where
  "leave_spec parse callID participantID = no_slot\<lparr>spec_call := parsed parse callID,
     spec_participant := parsed parse participantID\<rparr>"

definition end_spec :: "uuid_parser \<Rightarrow> string \<Rightarrow> slotSpec" where
  "end_spec parse callID = no_slot\<lparr>spec_call := parsed parse callID, spec_end := True\<rparr>"

text \<open>\<open>LeaveParticipantAndMaybeEndCall\<close> returns \<open>false\<close> without a commit.\<close>

definition commitIf :: "bool rtc_tx \<Rightarrow> bool rtc_tx" where
  "commitIf m = (\<lambda>db. case m db of Inr (False, _) \<Rightarrow> Inr (False, db) | r \<Rightarrow> r)"

definition guarded_tx :: "slotSpec \<Rightarrow> slotSnapshot \<Rightarrow> (slotTransaction option \<Rightarrow> 'a rtc_tx) \<Rightarrow> 'a rtc_tx" where
  "guarded_tx spec snapBefore body =
     bindT (beginSlotTransaction snapBefore spec) (\<lambda>t. body (Some t))"

text \<open>A transaction of another client, with the guard's discovery just before it.\<close>

definition client_tx :: "bool \<Rightarrow> slotSpec \<Rightarrow> (slotTransaction option \<Rightarrow> 'a rtc_tx) \<Rightarrow> 'a rtc_tx" where
  "client_tx guard spec body =
     (if guard then bindT (discoverSlot spec) (\<lambda>snapBefore. guarded_tx spec snapBefore body) else body None)"

definition store_op_tx :: "uuid_parser \<Rightarrow> bool \<Rightarrow> store_op \<Rightarrow> unit rtc_tx" where
  "store_op_tx parse guard operation =
     (case operation of
        OpCreate c p0 \<Rightarrow>
          let p = p0\<lparr>part_CallID := call_ID c\<rparr>; spec = create_spec parse c p
          in bindT (client_tx guard spec (\<lambda>slot. CreateCallWithParticipant_tx parse slot spec c p)) (\<lambda>_. returnT ())
      | OpJoin p \<Rightarrow>
          let spec = join_spec parse p
          in bindT (client_tx guard spec (\<lambda>slot. JoinParticipant_tx parse slot spec p)) (\<lambda>_. returnT ())
      | OpLeave i j at \<Rightarrow>
          bindT (client_tx guard (leave_spec parse i j)
                   (\<lambda>slot. LeaveParticipantAndMaybeEndCall_tx parse slot i j at)) (\<lambda>_. returnT ())
      | OpEnd i u at \<Rightarrow>
          bindT (client_tx guard (end_spec parse i)
                   (\<lambda>slot. EndCallWithParticipants_tx parse slot i u at)) (\<lambda>_. returnT ())
      | OpTouch j at \<Rightarrow> TouchParticipantSignal_tx parse j at)"

definition run_op :: "uuid_parser \<Rightarrow> bool \<Rightarrow> store_op \<Rightarrow> rtc_db \<Rightarrow> rtc_db" where
  "run_op parse guard operation db =
     (case store_op_tx parse guard operation db of Inl _ \<Rightarrow> db | Inr (_, db') \<Rightarrow> db')"

section \<open>One round trip to the database\<close>

definition others_ran :: "rtc_env \<Rightarrow> rtc_world \<Rightarrow> rtc_db" where
  "others_ran env w = fold (run_op (env_parse env) (env_guard env)) (env_others env (w_tick w)) (w_db w)"

definition transact :: "rtc_env \<Rightarrow> 'a rtc_tx \<Rightarrow> (rtc_world, rtc_error, 'a) prog" where
  "transact env m = (\<lambda>w.
     let db = others_ran env w;
         w1 = w\<lparr>w_tick := Suc (w_tick w), w_db := db\<rparr>;
         f = env_fault env (w_tick w)
     in if f \<noteq> Healthy \<and> f \<noteq> LostReply then (Inl (fault_error f), w1)
        else case m db of
               Inl e \<Rightarrow> (Inl e, w1)
             | Inr (x, db') \<Rightarrow> (if f = LostReply then Inl (fault_error f) else Inr x, w1\<lparr>w_db := db'\<rparr>))"

definition ask :: "(nat \<Rightarrow> 'a) \<Rightarrow> (rtc_world, rtc_error, 'a) prog" where
  "ask answer = (\<lambda>w. (Inr (answer (w_tick w)), w\<lparr>w_tick := Suc (w_tick w)\<rparr>))"

definition mapErrE :: "(rtc_error \<Rightarrow> rtc_error) \<Rightarrow> ('w, rtc_error, 'a) prog \<Rightarrow> ('w, rtc_error, 'a) prog" where
  "mapErrE f m = attemptE m (\<lambda>r. case r of Inl e \<Rightarrow> failE (f e) | Inr x \<Rightarrow> returnE x)"

text \<open>\<open>beginLegacySlot\<close> with the guard: \<open>retrySlot\<close> discovers, locks and retries at most three times.\<close>

fun retrySlot :: "rtc_env \<Rightarrow> slotSpec \<Rightarrow> (slotSnapshot \<Rightarrow> 'a rtc_tx) \<Rightarrow> nat \<Rightarrow> (rtc_world, rtc_error, 'a) prog" where
  "retrySlot env spec m 0 = failE ErrUnavailable"
| "retrySlot env spec m (Suc attempts) =
     bindE (transact env (discoverSlot spec)) (\<lambda>snapBefore.
     attemptE (transact env (m snapBefore)) (\<lambda>r.
       if r = Inl ErrSlotParentsChanged then retrySlot env spec m attempts else liftE r))"

definition beginLegacySlot ::
    "rtc_env \<Rightarrow> slotSpec \<Rightarrow> ('a rtc_tx \<Rightarrow> 'a rtc_tx) \<Rightarrow> (slotTransaction option \<Rightarrow> 'a rtc_tx) \<Rightarrow>
     (rtc_world, rtc_error, 'a) prog" where
  "beginLegacySlot env spec commit body =
     (if env_guard env then retrySlot env spec (\<lambda>snapBefore. commit (guarded_tx spec snapBefore body)) 3
      else transact env (commit (body None)))"

definition slotMethod :: "rtc_env \<Rightarrow> (rtc_world, rtc_error, 'a) prog \<Rightarrow> (rtc_world, rtc_error, 'a) prog" where
  "slotMethod env m = (if env_guard env then mapErrE slotLegacyError m else m)"

section \<open>The methods\<close>

definition required :: "rtc_env \<Rightarrow> uuid list \<Rightarrow> rtc_error + unit" where
  "required env ids = (if env_guard env \<and> uuid_Nil \<in> set ids then Inl ErrInvalidArgument else Inr ())"

definition createArguments :: "rtc_env \<Rightarrow> Call \<Rightarrow> CallParticipant \<Rightarrow> rtc_error + unit" where
  "createArguments env c p =
     (let parse = env_parse env in
      bindS (mustParseUUID parse (call_ID c)) (\<lambda>cid.
      bindS (mustParseUUID parse (part_UserID p)) (\<lambda>uid.
      if \<not> env_guard env then Inr ()
      else if cid = uuid_Nil \<or> uid = uuid_Nil then Inl ErrInvalidArgument
      else bindS (mustParseUUID parse (part_ID p)) (\<lambda>pid.
        if pid = uuid_Nil then Inl ErrInvalidArgument
        else bindS (mustParseUUID parse (part_CallID p)) (\<lambda>pcid.
          if pcid \<noteq> cid then Inl ErrInvalidArgument
          else bindS (mustParseUUID parse (call_CreatedByUserID c)) (\<lambda>creator.
            if creator \<noteq> uid then Inl ErrInvalidArgument else Inr ()))))))"

definition CreateCallWithParticipant ::
    "rtc_env \<Rightarrow> Call \<Rightarrow> CallParticipant \<Rightarrow> (rtc_world, rtc_error, Call \<times> CallParticipant) prog" where
  "CreateCallWithParticipant env c p = slotMethod env (
     let spec = create_spec (env_parse env) c p in
     bindE (liftE (createArguments env c p)) (\<lambda>_.
     beginLegacySlot env spec (\<lambda>m. m) (\<lambda>slot. CreateCallWithParticipant_tx (env_parse env) slot spec c p)))"

definition JoinParticipant ::
    "rtc_env \<Rightarrow> CallParticipant \<Rightarrow> (rtc_world, rtc_error, Call \<times> CallParticipant) prog" where
  "JoinParticipant env p = slotMethod env (
     let spec = join_spec (env_parse env) p in
     bindE (liftE (mustParseUUID (env_parse env) (part_CallID p))) (\<lambda>cid.
     bindE (liftE (mustParseUUID (env_parse env) (part_UserID p))) (\<lambda>uid.
     bindE (liftE (required env [cid, uid])) (\<lambda>_.
     beginLegacySlot env spec (\<lambda>m. m) (\<lambda>slot. JoinParticipant_tx (env_parse env) slot spec p)))))"

definition LeaveParticipantAndMaybeEndCall ::
    "rtc_env \<Rightarrow> string \<Rightarrow> string \<Rightarrow> int \<Rightarrow> (rtc_world, rtc_error, bool) prog" where
  "LeaveParticipantAndMaybeEndCall env callID participantID at = slotMethod env (
     bindE (liftE (mustParseUUID (env_parse env) callID)) (\<lambda>cid.
     bindE (liftE (required env [cid])) (\<lambda>_.
     bindE (liftE (mustParseUUID (env_parse env) participantID)) (\<lambda>pid.
     bindE (liftE (required env [pid])) (\<lambda>_.
     beginLegacySlot env (leave_spec (env_parse env) callID participantID) commitIf
       (\<lambda>slot. LeaveParticipantAndMaybeEndCall_tx (env_parse env) slot callID participantID at))))))"

definition EndCallWithParticipants ::
    "rtc_env \<Rightarrow> string \<Rightarrow> string \<Rightarrow> int \<Rightarrow> (rtc_world, rtc_error, Call \<times> CallParticipant list) prog" where
  "EndCallWithParticipants env callID userID at = slotMethod env (
     bindE (liftE (mustParseUUID (env_parse env) callID)) (\<lambda>cid.
     bindE (liftE (required env [cid])) (\<lambda>_.
     bindE (if env_guard env
            then bindE (liftE (mustParseUUID (env_parse env) userID)) (\<lambda>uid. liftE (required env [uid]))
            else returnE ()) (\<lambda>_.
     beginLegacySlot env (end_spec (env_parse env) callID) (\<lambda>m. m)
       (\<lambda>slot. EndCallWithParticipants_tx (env_parse env) slot callID userID at)))))"

definition postgres_repo :: "rtc_env \<Rightarrow> rtc_world Repository" where
  "postgres_repo env =
     \<lparr>repo_GetCallByID = (\<lambda>i. transact env (GetCallByID_tx (env_parse env) i)),
      repo_GetActiveCallByScope = (\<lambda>sc. transact env (GetActiveCallByScope_tx (env_parse env) sc)),
      repo_GetActiveParticipationByUserID =
        (\<lambda>u. transact env (GetActiveParticipationByUserID_tx (env_parse env) u)),
      repo_CreateCallWithParticipant = CreateCallWithParticipant env,
      repo_JoinParticipant = JoinParticipant env,
      repo_GetActiveParticipant = (\<lambda>i u. transact env (GetActiveParticipant_tx (env_parse env) i u)),
      repo_ListActiveParticipants = (\<lambda>i. transact env (ListActiveParticipants_tx (env_parse env) i)),
      repo_LeaveParticipantAndMaybeEndCall = LeaveParticipantAndMaybeEndCall env,
      repo_TouchParticipantSignal = (\<lambda>j at. transact env (TouchParticipantSignal_tx (env_parse env) j at)),
      repo_EndCallWithParticipants = EndCallWithParticipants env\<rparr>"

text \<open>The ICE provider keeps its state (\<open>BuildForUser\<close> writes the default lifetime) in the world.\<close>

definition ice_provider :: "rtc_env \<Rightarrow> string \<Rightarrow> int \<Rightarrow> (rtc_world, rtc_error, ICEServer list) prog" where
  "ice_provider env userID at = (\<lambda>w.
     case BuildForUser (env_mac env) (w_ice w) userID at of (servers, p) \<Rightarrow> (Inr servers, w\<lparr>w_ice := p\<rparr>))"

text \<open>The service as \<open>cmd/aero-rtc-control/main.go\<close> puts it together.\<close>

definition rtc_service :: "rtc_env \<Rightarrow> int \<Rightarrow> int \<Rightarrow> rtc_world Service" where
  "rtc_service env maxPayload staleTimeout =
     WithActiveParticipantStaleTimeout
       (WithICEServerProvider
          (NewService (postgres_repo env)
             (\<lambda>token. bindE (ask (\<lambda>t. env_authenticate env t token)) liftE)
             (\<lambda>token scope. bindE (ask (\<lambda>t. env_scope_access env t token scope)) liftE)
             (\<lambda>token scope u. bindE (ask (\<lambda>t. env_participant_access env t token scope u)) liftE)
             maxPayload (ask (env_clock env)) (ask (env_id env)) (env_parse env))
          (ice_provider env))
       staleTimeout"

section \<open>What a transaction keeps, the service keeps\<close>

text \<open>
  \<open>P\<close> is kept by the five writing transactions and by the mutex rows of the guard. The lemmas lift
  it to the methods of the repository and to the service, for every environment.
\<close>

definition body_ok :: "(rtc_db \<Rightarrow> bool) \<Rightarrow> (slotTransaction option \<Rightarrow> 'a rtc_tx) \<Rightarrow> bool" where
  "body_ok P body \<longleftrightarrow> (\<forall>slot db x db'. P db \<longrightarrow> slot_ok slot db \<longrightarrow> body slot db = Inr (x, db') \<longrightarrow> P db')"

lemma body_okD: "body_ok P body \<Longrightarrow> P db \<Longrightarrow> slot_ok slot db \<Longrightarrow> body slot db = Inr (x, db') \<Longrightarrow> P db'"
  unfolding body_ok_def by blast

locale store_invariant =
  fixes env :: rtc_env and P :: "rtc_db \<Rightarrow> bool"
  assumes create: "P db \<Longrightarrow> slot_ok slot db \<Longrightarrow>
        mustParseUUID (env_parse env) (part_CallID p) = mustParseUUID (env_parse env) (call_ID c) \<Longrightarrow>
        CreateCallWithParticipant_tx (env_parse env) slot spec c p db = Inr (r, db') \<Longrightarrow> P db'"
    and join: "P db \<Longrightarrow> slot_ok slot db \<Longrightarrow>
        JoinParticipant_tx (env_parse env) slot spec p db = Inr (r, db') \<Longrightarrow> P db'"
    and leave: "P db \<Longrightarrow> slot_ok slot db \<Longrightarrow>
        LeaveParticipantAndMaybeEndCall_tx (env_parse env) slot i j at db = Inr (b, db') \<Longrightarrow> P db'"
    and ending: "P db \<Longrightarrow> slot_ok slot db \<Longrightarrow>
        EndCallWithParticipants_tx (env_parse env) slot i u at db = Inr (q, db') \<Longrightarrow> P db'"
    and touch: "P db \<Longrightarrow> TouchParticipantSignal_tx (env_parse env) j at db = Inr (v, db') \<Longrightarrow> P db'"
    and mutex: "P db \<Longrightarrow> only_mutex db db' \<Longrightarrow> P db'"
begin

lemma bodies:
  "part_CallID p = call_ID c \<Longrightarrow> body_ok P (\<lambda>slot. CreateCallWithParticipant_tx (env_parse env) slot spec c p)"
  "body_ok P (\<lambda>slot. JoinParticipant_tx (env_parse env) slot spec p)"
  "body_ok P (\<lambda>slot. LeaveParticipantAndMaybeEndCall_tx (env_parse env) slot i j at)"
  "body_ok P (\<lambda>slot. EndCallWithParticipants_tx (env_parse env) slot i u at)"
proof -
  show "part_CallID p = call_ID c \<Longrightarrow>
      body_ok P (\<lambda>slot. CreateCallWithParticipant_tx (env_parse env) slot spec c p)"
    unfolding body_ok_def by (intro allI impI) (erule (1) create, simp_all)
  show "body_ok P (\<lambda>slot. JoinParticipant_tx (env_parse env) slot spec p)"
    unfolding body_ok_def by (intro allI impI) (erule (2) join)
  show "body_ok P (\<lambda>slot. LeaveParticipantAndMaybeEndCall_tx (env_parse env) slot i j at)"
    unfolding body_ok_def by (intro allI impI) (erule (2) leave)
  show "body_ok P (\<lambda>slot. EndCallWithParticipants_tx (env_parse env) slot i u at)"
    unfolding body_ok_def by (intro allI impI) (erule (2) ending)
qed

lemma keeps_guarded: "body_ok P body \<Longrightarrow> keeps P (guarded_tx spec snapBefore body)"
  unfolding keeps_def guarded_tx_def bindT_Inr_iff
  by (meson beginSlotTransaction_run body_okD mutex)

lemma keeps_None: "body_ok P body \<Longrightarrow> keeps P (body None)"
  unfolding keeps_def by (meson body_okD slot_ok_None)

lemma keeps_client: "body_ok P body \<Longrightarrow> keeps P (client_tx guard spec body)"
  unfolding client_tx_def
  by (intro pres_intros keeps_guarded keeps_None reads_keeps reads_discoverSlot)

lemma keeps_touch: "keeps P (TouchParticipantSignal_tx (env_parse env) j at)"
  unfolding keeps_def by (blast intro: touch)

lemma keeps_store_op: "keeps P (store_op_tx (env_parse env) guard operation)"
  unfolding store_op_tx_def Let_def
  by (cases operation) (auto intro!: pres_intros keeps_client keeps_touch bodies)

lemma others: "P (w_db w) \<Longrightarrow> P (others_ran env w)"
proof -
  have "P (run_op (env_parse env) (env_guard env) operation db)" if "P db" for operation db
    using keepsD [OF keeps_store_op that] that
    by (auto simp: run_op_def split: sum.splits)
  then have "P db \<Longrightarrow> P (fold (run_op (env_parse env) (env_guard env)) ops db)" for ops db
    by (induction ops arbitrary: db) simp_all
  then show "P (w_db w) \<Longrightarrow> P (others_ran env w)" by (simp add: others_ran_def)
qed

lemma pres_transact:
  assumes "keeps P m"
  shows "pres (\<lambda>w :: rtc_world. P (w_db w)) (transact env m)"
  unfolding pres_def
proof (intro allI impI)
  fix w :: rtc_world assume "P (w_db w)"
  then have "P (others_ran env w)" by (rule others)
  then show "P (w_db (snd (transact env m w)))"
    using keepsD [OF assms] by (auto simp: transact_def Let_def split: sum.splits)
qed

lemma pres_ask: "pres (\<lambda>w :: rtc_world. P (w_db w)) (ask answer)"
  by (simp add: pres_def ask_def)

lemma pres_mapErrE: "pres (\<lambda>w :: rtc_world. P (w_db w)) m \<Longrightarrow> pres (\<lambda>w. P (w_db w)) (mapErrE f m)"
  unfolding mapErrE_def by (intro pres_intros)

lemma pres_slotMethod: "pres (\<lambda>w :: rtc_world. P (w_db w)) m \<Longrightarrow> pres (\<lambda>w. P (w_db w)) (slotMethod env m)"
  unfolding slotMethod_def by (intro pres_intros pres_mapErrE)

lemma pres_retrySlot: "(\<And>snapBefore. keeps P (m snapBefore)) \<Longrightarrow> pres (\<lambda>w :: rtc_world. P (w_db w)) (retrySlot env spec m n)"
  by (induction n) (simp_all add: pres_intros pres_transact reads_keeps [OF reads_discoverSlot])

lemma pres_beginLegacySlot:
  assumes "body_ok P body" and "\<And>m. keeps P m \<Longrightarrow> keeps P (commit m)"
  shows "pres (\<lambda>w :: rtc_world. P (w_db w)) (beginLegacySlot env spec commit body)"
  unfolding beginLegacySlot_def
  by (intro pres_intros pres_retrySlot pres_transact assms keeps_guarded keeps_None)

lemma keeps_commitIf: "keeps P m \<Longrightarrow> keeps P (commitIf m)"
  unfolding keeps_def commitIf_def by (fastforce split: sum.splits prod.splits bool.splits)

lemma pres_queries:
  "pres (\<lambda>w :: rtc_world. P (w_db w)) (transact env (GetCallByID_tx (env_parse env) i))"
  "pres (\<lambda>w :: rtc_world. P (w_db w)) (transact env (GetActiveCallByScope_tx (env_parse env) scope))"
  "pres (\<lambda>w :: rtc_world. P (w_db w)) (transact env (GetActiveParticipationByUserID_tx (env_parse env) u))"
  "pres (\<lambda>w :: rtc_world. P (w_db w)) (transact env (GetActiveParticipant_tx (env_parse env) i u))"
  "pres (\<lambda>w :: rtc_world. P (w_db w)) (transact env (ListActiveParticipants_tx (env_parse env) i))"
  unfolding GetCallByID_tx_def GetActiveCallByScope_tx_def GetActiveParticipationByUserID_tx_def
    GetActiveParticipant_tx_def ListActiveParticipants_tx_def
  by (intro pres_transact pres_intros)+

lemma pres_CreateCallWithParticipant:
  "part_CallID p = call_ID c \<Longrightarrow> pres (\<lambda>w :: rtc_world. P (w_db w)) (CreateCallWithParticipant env c p)"
  unfolding CreateCallWithParticipant_def
  by (intro pres_slotMethod pres_intros pres_beginLegacySlot bodies)

lemma pres_JoinParticipant: "pres (\<lambda>w :: rtc_world. P (w_db w)) (JoinParticipant env p)"
  unfolding JoinParticipant_def
  by (intro pres_slotMethod pres_intros pres_beginLegacySlot bodies)

lemma pres_LeaveParticipantAndMaybeEndCall:
  "pres (\<lambda>w :: rtc_world. P (w_db w)) (LeaveParticipantAndMaybeEndCall env i j at)"
  unfolding LeaveParticipantAndMaybeEndCall_def
  by (intro pres_slotMethod pres_intros pres_beginLegacySlot bodies keeps_commitIf)

lemma pres_EndCallWithParticipants:
  "pres (\<lambda>w :: rtc_world. P (w_db w)) (EndCallWithParticipants env i u at)"
  unfolding EndCallWithParticipants_def
  by (intro pres_slotMethod pres_intros pres_beginLegacySlot bodies)

lemma pres_ice_provider: "pres (\<lambda>w :: rtc_world. P (w_db w)) (ice_provider env u at)"
  by (auto simp: pres_def ice_provider_def split: prod.splits)

end

lemma rtc_service_fields [simp]:
  "repo (rtc_service env a b) = postgres_repo env"
  "now (rtc_service env a b) = ask (env_clock env)"
  "newID (rtc_service env a b) = ask (env_id env)"
  "uuid_Parse (rtc_service env a b) = env_parse env"
  "Authenticate (rtc_service env a b) token = bindE (ask (\<lambda>t. env_authenticate env t token)) liftE"
  "GetScopeAccess (rtc_service env a b) token scope =
     bindE (ask (\<lambda>t. env_scope_access env t token scope)) liftE"
  "GetParticipantAccess (rtc_service env a b) token scope u =
     bindE (ask (\<lambda>t. env_participant_access env t token scope u)) liftE"
  "iceServerProvider (rtc_service env a b) = Some (ice_provider env)"
  by (simp_all add: rtc_service_def WithActiveParticipantStaleTimeout_def WithICEServerProvider_def
      NewService_def)

lemma rtc_service_timeout: "activeParticipantStaleTimeout (rtc_service env a b) > 0"
  by (simp add: rtc_service_def WithActiveParticipantStaleTimeout_def WithICEServerProvider_def
      NewService_def defaultActiveParticipantStaleTimeout_def)

sublocale store_invariant \<subseteq> service:
  rtc_repository "rtc_service env maxPayload staleTimeout" "\<lambda>w. P (w_db w)" for maxPayload staleTimeout
proof
  fix provider u at
  assume "iceServerProvider (rtc_service env maxPayload staleTimeout) = Some provider"
  then show "pres (\<lambda>w. P (w_db w)) (provider u at)"
    by (auto simp: pres_ice_provider)
qed (simp_all add: postgres_repo_def pres_queries pres_CreateCallWithParticipant pres_JoinParticipant
    pres_LeaveParticipantAndMaybeEndCall pres_EndCallWithParticipants pres_ice_provider pres_ask
    pres_transact keeps_touch pres_bindE pres_liftE)

end
