(* ===== verification/Rtc_History.thy ===== *)
theory Rtc_History
  imports Rtc_World
begin

text \<open>
  What the rows of calls and participants may become: they are never deleted, their identity never
  changes, and an ended call or a left participant is final. Both this and the invariant \<open>rtc_inv\<close>
  are interpretations of \<open>store_invariant\<close>.
\<close>

definition call_evolves :: "RtcCall \<Rightarrow> RtcCall \<Rightarrow> bool" where
  "call_evolves c d \<longleftrightarrow> c_ID d = c_ID c \<and> c_ScopeType d = c_ScopeType c \<and>
     c_DirectChatID d = c_DirectChatID c \<and> c_GroupID d = c_GroupID c \<and>
     c_CreatedByUserID d = c_CreatedByUserID c \<and> c_StartedAt d = c_StartedAt c \<and>
     (\<not> call_active c \<longrightarrow> d = c)"

definition part_evolves :: "RtcCallParticipant \<Rightarrow> RtcCallParticipant \<Rightarrow> bool" where
  "part_evolves p q \<longleftrightarrow> p_ID q = p_ID p \<and> p_CallID q = p_CallID p \<and> p_UserID q = p_UserID p \<and>
     p_JoinedAt q = p_JoinedAt p \<and> (\<not> part_active p \<longrightarrow> q = p)"

definition evolves :: "rtc_db \<Rightarrow> rtc_db \<Rightarrow> bool" where
  "evolves db db' \<longleftrightarrow>
     (\<forall>c\<in>set (rtc_calls db). \<exists>d\<in>set (rtc_calls db'). call_evolves c d) \<and>
     (\<forall>p\<in>set (rtc_call_participants db). \<exists>q\<in>set (rtc_call_participants db'). part_evolves p q)"

lemma call_evolves_refl [simp]: "call_evolves c c"
  by (simp add: call_evolves_def)

lemma part_evolves_refl [simp]: "part_evolves p p"
  by (simp add: part_evolves_def)

lemma call_evolves_trans: "call_evolves a b \<Longrightarrow> call_evolves b c \<Longrightarrow> call_evolves a c"
  by (auto simp: call_evolves_def)

lemma part_evolves_trans: "part_evolves a b \<Longrightarrow> part_evolves b c \<Longrightarrow> part_evolves a c"
  by (auto simp: part_evolves_def)

lemma evolves_same:
  "rtc_calls db' = rtc_calls db \<Longrightarrow> rtc_call_participants db' = rtc_call_participants db \<Longrightarrow> evolves db db'"
  unfolding evolves_def by (metis call_evolves_refl part_evolves_refl)

lemma evolves_refl [simp]: "evolves db db"
  by (rule evolves_same) simp_all

lemma evolves_trans: "evolves a b \<Longrightarrow> evolves b c \<Longrightarrow> evolves a c"
  unfolding evolves_def by (meson call_evolves_trans part_evolves_trans)

lemma evolves_append:
  assumes "set (rtc_calls db) \<subseteq> set (rtc_calls db')"
    and "set (rtc_call_participants db) \<subseteq> set (rtc_call_participants db')"
  shows "evolves db db'"
  unfolding evolves_def using assms by (meson call_evolves_refl part_evolves_refl subsetD)

lemma evolves_update_parts:
  assumes "\<And>p. p \<in> set (rtc_call_participants db) \<Longrightarrow> hit p \<Longrightarrow> part_evolves p (f p)"
  shows "evolves db (update_parts hit f db)"
proof -
  have "\<exists>q\<in>set (rtc_call_participants (update_parts hit f db)). part_evolves p q"
    if p: "p \<in> set (rtc_call_participants db)" for p
    by (rule bexI [of _ "if hit p then f p else p"]) (use assms [OF p] p in \<open>auto simp: update_parts_set\<close>)
  then show ?thesis by (simp add: evolves_def) (metis call_evolves_refl)
qed

lemma evolves_update_calls:
  assumes "\<And>c. c \<in> set (rtc_calls db) \<Longrightarrow> hit c \<Longrightarrow> call_evolves c (f c)"
  shows "evolves db (update_calls hit f db)"
proof -
  have "\<exists>d\<in>set (rtc_calls (update_calls hit f db)). call_evolves c d"
    if c: "c \<in> set (rtc_calls db)" for c
    by (rule bexI [of _ "if hit c then f c else c"]) (use assms [OF c] c in \<open>auto simp: update_calls_set\<close>)
  then show ?thesis by (simp add: evolves_def) (metis part_evolves_refl)
qed

lemma evolves_after_leave:
  assumes "\<And>p. hit p \<Longrightarrow> part_active p"
  shows "evolves db (after_leave hit c at endedBy reason db)"
proof -
  let ?db1 = "update_parts hit (leave_part_row at at) db"
  have 1: "evolves db ?db1"
    by (rule evolves_update_parts) (use assms in \<open>auto simp: part_evolves_def leave_part_row_def\<close>)
  have "evolves ?db1 (update_calls (\<lambda>d. c_ID d = c \<and> call_active d) (end_call_row at at endedBy reason) ?db1)"
    by (rule evolves_update_calls) (auto simp: call_evolves_def end_call_row_def)
  with 1 show ?thesis by (auto simp: after_leave_def Let_def intro: evolves_trans)
qed

section \<open>Every transaction only adds rows or finishes them\<close>

lemma evolves_Create:
  assumes "rtc_inv parse db" "mustParseUUID parse (part_CallID p) = mustParseUUID parse (call_ID c)"
    and "CreateCallWithParticipant_tx parse slot spec c p db = Inr (r, db')"
  shows "evolves db db'"
proof -
  from CreateCallWithParticipant_run [OF assms] obtain uid cid pid cr pr d g b db1 where
    "CreateCall cid (scope_Type (call_Scope c)) d g b (call_Status c) (call_CreatedAt c)
       (call_StartedAt c) (call_UpdatedAt c) db = Inr (cr, db1)"
    "CreateParticipant pid cid uid (part_State p) (part_JoinedAt p) (part_UpdatedAt p) db1 = Inr (pr, db')"
    by blast
  from CreateCall_Inr(1) [OF this(1)] CreateParticipant_Inr(1) [OF this(2)] show ?thesis
    by (intro evolves_append) auto
qed

lemma evolves_Join:
  assumes "rtc_inv parse db" "slot_ok slot db"
    and "JoinParticipant_tx parse slot spec p db = Inr (r, db')"
  shows "evolves db db'"
  using JoinParticipant_run [OF assms]
proof (elim exE conjE disjE)
  fix cid uid locked row pid
  assume "CreateParticipant pid cid uid (part_State p) (part_JoinedAt p) (part_UpdatedAt p) db = Inr (row, db')"
  from CreateParticipant_Inr(1) [OF this] show ?thesis by (intro evolves_append) auto
qed simp

lemma evolves_Leave:
  assumes "slot_ok slot db" "LeaveParticipantAndMaybeEndCall_tx parse slot i j at db = Inr (b, db')"
  shows "evolves db db'"
  using LeaveParticipant_run [OF assms] by (auto split: if_splits intro: evolves_after_leave)

lemma evolves_End:
  assumes "slot_ok slot db" "EndCallWithParticipants_tx parse slot i u at db = Inr (q, db')"
  shows "evolves db db'"
proof -
  from EndCallWithParticipants_run [OF assms] obtain call :: RtcCall and ender where
    "db' = after_leave (\<lambda>p. p_CallID p = c_ID call \<and> part_active p) (c_ID call) at ender
       (Some CallEndReasonManual) db" by blast
  then show ?thesis by (simp only:) (rule evolves_after_leave, simp)
qed

lemma evolves_Touch:
  assumes "TouchParticipantSignal_tx parse j at db = Inr (v, db')"
  shows "evolves db db'"
proof -
  from assms obtain pid where
    "db' = update_parts (\<lambda>p. p_ID p = pid \<and> part_active p) (touch_part_row at at) db"
    unfolding TouchParticipantSignal_tx_def by (elim bindT_InrE) (simp add: tx_simps, blast)
  moreover have "evolves db (update_parts (\<lambda>p. p_ID p = pid \<and> part_active p) (touch_part_row at at) db)"
    by (rule evolves_update_parts) (auto simp: part_evolves_def touch_part_row_def)
  ultimately show ?thesis by simp
qed

section \<open>The interpretations\<close>

definition good :: "rtc_env \<Rightarrow> rtc_db \<Rightarrow> bool" where
  "good env db \<longleftrightarrow> parser_ok (env_parse env) \<and> rtc_inv (env_parse env) db"

lemma good_mutex: "good env db \<Longrightarrow> only_mutex db db' \<Longrightarrow> good env db'"
  using only_mutexD(1-3) [of db db'] inv_gen [of "env_parse env" db db'] by (simp add: good_def)

interpretation invariant: store_invariant env "good env" for env
proof
  fix db slot p c spec r db'
  assume "good env db" "slot_ok slot db"
    "mustParseUUID (env_parse env) (part_CallID p) = mustParseUUID (env_parse env) (call_ID c)"
    "CreateCallWithParticipant_tx (env_parse env) slot spec c p db = Inr (r, db')"
  then show "good env db'"
    using inv_CreateCallWithParticipant [of "env_parse env" db p c slot spec r db'] by (simp add: good_def)
next
  fix db slot p spec r db'
  assume "good env db" "slot_ok slot db" "JoinParticipant_tx (env_parse env) slot spec p db = Inr (r, db')"
  then show "good env db'"
    using inv_JoinParticipant [of "env_parse env" db slot spec p r db'] by (simp add: good_def)
next
  fix db slot i j at b db'
  assume "good env db" "slot_ok slot db"
    "LeaveParticipantAndMaybeEndCall_tx (env_parse env) slot i j at db = Inr (b, db')"
  then show "good env db'"
    using inv_LeaveParticipant [of "env_parse env" db slot i j at b db'] by (simp add: good_def)
next
  fix db slot i u at q db'
  assume "good env db" "slot_ok slot db"
    "EndCallWithParticipants_tx (env_parse env) slot i u at db = Inr (q, db')"
  then show "good env db'"
    using inv_EndCallWithParticipants [of "env_parse env" db slot i u at q db'] by (simp add: good_def)
next
  fix db j at v db'
  assume "good env db" "TouchParticipantSignal_tx (env_parse env) j at db = Inr (v, db')"
  then show "good env db'"
    using inv_TouchParticipantSignal [of "env_parse env" db j at v db'] by (simp add: good_def)
next
  fix db db'
  assume "good env db" "only_mutex db db'"
  then show "good env db'" by (rule good_mutex)
qed

text \<open>A good database that came out of \<open>db0\<close>.\<close>

definition grown :: "rtc_env \<Rightarrow> rtc_db \<Rightarrow> rtc_db \<Rightarrow> bool" where
  "grown env db0 db \<longleftrightarrow> good env db \<and> evolves db0 db"

interpretation history: store_invariant env "grown env db0" for env db0
proof
  fix db slot p c spec r db'
  assume *: "grown env db0 db" "slot_ok slot db"
    "mustParseUUID (env_parse env) (part_CallID p) = mustParseUUID (env_parse env) (call_ID c)"
    "CreateCallWithParticipant_tx (env_parse env) slot spec c p db = Inr (r, db')"
  with invariant.create [OF _ *(2-4)] evolves_Create [OF _ *(3,4)]
  show "grown env db0 db'" by (auto simp: grown_def good_def intro: evolves_trans)
next
  fix db slot p spec r db'
  assume *: "grown env db0 db" "slot_ok slot db"
    "JoinParticipant_tx (env_parse env) slot spec p db = Inr (r, db')"
  with invariant.join [OF _ *(2,3)] evolves_Join [OF _ *(2,3)]
  show "grown env db0 db'" by (auto simp: grown_def good_def intro: evolves_trans)
next
  fix db slot i j at b db'
  assume *: "grown env db0 db" "slot_ok slot db"
    "LeaveParticipantAndMaybeEndCall_tx (env_parse env) slot i j at db = Inr (b, db')"
  with invariant.leave [OF _ *(2,3)] evolves_Leave [OF *(2,3)]
  show "grown env db0 db'" by (auto simp: grown_def intro: evolves_trans)
next
  fix db slot i u at q db'
  assume *: "grown env db0 db" "slot_ok slot db"
    "EndCallWithParticipants_tx (env_parse env) slot i u at db = Inr (q, db')"
  with invariant.ending [OF _ *(2,3)] evolves_End [OF *(2,3)]
  show "grown env db0 db'" by (auto simp: grown_def intro: evolves_trans)
next
  fix db j at v db'
  assume *: "grown env db0 db" "TouchParticipantSignal_tx (env_parse env) j at db = Inr (v, db')"
  with invariant.touch [OF _ *(2)] evolves_Touch [OF *(2)]
  show "grown env db0 db'" by (auto simp: grown_def intro: evolves_trans)
next
  fix db db'
  assume *: "grown env db0 db" "only_mutex db db'"
  with good_mutex [of env db db'] evolves_same [OF only_mutexD(2,3) [OF *(2)]]
  show "grown env db0 db'" by (auto simp: grown_def intro: evolves_trans)
qed

end
