(* ===== verification/Rtc_Outcomes.thy ===== *)
theory Rtc_Outcomes
  imports Rtc_History
begin

text \<open>
  What a method of the repository has done when it returned a value, for every environment: the
  database it committed to satisfied the invariant, and its transaction ran on it. The properties of
  the service are read off these.
\<close>

lemma transact_Inr:
  assumes "transact env m w = (Inr x, w')"
  shows "m (others_ran env w) = Inr (x, w_db w')"
  using assms by (auto simp: transact_def Let_def split: if_splits sum.splits)

lemma mapErrE_Inr [prog_simps]: "mapErrE f m w = (Inr x, w') \<longleftrightarrow> m w = (Inr x, w')"
  by (auto simp: mapErrE_def attemptE_def prog_simps split: prod.splits sum.splits)

lemma slotMethod_Inr [prog_simps]: "slotMethod env m w = (Inr x, w') \<longleftrightarrow> m w = (Inr x, w')"
  by (simp add: slotMethod_def prog_simps)

lemma commitIf_True: "commitIf m db = Inr (True, db') \<Longrightarrow> m db = Inr (True, db')"
  by (auto simp: commitIf_def split: sum.splits prod.splits bool.splits)

context store_invariant
begin

lemma transact_good:
  assumes "transact env m w = (r, w')" "keeps P m" "P (w_db w)"
  shows "P (w_db w')"
  using presD [OF pres_transact [OF assms(2)] assms(3,1)] .

lemma retrySlot_Inr:
  assumes "retrySlot env spec m n w = (Inr x, w')" "P (w_db w)" "\<And>snapBefore. keeps P (m snapBefore)"
  shows "\<exists>snapBefore db. P db \<and> m snapBefore db = Inr (x, w_db w')"
  using assms(1,2)
proof (induction n arbitrary: w)
  case 0
  then show ?case by (simp add: prog_simps)
next
  case (Suc n)
  from Suc.prems(1) obtain snapBefore w1 r w2 where 1: "transact env (discoverSlot spec) w = (Inr snapBefore, w1)"
    and 2: "transact env (m snapBefore) w1 = (r, w2)"
    and 3: "(if r = Inl ErrSlotParentsChanged then retrySlot env spec m n else liftE r) w2 = (Inr x, w')"
    by (auto simp: prog_simps)
  have g1: "P (w_db w1)"
    by (rule transact_good [OF 1 reads_keeps [OF reads_discoverSlot] Suc.prems(2)])
  have g2: "P (w_db w2)" by (rule transact_good [OF 2 assms(3) g1])
  show ?case
  proof (cases "r = Inl ErrSlotParentsChanged")
    case True
    with 3 Suc.IH [of w2] g2 show ?thesis by simp
  next
    case False
    with 3 have "r = Inr x" "w' = w2" by (simp_all add: prog_simps)
    with 2 have "m snapBefore (others_ran env w1) = Inr (x, w_db w')" by (simp add: transact_Inr)
    with others [OF g1] show ?thesis by blast
  qed
qed

lemma beginLegacySlot_Inr:
  assumes run: "beginLegacySlot env spec commit body w = (Inr x, w')" and good: "P (w_db w)"
    and body: "body_ok P body"
    and commit: "\<And>m. keeps P m \<Longrightarrow> keeps P (commit m)"
      "\<And>m db db'. commit m db = Inr (x, db') \<Longrightarrow> m db = Inr (x, db')"
  shows "\<exists>slot db. P db \<and> slot_ok slot db \<and> body slot db = Inr (x, w_db w')"
proof (cases "env_guard env")
  case False
  with run have "transact env (commit (body None)) w = (Inr x, w')" by (simp add: beginLegacySlot_def)
  then have "body None (others_ran env w) = Inr (x, w_db w')" by (blast dest: transact_Inr commit(2))
  with others [OF good] show ?thesis by (blast intro: slot_ok_None)
next
  case True
  with run have run: "retrySlot env spec (\<lambda>snapBefore. commit (guarded_tx spec snapBefore body)) 3 w = (Inr x, w')"
    by (simp add: beginLegacySlot_def)
  obtain snapBefore db where 1: "P db" "commit (guarded_tx spec snapBefore body) db = Inr (x, w_db w')"
    using retrySlot_Inr [OF run good commit(1) [OF keeps_guarded [OF body]]] by blast
  from commit(2) [OF 1(2)] obtain t db1 where 2: "beginSlotTransaction snapBefore spec db = Inr (t, db1)"
      "body (Some t) db1 = Inr (x, w_db w')"
    by (auto simp: guarded_tx_def tx_simps)
  from beginSlotTransaction_run [OF 2(1)] have "only_mutex db db1" "slot_ok (Some t) db1" by simp_all
  with 1(1) 2(2) mutex show ?thesis by blast
qed

lemma beginLegacySlot_id:
  assumes "beginLegacySlot env spec (\<lambda>m. m) body w = (Inr x, w')" "P (w_db w)" "body_ok P body"
  shows "\<exists>slot db. P db \<and> slot_ok slot db \<and> body slot db = Inr (x, w_db w')"
  using beginLegacySlot_Inr [OF assms] by simp

lemma beginLegacySlot_True:
  assumes "beginLegacySlot env spec commitIf body w = (Inr True, w')" "P (w_db w)" "body_ok P body"
  shows "\<exists>slot db. P db \<and> slot_ok slot db \<and> body slot db = Inr (True, w_db w')"
  using beginLegacySlot_Inr [OF assms] keeps_commitIf commitIf_True by blast

lemma Create_outcome:
  assumes run: "CreateCallWithParticipant env c p w = (Inr r, w')" and good: "P (w_db w)"
    and same: "part_CallID p = call_ID c"
  shows "\<exists>slot spec db. P db \<and> slot_ok slot db \<and>
    CreateCallWithParticipant_tx (env_parse env) slot spec c p db = Inr (r, w_db w')"
proof -
  from run have "beginLegacySlot env (create_spec (env_parse env) c p) (\<lambda>m. m)
      (\<lambda>slot. CreateCallWithParticipant_tx (env_parse env) slot (create_spec (env_parse env) c p) c p) w = (Inr r, w')"
    by (auto simp: CreateCallWithParticipant_def Let_def prog_simps)
  from beginLegacySlot_id [OF this good bodies(1) [OF same]] show ?thesis by blast
qed

lemma Join_outcome:
  assumes run: "JoinParticipant env p w = (Inr r, w')" and good: "P (w_db w)"
  shows "\<exists>slot spec db. P db \<and> slot_ok slot db \<and>
    JoinParticipant_tx (env_parse env) slot spec p db = Inr (r, w_db w')"
proof -
  from run have "beginLegacySlot env (join_spec (env_parse env) p) (\<lambda>m. m)
      (\<lambda>slot. JoinParticipant_tx (env_parse env) slot (join_spec (env_parse env) p) p) w = (Inr r, w')"
    by (auto simp: JoinParticipant_def Let_def prog_simps)
  from beginLegacySlot_id [OF this good bodies(2)] show ?thesis by blast
qed

lemma Leave_outcome:
  assumes run: "LeaveParticipantAndMaybeEndCall env i j at w = (Inr True, w')" and good: "P (w_db w)"
  shows "\<exists>slot db. P db \<and> slot_ok slot db \<and>
    LeaveParticipantAndMaybeEndCall_tx (env_parse env) slot i j at db = Inr (True, w_db w')"
proof -
  from run have "beginLegacySlot env (leave_spec (env_parse env) i j) commitIf
      (\<lambda>slot. LeaveParticipantAndMaybeEndCall_tx (env_parse env) slot i j at) w = (Inr True, w')"
    by (auto simp: LeaveParticipantAndMaybeEndCall_def Let_def prog_simps)
  from beginLegacySlot_True [OF this good bodies(3)] show ?thesis .
qed

lemma End_outcome:
  assumes run: "EndCallWithParticipants env i u at w = (Inr r, w')" and good: "P (w_db w)"
  shows "\<exists>slot db. P db \<and> slot_ok slot db \<and>
    EndCallWithParticipants_tx (env_parse env) slot i u at db = Inr (r, w_db w')"
proof -
  from run have "beginLegacySlot env (end_spec (env_parse env) i) (\<lambda>m. m)
      (\<lambda>slot. EndCallWithParticipants_tx (env_parse env) slot i u at) w = (Inr r, w')"
    by (auto simp: EndCallWithParticipants_def Let_def prog_simps split: if_splits)
  from beginLegacySlot_id [OF this good bodies(4)] show ?thesis .
qed

end

section \<open>Following a successful run\<close>

lemma bindE_good:
  assumes "bindE m f w = (Inr y, w')" "grown env db0 (w_db w)" "pres (\<lambda>w. grown env db0 (w_db w)) m"
  obtains x v where "m w = (Inr x, v)" "grown env db0 (w_db v)" "f x v = (Inr y, w')"
  using assms presD [OF assms(3,2)] by (auto simp: prog_simps)

lemma ask_Inr [prog_simps]: "ask f w = (Inr x, w') \<longleftrightarrow> x = f (w_tick w) \<and> w' = w\<lparr>w_tick := Suc (w_tick w)\<rparr>"
  by (auto simp: ask_def)

lemma authorizeForActiveParticipation_Inr:
  assumes "authorizeForActiveParticipation (rtc_service env a b) token scope w = (Inr (user, access), w')"
  shows "\<exists>t1 t2 sc. env_authenticate env t1 token = Inr user \<and> normalizeScope (env_parse env) scope = Inr sc \<and>
    env_scope_access env t2 token sc = Inr (Some access) \<and> ensureCanActivelyParticipate (Some access) = Inr ()"
  using assms
  by (auto simp: authorizeForActiveParticipation_def prog_simps split: option.splits)

lemma authorizeCallView_Inr:
  assumes "authorizeCallView (rtc_service env a b) token callID w = (Inr (call, user, access), w')"
    "grown env db0 (w_db w)"
  shows "\<exists>t1 t2 cid db. env_authenticate env t1 token = Inr user \<and> normalizeID (env_parse env) callID = Inr cid \<and>
    env_scope_access env t2 token (call_Scope call) = Inr access \<and> grown env db0 db \<and>
    GetCallByID_tx (env_parse env) cid db = Inr (call, w_db w')"
  using assms(1) history.others [OF assms(2)]
  by (auto simp: authorizeCallView_def prog_simps postgres_repo_def dest!: transact_Inr)

lemma orResolveConflict_Inr [prog_simps]:
  "orResolveConflict s u allowed m w = (Inr x, w') \<longleftrightarrow> m w = (Inr x, w')"
  by (auto simp: orResolveConflict_def attemptE_def prog_simps split: prod.splits sum.splits if_splits)

text \<open>The rows a successful \<open>StartCall\<close> leaves behind.\<close>

lemma Create_rows:
  assumes inv: "rtc_inv parse db" and same: "part_CallID p = call_ID c"
    and run: "CreateCallWithParticipant_tx parse slot spec c p db = Inr (r, db')"
  shows "\<exists>cr\<in>set (rtc_calls db'). \<exists>pr\<in>set (rtc_call_participants db').
    r = ((toDomainCallFromBase cr)\<lparr>call_ActiveParticipantCount := 1\<rparr>, toDomainParticipant pr) \<and>
    call_active cr \<and> c_ScopeType cr = scope_Type (call_Scope c) \<and>
    mustParseUUID parse (call_ID c) = Inr (c_ID cr) \<and>
    mustParseUUID parse (call_CreatedByUserID c) = Inr (c_CreatedByUserID cr) \<and>
    mustParseUUID parse (part_UserID p) = Inr (p_UserID pr) \<and>
    uuidValue parse (scope_DirectChatID (call_Scope c)) = Inr (c_DirectChatID cr) \<and>
    uuidValue parse (scope_GroupID (call_Scope c)) = Inr (c_GroupID cr) \<and>
    active_parts db' (c_ID cr) = [pr] \<and> c_ID cr \<notin> c_ID ` set (rtc_calls db) \<and>
    (\<forall>q\<in>set (rtc_call_participants db). p_CallID q \<noteq> c_ID cr)"
proof -
  from same have "mustParseUUID parse (part_CallID p) = mustParseUUID parse (call_ID c)" by simp
  from CreateCallWithParticipant_run [OF inv this run] obtain uid cid pid cr pr d g b db1 where
      cr: "CreateCall cid (scope_Type (call_Scope c)) d g b (call_Status c) (call_CreatedAt c)
             (call_StartedAt c) (call_UpdatedAt c) db = Inr (cr, db1)" and
      pr: "CreateParticipant pid cid uid (part_State p) (part_JoinedAt p) (part_UpdatedAt p) db1 = Inr (pr, db')" and
      ids: "mustParseUUID parse (part_UserID p) = Inr uid" "mustParseUUID parse (call_ID c) = Inr cid"
        "mustParseUUID parse (call_CreatedByUserID c) = Inr b"
        "uuidValue parse (scope_DirectChatID (call_Scope c)) = Inr d"
        "uuidValue parse (scope_GroupID (call_Scope c)) = Inr g" and
      r: "r = ((toDomainCallFromBase cr)\<lparr>call_ActiveParticipantCount := 1\<rparr>, toDomainParticipant pr)"
    by blast
  note C = CreateCall_Inr [OF cr] and P = CreateParticipant_Inr [OF pr]
  have new: "p_CallID q \<noteq> cid" if "q \<in> set (rtc_call_participants db)" for q
  proof -
    have "p_CallID q \<in> c_ID ` set (rtc_calls db)"
      using rtc_invD(1) [OF inv] that by (simp add: schema_ok_def)
    with C(2,8) show ?thesis by metis
  qed
  then have "active_parts db' cid = [pr]"
    using P(3,5) by (auto simp: active_parts_def P(1) C(1))
  then show ?thesis
    using C(1-8) P(1-5) ids r new
    by (intro bexI [of _ cr] bexI [of _ pr]) (simp_all add: P(1) C(1))
qed

lemma Join_rows:
  assumes inv: "rtc_inv parse db" and slot: "slot_ok slot db"
    and run: "JoinParticipant_tx parse slot spec p db = Inr (r, db')"
  shows "\<exists>cr\<in>set (rtc_calls db'). \<exists>pr\<in>set (active_parts db' (c_ID cr)). call_active cr \<and>
    mustParseUUID parse (part_CallID p) = Inr (c_ID cr) \<and> mustParseUUID parse (part_UserID p) = Inr (p_UserID pr) \<and>
    r = ((toDomainCallFromBase cr)\<lparr>call_ActiveParticipantCount := of_nat (length (active_parts db' (c_ID cr)))\<rparr>,
         toDomainParticipant pr)"
proof -
  from JoinParticipant_run [OF inv slot run] obtain cid uid locked row where
    ids: "mustParseUUID parse (part_CallID p) = Inr cid" "mustParseUUID parse (part_UserID p) = Inr uid" and
    locked: "locked \<in> set (rtc_calls db)" "c_ID locked = cid" "call_active locked" and
    r: "r = ((toDomainCallFromBase locked)\<lparr>call_ActiveParticipantCount :=
          of_nat (length (active_parts db' cid))\<rparr>, toDomainParticipant row)" and
    how: "find (\<lambda>p. p_CallID p = cid \<and> p_UserID p = uid \<and> part_active p) (rtc_call_participants db) = Some row \<and>
         db' = db \<or>
       (\<exists>pid. CreateParticipant pid cid uid (part_State p) (part_JoinedAt p) (part_UpdatedAt p) db =
          Inr (row, db'))" by blast
  from how have "row \<in> set (active_parts db' cid) \<and> p_UserID row = uid \<and> locked \<in> set (rtc_calls db')"
  proof (elim disjE exE conjE)
    fix pid
    assume "CreateParticipant pid cid uid (part_State p) (part_JoinedAt p) (part_UpdatedAt p) db = Inr (row, db')"
    from CreateParticipant_Inr [OF this] locked show ?thesis by (simp add: active_parts_set)
  next
    assume "find (\<lambda>p. p_CallID p = cid \<and> p_UserID p = uid \<and> part_active p) (rtc_call_participants db) = Some row"
      "db' = db"
    with locked find_SomeD [OF this(1)] show ?thesis by (simp add: active_parts_set)
  qed
  with locked ids r show ?thesis by (intro bexI [of _ locked] bexI [of _ row]) simp_all
qed

text \<open>The call an operation works on is the one that was asked for.\<close>

lemma GetCallByID_tx_Inr:
  assumes "GetCallByID_tx parse i db = Inr (c, db')"
  shows "db' = db \<and> parse (trim_space i) = Some (call_ID c) \<and>
    (\<exists>row\<in>set (rtc_calls db). c = toDomainCallFromGetCallRow (row, length (active_parts db (c_ID row))) \<and>
       call_ID c = c_ID row)"
  using assms
  by (auto simp: GetCallByID_tx_def GetCallByID_def tx_simps mustParseUUID_Inr toDomainCallFromGetCallRow_def
      toDomainCallFromBase_def dest!: find_SomeD)

section \<open>Successful runs of the service\<close>

lemmas service_pres = pres_intros history.pres_ask history.service.parts_pres history.service.CreateCallWithParticipant

lemma postgres_repo_fields [simp]:
  "repo_GetCallByID (postgres_repo env) i = transact env (GetCallByID_tx (env_parse env) i)"
  "repo_GetActiveCallByScope (postgres_repo env) sc = transact env (GetActiveCallByScope_tx (env_parse env) sc)"
  "repo_GetActiveParticipationByUserID (postgres_repo env) u =
     transact env (GetActiveParticipationByUserID_tx (env_parse env) u)"
  "repo_CreateCallWithParticipant (postgres_repo env) = CreateCallWithParticipant env"
  "repo_JoinParticipant (postgres_repo env) = JoinParticipant env"
  "repo_GetActiveParticipant (postgres_repo env) i u = transact env (GetActiveParticipant_tx (env_parse env) i u)"
  "repo_ListActiveParticipants (postgres_repo env) i = transact env (ListActiveParticipants_tx (env_parse env) i)"
  "repo_LeaveParticipantAndMaybeEndCall (postgres_repo env) = LeaveParticipantAndMaybeEndCall env"
  "repo_TouchParticipantSignal (postgres_repo env) j at = transact env (TouchParticipantSignal_tx (env_parse env) j at)"
  "repo_EndCallWithParticipants (postgres_repo env) = EndCallWithParticipants env"
  by (simp_all add: postgres_repo_def)

lemma if_fail_Inr: "(if c then failE e else m) w = (Inr x, w') \<longleftrightarrow> \<not> c \<and> m w = (Inr x, w')"
  by (simp add: prog_simps)

lemma liftE_Inr: "liftE r w = (Inr x, w') \<longleftrightarrow> r = Inr x \<and> w' = w"
  by (auto simp: prog_simps)

lemma returnE_Inr: "returnE y w = (Inr x, w') \<longleftrightarrow> x = y \<and> w' = w"
  by (auto simp: prog_simps)

lemmas run_simps = if_fail_Inr liftE_Inr returnE_Inr orResolveConflict_Inr rtc_service_fields postgres_repo_fields

lemma StartCall_run:
  assumes "StartCall (rtc_service env a b) token scope w = (Inr r, w')" "grown env db0 (w_db w)"
  shows "\<exists>user access w1 call part w2.
    CreateCallWithParticipant env call part w2 = (Inr r, w') \<and> grown env db0 (w_db w2) \<and>
    authorizeForActiveParticipation (rtc_service env a b) token scope w = (Inr (user, access), w1) \<and>
    part_CallID part = call_ID call \<and> call_Scope call = access_Scope access \<and>
    call_CreatedByUserID call = user \<and> part_UserID part = user"
  using assms
  unfolding StartCall_def split_beta
  apply -
  apply (erule bindE_good [where env = env and ?db0.0 = db0], assumption, (intro service_pres)[1])+
  apply (simp only: run_simps)
  apply (rule_tac x = "fst x" in exI, rule_tac x = "snd x" in exI)
  apply (intro exI conjI, assumption, assumption)
  apply simp_all
  done

lemma authorizeCallForActiveParticipation_run:
  assumes "authorizeCallForActiveParticipation (rtc_service env a b) token callID w = (Inr (call, user, access), w')"
  shows "authorizeCallView (rtc_service env a b) token callID w = (Inr (call, user, access), w') \<and>
    call_Status call = CallStatusActive \<and> ensureCanActivelyParticipate access = Inr ()"
  using assms by (auto simp: authorizeCallForActiveParticipation_def if_fail_Inr prog_simps)

lemma JoinCall_run:
  assumes "JoinCall (rtc_service env a b) token callID w = (Inr r, w')" "grown env db0 (w_db w)"
  shows "\<exists>call0 user access w1 part w2 call at0 r0 r1.
    JoinParticipant env part w2 = (Inr r, w') \<and> grown env db0 (w_db w2) \<and>
    authorizeCallForActiveParticipation (rtc_service env a b) token callID w = (Inr (call0, user, access), w1) \<and>
    part_UserID part = user \<and> part_CallID part = call_ID call \<and>
    refreshCallSnapshotAfterStalePrune (rtc_service env a b) call0 user at0 r0 = (Inr call, r1)"
  using assms
  unfolding JoinCall_def split_beta
  apply -
  apply (erule bindE_good [where env = env and ?db0.0 = db0], assumption, (intro service_pres)[1])+
  apply (simp only: run_simps, elim conjE)
  apply (erule bindE_good [where env = env and ?db0.0 = db0], assumption, (intro service_pres)[1])+
  apply (simp only: run_simps)
  apply (rule_tac x = "fst x" in exI, rule_tac x = "fst (snd x)" in exI, rule_tac x = "snd (snd x)" in exI)
  apply (intro exI conjI, assumption, assumption)
  apply simp_all
  done

lemma LeaveCall_run:
  assumes "LeaveCall (rtc_service env a b) token callID w = (Inr r, w')" "grown env db0 (w_db w)"
  shows "\<exists>participant call w3 at user access call0 w1 w2 v w4 at0 r0 r1.
    LeaveParticipantAndMaybeEndCall env (call_ID call) (part_ID participant) at w3 = (Inr True, w4) \<and>
    grown env db0 (w_db w3) \<and> grown env db0 (w_db w4) \<and> w_db w3 = w_db v \<and>
    transact env (GetActiveParticipant_tx (env_parse env) (call_ID call) user) w2 = (Inr participant, v) \<and>
    grown env db0 (w_db w2) \<and>
    transact env (GetCallByID_tx (env_parse env) (call_ID call)) w4 = (Inr (fst r), w') \<and>
    snd r = participant\<lparr>part_State := ParticipantStateLeft, part_LeftAt := Some at, part_UpdatedAt := at\<rparr> \<and>
    authorizeCallView (rtc_service env a b) token callID w = (Inr (call0, user, access), w1) \<and>
    refreshCallSnapshotAfterStalePrune (rtc_service env a b) call0 user at0 r0 = (Inr call, r1)"
  using assms
  unfolding LeaveCall_def split_beta
  apply -
  apply (erule bindE_good [where env = env and ?db0.0 = db0], assumption, (intro service_pres)[1])+
  apply (simp only: if_fail_Inr, elim conjE)
  apply (erule bindE_good [where env = env and ?db0.0 = db0], assumption, (intro service_pres)[1])+
  apply (simp only: if_fail_Inr, elim conjE)
  apply (erule bindE_good [where env = env and ?db0.0 = db0], assumption, (intro service_pres)[1])+
  apply (simp (no_asm_use) only: run_simps not_not simp_thms)
  apply (rename_tac x v xa va xb vb xc vc xd vd xe ve xf vf)
  apply (rule_tac x = xc in exI, rule_tac x = xb in exI, rule_tac x = vd in exI, rule_tac x = xd in exI,
      rule_tac x = "fst (snd x)" in exI, rule_tac x = "snd (snd x)" in exI, rule_tac x = "fst x" in exI,
      rule_tac x = v in exI, rule_tac x = vb in exI, rule_tac x = vc in exI, rule_tac x = ve in exI,
      rule_tac x = xa in exI, rule_tac x = va in exI, rule_tac x = vb in exI)
  apply (simp add: ask_Inr)
  done

lemma EndCall_run:
  assumes "EndCall (rtc_service env a b) token callID w = (Inr r, w')" "grown env db0 (w_db w)"
  shows "\<exists>call user at w2 access call0 w1 at0 r0 r1.
    EndCallWithParticipants env (call_ID call) user at w2 = (Inr r, w') \<and> grown env db0 (w_db w2) \<and>
    call_CreatedByUserID call = user \<and>
    authorizeCallView (rtc_service env a b) token callID w = (Inr (call0, user, access), w1) \<and>
    refreshCallSnapshotAfterStalePrune (rtc_service env a b) call0 user at0 r0 = (Inr call, r1)"
  using assms
  unfolding EndCall_def split_beta
  apply -
  apply (erule bindE_good [where env = env and ?db0.0 = db0], assumption, (intro service_pres)[1])+
  apply (simp only: if_fail_Inr, elim conjE)
  apply (erule bindE_good [where env = env and ?db0.0 = db0], assumption, (intro service_pres)[1])+
  apply (simp (no_asm_use) only: run_simps not_not simp_thms)
  apply (rename_tac x v xa va xb vb xc vc)
  apply (rule_tac x = xb in exI, rule_tac x = "fst (snd x)" in exI, rule_tac x = xc in exI, rule_tac x = vc in exI,
      rule_tac x = "snd (snd x)" in exI, rule_tac x = "fst x" in exI, rule_tac x = v in exI,
      rule_tac x = xa in exI, rule_tac x = va in exI, rule_tac x = vb in exI)
  apply simp
  done

lemma TouchCallParticipant_run:
  assumes "TouchCallParticipant (rtc_service env a b) token callID w = (Inr r, w')" "grown env db0 (w_db w)"
  shows "\<exists>participant call w3 at user access call0 w1 w2 v at0 r0 r1.
    transact env (TouchParticipantSignal_tx (env_parse env) (part_ID participant) at) w3 = (Inr (), w') \<and>
    grown env db0 (w_db w3) \<and> w_db w3 = w_db v \<and>
    transact env (GetActiveParticipant_tx (env_parse env) (call_ID call) user) w2 = (Inr participant, v) \<and>
    grown env db0 (w_db w2) \<and>
    r = participant\<lparr>part_UpdatedAt := at, part_LastSignalAt := Some at\<rparr> \<and>
    authorizeCallForActiveParticipation (rtc_service env a b) token callID w = (Inr (call0, user, access), w1) \<and>
    refreshCallSnapshotAfterStalePrune (rtc_service env a b) call0 user at0 r0 = (Inr call, r1)"
  using assms
  unfolding TouchCallParticipant_def split_beta
  apply -
  apply (erule bindE_good [where env = env and ?db0.0 = db0], assumption, (intro service_pres)[1])+
  apply (simp only: if_fail_Inr, elim conjE)
  apply (erule bindE_good [where env = env and ?db0.0 = db0], assumption, (intro service_pres)[1])+
  apply (simp (no_asm_use) only: run_simps not_not simp_thms unit_eq)
  apply (rename_tac x v xa va xb vb xc vc xd vd xe ve)
  apply (rule_tac x = xc in exI, rule_tac x = xb in exI, rule_tac x = vd in exI, rule_tac x = xd in exI,
      rule_tac x = "fst (snd x)" in exI, rule_tac x = "snd (snd x)" in exI, rule_tac x = "fst x" in exI,
      rule_tac x = v in exI, rule_tac x = vb in exI, rule_tac x = vc in exI,
      rule_tac x = xa in exI, rule_tac x = va in exI, rule_tac x = vb in exI)
  apply (simp add: ask_Inr)
  done

lemma attemptE_good:
  assumes "attemptE m k w = (Inr y, w')" "grown env db0 (w_db w)" "pres (\<lambda>w. grown env db0 (w_db w)) m"
  obtains r v where "m w = (r, v)" "grown env db0 (w_db v)" "k r v = (Inr y, w')"
  using assms presD [OF assms(3,2)] by (auto simp: prog_simps)

lemma signal_access_Inr:
  assumes "(case (case r of Inl err \<Rightarrow> Some err
      | Inr access \<Rightarrow> if eligible scope access then None else Some ErrPermissionDenied) of
        Some err \<Rightarrow> if P err then bindE m (\<lambda>at. bindE (n at) (\<lambda>_. failE e)) else failE err
      | None \<Rightarrow> k) v = (Inr y, w')"
  shows "\<exists>access. r = Inr access \<and> eligible scope access \<and> k v = (Inr y, w')"
  using assms by (auto simp: prog_simps split: sum.splits if_splits)

lemma grown_anew: "grown env db0 db \<Longrightarrow> evolves db0 db \<and> grown env db db"
  by (simp add: grown_def)

lemma SendSignal_run:
  assumes "SendSignal (rtc_service env a b) token callID targetUserID kind payload w = (Inr r, w')"
    "grown env db0 (w_db w)"
  shows "\<exists>sender target call tid user at t access call0 acc0 w1 w2 v2 w3 v3 w4 at0 r0 r1.
    transact env (TouchParticipantSignal_tx (env_parse env) (part_ID sender) at) w4 = (Inr (), w') \<and>
    evolves db0 (w_db w1) \<and> grown env (w_db w1) (w_db r0) \<and>
    grown env (w_db w1) (w_db w4) \<and> grown env (w_db w1) (w_db w2) \<and> grown env (w_db w1) (w_db w3) \<and>
    w3 = v2 \<and> w_db w4 = w_db v3 \<and>
    transact env (GetActiveParticipant_tx (env_parse env) (call_ID call) user) w2 = (Inr sender, v2) \<and>
    transact env (GetActiveParticipant_tx (env_parse env) (call_ID call) tid) w3 = (Inr target, v3) \<and>
    normalizeID (env_parse env) targetUserID = Inr tid \<and> user \<noteq> tid \<and> validateSignalType kind = Inr () \<and>
    payload \<noteq> '''' \<and> int (length payload) \<le> maxSignalPayloadSize (rtc_service env a b) \<and>
    env_participant_access env t token (call_Scope call) tid = Inr access \<and> eligible (call_Scope call) access \<and>
    authorizeCallForActiveParticipation (rtc_service env a b) token callID w = (Inr (call0, user, acc0), w1) \<and>
    refreshCallSnapshotAfterStalePrune (rtc_service env a b) call0 user at0 r0 = (Inr call, r1) \<and>
    r = \<lparr>signal_CallID = call_ID call, signal_FromUserID = user, signal_TargetUserID = tid,
         signal_Type = kind, signal_Payload = payload, signal_CreatedAt = at\<rparr>"
  using assms
  unfolding SendSignal_def split_beta Let_def
  apply -
  apply (erule bindE_good [where env = env and ?db0.0 = db0], assumption, (intro service_pres)[1])
  apply (erule thin_rl [of "grown env db0 (w_db w)"], drule grown_anew, elim conjE)
  apply (erule bindE_good [where env = env], assumption, (intro service_pres)[1])+
  apply (simp only: if_fail_Inr, elim conjE)
  apply (erule bindE_good [where env = env], assumption, (intro service_pres)[1])+
  apply (simp only: if_fail_Inr, elim conjE)
  apply (erule bindE_good [where env = env], assumption, (intro service_pres)[1])+
  apply (simp only: if_fail_Inr, elim conjE)
  apply (erule bindE_good [where env = env], assumption, (intro service_pres)[1])+
  apply (erule attemptE_good [where env = env], assumption, (intro service_pres)[1])
  apply (drule signal_access_Inr, elim exE conjE)
  apply (erule bindE_good [where env = env], assumption, (intro service_pres)[1])+
  apply (simp (no_asm_use) only: run_simps not_not simp_thms unit_eq)
  apply (rename_tac x v xa va xb vb xc vc xd vd xe ve xf vf ra vg acc xg vh xh vi)
  apply (rule_tac x = xe in exI, rule_tac x = xf in exI, rule_tac x = xb in exI, rule_tac x = xc in exI,
      rule_tac x = "fst (snd x)" in exI, rule_tac x = xg in exI, rule_tac x = "w_tick vf" in exI,
      rule_tac x = acc in exI, rule_tac x = "fst x" in exI, rule_tac x = "snd (snd x)" in exI,
      rule_tac x = v in exI, rule_tac x = vd in exI, rule_tac x = ve in exI, rule_tac x = ve in exI,
      rule_tac x = vf in exI, rule_tac x = vh in exI,
      rule_tac x = xa in exI, rule_tac x = va in exI, rule_tac x = vb in exI)
  apply (auto simp: bindE_def ask_def liftE_def)
  done

lemma refresh_same_call:
  assumes "refreshCallSnapshotAfterStalePrune (rtc_service env a b) call u at w = (Inr call', w')"
    and "canonical (env_parse env) (call_ID call)"
  shows "call_ID call' = call_ID call"
  using assms
  by (auto simp: refreshCallSnapshotAfterStalePrune_def prog_simps canonical_def split: if_splits
      dest!: transact_Inr GetCallByID_tx_Inr)

lemma view_call:
  assumes "authorizeCallView (rtc_service env a b) token callID w = (Inr (call, user, access), w')"
    and "grown env db0 (w_db w)"
  shows "env_parse env (trim_space callID) = Some (call_ID call)" "canonical (env_parse env) (call_ID call)"
proof -
  from authorizeCallView_Inr [OF assms] obtain cid db where
    "normalizeID (env_parse env) callID = Inr cid" "GetCallByID_tx (env_parse env) cid db = Inr (call, w_db w')"
    "grown env db0 db" by blast
  then show p: "env_parse env (trim_space callID) = Some (call_ID call)"
    by (auto simp: normalizeID_Inr dest: GetCallByID_tx_Inr)
  from \<open>grown env db0 db\<close> have "parser_ok (env_parse env)" by (simp add: grown_def good_def)
  with p show "canonical (env_parse env) (call_ID call)" unfolding parser_ok_def by blast
qed

section \<open>The rows behind the results\<close>

lemma evolves_call_ids: "evolves db db' \<Longrightarrow> c_ID ` set (rtc_calls db) \<subseteq> c_ID ` set (rtc_calls db')"
  unfolding evolves_def call_evolves_def by (metis (no_types, lifting) image_eqI image_subsetI)

text \<open>\<open>call_in\<close>: the call is stored with that scope.\<close>

definition call_in :: "Call \<Rightarrow> rtc_db \<Rightarrow> bool" where
  "call_in c db \<longleftrightarrow> (\<exists>row\<in>set (rtc_calls db). call_ID c = c_ID row \<and> call_Scope c = call_Scope (toDomainCallFromBase row))"

lemma call_in_kept: "call_in c db \<Longrightarrow> evolves db db' \<Longrightarrow> call_in c db'"
  unfolding call_in_def evolves_def call_evolves_def toDomainCallFromBase_def by fastforce

lemma call_in_read: "GetCallByID_tx parse i db = Inr (c, db') \<Longrightarrow> call_in c db"
  by (auto dest!: GetCallByID_tx_Inr simp: call_in_def toDomainCallFromGetCallRow_def)

lemma view_call_in:
  assumes "authorizeCallView (rtc_service env a b) token callID w = (Inr (call, user, access), w')"
    and "grown env db0 (w_db w)"
  shows "call_in call (w_db w')"
  using authorizeCallView_Inr [OF assms] by (auto dest: call_in_read GetCallByID_tx_Inr)

lemma refresh_scope:
  assumes ref: "refreshCallSnapshotAfterStalePrune (rtc_service env a b) call u at w = (Inr call', w')"
    and can: "canonical (env_parse env) (call_ID call)" and grown: "grown env db0 (w_db w)" and stored: "call_in call db0"
  shows "call_Scope call' = call_Scope call"
proof (cases "call' = call")
  case False
  with ref obtain v where
    prune: "pruneStaleParticipantsForCall (rtc_service env a b) (call_ID call) u at w = (Inr True, v)" and
    read: "transact env (GetCallByID_tx (env_parse env) (call_ID call)) v = (Inr call', w')"
    by (auto simp: refreshCallSnapshotAfterStalePrune_def prog_simps split: if_splits)
  have "pres (\<lambda>w. grown env db0 (w_db w)) (pruneStaleParticipantsForCall (rtc_service env a b) (call_ID call) u at)"
    unfolding pruneStaleParticipantsForCall_def by (intro service_pres history.service.pruneStale_pres)
  from presD [OF this grown prune] history.others have now: "grown env db0 (others_ran env v)" by blast
  have "call_in call' (others_ran env v)" using call_in_read [OF transact_Inr [OF read]] .
  moreover have "call_in call (others_ran env v)" using call_in_kept [OF stored] now by (simp add: grown_def)
  moreover have "call_ID call' = call_ID call" using refresh_same_call [OF ref can] .
  moreover have "schema_ok (others_ran env v)" using now by (simp add: grown_def good_def rtc_inv_def)
  ultimately show ?thesis unfolding call_in_def by (metis call_unique)
qed simp

lemma GetActiveParticipant_tx_Inr:
  assumes "GetActiveParticipant_tx parse i u db = Inr (p, db')"
  shows "db' = db \<and> (\<exists>row\<in>set (rtc_call_participants db). part_active row \<and> p = toDomainParticipant row \<and>
    mustParseUUID parse i = Inr (p_CallID row) \<and> mustParseUUID parse u = Inr (p_UserID row))"
  using assms by (auto simp: GetActiveParticipant_tx_def tx_simps dest!: find_SomeD)

lemma evolves_part:
  assumes "evolves db db'" "schema_ok db'" "p \<in> set (rtc_call_participants db)"
    "q \<in> set (rtc_call_participants db')" "p_ID q = p_ID p"
  shows "part_evolves p q"
proof -
  from assms(1,3) obtain r where r: "r \<in> set (rtc_call_participants db')" "part_evolves p r"
    unfolding evolves_def by blast
  then have "p_ID r = p_ID p" by (simp add: part_evolves_def)
  with assms(5) part_unique [OF assms(2) r(1) assms(4)] r(2) show ?thesis by simp
qed

lemma evolves_left:
  assumes "evolves db db'" "p \<in> set (rtc_call_participants db)" "\<not> part_active p"
  shows "p \<in> set (rtc_call_participants db')"
  using assms unfolding evolves_def part_evolves_def by fastforce

lemma evolves_ended:
  assumes "evolves db db'" "c \<in> set (rtc_calls db)" "\<not> call_active c"
  shows "c \<in> set (rtc_calls db')"
  using assms unfolding evolves_def call_evolves_def by fastforce

lemma Leave_rows:
  assumes inv: "rtc_inv parse db" and slot: "slot_ok slot db"
    and run: "LeaveParticipantAndMaybeEndCall_tx parse slot i j at db = Inr (True, db')"
  shows "\<exists>row\<in>set (rtc_call_participants db). p_ID row = j \<and> mustParseUUID parse i = Inr (p_CallID row) \<and>
    part_active row \<and> leave_part_row at at row \<in> set (rtc_call_participants db')"
proof -
  from LeaveParticipant_run [OF slot run] obtain pid row and call :: RtcCall where
    ids: "mustParseUUID parse i = Inr (c_ID call)" "mustParseUUID parse j = Inr pid" and
    row: "row \<in> set (active_parts db (c_ID call))" "p_ID row = j" and
    db': "db' = after_leave (\<lambda>p. p_ID p = pid \<and> part_active p) (c_ID call) at None
            (Some CallEndReasonLastParticipant) db" by auto
  from row have r: "row \<in> set (rtc_call_participants db)" "p_CallID row = c_ID call" "part_active row"
    by (auto simp: active_parts_set)
  from rtc_invD(3) [OF inv r(1)] row(2) ids(2) have "p_ID row = pid"
    by (simp add: canonical_def mustParseUUID_Inr)
  with r have "leave_part_row at at row \<in> set (rtc_call_participants db')"
    by (auto simp: db' after_leave_def Let_def update_parts_set intro: image_eqI [of _ _ row])
  with r row ids show ?thesis by auto
qed

lemma transact_evolves:
  assumes "transact env m w = (r, w')" "good env (w_db w)" "reads m"
  shows "evolves (w_db w) (w_db w')" "good env (w_db w')"
proof -
  have "grown env (w_db w) (w_db w')"
    by (rule history.transact_good [OF assms(1) reads_keeps [OF assms(3)]]) (simp add: grown_def assms(2))
  then show "evolves (w_db w) (w_db w')" "good env (w_db w')" by (simp_all add: grown_def)
qed

lemma reads_GetCallByID_tx: "reads (GetCallByID_tx parse i)"
  by (auto simp: reads_def dest: GetCallByID_tx_Inr)

lemma End_rows:
  assumes slot: "slot_ok slot db"
    and run: "EndCallWithParticipants_tx parse slot i u at db = Inr ((c, ps), db')"
  shows "\<exists>cr\<in>set (rtc_calls db'). mustParseUUID parse i = Inr (c_ID cr) \<and> call_ID c = c_ID cr \<and>
    call_CreatedByUserID c = u \<and> c_CreatedByUserID cr = u \<and>
    call_Status c = CallStatusEnded \<and> call_EndReason c = CallEndReasonManual \<and> call_EndedAt c = Some at \<and>
    c_Status cr = CallStatusEnded \<and> c_EndReason cr = Some CallEndReasonManual \<and> c_EndedAt cr = Some at \<and>
    active_parts db' (c_ID cr) = [] \<and>
    (\<forall>p\<in>set ps. part_State p = ParticipantStateLeft \<and> part_LeftAt p = Some at \<and>
       (\<exists>pr\<in>set (rtc_call_participants db'). p_ID pr = part_ID p \<and> p_CallID pr = c_ID cr \<and>
          p_State pr = ParticipantStateLeft \<and> p_LeftAt pr = Some at))"
proof -
  from EndCallWithParticipants_run [OF slot run] obtain ender and call :: RtcCall where
    ids: "mustParseUUID parse i = Inr (c_ID call)" and
    call: "call \<in> set (rtc_calls db)" "call_active call" "c_CreatedByUserID call = u" and
    c: "c = (toDomainCallFromBase call)\<lparr>call_Status := CallStatusEnded, call_UpdatedAt := at,
              call_EndedAt := Some at, call_EndedByUserID := Some u, call_EndReason := CallEndReasonManual\<rparr>" and
    ps: "ps = map (\<lambda>row. (toDomainParticipant row)\<lparr>part_State := ParticipantStateLeft,
              part_LeftAt := Some at, part_UpdatedAt := at\<rparr>)
            (sort_key (\<lambda>p. (p_JoinedAt p, p_ID p)) (active_parts db (c_ID call)))" and
    db': "db' = after_leave (\<lambda>p. p_CallID p = c_ID call \<and> part_active p) (c_ID call) at ender
            (Some CallEndReasonManual) db" by auto
  let ?cr = "end_call_row at at ender (Some CallEndReasonManual) call"
  have cr: "?cr \<in> set (rtc_calls db')"
    using call by (auto simp: db' after_leave_def Let_def update_calls_set intro: image_eqI [of _ _ call])
  have left: "leave_part_row at at row \<in> set (rtc_call_participants db')"
    if "row \<in> set (active_parts db (c_ID call))" for row
    using that unfolding active_parts_set
    by (auto simp: db' after_leave_def Let_def update_parts_set intro: image_eqI [of _ _ row])
  have "\<forall>p\<in>set ps. part_State p = ParticipantStateLeft \<and> part_LeftAt p = Some at \<and>
       (\<exists>pr\<in>set (rtc_call_participants db'). p_ID pr = part_ID p \<and> p_CallID pr = c_ID call \<and>
          p_State pr = ParticipantStateLeft \<and> p_LeftAt pr = Some at)"
  proof
    fix p assume "p \<in> set ps"
    then obtain row where row: "row \<in> set (active_parts db (c_ID call))"
      "p = (toDomainParticipant row)\<lparr>part_State := ParticipantStateLeft, part_LeftAt := Some at, part_UpdatedAt := at\<rparr>"
      by (auto simp: ps)
    with left [OF row(1)] show "part_State p = ParticipantStateLeft \<and> part_LeftAt p = Some at \<and>
       (\<exists>pr\<in>set (rtc_call_participants db'). p_ID pr = part_ID p \<and> p_CallID pr = c_ID call \<and>
          p_State pr = ParticipantStateLeft \<and> p_LeftAt pr = Some at)"
      by (intro conjI bexI [OF _ left [OF row(1)]]) (simp_all add: toDomainParticipant_def active_parts_set)
  qed
  moreover have "active_parts db' (c_ID call) = []" by (simp add: db' after_leave_def Let_def)
  ultimately show ?thesis
    using call ids by (intro bexI [OF _ cr]) (simp add: c toDomainCallFromBase_def)
qed

end
