(* ===== verification/Rtc_Sample.thy ===== *)
theory Rtc_Sample
  imports Rtc_Outcomes
begin

text \<open>
  A small deployment on which the theorems are run: three users, a group in which \<open>u3\<close> is a reader,
  a clock that advances a second per interaction, short identifiers, and no other clients.
\<close>

definition sample_table :: "(string \<times> string) list" where
  "sample_table =
     [(''u1'', ''u1''), (''u2'', ''u2''), (''U2'', ''u2''), (''u3'', ''u3''), (''g1'', ''g1''), (''d1'', ''d1''),
      (''i4'', ''i4''), (''i5'', ''i5''), (''i6'', ''i6''), (''i10'', ''i10''), (''i11'', ''i11''),
      (''i12'', ''i12''), (''i13'', ''i13''), (''i14'', ''i14''), (''i15'', ''i15''), (''i16'', ''i16''),
      (''c1'', ''c1''), (''c2'', ''c2''), (''p1'', ''p1''), (''p2'', ''p2''), (''p3'', ''p3'')]"

definition sample_env :: rtc_env where
  "sample_env =
     \<lparr>env_parse = map_of sample_table, env_mac = (\<lambda>key text. key @ ''/'' @ text), env_guard = False,
      env_others = (\<lambda>t. []), env_fault = (\<lambda>t. Healthy), env_clock = (\<lambda>t. int t * 1000000000),
      env_id = (\<lambda>t. ''i'' @ show_nat t),
      env_authenticate = (\<lambda>t token. if token \<in> {''u1'', ''u2'', ''u3''} then Inr token else Inl ErrUnauthorized),
      env_scope_access = (\<lambda>t token scope. Inr (Some \<lparr>access_Scope = scope,
         access_GroupRole = (if token = ''u3'' then GroupRoleReader else GroupRoleMember)\<rparr>)),
      env_participant_access = (\<lambda>t token scope u. Inr (Some \<lparr>access_Scope = scope,
         access_GroupRole = (if u = ''u3'' then GroupRoleReader else GroupRoleMember)\<rparr>))\<rparr>"

definition sample_db :: rtc_db where
  "sample_db = \<lparr>users = [''u1'', ''u2'', ''u3''], rtc_calls = [], rtc_call_participants = [],
     rtc_media_control_intents = [], rtc_media_rooms = [], rtc_media_grants = [],
     rtc_media_user_generations = []\<rparr>"

definition sample_ice :: ConfigurableICEServerProvider where
  "sample_ice = NewConfigurableICEServerProvider [''stun:a''] [''turn:b''] ''key'' 0"

definition sample_world :: rtc_world where
  "sample_world = \<lparr>w_db = sample_db, w_tick = 0, w_ice = sample_ice\<rparr>"

definition group_scope :: ConversationScope where
  "group_scope = \<lparr>scope_Type = ScopeTypeGroup, scope_DirectChatID = '''', scope_GroupID = ''g1''\<rparr>"

lemma sample_parser: "parser_ok (env_parse sample_env)"
proof -
  have "\<forall>(s, u)\<in>set sample_table. map_of sample_table (trim_space u) = Some u" by code_simp
  then show ?thesis
    by (auto simp: parser_ok_def canonical_def sample_env_def dest!: map_of_SomeD)
qed

lemma sample_good: "good sample_env sample_db"
  by (simp add: good_def sample_parser rtc_inv_def sample_db_def schema_ok_def lifecycle_ok_def)

text \<open>A database in which \<open>u1\<close> and \<open>u2\<close> are in the call \<open>c1\<close> of the group.\<close>

definition sample_part :: "string \<Rightarrow> string \<Rightarrow> RtcCallParticipant" where
  "sample_part i u = \<lparr>p_ID = i, p_CallID = ''c1'', p_UserID = u, p_State = ParticipantStateActive, p_JoinedAt = 0,
     p_LeftAt = None, p_UpdatedAt = 0, p_LastSignalAt = None\<rparr>"

definition busy_db :: rtc_db where
  "busy_db = sample_db\<lparr>rtc_calls := [\<lparr>c_ID = ''c1'', c_ScopeType = ScopeTypeGroup, c_DirectChatID = None,
       c_GroupID = Some ''g1'', c_CreatedByUserID = ''u1'', c_Status = CallStatusActive, c_CreatedAt = 0,
       c_StartedAt = 0, c_UpdatedAt = 0, c_EndedAt = None, c_EndedByUserID = None, c_EndReason = None\<rparr>],
     rtc_call_participants := [sample_part ''p1'' ''u1'', sample_part ''p2'' ''u2'']\<rparr>"

definition busy_world :: "nat \<Rightarrow> rtc_world" where
  "busy_world t = \<lparr>w_db = busy_db, w_tick = t, w_ice = sample_ice\<rparr>"

lemma sample_canonical:
  "canonical (env_parse sample_env) ''p1''" "canonical (env_parse sample_env) ''p2''"
  "canonical (env_parse sample_env) ''c1''"
  unfolding canonical_def by code_simp+

lemma busy_good: "good sample_env busy_db"
  by (simp add: good_def sample_parser rtc_inv_def busy_db_def sample_db_def schema_ok_def lifecycle_ok_def
      sample_part_def rtc_calls_check_def rtc_call_participants_check_def sample_canonical)

end
