(* ===== verification/Rtc_Properties.thy ===== *)
theory Rtc_Properties
  imports Rtc_Sample
begin

text \<open>
  The properties of the call service: what holds after any sequence of requests, under any
  interleaving with other clients and any failure, and what each operation achieves.
\<close>

definition serve :: "rtc_env \<Rightarrow> int \<Rightarrow> int \<Rightarrow> (string \<times> RtcRequest) list \<Rightarrow> rtc_world \<Rightarrow> rtc_world" where
  "serve env maxPayload staleTimeout requests =
     fold (\<lambda>(header, req) w. snd (handle
       \<lparr>serviceName = ''aero-rtc-control'', version = ''1'', service = rtc_service env maxPayload staleTimeout\<rparr>
       header req w)) requests"

lemma serve_grown: "grown env db0 (w_db w) \<Longrightarrow> grown env db0 (w_db (serve env a b reqs w))"
proof (induction reqs arbitrary: w)
  case Nil
  then show ?case by (simp add: serve_def)
next
  case (Cons hr reqs)
  obtain header req where hr: "hr = (header, req)" by fastforce
  let ?v = "snd (handle \<lparr>serviceName = ''aero-rtc-control'', version = ''1'',
    service = rtc_service env a b\<rparr> header req w)"
  from history.service.handle_pres [of env db0 "''aero-rtc-control''" "''1''" a b header req] Cons.prems
  have "grown env db0 (w_db ?v)" by (simp add: pres_def)
  with Cons.IH [of ?v] show ?case by (simp add: serve_def hr)
qed

lemma serve_history:
  "good env (w_db w) \<Longrightarrow> good env (w_db (serve env a b reqs w)) \<and> evolves (w_db w) (w_db (serve env a b reqs w))"
  using serve_grown [of env "w_db w" w] by (simp add: grown_def)

lemma active_call_scope_unique:
  assumes "schema_ok db" "c \<in> set (rtc_calls db)" "d \<in> set (rtc_calls db)" "call_active c" "call_active d"
    "c_DirectChatID c = c_DirectChatID d" "c_GroupID c = c_GroupID d"
  shows "c = d"
proof -
  have "rtc_calls_check c" using assms(1,2) by (simp add: schema_ok_def)
  then consider "c_DirectChatID c \<noteq> None" | "c_GroupID c \<noteq> None" by (auto simp: rtc_calls_check_def)
  then show ?thesis
  proof cases
    case 1
    have "distinct (map c_DirectChatID (filter (\<lambda>c. call_active c \<and> c_DirectChatID c \<noteq> None) (rtc_calls db)))"
      using assms(1) by (simp add: schema_ok_def)
    then show ?thesis by (rule distinct_filter_keyD) (use assms 1 in simp_all)
  next
    case 2
    have "distinct (map c_GroupID (filter (\<lambda>c. call_active c \<and> c_GroupID c \<noteq> None) (rtc_calls db)))"
      using assms(1) by (simp add: schema_ok_def)
    then show ?thesis by (rule distinct_filter_keyD) (use assms 2 in simp_all)
  qed
qed

text \<open>C1: whatever requests are served, in whatever interleaving with the transactions of other
  clients and with whatever connection failures, the database stays consistent: a user is active in
  at most one call, a conversation has at most one active call, and a call is active exactly as long
  as it has an active participant.\<close>

theorem calls_stay_consistent:
  assumes "parser_ok (env_parse env)" and "rtc_inv (env_parse env) (w_db w)"
    and db: "db = w_db (serve env maxPayload staleTimeout requests w)"
  shows "rtc_inv (env_parse env) db \<and>
    (\<forall>p\<in>set (rtc_call_participants db). \<forall>q\<in>set (rtc_call_participants db).
       part_active p \<and> part_active q \<and> p_UserID p = p_UserID q \<longrightarrow> p = q) \<and>
    (\<forall>c\<in>set (rtc_calls db). \<forall>d\<in>set (rtc_calls db). call_active c \<and> call_active d \<and>
       c_DirectChatID c = c_DirectChatID d \<and> c_GroupID c = c_GroupID d \<longrightarrow> c = d) \<and>
    (\<forall>c\<in>set (rtc_calls db). call_active c \<longleftrightarrow>
       (\<exists>p\<in>set (rtc_call_participants db). p_CallID p = c_ID c \<and> part_active p))"
proof -
  have "good env (w_db w)" using assms(1,2) by (simp add: good_def)
  from serve_history [OF this] have inv: "rtc_inv (env_parse env) db" by (simp add: good_def db)
  note s = rtc_invD(1) [OF inv] and l = rtc_invD(2) [OF inv]
  have "call_active c \<longleftrightarrow> (\<exists>p\<in>set (rtc_call_participants db). p_CallID p = c_ID c \<and> part_active p)"
    if c: "c \<in> set (rtc_calls db)" for c
    using l c call_unique [OF s _ c] unfolding lifecycle_ok_def by metis
  with inv s show ?thesis
    using active_user_unique [OF s] active_call_scope_unique [OF s] by blast
qed

text \<open>C2: calls and participants are never deleted, a call keeps its conversation and its creator, and
  an ended call or a participant who left is final, whatever requests are served.\<close>

theorem finished_rows_are_final:
  assumes "parser_ok (env_parse env)" and "rtc_inv (env_parse env) (w_db w)"
  shows "evolves (w_db w) (w_db (serve env maxPayload staleTimeout requests w))"
  using serve_history [of env w] assms by (simp add: good_def)


text \<open>C3: when \<open>StartCall\<close> returns a call and a participant, the token was that of an authenticated user
  with access to the normalised scope and not a reader of the group, and the database holds an active
  call of that scope whose identifier no call had in the database before, created by the user, with the
  user as its only active participant. This holds in every interleaving.\<close>

theorem StartCall_creates_call:
  assumes "parser_ok (env_parse env)" and "rtc_inv (env_parse env) (w_db w)"
    and "StartCall (rtc_service env maxPayload staleTimeout) token scope w = (Inr (c, p), w')"
  shows "\<exists>user access sc t1 t2. env_authenticate env t1 token = Inr user \<and>
    normalizeScope (env_parse env) scope = Inr sc \<and>
    env_scope_access env t2 token sc = Inr (Some access) \<and>
    \<not> (scope_Type (access_Scope access) = ScopeTypeGroup \<and> access_GroupRole access = GroupRoleReader) \<and>
    (\<exists>cr\<in>set (rtc_calls (w_db w')). \<exists>pr\<in>set (rtc_call_participants (w_db w')).
       c = (toDomainCallFromBase cr)\<lparr>call_ActiveParticipantCount := 1\<rparr> \<and> p = toDomainParticipant pr \<and>
       call_active cr \<and> c_ScopeType cr = scope_Type (access_Scope access) \<and>
       uuidValue (env_parse env) (scope_DirectChatID (access_Scope access)) = Inr (c_DirectChatID cr) \<and>
       uuidValue (env_parse env) (scope_GroupID (access_Scope access)) = Inr (c_GroupID cr) \<and>
       env_parse env (trim_space user) = Some (c_CreatedByUserID cr) \<and>
       p_UserID pr = c_CreatedByUserID cr \<and> active_parts (w_db w') (c_ID cr) = [pr] \<and>
       c_ID cr \<notin> c_ID ` set (rtc_calls (w_db w)))"
proof -
  have good: "grown env (w_db w) (w_db w)" using assms(1,2) by (simp add: good_def grown_def)
  from StartCall_run [OF assms(3) good] obtain user access w1 call part w2 where
    create: "CreateCallWithParticipant env call part w2 = (Inr (c, p), w')" "grown env (w_db w) (w_db w2)" and
    auth: "authorizeForActiveParticipation (rtc_service env maxPayload staleTimeout) token scope w =
      (Inr (user, access), w1)" and
    eqs: "part_CallID part = call_ID call" "call_Scope call = access_Scope access"
      "call_CreatedByUserID call = user" "part_UserID part = user" by blast
  from history.Create_outcome [OF create eqs(1)] obtain slot spec db where db: "grown env (w_db w) db"
    "CreateCallWithParticipant_tx (env_parse env) slot spec call part db = Inr ((c, p), w_db w')" by blast
  from db(1) have "rtc_inv (env_parse env) db" by (simp add: grown_def good_def)
  note rows = Create_rows [OF this eqs(1) db(2)]
  have "c_ID ` set (rtc_calls (w_db w)) \<subseteq> c_ID ` set (rtc_calls db)"
    using db(1) by (simp add: grown_def evolves_call_ids)
  then have "i \<notin> c_ID ` set (rtc_calls (w_db w))" if "i \<notin> c_ID ` set (rtc_calls db)" for i using that by blast
  with rows authorizeForActiveParticipation_Inr [OF auth] eqs(2-4)
  show ?thesis
    by (fastforce simp: ensureCanActivelyParticipate_def mustParseUUID_Inr split: if_splits)
qed

text \<open>When \<open>JoinCall\<close> returns a call and a participant, the user of the token has access to the
  conversation and is not a reader of the group, the call is the requested one and active, and the
  user is an active participant of it; the count returned is the number of active participants.\<close>

theorem JoinCall_joins:
  assumes "parser_ok (env_parse env)" and "rtc_inv (env_parse env) (w_db w)"
    and "JoinCall (rtc_service env maxPayload staleTimeout) token callID w = (Inr (c, p), w')"
  shows "\<exists>user access t1 t2. \<exists>call0 :: Call. env_authenticate env t1 token = Inr user \<and>
    env_scope_access env t2 token (call_Scope call0) = Inr (Some access) \<and>
    env_parse env (trim_space callID) = Some (call_ID call0) \<and>
    \<not> (scope_Type (access_Scope access) = ScopeTypeGroup \<and> access_GroupRole access = GroupRoleReader) \<and>
    (\<exists>cr\<in>set (rtc_calls (w_db w')). \<exists>pr\<in>set (active_parts (w_db w') (c_ID cr)).
       c_ID cr = call_ID call0 \<and> call_active cr \<and>
       env_parse env (trim_space user) = Some (p_UserID pr) \<and> p = toDomainParticipant pr \<and>
       c = (toDomainCallFromBase cr)\<lparr>call_ActiveParticipantCount :=
              of_nat (length (active_parts (w_db w') (c_ID cr)))\<rparr>)"
proof -
  have good: "grown env (w_db w) (w_db w)" using assms(1,2) by (simp add: good_def grown_def)
  from JoinCall_run [OF assms(3) good] obtain call0 user access w1 part w2 call at0 r0 r1 where
    join: "JoinParticipant env part w2 = (Inr (c, p), w')" "grown env (w_db w) (w_db w2)" and
    auth: "authorizeCallForActiveParticipation (rtc_service env maxPayload staleTimeout) token callID w =
      (Inr (call0, user, access), w1)" and part: "part_UserID part = user" "part_CallID part = call_ID call" and
    ref: "refreshCallSnapshotAfterStalePrune (rtc_service env maxPayload staleTimeout) call0 user at0 r0 =
      (Inr call, r1)" by blast
  from authorizeCallForActiveParticipation_run [OF auth] have
    view: "authorizeCallView (rtc_service env maxPayload staleTimeout) token callID w =
      (Inr (call0, user, access), w1)" and may: "ensureCanActivelyParticipate access = Inr ()" by simp_all
  note same = view_call [OF view good] refresh_same_call [OF ref view_call(2) [OF view good]]
  from history.Join_outcome [OF join] obtain slot spec db where db: "grown env (w_db w) db" "slot_ok slot db"
    "JoinParticipant_tx (env_parse env) slot spec part db = Inr ((c, p), w_db w')" by blast
  from db(1) have "rtc_inv (env_parse env) db" by (simp add: grown_def good_def)
  from Join_rows [OF this db(2,3)] obtain cr pr where rows: "cr \<in> set (rtc_calls (w_db w'))"
    "pr \<in> set (active_parts (w_db w') (c_ID cr))" "call_active cr"
    "mustParseUUID (env_parse env) (part_CallID part) = Inr (c_ID cr)"
    "mustParseUUID (env_parse env) (part_UserID part) = Inr (p_UserID pr)"
    "(c, p) = ((toDomainCallFromBase cr)\<lparr>call_ActiveParticipantCount :=
       of_nat (length (active_parts (w_db w') (c_ID cr)))\<rparr>, toDomainParticipant pr)" by blast
  have "c_ID cr = call_ID call0"
    using rows(4) part(2) same by (simp add: canonical_def mustParseUUID_Inr)
  with rows part(1) same(1) authorizeCallView_Inr [OF view good] may show ?thesis
    by (fastforce simp: ensureCanActivelyParticipate_def mustParseUUID_Inr split: option.splits if_splits)
qed

text \<open>When \<open>LeaveCall\<close> succeeds, the user of the token had an active participant in the requested
  call and that participant is now left, at the returned instant; the returned call is the call as
  the database has it, and unless somebody else is still active in it, it has ended.\<close>

theorem LeaveCall_leaves:
  assumes "parser_ok (env_parse env)" and "rtc_inv (env_parse env) (w_db w)"
    and "LeaveCall (rtc_service env maxPayload staleTimeout) token callID w = (Inr (c, p), w')"
  shows "\<exists>user t at. env_authenticate env t token = Inr user \<and>
    env_parse env (trim_space callID) = Some (call_ID c) \<and>
    part_State p = ParticipantStateLeft \<and> part_LeftAt p = Some at \<and>
    (\<exists>pr\<in>set (rtc_call_participants (w_db w')). p_ID pr = part_ID p \<and> p_CallID pr = call_ID c \<and>
       env_parse env (trim_space user) = Some (p_UserID pr) \<and>
       p_State pr = ParticipantStateLeft \<and> p_LeftAt pr = Some at) \<and>
    (\<exists>cr\<in>set (rtc_calls (w_db w')). c = toDomainCallFromGetCallRow (cr, length (active_parts (w_db w') (c_ID cr))) \<and>
       (active_parts (w_db w') (c_ID cr) = [] \<longrightarrow> call_Status c = CallStatusEnded))"
proof -
  let ?s = "rtc_service env maxPayload staleTimeout"
  have good: "grown env (w_db w) (w_db w)" using assms(1,2) by (simp add: good_def grown_def)
  from LeaveCall_run [OF assms(3) good] obtain participant call w3 at user access call0 w1 w2 v w4 at0 r0 r1 where
    leave: "LeaveParticipantAndMaybeEndCall env (call_ID call) (part_ID participant) at w3 = (Inr True, w4)" and
    grown: "grown env (w_db w) (w_db w3)" "grown env (w_db w) (w_db w4)" "w_db w3 = w_db v" and
    part: "transact env (GetActiveParticipant_tx (env_parse env) (call_ID call) user) w2 = (Inr participant, v)" and
    call: "transact env (GetCallByID_tx (env_parse env) (call_ID call)) w4 = (Inr c, w')" and
    p: "p = participant\<lparr>part_State := ParticipantStateLeft, part_LeftAt := Some at, part_UpdatedAt := at\<rparr>" and
    view: "authorizeCallView ?s token callID w = (Inr (call0, user, access), w1)" and
    ref: "refreshCallSnapshotAfterStalePrune ?s call0 user at0 r0 = (Inr call, r1)" by auto
  note same = view_call [OF view good] refresh_same_call [OF ref view_call(2) [OF view good]]
  have "grown env (w_db w3) (w_db w3)" using grown(1) by (simp add: grown_def)
  from history.Leave_outcome [OF leave this] obtain slot db where db: "grown env (w_db w3) db" "slot_ok slot db"
    "LeaveParticipantAndMaybeEndCall_tx (env_parse env) slot (call_ID call) (part_ID participant) at db =
       Inr (True, w_db w4)" by blast
  from db(1) have inv: "rtc_inv (env_parse env) db" and ev: "evolves (w_db v) db"
    by (simp_all add: grown_def good_def grown(3))
  from Leave_rows [OF inv db(2,3)] obtain row where row: "row \<in> set (rtc_call_participants db)"
    "p_ID row = part_ID participant" "mustParseUUID (env_parse env) (call_ID call) = Inr (p_CallID row)"
    "leave_part_row at at row \<in> set (rtc_call_participants (w_db w4))" by blast
  from GetActiveParticipant_tx_Inr [OF transact_Inr [OF part]] obtain prow where
    prow: "prow \<in> set (rtc_call_participants (w_db v))" "participant = toDomainParticipant prow"
    "mustParseUUID (env_parse env) user = Inr (p_UserID prow)" by auto
  have "p_ID row = p_ID prow" using row(2) prow(2) by (simp add: toDomainParticipant_def)
  from evolves_part [OF ev rtc_invD(1) [OF inv] prow(1) row(1) this] have user: "p_UserID row = p_UserID prow"
    by (simp add: part_evolves_def)
  have g4: "good env (w_db w4)" using grown(2) by (simp add: grown_def)
  note w' = transact_evolves [OF call g4 reads_GetCallByID_tx]
  have left: "leave_part_row at at row \<in> set (rtc_call_participants (w_db w'))"
    by (rule evolves_left [OF w'(1) row(4)]) simp
  from GetCallByID_tx_Inr [OF transact_Inr [OF call]] same obtain cr where
    c: "cr \<in> set (rtc_calls (w_db w'))" "call_ID c = c_ID cr" "call_ID c = call_ID call0"
      "c = toDomainCallFromGetCallRow (cr, length (active_parts (w_db w') (c_ID cr)))"
    by (auto simp: canonical_def)
  from w'(2) have s: "schema_ok (w_db w')" "lifecycle_ok (w_db w')" by (simp_all add: good_def rtc_inv_def)
  have "call_Status c = CallStatusEnded" if "active_parts (w_db w') (c_ID cr) = []"
  proof -
    have "\<not> call_active cr"
      using s(2) c(1) that by (auto simp: lifecycle_ok_def active_parts_def filter_empty_conv)
    with s(1) c(1) have "c_Status cr = CallStatusEnded" by (auto simp: schema_ok_def rtc_calls_check_def)
    then show ?thesis by (simp add: c(4) toDomainCallFromGetCallRow_def toDomainCallFromBase_def)
  qed
  with c(1,4) have "\<exists>cr\<in>set (rtc_calls (w_db w')).
      c = toDomainCallFromGetCallRow (cr, length (active_parts (w_db w') (c_ID cr))) \<and>
      (active_parts (w_db w') (c_ID cr) = [] \<longrightarrow> call_Status c = CallStatusEnded)" by blast
  moreover have "p_CallID row = call_ID c" using row(3) same c(3) by (simp add: canonical_def mustParseUUID_Inr)
  moreover have "part_ID p = p_ID row" using row(2) by (simp add: p)
  moreover have "env_parse env (trim_space user) = Some (p_UserID row)"
    using user prow(3) by (simp add: mustParseUUID_Inr)
  moreover obtain t where "env_authenticate env t token = Inr user"
    using authorizeCallView_Inr [OF view good] by blast
  ultimately show ?thesis
    using left same(1) c(3) by (intro exI [of _ user] exI [of _ t] exI [of _ at]) (simp add: p, intro bexI [OF _ left], simp)
qed

text \<open>When \<open>EndCall\<close> succeeds, the user of the token created the requested call; in the database the
  call has ended with reason \<open>manual\<close>, nobody is active in it, and every returned participant left it
  at that instant.\<close>

theorem EndCall_ends:
  assumes "parser_ok (env_parse env)" and "rtc_inv (env_parse env) (w_db w)"
    and "EndCall (rtc_service env maxPayload staleTimeout) token callID w = (Inr (c, ps), w')"
  shows "\<exists>user t at. env_authenticate env t token = Inr user \<and>
    env_parse env (trim_space callID) = Some (call_ID c) \<and> call_CreatedByUserID c = user \<and>
    call_Status c = CallStatusEnded \<and>
    (\<exists>cr\<in>set (rtc_calls (w_db w')). c_ID cr = call_ID c \<and> c_CreatedByUserID cr = user \<and>
       c_Status cr = CallStatusEnded \<and> c_EndReason cr = Some CallEndReasonManual \<and> c_EndedAt cr = Some at) \<and>
    active_parts (w_db w') (call_ID c) = [] \<and>
    (\<forall>p\<in>set ps. part_State p = ParticipantStateLeft \<and>
       (\<exists>pr\<in>set (rtc_call_participants (w_db w')). p_ID pr = part_ID p \<and> p_CallID pr = call_ID c \<and>
          p_State pr = ParticipantStateLeft \<and> p_LeftAt pr = Some at))"
proof -
  let ?s = "rtc_service env maxPayload staleTimeout"
  have good: "grown env (w_db w) (w_db w)" using assms(1,2) by (simp add: good_def grown_def)
  from EndCall_run [OF assms(3) good] obtain call user at w2 access call0 w1 at0 r0 r1 where
    ends: "EndCallWithParticipants env (call_ID call) user at w2 = (Inr (c, ps), w')" "grown env (w_db w) (w_db w2)" and
    view: "authorizeCallView ?s token callID w = (Inr (call0, user, access), w1)" and
    ref: "refreshCallSnapshotAfterStalePrune ?s call0 user at0 r0 = (Inr call, r1)" by auto
  note same = view_call [OF view good] refresh_same_call [OF ref view_call(2) [OF view good]]
  from history.End_outcome [OF ends] obtain slot db where db: "slot_ok slot db"
    "EndCallWithParticipants_tx (env_parse env) slot (call_ID call) user at db = Inr ((c, ps), w_db w')" by blast
  from End_rows [OF db] obtain cr where cr: "cr \<in> set (rtc_calls (w_db w'))"
    "mustParseUUID (env_parse env) (call_ID call) = Inr (c_ID cr)" "call_ID c = c_ID cr"
    "call_CreatedByUserID c = user" "c_CreatedByUserID cr = user" "call_Status c = CallStatusEnded"
    "c_Status cr = CallStatusEnded" "c_EndReason cr = Some CallEndReasonManual" "c_EndedAt cr = Some at"
    "active_parts (w_db w') (c_ID cr) = []"
    "\<forall>p\<in>set ps. part_State p = ParticipantStateLeft \<and> part_LeftAt p = Some at \<and>
       (\<exists>pr\<in>set (rtc_call_participants (w_db w')). p_ID pr = part_ID p \<and> p_CallID pr = c_ID cr \<and>
          p_State pr = ParticipantStateLeft \<and> p_LeftAt pr = Some at)" by blast
  have "call_ID c = call_ID call0" using cr(2,3) same by (simp add: canonical_def mustParseUUID_Inr)
  moreover obtain t where "env_authenticate env t token = Inr user"
    using authorizeCallView_Inr [OF view good] by blast
  ultimately show ?thesis
    using cr same(1) by (intro exI [of _ user] exI [of _ t] exI [of _ at]) auto
qed

text \<open>C4: \<open>SendSignal\<close> returns an envelope only for a valid payload and kind, from the authenticated
  user to a target identifier spelled differently; when it looked, the user and the target were active
  participants of the requested call and the target was still eligible for the conversation that the call
  is stored with. The databases it looked at lie between the one it started from and the one it left.\<close>

theorem SendSignal_guarded:
  assumes "parser_ok (env_parse env)" and "rtc_inv (env_parse env) (w_db w)"
    and "SendSignal (rtc_service env maxPayload staleTimeout) token callID targetUserID kind payload w = (Inr r, w')"
  shows "\<exists>user tid t1 t2 access scope db1 db2.
    env_authenticate env t1 token = Inr user \<and> normalizeID (env_parse env) targetUserID = Inr tid \<and> user \<noteq> tid \<and>
    validateSignalType kind = Inr () \<and> 0 < length payload \<and>
    int (length payload) \<le> maxSignalPayloadSize (rtc_service env maxPayload staleTimeout) \<and>
    env_participant_access env t2 token scope tid = Inr access \<and> eligible scope access \<and>
    evolves (w_db w) db1 \<and> evolves db1 db2 \<and> evolves db2 (w_db w') \<and>
    (\<exists>p\<in>set (active_parts db1 (signal_CallID r)). env_parse env (trim_space user) = Some (p_UserID p)) \<and>
    (\<exists>p\<in>set (active_parts db2 (signal_CallID r)). env_parse env (trim_space tid) = Some (p_UserID p)) \<and>
    (\<exists>cr\<in>set (rtc_calls (w_db w')). c_ID cr = signal_CallID r \<and>
       toDomainScope (c_ScopeType cr) (c_DirectChatID cr) (c_GroupID cr) = scope) \<and>
    env_parse env (trim_space callID) = Some (signal_CallID r) \<and> signal_FromUserID r = user \<and>
    signal_TargetUserID r = tid \<and> signal_Type r = kind \<and> signal_Payload r = payload"
proof -
  let ?s = "rtc_service env maxPayload staleTimeout"
  have good: "grown env (w_db w) (w_db w)" using assms(1,2) by (simp add: good_def grown_def)
  from SendSignal_run [OF assms(3) good] obtain sender target call tid user at t access call0 acc0
      w1 w2 v2 w3 v3 w4 at0 r0 r1 where
    touch: "transact env (TouchParticipantSignal_tx (env_parse env) (part_ID sender) at) w4 = (Inr (), w')" and
    grown1: "evolves (w_db w) (w_db w1)" "grown env (w_db w1) (w_db r0)" and
    grown: "grown env (w_db w1) (w_db w4)" "grown env (w_db w1) (w_db w2)" "grown env (w_db w1) (w_db w3)"
      "w3 = v2" "w_db w4 = w_db v3" and
    sender: "transact env (GetActiveParticipant_tx (env_parse env) (call_ID call) user) w2 = (Inr sender, v2)" and
    target: "transact env (GetActiveParticipant_tx (env_parse env) (call_ID call) tid) w3 = (Inr target, v3)" and
    args: "normalizeID (env_parse env) targetUserID = Inr tid" "user \<noteq> tid" "validateSignalType kind = Inr ()"
      "payload \<noteq> ''''" "int (length payload) \<le> maxSignalPayloadSize ?s"
      "env_participant_access env t token (call_Scope call) tid = Inr access" "eligible (call_Scope call) access" and
    auth: "authorizeCallForActiveParticipation ?s token callID w = (Inr (call0, user, acc0), w1)" and
    ref: "refreshCallSnapshotAfterStalePrune ?s call0 user at0 r0 = (Inr call, r1)" and
    r: "r = \<lparr>signal_CallID = call_ID call, signal_FromUserID = user, signal_TargetUserID = tid,
            signal_Type = kind, signal_Payload = payload, signal_CreatedAt = at\<rparr>" by auto
  from authorizeCallForActiveParticipation_run [OF auth] have
    view: "authorizeCallView ?s token callID w = (Inr (call0, user, acc0), w1)" by simp
  note same = view_call [OF view good] refresh_same_call [OF ref view_call(2) [OF view good]]
  note s = GetActiveParticipant_tx_Inr [OF transact_Inr [OF sender]]
    and t = GetActiveParticipant_tx_Inr [OF transact_Inr [OF target]]
  have "grown env (w_db w4) (w_db w4)" using grown(1) by (simp add: grown_def)
  from history.transact_good [OF touch history.keeps_touch this] have "evolves (w_db v3) (w_db w')"
    by (simp add: grown_def grown(5))
  moreover have "evolves (w_db w) (w_db v2)" using evolves_trans [OF grown1(1)] grown(3,4) by (simp add: grown_def)
  moreover have "evolves (w_db v2) (w_db v3)"
    by (rule transact_evolves(1) [OF target [unfolded grown(4)]])
      (use grown(3,4) in \<open>auto simp: grown_def reads_def dest: GetActiveParticipant_tx_Inr\<close>)
  moreover have "\<exists>p\<in>set (active_parts (w_db v2) (call_ID call)). env_parse env (trim_space user) = Some (p_UserID p)"
    using s same by (auto simp: active_parts_set mustParseUUID_Inr canonical_def)
  moreover have "\<exists>p\<in>set (active_parts (w_db v3) (call_ID call)). env_parse env (trim_space tid) = Some (p_UserID p)"
    using t same by (auto simp: active_parts_set mustParseUUID_Inr canonical_def)
  moreover have "call_in call (w_db w')"
  proof -
    have "grown env (w_db w1) (w_db w')"
      using history.transact_good [OF touch history.keeps_touch grown(1)] .
    then have "call_in call0 (w_db w')" using call_in_kept [OF view_call_in [OF view good]] by (simp add: grown_def)
    with refresh_scope [OF ref view_call(2) [OF view good] grown1(2) view_call_in [OF view good]] same
    show ?thesis by (simp add: call_in_def)
  qed
  then have "\<exists>cr\<in>set (rtc_calls (w_db w')). c_ID cr = call_ID call \<and>
      toDomainScope (c_ScopeType cr) (c_DirectChatID cr) (c_GroupID cr) = call_Scope call"
    by (auto simp: call_in_def toDomainCallFromBase_def)
  moreover obtain t1 where "env_authenticate env t1 token = Inr user"
    using authorizeCallView_Inr [OF view good] by blast
  ultimately show ?thesis
    using args same r
    by (intro exI [of _ user] exI [of _ tid] exI [of _ t1] exI [of _ t] exI [of _ access] exI [of _ "call_Scope call"]
        exI [of _ "w_db v2"] exI [of _ "w_db v3"]) simp
qed

end
