(* ===== verification/Rtc_Prune.thy ===== *)
theory Rtc_Prune
  imports Rtc_Properties
begin



lemma bindT_forward: "m s = Inr (x, s') \<Longrightarrow> bindT m f s = f x s'"
  by (simp add: bindT_def)

lemma mapErrT_forward: "m s = Inr r \<Longrightarrow> mapErrT f m s = Inr r"
  by (simp add: mapErrT_def)


definition no_media_end :: "uuid \<Rightarrow> rtc_db \<Rightarrow> bool" where
  "no_media_end c db \<longleftrightarrow>
     (\<forall>i\<in>set (rtc_media_control_intents db). \<not> (i_CallID i = c \<and> i_Kind i = ''end'' \<and> i_State i = ''pending''))"





lemma no_media_end_after_leave [simp]: "no_media_end c (after_leave hit d at e r db) = no_media_end c db"
  by (simp add: no_media_end_def after_leave_def Let_def)

section \<open>Pruning\<close>









text \<open>A user who is still active and fresh in some call cannot start another one. \<open>StartCall\<close> answers
  with that call and participant in an \<open>ActiveCallConflictError\<close> (which the handlers turn into a
  failed precondition with the conflict metadata), and changes nothing.\<close>

theorem StartCall_reports_active_call:
  assumes "authorizeForActiveParticipation (rtc_service env maxPayload staleTimeout) token scope w = (Inr (user, access), w1)"
    and "GetActiveParticipationByUserID_tx (env_parse env) user (others_ran env w1) = Inr (active, db)"
    and "env_fault env (w_tick w1) = Healthy"
    and "\<not> isParticipantStale (rtc_service env maxPayload staleTimeout) (participation_Participant active)
           (env_clock env (Suc (w_tick w1)))"
  shows "\<exists>w'. StartCall (rtc_service env maxPayload staleTimeout) token scope w =
      (Inl (ActiveCallConflictError (participation_Call active) (participation_Participant active)), w') \<and>
    w_db w' = others_ran env w1 \<and>
    err_Code (mapError (ActiveCallConflictError (participation_Call active) (participation_Participant active))) =
      CodeFailedPrecondition \<and>
    (''X-Aerochat-Rtc-Conflict-Call-Id'', call_ID (participation_Call active)) \<in> set (err_Meta
      (mapError (ActiveCallConflictError (participation_Call active) (participation_Participant active))))"
proof -
  let ?s = "rtc_service env maxPayload staleTimeout"
  have "reads (GetActiveParticipationByUserID_tx (env_parse env) user)"
    unfolding GetActiveParticipationByUserID_tx_def
    by (auto simp: reads_def tx_simps dest: readsD [OF reads_queries(6)])
  from readsD [OF this assms(2)] have db: "db = others_ran env w1" .
  have "ensureNoOtherActiveParticipation ?s user '''' w1 =
      (Inl (ActiveCallConflictError (participation_Call active) (participation_Participant active)),
       w1\<lparr>w_tick := Suc (Suc (w_tick w1)), w_db := others_ran env w1\<rparr>)"
    using assms(2-4) db
    by (simp add: ensureNoOtherActiveParticipation_def attemptE_def transact_def Let_def bindE_def ask_def failE_def)
  with assms(1) show ?thesis
    by (simp add: StartCall_def bindE_def mapError_def NewError_def applyActiveCallConflictMetadata_def)
qed

end
