(* ===== verification/Rtc_Guard.thy ===== *)
theory Rtc_Guard
  imports Rtc_Prune
begin

text \<open>
  What the media slot guard adds: a repository with the guard never releases a participant whose user
  still holds a media grant.
\<close>

lemma set_sortedSlotIDs [simp]: "set (sortedSlotIDs xs) = set xs"
  by (simp add: sortedSlotIDs_def)

lemma optionalT_oneT: "optionalT (oneT f) db = Inr (x, db') \<longleftrightarrow> x = f db \<and> db' = db"
  by (auto simp: optionalT_def attemptT_def oneT_def returnT_def split: option.splits)

lemma returnT_Inr: "returnT y db = Inr (x, db') \<Longrightarrow> x = y \<and> db' = db"
  by (simp add: returnT_def)

lemma slotUserInfo_Inr:
  "slotUserInfo u db = Inr (i, db') \<Longrightarrow> \<exists>ps. i = (u, ps, map_option grantFromRow
     (find (\<lambda>(g, r). g_UserID g = u \<and> g_State g \<noteq> ''revoked'') (grant_rooms db)))"
  unfolding slotUserInfo_def
  by (elim bindT_InrE)
    (simp add: tx_simps ListSlotParticipationsByUser_def GetHeldMediaGrantByUser_def optionalT_oneT del: optionalT_Inr,
      blast)

lemma held_users:
  assumes all: "list_all2 (\<lambda>u i. slotUserInfo u db = Inr (i, db)) us infos"
    and none: "map_of (concat (map (\<lambda>(u, ps, g). case g of None \<Rightarrow> [] | Some h \<Rightarrow> [(u, h)]) infos)) u = None"
    and u: "u \<in> set us"
  shows "find (\<lambda>(g, r). g_UserID g = u \<and> g_State g \<noteq> ''revoked'') (grant_rooms db) = None"
proof -
  from u obtain n where n: "n < length us" "us ! n = u" by (auto simp: in_set_conv_nth)
  with all have i: "infos ! n \<in> set infos" "slotUserInfo u db = Inr (infos ! n, db)"
    by (auto simp: list_all2_conv_all_nth)
  let ?i = "infos ! n"
  from slotUserInfo_Inr [OF i(2)] obtain ps where ps: "?i = (u, ps, map_option grantFromRow
     (find (\<lambda>(g, r). g_UserID g = u \<and> g_State g \<noteq> ''revoked'') (grant_rooms db)))" by blast
  show ?thesis
  proof (rule ccontr)
    assume "find (\<lambda>(g, r). g_UserID g = u \<and> g_State g \<noteq> ''revoked'') (grant_rooms db) \<noteq> None"
    then obtain h where h: "?i = (u, ps, Some h)" using ps by auto
    let ?f = "\<lambda>(u, ps, g). case g of None \<Rightarrow> [] | Some h \<Rightarrow> [(u, h)]"
    have "(u, h) \<in> set (?f ?i)" by (simp add: h)
    moreover have "?f ?i \<in> set (map ?f infos)" using i(1) by simp
    ultimately have "(u, h) \<in> set (concat (map ?f infos))" unfolding set_concat by (rule UN_I [rotated])
    from weak_map_of_SomeI [OF this] none show False by (elim exE) (simp only: option.distinct)
  qed
qed

lemma discoverSlot_steps:
  assumes run: "discoverSlot s db = Inr (snap, db')"
  shows "\<exists>owner db1 touched db2 infos db3. slotOwner s db = Inr (owner, db1) \<and>
    slotTouched s db1 = Inr (touched, db2) \<and>
    mapT slotUserInfo (sortedSlotIDs (spec_extraUsers s @
      (if spec_user s \<noteq> uuid_Nil then [spec_user s] else []) @ owner @ touched)) db2 = Inr (infos, db3) \<and>
    snap_users snap = sortedSlotIDs (spec_extraUsers s @
      (if spec_user s \<noteq> uuid_Nil then [spec_user s] else []) @ owner @ touched) \<and>
    snap_held snap = map_of (concat (map (\<lambda>(u, ps, g). case g of None \<Rightarrow> [] | Some h \<Rightarrow> [(u, h)]) infos))"
  using run unfolding discoverSlot_def Let_def
  apply (elim bindT_InrE)
  apply (drule returnT_Inr, elim conjE, hypsubst)
  apply (intro exI conjI, assumption, assumption, assumption)
   apply (simp_all only: slotSnapshot.select_convs)
  done

lemma discoverSlot_Inr:
  assumes run: "discoverSlot s db = Inr (snap, db')"
  shows "(\<forall>row. GetSlotParticipant (spec_participant s) db = Inr (row, db) \<longrightarrow> spec_participant s \<noteq> uuid_Nil \<longrightarrow>
      p_CallID row = spec_call s \<longrightarrow> p_UserID row \<in> set (snap_users snap)) \<and>
    (\<forall>u\<in>set (snap_users snap). snap_held snap u = None \<longrightarrow>
      find (\<lambda>(g, r). g_UserID g = u \<and> g_State g \<noteq> ''revoked'') (grant_rooms db) = None)"
proof -
  from discoverSlot_steps [OF run] obtain owner db1 touched db2 infos db3 where
    owner: "slotOwner s db = Inr (owner, db1)" and touched: "slotTouched s db1 = Inr (touched, db2)" and
    infos: "mapT slotUserInfo (sortedSlotIDs (spec_extraUsers s @
                   (if spec_user s \<noteq> uuid_Nil then [spec_user s] else []) @ owner @ touched)) db2 = Inr (infos, db3)" and
    snap: "snap_users snap = sortedSlotIDs (spec_extraUsers s @
                   (if spec_user s \<noteq> uuid_Nil then [spec_user s] else []) @ owner @ touched)"
      "snap_held snap = map_of (concat (map (\<lambda>(u, ps, g). case g of None \<Rightarrow> [] | Some h \<Rightarrow> [(u, h)]) infos))"
    by blast
  have db1: "db1 = db" by (rule readsD [OF reads_slotOwner owner])
  have db2: "db2 = db1" by (rule readsD [OF reads_slotTouched touched])
  note all = mapT_Inr [OF reads_slotUserInfo infos]
  have "p_UserID row \<in> set owner" if "GetSlotParticipant (spec_participant s) db = Inr (row, db)"
      "spec_participant s \<noteq> uuid_Nil" "p_CallID row = spec_call s" for row
    using owner that by (auto simp: slotOwner_def bindT_def optionalT_def attemptT_def returnT_def)
  moreover have "find (\<lambda>(g, r). g_UserID g = u \<and> g_State g \<noteq> ''revoked'') (grant_rooms db) = None"
    if "u \<in> set (snap_users snap)" "snap_held snap u = None" for u
    by (rule held_users [of db _ infos]) (use all that snap db1 db2 in auto)
  ultimately show ?thesis by (simp add: snap(1))
qed

lemma grant_rooms_after_leave [simp]: "grant_rooms (after_leave hit c at e r db) = grant_rooms db"
  by (simp add: grant_rooms_def after_leave_def Let_def)

lemma guarded_leave_outcome:
  assumes guard: "env_guard env" and good: "good env (w_db w)"
    and run: "LeaveParticipantAndMaybeEndCall env i j at w = (Inr True, w')"
  shows "\<exists>t db. good env db \<and> slot_ok (Some t) db \<and> parsed (env_parse env) j \<noteq> uuid_Nil \<and>
    discoverSlot (leave_spec (env_parse env) i j) db = Inr (slot_snapshot t, db) \<and>
    LeaveParticipantAndMaybeEndCall_tx (env_parse env) (Some t) i j at db = Inr (True, w_db w')"
proof -
  let ?s = "leave_spec (env_parse env) i j"
  let ?body = "\<lambda>slot. LeaveParticipantAndMaybeEndCall_tx (env_parse env) slot i j at"
  from run guard have retry: "retrySlot env ?s (\<lambda>snap. commitIf (guarded_tx ?s snap ?body)) 3 w = (Inr True, w')"
    and nil: "parsed (env_parse env) j \<noteq> uuid_Nil"
    by (auto simp: LeaveParticipantAndMaybeEndCall_def beginLegacySlot_def required_def parsed_def prog_simps
        split: if_splits)
  from invariant.retrySlot_Inr [OF retry good invariant.keeps_commitIf
      [OF invariant.keeps_guarded [OF invariant.bodies(3)]]]
  obtain snap db0 where db0: "good env db0" "guarded_tx ?s snap ?body db0 = Inr (True, w_db w')"
    by (blast dest: commitIf_True)
  from db0(2) obtain t db where t: "beginSlotTransaction snap ?s db0 = Inr (t, db)"
      "?body (Some t) db = Inr (True, w_db w')"
    by (auto simp: guarded_tx_def tx_simps)
  from beginSlotTransaction_run [OF t(1)] good_mutex [OF db0(1)] t(2) nil show ?thesis by blast
qed

text \<open>C6: with the media slot guard, a participant that \<open>LeaveParticipantAndMaybeEndCall\<close> released had no
  media grant left to revoke: every grant of its user is revoked, in every interleaving.\<close>

theorem guarded_leave_spares_grants:
  assumes "env_guard env" and "parser_ok (env_parse env)" and "rtc_inv (env_parse env) (w_db w)"
    and "LeaveParticipantAndMaybeEndCall env i j at w = (Inr True, w')"
  shows "\<exists>row\<in>set (rtc_call_participants (w_db w')). p_ID row = j \<and> p_State row = ParticipantStateLeft \<and>
    (\<forall>(g, r)\<in>set (grant_rooms (w_db w')). g_UserID g = p_UserID row \<longrightarrow> g_State g = ''revoked'')"
proof -
  have good: "good env (w_db w)" using assms(2,3) by (simp add: good_def)
  from guarded_leave_outcome [OF assms(1) good assms(4)] obtain t db where
    db: "good env db" "slot_ok (Some t) db" "parsed (env_parse env) j \<noteq> uuid_Nil"
      "discoverSlot (leave_spec (env_parse env) i j) db = Inr (slot_snapshot t, db)" and
    leave: "LeaveParticipantAndMaybeEndCall_tx (env_parse env) (Some t) i j at db = Inr (True, w_db w')" by blast
  from db(1) have inv: "rtc_inv (env_parse env) db" by (simp add: good_def)
  from Leave_rows [OF inv db(2) leave] obtain row where
    row: "row \<in> set (rtc_call_participants db)" "p_ID row = j" "mustParseUUID (env_parse env) i = Inr (p_CallID row)"
      "leave_part_row at at row \<in> set (rtc_call_participants (w_db w'))" by blast
  from rtc_invD(3) [OF inv row(1)] row(2) have j: "parsed (env_parse env) j = j"
    by (simp add: parsed_def mustParseUUID_def canonical_def)
  have "find (\<lambda>p. p_ID p = j) (rtc_call_participants db) = Some row"
    using find_distinct_key [OF _ row(1), of p_ID] rtc_invD(1) [OF inv] row(2) by (simp add: schema_ok_def)
  then have get: "GetSlotParticipant j db = Inr (row, db)" by (simp add: GetSlotParticipant_def oneT_def)
  have user: "p_UserID row \<in> set (snap_users (slot_snapshot t))"
    using discoverSlot_Inr [OF db(4)] get row(3) db(3) j
    by (auto simp: leave_spec_def no_slot_def parsed_def)
  from leave have "allowLegacyRelease t = Inr ()"
    unfolding LeaveParticipantAndMaybeEndCall_tx_def by (auto simp: bindT_Inr_iff liftT_Inr_iff)
  with user have "snap_held (slot_snapshot t) (p_UserID row) = None"
    by (auto simp: allowLegacyRelease_def split: if_splits)
  with discoverSlot_Inr [OF db(4)] user
  have none: "find (\<lambda>(g, r). g_UserID g = p_UserID row \<and> g_State g \<noteq> ''revoked'') (grant_rooms db) = None" by blast
  from LeaveParticipant_run [OF db(2) leave] have "grant_rooms (w_db w') = grant_rooms db" by auto
  with none have "\<forall>(g, r)\<in>set (grant_rooms (w_db w')). g_UserID g = p_UserID row \<longrightarrow> g_State g = ''revoked''"
    by (auto simp: find_None_iff)
  with row(2,4) show ?thesis by (intro bexI [OF _ row(4)]) simp
qed

end
