(* ===== verification/Rtc_Witnesses.thy ===== *)
theory Rtc_Witnesses
  imports Rtc_Guard
begin

text \<open>Runs of the sample deployment on which the properties of the call service are applied.\<close>

abbreviation sample_service :: "rtc_world Service" where
  "sample_service \<equiv> rtc_service sample_env 0 0"

definition succeeds :: "(rtc_error + 'a) \<times> rtc_world \<Rightarrow> bool" where
  "succeeds r = (case r of (Inr _, _) \<Rightarrow> True | _ \<Rightarrow> False)"

lemma succeedsD: "succeeds r \<Longrightarrow> \<exists>x w'. r = (Inr x, w')"
  by (auto simp: succeeds_def split: prod.splits sum.splits)

lemma sample_start: "succeeds (StartCall sample_service ''u1'' group_scope sample_world)"
  by code_simp

lemma sample_leave: "succeeds (LeaveCall sample_service ''u2'' ''c1'' (busy_world 0))"
  by code_simp

lemma sample_end: "succeeds (EndCall sample_service ''u1'' ''c1'' (busy_world 0))"
  by code_simp

lemma sample_signal: "succeeds (SendSignal sample_service ''u1'' ''c1'' ''u2'' SignalTypeOffer ''sdp'' (busy_world 0))"
  by code_simp

lemma sample_join: "succeeds (JoinCall sample_service ''u2'' ''c1'' (busy_world 0))"
  by code_simp


lemma sample_inv: "rtc_inv (env_parse sample_env) (w_db sample_world)"
  using sample_good by (simp add: good_def sample_world_def)

lemma busy_inv: "rtc_inv (env_parse sample_env) (w_db (busy_world t))"
  using busy_good by (simp add: good_def busy_world_def)

lemma trim_space_u2: "trim_space ''u2'' = ''u2''"
  by code_simp

text \<open>Three requests: the first two are granted, the last one comes from a reader of the group.\<close>

definition sample_requests :: "(string \<times> RtcRequest) list" where
  "sample_requests =
     [(''Bearer u2'', LeaveCallRequest ''c1''), (''Bearer u1'', EndCallRequest ''c1''),
      (''Bearer u3'', JoinCallRequest ''c1'')]"

definition sample_final :: rtc_db where
  "sample_final = w_db (serve sample_env 0 0 sample_requests (busy_world 0))"

lemma sample_final_rows:
  "map c_Status (rtc_calls sample_final) = [CallStatusEnded] \<and>
   map (\<lambda>p. (p_UserID p, p_State p)) (rtc_call_participants sample_final) =
     [(''u1'', ParticipantStateLeft), (''u2'', ParticipantStateLeft)]"
  by code_simp

theorem calls_stay_consistent_witness:
  "rtc_inv (env_parse sample_env) sample_final \<and> map c_Status (rtc_calls sample_final) = [CallStatusEnded]"
  using calls_stay_consistent [OF sample_parser busy_inv, of sample_final 0 0 sample_requests 0] sample_final_rows
  by (simp add: sample_final_def)

theorem finished_rows_are_final_witness:
  "evolves busy_db sample_final \<and> map c_Status (rtc_calls sample_final) = [CallStatusEnded]"
  using finished_rows_are_final [OF sample_parser busy_inv, of 0 0 0 sample_requests] sample_final_rows
  by (simp add: sample_final_def busy_world_def)

theorem StartCall_creates_call_witness:
  "\<exists>c p w' cr pr. StartCall sample_service ''u1'' group_scope sample_world = (Inr (c, p), w') \<and>
     call_active cr \<and> active_parts (w_db w') (c_ID cr) = [pr]"
proof -
  obtain c p w' where run: "StartCall sample_service ''u1'' group_scope sample_world = (Inr (c, p), w')"
    using succeedsD [OF sample_start] by fastforce
  from StartCall_creates_call [OF sample_parser sample_inv run] run show ?thesis by blast
qed

theorem JoinCall_joins_witness:
  "\<exists>c p w' cr pr. JoinCall sample_service ''u2'' ''c1'' (busy_world 0) = (Inr (c, p), w') \<and>
     call_active cr \<and> pr \<in> set (active_parts (w_db w') (c_ID cr)) \<and> p = toDomainParticipant pr"
proof -
  obtain c p w' where run: "JoinCall sample_service ''u2'' ''c1'' (busy_world 0) = (Inr (c, p), w')"
    using succeedsD [OF sample_join] by fastforce
  from JoinCall_joins [OF sample_parser busy_inv run] run show ?thesis by blast
qed

theorem LeaveCall_leaves_witness:
  "\<exists>c p w'. LeaveCall sample_service ''u2'' ''c1'' (busy_world 0) = (Inr (c, p), w') \<and>
     part_State p = ParticipantStateLeft"
proof -
  obtain c p w' where run: "LeaveCall sample_service ''u2'' ''c1'' (busy_world 0) = (Inr (c, p), w')"
    using succeedsD [OF sample_leave] by fastforce
  from LeaveCall_leaves [OF sample_parser busy_inv run] run show ?thesis by blast
qed

theorem EndCall_ends_witness:
  "\<exists>c ps w'. EndCall sample_service ''u1'' ''c1'' (busy_world 0) = (Inr (c, ps), w') \<and>
     call_Status c = CallStatusEnded \<and> active_parts (w_db w') (call_ID c) = []"
proof -
  obtain c ps w' where run: "EndCall sample_service ''u1'' ''c1'' (busy_world 0) = (Inr (c, ps), w')"
    using succeedsD [OF sample_end] by fastforce
  from EndCall_ends [OF sample_parser busy_inv run] run show ?thesis by blast
qed

theorem SendSignal_guarded_witness:
  "\<exists>r w'. SendSignal sample_service ''u1'' ''c1'' ''u2'' SignalTypeOffer ''sdp'' (busy_world 0) = (Inr r, w') \<and>
     signal_TargetUserID r = ''u2'' \<and> signal_Payload r = ''sdp''"
proof -
  obtain r w' where
    run: "SendSignal sample_service ''u1'' ''c1'' ''u2'' SignalTypeOffer ''sdp'' (busy_world 0) = (Inr r, w')"
    using succeedsD [OF sample_signal] by fastforce
  from SendSignal_guarded [OF sample_parser busy_inv run] have "signal_Payload r = ''sdp''" "signal_TargetUserID r = ''u2''"
    by (auto simp: normalizeID_Inr trim_space_u2)
  with run show ?thesis by blast
qed

end
