(* ===== verification/Rtc_Examples.thy ===== *)
theory Rtc_Examples
  imports Rtc_Witnesses
begin





definition group_access :: ScopeAccess where
  "group_access = \<lparr>access_Scope = group_scope, access_GroupRole = GroupRoleMember\<rparr>"

definition busy_participation :: ActiveParticipation where
  "busy_participation =
     \<lparr>participation_Call = (toDomainCallFromBase (hd (rtc_calls busy_db))),
      participation_Participant = toDomainParticipant (sample_part ''p2'' ''u2'')\<rparr>"

lemma busy_authorized:
  "authorizeForActiveParticipation sample_service ''u2'' group_scope (busy_world 0) =
     (Inr (''u2'', group_access), busy_world 2)"
  by code_simp

lemma busy_is_active:
  "GetActiveParticipationByUserID_tx (env_parse sample_env) ''u2'' (others_ran sample_env (busy_world 2)) =
     Inr (busy_participation, busy_db)"
  by code_simp

lemma busy_is_fresh:
  "\<not> isParticipantStale sample_service (participation_Participant busy_participation)
       (env_clock sample_env (Suc (w_tick (busy_world 2)))) \<and> env_fault sample_env (w_tick (busy_world 2)) = Healthy"
  by code_simp

theorem StartCall_reports_active_call_witness:
  "\<exists>w'. StartCall sample_service ''u2'' group_scope (busy_world 0) =
     (Inl (ActiveCallConflictError (participation_Call busy_participation)
             (participation_Participant busy_participation)), w')"
  using StartCall_reports_active_call [OF busy_authorized busy_is_active] busy_is_fresh by blast

definition guarded_env :: rtc_env where
  "guarded_env = sample_env\<lparr>env_guard := True\<rparr>"

lemma guarded_inv: "rtc_inv (env_parse guarded_env) (w_db (busy_world t))"
  using busy_inv by (simp add: guarded_env_def)

lemma guarded_parser: "parser_ok (env_parse guarded_env)"
  using sample_parser by (simp add: guarded_env_def)

lemma guarded_run:
  "fst (LeaveParticipantAndMaybeEndCall guarded_env ''c1'' ''p2'' 5 (busy_world 0)) = Inr True"
  by code_simp

theorem guarded_leave_spares_grants_witness:
  "\<exists>w'. LeaveParticipantAndMaybeEndCall guarded_env ''c1'' ''p2'' 5 (busy_world 0) = (Inr True, w') \<and>
     (\<exists>row\<in>set (rtc_call_participants (w_db w')). p_ID row = ''p2'' \<and> p_State row = ParticipantStateLeft)"
proof -
  have "env_guard guarded_env" by (simp add: guarded_env_def)
  moreover obtain w' where w': "LeaveParticipantAndMaybeEndCall guarded_env ''c1'' ''p2'' 5 (busy_world 0) = (Inr True, w')"
    using guarded_run by (cases "LeaveParticipantAndMaybeEndCall guarded_env ''c1'' ''p2'' 5 (busy_world 0)") simp
  ultimately show ?thesis
    using guarded_leave_spares_grants [OF _ guarded_parser guarded_inv] by blast
qed

text \<open>\<open>SendSignal\<close> compares the caller with the trimmed spelling of the target, not with its canonical
  form, so a caller who spells its own identifier in capitals signals itself.\<close>

lemma self_signal_accepted:
  "\<exists>r w'. SendSignal sample_service ''u2'' ''c1'' ''U2'' SignalTypeOffer ''sdp'' (busy_world 0) = (Inr r, w') \<and>
     env_parse sample_env (signal_TargetUserID r) = env_parse sample_env (signal_FromUserID r)"
proof -
  have "case SendSignal sample_service ''u2'' ''c1'' ''U2'' SignalTypeOffer ''sdp'' (busy_world 0) of
      (Inl _, _) \<Rightarrow> False
    | (Inr r, _) \<Rightarrow> env_parse sample_env (signal_TargetUserID r) = env_parse sample_env (signal_FromUserID r)"
    by code_simp
  then show ?thesis by (auto split: prod.splits sum.splits)
qed

end
