(* ===== verification/Delivery_Model.thy ===== *)
theory Delivery_Model
  imports Prelude
begin

text \<open>
  The delivery workers of \<open>aero-chat\<close> and \<open>aero-identity\<close>
  (\<open>internal/domain/delivery/worker.go\<close> in both services): events, claims, receipts and the backoff.
  The two packages differ only in their \<open>Event\<close>; what they share is written once here, over a type
  \<open>'e\<close> of events that comes with its identifier and its \<open>Validate\<close>. Identifiers are strings, instants
  and durations nanoseconds, \<open>int64\<close> counters are \<open>int\<close> (the queries keep them below the largest one).
\<close>

section \<open>Constants and errors\<close>

definition AttemptBudget :: int where "AttemptBudget = 5 * 1000000000"
definition ClaimLease :: int where "ClaimLease = 15 * 1000000000"
definition WakeInterval :: int where "WakeInterval = 1000000000"
definition max_int64 :: int where "max_int64 = 9223372036854775807"

text \<open>The sentinels; \<open>DErrContext\<close> is \<open>ctx.Err()\<close>, \<open>DErrOther\<close> any other error of the driver or the client.\<close>

datatype delivery_error =
    DErrUnavailable | DErrExhausted | DErrStaleClaim | DErrNotFound | DErrConflict | DErrContext | DErrOther

section \<open>Events, claims, receipts\<close>

record ChatEvent =
  ce_ID :: uuid
  ce_GroupID :: uuid
  ce_UserID :: uuid
  ce_Epoch :: int
  ce_SourceReason :: string

definition ChatEvent_Validate :: "ChatEvent \<Rightarrow> bool" where
  "ChatEvent_Validate e \<longleftrightarrow>
     ce_ID e \<noteq> uuid_Nil \<and> ce_GroupID e \<noteq> uuid_Nil \<and> ce_UserID e \<noteq> uuid_Nil \<and> ce_Epoch e > 0 \<and>
     (ce_SourceReason e = ''eligibility_denied'' \<or> ce_SourceReason e = ''member_removed'')"

record IdentityEvent =
  ie_ID :: uuid
  ie_SubjectID :: uuid
  ie_UserID :: uuid
  ie_DeviceID :: uuid
  ie_SessionID :: uuid
  ie_Kind :: string
  ie_Revision :: int

definition IdentityEvent_Validate :: "IdentityEvent \<Rightarrow> bool" where
  "IdentityEvent_Validate e \<longleftrightarrow>
     (if ie_ID e = uuid_Nil \<or> ie_SubjectID e = uuid_Nil \<or> ie_UserID e = uuid_Nil \<or> ie_DeviceID e = uuid_Nil \<or>
         ie_Revision e \<le> 0
      then False
      else ie_Kind e = ''session'' \<and> ie_SessionID e = ie_SubjectID e \<or>
           ie_Kind e = ''device'' \<and> ie_SessionID e = uuid_Nil \<and> ie_SubjectID e = ie_DeviceID e)"

text \<open>What the worker uses of an event.\<close>

record 'e event_kind =
  ek_ID :: "'e \<Rightarrow> uuid"
  ek_Validate :: "'e \<Rightarrow> bool"

definition chat_kind :: "ChatEvent event_kind" where
  "chat_kind = \<lparr>ek_ID = ce_ID, ek_Validate = ChatEvent_Validate\<rparr>"

definition identity_kind :: "IdentityEvent event_kind" where
  "identity_kind = \<lparr>ek_ID = ie_ID, ek_Validate = IdentityEvent_Validate\<rparr>"

record 'e Claim =
  claim_Event :: 'e
  claim_Owner :: uuid
  claim_Fence :: int
  claim_Attempt :: int

record Receipt =
  receipt_EventID :: uuid
  receipt_OperationID :: uuid
  receipt_Effect :: string
  receipt_Count :: int

definition ValidFor :: "'e event_kind \<Rightarrow> Receipt \<Rightarrow> 'e \<Rightarrow> bool" where
  "ValidFor k r e \<longleftrightarrow>
     receipt_EventID r = ek_ID k e \<and> receipt_OperationID r \<noteq> uuid_Nil \<and>
     (receipt_Effect r = ''no_matching_registry_grants'' \<and> receipt_Count r = 0 \<or>
      receipt_Effect r = ''media_pending'' \<and> receipt_Count r > 0 \<and> receipt_Count r \<le> 4294967295)"

section \<open>Backoff\<close>

function retry_loop :: "int \<Rightarrow> int \<Rightarrow> int" where
  "retry_loop attempt v =
     (if attempt > 1 \<and> v < 30
      then retry_loop (attempt - 1) (if v * 2 > 30 then 30 else v * 2)
      else v)"
  by pat_completeness auto
termination by (relation "measure (\<lambda>(attempt, v). nat attempt)") auto

declare retry_loop.simps [simp del]

definition RetrySeconds :: "int \<Rightarrow> int" where
  "RetrySeconds attempt = retry_loop attempt 1"

lemma retry_loop_closed:
  "0 < v \<Longrightarrow> v \<le> 30 \<Longrightarrow> retry_loop (int n + 1) v = min 30 (v * 2 ^ n)"
proof (induction n arbitrary: v)
  case 0
  then show ?case by (simp add: retry_loop.simps)
next
  case (Suc n)
  show ?case
  proof (cases "v < 30")
    case True
    let ?v = "if v * 2 > 30 then 30 else v * 2"
    have "retry_loop (int (Suc n) + 1) v = retry_loop (int n + 1) ?v"
      using True by (subst retry_loop.simps) (simp add: add.commute)
    also have "\<dots> = min 30 (?v * 2 ^ n)" using Suc True by auto
    also have "\<dots> = min 30 (v * 2 ^ Suc n)"
    proof (cases "v * 2 > 30")
      case True
      have one: "(1 :: int) \<le> 2 ^ n" by simp
      have "v \<le> v * (2 :: int) ^ n" using mult_left_mono [OF one, of v] Suc.prems by simp
      with True have "30 < v * 2 ^ n * 2" by linarith
      then have "30 < v * 2 ^ Suc n" by (simp only: power_Suc ac_simps)
      moreover have "30 \<le> 30 * (2 :: int) ^ n" using one by linarith
      ultimately show ?thesis using True by simp
    qed (simp add: ac_simps)
    finally show ?thesis .
  next
    case False
    with Suc.prems have "v = 30" by simp
    moreover have "(1 :: int) \<le> 2 ^ Suc n" by (rule one_le_power) simp
    then have "30 \<le> 30 * (2 :: int) ^ Suc n" by linarith
    ultimately show ?thesis by (simp add: retry_loop.simps)
  qed
qed

lemma RetrySeconds_bounds: "1 \<le> RetrySeconds attempt \<and> RetrySeconds attempt \<le> 30"
proof (cases "attempt \<le> 1")
  case True
  then show ?thesis by (simp add: RetrySeconds_def retry_loop.simps)
next
  case False
  then have "attempt = int (nat (attempt - 1)) + 1" by simp
  then have "RetrySeconds attempt = min 30 (2 ^ nat (attempt - 1))"
    using retry_loop_closed [of 1 "nat (attempt - 1)"] by (simp add: RetrySeconds_def)
  moreover have "(1 :: int) \<le> 2 ^ nat (attempt - 1)" by simp
  ultimately show ?thesis by linarith
qed

end
