(* ===== verification/Delivery_Store.thy ===== *)
theory Delivery_Store
  imports Delivery_Model
begin

text \<open>
  The tables \<open>chat_revocation_delivery\<close> and \<open>identity_revocation_delivery\<close> with their outboxes, and the
  statements that the workers run on them (\<open>chat_authority_delivery.sql.go\<close>,
  \<open>authority_revocation.sql.go\<close>, the same text up to the names of the tables). A statement reads one
  clock, \<open>t\<close>. \<open>locked\<close> are the rows that other transactions hold at that moment, which
  \<open>FOR UPDATE ... SKIP LOCKED\<close> passes over.
\<close>

record DeliveryRow =
  d_EventID :: uuid
  d_State :: string
  d_Attempt :: int
  d_ClaimFence :: int
  d_ClaimOwner :: "uuid option"
  d_ClaimUntil :: "int option"
  d_NextAttemptAt :: int
  d_OperationID :: "uuid option"
  d_MediaEffect :: "string option"
  d_GrantCount :: "int option"
  d_ReceivedAt :: "int option"
  d_QuarantineReason :: "string option"

text \<open>An outbox row as the event that \<open>Claim\<close> makes of it (a NULL session is \<open>uuid.Nil\<close>), and its time.\<close>

record 'e OutboxRow =
  o_Event :: 'e
  o_OccurredAt :: int

record 'e delivery_db =
  outbox :: "'e OutboxRow list"
  deliveries :: "DeliveryRow list"

type_synonym ('e, 'a) delivery_tx = "('e delivery_db, delivery_error, 'a) tx"

abbreviation pending :: "DeliveryRow \<Rightarrow> bool" where
  "pending d \<equiv> d_State d = ''pending''"

text \<open>The CHECK constraints of the table.\<close>

definition delivery_check :: "DeliveryRow \<Rightarrow> bool" where
  "delivery_check d \<longleftrightarrow>
     d_State d \<in> {''pending'', ''delivered'', ''quarantined''} \<and> 0 \<le> d_Attempt d \<and> 0 \<le> d_ClaimFence d \<and>
     (d_MediaEffect d = None \<or>
      d_MediaEffect d \<in> {Some ''no_matching_registry_grants'', Some ''media_pending''}) \<and>
     (d_QuarantineReason d = None \<or>
      d_QuarantineReason d \<in> {Some ''canonical_conflict'', Some ''source_row_invalid''}) \<and>
     (d_ClaimOwner d = None \<longleftrightarrow> d_ClaimUntil d = None) \<and>
     (d_ClaimOwner d = None \<or> d_ClaimFence d > 0) \<and>
     ((d_State d = ''pending'' \<and> d_OperationID d = None \<and> d_ReceivedAt d = None \<and> d_MediaEffect d = None \<and>
       d_GrantCount d = None \<and> d_QuarantineReason d = None) \<or>
      (d_State d = ''delivered'' \<and> d_OperationID d \<noteq> None \<and> d_ReceivedAt d \<noteq> None \<and> d_MediaEffect d \<noteq> None \<and>
       d_GrantCount d \<noteq> None \<and>
       ((d_MediaEffect d = Some ''no_matching_registry_grants'' \<and> d_GrantCount d = Some 0) \<or>
        (d_MediaEffect d = Some ''media_pending'' \<and> the (d_GrantCount d) > 0)) \<and>
       d_QuarantineReason d = None) \<or>
      (d_State d = ''quarantined'' \<and> d_QuarantineReason d \<noteq> None \<and> d_OperationID d = None \<and>
       d_ReceivedAt d = None \<and> d_MediaEffect d = None \<and> d_GrantCount d = None))"

definition update_deliveries ::
    "(DeliveryRow \<Rightarrow> bool) \<Rightarrow> (DeliveryRow \<Rightarrow> DeliveryRow) \<Rightarrow> 'e delivery_db \<Rightarrow> 'e delivery_db" where
  "update_deliveries hit f db = db\<lparr>deliveries := map (\<lambda>d. if hit d then f d else d) (deliveries db)\<rparr>"

text \<open>An \<open>UPDATE\<close> that returns the number of rows, refused when a row would break a CHECK.\<close>

definition exec_rows :: "(DeliveryRow \<Rightarrow> bool) \<Rightarrow> (DeliveryRow \<Rightarrow> DeliveryRow) \<Rightarrow> ('e, nat) delivery_tx" where
  "exec_rows hit f = (\<lambda>db.
     if \<exists>d\<in>set (deliveries db). hit d \<and> \<not> delivery_check (f d) then Inl DErrOther
     else Inr (length (filter hit (deliveries db)), update_deliveries hit f db))"

section \<open>Claiming\<close>

definition claimable :: "uuid list \<Rightarrow> int \<Rightarrow> DeliveryRow \<Rightarrow> bool" where
  "claimable locked t d \<longleftrightarrow>
     pending d \<and> d_NextAttemptAt d \<le> t \<and> (case d_ClaimUntil d of None \<Rightarrow> True | Some u \<Rightarrow> u \<le> t) \<and>
     d_Attempt d < max_int64 \<and> d_ClaimFence d < max_int64 \<and> d_EventID d \<notin> set locked"

definition candidates ::
    "'e event_kind \<Rightarrow> uuid list \<Rightarrow> int \<Rightarrow> 'e delivery_db \<Rightarrow> ('e OutboxRow \<times> DeliveryRow) list" where
  "candidates k locked t db =
     sort_key (\<lambda>(e, d). (o_OccurredAt e, ek_ID k (o_Event e)))
       [(e, d). e \<leftarrow> outbox db, d \<leftarrow> deliveries db, d_EventID d = ek_ID k (o_Event e) \<and> claimable locked t d]"

definition claim_row :: "uuid \<Rightarrow> int \<Rightarrow> DeliveryRow \<Rightarrow> DeliveryRow" where
  "claim_row owner t d =
     d\<lparr>d_Attempt := d_Attempt d + 1, d_ClaimFence := d_ClaimFence d + 1, d_ClaimOwner := Some owner,
       d_ClaimUntil := Some (t + ClaimLease)\<rparr>"

definition ClaimAuthorityDelivery ::
    "'e event_kind \<Rightarrow> uuid list \<Rightarrow> uuid \<Rightarrow> int \<Rightarrow> ('e, ('e \<times> DeliveryRow) option) delivery_tx" where
  "ClaimAuthorityDelivery k locked owner t = (\<lambda>db.
     case candidates k locked t db of
       [] \<Rightarrow> Inr (None, db)
     | (e, d) # _ \<Rightarrow>
         bindT (exec_rows (\<lambda>x. d_EventID x = d_EventID d) (claim_row owner t))
           (\<lambda>_. returnT (Some (o_Event e, claim_row owner t d))) db)"

definition HasExhaustedAuthorityDelivery :: "int \<Rightarrow> ('e, bool) delivery_tx" where
  "HasExhaustedAuthorityDelivery t = (\<lambda>db.
     Inr (\<exists>d\<in>set (deliveries db). pending d \<and> d_NextAttemptAt d \<le> t \<and>
            (d_Attempt d = max_int64 \<or> d_ClaimFence d = max_int64), db))"

section \<open>Settling a claim\<close>

definition claim_held :: "uuid \<Rightarrow> uuid \<Rightarrow> int \<Rightarrow> int \<Rightarrow> DeliveryRow \<Rightarrow> bool" where
  "claim_held eventID owner fence t d \<longleftrightarrow>
     d_EventID d = eventID \<and> pending d \<and> d_ClaimOwner d = Some owner \<and> d_ClaimFence d = fence \<and>
     (case d_ClaimUntil d of None \<Rightarrow> False | Some u \<Rightarrow> u > t)"

definition complete_row :: "Receipt \<Rightarrow> int \<Rightarrow> DeliveryRow \<Rightarrow> DeliveryRow" where
  "complete_row r t d =
     d\<lparr>d_State := ''delivered'', d_OperationID := Some (receipt_OperationID r),
       d_MediaEffect := Some (receipt_Effect r), d_GrantCount := Some (receipt_Count r), d_ReceivedAt := Some t\<rparr>"

definition CompleteAuthorityDelivery ::
    "uuid \<Rightarrow> uuid \<Rightarrow> int \<Rightarrow> Receipt \<Rightarrow> int \<Rightarrow> ('e, nat) delivery_tx" where
  "CompleteAuthorityDelivery eventID owner fence r t = exec_rows (claim_held eventID owner fence t) (complete_row r t)"

definition quarantine_row :: "string \<Rightarrow> DeliveryRow \<Rightarrow> DeliveryRow" where
  "quarantine_row reason d = d\<lparr>d_State := ''quarantined'', d_QuarantineReason := Some reason\<rparr>"

definition QuarantineAuthorityDelivery ::
    "uuid \<Rightarrow> uuid \<Rightarrow> int \<Rightarrow> string \<Rightarrow> int \<Rightarrow> ('e, nat) delivery_tx" where
  "QuarantineAuthorityDelivery eventID owner fence reason t =
     exec_rows (claim_held eventID owner fence t) (quarantine_row reason)"

definition retry_row :: "int \<Rightarrow> int \<Rightarrow> DeliveryRow \<Rightarrow> DeliveryRow" where
  "retry_row seconds t d =
     d\<lparr>d_ClaimOwner := None, d_ClaimUntil := None, d_NextAttemptAt := t + seconds * 1000000000\<rparr>"

definition RetryAuthorityDelivery :: "uuid \<Rightarrow> uuid \<Rightarrow> int \<Rightarrow> int \<Rightarrow> int \<Rightarrow> ('e, nat) delivery_tx" where
  "RetryAuthorityDelivery eventID owner fence seconds t =
     exec_rows (claim_held eventID owner fence t) (retry_row seconds t)"

text \<open>An event enters the outbox together with its delivery row: \<open>CreateAuthorityRevocationEvent\<close> of the
  identity service inserts both, in the chat service the trigger \<open>chat_authority_delivery_capture\<close>
  adds the second. An identifier that exists is a unique violation.\<close>

definition new_delivery :: "uuid \<Rightarrow> int \<Rightarrow> DeliveryRow" where
  "new_delivery eventID t =
     \<lparr>d_EventID = eventID, d_State = ''pending'', d_Attempt = 0, d_ClaimFence = 0, d_ClaimOwner = None,
      d_ClaimUntil = None, d_NextAttemptAt = t, d_OperationID = None, d_MediaEffect = None, d_GrantCount = None,
      d_ReceivedAt = None, d_QuarantineReason = None\<rparr>"

definition CreateAuthorityRevocationEvent :: "'e event_kind \<Rightarrow> 'e OutboxRow \<Rightarrow> int \<Rightarrow> ('e, unit) delivery_tx" where
  "CreateAuthorityRevocationEvent k e t = (\<lambda>db.
     if \<exists>o'\<in>set (outbox db). ek_ID k (o_Event o') = ek_ID k (o_Event e) then Inl DErrOther
     else if \<exists>d\<in>set (deliveries db). d_EventID d = ek_ID k (o_Event e) then Inl DErrOther
     else Inr ((), db\<lparr>outbox := outbox db @ [e], deliveries := deliveries db @ [new_delivery (ek_ID k (o_Event e)) t]\<rparr>))"

end
