(* ===== verification/Delivery_Worker.thy ===== *)
theory Delivery_Worker
  imports Delivery_Store
begin

text \<open>
  The worker (\<open>Step\<close> and \<open>Run\<close> of \<open>worker.go\<close>) over its two interfaces, \<open>Repository\<close> and \<open>Client\<close>, and
  the repository \<open>DeliveryRepository\<close> of \<open>internal/storage/postgres/authority_delivery.go\<close>. The locale
  \<open>delivery_worker\<close> states what the interfaces must keep for the worker to keep it.
\<close>

section \<open>The worker\<close>

record ('w, 'e) Worker =
  wk_kind :: "'e event_kind"
  wk_owner :: uuid
  wk_Claim :: "uuid \<Rightarrow> ('w, delivery_error, 'e Claim option) prog"
  wk_HasExhausted :: "('w, delivery_error, bool) prog"
  wk_Complete :: "'e Claim \<Rightarrow> Receipt \<Rightarrow> ('w, delivery_error, unit) prog"
  wk_Quarantine :: "'e Claim \<Rightarrow> string \<Rightarrow> ('w, delivery_error, unit) prog"
  wk_Retry :: "'e Claim \<Rightarrow> int \<Rightarrow> ('w, delivery_error, unit) prog"
  wk_Apply :: "'e \<Rightarrow> ('w, delivery_error, Receipt) prog"
  wk_Lookup :: "uuid \<Rightarrow> ('w, delivery_error, Receipt) prog"
  wk_done :: "'w \<Rightarrow> bool"
  wk_wait :: "('w, delivery_error, unit) prog"

text \<open>\<open>wk_done\<close> is \<open>ctx.Err() != nil\<close>, \<open>wk_wait\<close> the \<open>select\<close> of \<open>Run\<close>: an error when it takes \<open>ctx.Done()\<close>.
  The first part of \<open>Step\<close> after the claim: look the receipt up unless this is the first attempt, replay
  the event, and remember the receipt that was found.\<close>

definition ask_receipt :: "('w, 'e) Worker \<Rightarrow> 'e Claim \<Rightarrow> ('w, delivery_error, (delivery_error + Receipt) \<times> Receipt option) prog" where
  "ask_receipt s c =
     bindE (if claim_Attempt c > 1
            then attemptE (wk_Lookup s (ek_ID (wk_kind s) (claim_Event c))) (\<lambda>found. case found of
                   Inl e \<Rightarrow> returnE (Inl e, None)
                 | Inr r \<Rightarrow>
                     if ValidFor (wk_kind s) r (claim_Event c)
                     then attemptE (wk_Apply s (claim_Event c)) (\<lambda>result. returnE (result, Some r))
                     else returnE (Inr r, None))
            else returnE (Inl DErrNotFound, None)) (\<lambda>(result, prior).
     if result = Inl DErrNotFound
     then attemptE (wk_Apply s (claim_Event c)) (\<lambda>result. returnE (result, prior))
     else returnE (result, prior))"

definition acceptable :: "'e event_kind \<Rightarrow> 'e Claim \<Rightarrow> Receipt option \<Rightarrow> Receipt \<Rightarrow> bool" where
  "acceptable k c prior r \<longleftrightarrow>
     ValidFor k r (claim_Event c) \<and>
     (case prior of None \<Rightarrow> True | Some p \<Rightarrow> receipt_OperationID p = receipt_OperationID r)"

text \<open>An attempt that got no acceptable receipt is tried again later, unless the context is done.\<close>

definition postpone :: "('w, 'e) Worker \<Rightarrow> 'e Claim \<Rightarrow> ('w, delivery_error, unit) prog" where
  "postpone s c = (\<lambda>w.
     if wk_done s w then (Inl DErrContext, w)
     else bindE (wk_Retry s c (RetrySeconds (claim_Attempt c))) (\<lambda>_. failE DErrUnavailable) w)"

definition settle ::
    "('w, 'e) Worker \<Rightarrow> 'e Claim \<Rightarrow> delivery_error + Receipt \<Rightarrow> Receipt option \<Rightarrow> ('w, delivery_error, unit) prog" where
  "settle s c result prior =
     (if result = Inl DErrConflict then wk_Quarantine s c ''canonical_conflict''
      else case result of
        Inr r \<Rightarrow> if acceptable (wk_kind s) c prior r then wk_Complete s c r else postpone s c
      | Inl _ \<Rightarrow> postpone s c)"

definition Step :: "('w, 'e) Worker \<Rightarrow> ('w, delivery_error, unit) prog" where
  "Step s =
     bindE (wk_Claim s (wk_owner s)) (\<lambda>claim. case claim of
       None \<Rightarrow> bindE (wk_HasExhausted s) (\<lambda>exhausted. if exhausted then failE DErrExhausted else returnE ())
     | Some c \<Rightarrow>
         if \<not> ek_Validate (wk_kind s) (claim_Event c) then wk_Quarantine s c ''source_row_invalid''
         else bindE (ask_receipt s c) (\<lambda>(result, prior). settle s c result prior))"

text \<open>\<open>Run\<close> loops until the context is done; \<open>n\<close> bounds the rounds, \<open>None\<close> means that it is still running.
  The error of a step is only logged.\<close>

fun Run :: "nat \<Rightarrow> ('w, 'e) Worker \<Rightarrow> 'w \<Rightarrow> delivery_error option \<times> 'w" where
  "Run 0 s w = (None, w)"
| "Run (Suc n) s w =
     (case wk_wait s (snd (Step s w)) of
        (Inl e, w') \<Rightarrow> (Some e, w')
      | (Inr _, w') \<Rightarrow> Run n s w')"

locale delivery_worker =
  fixes s :: "('w, 'e) Worker" and I :: "'w \<Rightarrow> bool"
  assumes claim: "pres I (wk_Claim s owner)"
    and exhausted: "pres I (wk_HasExhausted s)"
    and complete: "pres I (wk_Complete s c r)"
    and quarantine: "pres I (wk_Quarantine s c reason)"
    and retry: "pres I (wk_Retry s c seconds)"
    and apply_rpc: "pres I (wk_Apply s e)"
    and lookup: "pres I (wk_Lookup s i)"
    and wait: "pres I (wk_wait s)"
begin

lemma ask_receipt_pres: "pres I (ask_receipt s c)"
  unfolding ask_receipt_def by (intro pres_intros lookup apply_rpc)

lemma postpone_pres: "pres I (postpone s c)"
proof -
  have "pres I (bindE (wk_Retry s c n) (\<lambda>_. failE e) :: ('w, delivery_error, unit) prog)" for n e
    by (intro pres_intros retry)
  then show ?thesis by (simp add: postpone_def pres_def)
qed

lemma settle_pres: "pres I (settle s c result prior)"
  unfolding settle_def by (intro pres_intros complete quarantine postpone_pres)

lemma Step_pres: "pres I (Step s)"
  unfolding Step_def by (intro pres_intros claim exhausted quarantine ask_receipt_pres settle_pres)

lemma Run_pres: "I w \<Longrightarrow> I (snd (Run n s w))"
proof (induction n arbitrary: w)
  case (Suc n)
  from Step_pres Suc.prems have "I (snd (Step s w))" by (simp add: pres_def)
  with wait have "I (snd (wk_wait s (snd (Step s w))))" by (simp add: pres_def)
  with Suc.IH show ?case by (auto split: prod.splits sum.splits)
qed simp

end

section \<open>The repository\<close>

datatype delivery_fault = Delivered | NotReached | ReplyLost

text \<open>What other processes do to the tables: new events, and the statements of other workers.\<close>

datatype 'e delivery_op =
    OpEvent "'e OutboxRow"
  | OpClaim uuid "uuid list"
  | OpComplete "'e Claim" Receipt
  | OpQuarantine "'e Claim" string
  | OpRetry "'e Claim" int

record 'e delivery_env =
  dv_kind :: "'e event_kind"
  dv_others :: "nat \<Rightarrow> (int \<times> 'e delivery_op) list"
  dv_fault :: "nat \<Rightarrow> delivery_fault"
  dv_clock :: "nat \<Rightarrow> int"
  dv_locked :: "nat \<Rightarrow> uuid list"
  dv_done :: "nat \<Rightarrow> bool"
  dv_quit :: "nat \<Rightarrow> bool"
  dv_apply :: "nat \<Rightarrow> 'e \<Rightarrow> delivery_error + Receipt"
  dv_lookup :: "nat \<Rightarrow> uuid \<Rightarrow> delivery_error + Receipt"

record 'e delivery_world =
  dw_db :: "'e delivery_db"
  dw_tick :: nat

text \<open>The statements of the methods with their guards, at an instant \<open>t\<close>.\<close>

definition changedDelivery :: "('e, nat) delivery_tx \<Rightarrow> ('e, unit) delivery_tx" where
  "changedDelivery m = bindT m (\<lambda>n. if n \<noteq> 1 then failT DErrStaleClaim else returnT ())"

definition Complete_tx :: "'e event_kind \<Rightarrow> 'e Claim \<Rightarrow> Receipt \<Rightarrow> int \<Rightarrow> ('e, unit) delivery_tx" where
  "Complete_tx k c r t =
     (if \<not> ValidFor k r (claim_Event c) then failT DErrUnavailable
      else changedDelivery (CompleteAuthorityDelivery (ek_ID k (claim_Event c)) (claim_Owner c) (claim_Fence c) r t))"

definition Quarantine_tx :: "'e event_kind \<Rightarrow> 'e Claim \<Rightarrow> string \<Rightarrow> int \<Rightarrow> ('e, unit) delivery_tx" where
  "Quarantine_tx k c reason t =
     (if reason \<noteq> ''canonical_conflict'' \<and> reason \<noteq> ''source_row_invalid'' then failT DErrUnavailable
      else changedDelivery
             (QuarantineAuthorityDelivery (ek_ID k (claim_Event c)) (claim_Owner c) (claim_Fence c) reason t))"

definition Retry_tx :: "'e event_kind \<Rightarrow> 'e Claim \<Rightarrow> int \<Rightarrow> int \<Rightarrow> ('e, unit) delivery_tx" where
  "Retry_tx k c seconds t =
     (if seconds < 1 \<or> seconds > 30 then failT DErrUnavailable
      else changedDelivery
             (RetryAuthorityDelivery (ek_ID k (claim_Event c)) (claim_Owner c) (claim_Fence c) seconds t))"

definition Claim_tx :: "'e event_kind \<Rightarrow> uuid list \<Rightarrow> uuid \<Rightarrow> int \<Rightarrow> ('e, 'e Claim option) delivery_tx" where
  "Claim_tx k locked owner t =
     (if owner = uuid_Nil then failT DErrUnavailable
      else bindT (ClaimAuthorityDelivery k locked owner t) (\<lambda>row. returnT (case row of
        None \<Rightarrow> None
      | Some (e, d) \<Rightarrow> Some \<lparr>claim_Event = e, claim_Owner = owner, claim_Fence = d_ClaimFence d,
                            claim_Attempt = d_Attempt d\<rparr>)))"

definition delivery_op_tx :: "'e event_kind \<Rightarrow> int \<times> 'e delivery_op \<Rightarrow> ('e, unit) delivery_tx" where
  "delivery_op_tx k x = (case x of (t, operation) \<Rightarrow> (case operation of
     OpEvent e \<Rightarrow> CreateAuthorityRevocationEvent k e t
   | OpClaim owner locked \<Rightarrow> bindT (Claim_tx k locked owner t) (\<lambda>_. returnT ())
   | OpComplete c r \<Rightarrow> Complete_tx k c r t
   | OpQuarantine c reason \<Rightarrow> Quarantine_tx k c reason t
   | OpRetry c seconds \<Rightarrow> Retry_tx k c seconds t))"

definition run_delivery_op :: "'e event_kind \<Rightarrow> int \<times> 'e delivery_op \<Rightarrow> 'e delivery_db \<Rightarrow> 'e delivery_db" where
  "run_delivery_op k x db = (case delivery_op_tx k x db of Inl _ \<Rightarrow> db | Inr (_, db') \<Rightarrow> db')"

definition others_acted :: "'e delivery_env \<Rightarrow> 'e delivery_world \<Rightarrow> 'e delivery_db" where
  "others_acted env w = fold (run_delivery_op (dv_kind env)) (dv_others env (dw_tick w)) (dw_db w)"

text \<open>An error of the driver becomes \<open>ctx.Err()\<close> or \<open>ErrUnavailable\<close> (\<open>deliveryError\<close>); the sentinels of the
  methods themselves pass.\<close>

definition deliveryError :: "'e delivery_env \<Rightarrow> nat \<Rightarrow> delivery_error" where
  "deliveryError env t = (if dv_done env t then DErrContext else DErrUnavailable)"

definition statement ::
    "'e delivery_env \<Rightarrow> (int \<Rightarrow> ('e, 'a) delivery_tx) \<Rightarrow> ('e delivery_world, delivery_error, 'a) prog" where
  "statement env m = (\<lambda>w.
     let t = dw_tick w; db = others_acted env w;
         failed = (\<lambda>db'. (Inl (deliveryError env (Suc t)), w\<lparr>dw_tick := Suc t, dw_db := db'\<rparr>))
     in case dv_fault env t of
          NotReached \<Rightarrow> failed db
        | Delivered \<Rightarrow> (case m (dv_clock env t) db of
              Inl e \<Rightarrow> if e = DErrOther then failed db else (Inl e, w\<lparr>dw_tick := Suc t, dw_db := db\<rparr>)
            | Inr (x, db') \<Rightarrow> (Inr x, w\<lparr>dw_tick := Suc t, dw_db := db'\<rparr>))
        | ReplyLost \<Rightarrow> (case m (dv_clock env t) db of
              Inl _ \<Rightarrow> failed db
            | Inr (x, db') \<Rightarrow> failed db'))"

text \<open>The guards come before the statement, so a refused argument reaches no database.\<close>

definition guarded_statement ::
    "'e delivery_env \<Rightarrow> bool \<Rightarrow> (int \<Rightarrow> ('e, 'a) delivery_tx) \<Rightarrow> ('e delivery_world, delivery_error, 'a) prog" where
  "guarded_statement env refused m = (if refused then failE DErrUnavailable else statement env m)"

definition repo_Claim :: "'e delivery_env \<Rightarrow> uuid \<Rightarrow> ('e delivery_world, delivery_error, 'e Claim option) prog" where
  "repo_Claim env owner = (\<lambda>w. guarded_statement env (owner = uuid_Nil)
     (Claim_tx (dv_kind env) (dv_locked env (dw_tick w)) owner) w)"

definition repo_HasExhausted :: "'e delivery_env \<Rightarrow> ('e delivery_world, delivery_error, bool) prog" where
  "repo_HasExhausted env = statement env HasExhaustedAuthorityDelivery"

definition repo_Complete :: "'e delivery_env \<Rightarrow> 'e Claim \<Rightarrow> Receipt \<Rightarrow> ('e delivery_world, delivery_error, unit) prog" where
  "repo_Complete env c r =
     guarded_statement env (\<not> ValidFor (dv_kind env) r (claim_Event c)) (Complete_tx (dv_kind env) c r)"

definition repo_Quarantine :: "'e delivery_env \<Rightarrow> 'e Claim \<Rightarrow> string \<Rightarrow> ('e delivery_world, delivery_error, unit) prog" where
  "repo_Quarantine env c reason =
     guarded_statement env (reason \<noteq> ''canonical_conflict'' \<and> reason \<noteq> ''source_row_invalid'')
       (Quarantine_tx (dv_kind env) c reason)"

definition repo_Retry :: "'e delivery_env \<Rightarrow> 'e Claim \<Rightarrow> int \<Rightarrow> ('e delivery_world, delivery_error, unit) prog" where
  "repo_Retry env c seconds =
     guarded_statement env (seconds < 1 \<or> seconds > 30) (Retry_tx (dv_kind env) c seconds)"

definition ask_client :: "(nat \<Rightarrow> delivery_error + 'a) \<Rightarrow> ('e delivery_world, delivery_error, 'a) prog" where
  "ask_client answer = (\<lambda>w. (answer (dw_tick w), w\<lparr>dw_tick := Suc (dw_tick w)\<rparr>))"

definition NewWorker :: "'e delivery_env \<Rightarrow> uuid \<Rightarrow> ('e delivery_world, 'e) Worker" where
  "NewWorker env owner =
     \<lparr>wk_kind = dv_kind env, wk_owner = owner, wk_Claim = repo_Claim env, wk_HasExhausted = repo_HasExhausted env,
      wk_Complete = repo_Complete env, wk_Quarantine = repo_Quarantine env, wk_Retry = repo_Retry env,
      wk_Apply = (\<lambda>e. ask_client (\<lambda>t. dv_apply env t e)), wk_Lookup = (\<lambda>i. ask_client (\<lambda>t. dv_lookup env t i)),
      wk_done = (\<lambda>w. dv_done env (dw_tick w)),
      wk_wait = ask_client (\<lambda>t. if dv_quit env t then Inl DErrContext else Inr ())\<rparr>"

end
