(* ===== verification/Delivery_Invariant.thy ===== *)
theory Delivery_Invariant
  imports Delivery_Worker
begin

text \<open>
  What the delivery tables keep, whatever the workers and the sources of events do: the invariant
  \<open>delivery_inv\<close>, and \<open>delivery_evolves\<close>, how a row can change over time.
\<close>

section \<open>From statements to the worker\<close>

locale delivery_tables =
  fixes env :: "'e delivery_env" and P :: "'e delivery_db \<Rightarrow> bool"
  assumes event: "keeps P (CreateAuthorityRevocationEvent (dv_kind env) row t)"
    and claimed: "keeps P (ClaimAuthorityDelivery (dv_kind env) locked owner t)"
    and completed: "ValidFor (dv_kind env) r e \<Longrightarrow>
          keeps P (CompleteAuthorityDelivery (ek_ID (dv_kind env) e) owner fence r t)"
    and quarantined: "reason \<in> {''canonical_conflict'', ''source_row_invalid''} \<Longrightarrow>
          keeps P (QuarantineAuthorityDelivery i owner fence reason t)"
    and retried: "keeps P (RetryAuthorityDelivery i owner fence seconds t)"
begin

lemma keeps_changed: "keeps P m \<Longrightarrow> keeps P (changedDelivery m)"
  unfolding changedDelivery_def by (intro pres_intros)

lemma keeps_methods:
  "keeps P (Claim_tx (dv_kind env) locked owner t)"
  "keeps P (Complete_tx (dv_kind env) c r t)"
  "keeps P (Quarantine_tx (dv_kind env) c reason t)"
  "keeps P (Retry_tx (dv_kind env) c seconds t)"
  "keeps P (HasExhaustedAuthorityDelivery t)"
  unfolding Claim_tx_def Complete_tx_def Quarantine_tx_def Retry_tx_def
  by (intro pres_intros keeps_changed claimed completed quarantined retried; auto)+
    (simp add: keeps_def HasExhaustedAuthorityDelivery_def)

lemma keeps_op: "keeps P (delivery_op_tx (dv_kind env) x)"
  by (cases x; cases "snd x") (auto simp: delivery_op_tx_def intro!: pres_intros event keeps_methods)

lemma run_op: "P db \<Longrightarrow> P (run_delivery_op (dv_kind env) x db)"
  using keepsD [OF keeps_op] by (auto simp: run_delivery_op_def split: sum.splits)

lemma run_ops: "P db \<Longrightarrow> P (fold (run_delivery_op (dv_kind env)) xs db)"
  by (induction xs arbitrary: db) (simp_all add: run_op)

lemma others: "P (dw_db w) \<Longrightarrow> P (others_acted env w)"
  by (simp add: others_acted_def run_ops)

lemma pres_statement:
  assumes "\<And>t. keeps P (m t)"
  shows "pres (\<lambda>w :: 'e delivery_world. P (dw_db w)) (statement env m)"
  unfolding pres_def
proof (intro allI impI)
  fix w :: "'e delivery_world" assume "P (dw_db w)"
  then have "P (others_acted env w)" by (rule others)
  then show "P (dw_db (snd (statement env m w)))"
    using keepsD [OF assms] by (auto simp: statement_def Let_def split: delivery_fault.splits sum.splits)
qed

lemma pres_guarded: "(\<And>t. keeps P (m t)) \<Longrightarrow> pres (\<lambda>w :: 'e delivery_world. P (dw_db w)) (guarded_statement env refused m)"
  unfolding guarded_statement_def by (intro pres_intros pres_statement)

lemma pres_repo_Claim: "pres (\<lambda>w :: 'e delivery_world. P (dw_db w)) (repo_Claim env owner)"
  using pres_guarded [OF keeps_methods(1)] by (simp add: pres_def repo_Claim_def)

lemma pres_ask_client: "pres (\<lambda>w :: 'e delivery_world. P (dw_db w)) (ask_client answer)"
  by (simp add: pres_def ask_client_def)

end

sublocale delivery_tables \<subseteq> worker: delivery_worker "NewWorker env owner" "\<lambda>w. P (dw_db w)" for owner
  by unfold_locales
    (simp_all add: NewWorker_def pres_repo_Claim pres_ask_client repo_HasExhausted_def repo_Complete_def
      repo_Quarantine_def repo_Retry_def pres_statement pres_guarded keeps_methods)

section \<open>The invariant and the evolution of rows\<close>

definition receipt_valid :: "uuid \<Rightarrow> Receipt \<Rightarrow> bool" where
  "receipt_valid i r \<longleftrightarrow>
     receipt_EventID r = i \<and> receipt_OperationID r \<noteq> uuid_Nil \<and>
     (receipt_Effect r = ''no_matching_registry_grants'' \<and> receipt_Count r = 0 \<or>
      receipt_Effect r = ''media_pending'' \<and> receipt_Count r > 0 \<and> receipt_Count r \<le> 4294967295)"

lemma ValidFor_iff: "ValidFor k r e \<longleftrightarrow> receipt_valid (ek_ID k e) r"
  by (simp add: ValidFor_def receipt_valid_def)

definition row_receipt :: "DeliveryRow \<Rightarrow> Receipt" where
  "row_receipt d = \<lparr>receipt_EventID = d_EventID d, receipt_OperationID = the (d_OperationID d),
     receipt_Effect = the (d_MediaEffect d), receipt_Count = the (d_GrantCount d)\<rparr>"

definition row_ok :: "DeliveryRow \<Rightarrow> bool" where
  "row_ok d \<longleftrightarrow> delivery_check d \<and> d_Attempt d = d_ClaimFence d \<and> d_ClaimFence d \<le> max_int64 \<and>
     (d_State d = ''delivered'' \<longrightarrow> receipt_valid (d_EventID d) (row_receipt d))"

definition delivery_inv :: "'e event_kind \<Rightarrow> 'e delivery_db \<Rightarrow> bool" where
  "delivery_inv k db \<longleftrightarrow>
     distinct (map (\<lambda>e. ek_ID k (o_Event e)) (outbox db)) \<and> distinct (map d_EventID (deliveries db)) \<and>
     d_EventID ` set (deliveries db) = (\<lambda>e. ek_ID k (o_Event e)) ` set (outbox db) \<and>
     (\<forall>d\<in>set (deliveries db). row_ok d)"

definition row_evolves :: "DeliveryRow \<Rightarrow> DeliveryRow \<Rightarrow> bool" where
  "row_evolves d d' \<longleftrightarrow>
     d_EventID d' = d_EventID d \<and> d_ClaimFence d \<le> d_ClaimFence d' \<and> (\<not> pending d \<longrightarrow> d' = d) \<and>
     (d_ClaimFence d' = d_ClaimFence d \<longrightarrow>
        d_ClaimOwner d' = d_ClaimOwner d \<and> d_ClaimUntil d' = d_ClaimUntil d \<or> d_ClaimOwner d' = None)"

definition delivery_evolves :: "'e delivery_db \<Rightarrow> 'e delivery_db \<Rightarrow> bool" where
  "delivery_evolves db db' \<longleftrightarrow>
     set (outbox db) \<subseteq> set (outbox db') \<and>
     (\<forall>d\<in>set (deliveries db). \<exists>d'\<in>set (deliveries db'). row_evolves d d')"

lemma row_evolves_refl [simp]: "row_evolves d d"
  by (simp add: row_evolves_def)

lemma row_evolves_trans: "row_evolves a b \<Longrightarrow> row_evolves b c \<Longrightarrow> row_evolves a c"
proof -
  assume ab: "row_evolves a b" and bc: "row_evolves b c"
  show "row_evolves a c"
  proof (cases "pending a \<and> pending b")
    case True
    with ab bc have "d_ClaimFence a \<le> d_ClaimFence b" "d_ClaimFence b \<le> d_ClaimFence c"
      by (simp_all add: row_evolves_def)
    with True ab bc show ?thesis unfolding row_evolves_def by auto
  next
    case False
    with ab bc have "b = a \<or> c = b" by (auto simp: row_evolves_def)
    with ab bc show ?thesis by blast
  qed
qed

lemma delivery_evolves_refl [simp]: "delivery_evolves db db"
  unfolding delivery_evolves_def using row_evolves_refl by blast

lemma delivery_evolves_trans: "delivery_evolves a b \<Longrightarrow> delivery_evolves b c \<Longrightarrow> delivery_evolves a c"
  unfolding delivery_evolves_def by (meson row_evolves_trans subset_trans)

text \<open>\<open>kept k db0 db\<close>: \<open>db\<close> satisfies the invariant and descends from \<open>db0\<close>.\<close>

definition kept :: "'e event_kind \<Rightarrow> 'e delivery_db \<Rightarrow> 'e delivery_db \<Rightarrow> bool" where
  "kept k db0 db \<longleftrightarrow> delivery_inv k db \<and> delivery_evolves db0 db"

lemma update_deliveries_sel [simp]:
  "outbox (update_deliveries hit f db) = outbox db"
  "deliveries (update_deliveries hit f db) = map (\<lambda>d. if hit d then f d else d) (deliveries db)"
  by (simp_all add: update_deliveries_def)

lemma kept_update:
  assumes "kept k db0 db"
    and f: "\<And>d. d \<in> set (deliveries db) \<Longrightarrow> hit d \<Longrightarrow> row_ok (f d) \<and> row_evolves d (f d)"
  shows "kept k db0 (update_deliveries hit f db)"
proof -
  let ?db = "update_deliveries hit f db"
  have ids: "map d_EventID (deliveries ?db) = map d_EventID (deliveries db)"
    using f by (auto simp: row_evolves_def)
  then have "d_EventID ` set (deliveries ?db) = d_EventID ` set (deliveries db)"
    by (metis set_map)
  moreover have "\<forall>d\<in>set (deliveries ?db). row_ok d"
    using f assms(1) by (auto simp: kept_def delivery_inv_def)
  ultimately have "delivery_inv k ?db"
    using ids assms(1) by (simp add: kept_def delivery_inv_def del: update_deliveries_sel(2))
  moreover have "delivery_evolves db ?db"
    unfolding delivery_evolves_def
  proof (intro conjI ballI)
    fix d assume d: "d \<in> set (deliveries db)"
    then have "(if hit d then f d else d) \<in> set (deliveries ?db)" by auto
    moreover have "row_evolves d (if hit d then f d else d)" using f [OF d] by auto
    ultimately show "\<exists>d'\<in>set (deliveries ?db). row_evolves d d'" by blast
  qed simp
  ultimately show ?thesis
    using assms(1) delivery_evolves_trans by (auto simp: kept_def)
qed

lemma exec_rows_run:
  "exec_rows hit f db = Inr (n, db') \<Longrightarrow>
     db' = update_deliveries hit f db \<and> n = length (filter hit (deliveries db)) \<and>
     (\<forall>d\<in>set (deliveries db). hit d \<longrightarrow> delivery_check (f d))"
  by (auto simp: exec_rows_def split: if_splits)

lemma kept_exec_rows:
  assumes f: "\<And>d. row_ok d \<Longrightarrow> hit d \<Longrightarrow> delivery_check (f d) \<Longrightarrow> row_ok (f d) \<and> row_evolves d (f d)"
  shows "keeps (kept k db0) (exec_rows hit f)"
  unfolding keeps_def
proof (intro allI impI)
  fix db n db' assume db: "kept k db0 db" and "exec_rows hit f db = Inr (n, db')"
  from exec_rows_run [OF this(2)] have db': "db' = update_deliveries hit f db"
    "\<forall>d\<in>set (deliveries db). hit d \<longrightarrow> delivery_check (f d)" by simp_all
  show "kept k db0 db'"
    unfolding db'(1) by (rule kept_update [OF db]) (use f db db'(2) in \<open>simp add: kept_def delivery_inv_def\<close>)
qed

lemma set_candidates:
  "set (candidates k locked t db) = {(e, d). e \<in> set (outbox db) \<and> d \<in> set (deliveries db) \<and>
     d_EventID d = ek_ID k (o_Event e) \<and> claimable locked t d}"
  by (auto simp: candidates_def)

lemma Claim_run:
  assumes "ClaimAuthorityDelivery k locked owner t db = Inr (row, db')"
  shows "case row of
      None \<Rightarrow> db' = db \<and> candidates k locked t db = []
    | Some (e, d') \<Rightarrow> \<exists>o' d rest. candidates k locked t db = (o', d) # rest \<and> o_Event o' = e \<and>
        d' = claim_row owner t d \<and>
        db' = update_deliveries (\<lambda>x. d_EventID x = d_EventID d) (claim_row owner t) db"
proof (cases "candidates k locked t db")
  case Nil
  with assms show ?thesis by (simp add: ClaimAuthorityDelivery_def)
next
  case (Cons x rest)
  obtain e d where "x = (e, d)" by fastforce
  with Cons assms show ?thesis
    by (auto simp: ClaimAuthorityDelivery_def tx_simps dest: exec_rows_run split: option.splits)
qed

lemma unique_delivery:
  "delivery_inv k db \<Longrightarrow> d \<in> set (deliveries db) \<Longrightarrow> d' \<in> set (deliveries db) \<Longrightarrow> d_EventID d = d_EventID d' \<Longrightarrow> d = d'"
  unfolding delivery_inv_def by (auto dest: distinct_keyD)

lemma claim_row_ok:
  "row_ok d \<Longrightarrow> claimable locked t d \<Longrightarrow> row_ok (claim_row owner t d) \<and> row_evolves d (claim_row owner t d)"
  by (auto simp: row_ok_def claimable_def claim_row_def row_evolves_def delivery_check_def)

lemma kept_Claim: "keeps (kept k db0) (ClaimAuthorityDelivery k locked owner t)"
  unfolding keeps_def
proof (intro allI impI)
  fix db row db' assume db: "kept k db0 db" and run: "ClaimAuthorityDelivery k locked owner t db = Inr (row, db')"
  show "kept k db0 db'"
  proof (cases row)
    case None
    with Claim_run [OF run] db show ?thesis by simp
  next
    case (Some p)
    with Claim_run [OF run] obtain o' d rest where c: "candidates k locked t db = (o', d) # rest"
      "db' = update_deliveries (\<lambda>x. d_EventID x = d_EventID d) (claim_row owner t) db" by (cases p) auto
    then have "(o', d) \<in> set (candidates k locked t db)" by simp
    then have d: "d \<in> set (deliveries db)" "claimable locked t d" by (simp_all add: set_candidates)
    have inv: "delivery_inv k db" using db by (simp add: kept_def)
    show ?thesis
      unfolding c(2)
    proof (rule kept_update [OF db])
      fix x assume "x \<in> set (deliveries db)" "d_EventID x = d_EventID d"
      with inv d(1) have "x = d" by (blast intro: unique_delivery)
      with d inv show "row_ok (claim_row owner t x) \<and> row_evolves x (claim_row owner t x)"
        by (simp add: claim_row_ok delivery_inv_def)
    qed
  qed
qed

lemma kept_Create: "keeps (kept k db0) (CreateAuthorityRevocationEvent k row t)"
  unfolding keeps_def
proof (intro allI impI)
  fix db x db' assume db: "kept k db0 db" and "CreateAuthorityRevocationEvent k row t db = Inr (x, db')"
  then have new: "\<forall>e\<in>set (outbox db). ek_ID k (o_Event e) \<noteq> ek_ID k (o_Event row)"
    "\<forall>d\<in>set (deliveries db). d_EventID d \<noteq> ek_ID k (o_Event row)" and
    db': "db' = db\<lparr>outbox := outbox db @ [row],
            deliveries := deliveries db @ [new_delivery (ek_ID k (o_Event row)) t]\<rparr>"
    by (auto simp: CreateAuthorityRevocationEvent_def split: if_splits)
  have "row_ok (new_delivery (ek_ID k (o_Event row)) t)"
    by (simp add: row_ok_def new_delivery_def delivery_check_def max_int64_def)
  moreover have "d_EventID (new_delivery (ek_ID k (o_Event row)) t) = ek_ID k (o_Event row)"
    by (simp add: new_delivery_def)
  ultimately have "delivery_inv k db'" using db new by (auto simp: db' kept_def delivery_inv_def)
  moreover have "delivery_evolves db db'" by (auto simp: db' delivery_evolves_def intro: row_evolves_refl)
  ultimately show "kept k db0 db'" using db delivery_evolves_trans by (auto simp: kept_def)
qed

lemma kept_Complete:
  assumes "ValidFor k r e"
  shows "keeps (kept k db0) (CompleteAuthorityDelivery (ek_ID k e) owner fence r t)"
  unfolding CompleteAuthorityDelivery_def
  by (rule kept_exec_rows)
    (use assms in \<open>auto simp: row_ok_def claim_held_def row_evolves_def complete_row_def ValidFor_iff
       receipt_valid_def row_receipt_def\<close>)

lemma kept_Quarantine: "keeps (kept k db0) (QuarantineAuthorityDelivery i owner fence reason t)"
  unfolding QuarantineAuthorityDelivery_def
  by (rule kept_exec_rows) (auto simp: row_ok_def claim_held_def row_evolves_def quarantine_row_def)

lemma kept_Retry: "keeps (kept k db0) (RetryAuthorityDelivery i owner fence seconds t)"
  unfolding RetryAuthorityDelivery_def
  by (rule kept_exec_rows) (auto simp: row_ok_def claim_held_def row_evolves_def retry_row_def)

interpretation tables: delivery_tables env "kept (dv_kind env) db0" for env :: "'e delivery_env" and db0
  by unfold_locales (rule kept_Create kept_Claim kept_Complete kept_Quarantine kept_Retry; assumption?)+

text \<open>A delivery worker changes the delivery rows, not the outbox.\<close>

lemma exec_rows_outbox: "exec_rows hit f d = Inr (n, d') \<Longrightarrow> outbox d' = outbox d"
  by (auto simp: exec_rows_def split: if_splits)

lemma delivery_op_outbox:
  assumes "case operation of OpEvent _ \<Rightarrow> False | _ \<Rightarrow> True"
    and "delivery_op_tx k (t, operation) d = Inr (x, d')"
  shows "outbox d' = outbox d"
proof (cases operation)
  case (OpClaim owner locked)
  then show ?thesis using assms(2)
    by (auto simp: delivery_op_tx_def Claim_tx_def tx_simps ClaimAuthorityDelivery_def
        split: list.splits option.splits if_splits prod.splits dest!: exec_rows_outbox)
next
  case (OpComplete c r)
  then show ?thesis using assms(2)
    by (auto simp: delivery_op_tx_def Complete_tx_def changedDelivery_def tx_simps CompleteAuthorityDelivery_def
        split: if_splits dest!: exec_rows_outbox)
next
  case (OpQuarantine c reason)
  then show ?thesis using assms(2)
    by (auto simp: delivery_op_tx_def Quarantine_tx_def changedDelivery_def tx_simps QuarantineAuthorityDelivery_def
        split: if_splits dest!: exec_rows_outbox)
next
  case (OpRetry c seconds)
  then show ?thesis using assms(2)
    by (auto simp: delivery_op_tx_def Retry_tx_def changedDelivery_def tx_simps RetryAuthorityDelivery_def
        split: if_splits dest!: exec_rows_outbox)
qed (use assms in simp)

lemma delivery_op_kept: "keeps (kept k d0) (delivery_op_tx k x)"
proof -
  define env where
    "env = \<lparr>dv_kind = k, dv_others = (\<lambda>_. []), dv_fault = (\<lambda>_. Delivered), dv_clock = (\<lambda>_. 0),
            dv_locked = (\<lambda>_. []), dv_done = (\<lambda>_. False), dv_quit = (\<lambda>_. False),
            dv_apply = (\<lambda>_ _. Inl DErrOther), dv_lookup = (\<lambda>_ _. Inl DErrOther)\<rparr>"
  have "dv_kind env = k" by (simp add: env_def)
  with tables.keeps_op [of env d0 x] show ?thesis by simp
qed

end
