(* ===== verification/Delivery_Lease.thy ===== *)
theory Delivery_Lease
  imports Delivery_Invariant
begin

text \<open>
  Fences and leases: a claim that another claim has overtaken can change nothing, and while a lease
  runs no other worker can touch the claimed row.
\<close>

lemma exec_rows_none: "\<forall>d\<in>set (deliveries db). \<not> hit d \<Longrightarrow> exec_rows hit f db = Inr (0, db)"
proof -
  assume none: "\<forall>d\<in>set (deliveries db). \<not> hit d"
  then have "map (\<lambda>d. if hit d then f d else d) (deliveries db) = deliveries db" by (simp add: map_idI)
  with none show ?thesis by (simp add: exec_rows_def update_deliveries_def filter_empty_conv)
qed

lemma changedDelivery_none: "\<forall>d\<in>set (deliveries db). \<not> hit d \<Longrightarrow>
    changedDelivery (exec_rows hit f) db = Inl DErrStaleClaim"
  by (simp add: changedDelivery_def bindT_def exec_rows_none failT_def)

text \<open>C11: a claim that another claim of the same event has overtaken is dead: however the tables have
  evolved since, completing, quarantining or rescheduling with it is refused as a stale claim, and an
  error never changes the database.\<close>

theorem overtaken_claim_is_refused:
  assumes "delivery_inv k db" and "delivery_inv k db'" and "delivery_evolves db db'"
    and "d \<in> set (deliveries db)" and "d_EventID d = ek_ID k (claim_Event c)" and "claim_Fence c < d_ClaimFence d"
  shows "Complete_tx k c r t db' =
      Inl (if ValidFor k r (claim_Event c) then DErrStaleClaim else DErrUnavailable) \<and>
    Quarantine_tx k c reason t db' =
      Inl (if reason \<in> {''canonical_conflict'', ''source_row_invalid''} then DErrStaleClaim else DErrUnavailable) \<and>
    Retry_tx k c seconds t db' = Inl (if seconds \<in> {1..30} then DErrStaleClaim else DErrUnavailable)"
proof -
  from assms(3,4) obtain d' where d': "d' \<in> set (deliveries db')" "row_evolves d d'"
    by (auto simp: delivery_evolves_def)
  have "\<not> claim_held (ek_ID k (claim_Event c)) (claim_Owner c) (claim_Fence c) t x"
    if "x \<in> set (deliveries db')" for x
    using unique_delivery [OF assms(2) that d'(1)] d'(2) assms(5,6) by (auto simp: claim_held_def row_evolves_def)
  then show ?thesis
    by (simp add: Complete_tx_def Quarantine_tx_def Retry_tx_def CompleteAuthorityDelivery_def
        QuarantineAuthorityDelivery_def RetryAuthorityDelivery_def changedDelivery_none failT_def)
qed

text \<open>A statement of a process other than the worker \<open>owner\<close>.\<close>

fun foreign :: "uuid \<Rightarrow> 'e delivery_op \<Rightarrow> bool" where
  "foreign owner (OpEvent e) = True"
| "foreign owner (OpClaim o' locked) = True"
| "foreign owner (OpComplete c r) = (claim_Owner c \<noteq> owner)"
| "foreign owner (OpQuarantine c reason) = (claim_Owner c \<noteq> owner)"
| "foreign owner (OpRetry c seconds) = (claim_Owner c \<noteq> owner)"

lemma miss_row:
  assumes "d \<in> set (deliveries db)" and "\<not> hit d" and "exec_rows hit f db = Inr (n, db')"
  shows "d \<in> set (deliveries db')"
proof -
  have "(if hit d then f d else d) \<in> set (map (\<lambda>d. if hit d then f d else d) (deliveries db))"
    using assms(1) by simp
  with assms(2) exec_rows_run [OF assms(3)] show ?thesis by simp
qed

lemma miss_changed:
  assumes "d \<in> set (deliveries db)" and "\<not> hit d" and "changedDelivery (exec_rows hit f) db = Inr (x, db')"
  shows "d \<in> set (deliveries db')"
  using assms miss_row by (auto simp: changedDelivery_def tx_simps split: if_splits)

lemma foreign_op_misses:
  assumes inv: "delivery_inv k db" and d: "d \<in> set (deliveries db)"
    and lease: "pending d" "d_ClaimOwner d = Some owner" "d_ClaimUntil d = Some v" "u < v"
    and foreign: "foreign owner operation"
  shows "d \<in> set (deliveries (run_delivery_op k (u, operation) db))"
proof (cases "delivery_op_tx k (u, operation) db")
  case (Inl e)
  with d show ?thesis by (simp add: run_delivery_op_def)
next
  case (Inr p)
  then obtain x db' where run: "delivery_op_tx k (u, operation) db = Inr (x, db')" by (cases p) simp
  have miss: "\<not> claim_held i o' f u d" if "o' \<noteq> owner" for i o' f
    using that lease(2) by (simp add: claim_held_def)
  have "d \<in> set (deliveries db')"
  proof (cases operation)
    case (OpEvent e)
    with run d show ?thesis
      by (auto simp: delivery_op_tx_def CreateAuthorityRevocationEvent_def split: if_splits)
  next
    case (OpClaim o' locked)
    with run obtain row where row: "ClaimAuthorityDelivery k locked o' u db = Inr (row, db')"
      by (auto simp: delivery_op_tx_def Claim_tx_def tx_simps split: if_splits)
    show ?thesis
    proof (cases row)
      case None
      with Claim_run [OF row] d show ?thesis by simp
    next
      case (Some q)
      with Claim_run [OF row] obtain e c rest where c: "candidates k locked u db = (e, c) # rest"
        "db' = update_deliveries (\<lambda>x. d_EventID x = d_EventID c) (claim_row o' u) db" by (cases q) auto
      then have "(e, c) \<in> set (candidates k locked u db)" by simp
      then have "c \<in> set (deliveries db)" "claimable locked u c" by (simp_all add: set_candidates)
      moreover have "\<not> claimable locked u d" using lease by (simp add: claimable_def)
      ultimately have "d_EventID d \<noteq> d_EventID c" using unique_delivery [OF inv d] by blast
      then have "d = (if d_EventID d = d_EventID c then claim_row o' u d else d)" by simp
      with d show ?thesis unfolding c(2) update_deliveries_sel set_map by (rule rev_image_eqI)
    qed
  next
    case (OpComplete c r)
    with run have "changedDelivery (exec_rows (claim_held (ek_ID k (claim_Event c)) (claim_Owner c) (claim_Fence c) u)
        (complete_row r u)) db = Inr (x, db')"
      by (auto simp: delivery_op_tx_def Complete_tx_def CompleteAuthorityDelivery_def failT_def split: if_splits)
    then show ?thesis by (rule miss_changed [OF d, rotated]) (rule miss, use OpComplete foreign in simp)
  next
    case (OpQuarantine c reason)
    with run have "changedDelivery (exec_rows (claim_held (ek_ID k (claim_Event c)) (claim_Owner c) (claim_Fence c) u)
        (quarantine_row reason)) db = Inr (x, db')"
      by (auto simp: delivery_op_tx_def Quarantine_tx_def QuarantineAuthorityDelivery_def failT_def split: if_splits)
    then show ?thesis by (rule miss_changed [OF d, rotated]) (rule miss, use OpQuarantine foreign in simp)
  next
    case (OpRetry c seconds)
    with run have "changedDelivery (exec_rows (claim_held (ek_ID k (claim_Event c)) (claim_Owner c) (claim_Fence c) u)
        (retry_row seconds u)) db = Inr (x, db')"
      by (auto simp: delivery_op_tx_def Retry_tx_def RetryAuthorityDelivery_def failT_def split: if_splits)
    then show ?thesis by (rule miss_changed [OF d, rotated]) (rule miss, use OpRetry foreign in simp)
  qed
  with run show ?thesis by (simp add: run_delivery_op_def)
qed

lemma foreign_ops_miss:
  fixes env :: "'e delivery_env"
  assumes "delivery_inv (dv_kind env) db" and "d \<in> set (deliveries db)"
    and "pending d" "d_ClaimOwner d = Some owner" "d_ClaimUntil d = Some v"
    and "\<forall>(u, operation)\<in>set ops. foreign owner operation \<and> u < v"
  shows "delivery_inv (dv_kind env) (fold (run_delivery_op (dv_kind env)) ops db) \<and>
    d \<in> set (deliveries (fold (run_delivery_op (dv_kind env)) ops db))"
  using assms(1,2,6)
proof (induction ops arbitrary: db)
  case (Cons x ops)
  obtain u operation where x: "x = (u, operation)" by fastforce
  have "kept (dv_kind env) db db" using Cons.prems(1) by (simp add: kept_def)
  from tables.run_op [OF this] have "delivery_inv (dv_kind env) (run_delivery_op (dv_kind env) x db)"
    by (simp add: kept_def)
  moreover have "d \<in> set (deliveries (run_delivery_op (dv_kind env) x db))"
    using foreign_op_misses [OF Cons.prems(1,2) assms(3-5)] Cons.prems(3) by (auto simp: x)
  ultimately show ?case using Cons.IH Cons.prems(3) by simp
qed simp

text \<open>While its lease runs, a claimed row belongs to its worker: whatever statements other workers and
  sources of events execute before the lease ends, the row is still there unchanged.\<close>

theorem lease_protects_claim:
  fixes env :: "'e delivery_env"
  assumes "delivery_inv (dv_kind env) db" and "d \<in> set (deliveries db)"
    and "claim_held i owner fence t d" and "d_ClaimUntil d = Some v"
    and "\<forall>(u, operation)\<in>set ops. foreign owner operation \<and> u < v"
  shows "d \<in> set (deliveries (fold (run_delivery_op (dv_kind env)) ops db))"
  using foreign_ops_miss [OF assms(1,2) _ _ assms(4,5)] assms(3) by (simp add: claim_held_def)

end
