(* ===== verification/Delivery_Outcomes.thy ===== *)
theory Delivery_Outcomes
  imports Delivery_Lease
begin

text \<open>What one step of a worker achieves, and what any number of rounds keeps.\<close>

text \<open>The clauses \<open>outbox\<close> and \<open>deliveries\<close> of the invariant, as a statement about the tables alone.\<close>

definition one_row_each :: "'e event_kind \<Rightarrow> 'e delivery_db \<Rightarrow> bool" where
  "one_row_each k db \<longleftrightarrow> (\<forall>e\<in>set (outbox db).
     length (filter (\<lambda>d. d_EventID d = ek_ID k (o_Event e)) (deliveries db)) = 1)"

lemma inv_one_row:
  assumes "delivery_inv k db"
  shows "one_row_each k db"
  unfolding one_row_each_def
proof
  fix e assume "e \<in> set (outbox db)"
  then have "ek_ID k (o_Event e) \<in> d_EventID ` set (deliveries db)"
    using assms by (auto simp: delivery_inv_def)
  then obtain d where d: "d \<in> set (deliveries db)" "d_EventID d = ek_ID k (o_Event e)" by auto
  let ?f = "filter (\<lambda>d. d_EventID d = ek_ID k (o_Event e)) (deliveries db)"
  have "distinct (map d_EventID (deliveries db))" using assms by (simp add: delivery_inv_def)
  then have "distinct ?f" by (simp add: distinct_map)
  moreover have "set ?f = {d}" using d unique_delivery [OF assms] by auto
  ultimately show "length ?f = 1" by (simp add: distinct_card [symmetric])
qed

text \<open>C7: whatever a worker and everybody else do for however many rounds, each event of the outbox has
  exactly one delivery row, no event is lost, a delivered row carries a receipt that is valid for its
  event, a settled row never changes again, fences never go back, and the attempt counter stays a
  64-bit integer.\<close>

theorem deliveries_stay_consistent:
  fixes env :: "'e delivery_env"
  assumes "delivery_inv (dv_kind env) (dw_db w)" and db: "db = dw_db (snd (Run n (NewWorker env owner) w))"
  shows "delivery_evolves (dw_db w) db \<and> one_row_each (dv_kind env) db \<and>
    (\<forall>e\<in>set (outbox db). \<forall>d\<in>set (deliveries db). d_EventID d = ek_ID (dv_kind env) (o_Event e) \<longrightarrow>
       d_State d = ''delivered'' \<longrightarrow> ValidFor (dv_kind env) (row_receipt d) (o_Event e)) \<and>
    (\<forall>d\<in>set (deliveries db). delivery_check d \<and> d_Attempt d = d_ClaimFence d \<and> d_Attempt d \<le> max_int64)"
proof -
  have "kept (dv_kind env) (dw_db w) (dw_db w)" using assms(1) by (simp add: kept_def)
  from tables.worker.Run_pres [where env = env and owner = owner and ?db0.0 = "dw_db w", OF this]
  have "kept (dv_kind env) (dw_db w) db" by (simp add: db)
  then have inv: "delivery_inv (dv_kind env) db" and "delivery_evolves (dw_db w) db" by (simp_all add: kept_def)
  moreover from inv have "\<forall>d\<in>set (deliveries db). row_ok d" by (simp add: delivery_inv_def)
  ultimately show ?thesis
    using inv_one_row [OF inv] by (auto simp: ValidFor_iff row_ok_def)
qed

section \<open>Outcomes\<close>

lemma statement_Inr:
  "statement env m w = (Inr x, w') \<Longrightarrow>
     m (dv_clock env (dw_tick w)) (others_acted env w) = Inr (x, dw_db w') \<and> dw_tick w' = Suc (dw_tick w)"
  by (auto simp: statement_def Let_def split: delivery_fault.splits sum.splits if_splits)

lemma guarded_statement_Inr:
  "guarded_statement env refused m w = (Inr x, w') \<Longrightarrow>
     \<not> refused \<and> m (dv_clock env (dw_tick w)) (others_acted env w) = Inr (x, dw_db w')"
  by (auto simp: guarded_statement_def failE_def dest: statement_Inr split: if_splits)

lemma changed_settles:
  assumes "changedDelivery (exec_rows hit f) db = Inr (u, db')"
  shows "\<exists>d\<in>set (deliveries db). hit d \<and> f d \<in> set (deliveries db')"
proof -
  from assms obtain n where n: "exec_rows hit f db = Inr (n, db')" "n = 1"
    by (auto simp: changedDelivery_def tx_simps failT_def split: if_splits)
  from exec_rows_run [OF n(1)] n(2) have "filter hit (deliveries db) \<noteq> []" and
    db': "db' = update_deliveries hit f db" by auto
  then obtain d where d: "d \<in> set (deliveries db)" "hit d" by (auto simp: filter_empty_conv)
  have "(if hit d then f d else d) \<in> set (map (\<lambda>d. if hit d then f d else d) (deliveries db))" using d(1) by simp
  with d db' show ?thesis by auto
qed

lemma repo_Complete_Inr:
  assumes "repo_Complete env c r w = (Inr u, w')"
  shows "ValidFor (dv_kind env) r (claim_Event c) \<and>
    (\<exists>d\<in>set (deliveries (dw_db w')). d_EventID d = ek_ID (dv_kind env) (claim_Event c) \<and>
       d_ClaimOwner d = Some (claim_Owner c) \<and> d_State d = ''delivered'' \<and> row_receipt d = r)"
proof -
  from guarded_statement_Inr [OF assms [unfolded repo_Complete_def]] have
    v: "ValidFor (dv_kind env) r (claim_Event c)" and "changedDelivery (exec_rows
      (claim_held (ek_ID (dv_kind env) (claim_Event c)) (claim_Owner c) (claim_Fence c) (dv_clock env (dw_tick w)))
      (complete_row r (dv_clock env (dw_tick w)))) (others_acted env w) = Inr (u, dw_db w')"
    by (auto simp: Complete_tx_def CompleteAuthorityDelivery_def)
  from changed_settles [OF this(2)] v show ?thesis
    by (elim bexE, intro conjI) (auto intro!: rev_bexI simp: claim_held_def complete_row_def row_receipt_def ValidFor_def)
qed

lemma repo_Quarantine_Inr:
  assumes "repo_Quarantine env c reason w = (Inr u, w')"
  shows "\<exists>d\<in>set (deliveries (dw_db w')). d_EventID d = ek_ID (dv_kind env) (claim_Event c) \<and>
    d_ClaimOwner d = Some (claim_Owner c) \<and> d_State d = ''quarantined'' \<and> d_QuarantineReason d = Some reason"
proof -
  from guarded_statement_Inr [OF assms [unfolded repo_Quarantine_def]] have "changedDelivery (exec_rows
      (claim_held (ek_ID (dv_kind env) (claim_Event c)) (claim_Owner c) (claim_Fence c) (dv_clock env (dw_tick w)))
      (quarantine_row reason)) (others_acted env w) = Inr (u, dw_db w')"
    by (auto simp: Quarantine_tx_def QuarantineAuthorityDelivery_def)
  from changed_settles [OF this] show ?thesis
    by (elim bexE) (auto intro!: rev_bexI simp: claim_held_def quarantine_row_def)
qed

lemma NewWorker_sel [simp]:
  "wk_kind (NewWorker env owner) = dv_kind env" "wk_owner (NewWorker env owner) = owner"
  "wk_Claim (NewWorker env owner) = repo_Claim env" "wk_HasExhausted (NewWorker env owner) = repo_HasExhausted env"
  "wk_Complete (NewWorker env owner) = repo_Complete env"
  "wk_Quarantine (NewWorker env owner) = repo_Quarantine env" "wk_Retry (NewWorker env owner) = repo_Retry env"
  "wk_Apply (NewWorker env owner) e = ask_client (\<lambda>t. dv_apply env t e)"
  "wk_Lookup (NewWorker env owner) i = ask_client (\<lambda>t. dv_lookup env t i)"
  by (simp_all add: NewWorker_def)

lemma ask_receipt_outcome:
  assumes "ask_receipt (NewWorker env owner) c w = (Inr (result, prior), w')"
  shows "dw_db w' = dw_db w \<and>
    (\<forall>r. result = Inr r \<longrightarrow> acceptable (dv_kind env) c prior r \<longrightarrow> (\<exists>t. dv_apply env t (claim_Event c) = Inr r)) \<and>
    (result = Inl DErrConflict \<longrightarrow> (\<exists>t. dv_apply env t (claim_Event c) = Inl DErrConflict \<or>
       dv_lookup env t (ek_ID (dv_kind env) (claim_Event c)) = Inl DErrConflict))"
proof (cases "claim_Attempt c > 1")
  case False
  with assms show ?thesis
    by (auto simp: ask_receipt_def bindE_def returnE_def attemptE_def ask_client_def intro: exI [of _ "dw_tick w"])
next
  case True
  show ?thesis
  proof (cases "dv_lookup env (dw_tick w) (ek_ID (dv_kind env) (claim_Event c))")
    case (Inl e)
    with True assms show ?thesis
      by (auto simp: ask_receipt_def bindE_def returnE_def attemptE_def ask_client_def split: if_splits)
  next
    case (Inr r)
    show ?thesis
    proof (cases "ValidFor (dv_kind env) r (claim_Event c)")
      case False
      with Inr True assms show ?thesis
        by (auto simp: ask_receipt_def bindE_def returnE_def attemptE_def ask_client_def acceptable_def)
    next
      case valid: True
      with Inr True assms show ?thesis
        by (auto simp: ask_receipt_def bindE_def returnE_def attemptE_def ask_client_def split: if_splits)
    qed
  qed
qed

lemma repo_Claim_Inr:
  assumes "repo_Claim env owner w = (Inr claim, w')"
  shows "case claim of
      None \<Rightarrow> candidates (dv_kind env) (dv_locked env (dw_tick w)) (dv_clock env (dw_tick w)) (others_acted env w) = []
    | Some c \<Rightarrow> claim_Owner c = owner \<and> (\<exists>e d rest. claim_Event c = o_Event e \<and> e \<in> set (outbox (dw_db w')) \<and>
        candidates (dv_kind env) (dv_locked env (dw_tick w)) (dv_clock env (dw_tick w)) (others_acted env w) =
          (e, d) # rest \<and>
        claim_Fence c = d_ClaimFence d + 1 \<and> claim_Attempt c = d_Attempt d + 1 \<and>
        dw_db w' = update_deliveries (\<lambda>x. d_EventID x = d_EventID d)
          (claim_row owner (dv_clock env (dw_tick w))) (others_acted env w))"
proof -
  let ?db = "others_acted env w" and ?t = "dv_clock env (dw_tick w)"
  from assms have "Claim_tx (dv_kind env) (dv_locked env (dw_tick w)) owner ?t ?db = Inr (claim, dw_db w')"
    by (auto simp: repo_Claim_def dest: guarded_statement_Inr)
  then obtain row where row: "ClaimAuthorityDelivery (dv_kind env) (dv_locked env (dw_tick w)) owner ?t ?db = Inr (row, dw_db w')"
    and claim: "claim = (case row of None \<Rightarrow> None | Some (e, d) \<Rightarrow> Some \<lparr>claim_Event = e, claim_Owner = owner,
                  claim_Fence = d_ClaimFence d, claim_Attempt = d_Attempt d\<rparr>)"
    by (auto simp: Claim_tx_def tx_simps failT_def split: if_splits)
  show ?thesis
  proof (cases row)
    case None
    with Claim_run [OF row] claim show ?thesis by simp
  next
    case (Some p)
    with Claim_run [OF row] obtain e d rest where *: "snd p = claim_row owner ?t d" "o_Event e = fst p"
      "candidates (dv_kind env) (dv_locked env (dw_tick w)) ?t ?db = (e, d) # rest"
      "dw_db w' = update_deliveries (\<lambda>x. d_EventID x = d_EventID d) (claim_row owner ?t) ?db"
      by (cases p) auto
    then have "(e, d) \<in> set (candidates (dv_kind env) (dv_locked env (dw_tick w)) ?t ?db)" by simp
    then have "e \<in> set (outbox ?db)" by (simp add: set_candidates)
    with * Some claim show ?thesis by (auto simp: claim_row_def split: prod.splits)
  qed
qed

text \<open>C8: a step that returns no error found nothing to claim, or settled the event it had claimed: it
  quarantined an event whose source row is invalid, it quarantined an event on which the receiver
  reported a conflict, or it marked the event delivered. The last happens only with a valid receipt
  that \<open>Apply\<close> returned for this event, never with the answer of a lookup.\<close>

theorem Step_settles:
  fixes env :: "'e delivery_env"
  assumes "delivery_inv (dv_kind env) (dw_db w)" and "Step (NewWorker env owner) w = (Inr (), w')"
  shows "candidates (dv_kind env) (dv_locked env (dw_tick w)) (dv_clock env (dw_tick w)) (others_acted env w) = [] \<or>
    (\<exists>e\<in>set (outbox (dw_db w')). \<exists>d\<in>set (deliveries (dw_db w')).
       d_EventID d = ek_ID (dv_kind env) (o_Event e) \<and> d_ClaimOwner d = Some owner \<and>
       (\<not> ek_Validate (dv_kind env) (o_Event e) \<and> d_State d = ''quarantined'' \<and>
          d_QuarantineReason d = Some ''source_row_invalid'' \<or>
        ek_Validate (dv_kind env) (o_Event e) \<and> d_State d = ''quarantined'' \<and>
          d_QuarantineReason d = Some ''canonical_conflict'' \<and>
          (\<exists>t. dv_apply env t (o_Event e) = Inl DErrConflict \<or>
               dv_lookup env t (ek_ID (dv_kind env) (o_Event e)) = Inl DErrConflict) \<or>
        ek_Validate (dv_kind env) (o_Event e) \<and> d_State d = ''delivered'' \<and>
          (\<exists>t. dv_apply env t (o_Event e) = Inr (row_receipt d)) \<and>
          ValidFor (dv_kind env) (row_receipt d) (o_Event e)))"
proof -
  let ?s = "NewWorker env owner" and ?k = "dv_kind env"
  from assms(2) obtain claim w1 where "wk_Claim ?s (wk_owner ?s) w = (Inr claim, w1)" and
    rest: "(case claim of
       None \<Rightarrow> bindE (wk_HasExhausted ?s) (\<lambda>exhausted. if exhausted then failE DErrExhausted else returnE ())
     | Some c \<Rightarrow>
         if \<not> ek_Validate (wk_kind ?s) (claim_Event c) then wk_Quarantine ?s c ''source_row_invalid''
         else bindE (ask_receipt ?s c) (\<lambda>(result, prior). settle ?s c result prior)) w1 = (Inr (), w')"
    unfolding Step_def bindE_Inr_iff by blast
  then have claim: "repo_Claim env owner w = (Inr claim, w1)" by simp
  show ?thesis
  proof (cases claim)
    case None
    with repo_Claim_Inr [OF claim] show ?thesis by simp
  next
    case (Some c)
    with repo_Claim_Inr [OF claim] obtain e where c: "claim_Owner c = owner" "claim_Event c = o_Event e"
      "e \<in> set (outbox (dw_db w1))" by auto
    have "kept ?k (dw_db w) (dw_db w)" using assms(1) by (simp add: kept_def)
    from presD [OF tables.worker.claim [where env = env and ?db0.0 = "dw_db w" and owner = owner] this, of owner]
    have k1: "kept ?k (dw_db w1) (dw_db w1)" using claim by (simp add: kept_def)
    have grown: "e \<in> set (outbox (dw_db v))" if "kept ?k (dw_db w1) (dw_db v)" for v :: "'e delivery_world"
      using that c(3) by (auto simp: kept_def delivery_evolves_def)
    show ?thesis
    proof (cases "ek_Validate ?k (o_Event e)")
      case False
      with rest Some c(2) have q: "repo_Quarantine env c ''source_row_invalid'' w1 = (Inr (), w')" by simp
      from presD [OF tables.worker.quarantine [where env = env and ?db0.0 = "dw_db w1" and owner = owner] k1, of c]
      have "e \<in> set (outbox (dw_db w'))" using q by (intro grown) simp
      with repo_Quarantine_Inr [OF q] False c show ?thesis by auto
    next
      case True
      with rest Some c(2) obtain result prior w2 where r: "ask_receipt ?s c w1 = (Inr (result, prior), w2)"
        "settle ?s c result prior w2 = (Inr (), w')"
        by (auto simp: bindE_Inr_iff)
      note a = ask_receipt_outcome [OF r(1)]
      have k2: "kept ?k (dw_db w1) (dw_db w2)" using k1 a by simp
      from presD [OF tables.worker.settle_pres [where env = env and ?db0.0 = "dw_db w1" and owner = owner] k2 r(2)]
      have e: "e \<in> set (outbox (dw_db w'))" by (rule grown)
      have later: "settle ?s c result prior w2 \<noteq> postpone ?s c w2"
        using r(2) by (auto simp: postpone_def bindE_def failE_def split: if_splits prod.splits sum.splits)
      show ?thesis
      proof (cases "result = Inl DErrConflict")
        case True
        with r(2) have q: "repo_Quarantine env c ''canonical_conflict'' w2 = (Inr (), w')"
          by (simp add: settle_def)
        from repo_Quarantine_Inr [OF q] a True e c \<open>ek_Validate ?k (o_Event e)\<close> show ?thesis by auto
      next
        case False
        with later obtain receipt where ok: "result = Inr receipt" "acceptable ?k c prior receipt"
          by (auto simp: settle_def split: sum.splits if_splits)
        with r(2) have q: "repo_Complete env c receipt w2 = (Inr (), w')" by (simp add: settle_def)
        from repo_Complete_Inr [OF q] a ok e c \<open>ek_Validate ?k (o_Event e)\<close> show ?thesis by auto
      qed
    qed
  qed
qed

end
