(* ===== verification/Delivery_Progress.thy ===== *)
theory Delivery_Progress
  imports Delivery_Outcomes
begin

text \<open>Progress: a due event reaches its receiver, a failed attempt is rescheduled, and a worker stops.\<close>

lemma unique_filter:
  assumes "delivery_inv k db" and "x \<in> set (deliveries db)" and "hit x"
    and "\<And>y. hit y \<Longrightarrow> d_EventID y = d_EventID x"
  shows "length (filter hit (deliveries db)) = 1"
proof -
  have "distinct (map d_EventID (deliveries db))" using assms(1) by (simp add: delivery_inv_def)
  then have "distinct (filter hit (deliveries db))" by (simp add: distinct_map)
  moreover have "set (filter hit (deliveries db)) = {x}"
    using assms(2-4) unique_delivery [OF assms(1)] by auto
  ultimately show ?thesis by (simp add: distinct_card [symmetric])
qed

lemma changed_forward:
  assumes inv: "delivery_inv k db" and x: "x \<in> set (deliveries db)" and held: "claim_held i owner fence t x"
    and f: "delivery_check (f x)"
  shows "\<exists>db'. changedDelivery (exec_rows (claim_held i owner fence t) f) db = Inr ((), db') \<and> f x \<in> set (deliveries db')"
proof -
  let ?hit = "claim_held i owner fence t"
  have id: "d_EventID y = d_EventID x" if "?hit y" for y using that held by (simp add: claim_held_def)
  have one: "length (filter ?hit (deliveries db)) = 1" by (rule unique_filter [where hit = ?hit, OF inv x held]) (rule id)
  have "\<forall>y\<in>set (deliveries db). ?hit y \<longrightarrow> delivery_check (f y)"
    using unique_delivery [OF inv _ x] id f by blast
  then have "exec_rows ?hit f db = Inr (1, update_deliveries ?hit f db)"
    unfolding exec_rows_def one by auto
  then have "changedDelivery (exec_rows ?hit f) db = Inr ((), update_deliveries ?hit f db)"
    by (simp add: changedDelivery_def bindT_def returnT_def)
  moreover have "(if ?hit x then f x else x) \<in> set (map (\<lambda>d. if ?hit d then f d else d) (deliveries db))"
    using x by simp
  ultimately show ?thesis using held by simp
qed

lemma statement_forward:
  "dv_fault env (dw_tick w) = Delivered \<Longrightarrow>
   m (dv_clock env (dw_tick w)) (others_acted env w) = Inr (x, db') \<Longrightarrow>
   statement env m w = (Inr x, w\<lparr>dw_tick := Suc (dw_tick w), dw_db := db'\<rparr>)"
  by (simp add: statement_def Let_def)

lemma claim_forward:
  assumes inv: "delivery_inv k db" and c: "candidates k locked t db = (e, d) # rest" and owner: "owner \<noteq> uuid_Nil"
  shows "Claim_tx k locked owner t db = Inr (Some \<lparr>claim_Event = o_Event e, claim_Owner = owner,
      claim_Fence = d_ClaimFence d + 1, claim_Attempt = d_Attempt d + 1\<rparr>,
      update_deliveries (\<lambda>x. d_EventID x = d_EventID d) (claim_row owner t) db) \<and>
    d \<in> set (deliveries db) \<and> claimable locked t d \<and> d_EventID d = ek_ID k (o_Event e) \<and> row_ok d"
proof -
  from c have "(e, d) \<in> set (candidates k locked t db)" by simp
  then have d: "d \<in> set (deliveries db)" "claimable locked t d" "d_EventID d = ek_ID k (o_Event e)"
    by (simp_all add: set_candidates)
  then have ok: "row_ok d" using inv by (simp add: delivery_inv_def)
  have "\<forall>x\<in>set (deliveries db). d_EventID x = d_EventID d \<longrightarrow> delivery_check (claim_row owner t x)"
  proof (intro ballI impI)
    fix x assume "x \<in> set (deliveries db)" "d_EventID x = d_EventID d"
    then have "x = d" using unique_delivery [OF inv _ d(1)] by blast
    with claim_row_ok [OF ok d(2)] show "delivery_check (claim_row owner t x)" by (simp add: row_ok_def)
  qed
  then have "exec_rows (\<lambda>x. d_EventID x = d_EventID d) (claim_row owner t) db =
      Inr (length (filter (\<lambda>x. d_EventID x = d_EventID d) (deliveries db)),
           update_deliveries (\<lambda>x. d_EventID x = d_EventID d) (claim_row owner t) db)"
    by (auto simp: exec_rows_def)
  with c owner d ok show ?thesis
    by (simp add: Claim_tx_def ClaimAuthorityDelivery_def bindT_def returnT_def claim_row_def)
qed

text \<open>The situation of a worker that runs undisturbed: its statements arrive, and in the five interactions a
  step can have, the clock stays within the lease and other workers stick to their own claims.\<close>

definition undisturbed :: "'e delivery_env \<Rightarrow> uuid \<Rightarrow> nat \<Rightarrow> bool" where
  "undisturbed env owner t0 \<longleftrightarrow> (\<forall>t\<in>{t0..<t0 + 5}. dv_fault env t = Delivered \<and>
     dv_clock env t < dv_clock env t0 + ClaimLease \<and>
     (t0 < t \<longrightarrow> (\<forall>(u, operation)\<in>set (dv_others env t). foreign owner operation \<and> u < dv_clock env t0 + ClaimLease)))"

lemma held_settle_forward:
  fixes env :: "'e delivery_env"
  assumes quiet: "undisturbed env owner t0" and v: "t0 < dw_tick v" "dw_tick v < t0 + 5"
    and inv: "delivery_inv (dv_kind env) (dw_db v)" and x: "x \<in> set (deliveries (dw_db v))"
    and held: "pending x" "d_ClaimOwner x = Some owner" "d_ClaimUntil x = Some (dv_clock env t0 + ClaimLease)"
    and f: "delivery_check (f x)"
  shows "\<exists>w'. statement env (\<lambda>t. changedDelivery
      (exec_rows (claim_held (d_EventID x) owner (d_ClaimFence x) t) f)) v = (Inr (), w') \<and>
      f x \<in> set (deliveries (dw_db w'))"
proof -
  let ?t = "dw_tick v"
  have q: "dv_fault env ?t = Delivered" "dv_clock env ?t < dv_clock env t0 + ClaimLease"
    "\<forall>(u, operation)\<in>set (dv_others env ?t). foreign owner operation \<and> u < dv_clock env t0 + ClaimLease"
    using quiet v by (auto simp: undisturbed_def)
  from foreign_ops_miss [OF inv x held q(3)] have o': "delivery_inv (dv_kind env) (others_acted env v)"
    "x \<in> set (deliveries (others_acted env v))" by (simp_all add: others_acted_def)
  have "claim_held (d_EventID x) owner (d_ClaimFence x) (dv_clock env ?t) x"
    using held q(2) by (simp add: claim_held_def)
  from changed_forward [where f = f, OF o' this f] obtain db' where db': "changedDelivery
      (exec_rows (claim_held (d_EventID x) owner (d_ClaimFence x) (dv_clock env ?t)) f) (others_acted env v) =
        Inr ((), db')" "f x \<in> set (deliveries db')" by blast
  from db' q(1) show ?thesis
    by (intro exI [of _ "v\<lparr>dw_tick := Suc ?t, dw_db := db'\<rparr>"]) (simp add: statement_def Let_def)
qed

lemma claim_phase:
  fixes env :: "'e delivery_env"
  assumes inv: "delivery_inv (dv_kind env) (dw_db w)" and owner: "owner \<noteq> uuid_Nil"
    and quiet: "undisturbed env owner (dw_tick w)"
    and c: "candidates (dv_kind env) (dv_locked env (dw_tick w)) (dv_clock env (dw_tick w)) (others_acted env w) =
      (e, d) # rest"
  shows "\<exists>w1 x. repo_Claim env owner w = (Inr (Some \<lparr>claim_Event = o_Event e, claim_Owner = owner,
      claim_Fence = d_ClaimFence x, claim_Attempt = d_Attempt d + 1\<rparr>), w1) \<and>
    dw_tick w1 = Suc (dw_tick w) \<and> delivery_inv (dv_kind env) (dw_db w1) \<and> x \<in> set (deliveries (dw_db w1)) \<and>
    row_ok x \<and> x = claim_row owner (dv_clock env (dw_tick w)) d \<and> pending x \<and> d_EventID x = ek_ID (dv_kind env) (o_Event e)"
proof -
  let ?t = "dv_clock env (dw_tick w)" and ?db = "others_acted env w"
  have "kept (dv_kind env) (dw_db w) (dw_db w)" using inv by (simp add: kept_def)
  from tables.others [OF this] have odb: "delivery_inv (dv_kind env) ?db" by (simp add: kept_def)
  note f = claim_forward [OF odb c owner]
  have "dv_fault env (dw_tick w) = Delivered" using quiet by (simp add: undisturbed_def)
  from statement_forward [where env = env and w = w and
      m = "Claim_tx (dv_kind env) (dv_locked env (dw_tick w)) owner", OF this, OF f [THEN conjunct1]] owner
  have run: "repo_Claim env owner w = (Inr (Some \<lparr>claim_Event = o_Event e, claim_Owner = owner,
      claim_Fence = d_ClaimFence d + 1, claim_Attempt = d_Attempt d + 1\<rparr>), w\<lparr>dw_tick := Suc (dw_tick w),
      dw_db := update_deliveries (\<lambda>x. d_EventID x = d_EventID d) (claim_row owner ?t) ?db\<rparr>)"
    by (simp add: repo_Claim_def guarded_statement_def)
  have "kept (dv_kind env) (dw_db w) (dw_db w)" using inv by (simp add: kept_def)
  from presD [OF tables.worker.claim [where env = env and ?db0.0 = "dw_db w" and owner = owner], of w owner]
  have "delivery_inv (dv_kind env) (update_deliveries (\<lambda>x. d_EventID x = d_EventID d) (claim_row owner ?t) ?db)"
    using inv run by (simp add: kept_def)
  moreover have "claim_row owner ?t d \<in>
      set (deliveries (update_deliveries (\<lambda>x. d_EventID x = d_EventID d) (claim_row owner ?t) ?db))"
    using f unfolding update_deliveries_sel set_map by (intro image_eqI [where x = d]) auto
  moreover have "row_ok (claim_row owner ?t d)" "pending (claim_row owner ?t d)"
    "d_ClaimFence (claim_row owner ?t d) = d_ClaimFence d + 1" "d_EventID (claim_row owner ?t d) = d_EventID d"
    using f claim_row_ok by (auto simp: claimable_def claim_row_def)
  ultimately show ?thesis using run f by auto
qed

lemma ask_receipt_forward:
  assumes answers: "\<forall>t\<in>{t0..<t0 + 5}. dv_apply env t (claim_Event c) = Inr r \<and>
      dv_lookup env t (ek_ID (dv_kind env) (claim_Event c)) \<in> {Inl DErrNotFound, Inr r}"
    and valid: "ValidFor (dv_kind env) r (claim_Event c)" and tick: "dw_tick w = Suc t0"
  shows "\<exists>prior w'. ask_receipt (NewWorker env owner) c w = (Inr (Inr r, prior), w') \<and>
    acceptable (dv_kind env) c prior r \<and> dw_db w' = dw_db w \<and> t0 < dw_tick w' \<and> dw_tick w' < t0 + 5"
proof -
  have a: "dv_apply env (Suc t0) (claim_Event c) = Inr r" "dv_apply env (Suc (Suc t0)) (claim_Event c) = Inr r"
    using answers by auto
  have "dv_lookup env (Suc t0) (ek_ID (dv_kind env) (claim_Event c)) \<in> {Inl DErrNotFound, Inr r}"
    using answers by auto
  then show ?thesis
    using a valid tick
    by (auto simp: ask_receipt_def bindE_def returnE_def attemptE_def ask_client_def acceptable_def)
qed

lemma complete_row_ok:
  "row_ok x \<Longrightarrow> pending x \<Longrightarrow> receipt_valid (d_EventID x) r \<Longrightarrow> delivery_check (complete_row r t x)"
  by (auto simp: row_ok_def delivery_check_def complete_row_def receipt_valid_def)

text \<open>C10: a due event reaches its receiver. When a worker runs undisturbed for one step and the receiver
  accepts the event, the step marks the oldest due event as delivered, with the receipt.\<close>

theorem undisturbed_step_delivers:
  fixes env :: "'e delivery_env"
  assumes inv: "delivery_inv (dv_kind env) (dw_db w)" and owner: "owner \<noteq> uuid_Nil"
    and quiet: "undisturbed env owner (dw_tick w)"
    and due: "candidates (dv_kind env) (dv_locked env (dw_tick w)) (dv_clock env (dw_tick w)) (others_acted env w) =
      (e, d) # rest"
    and valid: "ek_Validate (dv_kind env) (o_Event e)" "ValidFor (dv_kind env) r (o_Event e)"
    and answers: "\<forall>t\<in>{dw_tick w..<dw_tick w + 5}. dv_apply env t (o_Event e) = Inr r \<and>
      dv_lookup env t (ek_ID (dv_kind env) (o_Event e)) \<in> {Inl DErrNotFound, Inr r}"
  shows "\<exists>w' x. Step (NewWorker env owner) w = (Inr (), w') \<and> x \<in> set (deliveries (dw_db w')) \<and>
    d_EventID x = ek_ID (dv_kind env) (o_Event e) \<and> d_State x = ''delivered'' \<and> row_receipt x = r"
proof -
  let ?s = "NewWorker env owner" and ?k = "dv_kind env"
  from claim_phase [OF inv owner quiet due] obtain w1 x where
    claim: "repo_Claim env owner w = (Inr (Some \<lparr>claim_Event = o_Event e, claim_Owner = owner,
      claim_Fence = d_ClaimFence x, claim_Attempt = d_Attempt d + 1\<rparr>), w1)" and
    w1: "dw_tick w1 = Suc (dw_tick w)" "delivery_inv ?k (dw_db w1)" "x \<in> set (deliveries (dw_db w1))" and
    x: "row_ok x" "x = claim_row owner (dv_clock env (dw_tick w)) d" "pending x" "d_EventID x = ek_ID ?k (o_Event e)"
    by blast
  let ?c = "\<lparr>claim_Event = o_Event e, claim_Owner = owner, claim_Fence = d_ClaimFence x,
    claim_Attempt = d_Attempt d + 1\<rparr>"
  from ask_receipt_forward [of "dw_tick w" env ?c r w1 owner] answers valid(2) w1(1) obtain prior w2 where
    ask: "ask_receipt ?s ?c w1 = (Inr (Inr r, prior), w2)" "acceptable ?k ?c prior r" "dw_db w2 = dw_db w1"
      "dw_tick w < dw_tick w2" "dw_tick w2 < dw_tick w + 5" by auto
  have check: "delivery_check (complete_row r (dv_clock env (dw_tick w2)) x)"
    using complete_row_ok [OF x(1,3)] valid(2) x(4) by (simp add: ValidFor_iff)
  have owns: "d_ClaimOwner x = Some owner" "d_ClaimUntil x = Some (dv_clock env (dw_tick w) + ClaimLease)"
    using x(2) by (simp_all add: claim_row_def)
  let ?m = "\<lambda>f t. changedDelivery (exec_rows (claim_held (d_EventID x) owner (d_ClaimFence x) t) (f t))"
  from held_settle_forward [OF quiet ask(4,5), of x "complete_row r (dv_clock env (dw_tick w2))"] w1(2,3) ask(3) x(3) owns check
  obtain w' where w': "statement env (?m (\<lambda>_. complete_row r (dv_clock env (dw_tick w2)))) w2 = (Inr (), w')"
    "complete_row r (dv_clock env (dw_tick w2)) x \<in> set (deliveries (dw_db w'))" by auto
  have "statement env (?m (complete_row r)) w2 = statement env (?m (\<lambda>_. complete_row r (dv_clock env (dw_tick w2)))) w2"
    by (simp add: statement_def)
  moreover have "Complete_tx ?k ?c r = ?m (complete_row r)"
    using valid(2) x(4) by (intro ext) (simp add: Complete_tx_def CompleteAuthorityDelivery_def)
  ultimately have fin: "repo_Complete env ?c r w2 = (Inr (), w')"
    using w'(1) valid(2) by (simp add: repo_Complete_def guarded_statement_def)
  have "Step ?s w = (Inr (), w')"
    using claim valid(1) ask(1,2) fin by (simp add: Step_def bindE_def settle_def)
  moreover have "d_State (complete_row r t x) = ''delivered''" "d_EventID (complete_row r t x) = d_EventID x"
    "row_receipt (complete_row r t x) = r" for t
    using valid(2) x(4) by (simp_all add: complete_row_def row_receipt_def ValidFor_def)
  ultimately show ?thesis
    using w'(2) x(4)
    by (intro exI [of _ w'] exI [of _ "complete_row r (dv_clock env (dw_tick w2)) x"]) simp
qed

lemma ask_receipt_failing:
  assumes answers: "\<forall>t\<in>{t0..<t0 + 5}. (\<exists>err. dv_apply env t (claim_Event c) = Inl err \<and> err \<noteq> DErrConflict) \<and>
      dv_lookup env t (ek_ID (dv_kind env) (claim_Event c)) \<noteq> Inl DErrConflict"
    and tick: "dw_tick w = Suc t0"
  shows "\<exists>result prior w'. ask_receipt (NewWorker env owner) c w = (Inr (result, prior), w') \<and>
    result \<noteq> Inl DErrConflict \<and> (\<forall>r. result = Inr r \<longrightarrow> \<not> acceptable (dv_kind env) c prior r) \<and>
    dw_db w' = dw_db w \<and> t0 < dw_tick w' \<and> dw_tick w' < t0 + 5"
proof -
  have fails: "\<exists>err. dv_apply env t (claim_Event c) = Inl err \<and> err \<noteq> DErrConflict" if "t \<in> {t0..<t0 + 5}" for t
    using answers that by blast
  obtain e1 e2 e3 where a: "dv_apply env (Suc t0) (claim_Event c) = Inl e1" "e1 \<noteq> DErrConflict"
    "dv_apply env (Suc (Suc t0)) (claim_Event c) = Inl e2" "e2 \<noteq> DErrConflict"
    "dv_apply env (Suc (Suc (Suc t0))) (claim_Event c) = Inl e3" "e3 \<noteq> DErrConflict"
    using fails [of "Suc t0"] fails [of "Suc (Suc t0)"] fails [of "Suc (Suc (Suc t0))"] by auto
  have "dv_lookup env (Suc t0) (ek_ID (dv_kind env) (claim_Event c)) \<noteq> Inl DErrConflict"
    using answers by auto
  then show ?thesis
    using a tick
    by (auto simp: ask_receipt_def bindE_def returnE_def attemptE_def ask_client_def acceptable_def
        split: sum.splits if_splits)
qed

lemma retry_row_ok: "row_ok x \<Longrightarrow> pending x \<Longrightarrow> delivery_check (retry_row seconds t x)"
  by (auto simp: row_ok_def delivery_check_def retry_row_def)

text \<open>A failed attempt is not lost. When a worker runs undisturbed and the receiver fails on the event
  (without a conflict), the step reports that delivery is unavailable, the row is released, and it is
  due again after \<open>RetrySeconds\<close> of the attempt, for any worker, unless the counter is exhausted.\<close>

theorem failed_attempt_is_rescheduled:
  fixes env :: "'e delivery_env"
  assumes inv: "delivery_inv (dv_kind env) (dw_db w)" and owner: "owner \<noteq> uuid_Nil"
    and quiet: "undisturbed env owner (dw_tick w)"
    and due: "candidates (dv_kind env) (dv_locked env (dw_tick w)) (dv_clock env (dw_tick w)) (others_acted env w) =
      (e, d) # rest"
    and valid: "ek_Validate (dv_kind env) (o_Event e)"
    and answers: "\<forall>t\<in>{dw_tick w..<dw_tick w + 5}.
      (\<exists>err. dv_apply env t (o_Event e) = Inl err \<and> err \<noteq> DErrConflict) \<and>
      dv_lookup env t (ek_ID (dv_kind env) (o_Event e)) \<noteq> Inl DErrConflict"
    and running: "\<forall>t. \<not> dv_done env t"
  shows "\<exists>w' x t. Step (NewWorker env owner) w = (Inl DErrUnavailable, w') \<and> x \<in> set (deliveries (dw_db w')) \<and>
    d_EventID x = ek_ID (dv_kind env) (o_Event e) \<and> d_Attempt x = d_Attempt d + 1 \<and>
    d_NextAttemptAt x = dv_clock env t + RetrySeconds (d_Attempt x) * 1000000000 \<and>
    (\<forall>at locked. claimable locked at x \<longleftrightarrow>
       d_NextAttemptAt x \<le> at \<and> d_Attempt x < max_int64 \<and> d_EventID x \<notin> set locked)"
proof -
  let ?s = "NewWorker env owner" and ?k = "dv_kind env"
  from claim_phase [OF inv owner quiet due] obtain w1 x where
    claim: "repo_Claim env owner w = (Inr (Some \<lparr>claim_Event = o_Event e, claim_Owner = owner,
      claim_Fence = d_ClaimFence x, claim_Attempt = d_Attempt d + 1\<rparr>), w1)" and
    w1: "dw_tick w1 = Suc (dw_tick w)" "delivery_inv ?k (dw_db w1)" "x \<in> set (deliveries (dw_db w1))" and
    x: "row_ok x" "x = claim_row owner (dv_clock env (dw_tick w)) d" "pending x" "d_EventID x = ek_ID ?k (o_Event e)"
    by blast
  let ?c = "\<lparr>claim_Event = o_Event e, claim_Owner = owner, claim_Fence = d_ClaimFence x,
    claim_Attempt = d_Attempt d + 1\<rparr>"
  from ask_receipt_failing [of "dw_tick w" env ?c w1 owner] answers w1(1) obtain result prior w2 where
    ask: "ask_receipt ?s ?c w1 = (Inr (result, prior), w2)" "result \<noteq> Inl DErrConflict"
      "\<forall>r. result = Inr r \<longrightarrow> \<not> acceptable ?k ?c prior r" "dw_db w2 = dw_db w1"
      "dw_tick w < dw_tick w2" "dw_tick w2 < dw_tick w + 5" by auto
  let ?t = "dv_clock env (dw_tick w2)" and ?n = "RetrySeconds (d_Attempt d + 1)"
  have owns: "d_ClaimOwner x = Some owner" "d_ClaimUntil x = Some (dv_clock env (dw_tick w) + ClaimLease)"
    "d_Attempt x = d_Attempt d + 1"
    using x(2) by (simp_all add: claim_row_def)
  let ?m = "\<lambda>f t. changedDelivery (exec_rows (claim_held (d_EventID x) owner (d_ClaimFence x) t) (f t))"
  from held_settle_forward [OF quiet ask(5,6), of x "retry_row ?n ?t"] w1(2,3) ask(4) x(3) owns retry_row_ok [OF x(1,3)]
  obtain w' where w': "statement env (?m (\<lambda>_. retry_row ?n ?t)) w2 = (Inr (), w')"
    "retry_row ?n ?t x \<in> set (deliveries (dw_db w'))" by auto
  have "statement env (?m (retry_row ?n)) w2 = statement env (?m (\<lambda>_. retry_row ?n ?t)) w2"
    by (simp add: statement_def)
  moreover have n: "\<not> (?n < 1 \<or> ?n > 30)" using RetrySeconds_bounds [of "d_Attempt d + 1"] by linarith
  moreover have "Retry_tx ?k ?c ?n = ?m (retry_row ?n)"
    using n x(4) by (intro ext) (simp add: Retry_tx_def RetryAuthorityDelivery_def)
  ultimately have fin: "repo_Retry env ?c ?n w2 = (Inr (), w')"
    using w'(1) by (simp add: repo_Retry_def guarded_statement_def)
  have "settle ?s ?c result prior = postpone ?s ?c"
    using ask(2,3) by (auto simp: settle_def split: sum.splits)
  moreover have "postpone ?s ?c w2 = (Inl DErrUnavailable, w')"
    using fin running by (simp add: postpone_def bindE_def failE_def) (simp add: NewWorker_def)
  ultimately have "Step ?s w = (Inl DErrUnavailable, w')"
    using claim valid ask(1) by (simp add: Step_def bindE_def)
  moreover have "d_Attempt x = d_ClaimFence x" using x(1) by (simp add: row_ok_def)
  then have "claimable locked at (retry_row ?n ?t x) \<longleftrightarrow> d_NextAttemptAt (retry_row ?n ?t x) \<le> at \<and>
      d_Attempt (retry_row ?n ?t x) < max_int64 \<and> d_EventID (retry_row ?n ?t x) \<notin> set locked" for locked at
    using x(3) by (auto simp: claimable_def retry_row_def)
  ultimately show ?thesis
    using w'(2) x(4) owns(3)
    by (intro exI [of _ w'] exI [of _ "retry_row ?n ?t x"] exI [of _ "dw_tick w2"]) (simp add: retry_row_def)
qed

section \<open>The loop\<close>

lemma statement_tick: "dw_tick (snd (statement env m w)) = Suc (dw_tick w)"
  by (auto simp: statement_def Let_def split: delivery_fault.splits sum.splits)

interpretation ticks: delivery_worker "NewWorker env owner" "\<lambda>w :: 'e delivery_world. n \<le> dw_tick w"
  for env :: "'e delivery_env" and owner n
  by unfold_locales
    (auto simp: pres_def NewWorker_def repo_Claim_def repo_HasExhausted_def repo_Complete_def repo_Quarantine_def
      repo_Retry_def guarded_statement_def statement_tick ask_client_def failE_def)

text \<open>C12: \<open>Run\<close> stops. Once the context is done for good, at most as many rounds follow as interactions
  were left, and \<open>Run\<close> returns the error of the context.\<close>

theorem Run_stops:
  fixes env :: "'e delivery_env"
  assumes "\<forall>t\<ge>N. dv_quit env t" and "N \<le> dw_tick w + n"
  shows "\<exists>w'. Run (Suc n) (NewWorker env owner) w = (Some DErrContext, w')"
  using assms(2)
proof (induction n arbitrary: w)
  case (0 w)
  let ?v = "snd (Step (NewWorker env owner) w)"
  from presD [OF ticks.Step_pres [of "dw_tick w"], of w] have "dw_tick w \<le> dw_tick ?v"
    by (metis order_refl prod.collapse)
  with 0 assms(1) have "dv_quit env (dw_tick ?v)" by simp
  then show ?case by (simp add: NewWorker_def ask_client_def)
next
  case (Suc n w)
  let ?v = "snd (Step (NewWorker env owner) w)"
  from presD [OF ticks.Step_pres [of "dw_tick w"], of w] have v: "dw_tick w \<le> dw_tick ?v"
    by (metis order_refl prod.collapse)
  show ?case
  proof (cases "dv_quit env (dw_tick ?v)")
    case True
    then show ?thesis by (simp add: NewWorker_def ask_client_def)
  next
    case False
    have "N \<le> dw_tick (?v\<lparr>dw_tick := Suc (dw_tick ?v)\<rparr>) + n" using v Suc.prems by simp
    from Suc.IH [OF this] obtain w' where
      "Run (Suc n) (NewWorker env owner) (?v\<lparr>dw_tick := Suc (dw_tick ?v)\<rparr>) = (Some DErrContext, w')" by blast
    with False have "Run (Suc (Suc n)) (NewWorker env owner) w = (Some DErrContext, w')"
      by (subst Run.simps(2)) (simp add: NewWorker_def ask_client_def del: Run.simps)
    then show ?thesis by blast
  qed
qed

text \<open>The delay doubles with every attempt and stops at thirty seconds.\<close>

theorem RetrySeconds_doubles:
  "RetrySeconds attempt = (if attempt \<le> 1 then 1 else if attempt \<ge> 6 then 30 else 2 ^ nat (attempt - 1))"
proof (cases "attempt \<le> 1")
  case True
  then show ?thesis by (simp add: RetrySeconds_def retry_loop.simps)
next
  case False
  then have a: "attempt = int (nat (attempt - 1)) + 1" by simp
  then have r: "RetrySeconds attempt = min 30 (2 ^ nat (attempt - 1))"
    using retry_loop_closed [of 1 "nat (attempt - 1)"] by (simp add: RetrySeconds_def)
  show ?thesis
  proof (cases "attempt \<ge> 6")
    case True
    then have "(2 :: int) ^ 5 \<le> 2 ^ nat (attempt - 1)" by (intro power_increasing) auto
    with r True show ?thesis by simp
  next
    case less: False
    then have "(2 :: int) ^ nat (attempt - 1) \<le> 2 ^ 4" by (intro power_increasing) auto
    with r False less show ?thesis by simp
  qed
qed

end
