(* ===== verification/Delivery_Spec.thy ===== *)
theory Delivery_Spec
  imports Delivery_Progress
begin

text \<open>
  What delivery promises, without tables: a ticket per event. It waits, is held by one worker under a
  fence until its lease ends, and is settled once, by the holder, with a receipt or a reason.
  Every statement of the repository is a move of at most one ticket.
\<close>

datatype ticket =
    Waiting int int
  | Held uuid int int
  | Settled Receipt
  | Dead string

definition ticket_of :: "DeliveryRow \<Rightarrow> ticket" where
  "ticket_of d =
     (if pending d then (case d_ClaimOwner d of
          None \<Rightarrow> Waiting (d_ClaimFence d) (d_NextAttemptAt d)
        | Some owner \<Rightarrow> Held owner (d_ClaimFence d) (the (d_ClaimUntil d)))
      else if d_State d = ''delivered'' then Settled (row_receipt d)
      else Dead (the (d_QuarantineReason d)))"

inductive ticket_step :: "uuid \<Rightarrow> int \<Rightarrow> ticket \<Rightarrow> ticket \<Rightarrow> bool" for i :: uuid and t :: int where
  take: "due \<le> t \<Longrightarrow> ticket_step i t (Waiting f due) (Held owner (f + 1) (t + ClaimLease))"
| take_over: "until \<le> t \<Longrightarrow> ticket_step i t (Held old f until) (Held owner (f + 1) (t + ClaimLease))"
| deliver: "t < until \<Longrightarrow> receipt_valid i r \<Longrightarrow> ticket_step i t (Held owner f until) (Settled r)"
| reject: "t < until \<Longrightarrow> reason \<in> {''canonical_conflict'', ''source_row_invalid''} \<Longrightarrow>
    ticket_step i t (Held owner f until) (Dead reason)"
| release: "t < until \<Longrightarrow> 1 \<le> seconds \<Longrightarrow> seconds \<le> 30 \<Longrightarrow>
    ticket_step i t (Held owner f until) (Waiting f (t + seconds * 1000000000))"

inductive_cases ticket_step_SettledE: "ticket_step i t tk (Settled r)"
inductive_simps ticket_step_final [simp]:
  "ticket_step i t (Settled r) tk" "ticket_step i t (Dead reason) tk"

lemma settled_by_holder:
  "ticket_step i t tk (Settled r) \<Longrightarrow> \<exists>owner f until. tk = Held owner f until \<and> t < until \<and> receipt_valid i r"
  by (elim ticket_step_SettledE) auto

definition moves :: "int \<Rightarrow> DeliveryRow \<Rightarrow> DeliveryRow \<Rightarrow> bool" where
  "moves t d d' \<longleftrightarrow> d_EventID d' = d_EventID d \<and>
     (ticket_of d' = ticket_of d \<or> ticket_step (d_EventID d) t (ticket_of d) (ticket_of d'))"

lemma moves_refl [simp]: "moves t d d"
  by (simp add: moves_def)

lemma moves_claim:
  assumes "row_ok d" and "claimable locked t d"
  shows "moves t d (claim_row owner t d)"
proof (cases "d_ClaimOwner d")
  case None
  with assms have "ticket_of d = Waiting (d_ClaimFence d) (d_NextAttemptAt d)" "d_NextAttemptAt d \<le> t"
    "ticket_of (claim_row owner t d) = Held owner (d_ClaimFence d + 1) (t + ClaimLease)"
    by (simp_all add: ticket_of_def claimable_def claim_row_def)
  then show ?thesis by (auto simp: moves_def claim_row_def intro: ticket_step.intros)
next
  case (Some old)
  with assms obtain v where v: "d_ClaimUntil d = Some v"
    by (auto simp: row_ok_def delivery_check_def)
  with Some assms have "ticket_of d = Held old (d_ClaimFence d) v" "v \<le> t"
    "ticket_of (claim_row owner t d) = Held owner (d_ClaimFence d + 1) (t + ClaimLease)"
    by (simp_all add: ticket_of_def claimable_def claim_row_def)
  then show ?thesis by (auto simp: moves_def claim_row_def intro: ticket_step.intros)
qed

lemma held_ticket:
  "claim_held i owner fence t d \<Longrightarrow> \<exists>v. ticket_of d = Held owner fence v \<and> t < v \<and> d_EventID d = i"
  by (auto simp: claim_held_def ticket_of_def split: option.splits)

lemma moves_settle:
  assumes "claim_held i owner fence t d"
  shows "receipt_valid i r \<Longrightarrow> moves t d (complete_row r t d)"
    and "reason \<in> {''canonical_conflict'', ''source_row_invalid''} \<Longrightarrow> moves t d (quarantine_row reason d)"
    and "1 \<le> seconds \<Longrightarrow> seconds \<le> 30 \<Longrightarrow> moves t d (retry_row seconds t d)"
proof -
  from held_ticket [OF assms] obtain v where v: "ticket_of d = Held owner fence v" "t < v" "d_EventID d = i" by blast
  have f: "d_ClaimFence d = fence" "pending d" using assms by (simp_all add: claim_held_def)
  show "moves t d (complete_row r t d)" if "receipt_valid i r"
  proof -
    have "row_receipt (complete_row r t d) = r"
      using that v(3) by (simp add: row_receipt_def complete_row_def receipt_valid_def)
    then have "ticket_of (complete_row r t d) = Settled r" by (simp add: ticket_of_def complete_row_def)
    with that v show ?thesis by (auto simp: moves_def complete_row_def intro: ticket_step.intros)
  qed
  show "moves t d (quarantine_row reason d)" if "reason \<in> {''canonical_conflict'', ''source_row_invalid''}"
  proof -
    have "ticket_of (quarantine_row reason d) = Dead reason" by (simp add: ticket_of_def quarantine_row_def)
    with that v show ?thesis
      unfolding moves_def by (simp add: quarantine_row_def) (rule ticket_step.reject, simp_all)
  qed
  show "moves t d (retry_row seconds t d)" if "1 \<le> seconds" "seconds \<le> 30"
  proof -
    have "ticket_of (retry_row seconds t d) = Waiting fence (t + seconds * 1000000000)"
      using f by (simp add: ticket_of_def retry_row_def)
    with that v show ?thesis by (auto simp: moves_def retry_row_def intro: ticket_step.intros)
  qed
qed

lemma exec_rows_moves:
  assumes run: "exec_rows hit f db = Inr (n, db')" and f: "\<And>d. d \<in> set (deliveries db) \<Longrightarrow> hit d \<Longrightarrow> moves t d (f d)"
  shows "list_all2 (moves t) (deliveries db) (deliveries db')"
  using exec_rows_run [OF run] f by (auto simp: list_all2_conv_all_nth)

lemma changed_moves:
  assumes "changedDelivery (exec_rows hit f) db = Inr (x, db')" and "\<And>d. hit d \<Longrightarrow> moves t d (f d)"
  shows "list_all2 (moves t) (deliveries db) (deliveries db')"
proof -
  from assms(1) obtain n where "exec_rows hit f db = Inr (n, db')"
    by (auto simp: changedDelivery_def tx_simps failT_def split: if_splits)
  from exec_rows_moves [OF this] assms(2) show ?thesis by blast
qed

lemma list_all2_moves_refl: "list_all2 (moves t) ds ds"
  by (simp add: list_all2_conv_all_nth)

text \<open>C9: the tables implement the tickets: whatever statement the repository or a source of events
  executes at an instant, every delivery row keeps its ticket or makes a step the specification allows
  at that instant, and a new row starts waiting with fence zero.\<close>

theorem statements_refine_tickets:
  assumes inv: "delivery_inv k db" and run: "delivery_op_tx k (t, operation) db = Inr (x, db')"
  shows "\<exists>old new. deliveries db' = old @ new \<and> list_all2 (moves t) (deliveries db) old \<and>
    (\<forall>d\<in>set new. ticket_of d = Waiting 0 t)"
proof (cases operation)
  case (OpEvent e)
  with run show ?thesis
    by (intro exI [of _ "deliveries db"] exI [of _ "[new_delivery (ek_ID k (o_Event e)) t]"])
      (auto simp: delivery_op_tx_def CreateAuthorityRevocationEvent_def ticket_of_def new_delivery_def
        list_all2_moves_refl split: if_splits)
next
  case (OpClaim owner locked)
  with run obtain row where row: "ClaimAuthorityDelivery k locked owner t db = Inr (row, db')"
    by (auto simp: delivery_op_tx_def Claim_tx_def tx_simps split: if_splits)
  have "list_all2 (moves t) (deliveries db) (deliveries db')"
  proof (cases row)
    case None
    with Claim_run [OF row] show ?thesis by (simp add: list_all2_moves_refl)
  next
    case (Some p)
    with Claim_run [OF row] obtain e d rest where c: "candidates k locked t db = (e, d) # rest"
      "db' = update_deliveries (\<lambda>x. d_EventID x = d_EventID d) (claim_row owner t) db" by (cases p) auto
    then have "(e, d) \<in> set (candidates k locked t db)" by simp
    then have d: "d \<in> set (deliveries db)" "claimable locked t d" by (simp_all add: set_candidates)
    then have "row_ok d" using inv by (simp add: delivery_inv_def)
    with d(2) have m: "moves t d (claim_row owner t d)" by (simp add: moves_claim)
    have "moves t x (if d_EventID x = d_EventID d then claim_row owner t x else x)" if "x \<in> set (deliveries db)" for x
      using unique_delivery [OF inv that d(1)] m by auto
    then show ?thesis by (simp add: c(2) list_all2_conv_all_nth)
  qed
  then show ?thesis by (intro exI [of _ "deliveries db'"] exI [of _ "[]"]) simp
next
  case (OpComplete c r)
  with run have v: "receipt_valid (ek_ID k (claim_Event c)) r" and "changedDelivery (exec_rows
      (claim_held (ek_ID k (claim_Event c)) (claim_Owner c) (claim_Fence c) t) (complete_row r t)) db = Inr (x, db')"
    by (auto simp: delivery_op_tx_def Complete_tx_def CompleteAuthorityDelivery_def failT_def ValidFor_iff split: if_splits)
  from changed_moves [OF this(2) moves_settle(1) [OF _ v]] show ?thesis
    by (intro exI [of _ "deliveries db'"] exI [of _ "[]"]) simp
next
  case (OpQuarantine c reason)
  with run have v: "reason \<in> {''canonical_conflict'', ''source_row_invalid''}" and "changedDelivery (exec_rows
      (claim_held (ek_ID k (claim_Event c)) (claim_Owner c) (claim_Fence c) t) (quarantine_row reason)) db = Inr (x, db')"
    by (auto simp: delivery_op_tx_def Quarantine_tx_def QuarantineAuthorityDelivery_def failT_def split: if_splits)
  from changed_moves [OF this(2) moves_settle(2) [OF _ v]] show ?thesis
    by (intro exI [of _ "deliveries db'"] exI [of _ "[]"]) simp
next
  case (OpRetry c seconds)
  with run have v: "1 \<le> seconds" "seconds \<le> 30" and "changedDelivery (exec_rows
      (claim_held (ek_ID k (claim_Event c)) (claim_Owner c) (claim_Fence c) t) (retry_row seconds t)) db = Inr (x, db')"
    by (auto simp: delivery_op_tx_def Retry_tx_def RetryAuthorityDelivery_def failT_def split: if_splits)
  from changed_moves [OF this(3) moves_settle(3) [OF _ v]] show ?thesis
    by (intro exI [of _ "deliveries db'"] exI [of _ "[]"]) simp
qed

text \<open>\<open>Claim\<close> takes the oldest event that is due, not leased and not locked by another transaction, and
  leaves it leased to the owner for fifteen seconds under a new fence.\<close>

theorem Claim_takes_oldest_due:
  assumes inv: "delivery_inv k db" and run: "Claim_tx k locked owner t db = Inr (Some c, db')"
  shows "\<exists>e\<in>set (outbox db). \<exists>d\<in>set (deliveries db).
    claim_Event c = o_Event e \<and> d_EventID d = ek_ID k (o_Event e) \<and> claimable locked t d \<and>
    (\<forall>e'\<in>set (outbox db). \<forall>d'\<in>set (deliveries db). d_EventID d' = ek_ID k (o_Event e') \<longrightarrow> claimable locked t d' \<longrightarrow>
       (o_OccurredAt e, ek_ID k (o_Event e)) \<le> (o_OccurredAt e', ek_ID k (o_Event e'))) \<and>
    claim_Owner c = owner \<and> claim_Fence c = d_ClaimFence d + 1 \<and> claim_Attempt c = d_Attempt d + 1 \<and>
    (\<exists>x\<in>set (deliveries db'). claim_held (d_EventID d) owner (claim_Fence c) t x \<and>
       d_ClaimUntil x = Some (t + 15 * 1000000000))"
proof -
  from run obtain row where row: "ClaimAuthorityDelivery k locked owner t db = Inr (row, db')" and owner: "owner \<noteq> uuid_Nil"
    and "Some c = (case row of None \<Rightarrow> None | Some (e, d) \<Rightarrow> Some \<lparr>claim_Event = e, claim_Owner = owner,
                  claim_Fence = d_ClaimFence d, claim_Attempt = d_Attempt d\<rparr>)"
    by (auto simp: Claim_tx_def tx_simps failT_def split: if_splits)
  with Claim_run [OF row] obtain e d rest where c: "candidates k locked t db = (e, d) # rest"
    by (cases row) auto
  note f = claim_forward [OF inv c owner]
  from f run have cl: "c = \<lparr>claim_Event = o_Event e, claim_Owner = owner, claim_Fence = d_ClaimFence d + 1,
      claim_Attempt = d_Attempt d + 1\<rparr>"
    "db' = update_deliveries (\<lambda>x. d_EventID x = d_EventID d) (claim_row owner t) db" by auto
  from c have "(e, d) \<in> set (candidates k locked t db)" by simp
  then have e: "e \<in> set (outbox db)" by (simp add: set_candidates)
  have "sorted (map (\<lambda>(e, d). (o_OccurredAt e, ek_ID k (o_Event e))) (candidates k locked t db))"
    unfolding candidates_def by (rule sorted_sort_key)
  then have least: "(o_OccurredAt e, ek_ID k (o_Event e)) \<le> (o_OccurredAt e', ek_ID k (o_Event e'))"
    if "(e', d') \<in> set (candidates k locked t db)" for e' d'
    using that unfolding c by auto
  have "claim_row owner t d \<in> set (deliveries db')"
    using f unfolding cl(2) update_deliveries_sel set_map by (intro image_eqI [where x = d]) auto
  moreover have "claim_held (d_EventID d) owner (d_ClaimFence d + 1) t (claim_row owner t d)"
    using f by (simp add: claim_held_def claim_row_def claimable_def ClaimLease_def)
  moreover have "d_ClaimUntil (claim_row owner t d) = Some (t + 15 * 1000000000)"
    by (simp add: claim_row_def ClaimLease_def)
  ultimately show ?thesis
    using e f least by (intro bexI [OF _ e] bexI [of _ d]) (auto simp: cl(1) set_candidates intro!: bexI)
qed

end
