(* ===== verification/Delivery_Witnesses.thy ===== *)
theory Delivery_Witnesses
  imports Delivery_Spec
begin

text \<open>A chat delivery worker on a small outbox: the properties of delivery applied to concrete runs.\<close>

definition sample_event :: ChatEvent where
  "sample_event = \<lparr>ce_ID = ''e1'', ce_GroupID = ''g1'', ce_UserID = ''u1'', ce_Epoch = 1,
     ce_SourceReason = ''member_removed''\<rparr>"

definition sample_receipt :: Receipt where
  "sample_receipt = \<lparr>receipt_EventID = ''e1'', receipt_OperationID = ''op'', receipt_Effect = ''media_pending'',
     receipt_Count = 2\<rparr>"

definition sample_outbox :: "ChatEvent OutboxRow" where
  "sample_outbox = \<lparr>o_Event = sample_event, o_OccurredAt = 0\<rparr>"

definition delivery_sample :: "ChatEvent delivery_db" where
  "delivery_sample = \<lparr>outbox = [sample_outbox], deliveries = [new_delivery ''e1'' 0]\<rparr>"

definition delivery_start :: "ChatEvent delivery_world" where
  "delivery_start = \<lparr>dw_db = delivery_sample, dw_tick = 0\<rparr>"

definition delivery_env :: "delivery_error + Receipt \<Rightarrow> ChatEvent delivery_env" where
  "delivery_env answer =
     \<lparr>dv_kind = chat_kind, dv_others = (\<lambda>t. []), dv_fault = (\<lambda>t. Delivered), dv_clock = (\<lambda>t. int t),
      dv_locked = (\<lambda>t. []), dv_done = (\<lambda>t. False), dv_quit = (\<lambda>t. 5 \<le> t), dv_apply = (\<lambda>t e. answer),
      dv_lookup = (\<lambda>t i. Inl DErrNotFound)\<rparr>"

lemma delivery_env_sel [simp]:
  "dv_kind (delivery_env a) = chat_kind" "dv_apply (delivery_env a) t e = a" "dv_done (delivery_env a) t = False"
  "dv_lookup (delivery_env a) t i = Inl DErrNotFound" "dv_quit (delivery_env a) t = (5 \<le> t)"
  by (simp_all add: delivery_env_def)

lemma delivery_start_inv: "delivery_inv chat_kind (dw_db delivery_start)"
  by code_simp

lemma delivery_due:
  "candidates (dv_kind (delivery_env a)) (dv_locked (delivery_env a) (dw_tick delivery_start))
     (dv_clock (delivery_env a) (dw_tick delivery_start)) (others_acted (delivery_env a) delivery_start) =
   [(sample_outbox, new_delivery ''e1'' 0)]"
  by code_simp

lemma delivery_undisturbed: "undisturbed (delivery_env a) ''w'' (dw_tick delivery_start)"
  by (auto simp: undisturbed_def delivery_env_def delivery_start_def ClaimLease_def)

lemma sample_valid:
  "ek_Validate chat_kind sample_event" "ValidFor chat_kind sample_receipt sample_event"
  "ek_ID chat_kind sample_event = ''e1''" "''w'' \<noteq> uuid_Nil"
  by code_simp+

text \<open>A row that worker \<open>w2\<close> holds under fence 2, and the first worker's claim with fence 1.\<close>

definition held_db :: "ChatEvent delivery_db" where
  "held_db = \<lparr>outbox = [sample_outbox], deliveries = [claim_row ''w2'' 20 (claim_row ''w'' 0 (new_delivery ''e1'' 0))]\<rparr>"

definition first_claim :: "ChatEvent Claim" where
  "first_claim = \<lparr>claim_Event = sample_event, claim_Owner = ''w'', claim_Fence = 1, claim_Attempt = 1\<rparr>"

lemma held_inv: "delivery_inv chat_kind held_db"
  by code_simp

lemma held_row: "\<exists>d. deliveries held_db = [d] \<and> d_EventID d = ''e1'' \<and> d_ClaimFence d = 2 \<and>
    claim_held ''e1'' ''w2'' 2 21 d \<and> d_ClaimUntil d = Some 15000000020"
  by (simp add: held_db_def claim_row_def new_delivery_def claim_held_def ClaimLease_def)

theorem overtaken_claim_is_refused_witness:
  "Complete_tx chat_kind first_claim sample_receipt 21 held_db = Inl DErrStaleClaim"
proof -
  obtain d where d: "deliveries held_db = [d]" "d_EventID d = ''e1''" "d_ClaimFence d = 2" using held_row by blast
  have "claim_Event first_claim = sample_event" "claim_Fence first_claim = 1" by (simp_all add: first_claim_def)
  with overtaken_claim_is_refused [OF held_inv held_inv delivery_evolves_refl, of d first_claim sample_receipt 21] d
  show ?thesis by (simp add: sample_valid)
qed

theorem lease_protects_claim_witness:
  "\<exists>d. d \<in> set (deliveries (fold (run_delivery_op chat_kind)
      [(22, OpClaim ''w'' []), (23, OpComplete first_claim sample_receipt)] held_db)) \<and> d_ClaimOwner d = Some ''w2''"
proof -
  obtain d where d: "deliveries held_db = [d]" "claim_held ''e1'' ''w2'' 2 21 d" "d_ClaimUntil d = Some 15000000020"
    using held_row by blast
  have "\<forall>(u, operation)\<in>set [(22, OpClaim ''w'' []), (23, OpComplete first_claim sample_receipt)].
      foreign ''w2'' operation \<and> u < (15000000020 :: int)" by (simp add: first_claim_def)
  from lease_protects_claim [of "delivery_env (Inr sample_receipt)" held_db d, OF _ _ d(2,3) this] d held_inv
  show ?thesis by (auto simp: claim_held_def)
qed

lemma delivery_run:
  "map d_State (deliveries (dw_db (snd (Run 6 (NewWorker (delivery_env (Inr sample_receipt)) ''w'') delivery_start)))) =
     [''delivered'']"
  by code_simp

theorem deliveries_stay_consistent_witness:
  "\<exists>db d. db = dw_db (snd (Run 6 (NewWorker (delivery_env (Inr sample_receipt)) ''w'') delivery_start)) \<and>
     d \<in> set (deliveries db) \<and> d_State d = ''delivered'' \<and> delivery_check d \<and> d_Attempt d = d_ClaimFence d"
proof -
  let ?db = "dw_db (snd (Run 6 (NewWorker (delivery_env (Inr sample_receipt)) ''w'') delivery_start))"
  from delivery_run obtain d where "d \<in> set (deliveries ?db)" "d_State d = ''delivered''" by (auto simp: map_eq_Cons_conv)
  moreover from deliveries_stay_consistent [of "delivery_env (Inr sample_receipt)" delivery_start ?db 6 "''w''"]
    delivery_start_inv
  have "\<forall>d\<in>set (deliveries ?db). delivery_check d \<and> d_Attempt d = d_ClaimFence d" by simp
  ultimately show ?thesis by blast
qed

lemma delivery_step: "fst (Step (NewWorker (delivery_env (Inr sample_receipt)) ''w'') delivery_start) = Inr ()"
  by code_simp

theorem Step_settles_witness:
  "\<exists>w' d. Step (NewWorker (delivery_env (Inr sample_receipt)) ''w'') delivery_start = (Inr (), w') \<and>
     d \<in> set (deliveries (dw_db w')) \<and> d_State d \<in> {''delivered'', ''quarantined''}"
proof -
  let ?r = "Step (NewWorker (delivery_env (Inr sample_receipt)) ''w'') delivery_start"
  have run: "?r = (Inr (), snd ?r)" using delivery_step by (metis prod.collapse)
  from Step_settles [of "delivery_env (Inr sample_receipt)" delivery_start "''w''", OF _ run] delivery_start_inv
    delivery_due [of "Inr sample_receipt"]
  show ?thesis by (intro exI [of _ "snd ?r"]) (use run in auto)
qed

theorem undisturbed_step_delivers_witness:
  "\<exists>w' x. Step (NewWorker (delivery_env (Inr sample_receipt)) ''w'') delivery_start = (Inr (), w') \<and>
     x \<in> set (deliveries (dw_db w')) \<and> d_EventID x = ''e1'' \<and> d_State x = ''delivered'' \<and>
     row_receipt x = sample_receipt"
proof -
  have "delivery_inv (dv_kind (delivery_env (Inr sample_receipt))) (dw_db delivery_start)"
    using delivery_start_inv by simp
  from undisturbed_step_delivers [OF this sample_valid(4) delivery_undisturbed delivery_due, of sample_receipt]
  show ?thesis by (simp add: sample_outbox_def sample_valid)
qed

theorem failed_attempt_is_rescheduled_witness:
  "\<exists>w' x t. Step (NewWorker (delivery_env (Inl DErrUnavailable)) ''w'') delivery_start = (Inl DErrUnavailable, w') \<and>
     x \<in> set (deliveries (dw_db w')) \<and> d_EventID x = ''e1'' \<and> d_Attempt x = 1 \<and>
     d_NextAttemptAt x = int t + RetrySeconds 1 * 1000000000"
proof -
  have "delivery_inv (dv_kind (delivery_env (Inl DErrUnavailable))) (dw_db delivery_start)"
    using delivery_start_inv by simp
  from failed_attempt_is_rescheduled [OF this sample_valid(4) delivery_undisturbed delivery_due]
  obtain w' x t where "Step (NewWorker (delivery_env (Inl DErrUnavailable)) ''w'') delivery_start = (Inl DErrUnavailable, w')"
    "x \<in> set (deliveries (dw_db w'))" "d_EventID x = ''e1''" "d_Attempt x = 1"
    "d_NextAttemptAt x = dv_clock (delivery_env (Inl DErrUnavailable)) t + RetrySeconds (d_Attempt x) * 1000000000"
    by (auto simp: sample_outbox_def sample_valid new_delivery_def)
  moreover have "dv_clock (delivery_env (Inl DErrUnavailable)) t = int t" by (simp add: delivery_env_def)
  ultimately show ?thesis by (intro exI [of _ w'] exI [of _ x] exI [of _ t]) simp
qed

theorem Run_stops_witness:
  "\<exists>w'. Run 6 (NewWorker (delivery_env (Inr sample_receipt)) ''w'') delivery_start = (Some DErrContext, w')"
  using Run_stops [of 5 "delivery_env (Inr sample_receipt)" delivery_start 5 "''w''"] by simp

lemma first_claim_tx:
  "Claim_tx chat_kind [] ''w'' 0 delivery_sample = Inr (Some first_claim,
     delivery_sample\<lparr>deliveries := [claim_row ''w'' 0 (new_delivery ''e1'' 0)]\<rparr>)"
  by code_simp

theorem statements_refine_tickets_witness:
  "\<exists>old new. [claim_row ''w'' 0 (new_delivery ''e1'' 0)] = old @ new \<and>
     list_all2 (moves 0) (deliveries delivery_sample) old"
proof -
  have "delivery_op_tx chat_kind (0, OpClaim ''w'' []) delivery_sample =
      Inr ((), delivery_sample\<lparr>deliveries := [claim_row ''w'' 0 (new_delivery ''e1'' 0)]\<rparr>)"
    using first_claim_tx by (simp add: delivery_op_tx_def bindT_def returnT_def)
  from statements_refine_tickets [OF delivery_start_inv [unfolded delivery_start_def delivery_world.select_convs] this]
  show ?thesis by auto
qed

theorem Claim_takes_oldest_due_witness:
  "\<exists>e\<in>set (outbox delivery_sample). claim_Event first_claim = o_Event e \<and> claim_Owner first_claim = ''w''"
  using Claim_takes_oldest_due [OF delivery_start_inv [unfolded delivery_start_def delivery_world.select_convs]
      first_claim_tx] by blast

end
