(* ===== verification/Chat_Policy.thy ===== *)
theory Chat_Policy
  imports Go_Text
begin

text \<open>
  What the groups of \<open>aero-chat\<close> decide without a database: \<open>internal/domain/chat/group_policy.go\<close> (what a
  role may do), the normalisers of \<open>service.go\<close>, and \<open>group_authorization.go\<close>, which turns the facts about a
  group and a user into the answer that the call service acts on.
\<close>

section \<open>Errors and constants\<close>

text \<open>The sentinels of \<open>errors.go\<close> (a wrapped sentinel is the sentinel), the driver's errors, \<open>ctx.Err()\<close>, a panic
  and any other error.\<close>

datatype chat_error =
    ErrInvalidArgument | ErrUnauthorized | ErrNotFound | ErrConflict | ErrPermissionDenied | ErrResourceExhausted
  | ErrGroupAuthorityUnavailable | ErrNoRows | PgError string | ErrContext | ErrOther | Panic

definition GroupMemberRoleOwner :: string where "GroupMemberRoleOwner = ''owner''"
definition GroupMemberRoleAdmin :: string where "GroupMemberRoleAdmin = ''admin''"
definition GroupMemberRoleMember :: string where "GroupMemberRoleMember = ''member''"
definition GroupMemberRoleReader :: string where "GroupMemberRoleReader = ''reader''"

lemmas role_defs = GroupMemberRoleOwner_def GroupMemberRoleAdmin_def GroupMemberRoleMember_def GroupMemberRoleReader_def

definition GroupThreadKeyPrimary :: string where "GroupThreadKeyPrimary = ''primary''"
definition ChatKindGroup :: string where "ChatKindGroup = ''group''"
definition defaultMaxActiveGroupMembershipsPerUser :: int where "defaultMaxActiveGroupMembershipsPerUser = 100"
definition maxGroupNameLength :: nat where "maxGroupNameLength = 80"

section \<open>The role policy\<close>

record groupRolePolicy =
  canManageInviteLinks :: bool
  creatableInviteRoles :: "string list"
  canManageMemberRoles :: bool
  roleManagementTargetRoles :: "string list"
  assignableRoles :: "string list"
  canTransferOwnership :: bool
  removableMemberRoles :: "string list"
  restrictableMemberRoles :: "string list"
  canLeaveGroup :: bool
  canSendMessages :: bool

definition no_policy :: groupRolePolicy where
  "no_policy =
     \<lparr>canManageInviteLinks = False, creatableInviteRoles = [], canManageMemberRoles = False,
      roleManagementTargetRoles = [], assignableRoles = [], canTransferOwnership = False,
      removableMemberRoles = [], restrictableMemberRoles = [], canLeaveGroup = False, canSendMessages = False\<rparr>"

definition groupRolePolicies :: "string \<Rightarrow> groupRolePolicy option" where
  "groupRolePolicies =
     [GroupMemberRoleOwner \<mapsto>
        \<lparr>canManageInviteLinks = True,
         creatableInviteRoles = [GroupMemberRoleAdmin, GroupMemberRoleMember, GroupMemberRoleReader],
         canManageMemberRoles = True,
         roleManagementTargetRoles = [GroupMemberRoleAdmin, GroupMemberRoleMember, GroupMemberRoleReader],
         assignableRoles = [GroupMemberRoleAdmin, GroupMemberRoleMember, GroupMemberRoleReader],
         canTransferOwnership = True,
         removableMemberRoles = [GroupMemberRoleAdmin, GroupMemberRoleMember, GroupMemberRoleReader],
         restrictableMemberRoles = [GroupMemberRoleAdmin, GroupMemberRoleMember, GroupMemberRoleReader],
         canLeaveGroup = False, canSendMessages = True\<rparr>,
      GroupMemberRoleAdmin \<mapsto>
        no_policy\<lparr>canManageInviteLinks := True,
         creatableInviteRoles := [GroupMemberRoleMember, GroupMemberRoleReader],
         removableMemberRoles := [GroupMemberRoleMember, GroupMemberRoleReader],
         restrictableMemberRoles := [GroupMemberRoleMember, GroupMemberRoleReader],
         canLeaveGroup := True, canSendMessages := True\<rparr>,
      GroupMemberRoleMember \<mapsto> no_policy\<lparr>canLeaveGroup := True, canSendMessages := True\<rparr>,
      GroupMemberRoleReader \<mapsto> no_policy\<lparr>canLeaveGroup := True\<rparr>]"

definition policyForGroupRole :: "string \<Rightarrow> groupRolePolicy" where
  "policyForGroupRole role = (case groupRolePolicies role of Some policy \<Rightarrow> policy | None \<Rightarrow> no_policy)"

fun containsGroupRole :: "string list \<Rightarrow> string \<Rightarrow> bool" where
  "containsGroupRole [] role = False"
| "containsGroupRole (candidate # roles) role = (if candidate = role then True else containsGroupRole roles role)"

definition canManageGroupInviteLinks :: "string \<Rightarrow> bool" where
  "canManageGroupInviteLinks role = canManageInviteLinks (policyForGroupRole role)"

definition canManageGroupMemberRoles :: "string \<Rightarrow> bool" where
  "canManageGroupMemberRoles role = canManageMemberRoles (policyForGroupRole role)"

definition canTransferGroupOwnership :: "string \<Rightarrow> bool" where
  "canTransferGroupOwnership role = canTransferOwnership (policyForGroupRole role)"

definition canSendGroupMessages :: "string \<Rightarrow> bool \<Rightarrow> bool" where
  "canSendGroupMessages role isWriteRestricted =
     (if isWriteRestricted then False else canSendMessages (policyForGroupRole role))"

definition canCreateInviteForRole :: "string \<Rightarrow> string \<Rightarrow> bool" where
  "canCreateInviteForRole actorRole targetRole =
     containsGroupRole (creatableInviteRoles (policyForGroupRole actorRole)) targetRole"

definition canManageRoleForTarget :: "string \<Rightarrow> string \<Rightarrow> bool" where
  "canManageRoleForTarget actorRole targetRole =
     containsGroupRole (roleManagementTargetRoles (policyForGroupRole actorRole)) targetRole"

definition canAssignGroupRole :: "string \<Rightarrow> string \<Rightarrow> bool" where
  "canAssignGroupRole actorRole targetRole =
     containsGroupRole (assignableRoles (policyForGroupRole actorRole)) targetRole"

definition canRemoveGroupMember :: "string \<Rightarrow> string \<Rightarrow> bool" where
  "canRemoveGroupMember actorRole targetRole =
     containsGroupRole (removableMemberRoles (policyForGroupRole actorRole)) targetRole"

definition canRestrictGroupMember :: "string \<Rightarrow> string \<Rightarrow> bool" where
  "canRestrictGroupMember actorRole targetRole =
     containsGroupRole (restrictableMemberRoles (policyForGroupRole actorRole)) targetRole"

record GroupPermissions =
  CanManageInviteLinks :: bool
  CreatableInviteRoles :: "string list"
  CanManageMemberRoles :: bool
  RoleManagementTargetRoles :: "string list"
  AssignableRoles :: "string list"
  CanTransferOwnership :: bool
  RemovableMemberRoles :: "string list"
  RestrictableMemberRoles :: "string list"
  CanLeaveGroup :: bool

definition buildGroupPermissions :: "string \<Rightarrow> GroupPermissions" where
  "buildGroupPermissions role =
     (let policy = policyForGroupRole role in
      \<lparr>CanManageInviteLinks = canManageInviteLinks policy, CreatableInviteRoles = creatableInviteRoles policy,
       CanManageMemberRoles = canManageMemberRoles policy,
       RoleManagementTargetRoles = roleManagementTargetRoles policy, AssignableRoles = assignableRoles policy,
       CanTransferOwnership = canTransferOwnership policy, RemovableMemberRoles = removableMemberRoles policy,
       RestrictableMemberRoles = restrictableMemberRoles policy, CanLeaveGroup = canLeaveGroup policy\<rparr>)"

section \<open>The policy is a ranking\<close>

text \<open>Reference definition: a role is a rank, and an administrator acts on the ranks strictly below.\<close>

definition rank :: "string \<Rightarrow> nat" where
  "rank role = (if role = ''owner'' then 4 else if role = ''admin'' then 3 else if role = ''member'' then 2
     else if role = ''reader'' then 1 else 0)"

definition outranks :: "string \<Rightarrow> string \<Rightarrow> bool" where
  "outranks actor target \<longleftrightarrow> rank actor \<ge> 3 \<and> 0 < rank target \<and> rank target < rank actor"

lemma containsGroupRole_set [simp]: "containsGroupRole roles role \<longleftrightarrow> role \<in> set roles"
  by (induction roles) auto

lemma policyForGroupRole_cases:
  "policyForGroupRole role =
     (if role = ''owner'' then the (groupRolePolicies ''owner'')
      else if role = ''admin'' then the (groupRolePolicies ''admin'')
      else if role = ''member'' then the (groupRolePolicies ''member'')
      else if role = ''reader'' then the (groupRolePolicies ''reader'') else no_policy)"
  by (auto simp: policyForGroupRole_def groupRolePolicies_def role_defs)

lemma groupRolePolicies_eval:
  "the (groupRolePolicies ''owner'') =
     \<lparr>canManageInviteLinks = True, creatableInviteRoles = [''admin'', ''member'', ''reader''],
      canManageMemberRoles = True, roleManagementTargetRoles = [''admin'', ''member'', ''reader''],
      assignableRoles = [''admin'', ''member'', ''reader''], canTransferOwnership = True,
      removableMemberRoles = [''admin'', ''member'', ''reader''],
      restrictableMemberRoles = [''admin'', ''member'', ''reader''], canLeaveGroup = False, canSendMessages = True\<rparr>"
  "the (groupRolePolicies ''admin'') =
     \<lparr>canManageInviteLinks = True, creatableInviteRoles = [''member'', ''reader''], canManageMemberRoles = False,
      roleManagementTargetRoles = [], assignableRoles = [], canTransferOwnership = False,
      removableMemberRoles = [''member'', ''reader''], restrictableMemberRoles = [''member'', ''reader''],
      canLeaveGroup = True, canSendMessages = True\<rparr>"
  "the (groupRolePolicies ''member'') = no_policy\<lparr>canLeaveGroup := True, canSendMessages := True\<rparr>"
  "the (groupRolePolicies ''reader'') = no_policy\<lparr>canLeaveGroup := True\<rparr>"
  by (simp_all add: groupRolePolicies_def role_defs no_policy_def)

lemmas policy_simps = policyForGroupRole_cases groupRolePolicies_eval no_policy_def

lemmas policy_defs =
  canRemoveGroupMember_def canRestrictGroupMember_def canCreateInviteForRole_def canManageRoleForTarget_def
  canAssignGroupRole_def canManageGroupInviteLinks_def canManageGroupMemberRoles_def canTransferGroupOwnership_def
  canSendGroupMessages_def policy_simps

lemma can_outranks:
  "canRemoveGroupMember r q = outranks r q" "canRestrictGroupMember r q = outranks r q"
  "canCreateInviteForRole r q = outranks r q" "canManageRoleForTarget r q = (r = ''owner'' \<and> outranks r q)"
  "canAssignGroupRole r q = (r = ''owner'' \<and> outranks r q)" "canManageGroupInviteLinks r = (rank r \<ge> 3)"
  "canManageGroupMemberRoles r = (r = ''owner'')" "canTransferGroupOwnership r = (r = ''owner'')"
  by (auto simp: policy_defs outranks_def rank_def)

lemma can_send: "canSendGroupMessages r restricted = (rank r \<ge> 2 \<and> \<not> restricted)"
  by (auto simp: policy_defs rank_def)

lemma rank_owner: "rank r = 4 \<longleftrightarrow> r = ''owner''"
  by (simp add: rank_def)

lemma outranks_irrefl [simp]: "\<not> outranks r r" "\<not> outranks r ''owner''"
  by (simp_all add: outranks_def rank_def)

text \<open>C14: The policy table of the groups is the ranking owner, admin, member, reader: removing, restricting and
  inviting are allowed exactly for an owner or admin toward a known role strictly below, changing and assigning
  roles and transferring the group exactly for the owner, and nobody can hand out the owner's role.\<close>

theorem role_policy_is_ranking:
  "(canRemoveGroupMember actor target \<longleftrightarrow> outranks actor target) \<and>
   (canRestrictGroupMember actor target \<longleftrightarrow> outranks actor target) \<and>
   (canCreateInviteForRole actor target \<longleftrightarrow> outranks actor target) \<and>
   (canManageRoleForTarget actor target \<longleftrightarrow> rank actor = 4 \<and> outranks actor target) \<and>
   (canAssignGroupRole actor target \<longleftrightarrow> rank actor = 4 \<and> outranks actor target) \<and>
   (canManageGroupInviteLinks actor \<longleftrightarrow> rank actor \<ge> 3) \<and>
   (canManageGroupMemberRoles actor \<longleftrightarrow> rank actor = 4) \<and>
   (canTransferGroupOwnership actor \<longleftrightarrow> rank actor = 4) \<and>
   (canSendGroupMessages actor restricted \<longleftrightarrow> rank actor \<ge> 2 \<and> \<not> restricted) \<and>
   \<not> canAssignGroupRole actor ''owner'' \<and> \<not> canCreateInviteForRole actor ''owner''"
  by (simp add: can_outranks rank_owner can_send)

lemma canAssignGroupRole_known: "canAssignGroupRole actor role \<Longrightarrow> role \<in> {''admin'', ''member'', ''reader''}"
  by (auto simp: canAssignGroupRole_def policy_simps split: if_splits)

section \<open>Normalisers\<close>

text \<open>\<open>strings.ToLower\<close> as the comparison with the names of roles sees it: besides the ASCII letters only
  U+0130 (bytes C4 B0) has a lower case among their letters.\<close>

fun role_lower :: "string \<Rightarrow> string" where
  "role_lower [] = []"
| "role_lower [c] = [lower_ascii c]"
| "role_lower (c # d # s) =
     (if c = CHR 0xC4 \<and> d = CHR 0xB0 then CHR ''i'' # role_lower s else lower_ascii c # role_lower (d # s))"

definition normalizeGroupInviteRole :: "string \<Rightarrow> chat_error + string" where
  "normalizeGroupInviteRole value =
     (let v = trim_space (role_lower value) in
      if v = GroupMemberRoleAdmin then Inr GroupMemberRoleAdmin
      else if v = GroupMemberRoleMember then Inr GroupMemberRoleMember
      else if v = GroupMemberRoleReader then Inr GroupMemberRoleReader
      else Inl ErrInvalidArgument)"

text \<open>\<open>normalizeManagedGroupRole\<close> differs in its message only.\<close>

definition normalizeManagedGroupRole :: "string \<Rightarrow> chat_error + string" where
  "normalizeManagedGroupRole value =
     (let v = trim_space (role_lower value) in
      if v = GroupMemberRoleAdmin then Inr GroupMemberRoleAdmin
      else if v = GroupMemberRoleMember then Inr GroupMemberRoleMember
      else if v = GroupMemberRoleReader then Inr GroupMemberRoleReader
      else Inl ErrInvalidArgument)"

definition normalizeInviteToken :: "string \<Rightarrow> chat_error + string" where
  "normalizeInviteToken value = (let v = trim_space value in if v = '''' then Inl ErrInvalidArgument else Inr v)"

definition normalizeGroupName :: "string \<Rightarrow> chat_error + string" where
  "normalizeGroupName value =
     (let v = trim_space value in
      if v = '''' then Inl ErrInvalidArgument
      else if rune_count v > maxGroupNameLength then Inl ErrInvalidArgument
      else Inr v)"

definition normalizeID :: "uuid_parser \<Rightarrow> string \<Rightarrow> chat_error + uuid" where
  "normalizeID parse value = (case parse (trim_space value) of None \<Rightarrow> Inl ErrInvalidArgument | Some u \<Rightarrow> Inr u)"

lemma normalizeGroupInviteRole_Inr:
  "normalizeGroupInviteRole value = Inr role \<Longrightarrow> role \<in> {''admin'', ''member'', ''reader''}"
  by (auto simp: normalizeGroupInviteRole_def Let_def role_defs split: if_splits)

lemma normalizeManagedGroupRole_Inr:
  "normalizeManagedGroupRole value = Inr role \<Longrightarrow> role \<in> {''admin'', ''member'', ''reader''}"
  by (auto simp: normalizeManagedGroupRole_def Let_def role_defs split: if_splits)

section \<open>The authority of a subject\<close>

record GroupSubjectAuthority =
  auth_GroupID :: string
  auth_UserID :: string
  auth_EligibilityEpoch :: int
  auth_Status :: string
  auth_Role :: string

record GroupSubjectAuthorityFacts =
  facts_GroupID :: string
  facts_UserID :: string
  facts_GroupExists :: bool
  facts_MembershipExists :: bool
  facts_AuthorityExists :: bool
  facts_EligibilityEpoch :: int
  facts_Present :: bool
  facts_Eligible :: bool
  facts_Role :: string

definition GroupSubjectPresent :: string where "GroupSubjectPresent = ''present''"
definition GroupSubjectRemoved :: string where "GroupSubjectRemoved = ''removed''"
definition GroupSubjectNotFound :: string where "GroupSubjectNotFound = ''not_found''"

definition math_MaxInt64 :: int where "math_MaxInt64 = 9223372036854775807"

text \<open>The verdict on the facts, the part of \<open>CheckGroupSubject\<close> after the query.\<close>

definition judge_facts :: "uuid \<Rightarrow> uuid \<Rightarrow> GroupSubjectAuthorityFacts \<Rightarrow> chat_error + GroupSubjectAuthority" where
  "judge_facts gid uid facts =
     (if facts_GroupID facts \<noteq> gid \<or> facts_UserID facts \<noteq> uid then Inl ErrGroupAuthorityUnavailable
      else if \<not> facts_AuthorityExists facts then
        if facts_MembershipExists facts then Inl ErrGroupAuthorityUnavailable
        else Inr \<lparr>auth_GroupID = '''', auth_UserID = '''', auth_EligibilityEpoch = 0,
                  auth_Status = GroupSubjectNotFound, auth_Role = ''''\<rparr>
      else if facts_EligibilityEpoch facts \<le> 0 then Inl ErrGroupAuthorityUnavailable
      else
        let result = \<lparr>auth_GroupID = facts_GroupID facts, auth_UserID = facts_UserID facts,
                      auth_EligibilityEpoch = facts_EligibilityEpoch facts, auth_Status = '''', auth_Role = ''''\<rparr>
        in if \<not> facts_MembershipExists facts then
             if facts_Present facts \<or> facts_Eligible facts then Inl ErrGroupAuthorityUnavailable
             else Inr (result\<lparr>auth_Status := GroupSubjectRemoved\<rparr>)
           else if \<not> facts_GroupExists facts \<or> \<not> facts_Present facts then Inl ErrGroupAuthorityUnavailable
           else if facts_Role facts \<notin> {GroupMemberRoleOwner, GroupMemberRoleAdmin, GroupMemberRoleMember,
                                       GroupMemberRoleReader} then Inl ErrGroupAuthorityUnavailable
           else
             let eligible = (facts_Role facts \<noteq> GroupMemberRoleReader)
             in if facts_Eligible facts \<noteq> eligible \<or> (eligible \<and> facts_EligibilityEpoch facts = math_MaxInt64)
                then Inl ErrGroupAuthorityUnavailable
                else Inr (result\<lparr>auth_Status := GroupSubjectPresent, auth_Role := facts_Role facts\<rparr>))"

text \<open>\<open>CheckGroupSubject\<close>; the repository is \<open>None\<close> when the pointer is nil.\<close>

definition CheckGroupSubject ::
    "uuid_parser \<Rightarrow> (string \<Rightarrow> string \<Rightarrow> ('w, chat_error, GroupSubjectAuthorityFacts) prog) option \<Rightarrow>
     string \<Rightarrow> string \<Rightarrow> ('w, chat_error, GroupSubjectAuthority) prog" where
  "CheckGroupSubject parse repo groupID userID =
     (case parse (trim_space groupID) of
        None \<Rightarrow> failE ErrInvalidArgument
      | Some gid \<Rightarrow>
     if gid = uuid_Nil then failE ErrInvalidArgument
     else (case parse (trim_space userID) of
        None \<Rightarrow> failE ErrInvalidArgument
      | Some uid \<Rightarrow>
     if uid = uuid_Nil then failE ErrInvalidArgument
     else (case repo of
        None \<Rightarrow> failE ErrGroupAuthorityUnavailable
      | Some facts \<Rightarrow>
          attemptE (facts gid uid) (\<lambda>r. case r of
            Inl err \<Rightarrow> failE (if err = ErrContext then err else ErrGroupAuthorityUnavailable)
          | Inr f \<Rightarrow> liftE (judge_facts gid uid f)))))"

end
