(* ===== verification/Chat_Store.thy ===== *)
theory Chat_Store
  imports Chat_Policy Delivery_Store
begin

text \<open>
  The Postgres tables of \<open>aero-chat\<close> that hold groups (\<open>db/schema\<close>, migrations 3, 4, 7, 11, 16 to 18, 21, 24, 25)
  and the queries of \<open>internal/storage/sqlc\<close> on them. A table is the list of its rows, a query is a transaction.
  A statement that would break a CHECK (23514), a unique index (23505) or a foreign key (23503) fails with that
  code. The trigger \<open>capture_group_membership_authority\<close> runs with the statement on a membership that fires it;
  its outbox and delivery tables are those of \<open>Delivery_Store\<close>, in the field \<open>authority\<close>.

  \<open>pg\<close> is what a transaction takes from the server: \<open>CURRENT_TIMESTAMP\<close>, \<open>clock_timestamp()\<close> and the value of
  \<open>gen_random_uuid()\<close> (a transaction of the repository writes at most one event). Of the tables of messages only
  the columns that the counters read are kept.
\<close>

section \<open>Rows\<close>

record pg =
  CURRENT_TIMESTAMP :: int
  clock_timestamp :: int
  gen_random_uuid :: uuid

record UserRow =
  usr_ID :: uuid
  usr_Login :: string
  usr_Nickname :: string
  usr_AvatarURL :: "string option"
  usr_PushNotificationsEnabled :: bool

record DeviceRow =
  dev_ID :: uuid
  dev_UserID :: uuid
  dev_LastSeenAt :: int
  dev_RevokedAt :: "int option"

record SessionRow =
  ses_ID :: uuid
  ses_UserID :: uuid
  ses_DeviceID :: uuid
  ses_TokenHash :: string
  ses_LastSeenAt :: int
  ses_RevokedAt :: "int option"

record GroupRow =
  grp_ID :: uuid
  grp_Name :: string
  grp_CreatedByUserID :: uuid
  grp_CreatedAt :: int
  grp_UpdatedAt :: int

record MembershipRow =
  m_GroupID :: uuid
  m_UserID :: uuid
  m_Role :: string
  m_JoinedAt :: int
  m_IsWriteRestricted :: bool
  m_WriteRestrictedAt :: "int option"

record InviteLinkRow =
  l_ID :: uuid
  l_GroupID :: uuid
  l_CreatedByUserID :: uuid
  l_Role :: string
  l_TokenHash :: string
  l_JoinCount :: int
  l_CreatedAt :: int
  l_UpdatedAt :: int
  l_DisabledAt :: "int option"
  l_LastJoinedAt :: "int option"

record ThreadRow =
  t_ID :: uuid
  t_GroupID :: uuid
  t_ThreadKey :: string
  t_CreatedAt :: int
  t_UpdatedAt :: int

record VersionRow =
  v_GroupID :: uuid
  v_UserID :: uuid
  v_Revision :: int
  v_Present :: bool
  v_Eligible :: bool
  v_UpdatedAt :: int

record PreferenceRow =
  pref_GroupID :: uuid
  pref_UserID :: uuid
  pref_Enabled :: bool
  pref_UpdatedAt :: int

record MessageRow =
  msg_ID :: uuid
  msg_ThreadID :: uuid
  msg_SenderUserID :: uuid
  msg_CreatedAt :: int

record ReadStateRow =
  rs_GroupID :: uuid
  rs_UserID :: uuid
  rs_LastReadMessageID :: uuid
  rs_LastReadMessageCreatedAt :: int

record EncryptedMessageRow =
  em_GroupID :: uuid
  em_OperationKind :: string
  em_SenderUserID :: uuid
  em_ServerSequence :: "int option"

record EncryptedReadStateRow =
  er_GroupID :: uuid
  er_UserID :: uuid
  er_LastReadServerSequence :: "int option"

record EncryptedPinRow =
  pin_GroupID :: uuid
  pin_MessageID :: uuid
  pin_CreatedAt :: int

record chat_db =
  users :: "UserRow list"
  user_devices :: "DeviceRow list"
  user_sessions :: "SessionRow list"
  groups :: "GroupRow list"
  group_memberships :: "MembershipRow list"
  group_invite_links :: "InviteLinkRow list"
  group_threads :: "ThreadRow list"
  group_membership_authority_versions :: "VersionRow list"
  group_notification_preferences :: "PreferenceRow list"
  group_messages :: "MessageRow list"
  group_chat_read_states :: "ReadStateRow list"
  group_encrypted_messages :: "EncryptedMessageRow list"
  group_encrypted_read_states :: "EncryptedReadStateRow list"
  group_encrypted_pins :: "EncryptedPinRow list"
  authority :: "ChatEvent delivery_db"

type_synonym 'a chat_tx = "(chat_db, chat_error, 'a) tx"

text \<open>A query for one row, and an \<open>UPDATE\<close> of the row that its primary key selects.\<close>

definition oneRow :: "'r list \<Rightarrow> 'r option \<Rightarrow> ('s, chat_error, 'r) tx" where
  "oneRow rs r = (case r of None \<Rightarrow> failT ErrNoRows | Some x \<Rightarrow> returnT x)"

definition member_at :: "uuid \<Rightarrow> uuid \<Rightarrow> MembershipRow \<Rightarrow> bool" where
  "member_at g u m \<longleftrightarrow> m_GroupID m = g \<and> m_UserID m = u"

definition version_at :: "uuid \<Rightarrow> uuid \<Rightarrow> VersionRow \<Rightarrow> bool" where
  "version_at g u v \<longleftrightarrow> v_GroupID v = g \<and> v_UserID v = u"

definition find_member :: "chat_db \<Rightarrow> uuid \<Rightarrow> uuid \<Rightarrow> MembershipRow option" where
  "find_member db g u = find (member_at g u) (group_memberships db)"

definition find_version :: "chat_db \<Rightarrow> uuid \<Rightarrow> uuid \<Rightarrow> VersionRow option" where
  "find_version db g u = find (version_at g u) (group_membership_authority_versions db)"

definition find_group :: "chat_db \<Rightarrow> uuid \<Rightarrow> GroupRow option" where
  "find_group db g = find (\<lambda>r. grp_ID r = g) (groups db)"

definition find_user :: "chat_db \<Rightarrow> uuid \<Rightarrow> UserRow option" where
  "find_user db u = find (\<lambda>r. usr_ID r = u) (users db)"

section \<open>The authority trigger\<close>

datatype membership_change =
    OnInsert MembershipRow
  | OnUpdate MembershipRow MembershipRow
  | OnDelete MembershipRow

definition eligible_role :: "string \<Rightarrow> bool" where
  "eligible_role role \<longleftrightarrow> role \<in> {''owner'', ''admin'', ''member''}"

definition version_check :: "VersionRow \<Rightarrow> bool" where
  "version_check v \<longleftrightarrow> v_Revision v > 0 \<and> (v_Present v \<or> \<not> v_Eligible v) \<and> (\<not> v_Eligible v \<or> v_Revision v < max_int64)"

text \<open>The \<open>INSERT\<close> into the outbox, with \<open>UNIQUE (group_id, user_id, source_revision)\<close>; the trigger
  \<open>chat_authority_delivery_capture\<close> adds the delivery row (both are \<open>CreateAuthorityRevocationEvent\<close>).\<close>

definition insert_event :: "pg \<Rightarrow> uuid \<Rightarrow> uuid \<Rightarrow> int \<Rightarrow> string \<Rightarrow> unit chat_tx" where
  "insert_event pg g u revision reason = (\<lambda>db.
     let e = \<lparr>ce_ID = gen_random_uuid pg, ce_GroupID = g, ce_UserID = u, ce_Epoch = revision, ce_SourceReason = reason\<rparr>
     in if \<exists>o'\<in>set (outbox (authority db)). ce_GroupID (o_Event o') = g \<and> ce_UserID (o_Event o') = u \<and>
             ce_Epoch (o_Event o') = revision
        then Inl (PgError ''23505'')
        else case CreateAuthorityRevocationEvent chat_kind \<lparr>o_Event = e, o_OccurredAt = CURRENT_TIMESTAMP pg\<rparr>
                    (clock_timestamp pg) (authority db) of
               Inl _ \<Rightarrow> Inl (PgError ''23505'')
             | Inr (_, d) \<Rightarrow> Inr ((), db\<lparr>authority := d\<rparr>))"

definition set_version :: "pg \<Rightarrow> uuid \<Rightarrow> uuid \<Rightarrow> int \<Rightarrow> bool \<Rightarrow> bool \<Rightarrow> unit chat_tx" where
  "set_version pg g u revision present eligible = (\<lambda>db.
     let f = (\<lambda>v. v\<lparr>v_Revision := revision, v_Present := present, v_Eligible := eligible,
                    v_UpdatedAt := CURRENT_TIMESTAMP pg\<rparr>)
     in if \<exists>v\<in>set (group_membership_authority_versions db). version_at g u v \<and> \<not> version_check (f v)
        then Inl (PgError ''23514'')
        else Inr ((), db\<lparr>group_membership_authority_versions :=
                map (\<lambda>v. if version_at g u v then f v else v) (group_membership_authority_versions db)\<rparr>))"

definition subject_of :: "membership_change \<Rightarrow> MembershipRow" where
  "subject_of change = (case change of OnInsert new \<Rightarrow> new | OnUpdate old new \<Rightarrow> new | OnDelete old \<Rightarrow> old)"

text \<open>The state of the subject before and after the change, as (present, eligible).\<close>

definition before_change :: "membership_change \<Rightarrow> bool \<times> bool" where
  "before_change change =
     (case change of
        OnInsert new \<Rightarrow> (False, False)
      | OnUpdate old new \<Rightarrow> (True, eligible_role (m_Role old))
      | OnDelete old \<Rightarrow> (True, eligible_role (m_Role old)))"

definition after_change :: "membership_change \<Rightarrow> bool \<times> bool" where
  "after_change change =
     (case change of
        OnInsert new \<Rightarrow> (True, eligible_role (m_Role new))
      | OnUpdate old new \<Rightarrow> (True, eligible_role (m_Role new))
      | OnDelete old \<Rightarrow> (False, False))"

definition capture_group_membership_authority :: "pg \<Rightarrow> membership_change \<Rightarrow> unit chat_tx" where
  "capture_group_membership_authority pg change = (\<lambda>db.
     let g = m_GroupID (subject_of change); u = m_UserID (subject_of change);
         (present, eligible) = after_change change
     in if (case change of OnUpdate old new \<Rightarrow> m_GroupID old \<noteq> m_GroupID new \<or> m_UserID old \<noteq> m_UserID new
            | _ \<Rightarrow> False)
        then Inl (PgError ''23514'')
        else case find_version db g u of
          None \<Rightarrow>
            (case change of
               OnInsert new \<Rightarrow>
                 Inr ((), db\<lparr>group_membership_authority_versions := group_membership_authority_versions db @
                   [\<lparr>v_GroupID = g, v_UserID = u, v_Revision = 1, v_Present = True, v_Eligible = eligible,
                     v_UpdatedAt = CURRENT_TIMESTAMP pg\<rparr>]\<rparr>)
             | _ \<Rightarrow> Inl (PgError ''23514''))
        | Some prior \<Rightarrow>
            if (v_Present prior, v_Eligible prior) \<noteq> before_change change then Inl (PgError ''23514'')
            else if v_Present prior = present \<and> v_Eligible prior = eligible then Inr ((), db)
            else if v_Revision prior \<ge> max_int64 then Inl (PgError ''23514'')
            else bindT (set_version pg g u (v_Revision prior + 1) present eligible) (\<lambda>_.
                 if \<not> present then insert_event pg g u (v_Revision prior + 1) ''member_removed''
                 else if \<not> eligible then insert_event pg g u (v_Revision prior + 1) ''eligibility_denied''
                 else returnT ()) db)"

section \<open>Memberships\<close>

definition membership_check :: "MembershipRow \<Rightarrow> bool" where
  "membership_check m \<longleftrightarrow>
     m_Role m \<in> {''owner'', ''admin'', ''member'', ''reader''} \<and>
     ((\<not> m_IsWriteRestricted m \<and> m_WriteRestrictedAt m = None) \<or>
      (m_IsWriteRestricted m \<and> m_WriteRestrictedAt m \<noteq> None))"

text \<open>The partial unique index on the owner of a group, seen by a row that is to replace the one with its key.\<close>

definition owner_clash :: "chat_db \<Rightarrow> MembershipRow \<Rightarrow> bool" where
  "owner_clash db m \<longleftrightarrow>
     m_Role m = ''owner'' \<and>
     (\<exists>n\<in>set (group_memberships db). m_GroupID n = m_GroupID m \<and> m_Role n = ''owner'' \<and> m_UserID n \<noteq> m_UserID m)"

definition new_membership :: "uuid \<Rightarrow> uuid \<Rightarrow> string \<Rightarrow> int \<Rightarrow> MembershipRow" where
  "new_membership g u role t =
     \<lparr>m_GroupID = g, m_UserID = u, m_Role = role, m_JoinedAt = t, m_IsWriteRestricted = False,
      m_WriteRestrictedAt = None\<rparr>"

definition insert_membership :: "pg \<Rightarrow> MembershipRow \<Rightarrow> unit chat_tx" where
  "insert_membership pg m = (\<lambda>db.
     if \<not> membership_check m then Inl (PgError ''23514'')
     else if owner_clash db m then Inl (PgError ''23505'')
     else if find_group db (m_GroupID m) = None \<or> find_user db (m_UserID m) = None then Inl (PgError ''23503'')
     else capture_group_membership_authority pg (OnInsert m)
            (db\<lparr>group_memberships := group_memberships db @ [m]\<rparr>))"

definition AddGroupMembership :: "pg \<Rightarrow> uuid \<Rightarrow> uuid \<Rightarrow> string \<Rightarrow> int \<Rightarrow> unit chat_tx" where
  "AddGroupMembership pg g u role t = (\<lambda>db.
     if membership_check (new_membership g u role t) \<and> find_member db g u \<noteq> None then Inl (PgError ''23505'')
     else insert_membership pg (new_membership g u role t) db)"

text \<open>\<open>ON CONFLICT (group_id, user_id) DO NOTHING\<close>\<close>

definition JoinGroupMembership :: "pg \<Rightarrow> uuid \<Rightarrow> uuid \<Rightarrow> string \<Rightarrow> int \<Rightarrow> nat chat_tx" where
  "JoinGroupMembership pg g u role t = (\<lambda>db.
     if membership_check (new_membership g u role t) \<and> find_member db g u \<noteq> None then Inr (0, db)
     else bindT (insert_membership pg (new_membership g u role t)) (\<lambda>_. returnT 1) db)"

text \<open>\<open>UPDATE group_memberships\<close> of the row with the key, when \<open>hit\<close> holds of it. \<open>fires\<close> says whether the
  statement names a column of the trigger.\<close>

definition replace_member :: "uuid \<Rightarrow> uuid \<Rightarrow> MembershipRow \<Rightarrow> chat_db \<Rightarrow> chat_db" where
  "replace_member g u m db =
     db\<lparr>group_memberships := map (\<lambda>x. if member_at g u x then m else x) (group_memberships db)\<rparr>"

definition update_membership ::
    "pg \<Rightarrow> bool \<Rightarrow> uuid \<Rightarrow> uuid \<Rightarrow> (MembershipRow \<Rightarrow> bool) \<Rightarrow> (MembershipRow \<Rightarrow> MembershipRow) \<Rightarrow> nat chat_tx" where
  "update_membership pg fires g u hit f = (\<lambda>db.
     case find_member db g u of
       None \<Rightarrow> Inr (0, db)
     | Some old \<Rightarrow>
         if \<not> hit old then Inr (0, db)
         else if \<not> membership_check (f old) then Inl (PgError ''23514'')
         else if owner_clash db (f old) then Inl (PgError ''23505'')
         else bindT (if fires then capture_group_membership_authority pg (OnUpdate old (f old)) else returnT ())
                (\<lambda>_. returnT 1) (replace_member g u (f old) db))"

definition UpdateGroupMembershipRole :: "pg \<Rightarrow> uuid \<Rightarrow> uuid \<Rightarrow> string \<Rightarrow> nat chat_tx" where
  "UpdateGroupMembershipRole pg g u role =
     update_membership pg True g u (\<lambda>m. m_Role m \<noteq> role) (\<lambda>m. m\<lparr>m_Role := role\<rparr>)"

definition SetGroupMembershipWriteRestriction :: "pg \<Rightarrow> uuid \<Rightarrow> uuid \<Rightarrow> bool \<Rightarrow> int option \<Rightarrow> nat chat_tx" where
  "SetGroupMembershipWriteRestriction pg g u restricted t =
     (let at = (if restricted then t else None) in
      update_membership pg False g u
        (\<lambda>m. m_IsWriteRestricted m \<noteq> restricted \<or> m_WriteRestrictedAt m \<noteq> at)
        (\<lambda>m. m\<lparr>m_IsWriteRestricted := restricted, m_WriteRestrictedAt := at\<rparr>))"

definition DemoteGroupOwnerForTransfer :: "pg \<Rightarrow> uuid \<Rightarrow> uuid \<Rightarrow> uuid \<Rightarrow> nat chat_tx" where
  "DemoteGroupOwnerForTransfer pg g owner target = (\<lambda>db.
     update_membership pg True g owner
       (\<lambda>m. m_Role m = ''owner'' \<and> owner \<noteq> target \<and>
            (\<exists>n\<in>set (group_memberships db). member_at g target n \<and> m_Role n \<noteq> ''owner'' \<and>
                                            \<not> m_IsWriteRestricted n))
       (\<lambda>m. m\<lparr>m_Role := ''admin''\<rparr>) db)"

definition PromoteGroupOwnerForTransfer :: "pg \<Rightarrow> uuid \<Rightarrow> uuid \<Rightarrow> nat chat_tx" where
  "PromoteGroupOwnerForTransfer pg g u =
     update_membership pg True g u (\<lambda>m. m_Role m \<noteq> ''owner'' \<and> \<not> m_IsWriteRestricted m) (\<lambda>m. m\<lparr>m_Role := ''owner''\<rparr>)"

definition DeleteGroupMembership :: "pg \<Rightarrow> uuid \<Rightarrow> uuid \<Rightarrow> nat chat_tx" where
  "DeleteGroupMembership pg g u = (\<lambda>db.
     case find_member db g u of
       None \<Rightarrow> Inr (0, db)
     | Some old \<Rightarrow>
         bindT (capture_group_membership_authority pg (OnDelete old)) (\<lambda>_. returnT 1)
           (db\<lparr>group_memberships := filter (\<lambda>x. \<not> member_at g u x) (group_memberships db)\<rparr>))"

definition GetActiveGroupMembershipCountByUserID :: "uuid \<Rightarrow> nat chat_tx" where
  "GetActiveGroupMembershipCountByUserID u = (\<lambda>db.
     Inr (length (filter (\<lambda>m. m_UserID m = u) (group_memberships db)), db))"

section \<open>Locks\<close>

definition LockGroupMembershipQuotaOwner :: "uuid \<Rightarrow> uuid chat_tx" where
  "LockGroupMembershipQuotaOwner u = (\<lambda>db.
     case find_user db u of None \<Rightarrow> Inl ErrNoRows | Some r \<Rightarrow> Inr (usr_ID r, db))"

definition LockGroupByID :: "uuid \<Rightarrow> uuid chat_tx" where
  "LockGroupByID g = (\<lambda>db. case find_group db g of None \<Rightarrow> Inl ErrNoRows | Some r \<Rightarrow> Inr (grp_ID r, db))"

section \<open>Groups and threads\<close>

text \<open>\<open>btrim(x) <> ''\<close>: \<open>btrim\<close> removes spaces only.\<close>

definition not_blank :: "string \<Rightarrow> bool" where
  "not_blank s \<longleftrightarrow> (\<exists>c\<in>set s. c \<noteq> CHR '' '')"

definition CreateGroup_sql :: "uuid \<Rightarrow> string \<Rightarrow> uuid \<Rightarrow> int \<Rightarrow> int \<Rightarrow> GroupRow chat_tx" where
  "CreateGroup_sql g name creator createdAt updatedAt = (\<lambda>db.
     let row = \<lparr>grp_ID = g, grp_Name = name, grp_CreatedByUserID = creator, grp_CreatedAt = createdAt,
                grp_UpdatedAt = updatedAt\<rparr>
     in if \<not> not_blank name then Inl (PgError ''23514'')
        else if find_group db g \<noteq> None then Inl (PgError ''23505'')
        else if find_user db creator = None then Inl (PgError ''23503'')
        else Inr (row, db\<lparr>groups := groups db @ [row]\<rparr>))"

definition CreateGroupThread :: "uuid \<Rightarrow> uuid \<Rightarrow> string \<Rightarrow> int \<Rightarrow> int \<Rightarrow> ThreadRow chat_tx" where
  "CreateGroupThread i g key createdAt updatedAt = (\<lambda>db.
     let row = \<lparr>t_ID = i, t_GroupID = g, t_ThreadKey = key, t_CreatedAt = createdAt, t_UpdatedAt = updatedAt\<rparr>
     in if \<not> not_blank key then Inl (PgError ''23514'')
        else if \<exists>t\<in>set (group_threads db). t_ID t = i \<or> (t_GroupID t = g \<and> t_ThreadKey t = key)
        then Inl (PgError ''23505'')
        else if find_group db g = None then Inl (PgError ''23503'')
        else Inr (row, db\<lparr>group_threads := group_threads db @ [row]\<rparr>))"

definition TouchGroupUpdatedAt :: "uuid \<Rightarrow> int \<Rightarrow> unit chat_tx" where
  "TouchGroupUpdatedAt g t = (\<lambda>db.
     Inr ((), db\<lparr>groups := map (\<lambda>r. if grp_ID r = g then r\<lparr>grp_UpdatedAt := t\<rparr> else r) (groups db)\<rparr>))"

definition GetGroupChatThreadRowByGroupIDAndUserID :: "uuid \<Rightarrow> uuid \<Rightarrow> ThreadRow chat_tx" where
  "GetGroupChatThreadRowByGroupIDAndUserID u g = (\<lambda>db.
     case find_member db g u of
       None \<Rightarrow> Inl ErrNoRows
     | Some _ \<Rightarrow>
         (case find (\<lambda>t. t_GroupID t = g \<and> t_ThreadKey t = ''primary'') (group_threads db) of
            None \<Rightarrow> Inl ErrNoRows | Some t \<Rightarrow> Inr (t, db)))"

section \<open>Reading groups\<close>

text \<open>The two counters: messages of others after the reader's cursor. Identifiers compare as their texts.\<close>

definition unread_count :: "chat_db \<Rightarrow> uuid \<Rightarrow> uuid \<Rightarrow> nat" where
  "unread_count db g u =
     length [gm. t \<leftarrow> group_threads db, t_GroupID t = g \<and> t_ThreadKey t = ''primary'',
                 gm \<leftarrow> group_messages db, msg_ThreadID gm = t_ID t \<and> msg_SenderUserID gm \<noteq> u \<and>
                 (case find (\<lambda>r. rs_GroupID r = g \<and> rs_UserID r = u) (group_chat_read_states db) of
                    None \<Rightarrow> True
                  | Some r \<Rightarrow> msg_CreatedAt gm > rs_LastReadMessageCreatedAt r \<or>
                      (msg_CreatedAt gm = rs_LastReadMessageCreatedAt r \<and> msg_ID gm > rs_LastReadMessageID r))]"

definition encrypted_unread_count :: "chat_db \<Rightarrow> uuid \<Rightarrow> uuid \<Rightarrow> nat" where
  "encrypted_unread_count db g u =
     length (filter (\<lambda>gm. em_GroupID gm = g \<and> em_OperationKind gm = ''content'' \<and> em_SenderUserID gm \<noteq> u \<and>
       (case find (\<lambda>r. er_GroupID r = g \<and> er_UserID r = u) (group_encrypted_read_states db) of
          None \<Rightarrow> True
        | Some r \<Rightarrow> (case (em_ServerSequence gm, er_LastReadServerSequence r) of
                      (Some a, Some b) \<Rightarrow> a > b | _ \<Rightarrow> False)))
       (group_encrypted_messages db))"

definition member_count :: "chat_db \<Rightarrow> uuid \<Rightarrow> nat" where
  "member_count db g = length (filter (\<lambda>m. m_GroupID m = g) (group_memberships db))"

definition notifications_enabled :: "chat_db \<Rightarrow> uuid \<Rightarrow> uuid \<Rightarrow> bool" where
  "notifications_enabled db g u =
     (case find (\<lambda>p. pref_GroupID p = g \<and> pref_UserID p = u) (group_notification_preferences db) of
        None \<Rightarrow> True | Some p \<Rightarrow> pref_Enabled p)"

record GroupSelfRow =
  gs_Group :: GroupRow
  gs_SelfRole :: string
  gs_SelfIsWriteRestricted :: bool
  gs_UnreadCount :: nat
  gs_EncryptedUnreadCount :: nat
  gs_MemberCount :: nat
  gs_NotificationsEnabled :: bool

definition group_self_row :: "chat_db \<Rightarrow> GroupRow \<Rightarrow> MembershipRow \<Rightarrow> GroupSelfRow" where
  "group_self_row db r self =
     \<lparr>gs_Group = r, gs_SelfRole = m_Role self, gs_SelfIsWriteRestricted = m_IsWriteRestricted self,
      gs_UnreadCount = unread_count db (grp_ID r) (m_UserID self),
      gs_EncryptedUnreadCount = encrypted_unread_count db (grp_ID r) (m_UserID self),
      gs_MemberCount = member_count db (grp_ID r),
      gs_NotificationsEnabled = notifications_enabled db (grp_ID r) (m_UserID self)\<rparr>"

definition GetGroupRowByIDAndUserID :: "uuid \<Rightarrow> uuid \<Rightarrow> GroupSelfRow chat_tx" where
  "GetGroupRowByIDAndUserID u g = (\<lambda>db.
     case (find_member db g u, find_group db g) of
       (Some self, Some r) \<Rightarrow> Inr (group_self_row db r self, db)
     | _ \<Rightarrow> Inl ErrNoRows)"

definition ListGroupRowsByUserID :: "uuid \<Rightarrow> GroupSelfRow list chat_tx" where
  "ListGroupRowsByUserID u = (\<lambda>db.
     Inr (rev (sort_key (\<lambda>row. (grp_UpdatedAt (gs_Group row), grp_ID (gs_Group row)))
            [group_self_row db r self. self \<leftarrow> group_memberships db, m_UserID self = u,
                                       r \<leftarrow> groups db, grp_ID r = m_GroupID self]), db))"

definition ListEncryptedPinnedMessageIDsByGroupID :: "uuid \<Rightarrow> uuid list chat_tx" where
  "ListEncryptedPinnedMessageIDsByGroupID g = (\<lambda>db.
     Inr (map pin_MessageID (rev (sort_key (\<lambda>p. (pin_CreatedAt p, pin_MessageID p))
            (filter (\<lambda>p. pin_GroupID p = g) (group_encrypted_pins db)))), db))"

definition GetGroupMemberRowByGroupIDAndUserID :: "uuid \<Rightarrow> uuid \<Rightarrow> (MembershipRow \<times> UserRow) chat_tx" where
  "GetGroupMemberRowByGroupIDAndUserID g u = (\<lambda>db.
     case (find_member db g u, find_user db u) of
       (Some m, Some r) \<Rightarrow> Inr ((m, r), db)
     | _ \<Rightarrow> Inl ErrNoRows)"

definition role_order :: "string \<Rightarrow> nat" where
  "role_order role =
     (if role = ''owner'' then 0 else if role = ''admin'' then 1 else if role = ''member'' then 2
      else if role = ''reader'' then 3 else 4)"

definition ListGroupMemberRowsByGroupIDAndUserID :: "uuid \<Rightarrow> uuid \<Rightarrow> (MembershipRow \<times> UserRow) list chat_tx" where
  "ListGroupMemberRowsByGroupIDAndUserID u g = (\<lambda>db.
     Inr (if find_member db g u = None then []
          else sort_key (\<lambda>(m, r). (role_order (m_Role m), m_JoinedAt m, m_UserID m))
                 [(m, r). m \<leftarrow> group_memberships db, m_GroupID m = g, r \<leftarrow> users db, usr_ID r = m_UserID m], db))"

definition GetGroupSubjectAuthorityFacts_sql :: "uuid \<Rightarrow> uuid \<Rightarrow> GroupSubjectAuthorityFacts chat_tx" where
  "GetGroupSubjectAuthorityFacts_sql g u = (\<lambda>db.
     let m = find_member db g u; a = find_version db g u in
     Inr (\<lparr>facts_GroupID = g, facts_UserID = u, facts_GroupExists = (find_group db g \<noteq> None),
           facts_MembershipExists = (m \<noteq> None), facts_AuthorityExists = (a \<noteq> None),
           facts_EligibilityEpoch = (case a of None \<Rightarrow> 0 | Some v \<Rightarrow> v_Revision v),
           facts_Present = (case a of None \<Rightarrow> False | Some v \<Rightarrow> v_Present v),
           facts_Eligible = (case a of None \<Rightarrow> False | Some v \<Rightarrow> v_Eligible v),
           facts_Role = (case m of None \<Rightarrow> '''' | Some x \<Rightarrow> m_Role x)\<rparr>, db))"

section \<open>Preferences\<close>

definition put_preference :: "uuid \<Rightarrow> uuid \<Rightarrow> bool \<Rightarrow> int \<Rightarrow> chat_db \<Rightarrow> chat_db" where
  "put_preference g u enabled t db =
     (let row = \<lparr>pref_GroupID = g, pref_UserID = u, pref_Enabled = enabled, pref_UpdatedAt = t\<rparr>;
          ps = group_notification_preferences db
      in db\<lparr>group_notification_preferences :=
            (if \<exists>p\<in>set ps. pref_GroupID p = g \<and> pref_UserID p = u
             then map (\<lambda>p. if pref_GroupID p = g \<and> pref_UserID p = u then row else p) ps
             else ps @ [row])\<rparr>)"

definition UpsertGroupNotificationPreference_sql :: "uuid \<Rightarrow> uuid \<Rightarrow> bool \<Rightarrow> int \<Rightarrow> unit chat_tx" where
  "UpsertGroupNotificationPreference_sql g u enabled t = (\<lambda>db.
     if find_group db g = None \<or> find_user db u = None then Inl (PgError ''23503'')
     else Inr ((), put_preference g u enabled t db))"

definition SetAllGroupNotificationPreferencesByUserID :: "uuid \<Rightarrow> bool \<Rightarrow> int \<Rightarrow> unit chat_tx" where
  "SetAllGroupNotificationPreferencesByUserID u enabled t = (\<lambda>db.
     Inr ((), fold (\<lambda>m. put_preference (m_GroupID m) u enabled t)
                (filter (\<lambda>m. m_UserID m = u) (group_memberships db)) db))"

section \<open>Invite links\<close>

definition invite_check :: "InviteLinkRow \<Rightarrow> bool" where
  "invite_check l \<longleftrightarrow> l_Role l \<in> {''admin'', ''member'', ''reader''} \<and> 0 \<le> l_JoinCount l"

definition CreateGroupInviteLink_sql ::
    "uuid \<Rightarrow> uuid \<Rightarrow> uuid \<Rightarrow> string \<Rightarrow> string \<Rightarrow> int \<Rightarrow> int \<Rightarrow> InviteLinkRow chat_tx" where
  "CreateGroupInviteLink_sql i g creator role tokenHash createdAt updatedAt = (\<lambda>db.
     let row = \<lparr>l_ID = i, l_GroupID = g, l_CreatedByUserID = creator, l_Role = role, l_TokenHash = tokenHash,
                l_JoinCount = 0, l_CreatedAt = createdAt, l_UpdatedAt = updatedAt, l_DisabledAt = None,
                l_LastJoinedAt = None\<rparr>
     in if \<not> invite_check row then Inl (PgError ''23514'')
        else if \<exists>l\<in>set (group_invite_links db). l_ID l = i \<or> l_TokenHash l = tokenHash
        then Inl (PgError ''23505'')
        else if find_group db g = None \<or> find_user db creator = None then Inl (PgError ''23503'')
        else Inr (row, db\<lparr>group_invite_links := group_invite_links db @ [row]\<rparr>))"

definition ListGroupInviteLinksByGroupID :: "uuid \<Rightarrow> InviteLinkRow list chat_tx" where
  "ListGroupInviteLinksByGroupID g = (\<lambda>db.
     Inr (rev (sort_key (\<lambda>l. (l_CreatedAt l, l_ID l)) (filter (\<lambda>l. l_GroupID l = g) (group_invite_links db))), db))"

definition find_link :: "chat_db \<Rightarrow> uuid \<Rightarrow> uuid \<Rightarrow> InviteLinkRow option" where
  "find_link db g i = find (\<lambda>l. l_GroupID l = g \<and> l_ID l = i) (group_invite_links db)"

definition GetGroupInviteLinkByIDAndGroupID :: "uuid \<Rightarrow> uuid \<Rightarrow> InviteLinkRow chat_tx" where
  "GetGroupInviteLinkByIDAndGroupID g i = (\<lambda>db.
     case find_link db g i of None \<Rightarrow> Inl ErrNoRows | Some l \<Rightarrow> Inr (l, db))"

definition GetGroupInviteLinkForJoin_sql :: "string \<Rightarrow> (InviteLinkRow \<times> GroupRow \<times> nat) chat_tx" where
  "GetGroupInviteLinkForJoin_sql tokenHash = (\<lambda>db.
     case find (\<lambda>l. l_TokenHash l = tokenHash) (group_invite_links db) of
       None \<Rightarrow> Inl ErrNoRows
     | Some l \<Rightarrow>
         (case find_group db (l_GroupID l) of
            None \<Rightarrow> Inl ErrNoRows
          | Some r \<Rightarrow> Inr ((l, r, member_count db (grp_ID r)), db)))"

definition DisableGroupInviteLink_sql :: "uuid \<Rightarrow> uuid \<Rightarrow> int \<Rightarrow> nat chat_tx" where
  "DisableGroupInviteLink_sql g i t = (\<lambda>db.
     let hit = (\<lambda>l. l_GroupID l = g \<and> l_ID l = i \<and> l_DisabledAt l = None) in
     Inr (length (filter hit (group_invite_links db)),
          db\<lparr>group_invite_links := map (\<lambda>l. if hit l then l\<lparr>l_DisabledAt := Some t, l_UpdatedAt := t\<rparr> else l)
               (group_invite_links db)\<rparr>))"

text \<open>\<open>join_count\<close> is an \<open>INTEGER\<close>: the addition fails with 22003 beyond 32 bits.\<close>

definition TouchGroupInviteLinkJoin :: "uuid \<Rightarrow> int \<Rightarrow> unit chat_tx" where
  "TouchGroupInviteLinkJoin i t = (\<lambda>db.
     if \<exists>l\<in>set (group_invite_links db). l_ID l = i \<and> l_JoinCount l \<ge> 2147483647 then Inl (PgError ''22003'')
     else Inr ((), db\<lparr>group_invite_links :=
            map (\<lambda>l. if l_ID l = i then l\<lparr>l_JoinCount := l_JoinCount l + 1, l_LastJoinedAt := Some t, l_UpdatedAt := t\<rparr>
                     else l) (group_invite_links db)\<rparr>))"

section \<open>Sessions\<close>

definition GetSessionAuthByID_sql :: "uuid \<Rightarrow> (SessionRow \<times> DeviceRow \<times> UserRow) chat_tx" where
  "GetSessionAuthByID_sql i = (\<lambda>db.
     case find (\<lambda>s. ses_ID s = i) (user_sessions db) of
       None \<Rightarrow> Inl ErrNoRows
     | Some s \<Rightarrow>
         (case (find (\<lambda>d. dev_ID d = ses_DeviceID s) (user_devices db), find_user db (ses_UserID s)) of
            (Some d, Some u) \<Rightarrow> Inr ((s, d, u), db)
          | _ \<Rightarrow> Inl ErrNoRows))"

definition TouchSessionAndDevice :: "uuid \<Rightarrow> uuid \<Rightarrow> int \<Rightarrow> unit chat_tx" where
  "TouchSessionAndDevice sid did t = (\<lambda>db.
     Inr ((), db\<lparr>user_sessions := map (\<lambda>s. if ses_ID s = sid \<and> ses_DeviceID s = did then s\<lparr>ses_LastSeenAt := t\<rparr> else s)
                  (user_sessions db),
                user_devices := map (\<lambda>d. if dev_ID d = did then d\<lparr>dev_LastSeenAt := t\<rparr> else d) (user_devices db)\<rparr>))"

end
