(* ===== verification/Chat_Repository.thy ===== *)
theory Chat_Repository
  imports Chat_Store
begin

text \<open>
  The group part of \<open>internal/storage/postgres/repository.go\<close> and \<open>group_authorization.go\<close>: the conversion of rows
  and errors, and every method as the transactions it runs (\<open>_tx\<close>). A method that reads with two queries outside
  a transaction (\<open>GetGroup\<close>, \<open>ListGroups\<close>) and \<open>CreateGroup\<close>, which reads after its commit, are put together from
  these in \<open>Chat_World\<close>.
\<close>

section \<open>Domain values\<close>

record UserSummary =
  us_ID :: string
  us_Login :: string
  us_Nickname :: string
  us_AvatarURL :: "string option"
  us_PushNotificationsEnabled :: bool

record Group =
  group_ID :: string
  group_Name :: string
  group_Kind :: string
  group_CreatedByUserID :: string
  group_SelfRole :: string
  group_SelfPermissions :: "GroupPermissions option"
  group_SelfWriteRestricted :: bool
  group_MemberCount :: int
  group_EncryptedPinnedMessageIDs :: "string list"
  group_UnreadCount :: int
  group_EncryptedUnreadCount :: int
  group_NotificationsEnabled :: bool
  group_CreatedAt :: int
  group_UpdatedAt :: int

record GroupChatThread =
  thread_ID :: string
  thread_GroupID :: string
  thread_ThreadKey :: string
  thread_CanSendMessages :: bool
  thread_CreatedAt :: int
  thread_UpdatedAt :: int

record GroupMember =
  gm_GroupID :: string
  gm_User :: UserSummary
  gm_Role :: string
  gm_JoinedAt :: int
  gm_IsWriteRestricted :: bool
  gm_WriteRestrictedAt :: "int option"

record GroupInviteLink =
  link_ID :: string
  link_GroupID :: string
  link_CreatedByUserID :: string
  link_Role :: string
  link_JoinCount :: int
  link_CreatedAt :: int
  link_UpdatedAt :: int
  link_DisabledAt :: "int option"
  link_LastJoinedAt :: "int option"

record GroupInviteLinkJoinTarget =
  target_Group :: Group
  target_InviteLink :: GroupInviteLink

record SessionAuth =
  sa_User :: UserSummary
  sa_SessionID :: string
  sa_SessionLastSeenAt :: int
  sa_SessionRevokedAt :: "int option"
  sa_DeviceID :: string
  sa_DeviceLastSeenAt :: int
  sa_DeviceRevokedAt :: "int option"
  sa_TokenHash :: string

text \<open>The parameters of the writing methods.\<close>

record CreateGroupParams =
  cg_GroupID :: string
  cg_PrimaryThreadID :: string
  cg_Name :: string
  cg_CreatedByUserID :: string
  cg_CreatedAt :: int
  cg_MaxActiveGroupMembershipsPerUser :: int

record CreateGroupInviteLinkParams =
  cl_InviteLinkID :: string
  cl_GroupID :: string
  cl_CreatedByUserID :: string
  cl_Role :: string
  cl_TokenHash :: string
  cl_CreatedAt :: int

record JoinGroupByInviteLinkParams =
  jg_GroupID :: string
  jg_UserID :: string
  jg_Role :: string
  jg_InviteLinkID :: string
  jg_JoinedAt :: int
  jg_MaxActiveGroupMembershipsPerUser :: int

section \<open>Conversions\<close>

definition convertError :: "chat_error \<Rightarrow> chat_error" where
  "convertError err =
     (case err of
        ErrNoRows \<Rightarrow> ErrNotFound
      | PgError code \<Rightarrow> if code = ''23503'' then ErrNotFound else if code = ''23505'' then ErrConflict else err
      | _ \<Rightarrow> err)"

definition mustParseUUID :: "uuid_parser \<Rightarrow> string \<Rightarrow> chat_error + uuid" where
  "mustParseUUID parse value = (case parse value of None \<Rightarrow> Inl Panic | Some u \<Rightarrow> Inr u)"

definition int32 :: "int \<Rightarrow> int" where
  "int32 n = (n + 2147483648) mod 4294967296 - 2147483648"

definition toUserSummary :: "UserRow \<Rightarrow> UserSummary" where
  "toUserSummary r =
     \<lparr>us_ID = usr_ID r, us_Login = usr_Login r, us_Nickname = usr_Nickname r, us_AvatarURL = usr_AvatarURL r,
      us_PushNotificationsEnabled = usr_PushNotificationsEnabled r\<rparr>"

definition toGroup :: "GroupSelfRow \<Rightarrow> uuid list \<Rightarrow> Group" where
  "toGroup row pinned =
     \<lparr>group_ID = grp_ID (gs_Group row), group_Name = grp_Name (gs_Group row), group_Kind = ChatKindGroup,
      group_CreatedByUserID = grp_CreatedByUserID (gs_Group row), group_SelfRole = gs_SelfRole row,
      group_SelfPermissions = None, group_SelfWriteRestricted = gs_SelfIsWriteRestricted row,
      group_MemberCount = int (gs_MemberCount row), group_EncryptedPinnedMessageIDs = pinned,
      group_UnreadCount = int (gs_UnreadCount row), group_EncryptedUnreadCount = int (gs_EncryptedUnreadCount row),
      group_NotificationsEnabled = gs_NotificationsEnabled row, group_CreatedAt = grp_CreatedAt (gs_Group row),
      group_UpdatedAt = grp_UpdatedAt (gs_Group row)\<rparr>"

definition toGroupMember :: "MembershipRow \<times> UserRow \<Rightarrow> GroupMember" where
  "toGroupMember row =
     \<lparr>gm_GroupID = m_GroupID (fst row), gm_User = toUserSummary (snd row), gm_Role = m_Role (fst row),
      gm_JoinedAt = m_JoinedAt (fst row), gm_IsWriteRestricted = m_IsWriteRestricted (fst row),
      gm_WriteRestrictedAt = m_WriteRestrictedAt (fst row)\<rparr>"

definition toGroupInviteLink :: "InviteLinkRow \<Rightarrow> GroupInviteLink" where
  "toGroupInviteLink l =
     \<lparr>link_ID = l_ID l, link_GroupID = l_GroupID l, link_CreatedByUserID = l_CreatedByUserID l,
      link_Role = l_Role l, link_JoinCount = l_JoinCount l, link_CreatedAt = l_CreatedAt l,
      link_UpdatedAt = l_UpdatedAt l, link_DisabledAt = l_DisabledAt l, link_LastJoinedAt = l_LastJoinedAt l\<rparr>"

definition toGroupChatThread :: "ThreadRow \<Rightarrow> GroupChatThread" where
  "toGroupChatThread t =
     \<lparr>thread_ID = t_ID t, thread_GroupID = t_GroupID t, thread_ThreadKey = t_ThreadKey t,
      thread_CanSendMessages = False, thread_CreatedAt = t_CreatedAt t, thread_UpdatedAt = t_UpdatedAt t\<rparr>"

section \<open>Reads\<close>

definition query :: "'a chat_tx \<Rightarrow> 'a chat_tx" where
  "query m = mapErrT convertError m"

definition GetSessionAuthByID_tx :: "uuid_parser \<Rightarrow> string \<Rightarrow> SessionAuth chat_tx" where
  "GetSessionAuthByID_tx parse sessionID =
     (case parse sessionID of
        None \<Rightarrow> failT ErrUnauthorized
      | Some i \<Rightarrow>
          bindT (query (GetSessionAuthByID_sql i)) (\<lambda>(s, d, u).
          returnT \<lparr>sa_User = toUserSummary u, sa_SessionID = ses_ID s, sa_SessionLastSeenAt = ses_LastSeenAt s,
                   sa_SessionRevokedAt = ses_RevokedAt s, sa_DeviceID = dev_ID d,
                   sa_DeviceLastSeenAt = dev_LastSeenAt d, sa_DeviceRevokedAt = dev_RevokedAt d,
                   sa_TokenHash = ses_TokenHash s\<rparr>))"

definition TouchSession_tx :: "uuid_parser \<Rightarrow> string \<Rightarrow> string \<Rightarrow> int \<Rightarrow> unit chat_tx" where
  "TouchSession_tx parse sessionID deviceID t =
     bindT (liftT (mustParseUUID parse sessionID)) (\<lambda>s.
     bindT (liftT (mustParseUUID parse deviceID)) (\<lambda>d.
     query (TouchSessionAndDevice s d t)))"

definition GetGroupChatThread_tx :: "uuid_parser \<Rightarrow> string \<Rightarrow> string \<Rightarrow> GroupChatThread chat_tx" where
  "GetGroupChatThread_tx parse userID groupID =
     bindT (liftT (mustParseUUID parse userID)) (\<lambda>u.
     bindT (liftT (mustParseUUID parse groupID)) (\<lambda>g.
     bindT (query (GetGroupChatThreadRowByGroupIDAndUserID u g)) (\<lambda>t.
     returnT (toGroupChatThread t))))"

definition GetGroupMember_tx :: "uuid_parser \<Rightarrow> string \<Rightarrow> string \<Rightarrow> GroupMember chat_tx" where
  "GetGroupMember_tx parse groupID userID =
     bindT (liftT (mustParseUUID parse groupID)) (\<lambda>g.
     bindT (liftT (mustParseUUID parse userID)) (\<lambda>u.
     bindT (query (GetGroupMemberRowByGroupIDAndUserID g u)) (\<lambda>row.
     returnT (toGroupMember row))))"

definition ListGroupMembers_tx :: "uuid_parser \<Rightarrow> string \<Rightarrow> string \<Rightarrow> GroupMember list chat_tx" where
  "ListGroupMembers_tx parse userID groupID =
     bindT (liftT (mustParseUUID parse userID)) (\<lambda>u.
     bindT (liftT (mustParseUUID parse groupID)) (\<lambda>g.
     bindT (query (ListGroupMemberRowsByGroupIDAndUserID u g)) (\<lambda>rows.
     returnT (map toGroupMember rows))))"

definition ListGroupInviteLinks_tx :: "uuid_parser \<Rightarrow> string \<Rightarrow> GroupInviteLink list chat_tx" where
  "ListGroupInviteLinks_tx parse groupID =
     bindT (liftT (mustParseUUID parse groupID)) (\<lambda>g.
     bindT (query (ListGroupInviteLinksByGroupID g)) (\<lambda>rows.
     returnT (map toGroupInviteLink rows)))"

definition GetGroupInviteLink_tx :: "uuid_parser \<Rightarrow> string \<Rightarrow> string \<Rightarrow> GroupInviteLink chat_tx" where
  "GetGroupInviteLink_tx parse groupID inviteLinkID =
     bindT (liftT (mustParseUUID parse groupID)) (\<lambda>g.
     bindT (liftT (mustParseUUID parse inviteLinkID)) (\<lambda>i.
     bindT (query (GetGroupInviteLinkByIDAndGroupID g i)) (\<lambda>l.
     returnT (toGroupInviteLink l))))"

definition GetGroupInviteLinkForJoin_tx :: "string \<Rightarrow> GroupInviteLinkJoinTarget chat_tx" where
  "GetGroupInviteLinkForJoin_tx tokenHash =
     bindT (query (GetGroupInviteLinkForJoin_sql tokenHash)) (\<lambda>(l, r, n).
     returnT \<lparr>target_Group =
                \<lparr>group_ID = grp_ID r, group_Name = grp_Name r, group_Kind = ChatKindGroup,
                 group_CreatedByUserID = grp_CreatedByUserID r, group_SelfRole = '''', group_SelfPermissions = None,
                 group_SelfWriteRestricted = False, group_MemberCount = int32 (int n),
                 group_EncryptedPinnedMessageIDs = [], group_UnreadCount = 0, group_EncryptedUnreadCount = 0,
                 group_NotificationsEnabled = False, group_CreatedAt = grp_CreatedAt r,
                 group_UpdatedAt = grp_UpdatedAt r\<rparr>,
              target_InviteLink = toGroupInviteLink l\<rparr>)"

definition GetGroupSubjectAuthorityFacts_tx ::
    "uuid_parser \<Rightarrow> string \<Rightarrow> string \<Rightarrow> GroupSubjectAuthorityFacts chat_tx" where
  "GetGroupSubjectAuthorityFacts_tx parse groupID userID =
     bindT (liftT (mustParseUUID parse groupID)) (\<lambda>g.
     bindT (liftT (mustParseUUID parse userID)) (\<lambda>u.
     GetGroupSubjectAuthorityFacts_sql g u))"

section \<open>Writes\<close>

definition UpsertGroupNotificationPreference_tx :: "uuid_parser \<Rightarrow> string \<Rightarrow> string \<Rightarrow> bool \<Rightarrow> int \<Rightarrow> unit chat_tx" where
  "UpsertGroupNotificationPreference_tx parse groupID userID enabled t =
     bindT (liftT (mustParseUUID parse groupID)) (\<lambda>g.
     bindT (liftT (mustParseUUID parse userID)) (\<lambda>u.
     query (UpsertGroupNotificationPreference_sql g u enabled t)))"

definition SetAllGroupNotificationPreferences_tx :: "uuid_parser \<Rightarrow> string \<Rightarrow> bool \<Rightarrow> int \<Rightarrow> unit chat_tx" where
  "SetAllGroupNotificationPreferences_tx parse userID enabled t =
     bindT (liftT (mustParseUUID parse userID)) (\<lambda>u.
     query (SetAllGroupNotificationPreferencesByUserID u enabled t))"

text \<open>\<open>max > 0 && active >= max\<close>\<close>

definition within_quota :: "int \<Rightarrow> nat \<Rightarrow> bool" where
  "within_quota limit active \<longleftrightarrow> \<not> (limit > 0 \<and> int active \<ge> limit)"

definition CreateGroup_tx :: "uuid_parser \<Rightarrow> pg \<Rightarrow> CreateGroupParams \<Rightarrow> unit chat_tx" where
  "CreateGroup_tx parse pg params =
     bindT (liftT (mustParseUUID parse (cg_GroupID params))) (\<lambda>g.
     bindT (liftT (mustParseUUID parse (cg_CreatedByUserID params))) (\<lambda>u.
     bindT (query (LockGroupMembershipQuotaOwner u)) (\<lambda>_.
     bindT (query (GetActiveGroupMembershipCountByUserID u)) (\<lambda>active.
     if \<not> within_quota (cg_MaxActiveGroupMembershipsPerUser params) active then failT ErrResourceExhausted
     else
     bindT (query (CreateGroup_sql g (cg_Name params) u (cg_CreatedAt params) (cg_CreatedAt params))) (\<lambda>_.
     bindT (query (AddGroupMembership pg g u GroupMemberRoleOwner (cg_CreatedAt params))) (\<lambda>_.
     bindT (liftT (mustParseUUID parse (cg_PrimaryThreadID params))) (\<lambda>t.
     bindT (query (CreateGroupThread t g GroupThreadKeyPrimary (cg_CreatedAt params) (cg_CreatedAt params))) (\<lambda>_.
     returnT ()))))))))"

text \<open>The common shape of the writing methods: change the rows, return \<open>false\<close> when none matched, else touch the
  group.\<close>

definition change_group :: "nat chat_tx \<Rightarrow> uuid \<Rightarrow> int \<Rightarrow> bool chat_tx" where
  "change_group m g t =
     bindT (query m) (\<lambda>affected.
     if affected = 0 then returnT False
     else bindT (query (TouchGroupUpdatedAt g t)) (\<lambda>_. returnT True))"

definition UpdateGroupMemberRole_tx :: "uuid_parser \<Rightarrow> pg \<Rightarrow> string \<Rightarrow> string \<Rightarrow> string \<Rightarrow> int \<Rightarrow> bool chat_tx" where
  "UpdateGroupMemberRole_tx parse pg groupID userID role t =
     bindT (liftT (mustParseUUID parse groupID)) (\<lambda>g.
     bindT (query (LockGroupByID g)) (\<lambda>_.
     bindT (liftT (mustParseUUID parse userID)) (\<lambda>u.
     change_group (UpdateGroupMembershipRole pg g u role) g t)))"

definition SetGroupMemberWriteRestriction_tx ::
    "uuid_parser \<Rightarrow> pg \<Rightarrow> string \<Rightarrow> string \<Rightarrow> bool \<Rightarrow> int option \<Rightarrow> int \<Rightarrow> bool chat_tx" where
  "SetGroupMemberWriteRestriction_tx parse pg groupID userID restricted at t =
     bindT (liftT (mustParseUUID parse groupID)) (\<lambda>g.
     bindT (query (LockGroupByID g)) (\<lambda>_.
     bindT (liftT (mustParseUUID parse userID)) (\<lambda>u.
     change_group (SetGroupMembershipWriteRestriction pg g u restricted at) g t)))"

text \<open>A transfer whose demotion matches no row returns \<open>false\<close> without a commit; nothing was written.\<close>

definition TransferGroupOwnership_tx ::
    "uuid_parser \<Rightarrow> pg \<Rightarrow> string \<Rightarrow> string \<Rightarrow> string \<Rightarrow> int \<Rightarrow> bool chat_tx" where
  "TransferGroupOwnership_tx parse pg groupID currentOwner newOwner t =
     bindT (liftT (mustParseUUID parse groupID)) (\<lambda>g.
     bindT (query (LockGroupByID g)) (\<lambda>_.
     bindT (liftT (mustParseUUID parse currentOwner)) (\<lambda>cur.
     bindT (liftT (mustParseUUID parse newOwner)) (\<lambda>new.
     bindT (query (DemoteGroupOwnerForTransfer pg g cur new)) (\<lambda>affected.
     if affected \<noteq> 1 then returnT False
     else
     bindT (query (PromoteGroupOwnerForTransfer pg g new)) (\<lambda>affected.
     if affected \<noteq> 1 then failT ErrConflict
     else
     bindT (query (TouchGroupUpdatedAt g t)) (\<lambda>_. returnT True)))))))"

definition DeleteGroupMembership_tx :: "uuid_parser \<Rightarrow> pg \<Rightarrow> string \<Rightarrow> string \<Rightarrow> int \<Rightarrow> bool chat_tx" where
  "DeleteGroupMembership_tx parse pg groupID userID t =
     bindT (liftT (mustParseUUID parse userID)) (\<lambda>u.
     bindT (query (LockGroupMembershipQuotaOwner u)) (\<lambda>_.
     bindT (liftT (mustParseUUID parse groupID)) (\<lambda>g.
     bindT (query (LockGroupByID g)) (\<lambda>_.
     change_group (DeleteGroupMembership pg g u) g t))))"

definition CreateGroupInviteLink_tx :: "uuid_parser \<Rightarrow> CreateGroupInviteLinkParams \<Rightarrow> GroupInviteLink chat_tx" where
  "CreateGroupInviteLink_tx parse params =
     bindT (liftT (mustParseUUID parse (cl_GroupID params))) (\<lambda>g.
     bindT (query (LockGroupByID g)) (\<lambda>_.
     bindT (liftT (mustParseUUID parse (cl_InviteLinkID params))) (\<lambda>i.
     bindT (liftT (mustParseUUID parse (cl_CreatedByUserID params))) (\<lambda>u.
     bindT (query (CreateGroupInviteLink_sql i g u (cl_Role params) (cl_TokenHash params) (cl_CreatedAt params)
              (cl_CreatedAt params))) (\<lambda>row.
     bindT (query (TouchGroupUpdatedAt g (cl_CreatedAt params))) (\<lambda>_.
     returnT (toGroupInviteLink row)))))))"

definition DisableGroupInviteLink_tx :: "uuid_parser \<Rightarrow> string \<Rightarrow> string \<Rightarrow> int \<Rightarrow> bool chat_tx" where
  "DisableGroupInviteLink_tx parse groupID inviteLinkID t =
     bindT (liftT (mustParseUUID parse groupID)) (\<lambda>g.
     bindT (query (LockGroupByID g)) (\<lambda>_.
     bindT (liftT (mustParseUUID parse inviteLinkID)) (\<lambda>i.
     change_group (DisableGroupInviteLink_sql g i t) g t)))"

definition JoinGroupByInviteLink_tx :: "uuid_parser \<Rightarrow> pg \<Rightarrow> JoinGroupByInviteLinkParams \<Rightarrow> bool chat_tx" where
  "JoinGroupByInviteLink_tx parse pg params =
     bindT (liftT (mustParseUUID parse (jg_UserID params))) (\<lambda>u.
     bindT (query (LockGroupMembershipQuotaOwner u)) (\<lambda>_.
     bindT (liftT (mustParseUUID parse (jg_GroupID params))) (\<lambda>g.
     bindT (query (LockGroupByID g)) (\<lambda>_.
     bindT (liftT (mustParseUUID parse (jg_InviteLinkID params))) (\<lambda>i.
     bindT (query (GetGroupInviteLinkByIDAndGroupID g i)) (\<lambda>link.
     if l_DisabledAt link \<noteq> None then failT ErrNotFound
     else attemptT (GetGroupMemberRowByGroupIDAndUserID g u) (\<lambda>r. case r of
       Inr _ \<Rightarrow> returnT False
     | Inl err \<Rightarrow>
         if err \<noteq> ErrNoRows then failT (convertError err)
         else
         bindT (query (GetActiveGroupMembershipCountByUserID u)) (\<lambda>active.
         if \<not> within_quota (jg_MaxActiveGroupMembershipsPerUser params) active then failT ErrResourceExhausted
         else
         bindT (query (JoinGroupMembership pg g u (jg_Role params) (jg_JoinedAt params))) (\<lambda>affected.
         if affected = 0 then returnT False
         else
         bindT (query (TouchGroupInviteLinkJoin i (jg_JoinedAt params))) (\<lambda>_.
         bindT (query (TouchGroupUpdatedAt g (jg_JoinedAt params))) (\<lambda>_. returnT True)))))))))))"

end
