(* ===== verification/Session_Token.thy ===== *)
theory Session_Token
  imports Prelude
begin

text \<open>
  The session tokens of \<open>libs/go/auth/session_tokens.go\<close>, with the parts of the standard library they use:
  \<open>strings.Split\<close> and \<open>strings.Join\<close> on one separator byte, \<open>hex.EncodeToString\<close>, and the unpadded URL alphabet
  of \<open>encoding/base64\<close> with its strict decoder (which still skips line breaks). SHA-256 is a parameter.
\<close>

section \<open>Separators\<close>

fun split_on :: "char \<Rightarrow> string \<Rightarrow> string list" where
  "split_on c [] = [[]]"
| "split_on c (d # s) =
     (if d = c then [] # split_on c s
      else case split_on c s of [] \<Rightarrow> [[d]] | p # ps \<Rightarrow> (d # p) # ps)"

fun join_on :: "char \<Rightarrow> string list \<Rightarrow> string" where
  "join_on c [] = []"
| "join_on c [p] = p"
| "join_on c (p # q # ps) = p @ c # join_on c (q # ps)"

lemma split_on_not_Nil: "split_on c s \<noteq> []"
  by (cases s) (auto split: list.splits)

lemma split_on_plain: "c \<notin> set p \<Longrightarrow> split_on c p = [p]"
  by (induction p) auto

lemma split_on_step: "c \<notin> set p \<Longrightarrow> split_on c (p @ c # s) = p # split_on c s"
  by (induction p) auto

lemma join_split: "join_on c (split_on c s) = s"
proof (induction s)
  case Nil
  then show ?case by simp
next
  case (Cons d s)
  obtain p ps where ps: "split_on c s = p # ps" by (meson neq_Nil_conv split_on_not_Nil)
  with Cons show ?case by (cases ps) auto
qed

section \<open>Encodings\<close>

definition base64_alphabet :: string where
  "base64_alphabet = ''ABCDEFGHIJKLMNOPQRSTUVWXYZabcdefghijklmnopqrstuvwxyz0123456789-_''"

definition b64_char :: "nat \<Rightarrow> char" where
  "b64_char n = base64_alphabet ! n"

fun position :: "char \<Rightarrow> string \<Rightarrow> nat option" where
  "position c [] = None"
| "position c (d # s) = (if d = c then Some 0 else map_option Suc (position c s))"

definition b64_value :: "char \<Rightarrow> nat option" where
  "b64_value c = position c base64_alphabet"

definition byte :: "nat \<Rightarrow> char" where
  "byte n = char_of n"

definition val :: "char \<Rightarrow> nat" where
  "val c = of_char c"

fun b64_groups :: "nat list \<Rightarrow> nat list" where
  "b64_groups (a # b # c # s) =
     a div 4 # ((a mod 4) * 16 + b div 16) # ((b mod 16) * 4 + c div 64) # c mod 64 # b64_groups s"
| "b64_groups [a, b] = [a div 4, (a mod 4) * 16 + b div 16, (b mod 16) * 4]"
| "b64_groups [a] = [a div 4, (a mod 4) * 16]"
| "b64_groups [] = []"

definition base64_Encode :: "string \<Rightarrow> string" where
  "base64_Encode s = map b64_char (b64_groups (map val s))"

text \<open>The strict decoder wants the unused bits of the last digit to be zero.\<close>

fun b64_ungroup :: "nat list \<Rightarrow> nat list option" where
  "b64_ungroup (w # x # y # z # s) =
     map_option (\<lambda>r. (w * 4 + x div 16) # ((x mod 16) * 16 + y div 4) # ((y mod 4) * 64 + z) # r) (b64_ungroup s)"
| "b64_ungroup [w, x, y] = (if y mod 4 = 0 then Some [w * 4 + x div 16, (x mod 16) * 16 + y div 4] else None)"
| "b64_ungroup [w, x] = (if x mod 16 = 0 then Some [w * 4 + x div 16] else None)"
| "b64_ungroup [w] = None"
| "b64_ungroup [] = Some []"

fun digits :: "string \<Rightarrow> nat list option" where
  "digits [] = Some []"
| "digits (c # s) = (case b64_value c of None \<Rightarrow> None | Some n \<Rightarrow> map_option (\<lambda>r. n # r) (digits s))"

definition newline :: "char \<Rightarrow> bool" where
  "newline c \<longleftrightarrow> c = CHR 0x0A \<or> c = CHR 0x0D"

definition base64_Decode :: "string \<Rightarrow> string option" where
  "base64_Decode t =
     (case digits (filter (\<lambda>c. \<not> newline c) t) of
        None \<Rightarrow> None
      | Some ds \<Rightarrow> map_option (map byte) (b64_ungroup ds))"

definition base64_EncodedLen :: "nat \<Rightarrow> nat" where
  "base64_EncodedLen n = n div 3 * 4 + (n mod 3 * 8 + 5) div 6"

definition hex_digits :: string where
  "hex_digits = ''0123456789abcdef''"

fun hex_EncodeToString :: "string \<Rightarrow> string" where
  "hex_EncodeToString [] = []"
| "hex_EncodeToString (c # s) = hex_digits ! (val c div 16) # hex_digits ! (val c mod 16) # hex_EncodeToString s"

section \<open>The tokens\<close>

record ParsedSessionToken =
  SessionID :: string
  TokenHash :: string

definition sessionTokenVersion :: string where
  "sessionTokenVersion = ''v1''"

text \<open>\<open>NewSessionTokenManager\<close> fixes the size of a secret.\<close>

definition tokenSize :: nat where
  "tokenSize = 32"

fun canonical_from :: "nat \<Rightarrow> string \<Rightarrow> bool" where
  "canonical_from i [] = True"
| "canonical_from i (c # s) =
     ((if i \<in> {8, 13, 18, 23} then c = CHR ''-''
       else \<not> ((c < CHR ''0'' \<or> c > CHR ''9'') \<and> (c < CHR ''a'' \<or> c > CHR ''f''))) \<and>
      canonical_from (Suc i) s)"

definition canonicalSessionID :: "string \<Rightarrow> bool" where
  "canonicalSessionID value = (length value = 36 \<and> canonical_from 0 value)"

definition hashTokenSecret :: "(string \<Rightarrow> string) \<Rightarrow> string \<Rightarrow> string" where
  "hashTokenSecret sha256 secret = hex_EncodeToString (sha256 secret)"

text \<open>\<open>Issue\<close> with the secret that the random generator gave, or \<open>None\<close> when it failed.\<close>

definition Issue :: "(string \<Rightarrow> string) \<Rightarrow> string option \<Rightarrow> string \<Rightarrow> (string \<times> string) option" where
  "Issue sha256 random sessionID =
     (if \<not> canonicalSessionID sessionID then None
      else case random of
        None \<Rightarrow> None
      | Some secret \<Rightarrow>
          Some (join_on (CHR ''.'') [sessionTokenVersion, sessionID, base64_Encode secret],
                hashTokenSecret sha256 secret))"

definition Parse :: "(string \<Rightarrow> string) \<Rightarrow> string \<Rightarrow> ParsedSessionToken option" where
  "Parse sha256 token =
     (if length token \<noteq> length sessionTokenVersion + 1 + 36 + 1 + base64_EncodedLen tokenSize then None
      else case split_on (CHR ''.'') token of
        [version, sessionID, encoded] \<Rightarrow>
          if version \<noteq> sessionTokenVersion \<or> \<not> canonicalSessionID sessionID then None
          else (case base64_Decode encoded of
                  None \<Rightarrow> None
                | Some secret \<Rightarrow>
                    if length secret \<noteq> tokenSize then None
                    else Some \<lparr>SessionID = sessionID, TokenHash = hashTokenSecret sha256 secret\<rparr>)
      | _ \<Rightarrow> None)"

section \<open>The encoding is a bijection on its image\<close>

lemma val_byte: "n < 256 \<Longrightarrow> val (byte n) = n"
  by (simp add: val_def byte_def)

lemma byte_val [simp]: "byte (val c) = c"
  by (simp add: val_def byte_def)

lemma val_less: "val c < 256"
  by (simp add: val_def)

lemma b64_groups_less: "\<forall>n\<in>set ns. n < 256 \<Longrightarrow> \<forall>n\<in>set (b64_groups ns). n < 64"
proof (induction ns rule: b64_groups.induct)
  case (1 a b c s)
  then have "a < 256" "b < 256" "c < 256" "\<forall>n\<in>set (b64_groups s). n < 64" by auto
  then show ?case by auto
qed auto

lemma b64_ungroup_groups: "\<forall>n\<in>set ns. n < 256 \<Longrightarrow> b64_ungroup (b64_groups ns) = Some ns"
  by (induction ns rule: b64_groups.induct) auto

lemma b64_groups_ungroup:
  "\<forall>n\<in>set ds. n < 64 \<Longrightarrow> b64_ungroup ds = Some ns \<Longrightarrow> b64_groups ns = ds \<and> (\<forall>n\<in>set ns. n < 256)"
proof (induction ds arbitrary: ns rule: b64_ungroup.induct)
  case (1 w x y z s)
  then obtain r where r: "b64_ungroup s = Some r"
    "ns = (w * 4 + x div 16) # ((x mod 16) * 16 + y div 4) # ((y mod 4) * 64 + z) # r" by auto
  with 1 have "b64_groups r = s" "\<forall>n\<in>set r. n < 256" by auto
  with 1 r show ?case by auto
qed (auto split: if_splits)

lemma length_b64_groups: "length (b64_groups ns) = base64_EncodedLen (length ns)"
proof (induction ns rule: b64_groups.induct)
  case (1 a b c s)
  have "(3 + length s) div 3 = Suc (length s div 3)" by simp
  with 1 show ?case by (simp add: base64_EncodedLen_def)
qed (auto simp: base64_EncodedLen_def)

lemma position_Some: "position c s = Some n \<longleftrightarrow> n < length s \<and> s ! n = c \<and> c \<notin> set (take n s)"
proof (induction s arbitrary: n)
  case (Cons d s)
  then show ?case by (cases n) auto
qed simp

lemma alphabet_distinct: "distinct base64_alphabet"
  by (simp add: base64_alphabet_def)

lemma alphabet_length: "length base64_alphabet = 64"
  by (simp add: base64_alphabet_def)

lemma b64_value_char: "n < 64 \<Longrightarrow> b64_value (b64_char n) = Some n"
  using alphabet_distinct
  by (auto simp: b64_value_def b64_char_def position_Some alphabet_length in_set_conv_nth nth_eq_iff_index_eq)

lemma b64_value_Some: "b64_value c = Some n \<Longrightarrow> n < 64 \<and> b64_char n = c"
  by (auto simp: b64_value_def b64_char_def position_Some alphabet_length)

lemma b64_char_plain: "n < 64 \<Longrightarrow> b64_char n \<noteq> CHR ''.'' \<and> \<not> newline (b64_char n)"
proof -
  assume "n < 64"
  then have "b64_char n \<in> set base64_alphabet" by (simp add: b64_char_def alphabet_length)
  moreover have "\<forall>c\<in>set base64_alphabet. c \<noteq> CHR ''.'' \<and> \<not> newline c"
    by (simp add: base64_alphabet_def newline_def)
  ultimately show ?thesis by blast
qed

lemma digits_map: "\<forall>n\<in>set ds. n < 64 \<Longrightarrow> digits (map b64_char ds) = Some ds"
  by (induction ds) (auto simp: b64_value_char)

lemma digits_Some: "digits t = Some ds \<Longrightarrow> t = map b64_char ds \<and> (\<forall>n\<in>set ds. n < 64)"
  by (induction t arbitrary: ds) (auto split: option.splits dest: b64_value_Some)

lemma base64_groups_of: "\<forall>n\<in>set (b64_groups (map val s)). n < 64"
  by (rule b64_groups_less) (simp add: val_less)

lemma base64_Encode_plain: "c \<in> set (base64_Encode s) \<Longrightarrow> c \<noteq> CHR ''.'' \<and> \<not> newline c"
  using base64_groups_of b64_char_plain by (auto simp: base64_Encode_def)

lemma length_base64_Encode: "length (base64_Encode s) = base64_EncodedLen (length s)"
  by (simp add: base64_Encode_def length_b64_groups)

lemma base64_roundtrip: "base64_Decode (base64_Encode s) = Some s"
proof -
  have "filter (\<lambda>c. \<not> newline c) (base64_Encode s) = base64_Encode s"
    by (rule filter_True) (use base64_Encode_plain in blast)
  moreover have "digits (base64_Encode s) = Some (b64_groups (map val s))"
    unfolding base64_Encode_def by (rule digits_map) (rule base64_groups_of)
  moreover have "b64_ungroup (b64_groups (map val s)) = Some (map val s)"
    by (rule b64_ungroup_groups) (simp add: val_less)
  ultimately show ?thesis by (simp add: base64_Decode_def o_def)
qed

lemma base64_Decode_Some:
  assumes "base64_Decode t = Some s"
  shows "filter (\<lambda>c. \<not> newline c) t = base64_Encode s"
proof -
  from assms obtain ds ns where ds: "digits (filter (\<lambda>c. \<not> newline c) t) = Some ds"
    and ns: "b64_ungroup ds = Some ns" and s: "s = map byte ns"
    by (auto simp: base64_Decode_def split: option.splits)
  from digits_Some [OF ds] have t: "filter (\<lambda>c. \<not> newline c) t = map b64_char ds" "\<forall>n\<in>set ds. n < 64" by auto
  from b64_groups_ungroup [OF t(2) ns] have "b64_groups ns = ds" "\<forall>n\<in>set ns. n < 256" by auto
  moreover from this have "map val s = ns" by (simp add: s o_def val_byte map_idI)
  ultimately show ?thesis by (simp add: t base64_Encode_def)
qed

lemma canonical_from_plain: "canonical_from i s \<Longrightarrow> CHR ''.'' \<notin> set s"
  by (induction s arbitrary: i) (auto split: if_splits)

lemma canonicalSessionID_plain: "canonicalSessionID s \<Longrightarrow> CHR ''.'' \<notin> set s \<and> length s = 36"
  by (auto simp: canonicalSessionID_def dest: canonical_from_plain)

section \<open>Parsing inverts issuing\<close>

lemma Parse_Issue:
  assumes "length secret = tokenSize" and "Issue sha256 (Some secret) sid = Some (token, h)"
  shows "Parse sha256 token = Some \<lparr>SessionID = sid, TokenHash = h\<rparr>"
proof -
  from assms(2) have sid: "canonicalSessionID sid" and h: "h = hashTokenSecret sha256 secret"
    and token: "token = ''v1'' @ CHR ''.'' # sid @ CHR ''.'' # base64_Encode secret"
    by (auto simp: Issue_def sessionTokenVersion_def split: if_splits)
  have "split_on (CHR ''.'') (base64_Encode secret) = [base64_Encode secret]"
    by (rule split_on_plain) (use base64_Encode_plain in blast)
  then have "split_on (CHR ''.'') token = [''v1'', sid, base64_Encode secret]"
    using canonicalSessionID_plain [OF sid] by (simp add: token split_on_step)
  moreover have "length token = 2 + 1 + 36 + 1 + base64_EncodedLen tokenSize"
    using canonicalSessionID_plain [OF sid] assms(1) by (simp add: token length_base64_Encode)
  ultimately show ?thesis
    using sid assms(1) by (simp add: Parse_def sessionTokenVersion_def base64_roundtrip h)
qed

lemma Issue_Parse:
  assumes "Parse sha256 token = Some p"
  shows "\<exists>secret. length secret = tokenSize \<and> Issue sha256 (Some secret) (SessionID p) = Some (token, TokenHash p)"
proof -
  from assms obtain sid encoded secret where
    len: "length token = 2 + 1 + 36 + 1 + base64_EncodedLen tokenSize"
    and parts: "split_on (CHR ''.'') token = [''v1'', sid, encoded]" and sid: "canonicalSessionID sid"
    and decode: "base64_Decode encoded = Some secret" and size: "length secret = tokenSize"
    and p: "p = \<lparr>SessionID = sid, TokenHash = hashTokenSecret sha256 secret\<rparr>"
    by (auto simp: Parse_def sessionTokenVersion_def split: if_splits list.splits option.splits)
  from parts have token: "token = join_on (CHR ''.'') [''v1'', sid, encoded]" by (metis join_split)
  from base64_Decode_Some [OF decode] have f: "filter (\<lambda>c. \<not> newline c) encoded = base64_Encode secret" .
  have "length encoded = base64_EncodedLen tokenSize"
    using len canonicalSessionID_plain [OF sid] by (simp add: token)
  then have "length (filter (\<lambda>c. \<not> newline c) encoded) = length encoded"
    by (simp add: f length_base64_Encode size)
  then have "encoded = base64_Encode secret" by (metis f length_filter_less filter_True less_irrefl)
  with token sid have "Issue sha256 (Some secret) sid = Some (token, hashTokenSecret sha256 secret)"
    by (simp add: Issue_def sessionTokenVersion_def)
  with size p show ?thesis by auto
qed

text \<open>C13: A session token is accepted exactly when \<open>Issue\<close> makes it: \<open>Parse\<close> succeeds with a session and a hash
  if and only if there is a secret of 32 bytes for which \<open>Issue\<close> returns this very token and hash. So parsing
  inverts issuing and no token has a second spelling.\<close>

theorem Parse_iff_Issue:
  "Parse sha256 token = Some p \<longleftrightarrow>
     (\<exists>secret. length secret = tokenSize \<and> Issue sha256 (Some secret) (SessionID p) = Some (token, TokenHash p))"
  using Issue_Parse Parse_Issue by fastforce

end
