(* ===== verification/Chat_Service.thy ===== *)
theory Chat_Service
  imports Chat_Repository Session_Token
begin

text \<open>
  The group operations of \<open>internal/domain/chat/service.go\<close> over the interfaces the service holds: the
  repository, the typing store, the clock, the generators. They are programs over a world \<open>'w\<close> that the service
  never looks into. The locale \<open>chat_repository\<close> states what they must keep for the service to keep it.
\<close>

section \<open>The interfaces\<close>

record 'w ChatRepository =
  repo_GetSessionAuthByID :: "string \<Rightarrow> ('w, chat_error, SessionAuth) prog"
  repo_TouchSession :: "string \<Rightarrow> string \<Rightarrow> int \<Rightarrow> ('w, chat_error, unit) prog"
  repo_CreateGroup :: "CreateGroupParams \<Rightarrow> ('w, chat_error, Group) prog"
  repo_ListGroups :: "string \<Rightarrow> ('w, chat_error, Group list) prog"
  repo_GetGroup :: "string \<Rightarrow> string \<Rightarrow> ('w, chat_error, Group) prog"
  repo_UpsertGroupNotificationPreference :: "string \<Rightarrow> string \<Rightarrow> bool \<Rightarrow> int \<Rightarrow> ('w, chat_error, unit) prog"
  repo_GetGroupChatThread :: "string \<Rightarrow> string \<Rightarrow> ('w, chat_error, GroupChatThread) prog"
  repo_ListGroupMembers :: "string \<Rightarrow> string \<Rightarrow> ('w, chat_error, GroupMember list) prog"
  repo_GetGroupMember :: "string \<Rightarrow> string \<Rightarrow> ('w, chat_error, GroupMember) prog"
  repo_UpdateGroupMemberRole :: "string \<Rightarrow> string \<Rightarrow> string \<Rightarrow> int \<Rightarrow> ('w, chat_error, bool) prog"
  repo_SetGroupMemberWriteRestriction ::
    "string \<Rightarrow> string \<Rightarrow> bool \<Rightarrow> int option \<Rightarrow> int \<Rightarrow> ('w, chat_error, bool) prog"
  repo_TransferGroupOwnership :: "string \<Rightarrow> string \<Rightarrow> string \<Rightarrow> int \<Rightarrow> ('w, chat_error, bool) prog"
  repo_DeleteGroupMembership :: "string \<Rightarrow> string \<Rightarrow> int \<Rightarrow> ('w, chat_error, bool) prog"
  repo_CreateGroupInviteLink :: "CreateGroupInviteLinkParams \<Rightarrow> ('w, chat_error, GroupInviteLink) prog"
  repo_ListGroupInviteLinks :: "string \<Rightarrow> ('w, chat_error, GroupInviteLink list) prog"
  repo_GetGroupInviteLink :: "string \<Rightarrow> string \<Rightarrow> ('w, chat_error, GroupInviteLink) prog"
  repo_DisableGroupInviteLink :: "string \<Rightarrow> string \<Rightarrow> int \<Rightarrow> ('w, chat_error, bool) prog"
  repo_GetGroupInviteLinkForJoin :: "string \<Rightarrow> ('w, chat_error, GroupInviteLinkJoinTarget) prog"
  repo_JoinGroupByInviteLink :: "JoinGroupByInviteLinkParams \<Rightarrow> ('w, chat_error, bool) prog"

text \<open>\<open>svc_random\<close> reads the 32 bytes of an invite token; an error of the reader is \<open>ErrOther\<close>.\<close>

record 'w ChatService =
  svc_repo :: "'w ChatRepository"
  svc_ClearGroupTypingIndicator :: "string \<Rightarrow> string \<Rightarrow> string \<Rightarrow> ('w, chat_error, unit) prog"
  svc_sessionTouchInterval :: int
  svc_maxActiveGroupMembershipsPerUser :: int
  svc_random :: "('w, chat_error, string) prog"
  svc_now :: "('w, chat_error, int) prog"
  svc_newID :: "('w, chat_error, string) prog"
  svc_sha256 :: "string \<Rightarrow> string"
  svc_parse :: uuid_parser

definition defaultSessionTouchInterval :: int where
  "defaultSessionTouchInterval = 15 * 1000000000"

definition NewChatService ::
    "'w ChatRepository \<Rightarrow> (string \<Rightarrow> string \<Rightarrow> string \<Rightarrow> ('w, chat_error, unit) prog) \<Rightarrow> int \<Rightarrow>
     ('w, chat_error, string) prog \<Rightarrow> ('w, chat_error, int) prog \<Rightarrow> ('w, chat_error, string) prog \<Rightarrow>
     (string \<Rightarrow> string) \<Rightarrow> uuid_parser \<Rightarrow> 'w ChatService" where
  "NewChatService repo clearTyping maxMemberships randReader time_Now uuid_NewString sha256 parse =
     \<lparr>svc_repo = repo, svc_ClearGroupTypingIndicator = clearTyping,
      svc_sessionTouchInterval = defaultSessionTouchInterval,
      svc_maxActiveGroupMembershipsPerUser =
        (if maxMemberships \<le> 0 then defaultMaxActiveGroupMembershipsPerUser else maxMemberships),
      svc_random = randReader, svc_now = time_Now, svc_newID = uuid_NewString, svc_sha256 = sha256,
      svc_parse = parse\<rparr>"

section \<open>Authentication\<close>

text \<open>The zero \<open>time.Time\<close> is the first instant of the year 1.\<close>

definition time_Zero :: int where
  "time_Zero = -62135596800 * 1000000000"

definition shouldTouchSession :: "int \<Rightarrow> int \<Rightarrow> int \<Rightarrow> bool" where
  "shouldTouchSession lastSeenAt at minInterval =
     (if minInterval \<le> 0 then True else if lastSeenAt = time_Zero then True else at - lastSeenAt \<ge> minInterval)"

definition authenticate :: "'w ChatService \<Rightarrow> string \<Rightarrow> ('w, chat_error, SessionAuth) prog" where
  "authenticate s token =
     (case Parse (svc_sha256 s) token of
        None \<Rightarrow> failE ErrUnauthorized
      | Some parsed \<Rightarrow>
          bindE (repo_GetSessionAuthByID (svc_repo s) (SessionID parsed)) (\<lambda>authSession.
          if sa_SessionRevokedAt authSession \<noteq> None \<or> sa_DeviceRevokedAt authSession \<noteq> None then failE ErrUnauthorized
          else if sa_TokenHash authSession \<noteq> TokenHash parsed then failE ErrUnauthorized
          else bindE (svc_now s) (\<lambda>touchedAt.
          if shouldTouchSession (sa_SessionLastSeenAt authSession) touchedAt (svc_sessionTouchInterval s) \<or>
             shouldTouchSession (sa_DeviceLastSeenAt authSession) touchedAt (svc_sessionTouchInterval s)
          then bindE (repo_TouchSession (svc_repo s) (sa_SessionID authSession) (sa_DeviceID authSession) touchedAt) (\<lambda>_.
               returnE (authSession\<lparr>sa_SessionLastSeenAt := touchedAt, sa_DeviceLastSeenAt := touchedAt\<rparr>))
          else returnE authSession)))"

definition caller :: "SessionAuth \<Rightarrow> string" where
  "caller authSession = us_ID (sa_User authSession)"

section \<open>Groups\<close>

definition enrichGroupPolicy :: "Group \<Rightarrow> Group" where
  "enrichGroupPolicy g = g\<lparr>group_SelfPermissions := Some (buildGroupPermissions (group_SelfRole g))\<rparr>"

definition CreateGroup :: "'w ChatService \<Rightarrow> string \<Rightarrow> string \<Rightarrow> ('w, chat_error, Group) prog" where
  "CreateGroup s token name =
     bindE (authenticate s token) (\<lambda>authSession.
     bindE (liftE (normalizeGroupName name)) (\<lambda>normalizedName.
     bindE (svc_now s) (\<lambda>at.
     bindE (svc_newID s) (\<lambda>groupID.
     bindE (svc_newID s) (\<lambda>threadID.
     bindE (repo_CreateGroup (svc_repo s)
              \<lparr>cg_GroupID = groupID, cg_PrimaryThreadID = threadID, cg_Name = normalizedName,
               cg_CreatedByUserID = caller authSession, cg_CreatedAt = at,
               cg_MaxActiveGroupMembershipsPerUser = svc_maxActiveGroupMembershipsPerUser s\<rparr>) (\<lambda>g.
     returnE (enrichGroupPolicy g)))))))"

definition ListGroups :: "'w ChatService \<Rightarrow> string \<Rightarrow> ('w, chat_error, Group list) prog" where
  "ListGroups s token =
     bindE (authenticate s token) (\<lambda>authSession.
     bindE (repo_ListGroups (svc_repo s) (caller authSession)) (\<lambda>gs. returnE (map enrichGroupPolicy gs)))"

definition GetGroup :: "'w ChatService \<Rightarrow> string \<Rightarrow> string \<Rightarrow> ('w, chat_error, Group) prog" where
  "GetGroup s token groupID =
     bindE (authenticate s token) (\<lambda>authSession.
     bindE (liftE (normalizeID (svc_parse s) groupID)) (\<lambda>gid.
     bindE (repo_GetGroup (svc_repo s) (caller authSession) gid) (\<lambda>g. returnE (enrichGroupPolicy g))))"

definition SetGroupNotifications :: "'w ChatService \<Rightarrow> string \<Rightarrow> string \<Rightarrow> bool \<Rightarrow> ('w, chat_error, Group) prog" where
  "SetGroupNotifications s token groupID enabled =
     bindE (authenticate s token) (\<lambda>authSession.
     bindE (liftE (normalizeID (svc_parse s) groupID)) (\<lambda>gid.
     bindE (repo_GetGroup (svc_repo s) (caller authSession) gid) (\<lambda>_.
     bindE (svc_now s) (\<lambda>at.
     bindE (repo_UpsertGroupNotificationPreference (svc_repo s) gid (caller authSession) enabled at) (\<lambda>_.
     bindE (repo_GetGroup (svc_repo s) (caller authSession) gid) (\<lambda>g. returnE (enrichGroupPolicy g)))))))"

definition resolveGroupChat :: "'w ChatService \<Rightarrow> string \<Rightarrow> string \<Rightarrow> ('w, chat_error, Group \<times> GroupChatThread) prog" where
  "resolveGroupChat s userID groupID =
     bindE (liftE (normalizeID (svc_parse s) groupID)) (\<lambda>gid.
     bindE (repo_GetGroup (svc_repo s) userID gid) (\<lambda>g.
     bindE (repo_GetGroupChatThread (svc_repo s) userID gid) (\<lambda>thread.
     returnE (enrichGroupPolicy g,
              thread\<lparr>thread_CanSendMessages := canSendGroupMessages (group_SelfRole g) (group_SelfWriteRestricted g)\<rparr>))))"

definition ListGroupMembers :: "'w ChatService \<Rightarrow> string \<Rightarrow> string \<Rightarrow> ('w, chat_error, GroupMember list) prog" where
  "ListGroupMembers s token groupID =
     bindE (authenticate s token) (\<lambda>authSession.
     bindE (liftE (normalizeID (svc_parse s) groupID)) (\<lambda>gid.
     repo_ListGroupMembers (svc_repo s) (caller authSession) gid))"

text \<open>The steps that the operations on a member share: clear the typing indicator in the primary thread.\<close>

definition clear_typing :: "'w ChatService \<Rightarrow> string \<Rightarrow> string \<Rightarrow> string \<Rightarrow> ('w, chat_error, unit) prog" where
  "clear_typing s userID gid target =
     bindE (repo_GetGroupChatThread (svc_repo s) userID gid) (\<lambda>thread.
     svc_ClearGroupTypingIndicator s gid (thread_ID thread) target)"

definition UpdateGroupMemberRole ::
    "'w ChatService \<Rightarrow> string \<Rightarrow> string \<Rightarrow> string \<Rightarrow> string \<Rightarrow> ('w, chat_error, GroupMember) prog" where
  "UpdateGroupMemberRole s token groupID targetUserID role =
     bindE (authenticate s token) (\<lambda>authSession.
     bindE (liftE (normalizeID (svc_parse s) groupID)) (\<lambda>gid.
     bindE (liftE (normalizeID (svc_parse s) targetUserID)) (\<lambda>target.
     bindE (repo_GetGroup (svc_repo s) (caller authSession) gid) (\<lambda>g.
     if \<not> canManageGroupMemberRoles (group_SelfRole g) then failE ErrPermissionDenied
     else
     bindE (repo_GetGroupMember (svc_repo s) gid target) (\<lambda>targetMember.
     if gm_Role targetMember = GroupMemberRoleOwner then failE ErrConflict
     else if target = caller authSession then failE ErrConflict
     else if \<not> canManageRoleForTarget (group_SelfRole g) (gm_Role targetMember) then failE ErrPermissionDenied
     else
     bindE (liftE (normalizeManagedGroupRole role)) (\<lambda>targetRole.
     if \<not> canAssignGroupRole (group_SelfRole g) targetRole then failE ErrPermissionDenied
     else if gm_Role targetMember = targetRole then returnE targetMember
     else
     bindE (svc_now s) (\<lambda>at.
     bindE (repo_UpdateGroupMemberRole (svc_repo s) gid target targetRole at) (\<lambda>updated.
     if \<not> updated then repo_GetGroupMember (svc_repo s) gid target
     else
     bindE (if targetRole = GroupMemberRoleReader then clear_typing s (caller authSession) gid target
            else returnE ()) (\<lambda>_.
     repo_GetGroupMember (svc_repo s) gid target)))))))))"

definition TransferGroupOwnership :: "'w ChatService \<Rightarrow> string \<Rightarrow> string \<Rightarrow> string \<Rightarrow> ('w, chat_error, Group) prog" where
  "TransferGroupOwnership s token groupID targetUserID =
     bindE (authenticate s token) (\<lambda>authSession.
     bindE (liftE (normalizeID (svc_parse s) groupID)) (\<lambda>gid.
     bindE (liftE (normalizeID (svc_parse s) targetUserID)) (\<lambda>target.
     bindE (repo_GetGroup (svc_repo s) (caller authSession) gid) (\<lambda>g.
     if \<not> canTransferGroupOwnership (group_SelfRole g) then failE ErrPermissionDenied
     else if target = caller authSession then failE ErrConflict
     else
     bindE (repo_GetGroupMember (svc_repo s) gid target) (\<lambda>targetMember.
     if gm_Role targetMember = GroupMemberRoleOwner then failE ErrConflict
     else if gm_IsWriteRestricted targetMember then failE ErrConflict
     else
     bindE (svc_now s) (\<lambda>at.
     bindE (repo_TransferGroupOwnership (svc_repo s) gid (caller authSession) target at) (\<lambda>transferred.
     if \<not> transferred then failE ErrConflict
     else
     bindE (repo_GetGroup (svc_repo s) (caller authSession) gid) (\<lambda>g. returnE (enrichGroupPolicy g)))))))))"

definition RemoveGroupMember :: "'w ChatService \<Rightarrow> string \<Rightarrow> string \<Rightarrow> string \<Rightarrow> ('w, chat_error, unit) prog" where
  "RemoveGroupMember s token groupID targetUserID =
     bindE (authenticate s token) (\<lambda>authSession.
     bindE (liftE (normalizeID (svc_parse s) groupID)) (\<lambda>gid.
     bindE (liftE (normalizeID (svc_parse s) targetUserID)) (\<lambda>target.
     bindE (repo_GetGroup (svc_repo s) (caller authSession) gid) (\<lambda>g.
     if target = caller authSession then failE ErrConflict
     else
     bindE (repo_GetGroupMember (svc_repo s) gid target) (\<lambda>targetMember.
     if gm_Role targetMember = GroupMemberRoleOwner then failE ErrConflict
     else if \<not> canRemoveGroupMember (group_SelfRole g) (gm_Role targetMember) then failE ErrPermissionDenied
     else
     bindE (clear_typing s (caller authSession) gid target) (\<lambda>_.
     bindE (svc_now s) (\<lambda>at.
     bindE (repo_DeleteGroupMembership (svc_repo s) gid target at) (\<lambda>deleted.
     if \<not> deleted then failE ErrNotFound else returnE ()))))))))"

definition RestrictGroupMember :: "'w ChatService \<Rightarrow> string \<Rightarrow> string \<Rightarrow> string \<Rightarrow> ('w, chat_error, GroupMember) prog" where
  "RestrictGroupMember s token groupID targetUserID =
     bindE (authenticate s token) (\<lambda>authSession.
     bindE (liftE (normalizeID (svc_parse s) groupID)) (\<lambda>gid.
     bindE (liftE (normalizeID (svc_parse s) targetUserID)) (\<lambda>target.
     if target = caller authSession then failE ErrConflict
     else
     bindE (repo_GetGroup (svc_repo s) (caller authSession) gid) (\<lambda>g.
     bindE (repo_GetGroupMember (svc_repo s) gid target) (\<lambda>targetMember.
     if gm_Role targetMember = GroupMemberRoleOwner then failE ErrConflict
     else if \<not> canRestrictGroupMember (group_SelfRole g) (gm_Role targetMember) then failE ErrPermissionDenied
     else if gm_IsWriteRestricted targetMember then returnE targetMember
     else
     bindE (svc_now s) (\<lambda>at.
     bindE (repo_SetGroupMemberWriteRestriction (svc_repo s) gid target True (Some at) at) (\<lambda>_.
     bindE (clear_typing s (caller authSession) gid target) (\<lambda>_.
     repo_GetGroupMember (svc_repo s) gid target))))))))"

definition UnrestrictGroupMember :: "'w ChatService \<Rightarrow> string \<Rightarrow> string \<Rightarrow> string \<Rightarrow> ('w, chat_error, GroupMember) prog" where
  "UnrestrictGroupMember s token groupID targetUserID =
     bindE (authenticate s token) (\<lambda>authSession.
     bindE (liftE (normalizeID (svc_parse s) groupID)) (\<lambda>gid.
     bindE (liftE (normalizeID (svc_parse s) targetUserID)) (\<lambda>target.
     if target = caller authSession then failE ErrConflict
     else
     bindE (repo_GetGroup (svc_repo s) (caller authSession) gid) (\<lambda>g.
     bindE (repo_GetGroupMember (svc_repo s) gid target) (\<lambda>targetMember.
     if gm_Role targetMember = GroupMemberRoleOwner then failE ErrConflict
     else if \<not> canRestrictGroupMember (group_SelfRole g) (gm_Role targetMember) then failE ErrPermissionDenied
     else if \<not> gm_IsWriteRestricted targetMember then returnE targetMember
     else
     bindE (svc_now s) (\<lambda>at.
     bindE (repo_SetGroupMemberWriteRestriction (svc_repo s) gid target False None at) (\<lambda>_.
     repo_GetGroupMember (svc_repo s) gid target)))))))"

definition LeaveGroup :: "'w ChatService \<Rightarrow> string \<Rightarrow> string \<Rightarrow> ('w, chat_error, unit) prog" where
  "LeaveGroup s token groupID =
     bindE (authenticate s token) (\<lambda>authSession.
     bindE (liftE (normalizeID (svc_parse s) groupID)) (\<lambda>gid.
     bindE (repo_GetGroup (svc_repo s) (caller authSession) gid) (\<lambda>g.
     if group_SelfRole g = GroupMemberRoleOwner then failE ErrConflict
     else
     bindE (clear_typing s (caller authSession) gid (caller authSession)) (\<lambda>_.
     bindE (svc_now s) (\<lambda>at.
     bindE (repo_DeleteGroupMembership (svc_repo s) gid (caller authSession) at) (\<lambda>deleted.
     if \<not> deleted then failE ErrNotFound else returnE ()))))))"

section \<open>Invite links\<close>

record CreatedGroupInviteLink =
  created_InviteLink :: GroupInviteLink
  created_InviteToken :: string

record GroupInvitePreview =
  preview_GroupID :: string
  preview_GroupName :: string
  preview_InviteRole :: string
  preview_MemberCount :: int
  preview_AlreadyJoined :: bool

definition hashInviteToken :: "(string \<Rightarrow> string) \<Rightarrow> string \<Rightarrow> string" where
  "hashInviteToken sha256 token = hex_EncodeToString (sha256 token)"

definition newGroupInviteToken :: "'w ChatService \<Rightarrow> ('w, chat_error, string \<times> string) prog" where
  "newGroupInviteToken s =
     bindE (svc_random s) (\<lambda>secret.
     let token = ''ginv_'' @ base64_Encode secret in returnE (token, hashInviteToken (svc_sha256 s) token))"

definition CreateGroupInviteLink ::
    "'w ChatService \<Rightarrow> string \<Rightarrow> string \<Rightarrow> string \<Rightarrow> ('w, chat_error, CreatedGroupInviteLink) prog" where
  "CreateGroupInviteLink s token groupID role =
     bindE (authenticate s token) (\<lambda>authSession.
     bindE (liftE (normalizeID (svc_parse s) groupID)) (\<lambda>gid.
     bindE (repo_GetGroup (svc_repo s) (caller authSession) gid) (\<lambda>g.
     if \<not> canManageGroupInviteLinks (group_SelfRole g) then failE ErrPermissionDenied
     else
     bindE (liftE (normalizeGroupInviteRole role)) (\<lambda>targetRole.
     if \<not> canCreateInviteForRole (group_SelfRole g) targetRole then failE ErrPermissionDenied
     else
     bindE (newGroupInviteToken s) (\<lambda>(inviteToken, tokenHash).
     bindE (svc_now s) (\<lambda>at.
     bindE (svc_newID s) (\<lambda>linkID.
     bindE (repo_CreateGroupInviteLink (svc_repo s)
              \<lparr>cl_InviteLinkID = linkID, cl_GroupID = gid, cl_CreatedByUserID = caller authSession,
               cl_Role = targetRole, cl_TokenHash = tokenHash, cl_CreatedAt = at\<rparr>) (\<lambda>link.
     returnE \<lparr>created_InviteLink = link, created_InviteToken = inviteToken\<rparr>))))))))"

definition ListGroupInviteLinks :: "'w ChatService \<Rightarrow> string \<Rightarrow> string \<Rightarrow> ('w, chat_error, GroupInviteLink list) prog" where
  "ListGroupInviteLinks s token groupID =
     bindE (authenticate s token) (\<lambda>authSession.
     bindE (liftE (normalizeID (svc_parse s) groupID)) (\<lambda>gid.
     bindE (repo_GetGroup (svc_repo s) (caller authSession) gid) (\<lambda>g.
     if \<not> canManageGroupInviteLinks (group_SelfRole g) then failE ErrPermissionDenied
     else repo_ListGroupInviteLinks (svc_repo s) gid)))"

definition DisableGroupInviteLink ::
    "'w ChatService \<Rightarrow> string \<Rightarrow> string \<Rightarrow> string \<Rightarrow> ('w, chat_error, GroupInviteLink) prog" where
  "DisableGroupInviteLink s token groupID inviteLinkID =
     bindE (authenticate s token) (\<lambda>authSession.
     bindE (liftE (normalizeID (svc_parse s) groupID)) (\<lambda>gid.
     bindE (liftE (normalizeID (svc_parse s) inviteLinkID)) (\<lambda>linkID.
     bindE (repo_GetGroup (svc_repo s) (caller authSession) gid) (\<lambda>g.
     if \<not> canManageGroupInviteLinks (group_SelfRole g) then failE ErrPermissionDenied
     else
     bindE (repo_GetGroupInviteLink (svc_repo s) gid linkID) (\<lambda>link.
     if \<not> canCreateInviteForRole (group_SelfRole g) (link_Role link) then failE ErrPermissionDenied
     else if link_DisabledAt link \<noteq> None then returnE link
     else
     bindE (svc_now s) (\<lambda>at.
     bindE (repo_DisableGroupInviteLink (svc_repo s) gid linkID at) (\<lambda>_.
     repo_GetGroupInviteLink (svc_repo s) gid linkID)))))))"

definition JoinGroupByInviteLink :: "'w ChatService \<Rightarrow> string \<Rightarrow> string \<Rightarrow> ('w, chat_error, Group) prog" where
  "JoinGroupByInviteLink s token inviteToken =
     bindE (authenticate s token) (\<lambda>authSession.
     bindE (liftE (normalizeInviteToken inviteToken)) (\<lambda>normalizedInviteToken.
     bindE (repo_GetGroupInviteLinkForJoin (svc_repo s) (hashInviteToken (svc_sha256 s) normalizedInviteToken)) (\<lambda>target.
     if link_DisabledAt (target_InviteLink target) \<noteq> None then failE ErrNotFound
     else
     bindE (svc_now s) (\<lambda>at.
     bindE (repo_JoinGroupByInviteLink (svc_repo s)
              \<lparr>jg_GroupID = group_ID (target_Group target), jg_UserID = caller authSession,
               jg_Role = link_Role (target_InviteLink target), jg_InviteLinkID = link_ID (target_InviteLink target),
               jg_JoinedAt = at,
               jg_MaxActiveGroupMembershipsPerUser = svc_maxActiveGroupMembershipsPerUser s\<rparr>) (\<lambda>_.
     bindE (repo_GetGroup (svc_repo s) (caller authSession) (group_ID (target_Group target))) (\<lambda>g.
     returnE (enrichGroupPolicy g)))))))"

definition PreviewGroupByInviteLink :: "'w ChatService \<Rightarrow> string \<Rightarrow> string \<Rightarrow> ('w, chat_error, GroupInvitePreview) prog" where
  "PreviewGroupByInviteLink s token inviteToken =
     bindE (authenticate s token) (\<lambda>authSession.
     bindE (liftE (normalizeInviteToken inviteToken)) (\<lambda>normalizedInviteToken.
     bindE (repo_GetGroupInviteLinkForJoin (svc_repo s) (hashInviteToken (svc_sha256 s) normalizedInviteToken)) (\<lambda>target.
     if link_DisabledAt (target_InviteLink target) \<noteq> None then failE ErrNotFound
     else
     attemptE (repo_GetGroup (svc_repo s) (caller authSession) (group_ID (target_Group target))) (\<lambda>r.
     let preview = (\<lambda>joined. \<lparr>preview_GroupID = group_ID (target_Group target),
           preview_GroupName = group_Name (target_Group target), preview_InviteRole = link_Role (target_InviteLink target),
           preview_MemberCount = group_MemberCount (target_Group target), preview_AlreadyJoined = joined\<rparr>)
     in case r of
          Inr _ \<Rightarrow> returnE (preview True)
        | Inl err \<Rightarrow> if err = ErrNotFound then returnE (preview False) else failE err))))"

section \<open>What the service keeps\<close>

locale chat_repository =
  fixes s :: "'w ChatService" and I :: "'w \<Rightarrow> bool"
  assumes sessions: "pres I (repo_GetSessionAuthByID (svc_repo s) a)"
      "pres I (repo_TouchSession (svc_repo s) a b t)"
    and reads: "pres I (repo_ListGroups (svc_repo s) a)" "pres I (repo_GetGroup (svc_repo s) a b)"
      "pres I (repo_GetGroupChatThread (svc_repo s) a b)" "pres I (repo_ListGroupMembers (svc_repo s) a b)"
      "pres I (repo_GetGroupMember (svc_repo s) a b)" "pres I (repo_ListGroupInviteLinks (svc_repo s) a)"
      "pres I (repo_GetGroupInviteLink (svc_repo s) a b)" "pres I (repo_GetGroupInviteLinkForJoin (svc_repo s) a)"
    and writes: "cg_MaxActiveGroupMembershipsPerUser cg = svc_maxActiveGroupMembershipsPerUser s \<Longrightarrow>
         pres I (repo_CreateGroup (svc_repo s) cg)"
      "pres I (repo_UpsertGroupNotificationPreference (svc_repo s) a b flag t)"
      "role \<in> {''admin'', ''member'', ''reader''} \<Longrightarrow> pres I (repo_UpdateGroupMemberRole (svc_repo s) a b role t)"
      "pres I (repo_SetGroupMemberWriteRestriction (svc_repo s) a b flag at t)"
      "pres I (repo_TransferGroupOwnership (svc_repo s) a b c t)"
      "pres I (repo_DeleteGroupMembership (svc_repo s) a b t)"
      "pres I (repo_CreateGroupInviteLink (svc_repo s) cl)"
      "pres I (repo_DisableGroupInviteLink (svc_repo s) a b t)"
      "jg_MaxActiveGroupMembershipsPerUser jg = svc_maxActiveGroupMembershipsPerUser s \<Longrightarrow>
         pres I (repo_JoinGroupByInviteLink (svc_repo s) jg)"
    and outside: "pres I (svc_ClearGroupTypingIndicator s a b c)" "pres I (svc_random s)" "pres I (svc_now s)"
      "pres I (svc_newID s)"
begin

lemma authenticate_pres: "pres I (authenticate s token)"
  unfolding authenticate_def by (intro pres_intros sessions outside)

lemma clear_typing_pres: "pres I (clear_typing s a b c)"
  unfolding clear_typing_def by (intro pres_intros reads outside)

lemma newGroupInviteToken_pres: "pres I (newGroupInviteToken s)"
  unfolding newGroupInviteToken_def by (intro pres_intros outside)

lemmas op_intros = authenticate_pres clear_typing_pres newGroupInviteToken_pres reads outside

lemma group_operations_pres:
  "pres I (CreateGroup s token name)" "pres I (ListGroups s token)" "pres I (GetGroup s token g)"
  "pres I (SetGroupNotifications s token g flag)" "pres I (resolveGroupChat s u g)"
  "pres I (ListGroupMembers s token g)"
  unfolding CreateGroup_def ListGroups_def GetGroup_def SetGroupNotifications_def resolveGroupChat_def
    ListGroupMembers_def
  by (intro pres_intros op_intros writes; simp)+

lemma UpdateGroupMemberRole_pres: "pres I (UpdateGroupMemberRole s token g u role)"
  unfolding UpdateGroupMemberRole_def by (intro pres_intros op_intros writes; fastforce dest: canAssignGroupRole_known)

lemma member_operations_pres:
  "pres I (TransferGroupOwnership s token g u)" "pres I (RemoveGroupMember s token g u)"
  "pres I (RestrictGroupMember s token g u)" "pres I (UnrestrictGroupMember s token g u)"
  "pres I (LeaveGroup s token g)"
  unfolding TransferGroupOwnership_def RemoveGroupMember_def RestrictGroupMember_def UnrestrictGroupMember_def
    LeaveGroup_def
  by (intro pres_intros op_intros writes; simp)+

lemma link_operations_pres:
  "pres I (CreateGroupInviteLink s token g role)" "pres I (ListGroupInviteLinks s token g)"
  "pres I (DisableGroupInviteLink s token g i)" "pres I (JoinGroupByInviteLink s token t)"
  "pres I (PreviewGroupByInviteLink s token t)"
  unfolding CreateGroupInviteLink_def ListGroupInviteLinks_def DisableGroupInviteLink_def JoinGroupByInviteLink_def
    PreviewGroupByInviteLink_def
  by (intro pres_intros op_intros writes; simp)+

end

end
