(* ===== verification/Chat_World.thy ===== *)
theory Chat_World
  imports Chat_Service Delivery_Invariant
begin

text \<open>
  The world a chat service runs in, and the repository methods over it. \<open>chat_env\<close> fixes for every tick which
  transactions other processes commit just before ours (other chat services, and delivery workers on the outbox),
  whether our transaction reaches the database and its reply reaches us, and what the clock, the generators, the
  typing store and the server's functions return. A theorem for every \<open>env\<close> holds for every interleaving.
  The methods that write lock the user or the group before they read, so a transaction is atomic.
\<close>

section \<open>Other processes\<close>

datatype chat_op =
    OpCreateGroup CreateGroupParams
  | OpUpdateRole string string string int
  | OpRestrict string string bool "int option" int
  | OpTransfer string string string int
  | OpDelete string string int
  | OpCreateLink CreateGroupInviteLinkParams
  | OpDisableLink string string int
  | OpJoin JoinGroupByInviteLinkParams
  | OpTouchSession string string int
  | OpPreference string string bool int
  | OpPreferences string bool int
  | OpWorker int "ChatEvent delivery_op"

text \<open>\<open>Fails\<close>: the transaction does not commit. \<open>LosesReply\<close>: it commits and the caller sees an error. The flag
  says whether that error is the one of the context.\<close>

datatype chat_fault = Works | Fails bool | LosesReply bool

record chat_env =
  cv_parse :: uuid_parser
  cv_sha256 :: "string \<Rightarrow> string"
  cv_limit :: int
  cv_others :: "nat \<Rightarrow> (pg \<times> chat_op) list"
  cv_pg :: "nat \<Rightarrow> pg"
  cv_fault :: "nat \<Rightarrow> chat_fault"
  cv_clock :: "nat \<Rightarrow> int"
  cv_id :: "nat \<Rightarrow> string"
  cv_random :: "nat \<Rightarrow> chat_error + string"
  cv_typing :: "nat \<Rightarrow> chat_error + unit"

record chat_world =
  cw_db :: chat_db
  cw_tick :: nat

text \<open>A statement of a delivery worker touches the outbox tables only.\<close>

definition on_authority :: "(ChatEvent, 'a) delivery_tx \<Rightarrow> 'a chat_tx" where
  "on_authority m = (\<lambda>db. case m (authority db) of
     Inl _ \<Rightarrow> Inl ErrOther
   | Inr (x, d) \<Rightarrow> Inr (x, db\<lparr>authority := d\<rparr>))"

definition chat_op_tx :: "uuid_parser \<Rightarrow> pg \<Rightarrow> chat_op \<Rightarrow> unit chat_tx" where
  "chat_op_tx parse pg operation =
     (case operation of
        OpCreateGroup params \<Rightarrow> CreateGroup_tx parse pg params
      | OpUpdateRole g u role t \<Rightarrow> bindT (UpdateGroupMemberRole_tx parse pg g u role t) (\<lambda>_. returnT ())
      | OpRestrict g u flag at t \<Rightarrow> bindT (SetGroupMemberWriteRestriction_tx parse pg g u flag at t) (\<lambda>_. returnT ())
      | OpTransfer g a b t \<Rightarrow> bindT (TransferGroupOwnership_tx parse pg g a b t) (\<lambda>_. returnT ())
      | OpDelete g u t \<Rightarrow> bindT (DeleteGroupMembership_tx parse pg g u t) (\<lambda>_. returnT ())
      | OpCreateLink params \<Rightarrow> bindT (CreateGroupInviteLink_tx parse params) (\<lambda>_. returnT ())
      | OpDisableLink g i t \<Rightarrow> bindT (DisableGroupInviteLink_tx parse g i t) (\<lambda>_. returnT ())
      | OpJoin params \<Rightarrow> bindT (JoinGroupByInviteLink_tx parse pg params) (\<lambda>_. returnT ())
      | OpTouchSession a b t \<Rightarrow> TouchSession_tx parse a b t
      | OpPreference g u flag t \<Rightarrow> UpsertGroupNotificationPreference_tx parse g u flag t
      | OpPreferences u flag t \<Rightarrow> SetAllGroupNotificationPreferences_tx parse u flag t
      | OpWorker t x \<Rightarrow> on_authority (delivery_op_tx chat_kind (t, x)))"

text \<open>What the other services do: their roles come from the same normaliser, their quota from the same
  configuration, and workers do not write events.\<close>

definition op_allowed :: "int \<Rightarrow> chat_op \<Rightarrow> bool" where
  "op_allowed limit operation =
     (case operation of
        OpCreateGroup params \<Rightarrow> cg_MaxActiveGroupMembershipsPerUser params = limit
      | OpUpdateRole g u role t \<Rightarrow> role \<in> {''admin'', ''member'', ''reader''}
      | OpJoin params \<Rightarrow> jg_MaxActiveGroupMembershipsPerUser params = limit
      | OpWorker t x \<Rightarrow> (case x of OpEvent _ \<Rightarrow> False | _ \<Rightarrow> True)
      | _ \<Rightarrow> True)"

definition run_chat_op :: "uuid_parser \<Rightarrow> pg \<times> chat_op \<Rightarrow> chat_db \<Rightarrow> chat_db" where
  "run_chat_op parse x db = (case chat_op_tx parse (fst x) (snd x) db of Inl _ \<Rightarrow> db | Inr (_, db') \<Rightarrow> db')"

definition env_allowed :: "chat_env \<Rightarrow> bool" where
  "env_allowed env \<longleftrightarrow> 0 < cv_limit env \<and> (\<forall>n. \<forall>x\<in>set (cv_others env n). op_allowed (cv_limit env) (snd x))"

section \<open>One round trip to the database\<close>

definition others_moved :: "chat_env \<Rightarrow> chat_world \<Rightarrow> chat_db" where
  "others_moved env w = fold (run_chat_op (cv_parse env)) (cv_others env (cw_tick w)) (cw_db w)"

definition driver_error :: "bool \<Rightarrow> chat_error" where
  "driver_error context = (if context then ErrContext else ErrOther)"

definition transact :: "chat_env \<Rightarrow> (pg \<Rightarrow> 'a chat_tx) \<Rightarrow> (chat_world, chat_error, 'a) prog" where
  "transact env m = (\<lambda>w.
     let db = others_moved env w; w1 = w\<lparr>cw_tick := Suc (cw_tick w), cw_db := db\<rparr>; t = cw_tick w
     in case cv_fault env t of
          Fails c \<Rightarrow> (Inl (driver_error c), w1)
        | Works \<Rightarrow> (case m (cv_pg env t) db of
              Inl e \<Rightarrow> (Inl e, w1)
            | Inr (x, db') \<Rightarrow> (Inr x, w1\<lparr>cw_db := db'\<rparr>))
        | LosesReply c \<Rightarrow> (case m (cv_pg env t) db of
              Inl e \<Rightarrow> (Inl (driver_error c), w1)
            | Inr (x, db') \<Rightarrow> (Inl (driver_error c), w1\<lparr>cw_db := db'\<rparr>)))"

definition answer :: "(nat \<Rightarrow> chat_error + 'a) \<Rightarrow> (chat_world, chat_error, 'a) prog" where
  "answer f = (\<lambda>w. (f (cw_tick w), w\<lparr>cw_tick := Suc (cw_tick w)\<rparr>))"

section \<open>The methods\<close>

text \<open>The touch runs under a timeout of its own; when it expires the error is dropped.\<close>

definition repo_touch :: "chat_env \<Rightarrow> string \<Rightarrow> string \<Rightarrow> int \<Rightarrow> (chat_world, chat_error, unit) prog" where
  "repo_touch env sessionID deviceID t =
     attemptE (transact env (\<lambda>_. TouchSession_tx (cv_parse env) sessionID deviceID t)) (\<lambda>r. case r of
       Inl err \<Rightarrow> if err = ErrContext then returnE () else failE err
     | Inr _ \<Rightarrow> returnE ())"

definition repo_get_group :: "chat_env \<Rightarrow> string \<Rightarrow> string \<Rightarrow> (chat_world, chat_error, Group) prog" where
  "repo_get_group env userID groupID =
     bindE (liftE (mustParseUUID (cv_parse env) userID)) (\<lambda>u.
     bindE (liftE (mustParseUUID (cv_parse env) groupID)) (\<lambda>g.
     bindE (transact env (\<lambda>_. query (GetGroupRowByIDAndUserID u g))) (\<lambda>row.
     bindE (transact env (\<lambda>_. query (ListEncryptedPinnedMessageIDsByGroupID (grp_ID (gs_Group row))))) (\<lambda>pinned.
     returnE (toGroup row pinned)))))"

fun pinned_groups :: "chat_env \<Rightarrow> GroupSelfRow list \<Rightarrow> (chat_world, chat_error, Group list) prog" where
  "pinned_groups env [] = returnE []"
| "pinned_groups env (row # rows) =
     bindE (transact env (\<lambda>_. query (ListEncryptedPinnedMessageIDsByGroupID (grp_ID (gs_Group row))))) (\<lambda>pinned.
     bindE (pinned_groups env rows) (\<lambda>gs. returnE (toGroup row pinned # gs)))"

definition repo_list_groups :: "chat_env \<Rightarrow> string \<Rightarrow> (chat_world, chat_error, Group list) prog" where
  "repo_list_groups env userID =
     bindE (liftE (mustParseUUID (cv_parse env) userID)) (\<lambda>u.
     bindE (transact env (\<lambda>_. query (ListGroupRowsByUserID u))) (\<lambda>rows. pinned_groups env rows))"

definition repo_create_group :: "chat_env \<Rightarrow> CreateGroupParams \<Rightarrow> (chat_world, chat_error, Group) prog" where
  "repo_create_group env params =
     bindE (transact env (\<lambda>pg. CreateGroup_tx (cv_parse env) pg params)) (\<lambda>_.
     repo_get_group env (cg_CreatedByUserID params) (cg_GroupID params))"

definition chat_postgres :: "chat_env \<Rightarrow> chat_world ChatRepository" where
  "chat_postgres env =
     \<lparr>repo_GetSessionAuthByID = (\<lambda>i. transact env (\<lambda>_. GetSessionAuthByID_tx (cv_parse env) i)),
      repo_TouchSession = repo_touch env,
      repo_CreateGroup = repo_create_group env,
      repo_ListGroups = repo_list_groups env,
      repo_GetGroup = repo_get_group env,
      repo_UpsertGroupNotificationPreference =
        (\<lambda>g u flag t. transact env (\<lambda>_. UpsertGroupNotificationPreference_tx (cv_parse env) g u flag t)),
      repo_GetGroupChatThread = (\<lambda>u g. transact env (\<lambda>_. GetGroupChatThread_tx (cv_parse env) u g)),
      repo_ListGroupMembers = (\<lambda>u g. transact env (\<lambda>_. ListGroupMembers_tx (cv_parse env) u g)),
      repo_GetGroupMember = (\<lambda>g u. transact env (\<lambda>_. GetGroupMember_tx (cv_parse env) g u)),
      repo_UpdateGroupMemberRole =
        (\<lambda>g u role t. transact env (\<lambda>pg. UpdateGroupMemberRole_tx (cv_parse env) pg g u role t)),
      repo_SetGroupMemberWriteRestriction =
        (\<lambda>g u flag at t. transact env (\<lambda>pg. SetGroupMemberWriteRestriction_tx (cv_parse env) pg g u flag at t)),
      repo_TransferGroupOwnership =
        (\<lambda>g a b t. transact env (\<lambda>pg. TransferGroupOwnership_tx (cv_parse env) pg g a b t)),
      repo_DeleteGroupMembership = (\<lambda>g u t. transact env (\<lambda>pg. DeleteGroupMembership_tx (cv_parse env) pg g u t)),
      repo_CreateGroupInviteLink = (\<lambda>params. transact env (\<lambda>_. CreateGroupInviteLink_tx (cv_parse env) params)),
      repo_ListGroupInviteLinks = (\<lambda>g. transact env (\<lambda>_. ListGroupInviteLinks_tx (cv_parse env) g)),
      repo_GetGroupInviteLink = (\<lambda>g i. transact env (\<lambda>_. GetGroupInviteLink_tx (cv_parse env) g i)),
      repo_DisableGroupInviteLink = (\<lambda>g i t. transact env (\<lambda>_. DisableGroupInviteLink_tx (cv_parse env) g i t)),
      repo_GetGroupInviteLinkForJoin = (\<lambda>h. transact env (\<lambda>_. GetGroupInviteLinkForJoin_tx h)),
      repo_JoinGroupByInviteLink = (\<lambda>params. transact env (\<lambda>pg. JoinGroupByInviteLink_tx (cv_parse env) pg params))\<rparr>"

text \<open>The service on this world; \<open>cv_limit\<close> is the configured quota after \<open>NewService\<close>'s default.\<close>

definition chat_service :: "chat_env \<Rightarrow> chat_world ChatService" where
  "chat_service env =
     NewChatService (chat_postgres env) (\<lambda>_ _ _. answer (cv_typing env)) (cv_limit env) (answer (cv_random env))
       (answer (\<lambda>t. Inr (cv_clock env t))) (answer (\<lambda>t. Inr (cv_id env t))) (cv_sha256 env) (cv_parse env)"

text \<open>The authority check of \<open>GroupSubjectAuthorizer\<close>; its repository method does not convert errors.\<close>

definition check_subject :: "chat_env \<Rightarrow> string \<Rightarrow> string \<Rightarrow> (chat_world, chat_error, GroupSubjectAuthority) prog" where
  "check_subject env groupID userID =
     CheckGroupSubject (cv_parse env)
       (Some (\<lambda>g u. transact env (\<lambda>_. GetGroupSubjectAuthorityFacts_tx (cv_parse env) g u))) groupID userID"

section \<open>From transactions to the service\<close>

lemma read_only_query [intro]: "read_only m \<Longrightarrow> read_only (query m)"
  unfolding query_def by (rule read_only_intros)

lemma read_only_statements [intro]:
  "read_only (LockGroupMembershipQuotaOwner u)" "read_only (LockGroupByID g)"
  "read_only (GetActiveGroupMembershipCountByUserID u)" "read_only (GetGroupRowByIDAndUserID u g)"
  "read_only (ListEncryptedPinnedMessageIDsByGroupID g)" "read_only (ListGroupRowsByUserID u)"
  "read_only (GetGroupMemberRowByGroupIDAndUserID g u)" "read_only (ListGroupMemberRowsByGroupIDAndUserID u g)"
  "read_only (GetGroupChatThreadRowByGroupIDAndUserID u g)" "read_only (GetGroupSubjectAuthorityFacts_sql g u)"
  "read_only (ListGroupInviteLinksByGroupID g)" "read_only (GetGroupInviteLinkByIDAndGroupID g i)"
  "read_only (GetGroupInviteLinkForJoin_sql h)" "read_only (GetSessionAuthByID_sql i)"
  by (auto simp: read_only_def LockGroupMembershipQuotaOwner_def LockGroupByID_def
      GetActiveGroupMembershipCountByUserID_def GetGroupRowByIDAndUserID_def
      ListEncryptedPinnedMessageIDsByGroupID_def ListGroupRowsByUserID_def
      GetGroupMemberRowByGroupIDAndUserID_def ListGroupMemberRowsByGroupIDAndUserID_def
      GetGroupChatThreadRowByGroupIDAndUserID_def GetGroupSubjectAuthorityFacts_sql_def Let_def
      ListGroupInviteLinksByGroupID_def GetGroupInviteLinkByIDAndGroupID_def GetGroupInviteLinkForJoin_sql_def
      GetSessionAuthByID_sql_def split: option.splits)

lemma read_only_methods:
  "read_only (GetSessionAuthByID_tx parse i)" "read_only (GetGroupChatThread_tx parse u g)"
  "read_only (GetGroupMember_tx parse g u)" "read_only (ListGroupMembers_tx parse u g)"
  "read_only (ListGroupInviteLinks_tx parse g)" "read_only (GetGroupInviteLink_tx parse g i)"
  "read_only (GetGroupInviteLinkForJoin_tx h)" "read_only (GetGroupSubjectAuthorityFacts_tx parse g u)"
  unfolding GetSessionAuthByID_tx_def GetGroupChatThread_tx_def GetGroupMember_tx_def ListGroupMembers_tx_def
    ListGroupInviteLinks_tx_def GetGroupInviteLink_tx_def GetGroupInviteLinkForJoin_tx_def
    GetGroupSubjectAuthorityFacts_tx_def
  by (intro read_only_intros read_only_query read_only_statements read_only_case_prod read_only_case_option)+

text \<open>\<open>P\<close> is kept by every transaction that a chat service or a worker commits; it says nothing of an environment
  that is not allowed.\<close>

locale chat_tables =
  fixes env :: chat_env and P :: "chat_db \<Rightarrow> bool"
  assumes vacuous: "\<not> env_allowed env \<Longrightarrow> P db"
    and kept_op: "op_allowed (cv_limit env) operation \<Longrightarrow> keeps P (chat_op_tx (cv_parse env) pg operation)"
begin

lemma run_chat_op_P: "op_allowed (cv_limit env) (snd x) \<Longrightarrow> P db \<Longrightarrow> P (run_chat_op (cv_parse env) x db)"
  using keepsD [OF kept_op] by (auto simp: run_chat_op_def split: sum.splits)

lemma others_P: "P (cw_db w) \<Longrightarrow> P (others_moved env w)"
proof -
  have "P db \<Longrightarrow> \<forall>x\<in>set xs. op_allowed (cv_limit env) (snd x) \<Longrightarrow> P (fold (run_chat_op (cv_parse env)) xs db)" for xs db
    by (induction xs arbitrary: db) (simp_all add: run_chat_op_P)
  then show "P (cw_db w) \<Longrightarrow> P (others_moved env w)"
    using vacuous by (cases "env_allowed env") (simp_all add: others_moved_def env_allowed_def)
qed

lemma pres_transact:
  assumes "\<And>pg. keeps P (m pg)"
  shows "pres (\<lambda>w :: chat_world. P (cw_db w)) (transact env m)"
  unfolding pres_def
proof (intro allI impI)
  fix w :: chat_world assume "P (cw_db w)"
  then have "P (others_moved env w)" by (rule others_P)
  then show "P (cw_db (snd (transact env m w)))"
    using keepsD [OF assms] by (auto simp: transact_def Let_def split: chat_fault.splits sum.splits)
qed

lemma pres_read: "(\<And>pg. read_only (m pg)) \<Longrightarrow> pres (\<lambda>w :: chat_world. P (cw_db w)) (transact env m)"
  by (intro pres_transact read_only_keeps)

lemma pres_answer: "pres (\<lambda>w :: chat_world. P (cw_db w)) (answer f)"
  by (simp add: pres_def answer_def)

lemma keeps_ignored: "keeps P (bindT m (\<lambda>_. returnT ())) \<Longrightarrow> keeps P m"
  unfolding keeps_def by (fastforce simp: tx_simps)

lemma kept_methods:
  "cg_MaxActiveGroupMembershipsPerUser cg = cv_limit env \<Longrightarrow> keeps P (CreateGroup_tx (cv_parse env) pg cg)"
  "role \<in> {''admin'', ''member'', ''reader''} \<Longrightarrow> keeps P (UpdateGroupMemberRole_tx (cv_parse env) pg g u role t)"
  "keeps P (SetGroupMemberWriteRestriction_tx (cv_parse env) pg g u flag at t)"
  "keeps P (TransferGroupOwnership_tx (cv_parse env) pg g a b t)"
  "keeps P (DeleteGroupMembership_tx (cv_parse env) pg g u t)"
  "keeps P (CreateGroupInviteLink_tx (cv_parse env) cl)"
  "keeps P (DisableGroupInviteLink_tx (cv_parse env) g i t)"
  "jg_MaxActiveGroupMembershipsPerUser jg = cv_limit env \<Longrightarrow> keeps P (JoinGroupByInviteLink_tx (cv_parse env) pg jg)"
  "keeps P (TouchSession_tx (cv_parse env) a b t)"
  "keeps P (UpsertGroupNotificationPreference_tx (cv_parse env) g u flag t)"
  using kept_op [of "OpCreateGroup cg" pg] kept_op [of "OpUpdateRole g u role t" pg]
    kept_op [of "OpRestrict g u flag at t" pg] kept_op [of "OpTransfer g a b t" pg]
    kept_op [of "OpDelete g u t" pg] kept_op [of "OpCreateLink cl"] kept_op [of "OpDisableLink g i t"]
    kept_op [of "OpJoin jg" pg] kept_op [of "OpTouchSession a b t"] kept_op [of "OpPreference g u flag t"]
  by (auto simp: op_allowed_def chat_op_tx_def intro: keeps_ignored)

lemma pres_get_group: "pres (\<lambda>w :: chat_world. P (cw_db w)) (repo_get_group env u g)"
  unfolding repo_get_group_def
  by (intro pres_intros pres_read read_only_intros read_only_query read_only_statements)

lemma pres_pinned_groups: "pres (\<lambda>w :: chat_world. P (cw_db w)) (pinned_groups env rows)"
  by (induction rows) (auto intro!: pres_intros pres_read)

lemma pres_list_groups: "pres (\<lambda>w :: chat_world. P (cw_db w)) (repo_list_groups env u)"
  unfolding repo_list_groups_def
  by (intro pres_intros pres_read read_only_intros read_only_query read_only_statements pres_pinned_groups)

lemma pres_create_group:
  "cg_MaxActiveGroupMembershipsPerUser params = cv_limit env \<Longrightarrow>
     pres (\<lambda>w :: chat_world. P (cw_db w)) (repo_create_group env params)"
  unfolding repo_create_group_def by (intro pres_intros pres_transact kept_methods pres_get_group)

lemma pres_touch: "pres (\<lambda>w :: chat_world. P (cw_db w)) (repo_touch env a b t)"
  unfolding repo_touch_def by (intro pres_intros pres_transact kept_methods)

end

lemma chat_service_sel:
  "svc_repo (chat_service env) = chat_postgres env"
  "svc_ClearGroupTypingIndicator (chat_service env) = (\<lambda>_ _ _. answer (cv_typing env))"
  "svc_random (chat_service env) = answer (cv_random env)"
  "svc_now (chat_service env) = answer (\<lambda>t. Inr (cv_clock env t))"
  "svc_newID (chat_service env) = answer (\<lambda>t. Inr (cv_id env t))"
  "svc_sha256 (chat_service env) = cv_sha256 env"
  "svc_parse (chat_service env) = cv_parse env"
  "svc_sessionTouchInterval (chat_service env) = defaultSessionTouchInterval"
  "0 < cv_limit env \<Longrightarrow> svc_maxActiveGroupMembershipsPerUser (chat_service env) = cv_limit env"
  by (simp_all add: chat_service_def NewChatService_def)

text \<open>So the service keeps what the transactions keep.\<close>

sublocale chat_tables \<subseteq> service: chat_repository "chat_service env" "\<lambda>w. P (cw_db w)"
proof (cases "env_allowed env")
  case True
  then have limit: "svc_maxActiveGroupMembershipsPerUser (chat_service env) = cv_limit env"
    by (simp add: env_allowed_def chat_service_sel)
  show "chat_repository (chat_service env) (\<lambda>w. P (cw_db w))"
    by unfold_locales
      (simp_all add: limit chat_service_sel chat_postgres_def pres_answer pres_touch pres_get_group pres_list_groups
        pres_create_group pres_transact kept_methods pres_read read_only_methods)
next
  case False
  then have "P db" for db by (rule vacuous)
  then show "chat_repository (chat_service env) (\<lambda>w. P (cw_db w))" by unfold_locales (simp_all add: pres_def)
qed

end
