(* ===== verification/Chat_Invariant.thy ===== *)
theory Chat_Invariant
  imports Chat_World
begin

text \<open>
  What the tables of groups keep: \<open>group_inv\<close> (keys, references, CHECKs, at most one owner, the quota),
  \<open>authority_inv\<close> (the authority table mirrors the memberships, the outbox never runs ahead of it), and the
  history of a subject as a run of the abstract machine \<open>authority_step\<close>.
\<close>

section \<open>The abstract authority of a subject\<close>

text \<open>Revision, presence and eligibility of a user in a group, and the events announced so far.\<close>

record subject =
  sub_version :: "(int \<times> bool \<times> bool) option"
  sub_events :: "(int \<times> string) list"

definition announced :: "int \<Rightarrow> bool \<Rightarrow> bool \<Rightarrow> (int \<times> string) list" where
  "announced r present eligible =
     (if \<not> present then [(r, ''member_removed'')] else if \<not> eligible then [(r, ''eligibility_denied'')] else [])"

inductive authority_step :: "subject \<Rightarrow> subject \<Rightarrow> bool" where
  enter: "sub_version s = None \<Longrightarrow> authority_step s (s\<lparr>sub_version := Some (1, True, eligible)\<rparr>)"
| change: "sub_version s = Some (r, present, eligible) \<Longrightarrow> (present', eligible') \<noteq> (present, eligible) \<Longrightarrow>
     present' \<or> \<not> eligible' \<Longrightarrow> present \<or> present' \<Longrightarrow> r < max_int64 \<Longrightarrow>
     authority_step s (s\<lparr>sub_version := Some (r + 1, present', eligible'),
                        sub_events := sub_events s @ announced (r + 1) present' eligible'\<rparr>)"

inductive_cases authority_stepE: "authority_step s t"

abbreviation authority_run :: "subject \<Rightarrow> subject \<Rightarrow> bool" where
  "authority_run \<equiv> authority_step\<^sup>*\<^sup>*"

definition events_of :: "ChatEvent OutboxRow list \<Rightarrow> uuid \<Rightarrow> uuid \<Rightarrow> (int \<times> string) list" where
  "events_of es g u = map (\<lambda>e. (ce_Epoch (o_Event e), ce_SourceReason (o_Event e)))
     (filter (\<lambda>e. ce_GroupID (o_Event e) = g \<and> ce_UserID (o_Event e) = u) es)"

definition subject_of_db :: "chat_db \<Rightarrow> uuid \<Rightarrow> uuid \<Rightarrow> subject" where
  "subject_of_db db g u =
     \<lparr>sub_version = map_option (\<lambda>v. (v_Revision v, v_Present v, v_Eligible v)) (find_version db g u),
      sub_events = events_of (outbox (authority db)) g u\<rparr>"

section \<open>The invariants\<close>

definition mkey :: "MembershipRow \<Rightarrow> uuid \<times> uuid" where
  "mkey m = (m_GroupID m, m_UserID m)"

definition vkey :: "VersionRow \<Rightarrow> uuid \<times> uuid" where
  "vkey v = (v_GroupID v, v_UserID v)"

definition tkey :: "ThreadRow \<Rightarrow> uuid \<times> string" where
  "tkey t = (t_GroupID t, t_ThreadKey t)"

definition membership_count :: "chat_db \<Rightarrow> uuid \<Rightarrow> nat" where
  "membership_count db u = length (filter (\<lambda>m. m_UserID m = u) (group_memberships db))"

definition group_inv :: "chat_db \<Rightarrow> bool" where
  "group_inv db \<longleftrightarrow>
     distinct (map grp_ID (groups db)) \<and> distinct (map mkey (group_memberships db)) \<and>
     distinct (map l_ID (group_invite_links db)) \<and> distinct (map l_TokenHash (group_invite_links db)) \<and>
     distinct (map tkey (group_threads db)) \<and>
     (\<forall>m\<in>set (group_memberships db). membership_check m \<and> find_group db (m_GroupID m) \<noteq> None \<and>
        find_user db (m_UserID m) \<noteq> None \<and> \<not> owner_clash db m) \<and>
     (\<forall>l\<in>set (group_invite_links db). invite_check l \<and> find_group db (l_GroupID l) \<noteq> None) \<and>
     (\<forall>t\<in>set (group_threads db). find_group db (t_GroupID t) \<noteq> None)"

definition quota_ok :: "int \<Rightarrow> chat_db \<Rightarrow> bool" where
  "quota_ok limit db \<longleftrightarrow> (\<forall>u. int (membership_count db u) \<le> limit)"

definition threads_ok :: "chat_db \<Rightarrow> bool" where
  "threads_ok db \<longleftrightarrow>
     (\<forall>r\<in>set (groups db). \<exists>t\<in>set (group_threads db). t_GroupID t = grp_ID r \<and> t_ThreadKey t = ''primary'')"

definition version_matches :: "VersionRow option \<Rightarrow> MembershipRow option \<Rightarrow> bool" where
  "version_matches a m =
     (case a of
        None \<Rightarrow> m = None
      | Some v \<Rightarrow> version_check v \<and> v_Revision v \<le> max_int64 \<and>
          (v_Present v, v_Eligible v) =
            (case m of None \<Rightarrow> (False, False) | Some x \<Rightarrow> (True, eligible_role (m_Role x))))"

definition authority_inv :: "chat_db \<Rightarrow> bool" where
  "authority_inv db \<longleftrightarrow>
     distinct (map vkey (group_membership_authority_versions db)) \<and>
     (\<forall>g u. version_matches (find_version db g u) (find_member db g u)) \<and>
     (\<forall>e\<in>set (outbox (authority db)).
        ce_SourceReason (o_Event e) \<in> {''eligibility_denied'', ''member_removed''} \<and> ce_Epoch (o_Event e) > 0 \<and>
        (\<exists>v. find_version db (ce_GroupID (o_Event e)) (ce_UserID (o_Event e)) = Some v \<and>
             ce_Epoch (o_Event e) \<le> v_Revision v)) \<and>
     delivery_inv chat_kind (authority db)"

text \<open>The invariants, and descent from an earlier database.\<close>

definition chat_core :: "chat_db \<Rightarrow> chat_db \<Rightarrow> bool" where
  "chat_core db0 db \<longleftrightarrow>
     group_inv db \<and> authority_inv db \<and> delivery_evolves (authority db0) (authority db) \<and>
     (\<forall>g u. authority_run (subject_of_db db0 g u) (subject_of_db db g u))"

definition chat_kept :: "int \<Rightarrow> chat_db \<Rightarrow> chat_db \<Rightarrow> bool" where
  "chat_kept limit db0 db \<longleftrightarrow> chat_core db0 db \<and> quota_ok limit db \<and> threads_ok db"

section \<open>Looking rows up\<close>

lemma find_replace_same: "P m \<Longrightarrow> find P (map (\<lambda>x. if P x then m else x) xs) = map_option (\<lambda>_. m) (find P xs)"
  by (induction xs) auto

lemma find_replace_other:
  "(\<And>x. P x \<Longrightarrow> \<not> Q x \<and> \<not> Q (f x)) \<Longrightarrow> find Q (map (\<lambda>x. if P x then f x else x) xs) = find Q xs"
  by (induction xs) auto

lemma find_map_keep: "(\<And>x. Q (f x) = Q x) \<Longrightarrow> find Q (map f xs) = map_option f (find Q xs)"
  by (induction xs) auto

lemma find_remove_same: "find P (filter (\<lambda>x. \<not> P x) xs) = None"
  by (induction xs) auto

lemma find_remove_other: "(\<And>x. P x \<Longrightarrow> \<not> Q x) \<Longrightarrow> find Q (filter (\<lambda>x. \<not> P x) xs) = find Q xs"
  by (induction xs) auto

lemma find_member_Some:
  "find_member db g u = Some m \<Longrightarrow> m \<in> set (group_memberships db) \<and> m_GroupID m = g \<and> m_UserID m = u"
  unfolding find_member_def by (drule find_SomeD) (simp add: member_at_def)

lemma find_version_Some:
  "find_version db g u = Some v \<Longrightarrow> v \<in> set (group_membership_authority_versions db) \<and> v_GroupID v = g \<and> v_UserID v = u"
  unfolding find_version_def by (drule find_SomeD) (simp add: version_at_def)

lemma find_member_mem:
  "distinct (map mkey (group_memberships db)) \<Longrightarrow> m \<in> set (group_memberships db) \<Longrightarrow>
     find_member db (m_GroupID m) (m_UserID m) = Some m"
proof -
  assume d: "distinct (map mkey (group_memberships db))" and m: "m \<in> set (group_memberships db)"
  have "member_at (m_GroupID m) (m_UserID m) = (\<lambda>x. mkey x = mkey m)"
    by (auto simp: fun_eq_iff member_at_def mkey_def)
  with find_distinct_key [OF d m] show ?thesis by (simp add: find_member_def)
qed

lemma find_cong_tables:
  "group_memberships db' = group_memberships db \<Longrightarrow> find_member db' g u = find_member db g u"
  "group_membership_authority_versions db' = group_membership_authority_versions db \<Longrightarrow>
     find_version db' g u = find_version db g u"
  "groups db' = groups db \<Longrightarrow> find_group db' g = find_group db g"
  "users db' = users db \<Longrightarrow> find_user db' u = find_user db u"
  by (simp_all add: find_member_def find_version_def find_group_def find_user_def)

lemma find_update_simps [simp]:
  "find_member (db\<lparr>group_membership_authority_versions := vs\<rparr>) g u = find_member db g u"
  "find_member (db\<lparr>authority := a\<rparr>) g u = find_member db g u"
  "find_version (db\<lparr>authority := a\<rparr>) g u = find_version db g u"
  "find_version (db\<lparr>group_memberships := ms\<rparr>) g u = find_version db g u"
  "find_group (db\<lparr>group_membership_authority_versions := vs\<rparr>) g = find_group db g"
  "find_group (db\<lparr>authority := a\<rparr>) g = find_group db g"
  "find_group (db\<lparr>group_memberships := ms\<rparr>) g = find_group db g"
  "find_user (db\<lparr>group_membership_authority_versions := vs\<rparr>) u = find_user db u"
  "find_user (db\<lparr>authority := a\<rparr>) u = find_user db u"
  "find_user (db\<lparr>group_memberships := ms\<rparr>) u = find_user db u"
  "find_group (db\<lparr>group_threads := ts\<rparr>) g = find_group db g"
  "find_group (db\<lparr>group_invite_links := ls\<rparr>) g = find_group db g"
  by (simp_all add: find_member_def find_version_def find_group_def find_user_def)

lemma find_member_replace:
  assumes "m_GroupID m = g" and "m_UserID m = u"
  shows "find_member (replace_member g u m db) g' u' =
     (if g' = g \<and> u' = u then map_option (\<lambda>_. m) (find_member db g u) else find_member db g' u')"
proof (cases "g' = g \<and> u' = u")
  case True
  have "member_at g u m" using assms by (simp add: member_at_def)
  from find_replace_same [of "member_at g u", OF this] True show ?thesis by (simp add: find_member_def replace_member_def)
next
  case False
  then have "(if g' = g \<and> u' = u then map_option (\<lambda>_. m) (find_member db g u) else find_member db g' u') = find_member db g' u'"
    by auto
  moreover have "find_member (replace_member g u m db) g' u' = find_member db g' u'"
    unfolding find_member_def replace_member_def using assms False
    by simp (rule find_replace_other; auto simp: member_at_def)
  ultimately show ?thesis by simp
qed

section \<open>The trigger\<close>

text \<open>\<open>capture\<close> only touches the authority tables.\<close>

lemma insert_event_frame:
  "insert_event pg g u r reason db = Inr (x, db') \<Longrightarrow>
     \<exists>e a. CreateAuthorityRevocationEvent chat_kind
             \<lparr>o_Event = \<lparr>ce_ID = gen_random_uuid pg, ce_GroupID = g, ce_UserID = u, ce_Epoch = r, ce_SourceReason = reason\<rparr>,
              o_OccurredAt = CURRENT_TIMESTAMP pg\<rparr> e (authority db) = Inr ((), a) \<and>
           db' = db\<lparr>authority := a\<rparr>"
  by (auto simp: insert_event_def Let_def split: if_splits sum.splits)

lemma set_version_frame:
  "set_version pg g u r present eligible db = Inr (x, db') \<Longrightarrow>
     \<exists>vs. db' = db\<lparr>group_membership_authority_versions := vs\<rparr>"
  by (auto simp: set_version_def Let_def split: if_splits)

text \<open>What a successful run did.\<close>

definition announce :: "pg \<Rightarrow> uuid \<Rightarrow> uuid \<Rightarrow> int \<Rightarrow> bool \<Rightarrow> bool \<Rightarrow> unit chat_tx" where
  "announce pg g u r present eligible =
     (if \<not> present then insert_event pg g u r ''member_removed''
      else if \<not> eligible then insert_event pg g u r ''eligibility_denied''
      else returnT ())"

lemma capture_run:
  assumes run: "capture_group_membership_authority pg change db = Inr (x, db')"
    and subject: "g = m_GroupID (subject_of change)" "u = m_UserID (subject_of change)"
    and after: "after_change change = (present, eligible)"
  obtains
    (entered) new where "find_version db g u = None" and "change = OnInsert new"
      and "db' = db\<lparr>group_membership_authority_versions := group_membership_authority_versions db @
             [\<lparr>v_GroupID = g, v_UserID = u, v_Revision = 1, v_Present = True, v_Eligible = eligible,
               v_UpdatedAt = CURRENT_TIMESTAMP pg\<rparr>]\<rparr>"
  | (same) prior where "find_version db g u = Some prior" and "(v_Present prior, v_Eligible prior) = before_change change"
      and "v_Present prior = present" and "v_Eligible prior = eligible" and "db' = db"
  | (moved) prior db1 where "find_version db g u = Some prior"
      and "(v_Present prior, v_Eligible prior) = before_change change"
      and "(v_Present prior, v_Eligible prior) \<noteq> (present, eligible)" and "v_Revision prior < max_int64"
      and "set_version pg g u (v_Revision prior + 1) present eligible db = Inr ((), db1)"
      and "announce pg g u (v_Revision prior + 1) present eligible db1 = Inr (x, db')"
proof (cases "find_version db g u")
  case None
  with run entered subject after show thesis
    by (cases change) (auto simp: capture_group_membership_authority_def Let_def subject_of_def split: if_splits)
next
  case (Some prior)
  have before: "(v_Present prior, v_Eligible prior) = before_change change"
    using run Some subject after
    by (auto simp: capture_group_membership_authority_def Let_def split: if_splits)
  show thesis
  proof (cases "v_Present prior = present \<and> v_Eligible prior = eligible")
    case True
    with run Some subject after before same show thesis
      by (simp add: capture_group_membership_authority_def Let_def split: if_splits)
  next
    case False
    with run Some subject after before
    have lt: "v_Revision prior < max_int64"
      and "bindT (set_version pg g u (v_Revision prior + 1) present eligible)
             (\<lambda>_. announce pg g u (v_Revision prior + 1) present eligible) db = Inr (x, db')"
      by (auto simp: capture_group_membership_authority_def Let_def announce_def[abs_def] split: if_splits)
    then obtain db1 where "set_version pg g u (v_Revision prior + 1) present eligible db = Inr ((), db1)"
      "announce pg g u (v_Revision prior + 1) present eligible db1 = Inr (x, db')"
      by (auto simp: bindT_Inr_iff)
    with moved [OF Some before _ lt] False show thesis by simp
  qed
qed

lemma Create_outbox:
  "CreateAuthorityRevocationEvent k e t d = Inr (x, d') \<Longrightarrow> outbox d' = outbox d @ [e]"
  by (auto simp: CreateAuthorityRevocationEvent_def split: if_splits)

lemma set_version_run:
  assumes run: "set_version pg g u r present eligible db = Inr (x, db1)" and v: "find_version db g u = Some v"
  shows "\<exists>vs w. db1 = db\<lparr>group_membership_authority_versions := vs\<rparr> \<and>
     map vkey vs = map vkey (group_membership_authority_versions db) \<and> version_check w \<and>
     v_Revision w = r \<and> v_Present w = present \<and> v_Eligible w = eligible \<and>
     (\<forall>g' u'. find_version db1 g' u' = (if g' = g \<and> u' = u then Some w else find_version db g' u'))"
proof -
  let ?f = "\<lambda>v. v\<lparr>v_Revision := r, v_Present := present, v_Eligible := eligible, v_UpdatedAt := CURRENT_TIMESTAMP pg\<rparr>"
  let ?vs = "map (\<lambda>v. if version_at g u v then ?f v else v) (group_membership_authority_versions db)"
  from run have db1: "db1 = db\<lparr>group_membership_authority_versions := ?vs\<rparr>"
    and ok: "\<forall>v\<in>set (group_membership_authority_versions db). version_at g u v \<longrightarrow> version_check (?f v)"
    by (auto simp: set_version_def Let_def split: if_splits)
  have keep: "version_at g' u' (if version_at g u x then ?f x else x) = version_at g' u' x" for g' u' x
    by (simp add: version_at_def)
  have fv: "find_version db1 g' u' = map_option (\<lambda>x. if version_at g u x then ?f x else x) (find_version db g' u')" for g' u'
    unfolding find_version_def db1 by simp (rule find_map_keep, rule keep)
  have at: "version_at g' u' x" if "find_version db g' u' = Some x" for g' u' x
    using find_version_Some [OF that] by (simp add: version_at_def)
  have "find_version db1 g' u' = (if g' = g \<and> u' = u then Some (?f v) else find_version db g' u')" for g' u'
  proof (cases "find_version db g' u'")
    case None
    with v show ?thesis by (auto simp: fv)
  next
    case (Some x)
    with at [OF Some] at [OF v] v show ?thesis by (auto simp: fv version_at_def)
  qed
  moreover have "map vkey ?vs = map vkey (group_membership_authority_versions db)" by (auto simp: vkey_def)
  moreover have "version_check (?f v)" using ok find_version_Some [OF v] at [OF v] by blast
  ultimately show ?thesis using db1 by (intro exI [of _ ?vs] exI [of _ "?f v"]) simp
qed

lemma insert_event_run:
  assumes run: "insert_event pg g u r reason db = Inr (x, db')" and inv: "delivery_inv chat_kind (authority db)"
  obtains a e where "db' = db\<lparr>authority := a\<rparr>" and "outbox a = outbox (authority db) @ [e]" and "delivery_inv chat_kind a"
    and "delivery_evolves (authority db) a" and "ce_GroupID (o_Event e) = g" and "ce_UserID (o_Event e) = u"
    and "ce_Epoch (o_Event e) = r" and "ce_SourceReason (o_Event e) = reason"
proof -
  from insert_event_frame [OF run] obtain t a where
    create: "CreateAuthorityRevocationEvent chat_kind
       \<lparr>o_Event = \<lparr>ce_ID = gen_random_uuid pg, ce_GroupID = g, ce_UserID = u, ce_Epoch = r, ce_SourceReason = reason\<rparr>,
        o_OccurredAt = CURRENT_TIMESTAMP pg\<rparr> t (authority db) = Inr ((), a)" and db': "db' = db\<lparr>authority := a\<rparr>"
    by blast
  have "kept chat_kind (authority db) (authority db)" using inv by (simp add: kept_def)
  from keepsD [OF kept_Create this create] have "kept chat_kind (authority db) a" .
  with that [OF db' Create_outbox [OF create]] show thesis by (simp add: kept_def)
qed

lemma announce_run:
  assumes run: "announce pg g u r present eligible db = Inr (x, db')" and inv: "delivery_inv chat_kind (authority db)"
  obtains a es where "db' = db\<lparr>authority := a\<rparr>" and "outbox a = outbox (authority db) @ es" and "delivery_inv chat_kind a"
    and "delivery_evolves (authority db) a"
    and "\<forall>e\<in>set es. ce_GroupID (o_Event e) = g \<and> ce_UserID (o_Event e) = u \<and> ce_Epoch (o_Event e) = r \<and>
           ce_SourceReason (o_Event e) \<in> {''eligibility_denied'', ''member_removed''}"
    and "events_of es g u = announced r present eligible"
proof (cases "present \<and> eligible")
  case True
  with run have "db' = db" by (simp add: announce_def tx_simps)
  with that [of "authority db" "[]"] inv True show thesis by (simp add: events_of_def announced_def)
next
  case False
  define reason where "reason = (if \<not> present then ''member_removed'' else ''eligibility_denied'')"
  have "insert_event pg g u r reason db = Inr (x, db')"
    using run False by (simp add: announce_def reason_def split: if_splits)
  from insert_event_run [OF this inv] obtain a e where a: "db' = db\<lparr>authority := a\<rparr>"
    "outbox a = outbox (authority db) @ [e]" "delivery_inv chat_kind a" "delivery_evolves (authority db) a"
    and e: "ce_GroupID (o_Event e) = g" "ce_UserID (o_Event e) = u" "ce_Epoch (o_Event e) = r"
    "ce_SourceReason (o_Event e) = reason" .
  show thesis
    by (rule that [OF a]) (use False in \<open>auto simp: e events_of_def announced_def reason_def\<close>)
qed

definition status :: "MembershipRow option \<Rightarrow> bool \<times> bool" where
  "status m = (case m of None \<Rightarrow> (False, False) | Some x \<Rightarrow> (True, eligible_role (m_Role x)))"

lemma version_matches_status:
  "version_matches a m = (case a of None \<Rightarrow> m = None
     | Some v \<Rightarrow> version_check v \<and> v_Revision v \<le> max_int64 \<and> (v_Present v, v_Eligible v) = status m)"
  by (simp add: version_matches_def status_def split: option.splits)

lemma events_of_append: "events_of (es @ fs) g u = events_of es g u @ events_of fs g u"
  by (simp add: events_of_def)

lemma events_of_foreign:
  "\<forall>e\<in>set es. ce_GroupID (o_Event e) = g \<and> ce_UserID (o_Event e) = u \<Longrightarrow> (g', u') \<noteq> (g, u) \<Longrightarrow> events_of es g' u' = []"
  by (auto simp: events_of_def filter_empty_conv)

text \<open>The trigger keeps the authority tables in step with a change of one membership, and moves the abstract
  machine of that subject by at most one step.\<close>

definition authority_follows :: "chat_db \<Rightarrow> chat_db \<Rightarrow> bool" where
  "authority_follows db db' \<longleftrightarrow>
     authority_inv db' \<and> delivery_evolves (authority db) (authority db') \<and>
     (\<forall>g u. authority_run (subject_of_db db g u) (subject_of_db db' g u))"

text \<open>A new state \<open>w\<close> of one subject with the events \<open>es\<close>.\<close>

lemma follows_update:
  assumes inv: "authority_inv db"
    and others: "\<And>g' u'. (g', u') \<noteq> (g, u) \<Longrightarrow> find_member db' g' u' = find_member db g' u'"
    and versions: "\<And>g' u'. find_version db' g' u' = (if g' = g \<and> u' = u then Some w else find_version db g' u')"
    and keys: "distinct (map vkey (group_membership_authority_versions db'))"
    and w: "version_check w" "v_Revision w \<le> max_int64" "(v_Present w, v_Eligible w) = status (find_member db' g u)"
    and later: "\<And>v. find_version db g u = Some v \<Longrightarrow> v_Revision v \<le> v_Revision w"
    and out: "outbox (authority db') = outbox (authority db) @ es"
    and es: "\<forall>e\<in>set es. ce_GroupID (o_Event e) = g \<and> ce_UserID (o_Event e) = u \<and> ce_Epoch (o_Event e) = v_Revision w \<and>
               ce_SourceReason (o_Event e) \<in> {''eligibility_denied'', ''member_removed''}"
    and delivery: "delivery_inv chat_kind (authority db')" "delivery_evolves (authority db) (authority db')"
    and step: "authority_step (subject_of_db db g u)
        \<lparr>sub_version = Some (v_Revision w, v_Present w, v_Eligible w),
         sub_events = events_of (outbox (authority db)) g u @ events_of es g u\<rparr>"
  shows "authority_follows db db'"
proof -
  have m: "version_matches (find_version db' g' u') (find_member db' g' u')" for g' u'
  proof (cases "(g', u') = (g, u)")
    case True
    with w show ?thesis by (simp add: version_matches_status versions)
  next
    case False
    with inv others [OF False] show ?thesis by (auto simp: authority_inv_def versions)
  qed
  have "ce_SourceReason (o_Event e) \<in> {''eligibility_denied'', ''member_removed''} \<and> ce_Epoch (o_Event e) > 0 \<and>
      (\<exists>v. find_version db' (ce_GroupID (o_Event e)) (ce_UserID (o_Event e)) = Some v \<and> ce_Epoch (o_Event e) \<le> v_Revision v)"
    if "e \<in> set (outbox (authority db'))" for e
  proof (cases "e \<in> set es")
    case True
    with es w(1) show ?thesis by (auto simp: versions version_check_def)
  next
    case False
    with that have "e \<in> set (outbox (authority db))" by (simp add: out)
    with inv later show ?thesis by (fastforce simp: authority_inv_def versions)
  qed
  with m keys delivery(1) have "authority_inv db'" by (simp add: authority_inv_def)
  moreover have "authority_run (subject_of_db db g' u') (subject_of_db db' g' u')" for g' u'
  proof (cases "(g', u') = (g, u)")
    case True
    have "subject_of_db db' g u = \<lparr>sub_version = Some (v_Revision w, v_Present w, v_Eligible w),
         sub_events = events_of (outbox (authority db)) g u @ events_of es g u\<rparr>"
      by (simp add: subject_of_db_def versions out events_of_append)
    with step True show ?thesis by (simp add: r_into_rtranclp)
  next
    case False
    then have "events_of es g' u' = []" using events_of_foreign [OF _ False] es by blast
    with False have "subject_of_db db' g' u' = subject_of_db db g' u'"
      by (auto simp: subject_of_db_def out events_of_append versions)
    then show ?thesis by simp
  qed
  ultimately show ?thesis using delivery(2) by (simp add: authority_follows_def)
qed

lemma follows_unchanged:
  assumes inv: "authority_inv db"
    and same: "group_membership_authority_versions db' = group_membership_authority_versions db" "authority db' = authority db"
    and status: "\<And>g u. status (find_member db' g u) = status (find_member db g u)"
  shows "authority_follows db db'"
proof -
  have fv: "find_version db' g u = find_version db g u" for g u using same by (simp add: find_version_def)
  have none: "find_member db' g u = None \<longleftrightarrow> find_member db g u = None" for g u
    using status [of g u] by (auto simp: status_def split: option.splits)
  have "version_matches (find_version db g u) (find_member db' g u)" for g u
  proof -
    have "version_matches (find_version db g u) (find_member db g u)" using inv by (simp add: authority_inv_def)
    then show ?thesis by (cases "find_version db g u") (simp_all add: version_matches_status status none)
  qed
  then have "authority_inv db'" using inv same by (simp add: authority_inv_def fv)
  then show ?thesis using same by (simp add: authority_follows_def subject_of_db_def fv)
qed

lemma capture_follows:
  assumes inv: "authority_inv db"
    and tables: "group_membership_authority_versions db1 = group_membership_authority_versions db"
      "authority db1 = authority db"
    and subject: "g = m_GroupID (subject_of change)" "u = m_UserID (subject_of change)"
    and before: "before_change change = status (find_member db g u)"
    and after: "after_change change = status (find_member db1 g u)"
    and others: "\<And>g' u'. (g', u') \<noteq> (g, u) \<Longrightarrow> find_member db1 g' u' = find_member db g' u'"
    and run: "capture_group_membership_authority pg change db1 = Inr (x, db')"
  shows "authority_follows db db' \<and> (\<exists>vs a. db' = db1\<lparr>group_membership_authority_versions := vs, authority := a\<rparr>)"
proof -
  obtain present eligible where pe: "status (find_member db1 g u) = (present, eligible)" by fastforce
  have valid: "present \<or> \<not> eligible" using pe by (auto simp: status_def split: option.splits)
  have fv: "find_version db1 g' u' = find_version db g' u'" for g' u' using tables by (simp add: find_version_def)
  have dinv: "delivery_inv chat_kind (authority db)" using inv by (simp add: authority_inv_def)
  from run subject after [unfolded pe] show ?thesis
  proof (cases rule: capture_run)
    case (entered new)
    let ?v = "\<lparr>v_GroupID = g, v_UserID = u, v_Revision = 1, v_Present = True, v_Eligible = eligible,
               v_UpdatedAt = CURRENT_TIMESTAMP pg\<rparr>"
    have None: "find_version db g u = None" using entered(1) by (simp add: fv)
    have pr: "present" using after pe entered(2) by (simp add: after_change_def)
    have fm: "find_member db' g' u' = find_member db1 g' u'" for g' u' by (simp add: entered(3) find_member_def)
    have "authority_follows db db'"
    proof (rule follows_update [OF inv, where g = g and u = u and w = ?v and es = "[]"])
      show "find_version db' g' u' = (if g' = g \<and> u' = u then Some ?v else find_version db g' u')" for g' u'
        using None by (auto simp: entered(3) tables find_version_def find_append_iff version_at_def split: option.splits)
      show "distinct (map vkey (group_membership_authority_versions db'))"
        using inv None by (auto simp: entered(3) tables authority_inv_def find_version_def find_None_set vkey_def version_at_def)
      show "authority_step (subject_of_db db g u) \<lparr>sub_version = Some (v_Revision ?v, v_Present ?v, v_Eligible ?v),
          sub_events = events_of (outbox (authority db)) g u @ events_of [] g u\<rparr>"
        using enter [of "subject_of_db db g u" eligible] None by (simp add: subject_of_db_def events_of_def)
    qed (use others pe pr None dinv tables in \<open>auto simp: fm entered(3) version_check_def max_int64_def\<close>)
    moreover have "\<exists>vs a. db' = db1\<lparr>group_membership_authority_versions := vs, authority := a\<rparr>"
      by (intro exI [of _ "group_membership_authority_versions db'"] exI [of _ "authority db1"]) (simp add: entered(3))
    ultimately show ?thesis by blast
  next
    case (same prior)
    have "status (find_member db1 g' u') = status (find_member db g' u')" for g' u'
      using others [of g' u'] before after same pe by (cases "(g', u') = (g, u)") auto
    with follows_unchanged [OF inv tables] have "authority_follows db db'" by (simp add: same(5))
    moreover have "\<exists>vs a. db' = db1\<lparr>group_membership_authority_versions := vs, authority := a\<rparr>"
      by (intro exI [of _ "group_membership_authority_versions db1"] exI [of _ "authority db1"]) (simp add: same(5))
    ultimately show ?thesis by blast
  next
    case (moved prior db2)
    from set_version_run [OF moved(5) moved(1)] obtain vs w where db2: "db2 = db1\<lparr>group_membership_authority_versions := vs\<rparr>"
      and vs: "map vkey vs = map vkey (group_membership_authority_versions db1)" and w: "version_check w"
      "v_Revision w = v_Revision prior + 1" "v_Present w = present" "v_Eligible w = eligible"
      and fv2: "\<And>g' u'. find_version db2 g' u' = (if g' = g \<and> u' = u then Some w else find_version db1 g' u')" by blast
    have "delivery_inv chat_kind (authority db2)" using dinv tables by (simp add: db2)
    from announce_run [OF moved(6) this] obtain a es where db': "db' = db2\<lparr>authority := a\<rparr>"
      and a: "outbox a = outbox (authority db2) @ es" "delivery_inv chat_kind a" "delivery_evolves (authority db2) a"
      and es: "\<forall>e\<in>set es. ce_GroupID (o_Event e) = g \<and> ce_UserID (o_Event e) = u \<and>
           ce_Epoch (o_Event e) = v_Revision prior + 1 \<and>
           ce_SourceReason (o_Event e) \<in> {''eligibility_denied'', ''member_removed''}"
        "events_of es g u = announced (v_Revision prior + 1) present eligible" .
    have prior: "find_version db g u = Some prior" using moved(1) by (simp add: fv)
    have fm: "find_member db' g' u' = find_member db1 g' u'" for g' u' by (simp add: db' db2 find_member_def)
    have "authority_follows db db'"
    proof (rule follows_update [OF inv, where g = g and u = u and w = w and es = es])
      show "find_version db' g' u' = (if g' = g \<and> u' = u then Some w else find_version db g' u')" for g' u'
        using fv2 [of g' u'] fv [of g' u'] by (simp add: db')
      show "distinct (map vkey (group_membership_authority_versions db'))"
        using inv vs tables by (simp add: authority_inv_def db' db2)
      have "v_Present prior \<or> present" using moved(2) moved(3) valid by (cases change) (auto simp: before_change_def)
      then show "authority_step (subject_of_db db g u) \<lparr>sub_version = Some (v_Revision w, v_Present w, v_Eligible w),
          sub_events = events_of (outbox (authority db)) g u @ events_of es g u\<rparr>"
        using moved(3,4) valid w es(2) prior
          change [of "subject_of_db db g u" "v_Revision prior" "v_Present prior" "v_Eligible prior" present eligible]
        by (auto simp: subject_of_db_def)
    qed (use others pe prior moved(4) w a es(1) tables in \<open>auto simp: fm db' db2\<close>)
    moreover have "\<exists>vs a. db' = db1\<lparr>group_membership_authority_versions := vs, authority := a\<rparr>"
      by (intro exI [of _ vs] exI [of _ a]) (simp add: db' db2)
    ultimately show ?thesis by blast
  qed
qed

end
