(* ===== verification/Chat_Keeps.thy ===== *)
theory Chat_Keeps
  imports Chat_Invariant
begin

text \<open>Every statement keeps \<open>chat_core\<close>, every transaction of a chat service or a delivery worker keeps
  \<open>chat_kept\<close>: the interpretation of the locale \<open>chat_tables\<close>.\<close>

section \<open>Statements on memberships\<close>

lemma chat_core_step:
  "chat_core db0 db \<Longrightarrow> group_inv db' \<Longrightarrow> authority_follows db db' \<Longrightarrow> chat_core db0 db'"
  unfolding chat_core_def authority_follows_def
  by (meson delivery_evolves_trans rtranclp_trans)

lemma group_inv_authority [simp]:
  "group_inv (db\<lparr>group_membership_authority_versions := vs\<rparr>) = group_inv db"
  "group_inv (db\<lparr>authority := a\<rparr>) = group_inv db"
  by (simp_all add: group_inv_def owner_clash_def)

text \<open>A new list of memberships.\<close>

definition one_owner :: "MembershipRow list \<Rightarrow> bool" where
  "one_owner ms \<longleftrightarrow> (\<forall>m\<in>set ms. \<forall>n\<in>set ms. m_Role m = ''owner'' \<longrightarrow> m_Role n = ''owner'' \<longrightarrow>
     m_GroupID m = m_GroupID n \<longrightarrow> m_UserID m = m_UserID n)"

lemma one_owner_clash: "one_owner (group_memberships db) \<longleftrightarrow> (\<forall>m\<in>set (group_memberships db). \<not> owner_clash db m)"
  unfolding one_owner_def owner_clash_def by metis

definition member_row_ok :: "chat_db \<Rightarrow> MembershipRow \<Rightarrow> bool" where
  "member_row_ok db m \<longleftrightarrow> membership_check m \<and> find_group db (m_GroupID m) \<noteq> None \<and> find_user db (m_UserID m) \<noteq> None"

lemma group_inv_members:
  "group_inv db \<Longrightarrow> distinct (map mkey ms) \<Longrightarrow> \<forall>m\<in>set ms. member_row_ok db m \<Longrightarrow> one_owner ms \<Longrightarrow>
     group_inv (db\<lparr>group_memberships := ms\<rparr>)"
  using one_owner_clash [of "db\<lparr>group_memberships := ms\<rparr>"] by (simp add: group_inv_def member_row_ok_def)

lemma group_inv_rows:
  "group_inv db \<Longrightarrow> one_owner (group_memberships db) \<and> (\<forall>m\<in>set (group_memberships db). member_row_ok db m) \<and>
     distinct (map mkey (group_memberships db))"
  using one_owner_clash [of db] by (simp add: group_inv_def member_row_ok_def)

lemma one_owner_insert:
  "one_owner ms \<Longrightarrow> (\<And>n. n \<in> set ms \<Longrightarrow> m_Role m = ''owner'' \<Longrightarrow> m_Role n = ''owner'' \<Longrightarrow> m_GroupID n = m_GroupID m \<Longrightarrow>
     m_UserID n = m_UserID m) \<Longrightarrow> set ns \<subseteq> insert m (set ms) \<Longrightarrow> one_owner ns"
  unfolding one_owner_def by (smt (verit, best) insertE subsetD)

text \<open>A statement that changes the row of one subject and fires the trigger.\<close>

lemma captured_keeps_core:
  assumes core: "chat_core db0 db" and inv: "group_inv db1"
    and tables: "group_membership_authority_versions db1 = group_membership_authority_versions db"
      "authority db1 = authority db"
    and subject: "g = m_GroupID (subject_of change)" "u = m_UserID (subject_of change)"
    and before: "before_change change = status (find_member db g u)"
    and after: "after_change change = status (find_member db1 g u)"
    and others: "\<And>g' u'. (g', u') \<noteq> (g, u) \<Longrightarrow> find_member db1 g' u' = find_member db g' u'"
    and run: "capture_group_membership_authority pg change db1 = Inr (x, db')"
  shows "chat_core db0 db'"
proof -
  from core have "authority_inv db" by (simp add: chat_core_def)
  from capture_follows [OF this tables subject before after others run]
  obtain vs a where "authority_follows db db'" "db' = db1\<lparr>group_membership_authority_versions := vs, authority := a\<rparr>"
    by blast
  with chat_core_step [OF core] inv show ?thesis by simp
qed

lemma insert_membership_core:
  assumes core: "chat_core db0 db" and none: "find_member db (m_GroupID m) (m_UserID m) = None"
    and run: "insert_membership pg m db = Inr (x, db')"
  shows "chat_core db0 db'"
proof -
  let ?db1 = "db\<lparr>group_memberships := group_memberships db @ [m]\<rparr>"
  from run have ok: "membership_check m" "\<not> owner_clash db m" "find_group db (m_GroupID m) \<noteq> None"
    "find_user db (m_UserID m) \<noteq> None"
    and cap: "capture_group_membership_authority pg (OnInsert m) ?db1 = Inr (x, db')"
    by (auto simp: insert_membership_def split: if_splits)
  have fm: "find_member ?db1 g u = (if g = m_GroupID m \<and> u = m_UserID m then Some m else find_member db g u)" for g u
    using none by (auto simp: find_member_def find_append_iff member_at_def split: option.splits)
  have "mkey m \<notin> mkey ` set (group_memberships db)"
    using none by (auto simp: find_member_def find_None_set member_at_def mkey_def)
  moreover have "one_owner (group_memberships db @ [m])"
    by (rule one_owner_insert [of "group_memberships db" m])
      (use core ok(2) group_inv_rows in \<open>auto simp: chat_core_def owner_clash_def\<close>)
  ultimately have "group_inv ?db1"
    using core ok group_inv_rows [of db] by (intro group_inv_members) (auto simp: chat_core_def member_row_ok_def)
  then show ?thesis
    by (rule captured_keeps_core [OF core, where change = "OnInsert m" and g = "m_GroupID m" and u = "m_UserID m"
          and pg = pg and x = x])
      (simp_all add: subject_of_def before_change_def after_change_def fm none status_def cap)
qed

lemma keeps_AddGroupMembership: "keeps (chat_core db0) (AddGroupMembership pg g u role t)"
  unfolding keeps_def
proof (intro allI impI)
  fix db x db' assume core: "chat_core db0 db" and run: "AddGroupMembership pg g u role t db = Inr (x, db')"
  from run have ins: "insert_membership pg (new_membership g u role t) db = Inr (x, db')"
    and "\<not> (membership_check (new_membership g u role t) \<and> find_member db g u \<noteq> None)"
    by (auto simp: AddGroupMembership_def split: if_splits)
  moreover from ins have "membership_check (new_membership g u role t)"
    by (auto simp: insert_membership_def split: if_splits)
  ultimately have "find_member db g u = None" by blast
  then show "chat_core db0 db'"
    using insert_membership_core [OF core _ ins] by (simp add: new_membership_def)
qed

lemma keeps_JoinGroupMembership: "keeps (chat_core db0) (JoinGroupMembership pg g u role t)"
  unfolding keeps_def
proof (intro allI impI)
  fix db x db' assume core: "chat_core db0 db" and run: "JoinGroupMembership pg g u role t db = Inr (x, db')"
  show "chat_core db0 db'"
  proof (cases "membership_check (new_membership g u role t) \<and> find_member db g u \<noteq> None")
    case True
    with run core show ?thesis by (simp add: JoinGroupMembership_def)
  next
    case False
    with run obtain y where ins: "insert_membership pg (new_membership g u role t) db = Inr (y, db')"
      by (auto simp: JoinGroupMembership_def tx_simps split: if_splits)
    moreover from ins have "membership_check (new_membership g u role t)"
      by (auto simp: insert_membership_def split: if_splits)
    ultimately have "find_member db g u = None" using False by blast
    then show ?thesis using insert_membership_core [OF core _ ins] by (simp add: new_membership_def)
  qed
qed

lemma map_mkey_replace:
  "m_GroupID m = g \<Longrightarrow> m_UserID m = u \<Longrightarrow> map mkey (group_memberships (replace_member g u m db)) = map mkey (group_memberships db)"
  by (auto simp: replace_member_def mkey_def member_at_def)

lemma update_membership_core:
  assumes core: "chat_core db0 db"
    and key: "\<And>m. m_GroupID (f m) = m_GroupID m \<and> m_UserID (f m) = m_UserID m"
    and fires: "\<And>m. \<not> fires \<Longrightarrow> m_Role (f m) = m_Role m"
    and run: "update_membership pg fires g u hit f db = Inr (n, db')"
  shows "chat_core db0 db'"
proof (cases "\<exists>old. find_member db g u = Some old \<and> hit old")
  case False
  with run core show ?thesis by (auto simp: update_membership_def split: option.splits if_splits)
next
  case True
  then obtain old where old: "find_member db g u = Some old" "hit old" by blast
  from find_member_Some [OF old(1)] have at: "old \<in> set (group_memberships db)" "m_GroupID old = g" "m_UserID old = u"
    by simp_all
  let ?db1 = "replace_member g u (f old) db"
  from run old have ok: "membership_check (f old)" "\<not> owner_clash db (f old)"
    and cap: "(if fires then capture_group_membership_authority pg (OnUpdate old (f old)) else returnT ()) ?db1 = Inr ((), db')"
    by (auto simp: update_membership_def tx_simps split: if_splits)
  have fm: "find_member ?db1 g' u' = (if g' = g \<and> u' = u then Some (f old) else find_member db g' u')" for g' u'
    using find_member_replace [of "f old" g u db g' u'] key [of old] at old(1) by simp
  let ?ms = "map (\<lambda>x. if member_at g u x then f old else x) (group_memberships db)"
  have db1: "?db1 = db\<lparr>group_memberships := ?ms\<rparr>" by (simp add: replace_member_def)
  have inv: "group_inv db" using core by (simp add: chat_core_def)
  note rows = group_inv_rows [OF inv]
  have "map mkey ?ms = map mkey (group_memberships db)"
    using map_mkey_replace [of "f old" g u db] key [of old] at by (simp only: db1) simp
  with rows have "distinct (map mkey ?ms)" by metis
  moreover have "member_row_ok db (f old)"
    using rows at(1) ok(1) key [of old] by (simp add: member_row_ok_def)
  with rows have "\<forall>m\<in>set ?ms. member_row_ok db m" by auto
  moreover have "one_owner ?ms"
    by (rule one_owner_insert [of "group_memberships db" "f old"]) (use rows ok(2) in \<open>auto simp: owner_clash_def\<close>)
  ultimately have inv1: "group_inv ?db1" unfolding db1 using inv by (intro group_inv_members)
  show ?thesis
  proof (cases fires)
    case True
    with cap have "capture_group_membership_authority pg (OnUpdate old (f old)) ?db1 = Inr ((), db')" by simp
    moreover have "status (find_member ?db1 g u) = (True, eligible_role (m_Role (f old)))"
      "status (find_member db g u) = (True, eligible_role (m_Role old))"
      by (simp_all add: fm old(1) status_def)
    moreover have "find_member ?db1 g' u' = find_member db g' u'" if "(g', u') \<noteq> (g, u)" for g' u'
      using that by (auto simp: fm)
    ultimately show ?thesis
      by (intro captured_keeps_core [OF core inv1, where change = "OnUpdate old (f old)" and g = g and u = u
            and pg = pg and x = "()"])
        (simp_all add: replace_member_def subject_of_def before_change_def after_change_def key at)
  next
    case False
    with cap have db': "db' = ?db1" by (simp add: tx_simps)
    have "status (find_member ?db1 g' u') = status (find_member db g' u')" for g' u'
      using fires [OF False, of old] old(1) by (simp add: fm status_def)
    with core have "authority_follows db db'"
      by (intro follows_unchanged) (simp_all add: chat_core_def db' replace_member_def)
    with chat_core_step [OF core] inv1 show ?thesis by (simp add: db')
  qed
qed

lemma keeps_updates:
  "keeps (chat_core db0) (UpdateGroupMembershipRole pg g u role)"
  "keeps (chat_core db0) (SetGroupMembershipWriteRestriction pg g u flag at)"
  "keeps (chat_core db0) (DemoteGroupOwnerForTransfer pg g u v)"
  "keeps (chat_core db0) (PromoteGroupOwnerForTransfer pg g u)"
  unfolding keeps_def UpdateGroupMembershipRole_def SetGroupMembershipWriteRestriction_def
    DemoteGroupOwnerForTransfer_def PromoteGroupOwnerForTransfer_def Let_def
  by ((intro allI impI, erule update_membership_core; simp)[1])+

lemma keeps_DeleteGroupMembership: "keeps (chat_core db0) (DeleteGroupMembership pg g u)"
  unfolding keeps_def
proof (intro allI impI)
  fix db x db' assume core: "chat_core db0 db" and run: "DeleteGroupMembership pg g u db = Inr (x, db')"
  show "chat_core db0 db'"
  proof (cases "find_member db g u")
    case None
    with run core show ?thesis by (simp add: DeleteGroupMembership_def)
  next
    case (Some old)
    let ?ms = "filter (\<lambda>x. \<not> member_at g u x) (group_memberships db)"
    let ?db1 = "db\<lparr>group_memberships := ?ms\<rparr>"
    from run Some have cap: "capture_group_membership_authority pg (OnDelete old) ?db1 = Inr ((), db')"
      by (auto simp: DeleteGroupMembership_def tx_simps)
    have inv: "group_inv db" using core by (simp add: chat_core_def)
    note rows = group_inv_rows [OF inv]
    have "one_owner ?ms" using rows by (auto simp: one_owner_def)
    with rows have inv1: "group_inv ?db1"
      by (intro group_inv_members inv) (auto simp: distinct_map inj_on_def)
    have fm: "find_member ?db1 g' u' = (if g' = g \<and> u' = u then None else find_member db g' u')" for g' u'
    proof (cases "g' = g \<and> u' = u")
      case True
      then show ?thesis by (simp add: find_member_def find_remove_same)
    next
      case False
      then have "find (member_at g' u') ?ms = find (member_at g' u') (group_memberships db)"
        by (intro find_remove_other) (auto simp: member_at_def)
      with False show ?thesis by (auto simp: find_member_def)
    qed
    from find_member_Some [OF Some] have "m_GroupID old = g" "m_UserID old = u" by simp_all
    then show ?thesis
      by (intro captured_keeps_core [OF core inv1, where change = "OnDelete old" and g = g and u = u and pg = pg and x = "()"])
        (auto simp: subject_of_def before_change_def after_change_def fm Some status_def cap)
  qed
qed

section \<open>Statements on the other tables\<close>

lemma other_statement:
  assumes core: "chat_core db0 db" and inv: "group_inv db'"
    and same: "group_memberships db' = group_memberships db"
      "group_membership_authority_versions db' = group_membership_authority_versions db" "authority db' = authority db"
  shows "chat_core db0 db'"
proof -
  have "status (find_member db' g u) = status (find_member db g u)" for g u
    by (simp add: find_member_def same)
  with core same have "authority_follows db db'" by (intro follows_unchanged) (simp_all add: chat_core_def)
  with chat_core_step [OF core] inv show ?thesis by blast
qed

text \<open>\<open>group_inv\<close> when only groups, threads or links change.\<close>

lemma group_inv_frame:
  assumes inv: "group_inv db"
    and same: "group_memberships db' = group_memberships db" "users db' = users db"
    and groups: "distinct (map grp_ID (groups db'))" "\<And>g. find_group db g \<noteq> None \<Longrightarrow> find_group db' g \<noteq> None"
    and links: "distinct (map l_ID (group_invite_links db'))" "distinct (map l_TokenHash (group_invite_links db'))"
      "\<And>l. l \<in> set (group_invite_links db') \<Longrightarrow> invite_check l \<and> find_group db' (l_GroupID l) \<noteq> None"
    and threads: "distinct (map tkey (group_threads db'))"
      "\<And>t. t \<in> set (group_threads db') \<Longrightarrow> find_group db' (t_GroupID t) \<noteq> None"
  shows "group_inv db'"
proof -
  have "owner_clash db' m = owner_clash db m" for m by (simp add: owner_clash_def same)
  moreover have "find_user db' u = find_user db u" for u by (simp add: find_user_def same)
  ultimately have "\<forall>m\<in>set (group_memberships db'). membership_check m \<and> find_group db' (m_GroupID m) \<noteq> None \<and>
      find_user db' (m_UserID m) \<noteq> None \<and> \<not> owner_clash db' m"
    using inv groups(2) by (simp add: group_inv_def same del: not_None_eq)
  then show ?thesis
    using inv groups(1) links threads by (simp add: group_inv_def same del: not_None_eq)
qed

lemma group_inv_parts:
  assumes "group_inv db"
  shows "distinct (map grp_ID (groups db))" "distinct (map l_ID (group_invite_links db))"
    "distinct (map l_TokenHash (group_invite_links db))" "distinct (map tkey (group_threads db))"
    "l \<in> set (group_invite_links db) \<Longrightarrow> invite_check l \<and> find_group db (l_GroupID l) \<noteq> None"
    "t \<in> set (group_threads db) \<Longrightarrow> find_group db (t_GroupID t) \<noteq> None"
  using assms unfolding group_inv_def by blast+

lemma chat_core_inv: "chat_core db0 db \<Longrightarrow> group_inv db"
  by (simp add: chat_core_def)

lemma keeps_CreateGroup_sql: "keeps (chat_core db0) (CreateGroup_sql g name u a b)"
  unfolding keeps_def
proof (intro allI impI)
  fix db x db' assume core: "chat_core db0 db" and run: "CreateGroup_sql g name u a b db = Inr (x, db')"
  then have db': "db' = db\<lparr>groups := groups db @ [x]\<rparr>" and new: "find_group db g = None" "grp_ID x = g"
    by (auto simp: CreateGroup_sql_def Let_def split: if_splits)
  have fg: "find_group db i \<noteq> None \<Longrightarrow> find_group db' i \<noteq> None" for i
    by (auto simp: db' find_group_def find_append_iff split: option.splits)
  note parts = group_inv_parts [OF chat_core_inv [OF core]]
  have "group_inv db'"
    by (rule group_inv_frame [OF chat_core_inv [OF core]])
      (use parts new fg in \<open>auto simp: db' find_group_def find_None_set simp del: not_None_eq\<close>)
  then show "chat_core db0 db'" by (rule other_statement [OF core]) (simp_all add: db')
qed

lemma keeps_TouchGroupUpdatedAt: "keeps (chat_core db0) (TouchGroupUpdatedAt g t)"
  unfolding keeps_def
proof (intro allI impI)
  fix db x db' assume core: "chat_core db0 db" and run: "TouchGroupUpdatedAt g t db = Inr (x, db')"
  then have db': "db' = db\<lparr>groups := map (\<lambda>r. if grp_ID r = g then r\<lparr>grp_UpdatedAt := t\<rparr> else r) (groups db)\<rparr>"
    by (auto simp: TouchGroupUpdatedAt_def)
  have fg: "find_group db i \<noteq> None \<Longrightarrow> find_group db' i \<noteq> None" for i
    using find_map_keep [of "\<lambda>r. grp_ID r = i" "\<lambda>r. if grp_ID r = g then r\<lparr>grp_UpdatedAt := t\<rparr> else r" "groups db"]
    by (simp add: db' find_group_def)
  note parts = group_inv_parts [OF chat_core_inv [OF core]]
  have "distinct (map grp_ID (map (\<lambda>r. if grp_ID r = g then r\<lparr>grp_UpdatedAt := t\<rparr> else r) (groups db)))"
    by (rule distinct_map_update) (simp_all add: parts)
  then have "group_inv db'"
    by (intro group_inv_frame [OF chat_core_inv [OF core]]) (use parts fg in \<open>auto simp: db' simp del: not_None_eq\<close>)
  then show "chat_core db0 db'" by (rule other_statement [OF core]) (simp_all add: db')
qed

lemma keeps_CreateGroupThread: "keeps (chat_core db0) (CreateGroupThread i g key a b)"
  unfolding keeps_def
proof (intro allI impI)
  fix db x db' assume core: "chat_core db0 db" and run: "CreateGroupThread i g key a b db = Inr (x, db')"
  then have db': "db' = db\<lparr>group_threads := group_threads db @ [x]\<rparr>" and x: "tkey x = (g, key)" "t_GroupID x = g"
    and new: "find_group db g \<noteq> None" "(g, key) \<notin> tkey ` set (group_threads db)"
    by (auto simp: CreateGroupThread_def Let_def tkey_def split: if_splits)
  note parts = group_inv_parts [OF chat_core_inv [OF core]]
  have "group_inv db'"
    by (rule group_inv_frame [OF chat_core_inv [OF core]])
      (use parts new x in \<open>auto simp: db' simp del: not_None_eq\<close>)
  then show "chat_core db0 db'" by (rule other_statement [OF core]) (simp_all add: db')
qed

lemma keeps_CreateGroupInviteLink_sql: "keeps (chat_core db0) (CreateGroupInviteLink_sql i g u role h a b)"
  unfolding keeps_def
proof (intro allI impI)
  fix db x db' assume core: "chat_core db0 db" and run: "CreateGroupInviteLink_sql i g u role h a b db = Inr (x, db')"
  then have db': "db' = db\<lparr>group_invite_links := group_invite_links db @ [x]\<rparr>"
    and x: "l_ID x = i" "l_TokenHash x = h" "l_GroupID x = g" "invite_check x" "find_group db g \<noteq> None"
    and new: "i \<notin> l_ID ` set (group_invite_links db)" "h \<notin> l_TokenHash ` set (group_invite_links db)"
    by (auto simp: CreateGroupInviteLink_sql_def Let_def split: if_splits)
  note parts = group_inv_parts [OF chat_core_inv [OF core]]
  have "group_inv db'"
    by (rule group_inv_frame [OF chat_core_inv [OF core]])
      (use parts new x in \<open>auto simp: db' simp del: not_None_eq\<close>)
  then show "chat_core db0 db'" by (rule other_statement [OF core]) (simp_all add: db')
qed

lemma links_update_core:
  assumes core: "chat_core db0 db"
    and f: "\<And>l. l_ID (f l) = l_ID l \<and> l_TokenHash (f l) = l_TokenHash l \<and> l_GroupID (f l) = l_GroupID l"
      "\<And>l. l \<in> set (group_invite_links db) \<Longrightarrow> invite_check l \<Longrightarrow> invite_check (f l)"
  shows "chat_core db0 (db\<lparr>group_invite_links := map f (group_invite_links db)\<rparr>)"
proof -
  let ?db' = "db\<lparr>group_invite_links := map f (group_invite_links db)\<rparr>"
  note parts = group_inv_parts [OF chat_core_inv [OF core]]
  have "distinct (map l_ID (map f (group_invite_links db)))" "distinct (map l_TokenHash (map f (group_invite_links db)))"
    by (rule distinct_map_update; simp add: f(1) parts)+
  moreover have "invite_check l \<and> find_group ?db' (l_GroupID l) \<noteq> None" if "l \<in> set (group_invite_links ?db')" for l
  proof -
    from that obtain k where k: "k \<in> set (group_invite_links db)" "l = f k" by auto
    from parts(5) [OF k(1)] f(2) [OF k(1)] show ?thesis by (simp add: k(2) f(1) del: not_None_eq)
  qed
  ultimately have "group_inv ?db'"
    by (intro group_inv_frame [OF chat_core_inv [OF core]])
      (use parts in \<open>auto simp del: not_None_eq\<close>)
  then show ?thesis by (rule other_statement [OF core]) simp_all
qed

lemma keeps_DisableGroupInviteLink_sql: "keeps (chat_core db0) (DisableGroupInviteLink_sql g i t)"
  unfolding keeps_def DisableGroupInviteLink_sql_def Let_def
  by (auto intro!: links_update_core simp: invite_check_def)

lemma keeps_TouchGroupInviteLinkJoin: "keeps (chat_core db0) (TouchGroupInviteLinkJoin i t)"
  unfolding keeps_def TouchGroupInviteLinkJoin_def
  by (auto intro!: links_update_core simp: invite_check_def split: if_splits)

text \<open>Tables outside the invariant.\<close>

lemma apart_core:
  assumes core: "chat_core db0 db"
    and same: "groups db' = groups db" "group_memberships db' = group_memberships db" "users db' = users db"
      "group_invite_links db' = group_invite_links db" "group_threads db' = group_threads db"
      "group_membership_authority_versions db' = group_membership_authority_versions db" "authority db' = authority db"
  shows "chat_core db0 db'"
proof -
  have fg: "find_group db' g = find_group db g" for g by (simp add: find_group_def same(1))
  note parts = group_inv_parts [OF chat_core_inv [OF core]]
  have "group_inv db'"
    by (rule group_inv_frame [OF chat_core_inv [OF core] same(2,3)]) (simp_all only: fg same parts simp_thms)
  then show ?thesis by (rule other_statement [OF core]) (simp_all add: same)
qed

lemma put_preference_same:
  "groups (put_preference g u e t db) = groups db" "group_memberships (put_preference g u e t db) = group_memberships db"
  "users (put_preference g u e t db) = users db" "group_invite_links (put_preference g u e t db) = group_invite_links db"
  "group_threads (put_preference g u e t db) = group_threads db" "authority (put_preference g u e t db) = authority db"
  "group_membership_authority_versions (put_preference g u e t db) = group_membership_authority_versions db"
  by (simp_all add: put_preference_def Let_def)

lemma put_preferences_core: "chat_core db0 db \<Longrightarrow> chat_core db0 (fold (\<lambda>m. put_preference (m_GroupID m) u e t) ms db)"
proof (induction ms arbitrary: db)
  case (Cons m ms)
  from Cons.prems have "chat_core db0 (put_preference (m_GroupID m) u e t db)"
    by (rule apart_core) (rule put_preference_same)+
  with Cons.IH show ?case by simp
qed simp

lemma keeps_preference: "keeps (chat_core db0) (UpsertGroupNotificationPreference_sql g u e t)"
  unfolding keeps_def
proof (intro allI impI)
  fix db x db' assume core: "chat_core db0 db" and "UpsertGroupNotificationPreference_sql g u e t db = Inr (x, db')"
  then have "db' = put_preference g u e t db" by (auto simp: UpsertGroupNotificationPreference_sql_def split: if_splits)
  with put_preferences_core [OF core, of u e t "[new_membership g u [] 0]"] show "chat_core db0 db'"
    by (simp add: new_membership_def)
qed

lemma keeps_all_preferences: "keeps (chat_core db0) (SetAllGroupNotificationPreferencesByUserID u e t)"
  unfolding keeps_def SetAllGroupNotificationPreferencesByUserID_def by (auto intro: put_preferences_core)

lemma keeps_touch_session: "keeps (chat_core db0) (TouchSessionAndDevice a b t)"
  unfolding keeps_def TouchSessionAndDevice_def by (auto intro: apart_core)

section \<open>Transactions\<close>

lemmas core_statements =
  keeps_AddGroupMembership keeps_JoinGroupMembership keeps_updates keeps_DeleteGroupMembership keeps_CreateGroup_sql
  keeps_TouchGroupUpdatedAt keeps_CreateGroupThread keeps_CreateGroupInviteLink_sql keeps_DisableGroupInviteLink_sql
  keeps_TouchGroupInviteLinkJoin keeps_preference keeps_all_preferences keeps_touch_session

lemma keeps_query: "keeps P m \<Longrightarrow> keeps P (query m)"
  unfolding query_def by (rule keeps_mapErrT)

lemma keeps_change_group:
  "keeps P m \<Longrightarrow> keeps P (TouchGroupUpdatedAt g t) \<Longrightarrow> keeps P (change_group m g t)"
  unfolding change_group_def by (intro pres_intros keeps_query)

lemmas keeps_reads = read_only_statements [THEN read_only_keeps]

lemma keeps_worker:
  assumes "case operation of OpEvent _ \<Rightarrow> False | _ \<Rightarrow> True"
  shows "keeps (chat_core db0) (on_authority (delivery_op_tx chat_kind (t, operation)))"
  unfolding keeps_def
proof (intro allI impI)
  fix db x db' assume core: "chat_core db0 db"
    and run: "on_authority (delivery_op_tx chat_kind (t, operation)) db = Inr (x, db')"
  then obtain d where d: "delivery_op_tx chat_kind (t, operation) (authority db) = Inr (x, d)" "db' = db\<lparr>authority := d\<rparr>"
    by (auto simp: on_authority_def split: sum.splits)
  have "kept chat_kind (authority db) (authority db)" using core by (simp add: chat_core_def authority_inv_def kept_def)
  from keepsD [OF delivery_op_kept this d(1)] have k: "delivery_inv chat_kind d" "delivery_evolves (authority db) d"
    by (simp_all add: kept_def)
  from delivery_op_outbox [OF assms d(1)] have o: "outbox d = outbox (authority db)" .
  have "authority_follows db db'"
    using core k by (simp add: authority_follows_def chat_core_def authority_inv_def d(2) o subject_of_db_def)
  moreover have "group_inv db'" using chat_core_inv [OF core] by (simp add: d(2))
  ultimately show "chat_core db0 db'" by (intro chat_core_step [OF core])
qed

lemma keeps_core_op:
  assumes "op_allowed limit operation"
  shows "keeps (chat_core db0) (chat_op_tx parse pg operation)"
proof (cases operation)
  case (OpWorker t x)
  then show ?thesis using keeps_worker [of x db0 t] assms by (simp add: op_allowed_def chat_op_tx_def)
qed (simp_all only: chat_op_tx_def chat_op.case CreateGroup_tx_def UpdateGroupMemberRole_tx_def
      SetGroupMemberWriteRestriction_tx_def TransferGroupOwnership_tx_def DeleteGroupMembership_tx_def
      CreateGroupInviteLink_tx_def DisableGroupInviteLink_tx_def JoinGroupByInviteLink_tx_def TouchSession_tx_def
      UpsertGroupNotificationPreference_tx_def SetAllGroupNotificationPreferences_tx_def,
    (intro pres_intros keeps_query keeps_change_group core_statements keeps_reads)+)

section \<open>What the transactions do to the rows\<close>

text \<open>\<open>leaves f m\<close>: a successful run of \<open>m\<close> does not change the component \<open>f\<close> of the database.\<close>

definition leaves :: "(chat_db \<Rightarrow> 'b) \<Rightarrow> 'a chat_tx \<Rightarrow> bool" where
  "leaves f m \<longleftrightarrow> (\<forall>db x db'. m db = Inr (x, db') \<longrightarrow> f db' = f db)"

lemma leavesD: "leaves f m \<Longrightarrow> m db = Inr (x, db') \<Longrightarrow> f db' = f db"
  by (simp add: leaves_def)

lemma insert_event_leaves: "insert_event pg g u r reason db = Inr (x, db') \<Longrightarrow> \<exists>a. db' = db\<lparr>authority := a\<rparr>"
  using insert_event_frame by blast

lemma capture_tables:
  assumes "capture_group_membership_authority pg change db = Inr (x, db')"
  shows "group_memberships db' = group_memberships db \<and> groups db' = groups db \<and> users db' = users db \<and>
     group_threads db' = group_threads db \<and> group_invite_links db' = group_invite_links db"
proof -
  obtain present eligible where "after_change change = (present, eligible)" by fastforce
  from assms refl refl this show ?thesis
  proof (cases rule: capture_run)
    case (moved prior db1)
    from moved(5) obtain vs where "db1 = db\<lparr>group_membership_authority_versions := vs\<rparr>"
      using set_version_frame by blast
    moreover from moved(6) obtain a where "db' = db1\<lparr>authority := a\<rparr>"
      by (auto simp: announce_def tx_simps split: if_splits dest!: insert_event_leaves)
        (metis chat_db.surjective chat_db.update_convs(15))
    ultimately show ?thesis by simp
  qed simp_all
qed

lemma insert_membership_rows:
  assumes "insert_membership pg m db = Inr (x, db')"
  shows "group_memberships db' = group_memberships db @ [m] \<and> groups db' = groups db \<and> users db' = users db \<and>
     group_threads db' = group_threads db \<and> group_invite_links db' = group_invite_links db"
  using assms by (auto simp: insert_membership_def split: if_splits dest: capture_tables)

lemma AddGroupMembership_rows:
  assumes "AddGroupMembership pg g u role t db = Inr (x, db')"
  shows "group_memberships db' = group_memberships db @ [new_membership g u role t] \<and> groups db' = groups db \<and>
     users db' = users db \<and> group_threads db' = group_threads db \<and> group_invite_links db' = group_invite_links db"
  using assms by (auto simp: AddGroupMembership_def split: if_splits dest: insert_membership_rows)

lemma update_membership_rows:
  assumes "update_membership pg fires g u hit f db = Inr (n, db')"
  shows "groups db' = groups db \<and> users db' = users db \<and> group_threads db' = group_threads db \<and>
     group_invite_links db' = group_invite_links db \<and>
     (case find_member db g u of
        Some old \<Rightarrow> if hit old then n = 1 \<and> group_memberships db' = group_memberships (replace_member g u (f old) db)
                    else n = 0 \<and> db' = db
      | None \<Rightarrow> n = 0 \<and> db' = db)"
  using assms
  by (auto simp: update_membership_def tx_simps replace_member_def split: option.splits if_splits dest!: capture_tables)

lemma DeleteGroupMembership_rows:
  assumes "DeleteGroupMembership pg g u db = Inr (n, db')"
  shows "groups db' = groups db \<and> users db' = users db \<and> group_threads db' = group_threads db \<and>
     group_invite_links db' = group_invite_links db \<and>
     group_memberships db' = filter (\<lambda>x. \<not> member_at g u x) (group_memberships db) \<and>
     (find_member db g u = None \<longrightarrow> n = 0 \<and> db' = db) \<and> (find_member db g u \<noteq> None \<longrightarrow> n = 1)"
proof (cases "find_member db g u")
  case None
  then have "filter (\<lambda>x. \<not> member_at g u x) (group_memberships db) = group_memberships db"
    by (simp add: find_member_def find_None_set)
  with assms None show ?thesis by (simp add: DeleteGroupMembership_def)
next
  case (Some old)
  with assms show ?thesis by (auto simp: DeleteGroupMembership_def tx_simps dest!: capture_tables)
qed

lemma query_run [tx_simps]: "query m db = Inr r \<longleftrightarrow> m db = Inr r"
  by (simp add: query_def tx_simps)

lemma locks_run [tx_simps]:
  "LockGroupByID g db = Inr r \<longleftrightarrow> find_group db g \<noteq> None \<and> r = (grp_ID (the (find_group db g)), db)"
  "LockGroupMembershipQuotaOwner u db = Inr r' \<longleftrightarrow> find_user db u \<noteq> None \<and> r' = (usr_ID (the (find_user db u)), db)"
  "GetActiveGroupMembershipCountByUserID u db = Inr r'' \<longleftrightarrow> r'' = (membership_count db u, db)"
  "TouchGroupUpdatedAt g t db = Inr r3 \<longleftrightarrow>
     r3 = ((), db\<lparr>groups := map (\<lambda>r. if grp_ID r = g then r\<lparr>grp_UpdatedAt := t\<rparr> else r) (groups db)\<rparr>)"
  by (auto simp: LockGroupByID_def LockGroupMembershipQuotaOwner_def GetActiveGroupMembershipCountByUserID_def
      membership_count_def TouchGroupUpdatedAt_def split: option.splits)

lemma parsed_uuid [simp]: "mustParseUUID parse v = Inr u \<longleftrightarrow> parse v = Some u"
  by (simp add: mustParseUUID_def split: option.splits)

lemma CreateGroup_tx_run:
  assumes "CreateGroup_tx parse pg params db = Inr (x, db')"
  obtains g u t where "parse (cg_GroupID params) = Some g" and "parse (cg_CreatedByUserID params) = Some u"
    and "within_quota (cg_MaxActiveGroupMembershipsPerUser params) (membership_count db u)"
    and "group_memberships db' = group_memberships db @ [new_membership g u ''owner'' (cg_CreatedAt params)]"
    and "groups db' = groups db @ [\<lparr>grp_ID = g, grp_Name = cg_Name params, grp_CreatedByUserID = u,
           grp_CreatedAt = cg_CreatedAt params, grp_UpdatedAt = cg_CreatedAt params\<rparr>]"
    and "group_threads db' = group_threads db @ [\<lparr>t_ID = t, t_GroupID = g, t_ThreadKey = ''primary'',
           t_CreatedAt = cg_CreatedAt params, t_UpdatedAt = cg_CreatedAt params\<rparr>]"
    and "find_group db g = None" and "users db' = users db" and "group_invite_links db' = group_invite_links db"
proof -
  from assms obtain g u t row db0 db1 z where ids: "parse (cg_GroupID params) = Some g" "parse (cg_CreatedByUserID params) = Some u"
    and quota: "within_quota (cg_MaxActiveGroupMembershipsPerUser params) (membership_count db u)"
    and create: "CreateGroup_sql g (cg_Name params) u (cg_CreatedAt params) (cg_CreatedAt params) db = Inr (row, db0)"
    and add: "AddGroupMembership pg g u ''owner'' (cg_CreatedAt params) db0 = Inr ((), db1)"
    and thread: "CreateGroupThread t g ''primary'' (cg_CreatedAt params) (cg_CreatedAt params) db1 = Inr (z, db')"
    by (auto simp: CreateGroup_tx_def tx_simps role_defs GroupThreadKeyPrimary_def split: if_splits)
  from create have "db0 = db\<lparr>groups := groups db @ [\<lparr>grp_ID = g, grp_Name = cg_Name params, grp_CreatedByUserID = u,
      grp_CreatedAt = cg_CreatedAt params, grp_UpdatedAt = cg_CreatedAt params\<rparr>]\<rparr>" "find_group db g = None"
    by (auto simp: CreateGroup_sql_def Let_def split: if_splits)
  moreover from thread have "db' = db1\<lparr>group_threads := group_threads db1 @ [\<lparr>t_ID = t, t_GroupID = g, t_ThreadKey = ''primary'',
           t_CreatedAt = cg_CreatedAt params, t_UpdatedAt = cg_CreatedAt params\<rparr>]\<rparr>"
    by (auto simp: CreateGroupThread_def Let_def split: if_splits)
  ultimately show thesis using AddGroupMembership_rows [OF add] by (intro that [OF ids quota]) simp_all
qed

lemma JoinGroup_tx_run:
  assumes "JoinGroupByInviteLink_tx parse pg params db = Inr (b, db')"
  obtains g u i link where "parse (jg_GroupID params) = Some g" and "parse (jg_UserID params) = Some u"
    and "parse (jg_InviteLinkID params) = Some i" and "find_link db g i = Some link" and "l_DisabledAt link = None"
    and "if b then find_member db g u = None \<and>
           within_quota (jg_MaxActiveGroupMembershipsPerUser params) (membership_count db u) \<and>
           group_memberships db' = group_memberships db @ [new_membership g u (jg_Role params) (jg_JoinedAt params)] \<and>
           map grp_ID (groups db') = map grp_ID (groups db) \<and> group_threads db' = group_threads db \<and>
           users db' = users db
         else db' = db \<and> find_member db g u \<noteq> None"
proof -
  from assms obtain g u i link where ids: "parse (jg_GroupID params) = Some g" "parse (jg_UserID params) = Some u"
      "parse (jg_InviteLinkID params) = Some i"
    and link: "find_link db g i = Some link" "l_DisabledAt link = None" and user: "find_user db u \<noteq> None"
    and rest: "attemptT (GetGroupMemberRowByGroupIDAndUserID g u) (\<lambda>r. case r of
       Inr _ \<Rightarrow> returnT False
     | Inl err \<Rightarrow>
         if err \<noteq> ErrNoRows then failT (convertError err)
         else
         bindT (query (GetActiveGroupMembershipCountByUserID u)) (\<lambda>active.
         if \<not> within_quota (jg_MaxActiveGroupMembershipsPerUser params) active then failT ErrResourceExhausted
         else
         bindT (query (JoinGroupMembership pg g u (jg_Role params) (jg_JoinedAt params))) (\<lambda>affected.
         if affected = 0 then returnT False
         else
         bindT (query (TouchGroupInviteLinkJoin i (jg_JoinedAt params))) (\<lambda>_.
         bindT (query (TouchGroupUpdatedAt g (jg_JoinedAt params))) (\<lambda>_. returnT True))))) db = Inr (b, db')"
    by (auto simp: JoinGroupByInviteLink_tx_def tx_simps GetGroupInviteLinkByIDAndGroupID_def
        split: if_splits option.splits)
  show thesis
  proof (rule that [OF ids link])
    show "if b then find_member db g u = None \<and>
           within_quota (jg_MaxActiveGroupMembershipsPerUser params) (membership_count db u) \<and>
           group_memberships db' = group_memberships db @ [new_membership g u (jg_Role params) (jg_JoinedAt params)] \<and>
           map grp_ID (groups db') = map grp_ID (groups db) \<and> group_threads db' = group_threads db \<and>
           users db' = users db
         else db' = db \<and> find_member db g u \<noteq> None"
    proof (cases "find_member db g u")
      case (Some m)
      with rest user show ?thesis
        by (auto simp: attemptT_def GetGroupMemberRowByGroupIDAndUserID_def tx_simps)
    next
      case None
      with rest obtain n db1 db2 where quota: "within_quota (jg_MaxActiveGroupMembershipsPerUser params) (membership_count db u)"
        and join: "JoinGroupMembership pg g u (jg_Role params) (jg_JoinedAt params) db = Inr (n, db1)"
        and touch: "if n = 0 then b = False \<and> db' = db1 else b = True \<and>
          TouchGroupInviteLinkJoin i (jg_JoinedAt params) db1 = Inr ((), db2) \<and>
          db' = db2\<lparr>groups := map (\<lambda>r. if grp_ID r = g then r\<lparr>grp_UpdatedAt := jg_JoinedAt params\<rparr> else r) (groups db2)\<rparr>"
        by (auto simp: attemptT_def GetGroupMemberRowByGroupIDAndUserID_def tx_simps split: if_splits)
      from join None have n: "n = 1" and rows: "group_memberships db1 = group_memberships db @
          [new_membership g u (jg_Role params) (jg_JoinedAt params)]" "groups db1 = groups db" "users db1 = users db"
        "group_threads db1 = group_threads db"
        by (auto simp: JoinGroupMembership_def tx_simps dest!: insert_membership_rows)
      from touch n rows None quota show ?thesis
        by (auto simp: TouchGroupInviteLinkJoin_def split: if_splits)
    qed
  qed
qed

section \<open>Quota and threads\<close>

definition counts_threads :: "(uuid \<Rightarrow> nat) \<Rightarrow> chat_db \<Rightarrow> bool" where
  "counts_threads n db \<longleftrightarrow> (\<forall>u. membership_count db u \<le> n u) \<and> threads_ok db"

lemma threads_ok_frame:
  assumes "threads_ok db" and "map grp_ID (groups db') = map grp_ID (groups db)"
    and "group_threads db' = group_threads db"
  shows "threads_ok db'"
  unfolding threads_ok_def
proof
  fix r assume "r \<in> set (groups db')"
  then have "grp_ID r \<in> set (map grp_ID (groups db))" using assms(2) by (metis image_eqI set_map)
  then obtain q where "q \<in> set (groups db)" "grp_ID r = grp_ID q" by auto
  with assms(1,3) show "\<exists>t\<in>set (group_threads db'). t_GroupID t = grp_ID r \<and> t_ThreadKey t = ''primary''"
    by (simp add: threads_ok_def)
qed

lemma counts_threads_frame:
  assumes "counts_threads n db" and "\<And>u. membership_count db' u \<le> membership_count db u"
    and "map grp_ID (groups db') = map grp_ID (groups db)" and "group_threads db' = group_threads db"
  shows "counts_threads n db'"
proof -
  have "membership_count db' u \<le> n u" for u
    using assms(1) assms(2) [of u] order_trans unfolding counts_threads_def by blast
  moreover have "threads_ok db'"
    by (rule threads_ok_frame [OF _ assms(3,4)]) (use assms(1) in \<open>simp add: counts_threads_def\<close>)
  ultimately show ?thesis by (simp add: counts_threads_def)
qed

lemma count_replace:
  "m_UserID m = u \<Longrightarrow> membership_count (replace_member g u m db) v = membership_count db v"
proof -
  assume "m_UserID m = u"
  then have "map m_UserID (group_memberships (replace_member g u m db)) = map m_UserID (group_memberships db)"
    by (auto simp: replace_member_def member_at_def)
  moreover have "membership_count d v = count_list (map m_UserID (group_memberships d)) v" for d
    by (simp add: membership_count_def count_list_eq_length_filter filter_map o_def eq_commute)
  ultimately show ?thesis by simp
qed

lemma keeps_ct_update:
  assumes "counts_threads n db" and "\<And>m. m_UserID (f m) = m_UserID m"
    and "update_membership pg fires g u hit f db = Inr (k, db')"
  shows "counts_threads n db'"
proof (rule counts_threads_frame [OF assms(1)])
  note rows = update_membership_rows [OF assms(3)]
  show "membership_count db' v \<le> membership_count db v" for v
  proof (cases "find_member db g u")
    case (Some old)
    then have "m_UserID (f old) = u" using find_member_Some [OF Some] assms(2) by simp
    with rows Some count_replace [of "f old" u g db v] show ?thesis
      by (auto simp: membership_count_def split: if_splits)
  qed (use rows in simp)
qed (use update_membership_rows [OF assms(3)] in simp_all)

lemma keeps_ct_updates:
  "keeps (counts_threads n) (UpdateGroupMembershipRole pg g u role)"
  "keeps (counts_threads n) (SetGroupMembershipWriteRestriction pg g u flag at)"
  "keeps (counts_threads n) (DemoteGroupOwnerForTransfer pg g u v)"
  "keeps (counts_threads n) (PromoteGroupOwnerForTransfer pg g u)"
  unfolding keeps_def UpdateGroupMembershipRole_def SetGroupMembershipWriteRestriction_def
    DemoteGroupOwnerForTransfer_def PromoteGroupOwnerForTransfer_def Let_def
  by ((intro allI impI, erule keeps_ct_update; simp)[1])+

lemma keeps_ct_delete: "keeps (counts_threads n) (DeleteGroupMembership pg g u)"
  unfolding keeps_def
proof (intro allI impI)
  fix db x db' assume ct: "counts_threads n db" and run: "DeleteGroupMembership pg g u db = Inr (x, db')"
  note rows = DeleteGroupMembership_rows [OF run]
  have "membership_count db' v \<le> membership_count db v" for v
  proof -
    have "filter (\<lambda>m. m_UserID m = v) (group_memberships db') =
        filter (\<lambda>x. \<not> member_at g u x) (filter (\<lambda>m. m_UserID m = v) (group_memberships db))"
      using rows by (simp add: conj_commute)
    then show ?thesis unfolding membership_count_def by (metis length_filter_le)
  qed
  then show "counts_threads n db'"
    by (rule counts_threads_frame [OF ct]) (use rows in simp_all)
qed

lemma keeps_ct_apart:
  assumes "\<And>db x db'. m db = Inr (x, db') \<Longrightarrow> group_memberships db' = group_memberships db \<and>
     map grp_ID (groups db') = map grp_ID (groups db) \<and> group_threads db' = group_threads db"
  shows "keeps (counts_threads n) m"
  unfolding keeps_def
proof (intro allI impI)
  fix db x db' assume ct: "counts_threads n db" and "m db = Inr (x, db')"
  from assms [OF this(2)] show "counts_threads n db'"
    by (intro counts_threads_frame [OF ct]) (simp_all add: membership_count_def)
qed

lemma put_preferences_same:
  "group_memberships (fold (\<lambda>m. put_preference (m_GroupID m) u e t) ms db) = group_memberships db \<and>
   groups (fold (\<lambda>m. put_preference (m_GroupID m) u e t) ms db) = groups db \<and>
   group_threads (fold (\<lambda>m. put_preference (m_GroupID m) u e t) ms db) = group_threads db"
  by (induction ms arbitrary: db) (simp_all add: put_preference_same)

lemma keeps_ct_touch_group: "keeps (counts_threads n) (TouchGroupUpdatedAt g t)"
  by (rule keeps_ct_apart) (auto simp: tx_simps)

lemma keeps_ct_disable: "keeps (counts_threads n) (DisableGroupInviteLink_sql g i t)"
  by (rule keeps_ct_apart) (auto simp: DisableGroupInviteLink_sql_def Let_def)

lemma keeps_ct_touch: "keeps (counts_threads n) (TouchSessionAndDevice sid did t)"
  by (rule keeps_ct_apart) (auto simp: TouchSessionAndDevice_def)

lemma keeps_ct_link: "keeps (counts_threads n) (CreateGroupInviteLink_sql i g u role h a b)"
  by (rule keeps_ct_apart) (auto simp: CreateGroupInviteLink_sql_def Let_def split: if_splits)

lemma keeps_ct_preference: "keeps (counts_threads n) (UpsertGroupNotificationPreference_sql g u e t)"
  by (rule keeps_ct_apart) (auto simp: UpsertGroupNotificationPreference_sql_def put_preference_same split: if_splits)

lemma keeps_ct_preferences: "keeps (counts_threads n) (SetAllGroupNotificationPreferencesByUserID u e t)"
  by (rule keeps_ct_apart) (auto simp: SetAllGroupNotificationPreferencesByUserID_def put_preferences_same)

lemma keeps_ct_authority: "keeps (counts_threads n) (on_authority m)"
  by (rule keeps_ct_apart) (auto simp: on_authority_def split: sum.splits)

lemmas keeps_ct_others = keeps_ct_touch_group keeps_ct_disable keeps_ct_touch keeps_ct_link keeps_ct_preference keeps_ct_preferences

lemma keeps_ct_op:
  assumes "case operation of OpCreateGroup _ \<Rightarrow> False | OpJoin _ \<Rightarrow> False | _ \<Rightarrow> True"
  shows "keeps (counts_threads n) (chat_op_tx parse pg operation)"
proof (cases operation)
  case (OpWorker t x)
  then show ?thesis by (simp add: chat_op_tx_def keeps_ct_authority)
qed (use assms in \<open>simp_all only: chat_op_tx_def chat_op.case simp_thms UpdateGroupMemberRole_tx_def
      SetGroupMemberWriteRestriction_tx_def TransferGroupOwnership_tx_def DeleteGroupMembership_tx_def
      CreateGroupInviteLink_tx_def DisableGroupInviteLink_tx_def TouchSession_tx_def
      UpsertGroupNotificationPreference_tx_def SetAllGroupNotificationPreferences_tx_def\<close>,
    (intro pres_intros keeps_query keeps_change_group keeps_ct_updates keeps_ct_delete keeps_ct_others keeps_reads)+)

lemma quota_threads_counts: "counts_threads (membership_count db) db \<longleftrightarrow> threads_ok db"
  by (simp add: counts_threads_def)

lemma quota_insert:
  assumes "quota_ok limit db" and "0 < limit" and "within_quota limit (membership_count db u)"
    and "group_memberships db' = group_memberships db @ [new_membership g u role t]"
  shows "quota_ok limit db'"
  unfolding quota_ok_def
proof
  fix v
  have "int (membership_count db v) \<le> limit" using assms(1) by (simp add: quota_ok_def)
  with assms(2-4) show "int (membership_count db' v) \<le> limit"
    by (auto simp: membership_count_def new_membership_def within_quota_def)
qed

lemma quota_create:
  assumes "CreateGroup_tx parse pg params db = Inr (x, db')" and "quota_ok limit db" and "threads_ok db" and "0 < limit"
    and "cg_MaxActiveGroupMembershipsPerUser params = limit"
  shows "quota_ok limit db' \<and> threads_ok db'"
  using assms(1)
proof (cases rule: CreateGroup_tx_run)
  case (1 g u t)
  from 1(3) have "within_quota limit (membership_count db u)" by (simp only: assms(5))
  from quota_insert [OF assms(2,4) this 1(4)] have "quota_ok limit db'" .
  moreover have "threads_ok db'" using assms(3) 1(5,6) by (auto simp: threads_ok_def)
  ultimately show ?thesis by simp
qed

lemma quota_join:
  assumes "JoinGroupByInviteLink_tx parse pg params db = Inr (b, db')" and "quota_ok limit db" and "threads_ok db"
    and "0 < limit" and "jg_MaxActiveGroupMembershipsPerUser params = limit"
  shows "quota_ok limit db' \<and> threads_ok db'"
  using assms(1)
proof (cases rule: JoinGroup_tx_run)
  case (1 g u i link)
  show ?thesis
  proof (cases b)
    case False
    with 1(6) assms(2,3) show ?thesis by simp
  next
    case True
    with 1(6) have quota: "within_quota limit (membership_count db u)"
      and rows: "group_memberships db' = group_memberships db @ [new_membership g u (jg_Role params) (jg_JoinedAt params)]"
      and tables: "map grp_ID (groups db') = map grp_ID (groups db)" "group_threads db' = group_threads db"
      by (simp_all only: assms(5) if_True)
    from quota_insert [OF assms(2,4) quota rows] threads_ok_frame [OF assms(3) tables] show ?thesis by simp
  qed
qed

lemma keeps_quota_threads:
  assumes "0 < limit" and "op_allowed limit operation"
  shows "keeps (\<lambda>db. quota_ok limit db \<and> threads_ok db) (chat_op_tx parse pg operation)"
  unfolding keeps_def
proof (intro allI impI)
  fix db x db' assume ok: "quota_ok limit db \<and> threads_ok db" and run: "chat_op_tx parse pg operation db = Inr (x, db')"
  consider (create) params where "operation = OpCreateGroup params" | (join) params where "operation = OpJoin params"
    | (other) "case operation of OpCreateGroup _ \<Rightarrow> False | OpJoin _ \<Rightarrow> False | _ \<Rightarrow> True"
    by (cases operation) auto
  then show "quota_ok limit db' \<and> threads_ok db'"
  proof cases
    case create
    with run ok assms show ?thesis by (auto simp: chat_op_tx_def op_allowed_def dest!: quota_create)
  next
    case join
    with run ok assms show ?thesis by (auto simp: chat_op_tx_def op_allowed_def tx_simps dest!: quota_join)
  next
    case other
    have "counts_threads (membership_count db) db" using ok by (simp add: counts_threads_def)
    note ct = keepsD [OF keeps_ct_op [OF other] this run]
    then have less: "membership_count db' u \<le> membership_count db u" for u by (simp add: counts_threads_def)
    have "int (membership_count db' u) \<le> limit" for u
      using ok less [of u] order_trans [of "int (membership_count db' u)" "int (membership_count db u)" limit]
      by (simp add: quota_ok_def)
    with ct show ?thesis by (simp add: quota_ok_def counts_threads_def)
  qed
qed

lemma keeps_kept_op:
  assumes "0 < limit" and "op_allowed limit operation"
  shows "keeps (chat_kept limit db0) (chat_op_tx parse pg operation)"
  using keeps_core_op [OF assms(2), of db0] keeps_quota_threads [OF assms]
  unfolding keeps_def chat_kept_def by blast

text \<open>So the transactions form a model of the locale, whatever the environment.\<close>

interpretation groups_kept: chat_tables env "\<lambda>db. env_allowed env \<longrightarrow> chat_kept (cv_limit env) db0 db"
proof
  fix operation pg assume "op_allowed (cv_limit env) operation"
  then show "keeps (\<lambda>db. env_allowed env \<longrightarrow> chat_kept (cv_limit env) db0 db) (chat_op_tx (cv_parse env) pg operation)"
    using keeps_kept_op [of "cv_limit env" operation db0] by (auto simp: env_allowed_def keeps_def)
qed simp

end
