(* ===== verification/Chat_Groups.thy ===== *)
theory Chat_Groups
  imports Chat_Keeps
begin

text \<open>
  Sequences of requests to the chat service, in any environment: the tables stay consistent, the authority of every
  subject moves as the abstract machine allows, and a lost eligibility is always announced in the outbox.
\<close>

section \<open>Requests\<close>

datatype GroupRequest =
    CreateGroupRequest string
  | ListGroupsRequest
  | GetGroupRequest string
  | SetGroupNotificationsRequest string bool
  | ListGroupMembersRequest string
  | UpdateGroupMemberRoleRequest string string string
  | TransferGroupOwnershipRequest string string
  | RemoveGroupMemberRequest string string
  | RestrictGroupMemberRequest string string
  | UnrestrictGroupMemberRequest string string
  | LeaveGroupRequest string
  | CreateGroupInviteLinkRequest string string
  | ListGroupInviteLinksRequest string
  | DisableGroupInviteLinkRequest string string
  | JoinGroupByInviteLinkRequest string
  | PreviewGroupByInviteLinkRequest string
  | CheckGroupSubjectRequest string string

definition ignore :: "('w, 'e, 'a) prog \<Rightarrow> ('w, 'e, unit) prog" where
  "ignore m = bindE m (\<lambda>_. returnE ())"

text \<open>One request, under the bearer token of its caller (the authority check has none: it is an internal endpoint).\<close>

definition group_request :: "chat_env \<Rightarrow> string \<Rightarrow> GroupRequest \<Rightarrow> (chat_world, chat_error, unit) prog" where
  "group_request env token request =
     (let s = chat_service env in
      case request of
        CreateGroupRequest name \<Rightarrow> ignore (CreateGroup s token name)
      | ListGroupsRequest \<Rightarrow> ignore (ListGroups s token)
      | GetGroupRequest g \<Rightarrow> ignore (GetGroup s token g)
      | SetGroupNotificationsRequest g flag \<Rightarrow> ignore (SetGroupNotifications s token g flag)
      | ListGroupMembersRequest g \<Rightarrow> ignore (ListGroupMembers s token g)
      | UpdateGroupMemberRoleRequest g u role \<Rightarrow> ignore (UpdateGroupMemberRole s token g u role)
      | TransferGroupOwnershipRequest g u \<Rightarrow> ignore (TransferGroupOwnership s token g u)
      | RemoveGroupMemberRequest g u \<Rightarrow> RemoveGroupMember s token g u
      | RestrictGroupMemberRequest g u \<Rightarrow> ignore (RestrictGroupMember s token g u)
      | UnrestrictGroupMemberRequest g u \<Rightarrow> ignore (UnrestrictGroupMember s token g u)
      | LeaveGroupRequest g \<Rightarrow> LeaveGroup s token g
      | CreateGroupInviteLinkRequest g role \<Rightarrow> ignore (CreateGroupInviteLink s token g role)
      | ListGroupInviteLinksRequest g \<Rightarrow> ignore (ListGroupInviteLinks s token g)
      | DisableGroupInviteLinkRequest g i \<Rightarrow> ignore (DisableGroupInviteLink s token g i)
      | JoinGroupByInviteLinkRequest t \<Rightarrow> ignore (JoinGroupByInviteLink s token t)
      | PreviewGroupByInviteLinkRequest t \<Rightarrow> ignore (PreviewGroupByInviteLink s token t)
      | CheckGroupSubjectRequest g u \<Rightarrow> ignore (check_subject env g u))"

fun serve_groups :: "chat_env \<Rightarrow> (string \<times> GroupRequest) list \<Rightarrow> chat_world \<Rightarrow> chat_world" where
  "serve_groups env [] w = w"
| "serve_groups env ((token, request) # rs) w = serve_groups env rs (snd (group_request env token request w))"

text \<open>What every request keeps: first for any model of \<open>chat_tables\<close>.\<close>

lemma pres_ignore: "pres I m \<Longrightarrow> pres I (ignore m)"
  unfolding ignore_def by (intro pres_intros)

context chat_tables
begin

lemma check_subject_pres: "pres (\<lambda>w :: chat_world. P (cw_db w)) (check_subject env g u)"
  unfolding check_subject_def CheckGroupSubject_def by (auto intro!: pres_intros pres_read read_only_methods)

lemma request_pres: "pres (\<lambda>w :: chat_world. P (cw_db w)) (group_request env token request)"
  unfolding group_request_def Let_def
  by (cases request; simp only: GroupRequest.case)
    (intro pres_ignore service.group_operations_pres service.UpdateGroupMemberRole_pres
      service.member_operations_pres service.link_operations_pres check_subject_pres)+

lemma serve_pres: "P (cw_db w) \<Longrightarrow> P (cw_db (serve_groups env rs w))"
proof (induction rs arbitrary: w)
  case (Cons x rs)
  obtain token request where x: "x = (token, request)" by (cases x)
  from presD [OF request_pres Cons.prems surjective_pairing, of token request] Cons.IH show ?case by (simp add: x)
qed simp

end

text \<open>The invariant of the tables.\<close>

definition groups_ok :: "int \<Rightarrow> chat_db \<Rightarrow> bool" where
  "groups_ok limit db \<longleftrightarrow> group_inv db \<and> authority_inv db \<and> quota_ok limit db \<and> threads_ok db"

lemma chat_kept_iff:
  "chat_kept limit db0 db \<longleftrightarrow> groups_ok limit db \<and> delivery_evolves (authority db0) (authority db) \<and>
     (\<forall>g u. authority_run (subject_of_db db0 g u) (subject_of_db db g u))"
  by (auto simp: chat_kept_def chat_core_def groups_ok_def)

lemma served:
  assumes "env_allowed env" and "groups_ok (cv_limit env) (cw_db w)"
  shows "chat_kept (cv_limit env) (cw_db w) (cw_db (serve_groups env rs w))"
proof -
  have "chat_kept (cv_limit env) (cw_db w) (cw_db w)" using assms(2) by (simp add: chat_kept_iff)
  with groups_kept.serve_pres [of env "cw_db w" w rs] assms(1) show ?thesis by simp
qed

section \<open>The tables stay consistent\<close>

text \<open>
  C15: whatever other services and workers do in between, whichever transactions fail or lose their reply, after any
  sequence of requests the keys are unique, the rows satisfy their CHECKs and references, no group has two owners, no
  user has more memberships than the quota, every group has its primary thread, the authority table mirrors the
  memberships, no event of the outbox runs ahead of it, and the delivery rows satisfy their own invariant.
\<close>

theorem groups_stay_consistent:
  assumes "env_allowed env" and "groups_ok (cv_limit env) (cw_db w)"
  shows "groups_ok (cv_limit env) (cw_db (serve_groups env rs w))"
  using served [OF assms] by (simp add: chat_kept_iff)

text \<open>
  C16: along such a sequence, the revision, presence and eligibility of every user in every group, together with the
  events announced for them, move as the abstract machine \<open>authority_step\<close> does: revisions grow by one, and a step to a
  state that is not eligible appends exactly one event, at the new revision.
\<close>

theorem authority_moves_as_specified:
  assumes "env_allowed env" and "groups_ok (cv_limit env) (cw_db w)"
  shows "authority_run (subject_of_db (cw_db w) g u) (subject_of_db (cw_db (serve_groups env rs w)) g u)"
  using served [OF assms] by (simp add: chat_kept_iff)

section \<open>A lost eligibility is announced\<close>

text \<open>The machine: from an eligible state at revision \<open>r\<close> to one that is not eligible there is an event in between.\<close>

definition eligible_at :: "subject \<Rightarrow> int \<Rightarrow> bool" where
  "eligible_at s r \<longleftrightarrow> sub_version s = Some (r, True, True)"

lemma authority_run_announces:
  assumes "authority_run s t" and "eligible_at s r"
  shows "\<exists>r' present eligible. sub_version t = Some (r', present, eligible) \<and> r \<le> r' \<and>
     (\<not> eligible \<longrightarrow> (\<exists>e\<in>set (sub_events t). r < fst e \<and> fst e \<le> r'))"
  using assms
proof (induction rule: rtranclp_induct)
  case base
  then show ?case by (intro exI [of _ r] exI [of _ True]) (simp add: eligible_at_def)
next
  case (step t t')
  from step.IH [OF step.prems] obtain r' present eligible where
    t: "sub_version t = Some (r', present, eligible)" "r \<le> r'"
    and ev: "\<not> eligible \<longrightarrow> (\<exists>e\<in>set (sub_events t). r < fst e \<and> fst e \<le> r')" by blast
  from step.hyps(2) show ?case
  proof (cases rule: authority_step.cases)
    case (change q p e p' e')
    with t have q: "q = r'" "p = present" "e = eligible" by simp_all
    have "\<exists>x\<in>set (sub_events t'). r < fst x \<and> fst x \<le> r' + 1" if "\<not> e'"
      using that t(2) change by (auto simp: announced_def q)
    with t(2) change q show ?thesis by (auto simp: prod_eq_iff)
  qed (use t in simp)
qed

lemma eligible_version:
  assumes "authority_inv db" and "find_member db g u = Some m" and "m_Role m \<noteq> ''reader''" and "membership_check m"
  obtains v where "find_version db g u = Some v" and "eligible_at (subject_of_db db g u) (v_Revision v)"
proof -
  have "version_matches (find_version db g u) (find_member db g u)" using assms(1) by (simp add: authority_inv_def)
  with assms(2) obtain v where v: "find_version db g u = Some v" and pe: "v_Present v" "v_Eligible v = eligible_role (m_Role m)"
    by (auto simp: version_matches_def split: option.splits)
  moreover have "eligible_role (m_Role m)" using assms(3,4) by (auto simp: eligible_role_def membership_check_def)
  ultimately show thesis using that by (simp add: eligible_at_def subject_of_db_def)
qed

lemma not_eligible_version:
  assumes "authority_inv db" and "find_member db g u = None \<or> m_Role (the (find_member db g u)) = ''reader''"
    and "sub_version (subject_of_db db g u) = Some (r, present, eligible)"
  shows "\<not> eligible"
proof -
  have "version_matches (find_version db g u) (find_member db g u)" using assms(1) by (simp add: authority_inv_def)
  moreover have "\<not> snd (status (find_member db g u))"
    using assms(2) by (cases "find_member db g u") (auto simp: status_def eligible_role_def)
  ultimately show ?thesis
    using assms(3) by (cases "find_version db g u") (auto simp: version_matches_status subject_of_db_def prod_eq_iff)
qed

lemma event_of_subject:
  "e \<in> set (sub_events (subject_of_db db g u)) \<Longrightarrow>
     \<exists>x\<in>set (outbox (authority db)). ce_GroupID (o_Event x) = g \<and> ce_UserID (o_Event x) = u \<and> ce_Epoch (o_Event x) = fst e"
  by (auto simp: subject_of_db_def events_of_def)

text \<open>
  C17: an owner, admin or member of a group who after some requests is no member of it any more (removed or left) or is a
  reader is named by an event of the outbox whose epoch is above the revision they had then. That event is what the
  worker of \<open>Delivery_Worker\<close> delivers to the call service. A write restriction is no such loss: it takes messages away,
  not calls, and announces nothing.
\<close>

theorem lost_eligibility_is_announced:
  assumes "env_allowed env" and "groups_ok (cv_limit env) (cw_db w)"
    and "find_member (cw_db w) g u = Some m" and "m_Role m \<noteq> ''reader''"
    and "find_member (cw_db (serve_groups env rs w)) g u = None \<or>
         m_Role (the (find_member (cw_db (serve_groups env rs w)) g u)) = ''reader''"
  shows "\<exists>v. find_version (cw_db w) g u = Some v \<and>
     (\<exists>e\<in>set (outbox (authority (cw_db (serve_groups env rs w)))).
        ce_GroupID (o_Event e) = g \<and> ce_UserID (o_Event e) = u \<and> v_Revision v < ce_Epoch (o_Event e))"
proof -
  let ?db = "cw_db w" and ?db' = "cw_db (serve_groups env rs w)"
  from served [OF assms(1,2)] have kept: "groups_ok (cv_limit env) ?db'"
    and run: "authority_run (subject_of_db ?db g u) (subject_of_db ?db' g u)" by (simp_all add: chat_kept_iff)
  have "membership_check m"
    using group_inv_rows [of ?db] find_member_Some [OF assms(3)] assms(2) by (auto simp: groups_ok_def member_row_ok_def)
  with eligible_version [OF _ assms(3,4)] assms(2) obtain v where v: "find_version ?db g u = Some v"
    and e: "eligible_at (subject_of_db ?db g u) (v_Revision v)" by (auto simp: groups_ok_def)
  from authority_run_announces [OF run e] obtain r' present eligible where
    t: "sub_version (subject_of_db ?db' g u) = Some (r', present, eligible)"
    and ev: "\<not> eligible \<longrightarrow> (\<exists>x\<in>set (sub_events (subject_of_db ?db' g u)). v_Revision v < fst x)" by blast
  have "\<not> eligible" using not_eligible_version [OF _ assms(5) t] kept by (simp add: groups_ok_def)
  with ev obtain x where "x \<in> set (sub_events (subject_of_db ?db' g u))" "v_Revision v < fst x" by blast
  with event_of_subject [OF this(1)] v show ?thesis by auto
qed

end
