(* ===== verification/Chat_Authority.thy ===== *)
theory Chat_Authority
  imports Chat_Groups
begin

text \<open>
  The authority check of \<open>group_authorization.go\<close> on consistent tables, and the memberships that it reports. The
  specification \<open>subject_authority\<close> reads the membership and the revision; the code reads five facts and refuses every
  combination that the trigger cannot have left behind.
\<close>

section \<open>The specification\<close>

definition subject_authority :: "chat_db \<Rightarrow> uuid \<Rightarrow> uuid \<Rightarrow> GroupSubjectAuthority" where
  "subject_authority db g u =
     (case find_version db g u of
        None \<Rightarrow> \<lparr>auth_GroupID = '''', auth_UserID = '''', auth_EligibilityEpoch = 0, auth_Status = ''not_found'', auth_Role = ''''\<rparr>
      | Some v \<Rightarrow>
         (case find_member db g u of
            None \<Rightarrow> \<lparr>auth_GroupID = g, auth_UserID = u, auth_EligibilityEpoch = v_Revision v, auth_Status = ''removed'', auth_Role = ''''\<rparr>
          | Some m \<Rightarrow> \<lparr>auth_GroupID = g, auth_UserID = u, auth_EligibilityEpoch = v_Revision v, auth_Status = ''present'', auth_Role = m_Role m\<rparr>))"

lemma facts_judged:
  assumes "group_inv db" and "authority_inv db"
  shows "\<exists>facts. GetGroupSubjectAuthorityFacts_sql g u db = Inr (facts, db) \<and>
     judge_facts g u facts = Inr (subject_authority db g u)"
proof -
  have matches: "version_matches (find_version db g u) (find_member db g u)" using assms(2) by (simp add: authority_inv_def)
  show ?thesis
  proof (cases "find_version db g u")
    case None
    with matches have "find_member db g u = None" by (simp add: version_matches_def)
    with None show ?thesis
      by (simp add: GetGroupSubjectAuthorityFacts_sql_def judge_facts_def subject_authority_def GroupSubjectNotFound_def)
  next
    case (Some v)
    with matches have v: "0 < v_Revision v" "v_Eligible v \<longrightarrow> v_Revision v < max_int64"
      and pe: "(v_Present v, v_Eligible v) = status (find_member db g u)"
      by (simp_all add: version_matches_status version_check_def)
    show ?thesis
    proof (cases "find_member db g u")
      case None
      with Some v pe show ?thesis
        by (simp add: GetGroupSubjectAuthorityFacts_sql_def judge_facts_def subject_authority_def status_def
            GroupSubjectRemoved_def)
    next
      case (Some m)
      then have "m \<in> set (group_memberships db)" "m_GroupID m = g" using find_member_Some by blast+
      with group_inv_rows [OF assms(1)] have m: "m_Role m \<in> {''owner'', ''admin'', ''member'', ''reader''}"
        and g: "find_group db g \<noteq> None" by (auto simp: member_row_ok_def membership_check_def)
      from m have "eligible_role (m_Role m) \<longleftrightarrow> m_Role m \<noteq> ''reader''" by (auto simp: eligible_role_def)
      with m g v pe Some \<open>find_version db g u = Some v\<close> show ?thesis
        by (auto simp: GetGroupSubjectAuthorityFacts_sql_def judge_facts_def subject_authority_def status_def role_defs
            GroupSubjectPresent_def math_MaxInt64_def max_int64_def)
    qed
  qed
qed

section \<open>The check\<close>

text \<open>What the other processes leave behind satisfies the invariant.\<close>

lemma others_ok:
  assumes "env_allowed env" and "groups_ok (cv_limit env) (cw_db w)"
  shows "groups_ok (cv_limit env) (others_moved env w)"
proof -
  have "chat_kept (cv_limit env) (cw_db w) (cw_db w)" using assms(2) by (simp add: chat_kept_iff)
  with groups_kept.others_P [of env "cw_db w" w] assms(1) show ?thesis by (simp add: chat_kept_iff)
qed

text \<open>
  C18: on consistent tables the authority check answers for two well-formed identifiers exactly what the membership
  and the revision in the database say: never the error \<open>ErrGroupAuthorityUnavailable\<close>, which it keeps for facts that
  contradict each other, and it does not write. Only an identifier that does not parse or is nil is refused, and only
  a failing query makes the authority unavailable.
\<close>

theorem CheckGroupSubject_reports_membership:
  assumes "env_allowed env" and "groups_ok (cv_limit env) (cw_db w)" and "cv_fault env (cw_tick w) = Works"
    and "cv_parse env (trim_space groupID) = Some g" and "cv_parse env (trim_space userID) = Some u"
    and "cv_parse env g = Some g" and "cv_parse env u = Some u"
  shows "check_subject env groupID userID w =
     (if g = uuid_Nil \<or> u = uuid_Nil then (Inl ErrInvalidArgument, w)
      else let db = others_moved env w in (Inr (subject_authority db g u), \<lparr>cw_db = db, cw_tick = Suc (cw_tick w)\<rparr>))"
proof (cases "g = uuid_Nil \<or> u = uuid_Nil")
  case True
  with assms(4,5) show ?thesis
    by (auto simp: check_subject_def CheckGroupSubject_def failE_def split: if_splits)
next
  case False
  let ?db = "others_moved env w"
  have "group_inv ?db" "authority_inv ?db" using others_ok [OF assms(1,2)] by (simp_all add: groups_ok_def)
  from facts_judged [OF this, of g u] obtain facts where facts: "GetGroupSubjectAuthorityFacts_sql g u ?db = Inr (facts, ?db)"
    and judged: "judge_facts g u facts = Inr (subject_authority ?db g u)" by blast
  have "GetGroupSubjectAuthorityFacts_tx (cv_parse env) g u ?db = Inr (facts, ?db)"
    using assms(6,7) facts by (auto simp: GetGroupSubjectAuthorityFacts_tx_def tx_simps)
  then have "transact env (\<lambda>_. GetGroupSubjectAuthorityFacts_tx (cv_parse env) g u) w =
      (Inr facts, \<lparr>cw_db = ?db, cw_tick = Suc (cw_tick w)\<rparr>)"
    using assms(3) by (simp add: transact_def Let_def)
  with False assms(4,5) judged show ?thesis
    by (simp add: check_subject_def CheckGroupSubject_def attemptE_def liftE_def Let_def)
qed

end
