(* ===== verification/Chat_Quiet.thy ===== *)
theory Chat_Quiet
  imports Chat_Authority
begin

text \<open>
  A calculus for one operation of the service when no other process writes in between (\<open>quiet\<close>): \<open>meets D m Q\<close> says
  that a run of \<open>m\<close> from the database \<open>D\<close> either returns a value with \<open>Q\<close>, or fails; a refusal leaves \<open>D\<close>, a failure of
  the driver leaves \<open>D\<close> or a database that \<open>Q\<close> allows (the commit whose reply was lost).
\<close>

definition quiet :: "chat_env \<Rightarrow> bool" where
  "quiet env \<longleftrightarrow> (\<forall>t. cv_others env t = []) \<and>
     (\<forall>t. cv_typing env t \<in> {Inr (), Inl ErrOther, Inl ErrContext}) \<and>
     (\<forall>t e. cv_random env t = Inl e \<longrightarrow> e \<in> {ErrOther, ErrContext})"

text \<open>The errors by which the service says no.\<close>

definition refusal :: "chat_error \<Rightarrow> bool" where
  "refusal e \<longleftrightarrow> e \<in> {ErrInvalidArgument, ErrUnauthorized, ErrConflict, ErrPermissionDenied, ErrResourceExhausted}"

definition met :: "chat_db \<Rightarrow> ('a \<Rightarrow> chat_db \<Rightarrow> bool) \<Rightarrow> (chat_error + 'a) \<times> chat_world \<Rightarrow> bool" where
  "met D Q rw =
     (case rw of
        (Inr x, w) \<Rightarrow> Q x (cw_db w)
      | (Inl e, w) \<Rightarrow> cw_db w = D \<or> (\<not> refusal e \<and> (\<exists>x. Q x (cw_db w))))"

definition meets :: "chat_db \<Rightarrow> (chat_world, chat_error, 'a) prog \<Rightarrow> ('a \<Rightarrow> chat_db \<Rightarrow> bool) \<Rightarrow> bool" where
  "meets D m Q \<longleftrightarrow> (\<forall>w. cw_db w = D \<longrightarrow> met D Q (m w))"

text \<open>A step that writes nothing and whose value satisfies \<open>T\<close>; after a commit it must not refuse either.\<close>

definition steady :: "chat_db \<Rightarrow> (chat_world, chat_error, 'a) prog \<Rightarrow> ('a \<Rightarrow> bool) \<Rightarrow> bool" where
  "steady D m T \<longleftrightarrow>
     (\<forall>w. cw_db w = D \<longrightarrow> (case m w of (Inr x, w') \<Rightarrow> cw_db w' = D \<and> T x | (Inl e, w') \<Rightarrow> cw_db w' = D))"

definition ends :: "chat_db \<Rightarrow> (chat_world, chat_error, 'a) prog \<Rightarrow> ('a \<Rightarrow> bool) \<Rightarrow> bool" where
  "ends D m T \<longleftrightarrow>
     (\<forall>w. cw_db w = D \<longrightarrow>
        (case m w of (Inr x, w') \<Rightarrow> cw_db w' = D \<and> T x | (Inl e, w') \<Rightarrow> cw_db w' = D \<and> \<not> refusal e))"

lemma met_simps [simp]:
  "met D Q (Inr x, w) = Q x (cw_db w)"
  "met D Q (Inl e, w) = (cw_db w = D \<or> (\<not> refusal e \<and> (\<exists>x. Q x (cw_db w))))"
  by (simp_all add: met_def)

named_theorems meets_intros

lemma meets_returnE [meets_intros]: "Q x D \<Longrightarrow> meets D (returnE x) Q"
  by (simp add: meets_def prog_simps)

lemma meets_failE [meets_intros]: "meets D (failE e) Q"
  by (simp add: meets_def prog_simps)

lemma meets_bind_liftE [meets_intros]: "(\<And>x. r = Inr x \<Longrightarrow> meets D (f x) Q) \<Longrightarrow> meets D (bindE (liftE r) f) Q"
  by (cases r) (simp_all add: meets_def bindE_def liftE_def)

lemma meets_if [meets_intros]:
  "(b \<Longrightarrow> meets D m Q) \<Longrightarrow> (\<not> b \<Longrightarrow> meets D n Q) \<Longrightarrow> meets D (if b then m else n) Q"
  by simp

lemma meets_case_prod [meets_intros]:
  "(\<And>a b. x = (a, b) \<Longrightarrow> meets D (m a b) Q) \<Longrightarrow> meets D (case x of (a, b) \<Rightarrow> m a b) Q"
  by (cases x) simp_all

lemma steadyE:
  assumes "steady D m T" and "cw_db w = D"
  obtains x w' where "m w = (Inr x, w')" and "cw_db w' = D" and "T x"
  | e w' where "m w = (Inl e, w')" and "cw_db w' = D"
  using assms unfolding steady_def by (cases "m w"; cases "fst (m w)") force+

lemma endsE:
  assumes "ends D m T" and "cw_db w = D"
  obtains x w' where "m w = (Inr x, w')" and "cw_db w' = D" and "T x"
  | e w' where "m w = (Inl e, w')" and "cw_db w' = D" and "\<not> refusal e"
  using assms unfolding ends_def by (cases "m w"; cases "fst (m w)") force+

lemma meets_bind:
  assumes "steady D m T" and "\<And>x. T x \<Longrightarrow> meets D (f x) Q"
  shows "meets D (bindE m f) Q"
  unfolding meets_def
proof (intro allI impI)
  fix w :: chat_world assume "cw_db w = D"
  with assms(1) show "met D Q (bindE m f w)"
  proof (cases rule: steadyE)
    case (1 x w')
    with assms(2) [OF 1(3)] show ?thesis by (simp add: meets_def bindE_def)
  qed (simp add: bindE_def)
qed

lemma steady_bind:
  assumes "steady D m T" and "\<And>x. T x \<Longrightarrow> steady D (f x) S"
  shows "steady D (bindE m f) S"
  unfolding steady_def
proof (intro allI impI)
  fix w :: chat_world assume "cw_db w = D"
  with assms(1)
  show "case bindE m f w of (Inr x, w') \<Rightarrow> cw_db w' = D \<and> S x | (Inl e, w') \<Rightarrow> cw_db w' = D"
  proof (cases rule: steadyE)
    case (1 x w')
    with assms(2) [OF 1(3)] show ?thesis by (simp add: steady_def bindE_def)
  qed (simp add: bindE_def)
qed

lemma ends_bind:
  assumes "ends D m T" and "\<And>x. T x \<Longrightarrow> ends D (f x) S"
  shows "ends D (bindE m f) S"
  unfolding ends_def
proof (intro allI impI)
  fix w :: chat_world assume "cw_db w = D"
  with assms(1)
  show "case bindE m f w of (Inr x, w') \<Rightarrow> cw_db w' = D \<and> S x | (Inl e, w') \<Rightarrow> cw_db w' = D \<and> \<not> refusal e"
  proof (cases rule: endsE)
    case (1 x w')
    with assms(2) [OF 1(3)] show ?thesis by (simp add: ends_def bindE_def)
  qed (simp add: bindE_def)
qed

lemma steady_returnE: "S x \<Longrightarrow> steady D (returnE x) S"
  by (simp add: steady_def prog_simps)

lemma steady_failE: "steady D (failE e) S"
  by (simp add: steady_def prog_simps)

lemma steady_liftE: "steady D (liftE r) (\<lambda>x. r = Inr x)"
  by (cases r) (simp_all add: steady_def liftE_def)

lemma steady_answer: "steady D (answer a) (\<lambda>x. \<exists>t. a t = Inr x)"
  by (auto simp: steady_def answer_def split: sum.splits)

lemma steady_weaken:
  assumes "steady D m T" and "\<And>x. T x \<Longrightarrow> S x"
  shows "steady D m S"
  unfolding steady_def
proof (intro allI impI)
  fix w :: chat_world assume "cw_db w = D"
  with assms(1) show "case m w of (Inr x, w') \<Rightarrow> cw_db w' = D \<and> S x | (Inl e, w') \<Rightarrow> cw_db w' = D"
    by (cases rule: steadyE) (simp_all add: assms(2))
qed

lemma ends_returnE: "S x \<Longrightarrow> ends D (returnE x) S"
  by (simp add: ends_def prog_simps)

lemma ends_liftE: "(\<And>e. r = Inl e \<Longrightarrow> \<not> refusal e) \<Longrightarrow> ends D (liftE r) (\<lambda>x. r = Inr x)"
  by (cases r) (simp_all add: ends_def prog_simps)

lemma ends_answer: "(\<And>t e. a t = Inl e \<Longrightarrow> \<not> refusal e) \<Longrightarrow> ends D (answer a) (\<lambda>_. True)"
  by (auto simp: ends_def answer_def split: sum.splits)

lemma ends_weaken:
  assumes "ends D m T" and "\<And>x. T x \<Longrightarrow> S x"
  shows "ends D m S"
  unfolding ends_def
proof (intro allI impI)
  fix w :: chat_world assume "cw_db w = D"
  with assms(1) show "case m w of (Inr x, w') \<Rightarrow> cw_db w' = D \<and> S x | (Inl e, w') \<Rightarrow> cw_db w' = D \<and> \<not> refusal e"
    by (cases rule: endsE) (simp_all add: assms(2))
qed

section \<open>Transactions\<close>

lemma quiet_others [simp]: "quiet env \<Longrightarrow> others_moved env w = cw_db w"
  by (simp add: quiet_def others_moved_def)

lemma read_onlyD: "read_only m \<Longrightarrow> m db = Inr (x, db') \<Longrightarrow> db' = db"
  by (simp add: read_only_def)

lemma steady_read:
  assumes "quiet env" and "\<And>pg. read_only (m pg)"
  shows "steady D (transact env m) (\<lambda>x. \<exists>pg. m pg D = Inr (x, D))"
  unfolding steady_def
proof (intro allI impI)
  fix w :: chat_world assume D: "cw_db w = D"
  show "case transact env m w of (Inr x, w') \<Rightarrow> cw_db w' = D \<and> (\<exists>pg. m pg D = Inr (x, D)) | (Inl e, w') \<Rightarrow> cw_db w' = D"
  proof (cases "m (cv_pg env (cw_tick w)) D")
    case (Inr y)
    then obtain x where "m (cv_pg env (cw_tick w)) D = Inr (x, D)" using read_onlyD [OF assms(2)] by (cases y) blast
    with D assms(1) show ?thesis by (cases "cv_fault env (cw_tick w)") (auto simp: transact_def Let_def)
  qed (use D assms(1) in \<open>cases "cv_fault env (cw_tick w)"; simp add: transact_def Let_def\<close>)
qed

lemma ends_read:
  assumes "quiet env" and "\<And>pg. read_only (m pg)" and "\<And>pg e. m pg D = Inl e \<Longrightarrow> \<not> refusal e"
  shows "ends D (transact env m) (\<lambda>x. \<exists>pg. m pg D = Inr (x, D))"
  unfolding ends_def
proof (intro allI impI)
  fix w :: chat_world assume D: "cw_db w = D"
  have driver: "\<not> refusal (driver_error c)" for c by (simp add: driver_error_def refusal_def)
  show "case transact env m w of (Inr x, w') \<Rightarrow> cw_db w' = D \<and> (\<exists>pg. m pg D = Inr (x, D))
      | (Inl e, w') \<Rightarrow> cw_db w' = D \<and> \<not> refusal e"
  proof (cases "m (cv_pg env (cw_tick w)) D")
    case (Inr y)
    then obtain x where "m (cv_pg env (cw_tick w)) D = Inr (x, D)" using read_onlyD [OF assms(2)] by (cases y) blast
    with D assms(1) driver show ?thesis by (cases "cv_fault env (cw_tick w)") (auto simp: transact_def Let_def)
  qed (use D assms(1) driver assms(3) in \<open>cases "cv_fault env (cw_tick w)"; simp add: transact_def Let_def\<close>)
qed

text \<open>A write: either nothing changed and the operation goes on, or what is left only reads.\<close>

lemma meets_write:
  assumes "quiet env"
    and "\<And>pg x D'. m pg D = Inr (x, D') \<Longrightarrow>
           (D' = D \<and> meets D (f x) Q) \<or> ((\<exists>y. Q y D') \<and> ends D' (f x) (\<lambda>y. Q y D'))"
  shows "meets D (bindE (transact env m) f) Q"
  unfolding meets_def
proof (intro allI impI)
  fix w :: chat_world assume D: "cw_db w = D"
  show "met D Q (bindE (transact env m) f w)"
  proof (cases "m (cv_pg env (cw_tick w)) D")
    case (Inl e)
    with D assms(1) show ?thesis
      by (cases "cv_fault env (cw_tick w)") (simp_all add: bindE_def transact_def Let_def)
  next
    case (Inr y)
    obtain x D' where y: "y = (x, D')" by (cases y)
    let ?w = "w\<lparr>cw_tick := Suc (cw_tick w), cw_db := D'\<rparr>"
    have fx: "met D Q (f x ?w) \<and> (D' = D \<or> (\<exists>y. Q y D'))"
      using assms(2) [OF Inr [unfolded y]]
    proof (elim disjE conjE)
      assume same: "D' = D" "meets D (f x) Q"
      have "cw_db ?w = D" using same by simp
      with same(2) have "met D Q (f x ?w)" by (simp only: meets_def)
      with same show ?thesis by simp
    next
      assume moved: "\<exists>y. Q y D'" "ends D' (f x) (\<lambda>y. Q y D')"
      have "cw_db ?w = D'" by simp
      with moved(2) have "met D Q (f x ?w)" by (cases rule: endsE) (use moved(1) in simp_all)
      with moved(1) show ?thesis by simp
    qed
    have driver: "\<not> refusal (driver_error c)" for c by (simp add: driver_error_def refusal_def)
    from fx D assms(1) Inr y driver show ?thesis
      by (cases "cv_fault env (cw_tick w)") (auto simp: bindE_def transact_def Let_def)
  qed
qed

end
