(* ===== verification/Chat_Steps.thy ===== *)
theory Chat_Steps
  imports Chat_Quiet
begin

text \<open>
  The specification of groups as a machine on memberships and invite links (\<open>group_apply\<close>), and what every writing
  transaction does to its state \<open>group_state_of\<close>.
\<close>

section \<open>The machine\<close>

record group_state =
  gst_members :: "uuid \<Rightarrow> uuid \<Rightarrow> (string \<times> bool) option"
  gst_links :: "uuid \<Rightarrow> uuid \<Rightarrow> (string \<times> bool) option"

text \<open>Role and write restriction of a member; role and whether it is enabled of a link.\<close>

definition group_state_of :: "chat_db \<Rightarrow> group_state" where
  "group_state_of db =
     \<lparr>gst_members = (\<lambda>g u. map_option (\<lambda>m. (m_Role m, m_IsWriteRestricted m)) (find_member db g u)),
      gst_links = (\<lambda>g i. map_option (\<lambda>l. (l_Role l, l_DisabledAt l = None)) (find_link db g i))\<rparr>"

definition set_member :: "uuid \<Rightarrow> uuid \<Rightarrow> (string \<times> bool) option \<Rightarrow> group_state \<Rightarrow> group_state" where
  "set_member g u x s = s\<lparr>gst_members := (gst_members s)(g := (gst_members s g)(u := x))\<rparr>"

definition set_link :: "uuid \<Rightarrow> uuid \<Rightarrow> (string \<times> bool) option \<Rightarrow> group_state \<Rightarrow> group_state" where
  "set_link g i x s = s\<lparr>gst_links := (gst_links s)(g := (gst_links s g)(i := x))\<rparr>"

datatype group_label =
    Create uuid
  | Assign uuid uuid string
  | Transfer uuid uuid
  | Remove uuid uuid
  | Restrict uuid uuid bool
  | Leave uuid
  | Invite uuid uuid string
  | Disable uuid uuid
  | Join uuid uuid

definition role_in :: "group_state \<Rightarrow> uuid \<Rightarrow> uuid \<Rightarrow> string" where
  "role_in s g u = (case gst_members s g u of None \<Rightarrow> '''' | Some (role, _) \<Rightarrow> role)"

definition restricted_in :: "group_state \<Rightarrow> uuid \<Rightarrow> uuid \<Rightarrow> bool" where
  "restricted_in s g u = (case gst_members s g u of None \<Rightarrow> False | Some (_, b) \<Rightarrow> b)"

text \<open>One step of the actor \<open>a\<close>, \<open>None\<close> when it is not allowed. A rank is needed for everything but joining,
  creating and leaving, and nobody outranks themself or an owner.\<close>

fun group_apply :: "uuid \<Rightarrow> group_label \<Rightarrow> group_state \<Rightarrow> group_state option" where
  "group_apply a (Create g) s =
     (if \<forall>u. gst_members s g u = None then Some (set_member g a (Some (''owner'', False)) s) else None)"
| "group_apply a (Assign g u role) s =
     (if role_in s g a = ''owner'' \<and> outranks (role_in s g a) (role_in s g u) \<and> outranks (role_in s g a) role
      then Some (set_member g u (Some (role, restricted_in s g u)) s) else None)"
| "group_apply a (Transfer g u) s =
     (if role_in s g a = ''owner'' \<and> outranks (role_in s g a) (role_in s g u) \<and> \<not> restricted_in s g u
      then Some (set_member g u (Some (''owner'', False)) (set_member g a (Some (''admin'', restricted_in s g a)) s))
      else None)"
| "group_apply a (Remove g u) s =
     (if outranks (role_in s g a) (role_in s g u) then Some (set_member g u None s) else None)"
| "group_apply a (Restrict g u flag) s =
     (if outranks (role_in s g a) (role_in s g u) then Some (set_member g u (Some (role_in s g u, flag)) s) else None)"
| "group_apply a (Leave g) s =
     (if gst_members s g a \<noteq> None \<and> role_in s g a \<noteq> ''owner'' then Some (set_member g a None s) else None)"
| "group_apply a (Invite g i role) s =
     (if outranks (role_in s g a) role \<and> gst_links s g i = None then Some (set_link g i (Some (role, True)) s) else None)"
| "group_apply a (Disable g i) s =
     (case gst_links s g i of
        Some (role, _) \<Rightarrow> if outranks (role_in s g a) role then Some (set_link g i (Some (role, False)) s) else None
      | None \<Rightarrow> None)"
| "group_apply a (Join g i) s =
     (case gst_links s g i of
        Some (role, True) \<Rightarrow> Some (if gst_members s g a = None then set_member g a (Some (role, False)) s else s)
      | _ \<Rightarrow> None)"

section \<open>What the transactions do\<close>

lemma role_of_row [simp]:
  "find_member db g u = Some m \<Longrightarrow> role_in (group_state_of db) g u = m_Role m"
  "find_member db g u = Some m \<Longrightarrow> restricted_in (group_state_of db) g u = m_IsWriteRestricted m"
  "find_member db g u = Some m \<Longrightarrow> gst_members (group_state_of db) g u = Some (m_Role m, m_IsWriteRestricted m)"
  by (simp_all add: role_in_def restricted_in_def group_state_of_def)

lemma group_state_eqI:
  fixes s t :: group_state
  assumes "\<And>g u. gst_members s g u = gst_members t g u" and "\<And>g i. gst_links s g i = gst_links t g i"
  shows "s = t"
  by (rule group_state.equality) (auto simp: fun_eq_iff assms)

lemma group_state_same:
  "group_memberships db' = group_memberships db \<Longrightarrow> group_invite_links db' = group_invite_links db \<Longrightarrow>
     group_state_of db' = group_state_of db"
  by (simp add: group_state_of_def find_member_def find_link_def)

lemma find_link_same: "group_invite_links db' = group_invite_links db \<Longrightarrow> find_link db' g i = find_link db g i"
  by (simp add: find_link_def)

lemma state_set_member:
  assumes "\<And>g' u'. find_member db' g' u' = (if g' = g \<and> u' = u then x else find_member db g' u')"
    and "group_invite_links db' = group_invite_links db"
  shows "group_state_of db' =
     set_member g u (map_option (\<lambda>m. (m_Role m, m_IsWriteRestricted m)) x) (group_state_of db)"
proof -
  have "find_link db' g' i = find_link db g' i" for g' i by (rule find_link_same [OF assms(2)])
  then show ?thesis by (intro group_state_eqI) (simp_all add: group_state_of_def set_member_def assms(1))
qed

lemma update_state:
  assumes run: "update_membership pg fires g u hit f db = Inr (n, db')" and old: "find_member db g u = Some old"
    and key: "m_GroupID (f old) = m_GroupID old" "m_UserID (f old) = m_UserID old"
  shows "if hit old
     then n = 1 \<and> group_state_of db' = set_member g u (Some (m_Role (f old), m_IsWriteRestricted (f old))) (group_state_of db) \<and>
          (\<forall>g' u'. find_member db' g' u' = (if g' = g \<and> u' = u then Some (f old) else find_member db g' u'))
     else n = 0 \<and> db' = db"
proof (cases "hit old")
  case True
  note rows = update_membership_rows [OF run]
  have at: "m_GroupID (f old) = g" "m_UserID (f old) = u" using find_member_Some [OF old] key by simp_all
  have fm: "find_member db' g' u' = (if g' = g \<and> u' = u then Some (f old) else find_member db g' u')" for g' u'
  proof -
    have "find_member db' g' u' = find_member (replace_member g u (f old) db) g' u'"
      using rows old True by (simp add: find_member_def)
    then show ?thesis using find_member_replace [OF at, of db g' u'] old by simp
  qed
  with rows old True state_set_member [OF fm] show ?thesis by simp
qed (use update_membership_rows [OF run] old in simp)

lemma delete_state:
  assumes run: "DeleteGroupMembership pg g u db = Inr (n, db')"
  shows "if find_member db g u = None then n = 0 \<and> db' = db
     else n = 1 \<and> group_state_of db' = set_member g u None (group_state_of db)"
proof (cases "find_member db g u")
  case (Some old)
  note rows = DeleteGroupMembership_rows [OF run]
  have "find_member db' g' u' = (if g' = g \<and> u' = u then None else find_member db g' u')" for g' u'
  proof (cases "g' = g \<and> u' = u")
    case True
    then show ?thesis using rows by (simp add: find_member_def find_remove_same)
  next
    case False
    then have "find (member_at g' u') (filter (\<lambda>x. \<not> member_at g u x) (group_memberships db)) =
        find (member_at g' u') (group_memberships db)"
      by (intro find_remove_other) (auto simp: member_at_def)
    with False rows show ?thesis by (auto simp: find_member_def)
  qed
  from state_set_member [OF this] rows Some show ?thesis by simp
qed (use DeleteGroupMembership_rows [OF run] in simp)

lemma touch_state: "group_state_of (db\<lparr>groups := gs\<rparr>) = group_state_of db"
  by (rule group_state_same) simp_all

lemma change_group_run:
  assumes "change_group m g t db = Inr (b, db')"
  obtains n db1 where "m db = Inr (n, db1)" and "b \<longleftrightarrow> n \<noteq> 0"
    and "group_state_of db' = group_state_of db1" and "n = 0 \<longrightarrow> db' = db1"
  using assms unfolding change_group_def
proof (elim bindT_InrE)
  fix n db1
  assume m: "query m db = Inr (n, db1)"
    and rest: "(if n = 0 then returnT False else bindT (query (TouchGroupUpdatedAt g t)) (\<lambda>_. returnT True)) db1 = Inr (b, db')"
  from m have m: "m db = Inr (n, db1)" by (simp only: query_run)
  show thesis
  proof (cases "n = 0")
    case True
    with rest have "b = False" "db' = db1" by (simp_all add: tx_simps)
    with that [OF m] True show thesis by simp
  next
    case False
    with rest have "b" "group_state_of db' = group_state_of db1" by (auto simp: tx_simps touch_state)
    with that [OF m] False show thesis by simp
  qed
qed

lemma UpdateRole_state:
  assumes run: "UpdateGroupMemberRole_tx parse pg groupID userID role t db = Inr (b, db')"
    and ids: "parse groupID = Some g" "parse userID = Some u"
    and old: "find_member db g u = Some old" "m_Role old \<noteq> role"
  shows "b \<and> group_state_of db' = set_member g u (Some (role, m_IsWriteRestricted old)) (group_state_of db)"
proof -
  from run ids have "change_group (UpdateGroupMembershipRole pg g u role) g t db = Inr (b, db')"
    by (auto simp: UpdateGroupMemberRole_tx_def tx_simps)
  then obtain n db1 where m: "UpdateGroupMembershipRole pg g u role db = Inr (n, db1)" "b \<longleftrightarrow> n \<noteq> 0"
    "group_state_of db' = group_state_of db1" by (rule change_group_run)
  from update_state [OF m(1) [unfolded UpdateGroupMembershipRole_def] old(1)] old(2) m(2,3) show ?thesis by simp
qed

lemma SetRestriction_state:
  assumes run: "SetGroupMemberWriteRestriction_tx parse pg groupID userID flag at t db = Inr (b, db')"
    and ids: "parse groupID = Some g" "parse userID = Some u"
    and old: "find_member db g u = Some old" "m_IsWriteRestricted old \<noteq> flag"
  shows "group_state_of db' = set_member g u (Some (m_Role old, flag)) (group_state_of db)"
proof -
  from run ids have "change_group (SetGroupMembershipWriteRestriction pg g u flag at) g t db = Inr (b, db')"
    by (auto simp: SetGroupMemberWriteRestriction_tx_def tx_simps)
  then obtain n db1 where m: "SetGroupMembershipWriteRestriction pg g u flag at db = Inr (n, db1)"
    "group_state_of db' = group_state_of db1" by (rule change_group_run)
  from update_state [OF m(1) [unfolded SetGroupMembershipWriteRestriction_def Let_def] old(1)] old(2) m(2)
  show ?thesis by simp
qed

lemma Delete_state:
  assumes run: "DeleteGroupMembership_tx parse pg groupID userID t db = Inr (b, db')"
    and ids: "parse groupID = Some g" "parse userID = Some u"
  shows "if b then find_member db g u \<noteq> None \<and> group_state_of db' = set_member g u None (group_state_of db)
     else db' = db"
proof -
  from run ids have "change_group (DeleteGroupMembership pg g u) g t db = Inr (b, db')"
    by (auto simp: DeleteGroupMembership_tx_def tx_simps)
  then obtain n db1 where m: "DeleteGroupMembership pg g u db = Inr (n, db1)" "b \<longleftrightarrow> n \<noteq> 0"
    "group_state_of db' = group_state_of db1" "n = 0 \<longrightarrow> db' = db1" by (rule change_group_run)
  from delete_state [OF m(1)] m(2-4) show ?thesis by (cases "n = 0") (auto split: if_splits)
qed

text \<open>A transfer finds both rows as the two statements want them, and swaps the roles.\<close>

lemma demote_run:
  assumes run: "DemoteGroupOwnerForTransfer pg g a u db = Inr (n, db1)"
  shows "if n = 0 then db1 = db
     else n = 1 \<and> a \<noteq> u \<and> (\<exists>old. find_member db g a = Some old \<and> m_Role old = ''owner'' \<and>
            group_state_of db1 = set_member g a (Some (''admin'', m_IsWriteRestricted old)) (group_state_of db) \<and>
            find_member db1 g u = find_member db g u)"
proof -
  let ?hit = "\<lambda>m. m_Role m = ''owner'' \<and> a \<noteq> u \<and>
      (\<exists>n\<in>set (group_memberships db). member_at g u n \<and> m_Role n \<noteq> ''owner'' \<and> \<not> m_IsWriteRestricted n)"
  let ?f = "\<lambda>m. m\<lparr>m_Role := ''admin''\<rparr>"
  have run: "update_membership pg True g a ?hit ?f db = Inr (n, db1)"
    using run by (simp add: DemoteGroupOwnerForTransfer_def)
  show ?thesis
  proof (cases "find_member db g a")
    case None
    with update_membership_rows [OF run] show ?thesis by simp
  next
    case (Some old)
    have key: "m_GroupID (?f old) = m_GroupID old" "m_UserID (?f old) = m_UserID old" by simp_all
    note state = update_state [OF run Some key]
    show ?thesis
    proof (cases "?hit old")
      case True
      with state have "n = 1" "group_state_of db1 = set_member g a (Some (''admin'', m_IsWriteRestricted old)) (group_state_of db)"
        "find_member db1 g u = find_member db g u" by auto
      with Some True show ?thesis by simp
    next
      case False
      with state show ?thesis by (simp only: if_False if_True simp_thms)
    qed
  qed
qed

lemma promote_run:
  assumes run: "PromoteGroupOwnerForTransfer pg g u db = Inr (n, db1)"
  shows "if n = 0 then db1 = db
     else n = 1 \<and> (\<exists>old. find_member db g u = Some old \<and> m_Role old \<noteq> ''owner'' \<and> \<not> m_IsWriteRestricted old \<and>
            group_state_of db1 = set_member g u (Some (''owner'', False)) (group_state_of db))"
proof (cases "find_member db g u")
  case None
  with update_membership_rows [OF run [unfolded PromoteGroupOwnerForTransfer_def]] show ?thesis by simp
next
  case (Some old)
  with update_state [OF run [unfolded PromoteGroupOwnerForTransfer_def] Some] show ?thesis
    by (cases "m_Role old \<noteq> ''owner'' \<and> \<not> m_IsWriteRestricted old") auto
qed

lemma Transfer_state:
  assumes run: "TransferGroupOwnership_tx parse pg groupID currentOwner newOwner t db = Inr (b, db')"
    and ids: "parse groupID = Some g" "parse currentOwner = Some a" "parse newOwner = Some u"
  shows "if b then \<exists>old target. find_member db g a = Some old \<and> m_Role old = ''owner'' \<and> find_member db g u = Some target \<and>
       m_Role target \<noteq> ''owner'' \<and> \<not> m_IsWriteRestricted target \<and>
       group_state_of db' = set_member g u (Some (''owner'', False))
         (set_member g a (Some (''admin'', m_IsWriteRestricted old)) (group_state_of db))
     else db' = db"
proof -
  from run ids obtain n db1 where 1: "DemoteGroupOwnerForTransfer pg g a u db = Inr (n, db1)"
    and rest: "(if n \<noteq> 1 then returnT False
       else bindT (query (PromoteGroupOwnerForTransfer pg g u)) (\<lambda>affected.
         if affected \<noteq> 1 then failT ErrConflict
         else bindT (query (TouchGroupUpdatedAt g t)) (\<lambda>_. returnT True))) db1 = Inr (b, db')"
    by (auto simp: TransferGroupOwnership_tx_def tx_simps)
  show ?thesis
  proof (cases "n = 1")
    case False
    with rest demote_run [OF 1] show ?thesis by (auto simp: tx_simps split: if_splits)
  next
    case True
    with rest obtain db2 where 2: "PromoteGroupOwnerForTransfer pg g u db1 = Inr (1, db2)" "b"
      and db': "group_state_of db' = group_state_of db2"
      by (auto simp: tx_simps touch_state split: if_splits)
    from demote_run [OF 1] True obtain old where old: "find_member db g a = Some old" "m_Role old = ''owner''"
      "group_state_of db1 = set_member g a (Some (''admin'', m_IsWriteRestricted old)) (group_state_of db)"
      "find_member db1 g u = find_member db g u" by auto
    from promote_run [OF 2(1)] obtain target where "find_member db1 g u = Some target" "m_Role target \<noteq> ''owner''"
      "\<not> m_IsWriteRestricted target" "group_state_of db2 = set_member g u (Some (''owner'', False)) (group_state_of db1)"
      by auto
    moreover from this old(4) have "find_member db g u = Some target" by simp
    ultimately show ?thesis using old db' \<open>b\<close> by auto
  qed
qed

lemma Create_state:
  assumes run: "CreateGroup_tx parse pg params db = Inr (x, db')" and inv: "group_inv db"
    and user: "parse (cg_CreatedByUserID params) = Some u"
  shows "\<exists>g. parse (cg_GroupID params) = Some g \<and> (\<forall>v. gst_members (group_state_of db) g v = None) \<and>
     group_state_of db' = set_member g u (Some (''owner'', False)) (group_state_of db)"
  using run
proof (cases rule: CreateGroup_tx_run)
  case (1 g u' t)
  with user have u: "u' = u" by simp
  have none: "find_member db g v = None" for v
  proof (rule ccontr)
    assume "find_member db g v \<noteq> None"
    then obtain m where "m \<in> set (group_memberships db)" "m_GroupID m = g" using find_member_Some by blast
    with group_inv_rows [OF inv] 1(7) show False by (auto simp: member_row_ok_def)
  qed
  have "find_member db' g' v = (if g' = g \<and> v = u then Some (new_membership g u ''owner'' (cg_CreatedAt params))
      else find_member db g' v)" for g' v
    using none [of v] by (auto simp: find_member_def 1(4) u find_append_iff member_at_def new_membership_def split: option.splits)
  from state_set_member [OF this] 1(9) have
    "group_state_of db' = set_member g u (Some (''owner'', False)) (group_state_of db)" by (simp add: new_membership_def)
  with 1(1) none show ?thesis by (simp add: group_state_of_def)
qed

lemma state_set_link:
  assumes "\<And>g' i'. find_link db' g' i' = (if g' = g \<and> i' = i then x else find_link db g' i')"
    and "group_memberships db' = group_memberships db"
  shows "group_state_of db' = set_link g i (map_option (\<lambda>l. (l_Role l, l_DisabledAt l = None)) x) (group_state_of db)"
proof -
  have "find_member db' g' u = find_member db g' u" for g' u by (rule find_cong_tables(1) [OF assms(2)])
  then show ?thesis by (intro group_state_eqI) (simp_all add: group_state_of_def set_link_def assms(1))
qed

lemma CreateLink_state:
  assumes run: "CreateGroupInviteLink_tx parse params db = Inr (link, db')"
    and ids: "parse (cl_GroupID params) = Some g"
  shows "\<exists>i row. parse (cl_InviteLinkID params) = Some i \<and> gst_links (group_state_of db) g i = None \<and>
     group_state_of db' = set_link g i (Some (cl_Role params, True)) (group_state_of db) \<and>
     link = toGroupInviteLink row \<and> group_invite_links db' = group_invite_links db @ [row] \<and>
     l_TokenHash row = cl_TokenHash params \<and> l_ID row = i \<and> l_GroupID row = g \<and> l_Role row = cl_Role params \<and>
     l_DisabledAt row = None \<and> (\<forall>l\<in>set (group_invite_links db). l_TokenHash l \<noteq> cl_TokenHash params)"
proof -
  from run ids obtain i u row db1 where i: "parse (cl_InviteLinkID params) = Some i"
    and create: "CreateGroupInviteLink_sql i g u (cl_Role params) (cl_TokenHash params) (cl_CreatedAt params)
        (cl_CreatedAt params) db = Inr (row, db1)"
    and link: "link = toGroupInviteLink row"
    and db': "group_invite_links db' = group_invite_links db1" "group_memberships db' = group_memberships db1"
    by (auto simp: CreateGroupInviteLink_tx_def tx_simps)
  from create have row: "l_ID row = i" "l_GroupID row = g" "l_Role row = cl_Role params" "l_DisabledAt row = None"
      "l_TokenHash row = cl_TokenHash params"
    and db1: "db1 = db\<lparr>group_invite_links := group_invite_links db @ [row]\<rparr>"
    and fresh: "\<forall>l\<in>set (group_invite_links db). l_ID l \<noteq> i \<and> l_TokenHash l \<noteq> cl_TokenHash params"
    by (auto simp: CreateGroupInviteLink_sql_def Let_def split: if_splits)
  from fresh have none: "find_link db g i = None" by (auto simp: find_link_def find_None_set)
  have links: "group_invite_links db' = group_invite_links db @ [row]" by (simp add: db'(1) db1)
  have "find_link db' g' i' = (if g' = g \<and> i' = i then Some row else find_link db g' i')" for g' i'
    using none by (auto simp: find_link_def links find_append_iff row split: option.splits)
  from state_set_link [OF this] have "group_state_of db' = set_link g i (Some (cl_Role params, True)) (group_state_of db)"
    by (simp add: db'(2) db1 row)
  with i none link links row fresh show ?thesis
    by (intro exI [of _ i] exI [of _ row]) (simp add: group_state_of_def)
qed

lemma DisableLink_state:
  assumes run: "DisableGroupInviteLink_tx parse groupID inviteLinkID t db = Inr (b, db')"
    and ids: "parse groupID = Some g" "parse inviteLinkID = Some i" and link: "find_link db g i = Some l"
  shows "group_state_of db' = set_link g i (Some (l_Role l, False)) (group_state_of db)"
proof -
  from run ids have "change_group (DisableGroupInviteLink_sql g i t) g t db = Inr (b, db')"
    by (auto simp: DisableGroupInviteLink_tx_def tx_simps)
  then obtain n db1 where m: "DisableGroupInviteLink_sql g i t db = Inr (n, db1)"
    "group_state_of db' = group_state_of db1" by (rule change_group_run)
  define f where "f l = (if l_GroupID l = g \<and> l_ID l = i \<and> l_DisabledAt l = None
     then l\<lparr>l_DisabledAt := Some t, l_UpdatedAt := t\<rparr> else l)" for l :: InviteLinkRow
  from m(1) have db1: "group_invite_links db1 = map f (group_invite_links db)" "group_memberships db1 = group_memberships db"
    by (auto simp: DisableGroupInviteLink_sql_def Let_def f_def[abs_def])
  have key: "l_GroupID (f k) = l_GroupID k" "l_ID (f k) = l_ID k" for k by (simp_all add: f_def)
  have fl: "find_link db1 g' i' = map_option f (find_link db g' i')" for g' i'
    unfolding find_link_def db1 by (rule find_map_keep) (simp add: key)
  have at: "l_GroupID k = g' \<and> l_ID k = i'" if "find_link db g' i' = Some k" for g' i' k
    using that unfolding find_link_def by (drule_tac find_SomeD) simp
  have "find_link db1 g' i' = (if g' = g \<and> i' = i then Some (f l) else find_link db g' i')" for g' i'
  proof (cases "find_link db g' i'")
    case (Some k)
    then have k: "l_GroupID k = g'" "l_ID k = i'" using at by blast+
    show ?thesis
    proof (cases "g' = g \<and> i' = i")
      case True
      with Some link show ?thesis by (simp add: fl)
    next
      case False
      with k have "f k = k" by (auto simp: f_def)
      with Some False show ?thesis by (auto simp: fl)
    qed
  qed (use link in \<open>auto simp: fl\<close>)
  from state_set_link [OF this db1(2)]
  have "group_state_of db1 = set_link g i (Some (l_Role (f l), l_DisabledAt (f l) = None)) (group_state_of db)" by simp
  moreover have "l_Role (f l) = l_Role l" "l_DisabledAt (f l) \<noteq> None" using at [OF link] by (simp_all add: f_def)
  ultimately show ?thesis using m(2) by simp
qed

text \<open>A join leaves every link as it was, its counters aside.\<close>

lemma keeps_links_touch: "keeps (\<lambda>db. gst_links (group_state_of db) = L) (TouchGroupInviteLinkJoin i t)"
  unfolding keeps_def
proof (intro allI impI)
  fix db x db' assume L: "gst_links (group_state_of db) = L" and run: "TouchGroupInviteLinkJoin i t db = Inr (x, db')"
  define f where "f l = (if l_ID l = i then l\<lparr>l_JoinCount := l_JoinCount l + 1, l_LastJoinedAt := Some t, l_UpdatedAt := t\<rparr>
     else l)" for l :: InviteLinkRow
  from run have links: "group_invite_links db' = map f (group_invite_links db)"
    by (auto simp: TouchGroupInviteLinkJoin_def f_def[abs_def] split: if_splits)
  have key: "l_GroupID (f l) = l_GroupID l" "l_ID (f l) = l_ID l" "l_Role (f l) = l_Role l" "l_DisabledAt (f l) = l_DisabledAt l"
    for l by (simp_all add: f_def)
  have "find_link db' g j = map_option f (find_link db g j)" for g j
    unfolding find_link_def links by (rule find_map_keep) (simp add: key)
  then show "gst_links (group_state_of db') = L"
    using L by (simp add: group_state_of_def option.map_comp o_def key)
qed

lemma Join_links:
  assumes "JoinGroupByInviteLink_tx parse pg params db = Inr (b, db')"
  shows "gst_links (group_state_of db') = gst_links (group_state_of db)"
proof -
  let ?P = "\<lambda>d. gst_links (group_state_of d) = gst_links (group_state_of db)"
  have same: "?P d \<Longrightarrow> group_invite_links d' = group_invite_links d \<Longrightarrow> ?P d'" for d d'
    by (auto simp: group_state_of_def find_link_def)
  have join: "keeps ?P (JoinGroupMembership pg g u role t)" for g u role t
    unfolding keeps_def JoinGroupMembership_def
    by (auto simp: tx_simps split: if_splits dest!: insert_membership_rows intro: same)
  have touch: "keeps ?P (TouchGroupUpdatedAt g t)" for g t
    unfolding keeps_def by (auto simp: tx_simps intro: same)
  have "keeps ?P (JoinGroupByInviteLink_tx parse pg params)"
    unfolding JoinGroupByInviteLink_tx_def
    by (intro pres_intros keeps_query keeps_reads join touch keeps_links_touch)
  from keepsD [OF this _ assms] show ?thesis by simp
qed

lemma Join_state:
  assumes run: "JoinGroupByInviteLink_tx parse pg params db = Inr (b, db')"
    and ids: "parse (jg_GroupID params) = Some g" "parse (jg_UserID params) = Some u" "parse (jg_InviteLinkID params) = Some i"
    and link: "find_link db g i = Some l" and role: "jg_Role params = l_Role l"
  shows "group_apply u (Join g i) (group_state_of db) = Some (group_state_of db')"
  using run
proof (cases rule: JoinGroup_tx_run)
  case (1 g' u' i' link')
  with ids link have same: "g' = g" "u' = u" "i' = i" "link' = l" and enabled: "l_DisabledAt l = None" by simp_all
  have lk: "gst_links (group_state_of db) g i = Some (l_Role l, True)" using link enabled by (simp add: group_state_of_def)
  show ?thesis
  proof (cases b)
    case False
    with 1(6) have "find_member db g u \<noteq> None" "db' = db" by (simp_all add: same)
    then have "gst_members (group_state_of db) g u \<noteq> None" by (simp add: group_state_of_def)
    with lk \<open>db' = db\<close> show ?thesis by auto
  next
    case True
    with 1(6) have none: "find_member db g u = None"
      and rows: "group_memberships db' = group_memberships db @ [new_membership g u (l_Role l) (jg_JoinedAt params)]"
      by (simp_all add: same role)
    have fm: "find_member db' g' v = (if g' = g \<and> v = u then Some (new_membership g u (l_Role l) (jg_JoinedAt params))
        else find_member db g' v)" for g' v
      using none by (auto simp: find_member_def rows find_append_iff member_at_def new_membership_def split: option.splits)
    have "group_state_of db' = set_member g u (Some (l_Role l, False)) (group_state_of db)"
    proof (rule group_state_eqI)
      show "gst_links (group_state_of db') g' j = gst_links (set_member g u (Some (l_Role l, False)) (group_state_of db)) g' j" for g' j
        using Join_links [OF run] by (simp add: set_member_def)
    qed (simp add: group_state_of_def set_member_def fm new_membership_def)
    moreover have "gst_members (group_state_of db) g u = None" using none by (simp add: group_state_of_def)
    ultimately show ?thesis using lk by simp
  qed
qed

end
