(* ===== verification/Chat_Refine.thy ===== *)
theory Chat_Refine
  imports Chat_Steps
begin

text \<open>
  Without other writers every operation of the service is one step of the machine of \<open>Chat_Steps\<close>, taken by the user of
  the session that the token names, or none; a refused operation writes nothing but the time of the session.
\<close>

section \<open>Who calls\<close>

definition session_user :: "chat_env \<Rightarrow> chat_db \<Rightarrow> string \<Rightarrow> uuid option" where
  "session_user env db token =
     (case Parse (cv_sha256 env) token of
        None \<Rightarrow> None
      | Some parsed \<Rightarrow>
         (case cv_parse env (SessionID parsed) of
            None \<Rightarrow> None
          | Some i \<Rightarrow>
             (case GetSessionAuthByID_sql i db of
                Inr ((s, d, u), _) \<Rightarrow>
                  if ses_RevokedAt s = None \<and> dev_RevokedAt d = None \<and> ses_TokenHash s = TokenHash parsed
                  then Some (usr_ID u) else None
              | Inl _ \<Rightarrow> None)))"

text \<open>Everything but the times at which sessions and devices were last seen.\<close>

definition same_but_sessions :: "chat_db \<Rightarrow> chat_db \<Rightarrow> bool" where
  "same_but_sessions db db' \<longleftrightarrow> (\<exists>ss ds. db' = db\<lparr>user_sessions := ss, user_devices := ds\<rparr>)"

lemma same_but_sessions_refl [simp]: "same_but_sessions db db"
  unfolding same_but_sessions_def by (intro exI [of _ "user_sessions db"] exI [of _ "user_devices db"]) simp

text \<open>Identifiers in the tables are canonical texts of the parser.\<close>

definition stable_parser :: "uuid_parser \<Rightarrow> bool" where
  "stable_parser parse \<longleftrightarrow> (\<forall>s u. parse s = Some u \<longrightarrow> parse u = Some u)"

definition ids_ok :: "uuid_parser \<Rightarrow> chat_db \<Rightarrow> bool" where
  "ids_ok parse db \<longleftrightarrow>
     (\<forall>r\<in>set (users db). parse (usr_ID r) = Some (usr_ID r)) \<and>
     (\<forall>r\<in>set (groups db). parse (grp_ID r) = Some (grp_ID r)) \<and>
     (\<forall>l\<in>set (group_invite_links db). parse (l_ID l) = Some (l_ID l))"

definition ready :: "chat_env \<Rightarrow> chat_db \<Rightarrow> bool" where
  "ready env db \<longleftrightarrow> quiet env \<and> 0 < cv_limit env \<and> stable_parser (cv_parse env) \<and> ids_ok (cv_parse env) db \<and> group_inv db"

lemma ready_same:
  assumes "same_but_sessions db db'"
  shows "ready env db' \<longleftrightarrow> ready env db" and "group_state_of db' = group_state_of db"
    and "group_invite_links db' = group_invite_links db"
proof -
  from assms obtain ss ds where db': "db' = db\<lparr>user_sessions := ss, user_devices := ds\<rparr>" by (auto simp: same_but_sessions_def)
  have "group_inv db' \<longleftrightarrow> group_inv db"
    by (simp add: db' group_inv_def find_group_def find_user_def owner_clash_def)
  then show "ready env db' \<longleftrightarrow> ready env db" by (simp add: ready_def ids_ok_def db')
  show "group_state_of db' = group_state_of db" by (rule group_state_same) (simp_all add: db')
  show "group_invite_links db' = group_invite_links db" by (simp add: db')
qed

lemma touch_same: "TouchSession_tx parse a b t db = Inr (x, db') \<Longrightarrow> same_but_sessions db db'"
  by (auto simp: TouchSession_tx_def tx_simps TouchSessionAndDevice_def same_but_sessions_def)

text \<open>\<open>authenticate\<close> at most stamps the session; on success it names the session's user.\<close>

lemma quiet_touch:
  assumes "quiet env" and "repo_touch env a b t w = (r, w')"
  shows "same_but_sessions (cw_db w) (cw_db w')"
proof -
  let ?m = "\<lambda>_. TouchSession_tx (cv_parse env) a b t"
  have "same_but_sessions (cw_db w) (cw_db (snd (transact env ?m w)))"
    using assms(1) touch_same [of "cv_parse env" a b t "cw_db w"]
    by (cases "cv_fault env (cw_tick w)"; cases "TouchSession_tx (cv_parse env) a b t (cw_db w)")
      (auto simp: transact_def Let_def)
  moreover have "snd (repo_touch env a b t w) = snd (transact env ?m w)"
    by (auto simp: repo_touch_def attemptE_def returnE_def failE_def split: prod.splits sum.splits)
  ultimately show ?thesis using assms(2) by simp
qed

lemma session_read:
  assumes "GetSessionAuthByID_tx (cv_parse env) (SessionID parsed) db = Inr (auth, db)"
    and "Parse (cv_sha256 env) token = Some parsed"
    and "sa_SessionRevokedAt auth = None" and "sa_DeviceRevokedAt auth = None" and "sa_TokenHash auth = TokenHash parsed"
  shows "session_user env db token = Some (caller auth)"
  using assms
  by (auto simp: GetSessionAuthByID_tx_def tx_simps session_user_def caller_def toUserSummary_def split: option.splits)

lemma authenticate_quiet:
  assumes quiet: "quiet env" and run: "authenticate (chat_service env) token w = (r, w')"
  shows "same_but_sessions (cw_db w) (cw_db w') \<and>
     (\<forall>auth. r = Inr auth \<longrightarrow> session_user env (cw_db w) token = Some (caller auth))"
proof (cases "Parse (cv_sha256 env) token")
  case None
  with run show ?thesis by (auto simp: authenticate_def chat_service_sel failE_def)
next
  case (Some parsed)
  define rest where "rest auth0 =
       (if sa_SessionRevokedAt auth0 \<noteq> None \<or> sa_DeviceRevokedAt auth0 \<noteq> None then failE ErrUnauthorized
        else if sa_TokenHash auth0 \<noteq> TokenHash parsed then failE ErrUnauthorized
        else bindE (answer (\<lambda>t. Inr (cv_clock env t))) (\<lambda>touchedAt.
          if shouldTouchSession (sa_SessionLastSeenAt auth0) touchedAt defaultSessionTouchInterval \<or>
             shouldTouchSession (sa_DeviceLastSeenAt auth0) touchedAt defaultSessionTouchInterval
          then bindE (repo_touch env (sa_SessionID auth0) (sa_DeviceID auth0) touchedAt) (\<lambda>_.
               returnE (auth0\<lparr>sa_SessionLastSeenAt := touchedAt, sa_DeviceLastSeenAt := touchedAt\<rparr>))
          else returnE auth0))" for auth0 :: SessionAuth
  let ?m = "\<lambda>_. GetSessionAuthByID_tx (cv_parse env) (SessionID parsed)"
  have run: "bindE (transact env ?m) rest w = (r, w')"
    using run Some by (simp add: authenticate_def chat_service_sel chat_postgres_def rest_def[abs_def] cong: if_cong)
  have "steady (cw_db w) (transact env ?m) (\<lambda>x. \<exists>pg :: pg. ?m pg (cw_db w) = Inr (x, cw_db w))"
    by (rule steady_read [OF quiet read_only_methods(1)])
  from this refl show ?thesis
  proof (cases rule: steadyE)
    case (1 auth0 w1)
    then have read: "GetSessionAuthByID_tx (cv_parse env) (SessionID parsed) (cw_db w) = Inr (auth0, cw_db w)" by blast
    from run 1(1) have rest: "rest auth0 w1 = (r, w')" by (simp add: bindE_def)
    show ?thesis
    proof (cases "sa_SessionRevokedAt auth0 = None \<and> sa_DeviceRevokedAt auth0 = None \<and> sa_TokenHash auth0 = TokenHash parsed")
      case False
      with rest 1(2) show ?thesis by (auto simp: rest_def failE_def split: if_splits)
    next
      case True
      then have user: "session_user env (cw_db w) token = Some (caller auth0)" using session_read [OF read Some] by blast
      let ?t = "cv_clock env (cw_tick w1)" and ?w2 = "w1\<lparr>cw_tick := Suc (cw_tick w1)\<rparr>"
      obtain r2 w3 where touch: "repo_touch env (sa_SessionID auth0) (sa_DeviceID auth0) ?t ?w2 = (r2, w3)" by fastforce
      from quiet_touch [OF quiet touch] 1(2) have same: "same_but_sessions (cw_db w) (cw_db w3)" by simp
      have "(r = Inr auth0 \<and> w' = ?w2) \<or>
          (w' = w3 \<and> (case r2 of Inl e \<Rightarrow> r = Inl e
             | Inr _ \<Rightarrow> r = Inr (auth0\<lparr>sa_SessionLastSeenAt := ?t, sa_DeviceLastSeenAt := ?t\<rparr>)))"
        using rest True touch
        by (auto simp: rest_def bindE_def answer_def returnE_def split: if_splits sum.splits)
      then show ?thesis using same user 1(2) by (auto simp: caller_def split: sum.splits)
    qed
  next
    case (2 e w1)
    with run show ?thesis by (auto simp: bindE_def)
  qed
qed

section \<open>One operation\<close>

text \<open>The outcome of a request whose effect is \<open>Q\<close>, from the caller, the database after authentication, the result and
  the final database.\<close>

definition outcome ::
    "chat_env \<Rightarrow> string \<Rightarrow> chat_world \<Rightarrow> (uuid \<Rightarrow> chat_db \<Rightarrow> 'a \<Rightarrow> chat_db \<Rightarrow> bool) \<Rightarrow> (chat_error + 'a) \<times> chat_world \<Rightarrow> bool" where
  "outcome env token w Q rw \<longleftrightarrow>
     (\<exists>D. same_but_sessions (cw_db w) D \<and>
        (case rw of
           (Inr x, w') \<Rightarrow> (\<exists>a. session_user env (cw_db w) token = Some a \<and> Q a D x (cw_db w'))
         | (Inl e, w') \<Rightarrow> cw_db w' = D \<or>
             (\<not> refusal e \<and> (\<exists>a x. session_user env (cw_db w) token = Some a \<and> Q a D x (cw_db w')))))"

lemma caller_canonical:
  assumes "ids_ok (cv_parse env) db" and "session_user env db token = Some a"
  shows "cv_parse env a = Some a"
  using assms
  by (auto simp: session_user_def GetSessionAuthByID_sql_def ids_ok_def find_user_def
      split: option.splits sum.splits prod.splits if_splits dest!: find_SomeD)

lemma authenticated:
  assumes ready: "ready env (cw_db w)"
    and body: "\<And>auth D. ready env D \<Longrightarrow> cv_parse env (caller auth) = Some (caller auth) \<Longrightarrow> meets D (f auth) (Q (caller auth) D)"
  shows "outcome env token w Q (bindE (authenticate (chat_service env) token) f w)"
proof -
  obtain r1 w1 where 1: "authenticate (chat_service env) token w = (r1, w1)" by fastforce
  have quiet: "quiet env" using ready by (simp add: ready_def)
  from authenticate_quiet [OF quiet 1] have same: "same_but_sessions (cw_db w) (cw_db w1)"
    and user: "\<And>auth. r1 = Inr auth \<Longrightarrow> session_user env (cw_db w) token = Some (caller auth)" by simp_all
  show ?thesis
  proof (cases r1)
    case (Inl e)
    with 1 same show ?thesis by (auto simp: bindE_def outcome_def)
  next
    case (Inr auth)
    have "ready env (cw_db w1)" using ready ready_same(1) [OF same] by simp
    moreover have "cv_parse env (caller auth) = Some (caller auth)"
      using caller_canonical [OF _ user [OF Inr]] ready by (simp add: ready_def)
    ultimately have "meets (cw_db w1) (f auth) (Q (caller auth) (cw_db w1))" by (rule body)
    then have "met (cw_db w1) (Q (caller auth) (cw_db w1)) (f auth w1)" by (simp add: meets_def)
    moreover obtain r2 w2 where 2: "f auth w1 = (r2, w2)" by fastforce
    ultimately show ?thesis
      using 1 Inr same user [OF Inr] unfolding outcome_def by (intro exI [of _ "cw_db w1"]) (cases r2; auto simp: bindE_def)
  qed
qed

end
