(* ===== verification/Chat_Ops.thy ===== *)
theory Chat_Ops
  imports Chat_Refine
begin

text \<open>The outcome of each operation of the service without other writers.\<close>

section \<open>What a request asks for\<close>

fun asks :: "chat_env \<Rightarrow> chat_db \<Rightarrow> GroupRequest \<Rightarrow> group_label \<Rightarrow> bool" where
  "asks env db (CreateGroupRequest name) l = (\<exists>g. l = Create g)"
| "asks env db (UpdateGroupMemberRoleRequest g u role) l =
     (\<exists>gid uid r. normalizeID (cv_parse env) g = Inr gid \<and> normalizeID (cv_parse env) u = Inr uid \<and>
        normalizeManagedGroupRole role = Inr r \<and> l = Assign gid uid r)"
| "asks env db (TransferGroupOwnershipRequest g u) l =
     (\<exists>gid uid. normalizeID (cv_parse env) g = Inr gid \<and> normalizeID (cv_parse env) u = Inr uid \<and> l = Transfer gid uid)"
| "asks env db (RemoveGroupMemberRequest g u) l =
     (\<exists>gid uid. normalizeID (cv_parse env) g = Inr gid \<and> normalizeID (cv_parse env) u = Inr uid \<and> l = Remove gid uid)"
| "asks env db (RestrictGroupMemberRequest g u) l =
     (\<exists>gid uid. normalizeID (cv_parse env) g = Inr gid \<and> normalizeID (cv_parse env) u = Inr uid \<and> l = Restrict gid uid True)"
| "asks env db (UnrestrictGroupMemberRequest g u) l =
     (\<exists>gid uid. normalizeID (cv_parse env) g = Inr gid \<and> normalizeID (cv_parse env) u = Inr uid \<and> l = Restrict gid uid False)"
| "asks env db (LeaveGroupRequest g) l = (\<exists>gid. normalizeID (cv_parse env) g = Inr gid \<and> l = Leave gid)"
| "asks env db (CreateGroupInviteLinkRequest g role) l =
     (\<exists>gid i r. normalizeID (cv_parse env) g = Inr gid \<and> normalizeGroupInviteRole role = Inr r \<and> l = Invite gid i r)"
| "asks env db (DisableGroupInviteLinkRequest g i) l =
     (\<exists>gid lid. normalizeID (cv_parse env) g = Inr gid \<and> normalizeID (cv_parse env) i = Inr lid \<and> l = Disable gid lid)"
| "asks env db (JoinGroupByInviteLinkRequest t) l =
     (\<exists>token row. normalizeInviteToken t = Inr token \<and> row \<in> set (group_invite_links db) \<and>
        l_TokenHash row = hashInviteToken (cv_sha256 env) token \<and> l = Join (l_GroupID row) (l_ID row))"
| "asks env db request l = False"

definition stepped :: "chat_env \<Rightarrow> GroupRequest \<Rightarrow> uuid \<Rightarrow> chat_db \<Rightarrow> 'a \<Rightarrow> chat_db \<Rightarrow> bool" where
  "stepped env request a D x D' \<longleftrightarrow>
     (\<exists>l. asks env D request l \<and> group_apply a l (group_state_of D) = Some (group_state_of D'))"

section \<open>Reads\<close>

lemma readyD:
  assumes "ready env D"
  shows "quiet env" and "0 < cv_limit env" and "group_inv D"
    and "normalizeID (cv_parse env) v = Inr u \<Longrightarrow> cv_parse env u = Some u"
  using assms by (auto simp: ready_def stable_parser_def normalizeID_def split: option.splits)

text \<open>The repository of \<open>chat_service\<close>.\<close>

lemmas service_sel = chat_service_sel(1-8)

lemma postgres_sel:
  "repo_CreateGroup (chat_postgres env) = repo_create_group env"
  "repo_ListGroups (chat_postgres env) = repo_list_groups env"
  "repo_GetGroup (chat_postgres env) = repo_get_group env"
  "repo_UpsertGroupNotificationPreference (chat_postgres env) =
     (\<lambda>g u flag t. transact env (\<lambda>_. UpsertGroupNotificationPreference_tx (cv_parse env) g u flag t))"
  "repo_GetGroupChatThread (chat_postgres env) = (\<lambda>u g. transact env (\<lambda>_. GetGroupChatThread_tx (cv_parse env) u g))"
  "repo_ListGroupMembers (chat_postgres env) = (\<lambda>u g. transact env (\<lambda>_. ListGroupMembers_tx (cv_parse env) u g))"
  "repo_GetGroupMember (chat_postgres env) = (\<lambda>g u. transact env (\<lambda>_. GetGroupMember_tx (cv_parse env) g u))"
  "repo_UpdateGroupMemberRole (chat_postgres env) =
     (\<lambda>g u role t. transact env (\<lambda>pg. UpdateGroupMemberRole_tx (cv_parse env) pg g u role t))"
  "repo_SetGroupMemberWriteRestriction (chat_postgres env) =
     (\<lambda>g u flag at t. transact env (\<lambda>pg. SetGroupMemberWriteRestriction_tx (cv_parse env) pg g u flag at t))"
  "repo_TransferGroupOwnership (chat_postgres env) =
     (\<lambda>g a b t. transact env (\<lambda>pg. TransferGroupOwnership_tx (cv_parse env) pg g a b t))"
  "repo_DeleteGroupMembership (chat_postgres env) =
     (\<lambda>g u t. transact env (\<lambda>pg. DeleteGroupMembership_tx (cv_parse env) pg g u t))"
  "repo_CreateGroupInviteLink (chat_postgres env) = (\<lambda>params. transact env (\<lambda>_. CreateGroupInviteLink_tx (cv_parse env) params))"
  "repo_ListGroupInviteLinks (chat_postgres env) = (\<lambda>g. transact env (\<lambda>_. ListGroupInviteLinks_tx (cv_parse env) g))"
  "repo_GetGroupInviteLink (chat_postgres env) = (\<lambda>g i. transact env (\<lambda>_. GetGroupInviteLink_tx (cv_parse env) g i))"
  "repo_DisableGroupInviteLink (chat_postgres env) = (\<lambda>g i t. transact env (\<lambda>_. DisableGroupInviteLink_tx (cv_parse env) g i t))"
  "repo_GetGroupInviteLinkForJoin (chat_postgres env) = (\<lambda>h. transact env (\<lambda>_. GetGroupInviteLinkForJoin_tx h))"
  "repo_JoinGroupByInviteLink (chat_postgres env) = (\<lambda>params. transact env (\<lambda>pg. JoinGroupByInviteLink_tx (cv_parse env) pg params))"
  by (simp_all add: chat_postgres_def)

lemma not_refusal [simp]:
  "\<not> refusal ErrNotFound" "\<not> refusal Panic" "\<not> refusal ErrNoRows" "\<not> refusal ErrOther" "\<not> refusal ErrContext"
  by (simp_all add: refusal_def)

lemma mustParse_ends: "ends D (liftE (mustParseUUID parse v)) (\<lambda>u. parse v = Some u)"
  by (rule ends_weaken [OF ends_liftE]) (auto simp: mustParseUUID_def split: option.splits)

lemma mapErrT_Inl: "mapErrT f m db = Inl e \<longleftrightarrow> (\<exists>e'. m db = Inl e' \<and> e = f e')"
  by (auto simp: mapErrT_def split: sum.splits)

lemma group_row_read:
  "GetGroupRowByIDAndUserID u g db = Inr (row, db) \<Longrightarrow>
     \<exists>self. find_member db g u = Some self \<and> gs_SelfRole row = m_Role self"
  by (auto simp: GetGroupRowByIDAndUserID_def group_self_row_def split: option.splits)

lemma get_group_ends:
  assumes "quiet env"
  shows "ends D (repo_get_group env a g) (\<lambda>grp. True)"
  unfolding repo_get_group_def
proof (intro ends_bind ends_returnE TrueI)
  show "ends D (transact env (\<lambda>_. query (GetGroupRowByIDAndUserID u gid)))
     (\<lambda>x. \<exists>pg :: pg. query (GetGroupRowByIDAndUserID u gid) D = Inr (x, D))" for u gid
    by (rule ends_read [OF assms read_only_query [OF read_only_statements(4)]])
      (auto simp: query_def mapErrT_Inl GetGroupRowByIDAndUserID_def convertError_def split: option.splits)
  show "ends D (transact env (\<lambda>_. query (ListEncryptedPinnedMessageIDsByGroupID gid)))
     (\<lambda>x. \<exists>pg :: pg. query (ListEncryptedPinnedMessageIDsByGroupID gid) D = Inr (x, D))" for gid
    by (rule ends_read [OF assms read_only_query [OF read_only_statements(5)]])
      (auto simp: query_def mapErrT_Inl ListEncryptedPinnedMessageIDsByGroupID_def)
qed (rule mustParse_ends)+

lemma ends_steady: "ends D m T \<Longrightarrow> steady D m T"
  unfolding steady_def
proof (intro allI impI)
  fix w :: chat_world assume "ends D m T" "cw_db w = D"
  then show "case m w of (Inr x, w') \<Rightarrow> cw_db w' = D \<and> T x | (Inl e, w') \<Rightarrow> cw_db w' = D"
    by (cases rule: endsE) simp_all
qed

lemma get_group_steady:
  assumes "quiet env" and "cv_parse env a = Some a" and "cv_parse env g = Some g"
  shows "steady D (repo_get_group env a g) (\<lambda>grp. \<exists>self. find_member D g a = Some self \<and> group_SelfRole grp = m_Role self)"
  unfolding repo_get_group_def
proof (intro steady_bind steady_returnE)
  show "steady D (liftE (mustParseUUID (cv_parse env) a)) (\<lambda>u. u = a)"
    by (rule steady_weaken [OF steady_liftE]) (use assms in simp)
  show "steady D (liftE (mustParseUUID (cv_parse env) g)) (\<lambda>u. u = g)" for u
    by (rule steady_weaken [OF steady_liftE]) (use assms in simp)
  show "steady D (transact env (\<lambda>_. query (GetGroupRowByIDAndUserID u gid)))
      (\<lambda>row. \<exists>self. find_member D g a = Some self \<and> gs_SelfRole row = m_Role self)" if "u = a" "gid = g" for u gid
    by (rule steady_weaken [OF steady_read [OF assms(1)]]) (use that in \<open>auto simp: tx_simps dest: group_row_read\<close>)
  show "steady D (transact env (\<lambda>_. query (ListEncryptedPinnedMessageIDsByGroupID gid))) (\<lambda>_. True)" for gid
    by (rule steady_weaken [OF steady_read [OF assms(1)]]) auto
qed (simp add: toGroup_def)

lemma get_member_steady:
  assumes "quiet env" and "cv_parse env g = Some g" and "cv_parse env u = Some u"
  shows "steady D (transact env (\<lambda>_. GetGroupMember_tx (cv_parse env) g u))
     (\<lambda>m. \<exists>row. find_member D g u = Some row \<and> gm_Role m = m_Role row \<and> gm_IsWriteRestricted m = m_IsWriteRestricted row)"
  by (rule steady_weaken [OF steady_read [OF assms(1) read_only_methods(3)]])
    (use assms in \<open>auto simp: GetGroupMember_tx_def tx_simps GetGroupMemberRowByGroupIDAndUserID_def
      toGroupMember_def split: option.splits\<close>)

lemma get_member_ends:
  assumes "quiet env"
  shows "ends D (transact env (\<lambda>_. GetGroupMember_tx (cv_parse env) g u)) (\<lambda>_. True)"
  by (rule ends_weaken [OF ends_read [OF assms read_only_methods(3)]])
    (auto simp: GetGroupMember_tx_def bindT_def liftT_def mustParseUUID_def query_def mapErrT_def
      GetGroupMemberRowByGroupIDAndUserID_def convertError_def returnT_def split: option.splits sum.splits)

lemma clear_typing_ends:
  assumes "quiet env"
  shows "ends D (clear_typing (chat_service env) a g u) (\<lambda>_. True)"
  unfolding clear_typing_def service_sel postgres_sel
proof (rule ends_bind)
  show "ends D (transact env (\<lambda>_. GetGroupChatThread_tx (cv_parse env) a g)) (\<lambda>_. True)"
    by (rule ends_weaken [OF ends_read [OF assms read_only_methods(2)]])
      (auto simp: GetGroupChatThread_tx_def bindT_def liftT_def mustParseUUID_def query_def mapErrT_def
        GetGroupChatThreadRowByGroupIDAndUserID_def convertError_def returnT_def split: option.splits sum.splits)
  show "ends D (answer (cv_typing env)) (\<lambda>_. True)"
  proof (rule ends_answer)
    fix t e assume "cv_typing env t = Inl e"
    moreover have "cv_typing env t \<in> {Inr (), Inl ErrOther, Inl ErrContext}" using assms unfolding quiet_def by blast
    ultimately show "\<not> refusal e" by auto
  qed
qed

section \<open>The operations on members\<close>

lemma stepped_intro:
  "asks env D request l \<Longrightarrow> group_apply a l (group_state_of D) = Some (group_state_of D') \<Longrightarrow> stepped env request a D x D'"
  by (auto simp: stepped_def)

text \<open>The steps that the operations share, in the calculus: the rules for reads, and for a commit after which only
  reads follow.\<close>

lemma meets_get_group:
  assumes "normalizeID (cv_parse env) v = Inr g" and "ready env D" and "cv_parse env a = Some a"
    and "\<And>grp self. find_member D g a = Some self \<Longrightarrow> group_SelfRole grp = m_Role self \<Longrightarrow> meets D (f grp) Q"
  shows "meets D (bindE (repo_get_group env a g) f) Q"
  by (rule meets_bind [OF get_group_steady]) (use assms readyD [OF assms(2)] in auto)

lemma meets_get_member:
  assumes "normalizeID (cv_parse env) v = Inr g" and "normalizeID (cv_parse env) v' = Inr u" and "ready env D"
    and "\<And>m row. find_member D g u = Some row \<Longrightarrow> gm_Role m = m_Role row \<Longrightarrow>
           gm_IsWriteRestricted m = m_IsWriteRestricted row \<Longrightarrow> meets D (f m) Q"
  shows "meets D (bindE (transact env (\<lambda>_. GetGroupMember_tx (cv_parse env) g u)) f) Q"
  by (rule meets_bind [OF get_member_steady]) (use assms readyD [OF assms(3)] in auto)

lemma meets_typing:
  assumes "ready env D" and "\<And>x. meets D (f x) Q"
  shows "meets D (bindE (clear_typing (chat_service env) a g u) f) Q"
  by (rule meets_bind [OF ends_steady [OF clear_typing_ends]]) (use assms readyD [OF assms(1)] in auto)

lemma meets_answer:
  "(\<And>x t. a t = Inr x \<Longrightarrow> meets D (f x) Q) \<Longrightarrow> meets D (bindE (answer a) f) Q"
  by (rule meets_bind [OF steady_answer]) auto

lemma meets_commit:
  assumes "ready env D" and "\<And>pg x D' y. m pg D = Inr (x, D') \<Longrightarrow> Q y D'"
    and "\<And>pg x D'. m pg D = Inr (x, D') \<Longrightarrow> ends D' (f x) (\<lambda>_. True)"
  shows "meets D (bindE (transact env m) f) Q"
proof (rule meets_write)
  show "quiet env" by (rule readyD(1) [OF assms(1)])
  show "(D' = D \<and> meets D (f x) Q) \<or> ((\<exists>y. Q y D') \<and> ends D' (f x) (\<lambda>y. Q y D'))"
    if "m pg D = Inr (x, D')" for pg x D'
  proof -
    have "ends D' (f x) (\<lambda>y. Q y D')" by (rule ends_weaken [OF assms(3) [OF that]]) (rule assms(2) [OF that])
    moreover have "\<exists>y. Q y D'" using assms(2) [OF that] by blast
    ultimately show ?thesis by blast
  qed
qed

lemma ends_if: "(b \<Longrightarrow> ends D m T) \<Longrightarrow> (\<not> b \<Longrightarrow> ends D n T) \<Longrightarrow> ends D (if b then m else n) T"
  by simp

lemma ends_then: "ends D m (\<lambda>_. True) \<Longrightarrow> (\<And>x. ends D (f x) S) \<Longrightarrow> ends D (bindE m f) S"
  by (erule ends_bind) simp

lemma ends_value: "ends D (returnE x) (\<lambda>_. True)"
  by (simp add: ends_returnE)

lemmas ends_tail = ends_if ends_then ends_value get_member_ends clear_typing_ends get_group_ends

lemma set_member_self [simp]:
  "find_member db g u = Some m \<Longrightarrow>
     set_member g u (Some (m_Role m, m_IsWriteRestricted m)) (group_state_of db) = group_state_of db"
  by (rule group_state_eqI) (auto simp: set_member_def)

lemma set_member_flag [simp]:
  "find_member db g u = Some m \<Longrightarrow> m_IsWriteRestricted m = flag \<Longrightarrow>
     set_member g u (Some (m_Role m, flag)) (group_state_of db) = group_state_of db"
  using set_member_self by fast

lemma role_step:
  assumes "normalizeID (cv_parse env) G = Inr g" and "normalizeID (cv_parse env) U = Inr u"
    and "normalizeManagedGroupRole R = Inr r" and "find_member D g a = Some self" and "find_member D g u = Some row"
    and "canManageRoleForTarget (m_Role self) (m_Role row)" and "canAssignGroupRole (m_Role self) r"
    and "group_state_of D' = set_member g u (Some (r, m_IsWriteRestricted row)) (group_state_of D)"
  shows "stepped env (UpdateGroupMemberRoleRequest G U R) a D y D'"
  by (rule stepped_intro [where l = "Assign g u r"]) (use assms in \<open>auto simp: can_outranks\<close>)

lemma role_commit:
  assumes "ready env D" and "normalizeID (cv_parse env) G = Inr g" and "normalizeID (cv_parse env) U = Inr u"
    and "find_member D g u = Some row" and "m_Role row \<noteq> r"
    and "UpdateGroupMemberRole_tx (cv_parse env) pg g u r at D = Inr (b, D')"
  shows "group_state_of D' = set_member g u (Some (r, m_IsWriteRestricted row)) (group_state_of D)"
  using UpdateRole_state [OF assms(6) _ _ assms(4,5)] readyD [OF assms(1)] assms(2,3) by blast

lemma UpdateGroupMemberRole_outcome:
  assumes "ready env (cw_db w)"
  shows "outcome env token w (stepped env (UpdateGroupMemberRoleRequest G U R))
           (UpdateGroupMemberRole (chat_service env) token G U R w)"
  unfolding UpdateGroupMemberRole_def service_sel postgres_sel
  apply (rule authenticated [OF assms])
  apply (intro meets_bind_liftE)
  apply (rule meets_get_group, assumption, assumption, assumption)
  apply (intro meets_if meets_failE)
  apply (rule meets_get_member, assumption, assumption, assumption)
  apply (intro meets_if meets_failE meets_bind_liftE meets_returnE meets_answer)
   apply (rule role_step, assumption, assumption, assumption, assumption, assumption, simp, simp, simp)
  apply (rule meets_commit, assumption)
   apply (rule role_step, assumption, assumption, assumption, assumption, assumption, simp, simp, rule role_commit; simp)
  apply (intro ends_tail; simp add: readyD)
  done

text \<open>A write that reports whether it matched a row.\<close>

lemma meets_commit_if:
  assumes ready: "ready env D" and none: "\<And>pg D'. m pg D = Inr (False, D') \<Longrightarrow> D' = D"
    and some: "\<And>pg D' y. m pg D = Inr (True, D') \<Longrightarrow> Q y D'" and tail: "\<And>D'. ends D' k (\<lambda>_. True)"
  shows "meets D (bindE (transact env m) (\<lambda>b. if \<not> b then failE e else k)) Q"
proof (rule meets_write)
  show "quiet env" by (rule readyD(1) [OF ready])
  show "(D' = D \<and> meets D (if \<not> b then failE e else k) Q) \<or>
     ((\<exists>y. Q y D') \<and> ends D' (if \<not> b then failE e else k) (\<lambda>y. Q y D'))" if run: "m pg D = Inr (b, D')" for pg b D'
  proof (cases b)
    case True
    with run have "m pg D = Inr (True, D')" by simp
    then have Q: "Q y D'" for y by (rule some)
    then have "ends D' k (\<lambda>y. Q y D')" by (intro ends_weaken [OF tail])
    with Q True show ?thesis by auto
  next
    case False
    with run have "m pg D = Inr (False, D')" by simp
    then have "D' = D" by (rule none)
    with False show ?thesis by (simp add: meets_failE)
  qed
qed

lemma known_role:
  assumes "ready env D" and "find_member D g u = Some m"
  shows "m_Role m \<in> {''owner'', ''admin'', ''member'', ''reader''}"
  using group_inv_rows [OF readyD(3) [OF assms(1)]] find_member_Some [OF assms(2)]
  by (auto simp: member_row_ok_def membership_check_def)

lemma transfer_commit:
  assumes "ready env D" and "normalizeID (cv_parse env) G = Inr g" and "normalizeID (cv_parse env) U = Inr u"
    and "cv_parse env a = Some a" and "TransferGroupOwnership_tx (cv_parse env) pg g a u at D = Inr (b, D')"
  shows "if b then stepped env (TransferGroupOwnershipRequest G U) a D y D' else D' = D"
proof (cases b)
  case True
  from readyD(4) [OF assms(1)] assms(2,3) have ids: "cv_parse env g = Some g" "cv_parse env u = Some u" by blast+
  from Transfer_state [OF assms(5) ids(1) assms(4) ids(2)] True obtain old target where rows: "find_member D g a = Some old" "m_Role old = ''owner''" "find_member D g u = Some target"
    "m_Role target \<noteq> ''owner''" "\<not> m_IsWriteRestricted target"
    and D': "group_state_of D' = set_member g u (Some (''owner'', False))
         (set_member g a (Some (''admin'', m_IsWriteRestricted old)) (group_state_of D))" by auto
  have "outranks ''owner'' (m_Role target)"
    using known_role [OF assms(1) rows(3)] rows(4) by (auto simp: outranks_def rank_def)
  then have "stepped env (TransferGroupOwnershipRequest G U) a D y D'"
    by (intro stepped_intro [where l = "Transfer g u"]) (use assms(2,3) rows D' in simp_all)
  with True show ?thesis by simp
qed (use Transfer_state [OF assms(5) readyD(4) [OF assms(1,2)] assms(4) readyD(4) [OF assms(1,3)]] in simp)

lemma TransferGroupOwnership_outcome:
  assumes "ready env (cw_db w)"
  shows "outcome env token w (stepped env (TransferGroupOwnershipRequest G U))
           (TransferGroupOwnership (chat_service env) token G U w)"
  unfolding TransferGroupOwnership_def service_sel postgres_sel
  apply (rule authenticated [OF assms])
  apply (intro meets_bind_liftE)
  apply (rule meets_get_group, assumption, assumption, assumption)
  apply (intro meets_if meets_failE)
  apply (rule meets_get_member, assumption, assumption, assumption)
  apply (intro meets_if meets_failE meets_answer)
  apply (rule meets_commit_if, assumption)
    apply (drule (4) transfer_commit, simp)
   apply (drule (4) transfer_commit, simp)
  apply (intro ends_tail; simp add: readyD)
  done

lemma remove_commit:
  assumes "normalizeID (cv_parse env) G = Inr g" and "normalizeID (cv_parse env) U = Inr u" and "ready env D"
    and "find_member D g a = Some self" and "find_member D g u = Some row" and "canRemoveGroupMember (m_Role self) (m_Role row)"
    and "DeleteGroupMembership_tx (cv_parse env) pg g u at D = Inr (b, D')"
  shows "if b then stepped env (RemoveGroupMemberRequest G U) a D y D' else D' = D"
proof (cases b)
  case True
  with Delete_state [OF assms(7)] readyD(4) [OF assms(3)] assms(1,2)
  have "group_state_of D' = set_member g u None (group_state_of D)" by simp
  then have "stepped env (RemoveGroupMemberRequest G U) a D y D'"
    by (intro stepped_intro [where l = "Remove g u"]) (use assms in \<open>auto simp: can_outranks\<close>)
  with True show ?thesis by simp
qed (use Delete_state [OF assms(7)] readyD(4) [OF assms(3)] assms(1,2) in simp)

lemma RemoveGroupMember_outcome:
  assumes "ready env (cw_db w)"
  shows "outcome env token w (stepped env (RemoveGroupMemberRequest G U)) (RemoveGroupMember (chat_service env) token G U w)"
  unfolding RemoveGroupMember_def service_sel postgres_sel
  apply (rule authenticated [OF assms])
  apply (intro meets_bind_liftE)
  apply (rule meets_get_group, assumption, assumption, assumption)
  apply (intro meets_if meets_failE)
  apply (rule meets_get_member, assumption, assumption, assumption)
  apply (intro meets_if meets_failE)
  apply (rule meets_typing, assumption)
  apply (rule meets_answer)
  apply (rule meets_commit_if, assumption)
    apply (drule (4) remove_commit, simp, assumption, simp)
   apply (drule (4) remove_commit, simp, assumption, simp)
  apply (intro ends_tail; simp add: readyD)
  done

lemma restrict_step:
  assumes "normalizeID (cv_parse env) G = Inr g" and "normalizeID (cv_parse env) U = Inr u"
    and "find_member D g a = Some self" and "find_member D g u = Some row" and "canRestrictGroupMember (m_Role self) (m_Role row)"
    and "group_state_of D' = set_member g u (Some (m_Role row, flag)) (group_state_of D)"
  shows "stepped env (if flag then RestrictGroupMemberRequest G U else UnrestrictGroupMemberRequest G U) a D y D'"
  by (rule stepped_intro [where l = "Restrict g u flag"]) (use assms in \<open>auto simp: can_outranks\<close>)

lemma restrict_commit:
  assumes "ready env D" and "normalizeID (cv_parse env) G = Inr g" and "normalizeID (cv_parse env) U = Inr u"
    and "find_member D g u = Some row" and "m_IsWriteRestricted row \<noteq> flag"
    and "SetGroupMemberWriteRestriction_tx (cv_parse env) pg g u flag at' at D = Inr (b, D')"
  shows "group_state_of D' = set_member g u (Some (m_Role row, flag)) (group_state_of D)"
  using SetRestriction_state [OF assms(6) _ _ assms(4,5)] readyD [OF assms(1)] assms(2,3) by blast

lemma RestrictGroupMember_outcome:
  assumes "ready env (cw_db w)"
  shows "outcome env token w (stepped env (RestrictGroupMemberRequest G U)) (RestrictGroupMember (chat_service env) token G U w)"
  unfolding RestrictGroupMember_def service_sel postgres_sel
  apply (rule authenticated [OF assms])
  apply (intro meets_bind_liftE meets_if meets_failE)
  apply (rule meets_get_group, assumption, assumption, assumption)
  apply (rule meets_get_member, assumption, assumption, assumption)
  apply (intro meets_if meets_failE meets_returnE meets_answer)
   apply (rule restrict_step [where flag = True, simplified], assumption, assumption, assumption, assumption, simp,
      simp)
  apply (rule meets_commit, assumption)
   apply (rule restrict_step [where flag = True, simplified], assumption, assumption, assumption, assumption, simp,
      rule restrict_commit; simp)
  apply (intro ends_tail; simp add: readyD)
  done

lemma UnrestrictGroupMember_outcome:
  assumes "ready env (cw_db w)"
  shows "outcome env token w (stepped env (UnrestrictGroupMemberRequest G U)) (UnrestrictGroupMember (chat_service env) token G U w)"
  unfolding UnrestrictGroupMember_def service_sel postgres_sel
  apply (rule authenticated [OF assms])
  apply (intro meets_bind_liftE meets_if meets_failE)
  apply (rule meets_get_group, assumption, assumption, assumption)
  apply (rule meets_get_member, assumption, assumption, assumption)
  apply (intro meets_if meets_failE meets_returnE meets_answer)
   apply (rule restrict_step [where flag = False, simplified], assumption, assumption, assumption, assumption, simp,
      simp)
  apply (rule meets_commit, assumption)
   apply (rule restrict_step [where flag = False, simplified], assumption, assumption, assumption, assumption, simp,
      rule restrict_commit; simp)
  apply (intro ends_tail; simp add: readyD)
  done

lemma leave_commit:
  assumes "normalizeID (cv_parse env) G = Inr g" and "ready env D" and "cv_parse env a = Some a"
    and "find_member D g a = Some self" and "m_Role self \<noteq> GroupMemberRoleOwner"
    and "DeleteGroupMembership_tx (cv_parse env) pg g a at D = Inr (b, D')"
  shows "if b then stepped env (LeaveGroupRequest G) a D y D' else D' = D"
proof (cases b)
  case True
  with Delete_state [OF assms(6) _ assms(3)] readyD(4) [OF assms(2)] assms(1)
  have "group_state_of D' = set_member g a None (group_state_of D)" by simp
  then have "stepped env (LeaveGroupRequest G) a D y D'"
    by (intro stepped_intro [where l = "Leave g"]) (use assms in \<open>auto simp: role_defs\<close>)
  with True show ?thesis by simp
qed (use Delete_state [OF assms(6) _ assms(3)] readyD(4) [OF assms(2)] assms(1) in simp)

lemma LeaveGroup_outcome:
  assumes "ready env (cw_db w)"
  shows "outcome env token w (stepped env (LeaveGroupRequest G)) (LeaveGroup (chat_service env) token G w)"
  unfolding LeaveGroup_def service_sel postgres_sel
  apply (rule authenticated [OF assms])
  apply (intro meets_bind_liftE)
  apply (rule meets_get_group, assumption, assumption, assumption)
  apply (intro meets_if meets_failE)
  apply (rule meets_typing, assumption)
  apply (rule meets_answer)
  apply (rule meets_commit_if, assumption)
    apply (drule (3) leave_commit, simp, assumption, simp)
   apply (drule (3) leave_commit, simp, assumption, simp)
  apply (intro ends_tail; simp add: readyD)
  done

section \<open>Creating groups, invite links and joining\<close>

lemma meets_commit_ro:
  assumes "quiet env" and "\<And>pg. read_only (m pg)" and "\<And>pg x. m pg D = Inr (x, D) \<Longrightarrow> meets D (f x) Q"
  shows "meets D (bindE (transact env m) f) Q"
  by (rule meets_bind [OF steady_read [OF assms(1,2)]]) (use assms(3) in blast)

text \<open>\<open>CreateGroup\<close> reads the group back after its commit.\<close>

lemma meets_create_group:
  assumes ready: "ready env D"
    and commit: "\<And>pg x D' y. CreateGroup_tx (cv_parse env) pg params D = Inr (x, D') \<Longrightarrow> Q y D'"
  shows "meets D (bindE (repo_create_group env params) (\<lambda>g. returnE (h g))) Q"
proof -
  have assoc: "bindE (bindE m f) k = bindE m (\<lambda>x. bindE (f x) k)" for m :: "(chat_world, chat_error, unit) prog"
    and f :: "unit \<Rightarrow> (chat_world, chat_error, Group) prog" and k :: "Group \<Rightarrow> (chat_world, chat_error, 'a) prog"
    by (auto simp: bindE_def fun_eq_iff split: sum.splits prod.splits)
  show ?thesis
    unfolding repo_create_group_def assoc
    by (rule meets_commit [OF ready]) (use commit in \<open>auto intro!: ends_tail readyD(1) [OF ready]\<close>)
qed

lemma create_step:
  assumes "CreateGroup_tx (cv_parse env) pg params D = Inr (x, D')" and "ready env D"
    and "cg_CreatedByUserID params = a" and "cv_parse env a = Some a"
  shows "stepped env (CreateGroupRequest name) a D y D'"
proof -
  have "cv_parse env (cg_CreatedByUserID params) = Some a" using assms(3,4) by simp
  from Create_state [OF assms(1) readyD(3) [OF assms(2)] this] obtain g where
    "\<forall>v. gst_members (group_state_of D) g v = None"
    "group_state_of D' = set_member g a (Some (''owner'', False)) (group_state_of D)" by blast
  then show ?thesis by (intro stepped_intro [where l = "Create g"]) auto
qed

lemma CreateGroup_outcome:
  assumes "ready env (cw_db w)"
  shows "outcome env token w (stepped env (CreateGroupRequest name)) (CreateGroup (chat_service env) token name w)"
  unfolding CreateGroup_def service_sel postgres_sel
  apply (rule authenticated [OF assms])
  apply (intro meets_bind_liftE meets_answer)
  apply (rule meets_create_group, assumption)
  apply (erule create_step, assumption, simp, assumption)
  done

lemma invite_step:
  assumes "ready env D" and "normalizeID (cv_parse env) G = Inr g" and "find_member D g a = Some self"
    and "normalizeGroupInviteRole R = Inr r" and "canCreateInviteForRole (m_Role self) r"
    and "CreateGroupInviteLink_tx (cv_parse env) params D = Inr (link, D')" and "cl_GroupID params = g" and "cl_Role params = r"
  shows "stepped env (CreateGroupInviteLinkRequest G R) a D y D'"
proof -
  have "cv_parse env (cl_GroupID params) = Some g" using readyD(4) [OF assms(1,2)] assms(7) by simp
  from CreateLink_state [OF assms(6) this] obtain i where "gst_links (group_state_of D) g i = None"
    "group_state_of D' = set_link g i (Some (r, True)) (group_state_of D)" using assms(8) by auto
  with assms show ?thesis by (intro stepped_intro [where l = "Invite g i r"]) (auto simp: can_outranks)
qed

lemma CreateGroupInviteLink_outcome:
  assumes "ready env (cw_db w)"
  shows "outcome env token w (stepped env (CreateGroupInviteLinkRequest G R))
           (CreateGroupInviteLink (chat_service env) token G R w)"
  unfolding CreateGroupInviteLink_def newGroupInviteToken_def Let_def service_sel postgres_sel
  apply (rule authenticated [OF assms])
  apply (intro meets_bind_liftE)
  apply (rule meets_get_group, assumption, assumption, assumption)
  apply (intro meets_if meets_failE meets_bind_liftE)
  apply (rule meets_bind [where T = "\<lambda>_. True"])
   apply (rule steady_bind [OF steady_answer], rule steady_returnE, simp)
  apply (intro meets_case_prod meets_answer)
  apply (rule meets_commit, assumption)
   apply (rule invite_step, assumption, assumption, assumption, assumption, simp, assumption, simp, simp)
  apply (intro ends_tail)
  done

lemma disable_step:
  assumes "normalizeID (cv_parse env) G = Inr g" and "normalizeID (cv_parse env) I = Inr i"
    and "find_member D g a = Some self" and "find_link D g i = Some l" and "canCreateInviteForRole (m_Role self) (l_Role l)"
    and "group_state_of D' = set_link g i (Some (l_Role l, False)) (group_state_of D)"
  shows "stepped env (DisableGroupInviteLinkRequest G I) a D y D'"
proof -
  have "gst_links (group_state_of D) g i = Some (l_Role l, l_DisabledAt l = None)" using assms(4) by (simp add: group_state_of_def)
  with assms show ?thesis by (intro stepped_intro [where l = "Disable g i"]) (auto simp: can_outranks)
qed

lemma set_link_self [simp]:
  "find_link db g i = Some l \<Longrightarrow> l_DisabledAt l \<noteq> None \<Longrightarrow>
     set_link g i (Some (l_Role l, False)) (group_state_of db) = group_state_of db"
  by (rule group_state_eqI) (auto simp: set_link_def group_state_of_def)

lemma get_link_read:
  assumes "GetGroupInviteLink_tx parse g i D = Inr (link, D)" and "parse g = Some g" and "parse i = Some i"
  shows "\<exists>l. find_link D g i = Some l \<and> link_Role link = l_Role l \<and> link_DisabledAt link = l_DisabledAt l"
  using assms
  by (auto simp: GetGroupInviteLink_tx_def tx_simps GetGroupInviteLinkByIDAndGroupID_def toGroupInviteLink_def
      split: option.splits)

lemma get_link_ends:
  assumes "quiet env"
  shows "ends D (transact env (\<lambda>_. GetGroupInviteLink_tx (cv_parse env) g i)) (\<lambda>_. True)"
  by (rule ends_weaken [OF ends_read [OF assms read_only_methods(6)]])
    (auto simp: GetGroupInviteLink_tx_def bindT_def liftT_def mustParseUUID_def query_def mapErrT_def
      GetGroupInviteLinkByIDAndGroupID_def convertError_def returnT_def split: option.splits sum.splits)

lemma meets_get_link:
  assumes "normalizeID (cv_parse env) v = Inr g" and "normalizeID (cv_parse env) v' = Inr i" and "ready env D"
    and "\<And>link l. find_link D g i = Some l \<Longrightarrow> link_Role link = l_Role l \<Longrightarrow> link_DisabledAt link = l_DisabledAt l \<Longrightarrow>
           meets D (f link) Q"
  shows "meets D (bindE (transact env (\<lambda>_. GetGroupInviteLink_tx (cv_parse env) g i)) f) Q"
  by (rule meets_commit_ro [OF readyD(1) [OF assms(3)] read_only_methods(6)])
    (use get_link_read readyD(4) [OF assms(3)] assms(1,2,4) in blast)

lemma DisableGroupInviteLink_outcome:
  assumes "ready env (cw_db w)"
  shows "outcome env token w (stepped env (DisableGroupInviteLinkRequest G I))
           (DisableGroupInviteLink (chat_service env) token G I w)"
  unfolding DisableGroupInviteLink_def service_sel postgres_sel
  apply (rule authenticated [OF assms])
  apply (intro meets_bind_liftE)
  apply (rule meets_get_group, assumption, assumption, assumption)
  apply (intro meets_if meets_failE)
  apply (rule meets_get_link, assumption, assumption, assumption)
  apply (intro meets_if meets_failE meets_returnE meets_answer)
   apply (rule disable_step, assumption, assumption, assumption, assumption, simp, simp)
  apply (rule meets_commit, assumption)
   apply (rule disable_step, assumption, assumption, assumption, assumption, simp,
      erule DisableLink_state, simp add: readyD, simp add: readyD, assumption)
  apply (intro get_link_ends, simp add: readyD)
  done

text \<open>A token's link, found by the hash.\<close>

lemma find_by_id:
  "distinct (map l_ID ls) \<Longrightarrow> row \<in> set ls \<Longrightarrow>
     find (\<lambda>l. l_GroupID l = l_GroupID row \<and> l_ID l = l_ID row) ls = Some row"
  by (induction ls) (auto simp: rev_image_eqI)

lemma join_target:
  assumes "GetGroupInviteLinkForJoin_tx h D = Inr (target, D)" and "ready env D"
  obtains row where "row \<in> set (group_invite_links D)" and "l_TokenHash row = h"
    and "target_InviteLink target = toGroupInviteLink row" and "group_ID (target_Group target) = l_GroupID row"
    and "find_link D (l_GroupID row) (l_ID row) = Some row"
    and "cv_parse env (l_GroupID row) = Some (l_GroupID row)" and "cv_parse env (l_ID row) = Some (l_ID row)"
proof -
  from assms(1) obtain row r n where f: "find (\<lambda>l. l_TokenHash l = h) (group_invite_links D) = Some row"
    and r: "find_group D (l_GroupID row) = Some r"
    and t: "target_InviteLink target = toGroupInviteLink row" "group_ID (target_Group target) = grp_ID r"
    by (auto simp: GetGroupInviteLinkForJoin_tx_def tx_simps GetGroupInviteLinkForJoin_sql_def split: option.splits)
  from find_SomeD [OF f] have row: "row \<in> set (group_invite_links D)" "l_TokenHash row = h" by simp_all
  from r have g: "r \<in> set (groups D)" "grp_ID r = l_GroupID row" by (auto simp: find_group_def dest: find_SomeD)
  have ids: "ids_ok (cv_parse env) D" using assms(2) by (simp add: ready_def)
  have "distinct (map l_ID (group_invite_links D))" using readyD(3) [OF assms(2)] by (simp add: group_inv_def)
  then have "find_link D (l_GroupID row) (l_ID row) = Some row"
    unfolding find_link_def by (rule find_by_id) (rule row(1))
  moreover have "cv_parse env (grp_ID r) = Some (grp_ID r)" "cv_parse env (l_ID row) = Some (l_ID row)"
    using ids g(1) row(1) by (simp_all add: ids_ok_def)
  ultimately show thesis using that [OF row t(1)] t(2) g(2) by simp
qed

lemma join_step:
  assumes "normalizeInviteToken T = Inr token" and "row \<in> set (group_invite_links D)"
    and "l_TokenHash row = hashInviteToken (cv_sha256 env) token"
    and "find_link D (l_GroupID row) (l_ID row) = Some row"
    and "cv_parse env (l_GroupID row) = Some (l_GroupID row)" and "cv_parse env (l_ID row) = Some (l_ID row)"
    and "cv_parse env a = Some a"
    and "JoinGroupByInviteLink_tx (cv_parse env) pg params D = Inr (b, D')"
    and "jg_GroupID params = l_GroupID row" and "jg_UserID params = a" and "jg_InviteLinkID params = l_ID row"
    and "jg_Role params = l_Role row"
  shows "stepped env (JoinGroupByInviteLinkRequest T) a D y D'"
proof (rule stepped_intro)
  show "group_apply a (Join (l_GroupID row) (l_ID row)) (group_state_of D) = Some (group_state_of D')"
    using assms(5-7,9-11) by (intro Join_state [OF assms(8) _ _ _ assms(4,12)]) simp_all
qed (use assms(1-3) in auto)

lemma JoinGroupByInviteLink_outcome:
  assumes "ready env (cw_db w)"
  shows "outcome env token w (stepped env (JoinGroupByInviteLinkRequest T))
           (JoinGroupByInviteLink (chat_service env) token T w)"
  unfolding JoinGroupByInviteLink_def service_sel postgres_sel
  apply (rule authenticated [OF assms])
  apply (intro meets_bind_liftE)
  apply (rule meets_commit_ro, simp add: readyD, rule read_only_methods)
  apply (erule join_target, assumption)
  apply (intro meets_if meets_failE meets_answer)
  apply (rule meets_commit, assumption)
   apply (rule join_step, assumption, assumption, assumption, assumption, assumption, assumption, assumption, assumption)
      apply (simp_all add: toGroupInviteLink_def)
  apply (intro ends_tail; simp add: readyD)
  done

section \<open>The other operations\<close>

definition unmoved :: "uuid \<Rightarrow> chat_db \<Rightarrow> 'a \<Rightarrow> chat_db \<Rightarrow> bool" where
  "unmoved a D x D' \<longleftrightarrow> group_state_of D' = group_state_of D"

lemma unmoved_same [simp]: "unmoved a D x D"
  by (simp add: unmoved_def)

lemma steady_true: "steady D m T \<Longrightarrow> steady D m (\<lambda>_. True)"
  by (erule steady_weaken) simp

lemma list_groups_steady:
  assumes "quiet env"
  shows "steady D (repo_list_groups env u) (\<lambda>_. True)"
proof -
  have "steady D (pinned_groups env rows) (\<lambda>_. True)" for rows
  proof (induction rows)
    case (Cons row rows)
    then show ?case
      by simp (intro steady_bind [where T = "\<lambda>_. True"] steady_returnE
          steady_true [OF steady_read [OF assms read_only_query [OF read_only_statements(5)]]] TrueI)
  qed (simp add: steady_returnE)
  then show ?thesis
    unfolding repo_list_groups_def
    by (intro steady_bind [where T = "\<lambda>_. True"] steady_true [OF steady_liftE]
        steady_true [OF steady_read [OF assms read_only_query [OF read_only_statements(6)]]])
qed

lemma meets_preference:
  assumes "ready env D"
    and "\<And>D' x. group_state_of D' = group_state_of D \<Longrightarrow> ends D' (f x) (\<lambda>_. True)"
  shows "meets D (bindE (transact env (\<lambda>_. UpsertGroupNotificationPreference_tx (cv_parse env) g u flag t)) f) (unmoved a D)"
proof (rule meets_commit [OF assms(1)])
  fix x D' assume "UpsertGroupNotificationPreference_tx (cv_parse env) g u flag t D = Inr (x, D')"
  then have same: "group_state_of D' = group_state_of D"
    by (auto simp: UpsertGroupNotificationPreference_tx_def tx_simps UpsertGroupNotificationPreference_sql_def put_preference_same
        intro!: group_state_same split: if_splits)
  show "unmoved a D y D'" for y :: 'b using same by (simp add: unmoved_def)
  show "ends D' (f x) (\<lambda>_. True)" using same by (rule assms(2))
qed

lemma meets_attempt:
  assumes "steady D m T" and "\<And>r. meets D (k r) Q"
  shows "meets D (attemptE m k) Q"
  unfolding meets_def
proof (intro allI impI)
  fix w :: chat_world assume "cw_db w = D"
  with assms(1) show "met D Q (attemptE m k w)"
  proof (cases rule: steadyE)
    case (1 x w')
    with assms(2) [of "Inr x"] show ?thesis by (simp add: meets_def attemptE_def)
  next
    case (2 e w')
    with assms(2) [of "Inl e"] show ?thesis by (simp add: meets_def attemptE_def)
  qed
qed

lemma meets_steady: "steady D m T \<Longrightarrow> (\<And>x. Q x D) \<Longrightarrow> meets D m Q"
  unfolding meets_def
proof (intro allI impI)
  fix w :: chat_world assume m: "steady D m T" and Q: "\<And>x. Q x D" and D: "cw_db w = D"
  from m D show "met D Q (m w)" by (cases rule: steadyE) (simp_all add: Q)
qed

lemmas quiet_reads = steady_true [OF steady_read [OF _ read_only_methods(4)]]
  steady_true [OF steady_read [OF _ read_only_methods(5)]] steady_true [OF ends_steady [OF get_group_ends]]
  list_groups_steady

lemma read_outcomes:
  assumes "ready env (cw_db w)"
  shows "outcome env token w unmoved (ListGroups (chat_service env) token w)"
    and "outcome env token w unmoved (GetGroup (chat_service env) token G w)"
    and "outcome env token w unmoved (ListGroupMembers (chat_service env) token G w)"
    and "outcome env token w unmoved (ListGroupInviteLinks (chat_service env) token G w)"
    and "outcome env token w unmoved (SetGroupNotifications (chat_service env) token G flag w)"
    and "outcome env token w unmoved (PreviewGroupByInviteLink (chat_service env) token T w)"
proof -
  note quiet = readyD(1) [OF assms]
  show "outcome env token w unmoved (ListGroups (chat_service env) token w)"
    unfolding ListGroups_def service_sel postgres_sel
    by (rule authenticated [OF assms], rule meets_bind [OF list_groups_steady [OF quiet]]) (simp add: meets_returnE)
  show "outcome env token w unmoved (GetGroup (chat_service env) token G w)"
    unfolding GetGroup_def service_sel postgres_sel
    by (rule authenticated [OF assms], rule meets_bind_liftE, rule meets_bind [OF ends_steady [OF get_group_ends [OF quiet]]])
      (simp add: meets_returnE)
  show "outcome env token w unmoved (ListGroupMembers (chat_service env) token G w)"
    unfolding ListGroupMembers_def service_sel postgres_sel
    by (rule authenticated [OF assms], rule meets_bind_liftE, rule meets_steady [OF quiet_reads(1) [OF quiet]]) simp
  show "outcome env token w unmoved (ListGroupInviteLinks (chat_service env) token G w)"
    unfolding ListGroupInviteLinks_def service_sel postgres_sel
    by (rule authenticated [OF assms], rule meets_bind_liftE, rule meets_bind [OF ends_steady [OF get_group_ends [OF quiet]]],
        intro meets_if meets_failE, rule meets_steady [OF quiet_reads(2) [OF quiet]]) simp
  show "outcome env token w unmoved (SetGroupNotifications (chat_service env) token G flag w)"
    unfolding SetGroupNotifications_def service_sel postgres_sel
    by (rule authenticated [OF assms], rule meets_bind_liftE, rule meets_bind [OF ends_steady [OF get_group_ends [OF quiet]]],
        rule meets_answer, rule meets_preference, assumption) (intro ends_tail quiet)
  show "outcome env token w unmoved (PreviewGroupByInviteLink (chat_service env) token T w)"
    unfolding PreviewGroupByInviteLink_def Let_def service_sel postgres_sel
    by (rule authenticated [OF assms], rule meets_bind_liftE, rule meets_commit_ro [OF quiet read_only_methods(7)],
        intro meets_if meets_failE, rule meets_attempt [OF ends_steady [OF get_group_ends [OF quiet]]])
      (auto intro!: meets_intros split: sum.split)
qed

end
