(* ===== verification/Chat_Contract.thy ===== *)
theory Chat_Contract
  imports Chat_Ops
begin

text \<open>
  The contract of the group operations: each request is at most one step of the machine, a refused one changes nothing,
  and every group keeps exactly one owner. All of this holds when no other process writes in between; without that
  assumption the last two fail (\<open>Chat_Witnesses\<close>).
\<close>

section \<open>Identifiers stay canonical\<close>

lemma ids_frame:
  assumes "ids_ok parse db" and "users db' = users db" and "map grp_ID (groups db') = map grp_ID (groups db)"
    and "map l_ID (group_invite_links db') = map l_ID (group_invite_links db)"
  shows "ids_ok parse db'"
proof -
  have "grp_ID ` set (groups db') = grp_ID ` set (groups db)" using assms(3) by (metis set_map)
  moreover have "l_ID ` set (group_invite_links db') = l_ID ` set (group_invite_links db)" using assms(4) by (metis set_map)
  moreover have "ids_ok parse d \<longleftrightarrow> (\<forall>r\<in>set (users d). parse (usr_ID r) = Some (usr_ID r)) \<and>
     (\<forall>i\<in>grp_ID ` set (groups d). parse i = Some i) \<and> (\<forall>i\<in>l_ID ` set (group_invite_links d). parse i = Some i)" for d
    by (simp add: ids_ok_def)
  ultimately show ?thesis using assms(1,2) by metis
qed

text \<open>What names a link; statements change neither that nor the users and the keys of the groups.\<close>

definition link_key :: "InviteLinkRow \<Rightarrow> uuid \<times> uuid \<times> string \<times> string" where
  "link_key l = (l_ID l, l_GroupID l, l_Role l, l_TokenHash l)"

definition framed :: "'a chat_tx \<Rightarrow> bool" where
  "framed m \<longleftrightarrow> (\<forall>db x db'. m db = Inr (x, db') \<longrightarrow> users db' = users db \<and> map grp_ID (groups db') = map grp_ID (groups db) \<and>
     map link_key (group_invite_links db') = map link_key (group_invite_links db))"

definition has_link :: "uuid \<times> uuid \<times> string \<times> string \<Rightarrow> chat_db \<Rightarrow> bool" where
  "has_link k db \<longleftrightarrow> k \<in> link_key ` set (group_invite_links db)"

lemma framed_ids:
  assumes "framed m"
  shows "keeps (ids_ok parse) m"
  unfolding keeps_def
proof (intro allI impI)
  fix db x db' assume "ids_ok parse db" "m db = Inr (x, db')"
  with assms have "users db' = users db" "map grp_ID (groups db') = map grp_ID (groups db)"
    and "map fst (map link_key (group_invite_links db')) = map fst (map link_key (group_invite_links db))"
    by (simp_all add: framed_def)
  with \<open>ids_ok parse db\<close> show "ids_ok parse db'" by (intro ids_frame [of parse db db']) (simp_all add: link_key_def o_def)
qed

lemma framed_has_link: "framed m \<Longrightarrow> keeps (has_link k) m"
  unfolding keeps_def framed_def has_link_def by (metis set_map)

lemma framed_update: "framed (update_membership pg fires g u hit f)"
  by (simp add: framed_def update_membership_rows)

lemma framed_updates:
  "framed (UpdateGroupMembershipRole pg g u role)"
  "framed (SetGroupMembershipWriteRestriction pg g u flag at)"
  "framed (PromoteGroupOwnerForTransfer pg g u)"
  unfolding UpdateGroupMembershipRole_def SetGroupMembershipWriteRestriction_def PromoteGroupOwnerForTransfer_def Let_def
  by (rule framed_update)+

lemma framed_demote: "framed (DemoteGroupOwnerForTransfer pg g u v)"
  by (auto simp: framed_def DemoteGroupOwnerForTransfer_def dest: update_membership_rows)

lemma framed_delete: "framed (DeleteGroupMembership pg g u)"
  by (simp add: framed_def DeleteGroupMembership_rows)

lemma framed_join: "framed (JoinGroupMembership pg g u role t)"
  by (auto simp: framed_def JoinGroupMembership_def tx_simps split: if_splits dest: insert_membership_rows)

lemma framed_touch: "framed (TouchGroupUpdatedAt g t)"
  by (auto simp: framed_def tx_simps)

lemma framed_disable: "framed (DisableGroupInviteLink_sql g i t)"
  by (auto simp: framed_def DisableGroupInviteLink_sql_def Let_def link_key_def)

lemma framed_touch_link: "framed (TouchGroupInviteLinkJoin i t)"
  by (auto simp: framed_def TouchGroupInviteLinkJoin_def link_key_def split: if_splits)

lemma framed_preference: "framed (UpsertGroupNotificationPreference_sql g u e t)"
  by (auto simp: framed_def UpsertGroupNotificationPreference_sql_def put_preference_same split: if_splits)

lemma put_preferences_ids:
  "users (fold (\<lambda>m. put_preference (m_GroupID m) u e t) ms db) = users db \<and>
   groups (fold (\<lambda>m. put_preference (m_GroupID m) u e t) ms db) = groups db \<and>
   group_invite_links (fold (\<lambda>m. put_preference (m_GroupID m) u e t) ms db) = group_invite_links db"
  by (induction ms arbitrary: db) (simp_all add: put_preference_same)

lemma framed_preferences: "framed (SetAllGroupNotificationPreferencesByUserID u e t)"
  by (auto simp: framed_def SetAllGroupNotificationPreferencesByUserID_def put_preferences_ids)

lemma framed_sessions: "framed (TouchSessionAndDevice a b t)"
  by (auto simp: framed_def TouchSessionAndDevice_def)

lemma framed_authority: "framed (on_authority m)"
  by (auto simp: framed_def on_authority_def split: sum.splits)

lemmas framed_statements = framed_updates framed_demote framed_delete framed_join framed_touch framed_disable
  framed_touch_link framed_preference framed_preferences framed_sessions

lemmas ids_statements = framed_statements [THEN framed_ids]

lemmas link_statements = framed_statements [THEN framed_has_link]

lemmas op_steps = chat_op_tx_def chat_op.case UpdateGroupMemberRole_tx_def
  SetGroupMemberWriteRestriction_tx_def TransferGroupOwnership_tx_def DeleteGroupMembership_tx_def
  DisableGroupInviteLink_tx_def JoinGroupByInviteLink_tx_def TouchSession_tx_def
  UpsertGroupNotificationPreference_tx_def SetAllGroupNotificationPreferences_tx_def

lemma keeps_ids_create:
  assumes "stable_parser parse"
  shows "keeps (ids_ok parse) (CreateGroup_tx parse pg params)"
  unfolding keeps_def
proof (intro allI impI)
  fix db x db' assume ids: "ids_ok parse db" and run: "CreateGroup_tx parse pg params db = Inr (x, db')"
  from run show "ids_ok parse db'"
  proof (cases rule: CreateGroup_tx_run)
    case (1 g u t)
    with assms have "parse g = Some g" by (simp add: stable_parser_def)
    with 1 ids show ?thesis by (simp add: ids_ok_def)
  qed
qed

lemma keeps_ids_link:
  assumes "stable_parser parse"
  shows "keeps (ids_ok parse) (CreateGroupInviteLink_tx parse params)"
  unfolding keeps_def
proof (intro allI impI)
  fix db x db' assume ids: "ids_ok parse db" and run: "CreateGroupInviteLink_tx parse params db = Inr (x, db')"
  from run obtain g where g: "parse (cl_GroupID params) = Some g" by (auto simp: CreateGroupInviteLink_tx_def tx_simps)
  from CreateLink_state [OF run g] assms obtain row where row: "parse (l_ID row) = Some (l_ID row)"
    and links: "group_invite_links db' = group_invite_links db @ [row]" unfolding stable_parser_def by blast
  from run have "users db' = users db" "map grp_ID (groups db') = map grp_ID (groups db)"
    by (auto simp: CreateGroupInviteLink_tx_def tx_simps CreateGroupInviteLink_sql_def Let_def split: if_splits)
  then have "ids_ok parse (db'\<lparr>group_invite_links := group_invite_links db\<rparr>)"
    by (intro ids_frame [OF ids]) simp_all
  with row links show "ids_ok parse db'" by (simp add: ids_ok_def)
qed

lemma keeps_ids_op:
  assumes "stable_parser parse"
  shows "keeps (ids_ok parse) (chat_op_tx parse pg operation)"
proof (cases operation)
  case (OpCreateGroup params)
  then show ?thesis using keeps_ids_create [OF assms] by (simp add: chat_op_tx_def)
next
  case (OpCreateLink params)
  then show ?thesis unfolding chat_op_tx_def by simp (intro pres_intros keeps_ids_link [OF assms])
next
  case (OpWorker t x)
  then show ?thesis by (simp add: chat_op_tx_def framed_ids [OF framed_authority])
qed (simp_all only: op_steps, (intro pres_intros keeps_query keeps_change_group ids_statements keeps_reads)+)

interpretation ids_kept: chat_tables env
    "\<lambda>db. env_allowed env \<and> stable_parser (cv_parse env) \<longrightarrow> ids_ok (cv_parse env) db"
proof
  fix operation pg assume "op_allowed (cv_limit env) operation"
  show "keeps (\<lambda>db. env_allowed env \<and> stable_parser (cv_parse env) \<longrightarrow> ids_ok (cv_parse env) db)
     (chat_op_tx (cv_parse env) pg operation)"
    using keeps_ids_op [of "cv_parse env" pg operation] by (auto simp: keeps_def)
qed simp

text \<open>A link keeps its key, whatever else happens.\<close>

lemma keeps_link_op: "keeps (has_link k) (chat_op_tx parse pg operation)"
proof (cases operation)
  case (OpCreateGroup params)
  have "keeps (has_link k) (CreateGroup_tx parse pg params)"
    unfolding keeps_def by (auto elim!: CreateGroup_tx_run simp: has_link_def)
  with OpCreateGroup show ?thesis by (simp add: chat_op_tx_def)
next
  case (OpCreateLink params)
  have "keeps (has_link k) (CreateGroupInviteLink_tx parse params)"
    unfolding keeps_def
    by (auto simp: CreateGroupInviteLink_tx_def tx_simps CreateGroupInviteLink_sql_def Let_def has_link_def split: if_splits)
  with OpCreateLink show ?thesis unfolding chat_op_tx_def by simp (intro pres_intros)
next
  case (OpWorker t x)
  then show ?thesis by (simp add: chat_op_tx_def framed_has_link [OF framed_authority])
qed (simp_all only: op_steps, (intro pres_intros keeps_query keeps_change_group link_statements keeps_reads)+)

interpretation link_kept: chat_tables env "\<lambda>db. env_allowed env \<longrightarrow> has_link k db" for env k
proof
  fix operation pg assume "op_allowed (cv_limit env) operation"
  show "keeps (\<lambda>db. env_allowed env \<longrightarrow> has_link k db) (chat_op_tx (cv_parse env) pg operation)"
    using keeps_link_op [of k "cv_parse env" pg operation] by (auto simp: keeps_def)
qed simp

section \<open>A request is a step of the machine\<close>

fun writes :: "GroupRequest \<Rightarrow> bool" where
  "writes (ListGroupsRequest) = False"
| "writes (GetGroupRequest g) = False"
| "writes (SetGroupNotificationsRequest g flag) = False"
| "writes (ListGroupMembersRequest g) = False"
| "writes (ListGroupInviteLinksRequest g) = False"
| "writes (PreviewGroupByInviteLinkRequest t) = False"
| "writes (CheckGroupSubjectRequest g u) = False"
| "writes request = True"

text \<open>\<open>acted\<close>: the user of the session took the step that the request asks for.\<close>

definition acted :: "chat_env \<Rightarrow> string \<Rightarrow> GroupRequest \<Rightarrow> chat_db \<Rightarrow> chat_db \<Rightarrow> bool" where
  "acted env token request D D' \<longleftrightarrow>
     (\<exists>a l. session_user env D token = Some a \<and> asks env D request l \<and>
        group_apply a l (group_state_of D) = Some (group_state_of D'))"

definition contract :: "chat_env \<Rightarrow> string \<Rightarrow> GroupRequest \<Rightarrow> chat_db \<Rightarrow> chat_error + 'a \<Rightarrow> chat_db \<Rightarrow> bool" where
  "contract env token request D r D' \<longleftrightarrow>
     (case r of
        Inr _ \<Rightarrow> if writes request then acted env token request D D' else group_state_of D' = group_state_of D
      | Inl e \<Rightarrow> (refusal e \<longrightarrow> same_but_sessions D D') \<and>
          (group_state_of D' = group_state_of D \<or> acted env token request D D'))"

lemma asks_links:
  "group_invite_links D = group_invite_links D0 \<Longrightarrow> asks env D request l = asks env D0 request l"
  by (cases request) simp_all

lemma stepped_acted:
  assumes "same_but_sessions D0 D" and "session_user env D0 token = Some a" and "stepped env request a D x D'"
  shows "acted env token request D0 D'"
  using assms(2,3) ready_same(2) [OF assms(1)] asks_links [OF ready_same(3) [OF assms(1)], of env request]
  by (auto simp: acted_def stepped_def)

lemma outcome_cases:
  assumes "outcome env token w Q (r, w')"
  obtains (returned) D x a where "r = Inr x" and "same_but_sessions (cw_db w) D" and "session_user env (cw_db w) token = Some a"
      and "Q a D x (cw_db w')"
  | (unchanged) e where "r = Inl e" and "same_but_sessions (cw_db w) (cw_db w')"
  | (lost) e D x a where "r = Inl e" and "\<not> refusal e" and "same_but_sessions (cw_db w) D"
      and "session_user env (cw_db w) token = Some a" and "Q a D x (cw_db w')"
proof (cases r)
  case (Inl e)
  with assms obtain D where "same_but_sessions (cw_db w) D"
    "cw_db w' = D \<or> (\<not> refusal e \<and> (\<exists>a x. session_user env (cw_db w) token = Some a \<and> Q a D x (cw_db w')))"
    by (auto simp: outcome_def)
  with unchanged [OF Inl] lost [OF Inl] show thesis by blast
next
  case (Inr x)
  with assms returned show thesis by (auto simp: outcome_def)
qed

lemma outcome_contract:
  assumes "outcome env token w (stepped env request) (r, w')" and "writes request"
  shows "contract env token request (cw_db w) r (cw_db w')"
  using assms(1)
proof (cases rule: outcome_cases)
  case (returned D x a)
  with stepped_acted [OF returned(2-4)] assms(2) show ?thesis by (simp add: contract_def)
next
  case (unchanged e)
  with ready_same(2) show ?thesis by (simp add: contract_def)
next
  case (lost e D x a)
  with stepped_acted [OF lost(3-5)] show ?thesis by (simp add: contract_def)
qed

lemma unmoved_contract:
  assumes "outcome env token w unmoved (r, w')" and "\<not> writes request"
  shows "contract env token request (cw_db w) r (cw_db w')"
  using assms(1)
proof (cases rule: outcome_cases)
  case (returned D x a)
  with ready_same(2) [OF returned(2)] assms(2) show ?thesis by (simp add: contract_def unmoved_def)
next
  case (unchanged e)
  with ready_same(2) show ?thesis by (simp add: contract_def)
next
  case (lost e D x a)
  with ready_same(2) [OF lost(3)] show ?thesis by (simp add: contract_def unmoved_def)
qed

lemma ignore_contract:
  assumes "ignore m w = (r, w')" and "\<And>r0. m w = (r0, w') \<Longrightarrow> contract env token request (cw_db w) r0 (cw_db w')"
  shows "contract env token request (cw_db w) r (cw_db w')"
proof -
  obtain r0 w0 where m: "m w = (r0, w0)" by fastforce
  with assms(1) have w0: "w0 = w'" and r: "case r0 of Inl e \<Rightarrow> r = Inl e | Inr _ \<Rightarrow> r = Inr ()"
    by (auto simp: ignore_def bindE_def returnE_def split: sum.splits)
  from assms(2) m w0 have "contract env token request (cw_db w) r0 (cw_db w')" by blast
  with r show ?thesis by (cases r0) (simp_all add: contract_def)
qed

lemma steady_attempt:
  assumes "steady D m T" and "\<And>r. steady D (k r) S"
  shows "steady D (attemptE m k) S"
  unfolding steady_def
proof (intro allI impI)
  fix w :: chat_world assume "cw_db w = D"
  with assms(1) show "case attemptE m k w of (Inr x, w') \<Rightarrow> cw_db w' = D \<and> S x | (Inl e, w') \<Rightarrow> cw_db w' = D"
  proof (cases rule: steadyE)
    case (1 x w')
    with assms(2) [of "Inr x"] show ?thesis by (simp add: steady_def attemptE_def)
  next
    case (2 e w')
    with assms(2) [of "Inl e"] show ?thesis by (simp add: steady_def attemptE_def)
  qed
qed

lemma check_same:
  assumes "quiet env" and "check_subject env g u w = (r, w')"
  shows "cw_db w' = cw_db w"
proof -
  note read = steady_read [OF assms(1) read_only_methods(8)]
  have "steady (cw_db w) (check_subject env g u) (\<lambda>_. True)"
    unfolding check_subject_def CheckGroupSubject_def
    by (auto intro!: steady_failE steady_attempt [OF read] steady_true [OF steady_liftE] split: option.split sum.split)
  from this refl show ?thesis by (cases rule: steadyE) (use assms(2) in simp_all)
qed

lemma ignored:
  assumes "ignore m w = (r, w')" and "outcome env token w (stepped env request) (m w)" and "writes request"
  shows "contract env token request (cw_db w) r (cw_db w')"
  using assms(1) by (rule ignore_contract) (use outcome_contract assms(2,3) in simp)

lemma ignored_read:
  assumes "ignore m w = (r, w')" and "outcome env token w unmoved (m w)" and "\<not> writes request"
  shows "contract env token request (cw_db w) r (cw_db w')"
  using assms(1) by (rule ignore_contract) (use unmoved_contract assms(2,3) in simp)

lemmas write_outcomes = CreateGroup_outcome UpdateGroupMemberRole_outcome TransferGroupOwnership_outcome
  RestrictGroupMember_outcome UnrestrictGroupMember_outcome CreateGroupInviteLink_outcome
  DisableGroupInviteLink_outcome JoinGroupByInviteLink_outcome

lemma group_request_contract:
  assumes "ready env (cw_db w)" and "group_request env token request w = (r, w')"
  shows "contract env token request (cw_db w) r (cw_db w')"
proof (cases request)
  case (CheckGroupSubjectRequest g u)
  with assms(2) have "ignore (check_subject env g u) w = (r, w')" by (simp add: group_request_def)
  then show ?thesis
  proof (rule ignore_contract)
    fix r0 assume "check_subject env g u w = (r0, w')"
    with check_same [OF readyD(1) [OF assms(1)]] have "cw_db w' = cw_db w" by blast
    with CheckGroupSubjectRequest show "contract env token request (cw_db w) r0 (cw_db w')"
      by (cases r0) (simp_all add: contract_def)
  qed
next
  case (RemoveGroupMemberRequest g u)
  with assms(2) RemoveGroupMember_outcome [OF assms(1), of token g u] show ?thesis
    by (simp add: group_request_def outcome_contract)
next
  case (LeaveGroupRequest g)
  with assms(2) LeaveGroup_outcome [OF assms(1), of token g] show ?thesis
    by (simp add: group_request_def outcome_contract)
qed (use assms(2) in \<open>simp_all only: group_request_def Let_def GroupRequest.case\<close>,
  (erule ignored, rule write_outcomes [OF assms(1)], simp | erule ignored_read, rule read_outcomes [OF assms(1)], simp)+)

text \<open>
  C19: Without other writers, a request that succeeds is exactly the step of the machine \<open>group_apply\<close> that it asks
  for (reads and preferences are none), taken by the user whose session the token names: the session exists, its secret
  hashes to the stored hash, and neither it nor its device is revoked. A request that is refused leaves every row but
  the session's time as it was. Any other failure (the database, the context, the typing store) leaves the memberships
  and links as they were or has taken exactly that step.
\<close>

theorem requests_are_machine_steps:
  assumes "ready env (cw_db w)" and "group_request env token request w = (r, w')"
  shows "contract env token request (cw_db w) r (cw_db w')"
  by (rule group_request_contract [OF assms])

section \<open>One owner\<close>

text \<open>Every group with a member or a link has exactly one owner.\<close>

definition live :: "group_state \<Rightarrow> uuid \<Rightarrow> bool" where
  "live s g \<longleftrightarrow> (\<exists>u. gst_members s g u \<noteq> None) \<or> (\<exists>i. gst_links s g i \<noteq> None)"

definition owned :: "group_state \<Rightarrow> bool" where
  "owned s \<longleftrightarrow> (\<forall>g. live s g \<longrightarrow> (\<exists>!u. role_in s g u = ''owner''))"

definition links_below :: "group_state \<Rightarrow> bool" where
  "links_below s \<longleftrightarrow> (\<forall>g i x. gst_links s g i = Some x \<longrightarrow> fst x \<noteq> ''owner'')"

lemma set_member_sel [simp]:
  "gst_members (set_member g u x s) g' u' = (if g' = g \<and> u' = u then x else gst_members s g' u')"
  "role_in (set_member g u x s) g' u' =
     (if g' = g \<and> u' = u then (case x of None \<Rightarrow> '''' | Some y \<Rightarrow> fst y) else role_in s g' u')"
  "gst_links (set_member g u x s) = gst_links s"
  by (auto simp: set_member_def role_in_def split: option.splits prod.splits)

lemma set_link_sel [simp]:
  "gst_links (set_link g i x s) g' i' = (if g' = g \<and> i' = i then x else gst_links s g' i')"
  "role_in (set_link g i x s) = role_in s" "gst_members (set_link g i x s) = gst_members s"
  by (auto simp: set_link_def role_in_def fun_eq_iff)

lemma live_member: "role_in s g u \<noteq> '''' \<Longrightarrow> live s g"
  by (auto simp: role_in_def live_def split: option.splits)

lemma outranks_live: "outranks (role_in s g a) q \<Longrightarrow> live s g"
  by (rule live_member [of _ _ a]) (auto simp: outranks_def rank_def)

lemma outranked: "outranks r q \<Longrightarrow> q \<noteq> ''owner''"
  by auto

text \<open>Changing the entry of somebody who is not the owner, to something else than owner.\<close>

lemma owned_other:
  assumes "owned s" and "role_in s g u \<noteq> ''owner''" and "\<And>y. x = Some y \<Longrightarrow> fst y \<noteq> ''owner''" and "live s g"
  shows "owned (set_member g u x s)"
  unfolding owned_def
proof (intro allI impI)
  fix g' assume "live (set_member g u x s) g'"
  then have "live s g'" using assms(4) by (cases "g' = g") (auto simp: live_def)
  with assms(1) have ex1: "\<exists>!v. role_in s g' v = ''owner''" by (simp add: owned_def)
  have "role_in (set_member g u x s) g' v = ''owner'' \<longleftrightarrow> role_in s g' v = ''owner''" for v
    using assms(2,3) by (cases x) auto
  with ex1 show "\<exists>!v. role_in (set_member g u x s) g' v = ''owner''" by simp
qed

lemma owned_link:
  assumes "owned s" and "live s g"
  shows "owned (set_link g i x s)"
  unfolding owned_def
proof (intro allI impI)
  fix g' assume "live (set_link g i x s) g'"
  then have "live s g'" using assms(2) by (cases "g' = g") (auto simp: live_def)
  with assms(1) show "\<exists>!v. role_in (set_link g i x s) g' v = ''owner''" by (simp add: owned_def)
qed

text \<open>The groups outside a change of two entries, and the group itself.\<close>

lemma owned_transfer:
  assumes own: "owned s" and a: "role_in s g a = ''owner''" and u: "role_in s g u \<noteq> ''owner''"
  shows "owned (set_member g u (Some (''owner'', b)) (set_member g a (Some (''admin'', c)) s))" (is "owned ?t")
  unfolding owned_def
proof (intro allI impI)
  fix g' assume m: "live ?t g'"
  show "\<exists>!v. role_in ?t g' v = ''owner''"
  proof (cases "g' = g")
    case True
    have "\<exists>!v. role_in s g v = ''owner''" using own live_member [of s g a] a by (simp add: owned_def)
    with a have only: "role_in s g v = ''owner'' \<longleftrightarrow> v = a" for v by blast
    have "u \<noteq> a" using a u by auto
    then have "role_in ?t g' v = ''owner'' \<longleftrightarrow> v = u" for v using True only by auto
    then show ?thesis by simp
  next
    case False
    with m have "live s g'" by (auto simp: live_def)
    with own False show ?thesis by (simp add: owned_def)
  qed
qed

lemma owned_create:
  assumes own: "owned s" and none: "\<forall>v. gst_members s g v = None"
  shows "owned (set_member g a (Some (''owner'', b)) s)" (is "owned ?t")
  unfolding owned_def
proof (intro allI impI)
  fix g' assume m: "live ?t g'"
  show "\<exists>!v. role_in ?t g' v = ''owner''"
  proof (cases "g' = g")
    case True
    have "role_in s g v \<noteq> ''owner''" for v using none by (simp add: role_in_def)
    with True show ?thesis by auto
  next
    case False
    with m have "live s g'" by (auto simp: live_def)
    with own False show ?thesis by (simp add: owned_def)
  qed
qed

lemma step_owned:
  assumes step: "group_apply a l s = Some s'" and own: "owned s" and below: "links_below s"
  shows "owned s'"
proof (cases l)
  case (Create g)
  with step owned_create [OF own] show ?thesis by (auto split: if_splits)
next
  case (Assign g u role)
  with step owned_other [OF own, of g u "Some (role, restricted_in s g u)"] outranks_live [of s g a role]
  show ?thesis by (auto split: if_splits dest: outranked)
next
  case (Transfer g u)
  with step owned_transfer [OF own] show ?thesis by (auto split: if_splits dest: outranked)
next
  case (Remove g u)
  with step owned_other [OF own, of g u None] outranks_live [of s g a "role_in s g u"]
  show ?thesis by (auto split: if_splits dest: outranked)
next
  case (Restrict g u flag)
  with step owned_other [OF own, of g u "Some (role_in s g u, flag)"] outranks_live [of s g a "role_in s g u"]
  show ?thesis by (auto split: if_splits dest: outranked)
next
  case (Leave g)
  with step owned_other [OF own, of g a None] show ?thesis by (auto simp: live_def split: if_splits)
next
  case (Invite g i role)
  with step owned_link [OF own] outranks_live [of s g a role] show ?thesis by (auto split: if_splits)
next
  case (Disable g i)
  with step owned_link [OF own, of g] outranks_live [of s g a]
  show ?thesis by (auto split: if_splits option.splits)
next
  case (Join g i)
  with step obtain role where link: "gst_links s g i = Some (role, True)"
    and s': "s' = (if gst_members s g a = None then set_member g a (Some (role, False)) s else s)"
    by (auto split: option.splits prod.splits bool.splits if_splits)
  have "live s g" using link by (auto simp: live_def)
  moreover have "role_in s g a \<noteq> ''owner''" if "gst_members s g a = None" using that by (simp add: role_in_def)
  moreover have "role \<noteq> ''owner''" using below link unfolding links_below_def by fastforce
  ultimately show ?thesis using owned_other [OF own, of g a "Some (role, False)"] own by (simp add: s')
qed

lemma links_of_db: "group_inv db \<Longrightarrow> links_below (group_state_of db)"
  by (auto simp: links_below_def group_state_of_def find_link_def group_inv_def invite_check_def dest!: find_SomeD)

lemma ready_allowed: "ready env db \<Longrightarrow> env_allowed env"
  by (simp add: ready_def quiet_def env_allowed_def)

lemma request_ready:
  assumes "ready env (cw_db w)" and "groups_ok (cv_limit env) (cw_db w)" and "group_request env token request w = (r, w')"
  shows "ready env (cw_db w') \<and> groups_ok (cv_limit env) (cw_db w')"
proof -
  have allowed: "env_allowed env" by (rule ready_allowed [OF assms(1)])
  have stable: "stable_parser (cv_parse env)" and ids: "ids_ok (cv_parse env) (cw_db w)" using assms(1) by (simp_all add: ready_def)
  have w': "serve_groups env [(token, request)] w = w'" using assms(3) by simp
  have ok: "groups_ok (cv_limit env) (cw_db w')"
    using served [OF allowed assms(2), of "[(token, request)]"] by (simp add: w' chat_kept_iff del: serve_groups.simps)
  moreover have "ids_ok (cv_parse env) (cw_db w')"
    using ids_kept.serve_pres [of env w "[(token, request)]"] allowed stable ids by (simp add: w' del: serve_groups.simps)
  ultimately show ?thesis using assms(1) by (simp add: ready_def groups_ok_def)
qed

lemma serve_ready:
  assumes "ready env (cw_db w)" and "groups_ok (cv_limit env) (cw_db w)"
  shows "ready env (cw_db (serve_groups env rs w)) \<and> groups_ok (cv_limit env) (cw_db (serve_groups env rs w))"
  using assms
proof (induction rs arbitrary: w)
  case (Cons x rs)
  obtain token request r w' where "x = (token, request)" "group_request env token request w = (r, w')"
    by (metis surj_pair)
  with Cons.IH [of w'] request_ready [OF Cons.prems] show ?case by simp
qed simp

lemma request_owned:
  assumes "ready env (cw_db w)" and "owned (group_state_of (cw_db w))" and "group_request env token request w = (r, w')"
  shows "owned (group_state_of (cw_db w'))"
proof -
  have "contract env token request (cw_db w) r (cw_db w')" by (rule group_request_contract [OF assms(1,3)])
  then consider "group_state_of (cw_db w') = group_state_of (cw_db w)" | "acted env token request (cw_db w) (cw_db w')"
    by (auto simp: contract_def split: sum.splits if_splits)
  then show ?thesis
  proof cases
    case 2
    with step_owned assms(2) links_of_db [OF readyD(3) [OF assms(1)]] show ?thesis by (auto simp: acted_def)
  qed (use assms(2) in simp)
qed

text \<open>
  C20: Without other writers, after any sequence of requests every group that has a member or an invite link has exactly
  one owner: nobody removes, demotes or restricts the owner, the owner cannot leave, and a transfer moves the role.
\<close>

theorem groups_keep_one_owner:
  assumes "ready env (cw_db w)" and "groups_ok (cv_limit env) (cw_db w)" and "owned (group_state_of (cw_db w))"
  shows "owned (group_state_of (cw_db (serve_groups env rs w)))"
  using assms
proof (induction rs arbitrary: w)
  case (Cons x rs)
  obtain token request where x: "x = (token, request)" by (cases x)
  obtain r w' where run: "group_request env token request w = (r, w')" by fastforce
  from Cons.IH [of w'] request_ready [OF Cons.prems(1,2) run] request_owned [OF Cons.prems(1,3) run]
  show ?case by (simp add: x run)
qed simp

end
