(* ===== verification/Chat_Invites.thy ===== *)
theory Chat_Invites
  imports Chat_Contract
begin

text \<open>An invite token that the service created stays the name of its link, and joining with it gives the role of the link.\<close>

lemma strip_one_hd: "\<forall>e\<in>set es. e \<noteq> [] \<and> hd e \<notin> set s \<Longrightarrow> strip_one es s = None"
proof (induction es)
  case (Cons e es)
  from Cons.prems have e: "e \<noteq> []" "hd e \<notin> set s" by simp_all
  have "drop_prefix e s = None"
    unfolding drop_prefix_None
  proof (intro allI notI)
    fix r assume "s = e @ r"
    with e show False by (cases e) auto
  qed
  with Cons e show ?case by simp
qed simp

lemma invite_token_trimmed: "trim_space (''ginv_'' @ base64_Encode secret) = ''ginv_'' @ base64_Encode secret"
proof -
  let ?t = "''ginv_'' @ base64_Encode secret" and ?plain = "''ginv_'' @ base64_alphabet"
  have "b64_char n \<in> set base64_alphabet" if "n < 64" for n using that by (simp add: b64_char_def alphabet_length)
  then have chars: "set ?t \<subseteq> set ?plain" using base64_groups_of by (auto simp: base64_Encode_def)
  have "\<forall>e\<in>set space_runes. e \<noteq> [] \<and> hd e \<notin> set ?plain" by code_simp
  with chars have 1: "strip_one space_runes ?t = None" by (intro strip_one_hd) blast
  have "\<forall>e\<in>set (map rev space_runes). e \<noteq> [] \<and> hd e \<notin> set ?plain" by code_simp
  with chars have "strip_one (map rev space_runes) (rev ?t) = None" by (intro strip_one_hd) (simp, blast)
  with 1 show ?thesis by (simp only: trim_space_def strip_all_fixed rev_rev_ident)
qed

lemma invite_token_normal: "normalizeInviteToken (''ginv_'' @ base64_Encode secret) = Inr (''ginv_'' @ base64_Encode secret)"
  using invite_token_trimmed [of secret] by (simp add: normalizeInviteToken_def)

text \<open>The row that \<open>CreateGroupInviteLink\<close> leaves behind for the token it returns.\<close>

definition invited ::
    "chat_env \<Rightarrow> string \<Rightarrow> string \<Rightarrow> uuid \<Rightarrow> chat_db \<Rightarrow> CreatedGroupInviteLink \<Rightarrow> chat_db \<Rightarrow> bool" where
  "invited env G R a D created D' \<longleftrightarrow>
     (\<exists>gid r row secret. normalizeID (cv_parse env) G = Inr gid \<and> normalizeGroupInviteRole R = Inr r \<and>
        outranks (role_in (group_state_of D) gid a) r \<and>
        created_InviteToken created = ''ginv_'' @ base64_Encode secret \<and> created_InviteLink created = toGroupInviteLink row \<and>
        group_invite_links D' = group_invite_links D @ [row] \<and>
        l_GroupID row = gid \<and> l_Role row = r \<and> l_DisabledAt row = None \<and>
        l_TokenHash row = hashInviteToken (cv_sha256 env) (created_InviteToken created))"

lemma meets_value:
  assumes "ready env D" and "\<And>pg x D'. m pg D = Inr (x, D') \<Longrightarrow> Q (h x) D'"
  shows "meets D (bindE (transact env m) (\<lambda>x. returnE (h x))) Q"
proof (rule meets_write)
  show "quiet env" by (rule readyD(1) [OF assms(1)])
  fix pg x D' assume "m pg D = Inr (x, D')"
  then have "Q (h x) D'" by (rule assms(2))
  then show "(D' = D \<and> meets D (returnE (h x)) Q) \<or> ((\<exists>y. Q y D') \<and> ends D' (returnE (h x)) (\<lambda>y. Q y D'))"
    by (auto intro: ends_returnE)
qed

lemma invitedE:
  assumes "invited env G R a D c D'"
  obtains gid r row secret where "normalizeID (cv_parse env) G = Inr gid" and "normalizeGroupInviteRole R = Inr r"
    and "outranks (role_in (group_state_of D) gid a) r" and "created_InviteToken c = ''ginv_'' @ base64_Encode secret"
    and "created_InviteLink c = toGroupInviteLink row"
    and "row \<in> set (group_invite_links D')" and "l_GroupID row = gid" and "l_Role row = r"
    and "l_TokenHash row = hashInviteToken (cv_sha256 env) (created_InviteToken c)"
  using assms unfolding invited_def
  by (elim exE conjE) (rule that, assumption, assumption, assumption, assumption, simp_all)

lemma invited_intro:
  assumes "ready env D" and "normalizeID (cv_parse env) G = Inr g" and "find_member D g a = Some self"
    and "normalizeGroupInviteRole R = Inr r" and "canCreateInviteForRole (m_Role self) r"
    and "CreateGroupInviteLink_tx (cv_parse env) params D = Inr (link, D')" and "cl_GroupID params = g" and "cl_Role params = r"
    and "cl_TokenHash params = hashInviteToken (cv_sha256 env) t" and "t = ''ginv_'' @ base64_Encode secret"
  shows "invited env G R a D \<lparr>created_InviteLink = link, created_InviteToken = t\<rparr> D'"
proof -
  have "cv_parse env (cl_GroupID params) = Some g" using readyD(4) [OF assms(1,2)] assms(7) by simp
  from CreateLink_state [OF assms(6) this] assms(8,9) obtain row where "link = toGroupInviteLink row"
    "group_invite_links D' = group_invite_links D @ [row]" "l_TokenHash row = hashInviteToken (cv_sha256 env) t"
    "l_GroupID row = g" "l_Role row = r" "l_DisabledAt row = None" by auto
  moreover have "outranks (role_in (group_state_of D) g a) r" using assms(3,5) by (simp add: can_outranks)
  ultimately show ?thesis
    unfolding invited_def using assms(2,4,10) by (intro exI [of _ g] exI [of _ r] exI [of _ row] exI [of _ secret]) simp
qed

lemma CreateGroupInviteLink_invites:
  assumes "ready env (cw_db w)"
  shows "outcome env token w (invited env G R) (CreateGroupInviteLink (chat_service env) token G R w)"
  unfolding CreateGroupInviteLink_def newGroupInviteToken_def Let_def service_sel postgres_sel
proof (rule authenticated [OF assms], intro meets_bind_liftE, rule meets_get_group, assumption+, intro meets_if meets_failE meets_bind_liftE)
  fix auth D g grp self r
  assume ready: "ready env D" and g: "normalizeID (cv_parse env) G = Inr g" and self: "find_member D g (caller auth) = Some self"
    and role: "group_SelfRole grp = m_Role self" and r: "normalizeGroupInviteRole R = Inr r"
    and can: "\<not> \<not> canCreateInviteForRole (group_SelfRole grp) r"
  show "meets D
     (bindE (bindE (answer (cv_random env))
        (\<lambda>secret. returnE (''ginv_'' @ base64_Encode secret,
            hashInviteToken (cv_sha256 env) (''ginv_'' @ base64_Encode secret))))
       (\<lambda>(inviteToken, tokenHash).
          bindE (answer (\<lambda>t. Inr (cv_clock env t))) (\<lambda>at.
          bindE (answer (\<lambda>t. Inr (cv_id env t))) (\<lambda>linkID.
          bindE (transact env (\<lambda>_. CreateGroupInviteLink_tx (cv_parse env)
              \<lparr>cl_InviteLinkID = linkID, cl_GroupID = g, cl_CreatedByUserID = caller auth, cl_Role = r,
               cl_TokenHash = tokenHash, cl_CreatedAt = at\<rparr>)) (\<lambda>link.
          returnE \<lparr>created_InviteLink = link, created_InviteToken = inviteToken\<rparr>)))))
     (invited env G R (caller auth) D)"
  proof (rule meets_bind)
    show "steady D (bindE (answer (cv_random env))
        (\<lambda>secret. returnE (''ginv_'' @ base64_Encode secret,
            hashInviteToken (cv_sha256 env) (''ginv_'' @ base64_Encode secret))))
       (\<lambda>(t, h). \<exists>secret. t = ''ginv_'' @ base64_Encode secret \<and> h = hashInviteToken (cv_sha256 env) t)"
      by (rule steady_bind [OF steady_answer], rule steady_returnE) blast
  qed (use role can in \<open>auto simp del: append.simps intro!: meets_answer meets_value ready invited_intro [OF ready g self r]\<close>)
qed

section \<open>The round trip\<close>

text \<open>The hash of a token names one link.\<close>

lemma hash_unique:
  assumes "group_inv db" and "row \<in> set (group_invite_links db)" and "row' \<in> set (group_invite_links db)"
    and "l_TokenHash row' = l_TokenHash row"
  shows "row' = row"
proof -
  have "distinct (map l_TokenHash (group_invite_links db))" using assms(1) by (simp add: group_inv_def)
  with assms(2-4) show ?thesis by (auto simp: distinct_map inj_on_def)
qed

text \<open>
  C21: the token that \<open>CreateGroupInviteLink\<close> returned names its link for good: when, after any further requests and
  without other writers, somebody joins with it successfully, the link exists in that group with the role it was created
  for and is not disabled, and the joiner is a member of that group, with that role if they were none before, and
  otherwise with the role and restriction they had. The creator's role was strictly above the role of the link.
\<close>

theorem invite_token_round_trip:
  assumes "ready env (cw_db w)" and "groups_ok (cv_limit env) (cw_db w)"
    and "CreateGroupInviteLink (chat_service env) token G R w = (Inr created, w1)"
    and "JoinGroupByInviteLink (chat_service env) token' (created_InviteToken created) (serve_groups env rs w1) = (Inr g, w2)"
  shows "\<exists>gid r a a'. normalizeID (cv_parse env) G = Inr gid \<and> normalizeGroupInviteRole R = Inr r \<and>
     session_user env (cw_db w) token = Some a \<and> outranks (role_in (group_state_of (cw_db w)) gid a) r \<and>
     session_user env (cw_db (serve_groups env rs w1)) token' = Some a' \<and>
     gst_links (group_state_of (cw_db (serve_groups env rs w1))) gid (link_ID (created_InviteLink created)) = Some (r, True) \<and>
     gst_members (group_state_of (cw_db w2)) gid a' =
       (case gst_members (group_state_of (cw_db (serve_groups env rs w1))) gid a' of None \<Rightarrow> Some (r, False) | Some x \<Rightarrow> Some x)"
proof -
  let ?v = "serve_groups env rs w1"
  from CreateGroupInviteLink_invites [OF assms(1), of token G R] assms(3) obtain D a where
    D: "same_but_sessions (cw_db w) D" and a: "session_user env (cw_db w) token = Some a"
    and inv: "invited env G R a D created (cw_db w1)" by (auto simp: outcome_def)
  from inv obtain gid r row secret where 1: "normalizeID (cv_parse env) G = Inr gid" "normalizeGroupInviteRole R = Inr r"
      "outranks (role_in (group_state_of D) gid a) r"
    and tok: "created_InviteToken created = ''ginv_'' @ base64_Encode secret"
      "created_InviteLink created = toGroupInviteLink row"
    and row: "row \<in> set (group_invite_links (cw_db w1))" "l_GroupID row = gid" "l_Role row = r"
      "l_TokenHash row = hashInviteToken (cv_sha256 env) (created_InviteToken created)"
    by (rule invitedE)
  have "group_request env token (CreateGroupInviteLinkRequest G R) w = (Inr (), w1)"
    using assms(3) by (simp add: group_request_def ignore_def bindE_def returnE_def)
  with request_ready [OF assms(1,2)] have "ready env (cw_db w1)" "groups_ok (cv_limit env) (cw_db w1)" by blast+
  then have ready: "ready env (cw_db ?v)" using serve_ready by blast
  have "has_link (link_key row) (cw_db w1)" using row(1) by (simp add: has_link_def)
  then have "has_link (link_key row) (cw_db ?v)"
    using link_kept.serve_pres [of env "link_key row" w1 rs] ready_allowed [OF assms(1)] by simp
  then obtain now where now: "now \<in> set (group_invite_links (cw_db ?v))" "l_ID now = l_ID row" "l_GroupID now = gid"
      "l_Role now = r" "l_TokenHash now = hashInviteToken (cv_sha256 env) (created_InviteToken created)"
    using row(2-4) by (auto simp: has_link_def link_key_def)
  from JoinGroupByInviteLink_outcome [OF ready, of token' "created_InviteToken created"] assms(4) obtain D1 a' where
    D1: "same_but_sessions (cw_db ?v) D1" and a': "session_user env (cw_db ?v) token' = Some a'"
    and "stepped env (JoinGroupByInviteLinkRequest (created_InviteToken created)) a' D1 g (cw_db w2)"
    by (auto simp: outcome_def)
  then obtain row' where "row' \<in> set (group_invite_links D1)"
      "l_TokenHash row' = hashInviteToken (cv_sha256 env) (created_InviteToken created)"
    and step: "group_apply a' (Join (l_GroupID row') (l_ID row')) (group_state_of D1) = Some (group_state_of (cw_db w2))"
    by (auto simp: stepped_def tok invite_token_normal simp del: append.simps group_apply.simps)
  with hash_unique [OF readyD(3) [OF ready] now(1)] now(5) ready_same(3) [OF D1] have "row' = now" by simp
  with step now(2,3) ready_same(2) [OF D1] have join: "group_apply a' (Join gid (l_ID row)) (group_state_of (cw_db ?v)) =
      Some (group_state_of (cw_db w2))" by simp
  have "find_link (cw_db ?v) gid (l_ID row) = Some now"
    unfolding find_link_def using find_by_id [OF _ now(1)] readyD(3) [OF ready] now(2,3) by (simp add: group_inv_def)
  then have "gst_links (group_state_of (cw_db ?v)) gid (l_ID row) = Some (r, l_DisabledAt now = None)"
    using now(4) by (simp add: group_state_of_def)
  with join have link: "gst_links (group_state_of (cw_db ?v)) gid (l_ID row) = Some (r, True)"
    and w2: "group_state_of (cw_db w2) =
      (if gst_members (group_state_of (cw_db ?v)) gid a' = None
       then set_member gid a' (Some (r, False)) (group_state_of (cw_db ?v)) else group_state_of (cw_db ?v))"
    by (auto split: if_splits bool.splits)
  have "gst_members (group_state_of (cw_db w2)) gid a' =
       (case gst_members (group_state_of (cw_db ?v)) gid a' of None \<Rightarrow> Some (r, False) | Some x \<Rightarrow> Some x)"
    by (simp add: w2 split: option.split)
  with 1 a a' link ready_same(2) [OF D] tok(2) show ?thesis by (auto simp: toGroupInviteLink_def)
qed

end
