(* ===== verification/Chat_Sample.thy ===== *)
theory Chat_Sample
  imports Chat_Invites
begin

text \<open>A small deployment of the chat service on which the properties are run: the group \<open>g1\<close> of \<open>u1\<close> (owner) and
  \<open>u2\<close> (member), a user \<open>u3\<close> outside, one session each, short identifiers, a clock that advances a second per step.\<close>

definition session_id :: "char \<Rightarrow> string" where
  "session_id c = ''00000000-0000-0000-0000-00000000000'' @ [c]"

definition bearer :: "char \<Rightarrow> string" where
  "bearer c = ''v1.'' @ session_id c @ ''.QUFBQUFBQUFBQUFBQUFBQUFBQUFBQUFBQUFBQUFBQUE''"

definition secret_hash :: string where
  "secret_hash = hex_EncodeToString (replicate 32 (CHR ''A''))"

definition numbered :: "char \<Rightarrow> nat \<Rightarrow> string" where
  "numbered c t = c # replicate t (CHR ''x'')"

definition chat_table :: "(string \<times> string) list" where
  "chat_table =
     map (\<lambda>s. (s, s)) [''u1'', ''u2'', ''u3'', ''g1'', ''l1'', ''d1'', session_id (CHR ''1''), session_id (CHR ''2''), session_id (CHR ''3'')] @
     map (\<lambda>t. (numbered (CHR ''i'') t, numbered (CHR ''i'') t)) [0..<16]"

definition sample_pg :: "nat \<Rightarrow> pg" where
  "sample_pg t = \<lparr>CURRENT_TIMESTAMP = int t, clock_timestamp = int t, gen_random_uuid = numbered (CHR ''e'') t\<rparr>"

definition chat_sample_env :: "(nat \<Rightarrow> (pg \<times> chat_op) list) \<Rightarrow> chat_env" where
  "chat_sample_env others =
     \<lparr>cv_parse = map_of chat_table, cv_sha256 = (\<lambda>s. s), cv_limit = 2, cv_others = others, cv_pg = sample_pg,
      cv_fault = (\<lambda>t. Works), cv_clock = (\<lambda>t. int t * 1000000000), cv_id = (\<lambda>t. numbered (CHR ''i'') t),
      cv_random = (\<lambda>t. Inr (replicate 32 (CHR ''A''))), cv_typing = (\<lambda>t. Inr ())\<rparr>"

definition sample_user :: "string \<Rightarrow> UserRow" where
  "sample_user u = \<lparr>usr_ID = u, usr_Login = u, usr_Nickname = u, usr_AvatarURL = None, usr_PushNotificationsEnabled = True\<rparr>"

definition sample_session :: "char \<Rightarrow> string \<Rightarrow> SessionRow" where
  "sample_session c u = \<lparr>ses_ID = session_id c, ses_UserID = u, ses_DeviceID = ''d1'', ses_TokenHash = secret_hash,
     ses_LastSeenAt = 0, ses_RevokedAt = None\<rparr>"

definition sample_version :: "string \<Rightarrow> VersionRow" where
  "sample_version u = \<lparr>v_GroupID = ''g1'', v_UserID = u, v_Revision = 1, v_Present = True, v_Eligible = True, v_UpdatedAt = 0\<rparr>"

definition chat_sample_db :: chat_db where
  "chat_sample_db =
     \<lparr>users = [sample_user ''u1'', sample_user ''u2'', sample_user ''u3''],
      user_devices = [\<lparr>dev_ID = ''d1'', dev_UserID = ''u1'', dev_LastSeenAt = 0, dev_RevokedAt = None\<rparr>],
      user_sessions = [sample_session (CHR ''1'') ''u1'', sample_session (CHR ''2'') ''u2'', sample_session (CHR ''3'') ''u3''],
      groups = [\<lparr>grp_ID = ''g1'', grp_Name = ''team'', grp_CreatedByUserID = ''u1'', grp_CreatedAt = 0, grp_UpdatedAt = 0\<rparr>],
      group_memberships = [new_membership ''g1'' ''u1'' ''owner'' 0, new_membership ''g1'' ''u2'' ''member'' 0],
      group_invite_links = [],
      group_threads = [\<lparr>t_ID = ''i'', t_GroupID = ''g1'', t_ThreadKey = ''primary'', t_CreatedAt = 0, t_UpdatedAt = 0\<rparr>],
      group_membership_authority_versions = [sample_version ''u1'', sample_version ''u2''],
      group_notification_preferences = [], group_messages = [], group_chat_read_states = [], group_encrypted_messages = [],
      group_encrypted_read_states = [], group_encrypted_pins = [], authority = \<lparr>outbox = [], deliveries = []\<rparr>\<rparr>"

definition chat_start :: chat_world where
  "chat_start = \<lparr>cw_db = chat_sample_db, cw_tick = 0\<rparr>"

definition quiet_env :: chat_env where
  "quiet_env = chat_sample_env (\<lambda>t. [])"

definition roster :: "chat_world \<Rightarrow> (string \<times> string) list" where
  "roster w = map (\<lambda>m. (m_UserID m, m_Role m)) (group_memberships (cw_db w))"

section \<open>The sample satisfies the hypotheses\<close>

lemma sample_rows: "group_inv chat_sample_db"
  by code_simp

lemma sample_quota: "quota_ok 2 chat_sample_db"
  by (simp add: quota_ok_def membership_count_def chat_sample_db_def new_membership_def)

lemma sample_threads: "threads_ok chat_sample_db"
  by code_simp

lemma sample_authority: "authority_inv chat_sample_db"
proof -
  have "version_matches (find_version chat_sample_db g u) (find_member chat_sample_db g u)" for g u
    by (simp add: find_version_def find_member_def chat_sample_db_def sample_version_def new_membership_def version_at_def
        member_at_def version_matches_def version_check_def eligible_role_def max_int64_def)
  moreover have "delivery_inv chat_kind (authority chat_sample_db)" by code_simp
  moreover have "distinct (map vkey (group_membership_authority_versions chat_sample_db))" by code_simp
  ultimately show ?thesis by (simp add: authority_inv_def chat_sample_db_def)
qed

lemma sample_groups_ok: "groups_ok 2 chat_sample_db"
  by (simp add: groups_ok_def sample_rows sample_quota sample_threads sample_authority)

lemma sample_owned: "owned (group_state_of chat_sample_db)"
  unfolding owned_def
proof (intro allI impI)
  fix g assume "live (group_state_of chat_sample_db) g"
  then have g: "g = ''g1''"
    by (auto simp: live_def group_state_of_def find_member_def find_link_def chat_sample_db_def member_at_def new_membership_def
        split: if_splits)
  have "role_in (group_state_of chat_sample_db) g u = ''owner'' \<longleftrightarrow> u = ''u1''" for u
    by (simp add: g role_in_def group_state_of_def find_member_def chat_sample_db_def member_at_def new_membership_def)
  then show "\<exists>!u. role_in (group_state_of chat_sample_db) g u = ''owner''" by simp
qed

lemma table_stable: "stable_parser (map_of chat_table)"
proof -
  have "\<forall>(s, u)\<in>set chat_table. map_of chat_table u = Some u" by code_simp
  then show ?thesis by (auto simp: stable_parser_def dest!: map_of_SomeD)
qed

lemma sample_ids: "ids_ok (map_of chat_table) chat_sample_db"
  by code_simp

lemma sample_ready: "ready quiet_env chat_sample_db"
  using sample_ids sample_rows table_stable
  by (simp add: ready_def quiet_def quiet_env_def chat_sample_env_def)

lemma quiet_allowed: "env_allowed quiet_env"
  by (rule ready_allowed [OF sample_ready])

lemma quiet_sel [simp]:
  "cv_limit quiet_env = 2" "cw_db chat_start = chat_sample_db" "cw_tick chat_start = 0"
  by (simp_all add: quiet_env_def chat_sample_env_def chat_start_def)

section \<open>Runs\<close>

abbreviation token1 :: string where "token1 \<equiv> bearer (CHR ''1'')"
abbreviation token2 :: string where "token2 \<equiv> bearer (CHR ''2'')"
abbreviation token3 :: string where "token3 \<equiv> bearer (CHR ''3'')"

lemma sample_remove:
  "roster (serve_groups quiet_env [(token1, RemoveGroupMemberRequest ''g1'' ''u2'')] chat_start) = [(''u1'', ''owner'')]"
  by code_simp

end
