(* ===== verification/Chat_Witnesses.thy ===== *)
theory Chat_Witnesses
  imports Chat_Sample
begin

text \<open>Runs of the sample deployment on which the properties of the groups are applied, and a run in which another
  writer interferes.\<close>

section \<open>Runs\<close>

definition answers :: "('e + 'a) \<times> 'w \<Rightarrow> bool" where
  "answers r = (case r of (Inr _, _) \<Rightarrow> True | _ \<Rightarrow> False)"

lemma answersD: "answers r \<Longrightarrow> \<exists>x w'. r = (Inr x, w')"
  by (auto simp: answers_def split: prod.splits sum.splits)

text \<open>The owner removes \<open>u2\<close>, then \<open>u3\<close> presents a token that does not exist.\<close>

definition sample_run :: "(string \<times> GroupRequest) list" where
  "sample_run =
     [(token1, RemoveGroupMemberRequest ''g1'' ''u2''), (token3, JoinGroupByInviteLinkRequest ''ginv_unknown'')]"

definition sample_end :: chat_world where
  "sample_end = serve_groups quiet_env sample_run chat_start"

definition run_summary :: "chat_world \<Rightarrow> (string \<times> string) list \<times> int list \<times> bool" where
  "run_summary w = (roster w, map (\<lambda>x. ce_Epoch (o_Event x)) (outbox (authority (cw_db w))),
     find_member (cw_db w) ''g1'' ''u2'' = None)"

lemma sample_end_summary: "run_summary sample_end = ([(''u1'', ''owner'')], [2], True)"
  by code_simp

lemma sample_end_rows: "roster sample_end = [(''u1'', ''owner'')]" "find_member (cw_db sample_end) ''g1'' ''u2'' = None"
  using sample_end_summary by (simp_all add: run_summary_def)

lemma member_u2: "find_member (cw_db chat_start) ''g1'' ''u2'' = Some (new_membership ''g1'' ''u2'' ''member'' 0)"
  by code_simp

lemma start_ok: "groups_ok (cv_limit quiet_env) (cw_db chat_start)"
  using sample_groups_ok by simp

lemma start_ready: "ready quiet_env (cw_db chat_start)"
  using sample_ready by simp

lemma start_owned: "owned (group_state_of (cw_db chat_start))"
  using sample_owned by simp

theorem groups_stay_consistent_witness:
  "groups_ok 2 (cw_db sample_end) \<and> roster sample_end = [(''u1'', ''owner'')]"
  using groups_stay_consistent [OF quiet_allowed start_ok, of sample_run] sample_end_rows by (simp add: sample_end_def)

theorem authority_moves_as_specified_witness:
  "authority_run (subject_of_db chat_sample_db ''g1'' ''u2'') (subject_of_db (cw_db sample_end) ''g1'' ''u2'') \<and>
   find_member (cw_db sample_end) ''g1'' ''u2'' = None"
  using authority_moves_as_specified [OF quiet_allowed start_ok, of "''g1''" "''u2''" sample_run] sample_end_rows(2)
  by (simp add: sample_end_def)

theorem lost_eligibility_is_announced_witness:
  "\<exists>v. find_version chat_sample_db ''g1'' ''u2'' = Some v \<and>
     (\<exists>e\<in>set (outbox (authority (cw_db sample_end))).
        ce_GroupID (o_Event e) = ''g1'' \<and> ce_UserID (o_Event e) = ''u2'' \<and> v_Revision v < ce_Epoch (o_Event e))"
  using lost_eligibility_is_announced [OF quiet_allowed start_ok member_u2, of sample_run] sample_end_rows(2)
  by (simp add: sample_end_def new_membership_def)

lemma quiet_parse [simp]:
  "cv_parse quiet_env ''g1'' = Some ''g1''" "cv_parse quiet_env ''u2'' = Some ''u2''" "cv_fault quiet_env t = Works"
  by code_simp+

lemma trimmed_ids: "trim_space ''g1'' = ''g1''" "trim_space ''u2'' = ''u2''"
  by code_simp+

lemma sample_subject: "subject_authority (others_moved quiet_env chat_start) ''g1'' ''u2'' =
  subject_authority chat_sample_db ''g1'' ''u2''"
  by (simp add: others_moved_def quiet_env_def chat_sample_env_def chat_start_def)

theorem CheckGroupSubject_reports_membership_witness:
  "fst (check_subject quiet_env ''g1'' ''u2'' chat_start) = Inr (subject_authority chat_sample_db ''g1'' ''u2'')"
  using CheckGroupSubject_reports_membership [OF quiet_allowed start_ok, of "''g1''" "''g1''" "''u2''" "''u2''"]
  by (simp add: trimmed_ids sample_subject uuid_Nil_def Let_def)

lemma sample_removal: "answers (group_request quiet_env token1 (RemoveGroupMemberRequest ''g1'' ''u2'') chat_start)"
  by code_simp

theorem requests_are_machine_steps_witness:
  "\<exists>w'. group_request quiet_env token1 (RemoveGroupMemberRequest ''g1'' ''u2'') chat_start = (Inr (), w') \<and>
     contract quiet_env token1 (RemoveGroupMemberRequest ''g1'' ''u2'') chat_sample_db (Inr ()) (cw_db w')"
proof -
  obtain w' where run: "group_request quiet_env token1 (RemoveGroupMemberRequest ''g1'' ''u2'') chat_start = (Inr (), w')"
    using answersD [OF sample_removal] by auto
  from requests_are_machine_steps [OF start_ready run] run show ?thesis by auto
qed

theorem groups_keep_one_owner_witness:
  "owned (group_state_of (cw_db sample_end)) \<and> roster sample_end = [(''u1'', ''owner'')]"
  using groups_keep_one_owner [OF start_ready start_ok start_owned, of sample_run] sample_end_rows
  by (simp add: sample_end_def)

text \<open>The owner opens a link for readers and \<open>u3\<close> joins with its token.\<close>

definition sample_link :: "(chat_error + CreatedGroupInviteLink) \<times> chat_world" where
  "sample_link = CreateGroupInviteLink (chat_service quiet_env) token1 ''g1'' ''reader'' chat_start"

text \<open>What \<open>u3\<close> gets with the token of a created link.\<close>

definition joined :: "(chat_error + CreatedGroupInviteLink) \<times> chat_world \<Rightarrow> (chat_error + Group) \<times> chat_world" where
  "joined link = (case link of
     (Inr created, w) \<Rightarrow> JoinGroupByInviteLink (chat_service quiet_env) token3 (created_InviteToken created) w
   | (Inl e, w) \<Rightarrow> (Inl e, w))"

definition join_summary :: "(chat_error + Group) \<times> chat_world \<Rightarrow> bool \<times> (string \<times> string) list" where
  "join_summary r = (answers r, roster (snd r))"

lemma sample_join_summary:
  "join_summary (joined sample_link) = (True, [(''u1'', ''owner''), (''u2'', ''member''), (''u3'', ''reader'')])"
  by code_simp

theorem invite_token_round_trip_witness:
  "\<exists>created w1 g w2. sample_link = (Inr created, w1) \<and>
     JoinGroupByInviteLink (chat_service quiet_env) token3 (created_InviteToken created) w1 = (Inr g, w2) \<and>
     roster w2 = [(''u1'', ''owner''), (''u2'', ''member''), (''u3'', ''reader'')] \<and>
     (\<exists>a'. session_user quiet_env (cw_db w1) token3 = Some a' \<and> gst_members (group_state_of (cw_db w2)) ''g1'' a' \<noteq> None)"
proof -
  from sample_join_summary obtain g w2 where joined: "joined sample_link = (Inr g, w2)"
    and rows: "roster w2 = [(''u1'', ''owner''), (''u2'', ''member''), (''u3'', ''reader'')]"
    by (auto simp: join_summary_def dest!: answersD)
  then obtain created w1 where link: "sample_link = (Inr created, w1)"
    and join: "JoinGroupByInviteLink (chat_service quiet_env) token3 (created_InviteToken created) w1 = (Inr g, w2)"
    by (auto simp: joined_def split: prod.splits sum.splits)
  have "normalizeID (cv_parse quiet_env) ''g1'' = Inr ''g1''" by code_simp
  with invite_token_round_trip [OF start_ready start_ok link [unfolded sample_link_def], of token3 "[]" g w2] join
  have "\<exists>a'. session_user quiet_env (cw_db w1) token3 = Some a' \<and> gst_members (group_state_of (cw_db w2)) ''g1'' a' \<noteq> None"
    by (auto split: option.splits)
  with link join rows show ?thesis by blast
qed

section \<open>Another writer\<close>

text \<open>Another instance commits a transfer of the ownership to \<open>u2\<close> just before the delete of \<open>u2\<close>'s own request to
  leave reaches the database, after that request has seen its caller as a member.\<close>

definition transfer_at :: "nat \<Rightarrow> nat \<Rightarrow> (pg \<times> chat_op) list" where
  "transfer_at k t = (if t = k then [(sample_pg t, OpTransfer ''g1'' ''u1'' ''u2'' 5)] else [])"

definition racing_env :: "nat \<Rightarrow> chat_env" where
  "racing_env k = chat_sample_env (transfer_at k)"

lemma racing_allowed: "env_allowed (racing_env k)"
  by (simp add: env_allowed_def racing_env_def chat_sample_env_def transfer_at_def op_allowed_def)

definition race_summary :: "(chat_error + unit) \<times> chat_world \<Rightarrow> bool \<times> (string \<times> string) list \<times> bool" where
  "race_summary r = (answers r, roster (snd r), find_member (cw_db (snd r)) ''g1'' ''u1'' = None)"

lemma sample_race:
  "race_summary (group_request (racing_env 7) token2 (LeaveGroupRequest ''g1'') chat_start) = (True, [(''u1'', ''admin'')], False)"
  by code_simp

lemma race_roles:
  "role_in (group_state_of (cw_db chat_start)) ''g1'' ''u1'' = ''owner''"
  "role_in (group_state_of (cw_db chat_start)) ''g1'' ''u2'' = ''member''"
  "session_user (racing_env 7) (cw_db chat_start) token2 = Some ''u2''"
  by code_simp+

lemma roster_roles: "role_in (group_state_of (cw_db w)) g u = ''owner'' \<Longrightarrow> (u, ''owner'') \<in> set (roster w)"
  by (force simp: role_in_def group_state_of_def roster_def dest: find_member_Some split: option.splits)

text \<open>
  C22: the statements that change a membership check the group's row lock only, not the role that the service had read, so a
  member who leaves while the ownership is being transferred to them takes the ownership out of the group: on consistent
  tables, where nothing fails and no other process writes but for one transfer of the ownership from the owner \<open>u1\<close> to
  the member \<open>u2\<close>, the request of \<open>u2\<close> to leave is answered with success and the group is left with a member and no owner.
\<close>

theorem leave_racing_transfer_orphans_group:
  "\<exists>env k pg at w w'. env_allowed env \<and> (\<forall>t. cv_others env t = (if t = k then [(pg, OpTransfer ''g1'' ''u1'' ''u2'' at)] else [])) \<and>
     (\<forall>t. cv_fault env t = Works) \<and> groups_ok (cv_limit env) (cw_db w) \<and> owned (group_state_of (cw_db w)) \<and>
     role_in (group_state_of (cw_db w)) ''g1'' ''u1'' = ''owner'' \<and> role_in (group_state_of (cw_db w)) ''g1'' ''u2'' = ''member'' \<and>
     session_user env (cw_db w) token2 = Some ''u2'' \<and> group_request env token2 (LeaveGroupRequest ''g1'') w = (Inr (), w') \<and>
     live (group_state_of (cw_db w')) ''g1'' \<and> (\<nexists>u. role_in (group_state_of (cw_db w')) ''g1'' u = ''owner'')"
proof -
  obtain w' where run: "group_request (racing_env 7) token2 (LeaveGroupRequest ''g1'') chat_start = (Inr (), w')"
    and rows: "roster w' = [(''u1'', ''admin'')]" "find_member (cw_db w') ''g1'' ''u1'' \<noteq> None"
    using sample_race by (auto simp: race_summary_def dest!: answersD)
  have "live (group_state_of (cw_db w')) ''g1''"
    using rows(2) by (auto simp: live_def group_state_of_def intro!: exI [of _ "''u1''"])
  moreover have "\<nexists>u. role_in (group_state_of (cw_db w')) ''g1'' u = ''owner''"
    using roster_roles [of w' "''g1''"] rows(1) by auto
  moreover have "cv_limit (racing_env 7) = 2" "\<forall>t. cv_fault (racing_env 7) t = Works"
    by (simp_all add: racing_env_def chat_sample_env_def transfer_at_def)
  moreover have "\<forall>t. cv_others (racing_env 7) t = (if t = 7 then [(sample_pg 7, OpTransfer ''g1'' ''u1'' ''u2'' 5)] else [])"
    by (simp add: racing_env_def chat_sample_env_def transfer_at_def)
  ultimately show ?thesis using racing_allowed run sample_groups_ok sample_owned race_roles
    by (intro exI [of _ "racing_env 7"] exI [of _ 7] exI [of _ "sample_pg 7"] exI [of _ 5] exI [of _ chat_start] exI [of _ w'])
      simp
qed

end
