(* ===== verification/Identity_Model.thy ===== *)
theory Identity_Model
  imports Go_Text
begin

text \<open>
  What \<open>aero-identity\<close> decides without a database: the structs of \<open>internal/domain/identity/model.go\<close>, the
  normalisers of \<open>service.go\<close>, the profile patch, the password admission and the judgement of
  \<open>session_authorization.go\<close>.
\<close>

section \<open>Errors and constants\<close>

text \<open>The sentinels of \<open>errors.go\<close> (a wrapped sentinel is the sentinel), the driver's errors (a \<open>pgconn.PgError\<close> with
  its code and constraint), \<open>ctx.Err()\<close>, a panic and any other error.\<close>

datatype identity_error =
    ErrInvalidArgument | ErrLoginTaken | ErrInvalidCredentials | ErrUnauthorized | ErrNotFound | ErrConflict
  | ErrResourceExhausted | ErrAuthorityUnavailable | ErrNoRows | PgError string string | ErrContext | ErrOther | Panic

definition minPasswordLength :: nat where "minPasswordLength = 8"
definition maxPasswordLength :: nat where "maxPasswordLength = 128"
definition maxAvatarURLLen :: nat where "maxAvatarURLLen = 2048"
definition maxBioLen :: nat where "maxBioLen = 500"
definition maxTimezoneLen :: nat where "maxTimezoneLen = 64"
definition maxAccentLen :: nat where "maxAccentLen = 64"
definition maxStatusTextLen :: nat where "maxStatusTextLen = 140"
definition maxCountryLen :: nat where "maxCountryLen = 64"
definition maxCityLen :: nat where "maxCityLen = 64"
definition maxDeviceLabelLen :: nat where "maxDeviceLabelLen = 120"
definition maxNicknameLen :: nat where "maxNicknameLen = 64"
definition defaultSessionTouchInterval :: int where "defaultSessionTouchInterval = 15 * 1000000000"

lemmas max_defs = minPasswordLength_def maxPasswordLength_def maxAvatarURLLen_def maxBioLen_def maxTimezoneLen_def
  maxAccentLen_def maxStatusTextLen_def maxCountryLen_def maxCityLen_def maxDeviceLabelLen_def maxNicknameLen_def

text \<open>The UTF-8 bytes of the Russian ``current device''.\<close>

definition defaultDeviceName :: string where
  "defaultDeviceName =
     [CHR 0xD0, CHR 0xA2, CHR 0xD0, CHR 0xB5, CHR 0xD0, CHR 0xBA, CHR 0xD1, CHR 0x83, CHR 0xD1, CHR 0x89,
      CHR 0xD0, CHR 0xB5, CHR 0xD0, CHR 0xB5, CHR 0x20,
      CHR 0xD1, CHR 0x83, CHR 0xD1, CHR 0x81, CHR 0xD1, CHR 0x82, CHR 0xD1, CHR 0x80, CHR 0xD0, CHR 0xBE,
      CHR 0xD0, CHR 0xB9, CHR 0xD1, CHR 0x81, CHR 0xD1, CHR 0x82, CHR 0xD0, CHR 0xB2, CHR 0xD0, CHR 0xBE]"

definition KeyBackupStatusNotConfigured :: string where "KeyBackupStatusNotConfigured = ''not_configured''"
definition KeyBackupStatusConfigured :: string where "KeyBackupStatusConfigured = ''configured''"

section \<open>Structs\<close>

record User =
  user_ID :: string
  user_Login :: string
  user_Nickname :: string
  user_AvatarURL :: "string option"
  user_Bio :: "string option"
  user_Timezone :: "string option"
  user_ProfileAccent :: "string option"
  user_StatusText :: "string option"
  user_Birthday :: "int option"
  user_Country :: "string option"
  user_City :: "string option"
  user_ReadReceiptsEnabled :: bool
  user_PresenceEnabled :: bool
  user_TypingVisibilityEnabled :: bool
  user_PushNotificationsEnabled :: bool
  user_KeyBackupStatus :: string
  user_CreatedAt :: int
  user_UpdatedAt :: int

record Device =
  device_ID :: string
  device_UserID :: string
  device_Label :: string
  device_CreatedAt :: int
  device_LastSeenAt :: int
  device_RevokedAt :: "int option"
  device_AuthorityRevision :: int

record Session =
  session_ID :: string
  session_UserID :: string
  session_DeviceID :: string
  session_CreatedAt :: int
  session_LastSeenAt :: int
  session_RevokedAt :: "int option"
  session_AuthorityRevision :: int

record DeviceWithSessions =
  dws_Device :: Device
  dws_Sessions :: "Session list"

record BlockedUser =
  blocked_Profile :: User
  blocked_BlockedAt :: int

record PendingFriendRequest =
  pending_RequesterUserID :: string
  pending_AddresseeUserID :: string
  pending_CreatedAt :: int

record SocialGraphState =
  sg_HasBlock :: bool
  sg_AreFriends :: bool
  sg_PendingRequest :: "PendingFriendRequest option"

record FriendRequest =
  request_Profile :: User
  request_RequestedAt :: int

record Friend =
  friend_Profile :: User
  friend_FriendsSince :: int

record AuthSession =
  auth_User :: User
  auth_Device :: Device
  auth_Session :: Session
  auth_Token :: string

record RegisterInput =
  ri_Login :: string
  ri_Password :: string
  ri_Nickname :: string
  ri_DeviceLabel :: "string option"

record LoginInput =
  li_Login :: string
  li_Password :: string
  li_DeviceLabel :: "string option"

record ProfilePatch =
  patch_Nickname :: "string option"
  patch_AvatarURL :: "string option"
  patch_Bio :: "string option"
  patch_Timezone :: "string option"
  patch_ProfileAccent :: "string option"
  patch_StatusText :: "string option"
  patch_Birthday :: "string option"
  patch_Country :: "string option"
  patch_City :: "string option"
  patch_ReadReceiptsEnabled :: "bool option"
  patch_PresenceEnabled :: "bool option"
  patch_TypingVisibilityEnabled :: "bool option"
  patch_PushNotificationsEnabled :: "bool option"

record WebPushSubscription =
  wp_ID :: string
  wp_UserID :: string
  wp_Endpoint :: string
  wp_P256DHKey :: string
  wp_AuthSecret :: string
  wp_ExpirationTime :: "int option"
  wp_UserAgent :: "string option"
  wp_CreatedAt :: int
  wp_UpdatedAt :: int

record SessionTarget =
  target_SessionID :: "string option"
  target_DeviceID :: "string option"

record PasswordCredential =
  credential_User :: User
  credential_PasswordHash :: string

record SessionAuth =
  sa_User :: User
  sa_Device :: Device
  sa_Session :: Session
  sa_TokenHash :: string

record CreateAccountParams =
  ca_User :: User
  ca_PasswordHash :: string
  ca_Device :: Device
  ca_Session :: Session
  ca_TokenHash :: string

record CreateSessionParams =
  cs_UserID :: string
  cs_Device :: Device
  cs_Session :: Session
  cs_TokenHash :: string

text \<open>Strings are compared byte by byte.\<close>

definition CanonicalUserPair :: "string \<Rightarrow> string \<Rightarrow> string \<times> string" where
  "CanonicalUserPair firstUserID secondUserID =
     (if firstUserID < secondUserID then (firstUserID, secondUserID) else (secondUserID, firstUserID))"

section \<open>Normalisers\<close>

text \<open>\<open>strings.ToLower\<close> as the pattern of logins sees it: besides the ASCII letters, U+0130 (bytes C4 B0) and the
  Kelvin sign U+212A (bytes E2 84 AA) have a lower case in ASCII; every other rune stays outside ASCII.\<close>

function login_lower :: "string \<Rightarrow> string" where
  "login_lower s =
     (case s of [] \<Rightarrow> []
      | c # t \<Rightarrow>
         (case drop_prefix [CHR 0xC4, CHR 0xB0] s of
            Some r \<Rightarrow> CHR ''i'' # login_lower r
          | None \<Rightarrow>
             (case drop_prefix [CHR 0xE2, CHR 0x84, CHR 0xAA] s of
                Some r \<Rightarrow> CHR ''k'' # login_lower r
              | None \<Rightarrow> lower_ascii c # login_lower t)))"
  by pat_completeness auto
termination by (relation "measure length") (auto simp: drop_prefix_Some simp del: drop_prefix.simps)

declare login_lower.simps [simp del]

text \<open>\<open>^[a-z0-9._-]{3,32}$\<close>\<close>

definition login_char :: "char \<Rightarrow> bool" where
  "login_char c \<longleftrightarrow> (CHR ''a'' \<le> c \<and> c \<le> CHR ''z'') \<or> (CHR ''0'' \<le> c \<and> c \<le> CHR ''9'') \<or> c \<in> set ''._-''"

definition loginPattern :: "string \<Rightarrow> bool" where
  "loginPattern s \<longleftrightarrow> 3 \<le> length s \<and> length s \<le> 32 \<and> (\<forall>c\<in>set s. login_char c)"

definition normalizeLogin :: "string \<Rightarrow> identity_error + string" where
  "normalizeLogin login =
     (let value = login_lower (trim_space login) in if \<not> loginPattern value then Inl ErrInvalidArgument else Inr value)"

definition normalizeNickname :: "string \<Rightarrow> identity_error + string" where
  "normalizeNickname nickname =
     (let value = trim_space nickname in
      if value = '''' \<or> rune_count value > maxNicknameLen then Inl ErrInvalidArgument else Inr value)"

definition validatePassword :: "string \<Rightarrow> identity_error + unit" where
  "validatePassword password =
     (if length password < minPasswordLength \<or> length password > maxPasswordLength then Inl ErrInvalidArgument
      else Inr ())"

definition normalizeDeviceLabel :: "string option \<Rightarrow> identity_error + string" where
  "normalizeDeviceLabel label =
     (case label of
        None \<Rightarrow> Inr defaultDeviceName
      | Some l \<Rightarrow>
          let value = trim_space l in
          if value = '''' then Inr defaultDeviceName
          else if rune_count value > maxDeviceLabelLen then Inl ErrInvalidArgument
          else Inr value)"

definition normalizeOptionalString :: "string \<Rightarrow> nat \<Rightarrow> identity_error + string option" where
  "normalizeOptionalString value maxLen =
     (let trimmed = trim_space value in
      if trimmed = '''' then Inr None
      else if rune_count trimmed > maxLen then Inl ErrOther
      else Inr (Some trimmed))"

definition normalizeRevocationTargetID :: "uuid_parser \<Rightarrow> string \<Rightarrow> identity_error + string" where
  "normalizeRevocationTargetID parse value =
     (case parse (trim_space value) of None \<Rightarrow> Inl ErrInvalidArgument | Some u \<Rightarrow> Inr u)"

text \<open>\<open>time.Parse("2006-01-02", _)\<close>: four digits, two digits of a month and two of a day of that month. The instant is
  the midnight of that day in UTC, in nanoseconds since 1970.\<close>

definition digit :: "char \<Rightarrow> int option" where
  "digit c = (if CHR ''0'' \<le> c \<and> c \<le> CHR ''9'' then Some (int (of_char c) - 48) else None)"

fun number :: "int \<Rightarrow> string \<Rightarrow> int option" where
  "number n [] = Some n"
| "number n (c # s) = (case digit c of None \<Rightarrow> None | Some d \<Rightarrow> number (n * 10 + d) s)"

definition isLeap :: "int \<Rightarrow> bool" where
  "isLeap year \<longleftrightarrow> year mod 4 = 0 \<and> (year mod 100 \<noteq> 0 \<or> year mod 400 = 0)"

definition daysIn :: "int \<Rightarrow> int \<Rightarrow> int" where
  "daysIn month year = (if month = 2 then (if isLeap year then 29 else 28) else if month \<in> {4, 6, 9, 11} then 30 else 31)"

definition days_before_year :: "int \<Rightarrow> int" where
  "days_before_year year = 365 * year + (year + 3) div 4 - (year + 99) div 100 + (year + 399) div 400"

definition days_before_month :: "int \<Rightarrow> int \<Rightarrow> int" where
  "days_before_month month year = sum_list (map (\<lambda>m. daysIn (int m) year) [1..<nat month])"

definition Date_UTC :: "int \<Rightarrow> int \<Rightarrow> int \<Rightarrow> int" where
  "Date_UTC year month day =
     (days_before_year year - days_before_year 1970 + days_before_month month year + day - 1) * 86400 * 1000000000"

definition time_Parse_date :: "string \<Rightarrow> int option" where
  "time_Parse_date s =
     (case s of
        [a, b, c, d, p, e, f, q, g, h] \<Rightarrow>
          (case (number 0 [a, b, c, d], number 0 [e, f], number 0 [g, h]) of
             (Some year, Some month, Some day) \<Rightarrow>
               if p = CHR ''-'' \<and> q = CHR ''-'' \<and> 1 \<le> month \<and> month \<le> 12 \<and> 1 \<le> day \<and> day \<le> daysIn month year
               then Some (Date_UTC year month day) else None
           | _ \<Rightarrow> None)
      | _ \<Rightarrow> None)"

definition normalizeBirthday :: "string \<Rightarrow> identity_error + int option" where
  "normalizeBirthday value =
     (let trimmed = trim_space value in
      if trimmed = '''' then Inr None
      else case time_Parse_date trimmed of None \<Rightarrow> Inl ErrInvalidArgument | Some t \<Rightarrow> Inr (Some t))"

section \<open>The profile patch\<close>

definition patch_text :: "string option \<Rightarrow> nat \<Rightarrow> string option \<Rightarrow> identity_error + string option" where
  "patch_text new maxLen old =
     (case new of
        None \<Rightarrow> Inr old
      | Some value \<Rightarrow> (case normalizeOptionalString value maxLen of Inl _ \<Rightarrow> Inl ErrInvalidArgument | Inr v \<Rightarrow> Inr v))"

definition patch_bool :: "bool option \<Rightarrow> bool \<Rightarrow> bool" where
  "patch_bool new old = (case new of None \<Rightarrow> old | Some b \<Rightarrow> b)"

definition applyProfilePatch :: "User \<Rightarrow> ProfilePatch \<Rightarrow> identity_error + User" where
  "applyProfilePatch user patch =
     bindS (patch_text (patch_AvatarURL patch) maxAvatarURLLen (user_AvatarURL user)) (\<lambda>avatarURL.
     bindS (patch_text (patch_Bio patch) maxBioLen (user_Bio user)) (\<lambda>bio.
     bindS (patch_text (patch_Timezone patch) maxTimezoneLen (user_Timezone user)) (\<lambda>timezone.
     bindS (patch_text (patch_ProfileAccent patch) maxAccentLen (user_ProfileAccent user)) (\<lambda>accent.
     bindS (patch_text (patch_StatusText patch) maxStatusTextLen (user_StatusText user)) (\<lambda>status.
     bindS (case patch_Birthday patch of None \<Rightarrow> Inr (user_Birthday user) | Some b \<Rightarrow> normalizeBirthday b) (\<lambda>birthday.
     bindS (patch_text (patch_Country patch) maxCountryLen (user_Country user)) (\<lambda>country.
     bindS (patch_text (patch_City patch) maxCityLen (user_City user)) (\<lambda>city.
     Inr (user\<lparr>user_AvatarURL := avatarURL, user_Bio := bio, user_Timezone := timezone,
       user_ProfileAccent := accent, user_StatusText := status, user_Birthday := birthday,
       user_Country := country, user_City := city,
       user_ReadReceiptsEnabled := patch_bool (patch_ReadReceiptsEnabled patch) (user_ReadReceiptsEnabled user),
       user_PresenceEnabled := patch_bool (patch_PresenceEnabled patch) (user_PresenceEnabled user),
       user_TypingVisibilityEnabled :=
         patch_bool (patch_TypingVisibilityEnabled patch) (user_TypingVisibilityEnabled user),
       user_PushNotificationsEnabled :=
         patch_bool (patch_PushNotificationsEnabled patch) (user_PushNotificationsEnabled user)\<rparr>)))))))))"

section \<open>Password admission\<close>

text \<open>\<open>PasswordAdmission\<close>: how many logins may have their password hashed at a time, and which ones have. Its mutex
  makes each method one step.\<close>

record PasswordAdmission =
  pa_maximum :: int
  pa_active :: "string list"

definition NewPasswordAdmission :: "int \<Rightarrow> identity_error + PasswordAdmission" where
  "NewPasswordAdmission maximum =
     (if maximum < 1 \<or> maximum > 8 then Inl ErrOther else Inr \<lparr>pa_maximum = maximum, pa_active = []\<rparr>)"

definition acquire :: "identity_error option \<Rightarrow> string \<Rightarrow> PasswordAdmission \<Rightarrow> identity_error + PasswordAdmission" where
  "acquire ctxErr login a =
     (case ctxErr of
        Some e \<Rightarrow> Inl e
      | None \<Rightarrow>
          if login \<in> set (pa_active a) \<or> int (length (pa_active a)) \<ge> pa_maximum a then Inl ErrResourceExhausted
          else Inr (a\<lparr>pa_active := login # pa_active a\<rparr>))"

text \<open>The function that \<open>acquire\<close> returns, at its first call (\<open>sync.Once\<close>).\<close>

definition release :: "string \<Rightarrow> PasswordAdmission \<Rightarrow> PasswordAdmission" where
  "release login a = a\<lparr>pa_active := removeAll login (pa_active a)\<rparr>"

text \<open>The record that \<open>Verify\<close> is given for a login that does not exist; its text does not matter to the model.\<close>

definition publicDummyPasswordHash :: string where
  "publicDummyPasswordHash =
     ''$argon2id$v=19$m=65536,t=3,p=2$AAAAAAAAAAAAAAAAAAAAAA$AAAAAAAAAAAAAAAAAAAAAAAAAAAAAAAAAAAAAAAAAAA''"

section \<open>The authority of a session\<close>

definition AuthorityActive :: string where "AuthorityActive = ''active''"
definition AuthorityRevoked :: string where "AuthorityRevoked = ''revoked''"
definition AuthorityNotFound :: string where "AuthorityNotFound = ''not_found''"
definition math_MaxInt64 :: int where "math_MaxInt64 = 9223372036854775807"

record SessionAuthority =
  authority_UserID :: string
  authority_SessionID :: string
  authority_DeviceID :: string
  authority_SessionRevision :: int
  authority_DeviceRevision :: int
  authority_Status :: string

definition no_authority :: SessionAuthority where
  "no_authority = \<lparr>authority_UserID = '''', authority_SessionID = '''', authority_DeviceID = '''',
     authority_SessionRevision = 0, authority_DeviceRevision = 0, authority_Status = AuthorityNotFound\<rparr>"

definition sessionAuthority :: "SessionAuth \<Rightarrow> identity_error + SessionAuthority" where
  "sessionAuthority snapshot =
     (let u = sa_User snapshot; d = sa_Device snapshot; s = sa_Session snapshot in
      if user_ID u = '''' \<or> session_ID s = '''' \<or> device_ID d = '''' \<or>
         user_ID u \<noteq> session_UserID s \<or> user_ID u \<noteq> device_UserID d \<or> device_ID d \<noteq> session_DeviceID s \<or>
         session_AuthorityRevision s < 1 \<or> device_AuthorityRevision d < 1 \<or>
         (session_RevokedAt s = None \<and> session_AuthorityRevision s = math_MaxInt64) \<or>
         (device_RevokedAt d = None \<and> device_AuthorityRevision d = math_MaxInt64)
      then Inl ErrAuthorityUnavailable
      else Inr \<lparr>authority_UserID = user_ID u, authority_SessionID = session_ID s, authority_DeviceID = device_ID d,
             authority_SessionRevision = session_AuthorityRevision s,
             authority_DeviceRevision = device_AuthorityRevision d,
             authority_Status =
               (if session_RevokedAt s \<noteq> None \<or> device_RevokedAt d \<noteq> None then AuthorityRevoked else AuthorityActive)\<rparr>)"

end
