(* ===== verification/Identity_Store.thy ===== *)
theory Identity_Store
  imports Identity_Model Delivery_Store
begin

text \<open>
  The Postgres tables of \<open>aero-identity\<close> (\<open>db/schema\<close>, migrations 1, 2, 6, 7 and 8) and the queries of
  \<open>internal/storage/sqlc/queries.sql.go\<close> on them. A table is the list of its rows, a query is a transaction. The rows of
  users, devices and web push subscriptions are the structs that \<open>repository.go\<close> makes of them column by column, a
  session's row has its token hash besides. A statement that would break a CHECK (23514), a unique index (23505, with the
  name of the constraint) or a foreign key (23503) fails with that code. Where several rows are returned in the order
  of a time, rows with the same time keep the order of the table.
\<close>

section \<open>Tables\<close>

record CredentialRow =
  cr_UserID :: uuid
  cr_PasswordHash :: string
  cr_CreatedAt :: int
  cr_UpdatedAt :: int

record SessionRow = Session +
  row_TokenHash :: string

record BlockRow =
  b_BlockerUserID :: uuid
  b_BlockedUserID :: uuid
  b_CreatedAt :: int

record FriendRequestRow =
  fr_RequesterUserID :: uuid
  fr_AddresseeUserID :: uuid
  fr_UserLowID :: uuid
  fr_UserHighID :: uuid
  fr_CreatedAt :: int

record FriendshipRow =
  f_UserLowID :: uuid
  f_UserHighID :: uuid
  f_CreatedAt :: int

text \<open>\<open>authority\<close> holds \<open>identity_authority_revocation_outbox\<close> and \<open>identity_revocation_delivery\<close>.\<close>

record identity_db =
  users :: "User list"
  user_password_credentials :: "CredentialRow list"
  user_devices :: "Device list"
  user_sessions :: "SessionRow list"
  user_blocks :: "BlockRow list"
  user_friend_requests :: "FriendRequestRow list"
  user_friendships :: "FriendshipRow list"
  web_push_subscriptions :: "WebPushSubscription list"
  authority :: "IdentityEvent delivery_db"

type_synonym 'a identity_tx = "(identity_db, identity_error, 'a) tx"

definition oneRow :: "'r option \<Rightarrow> 'r identity_tx" where
  "oneRow r = (case r of None \<Rightarrow> failT ErrNoRows | Some x \<Rightarrow> returnT x)"

definition find_user :: "identity_db \<Rightarrow> uuid \<Rightarrow> User option" where
  "find_user db u = find (\<lambda>r. user_ID r = u) (users db)"

definition find_login :: "identity_db \<Rightarrow> string \<Rightarrow> User option" where
  "find_login db login = find (\<lambda>r. user_Login r = login) (users db)"

definition find_device :: "identity_db \<Rightarrow> uuid \<Rightarrow> Device option" where
  "find_device db d = find (\<lambda>r. device_ID r = d) (user_devices db)"

definition find_session :: "identity_db \<Rightarrow> uuid \<Rightarrow> SessionRow option" where
  "find_session db s = find (\<lambda>r. session_ID r = s) (user_sessions db)"

section \<open>Constraints\<close>

definition user_check :: "User \<Rightarrow> bool" where
  "user_check u \<longleftrightarrow>
     loginPattern (user_Login u) \<and> 1 \<le> rune_count (user_Nickname u) \<and> rune_count (user_Nickname u) \<le> 64 \<and>
     user_KeyBackupStatus u \<in> {''not_configured'', ''configured''}"

definition device_check :: "Device \<Rightarrow> bool" where
  "device_check d \<longleftrightarrow>
     1 \<le> rune_count (device_Label d) \<and> rune_count (device_Label d) \<le> 120 \<and> device_AuthorityRevision d > 0 \<and>
     (device_RevokedAt d \<noteq> None \<or> device_AuthorityRevision d < max_int64)"

definition session_check :: "SessionRow \<Rightarrow> bool" where
  "session_check s \<longleftrightarrow>
     rune_count (row_TokenHash s) = 64 \<and> session_AuthorityRevision s > 0 \<and>
     (session_RevokedAt s \<noteq> None \<or> session_AuthorityRevision s < max_int64)"

definition request_check :: "FriendRequestRow \<Rightarrow> bool" where
  "request_check r \<longleftrightarrow>
     fr_RequesterUserID r \<noteq> fr_AddresseeUserID r \<and> fr_UserLowID r \<noteq> fr_UserHighID r \<and>
     (fr_RequesterUserID r = fr_UserLowID r \<and> fr_AddresseeUserID r = fr_UserHighID r \<or>
      fr_RequesterUserID r = fr_UserHighID r \<and> fr_AddresseeUserID r = fr_UserLowID r)"

text \<open>\<open>identity_authority_revocation_subject_shape\<close>; a NULL session is \<open>uuid.Nil\<close> in the event.\<close>

definition event_check :: "IdentityEvent \<Rightarrow> bool" where
  "event_check e \<longleftrightarrow>
     ie_Revision e > 0 \<and>
     (ie_Kind e = ''session'' \<and> ie_SubjectID e = ie_SessionID e \<or>
      ie_Kind e = ''device'' \<and> ie_SessionID e = uuid_Nil \<and> ie_SubjectID e = ie_DeviceID e)"

section \<open>Accounts, devices and sessions\<close>

definition CreateUser :: "User \<Rightarrow> User identity_tx" where
  "CreateUser u = (\<lambda>db.
     if \<not> user_check u then Inl (PgError ''23514'' '''')
     else if find_user db (user_ID u) \<noteq> None then Inl (PgError ''23505'' ''users_pkey'')
     else if find_login db (user_Login u) \<noteq> None then Inl (PgError ''23505'' ''users_login_key'')
     else Inr (u, db\<lparr>users := users db @ [u]\<rparr>))"

definition CreateUserPasswordCredential :: "CredentialRow \<Rightarrow> unit identity_tx" where
  "CreateUserPasswordCredential c = (\<lambda>db.
     if \<exists>x\<in>set (user_password_credentials db). cr_UserID x = cr_UserID c
     then Inl (PgError ''23505'' ''user_password_credentials_pkey'')
     else if find_user db (cr_UserID c) = None then Inl (PgError ''23503'' '''')
     else Inr ((), db\<lparr>user_password_credentials := user_password_credentials db @ [c]\<rparr>))"

text \<open>The revision of a new row is its default.\<close>

definition CreateDevice :: "Device \<Rightarrow> Device identity_tx" where
  "CreateDevice params = (\<lambda>db.
     let d = params\<lparr>device_AuthorityRevision := 1\<rparr> in
     if \<not> device_check d then Inl (PgError ''23514'' '''')
     else if find_device db (device_ID d) \<noteq> None then Inl (PgError ''23505'' ''user_devices_pkey'')
     else if find_user db (device_UserID d) = None then Inl (PgError ''23503'' '''')
     else Inr (d, db\<lparr>user_devices := user_devices db @ [d]\<rparr>))"

definition CreateSession_sql :: "SessionRow \<Rightarrow> SessionRow identity_tx" where
  "CreateSession_sql params = (\<lambda>db.
     let s = params\<lparr>session_AuthorityRevision := 1\<rparr> in
     if \<not> session_check s then Inl (PgError ''23514'' '''')
     else if find_session db (session_ID s) \<noteq> None then Inl (PgError ''23505'' ''user_sessions_pkey'')
     else if find_user db (session_UserID s) = None \<or> find_device db (session_DeviceID s) = None
     then Inl (PgError ''23503'' '''')
     else Inr (s, db\<lparr>user_sessions := user_sessions db @ [s]\<rparr>))"

definition GetUserByID :: "uuid \<Rightarrow> User identity_tx" where
  "GetUserByID u = (\<lambda>db. oneRow (find_user db u) db)"

definition GetUserByLogin_sql :: "string \<Rightarrow> User identity_tx" where
  "GetUserByLogin_sql login = (\<lambda>db. oneRow (find_login db login) db)"

definition GetPasswordCredentialByLogin_sql :: "string \<Rightarrow> (User \<times> CredentialRow) identity_tx" where
  "GetPasswordCredentialByLogin_sql login = (\<lambda>db.
     oneRow (case find_login db login of
        None \<Rightarrow> None
      | Some u \<Rightarrow> map_option (Pair u) (find (\<lambda>c. cr_UserID c = user_ID u) (user_password_credentials db))) db)"

definition session_rows :: "identity_db \<Rightarrow> uuid \<Rightarrow> (SessionRow \<times> Device \<times> User) option" where
  "session_rows db i =
     (case find_session db i of
        None \<Rightarrow> None
      | Some s \<Rightarrow> (case (find_device db (session_DeviceID s), find_user db (session_UserID s)) of
            (Some d, Some u) \<Rightarrow> Some (s, d, u) | _ \<Rightarrow> None))"

definition GetSessionAuthByID_sql :: "uuid \<Rightarrow> (SessionRow \<times> Device \<times> User) identity_tx" where
  "GetSessionAuthByID_sql i = (\<lambda>db. oneRow (session_rows db i) db)"

definition TouchSessionAndDevice :: "uuid \<Rightarrow> uuid \<Rightarrow> int \<Rightarrow> unit identity_tx" where
  "TouchSessionAndDevice i d t = (\<lambda>db. Inr ((), db\<lparr>
     user_sessions := map (\<lambda>s. if session_ID s = i \<and> session_DeviceID s = d then s\<lparr>session_LastSeenAt := t\<rparr> else s)
       (user_sessions db),
     user_devices := map (\<lambda>x. if device_ID x = d then x\<lparr>device_LastSeenAt := t\<rparr> else x) (user_devices db)\<rparr>))"

definition UpdateUserProfile_sql :: "User \<Rightarrow> User identity_tx" where
  "UpdateUserProfile_sql u = (\<lambda>db.
     case find_user db (user_ID u) of
       None \<Rightarrow> Inl ErrNoRows
     | Some old \<Rightarrow>
         let new = u\<lparr>user_Login := user_Login old, user_CreatedAt := user_CreatedAt old\<rparr> in
         if \<not> user_check new then Inl (PgError ''23514'' '''')
         else Inr (new, db\<lparr>users := map (\<lambda>r. if user_ID r = user_ID u then new else r) (users db)\<rparr>))"

definition revoke_session_row :: "int \<Rightarrow> SessionRow \<Rightarrow> SessionRow" where
  "revoke_session_row t s =
     s\<lparr>session_RevokedAt := Some t, session_AuthorityRevision := session_AuthorityRevision s + 1\<rparr>"

text \<open>The addition cannot overflow: an active row is below the largest revision by its CHECK.\<close>

definition RevokeSession_sql :: "uuid \<Rightarrow> uuid \<Rightarrow> int \<Rightarrow> SessionRow identity_tx" where
  "RevokeSession_sql i u t = (\<lambda>db.
     case find_session db i of
       None \<Rightarrow> Inl ErrNoRows
     | Some s \<Rightarrow>
         if session_UserID s \<noteq> u \<or> session_RevokedAt s \<noteq> None then Inl ErrNoRows
         else Inr (revoke_session_row t s,
                db\<lparr>user_sessions := map (\<lambda>r. if session_ID r = i then revoke_session_row t r else r) (user_sessions db)\<rparr>))"

definition revoke_device_row :: "int \<Rightarrow> Device \<Rightarrow> Device" where
  "revoke_device_row t d =
     d\<lparr>device_RevokedAt := Some t, device_AuthorityRevision := device_AuthorityRevision d + 1\<rparr>"

definition RevokeDevice_sql :: "uuid \<Rightarrow> uuid \<Rightarrow> int \<Rightarrow> Device identity_tx" where
  "RevokeDevice_sql i u t = (\<lambda>db.
     case find_device db i of
       None \<Rightarrow> Inl ErrNoRows
     | Some d \<Rightarrow>
         if device_UserID d \<noteq> u \<or> device_RevokedAt d \<noteq> None then Inl ErrNoRows
         else Inr (revoke_device_row t d,
                db\<lparr>user_devices := map (\<lambda>r. if device_ID r = i then revoke_device_row t r else r) (user_devices db)\<rparr>))"

definition RevokeDeviceSessions :: "uuid \<Rightarrow> uuid \<Rightarrow> int \<Rightarrow> unit identity_tx" where
  "RevokeDeviceSessions d u t = (\<lambda>db. Inr ((), db\<lparr>user_sessions :=
     map (\<lambda>s. if session_DeviceID s = d \<and> session_UserID s = u \<and> session_RevokedAt s = None
              then revoke_session_row t s else s) (user_sessions db)\<rparr>))"

text \<open>The event and its delivery row; \<open>identity_authority_revocation_once\<close> is the unique index. \<open>clock\<close> is
  \<open>clock_timestamp()\<close>.\<close>

definition insert_event :: "int \<Rightarrow> IdentityEvent \<Rightarrow> int \<Rightarrow> unit identity_tx" where
  "insert_event clock e occurredAt = (\<lambda>db.
     if \<not> event_check e then Inl (PgError ''23514'' '''')
     else if \<exists>o'\<in>set (outbox (authority db)). ie_Kind (o_Event o') = ie_Kind e \<and>
             ie_SubjectID (o_Event o') = ie_SubjectID e \<and> ie_Revision (o_Event o') = ie_Revision e
     then Inl (PgError ''23505'' ''identity_authority_revocation_once'')
     else case CreateAuthorityRevocationEvent identity_kind \<lparr>o_Event = e, o_OccurredAt = occurredAt\<rparr> clock
                 (authority db) of
            Inl _ \<Rightarrow> Inl (PgError ''23505'' ''identity_authority_revocation_outbox_pkey'')
          | Inr (_, d) \<Rightarrow> Inr ((), db\<lparr>authority := d\<rparr>))"

definition ListDevicesByUserID :: "uuid \<Rightarrow> Device list identity_tx" where
  "ListDevicesByUserID u = (\<lambda>db.
     Inr (sort_key (\<lambda>d. - device_CreatedAt d) (filter (\<lambda>d. device_UserID d = u) (user_devices db)), db))"

definition ListSessionsByUserID :: "uuid \<Rightarrow> SessionRow list identity_tx" where
  "ListSessionsByUserID u = (\<lambda>db.
     Inr (sort_key (\<lambda>s. - session_CreatedAt s) (filter (\<lambda>s. session_UserID s = u) (user_sessions db)), db))"

section \<open>The social graph\<close>

definition has_block :: "identity_db \<Rightarrow> uuid \<Rightarrow> uuid \<Rightarrow> bool" where
  "has_block db a b \<longleftrightarrow>
     (\<exists>r\<in>set (user_blocks db). b_BlockerUserID r = a \<and> b_BlockedUserID r = b \<or>
        b_BlockerUserID r = b \<and> b_BlockedUserID r = a)"

definition find_friendship :: "identity_db \<Rightarrow> uuid \<Rightarrow> uuid \<Rightarrow> FriendshipRow option" where
  "find_friendship db low high = find (\<lambda>r. f_UserLowID r = low \<and> f_UserHighID r = high) (user_friendships db)"

definition find_request :: "identity_db \<Rightarrow> uuid \<Rightarrow> uuid \<Rightarrow> FriendRequestRow option" where
  "find_request db low high = find (\<lambda>r. fr_UserLowID r = low \<and> fr_UserHighID r = high) (user_friend_requests db)"

definition GetSocialGraphState_sql ::
    "uuid \<Rightarrow> uuid \<Rightarrow> uuid \<Rightarrow> uuid \<Rightarrow> (bool \<times> bool \<times> FriendRequestRow option) identity_tx" where
  "GetSocialGraphState_sql a b low high = (\<lambda>db.
     Inr ((has_block db a b, find_friendship db low high \<noteq> None, find_request db low high), db))"

definition CreateFriendRequest_sql :: "FriendRequestRow \<Rightarrow> unit identity_tx" where
  "CreateFriendRequest_sql r = (\<lambda>db.
     if \<not> request_check r then Inl (PgError ''23514'' '''')
     else if find_request db (fr_UserLowID r) (fr_UserHighID r) \<noteq> None
     then Inl (PgError ''23505'' ''user_friend_requests_pkey'')
     else if find_user db (fr_UserLowID r) = None \<or> find_user db (fr_UserHighID r) = None
     then Inl (PgError ''23503'' '''')
     else Inr ((), db\<lparr>user_friend_requests := user_friend_requests db @ [r]\<rparr>))"

definition DeleteFriendRequest_sql :: "uuid \<Rightarrow> uuid \<Rightarrow> nat identity_tx" where
  "DeleteFriendRequest_sql a b = (\<lambda>db.
     let hit = (\<lambda>r. fr_RequesterUserID r = a \<and> fr_AddresseeUserID r = b) in
     Inr (length (filter hit (user_friend_requests db)),
       db\<lparr>user_friend_requests := filter (\<lambda>r. \<not> hit r) (user_friend_requests db)\<rparr>))"

definition DeleteFriendRequestsByPair :: "uuid \<Rightarrow> uuid \<Rightarrow> unit identity_tx" where
  "DeleteFriendRequestsByPair low high = (\<lambda>db. Inr ((), db\<lparr>user_friend_requests :=
     filter (\<lambda>r. \<not> (fr_UserLowID r = low \<and> fr_UserHighID r = high)) (user_friend_requests db)\<rparr>))"

definition CreateFriendship :: "FriendshipRow \<Rightarrow> unit identity_tx" where
  "CreateFriendship r = (\<lambda>db.
     if f_UserLowID r = f_UserHighID r then Inl (PgError ''23514'' '''')
     else if find_friendship db (f_UserLowID r) (f_UserHighID r) \<noteq> None
     then Inl (PgError ''23505'' ''user_friendships_pkey'')
     else if find_user db (f_UserLowID r) = None \<or> find_user db (f_UserHighID r) = None
     then Inl (PgError ''23503'' '''')
     else Inr ((), db\<lparr>user_friendships := user_friendships db @ [r]\<rparr>))"

definition DeleteFriendshipByPair :: "uuid \<Rightarrow> uuid \<Rightarrow> nat identity_tx" where
  "DeleteFriendshipByPair low high = (\<lambda>db.
     let hit = (\<lambda>r. f_UserLowID r = low \<and> f_UserHighID r = high) in
     Inr (length (filter hit (user_friendships db)),
       db\<lparr>user_friendships := filter (\<lambda>r. \<not> hit r) (user_friendships db)\<rparr>))"

text \<open>\<open>ON CONFLICT DO NOTHING\<close>; the CHECK comes first.\<close>

definition CreateUserBlock :: "BlockRow \<Rightarrow> unit identity_tx" where
  "CreateUserBlock r = (\<lambda>db.
     if b_BlockerUserID r = b_BlockedUserID r then Inl (PgError ''23514'' '''')
     else if \<exists>x\<in>set (user_blocks db). b_BlockerUserID x = b_BlockerUserID r \<and> b_BlockedUserID x = b_BlockedUserID r
     then Inr ((), db)
     else if find_user db (b_BlockerUserID r) = None \<or> find_user db (b_BlockedUserID r) = None
     then Inl (PgError ''23503'' '''')
     else Inr ((), db\<lparr>user_blocks := user_blocks db @ [r]\<rparr>))"

definition DeleteUserBlock :: "uuid \<Rightarrow> uuid \<Rightarrow> nat identity_tx" where
  "DeleteUserBlock a b = (\<lambda>db.
     let hit = (\<lambda>r. b_BlockerUserID r = a \<and> b_BlockedUserID r = b) in
     Inr (length (filter hit (user_blocks db)), db\<lparr>user_blocks := filter (\<lambda>r. \<not> hit r) (user_blocks db)\<rparr>))"

text \<open>An inner join with \<open>users\<close>.\<close>

definition with_user :: "identity_db \<Rightarrow> ('r \<Rightarrow> uuid) \<Rightarrow> 'r list \<Rightarrow> ('r \<times> User) list" where
  "with_user db key rs = [(r, u). r \<leftarrow> rs, u \<leftarrow> users db, user_ID u = key r]"

definition ListBlockedUsersByUserID :: "uuid \<Rightarrow> (BlockRow \<times> User) list identity_tx" where
  "ListBlockedUsersByUserID u = (\<lambda>db.
     Inr (with_user db b_BlockedUserID
       (sort_key (\<lambda>r. - b_CreatedAt r) (filter (\<lambda>r. b_BlockerUserID r = u) (user_blocks db))), db))"

definition ListIncomingFriendRequestsByUserID :: "uuid \<Rightarrow> (FriendRequestRow \<times> User) list identity_tx" where
  "ListIncomingFriendRequestsByUserID u = (\<lambda>db.
     Inr (with_user db fr_RequesterUserID
       (sort_key (\<lambda>r. - fr_CreatedAt r) (filter (\<lambda>r. fr_AddresseeUserID r = u) (user_friend_requests db))), db))"

definition ListOutgoingFriendRequestsByUserID :: "uuid \<Rightarrow> (FriendRequestRow \<times> User) list identity_tx" where
  "ListOutgoingFriendRequestsByUserID u = (\<lambda>db.
     Inr (with_user db fr_AddresseeUserID
       (sort_key (\<lambda>r. - fr_CreatedAt r) (filter (\<lambda>r. fr_RequesterUserID r = u) (user_friend_requests db))), db))"

definition other_end :: "uuid \<Rightarrow> FriendshipRow \<Rightarrow> uuid" where
  "other_end u r = (if f_UserLowID r = u then f_UserHighID r else f_UserLowID r)"

definition ListFriendsByUserID :: "uuid \<Rightarrow> (FriendshipRow \<times> User) list identity_tx" where
  "ListFriendsByUserID u = (\<lambda>db.
     Inr (with_user db (other_end u)
       (sort_key (\<lambda>r. - f_CreatedAt r)
         (filter (\<lambda>r. f_UserLowID r = u \<or> f_UserHighID r = u) (user_friendships db))), db))"

section \<open>Web push subscriptions\<close>

definition ListWebPushSubscriptionsByUserID :: "uuid \<Rightarrow> WebPushSubscription list identity_tx" where
  "ListWebPushSubscriptionsByUserID u = (\<lambda>db.
     Inr (sort_key (\<lambda>s. - wp_CreatedAt s) (filter (\<lambda>s. wp_UserID s = u) (web_push_subscriptions db)), db))"

definition DeleteWebPushSubscriptionsByIDs_sql :: "uuid list \<Rightarrow> nat identity_tx" where
  "DeleteWebPushSubscriptionsByIDs_sql ids = (\<lambda>db.
     Inr (length (filter (\<lambda>s. wp_ID s \<in> set ids) (web_push_subscriptions db)),
       db\<lparr>web_push_subscriptions := filter (\<lambda>s. wp_ID s \<notin> set ids) (web_push_subscriptions db)\<rparr>))"

text \<open>\<open>ON CONFLICT (endpoint) DO UPDATE\<close>: the row keeps its identifier and its creation time.\<close>

definition UpsertWebPushSubscription_sql :: "WebPushSubscription \<Rightarrow> unit identity_tx" where
  "UpsertWebPushSubscription_sql s = (\<lambda>db.
     let taken = (\<exists>x\<in>set (web_push_subscriptions db). wp_Endpoint x = wp_Endpoint s) in
     if \<not> taken \<and> (\<exists>x\<in>set (web_push_subscriptions db). wp_ID x = wp_ID s)
     then Inl (PgError ''23505'' ''web_push_subscriptions_pkey'')
     else if find_user db (wp_UserID s) = None then Inl (PgError ''23503'' '''')
     else if taken
     then Inr ((), db\<lparr>web_push_subscriptions := map (\<lambda>x. if wp_Endpoint x = wp_Endpoint s
            then s\<lparr>wp_ID := wp_ID x, wp_CreatedAt := wp_CreatedAt x\<rparr> else x) (web_push_subscriptions db)\<rparr>)
     else Inr ((), db\<lparr>web_push_subscriptions := web_push_subscriptions db @ [s]\<rparr>))"

definition DeleteWebPushSubscriptionByUserIDAndEndpoint :: "uuid \<Rightarrow> string \<Rightarrow> nat identity_tx" where
  "DeleteWebPushSubscriptionByUserIDAndEndpoint u endpoint = (\<lambda>db.
     let hit = (\<lambda>s. wp_UserID s = u \<and> wp_Endpoint s = endpoint) in
     Inr (length (filter hit (web_push_subscriptions db)),
       db\<lparr>web_push_subscriptions := filter (\<lambda>s. \<not> hit s) (web_push_subscriptions db)\<rparr>))"

end
