(* ===== verification/Identity_Repository.thy ===== *)
theory Identity_Repository
  imports Identity_Store
begin

text \<open>
  The repository of \<open>aero-identity\<close> (\<open>internal/storage/postgres/repository.go\<close> and \<open>social_graph.go\<close>) as transactions.
  \<open>begin\<close> to \<open>commit\<close> is one transaction, a method that runs a single statement is one too. \<open>mustParseUUID\<close> panics.
  \<open>ipg\<close> is what a transaction takes from the server and the generator: \<open>clock_timestamp()\<close> and \<open>uuid.New()\<close>.
\<close>

record ipg =
  clock_timestamp :: int
  uuid_New :: uuid

definition convertError :: "identity_error \<Rightarrow> identity_error" where
  "convertError err =
     (case err of
        ErrNoRows \<Rightarrow> ErrNotFound
      | PgError code constraint \<Rightarrow>
          if code = ''23505'' then (if constraint = ''users_login_key'' then ErrLoginTaken else ErrConflict) else err
      | _ \<Rightarrow> err)"

definition query :: "('d, identity_error, 'a) tx \<Rightarrow> ('d, identity_error, 'a) tx" where
  "query m = mapErrT convertError m"

definition mustParseUUID :: "uuid_parser \<Rightarrow> string \<Rightarrow> identity_error + uuid" where
  "mustParseUUID parse value = (case parse value of None \<Rightarrow> Inl Panic | Some u \<Rightarrow> Inr u)"

definition with_uuid :: "uuid_parser \<Rightarrow> string \<Rightarrow> (uuid \<Rightarrow> ('d, identity_error, 'a) tx) \<Rightarrow> ('d, identity_error, 'a) tx" where
  "with_uuid parse value m = bindT (liftT (mustParseUUID parse value)) m"

section \<open>Accounts and sessions\<close>

definition toDomainSession :: "SessionRow \<Rightarrow> Session" where
  "toDomainSession row = Session.truncate row"

definition session_row :: "Session \<Rightarrow> string \<Rightarrow> SessionRow" where
  "session_row s tokenHash = Session.extend s (SessionRow.fields tokenHash)"

definition CreateAccount_tx :: "uuid_parser \<Rightarrow> CreateAccountParams \<Rightarrow> AuthSession identity_tx" where
  "CreateAccount_tx parse params =
     (let user = ca_User params; device = ca_Device params; session = ca_Session params in
      with_uuid parse (user_ID user) (\<lambda>u.
      bindT (query (CreateUser (user\<lparr>user_ID := u\<rparr>))) (\<lambda>userRow.
      bindT (query (CreateUserPasswordCredential
               \<lparr>cr_UserID = u, cr_PasswordHash = ca_PasswordHash params, cr_CreatedAt = user_CreatedAt user,
                cr_UpdatedAt = user_UpdatedAt user\<rparr>)) (\<lambda>_.
      with_uuid parse (device_ID device) (\<lambda>d.
      with_uuid parse (device_UserID device) (\<lambda>du.
      bindT (query (CreateDevice (device\<lparr>device_ID := d, device_UserID := du\<rparr>))) (\<lambda>deviceRow.
      with_uuid parse (session_ID session) (\<lambda>s.
      with_uuid parse (session_UserID session) (\<lambda>su.
      with_uuid parse (session_DeviceID session) (\<lambda>sd.
      bindT (query (CreateSession_sql
               (session_row (session\<lparr>session_ID := s, session_UserID := su, session_DeviceID := sd\<rparr>)
                  (ca_TokenHash params)))) (\<lambda>sessionRow.
      returnT \<lparr>auth_User = userRow, auth_Device = deviceRow, auth_Session = toDomainSession sessionRow,
               auth_Token = ''''\<rparr>)))))))))))"

definition GetPasswordCredentialByLogin_tx :: "string \<Rightarrow> PasswordCredential identity_tx" where
  "GetPasswordCredentialByLogin_tx login =
     bindT (query (GetPasswordCredentialByLogin_sql login)) (\<lambda>(u, c).
     returnT \<lparr>credential_User = u, credential_PasswordHash = cr_PasswordHash c\<rparr>)"

definition CreateSession_tx :: "uuid_parser \<Rightarrow> CreateSessionParams \<Rightarrow> AuthSession identity_tx" where
  "CreateSession_tx parse params =
     (let device = cs_Device params; session = cs_Session params in
      with_uuid parse (device_ID device) (\<lambda>d.
      with_uuid parse (cs_UserID params) (\<lambda>u.
      bindT (query (CreateDevice (device\<lparr>device_ID := d, device_UserID := u\<rparr>))) (\<lambda>deviceRow.
      with_uuid parse (session_ID session) (\<lambda>s.
      bindT (query (CreateSession_sql
               (session_row (session\<lparr>session_ID := s, session_UserID := u, session_DeviceID := d\<rparr>)
                  (cs_TokenHash params)))) (\<lambda>sessionRow.
      bindT (query (GetUserByID u)) (\<lambda>userRow.
      returnT \<lparr>auth_User = userRow, auth_Device = deviceRow, auth_Session = toDomainSession sessionRow,
               auth_Token = ''''\<rparr>)))))))"

definition GetSessionAuthByID_tx :: "uuid_parser \<Rightarrow> string \<Rightarrow> SessionAuth identity_tx" where
  "GetSessionAuthByID_tx parse sessionID =
     (case parse sessionID of
        None \<Rightarrow> failT ErrUnauthorized
      | Some i \<Rightarrow>
          bindT (query (GetSessionAuthByID_sql i)) (\<lambda>(s, d, u).
          returnT \<lparr>sa_User = u, sa_Device = d, sa_Session = toDomainSession s, sa_TokenHash = row_TokenHash s\<rparr>))"

definition TouchSession_tx :: "uuid_parser \<Rightarrow> string \<Rightarrow> string \<Rightarrow> int \<Rightarrow> unit identity_tx" where
  "TouchSession_tx parse sessionID deviceID t =
     with_uuid parse sessionID (\<lambda>s. with_uuid parse deviceID (\<lambda>d. query (TouchSessionAndDevice s d t)))"

definition UpdateUserProfile_tx :: "uuid_parser \<Rightarrow> User \<Rightarrow> User identity_tx" where
  "UpdateUserProfile_tx parse user =
     with_uuid parse (user_ID user) (\<lambda>u. query (UpdateUserProfile_sql (user\<lparr>user_ID := u\<rparr>)))"

text \<open>\<open>errors.Is(err, pgx.ErrNoRows)\<close> is looked at before the error is converted.\<close>

definition RevokeSession_tx :: "uuid_parser \<Rightarrow> ipg \<Rightarrow> string \<Rightarrow> string \<Rightarrow> int \<Rightarrow> bool identity_tx" where
  "RevokeSession_tx parse pg userID sessionID t =
     with_uuid parse sessionID (\<lambda>i.
     with_uuid parse userID (\<lambda>u.
     attemptT (RevokeSession_sql i u t) (\<lambda>r. case r of
       Inl err \<Rightarrow> if err = ErrNoRows then returnT False else failT (convertError err)
     | Inr row \<Rightarrow>
         bindT (query (insert_event (clock_timestamp pg)
           \<lparr>ie_ID = uuid_New pg, ie_SubjectID = session_ID row, ie_UserID = session_UserID row,
            ie_DeviceID = session_DeviceID row, ie_SessionID = session_ID row, ie_Kind = ''session'',
            ie_Revision = session_AuthorityRevision row\<rparr> t)) (\<lambda>_.
         returnT True))))"

definition RevokeDevice_tx :: "uuid_parser \<Rightarrow> ipg \<Rightarrow> string \<Rightarrow> string \<Rightarrow> int \<Rightarrow> bool identity_tx" where
  "RevokeDevice_tx parse pg userID deviceID t =
     with_uuid parse deviceID (\<lambda>d.
     with_uuid parse userID (\<lambda>u.
     attemptT (RevokeDevice_sql d u t) (\<lambda>r. case r of
       Inl err \<Rightarrow> if err = ErrNoRows then returnT False else failT (convertError err)
     | Inr row \<Rightarrow>
         bindT (query (RevokeDeviceSessions d u t)) (\<lambda>_.
         bindT (query (insert_event (clock_timestamp pg)
           \<lparr>ie_ID = uuid_New pg, ie_SubjectID = device_ID row, ie_UserID = device_UserID row,
            ie_DeviceID = device_ID row, ie_SessionID = uuid_Nil, ie_Kind = ''device'',
            ie_Revision = device_AuthorityRevision row\<rparr> t)) (\<lambda>_.
         returnT True)))))"

text \<open>The loop of \<open>ListDevices\<close> over the rows of the sessions: \<open>deviceIndex\<close> maps a device to its position.\<close>

definition group_sessions :: "Device list \<Rightarrow> SessionRow list \<Rightarrow> DeviceWithSessions list" where
  "group_sessions ds rows =
     map (\<lambda>d. \<lparr>dws_Device = d,
       dws_Sessions = map toDomainSession (filter (\<lambda>s. session_DeviceID s = device_ID d) rows)\<rparr>) ds"

definition GetUserByLogin_tx :: "string \<Rightarrow> User identity_tx" where
  "GetUserByLogin_tx login = query (GetUserByLogin_sql login)"

section \<open>The social graph\<close>

text \<open>The parsed canonical pair of two identifiers.\<close>

definition with_pair :: "uuid_parser \<Rightarrow> string \<Rightarrow> string \<Rightarrow> (uuid \<Rightarrow> uuid \<Rightarrow> 'a identity_tx) \<Rightarrow> 'a identity_tx" where
  "with_pair parse a b m =
     with_uuid parse (fst (CanonicalUserPair a b)) (\<lambda>low.
     with_uuid parse (snd (CanonicalUserPair a b)) (\<lambda>high. m low high))"

definition toPendingRequest :: "FriendRequestRow \<Rightarrow> PendingFriendRequest option" where
  "toPendingRequest r =
     (if fr_RequesterUserID r \<noteq> uuid_Nil \<and> fr_AddresseeUserID r \<noteq> uuid_Nil
      then Some \<lparr>pending_RequesterUserID = fr_RequesterUserID r, pending_AddresseeUserID = fr_AddresseeUserID r,
             pending_CreatedAt = fr_CreatedAt r\<rparr>
      else None)"

definition GetSocialGraphState_tx :: "uuid_parser \<Rightarrow> string \<Rightarrow> string \<Rightarrow> SocialGraphState identity_tx" where
  "GetSocialGraphState_tx parse userID targetUserID =
     with_uuid parse userID (\<lambda>a. with_uuid parse targetUserID (\<lambda>b.
     with_pair parse userID targetUserID (\<lambda>low high.
     bindT (query (GetSocialGraphState_sql a b low high)) (\<lambda>(block, friends, request).
     returnT \<lparr>sg_HasBlock = block, sg_AreFriends = friends,
              sg_PendingRequest = (case request of None \<Rightarrow> None | Some r \<Rightarrow> toPendingRequest r)\<rparr>))))"

definition CreateFriendRequest_tx :: "uuid_parser \<Rightarrow> string \<Rightarrow> string \<Rightarrow> int \<Rightarrow> unit identity_tx" where
  "CreateFriendRequest_tx parse requesterUserID addresseeUserID t =
     with_uuid parse requesterUserID (\<lambda>a. with_uuid parse addresseeUserID (\<lambda>b.
     with_pair parse requesterUserID addresseeUserID (\<lambda>low high.
     query (CreateFriendRequest_sql \<lparr>fr_RequesterUserID = a, fr_AddresseeUserID = b, fr_UserLowID = low,
       fr_UserHighID = high, fr_CreatedAt = t\<rparr>))))"

definition AcceptFriendRequest_tx :: "uuid_parser \<Rightarrow> string \<Rightarrow> string \<Rightarrow> int \<Rightarrow> bool identity_tx" where
  "AcceptFriendRequest_tx parse requesterUserID addresseeUserID t =
     with_uuid parse requesterUserID (\<lambda>a. with_uuid parse addresseeUserID (\<lambda>b.
     bindT (query (DeleteFriendRequest_sql a b)) (\<lambda>affected.
     if affected = 0 then returnT False
     else
     with_pair parse requesterUserID addresseeUserID (\<lambda>low high.
     bindT (query (CreateFriendship \<lparr>f_UserLowID = low, f_UserHighID = high, f_CreatedAt = t\<rparr>)) (\<lambda>_.
     returnT True)))))"

definition DeleteFriendRequest_tx :: "uuid_parser \<Rightarrow> string \<Rightarrow> string \<Rightarrow> bool identity_tx" where
  "DeleteFriendRequest_tx parse requesterUserID addresseeUserID =
     with_uuid parse requesterUserID (\<lambda>a. with_uuid parse addresseeUserID (\<lambda>b.
     bindT (query (DeleteFriendRequest_sql a b)) (\<lambda>affected. returnT (affected > 0))))"

definition DeleteFriendship_tx :: "uuid_parser \<Rightarrow> string \<Rightarrow> string \<Rightarrow> bool identity_tx" where
  "DeleteFriendship_tx parse firstUserID secondUserID =
     with_pair parse firstUserID secondUserID (\<lambda>low high.
     bindT (query (DeleteFriendshipByPair low high)) (\<lambda>affected. returnT (affected > 0)))"

definition BlockUser_tx :: "uuid_parser \<Rightarrow> string \<Rightarrow> string \<Rightarrow> int \<Rightarrow> unit identity_tx" where
  "BlockUser_tx parse blockerUserID blockedUserID t =
     with_pair parse blockerUserID blockedUserID (\<lambda>low high.
     bindT (query (DeleteFriendRequestsByPair low high)) (\<lambda>_.
     bindT (query (DeleteFriendshipByPair low high)) (\<lambda>_.
     with_uuid parse blockerUserID (\<lambda>a. with_uuid parse blockedUserID (\<lambda>b.
     query (CreateUserBlock \<lparr>b_BlockerUserID = a, b_BlockedUserID = b, b_CreatedAt = t\<rparr>))))))"

definition UnblockUser_tx :: "uuid_parser \<Rightarrow> string \<Rightarrow> string \<Rightarrow> bool identity_tx" where
  "UnblockUser_tx parse blockerUserID blockedUserID =
     with_uuid parse blockerUserID (\<lambda>a. with_uuid parse blockedUserID (\<lambda>b.
     bindT (query (DeleteUserBlock a b)) (\<lambda>affected. returnT (affected > 0))))"

definition ListBlockedUsers_tx :: "uuid_parser \<Rightarrow> string \<Rightarrow> BlockedUser list identity_tx" where
  "ListBlockedUsers_tx parse userID =
     with_uuid parse userID (\<lambda>u. bindT (query (ListBlockedUsersByUserID u)) (\<lambda>rows.
     returnT (map (\<lambda>(r, p). \<lparr>blocked_Profile = p, blocked_BlockedAt = b_CreatedAt r\<rparr>) rows)))"

text \<open>The profiles in \<open>ListFriends\<close> and \<open>toDomainFriendRequest\<close> are built without \<open>PushNotificationsEnabled\<close>.\<close>

definition social_profile :: "User \<Rightarrow> User" where
  "social_profile u = u\<lparr>user_PushNotificationsEnabled := False\<rparr>"

definition toDomainFriendRequest :: "FriendRequestRow \<times> User \<Rightarrow> FriendRequest" where
  "toDomainFriendRequest row =
     \<lparr>request_Profile = social_profile (snd row), request_RequestedAt = fr_CreatedAt (fst row)\<rparr>"

definition ListIncomingFriendRequests_tx :: "uuid_parser \<Rightarrow> string \<Rightarrow> FriendRequest list identity_tx" where
  "ListIncomingFriendRequests_tx parse userID =
     with_uuid parse userID (\<lambda>u. bindT (query (ListIncomingFriendRequestsByUserID u)) (\<lambda>rows.
     returnT (map toDomainFriendRequest rows)))"

definition ListOutgoingFriendRequests_tx :: "uuid_parser \<Rightarrow> string \<Rightarrow> FriendRequest list identity_tx" where
  "ListOutgoingFriendRequests_tx parse userID =
     with_uuid parse userID (\<lambda>u. bindT (query (ListOutgoingFriendRequestsByUserID u)) (\<lambda>rows.
     returnT (map toDomainFriendRequest rows)))"

definition ListFriends_tx :: "uuid_parser \<Rightarrow> string \<Rightarrow> Friend list identity_tx" where
  "ListFriends_tx parse userID =
     with_uuid parse userID (\<lambda>u. bindT (query (ListFriendsByUserID u)) (\<lambda>rows.
     returnT (map (\<lambda>(r, p). \<lparr>friend_Profile = social_profile p, friend_FriendsSince = f_CreatedAt r\<rparr>) rows)))"

section \<open>Web push subscriptions\<close>

definition ListWebPushSubscriptions_tx :: "uuid_parser \<Rightarrow> string \<Rightarrow> WebPushSubscription list identity_tx" where
  "ListWebPushSubscriptions_tx parse userID = with_uuid parse userID (\<lambda>u. query (ListWebPushSubscriptionsByUserID u))"

fun parse_all :: "uuid_parser \<Rightarrow> string list \<Rightarrow> identity_error + uuid list" where
  "parse_all parse [] = Inr []"
| "parse_all parse (i # ids) = bindS (mustParseUUID parse i) (\<lambda>u. bindS (parse_all parse ids) (\<lambda>us. Inr (u # us)))"

definition DeleteWebPushSubscriptionsByIDs_tx :: "uuid_parser \<Rightarrow> string list \<Rightarrow> nat identity_tx" where
  "DeleteWebPushSubscriptionsByIDs_tx parse ids =
     (if ids = [] then returnT 0
      else bindT (liftT (parse_all parse ids)) (\<lambda>us. query (DeleteWebPushSubscriptionsByIDs_sql us)))"

definition UpsertWebPushSubscription_tx :: "uuid_parser \<Rightarrow> WebPushSubscription \<Rightarrow> unit identity_tx" where
  "UpsertWebPushSubscription_tx parse s =
     with_uuid parse (wp_ID s) (\<lambda>i. with_uuid parse (wp_UserID s) (\<lambda>u.
     query (UpsertWebPushSubscription_sql (s\<lparr>wp_ID := i, wp_UserID := u\<rparr>))))"

definition DeleteWebPushSubscription_tx :: "uuid_parser \<Rightarrow> string \<Rightarrow> string \<Rightarrow> bool identity_tx" where
  "DeleteWebPushSubscription_tx parse userID endpoint =
     with_uuid parse userID (\<lambda>u.
     bindT (query (DeleteWebPushSubscriptionByUserIDAndEndpoint u endpoint)) (\<lambda>affected. returnT (affected > 0)))"

end
