(* ===== verification/Identity_Service.thy ===== *)
theory Identity_Service
  imports Identity_Repository Session_Token
begin

text \<open>
  The operations of \<open>internal/domain/identity/service.go\<close>, \<open>social_graph.go\<close>, \<open>password_admission.go\<close> and
  \<open>session_authorization.go\<close> over the interfaces the service holds: the repository, the password hasher, the admission,
  the notification dispatcher, the clock and the generators. They are programs over a world \<open>'w\<close> that the service never
  looks into. The locale \<open>identity_repository\<close> states what they must keep for the service to keep it.
\<close>

section \<open>The interfaces\<close>

record 'w IdentityRepository =
  repo_CreateAccount :: "CreateAccountParams \<Rightarrow> ('w, identity_error, AuthSession) prog"
  repo_GetPasswordCredentialByLogin :: "string \<Rightarrow> ('w, identity_error, PasswordCredential) prog"
  repo_CreateSession :: "CreateSessionParams \<Rightarrow> ('w, identity_error, AuthSession) prog"
  repo_GetSessionAuthByID :: "string \<Rightarrow> ('w, identity_error, SessionAuth) prog"
  repo_TouchSession :: "string \<Rightarrow> string \<Rightarrow> int \<Rightarrow> ('w, identity_error, unit) prog"
  repo_UpdateUserProfile :: "User \<Rightarrow> ('w, identity_error, User) prog"
  repo_RevokeSession :: "string \<Rightarrow> string \<Rightarrow> int \<Rightarrow> ('w, identity_error, bool) prog"
  repo_RevokeDevice :: "string \<Rightarrow> string \<Rightarrow> int \<Rightarrow> ('w, identity_error, bool) prog"
  repo_ListDevices :: "string \<Rightarrow> ('w, identity_error, DeviceWithSessions list) prog"
  repo_GetUserByLogin :: "string \<Rightarrow> ('w, identity_error, User) prog"
  repo_ListBlockedUsers :: "string \<Rightarrow> ('w, identity_error, BlockedUser list) prog"
  repo_GetSocialGraphState :: "string \<Rightarrow> string \<Rightarrow> ('w, identity_error, SocialGraphState) prog"
  repo_CreateFriendRequest :: "string \<Rightarrow> string \<Rightarrow> int \<Rightarrow> ('w, identity_error, unit) prog"
  repo_AcceptFriendRequest :: "string \<Rightarrow> string \<Rightarrow> int \<Rightarrow> ('w, identity_error, bool) prog"
  repo_DeleteFriendRequest :: "string \<Rightarrow> string \<Rightarrow> ('w, identity_error, bool) prog"
  repo_ListIncomingFriendRequests :: "string \<Rightarrow> ('w, identity_error, FriendRequest list) prog"
  repo_ListOutgoingFriendRequests :: "string \<Rightarrow> ('w, identity_error, FriendRequest list) prog"
  repo_ListFriends :: "string \<Rightarrow> ('w, identity_error, Friend list) prog"
  repo_DeleteFriendship :: "string \<Rightarrow> string \<Rightarrow> ('w, identity_error, bool) prog"
  repo_BlockUser :: "string \<Rightarrow> string \<Rightarrow> int \<Rightarrow> ('w, identity_error, unit) prog"
  repo_UnblockUser :: "string \<Rightarrow> string \<Rightarrow> ('w, identity_error, bool) prog"
  repo_ListWebPushSubscriptions :: "string \<Rightarrow> ('w, identity_error, WebPushSubscription list) prog"
  repo_DeleteWebPushSubscriptionsByIDs :: "string list \<Rightarrow> ('w, identity_error, nat) prog"

text \<open>\<open>svc_acquire\<close> and \<open>svc_release\<close> are \<open>PasswordAdmission\<close>, \<open>svc_done\<close> asks \<open>ctx.Err()\<close> whether the context is done,
  \<open>svc_random\<close> reads the 32 bytes of a token, \<open>svc_dispatcher\<close> is the notification dispatcher or nil.\<close>

record 'w IdentityService =
  svc_repo :: "'w IdentityRepository"
  svc_Hash :: "string \<Rightarrow> ('w, identity_error, string) prog"
  svc_Verify :: "string \<Rightarrow> string \<Rightarrow> ('w, identity_error, bool) prog"
  svc_acquire :: "string \<Rightarrow> ('w, identity_error, unit) prog"
  svc_release :: "string \<Rightarrow> ('w, identity_error, unit) prog"
  svc_done :: "('w, identity_error, bool) prog"
  svc_dispatcher ::
    "(User \<Rightarrow> User \<Rightarrow> WebPushSubscription list \<Rightarrow> int \<Rightarrow> ('w, identity_error, string list) prog) option"
  svc_sessionTouchInterval :: int
  svc_random :: "('w, identity_error, string) prog"
  svc_now :: "('w, identity_error, int) prog"
  svc_newID :: "('w, identity_error, string) prog"
  svc_sha256 :: "string \<Rightarrow> string"
  svc_parse :: uuid_parser

section \<open>Passwords\<close>

text \<open>\<open>defer release()\<close>.\<close>

definition admitted :: "'w IdentityService \<Rightarrow> string \<Rightarrow> ('w, identity_error, 'a) prog \<Rightarrow> ('w, identity_error, 'a) prog" where
  "admitted s login m =
     bindE (svc_acquire s login) (\<lambda>_. attemptE m (\<lambda>r. bindE (svc_release s login) (\<lambda>_. liftE r)))"

definition hashPassword :: "'w IdentityService \<Rightarrow> string \<Rightarrow> string \<Rightarrow> ('w, identity_error, string) prog" where
  "hashPassword s login password =
     admitted s login
       (attemptE (svc_Hash s password) (\<lambda>hash.
        bindE (svc_done s) (\<lambda>canceled. if canceled then failE ErrContext else liftE hash)))"

definition verifyPasswordCredential ::
    "'w IdentityService \<Rightarrow> string \<Rightarrow> string \<Rightarrow> ('w, identity_error, PasswordCredential) prog" where
  "verifyPasswordCredential s login password =
     admitted s login
       (attemptE (repo_GetPasswordCredentialByLogin (svc_repo s) login) (\<lambda>r.
        case r of
          Inl err \<Rightarrow>
            if err \<noteq> ErrNotFound \<and> err \<noteq> ErrInvalidCredentials then failE err
            else attemptE (svc_Verify s password publicDummyPasswordHash) (\<lambda>valid.
                 bindE (svc_done s) (\<lambda>canceled.
                 if canceled then failE ErrContext
                 else case valid of Inl e \<Rightarrow> failE e | Inr _ \<Rightarrow> failE ErrInvalidCredentials))
        | Inr credential \<Rightarrow>
            attemptE (svc_Verify s password (credential_PasswordHash credential)) (\<lambda>valid.
            bindE (svc_done s) (\<lambda>canceled.
            if canceled then failE ErrContext
            else case valid of
                Inl e \<Rightarrow> failE e
              | Inr ok \<Rightarrow> if ok then returnE credential else failE ErrInvalidCredentials))))"

section \<open>Accounts\<close>

definition issueToken :: "'w IdentityService \<Rightarrow> string \<Rightarrow> ('w, identity_error, string \<times> string) prog" where
  "issueToken s sessionID =
     (if \<not> canonicalSessionID sessionID then failE ErrOther
      else attemptE (svc_random s) (\<lambda>r.
        case Issue (svc_sha256 s) (case r of Inl _ \<Rightarrow> None | Inr secret \<Rightarrow> Some secret) sessionID of
          None \<Rightarrow> failE ErrOther
        | Some issued \<Rightarrow> returnE issued))"

definition new_user :: "string \<Rightarrow> string \<Rightarrow> string \<Rightarrow> int \<Rightarrow> User" where
  "new_user i login nickname t =
     \<lparr>user_ID = i, user_Login = login, user_Nickname = nickname, user_AvatarURL = None, user_Bio = None,
      user_Timezone = None, user_ProfileAccent = None, user_StatusText = None, user_Birthday = None,
      user_Country = None, user_City = None, user_ReadReceiptsEnabled = True, user_PresenceEnabled = True,
      user_TypingVisibilityEnabled = True, user_PushNotificationsEnabled = True,
      user_KeyBackupStatus = KeyBackupStatusNotConfigured, user_CreatedAt = t, user_UpdatedAt = t\<rparr>"

definition new_device :: "string \<Rightarrow> string \<Rightarrow> string \<Rightarrow> int \<Rightarrow> Device" where
  "new_device i u label t =
     \<lparr>device_ID = i, device_UserID = u, device_Label = label, device_CreatedAt = t, device_LastSeenAt = t,
      device_RevokedAt = None, device_AuthorityRevision = 0\<rparr>"

definition new_session :: "string \<Rightarrow> string \<Rightarrow> string \<Rightarrow> int \<Rightarrow> Session" where
  "new_session i u d t =
     \<lparr>session_ID = i, session_UserID = u, session_DeviceID = d, session_CreatedAt = t, session_LastSeenAt = t,
      session_RevokedAt = None, session_AuthorityRevision = 0\<rparr>"

definition Register :: "'w IdentityService \<Rightarrow> RegisterInput \<Rightarrow> ('w, identity_error, AuthSession) prog" where
  "Register s input =
     bindE (liftE (normalizeLogin (ri_Login input))) (\<lambda>login.
     bindE (liftE (normalizeNickname (ri_Nickname input))) (\<lambda>nickname.
     bindE (liftE (validatePassword (ri_Password input))) (\<lambda>_.
     bindE (liftE (normalizeDeviceLabel (ri_DeviceLabel input))) (\<lambda>deviceLabel.
     bindE (hashPassword s login (ri_Password input)) (\<lambda>passwordHash.
     bindE (svc_now s) (\<lambda>now.
     bindE (svc_newID s) (\<lambda>userID.
     bindE (svc_newID s) (\<lambda>deviceID.
     bindE (svc_newID s) (\<lambda>sessionID.
     bindE (issueToken s sessionID) (\<lambda>(token, tokenHash).
     bindE (repo_CreateAccount (svc_repo s)
              \<lparr>ca_User = new_user userID login nickname now, ca_PasswordHash = passwordHash,
               ca_Device = new_device deviceID userID deviceLabel now,
               ca_Session = new_session sessionID userID deviceID now, ca_TokenHash = tokenHash\<rparr>) (\<lambda>authSession.
     returnE (authSession\<lparr>auth_Token := token\<rparr>))))))))))))"

definition Login :: "'w IdentityService \<Rightarrow> LoginInput \<Rightarrow> ('w, identity_error, AuthSession) prog" where
  "Login s input =
     bindE (liftE (normalizeLogin (li_Login input))) (\<lambda>login.
     if li_Password input = '''' then failE ErrInvalidArgument
     else
     bindE (liftE (normalizeDeviceLabel (li_DeviceLabel input))) (\<lambda>deviceLabel.
     bindE (verifyPasswordCredential s login (li_Password input)) (\<lambda>credential.
     bindE (svc_now s) (\<lambda>now.
     bindE (svc_newID s) (\<lambda>deviceID.
     bindE (svc_newID s) (\<lambda>sessionID.
     bindE (issueToken s sessionID) (\<lambda>(token, tokenHash).
     let userID = user_ID (credential_User credential) in
     bindE (repo_CreateSession (svc_repo s)
              \<lparr>cs_UserID = userID, cs_Device = new_device deviceID userID deviceLabel now,
               cs_Session = new_session sessionID userID deviceID now, cs_TokenHash = tokenHash\<rparr>) (\<lambda>authSession.
     returnE (authSession\<lparr>auth_Token := token\<rparr>)))))))))"

section \<open>Authentication\<close>

text \<open>The zero \<open>time.Time\<close> is the first instant of the year 1.\<close>

definition time_Zero :: int where
  "time_Zero = -62135596800 * 1000000000"

definition shouldTouchSession :: "int \<Rightarrow> int \<Rightarrow> int \<Rightarrow> bool" where
  "shouldTouchSession lastSeenAt now minInterval =
     (if minInterval \<le> 0 then True else if lastSeenAt = time_Zero then True else now - lastSeenAt \<ge> minInterval)"

definition authenticate :: "'w IdentityService \<Rightarrow> string \<Rightarrow> ('w, identity_error, SessionAuth) prog" where
  "authenticate s token =
     (case Parse (svc_sha256 s) token of
        None \<Rightarrow> failE ErrUnauthorized
      | Some parsed \<Rightarrow>
          bindE (repo_GetSessionAuthByID (svc_repo s) (SessionID parsed)) (\<lambda>a.
          if session_RevokedAt (sa_Session a) \<noteq> None \<or> device_RevokedAt (sa_Device a) \<noteq> None then failE ErrUnauthorized
          else if sa_TokenHash a \<noteq> TokenHash parsed then failE ErrUnauthorized
          else bindE (svc_now s) (\<lambda>touchedAt.
          if shouldTouchSession (session_LastSeenAt (sa_Session a)) touchedAt (svc_sessionTouchInterval s) \<or>
             shouldTouchSession (device_LastSeenAt (sa_Device a)) touchedAt (svc_sessionTouchInterval s)
          then bindE (repo_TouchSession (svc_repo s) (session_ID (sa_Session a)) (device_ID (sa_Device a)) touchedAt) (\<lambda>_.
               returnE (a\<lparr>sa_Session := (sa_Session a)\<lparr>session_LastSeenAt := touchedAt\<rparr>,
                          sa_Device := (sa_Device a)\<lparr>device_LastSeenAt := touchedAt\<rparr>\<rparr>))
          else returnE a)))"

definition self :: "SessionAuth \<Rightarrow> string" where
  "self a = user_ID (sa_User a)"

definition LogoutCurrentSession :: "'w IdentityService \<Rightarrow> string \<Rightarrow> ('w, identity_error, unit) prog" where
  "LogoutCurrentSession s token =
     bindE (authenticate s token) (\<lambda>a.
     bindE (svc_now s) (\<lambda>now.
     bindE (repo_RevokeSession (svc_repo s) (self a) (session_ID (sa_Session a)) now) (\<lambda>_. returnE ())))"

definition GetCurrentProfile :: "'w IdentityService \<Rightarrow> string \<Rightarrow> ('w, identity_error, User) prog" where
  "GetCurrentProfile s token = bindE (authenticate s token) (\<lambda>a. returnE (sa_User a))"

definition UpdateCurrentProfile :: "'w IdentityService \<Rightarrow> string \<Rightarrow> ProfilePatch \<Rightarrow> ('w, identity_error, User) prog" where
  "UpdateCurrentProfile s token patch =
     bindE (authenticate s token) (\<lambda>a.
     bindE (case patch_Nickname patch of
              None \<Rightarrow> returnE (sa_User a)
            | Some n \<Rightarrow> bindE (liftE (normalizeNickname n)) (\<lambda>nickname. returnE ((sa_User a)\<lparr>user_Nickname := nickname\<rparr>))) (\<lambda>user.
     bindE (liftE (applyProfilePatch user patch)) (\<lambda>updatedUser.
     bindE (svc_now s) (\<lambda>now.
     repo_UpdateUserProfile (svc_repo s) (updatedUser\<lparr>user_UpdatedAt := now\<rparr>)))))"

definition ListDevices :: "'w IdentityService \<Rightarrow> string \<Rightarrow> ('w, identity_error, DeviceWithSessions list) prog" where
  "ListDevices s token = bindE (authenticate s token) (\<lambda>a. repo_ListDevices (svc_repo s) (self a))"

definition RevokeSessionOrDevice :: "'w IdentityService \<Rightarrow> string \<Rightarrow> SessionTarget \<Rightarrow> ('w, identity_error, unit) prog" where
  "RevokeSessionOrDevice s token target =
     bindE (authenticate s token) (\<lambda>a.
     bindE (svc_now s) (\<lambda>now.
     case target_SessionID target of
       Some i \<Rightarrow>
         bindE (liftE (normalizeRevocationTargetID (svc_parse s) i)) (\<lambda>targetID.
         bindE (repo_RevokeSession (svc_repo s) (self a) targetID now) (\<lambda>ok.
         if \<not> ok then failE ErrNotFound else returnE ()))
     | None \<Rightarrow>
         (case target_DeviceID target of
            Some d \<Rightarrow>
              bindE (liftE (normalizeRevocationTargetID (svc_parse s) d)) (\<lambda>targetID.
              bindE (repo_RevokeDevice (svc_repo s) (self a) targetID now) (\<lambda>ok.
              if \<not> ok then failE ErrNotFound else returnE ()))
          | None \<Rightarrow> failE ErrInvalidArgument)))"

section \<open>Blocks\<close>

definition ListBlockedUsers :: "'w IdentityService \<Rightarrow> string \<Rightarrow> ('w, identity_error, BlockedUser list) prog" where
  "ListBlockedUsers s token = bindE (authenticate s token) (\<lambda>a. repo_ListBlockedUsers (svc_repo s) (self a))"

definition BlockUser :: "'w IdentityService \<Rightarrow> string \<Rightarrow> string \<Rightarrow> ('w, identity_error, unit) prog" where
  "BlockUser s token login =
     bindE (authenticate s token) (\<lambda>a.
     bindE (liftE (normalizeLogin login)) (\<lambda>targetLogin.
     if targetLogin = user_Login (sa_User a) then failE ErrConflict
     else
     bindE (repo_GetUserByLogin (svc_repo s) targetLogin) (\<lambda>target.
     bindE (svc_now s) (\<lambda>now.
     repo_BlockUser (svc_repo s) (self a) (user_ID target) now))))"

definition UnblockUser :: "'w IdentityService \<Rightarrow> string \<Rightarrow> string \<Rightarrow> ('w, identity_error, unit) prog" where
  "UnblockUser s token login =
     bindE (authenticate s token) (\<lambda>a.
     bindE (liftE (normalizeLogin login)) (\<lambda>targetLogin.
     bindE (repo_GetUserByLogin (svc_repo s) targetLogin) (\<lambda>target.
     bindE (repo_UnblockUser (svc_repo s) (self a) (user_ID target)) (\<lambda>_. returnE ()))))"

section \<open>Friends\<close>

definition resolveFriendTarget :: "'w IdentityService \<Rightarrow> string \<Rightarrow> string \<Rightarrow> ('w, identity_error, SessionAuth \<times> User) prog" where
  "resolveFriendTarget s token login =
     bindE (authenticate s token) (\<lambda>a.
     bindE (liftE (normalizeLogin login)) (\<lambda>targetLogin.
     if targetLogin = user_Login (sa_User a) then failE ErrConflict
     else bindE (repo_GetUserByLogin (svc_repo s) targetLogin) (\<lambda>target. returnE (a, target))))"

text \<open>After the request is stored, no failure of the notification reaches the caller.\<close>

definition notifyFriendRequest ::
    "'w IdentityService \<Rightarrow> User \<Rightarrow> User \<Rightarrow> int \<Rightarrow> ('w, identity_error, unit) prog" where
  "notifyFriendRequest s sender target requestedAt =
     (case svc_dispatcher s of
        None \<Rightarrow> returnE ()
      | Some dispatch \<Rightarrow>
          if \<not> user_PushNotificationsEnabled target then returnE ()
          else
          attemptE (repo_ListWebPushSubscriptions (svc_repo s) (user_ID target)) (\<lambda>r.
          case r of
            Inl _ \<Rightarrow> returnE ()
          | Inr subscriptions \<Rightarrow>
              bindE (dispatch sender target subscriptions requestedAt) (\<lambda>invalid.
              if invalid = [] then returnE ()
              else attemptE (repo_DeleteWebPushSubscriptionsByIDs (svc_repo s) invalid) (\<lambda>_. returnE ()))))"

definition SendFriendRequest :: "'w IdentityService \<Rightarrow> string \<Rightarrow> string \<Rightarrow> ('w, identity_error, unit) prog" where
  "SendFriendRequest s token login =
     bindE (resolveFriendTarget s token login) (\<lambda>(a, target).
     bindE (repo_GetSocialGraphState (svc_repo s) (self a) (user_ID target)) (\<lambda>state.
     if sg_HasBlock state then failE ErrConflict
     else if sg_AreFriends state then failE ErrConflict
     else if sg_PendingRequest state \<noteq> None then failE ErrConflict
     else
     bindE (svc_now s) (\<lambda>requestedAt.
     bindE (repo_CreateFriendRequest (svc_repo s) (self a) (user_ID target) requestedAt) (\<lambda>_.
     notifyFriendRequest s (sa_User a) target requestedAt))))"

definition AcceptFriendRequest :: "'w IdentityService \<Rightarrow> string \<Rightarrow> string \<Rightarrow> ('w, identity_error, unit) prog" where
  "AcceptFriendRequest s token login =
     bindE (resolveFriendTarget s token login) (\<lambda>(a, target).
     bindE (repo_GetSocialGraphState (svc_repo s) (self a) (user_ID target)) (\<lambda>state.
     if sg_HasBlock state then failE ErrConflict
     else if sg_AreFriends state then failE ErrConflict
     else if (case sg_PendingRequest state of
                None \<Rightarrow> True
              | Some p \<Rightarrow> pending_RequesterUserID p \<noteq> user_ID target \<or> pending_AddresseeUserID p \<noteq> self a)
     then failE ErrNotFound
     else
     bindE (svc_now s) (\<lambda>now.
     bindE (repo_AcceptFriendRequest (svc_repo s) (user_ID target) (self a) now) (\<lambda>ok.
     if \<not> ok then failE ErrNotFound else returnE ()))))"

definition DeclineFriendRequest :: "'w IdentityService \<Rightarrow> string \<Rightarrow> string \<Rightarrow> ('w, identity_error, unit) prog" where
  "DeclineFriendRequest s token login =
     bindE (resolveFriendTarget s token login) (\<lambda>(a, target).
     bindE (repo_DeleteFriendRequest (svc_repo s) (user_ID target) (self a)) (\<lambda>ok.
     if \<not> ok then failE ErrNotFound else returnE ()))"

definition CancelOutgoingFriendRequest :: "'w IdentityService \<Rightarrow> string \<Rightarrow> string \<Rightarrow> ('w, identity_error, unit) prog" where
  "CancelOutgoingFriendRequest s token login =
     bindE (resolveFriendTarget s token login) (\<lambda>(a, target).
     bindE (repo_DeleteFriendRequest (svc_repo s) (self a) (user_ID target)) (\<lambda>ok.
     if \<not> ok then failE ErrNotFound else returnE ()))"

definition ListIncomingFriendRequests :: "'w IdentityService \<Rightarrow> string \<Rightarrow> ('w, identity_error, FriendRequest list) prog" where
  "ListIncomingFriendRequests s token =
     bindE (authenticate s token) (\<lambda>a. repo_ListIncomingFriendRequests (svc_repo s) (self a))"

definition ListOutgoingFriendRequests :: "'w IdentityService \<Rightarrow> string \<Rightarrow> ('w, identity_error, FriendRequest list) prog" where
  "ListOutgoingFriendRequests s token =
     bindE (authenticate s token) (\<lambda>a. repo_ListOutgoingFriendRequests (svc_repo s) (self a))"

definition ListFriends :: "'w IdentityService \<Rightarrow> string \<Rightarrow> ('w, identity_error, Friend list) prog" where
  "ListFriends s token = bindE (authenticate s token) (\<lambda>a. repo_ListFriends (svc_repo s) (self a))"

definition RemoveFriend :: "'w IdentityService \<Rightarrow> string \<Rightarrow> string \<Rightarrow> ('w, identity_error, unit) prog" where
  "RemoveFriend s token login =
     bindE (resolveFriendTarget s token login) (\<lambda>(a, target).
     bindE (repo_DeleteFriendship (svc_repo s) (self a) (user_ID target)) (\<lambda>ok.
     if \<not> ok then failE ErrNotFound else returnE ()))"

section \<open>The authority of sessions\<close>

text \<open>An error of the repository that is not \<open>ErrNotFound\<close>.\<close>

definition unavailable :: "'w IdentityService \<Rightarrow> ('w, identity_error, 'a) prog" where
  "unavailable s = bindE (svc_done s) (\<lambda>canceled. if canceled then failE ErrContext else failE ErrAuthorityUnavailable)"

definition ResolveSessionBearer :: "'w IdentityService \<Rightarrow> string \<Rightarrow> ('w, identity_error, SessionAuthority) prog" where
  "ResolveSessionBearer s token =
     (case Parse (svc_sha256 s) token of
        None \<Rightarrow> failE ErrUnauthorized
      | Some parsed \<Rightarrow>
          attemptE (repo_GetSessionAuthByID (svc_repo s) (SessionID parsed)) (\<lambda>r.
          case r of
            Inl err \<Rightarrow> if err = ErrNotFound then failE ErrUnauthorized else unavailable s
          | Inr snapshot \<Rightarrow>
              bindE (liftE (sessionAuthority snapshot)) (\<lambda>authority.
              if authority_SessionID authority \<noteq> SessionID parsed then failE ErrAuthorityUnavailable
              else if authority_Status authority \<noteq> AuthorityActive \<or> sa_TokenHash snapshot \<noteq> TokenHash parsed
              then failE ErrUnauthorized
              else returnE authority)))"

definition bound_id :: "uuid_parser \<Rightarrow> string \<Rightarrow> identity_error + string" where
  "bound_id parse i =
     (case parse (trim_space i) of None \<Rightarrow> Inl ErrInvalidArgument
      | Some u \<Rightarrow> if u = uuid_Nil then Inl ErrInvalidArgument else Inr u)"

definition CheckBoundSession ::
    "'w IdentityService \<Rightarrow> string \<Rightarrow> string \<Rightarrow> string \<Rightarrow> ('w, identity_error, SessionAuthority) prog" where
  "CheckBoundSession s userID sessionID deviceID =
     bindE (liftE (bound_id (svc_parse s) userID)) (\<lambda>u.
     bindE (liftE (bound_id (svc_parse s) sessionID)) (\<lambda>i.
     bindE (liftE (bound_id (svc_parse s) deviceID)) (\<lambda>d.
     attemptE (repo_GetSessionAuthByID (svc_repo s) i) (\<lambda>r.
     case r of
       Inl err \<Rightarrow> if err = ErrNotFound then returnE no_authority else unavailable s
     | Inr snapshot \<Rightarrow>
         if user_ID (sa_User snapshot) \<noteq> u \<or> session_ID (sa_Session snapshot) \<noteq> i \<or> device_ID (sa_Device snapshot) \<noteq> d
         then returnE no_authority
         else liftE (sessionAuthority snapshot)))))"

section \<open>What the service keeps\<close>

text \<open>How the service builds an account and a session: everything belongs to one user, nothing is revoked.\<close>

definition account_params :: "CreateAccountParams \<Rightarrow> bool" where
  "account_params p \<longleftrightarrow>
     device_UserID (ca_Device p) = user_ID (ca_User p) \<and> session_UserID (ca_Session p) = user_ID (ca_User p) \<and>
     session_DeviceID (ca_Session p) = device_ID (ca_Device p) \<and> device_RevokedAt (ca_Device p) = None \<and>
     session_RevokedAt (ca_Session p) = None"

definition session_params :: "CreateSessionParams \<Rightarrow> bool" where
  "session_params p \<longleftrightarrow> device_RevokedAt (cs_Device p) = None \<and> session_RevokedAt (cs_Session p) = None"

text \<open>The identifier of a stored user is spelled as the parser spells it.\<close>

definition canonical :: "'w IdentityService \<Rightarrow> string \<Rightarrow> bool" where
  "canonical s i \<longleftrightarrow> svc_parse s i = Some i"

text \<open>An invariant \<open>I\<close> of the world that the methods of the interfaces keep, called as the service calls them; a repository
  returns stored users. \<open>identity_repository\<close> adds the two methods that make people friends.\<close>

locale identity_interfaces =
  fixes s :: "'w IdentityService" and I :: "'w \<Rightarrow> bool"
  assumes sessions: "pres I (repo_GetSessionAuthByID (svc_repo s) a)" "pres I (repo_TouchSession (svc_repo s) a b t)"
    and stored: "gives I (repo_GetSessionAuthByID (svc_repo s) a) (\<lambda>x. canonical s (self x))"
      "gives I (repo_GetUserByLogin (svc_repo s) l) (\<lambda>u. canonical s (user_ID u))"
    and reads: "pres I (repo_GetPasswordCredentialByLogin (svc_repo s) l)" "pres I (repo_GetUserByLogin (svc_repo s) l)"
      "pres I (repo_ListDevices (svc_repo s) a)" "pres I (repo_ListBlockedUsers (svc_repo s) a)"
      "pres I (repo_GetSocialGraphState (svc_repo s) a b)" "pres I (repo_ListIncomingFriendRequests (svc_repo s) a)"
      "pres I (repo_ListOutgoingFriendRequests (svc_repo s) a)" "pres I (repo_ListFriends (svc_repo s) a)"
      "pres I (repo_ListWebPushSubscriptions (svc_repo s) a)"
    and writes: "account_params p \<Longrightarrow> pres I (repo_CreateAccount (svc_repo s) p)"
      "session_params q \<Longrightarrow> pres I (repo_CreateSession (svc_repo s) q)"
      "pres I (repo_UpdateUserProfile (svc_repo s) u)" "pres I (repo_RevokeSession (svc_repo s) a b t)"
      "pres I (repo_RevokeDevice (svc_repo s) a b t)"
      "pres I (repo_DeleteFriendRequest (svc_repo s) a b)" "pres I (repo_DeleteFriendship (svc_repo s) a b)"
      "canonical s a \<Longrightarrow> canonical s b \<Longrightarrow> pres I (repo_BlockUser (svc_repo s) a b t)" "pres I (repo_UnblockUser (svc_repo s) a b)"
      "pres I (repo_DeleteWebPushSubscriptionsByIDs (svc_repo s) ids)"
    and outside: "pres I (svc_Hash s pw)" "pres I (svc_Verify s pw encoded)" "pres I (svc_acquire s l)"
      "pres I (svc_release s l)" "pres I (svc_done s)" "pres I (svc_random s)" "pres I (svc_now s)" "pres I (svc_newID s)"
    and dispatcher: "svc_dispatcher s = Some dispatch \<Longrightarrow> pres I (dispatch u v ws t)"
begin

lemma authenticate_pres: "pres I (authenticate s token)"
  unfolding authenticate_def by (intro pres_intros sessions outside)

lemma authenticate_stored: "gives I (authenticate s token) (\<lambda>a. canonical s (self a))"
proof (cases "Parse (svc_sha256 s) token")
  case (Some p)
  have self: "canonical s (self (a\<lparr>sa_Session := x, sa_Device := d\<rparr>)) \<longleftrightarrow> canonical s (self a)" for a x d
    by (simp add: self_def)
  show ?thesis unfolding authenticate_def Some option.case
    by (rule gives_bindE [OF sessions(1) stored(1)])
      (intro gives_if gives_failE gives_then gives_returnE sessions outside; simp add: self)
qed (simp add: authenticate_def gives_failE)

lemma admitted_pres: "pres I m \<Longrightarrow> pres I (admitted s l m)"
  unfolding admitted_def by (intro pres_intros outside)

lemma passwords_pres: "pres I (hashPassword s l pw)" "pres I (verifyPasswordCredential s l pw)" "pres I (issueToken s i)"
  unfolding hashPassword_def verifyPasswordCredential_def issueToken_def
  by (intro admitted_pres pres_intros reads outside)+

lemma account_operations_pres: "pres I (Register s ri)" "pres I (Login s li)"
  unfolding Register_def Login_def
  by (intro pres_intros passwords_pres outside writes;
      simp add: account_params_def session_params_def new_user_def new_device_def new_session_def)+

lemma session_operations_pres:
  "pres I (LogoutCurrentSession s token)" "pres I (GetCurrentProfile s token)" "pres I (UpdateCurrentProfile s token patch)"
  "pres I (ListDevices s token)" "pres I (RevokeSessionOrDevice s token target)" "pres I (ListBlockedUsers s token)"
  "pres I (UnblockUser s token l)" "pres I (ListIncomingFriendRequests s token)"
  "pres I (ListOutgoingFriendRequests s token)" "pres I (ListFriends s token)"
  unfolding LogoutCurrentSession_def GetCurrentProfile_def UpdateCurrentProfile_def ListDevices_def
    RevokeSessionOrDevice_def ListBlockedUsers_def UnblockUser_def ListIncomingFriendRequests_def
    ListOutgoingFriendRequests_def ListFriends_def
  by (intro pres_intros authenticate_pres reads outside writes)+

lemma BlockUser_pres: "pres I (BlockUser s token l)"
  unfolding BlockUser_def
  by (rule pres_bind_gives [OF authenticate_pres authenticate_stored],
      intro pres_intros pres_bind_gives [OF reads(2) stored(2)] outside writes)

lemma resolveFriendTarget_pres: "pres I (resolveFriendTarget s token l)"
  unfolding resolveFriendTarget_def by (intro pres_intros authenticate_pres reads)

lemma resolveFriendTarget_stored:
  "gives I (resolveFriendTarget s token l) (\<lambda>x. canonical s (self (fst x)) \<and> canonical s (user_ID (snd x)))"
  unfolding resolveFriendTarget_def
proof (rule gives_bindE [OF authenticate_pres authenticate_stored])
  fix a assume "canonical s (self a)"
  then show "gives I (bindE (liftE (normalizeLogin l)) (\<lambda>targetLogin.
      if targetLogin = user_Login (sa_User a) then failE ErrConflict
      else bindE (repo_GetUserByLogin (svc_repo s) targetLogin) (\<lambda>target. returnE (a, target))))
     (\<lambda>x. canonical s (self (fst x)) \<and> canonical s (user_ID (snd x)))"
    by (intro gives_then pres_liftE gives_if gives_failE gives_bindE [OF reads(2) stored(2)] gives_returnE) simp
qed

lemma notifyFriendRequest_pres: "pres I (notifyFriendRequest s u v t)"
  unfolding notifyFriendRequest_def by (intro pres_intros reads writes dispatcher)

lemmas target_intro = pres_bind_gives [OF resolveFriendTarget_pres resolveFriendTarget_stored]

lemma end_operations_pres:
  "pres I (DeclineFriendRequest s token l)" "pres I (CancelOutgoingFriendRequest s token l)" "pres I (RemoveFriend s token l)"
  unfolding DeclineFriendRequest_def CancelOutgoingFriendRequest_def RemoveFriend_def
  by (intro pres_intros resolveFriendTarget_pres reads outside writes)+

lemma authority_operations_pres: "pres I (ResolveSessionBearer s token)" "pres I (CheckBoundSession s u i d)"
  unfolding ResolveSessionBearer_def CheckBoundSession_def unavailable_def
  by (intro pres_intros sessions outside)+

end

locale identity_repository = identity_interfaces +
  assumes requests: "canonical s a \<Longrightarrow> canonical s b \<Longrightarrow> pres I (repo_CreateFriendRequest (svc_repo s) a b t)"
      "canonical s a \<Longrightarrow> canonical s b \<Longrightarrow> pres I (repo_AcceptFriendRequest (svc_repo s) a b t)"
begin

lemma friend_operations_pres: "pres I (SendFriendRequest s token l)" "pres I (AcceptFriendRequest s token l)"
  unfolding SendFriendRequest_def AcceptFriendRequest_def
  by (rule target_intro, intro pres_intros reads outside writes requests notifyFriendRequest_pres; simp)+

end

end
