(* ===== verification/Identity_World.thy ===== *)
theory Identity_World
  imports Identity_Service Delivery_Invariant
begin

text \<open>
  The world an identity service runs in, and the repository methods over it. \<open>identity_env\<close> fixes for every tick which
  transactions other processes commit just before ours (other identity services, and delivery workers on the outbox),
  whether our transaction reaches the database and its reply reaches us, which logins other requests of this process
  have admitted, and what the clock, the hasher, the generators, the dispatcher and the context answer. A theorem for
  every \<open>env\<close> holds for every interleaving. A transaction is atomic: a statement that updates or deletes rows sees
  them as they are when it locks them, and no transaction reads what it does not then check by a constraint.
\<close>

section \<open>Other processes\<close>

datatype identity_op =
    OpCreateAccount CreateAccountParams
  | OpCreateSession CreateSessionParams
  | OpTouchSession string string int
  | OpUpdateProfile User
  | OpRevokeSession string string int
  | OpRevokeDevice string string int
  | OpCreateFriendRequest string string int
  | OpAcceptFriendRequest string string int
  | OpDeleteFriendRequest string string
  | OpDeleteFriendship string string
  | OpBlockUser string string int
  | OpUnblockUser string string
  | OpUpsertSubscription WebPushSubscription
  | OpDeleteSubscription string string
  | OpDeleteSubscriptions "string list"
  | OpWorker int "IdentityEvent delivery_op"

text \<open>\<open>Fails\<close>: the transaction does not commit. \<open>LosesReply\<close>: it commits and the caller sees an error. The flag
  says whether that error is the one of the context.\<close>

datatype identity_fault = Works | Fails bool | LosesReply bool

record identity_env =
  iv_parse :: uuid_parser
  iv_sha256 :: "string \<Rightarrow> string"
  iv_maximum :: int
  iv_active :: "nat \<Rightarrow> string list"
  iv_others :: "nat \<Rightarrow> (ipg \<times> identity_op) list"
  iv_pg :: "nat \<Rightarrow> ipg"
  iv_fault :: "nat \<Rightarrow> identity_fault"
  iv_clock :: "nat \<Rightarrow> int"
  iv_id :: "nat \<Rightarrow> string"
  iv_random :: "nat \<Rightarrow> identity_error + string"
  iv_hash :: "nat \<Rightarrow> string \<Rightarrow> identity_error + string"
  iv_verify :: "string \<Rightarrow> string \<Rightarrow> identity_error + bool"
  iv_done :: "nat \<Rightarrow> bool"
  iv_dispatch :: "(nat \<Rightarrow> string list) option"

record identity_world =
  iw_db :: identity_db
  iw_tick :: nat

text \<open>A statement of a delivery worker touches the outbox tables only.\<close>

definition on_authority :: "(IdentityEvent, 'a) delivery_tx \<Rightarrow> 'a identity_tx" where
  "on_authority m = (\<lambda>db. case m (authority db) of
     Inl _ \<Rightarrow> Inl ErrOther
   | Inr (x, d) \<Rightarrow> Inr (x, db\<lparr>authority := d\<rparr>))"

definition ignoreT :: "'a identity_tx \<Rightarrow> unit identity_tx" where
  "ignoreT m = bindT m (\<lambda>_. returnT ())"

definition identity_op_tx :: "uuid_parser \<Rightarrow> ipg \<Rightarrow> identity_op \<Rightarrow> unit identity_tx" where
  "identity_op_tx parse pg operation =
     (case operation of
        OpCreateAccount params \<Rightarrow> ignoreT (CreateAccount_tx parse params)
      | OpCreateSession params \<Rightarrow> ignoreT (CreateSession_tx parse params)
      | OpTouchSession i d t \<Rightarrow> TouchSession_tx parse i d t
      | OpUpdateProfile u \<Rightarrow> ignoreT (UpdateUserProfile_tx parse u)
      | OpRevokeSession u i t \<Rightarrow> ignoreT (RevokeSession_tx parse pg u i t)
      | OpRevokeDevice u d t \<Rightarrow> ignoreT (RevokeDevice_tx parse pg u d t)
      | OpCreateFriendRequest a b t \<Rightarrow> CreateFriendRequest_tx parse a b t
      | OpAcceptFriendRequest a b t \<Rightarrow> ignoreT (AcceptFriendRequest_tx parse a b t)
      | OpDeleteFriendRequest a b \<Rightarrow> ignoreT (DeleteFriendRequest_tx parse a b)
      | OpDeleteFriendship a b \<Rightarrow> ignoreT (DeleteFriendship_tx parse a b)
      | OpBlockUser a b t \<Rightarrow> BlockUser_tx parse a b t
      | OpUnblockUser a b \<Rightarrow> ignoreT (UnblockUser_tx parse a b)
      | OpUpsertSubscription s \<Rightarrow> UpsertWebPushSubscription_tx parse s
      | OpDeleteSubscription u endpoint \<Rightarrow> ignoreT (DeleteWebPushSubscription_tx parse u endpoint)
      | OpDeleteSubscriptions ids \<Rightarrow> ignoreT (DeleteWebPushSubscriptionsByIDs_tx parse ids)
      | OpWorker t x \<Rightarrow> on_authority (delivery_op_tx identity_kind (t, x)))"

text \<open>What the other services do: their parameters are built the same way, the users of a request or a block are spelled
  as the database spells them, and workers do not write events.\<close>

definition op_allowed :: "uuid_parser \<Rightarrow> identity_op \<Rightarrow> bool" where
  "op_allowed parse operation =
     (case operation of
        OpCreateAccount params \<Rightarrow> account_params params
      | OpCreateSession params \<Rightarrow> session_params params
      | OpCreateFriendRequest a b t \<Rightarrow> parse a = Some a \<and> parse b = Some b
      | OpAcceptFriendRequest a b t \<Rightarrow> parse a = Some a \<and> parse b = Some b
      | OpBlockUser a b t \<Rightarrow> parse a = Some a \<and> parse b = Some b
      | OpWorker t x \<Rightarrow> (case x of OpEvent _ \<Rightarrow> False | _ \<Rightarrow> True)
      | _ \<Rightarrow> True)"

definition run_identity_op :: "uuid_parser \<Rightarrow> ipg \<times> identity_op \<Rightarrow> identity_db \<Rightarrow> identity_db" where
  "run_identity_op parse x db = (case identity_op_tx parse (fst x) (snd x) db of Inl _ \<Rightarrow> db | Inr (_, db') \<Rightarrow> db')"

text \<open>The parser maps an accepted spelling to a text, never the empty one, that it maps to itself.\<close>

definition env_allowed :: "identity_env \<Rightarrow> bool" where
  "env_allowed env \<longleftrightarrow>
     (\<forall>s u. iv_parse env s = Some u \<longrightarrow> u \<noteq> '''' \<and> iv_parse env u = Some u) \<and>
     (\<forall>n. \<forall>x\<in>set (iv_others env n). op_allowed (iv_parse env) (snd x))"

section \<open>One round trip to the database\<close>

definition others_moved :: "identity_env \<Rightarrow> identity_world \<Rightarrow> identity_db" where
  "others_moved env w = fold (run_identity_op (iv_parse env)) (iv_others env (iw_tick w)) (iw_db w)"

definition driver_error :: "bool \<Rightarrow> identity_error" where
  "driver_error context = (if context then ErrContext else ErrOther)"

definition transact :: "identity_env \<Rightarrow> (ipg \<Rightarrow> 'a identity_tx) \<Rightarrow> (identity_world, identity_error, 'a) prog" where
  "transact env m = (\<lambda>w.
     let db = others_moved env w; w1 = w\<lparr>iw_tick := Suc (iw_tick w), iw_db := db\<rparr>; t = iw_tick w
     in case iv_fault env t of
          Fails c \<Rightarrow> (Inl (driver_error c), w1)
        | Works \<Rightarrow> (case m (iv_pg env t) db of
              Inl e \<Rightarrow> (Inl e, w1)
            | Inr (x, db') \<Rightarrow> (Inr x, w1\<lparr>iw_db := db'\<rparr>))
        | LosesReply c \<Rightarrow> (case m (iv_pg env t) db of
              Inl e \<Rightarrow> (Inl (driver_error c), w1)
            | Inr (x, db') \<Rightarrow> (Inl (driver_error c), w1\<lparr>iw_db := db'\<rparr>)))"

text \<open>An answer from outside the database at the current tick.\<close>

definition answer :: "(nat \<Rightarrow> identity_error + 'a) \<Rightarrow> (identity_world, identity_error, 'a) prog" where
  "answer f = (\<lambda>w. (f (iw_tick w), w\<lparr>iw_tick := Suc (iw_tick w)\<rparr>))"

section \<open>The repository and the service\<close>

text \<open>The touch runs under a timeout of its own; when it expires the error is dropped.\<close>

definition repo_touch :: "identity_env \<Rightarrow> string \<Rightarrow> string \<Rightarrow> int \<Rightarrow> (identity_world, identity_error, unit) prog" where
  "repo_touch env sessionID deviceID t =
     attemptE (transact env (\<lambda>_. TouchSession_tx (iv_parse env) sessionID deviceID t)) (\<lambda>r. case r of
       Inl err \<Rightarrow> if err = ErrContext then returnE () else failE err
     | Inr _ \<Rightarrow> returnE ())"

text \<open>Two statements outside a transaction.\<close>

definition repo_devices :: "identity_env \<Rightarrow> string \<Rightarrow> (identity_world, identity_error, DeviceWithSessions list) prog" where
  "repo_devices env userID =
     bindE (liftE (mustParseUUID (iv_parse env) userID)) (\<lambda>u.
     bindE (transact env (\<lambda>_. query (ListDevicesByUserID u))) (\<lambda>ds.
     bindE (transact env (\<lambda>_. query (ListSessionsByUserID u))) (\<lambda>rows. returnE (group_sessions ds rows))))"

definition identity_postgres :: "identity_env \<Rightarrow> identity_world IdentityRepository" where
  "identity_postgres env = (let p = iv_parse env in
     \<lparr>repo_CreateAccount = (\<lambda>params. transact env (\<lambda>_. CreateAccount_tx p params)),
      repo_GetPasswordCredentialByLogin = (\<lambda>login. transact env (\<lambda>_. GetPasswordCredentialByLogin_tx login)),
      repo_CreateSession = (\<lambda>params. transact env (\<lambda>_. CreateSession_tx p params)),
      repo_GetSessionAuthByID = (\<lambda>i. transact env (\<lambda>_. GetSessionAuthByID_tx p i)),
      repo_TouchSession = repo_touch env,
      repo_UpdateUserProfile = (\<lambda>u. transact env (\<lambda>_. UpdateUserProfile_tx p u)),
      repo_RevokeSession = (\<lambda>u i t. transact env (\<lambda>pg. RevokeSession_tx p pg u i t)),
      repo_RevokeDevice = (\<lambda>u d t. transact env (\<lambda>pg. RevokeDevice_tx p pg u d t)),
      repo_ListDevices = repo_devices env,
      repo_GetUserByLogin = (\<lambda>login. transact env (\<lambda>_. GetUserByLogin_tx login)),
      repo_ListBlockedUsers = (\<lambda>u. transact env (\<lambda>_. ListBlockedUsers_tx p u)),
      repo_GetSocialGraphState = (\<lambda>a b. transact env (\<lambda>_. GetSocialGraphState_tx p a b)),
      repo_CreateFriendRequest = (\<lambda>a b t. transact env (\<lambda>_. CreateFriendRequest_tx p a b t)),
      repo_AcceptFriendRequest = (\<lambda>a b t. transact env (\<lambda>_. AcceptFriendRequest_tx p a b t)),
      repo_DeleteFriendRequest = (\<lambda>a b. transact env (\<lambda>_. DeleteFriendRequest_tx p a b)),
      repo_ListIncomingFriendRequests = (\<lambda>u. transact env (\<lambda>_. ListIncomingFriendRequests_tx p u)),
      repo_ListOutgoingFriendRequests = (\<lambda>u. transact env (\<lambda>_. ListOutgoingFriendRequests_tx p u)),
      repo_ListFriends = (\<lambda>u. transact env (\<lambda>_. ListFriends_tx p u)),
      repo_DeleteFriendship = (\<lambda>a b. transact env (\<lambda>_. DeleteFriendship_tx p a b)),
      repo_BlockUser = (\<lambda>a b t. transact env (\<lambda>_. BlockUser_tx p a b t)),
      repo_UnblockUser = (\<lambda>a b. transact env (\<lambda>_. UnblockUser_tx p a b)),
      repo_ListWebPushSubscriptions = (\<lambda>u. transact env (\<lambda>_. ListWebPushSubscriptions_tx p u)),
      repo_DeleteWebPushSubscriptionsByIDs = (\<lambda>ids. transact env (\<lambda>_. DeleteWebPushSubscriptionsByIDs_tx p ids))\<rparr>)"

text \<open>The admission of this request while the logins \<open>iv_active\<close> of other requests hold theirs; what this request
  itself holds is read by nobody in the model.\<close>

definition try_acquire :: "identity_env \<Rightarrow> string \<Rightarrow> nat \<Rightarrow> identity_error + unit" where
  "try_acquire env login t =
     (case acquire (if iv_done env t then Some ErrContext else None) login
             \<lparr>pa_maximum = iv_maximum env, pa_active = iv_active env t\<rparr> of
        Inl e \<Rightarrow> Inl e | Inr _ \<Rightarrow> Inr ())"

definition identity_service :: "identity_env \<Rightarrow> identity_world IdentityService" where
  "identity_service env =
     \<lparr>svc_repo = identity_postgres env,
      svc_Hash = (\<lambda>password. answer (\<lambda>t. iv_hash env t password)),
      svc_Verify = (\<lambda>password encoded. answer (\<lambda>_. iv_verify env password encoded)),
      svc_acquire = (\<lambda>login. answer (try_acquire env login)),
      svc_release = (\<lambda>login. answer (\<lambda>_. Inr ())),
      svc_done = answer (\<lambda>t. Inr (iv_done env t)),
      svc_dispatcher = map_option (\<lambda>f _ _ _ _. answer (\<lambda>t. Inr (f t))) (iv_dispatch env),
      svc_sessionTouchInterval = defaultSessionTouchInterval,
      svc_random = answer (iv_random env),
      svc_now = answer (\<lambda>t. Inr (iv_clock env t)),
      svc_newID = answer (\<lambda>t. Inr (iv_id env t)),
      svc_sha256 = iv_sha256 env,
      svc_parse = iv_parse env\<rparr>"

end
