(* ===== verification/Identity_Invariant.thy ===== *)
theory Identity_Invariant
  imports Identity_World
begin

text \<open>
  The invariant of the identity tables and how their rows may change: \<open>identity_inv\<close> (keys, CHECKs, references, a session
  belongs to the user of its device, a revoked device has no active session, the revision tells whether a row is revoked,
  every event of the outbox is about a revoked row, pairs of the social graph are canonical) and \<open>identity_evolves\<close>
  (rows of sessions and devices are never lost, a revocation is final and announced). Every statement and transaction
  keeps both.
\<close>

section \<open>The invariant\<close>

definition known :: "identity_db \<Rightarrow> uuid set" where
  "known db = user_ID ` set (users db)"

definition revision_of :: "int option \<Rightarrow> int" where
  "revision_of revokedAt = (if revokedAt = None then 1 else 2)"

definition accounts_ok :: "uuid_parser \<Rightarrow> User list \<Rightarrow> bool" where
  "accounts_ok parse us \<longleftrightarrow> distinct (map user_ID us) \<and> distinct (map user_Login us) \<and>
     (\<forall>u\<in>set us. user_check u \<and> parse (user_ID u) = Some (user_ID u))"

definition credentials_ok :: "uuid set \<Rightarrow> CredentialRow list \<Rightarrow> bool" where
  "credentials_ok K cs \<longleftrightarrow> distinct (map cr_UserID cs) \<and> (\<forall>c\<in>set cs. cr_UserID c \<in> K)"

definition devices_ok :: "uuid set \<Rightarrow> Device list \<Rightarrow> bool" where
  "devices_ok K ds \<longleftrightarrow> distinct (map device_ID ds) \<and>
     (\<forall>d\<in>set ds. device_check d \<and> device_UserID d \<in> K \<and> device_AuthorityRevision d = revision_of (device_RevokedAt d))"

definition session_of :: "Device \<Rightarrow> SessionRow \<Rightarrow> bool" where
  "session_of d s \<longleftrightarrow> device_ID d = session_DeviceID s \<and> device_UserID d = session_UserID s \<and>
     (device_RevokedAt d \<noteq> None \<longrightarrow> session_RevokedAt s \<noteq> None)"

definition sessions_ok :: "Device list \<Rightarrow> SessionRow list \<Rightarrow> bool" where
  "sessions_ok ds ss \<longleftrightarrow> distinct (map session_ID ss) \<and>
     (\<forall>s\<in>set ss. session_check s \<and> session_AuthorityRevision s = revision_of (session_RevokedAt s) \<and>
        (\<exists>d\<in>set ds. session_of d s))"

definition requests_ok :: "uuid set \<Rightarrow> FriendRequestRow list \<Rightarrow> bool" where
  "requests_ok K rs \<longleftrightarrow> distinct (map (\<lambda>r. (fr_UserLowID r, fr_UserHighID r)) rs) \<and>
     (\<forall>r\<in>set rs. request_check r \<and> fr_UserLowID r < fr_UserHighID r \<and> fr_UserLowID r \<in> K \<and> fr_UserHighID r \<in> K)"

definition friendships_ok :: "uuid set \<Rightarrow> FriendshipRow list \<Rightarrow> bool" where
  "friendships_ok K fs \<longleftrightarrow> distinct (map (\<lambda>r. (f_UserLowID r, f_UserHighID r)) fs) \<and>
     (\<forall>r\<in>set fs. f_UserLowID r < f_UserHighID r \<and> f_UserLowID r \<in> K \<and> f_UserHighID r \<in> K)"

definition blocks_ok :: "uuid set \<Rightarrow> BlockRow list \<Rightarrow> bool" where
  "blocks_ok K bs \<longleftrightarrow> distinct (map (\<lambda>r. (b_BlockerUserID r, b_BlockedUserID r)) bs) \<and>
     (\<forall>r\<in>set bs. b_BlockerUserID r \<noteq> b_BlockedUserID r \<and> b_BlockerUserID r \<in> K \<and> b_BlockedUserID r \<in> K)"

definition subscriptions_ok :: "uuid set \<Rightarrow> WebPushSubscription list \<Rightarrow> bool" where
  "subscriptions_ok K ws \<longleftrightarrow> distinct (map wp_ID ws) \<and> distinct (map wp_Endpoint ws) \<and> (\<forall>s\<in>set ws. wp_UserID s \<in> K)"

definition event_of_session :: "IdentityEvent \<Rightarrow> SessionRow \<Rightarrow> bool" where
  "event_of_session e s \<longleftrightarrow>
     ie_Kind e = ''session'' \<and> ie_SubjectID e = session_ID s \<and> ie_SessionID e = session_ID s \<and>
     ie_UserID e = session_UserID s \<and> ie_DeviceID e = session_DeviceID s \<and> session_RevokedAt s \<noteq> None \<and>
     ie_Revision e = session_AuthorityRevision s"

definition event_of_device :: "IdentityEvent \<Rightarrow> Device \<Rightarrow> bool" where
  "event_of_device e d \<longleftrightarrow>
     ie_Kind e = ''device'' \<and> ie_SubjectID e = device_ID d \<and> ie_SessionID e = uuid_Nil \<and>
     ie_UserID e = device_UserID d \<and> ie_DeviceID e = device_ID d \<and> device_RevokedAt d \<noteq> None \<and>
     ie_Revision e = device_AuthorityRevision d"

definition events_ok :: "Device list \<Rightarrow> SessionRow list \<Rightarrow> IdentityEvent OutboxRow list \<Rightarrow> bool" where
  "events_ok ds ss es \<longleftrightarrow>
     distinct (map (\<lambda>x. (ie_Kind (o_Event x), ie_SubjectID (o_Event x))) es) \<and>
     (\<forall>x\<in>set es. (\<exists>s\<in>set ss. event_of_session (o_Event x) s) \<or> (\<exists>d\<in>set ds. event_of_device (o_Event x) d))"

definition rows_canonical :: "uuid_parser \<Rightarrow> Device list \<Rightarrow> SessionRow list \<Rightarrow> bool" where
  "rows_canonical parse ds ss \<longleftrightarrow>
     (\<forall>d\<in>set ds. parse (device_ID d) = Some (device_ID d)) \<and> (\<forall>s\<in>set ss. parse (session_ID s) = Some (session_ID s))"

definition identity_inv :: "uuid_parser \<Rightarrow> identity_db \<Rightarrow> bool" where
  "identity_inv parse db \<longleftrightarrow>
     accounts_ok parse (users db) \<and> credentials_ok (known db) (user_password_credentials db) \<and>
     devices_ok (known db) (user_devices db) \<and> sessions_ok (user_devices db) (user_sessions db) \<and>
     requests_ok (known db) (user_friend_requests db) \<and> friendships_ok (known db) (user_friendships db) \<and>
     blocks_ok (known db) (user_blocks db) \<and> subscriptions_ok (known db) (web_push_subscriptions db) \<and>
     events_ok (user_devices db) (user_sessions db) (outbox (authority db)) \<and> delivery_inv identity_kind (authority db) \<and>
     rows_canonical parse (user_devices db) (user_sessions db)"

section \<open>How rows change\<close>

definition device_evolves :: "Device \<Rightarrow> Device \<Rightarrow> bool" where
  "device_evolves d d' \<longleftrightarrow>
     device_ID d' = device_ID d \<and> device_UserID d' = device_UserID d \<and>
     (device_RevokedAt d \<noteq> None \<longrightarrow> device_RevokedAt d' = device_RevokedAt d)"

definition session_evolves :: "SessionRow \<Rightarrow> SessionRow \<Rightarrow> bool" where
  "session_evolves s s' \<longleftrightarrow>
     session_ID s' = session_ID s \<and> session_UserID s' = session_UserID s \<and> session_DeviceID s' = session_DeviceID s \<and>
     row_TokenHash s' = row_TokenHash s \<and> (session_RevokedAt s \<noteq> None \<longrightarrow> session_RevokedAt s' = session_RevokedAt s)"

text \<open>A revocation in \<open>db\<close> is announced by an event about the session or about its device.\<close>

definition announced :: "identity_db \<Rightarrow> SessionRow \<Rightarrow> bool" where
  "announced db s \<longleftrightarrow> (\<exists>x\<in>set (outbox (authority db)).
     ie_Kind (o_Event x) = ''session'' \<and> ie_SubjectID (o_Event x) = session_ID s \<or>
     ie_Kind (o_Event x) = ''device'' \<and> ie_SubjectID (o_Event x) = session_DeviceID s)"

definition identity_evolves :: "identity_db \<Rightarrow> identity_db \<Rightarrow> bool" where
  "identity_evolves db db' \<longleftrightarrow>
     (\<forall>u\<in>set (users db). \<exists>u'\<in>set (users db'). user_ID u' = user_ID u \<and> user_Login u' = user_Login u) \<and>
     set (user_password_credentials db) \<subseteq> set (user_password_credentials db') \<and>
     (\<forall>d\<in>set (user_devices db). \<exists>d'\<in>set (user_devices db'). device_evolves d d') \<and>
     (\<forall>s\<in>set (user_sessions db). \<exists>s'\<in>set (user_sessions db'). session_evolves s s' \<and>
        (session_RevokedAt s = None \<longrightarrow> session_RevokedAt s' \<noteq> None \<longrightarrow> announced db' s)) \<and>
     delivery_evolves (authority db) (authority db')"

lemma device_evolves_refl [simp]: "device_evolves d d"
  by (simp add: device_evolves_def)

lemma session_evolves_refl [simp]: "session_evolves s s"
  by (simp add: session_evolves_def)

lemma device_evolves_trans: "device_evolves a b \<Longrightarrow> device_evolves b c \<Longrightarrow> device_evolves a c"
  by (auto simp: device_evolves_def)

lemma session_evolves_trans: "session_evolves a b \<Longrightarrow> session_evolves b c \<Longrightarrow> session_evolves a c"
  by (auto simp: session_evolves_def)

lemma announced_mono: "announced db s \<Longrightarrow> delivery_evolves (authority db) (authority db') \<Longrightarrow> announced db' s"
  unfolding announced_def delivery_evolves_def by blast

lemma announced_cong: "session_evolves s s' \<Longrightarrow> announced db s' = announced db s"
  by (simp add: announced_def session_evolves_def)

lemma identity_evolves_refl [simp]: "identity_evolves db db"
  unfolding identity_evolves_def using device_evolves_refl session_evolves_refl delivery_evolves_refl by blast

lemma identity_evolves_trans:
  assumes a: "identity_evolves db1 db2" and b: "identity_evolves db2 db3"
  shows "identity_evolves db1 db3"
proof -
  from b have auth: "delivery_evolves (authority db2) (authority db3)" by (simp add: identity_evolves_def)
  have "\<exists>s3\<in>set (user_sessions db3). session_evolves s s3 \<and>
        (session_RevokedAt s = None \<longrightarrow> session_RevokedAt s3 \<noteq> None \<longrightarrow> announced db3 s)" if s: "s \<in> set (user_sessions db1)" for s
  proof -
    from a s obtain s2 where s2: "s2 \<in> set (user_sessions db2)" "session_evolves s s2"
      "session_RevokedAt s = None \<longrightarrow> session_RevokedAt s2 \<noteq> None \<longrightarrow> announced db2 s"
      unfolding identity_evolves_def by blast
    from b s2(1) obtain s3 where s3: "s3 \<in> set (user_sessions db3)" "session_evolves s2 s3"
      "session_RevokedAt s2 = None \<longrightarrow> session_RevokedAt s3 \<noteq> None \<longrightarrow> announced db3 s2"
      unfolding identity_evolves_def by blast
    have "session_evolves s s3" using s2(2) s3(2) by (rule session_evolves_trans)
    moreover have "announced db3 s" if "session_RevokedAt s = None" "session_RevokedAt s3 \<noteq> None"
    proof (cases "session_RevokedAt s2 = None")
      case True
      with s3(3) that(2) have "announced db3 s2" by simp
      then show ?thesis by (simp add: announced_cong [OF s2(2)])
    next
      case False
      with s2(3) that(1) have "announced db2 s" by simp
      then show ?thesis by (rule announced_mono [OF _ auth])
    qed
    ultimately show ?thesis by (intro bexI [OF _ s3(1)]) simp
  qed
  moreover have "\<exists>d3\<in>set (user_devices db3). device_evolves d d3" if "d \<in> set (user_devices db1)" for d
  proof -
    from a that obtain d2 where "d2 \<in> set (user_devices db2)" "device_evolves d d2" by (auto simp: identity_evolves_def)
    moreover from b this(1) obtain d3 where "d3 \<in> set (user_devices db3)" "device_evolves d2 d3"
      by (auto simp: identity_evolves_def)
    ultimately show ?thesis using device_evolves_trans by blast
  qed
  moreover have "\<exists>u3\<in>set (users db3). user_ID u3 = user_ID u \<and> user_Login u3 = user_Login u" if "u \<in> set (users db1)" for u
  proof -
    from a that obtain u2 where "u2 \<in> set (users db2)" "user_ID u2 = user_ID u" "user_Login u2 = user_Login u"
      by (auto simp: identity_evolves_def)
    moreover from b this(1) obtain u3 where "u3 \<in> set (users db3)" "user_ID u3 = user_ID u2" "user_Login u3 = user_Login u2"
      by (auto simp: identity_evolves_def)
    ultimately show ?thesis by auto
  qed
  moreover have "set (user_password_credentials db1) \<subseteq> set (user_password_credentials db3)"
    using a b unfolding identity_evolves_def by blast
  moreover have "delivery_evolves (authority db1) (authority db3)"
    using a b delivery_evolves_trans unfolding identity_evolves_def by blast
  ultimately show ?thesis unfolding identity_evolves_def by simp
qed

definition identity_kept :: "uuid_parser \<Rightarrow> identity_db \<Rightarrow> identity_db \<Rightarrow> bool" where
  "identity_kept parse db0 db \<longleftrightarrow> identity_inv parse db \<and> identity_evolves db0 db"

text \<open>\<open>sound\<close>: from the invariant a successful run leads to the invariant, along the evolution.\<close>

definition sound :: "uuid_parser \<Rightarrow> 'a identity_tx \<Rightarrow> bool" where
  "sound parse m \<longleftrightarrow> (\<forall>db x db'. identity_inv parse db \<longrightarrow> m db = Inr (x, db') \<longrightarrow> identity_kept parse db db')"

lemma soundI:
  "(\<And>db x db'. identity_inv parse db \<Longrightarrow> m db = Inr (x, db') \<Longrightarrow> identity_inv parse db' \<and> identity_evolves db db') \<Longrightarrow>
     sound parse m"
  unfolding sound_def identity_kept_def by blast

lemma sound_kept: "sound parse m \<Longrightarrow> keeps (identity_kept parse db0) m"
  unfolding sound_def keeps_def identity_kept_def using identity_evolves_trans by blast

lemma sound_keeps: "(\<And>db0. keeps (identity_kept parse db0) m) \<Longrightarrow> sound parse m"
  unfolding sound_def keeps_def identity_kept_def using identity_evolves_refl by blast

end
