(* ===== verification/Identity_Keeps.thy ===== *)
theory Identity_Keeps
  imports Identity_Invariant
begin

text \<open>Every statement and every transaction of an identity service or a delivery worker keeps \<open>identity_kept\<close>.\<close>

section \<open>Statements outside accounts\<close>

lemma invD:
  assumes "identity_inv parse db"
  shows "accounts_ok parse (users db)" "credentials_ok (known db) (user_password_credentials db)"
    "devices_ok (known db) (user_devices db)" "sessions_ok (user_devices db) (user_sessions db)"
    "requests_ok (known db) (user_friend_requests db)" "friendships_ok (known db) (user_friendships db)"
    "blocks_ok (known db) (user_blocks db)" "subscriptions_ok (known db) (web_push_subscriptions db)"
    "events_ok (user_devices db) (user_sessions db) (outbox (authority db))" "delivery_inv identity_kind (authority db)"
    "rows_canonical parse (user_devices db) (user_sessions db)"
  using assms by (simp_all add: identity_inv_def)

lemma inv_social:
  assumes "identity_inv parse db"
  shows "requests_ok (known db) rs \<Longrightarrow> identity_inv parse (db\<lparr>user_friend_requests := rs\<rparr>)"
    "friendships_ok (known db) fs \<Longrightarrow> identity_inv parse (db\<lparr>user_friendships := fs\<rparr>)"
    "blocks_ok (known db) bs \<Longrightarrow> identity_inv parse (db\<lparr>user_blocks := bs\<rparr>)"
    "subscriptions_ok (known db) ws \<Longrightarrow> identity_inv parse (db\<lparr>web_push_subscriptions := ws\<rparr>)"
    "credentials_ok (known db) cs \<Longrightarrow> identity_inv parse (db\<lparr>user_password_credentials := cs\<rparr>)"
  using assms by (simp_all add: identity_inv_def known_def)

lemma identity_evolves_same:
  assumes "users db' = users db" "user_devices db' = user_devices db" "user_sessions db' = user_sessions db"
    "authority db' = authority db" "set (user_password_credentials db) \<subseteq> set (user_password_credentials db')"
  shows "identity_evolves db db'"
  unfolding identity_evolves_def assms(1-4)
  using assms(5) device_evolves_refl session_evolves_refl delivery_evolves_refl by blast

lemma known_find: "find_user db u \<noteq> None \<longleftrightarrow> u \<in> known db"
  by (force simp: find_user_def known_def find_Some_iff2 find_None_iff)

lemma distinct_map_filter: "distinct (map f xs) \<Longrightarrow> distinct (map f (filter P xs))"
  by (induction xs) auto

lemma filter_ok:
  "requests_ok K rs \<Longrightarrow> requests_ok K (filter P rs)" "friendships_ok K fs \<Longrightarrow> friendships_ok K (filter Q fs)"
  "blocks_ok K bs \<Longrightarrow> blocks_ok K (filter R bs)" "subscriptions_ok K ws \<Longrightarrow> subscriptions_ok K (filter S ws)"
  by (auto simp: requests_ok_def friendships_ok_def blocks_ok_def subscriptions_ok_def distinct_map_filter)

lemma sound_deletes:
  "sound parse (DeleteFriendRequest_sql a b)" "sound parse (DeleteFriendRequestsByPair l h)"
  "sound parse (DeleteFriendshipByPair l h)" "sound parse (DeleteUserBlock a b)"
  "sound parse (DeleteWebPushSubscriptionsByIDs_sql ids)" "sound parse (DeleteWebPushSubscriptionByUserIDAndEndpoint u e)"
  by (rule soundI; auto simp: DeleteFriendRequest_sql_def DeleteFriendRequestsByPair_def DeleteFriendshipByPair_def
      DeleteUserBlock_def DeleteWebPushSubscriptionsByIDs_sql_def DeleteWebPushSubscriptionByUserIDAndEndpoint_def Let_def
      intro!: inv_social filter_ok invD identity_evolves_same)+

lemma sound_CreateFriendRequest:
  assumes "fr_UserLowID r < fr_UserHighID r"
  shows "sound parse (CreateFriendRequest_sql r)"
proof (rule soundI)
  fix db x db' assume inv: "identity_inv parse db" and run: "CreateFriendRequest_sql r db = Inr (x, db')"
  from run have check: "request_check r" and new: "find_request db (fr_UserLowID r) (fr_UserHighID r) = None"
    and fk: "fr_UserLowID r \<in> known db" "fr_UserHighID r \<in> known db"
    and db': "db' = db\<lparr>user_friend_requests := user_friend_requests db @ [r]\<rparr>"
    by (auto simp: CreateFriendRequest_sql_def known_find [symmetric] split: if_splits)
  from new have "(fr_UserLowID r, fr_UserHighID r) \<notin> (\<lambda>x. (fr_UserLowID x, fr_UserHighID x)) ` set (user_friend_requests db)"
    by (auto simp: find_request_def find_None_iff)
  with invD(5) [OF inv] check fk assms have "requests_ok (known db) (user_friend_requests db @ [r])"
    by (auto simp: requests_ok_def)
  then show "identity_inv parse db' \<and> identity_evolves db db'"
    unfolding db' using inv_social(1) [OF inv] by (simp add: identity_evolves_same)
qed

lemma sound_CreateFriendship:
  assumes "f_UserLowID r < f_UserHighID r"
  shows "sound parse (CreateFriendship r)"
proof (rule soundI)
  fix db x db' assume inv: "identity_inv parse db" and run: "CreateFriendship r db = Inr (x, db')"
  from run have new: "find_friendship db (f_UserLowID r) (f_UserHighID r) = None"
    and fk: "f_UserLowID r \<in> known db" "f_UserHighID r \<in> known db"
    and db': "db' = db\<lparr>user_friendships := user_friendships db @ [r]\<rparr>"
    by (auto simp: CreateFriendship_def known_find [symmetric] split: if_splits)
  from new have "(f_UserLowID r, f_UserHighID r) \<notin> (\<lambda>x. (f_UserLowID x, f_UserHighID x)) ` set (user_friendships db)"
    by (auto simp: find_friendship_def find_None_iff)
  with invD(6) [OF inv] fk assms have "friendships_ok (known db) (user_friendships db @ [r])"
    by (auto simp: friendships_ok_def)
  then show "identity_inv parse db' \<and> identity_evolves db db'"
    unfolding db' using inv_social(2) [OF inv] by (simp add: identity_evolves_same)
qed

lemma sound_CreateUserBlock: "sound parse (CreateUserBlock r)"
proof (rule soundI)
  fix db x db' assume inv: "identity_inv parse db" and run: "CreateUserBlock r db = Inr (x, db')"
  show "identity_inv parse db' \<and> identity_evolves db db'"
  proof (cases "db' = db")
    case False
    with run have ok: "b_BlockerUserID r \<noteq> b_BlockedUserID r" "b_BlockerUserID r \<in> known db" "b_BlockedUserID r \<in> known db"
      and new: "\<forall>x\<in>set (user_blocks db). \<not> (b_BlockerUserID x = b_BlockerUserID r \<and> b_BlockedUserID x = b_BlockedUserID r)"
      and db': "db' = db\<lparr>user_blocks := user_blocks db @ [r]\<rparr>"
      by (auto simp: CreateUserBlock_def known_find [symmetric] split: if_splits)
    from invD(7) [OF inv] ok new have "blocks_ok (known db) (user_blocks db @ [r])" by (auto simp: blocks_ok_def)
    then show ?thesis unfolding db' using inv_social(3) [OF inv] by (simp add: identity_evolves_same)
  qed (use inv in simp)
qed

lemma sound_credential: "sound parse (CreateUserPasswordCredential c)"
proof (rule soundI)
  fix db x db' assume inv: "identity_inv parse db" and run: "CreateUserPasswordCredential c db = Inr (x, db')"
  then have "credentials_ok (known db) (user_password_credentials db @ [c])"
    and db': "db' = db\<lparr>user_password_credentials := user_password_credentials db @ [c]\<rparr>"
    using invD(2) [OF inv] by (auto simp: CreateUserPasswordCredential_def credentials_ok_def known_find [symmetric]
        split: if_splits)
  then show "identity_inv parse db' \<and> identity_evolves db db'"
    using inv_social(5) [OF inv] by (simp add: identity_evolves_same subset_insertI)
qed

lemma sound_upsert: "sound parse (UpsertWebPushSubscription_sql s)"
proof (rule soundI)
  fix db x db' assume inv: "identity_inv parse db" and run: "UpsertWebPushSubscription_sql s db = Inr (x, db')"
  let ?ws = "web_push_subscriptions db"
  let ?f = "\<lambda>x. if wp_Endpoint x = wp_Endpoint s then s\<lparr>wp_ID := wp_ID x, wp_CreatedAt := wp_CreatedAt x\<rparr> else x"
  have keys: "map wp_ID (map ?f ?ws) = map wp_ID ?ws" "map wp_Endpoint (map ?f ?ws) = map wp_Endpoint ?ws" by auto
  from run have fk: "wp_UserID s \<in> known db" by (auto simp: UpsertWebPushSubscription_sql_def Let_def known_find [symmetric] split: if_splits)
  have ws: "subscriptions_ok (known db) ?ws" by (rule invD(8) [OF inv])
  have "subscriptions_ok (known db) (map ?f ?ws)"
    unfolding subscriptions_ok_def keys using ws fk by (auto simp: subscriptions_ok_def)
  moreover have "subscriptions_ok (known db) (?ws @ [s])"
    if "\<not> (\<exists>x\<in>set ?ws. wp_Endpoint x = wp_Endpoint s)" "\<not> (\<exists>x\<in>set ?ws. wp_ID x = wp_ID s)"
    using ws fk that by (auto simp: subscriptions_ok_def)
  ultimately have "\<exists>ws'. subscriptions_ok (known db) ws' \<and> db' = db\<lparr>web_push_subscriptions := ws'\<rparr>"
    using run by (fastforce simp: UpsertWebPushSubscription_sql_def Let_def split: if_splits)
  then show "identity_inv parse db' \<and> identity_evolves db db'"
    using inv_social(4) [OF inv] by (auto simp: identity_evolves_same)
qed

section \<open>Accounts and devices\<close>

lemma ok_mono:
  "credentials_ok K cs \<Longrightarrow> K \<subseteq> K' \<Longrightarrow> credentials_ok K' cs" "devices_ok K ds \<Longrightarrow> K \<subseteq> K' \<Longrightarrow> devices_ok K' ds"
  "requests_ok K rs \<Longrightarrow> K \<subseteq> K' \<Longrightarrow> requests_ok K' rs" "friendships_ok K fs \<Longrightarrow> K \<subseteq> K' \<Longrightarrow> friendships_ok K' fs"
  "blocks_ok K bs \<Longrightarrow> K \<subseteq> K' \<Longrightarrow> blocks_ok K' bs" "subscriptions_ok K ws \<Longrightarrow> K \<subseteq> K' \<Longrightarrow> subscriptions_ok K' ws"
  by (auto simp: credentials_ok_def devices_ok_def requests_ok_def friendships_ok_def blocks_ok_def subscriptions_ok_def)

lemma inv_users:
  assumes "identity_inv parse db" and "accounts_ok parse us" and "known db \<subseteq> user_ID ` set us"
  shows "identity_inv parse (db\<lparr>users := us\<rparr>)"
proof -
  have "known (db\<lparr>users := us\<rparr>) = user_ID ` set us" by (simp add: known_def)
  with invD [OF assms(1)] assms(2,3) show ?thesis by (simp add: identity_inv_def ok_mono)
qed

lemma inv_rows:
  assumes "identity_inv parse db" and "devices_ok (known db) ds" and "sessions_ok ds ss"
    and "events_ok ds ss (outbox (authority db))" and "rows_canonical parse ds ss"
  shows "identity_inv parse (db\<lparr>user_devices := ds, user_sessions := ss\<rparr>)"
  using assms by (simp add: identity_inv_def known_def)

lemma evolves_rows:
  assumes "\<And>u. u \<in> set (users db) \<Longrightarrow> \<exists>u'\<in>set (users db'). user_ID u' = user_ID u \<and> user_Login u' = user_Login u"
    and "\<And>d. d \<in> set (user_devices db) \<Longrightarrow> \<exists>d'\<in>set (user_devices db'). device_evolves d d'"
    and "\<And>s. s \<in> set (user_sessions db) \<Longrightarrow> \<exists>s'\<in>set (user_sessions db'). session_evolves s s' \<and>
           (session_RevokedAt s = None \<longrightarrow> session_RevokedAt s' = None)"
    and "authority db' = authority db" and "set (user_password_credentials db) \<subseteq> set (user_password_credentials db')"
  shows "identity_evolves db db'"
  using assms unfolding identity_evolves_def by (metis delivery_evolves_refl)

lemma evolves_grow:
  assumes "set (users db) \<subseteq> set (users db')" and "set (user_devices db) \<subseteq> set (user_devices db')"
    and "set (user_sessions db) \<subseteq> set (user_sessions db')" and "authority db' = authority db"
    and "set (user_password_credentials db) \<subseteq> set (user_password_credentials db')"
  shows "identity_evolves db db'"
  by (rule evolves_rows) (use assms device_evolves_refl session_evolves_refl in blast)+

lemma find_key_in: "find (\<lambda>r. k r = i) xs = None \<longleftrightarrow> i \<notin> k ` set xs"
  by (auto simp: find_None_iff)

lemma sound_CreateUser:
  assumes "parse (user_ID u) = Some (user_ID u)"
  shows "sound parse (CreateUser u)"
proof (rule soundI)
  fix db x db' assume inv: "identity_inv parse db" and run: "CreateUser u db = Inr (x, db')"
  from run have check: "user_check u" and new: "user_ID u \<notin> user_ID ` set (users db)" "user_Login u \<notin> user_Login ` set (users db)"
    and db': "db' = db\<lparr>users := users db @ [u]\<rparr>"
    by (auto simp: CreateUser_def find_user_def find_login_def find_key_in split: if_splits)
  from invD(1) [OF inv] check new assms have "accounts_ok parse (users db @ [u])" by (auto simp: accounts_ok_def)
  then have "identity_inv parse db'" unfolding db' by (rule inv_users [OF inv]) (auto simp: known_def)
  moreover have "identity_evolves db db'" unfolding db' by (rule evolves_grow) auto
  ultimately show "identity_inv parse db' \<and> identity_evolves db db'" by simp
qed

lemma sound_UpdateUserProfile: "sound parse (UpdateUserProfile_sql u)"
proof (rule soundI)
  fix db x db' assume inv: "identity_inv parse db" and run: "UpdateUserProfile_sql u db = Inr (x, db')"
  from run obtain old where old: "find_user db (user_ID u) = Some old" by (auto simp: UpdateUserProfile_sql_def split: option.splits)
  let ?new = "u\<lparr>user_Login := user_Login old, user_CreatedAt := user_CreatedAt old\<rparr>"
  let ?f = "\<lambda>r. if user_ID r = user_ID u then ?new else r"
  from run old have check: "user_check ?new" and db': "db' = db\<lparr>users := map ?f (users db)\<rparr>"
    by (auto simp: UpdateUserProfile_sql_def Let_def split: if_splits)
  from old have mem: "old \<in> set (users db)" "user_ID old = user_ID u" by (auto simp: find_user_def dest: find_SomeD)
  have acc: "accounts_ok parse (users db)" by (rule invD(1) [OF inv])
  have login: "user_Login (?f r) = user_Login r" if "r \<in> set (users db)" for r
    using that mem acc distinct_keyD [of user_ID "users db" r old] by (auto simp: accounts_ok_def)
  have keys: "map user_ID (map ?f (users db)) = map user_ID (users db)"
    "map user_Login (map ?f (users db)) = map user_Login (users db)" using login by auto
  have "accounts_ok parse (map ?f (users db))"
    unfolding accounts_ok_def keys using acc check mem by (auto simp: accounts_ok_def)
  then have "identity_inv parse db'" unfolding db'
  proof (rule inv_users [OF inv])
    have "set (map user_ID (map ?f (users db))) = set (map user_ID (users db))" by (simp only: keys)
    then show "known db \<subseteq> user_ID ` set (map ?f (users db))" by (simp only: known_def set_map)
  qed
  moreover have "identity_evolves db db'" unfolding db'
  proof (rule evolves_rows)
    fix r assume r: "r \<in> set (users db)"
    then have "?f r \<in> set (map ?f (users db))" by simp
    with login [OF r] show "\<exists>u'\<in>set (users (db\<lparr>users := map ?f (users db)\<rparr>)). user_ID u' = user_ID r \<and> user_Login u' = user_Login r"
      by (intro bexI [of _ "?f r"]) auto
  qed (simp_all, (use device_evolves_refl session_evolves_refl in blast)+)
  ultimately show "identity_inv parse db' \<and> identity_evolves db db'" by simp
qed

lemma sessions_ok_mono: "sessions_ok ds ss \<Longrightarrow> set ds \<subseteq> set ds' \<Longrightarrow> sessions_ok ds' ss"
  unfolding sessions_ok_def by blast

lemma events_ok_mono: "events_ok ds ss es \<Longrightarrow> set ds \<subseteq> set ds' \<Longrightarrow> set ss \<subseteq> set ss' \<Longrightarrow> events_ok ds' ss' es"
  unfolding events_ok_def by blast

lemma CreateDevice_run:
  assumes inv: "identity_inv parse db" and run: "CreateDevice d db = Inr (row, db')" and active: "device_RevokedAt d = None"
    and canonical: "parse (device_ID d) = Some (device_ID d)"
  shows "identity_inv parse db' \<and> identity_evolves db db' \<and> row = d\<lparr>device_AuthorityRevision := 1\<rparr> \<and>
     db' = db\<lparr>user_devices := user_devices db @ [row]\<rparr>"
proof -
  let ?d = "d\<lparr>device_AuthorityRevision := 1\<rparr>"
  from run have check: "device_check ?d" and new: "device_ID d \<notin> device_ID ` set (user_devices db)"
    and fk: "device_UserID d \<in> known db" and row: "row = ?d" and db': "db' = db\<lparr>user_devices := user_devices db @ [?d]\<rparr>"
    by (auto simp: CreateDevice_def Let_def find_device_def find_key_in known_find [symmetric] split: if_splits)
  have "devices_ok (known db) (user_devices db @ [?d])"
    using invD(3) [OF inv] check new fk active by (auto simp: devices_ok_def revision_of_def)
  moreover have "sessions_ok (user_devices db @ [?d]) (user_sessions db)"
    by (rule sessions_ok_mono [OF invD(4) [OF inv]]) auto
  moreover have "events_ok (user_devices db @ [?d]) (user_sessions db) (outbox (authority db))"
    by (rule events_ok_mono [OF invD(9) [OF inv]]) auto
  moreover have "rows_canonical parse (user_devices db @ [?d]) (user_sessions db)"
    using invD(11) [OF inv] canonical by (auto simp: rows_canonical_def)
  ultimately have "identity_inv parse db'" unfolding db' using inv_rows [OF inv] by fastforce
  moreover have "identity_evolves db db'" unfolding db' by (rule evolves_grow) auto
  ultimately show ?thesis by (simp add: row db')
qed

lemma CreateSession_run:
  assumes inv: "identity_inv parse db" and run: "CreateSession_sql s db = Inr (row, db')"
    and active: "session_RevokedAt s = None" and canonical: "parse (session_ID s) = Some (session_ID s)"
    and device: "d \<in> set (user_devices db)" "device_ID d = session_DeviceID s" "device_UserID d = session_UserID s"
      "device_RevokedAt d = None"
  shows "identity_inv parse db' \<and> identity_evolves db db' \<and> row = s\<lparr>session_AuthorityRevision := 1\<rparr> \<and>
     db' = db\<lparr>user_sessions := user_sessions db @ [row]\<rparr>"
proof -
  let ?s = "s\<lparr>session_AuthorityRevision := 1\<rparr>"
  from run have check: "session_check ?s" and new: "session_ID s \<notin> session_ID ` set (user_sessions db)"
    and row: "row = ?s" and db': "db' = db\<lparr>user_sessions := user_sessions db @ [?s]\<rparr>"
    by (auto simp: CreateSession_sql_def Let_def find_session_def find_key_in split: if_splits)
  have "session_of d ?s" using device by (simp add: session_of_def)
  then have "sessions_ok (user_devices db) (user_sessions db @ [?s])"
    using invD(4) [OF inv] check new active device(1) by (auto simp: sessions_ok_def revision_of_def)
  moreover have "events_ok (user_devices db) (user_sessions db @ [?s]) (outbox (authority db))"
    by (rule events_ok_mono [OF invD(9) [OF inv]]) auto
  moreover have "rows_canonical parse (user_devices db) (user_sessions db @ [?s])"
    using invD(11) [OF inv] canonical by (auto simp: rows_canonical_def)
  ultimately have "identity_inv parse db'" unfolding db' using inv_rows [OF inv invD(3) [OF inv]] by fastforce
  moreover have "identity_evolves db db'" unfolding db' by (rule evolves_grow) auto
  ultimately show ?thesis by (simp add: row db')
qed

end
