(* ===== verification/Identity_Revoke.thy ===== *)
theory Identity_Revoke
  imports Identity_Keeps
begin

text \<open>
  Statements that update sessions and devices, row by row (\<open>step_rows\<close>): touching and the revocations with their events
  keep \<open>identity_kept\<close>.
\<close>

section \<open>Updates of sessions and devices\<close>

definition device_step :: "(Device \<Rightarrow> Device) \<Rightarrow> bool" where
  "device_step f \<longleftrightarrow> (\<forall>d. device_check d \<longrightarrow> device_AuthorityRevision d = revision_of (device_RevokedAt d) \<longrightarrow>
     device_evolves d (f d) \<and> device_check (f d) \<and> device_AuthorityRevision (f d) = revision_of (device_RevokedAt (f d)))"

definition session_step :: "(SessionRow \<Rightarrow> SessionRow) \<Rightarrow> bool" where
  "session_step g \<longleftrightarrow> (\<forall>s. session_check s \<longrightarrow> session_AuthorityRevision s = revision_of (session_RevokedAt s) \<longrightarrow>
     session_evolves s (g s) \<and> session_check (g s) \<and>
     session_AuthorityRevision (g s) = revision_of (session_RevokedAt (g s)))"

definition step_rows :: "(Device \<Rightarrow> Device) \<Rightarrow> (SessionRow \<Rightarrow> SessionRow) \<Rightarrow> identity_db \<Rightarrow> identity_db" where
  "step_rows f g db = db\<lparr>user_devices := map f (user_devices db), user_sessions := map g (user_sessions db)\<rparr>"

lemma step_rows_sel [simp]:
  "users (step_rows f g db) = users db" "authority (step_rows f g db) = authority db"
  "user_devices (step_rows f g db) = map f (user_devices db)" "user_sessions (step_rows f g db) = map g (user_sessions db)"
  by (simp_all add: step_rows_def)

lemma step_rows_inv:
  assumes inv: "identity_inv parse db" and f: "device_step f" and g: "session_step g"
    and link: "\<And>d s. session_of d s \<Longrightarrow> session_of (f d) (g s)"
  shows "identity_inv parse (step_rows f g db)"
proof -
  let ?ds = "user_devices db" and ?ss = "user_sessions db"
  have d: "device_evolves d (f d) \<and> device_check (f d) \<and> device_AuthorityRevision (f d) = revision_of (device_RevokedAt (f d))"
    if "d \<in> set ?ds" for d using that f invD(3) [OF inv] by (auto simp: device_step_def devices_ok_def)
  have s: "session_evolves s (g s) \<and> session_check (g s) \<and>
      session_AuthorityRevision (g s) = revision_of (session_RevokedAt (g s))"
    if "s \<in> set ?ss" for s using that g invD(4) [OF inv] by (auto simp: session_step_def sessions_ok_def)
  have keys: "map device_ID (map f ?ds) = map device_ID ?ds" "map session_ID (map g ?ss) = map session_ID ?ss"
    using d s by (auto simp: device_evolves_def session_evolves_def)
  have ds: "devices_ok (known db) (map f ?ds)"
    unfolding devices_ok_def keys using invD(3) [OF inv] d by (auto simp: devices_ok_def device_evolves_def)
  have linked: "\<exists>d'\<in>set (map f ?ds). session_of d' (g x)" if x: "x \<in> set ?ss" for x
  proof -
    from x invD(4) [OF inv] obtain e where "e \<in> set ?ds" "session_of e x" unfolding sessions_ok_def by blast
    then show ?thesis using link by auto
  qed
  have ss: "sessions_ok (map f ?ds) (map g ?ss)"
    unfolding sessions_ok_def keys using invD(4) [OF inv] s linked by (auto simp: sessions_ok_def)
  have old: "device_AuthorityRevision d = revision_of (device_RevokedAt d)" if "d \<in> set ?ds" for d
    using that invD(3) [OF inv] by (auto simp: devices_ok_def)
  have olds: "session_AuthorityRevision x = revision_of (session_RevokedAt x)" if "x \<in> set ?ss" for x
    using that invD(4) [OF inv] by (auto simp: sessions_ok_def)
  have "event_of_device e (f x)" if "x \<in> set ?ds" "event_of_device e x" for e x
    using that d [OF that(1)] old [OF that(1)] by (auto simp: event_of_device_def device_evolves_def)
  moreover have "event_of_session e (g x)" if "x \<in> set ?ss" "event_of_session e x" for e x
    using that s [OF that(1)] olds [OF that(1)] by (auto simp: event_of_session_def session_evolves_def)
  ultimately have "events_ok (map f ?ds) (map g ?ss) (outbox (authority db))"
    using invD(9) [OF inv] unfolding events_ok_def by fastforce
  moreover have "rows_canonical parse (map f ?ds) (map g ?ss)"
    using invD(11) [OF inv] d s by (simp add: rows_canonical_def device_evolves_def session_evolves_def)
  ultimately show ?thesis unfolding step_rows_def by (intro inv_rows [OF inv] ds ss)
qed

lemma step_rows_evolves:
  assumes inv: "identity_inv parse db" and f: "device_step f" and g: "session_step g"
    and news: "\<And>s. s \<in> set (user_sessions db) \<Longrightarrow> session_RevokedAt s = None \<Longrightarrow> session_RevokedAt (g s) \<noteq> None \<Longrightarrow>
      announced (step_rows f g db\<lparr>authority := a\<rparr>) s"
    and auth: "delivery_evolves (authority db) a"
  shows "identity_evolves db (step_rows f g db\<lparr>authority := a\<rparr>)"
proof -
  have "device_evolves d (f d)" if "d \<in> set (user_devices db)" for d
    using that f invD(3) [OF inv] by (auto simp: device_step_def devices_ok_def)
  moreover have "session_evolves s (g s)" if "s \<in> set (user_sessions db)" for s
    using that g invD(4) [OF inv] by (auto simp: session_step_def sessions_ok_def)
  ultimately show ?thesis using auth news unfolding identity_evolves_def by (simp add: step_rows_def) blast
qed

lemma device_step_id [simp]: "device_step (\<lambda>d. d)" and session_step_id [simp]: "session_step (\<lambda>s. s)"
  by (simp_all add: device_step_def session_step_def)

text \<open>Steps that revoke nothing.\<close>

lemma sound_step:
  assumes "device_step f" and "session_step g" and "\<And>d s. session_of d s \<Longrightarrow> session_of (f d) (g s)"
    and "\<And>s. session_RevokedAt (g s) = session_RevokedAt s" and "\<And>db x db'. m db = Inr (x, db') \<Longrightarrow> db' = step_rows f g db"
  shows "sound parse m"
proof (rule soundI)
  fix db x db' assume inv: "identity_inv parse db" and "m db = Inr (x, db')"
  with assms(5) have db': "db' = step_rows f g db" by blast
  have same: "step_rows f g db\<lparr>authority := authority db\<rparr> = step_rows f g db" by (simp add: step_rows_def)
  have "identity_evolves db (step_rows f g db\<lparr>authority := authority db\<rparr>)"
    by (rule step_rows_evolves [OF inv assms(1,2)]) (simp_all add: assms(4))
  with step_rows_inv [OF inv assms(1,2,3)] show "identity_inv parse db' \<and> identity_evolves db db'"
    unfolding db' same by simp
qed

lemma sound_Touch: "sound parse (TouchSessionAndDevice i d t)"
proof (rule sound_step)
  let ?f = "\<lambda>x. if device_ID x = d then x\<lparr>device_LastSeenAt := t\<rparr> else x"
  let ?g = "\<lambda>s. if session_ID s = i \<and> session_DeviceID s = d then s\<lparr>session_LastSeenAt := t\<rparr> else s"
  show "device_step ?f" by (auto simp: device_step_def device_evolves_def device_check_def)
  show "session_step ?g" by (auto simp: session_step_def session_evolves_def session_check_def)
  show "session_of (?f x) (?g s)" if "session_of x s" for x s using that by (simp add: session_of_def)
  show "session_RevokedAt (?g s) = session_RevokedAt s" for s by simp
  show "db' = step_rows ?f ?g db" if "TouchSessionAndDevice i d t db = Inr (x, db')" for db x db'
    using that by (cases db) (auto simp: TouchSessionAndDevice_def step_rows_def)
qed

section \<open>Revocations\<close>

lemma identity_event_run:
  assumes inv: "identity_inv parse db" and run: "insert_event clock e t db = Inr (x, db')"
    and about: "(\<exists>s\<in>set (user_sessions db). event_of_session e s) \<or> (\<exists>d\<in>set (user_devices db). event_of_device e d)"
  shows "\<exists>a. db' = db\<lparr>authority := a\<rparr> \<and> identity_inv parse db' \<and> delivery_evolves (authority db) a \<and>
     (\<exists>y\<in>set (outbox a). o_Event y = e)"
proof -
  let ?row = "\<lparr>o_Event = e, o_OccurredAt = t\<rparr>"
  from run obtain a where a: "CreateAuthorityRevocationEvent identity_kind ?row clock (authority db) = Inr ((), a)"
    and once: "\<not> (\<exists>y\<in>set (outbox (authority db)). ie_Kind (o_Event y) = ie_Kind e \<and>
        ie_SubjectID (o_Event y) = ie_SubjectID e \<and> ie_Revision (o_Event y) = ie_Revision e)"
    and db': "db' = db\<lparr>authority := a\<rparr>"
    by (auto simp: insert_event_def split: if_splits sum.splits)
  from a have box: "outbox a = outbox (authority db) @ [?row]"
    by (auto simp: CreateAuthorityRevocationEvent_def split: if_splits)
  have "kept identity_kind (authority db) (authority db)" using invD(10) [OF inv] by (simp add: kept_def)
  from keepsD [OF kept_Create this a] have k: "delivery_inv identity_kind a" "delivery_evolves (authority db) a"
    by (simp_all add: kept_def)
  have revision: "ie_Revision e' = 2"
    if "(\<exists>s\<in>set (user_sessions db). event_of_session e' s) \<or> (\<exists>d\<in>set (user_devices db). event_of_device e' d)" for e'
    using that invD(3,4) [OF inv]
    by (auto simp: event_of_session_def event_of_device_def devices_ok_def sessions_ok_def revision_of_def)
  have fresh: "\<not> (ie_Kind (o_Event y) = ie_Kind e \<and> ie_SubjectID (o_Event y) = ie_SubjectID e)"
    if y: "y \<in> set (outbox (authority db))" for y
  proof -
    from y invD(9) [OF inv] have "ie_Revision (o_Event y) = ie_Revision e"
      unfolding events_ok_def using revision [OF about] revision [of "o_Event y"] by simp
    with y once show ?thesis by blast
  qed
  then have "(ie_Kind e, ie_SubjectID e) \<notin> (\<lambda>x. (ie_Kind (o_Event x), ie_SubjectID (o_Event x))) ` set (outbox (authority db))"
    by force
  with invD(9) [OF inv] about have "events_ok (user_devices db) (user_sessions db) (outbox a)"
    by (simp add: events_ok_def box)
  then have "identity_inv parse db'"
    using inv k(1) by (simp add: identity_inv_def db' known_def)
  with db' k(2) box show ?thesis by auto
qed

lemma revoke_checks:
  "session_check s \<Longrightarrow> session_AuthorityRevision s = revision_of (session_RevokedAt s) \<Longrightarrow> session_RevokedAt s = None \<Longrightarrow>
     session_check (revoke_session_row t s) \<and>
     session_AuthorityRevision (revoke_session_row t s) = revision_of (session_RevokedAt (revoke_session_row t s))"
  "device_check d \<Longrightarrow> device_AuthorityRevision d = revision_of (device_RevokedAt d) \<Longrightarrow> device_RevokedAt d = None \<Longrightarrow>
     device_check (revoke_device_row t d) \<and>
     device_AuthorityRevision (revoke_device_row t d) = revision_of (device_RevokedAt (revoke_device_row t d))"
  by (simp_all add: session_check_def device_check_def revoke_session_row_def revoke_device_row_def revision_of_def)

text \<open>The rows that a revocation changes, written so that they change active rows only.\<close>

definition revoke_when :: "(SessionRow \<Rightarrow> bool) \<Rightarrow> int \<Rightarrow> SessionRow \<Rightarrow> SessionRow" where
  "revoke_when hit t s = (if hit s \<and> session_RevokedAt s = None then revoke_session_row t s else s)"

lemma session_step_revoke: "session_step (revoke_when hit t)"
  using revoke_checks(1)
  by (auto simp: session_step_def revoke_when_def session_evolves_def revoke_session_row_def)

lemma revoke_when_sel [simp]:
  "session_ID (revoke_when hit t s) = session_ID s" "session_UserID (revoke_when hit t s) = session_UserID s"
  "session_DeviceID (revoke_when hit t s) = session_DeviceID s"
  "session_RevokedAt (revoke_when hit t s) = None \<longleftrightarrow> session_RevokedAt s = None \<and> \<not> hit s"
  by (auto simp: revoke_when_def revoke_session_row_def)

definition revoke_device_when :: "(Device \<Rightarrow> bool) \<Rightarrow> int \<Rightarrow> Device \<Rightarrow> Device" where
  "revoke_device_when hit t d = (if hit d \<and> device_RevokedAt d = None then revoke_device_row t d else d)"

lemma device_step_revoke: "device_step (revoke_device_when hit t)"
  using revoke_checks(2)
  by (auto simp: device_step_def revoke_device_when_def device_evolves_def revoke_device_row_def)

lemma revoke_device_when_sel [simp]:
  "device_ID (revoke_device_when hit t d) = device_ID d" "device_UserID (revoke_device_when hit t d) = device_UserID d"
  "device_RevokedAt (revoke_device_when hit t d) = None \<longleftrightarrow> device_RevokedAt d = None \<and> \<not> hit d"
  by (auto simp: revoke_device_when_def revoke_device_row_def)

lemma find_key_eq:
  assumes "distinct (map k xs)" and "find (\<lambda>r. k r = i) xs = Some x" and "y \<in> set xs" and "k y = i"
  shows "y = x"
  using find_SomeD [OF assms(2)] assms distinct_keyD [of k xs y x] by simp

lemma RevokeSession_run:
  assumes inv: "identity_inv parse db" and run: "RevokeSession_sql i u t db = Inr (row, db')"
  shows "db' = step_rows (\<lambda>d. d) (revoke_when (\<lambda>s. session_ID s = i) t) db \<and> row \<in> set (user_sessions db') \<and>
     session_ID row = i \<and> session_RevokedAt row \<noteq> None"
proof -
  from run obtain s where s: "find_session db i = Some s" "session_RevokedAt s = None" "row = revoke_session_row t s"
    "db' = db\<lparr>user_sessions := map (\<lambda>r. if session_ID r = i then revoke_session_row t r else r) (user_sessions db)\<rparr>"
    by (auto simp: RevokeSession_sql_def split: option.splits if_splits)
  have mem: "s \<in> set (user_sessions db)" "session_ID s = i"
    using s(1) unfolding find_session_def by (auto dest: find_SomeD)
  have "(if session_ID r = i then revoke_session_row t r else r) = revoke_when (\<lambda>s. session_ID s = i) t r"
    if "r \<in> set (user_sessions db)" for r
    using find_key_eq [of session_ID "user_sessions db" i s r] s(1,2) that invD(4) [OF inv]
    by (auto simp: find_session_def sessions_ok_def revoke_when_def)
  then have "map (\<lambda>r. if session_ID r = i then revoke_session_row t r else r) (user_sessions db) =
      map (revoke_when (\<lambda>s. session_ID s = i) t) (user_sessions db)" by simp
  then have "db' = step_rows (\<lambda>d. d) (revoke_when (\<lambda>s. session_ID s = i) t) db"
    unfolding s(4) step_rows_def by (cases db) simp
  moreover have row: "row = revoke_when (\<lambda>s. session_ID s = i) t s" using s(2,3) mem(2) by (simp add: revoke_when_def)
  moreover have "session_RevokedAt row \<noteq> None" by (simp add: s(3) revoke_session_row_def)
  ultimately show ?thesis using mem by (simp add: step_rows_def)
qed

lemma session_of_revoke: "session_of d s \<Longrightarrow> session_of d (revoke_when hit t s)"
  by (simp add: session_of_def del: not_None_eq)

definition session_event :: "ipg \<Rightarrow> SessionRow \<Rightarrow> IdentityEvent" where
  "session_event pg row =
     \<lparr>ie_ID = uuid_New pg, ie_SubjectID = session_ID row, ie_UserID = session_UserID row,
      ie_DeviceID = session_DeviceID row, ie_SessionID = session_ID row, ie_Kind = ''session'',
      ie_Revision = session_AuthorityRevision row\<rparr>"

definition device_event :: "ipg \<Rightarrow> Device \<Rightarrow> IdentityEvent" where
  "device_event pg row =
     \<lparr>ie_ID = uuid_New pg, ie_SubjectID = device_ID row, ie_UserID = device_UserID row,
      ie_DeviceID = device_ID row, ie_SessionID = uuid_Nil, ie_Kind = ''device'',
      ie_Revision = device_AuthorityRevision row\<rparr>"

lemma with_uuid_run: "with_uuid parse x m db = Inr r \<Longrightarrow> \<exists>u. parse x = Some u \<and> m u db = Inr r"
  by (auto simp: with_uuid_def mustParseUUID_def tx_simps split: option.splits)

lemma RevokeSession_tx_run:
  assumes "RevokeSession_tx parse' pg userID sessionID t db = Inr (x, db')"
  shows "(x = False \<and> db' = db) \<or> (x = True \<and> (\<exists>i u row mid. parse' sessionID = Some i \<and> parse' userID = Some u \<and>
     RevokeSession_sql i u t db = Inr (row, mid) \<and>
     insert_event (clock_timestamp pg) (session_event pg row) t mid = Inr ((), db')))"
proof -
  from assms obtain i u where p: "parse' sessionID = Some i" "parse' userID = Some u"
    and run: "attemptT (RevokeSession_sql i u t) (\<lambda>r. case r of
       Inl err \<Rightarrow> if err = ErrNoRows then returnT False else failT (convertError err)
     | Inr row \<Rightarrow> bindT (query (insert_event (clock_timestamp pg) (session_event pg row) t)) (\<lambda>_. returnT True)) db = Inr (x, db')"
    unfolding RevokeSession_tx_def session_event_def by (auto dest!: with_uuid_run)
  show ?thesis
  proof (cases "RevokeSession_sql i u t db")
    case (Inl e)
    with run show ?thesis by (simp add: attemptT_def returnT_def failT_def split: if_splits)
  next
    case (Inr r)
    obtain row mid where "r = (row, mid)" by (cases r)
    with Inr run p show ?thesis by (auto simp: attemptT_def tx_simps query_def returnT_def)
  qed
qed

text \<open>Rows revoked together with the event that announces them.\<close>

lemma revocation_kept:
  assumes inv: "identity_inv parse db" and f: "device_step f" and g: "session_step g"
    and link: "\<And>d s. session_of d s \<Longrightarrow> session_of (f d) (g s)"
    and ins: "insert_event clock e t (step_rows f g db) = Inr ((), db')"
    and about: "(\<exists>s\<in>set (user_sessions db). event_of_session e (g s)) \<or> (\<exists>d\<in>set (user_devices db). event_of_device e (f d))"
    and news: "\<And>s. s \<in> set (user_sessions db) \<Longrightarrow> session_RevokedAt s = None \<Longrightarrow> session_RevokedAt (g s) \<noteq> None \<Longrightarrow>
      ie_Kind e = ''session'' \<and> ie_SubjectID e = session_ID s \<or> ie_Kind e = ''device'' \<and> ie_SubjectID e = session_DeviceID s"
  shows "identity_inv parse db' \<and> identity_evolves db db'"
proof -
  from about have "(\<exists>s\<in>set (user_sessions (step_rows f g db)). event_of_session e s) \<or>
      (\<exists>d\<in>set (user_devices (step_rows f g db)). event_of_device e d)" by auto
  from identity_event_run [OF step_rows_inv [OF inv f g link] ins this]
  obtain a where a: "db' = step_rows f g db\<lparr>authority := a\<rparr>" "identity_inv parse db'" "delivery_evolves (authority db) a"
    "\<exists>y\<in>set (outbox a). o_Event y = e" by auto
  have "identity_evolves db db'" unfolding a(1)
  proof (rule step_rows_evolves [OF inv f g _ a(3)])
    fix s assume "s \<in> set (user_sessions db)" "session_RevokedAt s = None" "session_RevokedAt (g s) \<noteq> None"
    from news [OF this] a(4) show "announced (step_rows f g db\<lparr>authority := a\<rparr>) s"
      by (auto simp: announced_def)
  qed
  with a(2) show ?thesis by simp
qed

lemma sound_RevokeSession: "sound parse (RevokeSession_tx parse' pg userID sessionID t)"
proof (rule soundI)
  fix db x db' assume inv: "identity_inv parse db" and run: "RevokeSession_tx parse' pg userID sessionID t db = Inr (x, db')"
  show "identity_inv parse db' \<and> identity_evolves db db'"
  proof (cases "db' = db")
    case False
    with RevokeSession_tx_run [OF run] obtain i u row mid where rev: "RevokeSession_sql i u t db = Inr (row, mid)"
      and ins: "insert_event (clock_timestamp pg) (session_event pg row) t mid = Inr ((), db')" by blast
    let ?g = "revoke_when (\<lambda>s. session_ID s = i) t"
    from RevokeSession_run [OF inv rev] have mid: "mid = step_rows (\<lambda>d. d) ?g db"
      and row: "row \<in> set (user_sessions mid)" "session_ID row = i" "session_RevokedAt row \<noteq> None" by auto
    from row(1) obtain s where s: "s \<in> set (user_sessions db)" "row = ?g s" by (auto simp: mid)
    have "event_of_session (session_event pg row) (?g s)"
      using row(3) unfolding s(2) [symmetric] by (simp add: event_of_session_def session_event_def)
    with s(1) have about: "(\<exists>s\<in>set (user_sessions db). event_of_session (session_event pg row) (?g s)) \<or>
        (\<exists>d\<in>set (user_devices db). event_of_device (session_event pg row) d)" by blast
    show ?thesis
    proof (rule revocation_kept [OF inv device_step_id session_step_revoke session_of_revoke ins [unfolded mid] about])
      fix s assume "session_RevokedAt s = None" "session_RevokedAt (?g s) \<noteq> None"
      with row(2) show "ie_Kind (session_event pg row) = ''session'' \<and> ie_SubjectID (session_event pg row) = session_ID s \<or>
          ie_Kind (session_event pg row) = ''device'' \<and> ie_SubjectID (session_event pg row) = session_DeviceID s"
        by (simp add: session_event_def del: not_None_eq)
    qed
  qed (use inv in simp)
qed

lemma RevokeDevice_tx_run:
  assumes "RevokeDevice_tx parse' pg userID deviceID t db = Inr (x, db')"
  shows "(x = False \<and> db' = db) \<or> (x = True \<and> (\<exists>d u row db1 mid. parse' deviceID = Some d \<and> parse' userID = Some u \<and>
     RevokeDevice_sql d u t db = Inr (row, db1) \<and> RevokeDeviceSessions d u t db1 = Inr ((), mid) \<and>
     insert_event (clock_timestamp pg) (device_event pg row) t mid = Inr ((), db')))"
proof -
  from assms obtain d u where p: "parse' deviceID = Some d" "parse' userID = Some u"
    and run: "attemptT (RevokeDevice_sql d u t) (\<lambda>r. case r of
       Inl err \<Rightarrow> if err = ErrNoRows then returnT False else failT (convertError err)
     | Inr row \<Rightarrow> bindT (query (RevokeDeviceSessions d u t)) (\<lambda>_.
         bindT (query (insert_event (clock_timestamp pg) (device_event pg row) t)) (\<lambda>_. returnT True))) db = Inr (x, db')"
    unfolding RevokeDevice_tx_def device_event_def by (auto dest!: with_uuid_run)
  show ?thesis
  proof (cases "RevokeDevice_sql d u t db")
    case (Inl e)
    with run show ?thesis by (simp add: attemptT_def returnT_def failT_def split: if_splits)
  next
    case (Inr r)
    obtain row db1 where "r = (row, db1)" by (cases r)
    with Inr run p show ?thesis by (fastforce simp: attemptT_def tx_simps query_def returnT_def)
  qed
qed

lemma RevokeDevice_run:
  assumes inv: "identity_inv parse db" and run: "RevokeDevice_sql i u t db = Inr (row, db1)"
    and next_run: "RevokeDeviceSessions i u t db1 = Inr ((), mid)"
  shows "mid = step_rows (revoke_device_when (\<lambda>d. device_ID d = i \<and> device_UserID d = u) t)
       (revoke_when (\<lambda>s. session_DeviceID s = i \<and> session_UserID s = u) t) db \<and>
     row \<in> set (user_devices mid) \<and> device_ID row = i \<and> device_RevokedAt row \<noteq> None"
proof -
  let ?f = "revoke_device_when (\<lambda>d. device_ID d = i \<and> device_UserID d = u) t"
  from run obtain d where d: "find_device db i = Some d" "device_UserID d = u" "device_RevokedAt d = None"
    "row = revoke_device_row t d"
    "db1 = db\<lparr>user_devices := map (\<lambda>r. if device_ID r = i then revoke_device_row t r else r) (user_devices db)\<rparr>"
    by (auto simp: RevokeDevice_sql_def split: option.splits if_splits)
  have mem: "d \<in> set (user_devices db)" "device_ID d = i"
    using d(1) unfolding find_device_def by (auto dest: find_SomeD)
  have "(if device_ID r = i then revoke_device_row t r else r) = ?f r" if "r \<in> set (user_devices db)" for r
    using find_key_eq [of device_ID "user_devices db" i d r] d(1,2,3) that invD(3) [OF inv]
    by (auto simp: find_device_def devices_ok_def revoke_device_when_def)
  then have devices: "map (\<lambda>r. if device_ID r = i then revoke_device_row t r else r) (user_devices db) =
      map ?f (user_devices db)" by simp
  have "(\<lambda>s. if session_DeviceID s = i \<and> session_UserID s = u \<and> session_RevokedAt s = None then revoke_session_row t s else s) =
      revoke_when (\<lambda>s. session_DeviceID s = i \<and> session_UserID s = u) t" by (auto simp: revoke_when_def)
  with next_run have mid: "mid = step_rows ?f (revoke_when (\<lambda>s. session_DeviceID s = i \<and> session_UserID s = u) t) db"
    unfolding RevokeDeviceSessions_def d(5) devices step_rows_def by simp
  moreover have "row = ?f d" using d(2,3,4) mem(2) by (simp add: revoke_device_when_def)
  moreover have "device_RevokedAt row \<noteq> None" by (simp add: d(4) revoke_device_row_def)
  ultimately show ?thesis using mem by simp
qed

lemma sound_RevokeDevice: "sound parse (RevokeDevice_tx parse' pg userID deviceID t)"
proof (rule soundI)
  fix db x db' assume inv: "identity_inv parse db" and run: "RevokeDevice_tx parse' pg userID deviceID t db = Inr (x, db')"
  show "identity_inv parse db' \<and> identity_evolves db db'"
  proof (cases "db' = db")
    case False
    with RevokeDevice_tx_run [OF run] obtain i u row db1 mid where rev: "RevokeDevice_sql i u t db = Inr (row, db1)"
        "RevokeDeviceSessions i u t db1 = Inr ((), mid)"
      and ins: "insert_event (clock_timestamp pg) (device_event pg row) t mid = Inr ((), db')" by blast
    let ?f = "revoke_device_when (\<lambda>d. device_ID d = i \<and> device_UserID d = u) t"
    let ?g = "revoke_when (\<lambda>s. session_DeviceID s = i \<and> session_UserID s = u) t"
    from RevokeDevice_run [OF inv rev] have mid: "mid = step_rows ?f ?g db"
      and row: "row \<in> set (user_devices mid)" "device_ID row = i" "device_RevokedAt row \<noteq> None" by auto
    from row(1) obtain d where d: "d \<in> set (user_devices db)" "row = ?f d" by (auto simp: mid)
    have "event_of_device (device_event pg row) (?f d)"
      using row(3) unfolding d(2) [symmetric] by (simp add: event_of_device_def device_event_def)
    with d(1) have about: "(\<exists>s\<in>set (user_sessions db). event_of_session (device_event pg row) (?g s)) \<or>
        (\<exists>d\<in>set (user_devices db). event_of_device (device_event pg row) (?f d))" by blast
    have link: "session_of (?f d) (?g s)" if "session_of d s" for d s
      using that by (auto simp: session_of_def simp del: not_None_eq)
    show ?thesis
    proof (rule revocation_kept [OF inv device_step_revoke session_step_revoke link ins [unfolded mid] about])
      fix s assume "session_RevokedAt s = None" "session_RevokedAt (?g s) \<noteq> None"
      with row(2) show "ie_Kind (device_event pg row) = ''session'' \<and> ie_SubjectID (device_event pg row) = session_ID s \<or>
          ie_Kind (device_event pg row) = ''device'' \<and> ie_SubjectID (device_event pg row) = session_DeviceID s"
        by (simp add: device_event_def del: not_None_eq)
    qed
  qed (use inv in simp)
qed

end
