(* ===== verification/Identity_Kept.thy ===== *)
theory Identity_Kept
  imports Identity_Revoke
begin

text \<open>Every transaction of an identity service or a delivery worker keeps \<open>identity_kept\<close>.\<close>

section \<open>Reading\<close>

lemma read_only_ipg_query [intro]: "read_only m \<Longrightarrow> read_only (query m)"
  unfolding query_def by (rule read_only_intros)

lemma read_only_with_uuid [intro]: "(\<And>u. read_only (m u)) \<Longrightarrow> read_only (with_uuid parse i m)"
  unfolding with_uuid_def by (intro read_only_intros)

lemma identity_reads [intro]:
  "read_only (GetUserByID u)" "read_only (GetUserByLogin_sql l)" "read_only (GetPasswordCredentialByLogin_sql l)"
  "read_only (GetSessionAuthByID_sql i)" "read_only (ListDevicesByUserID u)" "read_only (ListSessionsByUserID u)"
  "read_only (GetSocialGraphState_sql u v low high)" "read_only (ListBlockedUsersByUserID u)"
  "read_only (ListIncomingFriendRequestsByUserID u)" "read_only (ListOutgoingFriendRequestsByUserID u)"
  "read_only (ListFriendsByUserID u)" "read_only (ListWebPushSubscriptionsByUserID u)"
  by (auto simp: read_only_def oneRow_def tx_simps GetUserByID_def GetUserByLogin_sql_def
      GetPasswordCredentialByLogin_sql_def GetSessionAuthByID_sql_def ListDevicesByUserID_def
      ListSessionsByUserID_def GetSocialGraphState_sql_def ListBlockedUsersByUserID_def
      ListIncomingFriendRequestsByUserID_def ListOutgoingFriendRequestsByUserID_def ListFriendsByUserID_def
      ListWebPushSubscriptionsByUserID_def split: option.splits)

lemma identity_read_methods:
  "read_only (GetPasswordCredentialByLogin_tx l)" "read_only (GetSessionAuthByID_tx parse i)"
  "read_only (GetUserByLogin_tx l)" "read_only (ListBlockedUsers_tx parse u)"
  "read_only (GetSocialGraphState_tx parse u v)" "read_only (ListIncomingFriendRequests_tx parse u)"
  "read_only (ListOutgoingFriendRequests_tx parse u)" "read_only (ListFriends_tx parse u)"
  "read_only (ListWebPushSubscriptions_tx parse u)"
  unfolding GetPasswordCredentialByLogin_tx_def GetSessionAuthByID_tx_def GetUserByLogin_tx_def ListBlockedUsers_tx_def
    GetSocialGraphState_tx_def ListIncomingFriendRequests_tx_def ListOutgoingFriendRequests_tx_def ListFriends_tx_def
    ListWebPushSubscriptions_tx_def with_pair_def
  by (intro read_only_intros read_only_ipg_query read_only_with_uuid identity_reads read_only_case_prod
      read_only_case_option)+

section \<open>Writing\<close>

lemma keeps_ipg_query: "keeps P m \<Longrightarrow> keeps P (query m)"
  unfolding query_def by (intro pres_intros)

lemma keeps_with_uuid: "(\<And>u. parse i = Some u \<Longrightarrow> keeps P (m u)) \<Longrightarrow> keeps P (with_uuid parse i m)"
  unfolding keeps_def by (blast dest: with_uuid_run)

lemma keeps_with_pair: "(\<And>low high. keeps P (m low high)) \<Longrightarrow> keeps P (with_pair parse a b m)"
  unfolding with_pair_def by (intro keeps_with_uuid)

lemma with_pair_canonical:
  assumes "parse a = Some a" and "parse b = Some b" and "\<And>low high. low \<le> high \<Longrightarrow> keeps P (m low high)"
  shows "keeps P (with_pair parse a b m)"
proof -
  obtain low high where pair: "CanonicalUserPair a b = (low, high)" by fastforce
  then have "parse low = Some low" "parse high = Some high" "low \<le> high"
    using assms(1,2) by (auto simp: CanonicalUserPair_def split: if_splits)
  with assms(3) pair show ?thesis unfolding with_pair_def by (auto intro!: keeps_with_uuid)
qed

lemma sound_request: "fr_UserLowID r \<le> fr_UserHighID r \<Longrightarrow> sound parse (CreateFriendRequest_sql r)"
proof (cases "fr_UserLowID r = fr_UserHighID r")
  case True
  then show ?thesis by (simp add: sound_def CreateFriendRequest_sql_def request_check_def)
qed (simp add: sound_CreateFriendRequest order_le_imp_less_or_eq)

lemma sound_friendship: "f_UserLowID r \<le> f_UserHighID r \<Longrightarrow> sound parse (CreateFriendship r)"
proof (cases "f_UserLowID r = f_UserHighID r")
  case True
  then show ?thesis by (simp add: sound_def CreateFriendship_def)
qed (simp add: sound_CreateFriendship order_le_imp_less_or_eq)

lemma kept_social:
  "keeps (identity_kept parse db0) (TouchSession_tx parse' a b t)"
  "keeps (identity_kept parse db0) (UpdateUserProfile_tx parse' user)"
  "keeps (identity_kept parse db0) (RevokeSession_tx parse' pg a b t)"
  "keeps (identity_kept parse db0) (RevokeDevice_tx parse' pg a b t)"
  "keeps (identity_kept parse db0) (DeleteFriendRequest_tx parse' a b)"
  "keeps (identity_kept parse db0) (DeleteFriendship_tx parse' a b)"
  "keeps (identity_kept parse db0) (BlockUser_tx parse' a b t)"
  "keeps (identity_kept parse db0) (UnblockUser_tx parse' a b)"
  "keeps (identity_kept parse db0) (UpsertWebPushSubscription_tx parse' w)"
  "keeps (identity_kept parse db0) (DeleteWebPushSubscription_tx parse' a e)"
  "keeps (identity_kept parse db0) (DeleteWebPushSubscriptionsByIDs_tx parse' ids)"
  unfolding TouchSession_tx_def UpdateUserProfile_tx_def DeleteFriendRequest_tx_def DeleteFriendship_tx_def
    BlockUser_tx_def UnblockUser_tx_def UpsertWebPushSubscription_tx_def DeleteWebPushSubscription_tx_def
    DeleteWebPushSubscriptionsByIDs_tx_def
  by (intro pres_intros keeps_ipg_query keeps_with_uuid keeps_with_pair
      sound_kept sound_Touch sound_UpdateUserProfile sound_RevokeSession sound_RevokeDevice sound_deletes
      sound_CreateUserBlock sound_upsert)+

lemma kept_requests:
  assumes "parse a = Some a" and "parse b = Some b"
  shows "keeps (identity_kept parse' db0) (CreateFriendRequest_tx parse a b t)"
    and "keeps (identity_kept parse' db0) (AcceptFriendRequest_tx parse a b t)"
  unfolding CreateFriendRequest_tx_def AcceptFriendRequest_tx_def
  by (intro pres_intros keeps_ipg_query keeps_with_uuid with_pair_canonical [of parse, OF assms] sound_kept
      sound_request sound_friendship sound_deletes; simp)+

section \<open>Accounts\<close>

text \<open>A session and its device, as a registration and a login create them.\<close>

lemma new_login_kept:
  assumes inv: "identity_inv parse db" and device: "CreateDevice d db = Inr (device, db1)" "device_RevokedAt d = None"
    and session: "CreateSession_sql s db1 = Inr (row, db2)" "session_RevokedAt s = None"
    and same: "session_DeviceID s = device_ID d" "session_UserID s = device_UserID d"
    and ids: "parse (device_ID d) = Some (device_ID d)" "parse (session_ID s) = Some (session_ID s)"
  shows "identity_inv parse db2 \<and> identity_evolves db db2 \<and> device = d\<lparr>device_AuthorityRevision := 1\<rparr> \<and>
     row = s\<lparr>session_AuthorityRevision := 1\<rparr> \<and>
     db2 = db\<lparr>user_devices := user_devices db @ [device], user_sessions := user_sessions db @ [row]\<rparr>"
proof -
  from CreateDevice_run [OF inv device ids(1)] have k: "identity_inv parse db1" "identity_evolves db db1"
    and d: "device = d\<lparr>device_AuthorityRevision := 1\<rparr>" and db1: "db1 = db\<lparr>user_devices := user_devices db @ [device]\<rparr>"
    by blast+
  have "device \<in> set (user_devices db1)" "device_ID device = session_DeviceID s" "device_UserID device = session_UserID s"
    "device_RevokedAt device = None" using d db1 device(2) same by simp_all
  note k2 = CreateSession_run [OF k(1) session ids(2) this]
  have "db2 = db\<lparr>user_devices := user_devices db @ [device], user_sessions := user_sessions db @ [row]\<rparr>"
    using k2 unfolding db1 by simp
  with k2 d identity_evolves_trans [OF k(2)] show ?thesis by blast
qed

lemma session_row_sel:
  "session_DeviceID (session_row (s\<lparr>session_ID := i, session_UserID := u, session_DeviceID := d\<rparr>) h) = d"
  "session_UserID (session_row (s\<lparr>session_ID := i, session_UserID := u, session_DeviceID := d\<rparr>) h) = u"
  "session_ID (session_row (s\<lparr>session_ID := i, session_UserID := u, session_DeviceID := d\<rparr>) h) = i"
  by (simp_all add: session_row_def Session.defs SessionRow.defs)

lemma device_ids:
  "device_ID (x\<lparr>device_ID := d, device_UserID := u\<rparr>) = d" "device_UserID (x\<lparr>device_ID := d, device_UserID := u\<rparr>) = u"
  by simp_all

lemma kept_CreateAccount:
  assumes stable: "\<And>s u. parse s = Some u \<Longrightarrow> parse u = Some u" and params: "account_params p"
  shows "sound parse (CreateAccount_tx parse p)"
proof (rule soundI)
  fix db x db' assume inv: "identity_inv parse db" and run: "CreateAccount_tx parse p db = Inr (x, db')"
  from params have ids: "device_UserID (ca_Device p) = user_ID (ca_User p)" "session_UserID (ca_Session p) = user_ID (ca_User p)"
    "session_DeviceID (ca_Session p) = device_ID (ca_Device p)" "device_RevokedAt (ca_Device p) = None"
    "session_RevokedAt (ca_Session p) = None" by (simp_all add: account_params_def)
  from run ids obtain u d s c user db1 db2 device db3 session where
    u: "parse (user_ID (ca_User p)) = Some u" and d: "parse (device_ID (ca_Device p)) = Some d"
    and s: "parse (session_ID (ca_Session p)) = Some s"
    and run1: "CreateUser ((ca_User p)\<lparr>user_ID := u\<rparr>) db = Inr (user, db1)"
    and run2: "CreateUserPasswordCredential c db1 = Inr ((), db2)"
    and run3: "CreateDevice ((ca_Device p)\<lparr>device_ID := d, device_UserID := u\<rparr>) db2 = Inr (device, db3)"
    and run4: "CreateSession_sql (session_row ((ca_Session p)\<lparr>session_ID := s, session_UserID := u, session_DeviceID := d\<rparr>)
       (ca_TokenHash p)) db3 = Inr (session, db')"
    unfolding CreateAccount_tx_def Let_def query_def
    by (auto simp: tx_simps dest!: with_uuid_run)
  have "sound parse (CreateUser ((ca_User p)\<lparr>user_ID := u\<rparr>))" by (rule sound_CreateUser) (simp add: stable [OF u])
  with inv run1 have k1: "identity_kept parse db db1" by (auto simp: sound_def)
  from keepsD [OF sound_kept [OF sound_credential] k1 run2] have k2: "identity_kept parse db db2" .
  then have inv2: "identity_inv parse db2" by (simp add: identity_kept_def)
  have fields: "device_RevokedAt ((ca_Device p)\<lparr>device_ID := d, device_UserID := u\<rparr>) = None"
    "session_RevokedAt (session_row ((ca_Session p)\<lparr>session_ID := s, session_UserID := u, session_DeviceID := d\<rparr>) (ca_TokenHash p)) = None"
    using ids by (simp_all add: session_row_def Session.defs SessionRow.defs)
  have "identity_inv parse db'" "identity_evolves db2 db'"
    using new_login_kept [OF inv2 run3 fields(1) run4 fields(2)] stable [OF d] stable [OF s]
    unfolding session_row_sel device_ids by blast+
  with k2 show "identity_inv parse db' \<and> identity_evolves db db'"
    unfolding identity_kept_def using identity_evolves_trans by blast
qed

lemma kept_CreateSession:
  assumes stable: "\<And>s u. parse s = Some u \<Longrightarrow> parse u = Some u" and params: "session_params p"
  shows "sound parse (CreateSession_tx parse p)"
proof (rule soundI)
  fix db x db' assume inv: "identity_inv parse db" and run: "CreateSession_tx parse p db = Inr (x, db')"
  from run obtain d u s device db1 session db2 user where
    ids: "parse (device_ID (cs_Device p)) = Some d" "parse (session_ID (cs_Session p)) = Some s" and run1: "CreateDevice ((cs_Device p)\<lparr>device_ID := d, device_UserID := u\<rparr>) db = Inr (device, db1)"
    and run2: "CreateSession_sql (session_row ((cs_Session p)\<lparr>session_ID := s, session_UserID := u, session_DeviceID := d\<rparr>)
       (cs_TokenHash p)) db1 = Inr (session, db2)"
    and run3: "GetUserByID u db2 = Inr (user, db')"
    unfolding CreateSession_tx_def Let_def query_def
    by (auto simp: tx_simps dest!: with_uuid_run)
  from run3 have same: "db' = db2" by (auto simp: GetUserByID_def oneRow_def tx_simps split: option.splits)
  have fields: "device_RevokedAt ((cs_Device p)\<lparr>device_ID := d, device_UserID := u\<rparr>) = None"
    "session_RevokedAt (session_row ((cs_Session p)\<lparr>session_ID := s, session_UserID := u, session_DeviceID := d\<rparr>) (cs_TokenHash p)) = None"
    using params by (simp_all add: session_row_def Session.defs SessionRow.defs session_params_def)
  show "identity_inv parse db' \<and> identity_evolves db db'"
    using new_login_kept [OF inv run1 fields(1) run2 fields(2)] stable [OF ids(1)] stable [OF ids(2)]
    unfolding same session_row_sel device_ids by blast
qed

section \<open>Workers\<close>

lemma kept_worker:
  assumes "case operation of OpEvent _ \<Rightarrow> False | _ \<Rightarrow> True"
  shows "sound parse (on_authority (delivery_op_tx identity_kind (t, operation)))"
proof (rule soundI)
  fix db x db' assume inv: "identity_inv parse db"
    and run: "on_authority (delivery_op_tx identity_kind (t, operation)) db = Inr (x, db')"
  then obtain a where a: "delivery_op_tx identity_kind (t, operation) (authority db) = Inr (x, a)" "db' = db\<lparr>authority := a\<rparr>"
    by (auto simp: on_authority_def split: sum.splits)
  have "kept identity_kind (authority db) (authority db)" using invD(10) [OF inv] by (simp add: kept_def)
  from keepsD [OF delivery_op_kept this a(1)] have k: "delivery_inv identity_kind a" "delivery_evolves (authority db) a"
    by (simp_all add: kept_def)
  have "identity_inv parse db'"
    using inv k(1) delivery_op_outbox [OF assms a(1)] by (simp add: identity_inv_def a(2) known_def)
  moreover have "identity_evolves db db'"
    using k(2) unfolding identity_evolves_def a(2) by (auto intro: device_evolves_refl session_evolves_refl)
  ultimately show "identity_inv parse db' \<and> identity_evolves db db'" by simp
qed

text \<open>So every operation of another process keeps it.\<close>

lemma kept_operation:
  assumes stable: "\<And>s u. parse s = Some u \<Longrightarrow> parse u = Some u" and "op_allowed parse operation"
  shows "keeps (identity_kept parse db0) (identity_op_tx parse pg operation)"
proof -
  have accounts: "sound parse (CreateAccount_tx parse params)" if "account_params params" for params
    by (rule kept_CreateAccount [OF stable that])
  have logins: "sound parse (CreateSession_tx parse params)" if "session_params params" for params
    by (rule kept_CreateSession [OF stable that])
  show ?thesis
    using assms(2) unfolding identity_op_tx_def op_allowed_def ignoreT_def
    by (cases operation)
      (auto intro!: pres_intros kept_social kept_requests sound_kept [OF accounts] sound_kept [OF logins]
        sound_kept [OF kept_worker])
qed

end
