(* ===== verification/Identity_Requests.thy ===== *)
theory Identity_Requests
  imports Identity_Kept
begin

text \<open>
  Sequences of requests to the identity service, in any environment: what every transaction keeps, every sequence keeps
  (locale \<open>identity_tables\<close>), so the tables stay consistent and rows change only as \<open>identity_evolves\<close> allows.
\<close>

section \<open>From transactions to the service\<close>

lemma session_rows_user: "session_rows db i = Some (s, d, u) \<Longrightarrow> u \<in> set (users db)"
  by (auto simp: session_rows_def find_user_def split: option.splits dest!: find_SomeD)

lemma find_login_user: "find_login db l = Some u \<Longrightarrow> u \<in> set (users db)"
  by (auto simp: find_login_def dest: find_SomeD)

text \<open>\<open>P\<close> holds in allowed environments only and is kept by what others commit and by every transaction, but perhaps
  not by the two that make people friends; \<open>identity_tables\<close> adds them.\<close>

definition friend_op :: "identity_op \<Rightarrow> bool" where
  "friend_op operation = (case operation of OpCreateFriendRequest _ _ _ \<Rightarrow> True | OpAcceptFriendRequest _ _ _ \<Rightarrow> True | _ \<Rightarrow> False)"

lemma others_keep:
  assumes "\<And>db. P db \<Longrightarrow> env_allowed env"
    and "\<And>operation pg. op_allowed (iv_parse env) operation \<Longrightarrow> keeps P (identity_op_tx (iv_parse env) pg operation)"
    and "P (iw_db w)"
  shows "P (others_moved env w)"
proof -
  have step: "op_allowed (iv_parse env) (snd x) \<Longrightarrow> P db \<Longrightarrow> P (run_identity_op (iv_parse env) x db)" for x db
    using keepsD [OF assms(2)] by (auto simp: run_identity_op_def split: sum.splits)
  have "P db \<Longrightarrow> \<forall>x\<in>set xs. op_allowed (iv_parse env) (snd x) \<Longrightarrow> P (fold (run_identity_op (iv_parse env)) xs db)" for xs db
    by (induction xs arbitrary: db) (simp_all add: step)
  then show ?thesis using assms(1) [OF assms(3)] assms(3) by (simp add: others_moved_def env_allowed_def)
qed

locale identity_rows =
  fixes env :: identity_env and P :: "identity_db \<Rightarrow> bool"
  assumes allowed: "P db \<Longrightarrow> env_allowed env"
    and stored_users: "P db \<Longrightarrow> u \<in> set (users db) \<Longrightarrow> iv_parse env (user_ID u) = Some (user_ID u)"
    and others_P: "P (iw_db w) \<Longrightarrow> P (others_moved env w)"
    and kept_op: "op_allowed (iv_parse env) operation \<Longrightarrow> \<not> friend_op operation \<Longrightarrow>
      keeps P (identity_op_tx (iv_parse env) pg operation)"
begin

lemma pres_transact:
  assumes "\<And>pg. keeps P (m pg)"
  shows "pres (\<lambda>w :: identity_world. P (iw_db w)) (transact env m)"
  unfolding pres_def
proof (intro allI impI)
  fix w :: identity_world assume "P (iw_db w)"
  then have "P (others_moved env w)" by (rule others_P)
  then show "P (iw_db (snd (transact env m w)))"
    using keepsD [OF assms] by (auto simp: transact_def Let_def split: identity_fault.splits sum.splits)
qed

lemma pres_read: "(\<And>pg. read_only (m pg)) \<Longrightarrow> pres (\<lambda>w :: identity_world. P (iw_db w)) (transact env m)"
  by (intro pres_transact read_only_keeps)

lemma pres_answer: "pres (\<lambda>w :: identity_world. P (iw_db w)) (answer f)"
  by (simp add: pres_def answer_def)

lemma gives_transact:
  assumes "\<And>pg db x db'. P db \<Longrightarrow> m pg db = Inr (x, db') \<Longrightarrow> Q x"
  shows "gives (\<lambda>w :: identity_world. P (iw_db w)) (transact env m) Q"
  unfolding gives_def
proof (intro allI impI)
  fix w :: identity_world and x w' assume "P (iw_db w)" and run: "transact env m w = (Inr x, w')"
  then have "P (others_moved env w)" by (simp add: others_P)
  with run assms show "Q x" by (auto simp: transact_def Let_def split: identity_fault.splits sum.splits)
qed

lemma yields_answer: "yields (\<lambda>w :: identity_world. P (iw_db w)) (answer f) (\<lambda>r. \<exists>t. r = f t)"
  by (auto simp: yields_def answer_def)

text \<open>The driver adds its own errors to those of the transaction.\<close>

lemma yields_transact:
  assumes "\<And>pg. keeps P (m pg)" and "\<And>pg db. P db \<Longrightarrow> (case m pg db of Inl e \<Rightarrow> Q (Inl e) | Inr (x, _) \<Rightarrow> Q (Inr x))"
    and "Q (Inl ErrContext)" and "Q (Inl ErrOther)"
  shows "yields (\<lambda>w :: identity_world. P (iw_db w)) (transact env m) Q"
  unfolding yields_def
proof (intro allI impI conjI)
  fix w :: identity_world assume P: "P (iw_db w)"
  show "P (iw_db (snd (transact env m w)))" using pres_transact [OF assms(1)] P by (simp add: pres_def)
  show "Q (fst (transact env m w))"
    using assms(2) [OF others_P [OF P], of "iv_pg env (iw_tick w)"] assms(3,4)
    by (auto simp: transact_def Let_def driver_error_def split: identity_fault.splits sum.splits)
qed

lemma keeps_ignored: "keeps P (ignoreT m) \<Longrightarrow> keeps P m"
  unfolding keeps_def ignoreT_def by (fastforce simp: tx_simps)

lemma kept_methods:
  "account_params p \<Longrightarrow> keeps P (CreateAccount_tx (iv_parse env) p)"
  "session_params q \<Longrightarrow> keeps P (CreateSession_tx (iv_parse env) q)"
  "keeps P (TouchSession_tx (iv_parse env) a b t)" "keeps P (UpdateUserProfile_tx (iv_parse env) u)"
  "keeps P (RevokeSession_tx (iv_parse env) pg a b t)" "keeps P (RevokeDevice_tx (iv_parse env) pg a b t)"
  "keeps P (DeleteFriendRequest_tx (iv_parse env) a b)" "keeps P (DeleteFriendship_tx (iv_parse env) a b)"
  "iv_parse env a = Some a \<Longrightarrow> iv_parse env b = Some b \<Longrightarrow> keeps P (BlockUser_tx (iv_parse env) a b t)" "keeps P (UnblockUser_tx (iv_parse env) a b)"
  "keeps P (DeleteWebPushSubscriptionsByIDs_tx (iv_parse env) ids)"
  using kept_op [of "OpCreateAccount p"] kept_op [of "OpCreateSession q"] kept_op [of "OpTouchSession a b t"]
    kept_op [of "OpUpdateProfile u"] kept_op [of "OpRevokeSession a b t" pg] kept_op [of "OpRevokeDevice a b t" pg]
    kept_op [of "OpDeleteFriendRequest a b"] kept_op [of "OpDeleteFriendship a b"] kept_op [of "OpBlockUser a b t"]
    kept_op [of "OpUnblockUser a b"] kept_op [of "OpDeleteSubscriptions ids"]
  by (auto simp: op_allowed_def identity_op_tx_def friend_op_def intro: keeps_ignored)

lemma pres_touch: "pres (\<lambda>w :: identity_world. P (iw_db w)) (repo_touch env a b t)"
  unfolding repo_touch_def by (intro pres_intros pres_transact kept_methods)

lemma pres_devices: "pres (\<lambda>w :: identity_world. P (iw_db w)) (repo_devices env a)"
  unfolding repo_devices_def by (intro pres_intros pres_read read_only_ipg_query identity_reads)

lemma gives_stored:
  "gives (\<lambda>w :: identity_world. P (iw_db w)) (transact env (\<lambda>_. GetSessionAuthByID_tx (iv_parse env) i))
     (\<lambda>a. iv_parse env (self a) = Some (self a))"
  "gives (\<lambda>w :: identity_world. P (iw_db w)) (transact env (\<lambda>_. GetUserByLogin_tx l))
     (\<lambda>u. iv_parse env (user_ID u) = Some (user_ID u))"
  by (rule gives_transact; auto simp: GetSessionAuthByID_tx_def GetSessionAuthByID_sql_def GetUserByLogin_tx_def
      GetUserByLogin_sql_def oneRow_def query_def tx_simps self_def
      split: option.splits dest!: session_rows_user find_login_user intro: stored_users)+

end

locale identity_tables = identity_rows +
  assumes kept_friend_op: "op_allowed (iv_parse env) operation \<Longrightarrow> friend_op operation \<Longrightarrow>
      keeps P (identity_op_tx (iv_parse env) pg operation)"
begin

lemma kept_friend_methods:
  "iv_parse env a = Some a \<Longrightarrow> iv_parse env b = Some b \<Longrightarrow> keeps P (CreateFriendRequest_tx (iv_parse env) a b t)"
  "iv_parse env a = Some a \<Longrightarrow> iv_parse env b = Some b \<Longrightarrow> keeps P (AcceptFriendRequest_tx (iv_parse env) a b t)"
  using kept_friend_op [of "OpCreateFriendRequest a b t"] kept_friend_op [of "OpAcceptFriendRequest a b t"]
  by (auto simp: op_allowed_def identity_op_tx_def friend_op_def intro: keeps_ignored)

end

lemma identity_service_sel:
  "svc_repo (identity_service env) = identity_postgres env"
  "svc_Hash (identity_service env) = (\<lambda>password. answer (\<lambda>t. iv_hash env t password))"
  "svc_Verify (identity_service env) = (\<lambda>password encoded. answer (\<lambda>_. iv_verify env password encoded))"
  "svc_acquire (identity_service env) = (\<lambda>login. answer (try_acquire env login))"
  "svc_release (identity_service env) = (\<lambda>login. answer (\<lambda>_. Inr ()))"
  "svc_done (identity_service env) = answer (\<lambda>t. Inr (iv_done env t))"
  "svc_random (identity_service env) = answer (iv_random env)"
  "svc_now (identity_service env) = answer (\<lambda>t. Inr (iv_clock env t))"
  "svc_newID (identity_service env) = answer (\<lambda>t. Inr (iv_id env t))"
  "svc_sha256 (identity_service env) = iv_sha256 env" "svc_parse (identity_service env) = iv_parse env"
  "svc_sessionTouchInterval (identity_service env) = defaultSessionTouchInterval"
  "svc_dispatcher (identity_service env) = map_option (\<lambda>f _ _ _ _. answer (\<lambda>t. Inr (f t))) (iv_dispatch env)"
  by (simp_all add: identity_service_def)

text \<open>So the service keeps what the transactions keep.\<close>

sublocale identity_rows \<subseteq> service: identity_interfaces "identity_service env" "\<lambda>w. P (iw_db w)"
proof unfold_locales
  show "pres (\<lambda>w. P (iw_db w)) (dispatch u v ws t)" if "svc_dispatcher (identity_service env) = Some dispatch" for dispatch u v ws t
    using that by (auto simp: identity_service_sel pres_answer)
qed (simp_all add: identity_service_sel identity_postgres_def Let_def canonical_def pres_answer pres_touch pres_devices
    gives_stored pres_transact kept_methods pres_read identity_read_methods)

sublocale identity_tables \<subseteq> friends: identity_repository "identity_service env" "\<lambda>w. P (iw_db w)"
  by unfold_locales
    (simp_all add: identity_service_sel identity_postgres_def Let_def canonical_def pres_transact kept_friend_methods)

text \<open>The transactions form a model of the locale, whatever the environment.\<close>

lemma kept_op_allowed:
  "op_allowed (iv_parse env) operation \<Longrightarrow>
     keeps (\<lambda>db. env_allowed env \<and> identity_kept (iv_parse env) db0 db) (identity_op_tx (iv_parse env) pg operation)"
  using kept_operation [of "iv_parse env" operation db0 pg] by (auto simp: env_allowed_def keeps_def)

lemma kept_canonical: "identity_kept parse db0 db \<Longrightarrow> u \<in> set (users db) \<Longrightarrow> parse (user_ID u) = Some (user_ID u)"
  by (simp add: identity_kept_def identity_inv_def accounts_ok_def)

interpretation identity_kept_rows:
  identity_tables env "\<lambda>db. env_allowed env \<and> identity_kept (iv_parse env) db0 db"
proof unfold_locales
  show "env_allowed env \<and> identity_kept (iv_parse env) db0 (others_moved env w)"
    if "env_allowed env \<and> identity_kept (iv_parse env) db0 (iw_db w)" for w
    by (rule others_keep [OF _ kept_op_allowed that]) simp
qed (auto intro: kept_op_allowed kept_canonical)

section \<open>Requests\<close>

datatype IdentityRequest =
    RegisterRequest RegisterInput
  | LoginRequest LoginInput
  | LogoutCurrentSessionRequest string
  | GetCurrentProfileRequest string
  | UpdateCurrentProfileRequest string ProfilePatch
  | ListDevicesRequest string
  | RevokeSessionOrDeviceRequest string SessionTarget
  | ListBlockedUsersRequest string
  | BlockUserRequest string string
  | UnblockUserRequest string string
  | SendFriendRequestRequest string string
  | AcceptFriendRequestRequest string string
  | DeclineFriendRequestRequest string string
  | CancelOutgoingFriendRequestRequest string string
  | ListIncomingFriendRequestsRequest string
  | ListOutgoingFriendRequestsRequest string
  | ListFriendsRequest string
  | RemoveFriendRequest string string
  | ResolveSessionBearerRequest string
  | CheckBoundSessionRequest string string string

definition dropE :: "('w, 'e, 'a) prog \<Rightarrow> ('w, 'e, unit) prog" where
  "dropE m = bindE m (\<lambda>_. returnE ())"

definition identity_request :: "identity_env \<Rightarrow> IdentityRequest \<Rightarrow> (identity_world, identity_error, unit) prog" where
  "identity_request env request =
     (let s = identity_service env in
      case request of
        RegisterRequest input \<Rightarrow> dropE (Register s input)
      | LoginRequest input \<Rightarrow> dropE (Login s input)
      | LogoutCurrentSessionRequest token \<Rightarrow> LogoutCurrentSession s token
      | GetCurrentProfileRequest token \<Rightarrow> dropE (GetCurrentProfile s token)
      | UpdateCurrentProfileRequest token patch \<Rightarrow> dropE (UpdateCurrentProfile s token patch)
      | ListDevicesRequest token \<Rightarrow> dropE (ListDevices s token)
      | RevokeSessionOrDeviceRequest token target \<Rightarrow> RevokeSessionOrDevice s token target
      | ListBlockedUsersRequest token \<Rightarrow> dropE (ListBlockedUsers s token)
      | BlockUserRequest token login \<Rightarrow> BlockUser s token login
      | UnblockUserRequest token login \<Rightarrow> UnblockUser s token login
      | SendFriendRequestRequest token login \<Rightarrow> SendFriendRequest s token login
      | AcceptFriendRequestRequest token login \<Rightarrow> AcceptFriendRequest s token login
      | DeclineFriendRequestRequest token login \<Rightarrow> DeclineFriendRequest s token login
      | CancelOutgoingFriendRequestRequest token login \<Rightarrow> CancelOutgoingFriendRequest s token login
      | ListIncomingFriendRequestsRequest token \<Rightarrow> dropE (ListIncomingFriendRequests s token)
      | ListOutgoingFriendRequestsRequest token \<Rightarrow> dropE (ListOutgoingFriendRequests s token)
      | ListFriendsRequest token \<Rightarrow> dropE (ListFriends s token)
      | RemoveFriendRequest token login \<Rightarrow> RemoveFriend s token login
      | ResolveSessionBearerRequest token \<Rightarrow> dropE (ResolveSessionBearer s token)
      | CheckBoundSessionRequest u i d \<Rightarrow> dropE (CheckBoundSession s u i d))"

fun serve_identity :: "identity_env \<Rightarrow> IdentityRequest list \<Rightarrow> identity_world \<Rightarrow> identity_world" where
  "serve_identity env [] w = w"
| "serve_identity env (r # rs) w = serve_identity env rs (snd (identity_request env r w))"

lemma pres_dropE: "pres I m \<Longrightarrow> pres I (dropE m)"
  unfolding dropE_def by (intro pres_intros)

text \<open>The two requests that make people friends.\<close>

definition friend_request :: "IdentityRequest \<Rightarrow> bool" where
  "friend_request request =
     (case request of SendFriendRequestRequest _ _ \<Rightarrow> True | AcceptFriendRequestRequest _ _ \<Rightarrow> True | _ \<Rightarrow> False)"

context identity_rows
begin

lemma other_request_pres:
  "\<not> friend_request request \<Longrightarrow> pres (\<lambda>w :: identity_world. P (iw_db w)) (identity_request env request)"
  unfolding identity_request_def Let_def
  by (cases request; simp only: IdentityRequest.case friend_request_def not_True_eq_False)
    (intro pres_dropE service.account_operations_pres service.session_operations_pres service.BlockUser_pres service.end_operations_pres
      service.authority_operations_pres)+

end

context identity_tables
begin

lemma identity_request_pres: "pres (\<lambda>w :: identity_world. P (iw_db w)) (identity_request env request)"
proof (cases "friend_request request")
  case True
  then show ?thesis
    by (auto simp: friend_request_def identity_request_def friends.friend_operations_pres split: IdentityRequest.splits)
qed (rule other_request_pres)

lemma serve_identity_pres: "P (iw_db w) \<Longrightarrow> P (iw_db (serve_identity env rs w))"
proof (induction rs arbitrary: w)
  case (Cons r rs)
  then show ?case using identity_request_pres by (simp add: pres_def)
qed simp

end

lemma serve_identity_kept:
  assumes "env_allowed env" and "identity_inv (iv_parse env) (iw_db w)"
  shows "identity_kept (iv_parse env) (iw_db w) (iw_db (serve_identity env rs w))"
  using identity_kept_rows.serve_identity_pres [of env "iw_db w" w rs] assms by (simp add: identity_kept_def)

text \<open>Also when somebody else has just moved.\<close>

lemma others_identity_kept:
  assumes "env_allowed env" and "identity_inv (iv_parse env) (iw_db w)"
  shows "identity_kept (iv_parse env) (iw_db w) (others_moved env w)"
  using identity_kept_rows.others_P [of env "iw_db w" w] assms by (simp add: identity_kept_def)

end
