(* ===== verification/Identity_Sessions.thy ===== *)
theory Identity_Sessions
  imports Identity_Requests
begin

text \<open>
  What a caller may rely on, whatever else runs: a revoked session or device is out for good and its revocation is
  announced, a token opens the session it was issued for until that is revoked, and the password of a registration is
  the one that \<open>Login\<close> accepts.
\<close>

section \<open>Reading a session\<close>

lemma identity_transact_Inr:
  assumes "transact env m w = (Inr x, w')"
  obtains db' where "m (iv_pg env (iw_tick w)) (others_moved env w) = Inr (x, db')" and "iw_db w' = db'"
    and "iw_tick w' = Suc (iw_tick w)"
  using assms by (auto simp: transact_def Let_def split: identity_fault.splits sum.splits)

lemma transact_Inl:
  assumes "transact env m w = (Inl e, w')"
  shows "e \<in> {ErrContext, ErrOther} \<or> m (iv_pg env (iw_tick w)) (others_moved env w) = Inl e"
  using assms by (auto simp: transact_def Let_def driver_error_def split: identity_fault.splits sum.splits if_splits)

lemma find_session_unique:
  assumes "identity_inv parse db" and "s \<in> set (user_sessions db)"
  shows "find_session db (session_ID s) = Some s"
  using invD(4) [OF assms(1)] assms(2) unfolding find_session_def sessions_ok_def by (intro find_distinct_key) simp_all

lemma find_device_unique:
  assumes "identity_inv parse db" and "d \<in> set (user_devices db)"
  shows "find_device db (device_ID d) = Some d"
  using invD(3) [OF assms(1)] assms(2) unfolding find_device_def devices_ok_def by (intro find_distinct_key) simp_all

lemma find_user_unique:
  assumes "identity_inv parse db" and "u \<in> set (users db)"
  shows "find_user db (user_ID u) = Some u"
  using invD(1) [OF assms(1)] assms(2) unfolding find_user_def accounts_ok_def by (intro find_distinct_key) simp_all

lemma session_rows_of:
  assumes inv: "identity_inv parse db" and s: "s \<in> set (user_sessions db)"
  obtains d u where "session_rows db (session_ID s) = Some (s, d, u)" and "d \<in> set (user_devices db)"
    and "u \<in> set (users db)" and "session_of d s" and "user_ID u = session_UserID s"
proof -
  from invD(4) [OF inv] s obtain d where d: "d \<in> set (user_devices db)" "session_of d s"
    by (auto simp: sessions_ok_def)
  with invD(3) [OF inv] have "session_UserID s \<in> known db" by (auto simp: devices_ok_def session_of_def)
  then obtain u where u: "u \<in> set (users db)" "user_ID u = session_UserID s" by (auto simp: known_def)
  have "session_rows db (session_ID s) = Some (s, d, u)"
    using find_session_unique [OF inv s] find_device_unique [OF inv d(1)] find_user_unique [OF inv u(1)] d(2) u(2)
    by (simp add: session_rows_def session_of_def)
  with d u show ?thesis by (intro that)
qed

lemma session_row_of_id:
  assumes "session_rows db i = Some (s, d, u)"
  shows "s \<in> set (user_sessions db) \<and> session_ID s = i \<and> d \<in> set (user_devices db) \<and> device_ID d = session_DeviceID s \<and>
     u \<in> set (users db) \<and> user_ID u = session_UserID s"
  using assms unfolding session_rows_def find_session_def find_device_def find_user_def
  by (auto split: option.splits dest!: find_SomeD)

definition auth_of :: "SessionRow \<Rightarrow> Device \<Rightarrow> User \<Rightarrow> SessionAuth" where
  "auth_of s d u = \<lparr>sa_User = u, sa_Device = d, sa_Session = toDomainSession s, sa_TokenHash = row_TokenHash s\<rparr>"

lemma auth_of_sel [simp]:
  "sa_User (auth_of s d u) = u" "sa_Device (auth_of s d u) = d" "sa_TokenHash (auth_of s d u) = row_TokenHash s"
  "session_ID (sa_Session (auth_of s d u)) = session_ID s" "session_RevokedAt (sa_Session (auth_of s d u)) = session_RevokedAt s"
  "session_UserID (sa_Session (auth_of s d u)) = session_UserID s"
  "session_DeviceID (sa_Session (auth_of s d u)) = session_DeviceID s"
  "session_AuthorityRevision (sa_Session (auth_of s d u)) = session_AuthorityRevision s"
  by (simp_all add: auth_of_def toDomainSession_def Session.defs)

lemma GetSessionAuthByID_value:
  "parse i = Some v \<Longrightarrow> GetSessionAuthByID_tx parse i db =
     (case session_rows db v of None \<Rightarrow> Inl ErrNotFound | Some (s, d, u) \<Rightarrow> Inr (auth_of s d u, db))"
  by (auto simp: GetSessionAuthByID_tx_def GetSessionAuthByID_sql_def query_def mapErrT_def bindT_def oneRow_def
      convertError_def tx_simps auth_of_def split: option.splits)

text \<open>A row kept by other processes and earlier requests.\<close>

lemma session_row_kept:
  assumes "identity_kept parse db0 db" and "s \<in> set (user_sessions db0)"
  obtains s' where "s' \<in> set (user_sessions db)" and "session_evolves s s'"
  using assms unfolding identity_kept_def identity_evolves_def by blast

lemma revoked_together:
  assumes inv: "identity_inv parse db" and s: "s \<in> set (user_sessions db)"
    and d: "d \<in> set (user_devices db)" "device_ID d = session_DeviceID s" "device_RevokedAt d \<noteq> None"
  shows "session_RevokedAt s \<noteq> None"
proof -
  from invD(4) [OF inv] s obtain e where e: "e \<in> set (user_devices db)" "session_of e s" by (auto simp: sessions_ok_def)
  have "e = d" using invD(3) [OF inv] e d distinct_keyD [of device_ID "user_devices db" e d]
    by (auto simp: devices_ok_def session_of_def)
  with e d show ?thesis by (simp add: session_of_def)
qed

lemma sessionAuthority_status:
  "sessionAuthority a = Inr b \<Longrightarrow> authority_Status b = AuthorityActive \<longleftrightarrow>
     session_RevokedAt (sa_Session a) = None \<and> device_RevokedAt (sa_Device a) = None"
  by (auto simp: sessionAuthority_def Let_def AuthorityActive_def AuthorityRevoked_def split: if_splits)

section \<open>Consistency\<close>

text \<open>
  C23: Whatever registrations, logins, profile changes, revocations and friend requests are served, whatever other identity
  services and delivery workers commit in between, and wherever transactions fail or replies are lost, the identity
  tables stay consistent: unique logins, credentials, devices and sessions of existing users, a revoked device without
  an active session, revisions that tell whether a row is revoked, canonical pairs of friends, and an outbox about
  revoked rows only.
\<close>
theorem identity_stays_consistent:
  assumes "env_allowed env" and "identity_inv (iv_parse env) (iw_db w)"
  shows "identity_inv (iv_parse env) (iw_db (serve_identity env requests w))"
  using serve_identity_kept [OF assms] by (simp add: identity_kept_def)

section \<open>Revocations\<close>

lemma revoked_session_refused:
  assumes env: "env_allowed env" and inv: "identity_inv (iv_parse env) (iw_db w)"
    and s: "s \<in> set (user_sessions (iw_db w))" "session_RevokedAt s \<noteq> None" and p: "iv_parse env i = Some (session_ID s)"
    and run: "repo_GetSessionAuthByID (identity_postgres env) i w = (Inr a, w')"
  shows "session_RevokedAt (sa_Session a) \<noteq> None"
proof -
  have kept: "identity_kept (iv_parse env) (iw_db w) (others_moved env w)" by (rule others_identity_kept [OF env inv])
  obtain s' where s': "s' \<in> set (user_sessions (others_moved env w))" "session_evolves s s'"
    using session_row_kept [OF kept s(1)] .
  have inv': "identity_inv (iv_parse env) (others_moved env w)" using kept by (simp add: identity_kept_def)
  obtain d u where "session_rows (others_moved env w) (session_ID s') = Some (s', d, u)"
    using session_rows_of [OF inv' s'(1)] .
  moreover have "session_ID s' = session_ID s" "session_RevokedAt s' \<noteq> None"
    using s' s(2) by (auto simp: session_evolves_def)
  moreover have "GetSessionAuthByID_tx (iv_parse env) i (others_moved env w) = Inr (a, iw_db w')"
    using run by (auto simp: identity_postgres_def Let_def elim!: identity_transact_Inr)
  ultimately show ?thesis by (auto simp: GetSessionAuthByID_value [of "iv_parse env" i "session_ID s", OF p])
qed

text \<open>
  C24: Once a session or its device is revoked, no token of the session is accepted again, neither by \<open>authenticate\<close> (on
  which every operation of a user rests) nor by \<open>ResolveSessionBearer\<close>, after any further requests and whatever other
  processes do.
\<close>
theorem revoked_sessions_stay_out:
  assumes "env_allowed env" and "identity_inv (iv_parse env) (iw_db w)" and "s \<in> set (user_sessions (iw_db w))"
    and "session_RevokedAt s \<noteq> None \<or>
      (\<exists>d\<in>set (user_devices (iw_db w)). device_ID d = session_DeviceID s \<and> device_RevokedAt d \<noteq> None)"
    and "Parse (iv_sha256 env) token = Some parsed" and "iv_parse env (SessionID parsed) = Some (session_ID s)"
  shows "(\<forall>a. fst (authenticate (identity_service env) token (serve_identity env requests w)) \<noteq> Inr a) \<and>
     (\<forall>b. fst (ResolveSessionBearer (identity_service env) token (serve_identity env requests w)) \<noteq> Inr b)"
proof -
  let ?w = "serve_identity env requests w"
  have kept: "identity_kept (iv_parse env) (iw_db w) (iw_db ?w)" by (rule serve_identity_kept [OF assms(1,2)])
  then have inv: "identity_inv (iv_parse env) (iw_db ?w)" by (simp add: identity_kept_def)
  have "session_RevokedAt s \<noteq> None" using assms(4) revoked_together [OF assms(2,3)] by blast
  moreover obtain s' where s': "s' \<in> set (user_sessions (iw_db ?w))" "session_evolves s s'"
    using session_row_kept [OF kept assms(3)] .
  ultimately have revoked: "session_RevokedAt s' \<noteq> None" "iv_parse env (SessionID parsed) = Some (session_ID s')"
    using assms(6) by (auto simp: session_evolves_def)
  note refused = revoked_session_refused [OF assms(1) inv s'(1) revoked]
  have "fst (authenticate (identity_service env) token ?w) \<noteq> Inr a" for a
    using refused unfolding authenticate_def
    by (auto simp: assms(5) identity_service_sel bindE_def prog_simps split: prod.splits sum.splits if_splits)
  moreover have "fst (ResolveSessionBearer (identity_service env) token ?w) \<noteq> Inr b" for b
  proof
    assume "fst (ResolveSessionBearer (identity_service env) token ?w) = Inr b"
    then obtain a v where a: "repo_GetSessionAuthByID (identity_postgres env) (SessionID parsed) ?w = (Inr a, v)"
      and b: "sessionAuthority a = Inr b" "authority_Status b = AuthorityActive"
      unfolding ResolveSessionBearer_def unavailable_def
      by (auto simp: assms(5) identity_service_sel bindE_def attemptE_def prog_simps answer_def
          split: prod.splits sum.splits if_splits)
    from refused [OF a] sessionAuthority_status [OF b(1)] b(2) show False by simp
  qed
  ultimately show ?thesis by blast
qed

text \<open>
  C25: No session disappears, and a session that was active and is revoked now is announced in the outbox, by an event about
  itself or about its device; conversely every event of the outbox is about a session or a device that is revoked, with
  the revision of that row.
\<close>
theorem session_revocations_are_announced:
  assumes "env_allowed env" and "identity_inv (iv_parse env) (iw_db w)" and "s \<in> set (user_sessions (iw_db w))"
    and "session_RevokedAt s = None"
  shows "(\<exists>s'\<in>set (user_sessions (iw_db (serve_identity env requests w))). session_ID s' = session_ID s \<and>
        (session_RevokedAt s' \<noteq> None \<longrightarrow> announced (iw_db (serve_identity env requests w)) s)) \<and>
     (\<forall>x\<in>set (outbox (authority (iw_db (serve_identity env requests w)))).
        (\<exists>s\<in>set (user_sessions (iw_db (serve_identity env requests w))). event_of_session (o_Event x) s) \<or>
        (\<exists>d\<in>set (user_devices (iw_db (serve_identity env requests w))). event_of_device (o_Event x) d))"
proof -
  let ?db = "iw_db (serve_identity env requests w)"
  have kept: "identity_kept (iv_parse env) (iw_db w) ?db"
    by (rule serve_identity_kept [OF assms(1,2)])
  then obtain s' where "s' \<in> set (user_sessions ?db)" "session_evolves s s'"
    "session_RevokedAt s = None \<longrightarrow> session_RevokedAt s' \<noteq> None \<longrightarrow> announced ?db s"
    unfolding identity_kept_def identity_evolves_def using assms(3) by blast
  with assms(4) have "\<exists>s'\<in>set (user_sessions ?db). session_ID s' = session_ID s \<and>
      (session_RevokedAt s' \<noteq> None \<longrightarrow> announced ?db s)" by (auto simp: session_evolves_def)
  moreover have "\<forall>x\<in>set (outbox (authority ?db)). (\<exists>s\<in>set (user_sessions ?db). event_of_session (o_Event x) s) \<or>
      (\<exists>d\<in>set (user_devices ?db). event_of_device (o_Event x) d)"
    using kept unfolding identity_kept_def identity_inv_def events_ok_def by blast
  ultimately show ?thesis by blast
qed

end
