(* ===== verification/Identity_Accounts.thy ===== *)
theory Identity_Accounts
  imports Identity_Sessions
begin

text \<open>Registration and login: the token that was issued opens its session, the password that was set is accepted.\<close>

section \<open>Issuing\<close>

text \<open>The reader of random bytes fills the secret.\<close>

definition random_full :: "identity_env \<Rightarrow> bool" where
  "random_full env \<longleftrightarrow> (\<forall>t secret. iv_random env t = Inr secret \<longrightarrow> length secret = tokenSize)"

lemma issueToken_run:
  assumes "random_full env" and "issueToken (identity_service env) i w = (Inr (token, h), w')"
  shows "Parse (iv_sha256 env) token = Some \<lparr>SessionID = i, TokenHash = h\<rparr> \<and> iw_db w' = iw_db w"
proof -
  from assms(2) obtain secret where secret: "iv_random env (iw_tick w) = Inr secret"
    and issue: "Issue (iv_sha256 env) (Some secret) i = Some (token, h)" and w': "iw_db w' = iw_db w"
    by (auto simp: issueToken_def identity_service_sel attemptE_def answer_def prog_simps Issue_def
        split: if_splits option.splits sum.splits)
  from assms(1) secret have "length secret = tokenSize" by (simp add: random_full_def)
  from Parse_Issue [OF this issue] w' show ?thesis by simp
qed

text \<open>\<open>opened\<close>: the session of the answer is stored, with the hash of its token.\<close>

definition opened :: "identity_env \<Rightarrow> AuthSession \<Rightarrow> identity_db \<Rightarrow> SessionRow \<Rightarrow> bool" where
  "opened env a db s \<longleftrightarrow> s \<in> set (user_sessions db) \<and> session_ID (auth_Session a) = session_ID s \<and>
     user_ID (auth_User a) = session_UserID s \<and> device_ID (auth_Device a) = session_DeviceID s \<and>
     (\<exists>i. Parse (iv_sha256 env) (auth_Token a) = Some \<lparr>SessionID = i, TokenHash = row_TokenHash s\<rparr> \<and>
        iv_parse env i = Some (session_ID s))"

lemma CreateSession_sql_row: "CreateSession_sql s db = Inr (row, db') \<Longrightarrow>
   row \<in> set (user_sessions db') \<and> row = s\<lparr>session_AuthorityRevision := 1\<rparr>"
  by (auto simp: CreateSession_sql_def Let_def split: if_splits)

lemma CreateDevice_row: "CreateDevice d db = Inr (row, db') \<Longrightarrow> row = d\<lparr>device_AuthorityRevision := 1\<rparr> \<and> users db' = users db"
  by (auto simp: CreateDevice_def Let_def split: if_splits)

lemma session_row_fields:
  "session_ID (toDomainSession x) = session_ID x" "row_TokenHash (session_row s' h) = h"
  by (simp_all add: toDomainSession_def session_row_def Session.defs SessionRow.defs)

lemma CreateAccount_tx_row:
  assumes params: "account_params p" and run: "CreateAccount_tx parse p db = Inr (x, db')"
  shows "\<exists>s\<in>set (user_sessions db'). parse (session_ID (ca_Session p)) = Some (session_ID s) \<and>
     row_TokenHash s = ca_TokenHash p \<and> session_ID (auth_Session x) = session_ID s \<and>
     user_ID (auth_User x) = session_UserID s \<and> device_ID (auth_Device x) = session_DeviceID s"
proof -
  from params have ids: "device_UserID (ca_Device p) = user_ID (ca_User p)" "session_UserID (ca_Session p) = user_ID (ca_User p)"
    "session_DeviceID (ca_Session p) = device_ID (ca_Device p)" by (simp_all add: account_params_def)
  from run ids obtain u d s user db1 device db2 db3 session where s: "parse (session_ID (ca_Session p)) = Some s"
    and run1: "CreateUser ((ca_User p)\<lparr>user_ID := u\<rparr>) db = Inr (user, db1)"
    and run3: "CreateDevice ((ca_Device p)\<lparr>device_ID := d, device_UserID := u\<rparr>) db2 = Inr (device, db3)"
    and run4: "CreateSession_sql (session_row ((ca_Session p)\<lparr>session_ID := s, session_UserID := u, session_DeviceID := d\<rparr>)
       (ca_TokenHash p)) db3 = Inr (session, db')"
    and x: "x = \<lparr>auth_User = user, auth_Device = device, auth_Session = toDomainSession session, auth_Token = ''''\<rparr>"
    unfolding CreateAccount_tx_def Let_def query_def
    by (auto simp: tx_simps dest!: with_uuid_run)
  from run1 have "user_ID user = u" by (auto simp: CreateUser_def split: if_splits)
  moreover from CreateDevice_row [OF run3] have "device_ID device = d" by simp
  moreover have row: "session \<in> set (user_sessions db')" using CreateSession_sql_row [OF run4] by blast
  ultimately show ?thesis using CreateSession_sql_row [OF run4]
    by (intro bexI [OF _ row]) (simp add: x s session_row_fields session_row_sel)
qed

lemma CreateSession_tx_row:
  assumes run: "CreateSession_tx parse p db = Inr (x, db')"
  shows "\<exists>s\<in>set (user_sessions db'). parse (session_ID (cs_Session p)) = Some (session_ID s) \<and>
     row_TokenHash s = cs_TokenHash p \<and> session_ID (auth_Session x) = session_ID s \<and>
     user_ID (auth_User x) = session_UserID s \<and> device_ID (auth_Device x) = session_DeviceID s \<and>
     parse (cs_UserID p) = Some (session_UserID s)"
proof -
  from run obtain d u s device db1 session db2 user where
    ids: "parse (cs_UserID p) = Some u" "parse (session_ID (cs_Session p)) = Some s"
    and run1: "CreateDevice ((cs_Device p)\<lparr>device_ID := d, device_UserID := u\<rparr>) db = Inr (device, db1)"
    and run2: "CreateSession_sql (session_row ((cs_Session p)\<lparr>session_ID := s, session_UserID := u, session_DeviceID := d\<rparr>)
       (cs_TokenHash p)) db1 = Inr (session, db2)"
    and run3: "GetUserByID u db2 = Inr (user, db')"
    and x: "x = \<lparr>auth_User = user, auth_Device = device, auth_Session = toDomainSession session, auth_Token = ''''\<rparr>"
    unfolding CreateSession_tx_def Let_def query_def
    by (auto simp: tx_simps dest!: with_uuid_run)
  from run3 have "db' = db2" "user_ID user = u"
    by (auto simp: GetUserByID_def oneRow_def find_user_def tx_simps split: option.splits dest!: find_SomeD)
  moreover from CreateDevice_row [OF run1] have "device_ID device = d" by simp
  moreover have row: "session \<in> set (user_sessions db2)" using CreateSession_sql_row [OF run2] by blast
  ultimately show ?thesis using CreateSession_sql_row [OF run2]
    by (intro bexI [of _ session]) (simp_all add: x ids session_row_fields session_row_sel)
qed

lemma answer_db: "answer f w = (r, w') \<Longrightarrow> iw_db w' = iw_db w"
  by (auto simp: answer_def)

lemma issueToken_db: "issueToken (identity_service env) i w = (r, w') \<Longrightarrow> iw_db w' = iw_db w"
  by (auto simp: issueToken_def identity_service_sel attemptE_def answer_def prog_simps
      split: if_splits option.splits sum.splits)

lemma Register_run:
  assumes "Register (identity_service env) input w = (Inr a, w')"
  obtains u login nickname now d label i token h ph x v v1 v2 where
    "normalizeLogin (ri_Login input) = Inr login"
    and "hashPassword (identity_service env) login (ri_Password input) w = (Inr ph, v)"
    and "issueToken (identity_service env) i v1 = (Inr (token, h), v2)"
    and "transact env (\<lambda>_. CreateAccount_tx (iv_parse env) \<lparr>ca_User = new_user u login nickname now, ca_PasswordHash = ph,
       ca_Device = new_device d u label now, ca_Session = new_session i u d now, ca_TokenHash = h\<rparr>) v2 = (Inr x, w')"
    and "a = x\<lparr>auth_Token := token\<rparr>"
proof -
  from assms show thesis
    unfolding Register_def identity_service_sel identity_postgres_def Let_def IdentityRepository.select_convs bindE_Inr_iff
    by (elim exE conjE) (auto simp: prog_run bindE_Inr_iff intro: that)
qed

lemma Login_run:
  assumes "Login (identity_service env) input w = (Inr a, w')"
  obtains login credential now d label i token h x v v1 v2 where
    "normalizeLogin (li_Login input) = Inr login"
    and "verifyPasswordCredential (identity_service env) login (li_Password input) w = (Inr credential, v)"
    and "issueToken (identity_service env) i v1 = (Inr (token, h), v2)"
    and "transact env (\<lambda>_. CreateSession_tx (iv_parse env) \<lparr>cs_UserID = user_ID (credential_User credential),
       cs_Device = new_device d (user_ID (credential_User credential)) label now,
       cs_Session = new_session i (user_ID (credential_User credential)) d now, cs_TokenHash = h\<rparr>) v2 = (Inr x, w')"
    and "a = x\<lparr>auth_Token := token\<rparr>" and "iw_db v2 = iw_db v"
proof -
  from assms show thesis
    unfolding Login_def identity_service_sel identity_postgres_def Let_def IdentityRepository.select_convs bindE_Inr_iff
    apply (elim exE conjE)
    apply (clarsimp simp: prog_run bindE_Inr_iff split: if_splits)
    apply (rule that, (assumption | rule refl)+)
    apply (drule answer_db issueToken_db)+
    apply simp
    done
qed

lemma Register_opens:
  assumes "random_full env" and "Register (identity_service env) input w = (Inr a, w')"
  shows "\<exists>s. opened env a (iw_db w') s"
  using assms(2)
proof (cases rule: Register_run)
  case (1 u login nickname now d label i token h ph x v v1 v2)
  let ?p = "\<lparr>ca_User = new_user u login nickname now, ca_PasswordHash = ph,
       ca_Device = new_device d u label now, ca_Session = new_session i u d now, ca_TokenHash = h\<rparr>"
  have p: "account_params ?p" by (simp add: account_params_def new_user_def new_device_def new_session_def)
  have "session_ID (ca_Session ?p) = i" "ca_TokenHash ?p = h" by (simp_all add: new_session_def)
  moreover from 1(4) have "CreateAccount_tx (iv_parse env) ?p (others_moved env v2) = Inr (x, iw_db w')" by (auto elim: identity_transact_Inr)
  note CreateAccount_tx_row [OF p this]
  ultimately obtain s where "s \<in> set (user_sessions (iw_db w'))" "iv_parse env i = Some (session_ID s)" "row_TokenHash s = h"
    "session_ID (auth_Session x) = session_ID s" "user_ID (auth_User x) = session_UserID s"
    "device_ID (auth_Device x) = session_DeviceID s" by auto
  with issueToken_run [OF assms(1) 1(3)] show ?thesis by (intro exI [of _ s]) (simp add: opened_def 1(5))
qed

lemma Login_opens:
  assumes "random_full env" and "Login (identity_service env) input w = (Inr a, w')"
  shows "\<exists>s. opened env a (iw_db w') s"
  using assms(2)
proof (cases rule: Login_run)
  case (1 login credential now d label i token h x v v1 v2)
  let ?p = "\<lparr>cs_UserID = user_ID (credential_User credential),
       cs_Device = new_device d (user_ID (credential_User credential)) label now,
       cs_Session = new_session i (user_ID (credential_User credential)) d now, cs_TokenHash = h\<rparr>"
  have "session_ID (cs_Session ?p) = i" "cs_TokenHash ?p = h" by (simp_all add: new_session_def)
  moreover from 1(4) have "CreateSession_tx (iv_parse env) ?p (others_moved env v2) = Inr (x, iw_db w')" by (auto elim: identity_transact_Inr)
  note CreateSession_tx_row [OF this]
  ultimately obtain s where "s \<in> set (user_sessions (iw_db w'))" "iv_parse env i = Some (session_ID s)" "row_TokenHash s = h"
    "session_ID (auth_Session x) = session_ID s" "user_ID (auth_User x) = session_UserID s"
    "device_ID (auth_Device x) = session_DeviceID s" by auto
  with issueToken_run [OF assms(1) 1(3)] show ?thesis by (intro exI [of _ s]) (simp add: opened_def 1(5))
qed

section \<open>Opening\<close>

lemma account_kept:
  assumes "env_allowed env" and "identity_inv (iv_parse env) (iw_db w)"
  shows "Register (identity_service env) registration w = (r, w1) \<Longrightarrow> identity_kept (iv_parse env) (iw_db w) (iw_db w1)"
    and "Login (identity_service env) login w = (r', w1) \<Longrightarrow> identity_kept (iv_parse env) (iw_db w) (iw_db w1)"
  using identity_kept_rows.service.account_operations_pres [of env "iw_db w", THEN presD, of w] assms
  by (auto simp: identity_kept_def)

lemma authenticate_outcome:
  assumes env: "env_allowed env" and inv: "identity_inv (iv_parse env) (iw_db w)" and s: "s \<in> set (user_sessions (iw_db w))"
    and p: "Parse (iv_sha256 env) token = Some \<lparr>SessionID = i, TokenHash = row_TokenHash s\<rparr>"
      "iv_parse env i = Some (session_ID s)"
    and run: "authenticate (identity_service env) token w = (r, w')"
  shows "case r of
      Inr b \<Rightarrow> session_ID (sa_Session b) = session_ID s \<and> self b = session_UserID s \<and> device_ID (sa_Device b) = session_DeviceID s
    | Inl e \<Rightarrow> e \<in> {ErrContext, ErrOther} \<or> (e = ErrUnauthorized \<and>
        (\<exists>s'\<in>set (user_sessions (others_moved env w)). session_ID s' = session_ID s \<and> session_RevokedAt s' \<noteq> None))"
proof -
  let ?db = "others_moved env w"
  have kept: "identity_kept (iv_parse env) (iw_db w) ?db" by (rule others_identity_kept [OF env inv])
  then have inv': "identity_inv (iv_parse env) ?db" by (simp add: identity_kept_def)
  obtain s' where s': "s' \<in> set (user_sessions ?db)" "session_evolves s s'" using session_row_kept [OF kept s] .
  obtain d u where rows: "session_rows ?db (session_ID s') = Some (s', d, u)" "d \<in> set (user_devices ?db)"
    "session_of d s'" "user_ID u = session_UserID s'" using session_rows_of [OF inv' s'(1)] .
  have same: "session_ID s' = session_ID s" "session_UserID s' = session_UserID s" "session_DeviceID s' = session_DeviceID s"
    "row_TokenHash s' = row_TokenHash s" using s'(2) by (simp_all add: session_evolves_def)
  have get: "GetSessionAuthByID_tx (iv_parse env) i ?db = Inr (auth_of s' d u, ?db)"
    using rows(1) same(1) by (simp add: GetSessionAuthByID_value [of "iv_parse env" i "session_ID s", OF p(2)])
  show ?thesis
  proof (cases "repo_GetSessionAuthByID (identity_postgres env) i w")
    case (Pair r0 v)
    then have tr: "transact env (\<lambda>_. GetSessionAuthByID_tx (iv_parse env) i) w = (r0, v)"
      by (simp add: identity_postgres_def Let_def)
    show ?thesis
    proof (cases r0)
      case (Inl e)
      with transact_Inl [of env "\<lambda>_. GetSessionAuthByID_tx (iv_parse env) i" w e v] tr get have "e \<in> {ErrContext, ErrOther}" by auto
      moreover have "r = Inl e" using run Pair Inl p(1) by (simp add: authenticate_def identity_service_sel bindE_def)
      ultimately show ?thesis by simp
    next
      case (Inr a)
      with tr get have a: "a = auth_of s' d u" "iw_db v = ?db" by (auto elim!: identity_transact_Inr)
      have device: "device_RevokedAt d \<noteq> None \<Longrightarrow> session_RevokedAt s' \<noteq> None" "device_ID d = session_DeviceID s'"
        using rows(3) by (auto simp: session_of_def)
      show ?thesis
      proof (cases "session_RevokedAt s' = None")
        case False
        then have "r = Inl ErrUnauthorized"
          using run Pair Inr p(1) a by (simp add: authenticate_def identity_service_sel bindE_def failE_def)
        with s'(1) same False show ?thesis by auto
      next
        case True
        with device(1) have "device_RevokedAt d = None" by blast
        have canonical: "iv_parse env (session_ID s') = Some (session_ID s')" "iv_parse env (device_ID d) = Some (device_ID d)"
          if "identity_inv (iv_parse env) db" "s' \<in> set (user_sessions db)" "d \<in> set (user_devices db)" for db
          using invD(11) [OF that(1)] that(2,3) by (simp_all add: rows_canonical_def)
        note ids = canonical [OF inv' s'(1) rows(2)]
        have touch: "e = ErrOther" if "repo_touch env (session_ID s') (device_ID d) t x = (Inl e, y)" for t x e y
        proof -
          have "TouchSession_tx (iv_parse env) (session_ID s') (device_ID d) t db \<noteq> Inl e'" for db e'
            by (simp add: TouchSession_tx_def with_uuid_def mustParseUUID_def ids bindT_def liftT_def query_def mapErrT_def
                TouchSessionAndDevice_def)
          with that transact_Inl [of env "\<lambda>_. TouchSession_tx (iv_parse env) (session_ID s') (device_ID d) t" x]
          show ?thesis by (fastforce simp: repo_touch_def attemptE_def prog_simps split: prod.splits sum.splits if_splits)
        qed
        have "case r of Inr b \<Rightarrow> session_ID (sa_Session b) = session_ID s' \<and> self b = user_ID u \<and> device_ID (sa_Device b) = device_ID d
          | Inl e \<Rightarrow> e = ErrOther"
          using run Pair Inr p(1) a True \<open>device_RevokedAt d = None\<close> same(4) touch
          by (auto simp: authenticate_def identity_service_sel bindE_def prog_simps answer_def self_def
              identity_postgres_def Let_def split: prod.splits sum.splits if_splits)
        with same rows(4) device(2) show ?thesis by (auto split: sum.splits)
      qed
    qed
  qed
qed

text \<open>
  C26: The token that \<open>Register\<close> or \<open>Login\<close> returned opens the session it was issued for, with its user and its device, after
  any further requests and whatever other processes do; it is refused only once that session is revoked, any other
  failure is one of the database.
\<close>
theorem issued_token_opens_its_session:
  assumes "env_allowed env" and "random_full env" and "identity_inv (iv_parse env) (iw_db w)"
    and "Register (identity_service env) registration w = (Inr a, w1) \<or> Login (identity_service env) login w = (Inr a, w1)"
    and "authenticate (identity_service env) (auth_Token a) (serve_identity env requests w1) = (r, w2)"
  shows "case r of
      Inr b \<Rightarrow> session_ID (sa_Session b) = session_ID (auth_Session a) \<and> user_ID (sa_User b) = user_ID (auth_User a) \<and>
        device_ID (sa_Device b) = device_ID (auth_Device a)
    | Inl e \<Rightarrow> e \<in> {ErrContext, ErrOther} \<or> (e = ErrUnauthorized \<and>
        (\<exists>s\<in>set (user_sessions (others_moved env (serve_identity env requests w1))).
           session_ID s = session_ID (auth_Session a) \<and> session_RevokedAt s \<noteq> None))"
proof -
  from assms(4) have inv1: "identity_inv (iv_parse env) (iw_db w1)"
    using account_kept [OF assms(1,3)] by (auto simp: identity_kept_def)
  obtain s0 where s0: "opened env a (iw_db w1) s0"
    using assms(4) Register_opens [OF assms(2)] Login_opens [OF assms(2)] by blast
  let ?w = "serve_identity env requests w1"
  have kept: "identity_kept (iv_parse env) (iw_db w1) (iw_db ?w)" by (rule serve_identity_kept [OF assms(1) inv1])
  then have inv: "identity_inv (iv_parse env) (iw_db ?w)" by (simp add: identity_kept_def)
  obtain s where s: "s \<in> set (user_sessions (iw_db ?w))" "session_evolves s0 s"
    using session_row_kept [OF kept] s0 by (auto simp: opened_def)
  then have same: "session_ID s = session_ID (auth_Session a)" "session_UserID s = user_ID (auth_User a)"
    "session_DeviceID s = device_ID (auth_Device a)"
    using s0 by (simp_all add: opened_def session_evolves_def)
  obtain i where i: "Parse (iv_sha256 env) (auth_Token a) = Some \<lparr>SessionID = i, TokenHash = row_TokenHash s\<rparr>"
    "iv_parse env i = Some (session_ID s)" using s0 s(2) by (auto simp: opened_def session_evolves_def)
  from authenticate_outcome [OF assms(1) inv s(1) i assms(5)] same show ?thesis by (auto simp: self_def split: sum.splits)
qed

section \<open>Passwords\<close>

text \<open>The law of the hasher: \<open>Verify\<close> accepts a password against every record that \<open>Hash\<close> made of it.\<close>

definition hash_law :: "identity_env \<Rightarrow> bool" where
  "hash_law env \<longleftrightarrow> (\<forall>t pw h. iv_hash env t pw = Inr h \<longrightarrow> iv_verify env pw h = Inr True)"

definition has_password :: "identity_db \<Rightarrow> string \<Rightarrow> uuid \<Rightarrow> string \<Rightarrow> bool" where
  "has_password db login u h \<longleftrightarrow> (\<exists>x\<in>set (users db). user_ID x = u \<and> user_Login x = login) \<and>
     (\<exists>c\<in>set (user_password_credentials db). cr_UserID c = u \<and> cr_PasswordHash c = h)"

lemma has_password_kept: "has_password db0 login u h \<Longrightarrow> identity_kept parse db0 db \<Longrightarrow> has_password db login u h"
  unfolding has_password_def identity_kept_def identity_evolves_def by (metis subsetD)

lemma has_password_read:
  assumes inv: "identity_inv parse db" and has: "has_password db login u h"
  shows "\<exists>x. GetPasswordCredentialByLogin_tx login db = Inr (\<lparr>credential_User = x, credential_PasswordHash = h\<rparr>, db) \<and>
     user_ID x = u"
proof -
  from has obtain x c where x: "x \<in> set (users db)" "user_ID x = u" "user_Login x = login"
    and c: "c \<in> set (user_password_credentials db)" "cr_UserID c = u" "cr_PasswordHash c = h" by (auto simp: has_password_def)
  have "find (\<lambda>y. user_Login y = user_Login x) (users db) = Some x"
    using invD(1) [OF inv] x(1) unfolding accounts_ok_def by (intro find_distinct_key) simp_all
  moreover have "find (\<lambda>y. cr_UserID y = cr_UserID c) (user_password_credentials db) = Some c"
    using invD(2) [OF inv] c(1) unfolding credentials_ok_def by (intro find_distinct_key) simp_all
  ultimately show ?thesis using x c
    by (simp add: GetPasswordCredentialByLogin_tx_def GetPasswordCredentialByLogin_sql_def find_login_def query_def
        bindT_def mapErrT_def oneRow_def tx_simps)
qed

lemma CreateAccount_tx_password:
  assumes "CreateAccount_tx parse p db = Inr (x, db')"
  shows "has_password db' (user_Login (ca_User p)) (user_ID (auth_User x)) (ca_PasswordHash p)"
proof -
  from assms obtain u user db1 db2 d db3 device s session where
    run1: "CreateUser ((ca_User p)\<lparr>user_ID := u\<rparr>) db = Inr (user, db1)"
    and run2: "CreateUserPasswordCredential \<lparr>cr_UserID = u, cr_PasswordHash = ca_PasswordHash p,
        cr_CreatedAt = user_CreatedAt (ca_User p), cr_UpdatedAt = user_UpdatedAt (ca_User p)\<rparr> db1 = Inr ((), db2)"
    and run3: "CreateDevice d db2 = Inr (device, db3)" and run4: "CreateSession_sql s db3 = Inr (session, db')"
    and x: "x = \<lparr>auth_User = user, auth_Device = device, auth_Session = toDomainSession session, auth_Token = []\<rparr>"
    unfolding CreateAccount_tx_def Let_def query_def
    by (fastforce simp: tx_simps dest!: with_uuid_run)
  have "users db2 = users db1" "user_password_credentials db3 = user_password_credentials db2" "users db3 = users db2"
    "users db' = users db3" "user_password_credentials db' = user_password_credentials db3"
    using run2 run3 run4
    by (auto simp: CreateUserPasswordCredential_def CreateDevice_def CreateSession_sql_def Let_def split: if_splits)
  with run1 run2 show ?thesis
    by (auto simp: has_password_def x CreateUser_def CreateUserPasswordCredential_def split: if_splits)
qed

lemma CreateSession_tx_error: "CreateSession_tx parse p db = Inl e \<Longrightarrow> e \<noteq> ErrInvalidCredentials"
  by (auto simp: CreateSession_tx_def Let_def with_uuid_def mustParseUUID_def query_def mapErrT_def bindT_def liftT_def
      returnT_def CreateDevice_def CreateSession_sql_def GetUserByID_def oneRow_def failT_def convertError_def
      split: option.splits if_splits sum.splits)

lemma Register_password:
  assumes "Register (identity_service env) input w = (Inr a, w')"
  obtains login h t where "normalizeLogin (ri_Login input) = Inr login"
    and "has_password (iw_db w') login (user_ID (auth_User a)) h" and "iv_hash env t (ri_Password input) = Inr h"
  using assms
proof (cases rule: Register_run)
  case (1 u login nickname now d label i token h ph x v v1 v2)
  from 1(4) have "CreateAccount_tx (iv_parse env) \<lparr>ca_User = new_user u login nickname now, ca_PasswordHash = ph,
       ca_Device = new_device d u label now, ca_Session = new_session i u d now, ca_TokenHash = h\<rparr> (others_moved env v2) =
     Inr (x, iw_db w')" by (auto elim: identity_transact_Inr)
  from CreateAccount_tx_password [OF this] have "has_password (iw_db w') login (user_ID (auth_User a)) ph"
    by (simp add: new_user_def 1(5))
  moreover from 1(2) have "\<exists>t. iv_hash env t (ri_Password input) = Inr ph"
    by (auto simp: hashPassword_def admitted_def identity_service_sel prog_simps answer_def split: if_splits)
  ultimately show ?thesis using that 1(1) by blast
qed

text \<open>A login with that password, while the account is as registered.\<close>

abbreviation kept_world :: "identity_env \<Rightarrow> identity_db \<Rightarrow> identity_world \<Rightarrow> bool" where
  "kept_world env db0 w \<equiv> env_allowed env \<and> identity_kept (iv_parse env) db0 (iw_db w)"

lemmas identity_answer = identity_kept_rows.yields_answer
lemmas identity_transact = identity_kept_rows.yields_transact

lemma acquire_error: "try_acquire env login t = Inl e \<Longrightarrow> e \<in> {ErrContext, ErrResourceExhausted}"
  by (auto simp: try_acquire_def acquire_def split: if_splits option.splits sum.splits)

lemma normalize_errors:
  "normalizeDeviceLabel label = Inl e \<Longrightarrow> e = ErrInvalidArgument" "normalizeLogin login = Inl e \<Longrightarrow> e = ErrInvalidArgument"
  by (auto simp: normalizeDeviceLabel_def normalizeLogin_def Let_def split: option.splits if_splits)

lemma yields_admitted:
  assumes "yields (kept_world env db0) m Q" and "Q (Inl ErrContext)" and "Q (Inl ErrResourceExhausted)"
  shows "yields (kept_world env db0) (admitted (identity_service env) login m) Q"
  unfolding admitted_def identity_service_sel
proof (rule yields_bindE [OF identity_answer])
  fix x show "yields (kept_world env db0) (attemptE m (\<lambda>r. bindE (answer (\<lambda>_. Inr ())) (\<lambda>_. liftE r))) Q"
    by (rule yields_attemptE [OF assms(1)], rule yields_bindE [OF identity_answer]) (auto intro: yields_liftE)
next
  fix e assume "\<exists>t. Inl e = try_acquire env login t"
  then obtain t where "try_acquire env login t = Inl e" by metis
  from acquire_error [OF this] assms(2,3) show "Q (Inl e)" by auto
qed

definition of_account :: "uuid \<Rightarrow> ('a \<Rightarrow> uuid) \<Rightarrow> identity_error + 'a \<Rightarrow> bool" where
  "of_account u key r \<longleftrightarrow> (case r of Inr x \<Rightarrow> key x = u | Inl e \<Rightarrow> e \<noteq> ErrInvalidCredentials)"

lemma of_account_simps [simp]:
  "of_account u key (Inr x) \<longleftrightarrow> key x = u" "of_account u key (Inl e) \<longleftrightarrow> e \<noteq> ErrInvalidCredentials"
  by (simp_all add: of_account_def)

lemma credential_yields:
  assumes "has_password db0 name u h"
  shows "yields (kept_world env db0) (repo_GetPasswordCredentialByLogin (svc_repo (identity_service env)) name)
     (\<lambda>r. (\<exists>c. r = Inr c \<and> user_ID (credential_User c) = u \<and> credential_PasswordHash c = h) \<or>
        r = Inl ErrContext \<or> r = Inl ErrOther)"
  unfolding identity_service_sel identity_postgres_def Let_def IdentityRepository.select_convs
proof (rule identity_transact)
  fix db assume db: "env_allowed env \<and> identity_kept (iv_parse env) db0 db"
  then have "identity_inv (iv_parse env) db" "has_password db name u h"
    using has_password_kept [OF assms] by (auto simp: identity_kept_def)
  from has_password_read [OF this]
  show "case GetPasswordCredentialByLogin_tx name db of
      Inl e \<Rightarrow> (\<exists>c. Inl e = Inr c \<and> user_ID (credential_User c) = u \<and> credential_PasswordHash c = h) \<or>
        Inl e = Inl ErrContext \<or> Inl e = Inl ErrOther
    | Inr (x, _) \<Rightarrow> (\<exists>c. Inr x = Inr c \<and> user_ID (credential_User c) = u \<and> credential_PasswordHash c = h) \<or>
        Inr x = Inl ErrContext \<or> Inr x = Inl ErrOther" by auto
qed (simp_all add: read_only_keeps identity_read_methods)

lemma verify_yields:
  assumes has: "has_password db0 name u h" and ok: "iv_verify env pw h = Inr True"
  shows "yields (kept_world env db0) (verifyPasswordCredential (identity_service env) name pw)
     (of_account u (\<lambda>c. user_ID (credential_User c)))"
proof -
  have good: "yields (kept_world env db0)
     (attemptE (svc_Verify (identity_service env) pw h) (\<lambda>valid.
        bindE (svc_done (identity_service env)) (\<lambda>canceled.
        if canceled then failE ErrContext
        else case valid of Inl e \<Rightarrow> failE e
          | Inr ok \<Rightarrow> if ok then returnE c else failE ErrInvalidCredentials)))
     (of_account u (\<lambda>c. user_ID (credential_User c)))"
    if "user_ID (credential_User c) = u" for c
    unfolding identity_service_sel ok
    by (rule yields_attemptE [OF identity_answer], rule yields_bindE [OF identity_answer])
      (auto intro!: yields_if yields_failE yields_returnE simp: that)
  show ?thesis unfolding verifyPasswordCredential_def
    by (rule yields_admitted, rule yields_attemptE [OF credential_yields [OF has]], elim disjE exE conjE)
      (simp_all add: good yields_failE)
qed

lemma stored_user_id:
  assumes "has_password db0 name u h" and "identity_kept parse db0 db"
  shows "parse u = Some u"
  using has_password_kept [OF assms] assms(2) by (auto simp: has_password_def identity_kept_def identity_inv_def accounts_ok_def)

lemma create_session_yields:
  assumes has: "has_password db0 name u h" and p: "cs_UserID p = u" "session_params p"
  shows "yields (kept_world env db0) (repo_CreateSession (svc_repo (identity_service env)) p)
     (of_account u (\<lambda>b. user_ID (auth_User b)))"
  unfolding identity_service_sel identity_postgres_def Let_def IdentityRepository.select_convs
proof (rule identity_transact)
  fix db assume "env_allowed env \<and> identity_kept (iv_parse env) db0 db"
  then have "iv_parse env u = Some u" using stored_user_id [OF has] by blast
  then show "case CreateSession_tx (iv_parse env) p db of Inl e \<Rightarrow> of_account u (\<lambda>b. user_ID (auth_User b)) (Inl e)
    | Inr (x, _) \<Rightarrow> of_account u (\<lambda>b. user_ID (auth_User b)) (Inr x)"
    using CreateSession_tx_row [of "iv_parse env" p db] CreateSession_tx_error [of "iv_parse env" p db] p(1)
    by (auto split: sum.splits)
qed (simp_all add: identity_kept_rows.kept_methods(2) [OF p(2)])

lemma issue_yields:
  "yields (kept_world env db0) (issueToken (identity_service env) i) (\<lambda>r. r \<noteq> Inl ErrInvalidCredentials)"
  unfolding issueToken_def identity_service_sel
  by (intro yields_if yields_attemptE [OF identity_answer])
    (auto intro!: yields_failE yields_returnE split: option.splits)

lemma Login_yields:
  assumes has: "has_password db0 name u h" and ok: "iv_verify env (li_Password login) h = Inr True"
    and name: "normalizeLogin (li_Login login) = Inr name"
  shows "yields (kept_world env db0) (Login (identity_service env) login) (of_account u (\<lambda>b. user_ID (auth_User b)))"
proof -
  have issue: "yields (kept_world env db0) (bindE (issueToken (identity_service env) i) (\<lambda>(token, tokenHash).
      bindE (repo_CreateSession (svc_repo (identity_service env)) \<lparr>cs_UserID = u, cs_Device = new_device d u label now,
         cs_Session = new_session i u d now, cs_TokenHash = tokenHash\<rparr>) (\<lambda>a. returnE (a\<lparr>auth_Token := token\<rparr>))))
     (of_account u (\<lambda>b. user_ID (auth_User b)))" for i d label now
    by (rule yields_bindE [OF issue_yields], clarify, rule yields_bindE [OF create_session_yields [OF has]])
      (auto intro: yields_returnE simp: session_params_def new_device_def new_session_def)
  have now: "yields (kept_world env db0) (bindE (svc_now (identity_service env)) f) (of_account u key)"
    if "\<And>x. yields (kept_world env db0) (f x) (of_account u key)" for f and key :: "AuthSession \<Rightarrow> uuid"
    unfolding identity_service_sel using that by (auto intro!: yields_bindE [OF identity_answer])
  have fresh: "yields (kept_world env db0) (bindE (svc_newID (identity_service env)) f) (of_account u key)"
    if "\<And>x. yields (kept_world env db0) (f x) (of_account u key)" for f and key :: "AuthSession \<Rightarrow> uuid"
    unfolding identity_service_sel using that by (auto intro!: yields_bindE [OF identity_answer])
  have tail: "yields (kept_world env db0) (bindE (verifyPasswordCredential (identity_service env) name (li_Password login)) (\<lambda>credential.
       bindE (svc_now (identity_service env)) (\<lambda>now.
       bindE (svc_newID (identity_service env)) (\<lambda>deviceID.
       bindE (svc_newID (identity_service env)) (\<lambda>sessionID.
       bindE (issueToken (identity_service env) sessionID) (\<lambda>(token, tokenHash).
       bindE (repo_CreateSession (svc_repo (identity_service env))
                \<lparr>cs_UserID = user_ID (credential_User credential),
                 cs_Device = new_device deviceID (user_ID (credential_User credential)) label now,
                 cs_Session = new_session sessionID (user_ID (credential_User credential)) deviceID now,
                 cs_TokenHash = tokenHash\<rparr>) (\<lambda>authSession.
       returnE (authSession\<lparr>auth_Token := token\<rparr>))))))))
      (of_account u (\<lambda>b. user_ID (auth_User b)))" for label
    proof (rule yields_bindE [OF verify_yields [OF has ok]])
      fix c assume "of_account u (\<lambda>c. user_ID (credential_User c)) (Inr c)"
      then have c: "user_ID (credential_User c) = u" by simp
      show "yields (kept_world env db0) (bindE (svc_now (identity_service env)) (\<lambda>now.
         bindE (svc_newID (identity_service env)) (\<lambda>deviceID.
         bindE (svc_newID (identity_service env)) (\<lambda>sessionID.
         bindE (issueToken (identity_service env) sessionID) (\<lambda>(token, tokenHash).
         bindE (repo_CreateSession (svc_repo (identity_service env))
                  \<lparr>cs_UserID = user_ID (credential_User c),
                   cs_Device = new_device deviceID (user_ID (credential_User c)) label now,
                   cs_Session = new_session sessionID (user_ID (credential_User c)) deviceID now,
                   cs_TokenHash = tokenHash\<rparr>) (\<lambda>authSession.
         returnE (authSession\<lparr>auth_Token := token\<rparr>)))))))
        (of_account u (\<lambda>b. user_ID (auth_User b)))"
        unfolding c by (intro now fresh issue)
    qed simp
  have lifted: "bindE (liftE (Inr x)) f = f x" for x and f :: "'x \<Rightarrow> ('w, 'e, 'y) prog"
    by (simp add: bindE_def liftE_def)
  show ?thesis
  proof (cases "normalizeDeviceLabel (li_DeviceLabel login)")
    case (Inl e)
    then show ?thesis using normalize_errors(1) [OF Inl]
      by (auto simp: Login_def name lifted yields_def bindE_def prog_run)
  next
    case (Inr label)
    show ?thesis unfolding Login_def name Inr lifted Let_def
      by (rule yields_if [OF yields_failE tail]) simp
  qed
qed

text \<open>
  C27: The password of a registration is never refused: whoever logs in with the login (in any accepted spelling) and the
  password of a successful registration, after any further requests and whatever other processes do, gets a session of
  that account or an error other than \<open>ErrInvalidCredentials\<close>. The hypothesis on the hasher is the documented law of
  Argon2id: verifying a password against its own record succeeds.
\<close>
theorem registered_password_is_accepted:
  assumes "env_allowed env" and "hash_law env" and "identity_inv (iv_parse env) (iw_db w)"
    and "Register (identity_service env) registration w = (Inr a, w1)"
    and "normalizeLogin (li_Login login) = normalizeLogin (ri_Login registration)"
    and "li_Password login = ri_Password registration"
    and "Login (identity_service env) login (serve_identity env requests w1) = (r, w2)"
  shows "case r of Inr b \<Rightarrow> user_ID (auth_User b) = user_ID (auth_User a) | Inl e \<Rightarrow> e \<noteq> ErrInvalidCredentials"
proof -
  obtain name h t where reg: "normalizeLogin (ri_Login registration) = Inr name"
    "has_password (iw_db w1) name (user_ID (auth_User a)) h"
    "iv_hash env t (ri_Password registration) = Inr h" using Register_password [OF assms(4)] .
  have ok: "iv_verify env (li_Password login) h = Inr True" using assms(2,6) reg(3) by (auto simp: hash_law_def)
  have inv1: "identity_inv (iv_parse env) (iw_db w1)" using account_kept(1) [OF assms(1,3,4)] by (simp add: identity_kept_def)
  have kept: "kept_world env (iw_db w1) (serve_identity env requests w1)"
    using serve_identity_kept [OF assms(1) inv1] assms(1) by simp
  from yieldsD [OF Login_yields [OF reg(2) ok] kept assms(7)] reg(1) assms(5) show ?thesis by (simp add: of_account_def)
qed

text \<open>And no other password is.\<close>

lemma verify_run:
  assumes "verifyPasswordCredential (identity_service env) name pw w = (Inr c, v)"
  shows "\<exists>x. iw_db x = iw_db w \<and> GetPasswordCredentialByLogin_tx name (others_moved env x) = Inr (c, iw_db v) \<and>
     iv_verify env pw (credential_PasswordHash c) = Inr True"
proof -
  let ?x = "w\<lparr>iw_tick := Suc (iw_tick w)\<rparr>"
  from assms obtain y where
    read: "transact env (\<lambda>_. GetPasswordCredentialByLogin_tx name) ?x = (Inr c, y)"
    and ok: "iv_verify env pw (credential_PasswordHash c) = Inr True" and v: "iw_db v = iw_db y"
    by (auto simp: verifyPasswordCredential_def admitted_def identity_service_sel identity_postgres_def Let_def
        bindE_def attemptE_def prog_run answer_def split: sum.splits if_splits prod.splits)
  from read v have "GetPasswordCredentialByLogin_tx name (others_moved env ?x) = Inr (c, iw_db v)" by (auto elim: identity_transact_Inr)
  with ok show ?thesis by (intro exI [of _ ?x]) simp
qed

lemma password_of_read:
  assumes "GetPasswordCredentialByLogin_tx name db = Inr (c, db')"
  shows "has_password db name (user_ID (credential_User c)) (credential_PasswordHash c) \<and> db' = db"
  using assms
  by (auto simp: GetPasswordCredentialByLogin_tx_def GetPasswordCredentialByLogin_sql_def query_def oneRow_def tx_simps
      has_password_def find_login_def split: option.splits dest!: find_SomeD)

text \<open>
  C28: \<open>Login\<close> succeeds only with the password: the stored record of the account with that login verified it, and the session
  returned is stored as a session of that account.
\<close>
theorem Login_requires_password:
  assumes "env_allowed env" and "identity_inv (iv_parse env) (iw_db w)"
    and "Login (identity_service env) login w = (Inr a, w1)"
  shows "\<exists>name h. normalizeLogin (li_Login login) = Inr name \<and>
     has_password (iw_db w1) name (user_ID (auth_User a)) h \<and> iv_verify env (li_Password login) h = Inr True \<and>
     (\<exists>s\<in>set (user_sessions (iw_db w1)). session_ID s = session_ID (auth_Session a) \<and>
        session_UserID s = user_ID (auth_User a) \<and> session_DeviceID s = device_ID (auth_Device a))"
  using assms(3)
proof (cases rule: Login_run)
  case (1 name credential now d label i token h x v v1 v2)
  let ?u = "user_ID (credential_User credential)" and ?h = "credential_PasswordHash credential"
  let ?p = "\<lparr>cs_UserID = ?u, cs_Device = new_device d ?u label now, cs_Session = new_session i ?u d now, cs_TokenHash = h\<rparr>"
  obtain y where y: "iw_db y = iw_db w" "GetPasswordCredentialByLogin_tx name (others_moved env y) = Inr (credential, iw_db v)"
    "iv_verify env (li_Password login) ?h = Inr True" using verify_run [OF 1(2)] by blast
  from password_of_read [OF y(2)] have has: "has_password (iw_db v) name ?u ?h" and same: "iw_db v = others_moved env y"
    by auto
  have inv: "identity_inv (iv_parse env) (iw_db v2)"
    using others_identity_kept [OF assms(1), of y] assms(2) y(1) same 1(6) by (simp add: identity_kept_def)
  have p: "session_params ?p" by (simp add: session_params_def new_device_def new_session_def)
  have "kept_world env (iw_db v2) w1"
    using identity_kept_rows.pres_transact [OF identity_kept_rows.kept_methods(2) [OF p], THEN presD, OF _ 1(4), of "iw_db v2"]
      assms(1) inv by (simp add: identity_kept_def)
  with has 1(6) have stored: "has_password (iw_db w1) name ?u ?h" and kept: "identity_kept (iv_parse env) (iw_db v2) (iw_db w1)"
    using has_password_kept by metis+
  from 1(4) have "CreateSession_tx (iv_parse env) ?p (others_moved env v2) = Inr (x, iw_db w1)" by (auto elim: identity_transact_Inr)
  from CreateSession_tx_row [OF this] have "iv_parse env ?u = Some (user_ID (auth_User x))"
    and row: "\<exists>s\<in>set (user_sessions (iw_db w1)). session_ID s = session_ID (auth_Session a) \<and>
        session_UserID s = user_ID (auth_User a) \<and> session_DeviceID s = device_ID (auth_Device a)"
    using 1(5) by auto
  moreover have "iv_parse env ?u = Some ?u" using stored_user_id [OF _ kept] has 1(6) by metis
  ultimately have "user_ID (auth_User a) = ?u" using 1(5) by simp
  with stored y(3) 1(1) row show ?thesis by auto
qed

end
