(* ===== verification/Identity_Checks.thy ===== *)
theory Identity_Checks
  imports Identity_Accounts
begin

text \<open>
  Answers of the identity service that other parts rely on: the authority of a bound session, the admission of password
  work, and that accepted input never runs into a CHECK of the tables.
\<close>

section \<open>The authority of a bound session\<close>

text \<open>What the tables say about a session bound to a user and a device.\<close>

definition bound_authority :: "identity_db \<Rightarrow> uuid \<Rightarrow> uuid \<Rightarrow> uuid \<Rightarrow> SessionAuthority" where
  "bound_authority db u i d =
     (case (find_session db i, find_device db d) of
        (Some s, Some x) \<Rightarrow>
          if session_UserID s = u \<and> session_DeviceID s = d
          then \<lparr>authority_UserID = u, authority_SessionID = i, authority_DeviceID = d,
                authority_SessionRevision = (if session_RevokedAt s = None then 1 else 2),
                authority_DeviceRevision = (if device_RevokedAt x = None then 1 else 2),
                authority_Status = (if session_RevokedAt s = None then AuthorityActive else AuthorityRevoked)\<rparr>
          else no_authority
      | _ \<Rightarrow> no_authority)"

lemma sessionAuthority_value:
  assumes inv: "identity_inv parse db" and rows: "session_rows db i = Some (s, d, u)"
    and ids: "user_ID u \<noteq> []" "session_ID s \<noteq> []" "device_ID d \<noteq> []"
  shows "sessionAuthority (auth_of s d u) = Inr (bound_authority db (user_ID u) (session_ID s) (device_ID d))"
proof -
  from session_row_of_id [OF rows] have mem: "s \<in> set (user_sessions db)" "d \<in> set (user_devices db)" "u \<in> set (users db)"
    "session_ID s = i" "device_ID d = session_DeviceID s" "user_ID u = session_UserID s" by simp_all
  obtain e where e: "e \<in> set (user_devices db)" "session_of e s"
    using invD(4) [OF inv] mem(1) by (auto simp: sessions_ok_def)
  have "e = d" using invD(3) [OF inv] e mem distinct_keyD [of device_ID "user_devices db" e d]
    by (auto simp: devices_ok_def session_of_def)
  with e have of: "session_of d s" by simp
  have rev: "session_AuthorityRevision s = revision_of (session_RevokedAt s)"
    "device_AuthorityRevision d = revision_of (device_RevokedAt d)"
    using invD(3,4) [OF inv] mem by (auto simp: devices_ok_def sessions_ok_def)
  have found: "find_session db (session_ID s) = Some s" "find_device db (device_ID d) = Some d"
    using find_session_unique [OF inv mem(1)] find_device_unique [OF inv mem(2)] by simp_all
  show ?thesis using of rev found ids mem(5,6)
    by (auto simp: sessionAuthority_def bound_authority_def session_of_def revision_of_def math_MaxInt64_def Let_def)
qed

lemma bound_id_Some: "bound_id parse x = Inr u \<Longrightarrow> parse (trim_space x) = Some u"
  by (auto simp: bound_id_def split: option.splits if_splits)

lemma bound_authority_rows:
  assumes inv: "identity_inv parse db"
  shows "(case session_rows db i of None \<Rightarrow> no_authority
     | Some (s, x, w) \<Rightarrow> if user_ID w \<noteq> u \<or> session_ID s \<noteq> i \<or> device_ID x \<noteq> d then no_authority
         else bound_authority db (user_ID w) (session_ID s) (device_ID x)) = bound_authority db u i d"
proof (cases "session_rows db i")
  case None
  have "find_session db i = None"
  proof (rule ccontr)
    assume "find_session db i \<noteq> None"
    then obtain s where "find_session db i = Some s" by blast
    from find_SomeD [OF this [unfolded find_session_def]] have s: "s \<in> set (user_sessions db)" "session_ID s = i" by simp_all
    obtain d u where "session_rows db (session_ID s) = Some (s, d, u)" using session_rows_of [OF inv s(1)] .
    with None s(2) show False by simp
  qed
  with None show ?thesis by (simp add: bound_authority_def)
next
  case (Some r)
  obtain s x w where r: "r = (s, x, w)" by (cases r)
  from session_row_of_id [OF Some [unfolded r]] have "session_ID s = i" "device_ID x = session_DeviceID s"
    "user_ID w = session_UserID s" "find_session db i = Some s"
    using Some r by (auto simp: session_rows_def split: option.splits)
  with Some r show ?thesis
    by (cases "find_device db d") (auto simp: bound_authority_def split: option.splits)
qed

text \<open>
  C29: On consistent tables \<open>CheckBoundSession\<close> reports exactly what they say: spellings that are no identifiers are an invalid
  argument; otherwise the answer is the status of the session bound to that user and device with both revisions
  (revision 1 active, 2 revoked), or ``not found'', and only a failure of the database makes it unavailable.
\<close>
theorem CheckBoundSession_reports_tables:
  assumes "env_allowed env" and "identity_inv (iv_parse env) (iw_db w)"
  shows "case (bound_id (iv_parse env) userID, bound_id (iv_parse env) sessionID, bound_id (iv_parse env) deviceID) of
      (Inr u, Inr i, Inr d) \<Rightarrow>
        fst (CheckBoundSession (identity_service env) userID sessionID deviceID w) =
          Inr (bound_authority (others_moved env w) u i d) \<or>
        iv_fault env (iw_tick w) \<noteq> Works \<and>
        fst (CheckBoundSession (identity_service env) userID sessionID deviceID w) \<in>
          {Inl ErrContext, Inl ErrAuthorityUnavailable}
    | _ \<Rightarrow> fst (CheckBoundSession (identity_service env) userID sessionID deviceID w) = Inl ErrInvalidArgument"
proof -
  have bad: "bound_id (iv_parse env) x = Inl e \<Longrightarrow> e = ErrInvalidArgument" for x e
    by (auto simp: bound_id_def split: option.splits if_splits)
  show ?thesis
  proof (cases "bound_id (iv_parse env) userID"; cases "bound_id (iv_parse env) sessionID";
      cases "bound_id (iv_parse env) deviceID")
    fix u i d assume ids: "bound_id (iv_parse env) userID = Inr u" "bound_id (iv_parse env) sessionID = Inr i"
      "bound_id (iv_parse env) deviceID = Inr d"
    let ?db = "others_moved env w"
    have inv: "identity_inv (iv_parse env) ?db" using others_identity_kept [OF assms] by (simp add: identity_kept_def)
    have parsed: "iv_parse env i = Some i" "i \<noteq> []"
      using assms(1) bound_id_Some [OF ids(2)] by (auto simp: env_allowed_def)
    have read: "transact env (\<lambda>_. GetSessionAuthByID_tx (iv_parse env) i) w = (r, w') \<Longrightarrow>
        r = (case session_rows ?db i of None \<Rightarrow> Inl ErrNotFound | Some (s, x, v) \<Rightarrow> Inr (auth_of s x v)) \<or>
        iv_fault env (iw_tick w) \<noteq> Works \<and> (r = Inl ErrContext \<or> r = Inl ErrOther)"
      for r w'
      by (auto simp: transact_def Let_def driver_error_def GetSessionAuthByID_value [of "iv_parse env" i i, OF parsed(1)]
          split: identity_fault.splits option.splits prod.splits if_splits)
    have judged: "sessionAuthority (auth_of s x v) = Inr (bound_authority ?db (user_ID v) (session_ID s) (device_ID x))"
      if rows: "session_rows ?db i = Some (s, x, v)" for s x v
    proof (rule sessionAuthority_value [OF inv rows])
      from session_row_of_id [OF rows] invD(1,11) [OF inv]
      have "iv_parse env (user_ID v) = Some (user_ID v)" "iv_parse env (session_ID s) = Some (session_ID s)"
        "iv_parse env (device_ID x) = Some (device_ID x)" by (auto simp: accounts_ok_def rows_canonical_def)
      with assms(1) show "user_ID v \<noteq> []" "session_ID s \<noteq> []" "device_ID x \<noteq> []" by (auto simp: env_allowed_def)
    qed
    obtain r w' where run: "transact env (\<lambda>_. GetSessionAuthByID_tx (iv_parse env) i) w = (r, w')" by fastforce
    have "fst (CheckBoundSession (identity_service env) userID sessionID deviceID w) =
        Inr (bound_authority ?db u i d) \<or>
      iv_fault env (iw_tick w) \<noteq> Works \<and>
      fst (CheckBoundSession (identity_service env) userID sessionID deviceID w) \<in> {Inl ErrContext, Inl ErrAuthorityUnavailable}"
      using read [OF run] run bound_authority_rows [where i = i and u = u and d = d, OF inv] judged
      by (auto simp: CheckBoundSession_def identity_service_sel identity_postgres_def Let_def ids bindE_def attemptE_def
          prog_run unavailable_def answer_def split: option.splits prod.splits if_splits)
    with ids show ?thesis by simp
  qed (auto simp: CheckBoundSession_def identity_service_sel bindE_def prog_run dest: bad)
qed

section \<open>The admission of password work\<close>

text \<open>
  Any interleaving of the requests of one process: \<open>held\<close> are the logins whose work is admitted and not yet released. A
  request that is refused changes nothing; the mutex makes each call one step, \<open>sync.Once\<close> makes a second release none.
\<close>

inductive admission_reaches :: "int \<Rightarrow> PasswordAdmission \<Rightarrow> string list \<Rightarrow> bool" where
  created: "NewPasswordAdmission maximum = Inr a \<Longrightarrow> admission_reaches maximum a []"
| acquired: "admission_reaches maximum a held \<Longrightarrow> acquire ctxErr login a = Inr a' \<Longrightarrow>
     admission_reaches maximum a' (login # held)"
| released: "admission_reaches maximum a held \<Longrightarrow> login \<in> set held \<Longrightarrow>
     admission_reaches maximum (release login a) (remove1 login held)"

inductive_cases admission_start: "admission_reaches maximum a []"

lemma admission_state:
  "admission_reaches maximum a held \<Longrightarrow>
     pa_maximum a = maximum \<and> 1 \<le> maximum \<and> maximum \<le> 8 \<and> distinct held \<and> set held = set (pa_active a) \<and>
     distinct (pa_active a) \<and> int (length held) \<le> maximum"
proof (induction rule: admission_reaches.induct)
  case (acquired maximum a held ctxErr login a')
  then have "login \<notin> set (pa_active a)" "int (length (pa_active a)) < maximum" "a' = a\<lparr>pa_active := login # pa_active a\<rparr>"
    by (auto simp: acquire_def split: option.splits if_splits)
  moreover have "length held = length (pa_active a)"
    using acquired.IH by (metis distinct_card)
  ultimately show ?case using acquired.IH by simp
next
  case (released maximum a held login)
  have "length (remove1 login held) \<le> length held" by (simp add: length_remove1)
  with released.IH have "int (length (remove1 login held)) \<le> maximum" by linarith
  with released.IH show ?case by (simp add: release_def set_remove1_eq distinct_removeAll)
qed (auto simp: NewPasswordAdmission_def split: if_splits)

text \<open>
  C30: At most \<open>maximum\<close> logins, and never one login twice, have their password work admitted at a time, however the
  requests interleave; the admission refuses exactly when that bound is reached or the login is being worked on, and a
  request whose context is done gets the error of its context.
\<close>
theorem password_work_is_bounded:
  assumes "admission_reaches maximum a held"
  shows "distinct held \<and> int (length held) \<le> maximum \<and> maximum \<le> 8 \<and>
     (\<forall>login. (\<exists>a'. acquire None login a = Inr a') \<longleftrightarrow> login \<notin> set held \<and> int (length held) < maximum) \<and>
     (\<forall>login e. acquire None login a = Inl e \<longrightarrow> e = ErrResourceExhausted) \<and>
     (\<forall>login e. acquire (Some e) login a = Inl e)"
proof -
  note state = admission_state [OF assms]
  have "length held = length (pa_active a)" using state by (metis distinct_card)
  with state show ?thesis by (auto simp: acquire_def split: if_splits)
qed

end
