(* ===== verification/Identity_Input.thy ===== *)
theory Identity_Input
  imports Identity_Checks
begin

text \<open>
  What the normalisers of the identity service accept is what the CHECKs of the tables accept: registrations, logins and
  profile changes never run into error 23514.
\<close>

section \<open>Lengths\<close>

lemma rune_count_pos: "s \<noteq> [] \<Longrightarrow> 1 \<le> rune_count s"
  by (subst rune_count.simps) simp

lemma rune_count_ascii: "\<forall>c\<in>set s. of_char c < (128 :: nat) \<Longrightarrow> rune_count s = length s"
proof (induction s)
  case (Cons c s)
  then have "rune_width (c # s) = 1" by (simp add: rune_width_def)
  with Cons show ?case by (subst rune_count.simps) simp
qed (simp add: rune_count.simps)

lemma hex_digit_ascii: "n < 16 \<Longrightarrow> of_char (hex_digits ! n) < (128 :: nat)"
proof -
  assume "n < 16"
  then have "hex_digits ! n \<in> set hex_digits" by (intro nth_mem) (simp add: hex_digits_def)
  moreover have "\<forall>c\<in>set hex_digits. of_char c < (128 :: nat)" by (simp add: hex_digits_def)
  ultimately show ?thesis by blast
qed

lemma hex_length: "length (hex_EncodeToString s) = 2 * length s"
  by (induction s) simp_all

lemma hex_runes: "rune_count (hex_EncodeToString s) = 2 * length s"
proof -
  have "\<forall>c\<in>set (hex_EncodeToString s). of_char c < (128 :: nat)"
  proof (induction s)
    case (Cons c s)
    have "val c div 16 < 16" "val c mod 16 < 16" using val_less [of c] by auto
    with Cons show ?case by (simp add: hex_digit_ascii)
  qed simp
  then show ?thesis by (simp add: rune_count_ascii hex_length)
qed

lemma nickname_fits: "normalizeNickname n = Inr v \<Longrightarrow> 1 \<le> rune_count v \<and> rune_count v \<le> 64"
  using rune_count_pos [of v] by (auto simp: normalizeNickname_def maxNicknameLen_def Let_def split: if_splits)

lemma label_fits: "normalizeDeviceLabel l = Inr v \<Longrightarrow> 1 \<le> rune_count v \<and> rune_count v \<le> 120"
proof -
  have "rune_count defaultDeviceName \<le> 120" using rune_count_le [of defaultDeviceName] by (simp add: defaultDeviceName_def)
  moreover have "1 \<le> rune_count defaultDeviceName" by (rule rune_count_pos) (simp add: defaultDeviceName_def)
  moreover assume "normalizeDeviceLabel l = Inr v"
  ultimately show ?thesis using rune_count_pos [of v]
    by (auto simp: normalizeDeviceLabel_def maxDeviceLabelLen_def Let_def split: option.splits if_splits)
qed

lemma login_fits: "normalizeLogin l = Inr v \<Longrightarrow> loginPattern v"
  by (auto simp: normalizeLogin_def Let_def split: if_splits)

text \<open>A patch keeps the columns that a CHECK looks at; its errors are invalid arguments.\<close>

lemma patch_text_error: "patch_text new n old = Inl e \<Longrightarrow> e = ErrInvalidArgument"
  by (auto simp: patch_text_def split: option.splits sum.splits)

lemma patch_fits:
  assumes "applyProfilePatch u patch = Inr u'"
  shows "user_ID u' = user_ID u \<and> user_Login u' = user_Login u \<and> user_Nickname u' = user_Nickname u \<and>
     user_KeyBackupStatus u' = user_KeyBackupStatus u"
  using assms by (auto simp: applyProfilePatch_def bindS_Inr_iff)

lemma patch_error: "applyProfilePatch u patch = Inl e \<Longrightarrow> e = ErrInvalidArgument"
  by (auto simp: applyProfilePatch_def bindS_def normalizeBirthday_def Let_def
      dest: patch_text_error split: sum.splits option.splits if_splits)

section \<open>Statements\<close>

definition violates_check :: "identity_error + 'a \<Rightarrow> bool" where
  "violates_check r \<longleftrightarrow> (\<exists>c. r = Inl (PgError ''23514'' c))"

lemma violates_check_simps [simp]:
  "violates_check (Inr x) \<longleftrightarrow> False" "violates_check (Inl e) \<longleftrightarrow> (\<exists>c. e = PgError ''23514'' c)"
  by (simp_all add: violates_check_def)

definition clean :: "'a identity_tx \<Rightarrow> bool" where
  "clean m \<longleftrightarrow> (\<forall>db. \<not> violates_check (m db))"

lemma convertError_check [simp]: "convertError e = PgError ''23514'' c \<longleftrightarrow> e = PgError ''23514'' c"
  by (auto simp: convertError_def split: identity_error.splits if_splits)

lemma clean_intros:
  "clean m \<Longrightarrow> clean (query m)" "(\<And>u. clean (f u)) \<Longrightarrow> clean (with_uuid parse i f)" "clean (returnT x)"
  "clean m \<Longrightarrow> (\<And>x. clean (g x)) \<Longrightarrow> clean (bindT m g)"
  by (auto simp: clean_def violates_check_def query_def mapErrT_def with_uuid_def mustParseUUID_def bindT_def liftT_def
      returnT_def split: sum.splits option.splits; metis)+

lemma clean_statements:
  "user_check u \<Longrightarrow> clean (CreateUser u)" "clean (CreateUserPasswordCredential c)"
  "device_check (d\<lparr>device_AuthorityRevision := 1\<rparr>) \<Longrightarrow> clean (CreateDevice d)"
  "session_check (s\<lparr>session_AuthorityRevision := 1\<rparr>) \<Longrightarrow> clean (CreateSession_sql s)" "clean (GetUserByID i)"
  by (auto simp: clean_def violates_check_def CreateUser_def CreateUserPasswordCredential_def CreateDevice_def
      CreateSession_sql_def GetUserByID_def oneRow_def tx_simps Let_def split: option.splits)

lemma session_row_check:
  "rune_count h = 64 \<Longrightarrow> session_check ((session_row s h)\<lparr>session_AuthorityRevision := 1\<rparr>)"
  by (simp add: session_check_def session_row_def Session.defs SessionRow.defs max_int64_def)

lemma clean_CreateAccount:
  assumes "user_check (ca_User p)" and "device_check ((ca_Device p)\<lparr>device_AuthorityRevision := 1\<rparr>)"
    and "rune_count (ca_TokenHash p) = 64"
  shows "clean (CreateAccount_tx parse p)"
  unfolding CreateAccount_tx_def Let_def
  by (intro clean_intros clean_statements session_row_check assms(3)) (use assms(1,2) in \<open>simp_all add: user_check_def device_check_def\<close>)

lemma clean_CreateSession:
  assumes "device_check ((cs_Device p)\<lparr>device_AuthorityRevision := 1\<rparr>)" and "rune_count (cs_TokenHash p) = 64"
  shows "clean (CreateSession_tx parse p)"
  unfolding CreateSession_tx_def Let_def
  by (intro clean_intros clean_statements session_row_check assms(2)) (use assms(1) in \<open>simp_all add: device_check_def\<close>)

lemma clean_UpdateUserProfile:
  assumes inv: "identity_inv parse db" and "1 \<le> rune_count (user_Nickname u)" and "rune_count (user_Nickname u) \<le> 64"
    and "user_KeyBackupStatus u \<in> {''not_configured'', ''configured''}"
  shows "\<not> violates_check (UpdateUserProfile_tx parse' u db)"
proof -
  have "user_check (u'\<lparr>user_Login := user_Login old, user_CreatedAt := t\<rparr>)"
    if "old \<in> set (users db)" "user_Nickname u' = user_Nickname u" "user_KeyBackupStatus u' = user_KeyBackupStatus u" for old u' t
    using invD(1) [OF inv] that assms(2,3,4) by (simp add: accounts_ok_def user_check_def)
  then show ?thesis
    by (auto simp: UpdateUserProfile_tx_def with_uuid_def mustParseUUID_def bindT_def liftT_def query_def mapErrT_def
        UpdateUserProfile_sql_def Let_def find_user_def split: option.splits dest!: find_SomeD)
qed

section \<open>Requests\<close>

text \<open>The hash of a token is that of SHA-256, and the hasher fails with an error of its own.\<close>

definition sha256_bytes :: "identity_env \<Rightarrow> bool" where
  "sha256_bytes env \<longleftrightarrow> (\<forall>x. length (iv_sha256 env x) = 32)"

definition hasher_errors :: "identity_env \<Rightarrow> bool" where
  "hasher_errors env \<longleftrightarrow> (\<forall>t pw e. iv_hash env t pw = Inl e \<longrightarrow> e \<in> {ErrOther, ErrContext}) \<and>
     (\<forall>pw h e. iv_verify env pw h = Inl e \<longrightarrow> e \<in> {ErrOther, ErrContext})"

abbreviation no_violation :: "identity_error + 'a \<Rightarrow> bool" where
  "no_violation r \<equiv> \<not> violates_check r"

lemma Issue_hash: "sha256_bytes env \<Longrightarrow> Issue (iv_sha256 env) r i = Some (token, h) \<Longrightarrow> rune_count h = 64"
  by (auto simp: Issue_def hashTokenSecret_def hex_runes sha256_bytes_def split: if_splits option.splits)

lemma issue_fits:
  assumes "sha256_bytes env"
  shows "yields (kept_world env db0) (issueToken (identity_service env) i)
     (\<lambda>r. no_violation r \<and> (\<forall>token h. r = Inr (token, h) \<longrightarrow> rune_count h = 64))"
  unfolding issueToken_def identity_service_sel
  by (intro yields_if yields_attemptE [OF identity_answer])
    (auto intro!: yields_failE yields_returnE split: option.splits dest: Issue_hash [OF assms])

lemma transact_clean:
  assumes "\<And>pg. keeps (\<lambda>db. env_allowed env \<and> identity_kept (iv_parse env) db0 db) (m pg)"
    and "\<And>pg db. env_allowed env \<and> identity_kept (iv_parse env) db0 db \<Longrightarrow> no_violation (m pg db)"
  shows "yields (kept_world env db0) (transact env m) no_violation"
proof (rule identity_transact [OF assms(1)])
  fix pg db assume "env_allowed env \<and> identity_kept (iv_parse env) db0 db"
  from assms(2) [OF this, of pg] show "case m pg db of Inl e \<Rightarrow> no_violation (Inl e) | Inr (x, _) \<Rightarrow> no_violation (Inr x)"
    by (auto split: sum.splits)
qed simp_all

lemma yields_now: "(\<And>x. yields (kept_world env db0) (f x) no_violation) \<Longrightarrow>
    yields (kept_world env db0) (bindE (svc_now (identity_service env)) f) no_violation"
  unfolding identity_service_sel by (auto intro!: yields_bindE [OF identity_answer])

lemma yields_newID: "(\<And>x. yields (kept_world env db0) (f x) no_violation) \<Longrightarrow>
    yields (kept_world env db0) (bindE (svc_newID (identity_service env)) f) no_violation"
  unfolding identity_service_sel by (auto intro!: yields_bindE [OF identity_answer])

lemma yields_normalised:
  "(\<And>x. r = Inr x \<Longrightarrow> yields I (f x) no_violation) \<Longrightarrow> (\<And>e. r = Inl e \<Longrightarrow> e = ErrInvalidArgument) \<Longrightarrow>
     yields I (bindE (liftE r) f) no_violation"
  by (rule yields_bind_liftE) auto

lemma hash_fits:
  assumes "hasher_errors env"
  shows "yields (kept_world env db0) (hashPassword (identity_service env) l pw) no_violation"
  unfolding hashPassword_def
proof (rule yields_admitted)
  show "yields (kept_world env db0) (attemptE (svc_Hash (identity_service env) pw) (\<lambda>hash.
      bindE (svc_done (identity_service env)) (\<lambda>canceled. if canceled then failE ErrContext else liftE hash))) no_violation"
    unfolding identity_service_sel
    by (rule yields_attemptE [OF identity_answer], rule yields_bindE [OF identity_answer])
      (use assms in \<open>auto intro!: yields_if yields_failE yields_liftE simp: hasher_errors_def violates_check_def\<close>)
qed simp_all

lemma Register_fits:
  assumes sha: "sha256_bytes env" and hasher: "hasher_errors env"
  shows "yields (kept_world env db0) (Register (identity_service env) input) no_violation"
proof -
  have create: "yields (kept_world env db0) (repo_CreateAccount (svc_repo (identity_service env))
       \<lparr>ca_User = new_user u login nickname now, ca_PasswordHash = ph, ca_Device = new_device d u label now,
        ca_Session = new_session i u d now, ca_TokenHash = h\<rparr>) no_violation"
    if fits: "normalizeLogin l = Inr login" "normalizeNickname n = Inr nickname" "normalizeDeviceLabel dl = Inr label"
      "rune_count h = 64" for u l login n nickname now ph d dl label i h
    unfolding identity_service_sel identity_postgres_def Let_def IdentityRepository.select_convs
  proof (rule transact_clean)
    show "keeps (\<lambda>db. env_allowed env \<and> identity_kept (iv_parse env) db0 db) (CreateAccount_tx (iv_parse env)
       \<lparr>ca_User = new_user u login nickname now, ca_PasswordHash = ph, ca_Device = new_device d u label now,
        ca_Session = new_session i u d now, ca_TokenHash = h\<rparr>)"
      by (rule identity_kept_rows.kept_methods) (simp add: account_params_def new_user_def new_device_def new_session_def)
    show "no_violation (CreateAccount_tx (iv_parse env)
       \<lparr>ca_User = new_user u login nickname now, ca_PasswordHash = ph, ca_Device = new_device d u label now,
        ca_Session = new_session i u d now, ca_TokenHash = h\<rparr> db)" for db
      using clean_CreateAccount [of "\<lparr>ca_User = new_user u login nickname now, ca_PasswordHash = ph,
          ca_Device = new_device d u label now, ca_Session = new_session i u d now, ca_TokenHash = h\<rparr>" "iv_parse env"]
        login_fits [OF fits(1)] nickname_fits [OF fits(2)] label_fits [OF fits(3)] fits(4)
      by (simp add: clean_def user_check_def device_check_def new_user_def new_device_def KeyBackupStatusNotConfigured_def
          max_int64_def)
  qed
  have errors: "normalizeLogin l = Inl e \<Longrightarrow> e = ErrInvalidArgument" "normalizeNickname l = Inl e \<Longrightarrow> e = ErrInvalidArgument"
    "validatePassword l = Inl e \<Longrightarrow> e = ErrInvalidArgument" for l e
    by (auto simp: normalizeLogin_def normalizeNickname_def validatePassword_def Let_def split: if_splits)
  show ?thesis unfolding Register_def
  proof (intro yields_normalised)
    fix login nickname label
    assume fits: "normalizeLogin (ri_Login input) = Inr login" "normalizeNickname (ri_Nickname input) = Inr nickname"
      "normalizeDeviceLabel (ri_DeviceLabel input) = Inr label"
    show "yields (kept_world env db0) (bindE (hashPassword (identity_service env) login (ri_Password input)) (\<lambda>passwordHash.
       bindE (svc_now (identity_service env)) (\<lambda>now.
       bindE (svc_newID (identity_service env)) (\<lambda>userID.
       bindE (svc_newID (identity_service env)) (\<lambda>deviceID.
       bindE (svc_newID (identity_service env)) (\<lambda>sessionID.
       bindE (issueToken (identity_service env) sessionID) (\<lambda>(token, tokenHash).
       bindE (repo_CreateAccount (svc_repo (identity_service env))
                \<lparr>ca_User = new_user userID login nickname now, ca_PasswordHash = passwordHash,
                 ca_Device = new_device deviceID userID label now,
                 ca_Session = new_session sessionID userID deviceID now, ca_TokenHash = tokenHash\<rparr>) (\<lambda>authSession.
       returnE (authSession\<lparr>auth_Token := token\<rparr>)))))))))
      no_violation"
      by (rule yields_bindE [OF hash_fits [OF hasher]], intro yields_now yields_newID,
          rule yields_bindE [OF issue_fits [OF sha]], clarify,
          rule yields_bindE [OF create [OF fits]]) (auto intro: yields_returnE)
  qed (auto dest: errors normalize_errors)
qed

lemma read_fits:
  assumes "read_only m" and "\<And>db. env_allowed env \<and> identity_kept (iv_parse env) db0 db \<Longrightarrow> no_violation (m db)"
  shows "yields (kept_world env db0) (transact env (\<lambda>_. m)) no_violation"
  by (rule transact_clean) (use assms in \<open>auto intro: read_only_keeps\<close>)

lemma verify_fits:
  assumes "hasher_errors env"
  shows "yields (kept_world env db0) (verifyPasswordCredential (identity_service env) l pw) no_violation"
proof -
  have read: "yields (kept_world env db0) (repo_GetPasswordCredentialByLogin (svc_repo (identity_service env)) l) no_violation"
    unfolding identity_service_sel identity_postgres_def Let_def IdentityRepository.select_convs
    by (rule read_fits [OF identity_read_methods(1)])
      (auto simp: GetPasswordCredentialByLogin_tx_def GetPasswordCredentialByLogin_sql_def bindT_def query_def mapErrT_def
        oneRow_def failT_def returnT_def convertError_def violates_check_def split: option.splits)
  have own: "iv_verify env p h \<noteq> Inl (PgError code c)" for p h code c
    using assms by (fastforce simp: hasher_errors_def)
  have judge: "yields (kept_world env db0)
     (attemptE (svc_Verify (identity_service env) pw h) (\<lambda>valid.
        bindE (svc_done (identity_service env)) (\<lambda>canceled.
        if canceled then failE ErrContext else case valid of Inl e \<Rightarrow> failE e | Inr ok \<Rightarrow> f ok))) no_violation"
    if "\<And>ok. yields (kept_world env db0) (f ok) no_violation" for h and f :: "bool \<Rightarrow> (identity_world, identity_error, PasswordCredential) prog"
    unfolding identity_service_sel
    by (rule yields_attemptE [OF identity_answer], rule yields_bindE [OF identity_answer])
      (use that in \<open>auto intro!: yields_if yields_failE split: sum.splits simp: own\<close>)
  show ?thesis unfolding verifyPasswordCredential_def
  proof (rule yields_admitted, rule yields_attemptE [OF read])
    fix rr :: "identity_error + PasswordCredential" assume "no_violation rr"
    then show "yields (kept_world env db0) (case rr of
        Inl err \<Rightarrow> if err \<noteq> ErrNotFound \<and> err \<noteq> ErrInvalidCredentials then failE err
          else attemptE (svc_Verify (identity_service env) pw publicDummyPasswordHash) (\<lambda>valid.
             bindE (svc_done (identity_service env)) (\<lambda>canceled.
             if canceled then failE ErrContext
             else case valid of Inl e \<Rightarrow> failE e | Inr _ \<Rightarrow> failE ErrInvalidCredentials))
      | Inr credential \<Rightarrow>
          attemptE (svc_Verify (identity_service env) pw (credential_PasswordHash credential)) (\<lambda>valid.
          bindE (svc_done (identity_service env)) (\<lambda>canceled.
          if canceled then failE ErrContext
          else case valid of Inl e \<Rightarrow> failE e
            | Inr ok \<Rightarrow> if ok then returnE credential else failE ErrInvalidCredentials))) no_violation"
      by (cases rr) (auto intro!: yields_failE judge yields_if yields_returnE)
  qed simp_all
qed

lemma Login_fits:
  assumes sha: "sha256_bytes env" and hasher: "hasher_errors env"
  shows "yields (kept_world env db0) (Login (identity_service env) input) no_violation"
proof -
  have create: "yields (kept_world env db0) (repo_CreateSession (svc_repo (identity_service env))
       \<lparr>cs_UserID = u, cs_Device = new_device d u label now, cs_Session = new_session i u d now, cs_TokenHash = h\<rparr>) no_violation"
    if fits: "normalizeDeviceLabel dl = Inr label" "rune_count h = 64" for u now d dl label i h
    unfolding identity_service_sel identity_postgres_def Let_def IdentityRepository.select_convs
  proof (rule transact_clean)
    show "keeps (\<lambda>db. env_allowed env \<and> identity_kept (iv_parse env) db0 db) (CreateSession_tx (iv_parse env)
       \<lparr>cs_UserID = u, cs_Device = new_device d u label now, cs_Session = new_session i u d now, cs_TokenHash = h\<rparr>)"
      by (rule identity_kept_rows.kept_methods) (simp add: session_params_def new_device_def new_session_def)
    show "no_violation (CreateSession_tx (iv_parse env)
       \<lparr>cs_UserID = u, cs_Device = new_device d u label now, cs_Session = new_session i u d now, cs_TokenHash = h\<rparr> db)" for db
      using clean_CreateSession [of "\<lparr>cs_UserID = u, cs_Device = new_device d u label now,
          cs_Session = new_session i u d now, cs_TokenHash = h\<rparr>" "iv_parse env"] label_fits [OF fits(1)] fits(2)
      by (simp add: clean_def device_check_def new_device_def max_int64_def)
  qed
  show ?thesis unfolding Login_def Let_def
  proof (intro yields_normalised yields_if yields_failE)
    fix login label assume fits: "normalizeDeviceLabel (li_DeviceLabel input) = Inr label"
    show "yields (kept_world env db0) (bindE (verifyPasswordCredential (identity_service env) login (li_Password input)) (\<lambda>credential.
       bindE (svc_now (identity_service env)) (\<lambda>now.
       bindE (svc_newID (identity_service env)) (\<lambda>deviceID.
       bindE (svc_newID (identity_service env)) (\<lambda>sessionID.
       bindE (issueToken (identity_service env) sessionID) (\<lambda>(token, tokenHash).
       bindE (repo_CreateSession (svc_repo (identity_service env))
                \<lparr>cs_UserID = user_ID (credential_User credential),
                 cs_Device = new_device deviceID (user_ID (credential_User credential)) label now,
                 cs_Session = new_session sessionID (user_ID (credential_User credential)) deviceID now,
                 cs_TokenHash = tokenHash\<rparr>) (\<lambda>authSession.
       returnE (authSession\<lparr>auth_Token := token\<rparr>))))))))
      no_violation"
      by (rule yields_bindE [OF verify_fits [OF hasher]], intro yields_now yields_newID,
          rule yields_bindE [OF issue_fits [OF sha]], clarify,
          rule yields_bindE [OF create [OF fits]]) (auto intro: yields_returnE)
  qed (auto dest: normalize_errors)
qed

lemma authenticate_fits:
  "yields (kept_world env db0) (authenticate (identity_service env) token)
     (\<lambda>r. no_violation r \<and> (\<forall>a. r = Inr a \<longrightarrow> user_check (sa_User a)))"
proof (cases "Parse (iv_sha256 env) token")
  case (Some p)
  have get: "yields (kept_world env db0) (repo_GetSessionAuthByID (identity_postgres env) i)
     (\<lambda>r. no_violation r \<and> (\<forall>a. r = Inr a \<longrightarrow> user_check (sa_User a)))" for i
    unfolding identity_postgres_def Let_def IdentityRepository.select_convs
  proof (rule identity_transact)
    fix db assume "env_allowed env \<and> identity_kept (iv_parse env) db0 db"
    then have inv: "identity_inv (iv_parse env) db" by (simp add: identity_kept_def)
    have "user_check u" if "session_rows db j = Some (s, d, u)" for j s d u
      using session_rows_user [OF that] invD(1) [OF inv] by (simp add: accounts_ok_def)
    with inv show "case GetSessionAuthByID_tx (iv_parse env) i db of
        Inl e \<Rightarrow> no_violation (Inl e) \<and> (\<forall>a. Inl e = Inr a \<longrightarrow> user_check (sa_User a))
      | Inr (x, _) \<Rightarrow> no_violation (Inr x) \<and> (\<forall>a. Inr x = Inr a \<longrightarrow> user_check (sa_User a))"
    proof (cases "iv_parse env i")
      case None
      then show ?thesis by (simp add: GetSessionAuthByID_tx_def failT_def)
    qed (auto simp: GetSessionAuthByID_value split: option.splits)
  qed (simp_all add: read_only_keeps identity_read_methods)
  have touch: "yields (kept_world env db0) (repo_TouchSession (identity_postgres env) a b t) no_violation" for a b t
    unfolding identity_postgres_def Let_def IdentityRepository.select_convs repo_touch_def
  proof (rule yields_attemptE)
    show "yields (kept_world env db0) (transact env (\<lambda>_. TouchSession_tx (iv_parse env) a b t)) no_violation"
      by (rule transact_clean [OF identity_kept_rows.kept_methods(3)])
        (auto simp: TouchSession_tx_def with_uuid_def mustParseUUID_def bindT_def liftT_def query_def mapErrT_def
          TouchSessionAndDevice_def violates_check_def split: option.splits sum.splits)
  qed (auto intro!: yields_if yields_returnE yields_failE split: sum.splits)
  show ?thesis unfolding authenticate_def Some identity_service_sel option.case
    by (rule yields_bindE [OF get], intro yields_if yields_failE yields_bindE [OF identity_answer] yields_bindE [OF touch])
      (auto intro!: yields_returnE)
qed (auto simp: authenticate_def identity_service_sel intro!: yields_failE)

lemma UpdateCurrentProfile_fits:
  "yields (kept_world env db0) (UpdateCurrentProfile (identity_service env) token patch) no_violation"
proof -
  have errors: "normalizeNickname n = Inl e \<Longrightarrow> e = ErrInvalidArgument" for n e
    by (auto simp: normalizeNickname_def Let_def split: if_splits)
  have update: "yields (kept_world env db0) (repo_UpdateUserProfile (svc_repo (identity_service env)) (u\<lparr>user_UpdatedAt := t\<rparr>)) no_violation"
    if "user_check u" for u t
    unfolding identity_service_sel identity_postgres_def Let_def IdentityRepository.select_convs
  proof (rule transact_clean [OF identity_kept_rows.kept_methods(4)])
    fix db assume "env_allowed env \<and> identity_kept (iv_parse env) db0 db"
    then have "identity_inv (iv_parse env) db" by (simp add: identity_kept_def)
    then show "no_violation (UpdateUserProfile_tx (iv_parse env) (u\<lparr>user_UpdatedAt := t\<rparr>) db)"
      by (rule clean_UpdateUserProfile) (use that in \<open>auto simp: user_check_def\<close>)
  qed
  have rest: "yields (kept_world env db0) (bindE (liftE (applyProfilePatch u patch)) (\<lambda>updatedUser.
      bindE (svc_now (identity_service env)) (\<lambda>now.
      repo_UpdateUserProfile (svc_repo (identity_service env)) (updatedUser\<lparr>user_UpdatedAt := now\<rparr>)))) no_violation"
    if u: "user_check u" for u
  proof (intro yields_normalised yields_now update)
    fix u' assume "applyProfilePatch u patch = Inr u'"
    from patch_fits [OF this] u show "user_check u'" by (simp add: user_check_def)
  qed (rule patch_error)
  show ?thesis unfolding UpdateCurrentProfile_def
  proof (rule yields_bindE [OF authenticate_fits])
    fix a assume "no_violation (Inr a) \<and> (\<forall>b. Inr a = Inr b \<longrightarrow> user_check (sa_User b))"
    then have a: "user_check (sa_User a)" by simp
    have "yields (kept_world env db0)
       (case patch_Nickname patch of None \<Rightarrow> returnE (sa_User a)
        | Some n \<Rightarrow> bindE (liftE (normalizeNickname n)) (\<lambda>nickname. returnE ((sa_User a)\<lparr>user_Nickname := nickname\<rparr>)))
       (\<lambda>r. no_violation r \<and> (\<forall>u. r = Inr u \<longrightarrow> user_check u))"
      using a by (auto intro!: yields_returnE yields_bind_liftE split: option.splits dest: errors nickname_fits simp: user_check_def)
    then show "yields (kept_world env db0)
       (bindE (case patch_Nickname patch of None \<Rightarrow> returnE (sa_User a)
        | Some n \<Rightarrow> bindE (liftE (normalizeNickname n)) (\<lambda>nickname. returnE ((sa_User a)\<lparr>user_Nickname := nickname\<rparr>))) (\<lambda>user.
        bindE (liftE (applyProfilePatch user patch)) (\<lambda>updatedUser.
        bindE (svc_now (identity_service env)) (\<lambda>now.
        repo_UpdateUserProfile (svc_repo (identity_service env)) (updatedUser\<lparr>user_UpdatedAt := now\<rparr>))))) no_violation"
      by (rule yields_bindE) (auto intro!: rest)
  qed simp
qed

text \<open>
  C31: Whatever a caller sends, an accepted registration, login or profile change fits the tables: none of these operations
  ever fails with a violated CHECK, since the normalisers (logins, nicknames, device labels, the profile patch) and the
  token hash accept only what the tables accept. The two hypotheses on the environment say that SHA-256 has 32 bytes and
  that the hasher's errors are its own.
\<close>
theorem accepted_input_fits_the_tables:
  assumes "env_allowed env" and "identity_inv (iv_parse env) (iw_db w)" and "sha256_bytes env" and "hasher_errors env"
  shows "\<not> violates_check (fst (Register (identity_service env) registration w)) \<and>
     \<not> violates_check (fst (Login (identity_service env) login w)) \<and>
     \<not> violates_check (fst (UpdateCurrentProfile (identity_service env) token patch w))"
proof -
  have "kept_world env (iw_db w) w" using assms(1,2) by (simp add: identity_kept_def)
  then show ?thesis
    using Register_fits [OF assms(3,4), of "iw_db w" registration] Login_fits [OF assms(3,4), of "iw_db w" login]
      UpdateCurrentProfile_fits [of env "iw_db w" token patch]
    unfolding yields_def by blast
qed

end
