(* ===== verification/Identity_Social.thy ===== *)
theory Identity_Social
  imports Identity_Requests
begin

text \<open>
  Blocks and friends. The service looks at the blocks before it writes a request or a friendship, in another transaction,
  so the separation of blocked users holds when no other process writes in between (\<open>undisturbed\<close>).
\<close>

section \<open>Blocked users are strangers\<close>

definition strangers :: "identity_db \<Rightarrow> uuid \<Rightarrow> uuid \<Rightarrow> bool" where
  "strangers db a b \<longleftrightarrow>
     (\<forall>f\<in>set (user_friendships db). {f_UserLowID f, f_UserHighID f} \<noteq> {a, b}) \<and>
     (\<forall>r\<in>set (user_friend_requests db). {fr_RequesterUserID r, fr_AddresseeUserID r} \<noteq> {a, b})"

definition blocked_are_strangers :: "identity_db \<Rightarrow> bool" where
  "blocked_are_strangers db \<longleftrightarrow> (\<forall>b\<in>set (user_blocks db). strangers db (b_BlockerUserID b) (b_BlockedUserID b))"

lemma strangers_apart:
  assumes "blocked_are_strangers db" and "set (user_blocks db') \<subseteq> set (user_blocks db)"
    and "set (user_friendships db') \<subseteq> set (user_friendships db)"
    and "set (user_friend_requests db') \<subseteq> set (user_friend_requests db)"
  shows "blocked_are_strangers db'"
  using assms unfolding blocked_are_strangers_def strangers_def by blast

lemma keeps_apart:
  assumes "\<And>db x db'. m db = Inr (x, db') \<Longrightarrow> set (user_blocks db') \<subseteq> set (user_blocks db) \<and>
      set (user_friendships db') \<subseteq> set (user_friendships db) \<and>
      set (user_friend_requests db') \<subseteq> set (user_friend_requests db)"
  shows "keeps blocked_are_strangers m"
  unfolding keeps_def using strangers_apart assms by blast

lemma apart_statements:
  "keeps blocked_are_strangers (CreateUser u)" "keeps blocked_are_strangers (CreateUserPasswordCredential c)"
  "keeps blocked_are_strangers (CreateDevice d)" "keeps blocked_are_strangers (CreateSession_sql s)"
  "keeps blocked_are_strangers (GetUserByID i)" "keeps blocked_are_strangers (TouchSessionAndDevice i j t)"
  "keeps blocked_are_strangers (UpdateUserProfile_sql u)" "keeps blocked_are_strangers (RevokeSession_sql i j t)"
  "keeps blocked_are_strangers (RevokeDevice_sql i j t)" "keeps blocked_are_strangers (RevokeDeviceSessions i j t)"
  "keeps blocked_are_strangers (insert_event clock e t)" "keeps blocked_are_strangers (DeleteFriendRequest_sql i j)"
  "keeps blocked_are_strangers (DeleteFriendRequestsByPair i j)" "keeps blocked_are_strangers (DeleteFriendshipByPair i j)"
  "keeps blocked_are_strangers (DeleteUserBlock i j)" "keeps blocked_are_strangers (UpsertWebPushSubscription_sql w)"
  "keeps blocked_are_strangers (DeleteWebPushSubscriptionByUserIDAndEndpoint i e')"
  "keeps blocked_are_strangers (DeleteWebPushSubscriptionsByIDs_sql ids)"
  by (rule keeps_apart; auto simp: CreateUser_def CreateUserPasswordCredential_def CreateDevice_def CreateSession_sql_def
      GetUserByID_def oneRow_def tx_simps TouchSessionAndDevice_def UpdateUserProfile_sql_def RevokeSession_sql_def
      RevokeDevice_sql_def RevokeDeviceSessions_def insert_event_def DeleteFriendRequest_sql_def
      DeleteFriendRequestsByPair_def DeleteFriendshipByPair_def DeleteUserBlock_def UpsertWebPushSubscription_sql_def
      DeleteWebPushSubscriptionByUserIDAndEndpoint_def DeleteWebPushSubscriptionsByIDs_sql_def Let_def
      split: option.splits if_splits sum.splits)+

lemma apart_worker: "keeps blocked_are_strangers (on_authority m)"
  by (rule keeps_apart) (auto simp: on_authority_def split: sum.splits)

section \<open>Blocking\<close>

lemma canonical_pair:
  assumes "parse a = Some a" and "parse b = Some b"
  shows "with_pair parse a b m = (if a < b then m a b else m b a)"
  using assms by (auto simp: with_pair_def with_uuid_def CanonicalUserPair_def mustParseUUID_def bindT_def liftT_def)

lemma pair_of_request: "requests_ok K rs \<Longrightarrow> r \<in> set rs \<Longrightarrow>
   {fr_RequesterUserID r, fr_AddresseeUserID r} = {fr_UserLowID r, fr_UserHighID r} \<and> fr_UserLowID r < fr_UserHighID r"
  by (auto simp: requests_ok_def request_check_def)

lemma pair_eq: "low < high \<Longrightarrow> l < h \<Longrightarrow> {l, h} = {low, high :: 'a :: linorder} \<longleftrightarrow> l = low \<and> h = high"
  by (auto simp: doubleton_eq_iff)

text \<open>After the deletions of \<open>BlockUser\<close> the two users are strangers.\<close>

lemma BlockUser_run:
  assumes inv: "identity_inv parse db" and apart: "blocked_are_strangers db"
    and ids: "parse a = Some a" "parse b = Some b" and run: "BlockUser_tx parse a b t db = Inr (x, db')"
  shows "blocked_are_strangers db'"
proof -
  obtain low high where pair: "low = (if a < b then a else b)" "high = (if a < b then b else a)" by simp
  from run have steps: "\<exists>db1 n db2. DeleteFriendRequestsByPair low high db = Inr ((), db1) \<and>
      DeleteFriendshipByPair low high db1 = Inr (n, db2) \<and>
      CreateUserBlock \<lparr>b_BlockerUserID = a, b_BlockedUserID = b, b_CreatedAt = t\<rparr> db2 = Inr ((), db')"
    by (auto simp: BlockUser_tx_def canonical_pair [OF ids] pair query_def tx_simps with_uuid_def mustParseUUID_def ids
        split: if_splits)
  then obtain db1 n db2 where gone: "DeleteFriendRequestsByPair low high db = Inr ((), db1)"
      "DeleteFriendshipByPair low high db1 = Inr (n, db2)"
    and create: "CreateUserBlock \<lparr>b_BlockerUserID = a, b_BlockedUserID = b, b_CreatedAt = t\<rparr> db2 = Inr ((), db')" by blast
  from gone have
    tables: "user_blocks db2 = user_blocks db"
      "user_friend_requests db2 = filter (\<lambda>r. \<not> (fr_UserLowID r = low \<and> fr_UserHighID r = high)) (user_friend_requests db)"
      "user_friendships db2 = filter (\<lambda>r. \<not> (f_UserLowID r = low \<and> f_UserHighID r = high)) (user_friendships db)"
    by (auto simp: DeleteFriendRequestsByPair_def DeleteFriendshipByPair_def Let_def)
  from create have differ: "a \<noteq> b" by (auto simp: CreateUserBlock_def split: if_splits)
  then have lt: "low < high" "{low, high} = {a, b}" using pair by (auto split: if_splits)
  have new: "strangers db2 a b"
    using pair_of_request [OF invD(5) [OF inv]] invD(6) [OF inv] lt pair_eq [OF lt(1)]
    unfolding strangers_def tables by (auto simp: friendships_ok_def)
  have old: "blocked_are_strangers db2" by (rule strangers_apart [OF apart]) (auto simp: tables)
  from create have "\<exists>bs. db' = db2\<lparr>user_blocks := bs\<rparr> \<and>
      set bs \<subseteq> insert \<lparr>b_BlockerUserID = a, b_BlockedUserID = b, b_CreatedAt = t\<rparr> (set (user_blocks db2))"
    by (cases db2) (fastforce simp: CreateUserBlock_def split: if_splits)
  then obtain bs where bs: "db' = db2\<lparr>user_blocks := bs\<rparr>"
    "set bs \<subseteq> insert \<lparr>b_BlockerUserID = a, b_BlockedUserID = b, b_CreatedAt = t\<rparr> (set (user_blocks db2))" by blast
  show ?thesis unfolding blocked_are_strangers_def
  proof
    fix r assume "r \<in> set (user_blocks db')"
    with bs have "r = \<lparr>b_BlockerUserID = a, b_BlockedUserID = b, b_CreatedAt = t\<rparr> \<or> r \<in> set (user_blocks db2)" by auto
    then have "strangers db2 (b_BlockerUserID r) (b_BlockedUserID r)"
      using new old by (auto simp: blocked_are_strangers_def)
    then show "strangers db' (b_BlockerUserID r) (b_BlockedUserID r)" by (simp add: bs(1) strangers_def)
  qed
qed

section \<open>Asking and accepting\<close>

lemma has_block_strangers:
  assumes "\<not> has_block db a b" and "r \<in> set (user_blocks db)"
  shows "{b_BlockerUserID r, b_BlockedUserID r} \<noteq> {a, b}"
  using assms by (auto simp: has_block_def doubleton_eq_iff)

lemma CreateFriendRequest_run:
  assumes apart: "blocked_are_strangers db" and free: "\<not> has_block db a b"
    and ids: "parse a = Some a" "parse b = Some b" and run: "CreateFriendRequest_tx parse a b t db = Inr (x, db')"
  shows "blocked_are_strangers db'"
proof -
  from run obtain r where stored: "CreateFriendRequest_sql r db = Inr ((), db')"
    and r: "fr_RequesterUserID r = a" "fr_AddresseeUserID r = b"
    by (auto simp: CreateFriendRequest_tx_def canonical_pair [OF ids] query_def tx_simps with_uuid_def mustParseUUID_def ids
        split: if_splits)
  from stored have db': "db' = db\<lparr>user_friend_requests := user_friend_requests db @ [r]\<rparr>"
    by (auto simp: CreateFriendRequest_sql_def split: if_splits)
  show ?thesis using apart has_block_strangers [OF free] r
    unfolding blocked_are_strangers_def strangers_def db' by fastforce
qed

lemma AcceptFriendRequest_run:
  assumes apart: "blocked_are_strangers db" and free: "\<not> has_block db a b"
    and ids: "parse a = Some a" "parse b = Some b" and run: "AcceptFriendRequest_tx parse a b t db = Inr (x, db')"
  shows "blocked_are_strangers db'"
proof -
  obtain low high where pair: "low = (if a < b then a else b)" "high = (if a < b then b else a)" by simp
  from run obtain n db1 where del: "DeleteFriendRequest_sql a b db = Inr (n, db1)"
    and rest: "db' = db1 \<or> CreateFriendship \<lparr>f_UserLowID = low, f_UserHighID = high, f_CreatedAt = t\<rparr> db1 = Inr ((), db')"
    by (auto simp: AcceptFriendRequest_tx_def canonical_pair [OF ids] query_def tx_simps with_uuid_def mustParseUUID_def ids
        pair split: if_splits)
  have kept: "blocked_are_strangers db1" by (rule keepsD [OF apart_statements(12) apart del])
  from del have blocks: "user_blocks db1 = user_blocks db" by (auto simp: DeleteFriendRequest_sql_def Let_def)
  have free1: "\<not> has_block db1 a b" using free by (simp add: has_block_def blocks)
  show ?thesis
  proof (cases "db' = db1")
    case False
    with rest have "db' = db1\<lparr>user_friendships := user_friendships db1 @ [\<lparr>f_UserLowID = low, f_UserHighID = high, f_CreatedAt = t\<rparr>]\<rparr>"
      by (auto simp: CreateFriendship_def split: if_splits)
    moreover have "{low, high} = {a, b}" using pair by auto
    ultimately show ?thesis using kept has_block_strangers [OF free1]
      unfolding blocked_are_strangers_def strangers_def by fastforce
  qed (simp add: kept)
qed

section \<open>The service alone\<close>

definition undisturbed :: "identity_env \<Rightarrow> bool" where
  "undisturbed env \<longleftrightarrow> (\<forall>t. iv_others env t = [])"

lemma undisturbed_others [simp]: "undisturbed env \<Longrightarrow> others_moved env w = iw_db w"
  by (simp add: undisturbed_def others_moved_def)

definition apart :: "identity_env \<Rightarrow> identity_db \<Rightarrow> bool" where
  "apart env db \<longleftrightarrow> undisturbed env \<and> env_allowed env \<and> identity_inv (iv_parse env) db \<and> blocked_are_strangers db"

lemma apartD:
  assumes "apart env db"
  shows "undisturbed env" "env_allowed env" "identity_inv (iv_parse env) db" "blocked_are_strangers db"
  using assms by (simp_all add: apart_def)

lemma operation_keeps_inv:
  assumes "env_allowed env" and "op_allowed (iv_parse env) operation" and inv: "identity_inv (iv_parse env) db"
    and run: "identity_op_tx (iv_parse env) pg operation db = Inr (x, db')"
  shows "identity_inv (iv_parse env) db'"
proof -
  have "env_allowed env \<and> identity_kept (iv_parse env) db db" using assms(1) inv by (simp add: identity_kept_def)
  from keepsD [OF kept_op_allowed [OF assms(2)] this run] show ?thesis by (simp add: identity_kept_def)
qed

lemma apart_stored: "apart env db \<Longrightarrow> u \<in> set (users db) \<Longrightarrow> iv_parse env (user_ID u) = Some (user_ID u)"
  using invD(1) [OF apartD(3)] by (simp add: accounts_ok_def)

lemma apart_op:
  assumes "op_allowed (iv_parse env) operation" and "\<not> friend_op operation"
  shows "keeps (apart env) (identity_op_tx (iv_parse env) pg operation)"
  unfolding keeps_def
proof (intro allI impI)
  fix db x db' assume db: "apart env db" and run: "identity_op_tx (iv_parse env) pg operation db = Inr (x, db')"
  have "identity_inv (iv_parse env) db'" by (rule operation_keeps_inv [OF apartD(2) [OF db] assms(1) apartD(3) [OF db] run])
  moreover have "blocked_are_strangers db'"
  proof (cases "\<exists>a b t. operation = OpBlockUser a b t")
    case True
    with run assms(1) show ?thesis
      by (auto simp: identity_op_tx_def op_allowed_def intro: BlockUser_run [OF apartD(3,4) [OF db]])
  next
    case False
    have "keeps blocked_are_strangers (identity_op_tx (iv_parse env) pg operation)"
      using False assms(2) unfolding identity_op_tx_def ignoreT_def friend_op_def
      by (cases operation; simp only: identity_op.case)
        (auto simp: CreateAccount_tx_def CreateSession_tx_def TouchSession_tx_def UpdateUserProfile_tx_def RevokeSession_tx_def
          RevokeDevice_tx_def DeleteFriendRequest_tx_def DeleteFriendship_tx_def UnblockUser_tx_def
          UpsertWebPushSubscription_tx_def DeleteWebPushSubscription_tx_def DeleteWebPushSubscriptionsByIDs_tx_def
          with_pair_def Let_def
          intro!: pres_intros keeps_ipg_query keeps_with_uuid apart_statements apart_worker)
    then show ?thesis using apartD(4) [OF db] run by (blast dest: keepsD)
  qed
  ultimately show "apart env db'" using db by (simp add: apart_def)
qed

interpretation apart_rows: identity_rows env "apart env"
  by unfold_locales (simp_all add: apart_op apart_stored apartD(2) undisturbed_others [OF apartD(1)])

text \<open>A statement sees the tables as the caller left them, and moves them only when it succeeds.\<close>

lemma undisturbed_transact:
  assumes "undisturbed env" and "transact env m w = (r, w')"
  shows "iw_db w' = iw_db w \<or> (\<exists>x. m (iv_pg env (iw_tick w)) (iw_db w) = Inr (x, iw_db w'))"
    and "r = Inr x \<Longrightarrow> m (iv_pg env (iw_tick w)) (iw_db w) = Inr (x, iw_db w')"
  using assms by (auto simp: transact_def Let_def split: identity_fault.splits sum.splits)

lemma undisturbed_read:
  assumes "undisturbed env" and "read_only m" and "transact env (\<lambda>_. m) w = (r, w')"
  shows "iw_db w' = iw_db w \<and> (\<forall>x. r = Inr x \<longrightarrow> m (iw_db w) = Inr (x, iw_db w))"
proof -
  have same: "m (iw_db w) = Inr (x, db) \<Longrightarrow> db = iw_db w" for x db using assms(2) by (auto simp: read_only_def)
  with undisturbed_transact [OF assms(1,3)] show ?thesis by metis
qed

lemma GetSocialGraphState_value:
  assumes "parse a = Some a" and "parse b = Some b" and "GetSocialGraphState_tx parse a b db = Inr (state, db')"
  shows "sg_HasBlock state = has_block db a b"
  using assms(3)
  by (auto simp: GetSocialGraphState_tx_def canonical_pair [OF assms(1,2)] with_uuid_def mustParseUUID_def assms(1,2)
      GetSocialGraphState_sql_def query_def tx_simps split: if_splits)

text \<open>From the look at the blocks to the write: for any continuation that writes only when no block was seen.\<close>

lemma looked_before:
  assumes I: "apart env (iw_db w)" and ids: "iv_parse env a = Some a" "iv_parse env b = Some b"
    and writing: "\<And>state v. iw_db v = iw_db w \<Longrightarrow> sg_HasBlock state = has_block (iw_db w) a b \<Longrightarrow> apart env (iw_db (snd (f state v)))"
  shows "apart env (iw_db (snd (bindE (repo_GetSocialGraphState (svc_repo (identity_service env)) a b) f w)))"
proof -
  obtain r v where run: "transact env (\<lambda>_. GetSocialGraphState_tx (iv_parse env) a b) w = (r, v)" by fastforce
  have read: "read_only (GetSocialGraphState_tx (iv_parse env) a b)" by (rule identity_read_methods)
  from undisturbed_read [OF apartD(1) [OF I] read run] have v: "iw_db v = iw_db w"
    and seen: "r = Inr x \<Longrightarrow> GetSocialGraphState_tx (iv_parse env) a b (iw_db w) = Inr (x, iw_db w)" for x by auto
  show ?thesis
  proof (cases r)
    case (Inl e)
    then show ?thesis using run v I by (simp add: identity_service_sel identity_postgres_def Let_def bindE_def)
  next
    case (Inr state)
    from GetSocialGraphState_value [OF ids seen [OF Inr]] writing [OF v, of state] show ?thesis
      using run Inr by (simp add: identity_service_sel identity_postgres_def Let_def bindE_def)
  qed
qed

lemma written:
  assumes I: "apart env (iw_db w)"
    and tx: "\<And>pg x db'. m pg (iw_db w) = Inr (x, db') \<Longrightarrow> apart env db'" and rest: "\<And>x. pres (\<lambda>w. apart env (iw_db w)) (f x)"
  shows "apart env (iw_db (snd (bindE (transact env m) f w)))"
proof -
  obtain r v where run: "transact env m w = (r, v)" by fastforce
  from undisturbed_transact(1) [OF apartD(1) [OF I] run] I tx have "apart env (iw_db v)" by metis
  then show ?thesis using run rest by (cases r) (auto simp: bindE_def pres_def)
qed

lemma request_written:
  assumes I: "apart env (iw_db w)" and ids: "iv_parse env a = Some a" "iv_parse env b = Some b" and free: "\<not> has_block (iw_db w) a b"
    and run: "CreateFriendRequest_tx (iv_parse env) a b t (iw_db w) = Inr (x, db')"
  shows "apart env db'"
proof -
  have "identity_op_tx (iv_parse env) pg (OpCreateFriendRequest a b t) (iw_db w) = Inr (x, db')" for pg :: ipg
    using run by (simp add: identity_op_tx_def)
  from operation_keeps_inv [OF apartD(2) [OF I] _ apartD(3) [OF I] this] have "identity_inv (iv_parse env) db'"
    by (simp add: op_allowed_def ids)
  with CreateFriendRequest_run [OF apartD(4) [OF I] free ids run] I show ?thesis by (simp add: apart_def)
qed

lemma acceptance_written:
  assumes I: "apart env (iw_db w)" and ids: "iv_parse env a = Some a" "iv_parse env b = Some b" and free: "\<not> has_block (iw_db w) a b"
    and run: "AcceptFriendRequest_tx (iv_parse env) a b t (iw_db w) = Inr (x, db')"
  shows "apart env db'"
proof -
  have "identity_op_tx (iv_parse env) pg (OpAcceptFriendRequest a b t) (iw_db w) = Inr ((), db')" for pg
    using run by (simp add: identity_op_tx_def ignoreT_def tx_simps)
  from operation_keeps_inv [OF apartD(2) [OF I] _ apartD(3) [OF I] this] have "identity_inv (iv_parse env) db'"
    by (simp add: op_allowed_def ids)
  with AcceptFriendRequest_run [OF apartD(4) [OF I] free ids run] I show ?thesis by (simp add: apart_def)
qed

lemma friends_apart:
  "pres (\<lambda>w. apart env (iw_db w)) (SendFriendRequest (identity_service env) token l)"
  "pres (\<lambda>w. apart env (iw_db w)) (AcceptFriendRequest (identity_service env) token l)"
proof -
  let ?s = "identity_service env"
  have now: "apart env (iw_db (snd (bindE (svc_now ?s) f v)))"
    if "\<And>t v'. iw_db v' = iw_db v \<Longrightarrow> apart env (iw_db (snd (f t v')))" for f :: "int \<Rightarrow> (identity_world, identity_error, unit) prog" and v
    using that by (simp add: identity_service_sel answer_def bindE_def)
  show "pres (\<lambda>w. apart env (iw_db w)) (SendFriendRequest ?s token l)"
    unfolding SendFriendRequest_def
  proof (rule apart_rows.service.target_intro, clarify, unfold pres_def, intro allI impI)
    fix a :: SessionAuth and target :: User and w :: identity_world
    assume ids: "canonical ?s (self (fst (a, target)))" "canonical ?s (user_ID (snd (a, target)))" and I: "apart env (iw_db w)"
    then have p: "iv_parse env (self a) = Some (self a)" "iv_parse env (user_ID target) = Some (user_ID target)"
      by (simp_all add: canonical_def identity_service_sel)
    show "apart env (iw_db (snd (bindE (repo_GetSocialGraphState (svc_repo ?s) (self a) (user_ID target)) (\<lambda>state.
        if sg_HasBlock state then failE ErrConflict
        else if sg_AreFriends state then failE ErrConflict
        else if sg_PendingRequest state \<noteq> None then failE ErrConflict
        else bindE (svc_now ?s) (\<lambda>requestedAt.
          bindE (repo_CreateFriendRequest (svc_repo ?s) (self a) (user_ID target) requestedAt) (\<lambda>_.
          notifyFriendRequest ?s (sa_User a) target requestedAt))) w)))"
    proof (rule looked_before [OF I p])
      fix state and v :: identity_world
      assume v: "iw_db v = iw_db w" and seen: "sg_HasBlock state = has_block (iw_db w) (self a) (user_ID target)"
      have writing: "apart env (iw_db (snd (bindE (repo_CreateFriendRequest (svc_repo ?s) (self a) (user_ID target) t) (\<lambda>_.
          notifyFriendRequest ?s (sa_User a) target t) v')))"
        if "\<not> sg_HasBlock state" "iw_db v' = iw_db v" for t v'
        unfolding identity_service_sel identity_postgres_def Let_def IdentityRepository.select_convs
      proof (rule written)
        show I': "apart env (iw_db v')" using I v that(2) by simp
        show "apart env db'" if "CreateFriendRequest_tx (iv_parse env) (self a) (user_ID target) t (iw_db v') = Inr (x, db')" for pg :: ipg and x db'
          using request_written [OF I' p _ that] seen \<open>\<not> sg_HasBlock state\<close> \<open>iw_db v' = iw_db v\<close> v by simp
      qed (rule apart_rows.service.notifyFriendRequest_pres)
      show "apart env (iw_db (snd ((if sg_HasBlock state then failE ErrConflict
        else if sg_AreFriends state then failE ErrConflict
        else if sg_PendingRequest state \<noteq> None then failE ErrConflict
        else bindE (svc_now ?s) (\<lambda>requestedAt.
          bindE (repo_CreateFriendRequest (svc_repo ?s) (self a) (user_ID target) requestedAt) (\<lambda>_.
          notifyFriendRequest ?s (sa_User a) target requestedAt))) v)))"
        using I v writing by (auto simp: failE_def intro!: now)
    qed
  qed
  show "pres (\<lambda>w. apart env (iw_db w)) (AcceptFriendRequest ?s token l)"
    unfolding AcceptFriendRequest_def
  proof (rule apart_rows.service.target_intro, clarify, unfold pres_def, intro allI impI)
    fix a :: SessionAuth and target :: User and w :: identity_world
    assume ids: "canonical ?s (self (fst (a, target)))" "canonical ?s (user_ID (snd (a, target)))" and I: "apart env (iw_db w)"
    then have p: "iv_parse env (self a) = Some (self a)" "iv_parse env (user_ID target) = Some (user_ID target)"
      by (simp_all add: canonical_def identity_service_sel)
    show "apart env (iw_db (snd (bindE (repo_GetSocialGraphState (svc_repo ?s) (self a) (user_ID target)) (\<lambda>state.
        if sg_HasBlock state then failE ErrConflict
        else if sg_AreFriends state then failE ErrConflict
        else if (case sg_PendingRequest state of None \<Rightarrow> True
              | Some p \<Rightarrow> pending_RequesterUserID p \<noteq> user_ID target \<or> pending_AddresseeUserID p \<noteq> self a)
        then failE ErrNotFound
        else bindE (svc_now ?s) (\<lambda>now.
          bindE (repo_AcceptFriendRequest (svc_repo ?s) (user_ID target) (self a) now) (\<lambda>ok.
          if \<not> ok then failE ErrNotFound else returnE ()))) w)))"
    proof (rule looked_before [OF I p])
      fix state and v :: identity_world
      assume v: "iw_db v = iw_db w" and seen: "sg_HasBlock state = has_block (iw_db w) (self a) (user_ID target)"
      have swap: "has_block db x y = has_block db y x" for db x y by (auto simp: has_block_def)
      have writing: "apart env (iw_db (snd (bindE (repo_AcceptFriendRequest (svc_repo ?s) (user_ID target) (self a) t) (\<lambda>ok.
          if \<not> ok then failE ErrNotFound else returnE ()) v')))"
        if "\<not> sg_HasBlock state" "iw_db v' = iw_db v" for t v'
        unfolding identity_service_sel identity_postgres_def Let_def IdentityRepository.select_convs
      proof (rule written)
        show I': "apart env (iw_db v')" using I v that(2) by simp
        show "apart env db'" if "AcceptFriendRequest_tx (iv_parse env) (user_ID target) (self a) t (iw_db v') = Inr (x, db')" for pg :: ipg and x db'
          using acceptance_written [OF I' p(2,1) _ that] seen \<open>\<not> sg_HasBlock state\<close> \<open>iw_db v' = iw_db v\<close> v swap by simp
      qed (intro pres_intros)
      show "apart env (iw_db (snd ((if sg_HasBlock state then failE ErrConflict
        else if sg_AreFriends state then failE ErrConflict
        else if (case sg_PendingRequest state of None \<Rightarrow> True
              | Some p \<Rightarrow> pending_RequesterUserID p \<noteq> user_ID target \<or> pending_AddresseeUserID p \<noteq> self a)
        then failE ErrNotFound
        else bindE (svc_now ?s) (\<lambda>now.
          bindE (repo_AcceptFriendRequest (svc_repo ?s) (user_ID target) (self a) now) (\<lambda>ok.
          if \<not> ok then failE ErrNotFound else returnE ()))) v)))"
        using I v writing by (auto simp: failE_def intro!: now)
    qed
  qed
qed

lemma serve_apart: "apart env (iw_db w) \<Longrightarrow> apart env (iw_db (serve_identity env rs w))"
proof (induction rs arbitrary: w)
  case (Cons r rs)
  have "pres (\<lambda>w. apart env (iw_db w)) (identity_request env r)"
  proof (cases "friend_request r")
    case True
    then show ?thesis using friends_apart
      by (auto simp: friend_request_def identity_request_def split: IdentityRequest.splits)
  qed (rule apart_rows.other_request_pres)
  then show ?case using Cons by (simp add: pres_def)
qed simp

text \<open>
  C32: When no other process writes to the tables in between, blocked users stay strangers through every sequence of requests,
  wherever transactions fail or replies are lost: there is no friendship and no pending request between a user and one
  they blocked, and two users have at most one friendship, whoever asked.
\<close>
theorem blocked_users_stay_strangers:
  assumes "env_allowed env" and "undisturbed env" and "identity_inv (iv_parse env) (iw_db w)"
    and "blocked_are_strangers (iw_db w)"
  shows "blocked_are_strangers (iw_db (serve_identity env requests w)) \<and>
     distinct (map (\<lambda>f. {f_UserLowID f, f_UserHighID f}) (user_friendships (iw_db (serve_identity env requests w))))"
proof -
  let ?db = "iw_db (serve_identity env requests w)"
  have a: "apart env ?db" by (rule serve_apart) (simp add: apart_def assms)
  have ok: "friendships_ok (known ?db) (user_friendships ?db)" by (rule invD(6) [OF apartD(3) [OF a]])
  have "inj_on (\<lambda>f. {f_UserLowID f, f_UserHighID f}) (set (user_friendships ?db))"
  proof (rule inj_onI)
    fix f g assume f: "f \<in> set (user_friendships ?db)" "g \<in> set (user_friendships ?db)"
      "{f_UserLowID f, f_UserHighID f} = {f_UserLowID g, f_UserHighID g}"
    with ok have "f_UserLowID f < f_UserHighID f" "f_UserLowID g < f_UserHighID g" by (auto simp: friendships_ok_def)
    from pair_eq [OF this(2,1)] f(3) have "(f_UserLowID f, f_UserHighID f) = (f_UserLowID g, f_UserHighID g)" by simp
    with f(1,2) ok show "f = g"
      using distinct_keyD [of "\<lambda>r. (f_UserLowID r, f_UserHighID r)" "user_friendships ?db" f g]
      by (simp add: friendships_ok_def)
  qed
  moreover have "distinct (user_friendships ?db)" using ok by (simp add: friendships_ok_def distinct_map)
  ultimately show ?thesis using apartD(4) [OF a] by (simp add: distinct_map)
qed

end
