(* ===== verification/Identity_Sample.thy ===== *)
theory Identity_Sample
  imports Identity_Input Identity_Social
begin

text \<open>A small deployment of the identity service on which the properties are run: \<open>anna\<close> with two devices, the second one
  revoked, and \<open>boris\<close> with one; every spelling but the empty one is an identifier, the clock is the step.\<close>

definition sample_id :: "char \<Rightarrow> string" where
  "sample_id c = ''00000000-0000-0000-0000-00000000000'' @ [c]"

definition tick_id :: "nat \<Rightarrow> string" where
  "tick_id t = ''10000000-0000-0000-0000-0000000000'' @ [hex_digits ! (t div 16 mod 16), hex_digits ! (t mod 16)]"

definition identity_bearer :: "char \<Rightarrow> string" where
  "identity_bearer c = ''v1.'' @ sample_id c @ ''.QUFBQUFBQUFBQUFBQUFBQUFBQUFBQUFBQUFBQUFBQUE''"

definition sample_sha256 :: "string \<Rightarrow> string" where
  "sample_sha256 s = take 32 (s @ replicate 32 (CHR ''0''))"

definition identity_sample_env :: "(nat \<Rightarrow> (ipg \<times> identity_op) list) \<Rightarrow> identity_env" where
  "identity_sample_env others =
     \<lparr>iv_parse = (\<lambda>s. if s = '''' then None else Some s), iv_sha256 = sample_sha256, iv_maximum = 2,
      iv_active = (\<lambda>t. []), iv_others = others, iv_pg = (\<lambda>t. \<lparr>clock_timestamp = int t, uuid_New = CHR ''e'' # tick_id t\<rparr>),
      iv_fault = (\<lambda>t. Works), iv_clock = (\<lambda>t. int t), iv_id = tick_id, iv_random = (\<lambda>t. Inr (replicate 32 (CHR ''A''))),
      iv_hash = (\<lambda>t pw. Inr (''h'' @ pw)), iv_verify = (\<lambda>pw h. Inr (h = ''h'' @ pw)), iv_done = (\<lambda>t. False),
      iv_dispatch = None\<rparr>"

definition calm_env :: identity_env where
  "calm_env = identity_sample_env (\<lambda>t. [])"

definition sample_hash :: string where
  "sample_hash = hex_EncodeToString (replicate 32 (CHR ''A''))"

definition sample_device_row :: "char \<Rightarrow> string \<Rightarrow> int option \<Rightarrow> Device" where
  "sample_device_row c u revoked = \<lparr>device_ID = sample_id c, device_UserID = u, device_Label = ''phone'', device_CreatedAt = 0,
     device_LastSeenAt = 0, device_RevokedAt = revoked, device_AuthorityRevision = revision_of revoked\<rparr>"

definition sample_session_row :: "char \<Rightarrow> char \<Rightarrow> string \<Rightarrow> int option \<Rightarrow> SessionRow" where
  "sample_session_row c d u revoked = \<lparr>session_ID = sample_id c, session_UserID = u, session_DeviceID = sample_id d,
     session_CreatedAt = 0, session_LastSeenAt = 0, session_RevokedAt = revoked, session_AuthorityRevision = revision_of revoked,
     row_TokenHash = sample_hash\<rparr>"

definition identity_sample_db :: identity_db where
  "identity_sample_db =
     \<lparr>users = [new_user ''u1'' ''anna'' ''Anna'' 0, new_user ''u2'' ''boris'' ''Boris'' 0],
      user_password_credentials =
        [\<lparr>cr_UserID = ''u1'', cr_PasswordHash = ''hsecret-1'', cr_CreatedAt = 0, cr_UpdatedAt = 0\<rparr>],
      user_devices = [sample_device_row (CHR ''4'') ''u1'' None, sample_device_row (CHR ''5'') ''u2'' None,
        sample_device_row (CHR ''6'') ''u1'' (Some 1)],
      user_sessions = [sample_session_row (CHR ''1'') (CHR ''4'') ''u1'' None, sample_session_row (CHR ''2'') (CHR ''5'') ''u2'' None,
        sample_session_row (CHR ''3'') (CHR ''6'') ''u1'' (Some 1)],
      user_blocks = [], user_friend_requests = [], user_friendships = [], web_push_subscriptions = [],
      authority = \<lparr>outbox = [], deliveries = []\<rparr>\<rparr>"

definition identity_start :: identity_world where
  "identity_start = \<lparr>iw_db = identity_sample_db, iw_tick = 0\<rparr>"

section \<open>The sample satisfies the hypotheses\<close>

lemma calm_sel [simp]:
  "iv_parse calm_env = (\<lambda>s. if s = '''' then None else Some s)" "iw_db identity_start = identity_sample_db"
  "iv_sha256 calm_env = sample_sha256" "iv_others calm_env t = []"
  by (simp_all add: calm_env_def identity_sample_env_def identity_start_def)

lemma calm_allowed: "env_allowed calm_env"
  by (simp add: env_allowed_def)

lemma calm_undisturbed: "undisturbed calm_env"
  by (simp add: undisturbed_def)

lemma identity_sample_inv: "identity_inv (\<lambda>s. if s = '''' then None else Some s) identity_sample_db"
  by code_simp

lemma calm_start: "identity_inv (iv_parse calm_env) (iw_db identity_start)"
  using identity_sample_inv by simp

lemma calm_random: "random_full calm_env"
  by (simp add: random_full_def calm_env_def identity_sample_env_def tokenSize_def)

lemma calm_hash: "hash_law calm_env"
  by (simp add: hash_law_def calm_env_def identity_sample_env_def)

lemma calm_sha: "sha256_bytes calm_env"
  by (auto simp: sha256_bytes_def sample_sha256_def min_def)

lemma calm_hasher: "hasher_errors calm_env"
  by (simp add: hasher_errors_def calm_env_def identity_sample_env_def)

section \<open>Calls in a calm environment\<close>

definition moment :: "identity_db \<Rightarrow> nat \<Rightarrow> identity_world" where
  "moment db t = \<lparr>iw_db = db, iw_tick = t\<rparr>"

definition calm_pg :: "nat \<Rightarrow> ipg" where
  "calm_pg t = \<lparr>clock_timestamp = int t, uuid_New = CHR ''e'' # tick_id t\<rparr>"

lemma calm_calls:
  "svc_now (identity_service calm_env) (moment db t) = (Inr (int t), moment db (t + 1))"
  "svc_newID (identity_service calm_env) (moment db t) = (Inr (tick_id t), moment db (t + 1))"
  "svc_random (identity_service calm_env) (moment db t) = (Inr (replicate 32 (CHR ''A'')), moment db (t + 1))"
  "svc_done (identity_service calm_env) (moment db t) = (Inr False, moment db (t + 1))"
  "svc_Hash (identity_service calm_env) pw (moment db t) = (Inr (CHR ''h'' # pw), moment db (t + 1))"
  "svc_Verify (identity_service calm_env) pw h (moment db t) = (Inr (h = CHR ''h'' # pw), moment db (t + 1))"
  "svc_acquire (identity_service calm_env) l (moment db t) = (Inr (), moment db (t + 1))"
  "svc_release (identity_service calm_env) l (moment db t) = (Inr (), moment db (t + 1))"
  "svc_sha256 (identity_service calm_env) = sample_sha256"
  "svc_dispatcher (identity_service calm_env) = None"
  "svc_sessionTouchInterval (identity_service calm_env) = defaultSessionTouchInterval"
  by (simp_all add: identity_service_def answer_def moment_def calm_env_def identity_sample_env_def try_acquire_def acquire_def)

lemma calm_transact:
  "transact calm_env m (moment db t) =
     (case m (calm_pg t) db of Inl e \<Rightarrow> (Inl e, moment db (t + 1)) | Inr (x, db') \<Rightarrow> (Inr x, moment db' (t + 1)))"
  by (simp add: transact_def others_moved_def moment_def calm_pg_def calm_env_def identity_sample_env_def Let_def
      split: sum.split prod.split)

lemma prog_step:
  "bindE m f w = (case m w of (Inl e, w') \<Rightarrow> (Inl e, w') | (Inr x, w') \<Rightarrow> f x w')"
  "attemptE m k w = (case m w of (r, w') \<Rightarrow> k r w')"
  by (simp_all add: prog_defs)

lemma calm_postgres:
  "repo_CreateAccount (svc_repo (identity_service calm_env)) params = transact calm_env (\<lambda>_. CreateAccount_tx (iv_parse calm_env) params)"
  "repo_GetPasswordCredentialByLogin (svc_repo (identity_service calm_env)) login =
     transact calm_env (\<lambda>_. GetPasswordCredentialByLogin_tx login)"
  "repo_CreateSession (svc_repo (identity_service calm_env)) new = transact calm_env (\<lambda>_. CreateSession_tx (iv_parse calm_env) new)"
  "repo_GetSessionAuthByID (svc_repo (identity_service calm_env)) i = transact calm_env (\<lambda>_. GetSessionAuthByID_tx (iv_parse calm_env) i)"
  "repo_RevokeSession (svc_repo (identity_service calm_env)) u i n = transact calm_env (\<lambda>pg. RevokeSession_tx (iv_parse calm_env) pg u i n)"
  "repo_BlockUser (svc_repo (identity_service calm_env)) a b n = transact calm_env (\<lambda>_. BlockUser_tx (iv_parse calm_env) a b n)"
  "repo_GetUserByLogin (svc_repo (identity_service calm_env)) login = transact calm_env (\<lambda>_. GetUserByLogin_tx login)"
  by (simp_all add: identity_service_def identity_postgres_def Let_def)

lemmas calm_run = prog_step prog_run calm_calls calm_transact calm_postgres Let_def

section \<open>Runs\<close>

text \<open>A registration; a transaction that commits has a result and a next state of the tables.\<close>

definition committed :: "identity_error + 'a \<times> identity_db \<Rightarrow> bool" where
  "committed r \<longleftrightarrow> (case r of Inl _ \<Rightarrow> False | Inr _ \<Rightarrow> True)"

definition outcome :: "identity_error + 'a \<times> identity_db \<Rightarrow> 'a" where
  "outcome r = fst (projr r)"

definition tables :: "identity_error + 'a \<times> identity_db \<Rightarrow> identity_db" where
  "tables r = snd (projr r)"

lemma committedD: "committed r \<Longrightarrow> r = Inr (outcome r, tables r)"
  by (auto simp: committed_def outcome_def tables_def split: sum.splits)

definition sample_parse :: uuid_parser where
  "sample_parse s = (if s = '''' then None else Some s)"

lemma calm_parse: "iv_parse calm_env = sample_parse" "svc_parse (identity_service calm_env) = sample_parse"
  by (auto simp: sample_parse_def identity_service_def)

definition carl :: RegisterInput where
  "carl = \<lparr>ri_Login = '' Carl '', ri_Password = ''password'', ri_Nickname = ''Carl'', ri_DeviceLabel = Some ''phone''\<rparr>"

definition carl_token :: string where
  "carl_token = ''v1.'' @ tick_id 7 @ ''.QUFBQUFBQUFBQUFBQUFBQUFBQUFBQUFBQUFBQUFBQUE''"

definition carl_params :: CreateAccountParams where
  "carl_params = \<lparr>ca_User = new_user (tick_id 5) ''carl'' ''Carl'' 4, ca_PasswordHash = ''hpassword'',
     ca_Device = new_device (tick_id 6) (tick_id 5) ''phone'' 4, ca_Session = new_session (tick_id 7) (tick_id 5) (tick_id 6) 4,
     ca_TokenHash = sample_hash\<rparr>"

definition carl_created :: "identity_error + AuthSession \<times> identity_db" where
  "carl_created = CreateAccount_tx sample_parse carl_params identity_sample_db"

definition carl_account :: AuthSession where
  "carl_account = (outcome carl_created)\<lparr>auth_Token := carl_token\<rparr>"

definition carl_world :: identity_world where
  "carl_world = moment (tables carl_created) 10"

lemma carl_committed: "committed carl_created"
  by code_simp

lemma carl_input:
  "normalizeLogin '' Carl '' = Inr ''carl''" "normalizeNickname ''Carl'' = Inr ''Carl''" "validatePassword ''password'' = Inr ()"
  "normalizeDeviceLabel (Some ''phone'') = Inr ''phone''" "canonicalSessionID (tick_id 7)"
  "Issue sample_sha256 (Some (replicate 32 (CHR ''A''))) (tick_id 7) = Some (carl_token, sample_hash)"
  by code_simp+

lemma identity_moment_start: "identity_start = moment identity_sample_db 0"
  by (simp add: identity_start_def moment_def)

lemma carl_registers: "Register (identity_service calm_env) carl identity_start = (Inr carl_account, carl_world)"
proof -
  have "Register (identity_service calm_env) carl identity_start =
      (case carl_created of Inl e \<Rightarrow> (Inl e, moment identity_sample_db 10)
       | Inr (a, db) \<Rightarrow> (Inr (a\<lparr>auth_Token := carl_token\<rparr>), moment db 10))"
    unfolding Register_def identity_moment_start carl_created_def carl_params_def calm_parse [symmetric]
    by (simp add: carl_def hashPassword_def admitted_def issueToken_def calm_run carl_input del: One_nat_def calm_sel split: sum.split)
  then show ?thesis by (subst (asm) committedD [OF carl_committed]) (simp add: carl_account_def carl_world_def)
qed

lemma serve_carl: "serve_identity calm_env [RegisterRequest carl] identity_start = carl_world"
  by (simp add: identity_request_def dropE_def prog_step carl_registers prog_run Let_def)

text \<open>\<open>carl\<close> looks at his profile, then logs in with another spelling of his login.\<close>

definition carl_auth :: SessionAuth where
  "carl_auth = outcome (GetSessionAuthByID_tx sample_parse (tick_id 7) (tables carl_created))"

lemma carl_lookup:
  "GetSessionAuthByID_tx sample_parse (tick_id 7) (tables carl_created) = Inr (carl_auth, tables carl_created)"
  by code_simp

lemma carl_session:
  "Parse sample_sha256 (auth_Token carl_account) = Some \<lparr>SessionID = tick_id 7, TokenHash = sample_hash\<rparr>"
  "session_RevokedAt (sa_Session carl_auth) = None" "device_RevokedAt (sa_Device carl_auth) = None"
  "sa_TokenHash carl_auth = sample_hash"
  "session_LastSeenAt (sa_Session carl_auth) = 4" "device_LastSeenAt (sa_Device carl_auth) = 4"
  by code_simp+

lemma sample_touch: "\<not> shouldTouchSession 4 11 defaultSessionTouchInterval" "\<not> shouldTouchSession 0 1 defaultSessionTouchInterval"
  by code_simp+

lemma carl_opens:
  "authenticate (identity_service calm_env) (auth_Token carl_account) carl_world =
     (Inr carl_auth, moment (tables carl_created) 12)"
  unfolding authenticate_def carl_world_def
  by (simp add: calm_run calm_parse carl_session carl_lookup sample_touch del: One_nat_def calm_sel)

definition carl_again :: LoginInput where
  "carl_again = \<lparr>li_Login = ''CARL'', li_Password = ''password'', li_DeviceLabel = Some ''laptop''\<rparr>"

definition again_params :: CreateSessionParams where
  "again_params = \<lparr>cs_UserID = tick_id 5, cs_Device = new_device (tick_id 16) (tick_id 5) ''laptop'' 15,
     cs_Session = new_session (tick_id 17) (tick_id 5) (tick_id 16) 15, cs_TokenHash = sample_hash\<rparr>"

definition again_created :: "identity_error + AuthSession \<times> identity_db" where
  "again_created = CreateSession_tx sample_parse again_params (tables carl_created)"

definition again_account :: AuthSession where
  "again_account = (outcome again_created)\<lparr>auth_Token := ''v1.'' @ tick_id 17 @ ''.QUFBQUFBQUFBQUFBQUFBQUFBQUFBQUFBQUFBQUFBQUE''\<rparr>"

lemma again_committed: "committed again_created"
  by code_simp

lemma again_input:
  "normalizeLogin ''CARL'' = Inr ''carl''" "normalizeDeviceLabel (Some ''laptop'') = Inr ''laptop''" "canonicalSessionID (tick_id 17)"
  "Issue sample_sha256 (Some (replicate 32 (CHR ''A''))) (tick_id 17) =
     Some (''v1.'' @ tick_id 17 @ ''.QUFBQUFBQUFBQUFBQUFBQUFBQUFBQUFBQUFBQUFBQUE'', sample_hash)"
  by code_simp+

lemma carl_credential:
  "GetPasswordCredentialByLogin_tx ''carl'' (tables carl_created) =
     Inr (\<lparr>credential_User = new_user (tick_id 5) ''carl'' ''Carl'' 4, credential_PasswordHash = ''hpassword''\<rparr>, tables carl_created)"
  by code_simp

lemma new_user_ID: "user_ID (new_user i l n t) = i"
  by (simp add: new_user_def)

lemma carl_logs_in:
  "Login (identity_service calm_env) carl_again carl_world = (Inr again_account, moment (tables again_created) 20)"
proof -
  have "Login (identity_service calm_env) carl_again carl_world =
      (case again_created of Inl e \<Rightarrow> (Inl e, moment (tables carl_created) 20)
       | Inr (a, db) \<Rightarrow>
           (Inr (a\<lparr>auth_Token := ''v1.'' @ tick_id 17 @ ''.QUFBQUFBQUFBQUFBQUFBQUFBQUFBQUFBQUFBQUFBQUE''\<rparr>), moment db 20))"
    unfolding Login_def carl_world_def again_created_def again_params_def
    by (simp add: carl_again_def verifyPasswordCredential_def admitted_def issueToken_def calm_run calm_parse carl_credential
        again_input new_user_ID del: One_nat_def calm_sel split: sum.split)
  then show ?thesis by (subst (asm) committedD [OF again_committed]) (simp add: again_account_def)
qed

text \<open>\<open>anna\<close> logs out, or blocks \<open>boris\<close>.\<close>

definition anna_auth :: SessionAuth where
  "anna_auth = \<lparr>sa_User = new_user ''u1'' ''anna'' ''Anna'' 0, sa_Device = sample_device_row (CHR ''4'') ''u1'' None,
     sa_Session = toDomainSession (sample_session_row (CHR ''1'') (CHR ''4'') ''u1'' None), sa_TokenHash = sample_hash\<rparr>"

lemma anna_lookup:
  "GetSessionAuthByID_tx sample_parse (sample_id (CHR ''1'')) identity_sample_db = Inr (anna_auth, identity_sample_db)"
  by code_simp

lemma anna_session:
  "Parse sample_sha256 (identity_bearer (CHR ''1'')) = Some \<lparr>SessionID = sample_id (CHR ''1''), TokenHash = sample_hash\<rparr>"
  "session_RevokedAt (sa_Session anna_auth) = None" "device_RevokedAt (sa_Device anna_auth) = None"
  "sa_TokenHash anna_auth = sample_hash" "session_ID (sa_Session anna_auth) = sample_id (CHR ''1'')"
  "session_LastSeenAt (sa_Session anna_auth) = 0" "device_LastSeenAt (sa_Device anna_auth) = 0"
  "self anna_auth = ''u1''" "user_Login (sa_User anna_auth) = ''anna''"
  by code_simp+

lemma anna_opens:
  "authenticate (identity_service calm_env) (identity_bearer (CHR ''1'')) identity_start = (Inr anna_auth, moment identity_sample_db 2)"
  unfolding authenticate_def identity_moment_start
  by (simp add: calm_run calm_parse anna_session anna_lookup sample_touch del: One_nat_def calm_sel)

definition anna_left :: "identity_error + bool \<times> identity_db" where
  "anna_left = RevokeSession_tx sample_parse (calm_pg 3) ''u1'' (sample_id (CHR ''1'')) 2 identity_sample_db"

lemma anna_left_committed: "committed anna_left"
  by code_simp

lemma serve_logout:
  "serve_identity calm_env [LogoutCurrentSessionRequest (identity_bearer (CHR ''1''))] identity_start = moment (tables anna_left) 4"
proof -
  have "snd (LogoutCurrentSession (identity_service calm_env) (identity_bearer (CHR ''1'')) identity_start) =
      (case anna_left of Inl e \<Rightarrow> moment identity_sample_db 4 | Inr (_, db) \<Rightarrow> moment db 4)"
    unfolding LogoutCurrentSession_def anna_left_def
    by (simp add: calm_run calm_parse anna_opens anna_session del: One_nat_def calm_sel split: sum.split)
  then show ?thesis
    by (subst (asm) committedD [OF anna_left_committed]) (simp add: identity_request_def Let_def)
qed

definition anna_blocks :: "identity_error + unit \<times> identity_db" where
  "anna_blocks = BlockUser_tx sample_parse ''u1'' ''u2'' 3 identity_sample_db"

lemma anna_blocks_committed: "committed anna_blocks"
  by code_simp

lemma boris_found:
  "normalizeLogin ''boris'' = Inr ''boris''"
  "GetUserByLogin_tx ''boris'' identity_sample_db = Inr (new_user ''u2'' ''boris'' ''Boris'' 0, identity_sample_db)"
  by code_simp+

lemma serve_block:
  "serve_identity calm_env [BlockUserRequest (identity_bearer (CHR ''1'')) ''boris''] identity_start = moment (tables anna_blocks) 5"
proof -
  have "snd (BlockUser (identity_service calm_env) (identity_bearer (CHR ''1'')) ''boris'' identity_start) =
      (case anna_blocks of Inl e \<Rightarrow> moment identity_sample_db 5 | Inr (_, db) \<Rightarrow> moment db 5)"
    unfolding BlockUser_def anna_blocks_def
    by (simp add: calm_run calm_parse anna_opens anna_session boris_found new_user_ID del: One_nat_def calm_sel split: sum.split)
  then show ?thesis
    by (subst (asm) committedD [OF anna_blocks_committed]) (simp add: identity_request_def Let_def)
qed

end
