(* ===== verification/Identity_Witnesses.thy ===== *)
theory Identity_Witnesses
  imports Identity_Sample
begin

text \<open>Runs of the sample deployment on which the properties of the identity service are applied.\<close>

lemma carl_counts: "length (users (iw_db carl_world)) = 3" "length (user_sessions (iw_db carl_world)) = 4"
  by code_simp+

theorem identity_stays_consistent_witness:
  "identity_inv (iv_parse calm_env) (iw_db carl_world) \<and> length (users (iw_db carl_world)) = 3"
  using identity_stays_consistent [OF calm_allowed calm_start, of "[RegisterRequest carl]"] carl_counts
  by (simp only: serve_carl)

lemma revoked_row:
  "sample_session_row (CHR ''3'') (CHR ''6'') ''u1'' (Some 1) \<in> set (user_sessions (iw_db identity_start))"
  "session_RevokedAt (sample_session_row (CHR ''3'') (CHR ''6'') ''u1'' (Some 1)) = Some 1"
  "Parse (iv_sha256 calm_env) (identity_bearer (CHR ''3'')) = Some \<lparr>SessionID = sample_id (CHR ''3''), TokenHash = sample_hash\<rparr>"
  "iv_parse calm_env (SessionID \<lparr>SessionID = sample_id (CHR ''3''), TokenHash = sample_hash\<rparr>) =
     Some (session_ID (sample_session_row (CHR ''3'') (CHR ''6'') ''u1'' (Some 1)))"
  by code_simp+

theorem revoked_sessions_stay_out_witness:
  "(\<forall>a. fst (authenticate (identity_service calm_env) (identity_bearer (CHR ''3'')) carl_world) \<noteq> Inr a) \<and>
   (\<forall>b. fst (ResolveSessionBearer (identity_service calm_env) (identity_bearer (CHR ''3'')) carl_world) \<noteq> Inr b)"
  using revoked_sessions_stay_out [OF calm_allowed calm_start revoked_row(1) _ revoked_row(3,4), of "[RegisterRequest carl]"]
  by (simp only: serve_carl revoked_row(2) option.simps simp_thms)

lemma active_row:
  "sample_session_row (CHR ''1'') (CHR ''4'') ''u1'' None \<in> set (user_sessions (iw_db identity_start))"
  "session_RevokedAt (sample_session_row (CHR ''1'') (CHR ''4'') ''u1'' None) = None"
  "session_ID (sample_session_row (CHR ''1'') (CHR ''4'') ''u1'' None) = sample_id (CHR ''1'')"
  by code_simp+

lemma anna_is_out:
  "\<forall>s\<in>set (user_sessions (tables anna_left)). session_ID s = sample_id (CHR ''1'') \<longrightarrow> session_RevokedAt s \<noteq> None"
  by code_simp

lemma moment_db: "iw_db (moment db t) = db"
  by (simp add: moment_def)

theorem session_revocations_are_announced_witness:
  "announced (tables anna_left) (sample_session_row (CHR ''1'') (CHR ''4'') ''u1'' None)"
  using session_revocations_are_announced [OF calm_allowed calm_start active_row(1,2),
      of "[LogoutCurrentSessionRequest (identity_bearer (CHR ''1''))]"] anna_is_out
  unfolding serve_logout moment_db active_row(3) by blast

theorem issued_token_opens_its_session_witness:
  "session_ID (sa_Session carl_auth) = session_ID (auth_Session carl_account) \<and>
   user_ID (sa_User carl_auth) = user_ID (auth_User carl_account) \<and>
   device_ID (sa_Device carl_auth) = device_ID (auth_Device carl_account)"
  using issued_token_opens_its_session [OF calm_allowed calm_random calm_start, of carl carl_account carl_world carl_again "[]"]
    carl_registers carl_opens
  by simp

lemma carl_spellings:
  "normalizeLogin (li_Login carl_again) = normalizeLogin (ri_Login carl)" "li_Password carl_again = ri_Password carl"
  by code_simp+

theorem registered_password_is_accepted_witness:
  "user_ID (auth_User again_account) = user_ID (auth_User carl_account)"
  using registered_password_is_accepted [OF calm_allowed calm_hash calm_start carl_registers carl_spellings, of "[]"] carl_logs_in
  by simp

lemma carl_world_inv: "identity_inv (iv_parse calm_env) (iw_db carl_world)"
  using serve_identity_kept [OF calm_allowed calm_start, of "[RegisterRequest carl]"]
  by (simp only: identity_kept_def serve_carl)

theorem Login_requires_password_witness:
  "\<exists>h. has_password (tables again_created) ''carl'' (user_ID (auth_User again_account)) h \<and>
     iv_verify calm_env ''password'' h = Inr True"
  using Login_requires_password [OF calm_allowed carl_world_inv carl_logs_in] again_input(1)
  by (auto simp: moment_db carl_again_def)

lemma anna_bound:
  "bound_id (iv_parse calm_env) ''u1'' = Inr ''u1''" "bound_id (iv_parse calm_env) (sample_id (CHR ''1'')) = Inr (sample_id (CHR ''1''))"
  "bound_id (iv_parse calm_env) (sample_id (CHR ''4'')) = Inr (sample_id (CHR ''4''))"
  "authority_Status (bound_authority (others_moved calm_env identity_start) ''u1'' (sample_id (CHR ''1'')) (sample_id (CHR ''4''))) =
     AuthorityActive"
  "iv_fault calm_env (iw_tick identity_start) = Works"
  by code_simp+

theorem CheckBoundSession_reports_tables_witness:
  "\<exists>authority. fst (CheckBoundSession (identity_service calm_env) ''u1'' (sample_id (CHR ''1'')) (sample_id (CHR ''4'')) identity_start) =
     Inr authority \<and> authority_Status authority = AuthorityActive"
  using CheckBoundSession_reports_tables [OF calm_allowed calm_start, of "''u1''" "sample_id (CHR ''1'')" "sample_id (CHR ''4'')"]
    anna_bound
  by simp

definition one_login :: PasswordAdmission where
  "one_login = \<lparr>pa_maximum = 2, pa_active = [''anna'']\<rparr>"

lemma one_login_reached: "admission_reaches 2 one_login [''anna'']"
  by (rule admission_reaches.intros(2) [OF admission_reaches.intros(1) [of 2 "\<lparr>pa_maximum = 2, pa_active = []\<rparr>"], of None])
    (simp_all add: NewPasswordAdmission_def acquire_def one_login_def)

theorem password_work_is_bounded_witness:
  "(\<exists>a'. acquire None ''boris'' one_login = Inr a') \<and> \<not> (\<exists>a'. acquire None ''anna'' one_login = Inr a')"
  using password_work_is_bounded [OF one_login_reached] by simp

theorem accepted_input_fits_the_tables_witness:
  "\<not> violates_check (fst (Register (identity_service calm_env) carl identity_start))"
  using accepted_input_fits_the_tables [OF calm_allowed calm_start calm_sha calm_hasher, of carl] by blast

lemma sample_strangers: "blocked_are_strangers (iw_db identity_start)"
  by code_simp

lemma boris_blocked: "map (\<lambda>b. (b_BlockerUserID b, b_BlockedUserID b)) (user_blocks (tables anna_blocks)) = [(''u1'', ''u2'')]"
  by code_simp

theorem blocked_users_stay_strangers_witness:
  "blocked_are_strangers (tables anna_blocks) \<and>
   map (\<lambda>b. (b_BlockerUserID b, b_BlockedUserID b)) (user_blocks (tables anna_blocks)) = [(''u1'', ''u2'')]"
  using blocked_users_stay_strangers [OF calm_allowed calm_undisturbed calm_start sample_strangers,
      of "[BlockUserRequest (identity_bearer (CHR ''1'')) ''boris'']"] boris_blocked
  unfolding serve_block moment_db by blast

end
