(* ===== verification/Crypto_Model.thy ===== *)
theory Crypto_Model
  imports Identity_Service
begin

text \<open>
  The registry of crypto devices of \<open>aero-identity\<close> without its database: the structs of
  \<open>internal/domain/identity/crypto_devices.go\<close>, the normalisers of \<open>crypto_device_service.go\<close>, and the proofs of
  \<open>crypto_device_link_approval.go\<close> and \<open>crypto_device_bundle_publish.go\<close>. A byte slice is a string, the empty one is nil
  (\<open>cloneBytes\<close> makes it so, and \<open>pgx\<close> stores nil as NULL). What the packages \<open>crypto/x509\<close>, \<open>crypto/ecdsa\<close>,
  \<open>crypto/sha256\<close>, \<open>encoding/json\<close> and \<open>time\<close> compute are the functions of a \<open>crypto_lib\<close>.
\<close>

section \<open>Constants\<close>

definition CryptoDeviceStatusPendingLink :: string where "CryptoDeviceStatusPendingLink = ''pending_link''"
definition CryptoDeviceStatusActive :: string where "CryptoDeviceStatusActive = ''active''"
definition CryptoDeviceStatusRevoked :: string where "CryptoDeviceStatusRevoked = ''revoked''"
definition CryptoDeviceRevokedBySelf :: string where "CryptoDeviceRevokedBySelf = ''self''"
definition CryptoDeviceLinkIntentStatusPending :: string where "CryptoDeviceLinkIntentStatusPending = ''pending''"
definition CryptoDeviceLinkIntentStatusApproved :: string where "CryptoDeviceLinkIntentStatusApproved = ''approved''"
definition CryptoDeviceLinkIntentStatusExpired :: string where "CryptoDeviceLinkIntentStatusExpired = ''expired''"

lemmas crypto_status_defs = CryptoDeviceStatusPendingLink_def CryptoDeviceStatusActive_def CryptoDeviceStatusRevoked_def
  CryptoDeviceLinkIntentStatusPending_def CryptoDeviceLinkIntentStatusApproved_def CryptoDeviceLinkIntentStatusExpired_def

definition maxCryptoSuiteLen :: nat where "maxCryptoSuiteLen = 64"
definition maxSignedPrekeyIDLen :: nat where "maxSignedPrekeyIDLen = 128"
definition maxRevocationReasonLen :: nat where "maxRevocationReasonLen = 500"
definition CryptoDeviceBundlePublishProofVersion :: int where "CryptoDeviceBundlePublishProofVersion = 1"
definition CryptoDeviceLinkApprovalProofVersion :: int where "CryptoDeviceLinkApprovalProofVersion = 1"
definition defaultCryptoLinkIntentTTL :: int where "defaultCryptoLinkIntentTTL = 15 * 60 * 1000000000"
definition defaultCryptoBundlePublishChallengeTTL :: int where
  "defaultCryptoBundlePublishChallengeTTL = 10 * 60 * 1000000000"

section \<open>Structs\<close>

record CryptoDevice =
  cd_ID :: string
  cd_UserID :: string
  cd_Label :: string
  cd_Status :: string
  cd_LinkedByCryptoDeviceID :: "string option"
  cd_LastBundleVersion :: "int option"
  cd_LastBundlePublishedAt :: "int option"
  cd_CreatedAt :: int
  cd_ActivatedAt :: "int option"
  cd_RevokedAt :: "int option"
  cd_RevocationReason :: "string option"
  cd_RevokedByActor :: "string option"

record CryptoDeviceBundle =
  cb_CryptoDeviceID :: string
  cb_BundleVersion :: int
  cb_CryptoSuite :: string
  cb_IdentityPublicKey :: string
  cb_SignedPrekeyPublic :: string
  cb_SignedPrekeyID :: string
  cb_SignedPrekeySignature :: string
  cb_KEMPublicKey :: string
  cb_KEMKeyID :: "string option"
  cb_KEMSignature :: string
  cb_OneTimePrekeysTotal :: int
  cb_OneTimePrekeysAvailable :: int
  cb_BundleDigest :: string
  cb_PublishedAt :: int
  cb_ExpiresAt :: "int option"
  cb_SupersededAt :: "int option"

record CryptoDeviceBundlePublishChallenge =
  cc_CryptoDeviceID :: string
  cc_CurrentBundleVersion :: int
  cc_CurrentBundleDigest :: string
  cc_PublishChallenge :: string
  cc_CreatedAt :: int
  cc_ExpiresAt :: int

record CryptoDeviceLinkIntent =
  ci_ID :: string
  ci_UserID :: string
  ci_PendingCryptoDeviceID :: string
  ci_Status :: string
  ci_BundleDigest :: string
  ci_CreatedAt :: int
  ci_ExpiresAt :: int
  ci_ApprovedAt :: "int option"
  ci_ExpiredAt :: "int option"
  ci_ApproverCryptoDeviceID :: "string option"
  ci_ApprovalChallenge :: string

record CryptoDeviceDetails =
  details_Device :: CryptoDevice
  details_CurrentBundle :: "CryptoDeviceBundle option"

record CryptoDeviceLinkApprovalPayload =
  lp_Version :: int
  lp_LinkIntentID :: string
  lp_ApproverCryptoDeviceID :: string
  lp_PendingCryptoDeviceID :: string
  lp_PendingBundleDigest :: string
  lp_ApprovalChallenge :: string
  lp_ChallengeExpiresAt :: int
  lp_IssuedAt :: int

record CryptoDeviceLinkApprovalProof =
  lap_Payload :: CryptoDeviceLinkApprovalPayload
  lap_Signature :: string

record CryptoDeviceBundlePublishProofPayload =
  pp_Version :: int
  pp_CryptoDeviceID :: string
  pp_PreviousBundleVersion :: int
  pp_PreviousBundleDigest :: string
  pp_NewBundleDigest :: string
  pp_PublishChallenge :: string
  pp_ChallengeExpiresAt :: int
  pp_IssuedAt :: int

record CryptoDeviceBundlePublishProof =
  bpp_Payload :: CryptoDeviceBundlePublishProofPayload
  bpp_Signature :: string

record CryptoDeviceBundleInput =
  bi_CryptoSuite :: string
  bi_IdentityPublicKey :: string
  bi_SignedPrekeyPublic :: string
  bi_SignedPrekeyID :: string
  bi_SignedPrekeySignature :: string
  bi_KEMPublicKey :: string
  bi_KEMKeyID :: "string option"
  bi_KEMSignature :: string
  bi_OneTimePrekeysTotal :: int
  bi_OneTimePrekeysAvailable :: int
  bi_BundleDigest :: string
  bi_ExpiresAt :: "int option"

record RegisterCryptoDeviceInput =
  rc_DeviceLabel :: "string option"
  rc_Bundle :: CryptoDeviceBundleInput

record PublishCryptoDeviceBundleInput =
  pi_CryptoDeviceID :: string
  pi_Bundle :: CryptoDeviceBundleInput
  pi_Proof :: "CryptoDeviceBundlePublishProof option"

record CreateCryptoDeviceParams =
  cp_Device :: CryptoDevice
  cp_Bundle :: CryptoDeviceBundle

record ApproveCryptoDeviceLinkIntentParams =
  ap_UserID :: string
  ap_LinkIntentID :: string
  ap_ApproverCryptoDeviceID :: string
  ap_Proof :: CryptoDeviceLinkApprovalProof
  ap_ApprovedAt :: int

record RevokeCryptoDeviceParams =
  rp_UserID :: string
  rp_CryptoDeviceID :: string
  rp_RevokedAt :: int
  rp_RevocationReason :: "string option"
  rp_RevokedByActor :: string

section \<open>Digests and signatures\<close>

record bundleDigestPayload =
  bd_CryptoSuite :: string
  bd_IdentityPublicKey :: string
  bd_SignedPrekeyPublic :: string
  bd_SignedPrekeyID :: string
  bd_SignedPrekeySignature :: string
  bd_OneTimePrekeysTotal :: int
  bd_OneTimePrekeysAvailable :: int

text \<open>\<open>lib_P256\<close>: the bytes are the SPKI encoding of an ECDSA key on P-256. \<open>lib_Verify key digest r s\<close> is \<open>ecdsa.Verify\<close>.\<close>

record crypto_lib =
  lib_P256 :: "string \<Rightarrow> bool"
  lib_Verify :: "string \<Rightarrow> string \<Rightarrow> nat \<Rightarrow> nat \<Rightarrow> bool"
  lib_Sum256 :: "string \<Rightarrow> string"
  lib_Marshal :: "bundleDigestPayload \<Rightarrow> identity_error + string"
  lib_RFC3339Nano :: "int \<Rightarrow> string"

definition std_char :: "nat \<Rightarrow> char" where
  "std_char n = (if n = 62 then CHR ''+'' else if n = 63 then CHR ''/'' else b64_char n)"

text \<open>\<open>base64.StdEncoding.EncodeToString\<close> pads to a multiple of four.\<close>

definition std_EncodeToString :: "string \<Rightarrow> string" where
  "std_EncodeToString s =
     map std_char (b64_groups (map val s)) @ (case length s mod 3 of 0 \<Rightarrow> [] | Suc 0 \<Rightarrow> ''=='' | _ \<Rightarrow> ''='')"

text \<open>\<open>big.Int.SetBytes\<close>.\<close>

definition SetBytes :: "string \<Rightarrow> nat" where
  "SetBytes s = foldl (\<lambda>n c. n * 256 + val c) 0 s"

definition buildCryptoDeviceLinkApprovalSigningMessage :: "crypto_lib \<Rightarrow> CryptoDeviceLinkApprovalPayload \<Rightarrow> string" where
  "buildCryptoDeviceLinkApprovalSigningMessage lib payload =
     (let nl = CHR 0x0A in
      ''aerochat.crypto_device_link_approval.v1'' @ nl # ''version='' @ show_int (lp_Version payload) @
      nl # ''link_intent_id='' @ lp_LinkIntentID payload @
      nl # ''approver_crypto_device_id='' @ lp_ApproverCryptoDeviceID payload @
      nl # ''pending_crypto_device_id='' @ lp_PendingCryptoDeviceID payload @
      nl # ''pending_bundle_digest='' @ std_EncodeToString (lp_PendingBundleDigest payload) @
      nl # ''approval_challenge='' @ std_EncodeToString (lp_ApprovalChallenge payload) @
      nl # ''challenge_expires_at='' @ lib_RFC3339Nano lib (lp_ChallengeExpiresAt payload) @
      nl # ''issued_at='' @ lib_RFC3339Nano lib (lp_IssuedAt payload) @ [nl])"

definition buildCryptoDeviceBundlePublishSigningMessage ::
    "crypto_lib \<Rightarrow> CryptoDeviceBundlePublishProofPayload \<Rightarrow> string" where
  "buildCryptoDeviceBundlePublishSigningMessage lib payload =
     (let nl = CHR 0x0A in
      ''aerochat.crypto_device_bundle_publish.v1'' @ nl # ''version='' @ show_int (pp_Version payload) @
      nl # ''crypto_device_id='' @ pp_CryptoDeviceID payload @
      nl # ''previous_bundle_version='' @ show_int (pp_PreviousBundleVersion payload) @
      nl # ''previous_bundle_digest='' @ std_EncodeToString (pp_PreviousBundleDigest payload) @
      nl # ''new_bundle_digest='' @ std_EncodeToString (pp_NewBundleDigest payload) @
      nl # ''publish_challenge='' @ std_EncodeToString (pp_PublishChallenge payload) @
      nl # ''challenge_expires_at='' @ lib_RFC3339Nano lib (pp_ChallengeExpiresAt payload) @
      nl # ''issued_at='' @ lib_RFC3339Nano lib (pp_IssuedAt payload) @ [nl])"

text \<open>A signature is \<open>r\<close> and \<open>s\<close>, 32 bytes each, big endian.\<close>

definition signed_by :: "crypto_lib \<Rightarrow> string \<Rightarrow> string \<Rightarrow> string \<Rightarrow> bool" where
  "signed_by lib key message signature \<longleftrightarrow>
     lib_Verify lib key (lib_Sum256 lib message) (SetBytes (take 32 signature)) (SetBytes (drop 32 signature))"

definition VerifyCryptoDeviceLinkApprovalSignature ::
    "crypto_lib \<Rightarrow> string \<Rightarrow> CryptoDeviceLinkApprovalProof \<Rightarrow> identity_error + unit" where
  "VerifyCryptoDeviceLinkApprovalSignature lib publicKeySPKI proof =
     (if \<not> lib_P256 lib publicKeySPKI then Inl ErrConflict
      else if length (lap_Signature proof) \<noteq> 64 then Inl ErrConflict
      else if \<not> signed_by lib publicKeySPKI (buildCryptoDeviceLinkApprovalSigningMessage lib (lap_Payload proof))
               (lap_Signature proof) then Inl ErrConflict
      else Inr ())"

definition VerifyCryptoDeviceBundlePublishSignature ::
    "crypto_lib \<Rightarrow> string \<Rightarrow> CryptoDeviceBundlePublishProof \<Rightarrow> identity_error + unit" where
  "VerifyCryptoDeviceBundlePublishSignature lib publicKeySPKI proof =
     (if \<not> lib_P256 lib publicKeySPKI then Inl ErrConflict
      else if length (bpp_Signature proof) \<noteq> 64 then Inl ErrConflict
      else if \<not> signed_by lib publicKeySPKI (buildCryptoDeviceBundlePublishSigningMessage lib (bpp_Payload proof))
               (bpp_Signature proof) then Inl ErrConflict
      else Inr ())"

definition computeCryptoDeviceBundleDigest :: "crypto_lib \<Rightarrow> CryptoDeviceBundleInput \<Rightarrow> identity_error + string" where
  "computeCryptoDeviceBundleDigest lib input =
     (case lib_Marshal lib
             \<lparr>bd_CryptoSuite = bi_CryptoSuite input, bd_IdentityPublicKey = std_EncodeToString (bi_IdentityPublicKey input),
              bd_SignedPrekeyPublic = std_EncodeToString (bi_SignedPrekeyPublic input),
              bd_SignedPrekeyID = bi_SignedPrekeyID input,
              bd_SignedPrekeySignature = std_EncodeToString (bi_SignedPrekeySignature input),
              bd_OneTimePrekeysTotal = bi_OneTimePrekeysTotal input,
              bd_OneTimePrekeysAvailable = bi_OneTimePrekeysAvailable input\<rparr> of
        Inl _ \<Rightarrow> Inl ErrOther
      | Inr payload \<Rightarrow> Inr (lib_Sum256 lib payload))"

text \<open>All or none of the three KEM fields.\<close>

definition kem_shape :: "CryptoDeviceBundleInput \<Rightarrow> bool" where
  "kem_shape input \<longleftrightarrow>
     (let public = bi_KEMPublicKey input \<noteq> []; signature = bi_KEMSignature input \<noteq> [];
          keyID = (case bi_KEMKeyID input of None \<Rightarrow> False | Some i \<Rightarrow> trim_space i \<noteq> []) in
      public \<or> signature \<or> keyID \<longrightarrow> public \<and> signature \<and> keyID)"

definition validateCryptoDeviceBundleConsistency :: "crypto_lib \<Rightarrow> CryptoDeviceBundleInput \<Rightarrow> identity_error + unit" where
  "validateCryptoDeviceBundleConsistency lib input =
     (if \<not> lib_P256 lib (bi_IdentityPublicKey input) then Inl ErrInvalidArgument
      else if \<not> lib_P256 lib (bi_SignedPrekeyPublic input) then Inl ErrInvalidArgument
      else if length (bi_SignedPrekeySignature input) \<noteq> 64 then Inl ErrInvalidArgument
      else if \<not> signed_by lib (bi_IdentityPublicKey input) (bi_SignedPrekeyPublic input) (bi_SignedPrekeySignature input)
      then Inl ErrInvalidArgument
      else bindS (computeCryptoDeviceBundleDigest lib input) (\<lambda>computed.
        if computed \<noteq> bi_BundleDigest input then Inl ErrInvalidArgument
        else if \<not> kem_shape input then Inl ErrInvalidArgument
        else Inr ()))"

section \<open>Normalisers\<close>

definition normalizeRequiredID :: "string \<Rightarrow> identity_error + string" where
  "normalizeRequiredID value = (let trimmed = trim_space value in if trimmed = [] then Inl ErrInvalidArgument else Inr trimmed)"

definition normalizeCryptoDeviceBundleInput ::
    "crypto_lib \<Rightarrow> CryptoDeviceBundleInput \<Rightarrow> int \<Rightarrow> identity_error + CryptoDeviceBundleInput" where
  "normalizeCryptoDeviceBundleInput lib input now =
     (let cryptoSuite = trim_space (bi_CryptoSuite input); signedPrekeyID = trim_space (bi_SignedPrekeyID input);
          keyIDPresent = (case bi_KEMKeyID input of None \<Rightarrow> False | Some i \<Rightarrow> trim_space i \<noteq> []);
          normalized = input\<lparr>bi_CryptoSuite := cryptoSuite, bi_SignedPrekeyID := signedPrekeyID,
            bi_KEMKeyID := (if keyIDPresent then map_option trim_space (bi_KEMKeyID input) else None)\<rparr> in
      if cryptoSuite = [] \<or> rune_count cryptoSuite > maxCryptoSuiteLen then Inl ErrInvalidArgument
      else if signedPrekeyID = [] \<or> rune_count signedPrekeyID > maxSignedPrekeyIDLen then Inl ErrInvalidArgument
      else if bi_IdentityPublicKey input = [] then Inl ErrInvalidArgument
      else if bi_SignedPrekeyPublic input = [] then Inl ErrInvalidArgument
      else if bi_SignedPrekeySignature input = [] then Inl ErrInvalidArgument
      else if bi_BundleDigest input = [] then Inl ErrInvalidArgument
      else if bi_OneTimePrekeysTotal input < 0 \<or> bi_OneTimePrekeysAvailable input < 0 \<or>
              bi_OneTimePrekeysAvailable input > bi_OneTimePrekeysTotal input then Inl ErrInvalidArgument
      else if \<not> kem_shape input then Inl ErrInvalidArgument
      else if (case bi_ExpiresAt input of None \<Rightarrow> False | Some e \<Rightarrow> \<not> e > now) then Inl ErrInvalidArgument
      else bindS (validateCryptoDeviceBundleConsistency lib normalized) (\<lambda>_. Inr normalized))"

definition normalizeCryptoDeviceLinkApprovalProof ::
    "CryptoDeviceLinkApprovalProof \<Rightarrow> identity_error + CryptoDeviceLinkApprovalProof" where
  "normalizeCryptoDeviceLinkApprovalProof input =
     (let payload = lap_Payload input in
      bindS (normalizeRequiredID (lp_LinkIntentID payload)) (\<lambda>linkIntentID.
      bindS (normalizeRequiredID (lp_ApproverCryptoDeviceID payload)) (\<lambda>approverID.
      bindS (normalizeRequiredID (lp_PendingCryptoDeviceID payload)) (\<lambda>pendingID.
      if lp_Version payload \<noteq> CryptoDeviceLinkApprovalProofVersion then Inl ErrInvalidArgument
      else if lp_PendingBundleDigest payload = [] then Inl ErrInvalidArgument
      else if lp_ApprovalChallenge payload = [] then Inl ErrInvalidArgument
      else if lp_ChallengeExpiresAt payload = time_Zero then Inl ErrInvalidArgument
      else if lp_IssuedAt payload = time_Zero then Inl ErrInvalidArgument
      else if \<not> lp_ChallengeExpiresAt payload > lp_IssuedAt payload then Inl ErrInvalidArgument
      else if lap_Signature input = [] then Inl ErrInvalidArgument
      else Inr (input\<lparr>lap_Payload := payload\<lparr>lp_LinkIntentID := linkIntentID, lp_ApproverCryptoDeviceID := approverID,
                   lp_PendingCryptoDeviceID := pendingID\<rparr>\<rparr>)))))"

definition normalizeCryptoDeviceBundlePublishProof ::
    "CryptoDeviceBundlePublishProof \<Rightarrow> identity_error + CryptoDeviceBundlePublishProof" where
  "normalizeCryptoDeviceBundlePublishProof input =
     (let payload = bpp_Payload input in
      bindS (normalizeRequiredID (pp_CryptoDeviceID payload)) (\<lambda>deviceID.
      if pp_Version payload \<noteq> CryptoDeviceBundlePublishProofVersion then Inl ErrInvalidArgument
      else if pp_PreviousBundleVersion payload \<le> 0 then Inl ErrInvalidArgument
      else if pp_PreviousBundleDigest payload = [] then Inl ErrInvalidArgument
      else if pp_NewBundleDigest payload = [] then Inl ErrInvalidArgument
      else if pp_PublishChallenge payload = [] then Inl ErrInvalidArgument
      else if pp_ChallengeExpiresAt payload = time_Zero then Inl ErrInvalidArgument
      else if pp_IssuedAt payload = time_Zero then Inl ErrInvalidArgument
      else if \<not> pp_ChallengeExpiresAt payload > pp_IssuedAt payload then Inl ErrInvalidArgument
      else if bpp_Signature input = [] then Inl ErrInvalidArgument
      else Inr (input\<lparr>bpp_Payload := payload\<lparr>pp_CryptoDeviceID := deviceID\<rparr>\<rparr>)))"

end
