(* ===== verification/Crypto_Store.thy ===== *)
theory Crypto_Store
  imports Crypto_Model
begin

text \<open>
  The tables of the crypto device registry (\<open>db/schema\<close>, migrations 3, 4 and 5) and the statements of
  \<open>internal/storage/sqlc/crypto_devices.sql.go\<close>. A row is the struct that \<open>crypto_devices.go\<close> makes of it. A statement that
  would break a CHECK fails with 23514, a unique index with 23505 and a foreign key with 23503. The users of the foreign
  keys are a predicate \<open>known\<close>, since the registry never changes them.
\<close>

section \<open>Tables\<close>

record crypto_tables =
  crypto_devices :: "CryptoDevice list"
  crypto_device_bundles :: "CryptoDeviceBundle list"
  crypto_device_link_intents :: "CryptoDeviceLinkIntent list"
  crypto_device_bundle_publish_challenges :: "CryptoDeviceBundlePublishChallenge list"

type_synonym 'a crypto_tx = "(crypto_tables, identity_error, 'a) tx"

definition find_crypto_device :: "crypto_tables \<Rightarrow> uuid \<Rightarrow> CryptoDevice option" where
  "find_crypto_device t i = find (\<lambda>d. cd_ID d = i) (crypto_devices t)"

definition find_current_bundle :: "crypto_tables \<Rightarrow> uuid \<Rightarrow> CryptoDeviceBundle option" where
  "find_current_bundle t i =
     find (\<lambda>b. cb_CryptoDeviceID b = i \<and> cb_SupersededAt b = None) (crypto_device_bundles t)"

definition pending_intent :: "CryptoDeviceLinkIntent \<Rightarrow> bool" where
  "pending_intent x \<longleftrightarrow> ci_Status x = CryptoDeviceLinkIntentStatusPending"

section \<open>Constraints\<close>

definition optional_check :: "('a \<Rightarrow> bool) \<Rightarrow> 'a option \<Rightarrow> bool" where
  "optional_check p x = (case x of None \<Rightarrow> True | Some y \<Rightarrow> p y)"

definition crypto_device_check :: "CryptoDevice \<Rightarrow> bool" where
  "crypto_device_check d \<longleftrightarrow>
     1 \<le> rune_count (cd_Label d) \<and> rune_count (cd_Label d) \<le> 120 \<and>
     optional_check (\<lambda>a. a \<in> {''self'', ''linked_device'', ''recovery'', ''account_reset''}) (cd_RevokedByActor d) \<and>
     optional_check (\<lambda>r. rune_count r \<le> 500) (cd_RevocationReason d) \<and>
     (cd_Status d = CryptoDeviceStatusPendingLink \<and> cd_ActivatedAt d = None \<and> cd_RevokedAt d = None \<or>
      cd_Status d = CryptoDeviceStatusActive \<and> cd_ActivatedAt d \<noteq> None \<and> cd_RevokedAt d = None \<or>
      cd_Status d = CryptoDeviceStatusRevoked \<and> cd_RevokedAt d \<noteq> None) \<and>
     (cd_LastBundleVersion d = None \<longleftrightarrow> cd_LastBundlePublishedAt d = None)"

definition bundle_check :: "CryptoDeviceBundle \<Rightarrow> bool" where
  "bundle_check b \<longleftrightarrow>
     1 \<le> rune_count (cb_CryptoSuite b) \<and> rune_count (cb_CryptoSuite b) \<le> 64 \<and>
     cb_IdentityPublicKey b \<noteq> [] \<and> cb_SignedPrekeyPublic b \<noteq> [] \<and>
     1 \<le> rune_count (cb_SignedPrekeyID b) \<and> rune_count (cb_SignedPrekeyID b) \<le> 128 \<and>
     cb_SignedPrekeySignature b \<noteq> [] \<and> cb_BundleDigest b \<noteq> [] \<and>
     0 \<le> cb_OneTimePrekeysTotal b \<and> 0 \<le> cb_OneTimePrekeysAvailable b \<and>
     cb_OneTimePrekeysAvailable b \<le> cb_OneTimePrekeysTotal b \<and>
     (cb_KEMPublicKey b = [] \<and> cb_KEMKeyID b = None \<and> cb_KEMSignature b = [] \<or>
      cb_KEMPublicKey b \<noteq> [] \<and> cb_KEMKeyID b \<noteq> None \<and> cb_KEMSignature b \<noteq> []) \<and>
     optional_check (\<lambda>e. e > cb_PublishedAt b) (cb_ExpiresAt b)"

definition intent_check :: "CryptoDeviceLinkIntent \<Rightarrow> bool" where
  "intent_check x \<longleftrightarrow>
     ci_BundleDigest x \<noteq> [] \<and> ci_ExpiresAt x > ci_CreatedAt x \<and>
     (ci_Status x = CryptoDeviceLinkIntentStatusPending \<and> ci_ApprovedAt x = None \<and> ci_ExpiredAt x = None \<and>
        ci_ApproverCryptoDeviceID x = None \<or>
      ci_Status x = CryptoDeviceLinkIntentStatusApproved \<and> ci_ApprovedAt x \<noteq> None \<and> ci_ExpiredAt x = None \<and>
        ci_ApproverCryptoDeviceID x \<noteq> None \<or>
      ci_Status x = CryptoDeviceLinkIntentStatusExpired \<and> ci_ApprovedAt x = None \<and> ci_ExpiredAt x \<noteq> None \<and>
        ci_ApproverCryptoDeviceID x = None) \<and>
     ci_ApprovalChallenge x \<noteq> [] \<and> optional_check (\<lambda>a. a \<noteq> ci_PendingCryptoDeviceID x) (ci_ApproverCryptoDeviceID x)"

definition challenge_check :: "CryptoDeviceBundlePublishChallenge \<Rightarrow> bool" where
  "challenge_check c \<longleftrightarrow>
     cc_CurrentBundleVersion c > 0 \<and> cc_CurrentBundleDigest c \<noteq> [] \<and> cc_PublishChallenge c \<noteq> [] \<and>
     cc_ExpiresAt c > cc_CreatedAt c"

section \<open>Statements\<close>

text \<open>\<open>UPDATE ... WHERE hit RETURNING\<close> of one row: \<open>change\<close> is the SET clause, \<open>check\<close> the constraints on the new row.\<close>

definition update_rows :: "('r \<Rightarrow> bool) \<Rightarrow> ('r \<Rightarrow> 'r) \<Rightarrow> 'r list \<Rightarrow> 'r list" where
  "update_rows hit change rs = map (\<lambda>r. if hit r then change r else r) rs"

definition update_one :: "('r \<Rightarrow> bool) \<Rightarrow> ('r \<Rightarrow> 'r) \<Rightarrow> ('r \<Rightarrow> identity_error + unit) \<Rightarrow> 'r list \<Rightarrow> identity_error + ('r \<times> 'r list)" where
  "update_one hit change check rs =
     (case find hit rs of
        None \<Rightarrow> Inl ErrNoRows
      | Some r \<Rightarrow> bindS (check (change r)) (\<lambda>_. Inr (change r, update_rows hit change rs)))"

definition one_row :: "'r option \<Rightarrow> 'r crypto_tx" where
  "one_row r = (case r of None \<Rightarrow> failT ErrNoRows | Some x \<Rightarrow> returnT x)"

definition device_row_check :: "crypto_tables \<Rightarrow> CryptoDevice \<Rightarrow> identity_error + unit" where
  "device_row_check t d =
     (if \<not> crypto_device_check d then Inl (PgError ''23514'' '''')
      else if \<not> optional_check (\<lambda>a. find_crypto_device t a \<noteq> None) (cd_LinkedByCryptoDeviceID d)
      then Inl (PgError ''23503'' '''')
      else Inr ())"

definition intent_row_check :: "crypto_tables \<Rightarrow> CryptoDeviceLinkIntent \<Rightarrow> identity_error + unit" where
  "intent_row_check t x =
     (if \<not> intent_check x then Inl (PgError ''23514'' '''')
      else if find_crypto_device t (ci_PendingCryptoDeviceID x) = None \<or>
              \<not> optional_check (\<lambda>a. find_crypto_device t a \<noteq> None) (ci_ApproverCryptoDeviceID x)
      then Inl (PgError ''23503'' '''')
      else Inr ())"

definition GetCryptoDeviceRegistryStatsByUserID :: "uuid \<Rightarrow> (int \<times> int \<times> int) crypto_tx" where
  "GetCryptoDeviceRegistryStatsByUserID u = (\<lambda>t.
     let ds = filter (\<lambda>d. cd_UserID d = u) (crypto_devices t);
         count = (\<lambda>status. int (length (filter (\<lambda>d. cd_Status d = status) ds))) in
     Inr ((int (length ds), count CryptoDeviceStatusActive, count CryptoDeviceStatusPendingLink), t))"

definition LockCryptoDeviceRegistryOwner :: "(uuid \<Rightarrow> bool) \<Rightarrow> uuid \<Rightarrow> unit crypto_tx" where
  "LockCryptoDeviceRegistryOwner known u = (if known u then returnT () else failT ErrNoRows)"

definition CreateCryptoDevice_sql :: "(uuid \<Rightarrow> bool) \<Rightarrow> CryptoDevice \<Rightarrow> CryptoDevice crypto_tx" where
  "CreateCryptoDevice_sql known d = (\<lambda>t.
     bindS (device_row_check t d) (\<lambda>_.
     if find_crypto_device t (cd_ID d) \<noteq> None then Inl (PgError ''23505'' ''crypto_devices_pkey'')
     else if \<not> known (cd_UserID d) then Inl (PgError ''23503'' '''')
     else Inr (d, t\<lparr>crypto_devices := crypto_devices t @ [d]\<rparr>)))"

definition CreateCryptoDeviceBundle :: "CryptoDeviceBundle \<Rightarrow> CryptoDeviceBundle crypto_tx" where
  "CreateCryptoDeviceBundle b = (\<lambda>t.
     if \<not> bundle_check b then Inl (PgError ''23514'' '''')
     else if \<exists>x\<in>set (crypto_device_bundles t). cb_CryptoDeviceID x = cb_CryptoDeviceID b \<and> cb_BundleVersion x = cb_BundleVersion b
     then Inl (PgError ''23505'' ''crypto_device_bundles_pkey'')
     else if cb_SupersededAt b = None \<and> find_current_bundle t (cb_CryptoDeviceID b) \<noteq> None
     then Inl (PgError ''23505'' ''uq_crypto_device_bundles_current_bundle'')
     else if find_crypto_device t (cb_CryptoDeviceID b) = None then Inl (PgError ''23503'' '''')
     else Inr (b, t\<lparr>crypto_device_bundles := crypto_device_bundles t @ [b]\<rparr>))"

definition ListCryptoDevicesByUserID :: "uuid \<Rightarrow> CryptoDevice list crypto_tx" where
  "ListCryptoDevicesByUserID u = (\<lambda>t.
     Inr (sort_key (\<lambda>d. - cd_CreatedAt d) (filter (\<lambda>d. cd_UserID d = u) (crypto_devices t)), t))"

definition GetCryptoDeviceByIDAndUserID :: "uuid \<Rightarrow> uuid \<Rightarrow> CryptoDevice crypto_tx" where
  "GetCryptoDeviceByIDAndUserID i u = (\<lambda>t.
     one_row (find (\<lambda>d. cd_ID d = i \<and> cd_UserID d = u) (crypto_devices t)) t)"

definition GetCurrentCryptoDeviceBundleByDeviceID :: "uuid \<Rightarrow> CryptoDeviceBundle crypto_tx" where
  "GetCurrentCryptoDeviceBundleByDeviceID i = (\<lambda>t. one_row (find_current_bundle t i) t)"

definition GetCurrentCryptoDeviceBundleByDeviceIDAndUserID :: "uuid \<Rightarrow> uuid \<Rightarrow> CryptoDeviceBundle crypto_tx" where
  "GetCurrentCryptoDeviceBundleByDeviceIDAndUserID i u = (\<lambda>t.
     one_row (if \<exists>d\<in>set (crypto_devices t). cd_ID d = i \<and> cd_UserID d = u then find_current_bundle t i else None) t)"

definition SupersedeCurrentCryptoDeviceBundle :: "uuid \<Rightarrow> int \<Rightarrow> unit crypto_tx" where
  "SupersedeCurrentCryptoDeviceBundle i at = (\<lambda>t. Inr ((), t\<lparr>crypto_device_bundles :=
     update_rows (\<lambda>b. cb_CryptoDeviceID b = i \<and> cb_SupersededAt b = None) (\<lambda>b. b\<lparr>cb_SupersededAt := Some at\<rparr>)
       (crypto_device_bundles t)\<rparr>))"

definition UpdateCryptoDeviceBundleTracking :: "uuid \<Rightarrow> uuid \<Rightarrow> int \<Rightarrow> int \<Rightarrow> CryptoDevice crypto_tx" where
  "UpdateCryptoDeviceBundleTracking i u version at = (\<lambda>t.
     bindS (update_one (\<lambda>d. cd_ID d = i \<and> cd_UserID d = u)
              (\<lambda>d. d\<lparr>cd_LastBundleVersion := Some version, cd_LastBundlePublishedAt := Some at\<rparr>)
              (device_row_check t) (crypto_devices t))
       (\<lambda>(d, ds). Inr (d, t\<lparr>crypto_devices := ds\<rparr>)))"

definition ActivateCryptoDevice :: "uuid \<Rightarrow> uuid \<Rightarrow> int \<Rightarrow> uuid \<Rightarrow> CryptoDevice crypto_tx" where
  "ActivateCryptoDevice i u at approver = (\<lambda>t.
     bindS (update_one
              (\<lambda>d. cd_ID d = i \<and> cd_UserID d = u \<and> cd_Status d = CryptoDeviceStatusPendingLink \<and> cd_RevokedAt d = None)
              (\<lambda>d. d\<lparr>cd_Status := CryptoDeviceStatusActive, cd_ActivatedAt := Some at,
                     cd_LinkedByCryptoDeviceID := Some approver\<rparr>)
              (device_row_check t) (crypto_devices t))
       (\<lambda>(d, ds). Inr (d, t\<lparr>crypto_devices := ds\<rparr>)))"

definition RevokeCryptoDeviceWithMetadata ::
    "uuid \<Rightarrow> uuid \<Rightarrow> int \<Rightarrow> string option \<Rightarrow> string option \<Rightarrow> CryptoDevice crypto_tx" where
  "RevokeCryptoDeviceWithMetadata i u at reason actor = (\<lambda>t.
     bindS (update_one (\<lambda>d. cd_ID d = i \<and> cd_UserID d = u \<and> cd_Status d \<noteq> CryptoDeviceStatusRevoked)
              (\<lambda>d. d\<lparr>cd_Status := CryptoDeviceStatusRevoked, cd_RevokedAt := Some at, cd_RevocationReason := reason,
                     cd_RevokedByActor := actor\<rparr>)
              (device_row_check t) (crypto_devices t))
       (\<lambda>(d, ds). Inr (d, t\<lparr>crypto_devices := ds\<rparr>)))"

section \<open>Publish challenges\<close>

definition UpsertCryptoDeviceBundlePublishChallenge ::
    "CryptoDeviceBundlePublishChallenge \<Rightarrow> CryptoDeviceBundlePublishChallenge crypto_tx" where
  "UpsertCryptoDeviceBundlePublishChallenge c = (\<lambda>t.
     let others = filter (\<lambda>x. cc_CryptoDeviceID x \<noteq> cc_CryptoDeviceID c) (crypto_device_bundle_publish_challenges t) in
     if \<not> challenge_check c then Inl (PgError ''23514'' '''')
     else if find_crypto_device t (cc_CryptoDeviceID c) = None then Inl (PgError ''23503'' '''')
     else Inr (c, t\<lparr>crypto_device_bundle_publish_challenges := others @ [c]\<rparr>))"

definition GetCryptoDeviceBundlePublishChallengeByDeviceID :: "uuid \<Rightarrow> CryptoDeviceBundlePublishChallenge crypto_tx" where
  "GetCryptoDeviceBundlePublishChallengeByDeviceID i = (\<lambda>t.
     one_row (find (\<lambda>c. cc_CryptoDeviceID c = i) (crypto_device_bundle_publish_challenges t)) t)"

definition DeleteCryptoDeviceBundlePublishChallengeByDeviceID :: "uuid \<Rightarrow> unit crypto_tx" where
  "DeleteCryptoDeviceBundlePublishChallengeByDeviceID i = (\<lambda>t. Inr ((), t\<lparr>crypto_device_bundle_publish_challenges :=
     filter (\<lambda>c. cc_CryptoDeviceID c \<noteq> i) (crypto_device_bundle_publish_challenges t)\<rparr>))"

section \<open>Link intents\<close>

definition CreateCryptoDeviceLinkIntent_sql :: "(uuid \<Rightarrow> bool) \<Rightarrow> CryptoDeviceLinkIntent \<Rightarrow> CryptoDeviceLinkIntent crypto_tx" where
  "CreateCryptoDeviceLinkIntent_sql known x = (\<lambda>t.
     bindS (intent_row_check t x) (\<lambda>_.
     if \<exists>y\<in>set (crypto_device_link_intents t). ci_ID y = ci_ID x
     then Inl (PgError ''23505'' ''crypto_device_link_intents_pkey'')
     else if pending_intent x \<and> (\<exists>y\<in>set (crypto_device_link_intents t). pending_intent y \<and>
                ci_PendingCryptoDeviceID y = ci_PendingCryptoDeviceID x)
     then Inl (PgError ''23505'' ''uq_crypto_device_link_intents_pending_device'')
     else if \<not> known (ci_UserID x) then Inl (PgError ''23503'' '''')
     else Inr (x, t\<lparr>crypto_device_link_intents := crypto_device_link_intents t @ [x]\<rparr>)))"

definition GetCryptoDeviceLinkIntentByIDAndUserID :: "uuid \<Rightarrow> uuid \<Rightarrow> CryptoDeviceLinkIntent crypto_tx" where
  "GetCryptoDeviceLinkIntentByIDAndUserID i u = (\<lambda>t.
     one_row (find (\<lambda>x. ci_ID x = i \<and> ci_UserID x = u) (crypto_device_link_intents t)) t)"

definition GetPendingCryptoDeviceLinkIntentByDeviceID :: "uuid \<Rightarrow> CryptoDeviceLinkIntent crypto_tx" where
  "GetPendingCryptoDeviceLinkIntentByDeviceID i = (\<lambda>t.
     one_row (find (\<lambda>x. ci_PendingCryptoDeviceID x = i \<and> pending_intent x) (crypto_device_link_intents t)) t)"

definition ListCryptoDeviceLinkIntentsByUserID :: "uuid \<Rightarrow> CryptoDeviceLinkIntent list crypto_tx" where
  "ListCryptoDeviceLinkIntentsByUserID u = (\<lambda>t.
     Inr (sort_key (\<lambda>x. - ci_CreatedAt x) (filter (\<lambda>x. ci_UserID x = u) (crypto_device_link_intents t)), t))"

definition expire_intent :: "int \<Rightarrow> CryptoDeviceLinkIntent \<Rightarrow> CryptoDeviceLinkIntent" where
  "expire_intent at x = x\<lparr>ci_Status := CryptoDeviceLinkIntentStatusExpired, ci_ExpiredAt := Some at\<rparr>"

definition ApproveCryptoDeviceLinkIntentByIDAndUserID :: "uuid \<Rightarrow> uuid \<Rightarrow> int \<Rightarrow> uuid \<Rightarrow> CryptoDeviceLinkIntent crypto_tx" where
  "ApproveCryptoDeviceLinkIntentByIDAndUserID i u at approver = (\<lambda>t.
     bindS (update_one (\<lambda>x. ci_ID x = i \<and> ci_UserID x = u \<and> pending_intent x)
              (\<lambda>x. x\<lparr>ci_Status := CryptoDeviceLinkIntentStatusApproved, ci_ApprovedAt := Some at,
                     ci_ApproverCryptoDeviceID := Some approver\<rparr>)
              (intent_row_check t) (crypto_device_link_intents t))
       (\<lambda>(x, xs). Inr (x, t\<lparr>crypto_device_link_intents := xs\<rparr>)))"

definition ExpireCryptoDeviceLinkIntentByIDAndUserID :: "uuid \<Rightarrow> uuid \<Rightarrow> int \<Rightarrow> CryptoDeviceLinkIntent crypto_tx" where
  "ExpireCryptoDeviceLinkIntentByIDAndUserID i u at = (\<lambda>t.
     bindS (update_one (\<lambda>x. ci_ID x = i \<and> ci_UserID x = u \<and> pending_intent x) (expire_intent at)
              (intent_row_check t) (crypto_device_link_intents t))
       (\<lambda>(x, xs). Inr (x, t\<lparr>crypto_device_link_intents := xs\<rparr>)))"

text \<open>Expiring a row keeps every constraint on it, so the two statements that expire many rows have no failing branch.\<close>

definition ExpirePendingCryptoDeviceLinkIntentsByDeviceID :: "uuid \<Rightarrow> int \<Rightarrow> unit crypto_tx" where
  "ExpirePendingCryptoDeviceLinkIntentsByDeviceID i at = (\<lambda>t. Inr ((), t\<lparr>crypto_device_link_intents :=
     update_rows (\<lambda>x. ci_PendingCryptoDeviceID x = i \<and> pending_intent x) (expire_intent at) (crypto_device_link_intents t)\<rparr>))"

text \<open>The same statement when its snapshot is older than the tables it changes: it expires the pending rows that the snapshot
  \<open>seen\<close> contains.\<close>

definition expire_seen :: "crypto_tables \<Rightarrow> uuid \<Rightarrow> int \<Rightarrow> unit crypto_tx" where
  "expire_seen seen i at = (\<lambda>t. Inr ((), t\<lparr>crypto_device_link_intents :=
     update_rows (\<lambda>x. ci_PendingCryptoDeviceID x = i \<and> pending_intent x \<and> ci_ID x \<in> ci_ID ` set (crypto_device_link_intents seen))
       (expire_intent at) (crypto_device_link_intents t)\<rparr>))"

definition ExpireStaleCryptoDeviceLinkIntentsByUserID :: "uuid \<Rightarrow> int \<Rightarrow> unit crypto_tx" where
  "ExpireStaleCryptoDeviceLinkIntentsByUserID u at = (\<lambda>t. Inr ((), t\<lparr>crypto_device_link_intents :=
     update_rows (\<lambda>x. ci_UserID x = u \<and> pending_intent x \<and> ci_ExpiresAt x \<le> at) (expire_intent at)
       (crypto_device_link_intents t)\<rparr>))"

end
