(* ===== verification/Crypto_Repository.thy ===== *)
theory Crypto_Repository
  imports Crypto_Store
begin

text \<open>
  The repository of the crypto device registry (\<open>internal/storage/postgres/crypto_devices.go\<close>). Its transactions run
  READ COMMITTED and read rows without locking them, so every reading statement sees what other transactions committed
  since the statement before, and the first writing statement as well: \<open>b k\<close> is what they commit just before the \<open>k\<close>-th
  such statement. What others commit is any sequence of the commits of \<open>Crypto_Commits\<close>, those of transactions that have
  read before or during ours included.

  Between its first write and its commit a transaction only holds the locks of the rows it wrote and, through foreign keys,
  the key-share locks of the rows they refer to, so others still commit. What they commit then touches no row that is
  locked, and they do not see the writes; it is the same as if they committed before the first write, unless a later
  statement of ours has a snapshot that is too old to see it. That happens in a publication only: a link intent for its
  device, whose insertion needs no more than a key-share lock, can be committed after the statement that expires such
  intents. \<open>b 4\<close> of \<open>PublishCryptoDeviceBundle_tx\<close> is what is committed after that snapshot. In the other transactions
  nothing is missed:
  \<^item> An approval that wrote the intent may wait for the row of the device, and a publication for the device may commit then.
    It has not touched the intent, whose row is locked, so the approval may as well have waited before it wrote the intent:
    that publication is part of \<open>b 5\<close>.
  \<^item> A link intent inserted after the expiring statement of a revocation, or a challenge stored after the deleting statement
    of a publication, does not depend on what was written and is ordered after the commit. Whoever acted on such a row
    before the commit has to update the device, or replace the bundle, after it and fails.
  \<^item> The creation of a link intent begins with a write, the expiry of stale intents, which others do not see before the commit.
    Whoever acts on one of these intents has to lock its row and waits; whoever a pending intent only stands in the way of, as
    another creation for the same device, is let through by the model too early, which allows more than can happen.
  \<^item> The first registration of an owner locks the row of the user and is not interfered with: the foreign key of another
    device of that user would have to lock it.
\<close>

type_synonym interference = "nat \<Rightarrow> crypto_tables \<Rightarrow> crypto_tables"

definition after_commits :: "(crypto_tables \<Rightarrow> crypto_tables) \<Rightarrow> 'a crypto_tx \<Rightarrow> 'a crypto_tx" where
  "after_commits f m = (\<lambda>t. m (f t))"

text \<open>The same as a step of its own, before the first write or a statement whose error is looked at.\<close>

definition others_commit :: "(crypto_tables \<Rightarrow> crypto_tables) \<Rightarrow> unit crypto_tx" where
  "others_commit f = (\<lambda>t. Inr ((), f t))"

text \<open>What others commit while our transaction holds locks: \<open>kept t t'\<close> says that no locked row changed from \<open>t\<close> to \<open>t'\<close>. A
  transaction that needs one of them waits for our commit.\<close>

definition holding :: "(crypto_tables \<Rightarrow> crypto_tables \<Rightarrow> bool) \<Rightarrow> (crypto_tables \<Rightarrow> crypto_tables) \<Rightarrow> crypto_tables \<Rightarrow> crypto_tables" where
  "holding kept f t = (if kept t (f t) then f t else t)"

definition snapshot :: "crypto_tables crypto_tx" where
  "snapshot = (\<lambda>t. Inr (t, t))"

section \<open>Devices\<close>

definition createCryptoDevice_tx ::
    "uuid_parser \<Rightarrow> (uuid \<Rightarrow> bool) \<Rightarrow> CreateCryptoDeviceParams \<Rightarrow> bool \<Rightarrow> (CryptoDevice \<times> CryptoDeviceBundle) crypto_tx" where
  "createCryptoDevice_tx parse known params first =
     (let device = cp_Device params in
      with_uuid parse (cd_UserID device) (\<lambda>u.
      bindT (if first
             then bindT (query (LockCryptoDeviceRegistryOwner known u)) (\<lambda>_.
                  bindT (query (GetCryptoDeviceRegistryStatsByUserID u)) (\<lambda>(total, _, _).
                  if total \<noteq> 0 then failT ErrConflict else returnT ()))
             else returnT ()) (\<lambda>_.
      with_uuid parse (cd_ID device) (\<lambda>i.
      bindT (liftT (case cd_LinkedByCryptoDeviceID device of None \<Rightarrow> Inr None | Some a \<Rightarrow>
               bindS (mustParseUUID parse a) (\<lambda>l. Inr (Some l)))) (\<lambda>linked.
      bindT (query (CreateCryptoDevice_sql known
               (device\<lparr>cd_ID := i, cd_UserID := u, cd_LinkedByCryptoDeviceID := linked\<rparr>))) (\<lambda>deviceRow.
      bindT (query (CreateCryptoDeviceBundle ((cp_Bundle params)\<lparr>cb_CryptoDeviceID := i\<rparr>))) (\<lambda>bundleRow.
      returnT (deviceRow, bundleRow))))))))"

definition ListCryptoDevices_tx :: "uuid_parser \<Rightarrow> string \<Rightarrow> CryptoDevice list crypto_tx" where
  "ListCryptoDevices_tx parse userID = with_uuid parse userID (\<lambda>u. query (ListCryptoDevicesByUserID u))"

definition RevokeCryptoDevice_tx :: "uuid_parser \<Rightarrow> interference \<Rightarrow> RevokeCryptoDeviceParams \<Rightarrow> CryptoDevice crypto_tx" where
  "RevokeCryptoDevice_tx parse b params =
     with_uuid parse (rp_CryptoDeviceID params) (\<lambda>i. with_uuid parse (rp_UserID params) (\<lambda>u.
     bindT (after_commits (b 0) (query (GetCryptoDeviceByIDAndUserID i u))) (\<lambda>device.
     if cd_Status device = CryptoDeviceStatusRevoked then returnT device
     else
     bindT (others_commit (b 1)) (\<lambda>_.
     bindT (query (RevokeCryptoDeviceWithMetadata i u (rp_RevokedAt params) (rp_RevocationReason params)
              (if rp_RevokedByActor params = [] then None else Some (rp_RevokedByActor params)))) (\<lambda>device.
     bindT (query (ExpirePendingCryptoDeviceLinkIntentsByDeviceID i (rp_RevokedAt params))) (\<lambda>_.
     returnT device))))))"

section \<open>Publishing a bundle\<close>

definition CreateCryptoDeviceBundlePublishChallenge_tx ::
    "uuid_parser \<Rightarrow> CryptoDeviceBundlePublishChallenge \<Rightarrow> CryptoDeviceBundlePublishChallenge crypto_tx" where
  "CreateCryptoDeviceBundlePublishChallenge_tx parse challenge =
     with_uuid parse (cc_CryptoDeviceID challenge) (\<lambda>i.
     query (UpsertCryptoDeviceBundlePublishChallenge (challenge\<lparr>cc_CryptoDeviceID := i\<rparr>)))"

text \<open>The rows of a challenge and of the current bundle, the new bundle and the proof belong together.\<close>

definition publish_proof_matches ::
    "string \<Rightarrow> CryptoDeviceBundle \<Rightarrow> CryptoDeviceBundlePublishChallenge \<Rightarrow> CryptoDeviceBundleInput \<Rightarrow>
     CryptoDeviceBundlePublishProofPayload \<Rightarrow> int \<Rightarrow> bool" where
  "publish_proof_matches deviceID current challenge bundle payload publishedAt \<longleftrightarrow>
     \<not> (pp_CryptoDeviceID payload \<noteq> deviceID \<or>
        pp_PreviousBundleVersion payload \<noteq> cb_BundleVersion current \<or>
        pp_PreviousBundleDigest payload \<noteq> cb_BundleDigest current \<or>
        pp_NewBundleDigest payload \<noteq> bi_BundleDigest bundle \<or>
        pp_PublishChallenge payload \<noteq> cc_PublishChallenge challenge \<or>
        pp_ChallengeExpiresAt payload \<noteq> cc_ExpiresAt challenge \<or>
        pp_IssuedAt payload < cc_CreatedAt challenge \<or>
        pp_IssuedAt payload > publishedAt)"

definition check_publish_proof ::
    "crypto_lib \<Rightarrow> interference \<Rightarrow> uuid \<Rightarrow> CryptoDeviceBundle \<Rightarrow> PublishCryptoDeviceBundleInput \<Rightarrow> int \<Rightarrow> unit crypto_tx" where
  "check_publish_proof lib b i current input publishedAt =
     (case pi_Proof input of
        None \<Rightarrow> failT ErrConflict
      | Some proof \<Rightarrow>
          bindT (others_commit (b 2)) (\<lambda>_.
          attemptT (GetCryptoDeviceBundlePublishChallengeByDeviceID i) (\<lambda>r. case r of
            Inl err \<Rightarrow> if err = ErrNoRows then failT ErrConflict else failT (convertError err)
          | Inr challenge \<Rightarrow>
              if \<not> cc_ExpiresAt challenge > publishedAt
              then bindT (query (DeleteCryptoDeviceBundlePublishChallengeByDeviceID i)) (\<lambda>_. failT ErrConflict)
              else if cc_CurrentBundleVersion challenge \<noteq> cb_BundleVersion current \<or>
                      cc_CurrentBundleDigest challenge \<noteq> cb_BundleDigest current
              then bindT (query (DeleteCryptoDeviceBundlePublishChallengeByDeviceID i)) (\<lambda>_. failT ErrConflict)
              else if \<not> publish_proof_matches (pi_CryptoDeviceID input) current challenge (pi_Bundle input) (bpp_Payload proof) publishedAt
              then failT ErrConflict
              else liftT (VerifyCryptoDeviceBundlePublishSignature lib (cb_IdentityPublicKey current) proof))))"

definition bundle_of :: "uuid \<Rightarrow> int \<Rightarrow> CryptoDeviceBundleInput \<Rightarrow> int \<Rightarrow> CryptoDeviceBundle" where
  "bundle_of i version input publishedAt =
     \<lparr>cb_CryptoDeviceID = i, cb_BundleVersion = version, cb_CryptoSuite = bi_CryptoSuite input,
      cb_IdentityPublicKey = bi_IdentityPublicKey input, cb_SignedPrekeyPublic = bi_SignedPrekeyPublic input,
      cb_SignedPrekeyID = bi_SignedPrekeyID input, cb_SignedPrekeySignature = bi_SignedPrekeySignature input,
      cb_KEMPublicKey = bi_KEMPublicKey input, cb_KEMKeyID = bi_KEMKeyID input, cb_KEMSignature = bi_KEMSignature input,
      cb_OneTimePrekeysTotal = bi_OneTimePrekeysTotal input, cb_OneTimePrekeysAvailable = bi_OneTimePrekeysAvailable input,
      cb_BundleDigest = bi_BundleDigest input, cb_PublishedAt = publishedAt, cb_ExpiresAt = bi_ExpiresAt input,
      cb_SupersededAt = None\<rparr>"

text \<open>The rows that a publication locks: the device, its bundles, its pending intents and its challenge.\<close>

definition publication_locks :: "uuid \<Rightarrow> crypto_tables \<Rightarrow> crypto_tables \<Rightarrow> bool" where
  "publication_locks i t t' \<longleftrightarrow>
     filter (\<lambda>d. cd_ID d = i) (crypto_devices t') = filter (\<lambda>d. cd_ID d = i) (crypto_devices t) \<and>
     filter (\<lambda>b. cb_CryptoDeviceID b = i) (crypto_device_bundles t') =
       filter (\<lambda>b. cb_CryptoDeviceID b = i) (crypto_device_bundles t) \<and>
     filter (\<lambda>c. cc_CryptoDeviceID c = i) (crypto_device_bundle_publish_challenges t') =
       filter (\<lambda>c. cc_CryptoDeviceID c = i) (crypto_device_bundle_publish_challenges t) \<and>
     (\<forall>x\<in>set (crypto_device_link_intents t). ci_PendingCryptoDeviceID x = i \<and> pending_intent x \<longrightarrow>
        x \<in> set (crypto_device_link_intents t'))"

text \<open>The commits of \<open>b 3\<close> are those that the expiring statement still sees, \<open>b 4\<close> comes later and before the commit. Neither
  touches what the statements before it write, so both are taken before the first write.\<close>

definition PublishCryptoDeviceBundle_tx ::
    "uuid_parser \<Rightarrow> crypto_lib \<Rightarrow> interference \<Rightarrow> string \<Rightarrow> PublishCryptoDeviceBundleInput \<Rightarrow> int \<Rightarrow>
     (CryptoDevice \<times> CryptoDeviceBundle) crypto_tx" where
  "PublishCryptoDeviceBundle_tx parse lib b userID input publishedAt =
     with_uuid parse (pi_CryptoDeviceID input) (\<lambda>i. with_uuid parse userID (\<lambda>u.
     bindT (after_commits (b 0) (query (GetCryptoDeviceByIDAndUserID i u))) (\<lambda>device.
     if cd_Status device = CryptoDeviceStatusRevoked then failT ErrConflict
     else
     bindT (after_commits (b 1) (query (GetCurrentCryptoDeviceBundleByDeviceID i))) (\<lambda>current.
     if cb_IdentityPublicKey current \<noteq> bi_IdentityPublicKey (pi_Bundle input) then failT ErrConflict
     else
     bindT (if cd_Status device = CryptoDeviceStatusActive then check_publish_proof lib b i current input publishedAt
            else returnT ()) (\<lambda>_.
     bindT (others_commit (b 3)) (\<lambda>_.
     bindT snapshot (\<lambda>seen.
     bindT (others_commit (holding (publication_locks i) (b 4))) (\<lambda>_.
     bindT (query (SupersedeCurrentCryptoDeviceBundle i publishedAt)) (\<lambda>_.
     let nextVersion = cb_BundleVersion current + 1 in
     bindT (query (CreateCryptoDeviceBundle (bundle_of i nextVersion (pi_Bundle input) publishedAt))) (\<lambda>bundleRow.
     bindT (query (UpdateCryptoDeviceBundleTracking i u nextVersion publishedAt)) (\<lambda>device.
     bindT (if cd_Status device = CryptoDeviceStatusPendingLink
            then query (expire_seen seen i publishedAt) else returnT ()) (\<lambda>_.
     bindT (query (DeleteCryptoDeviceBundlePublishChallengeByDeviceID i)) (\<lambda>_.
     returnT (device, bundleRow))))))))))))))"

section \<open>Link intents\<close>

definition CreateCryptoDeviceLinkIntent_tx ::
    "uuid_parser \<Rightarrow> (uuid \<Rightarrow> bool) \<Rightarrow> interference \<Rightarrow> CryptoDeviceLinkIntent \<Rightarrow> CryptoDeviceLinkIntent crypto_tx" where
  "CreateCryptoDeviceLinkIntent_tx parse known b intent =
     with_uuid parse (ci_UserID intent) (\<lambda>u.
     bindT (query (ExpireStaleCryptoDeviceLinkIntentsByUserID u (ci_CreatedAt intent))) (\<lambda>_.
     with_uuid parse (ci_PendingCryptoDeviceID intent) (\<lambda>i.
     bindT (after_commits (b 0) (query (GetCryptoDeviceByIDAndUserID i u))) (\<lambda>device.
     if cd_Status device \<noteq> CryptoDeviceStatusPendingLink then failT ErrConflict
     else
     bindT (after_commits (b 1) (query (GetCurrentCryptoDeviceBundleByDeviceID i))) (\<lambda>current.
     if cb_BundleDigest current \<noteq> ci_BundleDigest intent then failT ErrConflict
     else
     bindT (others_commit (b 2)) (\<lambda>_.
     attemptT (GetPendingCryptoDeviceLinkIntentByDeviceID i) (\<lambda>r. case r of
       Inr _ \<Rightarrow> failT ErrConflict
     | Inl err \<Rightarrow>
         if err \<noteq> ErrNoRows then failT (convertError err)
         else
         bindT (others_commit (b 3)) (\<lambda>_.
         with_uuid parse (ci_ID intent) (\<lambda>x.
         bindT (liftT (case ci_ApproverCryptoDeviceID intent of None \<Rightarrow> Inr None | Some a \<Rightarrow>
                  bindS (mustParseUUID parse a) (\<lambda>l. Inr (Some l)))) (\<lambda>approver.
         query (CreateCryptoDeviceLinkIntent_sql known (intent\<lparr>ci_ID := x, ci_UserID := u, ci_PendingCryptoDeviceID := i,
           ci_ApproverCryptoDeviceID := approver\<rparr>))))))))))))"

text \<open>An expiry that finds no pending intent is not an error.\<close>

definition expire_quietly :: "uuid \<Rightarrow> uuid \<Rightarrow> int \<Rightarrow> 'a crypto_tx" where
  "expire_quietly x u at =
     attemptT (ExpireCryptoDeviceLinkIntentByIDAndUserID x u at) (\<lambda>r. case r of
       Inl err \<Rightarrow> if err \<noteq> ErrNoRows then failT (convertError err) else failT ErrConflict
     | Inr _ \<Rightarrow> failT ErrConflict)"

definition ApproveCryptoDeviceLinkIntent_tx ::
    "uuid_parser \<Rightarrow> crypto_lib \<Rightarrow> interference \<Rightarrow> ApproveCryptoDeviceLinkIntentParams \<Rightarrow>
     (CryptoDeviceLinkIntent \<times> CryptoDevice) crypto_tx" where
  "ApproveCryptoDeviceLinkIntent_tx parse lib b params =
     (let payload = lap_Payload (ap_Proof params); approvedAt = ap_ApprovedAt params in
      with_uuid parse (ap_LinkIntentID params) (\<lambda>x. with_uuid parse (ap_UserID params) (\<lambda>u.
      bindT (after_commits (b 0) (query (GetCryptoDeviceLinkIntentByIDAndUserID x u))) (\<lambda>intent.
      if ci_Status intent = CryptoDeviceLinkIntentStatusApproved then failT ErrConflict
      else if ci_Status intent = CryptoDeviceLinkIntentStatusExpired then failT ErrConflict
      else if lp_LinkIntentID payload \<noteq> ap_LinkIntentID params then failT ErrConflict
      else if lp_ApproverCryptoDeviceID payload \<noteq> ap_ApproverCryptoDeviceID params then failT ErrConflict
      else if \<not> ci_ExpiresAt intent > approvedAt then expire_quietly x u approvedAt
      else
      bindT (after_commits (b 1) (query (GetCryptoDeviceByIDAndUserID (ci_PendingCryptoDeviceID intent) u))) (\<lambda>pending.
      if cd_Status pending \<noteq> CryptoDeviceStatusPendingLink then failT ErrConflict
      else if ap_ApproverCryptoDeviceID params = cd_ID pending then failT ErrConflict
      else
      bindT (after_commits (b 2) (query (GetCurrentCryptoDeviceBundleByDeviceID (ci_PendingCryptoDeviceID intent)))) (\<lambda>current.
      if cb_BundleDigest current \<noteq> ci_BundleDigest intent then expire_quietly x u approvedAt
      else if lp_PendingCryptoDeviceID payload \<noteq> cd_ID pending then failT ErrConflict
      else if lp_PendingBundleDigest payload \<noteq> cb_BundleDigest current then failT ErrConflict
      else if lp_ApprovalChallenge payload \<noteq> ci_ApprovalChallenge intent then failT ErrConflict
      else if lp_ChallengeExpiresAt payload \<noteq> ci_ExpiresAt intent then failT ErrConflict
      else if lp_IssuedAt payload < ci_CreatedAt intent then failT ErrConflict
      else if lp_IssuedAt payload > approvedAt then failT ErrConflict
      else
      with_uuid parse (ap_ApproverCryptoDeviceID params) (\<lambda>a.
      bindT (after_commits (b 3) (query (GetCryptoDeviceByIDAndUserID a u))) (\<lambda>approver.
      if cd_Status approver \<noteq> CryptoDeviceStatusActive \<or> cd_RevokedAt approver \<noteq> None then failT ErrConflict
      else
      bindT (after_commits (b 4) (query (GetCurrentCryptoDeviceBundleByDeviceID a))) (\<lambda>approverBundle.
      bindT (liftT (VerifyCryptoDeviceLinkApprovalSignature lib (cb_IdentityPublicKey approverBundle) (ap_Proof params))) (\<lambda>_.
      bindT (others_commit (b 5)) (\<lambda>_.
      bindT (query (ApproveCryptoDeviceLinkIntentByIDAndUserID x u approvedAt a)) (\<lambda>approved.
      bindT (query (ActivateCryptoDevice (ci_PendingCryptoDeviceID approved) u approvedAt a)) (\<lambda>activated.
      returnT (approved, activated))))))))))))))"

definition ExpireCryptoDeviceLinkIntent_tx ::
    "uuid_parser \<Rightarrow> interference \<Rightarrow> string \<Rightarrow> string \<Rightarrow> int \<Rightarrow> CryptoDeviceLinkIntent crypto_tx" where
  "ExpireCryptoDeviceLinkIntent_tx parse b userID linkIntentID now =
     with_uuid parse linkIntentID (\<lambda>x. with_uuid parse userID (\<lambda>u.
     bindT (after_commits (b 0) (query (GetCryptoDeviceLinkIntentByIDAndUserID x u))) (\<lambda>intent.
     if ci_Status intent = CryptoDeviceLinkIntentStatusExpired then returnT intent
     else if ci_Status intent = CryptoDeviceLinkIntentStatusApproved then failT ErrConflict
     else
     bindT (others_commit (b 1)) (\<lambda>_.
     query (ExpireCryptoDeviceLinkIntentByIDAndUserID x u now)))))"

end
