(* ===== verification/Crypto_Invariant.thy ===== *)
theory Crypto_Invariant
  imports Crypto_Repository
begin

text \<open>
  What the registry keeps (\<open>registry_inv\<close>) and how its rows may change (\<open>registry_evolves\<close>). Both hold under every
  interleaving of the transactions; the chain of approvals that leads from a device to the first device of its owner is part
  of the invariant.
\<close>

section \<open>The invariant\<close>

definition input_of :: "CryptoDeviceBundle \<Rightarrow> CryptoDeviceBundleInput" where
  "input_of b =
     \<lparr>bi_CryptoSuite = cb_CryptoSuite b, bi_IdentityPublicKey = cb_IdentityPublicKey b,
      bi_SignedPrekeyPublic = cb_SignedPrekeyPublic b, bi_SignedPrekeyID = cb_SignedPrekeyID b,
      bi_SignedPrekeySignature = cb_SignedPrekeySignature b, bi_KEMPublicKey = cb_KEMPublicKey b,
      bi_KEMKeyID = cb_KEMKeyID b, bi_KEMSignature = cb_KEMSignature b,
      bi_OneTimePrekeysTotal = cb_OneTimePrekeysTotal b, bi_OneTimePrekeysAvailable = cb_OneTimePrekeysAvailable b,
      bi_BundleDigest = cb_BundleDigest b, bi_ExpiresAt = cb_ExpiresAt b\<rparr>"

text \<open>A bundle is authentic: its prekey is signed by its identity key and its digest is the one of its payload.\<close>

definition authentic :: "crypto_lib \<Rightarrow> CryptoDeviceBundle \<Rightarrow> bool" where
  "authentic lib b \<longleftrightarrow> validateCryptoDeviceBundleConsistency lib (input_of b) = Inr ()"

definition activated :: "CryptoDevice \<Rightarrow> bool" where
  "activated d \<longleftrightarrow> cd_ActivatedAt d \<noteq> None"

definition first_device :: "CryptoDevice \<Rightarrow> bool" where
  "first_device d \<longleftrightarrow> activated d \<and> cd_LinkedByCryptoDeviceID d = None"

text \<open>The device \<open>i\<close> was approved by the device \<open>a\<close>.\<close>

definition linked_by :: "CryptoDevice list \<Rightarrow> string \<Rightarrow> string \<Rightarrow> bool" where
  "linked_by ds i a \<longleftrightarrow> (\<exists>d\<in>set ds. cd_ID d = i \<and> cd_LinkedByCryptoDeviceID d = Some a)"

definition vouched :: "CryptoDevice list \<Rightarrow> CryptoDevice \<Rightarrow> bool" where
  "vouched ds d \<longleftrightarrow>
     (\<exists>r\<in>set ds. first_device r \<and> cd_UserID r = cd_UserID d \<and> (linked_by ds)\<^sup>*\<^sup>* (cd_ID d) (cd_ID r))"

definition registered_devices_ok :: "CryptoDevice list \<Rightarrow> bool" where
  "registered_devices_ok ds \<longleftrightarrow>
     distinct (map cd_ID ds) \<and> (\<forall>d\<in>set ds. crypto_device_check d) \<and>
     (\<forall>d\<in>set ds. cd_LinkedByCryptoDeviceID d \<noteq> None \<longrightarrow> activated d) \<and>
     (\<forall>d\<in>set ds. activated d \<longrightarrow> vouched ds d) \<and>
     (\<forall>d\<in>set ds. \<forall>e\<in>set ds. first_device d \<longrightarrow> first_device e \<longrightarrow> cd_UserID d = cd_UserID e \<longrightarrow> d = e)"

definition bundle_key :: "CryptoDeviceBundle \<Rightarrow> string \<times> int" where
  "bundle_key b = (cb_CryptoDeviceID b, cb_BundleVersion b)"

text \<open>The versions of the bundles of a device are \<open>1\<close> to the version of its only current bundle.\<close>

definition bundles_ok :: "crypto_lib \<Rightarrow> CryptoDeviceBundle list \<Rightarrow> bool" where
  "bundles_ok lib bs \<longleftrightarrow>
     distinct (map bundle_key bs) \<and>
     (\<forall>b\<in>set bs. bundle_check b \<and> authentic lib b \<and> 1 \<le> cb_BundleVersion b) \<and>
     (\<forall>b\<in>set bs. \<forall>v. 1 \<le> v \<and> v \<le> cb_BundleVersion b \<longrightarrow> (cb_CryptoDeviceID b, v) \<in> bundle_key ` set bs) \<and>
     (\<forall>b\<in>set bs. \<forall>c\<in>set bs. cb_CryptoDeviceID b = cb_CryptoDeviceID c \<longrightarrow>
        cb_IdentityPublicKey b = cb_IdentityPublicKey c \<and>
        (cb_SupersededAt c = None \<longrightarrow> cb_BundleVersion b \<le> cb_BundleVersion c \<and> (cb_SupersededAt b = None \<longrightarrow> b = c)))"

definition tracked :: "CryptoDeviceBundle list \<Rightarrow> CryptoDevice \<Rightarrow> bool" where
  "tracked bs d \<longleftrightarrow>
     (\<exists>b\<in>set bs. cb_CryptoDeviceID b = cd_ID d \<and> cb_SupersededAt b = None \<and> cd_LastBundleVersion d = Some (cb_BundleVersion b))"

definition intent_ok :: "CryptoDevice list \<Rightarrow> CryptoDeviceLinkIntent \<Rightarrow> bool" where
  "intent_ok ds x \<longleftrightarrow>
     intent_check x \<and>
     (\<exists>d\<in>set ds. cd_ID d = ci_PendingCryptoDeviceID x \<and> cd_UserID d = ci_UserID x \<and>
        (case ci_ApproverCryptoDeviceID x of
           None \<Rightarrow> True
         | Some a \<Rightarrow> cd_ActivatedAt d = ci_ApprovedAt x \<and> cd_LinkedByCryptoDeviceID d = Some a \<and>
             (\<exists>e\<in>set ds. cd_ID e = a \<and> cd_UserID e = ci_UserID x \<and> activated e)))"

definition intents_ok :: "CryptoDevice list \<Rightarrow> CryptoDeviceLinkIntent list \<Rightarrow> bool" where
  "intents_ok ds xs \<longleftrightarrow>
     distinct (map ci_ID xs) \<and> (\<forall>x\<in>set xs. intent_ok ds x) \<and>
     distinct (map ci_PendingCryptoDeviceID (filter pending_intent xs)) \<and>
     (\<forall>d\<in>set ds. \<forall>a. cd_LinkedByCryptoDeviceID d = Some a \<longrightarrow>
        (\<exists>x\<in>set xs. ci_PendingCryptoDeviceID x = cd_ID d \<and> ci_ApproverCryptoDeviceID x = Some a))"

definition challenges_ok :: "CryptoDevice list \<Rightarrow> CryptoDeviceBundlePublishChallenge list \<Rightarrow> bool" where
  "challenges_ok ds cs \<longleftrightarrow>
     distinct (map cc_CryptoDeviceID cs) \<and> (\<forall>c\<in>set cs. challenge_check c \<and> cc_CryptoDeviceID c \<in> cd_ID ` set ds)"

definition registry_inv :: "crypto_lib \<Rightarrow> crypto_tables \<Rightarrow> bool" where
  "registry_inv lib t \<longleftrightarrow>
     registered_devices_ok (crypto_devices t) \<and> bundles_ok lib (crypto_device_bundles t) \<and>
     (\<forall>d\<in>set (crypto_devices t). tracked (crypto_device_bundles t) d) \<and>
     cb_CryptoDeviceID ` set (crypto_device_bundles t) \<subseteq> cd_ID ` set (crypto_devices t) \<and>
     intents_ok (crypto_devices t) (crypto_device_link_intents t) \<and>
     challenges_ok (crypto_devices t) (crypto_device_bundle_publish_challenges t)"

section \<open>How rows change\<close>

text \<open>A device goes from pending to active to revoked; what an approval or a revocation wrote stays.\<close>

definition status_rank :: "CryptoDevice \<Rightarrow> nat" where
  "status_rank d =
     (if cd_Status d = CryptoDeviceStatusPendingLink then 0 else if cd_Status d = CryptoDeviceStatusActive then 1 else 2)"

definition device_moves :: "CryptoDevice \<Rightarrow> CryptoDevice \<Rightarrow> bool" where
  "device_moves d d' \<longleftrightarrow>
     cd_ID d' = cd_ID d \<and> cd_UserID d' = cd_UserID d \<and> cd_Label d' = cd_Label d \<and> cd_CreatedAt d' = cd_CreatedAt d \<and>
     status_rank d \<le> status_rank d' \<and>
     (activated d \<longrightarrow> cd_ActivatedAt d' = cd_ActivatedAt d \<and> cd_LinkedByCryptoDeviceID d' = cd_LinkedByCryptoDeviceID d) \<and>
     (cd_RevokedAt d \<noteq> None \<longrightarrow> cd_RevokedAt d' = cd_RevokedAt d \<and> cd_RevocationReason d' = cd_RevocationReason d \<and>
        cd_RevokedByActor d' = cd_RevokedByActor d)"

text \<open>A bundle is never changed but for being superseded once.\<close>

definition bundle_moves :: "CryptoDeviceBundle \<Rightarrow> CryptoDeviceBundle \<Rightarrow> bool" where
  "bundle_moves b b' \<longleftrightarrow>
     b'\<lparr>cb_SupersededAt := None\<rparr> = b\<lparr>cb_SupersededAt := None\<rparr> \<and> (cb_SupersededAt b \<noteq> None \<longrightarrow> b' = b)"

text \<open>An intent that was approved or expired is final.\<close>

definition intent_moves :: "CryptoDeviceLinkIntent \<Rightarrow> CryptoDeviceLinkIntent \<Rightarrow> bool" where
  "intent_moves x x' \<longleftrightarrow>
     ci_ID x' = ci_ID x \<and> ci_UserID x' = ci_UserID x \<and> ci_PendingCryptoDeviceID x' = ci_PendingCryptoDeviceID x \<and>
     ci_BundleDigest x' = ci_BundleDigest x \<and> ci_CreatedAt x' = ci_CreatedAt x \<and> ci_ExpiresAt x' = ci_ExpiresAt x \<and>
     ci_ApprovalChallenge x' = ci_ApprovalChallenge x \<and> (\<not> pending_intent x \<longrightarrow> x' = x)"

definition registry_evolves :: "crypto_tables \<Rightarrow> crypto_tables \<Rightarrow> bool" where
  "registry_evolves t t' \<longleftrightarrow>
     (\<forall>d\<in>set (crypto_devices t). \<exists>d'\<in>set (crypto_devices t'). device_moves d d') \<and>
     (\<forall>b\<in>set (crypto_device_bundles t). \<exists>b'\<in>set (crypto_device_bundles t'). bundle_moves b b') \<and>
     (\<forall>x\<in>set (crypto_device_link_intents t). \<exists>x'\<in>set (crypto_device_link_intents t'). intent_moves x x')"

lemma row_moves_refl [simp]: "device_moves d d" "bundle_moves b b" "intent_moves x x"
  by (simp_all add: device_moves_def bundle_moves_def intent_moves_def)

lemma device_moves_trans: "device_moves d e \<Longrightarrow> device_moves e f \<Longrightarrow> device_moves d f"
  by (auto simp: device_moves_def activated_def)

lemma bundle_moves_trans: "bundle_moves d e \<Longrightarrow> bundle_moves e f \<Longrightarrow> bundle_moves d f"
  by (auto simp: bundle_moves_def)

lemma intent_moves_trans: "intent_moves d e \<Longrightarrow> intent_moves e f \<Longrightarrow> intent_moves d f"
  by (auto simp: intent_moves_def)

lemma registry_evolves_refl [simp]: "registry_evolves t t"
  unfolding registry_evolves_def by (meson row_moves_refl)

text \<open>Two rows with one identifier are one row.\<close>

lemma intents_same:
  "intents_ok ds xs \<Longrightarrow> x \<in> set xs \<Longrightarrow> y \<in> set xs \<Longrightarrow> ci_ID x = ci_ID y \<Longrightarrow> x = y"
  by (auto simp: intents_ok_def distinct_map inj_on_def)

lemma devices_same:
  "registered_devices_ok ds \<Longrightarrow> d \<in> set ds \<Longrightarrow> e \<in> set ds \<Longrightarrow> cd_ID d = cd_ID e \<Longrightarrow> d = e"
  by (auto simp: registered_devices_ok_def distinct_map inj_on_def)

lemma bundles_same:
  "bundles_ok lib bs \<Longrightarrow> b \<in> set bs \<Longrightarrow> c \<in> set bs \<Longrightarrow> bundle_key b = bundle_key c \<Longrightarrow> b = c"
  by (auto simp: bundles_ok_def distinct_map inj_on_def)

lemma registry_evolves_trans: "registry_evolves t s \<Longrightarrow> registry_evolves s u \<Longrightarrow> registry_evolves t u"
  unfolding registry_evolves_def by (meson device_moves_trans bundle_moves_trans intent_moves_trans)

text \<open>A step of the registry keeps the invariant and moves the rows forward.\<close>

definition registry_step_ok :: "crypto_lib \<Rightarrow> crypto_tables \<Rightarrow> crypto_tables \<Rightarrow> bool" where
  "registry_step_ok lib t t' \<longleftrightarrow> (registry_inv lib t \<longrightarrow> registry_inv lib t' \<and> registry_evolves t t')"

lemma step_ok_refl [simp]: "registry_step_ok lib t t"
  by (simp add: registry_step_ok_def)

lemma step_ok_trans: "registry_step_ok lib t s \<Longrightarrow> registry_step_ok lib s u \<Longrightarrow> registry_step_ok lib t u"
  unfolding registry_step_ok_def using registry_evolves_trans by blast

end
