(* ===== verification/Crypto_Keeps.thy ===== *)
theory Crypto_Keeps
  imports Crypto_Invariant
begin

text \<open>
  The changes the transactions of the registry make to its tables, each shown to be a step of the registry
  (\<open>registry_step_ok\<close>): a device with its first bundle is added, intents expire, a device is revoked, a challenge is stored
  or dropped, an intent is added, a bundle replaces the current one, an intent is approved.
\<close>

section \<open>Rows\<close>

lemma set_update_rows: "set (update_rows h c rs) = (\<lambda>r. if h r then c r else r) ` set rs"
  by (simp add: update_rows_def)

lemma map_update_rows: "(\<And>r. h r \<Longrightarrow> f (c r) = f r) \<Longrightarrow> map f (update_rows h c rs) = map f rs"
  by (simp add: update_rows_def)

lemma update_one_Inr:
  "update_one h c check rs = Inr (x, rs') \<longleftrightarrow>
     (\<exists>r. find h rs = Some r \<and> check (c r) = Inr () \<and> x = c r \<and> rs' = update_rows h c rs)"
  by (auto simp: update_one_def bindS_Inr_iff split: option.splits)

lemma find_current_bundle_iff:
  assumes "bundles_ok lib (crypto_device_bundles t)"
  shows "find_current_bundle t i = Some c \<longleftrightarrow>
     c \<in> set (crypto_device_bundles t) \<and> cb_CryptoDeviceID c = i \<and> cb_SupersededAt c = None"
proof
  assume "find_current_bundle t i = Some c"
  then show "c \<in> set (crypto_device_bundles t) \<and> cb_CryptoDeviceID c = i \<and> cb_SupersededAt c = None"
    by (auto simp: find_current_bundle_def dest: find_SomeD)
next
  assume c: "c \<in> set (crypto_device_bundles t) \<and> cb_CryptoDeviceID c = i \<and> cb_SupersededAt c = None"
  show "find_current_bundle t i = Some c"
  proof (cases "find_current_bundle t i")
    case None
    with c show ?thesis by (auto simp: find_current_bundle_def find_None_iff)
  next
    case (Some b)
    then have "b \<in> set (crypto_device_bundles t) \<and> cb_CryptoDeviceID b = i \<and> cb_SupersededAt b = None"
      by (auto simp: find_current_bundle_def dest: find_SomeD)
    with c assms have "b = c" unfolding bundles_ok_def by blast
    with Some show ?thesis by simp
  qed
qed

text \<open>When the devices, bundles or intents stay as they are only the other parts have to be shown.\<close>

lemma evolvesI:
  assumes "\<And>d. d \<in> set (crypto_devices t) \<Longrightarrow> \<exists>d'\<in>set (crypto_devices t'). device_moves d d'"
    and "\<And>b. b \<in> set (crypto_device_bundles t) \<Longrightarrow> \<exists>b'\<in>set (crypto_device_bundles t'). bundle_moves b b'"
    and "\<And>x. x \<in> set (crypto_device_link_intents t) \<Longrightarrow> \<exists>x'\<in>set (crypto_device_link_intents t'). intent_moves x x'"
  shows "registry_evolves t t'"
  using assms by (auto simp: registry_evolves_def)

lemma rows_stay:
  "d \<in> set ds \<Longrightarrow> \<exists>d'\<in>set ds. device_moves d d'"
  "b \<in> set bs \<Longrightarrow> \<exists>b'\<in>set bs. bundle_moves b b'"
  "x \<in> set xs \<Longrightarrow> \<exists>x'\<in>set xs. intent_moves x x'"
  by (meson row_moves_refl)+

lemma mapped_move:
  "(\<And>d. d \<in> set ds \<Longrightarrow> device_moves d (f d)) \<Longrightarrow> d \<in> set ds \<Longrightarrow> \<exists>d'\<in>set (map f ds). device_moves d d'"
  "(\<And>b. b \<in> set bs \<Longrightarrow> bundle_moves b (g b)) \<Longrightarrow> b \<in> set bs \<Longrightarrow> \<exists>b'\<in>set (map g bs). bundle_moves b b'"
  "(\<And>x. x \<in> set xs \<Longrightarrow> intent_moves x (h x)) \<Longrightarrow> x \<in> set xs \<Longrightarrow> \<exists>x'\<in>set (map h xs). intent_moves x x'"
  by auto

section \<open>Challenges\<close>

lemma challenges_step:
  assumes "challenges_ok (crypto_devices t) (crypto_device_bundle_publish_challenges t) \<Longrightarrow> challenges_ok (crypto_devices t) cs"
  shows "registry_step_ok lib t (t\<lparr>crypto_device_bundle_publish_challenges := cs\<rparr>)"
  unfolding registry_step_ok_def
proof (intro impI conjI)
  assume inv: "registry_inv lib t"
  then show "registry_inv lib (t\<lparr>crypto_device_bundle_publish_challenges := cs\<rparr>)"
    using assms by (simp add: registry_inv_def)
  show "registry_evolves t (t\<lparr>crypto_device_bundle_publish_challenges := cs\<rparr>)"
    by (rule evolvesI) (simp_all add: rows_stay)
qed

lemma delete_challenge_step:
  "registry_step_ok lib t (t\<lparr>crypto_device_bundle_publish_challenges :=
     filter (\<lambda>c. cc_CryptoDeviceID c \<noteq> i) (crypto_device_bundle_publish_challenges t)\<rparr>)"
  by (rule challenges_step) (auto simp: challenges_ok_def distinct_map_filter)

lemma find_crypto_device_not_None: "find_crypto_device t i = None \<longleftrightarrow> i \<notin> cd_ID ` set (crypto_devices t)"
  by (auto simp: find_crypto_device_def find_None_iff)

lemma upsert_challenge_step:
  assumes "UpsertCryptoDeviceBundlePublishChallenge c t = Inr (x, t')"
  shows "registry_step_ok lib t t'"
proof -
  from assms have "challenge_check c" "find_crypto_device t (cc_CryptoDeviceID c) \<noteq> None"
    and t': "t' = t\<lparr>crypto_device_bundle_publish_challenges :=
      filter (\<lambda>x. cc_CryptoDeviceID x \<noteq> cc_CryptoDeviceID c) (crypto_device_bundle_publish_challenges t) @ [c]\<rparr>"
    by (auto simp: UpsertCryptoDeviceBundlePublishChallenge_def Let_def split: if_splits)
  then show ?thesis unfolding t'
    by (intro challenges_step) (auto simp: challenges_ok_def distinct_map_filter find_crypto_device_not_None)
qed

section \<open>Expiry of intents\<close>

lemma expire_intent_fields [simp]:
  "ci_ID (expire_intent at x) = ci_ID x" "ci_UserID (expire_intent at x) = ci_UserID x"
  "ci_PendingCryptoDeviceID (expire_intent at x) = ci_PendingCryptoDeviceID x"
  "ci_BundleDigest (expire_intent at x) = ci_BundleDigest x" "ci_CreatedAt (expire_intent at x) = ci_CreatedAt x"
  "ci_ExpiresAt (expire_intent at x) = ci_ExpiresAt x" "ci_ApprovalChallenge (expire_intent at x) = ci_ApprovalChallenge x"
  "ci_ApproverCryptoDeviceID (expire_intent at x) = ci_ApproverCryptoDeviceID x"
  "ci_ApprovedAt (expire_intent at x) = ci_ApprovedAt x"
  "\<not> pending_intent (expire_intent at x)"
  by (simp_all add: expire_intent_def pending_intent_def crypto_status_defs)

lemma expire_intent_moves: "pending_intent x \<Longrightarrow> intent_moves x (expire_intent at x)"
  by (simp add: intent_moves_def)

lemma expire_intent_ok: "pending_intent x \<Longrightarrow> intent_ok ds x \<Longrightarrow> intent_ok ds (expire_intent at x)"
  unfolding intent_ok_def by (auto simp: intent_check_def pending_intent_def expire_intent_def crypto_status_defs)

lemma filter_pending_changed:
  assumes "\<And>x. hit x \<Longrightarrow> pending_intent x" and "\<And>x. \<not> pending_intent (change x)"
  shows "filter pending_intent (update_rows hit change xs) = filter (\<lambda>x. \<not> hit x) (filter pending_intent xs)"
  using assms by (induction xs) (auto simp: update_rows_def)

lemma distinct_pending_changed:
  "(\<And>x. hit x \<Longrightarrow> pending_intent x) \<Longrightarrow> (\<And>x. \<not> pending_intent (change x)) \<Longrightarrow>
   distinct (map ci_PendingCryptoDeviceID (filter pending_intent xs)) \<Longrightarrow>
   distinct (map ci_PendingCryptoDeviceID (filter pending_intent (update_rows hit change xs)))"
  by (subst filter_pending_changed) (auto intro: distinct_map_filter simp del: filter_filter)

lemma expire_step:
  assumes hit: "\<And>x. hit x \<Longrightarrow> pending_intent x"
  shows "registry_step_ok lib t
     (t\<lparr>crypto_device_link_intents := update_rows hit (expire_intent at) (crypto_device_link_intents t)\<rparr>)"
  unfolding registry_step_ok_def
proof (intro impI conjI)
  let ?xs = "crypto_device_link_intents t" and ?f = "\<lambda>x. if hit x then expire_intent at x else x"
  assume inv: "registry_inv lib t"
  then have ok: "intents_ok (crypto_devices t) ?xs" by (simp add: registry_inv_def)
  have "intents_ok (crypto_devices t) (update_rows hit (expire_intent at) ?xs)"
    unfolding intents_ok_def
  proof (intro conjI)
    show "distinct (map ci_ID (update_rows hit (expire_intent at) ?xs))"
      using ok by (simp add: intents_ok_def map_update_rows)
    show "\<forall>x\<in>set (update_rows hit (expire_intent at) ?xs). intent_ok (crypto_devices t) x"
      using ok hit by (auto simp: intents_ok_def set_update_rows expire_intent_ok)
    show "distinct (map ci_PendingCryptoDeviceID (filter pending_intent (update_rows hit (expire_intent at) ?xs)))"
      using ok by (intro distinct_pending_changed hit) (simp_all add: intents_ok_def)
    show "\<forall>d\<in>set (crypto_devices t). \<forall>a. cd_LinkedByCryptoDeviceID d = Some a \<longrightarrow>
        (\<exists>x\<in>set (update_rows hit (expire_intent at) ?xs). ci_PendingCryptoDeviceID x = cd_ID d \<and> ci_ApproverCryptoDeviceID x = Some a)"
    proof (intro ballI allI impI)
      fix d a assume d: "d \<in> set (crypto_devices t)" "cd_LinkedByCryptoDeviceID d = Some a"
      with ok obtain x where x: "x \<in> set ?xs" "ci_PendingCryptoDeviceID x = cd_ID d" "ci_ApproverCryptoDeviceID x = Some a"
        unfolding intents_ok_def by blast
      then show "\<exists>x\<in>set (update_rows hit (expire_intent at) ?xs). ci_PendingCryptoDeviceID x = cd_ID d \<and> ci_ApproverCryptoDeviceID x = Some a"
        by (intro bexI [of _ "?f x"]) (simp_all add: set_update_rows)
    qed
  qed
  with inv show "registry_inv lib (t\<lparr>crypto_device_link_intents := update_rows hit (expire_intent at) ?xs\<rparr>)"
    by (simp add: registry_inv_def)
  show "registry_evolves t (t\<lparr>crypto_device_link_intents := update_rows hit (expire_intent at) ?xs\<rparr>)"
    by (rule evolvesI)
      (simp_all add: rows_stay update_rows_def mapped_move(3) expire_intent_moves hit del: set_map)
qed

section \<open>Devices whose links stay\<close>

definition same_links :: "CryptoDevice \<Rightarrow> CryptoDevice \<Rightarrow> bool" where
  "same_links d e \<longleftrightarrow>
     cd_ID e = cd_ID d \<and> cd_UserID e = cd_UserID d \<and> cd_ActivatedAt e = cd_ActivatedAt d \<and>
     cd_LinkedByCryptoDeviceID e = cd_LinkedByCryptoDeviceID d"

lemma same_links_first: "same_links d e \<Longrightarrow> first_device e = first_device d" "same_links d e \<Longrightarrow> activated e = activated d"
  by (simp_all add: same_links_def first_device_def activated_def)

lemma linked_by_mapped: "(\<And>d. d \<in> set ds \<Longrightarrow> same_links d (f d)) \<Longrightarrow> linked_by (map f ds) = linked_by ds"
  by (rule ext)+ (auto simp: linked_by_def same_links_def)

lemma vouched_mapped:
  assumes "\<And>d. d \<in> set ds \<Longrightarrow> same_links d (f d)" and "d \<in> set ds" and "vouched ds d"
  shows "vouched (map f ds) (f d)"
proof -
  from assms(3) obtain r where r: "r \<in> set ds" "first_device r" "cd_UserID r = cd_UserID d" "(linked_by ds)\<^sup>*\<^sup>* (cd_ID d) (cd_ID r)"
    by (auto simp: vouched_def)
  then have "f r \<in> set (map f ds)" "first_device (f r)" "cd_UserID (f r) = cd_UserID (f d)"
      "(linked_by (map f ds))\<^sup>*\<^sup>* (cd_ID (f d)) (cd_ID (f r))"
    using assms(1) [OF r(1)] assms(1) [OF assms(2)] linked_by_mapped [OF assms(1)]
    by (simp_all add: same_links_first(1)) (simp_all add: same_links_def)
  then show ?thesis unfolding vouched_def by blast
qed

lemma devices_mapped:
  assumes same: "\<And>d. d \<in> set ds \<Longrightarrow> same_links d (f d)" and check: "\<And>d. d \<in> set ds \<Longrightarrow> crypto_device_check (f d)"
    and ok: "registered_devices_ok ds"
  shows "registered_devices_ok (map f ds)"
  unfolding registered_devices_ok_def
proof (intro conjI)
  have "map cd_ID (map f ds) = map cd_ID ds" using same by (simp add: same_links_def)
  then show "distinct (map cd_ID (map f ds))" using ok unfolding registered_devices_ok_def by metis
  show "\<forall>d\<in>set (map f ds). crypto_device_check d" using check by simp
  show "\<forall>d\<in>set (map f ds). cd_LinkedByCryptoDeviceID d \<noteq> None \<longrightarrow> activated d"
    using ok same by (auto simp: registered_devices_ok_def same_links_def activated_def)
  show "\<forall>d\<in>set (map f ds). activated d \<longrightarrow> vouched (map f ds) d"
  proof
    fix d' assume "d' \<in> set (map f ds)"
    then obtain d where d: "d \<in> set ds" "d' = f d" by auto
    have "vouched ds d \<Longrightarrow> vouched (map f ds) (f d)" using same d(1) by (rule vouched_mapped)
    then show "activated d' \<longrightarrow> vouched (map f ds) d'"
      using ok same_links_first(2) [OF same [OF d(1)]] d by (simp add: registered_devices_ok_def)
  qed
  show "\<forall>d\<in>set (map f ds). \<forall>e\<in>set (map f ds). first_device d \<longrightarrow> first_device e \<longrightarrow> cd_UserID d = cd_UserID e \<longrightarrow> d = e"
  proof (intro ballI impI)
    fix d' e' assume "d' \<in> set (map f ds)" "e' \<in> set (map f ds)" and first: "first_device d'" "first_device e'" "cd_UserID d' = cd_UserID e'"
    then obtain d e where de: "d \<in> set ds" "e \<in> set ds" "d' = f d" "e' = f e" by auto
    with first have "first_device d" "first_device e" "cd_UserID d = cd_UserID e"
      using same [OF de(1)] same [OF de(2)] by (simp_all add: same_links_first(1)) (simp add: same_links_def)
    with ok de show "d' = e'" unfolding registered_devices_ok_def by blast
  qed
qed

lemma intents_mapped:
  assumes same: "\<And>d. d \<in> set ds \<Longrightarrow> same_links d (f d)" and ok: "intents_ok ds xs"
  shows "intents_ok (map f ds) xs"
  unfolding intents_ok_def
proof (intro conjI)
  show "distinct (map ci_ID xs)" "distinct (map ci_PendingCryptoDeviceID (filter pending_intent xs))"
    using ok by (simp_all add: intents_ok_def)
  have act: "activated (f e) = activated e" "cd_ID (f e) = cd_ID e" "cd_UserID (f e) = cd_UserID e"
      "cd_ActivatedAt (f e) = cd_ActivatedAt e" "cd_LinkedByCryptoDeviceID (f e) = cd_LinkedByCryptoDeviceID e"
    if "e \<in> set ds" for e
    using same [OF that] by (simp_all add: same_links_def activated_def)
  show "\<forall>x\<in>set xs. intent_ok (map f ds) x"
  proof
    fix x assume "x \<in> set xs"
    with ok have "intent_ok ds x" by (simp add: intents_ok_def)
    then show "intent_ok (map f ds) x"
      by (auto simp: intent_ok_def act split: option.splits)
  qed
  show "\<forall>d\<in>set (map f ds). \<forall>a. cd_LinkedByCryptoDeviceID d = Some a \<longrightarrow>
      (\<exists>x\<in>set xs. ci_PendingCryptoDeviceID x = cd_ID d \<and> ci_ApproverCryptoDeviceID x = Some a)"
    using ok by (auto simp: intents_ok_def act)
qed

lemma challenges_mapped:
  "(\<And>d. d \<in> set ds \<Longrightarrow> same_links d (f d)) \<Longrightarrow> challenges_ok ds cs \<Longrightarrow> challenges_ok (map f ds) cs"
  by (auto simp: challenges_ok_def same_links_def image_iff)

text \<open>A change of the devices that keeps their links, together with a change of the bundles.\<close>

lemma devices_step:
  assumes same: "\<And>d. d \<in> set (crypto_devices t) \<Longrightarrow> same_links d (f d)"
    and inv: "registry_inv lib t"
    and check: "\<And>d. d \<in> set (crypto_devices t) \<Longrightarrow> crypto_device_check (f d)"
    and move: "\<And>d. d \<in> set (crypto_devices t) \<Longrightarrow> device_moves d (f d)"
    and track: "\<And>d. d \<in> set (crypto_devices t) \<Longrightarrow> tracked bs (f d)"
    and bundles: "bundles_ok lib bs" "cb_CryptoDeviceID ` set bs \<subseteq> cd_ID ` set (crypto_devices t)"
      "\<And>b. b \<in> set (crypto_device_bundles t) \<Longrightarrow> \<exists>b'\<in>set bs. bundle_moves b b'"
  shows "registry_inv lib (t\<lparr>crypto_devices := map f (crypto_devices t), crypto_device_bundles := bs\<rparr>) \<and>
    registry_evolves t (t\<lparr>crypto_devices := map f (crypto_devices t), crypto_device_bundles := bs\<rparr>)"
proof
  have "cd_ID ` set (crypto_devices t) = cd_ID ` f ` set (crypto_devices t)"
    using same by (simp add: same_links_def image_image)
  then show "registry_inv lib (t\<lparr>crypto_devices := map f (crypto_devices t), crypto_device_bundles := bs\<rparr>)"
    using inv bundles(1,2) track same check
    by (simp add: registry_inv_def devices_mapped intents_mapped challenges_mapped)
  show "registry_evolves t (t\<lparr>crypto_devices := map f (crypto_devices t), crypto_device_bundles := bs\<rparr>)"
    by (rule evolvesI) (use move in \<open>auto intro: bundles(3) simp: rows_stay\<close>)
qed

section \<open>Revocation\<close>

definition revoked :: "int \<Rightarrow> string option \<Rightarrow> string option \<Rightarrow> CryptoDevice \<Rightarrow> CryptoDevice" where
  "revoked at reason actor d =
     d\<lparr>cd_Status := CryptoDeviceStatusRevoked, cd_RevokedAt := Some at, cd_RevocationReason := reason, cd_RevokedByActor := actor\<rparr>"

lemma check_revoked_at: "crypto_device_check d \<Longrightarrow> cd_Status d \<noteq> CryptoDeviceStatusRevoked \<Longrightarrow> cd_RevokedAt d = None"
  by (auto simp: crypto_device_check_def)

lemma device_row_checkD: "device_row_check t d = Inr () \<Longrightarrow> crypto_device_check d"
  by (auto simp: device_row_check_def split: if_splits)

lemma revoke_step:
  assumes run: "RevokeCryptoDeviceWithMetadata i u at reason actor t = Inr (d, t')"
  shows "registry_step_ok lib t t'"
  unfolding registry_step_ok_def
proof (rule impI)
  assume inv: "registry_inv lib t"
  let ?hit = "\<lambda>d. cd_ID d = i \<and> cd_UserID d = u \<and> cd_Status d \<noteq> CryptoDeviceStatusRevoked"
  let ?f = "\<lambda>d. if ?hit d then revoked at reason actor d else d"
  from run obtain e where e: "e \<in> set (crypto_devices t)" "?hit e" "crypto_device_check (revoked at reason actor e)"
    and t': "t' = t\<lparr>crypto_devices := map ?f (crypto_devices t), crypto_device_bundles := crypto_device_bundles t\<rparr>"
    by (auto simp: RevokeCryptoDeviceWithMetadata_def bindS_Inr_iff update_one_Inr revoked_def update_rows_def
        dest!: find_SomeD device_row_checkD)
  have ok: "registered_devices_ok (crypto_devices t)" using inv by (simp add: registry_inv_def)
  have one: "d = e" if "d \<in> set (crypto_devices t)" "?hit d" for d
    using devices_same [OF ok that(1) e(1)] that(2) e(2) by simp
  show "registry_inv lib t' \<and> registry_evolves t t'" unfolding t'
  proof (rule devices_step)
    fix d assume d: "d \<in> set (crypto_devices t)"
    have check: "crypto_device_check d" using ok d by (simp add: registered_devices_ok_def)
    show "same_links d (?f d)" by (simp add: same_links_def revoked_def)
    show "crypto_device_check (?f d)" using check one [OF d] e(3) by auto
    show "device_moves d (?f d)"
      using check_revoked_at [OF check]
      by (auto simp: device_moves_def revoked_def activated_def status_rank_def crypto_status_defs)
    show "tracked (crypto_device_bundles t) (?f d)"
      using inv d by (auto simp: registry_inv_def tracked_def revoked_def)
  qed (use inv in \<open>auto simp: registry_inv_def rows_stay\<close>)
qed

section \<open>Registration\<close>

lemma linked_by_mono: "set ds \<subseteq> set ds' \<Longrightarrow> linked_by ds \<le> linked_by ds'"
  by (auto simp: linked_by_def le_fun_def)

lemma vouched_mono: "set ds \<subseteq> set ds' \<Longrightarrow> vouched ds d \<Longrightarrow> vouched ds' d"
  unfolding vouched_def using rtranclp_mono [OF linked_by_mono [of ds ds']] by blast

lemma intent_ok_mono: "set ds \<subseteq> set ds' \<Longrightarrow> intent_ok ds x \<Longrightarrow> intent_ok ds' x"
  unfolding intent_ok_def by (fastforce split: option.splits)

text \<open>A new device is pending, or it is active and the only one of its owner.\<close>

definition new_device_params :: "crypto_tables \<Rightarrow> CryptoDevice \<Rightarrow> CryptoDeviceBundle \<Rightarrow> bool" where
  "new_device_params t d b \<longleftrightarrow>
     cd_LinkedByCryptoDeviceID d = None \<and> cd_LastBundleVersion d = Some 1 \<and>
     (activated d \<longrightarrow> (\<forall>e\<in>set (crypto_devices t). cd_UserID e \<noteq> cd_UserID d)) \<and>
     cb_CryptoDeviceID b = cd_ID d \<and> cb_BundleVersion b = 1 \<and> cb_SupersededAt b = None"

lemma registered_devices_add:
  assumes ok: "registered_devices_ok ds" and fresh: "cd_ID d \<notin> cd_ID ` set ds" and check: "crypto_device_check d"
    and none: "cd_LinkedByCryptoDeviceID d = None" and alone: "activated d \<Longrightarrow> \<forall>e\<in>set ds. cd_UserID e \<noteq> cd_UserID d"
  shows "registered_devices_ok (ds @ [d])"
proof -
  have "vouched (ds @ [d]) e" if "e \<in> set (ds @ [d])" "activated e" for e
  proof (cases "e = d")
    case True
    with that none have "first_device d" by (simp add: first_device_def)
    then show ?thesis unfolding vouched_def True by auto
  next
    case False
    with that ok have "vouched ds e" by (auto simp: registered_devices_ok_def)
    then show ?thesis by (rule vouched_mono [rotated]) auto
  qed
  moreover have "e = e'" if "e \<in> set (ds @ [d])" "e' \<in> set (ds @ [d])" "first_device e" "first_device e'" "cd_UserID e = cd_UserID e'" for e e'
  proof (cases "e \<in> set ds \<and> e' \<in> set ds")
    case True
    with ok that show ?thesis unfolding registered_devices_ok_def by blast
  next
    case False
    with that alone show ?thesis by (auto simp: first_device_def)
  qed
  moreover have "\<forall>e\<in>set (ds @ [d]). crypto_device_check e" "\<forall>e\<in>set (ds @ [d]). cd_LinkedByCryptoDeviceID e \<noteq> None \<longrightarrow> activated e"
      "distinct (map cd_ID (ds @ [d]))"
    using ok check none fresh by (simp_all add: registered_devices_ok_def)
  ultimately show ?thesis unfolding registered_devices_ok_def by blast
qed

lemma bundles_add:
  assumes ok: "bundles_ok lib bs" and b: "bundle_check b" "authentic lib b" "1 \<le> cb_BundleVersion b"
    and below: "\<And>c. c \<in> set bs \<Longrightarrow> cb_CryptoDeviceID c = cb_CryptoDeviceID b \<Longrightarrow>
      cb_BundleVersion c < cb_BundleVersion b \<and> cb_IdentityPublicKey c = cb_IdentityPublicKey b \<and> cb_SupersededAt c \<noteq> None"
    and run: "\<And>v. 1 \<le> v \<Longrightarrow> v < cb_BundleVersion b \<Longrightarrow> (cb_CryptoDeviceID b, v) \<in> bundle_key ` set bs"
  shows "bundles_ok lib (bs @ [b])"
  unfolding bundles_ok_def
proof (intro conjI ballI allI impI)
  have "bundle_key b \<notin> bundle_key ` set bs"
  proof
    assume "bundle_key b \<in> bundle_key ` set bs"
    then obtain c where "c \<in> set bs" "bundle_key c = bundle_key b" by auto
    with below [of c] show False by (simp add: bundle_key_def)
  qed
  then show "distinct (map bundle_key (bs @ [b]))" using ok by (simp add: bundles_ok_def)
  fix c assume c: "c \<in> set (bs @ [b])"
  show "bundle_check c" "authentic lib c" "1 \<le> cb_BundleVersion c" using ok b c by (auto simp: bundles_ok_def)
  show "(cb_CryptoDeviceID c, v) \<in> bundle_key ` set (bs @ [b])" if "1 \<le> v \<and> v \<le> cb_BundleVersion c" for v
  proof (cases "c \<in> set bs")
    case True
    with ok that have "(cb_CryptoDeviceID c, v) \<in> bundle_key ` set bs" by (simp add: bundles_ok_def)
    then show ?thesis by auto
  next
    case False
    with c have "c = b" by simp
    with that run [of v] show ?thesis by (cases "v = cb_BundleVersion b") (auto simp: bundle_key_def)
  qed
  fix e assume e: "e \<in> set (bs @ [b])" and same: "cb_CryptoDeviceID c = cb_CryptoDeviceID e"
  have old: "cb_IdentityPublicKey c = cb_IdentityPublicKey e \<and>
      (cb_SupersededAt e = None \<longrightarrow> cb_BundleVersion c \<le> cb_BundleVersion e \<and> (cb_SupersededAt c = None \<longrightarrow> c = e))"
    if "c \<in> set bs" "e \<in> set bs"
    using ok that same unfolding bundles_ok_def by blast
  have lt: "cb_BundleVersion c < cb_BundleVersion e \<and> cb_IdentityPublicKey c = cb_IdentityPublicKey e \<and> cb_SupersededAt c \<noteq> None"
    if "c \<in> set bs" "e = b" using below [OF that(1)] same that(2) by simp
  have gt: "cb_IdentityPublicKey c = cb_IdentityPublicKey e \<and> cb_SupersededAt e \<noteq> None"
    if "e \<in> set bs" "c = b" using below [OF that(1)] same that(2) by simp
  consider "c \<in> set bs" "e \<in> set bs" | "c \<in> set bs" "e = b" | "e \<in> set bs" "c = b" | "c = b" "e = b" using c e by auto
  note cases = this
  show "cb_IdentityPublicKey c = cb_IdentityPublicKey e" by (cases rule: cases) (use old lt gt in blast)+
  assume cur: "cb_SupersededAt e = None"
  show "cb_BundleVersion c \<le> cb_BundleVersion e" by (cases rule: cases) (metis old lt gt cur less_imp_le order_refl)+
  show "c = e" if "cb_SupersededAt c = None" by (cases rule: cases) (use old lt gt cur that in blast)+
qed

lemma intents_add_device:
  assumes ok: "intents_ok ds xs" and none: "cd_LinkedByCryptoDeviceID d = None"
  shows "intents_ok (ds @ [d]) xs"
  using ok none intent_ok_mono [of ds "ds @ [d]"] by (auto simp: intents_ok_def)

lemma register_step:
  assumes dev: "CreateCryptoDevice_sql known d t = Inr (d', t1)" and bun: "CreateCryptoDeviceBundle b t1 = Inr (b', t')"
    and params: "new_device_params t d b" and auth: "authentic lib b"
  shows "registry_step_ok lib t t'"
  unfolding registry_step_ok_def
proof (rule impI)
  assume inv: "registry_inv lib t"
  from dev have check: "crypto_device_check d" and fresh: "cd_ID d \<notin> cd_ID ` set (crypto_devices t)"
    and t1: "t1 = t\<lparr>crypto_devices := crypto_devices t @ [d]\<rparr>"
    by (auto simp: CreateCryptoDevice_sql_def bindS_Inr_iff find_crypto_device_not_None dest: device_row_checkD split: if_splits)
  from bun t1 have bcheck: "bundle_check b"
    and t': "t' = t\<lparr>crypto_devices := crypto_devices t @ [d], crypto_device_bundles := crypto_device_bundles t @ [b]\<rparr>"
    by (auto simp: CreateCryptoDeviceBundle_def split: if_splits)
  have p: "cd_LinkedByCryptoDeviceID d = None" "cd_LastBundleVersion d = Some 1" "cb_CryptoDeviceID b = cd_ID d"
      "cb_BundleVersion b = 1" "cb_SupersededAt b = None" "activated d \<Longrightarrow> \<forall>e\<in>set (crypto_devices t). cd_UserID e \<noteq> cd_UserID d"
    using params by (auto simp: new_device_params_def)
  have bfresh: "cb_CryptoDeviceID c \<noteq> cb_CryptoDeviceID b" if "c \<in> set (crypto_device_bundles t)" for c
    using inv fresh p(3) that unfolding registry_inv_def by (metis image_eqI subsetD)
  have "registered_devices_ok (crypto_devices t @ [d])"
    using inv fresh check p by (intro registered_devices_add) (simp_all add: registry_inv_def)
  moreover have "bundles_ok lib (crypto_device_bundles t @ [b])"
    using inv bfresh bcheck auth p by (intro bundles_add) (auto simp: registry_inv_def)
  moreover have "intents_ok (crypto_devices t @ [d]) (crypto_device_link_intents t)"
    using inv p by (intro intents_add_device) (simp_all add: registry_inv_def)
  moreover have "challenges_ok (crypto_devices t @ [d]) (crypto_device_bundle_publish_challenges t)"
    using inv by (auto simp: registry_inv_def challenges_ok_def)
  moreover have "\<forall>e\<in>set (crypto_devices t @ [d]). tracked (crypto_device_bundles t @ [b]) e"
    using inv p by (auto simp: registry_inv_def tracked_def)
  ultimately show "registry_inv lib t' \<and> registry_evolves t t'"
  proof (intro conjI)
    show "registry_evolves t t'"
      by (intro evolvesI) (auto simp: t' intro: row_moves_refl)
  qed (use inv p in \<open>auto simp: t' registry_inv_def\<close>)
qed

section \<open>New intents\<close>

lemma intent_step:
  assumes run: "CreateCryptoDeviceLinkIntent_sql known x t = Inr (y, t')"
    and none: "ci_ApproverCryptoDeviceID x = None"
    and d: "d \<in> set (crypto_devices t)" "cd_ID d = ci_PendingCryptoDeviceID x" "cd_UserID d = ci_UserID x"
  shows "registry_step_ok lib t t'"
  unfolding registry_step_ok_def
proof (rule impI)
  assume inv: "registry_inv lib t"
  from run have check: "intent_check x" and fresh: "ci_ID x \<notin> ci_ID ` set (crypto_device_link_intents t)"
    and single: "pending_intent x \<Longrightarrow> \<forall>z\<in>set (crypto_device_link_intents t). pending_intent z \<longrightarrow>
        ci_PendingCryptoDeviceID z \<noteq> ci_PendingCryptoDeviceID x"
    and t': "t' = t\<lparr>crypto_device_link_intents := crypto_device_link_intents t @ [x]\<rparr>"
    by (auto simp: CreateCryptoDeviceLinkIntent_sql_def bindS_Inr_iff intent_row_check_def image_iff split: if_splits)
  have "intent_ok (crypto_devices t) x" using check none d by (auto simp: intent_ok_def)
  then have "intents_ok (crypto_devices t) (crypto_device_link_intents t @ [x])"
    using inv fresh single by (auto simp: registry_inv_def intents_ok_def)
  then show "registry_inv lib t' \<and> registry_evolves t t'"
    using inv by (intro conjI evolvesI) (auto simp: t' registry_inv_def intro: row_moves_refl)
qed

section \<open>A bundle replaces the current one\<close>

definition superseded :: "uuid \<Rightarrow> int \<Rightarrow> CryptoDeviceBundle \<Rightarrow> CryptoDeviceBundle" where
  "superseded i at b =
     (if cb_CryptoDeviceID b = i \<and> cb_SupersededAt b = None then b\<lparr>cb_SupersededAt := Some at\<rparr> else b)"

lemma superseded_fields [simp]:
  "cb_CryptoDeviceID (superseded i at b) = cb_CryptoDeviceID b" "cb_BundleVersion (superseded i at b) = cb_BundleVersion b"
  "cb_IdentityPublicKey (superseded i at b) = cb_IdentityPublicKey b"
  "bundle_key (superseded i at b) = bundle_key b" "bundle_check (superseded i at b) = bundle_check b"
  "authentic lib (superseded i at b) = authentic lib b"
  "cb_SupersededAt (superseded i at b) = None \<longleftrightarrow> cb_SupersededAt b = None \<and> cb_CryptoDeviceID b \<noteq> i"
  by (auto simp: superseded_def bundle_key_def bundle_check_def authentic_def input_of_def)

lemma superseded_moves: "bundle_moves b (superseded i at b)"
  by (auto simp: superseded_def bundle_moves_def)

lemma bundles_supersede:
  assumes "bundles_ok lib bs"
  shows "bundles_ok lib (map (superseded i at) bs)"
  unfolding bundles_ok_def
proof (intro conjI)
  have keys: "map bundle_key (map (superseded i at) bs) = map bundle_key bs" by simp
  then show "distinct (map bundle_key (map (superseded i at) bs))" using assms unfolding bundles_ok_def by metis
  show "\<forall>b\<in>set (map (superseded i at) bs). bundle_check b \<and> authentic lib b \<and> 1 \<le> cb_BundleVersion b"
    using assms by (simp add: bundles_ok_def)
  have "bundle_key ` set (map (superseded i at) bs) = bundle_key ` set bs" using keys by (metis list.set_map)
  then show "\<forall>b\<in>set (map (superseded i at) bs). \<forall>v. 1 \<le> v \<and> v \<le> cb_BundleVersion b \<longrightarrow>
      (cb_CryptoDeviceID b, v) \<in> bundle_key ` set (map (superseded i at) bs)"
    using assms by (simp add: bundles_ok_def)
  show "\<forall>b\<in>set (map (superseded i at) bs). \<forall>c\<in>set (map (superseded i at) bs). cb_CryptoDeviceID b = cb_CryptoDeviceID c \<longrightarrow>
      cb_IdentityPublicKey b = cb_IdentityPublicKey c \<and>
      (cb_SupersededAt c = None \<longrightarrow> cb_BundleVersion b \<le> cb_BundleVersion c \<and> (cb_SupersededAt b = None \<longrightarrow> b = c))"
  proof (intro ballI impI)
    fix b' c' assume "b' \<in> set (map (superseded i at) bs)" "c' \<in> set (map (superseded i at) bs)"
      and same: "cb_CryptoDeviceID b' = cb_CryptoDeviceID c'"
    then obtain b c where bc: "b \<in> set bs" "c \<in> set bs" "b' = superseded i at b" "c' = superseded i at c" by auto
    with same have "cb_CryptoDeviceID b = cb_CryptoDeviceID c" by simp
    with assms bc have "cb_IdentityPublicKey b = cb_IdentityPublicKey c \<and>
        (cb_SupersededAt c = None \<longrightarrow> cb_BundleVersion b \<le> cb_BundleVersion c \<and> (cb_SupersededAt b = None \<longrightarrow> b = c))"
      unfolding bundles_ok_def by blast
    then show "cb_IdentityPublicKey b' = cb_IdentityPublicKey c' \<and>
        (cb_SupersededAt c' = None \<longrightarrow> cb_BundleVersion b' \<le> cb_BundleVersion c' \<and> (cb_SupersededAt b' = None \<longrightarrow> b' = c'))"
      using bc by auto
  qed
qed

text \<open>The devices \<open>i\<close> of \<open>u\<close> track the new version.\<close>

definition tracking :: "uuid \<Rightarrow> uuid \<Rightarrow> int \<Rightarrow> int \<Rightarrow> CryptoDevice \<Rightarrow> CryptoDevice" where
  "tracking i u version at d =
     (if cd_ID d = i \<and> cd_UserID d = u then d\<lparr>cd_LastBundleVersion := Some version, cd_LastBundlePublishedAt := Some at\<rparr> else d)"

lemma bundle_replaced:
  assumes ok: "bundles_ok lib bs" and c: "c \<in> set bs" "cb_SupersededAt c = None"
    and n: "bundle_check n" "authentic lib n" "cb_CryptoDeviceID n = cb_CryptoDeviceID c" "cb_SupersededAt n = None"
      "cb_BundleVersion n = cb_BundleVersion c + 1" "cb_IdentityPublicKey n = cb_IdentityPublicKey c"
  shows "bundles_ok lib (map (superseded (cb_CryptoDeviceID c) at) bs @ [n])"
proof (rule bundles_add)
  let ?bs = "map (superseded (cb_CryptoDeviceID c) at) bs"
  show "bundles_ok lib ?bs" using ok by (rule bundles_supersede)
  show "1 \<le> cb_BundleVersion n" using ok c n(5) by (auto simp: bundles_ok_def)
  fix e' assume "e' \<in> set ?bs" "cb_CryptoDeviceID e' = cb_CryptoDeviceID n"
  then obtain e where e: "e \<in> set bs" "e' = superseded (cb_CryptoDeviceID c) at e" "cb_CryptoDeviceID e = cb_CryptoDeviceID c"
    using n(3) by auto
  with ok c have "cb_IdentityPublicKey e = cb_IdentityPublicKey c" "cb_BundleVersion e \<le> cb_BundleVersion c"
    unfolding bundles_ok_def by blast+
  with e n show "cb_BundleVersion e' < cb_BundleVersion n \<and> cb_IdentityPublicKey e' = cb_IdentityPublicKey n \<and> cb_SupersededAt e' \<noteq> None"
    by simp
next
  let ?bs = "map (superseded (cb_CryptoDeviceID c) at) bs"
  fix v assume v: "1 \<le> v" "v < cb_BundleVersion n"
  have "map bundle_key ?bs = map bundle_key bs" by simp
  then have "bundle_key ` set ?bs = bundle_key ` set bs" by (metis list.set_map)
  then show "(cb_CryptoDeviceID n, v) \<in> bundle_key ` set ?bs"
    using ok c(1) v n(3,5) by (simp add: bundles_ok_def)
qed (rule n)+

lemma publish_step:
  assumes inv: "registry_inv lib t" and c: "find_current_bundle t i = Some c"
    and n: "bundle_check n" "authentic lib n" "cb_CryptoDeviceID n = i" "cb_SupersededAt n = None"
      "cb_BundleVersion n = cb_BundleVersion c + 1" "cb_IdentityPublicKey n = cb_IdentityPublicKey c"
    and d: "d \<in> set (crypto_devices t)" "cd_ID d = i" "cd_UserID d = u"
    and check: "crypto_device_check (tracking i u (cb_BundleVersion n) at d)"
  shows "registry_step_ok lib t (t\<lparr>crypto_devices := map (tracking i u (cb_BundleVersion n) at) (crypto_devices t),
    crypto_device_bundles := map (superseded i at) (crypto_device_bundles t) @ [n]\<rparr>)"
  unfolding registry_step_ok_def
proof (rule impI)
  let ?f = "tracking i u (cb_BundleVersion n) at" and ?bs = "map (superseded i at) (crypto_device_bundles t) @ [n]"
  let ?t' = "t\<lparr>crypto_devices := map ?f (crypto_devices t), crypto_device_bundles := ?bs\<rparr>"
  have bok: "bundles_ok lib (crypto_device_bundles t)" and dok: "registered_devices_ok (crypto_devices t)"
    using inv by (simp_all add: registry_inv_def)
  from c find_current_bundle_iff [OF bok] have cc: "c \<in> set (crypto_device_bundles t)" "cb_CryptoDeviceID c = i" "cb_SupersededAt c = None"
    by auto
  have one: "e = d" if "e \<in> set (crypto_devices t)" "cd_ID e = i" for e using devices_same [OF dok that(1) d(1)] that(2) d(2) by simp
  have bok': "bundles_ok lib ?bs"
    using bundle_replaced [OF bok cc(1,3) n(1,2)] n cc(2) by simp
  show "registry_inv lib ?t' \<and> registry_evolves t ?t'"
  proof (rule devices_step)
    fix e assume e: "e \<in> set (crypto_devices t)"
    show "same_links e (?f e)" by (simp add: same_links_def tracking_def)
    show "crypto_device_check (?f e)"
    proof (cases "cd_ID e = i")
      case True then show ?thesis using check one [OF e] by simp
    next
      case False then show ?thesis using dok e by (simp add: tracking_def registered_devices_ok_def)
    qed
    show "device_moves e (?f e)" by (simp add: device_moves_def tracking_def activated_def status_rank_def)
    show "tracked ?bs (?f e)"
    proof (cases "cd_ID e = i")
      case True
      then show ?thesis using one [OF e] d n(3,4) by (simp add: tracked_def tracking_def)
    next
      case False
      from inv e obtain b where b: "b \<in> set (crypto_device_bundles t)" "cb_CryptoDeviceID b = cd_ID e" "cb_SupersededAt b = None"
          "cd_LastBundleVersion e = Some (cb_BundleVersion b)"
        by (auto simp: registry_inv_def tracked_def)
      then have "superseded i at b = b" using False by (simp add: superseded_def)
      with b False show ?thesis unfolding tracked_def tracking_def by (intro bexI [of _ b]) (auto intro: image_eqI [of _ _ b])
    qed
  next
    show "cb_CryptoDeviceID ` set ?bs \<subseteq> cd_ID ` set (crypto_devices t)"
      using inv d n(3) by (auto simp: registry_inv_def)
    show "\<exists>b'\<in>set ?bs. bundle_moves b b'" if "b \<in> set (crypto_device_bundles t)" for b
      using that superseded_moves by auto
  qed (use inv bok' in auto)
qed

end
