(* ===== verification/Crypto_Approval.thy ===== *)
theory Crypto_Approval
  imports Crypto_Keeps
begin

text \<open>
  The approval of a link intent as one change of the tables: the intent becomes approved and its device active, linked by
  the approver. The device then stands at the end of a chain of approvals that starts at the first device of its owner.
\<close>

definition approved_intent :: "int \<Rightarrow> uuid \<Rightarrow> CryptoDeviceLinkIntent \<Rightarrow> CryptoDeviceLinkIntent" where
  "approved_intent at a x =
     x\<lparr>ci_Status := CryptoDeviceLinkIntentStatusApproved, ci_ApprovedAt := Some at, ci_ApproverCryptoDeviceID := Some a\<rparr>"

definition linked_device :: "int \<Rightarrow> uuid \<Rightarrow> CryptoDevice \<Rightarrow> CryptoDevice" where
  "linked_device at a d =
     d\<lparr>cd_Status := CryptoDeviceStatusActive, cd_ActivatedAt := Some at, cd_LinkedByCryptoDeviceID := Some a\<rparr>"

lemma approved_fields [simp]:
  "ci_ID (approved_intent at a x) = ci_ID x" "ci_UserID (approved_intent at a x) = ci_UserID x"
  "ci_PendingCryptoDeviceID (approved_intent at a x) = ci_PendingCryptoDeviceID x"
  "ci_ApproverCryptoDeviceID (approved_intent at a x) = Some a" "ci_ApprovedAt (approved_intent at a x) = Some at"
  "\<not> pending_intent (approved_intent at a x)"
  by (simp_all add: approved_intent_def pending_intent_def crypto_status_defs)

lemma linked_fields [simp]:
  "cd_ID (linked_device at a d) = cd_ID d" "cd_UserID (linked_device at a d) = cd_UserID d"
  "cd_ActivatedAt (linked_device at a d) = Some at" "cd_LinkedByCryptoDeviceID (linked_device at a d) = Some a"
  "cd_LastBundleVersion (linked_device at a d) = cd_LastBundleVersion d"
  "activated (linked_device at a d)" "\<not> first_device (linked_device at a d)"
  by (simp_all add: linked_device_def activated_def first_device_def)

lemma pending_not_activated: "crypto_device_check d \<Longrightarrow> cd_Status d = CryptoDeviceStatusPendingLink \<Longrightarrow> \<not> activated d"
  by (auto simp: crypto_device_check_def activated_def crypto_status_defs)

lemma active_activated: "crypto_device_check d \<Longrightarrow> cd_Status d = CryptoDeviceStatusActive \<Longrightarrow> activated d"
  by (auto simp: crypto_device_check_def activated_def crypto_status_defs)

lemma approver_not_pending: "intent_check x \<Longrightarrow> ci_ApproverCryptoDeviceID x = Some a \<Longrightarrow> \<not> pending_intent x \<and> ci_ApprovedAt x \<noteq> None"
  by (auto simp: intent_check_def pending_intent_def crypto_status_defs)

section \<open>The devices\<close>

definition link_device :: "CryptoDevice \<Rightarrow> int \<Rightarrow> uuid \<Rightarrow> CryptoDevice \<Rightarrow> CryptoDevice" where
  "link_device d at a e = (if e = d then linked_device at a d else e)"

lemma linked_by_link:
  assumes "d \<in> set ds" and "cd_LinkedByCryptoDeviceID d = None"
  shows "linked_by ds \<le> linked_by (map (link_device d at a) ds)" and "linked_by (map (link_device d at a) ds) (cd_ID d) a"
proof -
  show "linked_by ds \<le> linked_by (map (link_device d at a) ds)"
  proof (intro predicate2I)
    fix i b assume "linked_by ds i b"
    then obtain e where "e \<in> set ds" "cd_ID e = i" "cd_LinkedByCryptoDeviceID e = Some b" by (auto simp: linked_by_def)
    moreover from this assms have "link_device d at a e = e" by (auto simp: link_device_def)
    ultimately show "linked_by (map (link_device d at a) ds) i b" unfolding linked_by_def by (metis image_eqI list.set_map)
  qed
  show "linked_by (map (link_device d at a) ds) (cd_ID d) a"
    using assms(1) by (auto simp: linked_by_def link_device_def intro!: bexI [of _ d])
qed

lemma devices_link:
  assumes ok: "registered_devices_ok ds" and d: "d \<in> set ds" "\<not> activated d" and check: "crypto_device_check (linked_device at a d)"
    and e: "e \<in> set ds" "cd_ID e = a" "cd_UserID e = cd_UserID d" "activated e"
  shows "registered_devices_ok (map (link_device d at a) ds)"
proof -
  let ?ds = "map (link_device d at a) ds"
  have none: "cd_LinkedByCryptoDeviceID d = None" using ok d by (auto simp: registered_devices_ok_def)
  note chain = rtranclp_mono [OF linked_by_link(1) [OF d(1) none, of at a]]
  have first: "f \<in> set ?ds" if "f \<in> set ds" "first_device f" for f
    using that d(2) by (auto simp: link_device_def first_device_def intro!: image_eqI [of _ _ f])
  have old: "vouched ?ds f" if f: "vouched ds f" for f
  proof -
    from f obtain r where "r \<in> set ds" "first_device r" "cd_UserID r = cd_UserID f" "(linked_by ds)\<^sup>*\<^sup>* (cd_ID f) (cd_ID r)"
      by (auto simp: vouched_def)
    with first chain show ?thesis unfolding vouched_def by blast
  qed
  have "vouched ds e" using ok e by (simp add: registered_devices_ok_def)
  then obtain r where "r \<in> set ?ds" "first_device r" "cd_UserID r = cd_UserID e" "(linked_by ?ds)\<^sup>*\<^sup>* (cd_ID e) (cd_ID r)"
    using old by (auto simp: vouched_def)
  then have "vouched ?ds (linked_device at a d)"
    using linked_by_link(2) [OF d(1) none, of at a] e unfolding vouched_def
    by (intro bexI [of _ r]) (auto intro: converse_rtranclp_into_rtranclp)
  moreover have "map cd_ID ?ds = map cd_ID ds" by (simp add: link_device_def)
  then have "distinct (map cd_ID ?ds)" using ok unfolding registered_devices_ok_def by metis
  ultimately show ?thesis using ok check d(2) old unfolding registered_devices_ok_def
    by (auto simp: link_device_def simp del: map_map)
qed

section \<open>The intents\<close>

lemma intents_link:
  assumes ok: "intents_ok ds xs" and devs: "registered_devices_ok ds" and x: "x \<in> set xs" "pending_intent x"
    and d: "d \<in> set ds" "cd_ID d = ci_PendingCryptoDeviceID x" "cd_UserID d = ci_UserID x" "\<not> activated d"
    and e: "e \<in> set ds" "cd_ID e = a" "cd_UserID e = cd_UserID d" "activated e"
    and check: "intent_check (approved_intent at a x)"
  shows "intents_ok (map (link_device d at a) ds) (map (\<lambda>y. if y = x then approved_intent at a x else y) xs)"
    (is "intents_ok ?ds ?xs")
  unfolding intents_ok_def
proof (intro conjI)
  have same: "f \<in> set ?ds" if "f \<in> set ds" "activated f" for f
    using that d(4) by (auto simp: link_device_def intro!: image_eqI [of _ _ f])
  have dd: "linked_device at a d \<in> set ?ds" using d(1) by (auto simp: link_device_def intro!: image_eqI [of _ _ d])
  have "map ci_ID ?xs = map ci_ID xs" by simp
  then show "distinct (map ci_ID ?xs)" using ok unfolding intents_ok_def by metis
  have "?xs = update_rows (\<lambda>y. y = x) (\<lambda>_. approved_intent at a x) xs" by (simp add: update_rows_def)
  then show "distinct (map ci_PendingCryptoDeviceID (filter pending_intent ?xs))"
    using ok x(2) distinct_pending_changed [of "\<lambda>y. y = x" "\<lambda>_. approved_intent at a x" xs] by (simp add: intents_ok_def)
  show "\<forall>y\<in>set ?xs. intent_ok ?ds y"
  proof
    fix y' assume "y' \<in> set ?xs"
    then obtain y where y: "y \<in> set xs" "y' = (if y = x then approved_intent at a x else y)" by auto
    show "intent_ok ?ds y'"
    proof (cases "y = x")
      case True
      with y have y': "y' = approved_intent at a x" by simp
      have "\<exists>g\<in>set ?ds. cd_ID g = a \<and> cd_UserID g = ci_UserID x \<and> activated g"
        using same [OF e(1,4)] e d(3) by (intro bexI [of _ e]) simp_all
      with dd check d(2,3) show ?thesis unfolding intent_ok_def y'
        by (intro conjI bexI [of _ "linked_device at a d"]) (simp_all del: set_map)
    next
      case False
      from ok y(1) have iok: "intent_ok ds y" by (simp add: intents_ok_def)
      then obtain f where f: "f \<in> set ds" "cd_ID f = ci_PendingCryptoDeviceID y" "cd_UserID f = ci_UserID y" "intent_check y"
          "case ci_ApproverCryptoDeviceID y of None \<Rightarrow> True
           | Some b \<Rightarrow> cd_ActivatedAt f = ci_ApprovedAt y \<and> cd_LinkedByCryptoDeviceID f = Some b \<and>
               (\<exists>e\<in>set ds. cd_ID e = b \<and> cd_UserID e = ci_UserID y \<and> activated e)"
        by (auto simp: intent_ok_def)
      show ?thesis
      proof (cases "ci_ApproverCryptoDeviceID y")
        case None
        have "link_device d at a f \<in> set ?ds" "cd_ID (link_device d at a f) = cd_ID f" "cd_UserID (link_device d at a f) = cd_UserID f"
          using f(1) by (auto simp: link_device_def)
        with f None False y show ?thesis unfolding intent_ok_def by auto
      next
        case (Some b)
        with f approver_not_pending have "activated f" by (auto simp: activated_def)
        with same f(1) have "f \<in> set ?ds" by blast
        moreover from f(5) Some obtain g where g: "g \<in> set ds" "cd_ID g = b" "cd_UserID g = ci_UserID y" "activated g" by auto
        with same have "g \<in> set ?ds" by blast
        ultimately show ?thesis using f g Some False y unfolding intent_ok_def by auto
      qed
    qed
  qed
  show "\<forall>f\<in>set ?ds. \<forall>b. cd_LinkedByCryptoDeviceID f = Some b \<longrightarrow>
      (\<exists>y\<in>set ?xs. ci_PendingCryptoDeviceID y = cd_ID f \<and> ci_ApproverCryptoDeviceID y = Some b)"
  proof (intro ballI allI impI)
    fix f' b assume "f' \<in> set ?ds" and b: "cd_LinkedByCryptoDeviceID f' = Some b"
    then obtain f where f: "f \<in> set ds" "f' = link_device d at a f" by auto
    show "\<exists>y\<in>set ?xs. ci_PendingCryptoDeviceID y = cd_ID f' \<and> ci_ApproverCryptoDeviceID y = Some b"
    proof (cases "f = d")
      case True
      then have "approved_intent at a x \<in> set ?xs" "f' = linked_device at a d" using x(1) f(2) by (auto simp: link_device_def)
      with b d(2) show ?thesis by (intro bexI [of _ "approved_intent at a x"]) simp_all
    next
      case False
      with f b have "f' = f" "cd_LinkedByCryptoDeviceID f = Some b" by (auto simp: link_device_def)
      with ok f obtain y where y: "y \<in> set xs" "ci_PendingCryptoDeviceID y = cd_ID f" "ci_ApproverCryptoDeviceID y = Some b"
        unfolding intents_ok_def by blast
      moreover have "intent_check y" using ok y(1) by (simp add: intents_ok_def intent_ok_def)
      with y approver_not_pending x(2) have "y \<noteq> x" by blast
      ultimately show ?thesis using \<open>f' = f\<close> by (intro bexI [of _ y]) auto
    qed
  qed
qed

section \<open>The step\<close>

lemma approve_step:
  assumes app: "ApproveCryptoDeviceLinkIntentByIDAndUserID x u at a t = Inr (y, t1)"
    and act: "ActivateCryptoDevice (ci_PendingCryptoDeviceID y) u at a t1 = Inr (d', t')"
    and e: "e \<in> set (crypto_devices t)" "cd_ID e = a" "cd_UserID e = u" "activated e"
  shows "registry_step_ok lib t t'"
  unfolding registry_step_ok_def
proof (rule impI)
  assume inv: "registry_inv lib t"
  then have devs: "registered_devices_ok (crypto_devices t)" and ints: "intents_ok (crypto_devices t) (crypto_device_link_intents t)"
    by (simp_all add: registry_inv_def)
  let ?hit = "\<lambda>z. ci_ID z = x \<and> ci_UserID z = u \<and> pending_intent z"
  from app obtain z where z: "z \<in> set (crypto_device_link_intents t)" "?hit z" "intent_check (approved_intent at a z)" "y = approved_intent at a z"
    and t1: "t1 = t\<lparr>crypto_device_link_intents := update_rows ?hit (approved_intent at a) (crypto_device_link_intents t)\<rparr>"
    by (auto simp: ApproveCryptoDeviceLinkIntentByIDAndUserID_def bindS_Inr_iff update_one_Inr approved_intent_def [abs_def] intent_row_check_def
        dest!: find_SomeD split: if_splits)
  let ?i = "ci_PendingCryptoDeviceID z"
  let ?pend = "\<lambda>d. cd_ID d = ?i \<and> cd_UserID d = u \<and> cd_Status d = CryptoDeviceStatusPendingLink \<and> cd_RevokedAt d = None"
  from act z(4) t1 obtain d where d: "d \<in> set (crypto_devices t)" "?pend d" "crypto_device_check (linked_device at a d)"
    and t': "t' = t1\<lparr>crypto_devices := update_rows ?pend (linked_device at a) (crypto_devices t)\<rparr>"
    by (auto simp: ActivateCryptoDevice_def bindS_Inr_iff update_one_Inr linked_device_def [abs_def]
        dest!: find_SomeD device_row_checkD)
  have "?hit w \<longleftrightarrow> w = z" if "w \<in> set (crypto_device_link_intents t)" for w
    using intents_same [OF ints that z(1)] z(2) by auto
  then have xs: "update_rows ?hit (approved_intent at a) (crypto_device_link_intents t) =
      map (\<lambda>w. if w = z then approved_intent at a z else w) (crypto_device_link_intents t)"
    by (simp add: update_rows_def)
  have "?pend w \<longleftrightarrow> w = d" if "w \<in> set (crypto_devices t)" for w
    using devices_same [OF devs that d(1)] d(2) by auto
  then have ds: "update_rows ?pend (linked_device at a) (crypto_devices t) = map (link_device d at a) (crypto_devices t)"
    by (simp add: update_rows_def link_device_def)
  have dact: "\<not> activated d" using pending_not_activated devs d by (auto simp: registered_devices_ok_def)
  have "registered_devices_ok (crypto_devices t')"
    using devices_link [OF devs d(1) dact d(3)] e d(2) by (simp add: t' ds)
  moreover have "intents_ok (crypto_devices t') (crypto_device_link_intents t')"
    using intents_link [OF ints devs z(1) _ d(1) _ _ dact] z e d(2) by (simp add: t' t1 ds xs)
  moreover have "cd_ID ` set (crypto_devices t') = cd_ID ` set (crypto_devices t)"
  proof -
    have "map cd_ID (crypto_devices t') = map cd_ID (crypto_devices t)" by (simp add: t' ds link_device_def)
    then show ?thesis by (metis list.set_map)
  qed
  moreover have "\<forall>f\<in>set (crypto_devices t'). tracked (crypto_device_bundles t') f"
    using inv by (auto simp: t' t1 ds link_device_def registry_inv_def tracked_def)
  ultimately have "registry_inv lib t'" using inv by (simp add: registry_inv_def challenges_ok_def t' t1)
  moreover have "registry_evolves t t'"
  proof (rule evolvesI)
    show "\<exists>f'\<in>set (crypto_devices t'). device_moves f f'" if "f \<in> set (crypto_devices t)" for f
    proof -
      have "device_moves f (link_device d at a f)"
        using dact d(2) by (auto simp: link_device_def linked_device_def device_moves_def status_rank_def activated_def crypto_status_defs)
      then show ?thesis using that by (auto simp: t' ds)
    qed
    show "\<exists>w'\<in>set (crypto_device_link_intents t'). intent_moves w w'" if "w \<in> set (crypto_device_link_intents t)" for w
    proof -
      have "intent_moves w (if w = z then approved_intent at a z else w)" using z(2) by (auto simp: intent_moves_def approved_intent_def)
      moreover have "(if w = z then approved_intent at a z else w) \<in> set (crypto_device_link_intents t')"
        using that by (auto simp: t' t1 xs)
      ultimately show ?thesis by blast
    qed
  qed (simp_all add: t' t1 rows_stay)
  ultimately show "registry_inv lib t' \<and> registry_evolves t t'" by simp
qed

end
