(* ===== verification/Crypto_Commits.thy ===== *)
theory Crypto_Commits
  imports Crypto_Approval
begin

text \<open>
  What the transactions of the registry commit. A \<open>registry_commit\<close> is what one transaction writes, applied to the tables as
  they are when it commits; of what the transaction read before, perhaps long before, the rule keeps the facts that no other
  commit can undo. A \<open>registry_run\<close> is any sequence of commits. It is what others may do between two statements of ours, and
  \<open>Crypto_World\<close> shows that each transaction of the registry, interrupted by runs of others, is a run itself: whichever
  transactions overlap, their commits in the order of committing are a run.
\<close>

section \<open>Commits\<close>

inductive registry_commit :: "crypto_lib \<Rightarrow> crypto_tables \<Rightarrow> crypto_tables \<Rightarrow> bool" for lib :: crypto_lib where
  commit_register: "CreateCryptoDevice_sql known d t = Inr (d', t1) \<Longrightarrow> CreateCryptoDeviceBundle b t1 = Inr (b', t') \<Longrightarrow>
    new_device_params t d b \<Longrightarrow> authentic lib b \<Longrightarrow> registry_commit lib t t'"
| commit_challenge: "UpsertCryptoDeviceBundlePublishChallenge c t = Inr (x, t') \<Longrightarrow> registry_commit lib t t'"
| commit_stale: "ExpireStaleCryptoDeviceLinkIntentsByUserID u at t = Inr ((), t') \<Longrightarrow> registry_commit lib t t'"
| commit_expire: "ExpireCryptoDeviceLinkIntentByIDAndUserID x u at t = Inr (y, t') \<Longrightarrow> registry_commit lib t t'"
| commit_revoke: "RevokeCryptoDeviceWithMetadata i u at reason actor t = Inr (d, t1) \<Longrightarrow> expire_seen seen i at t1 = Inr ((), t') \<Longrightarrow>
    registry_commit lib t t'"
| commit_intent: "CreateCryptoDeviceLinkIntent_sql known x t = Inr (y, t') \<Longrightarrow> ci_ApproverCryptoDeviceID x = None \<Longrightarrow>
    d \<in> set (crypto_devices t) \<Longrightarrow> cd_ID d = ci_PendingCryptoDeviceID x \<Longrightarrow> cd_UserID d = ci_UserID x \<Longrightarrow> registry_commit lib t t'"
| commit_publish: "find_current_bundle t i = Some c \<Longrightarrow> validateCryptoDeviceBundleConsistency lib input = Inr () \<Longrightarrow>
    cb_IdentityPublicKey c = bi_IdentityPublicKey input \<Longrightarrow> SupersedeCurrentCryptoDeviceBundle i at t = Inr ((), t1) \<Longrightarrow>
    CreateCryptoDeviceBundle (bundle_of i (cb_BundleVersion c + 1) input at) t1 = Inr (n, t2) \<Longrightarrow>
    UpdateCryptoDeviceBundleTracking i u (cb_BundleVersion c + 1) at t2 = Inr (e, t3) \<Longrightarrow>
    (if cd_Status e = CryptoDeviceStatusPendingLink then expire_seen seen i at else returnT ()) t3 = Inr ((), t4) \<Longrightarrow>
    DeleteCryptoDeviceBundlePublishChallengeByDeviceID i t4 = Inr ((), t') \<Longrightarrow> registry_commit lib t t'"
| commit_approve: "ApproveCryptoDeviceLinkIntentByIDAndUserID x u at a t = Inr (y, t1) \<Longrightarrow>
    ActivateCryptoDevice (ci_PendingCryptoDeviceID y) u at a t1 = Inr (d, t') \<Longrightarrow>
    e \<in> set (crypto_devices t) \<Longrightarrow> cd_ID e = a \<Longrightarrow> cd_UserID e = u \<Longrightarrow> activated e \<Longrightarrow> registry_commit lib t t'"

section \<open>Commits are steps\<close>

lemma update_expired:
  "ExpireCryptoDeviceLinkIntentByIDAndUserID x u at t = Inr (y, t') \<Longrightarrow>
   t' = t\<lparr>crypto_device_link_intents := update_rows (\<lambda>z. ci_ID z = x \<and> ci_UserID z = u \<and> pending_intent z) (expire_intent at)
            (crypto_device_link_intents t)\<rparr>"
  by (auto simp: ExpireCryptoDeviceLinkIntentByIDAndUserID_def bindS_Inr_iff update_one_Inr)

lemma input_of_bundle [simp]: "input_of (bundle_of i v input at) = input"
  by (simp add: input_of_def bundle_of_def)

text \<open>The writes of a publication, with the intents first.\<close>

lemma publish_writes:
  assumes inv: "registry_inv lib s" and c: "find_current_bundle s i = Some c"
    and auth: "validateCryptoDeviceBundleConsistency lib input = Inr ()"
    and key: "cb_IdentityPublicKey c = bi_IdentityPublicKey input"
    and sup: "SupersedeCurrentCryptoDeviceBundle i at s = Inr ((), t1)"
    and ins: "CreateCryptoDeviceBundle (bundle_of i (cb_BundleVersion c + 1) input at) t1 = Inr (n, t2)"
    and track: "UpdateCryptoDeviceBundleTracking i u (cb_BundleVersion c + 1) at t2 = Inr (e, t3)"
    and expire: "(if cd_Status e = CryptoDeviceStatusPendingLink then expire_seen seen i at else returnT ()) t3 = Inr ((), t4)"
    and del: "DeleteCryptoDeviceBundlePublishChallengeByDeviceID i t4 = Inr ((), t')"
  shows "registry_step_ok lib s t'" and "n \<in> set (crypto_device_bundles t')" and "n = bundle_of i (cb_BundleVersion c + 1) input at"
    and "e \<in> set (crypto_devices t')" and "cd_ID e = i \<and> cd_UserID e = u"
    and "\<forall>x\<in>set (crypto_device_bundle_publish_challenges t'). cc_CryptoDeviceID x \<noteq> i"
proof -
  let ?n = "bundle_of i (cb_BundleVersion c + 1) input at" and ?v = "cb_BundleVersion c + 1"
  from sup have t1: "t1 = s\<lparr>crypto_device_bundles := map (superseded i at) (crypto_device_bundles s)\<rparr>"
    by (simp add: SupersedeCurrentCryptoDeviceBundle_def update_rows_def superseded_def [abs_def])
  from ins have nn: "n = ?n" "bundle_check ?n" and t2: "t2 = t1\<lparr>crypto_device_bundles := crypto_device_bundles t1 @ [?n]\<rparr>"
    by (auto simp: CreateCryptoDeviceBundle_def split: if_splits)
  from track obtain d where d: "d \<in> set (crypto_devices t2)" "cd_ID d = i" "cd_UserID d = u" "crypto_device_check (tracking i u ?v at d)"
      "e = tracking i u ?v at d"
    and t3: "t3 = t2\<lparr>crypto_devices := map (tracking i u ?v at) (crypto_devices t2)\<rparr>"
    by (auto simp: UpdateCryptoDeviceBundleTracking_def bindS_Inr_iff update_one_Inr tracking_def [abs_def] update_rows_def
        dest!: find_SomeD device_row_checkD)
  let ?hit = "\<lambda>x. ci_PendingCryptoDeviceID x = i \<and> pending_intent x \<and> ci_ID x \<in> ci_ID ` set (crypto_device_link_intents seen) \<and>
    cd_Status d = CryptoDeviceStatusPendingLink"
  let ?xs = "update_rows ?hit (expire_intent at) (crypto_device_link_intents s)"
  let ?s = "s\<lparr>crypto_device_link_intents := ?xs\<rparr>"
  let ?u = "?s\<lparr>crypto_devices := map (tracking i u (cb_BundleVersion ?n) at) (crypto_devices ?s),
    crypto_device_bundles := map (superseded i at) (crypto_device_bundles ?s) @ [?n]\<rparr>"
  have "cd_Status e = cd_Status d" using d by (simp add: tracking_def)
  with expire t3 t2 t1 have t4: "t4 = ?u"
    by (auto simp: tx_run expire_seen_def update_rows_def bundle_of_def split: if_splits)
  from del have t': "t' = ?u\<lparr>crypto_device_bundle_publish_challenges :=
      filter (\<lambda>c. cc_CryptoDeviceID c \<noteq> i) (crypto_device_bundle_publish_challenges ?u)\<rparr>"
    by (simp add: DeleteCryptoDeviceBundlePublishChallengeByDeviceID_def t4)
  have one: "registry_step_ok lib s ?s" by (rule expire_step) simp
  have two: "registry_step_ok lib ?s ?u"
  proof (rule publish_step)
    show "registry_inv lib ?s" using one inv by (simp add: registry_step_ok_def)
    show "find_current_bundle ?s i = Some c" using c by (simp add: find_current_bundle_def)
    show "bundle_check ?n" by (rule nn(2))
    show "authentic lib ?n" using auth by (simp add: authentic_def)
    show "d \<in> set (crypto_devices ?s)" using d(1) by (simp add: t2 t1)
    show "crypto_device_check (tracking i u (cb_BundleVersion ?n) at d)" using d(4) by (simp add: bundle_of_def)
  qed (use key d in \<open>simp_all add: bundle_of_def\<close>)
  have "registry_step_ok lib ?u t'" unfolding t' by (rule delete_challenge_step)
  with step_ok_trans [OF one two] show "registry_step_ok lib s t'" by (rule step_ok_trans)
  show "n = ?n" by (rule nn(1))
  show "n \<in> set (crypto_device_bundles t')" by (simp add: t' nn(1))
  show "e \<in> set (crypto_devices t')" using d by (auto simp: t' t2 t1 bundle_of_def)
  show "cd_ID e = i \<and> cd_UserID e = u" using d by (simp add: tracking_def)
  show "\<forall>x\<in>set (crypto_device_bundle_publish_challenges t'). cc_CryptoDeviceID x \<noteq> i" by (simp add: t')
qed


lemma expire_seen_step: "expire_seen seen i at t = Inr (x, t') \<Longrightarrow> registry_step_ok lib t t'"
  by (auto simp: expire_seen_def intro: expire_step)

theorem commit_step: "registry_commit lib t t' \<Longrightarrow> registry_step_ok lib t t'"
proof (induction rule: registry_commit.induct)
  case (commit_stale u at t t')
  then show ?case by (auto simp: ExpireStaleCryptoDeviceLinkIntentsByUserID_def intro: expire_step)
next
  case (commit_expire x u at t y t')
  show ?case unfolding update_expired [OF commit_expire] by (rule expire_step) simp
next
  case (commit_revoke i u at reason actor t d t1 seen t')
  then show ?case by (blast intro: step_ok_trans revoke_step expire_seen_step)
next
  case (commit_publish t i c input at t1 n t2 u e t3 seen t4 t')
  then show ?case unfolding registry_step_ok_def using publish_writes(1) registry_step_ok_def by blast
qed (blast intro: register_step upsert_challenge_step intent_step approve_step)+

section \<open>Runs\<close>

definition registry_run :: "crypto_lib \<Rightarrow> crypto_tables \<Rightarrow> crypto_tables \<Rightarrow> bool" where
  "registry_run lib = (registry_commit lib)\<^sup>*\<^sup>*"

lemma run_refl [simp]: "registry_run lib t t"
  by (simp add: registry_run_def)

lemma run_trans: "registry_run lib t s \<Longrightarrow> registry_run lib s u \<Longrightarrow> registry_run lib t u"
  unfolding registry_run_def by (rule rtranclp_trans)

lemma run_commit: "registry_commit lib t u \<Longrightarrow> registry_run lib t u"
  unfolding registry_run_def by (rule r_into_rtranclp)

theorem run_step: "registry_run lib t u \<Longrightarrow> registry_step_ok lib t u"
  unfolding registry_run_def
  by (induction rule: rtranclp_induct) (auto intro: step_ok_trans commit_step)

end
