(* ===== verification/Crypto_Transactions.thy ===== *)
theory Crypto_Transactions
  imports Crypto_Commits
begin

text \<open>
  Every transaction of the registry is a run of its commits when what the others do in between are runs: it keeps the invariant
  and moves the rows forward. What a successful approval and a successful publication have checked is read off here too.
\<close>

definition registry_goes :: "crypto_lib \<Rightarrow> crypto_tables \<Rightarrow> crypto_tables \<Rightarrow> bool" where
  "registry_goes lib t t' \<longleftrightarrow> (registry_inv lib t \<longrightarrow> registry_run lib t t')"

lemma goes_later: "registry_inv lib t \<Longrightarrow> registry_goes lib t s \<Longrightarrow> registry_inv lib s \<and> registry_evolves t s"
  unfolding registry_goes_def using run_step registry_step_ok_def by blast

lemma goes_step: "registry_goes lib t s \<Longrightarrow> registry_step_ok lib t s"
  using goes_later by (simp add: registry_step_ok_def)

lemma goes_refl [simp]: "registry_goes lib t t"
  by (simp add: registry_goes_def)

lemma goes_trans: "registry_goes lib t s \<Longrightarrow> registry_goes lib s u \<Longrightarrow> registry_goes lib t u"
  using goes_later run_trans unfolding registry_goes_def by blast

lemma goes_commit: "registry_commit lib t u \<Longrightarrow> registry_goes lib t u"
  by (simp add: registry_goes_def run_commit)

text \<open>What others do in between is a run, on consistent tables.\<close>

definition lawful :: "crypto_lib \<Rightarrow> interference \<Rightarrow> bool" where
  "lawful lib b \<longleftrightarrow> (\<forall>k s. registry_goes lib s (b k s))"

lemma lawful_step: "lawful lib b \<Longrightarrow> registry_goes lib (b k s) u \<Longrightarrow> registry_goes lib s u"
  unfolding lawful_def by (blast intro: goes_trans)

lemma lawful_after: "lawful lib b \<Longrightarrow> registry_goes lib t s \<Longrightarrow> registry_goes lib t (b k s)"
  unfolding lawful_def by (blast intro: goes_trans)

lemma lawful_holding: "lawful lib b \<Longrightarrow> registry_goes lib s (holding kept (b k) s)"
  by (simp add: holding_def lawful_def)

lemma query_Inr: "query m t = Inr r \<longleftrightarrow> m t = Inr r"
  by (simp add: query_def mapErrT_Inr_iff)

lemma with_uuid_Inr: "with_uuid parse v m t = Inr r \<longleftrightarrow> (\<exists>i. parse v = Some i \<and> m i t = Inr r)"
  by (auto simp: with_uuid_def bindT_Inr_iff liftT_Inr_iff mustParseUUID_def tx_run split: option.splits)

lemma commits_Inr: "after_commits f m t = m (f t)" "others_commit f t = Inr ((), f t)"
  by (simp_all add: after_commits_def others_commit_def)

lemma snapshot_Inr: "snapshot t = Inr r \<longleftrightarrow> r = (t, t)"
  by (auto simp: snapshot_def)

lemma query_if: "(if c then query m else returnT x) t = Inr r \<longleftrightarrow> (if c then m else returnT x) t = Inr r"
  by (simp add: query_Inr)

lemma one_row_Inr: "one_row r t = Inr (x, t') \<longleftrightarrow> r = Some x \<and> t' = t"
  by (auto simp: one_row_def tx_run split: option.splits)

lemma tx_if: "(if c then m else n) t = (if c then m t else n t)"
  by simp

lemma guard_Inr: "(if c then failT e else m) t = Inr r \<longleftrightarrow> \<not> c \<and> m t = Inr r"
  by (simp add: tx_run)

lemmas run_simps = bindT_Inr_iff query_Inr with_uuid_Inr commits_Inr snapshot_Inr one_row_Inr liftT_Inr_iff tx_run tx_if Let_def

section \<open>Reads\<close>

lemma get_device_Inr:
  "GetCryptoDeviceByIDAndUserID i u t = Inr (d, t') \<longleftrightarrow>
     t' = t \<and> find (\<lambda>d. cd_ID d = i \<and> cd_UserID d = u) (crypto_devices t) = Some d"
  by (auto simp: GetCryptoDeviceByIDAndUserID_def one_row_Inr)

lemma get_device_mem:
  "GetCryptoDeviceByIDAndUserID i u t = Inr (d, t') \<Longrightarrow> t' = t \<and> d \<in> set (crypto_devices t) \<and> cd_ID d = i \<and> cd_UserID d = u"
  by (auto simp: get_device_Inr dest: find_SomeD)

lemma get_bundle_Inr:
  "GetCurrentCryptoDeviceBundleByDeviceID i t = Inr (c, t') \<longleftrightarrow> t' = t \<and> find_current_bundle t i = Some c"
  by (auto simp: GetCurrentCryptoDeviceBundleByDeviceID_def one_row_Inr)

lemma get_intent_mem:
  "GetCryptoDeviceLinkIntentByIDAndUserID x u t = Inr (y, t') \<Longrightarrow>
     t' = t \<and> y \<in> set (crypto_device_link_intents t) \<and> ci_ID y = x \<and> ci_UserID y = u"
  by (auto simp: GetCryptoDeviceLinkIntentByIDAndUserID_def one_row_Inr dest: find_SomeD)

text \<open>A device that was read is still there later, and what was activated stays so.\<close>

lemma device_later:
  assumes "registry_evolves t s" and "d \<in> set (crypto_devices t)"
  obtains e where "e \<in> set (crypto_devices s)" and "device_moves d e"
  using assms by (auto simp: registry_evolves_def)

lemma device_moves_fields:
  "device_moves d e \<Longrightarrow> cd_ID e = cd_ID d \<and> cd_UserID e = cd_UserID d \<and> (activated d \<longrightarrow> activated e)"
  by (auto simp: device_moves_def activated_def)

section \<open>Registration\<close>

definition device_params :: "crypto_lib \<Rightarrow> bool \<Rightarrow> CreateCryptoDeviceParams \<Rightarrow> bool" where
  "device_params lib first params \<longleftrightarrow>
     cd_LinkedByCryptoDeviceID (cp_Device params) = None \<and> cd_LastBundleVersion (cp_Device params) = Some 1 \<and>
     (\<not> first \<longrightarrow> cd_ActivatedAt (cp_Device params) = None) \<and>
     authentic lib (cp_Bundle params) \<and> cb_BundleVersion (cp_Bundle params) = 1 \<and> cb_SupersededAt (cp_Bundle params) = None"

lemma create_tx_goes:
  assumes run: "createCryptoDevice_tx parse known params first t = Inr (x, t')" and p: "device_params lib first params"
  shows "registry_goes lib t t'"
proof -
  let ?d = "cp_Device params"
  from run obtain u i d' t1 b'
    where first: "first \<Longrightarrow> \<forall>e\<in>set (crypto_devices t). cd_UserID e \<noteq> u"
      and d: "CreateCryptoDevice_sql known (?d\<lparr>cd_ID := i, cd_UserID := u, cd_LinkedByCryptoDeviceID := None\<rparr>) t = Inr (d', t1)"
      and b: "CreateCryptoDeviceBundle ((cp_Bundle params)\<lparr>cb_CryptoDeviceID := i\<rparr>) t1 = Inr (b', t')"
    using p by (auto simp: createCryptoDevice_tx_def run_simps device_params_def LockCryptoDeviceRegistryOwner_def
        GetCryptoDeviceRegistryStatsByUserID_def filter_empty_conv split: if_splits)
  have d_same: "d' = ?d\<lparr>cd_ID := i, cd_UserID := u, cd_LinkedByCryptoDeviceID := None\<rparr>"
    using d by (auto simp: CreateCryptoDevice_sql_def bindS_Inr_iff split: if_splits)
  have "authentic lib ((cp_Bundle params)\<lparr>cb_CryptoDeviceID := i\<rparr>)"
    using p by (simp add: device_params_def authentic_def input_of_def)
  moreover have "new_device_params t d' ((cp_Bundle params)\<lparr>cb_CryptoDeviceID := i\<rparr>)"
    using p first by (cases first) (auto simp: new_device_params_def device_params_def d_same activated_def)
  ultimately show ?thesis using commit_register [OF d [folded d_same] b] by (blast intro: goes_commit)
qed

section \<open>Revocation, challenges, expiry\<close>

lemma expire_now: "ExpirePendingCryptoDeviceLinkIntentsByDeviceID i at t = expire_seen t i at t"
proof -
  have "update_rows (\<lambda>x. ci_PendingCryptoDeviceID x = i \<and> pending_intent x) c xs =
      update_rows (\<lambda>x. ci_PendingCryptoDeviceID x = i \<and> pending_intent x \<and> ci_ID x \<in> ci_ID ` set xs) c xs" for c xs
    by (simp add: update_rows_def)
  then show ?thesis by (simp add: ExpirePendingCryptoDeviceLinkIntentsByDeviceID_def expire_seen_def)
qed

lemma revoke_tx_goes:
  assumes law: "lawful lib b" and run: "RevokeCryptoDevice_tx parse b params t = Inr (x, t')"
  shows "registry_goes lib t t'"
proof -
  from run consider "t' = b 0 t" | i u d t1 where
      "RevokeCryptoDeviceWithMetadata i u (rp_RevokedAt params) (rp_RevocationReason params)
         (if rp_RevokedByActor params = [] then None else Some (rp_RevokedByActor params)) (b 1 (b 0 t)) = Inr (d, t1)"
      "expire_seen t1 i (rp_RevokedAt params) t1 = Inr ((), t')"
    by (auto simp: RevokeCryptoDevice_tx_def run_simps expire_now dest!: get_device_mem split: if_splits)
  then show ?thesis
  proof cases
    case 1
    then show ?thesis using law by (simp add: lawful_def)
  next
    case 2
    then have "registry_goes lib (b 1 (b 0 t)) t'" by (blast intro: goes_commit commit_revoke)
    then show ?thesis by (blast intro: lawful_step [OF law])
  qed
qed

lemma challenge_tx_goes:
  "CreateCryptoDeviceBundlePublishChallenge_tx parse c t = Inr (x, t') \<Longrightarrow> registry_goes lib t t'"
  by (auto simp: CreateCryptoDeviceBundlePublishChallenge_tx_def run_simps intro: goes_commit commit_challenge)

lemma stale_goes: "ExpireStaleCryptoDeviceLinkIntentsByUserID u at t = Inr (x, t') \<Longrightarrow> registry_goes lib t t'"
  by (auto intro: goes_commit commit_stale)

lemma expire_tx_goes:
  assumes law: "lawful lib b" and run: "ExpireCryptoDeviceLinkIntent_tx parse b userID x at t = Inr (y, t')"
  shows "registry_goes lib t t'"
proof -
  from run consider "t' = b 0 t" | i u where "ExpireCryptoDeviceLinkIntentByIDAndUserID i u at (b 1 (b 0 t)) = Inr (y, t')"
    by (auto simp: ExpireCryptoDeviceLinkIntent_tx_def run_simps dest!: get_intent_mem split: if_splits)
  then show ?thesis
  proof cases
    case 1
    then show ?thesis using law by (simp add: lawful_def)
  next
    case 2
    have "registry_goes lib (b 1 (b 0 t)) t'" using 2 by (blast intro: goes_commit commit_expire)
    then show ?thesis by (blast intro: lawful_step [OF law])
  qed
qed

section \<open>New link intents\<close>

lemma attempt_Inr:
  "attemptT m k t = Inr r \<longleftrightarrow> (\<exists>e. m t = Inl e \<and> k (Inl e) t = Inr r) \<or> (\<exists>x s. m t = Inr (x, s) \<and> k (Inr x) s = Inr r)"
  by (auto simp: attemptT_def split: sum.splits)

definition intent_params :: "CryptoDeviceLinkIntent \<Rightarrow> bool" where
  "intent_params x \<longleftrightarrow> ci_Status x = CryptoDeviceLinkIntentStatusPending \<and> ci_ApproverCryptoDeviceID x = None"

lemma intent_tx_parts:
  assumes run: "CreateCryptoDeviceLinkIntent_tx parse known b x t = Inr (y, t')" and none: "ci_ApproverCryptoDeviceID x = None"
  obtains u i j t0 d where "ExpireStaleCryptoDeviceLinkIntentsByUserID u (ci_CreatedAt x) t = Inr ((), t0)"
    and "d \<in> set (crypto_devices (b 0 t0))" "cd_ID d = i" "cd_UserID d = u"
    and "CreateCryptoDeviceLinkIntent_sql known (x\<lparr>ci_ID := j, ci_UserID := u, ci_PendingCryptoDeviceID := i,
           ci_ApproverCryptoDeviceID := None\<rparr>) (b 3 (b 2 (b 1 (b 0 t0)))) = Inr (y, t')"
  using run none
  by (clarsimp simp: CreateCryptoDeviceLinkIntent_tx_def bindT_Inr_iff query_Inr with_uuid_Inr commits_Inr tx_run guard_Inr Let_def
      liftT_Inr_iff one_row_Inr attempt_Inr get_bundle_Inr GetPendingCryptoDeviceLinkIntentByDeviceID_def dest!: get_device_mem)

lemma intent_tx_goes:
  assumes law: "lawful lib b" and run: "CreateCryptoDeviceLinkIntent_tx parse known b x t = Inr (y, t')"
    and p: "intent_params x"
  shows "registry_goes lib t t'"
proof -
  from p have none: "ci_ApproverCryptoDeviceID x = None" by (simp add: intent_params_def)
  obtain u i j t0 d
    where stale: "ExpireStaleCryptoDeviceLinkIntentsByUserID u (ci_CreatedAt x) t = Inr ((), t0)"
      and d: "d \<in> set (crypto_devices (b 0 t0))" "cd_ID d = i" "cd_UserID d = u"
      and ins: "CreateCryptoDeviceLinkIntent_sql known (x\<lparr>ci_ID := j, ci_UserID := u, ci_PendingCryptoDeviceID := i,
           ci_ApproverCryptoDeviceID := None\<rparr>) (b 3 (b 2 (b 1 (b 0 t0)))) = Inr (y, t')"
    by (rule intent_tx_parts [OF run none])
  have "registry_goes lib (b 0 t0) t'"
    unfolding registry_goes_def
  proof (rule impI)
    assume inv: "registry_inv lib (b 0 t0)"
    let ?s = "b 3 (b 2 (b 1 (b 0 t0)))"
    have step: "registry_goes lib (b 0 t0) ?s" by (intro lawful_after [OF law] goes_refl)
    with inv obtain e where e: "e \<in> set (crypto_devices ?s)" "device_moves d e"
      using goes_later by (blast elim: device_later [OF _ d(1)])
    have "registry_goes lib ?s t'"
      using device_moves_fields [OF e(2)] d by (intro goes_commit commit_intent [OF ins _ e(1)]) simp_all
    with step inv show "registry_run lib (b 0 t0) t'"
      using goes_trans unfolding registry_goes_def by blast
  qed
  then show ?thesis using stale_goes [OF stale] by (blast intro: goes_trans lawful_step [OF law])
qed

section \<open>Publication\<close>

lemma publish_tx_parts:
  assumes run: "PublishCryptoDeviceBundle_tx parse lib b userID input at t = Inr (r, t')"
  obtains i u d c s v t1 t2 t3 t4 n e where "parse (pi_CryptoDeviceID input) = Some i" "parse userID = Some u"
    and "d \<in> set (crypto_devices (b 0 t))" "cd_ID d = i" "cd_UserID d = u" "cd_Status d \<noteq> CryptoDeviceStatusRevoked"
    and "find_current_bundle (b 1 (b 0 t)) i = Some c" "cb_IdentityPublicKey c = bi_IdentityPublicKey (pi_Bundle input)"
    and "(if cd_Status d = CryptoDeviceStatusActive then check_publish_proof lib b i c input at else returnT ()) (b 1 (b 0 t)) = Inr ((), s)"
    and "v = holding (publication_locks i) (b 4) (b 3 s)" and "SupersedeCurrentCryptoDeviceBundle i at v = Inr ((), t1)"
    and "CreateCryptoDeviceBundle (bundle_of i (cb_BundleVersion c + 1) (pi_Bundle input) at) t1 = Inr (n, t2)"
    and "UpdateCryptoDeviceBundleTracking i u (cb_BundleVersion c + 1) at t2 = Inr (e, t3)"
    and "(if cd_Status e = CryptoDeviceStatusPendingLink then expire_seen (b 3 s) i at else returnT ()) t3 = Inr ((), t4)"
    and "DeleteCryptoDeviceBundlePublishChallengeByDeviceID i t4 = Inr ((), t')" "r = (e, n)"
  using run
  by (clarsimp simp: PublishCryptoDeviceBundle_tx_def bindT_Inr_iff query_Inr with_uuid_Inr commits_Inr snapshot_Inr tx_run guard_Inr Let_def
      get_bundle_Inr query_if dest!: get_device_mem split del: if_split)

lemma check_proof_parts:
  assumes run: "check_publish_proof lib b i c input at t = Inr (x, s)"
  obtains evidence challenge where "pi_Proof input = Some evidence" "s = b 2 t"
    and "challenge \<in> set (crypto_device_bundle_publish_challenges s)" "cc_CryptoDeviceID challenge = i"
    and "cc_ExpiresAt challenge > at" "cc_CurrentBundleVersion challenge = cb_BundleVersion c"
      "cc_CurrentBundleDigest challenge = cb_BundleDigest c"
    and "publish_proof_matches (pi_CryptoDeviceID input) c challenge (pi_Bundle input) (bpp_Payload evidence) at"
    and "VerifyCryptoDeviceBundlePublishSignature lib (cb_IdentityPublicKey c) evidence = Inr ()"
  using run
  by (auto simp: check_publish_proof_def bindT_Inr_iff query_Inr commits_Inr tx_run tx_if attempt_Inr one_row_Inr liftT_Inr_iff
      GetCryptoDeviceBundlePublishChallengeByDeviceID_def dest!: find_SomeD split: option.splits if_split_asm)

lemma moved_current:
  assumes ev: "registry_evolves t s" and ok: "bundles_ok lib (crypto_device_bundles t)" "bundles_ok lib (crypto_device_bundles s)"
    and c: "find_current_bundle t i = Some c"
  obtains c' where "c' \<in> set (crypto_device_bundles s)" "cb_CryptoDeviceID c' = i" "cb_BundleVersion c' = cb_BundleVersion c"
    "cb_IdentityPublicKey c' = cb_IdentityPublicKey c" "cb_SupersededAt c' = None \<longrightarrow> c' = c"
proof -
  from c ok(1) have cc: "c \<in> set (crypto_device_bundles t)" "cb_CryptoDeviceID c = i" "cb_SupersededAt c = None"
    by (simp_all add: find_current_bundle_iff)
  with ev obtain c' where c': "c' \<in> set (crypto_device_bundles s)" and "bundle_moves c c'" by (auto simp: registry_evolves_def)
  then have eq: "c'\<lparr>cb_SupersededAt := None\<rparr> = c" using cc(3) by (cases c) (simp add: bundle_moves_def)
  have keep: "cb_CryptoDeviceID (c'\<lparr>cb_SupersededAt := None\<rparr>) = cb_CryptoDeviceID c'"
      "cb_BundleVersion (c'\<lparr>cb_SupersededAt := None\<rparr>) = cb_BundleVersion c'"
      "cb_IdentityPublicKey (c'\<lparr>cb_SupersededAt := None\<rparr>) = cb_IdentityPublicKey c'" by simp_all
  have "cb_SupersededAt c' = None \<longrightarrow> c'\<lparr>cb_SupersededAt := None\<rparr> = c'" by (cases c') simp
  with keep show thesis unfolding eq using c' cc(2) by (intro that) auto
qed

lemma bundle_moves_key:
  "bundle_moves b b' \<Longrightarrow> cb_CryptoDeviceID b' = cb_CryptoDeviceID b \<and> cb_BundleVersion b' = cb_BundleVersion b \<and>
     cb_BundleDigest b' = cb_BundleDigest b"
  by (cases b, cases b') (simp add: bundle_moves_def)

lemma versions_below:
  assumes "registry_inv lib s \<and> registry_evolves t s" and c: "find_current_bundle s i = Some c"
    and x: "x \<in> set (crypto_device_bundles t)" "cb_CryptoDeviceID x = i"
  shows "cb_BundleVersion x \<le> cb_BundleVersion c"
proof -
  from assms(1) have ok: "bundles_ok lib (crypto_device_bundles s)" by (simp add: registry_inv_def)
  from assms(1) x(1) obtain y where y: "y \<in> set (crypto_device_bundles s)" "bundle_moves x y" by (auto simp: registry_evolves_def)
  then have "cb_CryptoDeviceID y = cb_CryptoDeviceID x" "cb_BundleVersion y = cb_BundleVersion x"
    by (simp_all add: bundle_moves_key)
  with ok y(1) x(2) c show ?thesis unfolding find_current_bundle_iff [OF ok] bundles_ok_def by metis
qed

text \<open>The version a publication read is still the current one when it writes: otherwise the next version exists.\<close>

lemma publish_current:
  assumes inv: "registry_inv lib t" "registry_inv lib s" and ev: "registry_evolves t s" and c: "find_current_bundle t i = Some c"
    and d: "d \<in> set (crypto_devices s)" "cd_ID d = i"
    and fresh: "\<And>b. b \<in> set (crypto_device_bundles s) \<Longrightarrow> cb_CryptoDeviceID b = i \<Longrightarrow> cb_BundleVersion b \<noteq> cb_BundleVersion c + 1"
  shows "find_current_bundle s i = Some c"
proof -
  have ok: "bundles_ok lib (crypto_device_bundles t)" "bundles_ok lib (crypto_device_bundles s)"
    using inv by (simp_all add: registry_inv_def)
  obtain c' where c': "c' \<in> set (crypto_device_bundles s)" "cb_CryptoDeviceID c' = i" "cb_BundleVersion c' = cb_BundleVersion c"
      "cb_SupersededAt c' = None \<longrightarrow> c' = c"
    by (rule moved_current [OF ev ok c])
  from inv(2) d obtain e where e: "e \<in> set (crypto_device_bundles s)" "cb_CryptoDeviceID e = i" "cb_SupersededAt e = None"
    by (auto simp: registry_inv_def tracked_def)
  have le: "cb_BundleVersion c' \<le> cb_BundleVersion e" using ok(2) c' e unfolding bundles_ok_def by metis
  have "cb_BundleVersion e = cb_BundleVersion c'"
  proof (rule ccontr)
    assume "cb_BundleVersion e \<noteq> cb_BundleVersion c'"
    with le have "cb_BundleVersion c' + 1 \<le> cb_BundleVersion e" by simp
    moreover have "1 \<le> cb_BundleVersion c' + 1" using ok(2) c'(1) unfolding bundles_ok_def by force
    ultimately have "(i, cb_BundleVersion c' + 1) \<in> bundle_key ` set (crypto_device_bundles s)"
      using ok(2) e(1,2) unfolding bundles_ok_def by blast
    then obtain b where "b \<in> set (crypto_device_bundles s)" "bundle_key b = (i, cb_BundleVersion c' + 1)" by auto
    with fresh [of b] c'(3) show False by (simp add: bundle_key_def)
  qed
  with bundles_same [OF ok(2) e(1) c'(1)] e c' have "e = c" by (auto simp: bundle_key_def)
  with e ok(2) show ?thesis by (simp add: find_current_bundle_iff)
qed

text \<open>What a publication did. \<open>c\<close> is the bundle it replaced; a device that was activated before needed a proof.\<close>

definition publication ::
    "crypto_lib \<Rightarrow> uuid \<Rightarrow> PublishCryptoDeviceBundleInput \<Rightarrow> int \<Rightarrow> CryptoDeviceBundle \<Rightarrow> CryptoDevice \<Rightarrow> CryptoDeviceBundle \<Rightarrow>
     crypto_tables \<Rightarrow> bool" where
  "publication lib i input at c e n t' \<longleftrightarrow>
     n = bundle_of i (cb_BundleVersion c + 1) (pi_Bundle input) at \<and> find_current_bundle t' i = Some n \<and>
     e \<in> set (crypto_devices t') \<and> cd_ID e = i \<and>
     (\<forall>b\<in>set (crypto_device_bundles t'). cb_CryptoDeviceID b = i \<longrightarrow>
        cb_IdentityPublicKey b = bi_IdentityPublicKey (pi_Bundle input)) \<and>
     (\<forall>x\<in>set (crypto_device_bundle_publish_challenges t'). cc_CryptoDeviceID x \<noteq> i)"

definition publish_evidence :: "crypto_lib \<Rightarrow> PublishCryptoDeviceBundleInput \<Rightarrow> CryptoDeviceBundle \<Rightarrow> bool" where
  "publish_evidence lib input c \<longleftrightarrow>
     (\<exists>p. pi_Proof input = Some p \<and>
        VerifyCryptoDeviceBundlePublishSignature lib (bi_IdentityPublicKey (pi_Bundle input)) p = Inr () \<and>
        pp_CryptoDeviceID (bpp_Payload p) = pi_CryptoDeviceID input \<and>
        pp_PreviousBundleVersion (bpp_Payload p) = cb_BundleVersion c \<and>
        pp_PreviousBundleDigest (bpp_Payload p) = cb_BundleDigest c \<and>
        pp_NewBundleDigest (bpp_Payload p) = bi_BundleDigest (pi_Bundle input))"

lemma status_after_activation:
  assumes "device_moves d e" and "crypto_device_check d" and "activated d" and "cd_Status e \<noteq> CryptoDeviceStatusRevoked"
    and "crypto_device_check e"
  shows "cd_Status e = CryptoDeviceStatusActive"
proof -
  have "activated e" using assms(1,3) by (simp add: device_moves_def activated_def)
  with assms(4,5) show ?thesis by (auto simp: crypto_device_check_def activated_def)
qed

text \<open>A revoked device is still there and revoked later.\<close>

definition not_revoked :: "crypto_tables \<Rightarrow> uuid \<Rightarrow> bool" where
  "not_revoked t i \<longleftrightarrow> (\<forall>d\<in>set (crypto_devices t). cd_ID d = i \<longrightarrow> cd_Status d \<noteq> CryptoDeviceStatusRevoked)"

lemma revoked_later:
  assumes "registry_inv lib s" and "registry_evolves t s" and "not_revoked s i"
  shows "not_revoked t i"
  unfolding not_revoked_def
proof (intro ballI impI notI)
  fix d assume d: "d \<in> set (crypto_devices t)" "cd_ID d = i" "cd_Status d = CryptoDeviceStatusRevoked"
  obtain e where e: "e \<in> set (crypto_devices s)" "device_moves d e" by (rule device_later [OF assms(2) d(1)])
  have "crypto_device_check e" using assms(1) e(1) by (simp add: registry_inv_def registered_devices_ok_def)
  moreover have "status_rank e \<ge> 2" using e(2) d(3) by (auto simp: device_moves_def status_rank_def crypto_status_defs)
  ultimately have "cd_Status e = CryptoDeviceStatusRevoked"
    by (auto simp: crypto_device_check_def status_rank_def split: if_splits)
  then show False using assms(3) e(1) d(2) device_moves_fields [OF e(2)] by (auto simp: not_revoked_def)
qed

lemma not_revoked_at:
  "registry_inv lib t \<Longrightarrow> d \<in> set (crypto_devices t) \<Longrightarrow> cd_Status d \<noteq> CryptoDeviceStatusRevoked \<Longrightarrow> not_revoked t (cd_ID d)"
  unfolding not_revoked_def registry_inv_def using devices_same by blast

lemma publish_tx_result:
  assumes law: "lawful lib b" and inv: "registry_inv lib t"
    and auth: "validateCryptoDeviceBundleConsistency lib (pi_Bundle input) = Inr ()"
    and run: "PublishCryptoDeviceBundle_tx parse lib b userID input at t = Inr ((e, n), t')"
  obtains i c where "parse (pi_CryptoDeviceID input) = Some i" and "publication lib i input at c e n t'"
    and "\<exists>d\<in>set (crypto_devices t). cd_ID d = i \<and> activated d \<Longrightarrow> publish_evidence lib input c"
    and "\<forall>x\<in>set (crypto_device_bundles t). cb_CryptoDeviceID x = i \<longrightarrow> cb_BundleVersion x \<le> cb_BundleVersion c"
    and "not_revoked t i" and "registry_goes lib t t'"
proof -
  obtain i u d c s v t1 t2 t3 t4 n' e' where i: "parse (pi_CryptoDeviceID input) = Some i"
    and d: "d \<in> set (crypto_devices (b 0 t))" "cd_ID d = i" "cd_UserID d = u" "cd_Status d \<noteq> CryptoDeviceStatusRevoked"
    and c: "find_current_bundle (b 1 (b 0 t)) i = Some c" "cb_IdentityPublicKey c = bi_IdentityPublicKey (pi_Bundle input)"
    and pf: "(if cd_Status d = CryptoDeviceStatusActive then check_publish_proof lib b i c input at else returnT ()) (b 1 (b 0 t)) = Inr ((), s)"
    and v: "v = holding (publication_locks i) (b 4) (b 3 s)"
    and writes: "SupersedeCurrentCryptoDeviceBundle i at v = Inr ((), t1)"
      "CreateCryptoDeviceBundle (bundle_of i (cb_BundleVersion c + 1) (pi_Bundle input) at) t1 = Inr (n', t2)"
      "UpdateCryptoDeviceBundleTracking i u (cb_BundleVersion c + 1) at t2 = Inr (e', t3)"
      "(if cd_Status e' = CryptoDeviceStatusPendingLink then expire_seen (b 3 s) i at else returnT ()) t3 = Inr ((), t4)"
      "DeleteCryptoDeviceBundlePublishChallengeByDeviceID i t4 = Inr ((), t')" and r: "(e, n) = (e', n')"
    by (rule publish_tx_parts [OF run])
  have s: "s = b 1 (b 0 t) \<or> s = b 2 (b 1 (b 0 t))"
    using pf by (auto simp: tx_run elim: check_proof_parts split: if_splits)
  have S0: "registry_goes lib t (b 0 t)" by (intro lawful_after [OF law] goes_refl)
  have S1: "registry_goes lib t (b 1 (b 0 t))" by (intro lawful_after [OF law] goes_refl)
  have "registry_goes lib (b 1 (b 0 t)) (b 3 s)"
    by (rule disjE [OF s]) (simp_all del: One_nat_def add: lawful_after [OF law])
  then have S13: "registry_goes lib (b 1 (b 0 t)) v" unfolding v using lawful_holding [OF law] by (blast intro: goes_trans)
  have inv1: "registry_inv lib (b 1 (b 0 t))" using goes_later [OF inv S1] by simp
  have inv3: "registry_inv lib v" "registry_evolves (b 1 (b 0 t)) v" using goes_later [OF inv1 S13] by simp_all
  have keys: "cb_BundleVersion x \<noteq> cb_BundleVersion c + 1"
    if "x \<in> set (crypto_device_bundles v)" "cb_CryptoDeviceID x = i" for x
  proof
    assume "cb_BundleVersion x = cb_BundleVersion c + 1"
    moreover have "superseded i at x \<in> set (crypto_device_bundles t1)"
      using writes(1) that(1) by (auto simp: SupersedeCurrentCryptoDeviceBundle_def update_rows_def superseded_def [abs_def])
    ultimately show False using writes(2) that(2)
      by (auto simp: CreateCryptoDeviceBundle_def bundle_of_def split: if_splits)
  qed
  have "d' \<in> set (crypto_devices v) \<Longrightarrow> cd_ID d' = i \<Longrightarrow> find_current_bundle v i = Some c" for d'
    by (rule publish_current [OF inv1 inv3(1) inv3(2) c(1) _ _ keys])
  moreover obtain d' where "d' \<in> set (crypto_devices v)" "device_moves d d'"
    using goes_later [OF _ goes_trans [OF _ S13], of "b 0 t"] lawful_after [OF law goes_refl, of "b 0 t" 1]
      goes_later [OF inv S0] device_later [OF _ d(1), of v] by blast
  ultimately have cur: "find_current_bundle v i = Some c" using d(2) device_moves_fields by metis
  note W = publish_writes [OF inv3(1) cur auth c(2) writes]
  have "registry_goes lib v t'" by (rule goes_commit [OF commit_publish [OF cur auth c(2) writes]])
  with S1 S13 have step: "registry_goes lib t t'" by (blast intro: goes_trans)
  then have t': "registry_inv lib t' \<and> registry_evolves t t'" using goes_later inv by blast
  then have ok': "bundles_ok lib (crypto_device_bundles t')" by (simp add: registry_inv_def)
  have nf: "cb_CryptoDeviceID n' = i" "cb_SupersededAt n' = None" "cb_IdentityPublicKey n' = bi_IdentityPublicKey (pi_Bundle input)"
    by (simp_all add: W(3) bundle_of_def)
  then have "find_current_bundle t' i = Some n'" using W(2) by (simp add: find_current_bundle_iff [OF ok'])
  moreover have "\<forall>x\<in>set (crypto_device_bundles t'). cb_CryptoDeviceID x = i \<longrightarrow> cb_IdentityPublicKey x = bi_IdentityPublicKey (pi_Bundle input)"
    using ok' W(2) nf unfolding bundles_ok_def by metis
  ultimately have pub: "publication lib i input at c e n t'"
    using W(3-6) r by (simp add: publication_def)
  have "publish_evidence lib input c" if "\<exists>d\<in>set (crypto_devices t). cd_ID d = i \<and> activated d"
  proof -
    from that obtain f where f: "f \<in> set (crypto_devices t)" "cd_ID f = i" "activated f" by blast
    from goes_later [OF inv S0] obtain g where g: "g \<in> set (crypto_devices (b 0 t))" "device_moves f g"
      using device_later [OF _ f(1)] by blast
    have devs: "registered_devices_ok (crypto_devices t)" "registered_devices_ok (crypto_devices (b 0 t))"
      using inv goes_later [OF inv S0] by (simp_all add: registry_inv_def)
    have "g = d" using devices_same [OF devs(2) g(1) d(1)] device_moves_fields [OF g(2)] f(2) d(2) by simp
    then have "cd_Status d = CryptoDeviceStatusActive"
      using status_after_activation [OF g(2) _ f(3)] devs f(1) d(1,4) by (simp add: registered_devices_ok_def)
    with pf have chk: "check_publish_proof lib b i c input at (b 1 (b 0 t)) = Inr ((), s)" by simp
    show ?thesis
      by (rule check_proof_parts [OF chk]) (use c(2) in \<open>auto simp: publish_evidence_def publish_proof_matches_def\<close>)
  qed
  moreover have "\<forall>x\<in>set (crypto_device_bundles t). cb_CryptoDeviceID x = i \<longrightarrow> cb_BundleVersion x \<le> cb_BundleVersion c"
    using versions_below [OF goes_later [OF inv goes_trans [OF S1 S13]] cur] by blast
  moreover have "not_revoked t i"
    using revoked_later [of lib "b 0 t" t] goes_later [OF inv S0] not_revoked_at [OF _ d(1,4)] d(2) by blast
  ultimately show thesis using that i pub step by blast
qed

lemma publish_tx_goes:
  assumes "lawful lib b" and "validateCryptoDeviceBundleConsistency lib (pi_Bundle input) = Inr ()"
    and "PublishCryptoDeviceBundle_tx parse lib b userID input at t = Inr (r, t')"
  shows "registry_goes lib t t'"
proof -
  obtain e n where "r = (e, n)" by fastforce
  with assms have "registry_inv lib t \<Longrightarrow> registry_goes lib t t'" by (auto elim: publish_tx_result)
  then show ?thesis by (simp add: registry_goes_def)
qed

section \<open>Approval\<close>

lemma approve_tx_parts:
  assumes run: "ApproveCryptoDeviceLinkIntent_tx parse lib b params t = Inr (r, t')"
  obtains x u y c a e k z d t1 where "parse (ap_LinkIntentID params) = Some x" "parse (ap_UserID params) = Some u"
    and "y \<in> set (crypto_device_link_intents (b 0 t))" "ci_ID y = x" "ci_UserID y = u"
      "ci_ExpiresAt y > ap_ApprovedAt params"
    and "find_current_bundle (b 2 (b 1 (b 0 t))) (ci_PendingCryptoDeviceID y) = Some c" "cb_BundleDigest c = ci_BundleDigest y"
    and "lp_LinkIntentID (lap_Payload (ap_Proof params)) = ap_LinkIntentID params"
      "lp_PendingCryptoDeviceID (lap_Payload (ap_Proof params)) = ci_PendingCryptoDeviceID y"
      "lp_PendingBundleDigest (lap_Payload (ap_Proof params)) = ci_BundleDigest y"
      "lp_ApprovalChallenge (lap_Payload (ap_Proof params)) = ci_ApprovalChallenge y"
      "lp_ApproverCryptoDeviceID (lap_Payload (ap_Proof params)) = ap_ApproverCryptoDeviceID params"
    and "parse (ap_ApproverCryptoDeviceID params) = Some a"
    and "e \<in> set (crypto_devices (b 3 (b 2 (b 1 (b 0 t)))))" "cd_ID e = a" "cd_UserID e = u" "cd_Status e = CryptoDeviceStatusActive"
    and "find_current_bundle (b 4 (b 3 (b 2 (b 1 (b 0 t))))) a = Some k"
    and "VerifyCryptoDeviceLinkApprovalSignature lib (cb_IdentityPublicKey k) (ap_Proof params) = Inr ()"
    and "ApproveCryptoDeviceLinkIntentByIDAndUserID x u (ap_ApprovedAt params) a (b 5 (b 4 (b 3 (b 2 (b 1 (b 0 t)))))) = Inr (z, t1)"
    and "ActivateCryptoDevice (ci_PendingCryptoDeviceID z) u (ap_ApprovedAt params) a t1 = Inr (d, t')" "r = (z, d)"
proof -
  have quiet: "expire_quietly x u at s \<noteq> Inr q" for x u at s and q :: "(CryptoDeviceLinkIntent \<times> CryptoDevice) \<times> crypto_tables"
    by (auto simp: expire_quietly_def attempt_Inr tx_run tx_if)
  have if_quiet: "(if c then expire_quietly x u at else m) s = Inr q \<longleftrightarrow> \<not> c \<and> m s = Inr q"
    for c x u at m s and q :: "(CryptoDeviceLinkIntent \<times> CryptoDevice) \<times> crypto_tables"
    using quiet by simp
  show thesis using run
    by (clarsimp simp: ApproveCryptoDeviceLinkIntent_tx_def bindT_Inr_iff query_Inr with_uuid_Inr commits_Inr tx_run guard_Inr if_quiet
        Let_def get_bundle_Inr liftT_Inr_iff dest!: get_device_mem get_intent_mem simp del: One_nat_def)
      (rule that; (assumption | rule refl | simp))
qed

text \<open>The bundle of the device \<open>i\<close> with this digest was the newest one at some time since \<open>t\<close>, and it still is in \<open>t'\<close> unless
  another one was published in between.\<close>

definition shown_bundle :: "crypto_tables \<Rightarrow> crypto_tables \<Rightarrow> uuid \<Rightarrow> string \<Rightarrow> bool" where
  "shown_bundle t t' i digest \<longleftrightarrow>
     (\<exists>c\<in>set (crypto_device_bundles t'). cb_CryptoDeviceID c = i \<and> cb_BundleDigest c = digest \<and>
        (\<forall>y\<in>set (crypto_device_bundles t). cb_CryptoDeviceID y = i \<longrightarrow> cb_BundleVersion y \<le> cb_BundleVersion c) \<and>
        (\<forall>n. find_current_bundle t' i = Some n \<longrightarrow>
           n = c \<or> cb_BundleVersion c < cb_BundleVersion n \<and> n \<notin> set (crypto_device_bundles t)))"

lemma shown_since:
  assumes t: "registry_evolves t s" and s: "registry_inv lib s" and u: "registry_inv lib u" "registry_evolves s u"
    and c: "find_current_bundle s i = Some c"
  shows "shown_bundle t u i (cb_BundleDigest c)"
proof -
  have ok: "bundles_ok lib (crypto_device_bundles s)" "bundles_ok lib (crypto_device_bundles u)"
    using s u(1) by (simp_all add: registry_inv_def)
  from c ok(1) have "c \<in> set (crypto_device_bundles s)" "cb_CryptoDeviceID c = i" by (simp_all add: find_current_bundle_iff)
  with u(2) obtain b where b: "b \<in> set (crypto_device_bundles u)" "bundle_moves c b" by (auto simp: registry_evolves_def)
  have same: "cb_CryptoDeviceID b = i" "cb_BundleVersion b = cb_BundleVersion c" "cb_BundleDigest b = cb_BundleDigest c"
    using bundle_moves_key [OF b(2)] \<open>cb_CryptoDeviceID c = i\<close> by simp_all
  have old: "\<forall>y\<in>set (crypto_device_bundles t). cb_CryptoDeviceID y = i \<longrightarrow> cb_BundleVersion y \<le> cb_BundleVersion b"
    using versions_below [OF conjI [OF s t] c] same(2) by simp
  have "n = b \<or> cb_BundleVersion b < cb_BundleVersion n \<and> n \<notin> set (crypto_device_bundles t)"
    if "find_current_bundle u i = Some n" for n
  proof -
    from that ok(2) have n: "n \<in> set (crypto_device_bundles u)" "cb_CryptoDeviceID n = i" "cb_SupersededAt n = None"
      by (simp_all add: find_current_bundle_iff)
    with ok(2) b(1) same(1) have "cb_BundleVersion b \<le> cb_BundleVersion n" unfolding bundles_ok_def by metis
    moreover have "n = b" if "cb_BundleVersion n = cb_BundleVersion b"
      by (rule bundles_same [OF ok(2) n(1) b(1)]) (simp add: bundle_key_def that n(2) same(1))
    ultimately show ?thesis using old n(2) by fastforce
  qed
  with b(1) same old show ?thesis unfolding shown_bundle_def by blast
qed

text \<open>What an approval that began at \<open>t\<close> establishes: the device \<open>d\<close> is active, the proof names a bundle that it has shown, and
  the proof is signed by the identity key of an activated device of the same user, which is now the one that linked \<open>d\<close>.\<close>

definition approval ::
    "uuid_parser \<Rightarrow> crypto_lib \<Rightarrow> ApproveCryptoDeviceLinkIntentParams \<Rightarrow> crypto_tables \<Rightarrow> CryptoDeviceLinkIntent \<Rightarrow> CryptoDevice \<Rightarrow>
     crypto_tables \<Rightarrow> bool" where
  "approval parse lib params t z d t' \<longleftrightarrow>
     z \<in> set (crypto_device_link_intents t') \<and> ci_Status z = CryptoDeviceLinkIntentStatusApproved \<and>
     parse (ap_LinkIntentID params) = Some (ci_ID z) \<and> ci_ExpiresAt z > ap_ApprovedAt params \<and>
     lp_ApprovalChallenge (lap_Payload (ap_Proof params)) = ci_ApprovalChallenge z \<and>
     lp_PendingBundleDigest (lap_Payload (ap_Proof params)) = ci_BundleDigest z \<and>
     d \<in> set (crypto_devices t') \<and> cd_ID d = ci_PendingCryptoDeviceID z \<and> cd_Status d = CryptoDeviceStatusActive \<and>
     lp_PendingCryptoDeviceID (lap_Payload (ap_Proof params)) = cd_ID d \<and>
     shown_bundle t t' (cd_ID d) (lp_PendingBundleDigest (lap_Payload (ap_Proof params))) \<and>
     (\<exists>e\<in>set (crypto_devices t'). activated e \<and> cd_UserID e = cd_UserID d \<and> parse (ap_UserID params) = Some (cd_UserID e) \<and>
        parse (ap_ApproverCryptoDeviceID params) = Some (cd_ID e) \<and> cd_LinkedByCryptoDeviceID d = Some (cd_ID e) \<and>
        (\<forall>k\<in>set (crypto_device_bundles t'). cb_CryptoDeviceID k = cd_ID e \<longrightarrow>
           VerifyCryptoDeviceLinkApprovalSignature lib (cb_IdentityPublicKey k) (ap_Proof params) = Inr ()))"

lemma approve_tables:
  assumes app: "ApproveCryptoDeviceLinkIntentByIDAndUserID x u at a s = Inr (z, t1)"
    and act: "ActivateCryptoDevice i u at a t1 = Inr (d, t')"
  shows "crypto_device_bundles t' = crypto_device_bundles s" and "z \<in> set (crypto_device_link_intents t')"
    and "ci_Status z = CryptoDeviceLinkIntentStatusApproved" and "ci_ID z = x" and "ci_UserID z = u"
    and "d \<in> set (crypto_devices t')" and "cd_ID d = i" and "cd_UserID d = u" and "cd_Status d = CryptoDeviceStatusActive"
    and "cd_LinkedByCryptoDeviceID d = Some a"
    and "\<exists>w\<in>set (crypto_devices s). cd_ID w = i \<and> cd_Status w = CryptoDeviceStatusPendingLink"
  using assms
  by (auto simp: ApproveCryptoDeviceLinkIntentByIDAndUserID_def ActivateCryptoDevice_def bindS_Inr_iff update_one_Inr set_update_rows
      dest!: find_SomeD)

lemma intent_later:
  assumes ev: "registry_evolves t s" and ok: "intents_ok ds (crypto_device_link_intents s)"
    and x: "x \<in> set (crypto_device_link_intents t)" and y: "y \<in> set (crypto_device_link_intents s)" "ci_ID y = ci_ID x"
  shows "intent_moves x y"
proof -
  from ev x obtain z where z: "z \<in> set (crypto_device_link_intents s)" "intent_moves x z" by (auto simp: registry_evolves_def)
  with intents_same [OF ok z(1) y(1)] y(2) show ?thesis by (simp add: intent_moves_def)
qed

lemma key_later:
  assumes "registry_evolves t s" and "registry_inv lib t" and "registry_inv lib s" and "find_current_bundle t i = Some k"
    and "b \<in> set (crypto_device_bundles s)" and "cb_CryptoDeviceID b = i"
  shows "cb_IdentityPublicKey b = cb_IdentityPublicKey k"
proof -
  have ok: "bundles_ok lib (crypto_device_bundles t)" "bundles_ok lib (crypto_device_bundles s)"
    using assms(2,3) by (simp_all add: registry_inv_def)
  obtain k' where "k' \<in> set (crypto_device_bundles s)" "cb_CryptoDeviceID k' = i" "cb_IdentityPublicKey k' = cb_IdentityPublicKey k"
    by (rule moved_current [OF assms(1) ok assms(4)])
  with ok(2) assms(5,6) show ?thesis unfolding bundles_ok_def by metis
qed

lemma approve_tx_result:
  assumes law: "lawful lib b" and inv: "registry_inv lib t"
    and run: "ApproveCryptoDeviceLinkIntent_tx parse lib b params t = Inr ((z, d), t')"
  shows "approval parse lib params t z d t' \<and> (\<forall>a. parse (ap_ApproverCryptoDeviceID params) = Some a \<longrightarrow> not_revoked t a) \<and>
    not_revoked t (cd_ID d) \<and> registry_goes lib t t'"
proof -
  let ?at = "ap_ApprovedAt params" and ?pl = "lap_Payload (ap_Proof params)"
  define s0 where "s0 = b 0 t"
  define s2 where "s2 = b 2 (b 1 s0)"
  define s3 where "s3 = b 3 s2"
  define s4 where "s4 = b 4 s3"
  define s5 where "s5 = b 5 s4"
  obtain x u y c a e k z' d' t1 where ids: "parse (ap_LinkIntentID params) = Some x" "parse (ap_UserID params) = Some u"
    and y: "y \<in> set (crypto_device_link_intents s0)" "ci_ID y = x" "ci_UserID y = u" "ci_ExpiresAt y > ?at"
    and c: "find_current_bundle s2 (ci_PendingCryptoDeviceID y) = Some c" "cb_BundleDigest c = ci_BundleDigest y"
    and pl: "lp_LinkIntentID ?pl = ap_LinkIntentID params" "lp_PendingCryptoDeviceID ?pl = ci_PendingCryptoDeviceID y"
      "lp_PendingBundleDigest ?pl = ci_BundleDigest y" "lp_ApprovalChallenge ?pl = ci_ApprovalChallenge y"
      "lp_ApproverCryptoDeviceID ?pl = ap_ApproverCryptoDeviceID params"
    and a: "parse (ap_ApproverCryptoDeviceID params) = Some a"
    and e: "e \<in> set (crypto_devices s3)" "cd_ID e = a" "cd_UserID e = u" "cd_Status e = CryptoDeviceStatusActive"
    and k: "find_current_bundle s4 a = Some k" "VerifyCryptoDeviceLinkApprovalSignature lib (cb_IdentityPublicKey k) (ap_Proof params) = Inr ()"
    and app: "ApproveCryptoDeviceLinkIntentByIDAndUserID x u ?at a s5 = Inr (z', t1)"
    and act: "ActivateCryptoDevice (ci_PendingCryptoDeviceID z') u ?at a t1 = Inr (d', t')" and r: "(z, d) = (z', d')"
    unfolding s0_def s2_def s3_def s4_def s5_def by (rule approve_tx_parts [OF run])
  have S: "registry_goes lib t s0" "registry_goes lib s0 s2" "registry_goes lib s2 s5" "registry_goes lib s3 s5"
      "registry_goes lib s4 s5" "registry_goes lib s2 s3" "registry_goes lib s3 s4" "registry_goes lib s0 s5"
    unfolding s0_def s2_def s3_def s4_def s5_def by (intro lawful_after [OF law] goes_refl)+
  have inv0: "registry_inv lib s0" using goes_later [OF inv S(1)] by simp
  have inv2: "registry_inv lib s2" "registry_evolves s0 s2" using goes_later [OF inv0 S(2)] by simp_all
  have inv3: "registry_inv lib s3" using goes_later [OF inv2(1) S(6)] by simp
  have inv4: "registry_inv lib s4" using goes_later [OF inv3 S(7)] by simp
  have inv5: "registry_inv lib s5" "registry_evolves s0 s5" using goes_later [OF inv0 S(8)] by simp_all
  have "activated e" using inv3 e active_activated by (auto simp: registry_inv_def registered_devices_ok_def)
  moreover obtain f where f: "f \<in> set (crypto_devices s5)" "device_moves e f"
    using goes_later [OF inv3 S(4)] device_later [OF _ e(1)] by blast
  ultimately have ff: "cd_ID f = a" "cd_UserID f = u" "activated f" using device_moves_fields [OF f(2)] e by simp_all
  have step: "registry_goes lib s5 t'" by (rule goes_commit [OF commit_approve [OF app act f(1) ff]])
  then have inv': "registry_inv lib t'" "registry_evolves s5 t'" using goes_later [OF inv5(1)] by simp_all
  note T = approve_tables [OF app act]
  have zr: "z' = z" "d' = d" using r by simp_all
  have yz: "intent_moves y z"
  proof -
    have ev: "registry_evolves s0 t'" using registry_evolves_trans [OF inv5(2) inv'(2)] .
    show ?thesis by (rule intent_later [OF ev _ y(1)]) (use inv'(1) T zr y in \<open>auto simp: registry_inv_def\<close>)
  qed
  have zy: "ci_PendingCryptoDeviceID z = ci_PendingCryptoDeviceID y" "ci_ExpiresAt z = ci_ExpiresAt y"
      "ci_ApprovalChallenge z = ci_ApprovalChallenge y"
      "ci_BundleDigest z = ci_BundleDigest y" using yz by (simp_all add: intent_moves_def)
  have "shown_bundle t t' (ci_PendingCryptoDeviceID y) (cb_BundleDigest c)"
  proof (rule shown_since)
    show "registry_evolves t s2" using goes_later [OF inv goes_trans [OF S(1,2)]] by simp
    show "registry_evolves s2 t'" using goes_later [OF inv2(1) goes_trans [OF S(3) step]] by simp
  qed (rule inv2(1) inv'(1) c(1))+
  moreover obtain g where g: "g \<in> set (crypto_devices t')" "device_moves f g" using device_later [OF inv'(2) f(1)] .
  moreover have "cb_IdentityPublicKey q = cb_IdentityPublicKey k" if "q \<in> set (crypto_device_bundles t')" "cb_CryptoDeviceID q = a" for q
    using key_later [OF _ inv4 inv5(1) k(1)] goes_later [OF inv4 S(5)] that T(1) by simp
  moreover have "registry_goes lib t t'" using S(1,8) step by (blast intro: goes_trans)
  moreover have "not_revoked t a"
    using revoked_later [OF inv3 _ not_revoked_at [OF inv3 e(1)]] e goes_later [OF inv goes_trans [OF S(1) goes_trans [OF S(2,6)]]]
    by (auto simp: crypto_status_defs)
  moreover have "not_revoked t (cd_ID d)"
  proof -
    obtain w where w: "w \<in> set (crypto_devices s5)" "cd_ID w = cd_ID d" "cd_Status w = CryptoDeviceStatusPendingLink"
      using T(7,11) zr by auto
    then have "not_revoked s5 (cd_ID d)" using not_revoked_at [OF inv5(1) w(1)] by (simp add: crypto_status_defs)
    then show ?thesis using revoked_later [OF inv5(1)] goes_later [OF inv goes_trans [OF S(1,8)]] by blast
  qed
  ultimately show ?thesis
    using T zr zy y pl ids a c k device_moves_fields [OF g(2)] ff
    unfolding approval_def by (intro conjI bexI [OF _ g(1)]) auto
qed

lemma approve_tx_goes:
  assumes "lawful lib b" and "ApproveCryptoDeviceLinkIntent_tx parse lib b params t = Inr (r, t')"
  shows "registry_goes lib t t'"
  using approve_tx_result [OF assms(1)] assms(2) unfolding registry_goes_def by (cases r) blast

end
