(* ===== verification/Crypto_Service.thy ===== *)
theory Crypto_Service
  imports Crypto_Transactions
begin

text \<open>
  The operations of \<open>internal/domain/identity/crypto_device_service.go\<close> over what the service holds: the repository, the
  authentication of \<open>service.go\<close>, the clock and the generators. As in \<open>Identity_Service\<close> they are programs over a world the
  service does not look into; the locale \<open>crypto_registry\<close> states what its interfaces must keep for the service to keep it.
\<close>

record 'w CryptoRepository =
  reg_GetCryptoDeviceRegistryStatsByUserID :: "string \<Rightarrow> ('w, identity_error, int \<times> int \<times> int) prog"
  reg_CreateFirstCryptoDevice :: "CreateCryptoDeviceParams \<Rightarrow> ('w, identity_error, CryptoDevice \<times> CryptoDeviceBundle) prog"
  reg_CreateCryptoDevice :: "CreateCryptoDeviceParams \<Rightarrow> ('w, identity_error, CryptoDevice \<times> CryptoDeviceBundle) prog"
  reg_ListCryptoDevices :: "string \<Rightarrow> ('w, identity_error, CryptoDevice list) prog"
  reg_GetCryptoDeviceDetails :: "string \<Rightarrow> string \<Rightarrow> ('w, identity_error, CryptoDeviceDetails) prog"
  reg_CreateCryptoDeviceBundlePublishChallenge ::
    "CryptoDeviceBundlePublishChallenge \<Rightarrow> ('w, identity_error, CryptoDeviceBundlePublishChallenge) prog"
  reg_PublishCryptoDeviceBundle ::
    "string \<Rightarrow> PublishCryptoDeviceBundleInput \<Rightarrow> int \<Rightarrow> ('w, identity_error, CryptoDevice \<times> CryptoDeviceBundle) prog"
  reg_CreateCryptoDeviceLinkIntent :: "CryptoDeviceLinkIntent \<Rightarrow> ('w, identity_error, CryptoDeviceLinkIntent) prog"
  reg_ListCryptoDeviceLinkIntents :: "string \<Rightarrow> int \<Rightarrow> ('w, identity_error, CryptoDeviceLinkIntent list) prog"
  reg_ApproveCryptoDeviceLinkIntent ::
    "ApproveCryptoDeviceLinkIntentParams \<Rightarrow> ('w, identity_error, CryptoDeviceLinkIntent \<times> CryptoDevice) prog"
  reg_ExpireCryptoDeviceLinkIntent :: "string \<Rightarrow> string \<Rightarrow> int \<Rightarrow> ('w, identity_error, CryptoDeviceLinkIntent) prog"
  reg_RevokeCryptoDevice :: "RevokeCryptoDeviceParams \<Rightarrow> ('w, identity_error, CryptoDevice) prog"

record 'w CryptoService =
  cry_repo :: "'w CryptoRepository"
  cry_authenticate :: "string \<Rightarrow> ('w, identity_error, SessionAuth) prog"
  cry_now :: "('w, identity_error, int) prog"
  cry_newID :: "('w, identity_error, string) prog"
  cry_newCryptoLinkApprovalChallenge :: "('w, identity_error, string) prog"
  cry_newCryptoBundlePublishChallenge :: "('w, identity_error, string) prog"
  cry_cryptoLinkIntentTTL :: int
  cry_cryptoBundlePublishChallengeTTL :: int
  cry_lib :: crypto_lib

section \<open>Devices\<close>

text \<open>The identifier of the device and the first version of its bundle; \<open>activatedAt\<close> is nil for a pending device.\<close>

definition new_crypto_device :: "string \<Rightarrow> string \<Rightarrow> string \<Rightarrow> string \<Rightarrow> int \<Rightarrow> int option \<Rightarrow> CryptoDevice" where
  "new_crypto_device i userID label status now activatedAt =
     \<lparr>cd_ID = i, cd_UserID = userID, cd_Label = label, cd_Status = status, cd_LinkedByCryptoDeviceID = None,
      cd_LastBundleVersion = Some 1, cd_LastBundlePublishedAt = Some now, cd_CreatedAt = now, cd_ActivatedAt = activatedAt,
      cd_RevokedAt = None, cd_RevocationReason = None, cd_RevokedByActor = None\<rparr>"

definition details_of :: "CryptoDevice \<times> CryptoDeviceBundle \<Rightarrow> CryptoDeviceDetails" where
  "details_of x = \<lparr>details_Device = fst x, details_CurrentBundle = Some (snd x)\<rparr>"

definition RegisterFirstCryptoDevice ::
    "'w CryptoService \<Rightarrow> string \<Rightarrow> RegisterCryptoDeviceInput \<Rightarrow> ('w, identity_error, CryptoDeviceDetails) prog" where
  "RegisterFirstCryptoDevice s token input =
     bindE (cry_authenticate s token) (\<lambda>a.
     bindE (liftE (normalizeDeviceLabel (rc_DeviceLabel input))) (\<lambda>deviceLabel.
     bindE (cry_now s) (\<lambda>now.
     bindE (liftE (normalizeCryptoDeviceBundleInput (cry_lib s) (rc_Bundle input) now)) (\<lambda>bundle.
     bindE (cry_newID s) (\<lambda>i.
     bindE (reg_CreateFirstCryptoDevice (cry_repo s)
              \<lparr>cp_Device = new_crypto_device i (self a) deviceLabel CryptoDeviceStatusActive now (Some now),
               cp_Bundle = bundle_of '''' 1 bundle now\<rparr>) (\<lambda>x.
     returnE (details_of x)))))))"

definition RegisterPendingLinkedCryptoDevice ::
    "'w CryptoService \<Rightarrow> string \<Rightarrow> RegisterCryptoDeviceInput \<Rightarrow> ('w, identity_error, CryptoDeviceDetails) prog" where
  "RegisterPendingLinkedCryptoDevice s token input =
     bindE (cry_authenticate s token) (\<lambda>a.
     bindE (liftE (normalizeDeviceLabel (rc_DeviceLabel input))) (\<lambda>deviceLabel.
     bindE (cry_now s) (\<lambda>now.
     bindE (liftE (normalizeCryptoDeviceBundleInput (cry_lib s) (rc_Bundle input) now)) (\<lambda>bundle.
     bindE (reg_GetCryptoDeviceRegistryStatsByUserID (cry_repo s) (self a)) (\<lambda>(totalCount, activeCount, _).
     if totalCount = 0 \<or> activeCount = 0 then failE ErrConflict
     else
     bindE (cry_newID s) (\<lambda>i.
     bindE (reg_CreateCryptoDevice (cry_repo s)
              \<lparr>cp_Device = new_crypto_device i (self a) deviceLabel CryptoDeviceStatusPendingLink now None,
               cp_Bundle = bundle_of '''' 1 bundle now\<rparr>) (\<lambda>x.
     returnE (details_of x))))))))"

definition ListCryptoDevices :: "'w CryptoService \<Rightarrow> string \<Rightarrow> ('w, identity_error, CryptoDevice list) prog" where
  "ListCryptoDevices s token = bindE (cry_authenticate s token) (\<lambda>a. reg_ListCryptoDevices (cry_repo s) (self a))"

definition GetCryptoDevice :: "'w CryptoService \<Rightarrow> string \<Rightarrow> string \<Rightarrow> ('w, identity_error, CryptoDeviceDetails) prog" where
  "GetCryptoDevice s token cryptoDeviceID =
     bindE (cry_authenticate s token) (\<lambda>a.
     bindE (liftE (normalizeRequiredID cryptoDeviceID)) (\<lambda>deviceID.
     reg_GetCryptoDeviceDetails (cry_repo s) (self a) deviceID))"

definition RevokeCryptoDevice ::
    "'w CryptoService \<Rightarrow> string \<Rightarrow> string \<Rightarrow> string option \<Rightarrow> ('w, identity_error, CryptoDevice) prog" where
  "RevokeCryptoDevice s token cryptoDeviceID revocationReason =
     bindE (cry_authenticate s token) (\<lambda>a.
     bindE (liftE (normalizeRequiredID cryptoDeviceID)) (\<lambda>deviceID.
     case normalizeOptionalString (case revocationReason of None \<Rightarrow> '''' | Some r \<Rightarrow> r) maxRevocationReasonLen of
       Inl _ \<Rightarrow> failE ErrInvalidArgument
     | Inr reason \<Rightarrow>
         bindE (cry_now s) (\<lambda>now.
         reg_RevokeCryptoDevice (cry_repo s)
           \<lparr>rp_UserID = self a, rp_CryptoDeviceID = deviceID, rp_RevokedAt = now, rp_RevocationReason = reason,
            rp_RevokedByActor = CryptoDeviceRevokedBySelf\<rparr>)))"

section \<open>Bundles\<close>

definition CreateCryptoDeviceBundlePublishChallenge ::
    "'w CryptoService \<Rightarrow> string \<Rightarrow> string \<Rightarrow> ('w, identity_error, CryptoDeviceBundlePublishChallenge) prog" where
  "CreateCryptoDeviceBundlePublishChallenge s token cryptoDeviceID =
     bindE (cry_authenticate s token) (\<lambda>a.
     bindE (liftE (normalizeRequiredID cryptoDeviceID)) (\<lambda>deviceID.
     bindE (reg_GetCryptoDeviceDetails (cry_repo s) (self a) deviceID) (\<lambda>details.
     if cd_Status (details_Device details) \<noteq> CryptoDeviceStatusActive then failE ErrConflict
     else case details_CurrentBundle details of
       None \<Rightarrow> failE ErrConflict
     | Some current \<Rightarrow>
         bindE (cry_newCryptoBundlePublishChallenge s) (\<lambda>publishChallenge.
         bindE (cry_now s) (\<lambda>now.
         reg_CreateCryptoDeviceBundlePublishChallenge (cry_repo s)
           \<lparr>cc_CryptoDeviceID = cd_ID (details_Device details), cc_CurrentBundleVersion = cb_BundleVersion current,
            cc_CurrentBundleDigest = cb_BundleDigest current, cc_PublishChallenge = publishChallenge, cc_CreatedAt = now,
            cc_ExpiresAt = now + cry_cryptoBundlePublishChallengeTTL s\<rparr>)))))"

text \<open>What the state of the device asks of the proof.\<close>

definition required_proof ::
    "string \<Rightarrow> CryptoDeviceBundlePublishProof option \<Rightarrow> identity_error + CryptoDeviceBundlePublishProof option" where
  "required_proof status evidence =
     (if status = CryptoDeviceStatusActive
      then (case evidence of
              None \<Rightarrow> Inl ErrConflict
            | Some p \<Rightarrow> bindS (normalizeCryptoDeviceBundlePublishProof p) (\<lambda>q. Inr (Some q)))
      else if status = CryptoDeviceStatusPendingLink then Inr None
      else Inl ErrConflict)"

definition PublishCryptoDeviceBundle ::
    "'w CryptoService \<Rightarrow> string \<Rightarrow> PublishCryptoDeviceBundleInput \<Rightarrow> ('w, identity_error, CryptoDeviceDetails) prog" where
  "PublishCryptoDeviceBundle s token input =
     bindE (cry_authenticate s token) (\<lambda>a.
     bindE (liftE (normalizeRequiredID (pi_CryptoDeviceID input))) (\<lambda>deviceID.
     bindE (cry_now s) (\<lambda>now.
     bindE (liftE (normalizeCryptoDeviceBundleInput (cry_lib s) (pi_Bundle input) now)) (\<lambda>bundle.
     bindE (reg_GetCryptoDeviceDetails (cry_repo s) (self a) deviceID) (\<lambda>details.
     bindE (liftE (required_proof (cd_Status (details_Device details)) (pi_Proof input))) (\<lambda>evidence.
     bindE (reg_PublishCryptoDeviceBundle (cry_repo s) (self a)
              \<lparr>pi_CryptoDeviceID = deviceID, pi_Bundle = bundle, pi_Proof = evidence\<rparr> now) (\<lambda>x.
     returnE (details_of x))))))))"

section \<open>Link intents\<close>

definition CreateCryptoDeviceLinkIntent ::
    "'w CryptoService \<Rightarrow> string \<Rightarrow> string \<Rightarrow> ('w, identity_error, CryptoDeviceLinkIntent) prog" where
  "CreateCryptoDeviceLinkIntent s token pendingCryptoDeviceID =
     bindE (cry_authenticate s token) (\<lambda>a.
     bindE (liftE (normalizeRequiredID pendingCryptoDeviceID)) (\<lambda>deviceID.
     bindE (reg_GetCryptoDeviceDetails (cry_repo s) (self a) deviceID) (\<lambda>details.
     if cd_Status (details_Device details) \<noteq> CryptoDeviceStatusPendingLink then failE ErrConflict
     else case details_CurrentBundle details of
       None \<Rightarrow> failE ErrConflict
     | Some current \<Rightarrow>
         bindE (cry_newCryptoLinkApprovalChallenge s) (\<lambda>approvalChallenge.
         bindE (cry_now s) (\<lambda>now.
         bindE (cry_newID s) (\<lambda>i.
         reg_CreateCryptoDeviceLinkIntent (cry_repo s)
           \<lparr>ci_ID = i, ci_UserID = self a, ci_PendingCryptoDeviceID = cd_ID (details_Device details),
            ci_Status = CryptoDeviceLinkIntentStatusPending, ci_BundleDigest = cb_BundleDigest current, ci_CreatedAt = now,
            ci_ExpiresAt = now + cry_cryptoLinkIntentTTL s, ci_ApprovedAt = None, ci_ExpiredAt = None,
            ci_ApproverCryptoDeviceID = None, ci_ApprovalChallenge = approvalChallenge\<rparr>))))))"

definition ListCryptoDeviceLinkIntents ::
    "'w CryptoService \<Rightarrow> string \<Rightarrow> ('w, identity_error, CryptoDeviceLinkIntent list) prog" where
  "ListCryptoDeviceLinkIntents s token =
     bindE (cry_authenticate s token) (\<lambda>a.
     bindE (cry_now s) (\<lambda>now. reg_ListCryptoDeviceLinkIntents (cry_repo s) (self a) now))"

definition ApproveCryptoDeviceLinkIntent ::
    "'w CryptoService \<Rightarrow> string \<Rightarrow> string \<Rightarrow> string \<Rightarrow> CryptoDeviceLinkApprovalProof \<Rightarrow>
     ('w, identity_error, CryptoDeviceLinkIntent \<times> CryptoDevice) prog" where
  "ApproveCryptoDeviceLinkIntent s token linkIntentID approverCryptoDeviceID evidence =
     bindE (cry_authenticate s token) (\<lambda>a.
     bindE (liftE (normalizeRequiredID linkIntentID)) (\<lambda>intentID.
     bindE (liftE (normalizeRequiredID approverCryptoDeviceID)) (\<lambda>approverID.
     bindE (liftE (normalizeCryptoDeviceLinkApprovalProof evidence)) (\<lambda>normalizedProof.
     bindE (cry_now s) (\<lambda>now.
     reg_ApproveCryptoDeviceLinkIntent (cry_repo s)
       \<lparr>ap_UserID = self a, ap_LinkIntentID = intentID, ap_ApproverCryptoDeviceID = approverID, ap_Proof = normalizedProof,
        ap_ApprovedAt = now\<rparr>)))))"

definition ExpireCryptoDeviceLinkIntent ::
    "'w CryptoService \<Rightarrow> string \<Rightarrow> string \<Rightarrow> ('w, identity_error, CryptoDeviceLinkIntent) prog" where
  "ExpireCryptoDeviceLinkIntent s token linkIntentID =
     bindE (cry_authenticate s token) (\<lambda>a.
     bindE (liftE (normalizeRequiredID linkIntentID)) (\<lambda>intentID.
     bindE (cry_now s) (\<lambda>now. reg_ExpireCryptoDeviceLinkIntent (cry_repo s) (self a) intentID now)))"

section \<open>What the service passes on\<close>

lemma normalized_consistent:
  "normalizeCryptoDeviceBundleInput lib input now = Inr bundle \<Longrightarrow> validateCryptoDeviceBundleConsistency lib bundle = Inr ()"
  by (auto simp: normalizeCryptoDeviceBundleInput_def Let_def bindS_Inr_iff split: if_splits)

lemma normalized_fields:
  "normalizeCryptoDeviceBundleInput lib input now = Inr b \<Longrightarrow>
   bi_BundleDigest b = bi_BundleDigest input \<and> bi_IdentityPublicKey b = bi_IdentityPublicKey input"
  by (auto simp: normalizeCryptoDeviceBundleInput_def Let_def bindS_Inr_iff split: if_splits)

lemma new_device_params_ok:
  assumes "normalizeCryptoDeviceBundleInput lib input now = Inr bundle"
  shows "device_params lib True \<lparr>cp_Device = new_crypto_device i u l st now (Some now), cp_Bundle = bundle_of '''' 1 bundle now\<rparr>"
    and "device_params lib False \<lparr>cp_Device = new_crypto_device i u l st now None, cp_Bundle = bundle_of '''' 1 bundle now\<rparr>"
  using normalized_consistent [OF assms]
  by (simp_all add: device_params_def new_crypto_device_def authentic_def) (simp_all add: bundle_of_def)

text \<open>An invariant \<open>I\<close> of the world that the interfaces keep, called as the service calls them.\<close>

locale crypto_registry =
  fixes s :: "'w CryptoService" and I :: "'w \<Rightarrow> bool"
  assumes authenticated: "pres I (cry_authenticate s token)"
    and outside: "pres I (cry_now s)" "pres I (cry_newID s)" "pres I (cry_newCryptoLinkApprovalChallenge s)"
      "pres I (cry_newCryptoBundlePublishChallenge s)"
    and reads: "pres I (reg_GetCryptoDeviceRegistryStatsByUserID (cry_repo s) u)" "pres I (reg_ListCryptoDevices (cry_repo s) u)"
      "pres I (reg_GetCryptoDeviceDetails (cry_repo s) u i)"
    and registers: "device_params (cry_lib s) True p \<Longrightarrow> pres I (reg_CreateFirstCryptoDevice (cry_repo s) p)"
      "device_params (cry_lib s) False p \<Longrightarrow> pres I (reg_CreateCryptoDevice (cry_repo s) p)"
    and publishes: "validateCryptoDeviceBundleConsistency (cry_lib s) (pi_Bundle input) = Inr () \<Longrightarrow>
        pres I (reg_PublishCryptoDeviceBundle (cry_repo s) u input at)"
    and intents: "intent_params x \<Longrightarrow> pres I (reg_CreateCryptoDeviceLinkIntent (cry_repo s) x)"
    and writes: "pres I (reg_CreateCryptoDeviceBundlePublishChallenge (cry_repo s) c)"
      "pres I (reg_ListCryptoDeviceLinkIntents (cry_repo s) u at)" "pres I (reg_ApproveCryptoDeviceLinkIntent (cry_repo s) ap)"
      "pres I (reg_ExpireCryptoDeviceLinkIntent (cry_repo s) u i at)" "pres I (reg_RevokeCryptoDevice (cry_repo s) rp)"
begin

lemma pres_given: "(\<And>x. r = Inr x \<Longrightarrow> pres I (f x)) \<Longrightarrow> pres I (bindE (liftE r) f)"
  by (cases r) (simp_all add: pres_def prog_defs)

lemma registration_pres:
  "pres I (RegisterFirstCryptoDevice s token input)" "pres I (RegisterPendingLinkedCryptoDevice s token input)"
  unfolding RegisterFirstCryptoDevice_def RegisterPendingLinkedCryptoDevice_def
  by (rule pres_bindE [OF authenticated], rule pres_given, rule pres_bindE [OF outside(1)], rule pres_given,
      intro pres_intros reads outside registers new_device_params_ok; assumption)+

lemma publication_pres: "pres I (PublishCryptoDeviceBundle s token input)"
  unfolding PublishCryptoDeviceBundle_def
  by (rule pres_bindE [OF authenticated], rule pres_given, rule pres_bindE [OF outside(1)], rule pres_given,
      intro pres_intros reads publishes) (simp add: normalized_consistent)

lemma device_operations_pres:
  "pres I (ListCryptoDevices s token)" "pres I (GetCryptoDevice s token i)" "pres I (RevokeCryptoDevice s token i reason)"
  "pres I (CreateCryptoDeviceBundlePublishChallenge s token i)"
  unfolding ListCryptoDevices_def GetCryptoDevice_def RevokeCryptoDevice_def CreateCryptoDeviceBundlePublishChallenge_def
  by (intro pres_intros authenticated reads outside writes)+

lemma intent_operations_pres:
  "pres I (CreateCryptoDeviceLinkIntent s token i)" "pres I (ListCryptoDeviceLinkIntents s token)"
  "pres I (ApproveCryptoDeviceLinkIntent s token x a evidence)" "pres I (ExpireCryptoDeviceLinkIntent s token x)"
  unfolding CreateCryptoDeviceLinkIntent_def ListCryptoDeviceLinkIntents_def ApproveCryptoDeviceLinkIntent_def
    ExpireCryptoDeviceLinkIntent_def
  by (intro pres_intros authenticated reads outside writes intents; simp add: intent_params_def)+

end

end
