(* ===== verification/Crypto_World.thy ===== *)
theory Crypto_World
  imports Crypto_Service Identity_World
begin

text \<open>
  The world of the crypto device registry: the world of \<open>Identity_World\<close> and the registry's tables. Other servers commit
  transactions of the registry before and, since ours only locks what it writes, during each of ours. What they commit is any
  \<open>registry_run\<close>, whichever transactions it comes from and whenever they began: each transaction with parameters as the
  service builds them, interrupted by runs of others, commits a run (\<open>transactions_are_runs\<close>).
\<close>

section \<open>Other servers\<close>

datatype crypto_op =
    OpFirstDevice CreateCryptoDeviceParams
  | OpPendingDevice CreateCryptoDeviceParams
  | OpPublishChallenge CryptoDeviceBundlePublishChallenge
  | OpPublishBundle string PublishCryptoDeviceBundleInput int
  | OpLinkIntent CryptoDeviceLinkIntent
  | OpExpireStale string int
  | OpApproveIntent ApproveCryptoDeviceLinkIntentParams
  | OpExpireIntent string string int
  | OpRevokeCryptoDevice RevokeCryptoDeviceParams

definition ignore_result :: "'a crypto_tx \<Rightarrow> unit crypto_tx" where
  "ignore_result m = bindT m (\<lambda>_. returnT ())"

definition ExpireStale_tx :: "uuid_parser \<Rightarrow> string \<Rightarrow> int \<Rightarrow> unit crypto_tx" where
  "ExpireStale_tx parse userID now = with_uuid parse userID (\<lambda>u. query (ExpireStaleCryptoDeviceLinkIntentsByUserID u now))"

definition crypto_op_tx :: "uuid_parser \<Rightarrow> crypto_lib \<Rightarrow> (uuid \<Rightarrow> bool) \<Rightarrow> interference \<Rightarrow> crypto_op \<Rightarrow> unit crypto_tx" where
  "crypto_op_tx parse lib known b operation =
     (case operation of
        OpFirstDevice p \<Rightarrow> ignore_result (createCryptoDevice_tx parse known p True)
      | OpPendingDevice p \<Rightarrow> ignore_result (createCryptoDevice_tx parse known p False)
      | OpPublishChallenge c \<Rightarrow> ignore_result (CreateCryptoDeviceBundlePublishChallenge_tx parse c)
      | OpPublishBundle u input at \<Rightarrow> ignore_result (PublishCryptoDeviceBundle_tx parse lib b u input at)
      | OpLinkIntent x \<Rightarrow> ignore_result (CreateCryptoDeviceLinkIntent_tx parse known b x)
      | OpExpireStale u now \<Rightarrow> ExpireStale_tx parse u now
      | OpApproveIntent p \<Rightarrow> ignore_result (ApproveCryptoDeviceLinkIntent_tx parse lib b p)
      | OpExpireIntent u x now \<Rightarrow> ignore_result (ExpireCryptoDeviceLinkIntent_tx parse b u x now)
      | OpRevokeCryptoDevice p \<Rightarrow> ignore_result (RevokeCryptoDevice_tx parse b p))"

definition crypto_op_allowed :: "crypto_lib \<Rightarrow> crypto_op \<Rightarrow> bool" where
  "crypto_op_allowed lib operation =
     (case operation of
        OpFirstDevice p \<Rightarrow> device_params lib True p
      | OpPendingDevice p \<Rightarrow> device_params lib False p
      | OpPublishBundle u input at \<Rightarrow> validateCryptoDeviceBundleConsistency lib (pi_Bundle input) = Inr ()
      | OpLinkIntent x \<Rightarrow> intent_params x
      | _ \<Rightarrow> True)"

theorem transactions_are_runs:
  assumes others: "\<forall>k s. registry_inv lib s \<longrightarrow> registry_run lib s (b k s)" and allowed: "crypto_op_allowed lib operation"
    and inv: "registry_inv lib t" and run: "crypto_op_tx parse lib known b operation t = Inr ((), u)"
  shows "registry_run lib t u"
proof -
  have law: "lawful lib b" using others by (simp add: lawful_def registry_goes_def)
  have "registry_goes lib t u"
    using allowed run
    by (cases operation)
      (auto simp: crypto_op_allowed_def crypto_op_tx_def ignore_result_def ExpireStale_tx_def run_simps
        intro: create_tx_goes challenge_tx_goes publish_tx_goes [OF law] intent_tx_goes [OF law] stale_goes
          approve_tx_goes [OF law] expire_tx_goes [OF law] revoke_tx_goes [OF law])
  with inv show ?thesis by (simp add: registry_goes_def)
qed

section \<open>The world\<close>

record crypto_world =
  cw_identity :: identity_world
  cw_tables :: crypto_tables

text \<open>\<open>xv_others n\<close> is what others commit before the transaction of tick \<open>n\<close>, \<open>xv_between n\<close> what they commit during it.\<close>

record crypto_env =
  xv_identity :: identity_env
  xv_lib :: crypto_lib
  xv_others :: "nat \<Rightarrow> crypto_tables \<Rightarrow> crypto_tables"
  xv_between :: "nat \<Rightarrow> interference"
  xv_linkChallenge :: "nat \<Rightarrow> identity_error + string"
  xv_publishChallenge :: "nat \<Rightarrow> identity_error + string"

definition crypto_env_allowed :: "crypto_env \<Rightarrow> bool" where
  "crypto_env_allowed env \<longleftrightarrow>
     (\<forall>n t. registry_inv (xv_lib env) t \<longrightarrow> registry_run (xv_lib env) t (xv_others env n t)) \<and>
     (\<forall>n k t. registry_inv (xv_lib env) t \<longrightarrow> registry_run (xv_lib env) t (xv_between env n k t))"

definition on_identity :: "(identity_world, identity_error, 'a) prog \<Rightarrow> (crypto_world, identity_error, 'a) prog" where
  "on_identity m = (\<lambda>w. case m (cw_identity w) of (r, v) \<Rightarrow> (r, w\<lparr>cw_identity := v\<rparr>))"

definition known_user :: "identity_db \<Rightarrow> uuid \<Rightarrow> bool" where
  "known_user db u \<longleftrightarrow> find_user db u \<noteq> None"

text \<open>When our transaction fails the others have committed all the same.\<close>

definition interfered :: "interference \<Rightarrow> crypto_tables \<Rightarrow> crypto_tables" where
  "interfered b t = fold b [0..<6] t"

definition registry_transact ::
    "crypto_env \<Rightarrow> ((uuid \<Rightarrow> bool) \<Rightarrow> interference \<Rightarrow> 'a crypto_tx) \<Rightarrow> (crypto_world, identity_error, 'a) prog" where
  "registry_transact env m = (\<lambda>w.
     let ie = xv_identity env; v = cw_identity w; n = iw_tick v; db = others_moved ie v; b = xv_between env n;
         w1 = w\<lparr>cw_identity := v\<lparr>iw_tick := Suc n, iw_db := db\<rparr>\<rparr>;
         t = xv_others env n (cw_tables w)
     in case iv_fault ie n of
          Fails c \<Rightarrow> (Inl (driver_error c), w1\<lparr>cw_tables := interfered b t\<rparr>)
        | Works \<Rightarrow> (case m (known_user db) b t of
              Inl e \<Rightarrow> (Inl e, w1\<lparr>cw_tables := interfered b t\<rparr>)
            | Inr (x, t') \<Rightarrow> (Inr x, w1\<lparr>cw_tables := t'\<rparr>))
        | LosesReply c \<Rightarrow> (case m (known_user db) b t of
              Inl e \<Rightarrow> (Inl (driver_error c), w1\<lparr>cw_tables := interfered b t\<rparr>)
            | Inr (x, t') \<Rightarrow> (Inl (driver_error c), w1\<lparr>cw_tables := t'\<rparr>)))"

section \<open>The repository and the service\<close>

text \<open>Methods that run a single statement are not interfered with; two methods run two statements outside a transaction.\<close>

definition registry_details ::
    "crypto_env \<Rightarrow> string \<Rightarrow> string \<Rightarrow> (crypto_world, identity_error, CryptoDeviceDetails) prog" where
  "registry_details env userID cryptoDeviceID =
     (let parse = iv_parse (xv_identity env) in
      bindE (registry_transact env (\<lambda>_ _. with_uuid parse cryptoDeviceID (\<lambda>i. with_uuid parse userID (\<lambda>u.
               bindT (query (GetCryptoDeviceByIDAndUserID i u)) (\<lambda>d. returnT (i, u, d)))))) (\<lambda>(i, u, device).
      attemptE (registry_transact env (\<lambda>_ _. GetCurrentCryptoDeviceBundleByDeviceIDAndUserID i u)) (\<lambda>r. case r of
        Inl err \<Rightarrow> if err = ErrNoRows then returnE \<lparr>details_Device = device, details_CurrentBundle = None\<rparr>
          else failE (convertError err)
      | Inr bundle \<Rightarrow> returnE \<lparr>details_Device = device, details_CurrentBundle = Some bundle\<rparr>)))"

definition registry_intents ::
    "crypto_env \<Rightarrow> string \<Rightarrow> int \<Rightarrow> (crypto_world, identity_error, CryptoDeviceLinkIntent list) prog" where
  "registry_intents env userID now =
     (let parse = iv_parse (xv_identity env) in
      bindE (registry_transact env (\<lambda>_ _. ExpireStale_tx parse userID now)) (\<lambda>_.
      registry_transact env (\<lambda>_ _. with_uuid parse userID (\<lambda>u. query (ListCryptoDeviceLinkIntentsByUserID u)))))"

definition crypto_postgres :: "crypto_env \<Rightarrow> crypto_world CryptoRepository" where
  "crypto_postgres env = (let parse = iv_parse (xv_identity env); lib = xv_lib env in
     \<lparr>reg_GetCryptoDeviceRegistryStatsByUserID = (\<lambda>userID. registry_transact env (\<lambda>_ _.
        with_uuid parse userID (\<lambda>u. query (GetCryptoDeviceRegistryStatsByUserID u)))),
      reg_CreateFirstCryptoDevice = (\<lambda>p. registry_transact env (\<lambda>known _. createCryptoDevice_tx parse known p True)),
      reg_CreateCryptoDevice = (\<lambda>p. registry_transact env (\<lambda>known _. createCryptoDevice_tx parse known p False)),
      reg_ListCryptoDevices = (\<lambda>userID. registry_transact env (\<lambda>_ _. ListCryptoDevices_tx parse userID)),
      reg_GetCryptoDeviceDetails = registry_details env,
      reg_CreateCryptoDeviceBundlePublishChallenge =
        (\<lambda>c. registry_transact env (\<lambda>_ _. CreateCryptoDeviceBundlePublishChallenge_tx parse c)),
      reg_PublishCryptoDeviceBundle =
        (\<lambda>userID input at. registry_transact env (\<lambda>_ b. PublishCryptoDeviceBundle_tx parse lib b userID input at)),
      reg_CreateCryptoDeviceLinkIntent =
        (\<lambda>x. registry_transact env (\<lambda>known b. CreateCryptoDeviceLinkIntent_tx parse known b x)),
      reg_ListCryptoDeviceLinkIntents = registry_intents env,
      reg_ApproveCryptoDeviceLinkIntent = (\<lambda>p. registry_transact env (\<lambda>_ b. ApproveCryptoDeviceLinkIntent_tx parse lib b p)),
      reg_ExpireCryptoDeviceLinkIntent =
        (\<lambda>userID x now. registry_transact env (\<lambda>_ b. ExpireCryptoDeviceLinkIntent_tx parse b userID x now)),
      reg_RevokeCryptoDevice = (\<lambda>p. registry_transact env (\<lambda>_ b. RevokeCryptoDevice_tx parse b p))\<rparr>)"

definition crypto_service :: "crypto_env \<Rightarrow> crypto_world CryptoService" where
  "crypto_service env = (let s = identity_service (xv_identity env) in
     \<lparr>cry_repo = crypto_postgres env,
      cry_authenticate = (\<lambda>token. on_identity (authenticate s token)),
      cry_now = on_identity (svc_now s),
      cry_newID = on_identity (svc_newID s),
      cry_newCryptoLinkApprovalChallenge = on_identity (answer (xv_linkChallenge env)),
      cry_newCryptoBundlePublishChallenge = on_identity (answer (xv_publishChallenge env)),
      cry_cryptoLinkIntentTTL = defaultCryptoLinkIntentTTL,
      cry_cryptoBundlePublishChallengeTTL = defaultCryptoBundlePublishChallengeTTL,
      cry_lib = xv_lib env\<rparr>)"

end
