(* ===== verification/Crypto_Requests.thy ===== *)
theory Crypto_Requests
  imports Crypto_World Identity_Requests
begin

text \<open>
  Sequences of requests to the crypto device registry under every interference: the locale \<open>crypto_registry\<close> holds of the
  model, so the registry stays consistent and its rows move forward. Then what the answers of single requests mean.
\<close>

section \<open>From transactions to the service\<close>

definition registry_kept :: "crypto_lib \<Rightarrow> crypto_tables \<Rightarrow> crypto_tables \<Rightarrow> bool" where
  "registry_kept lib t0 t \<longleftrightarrow> registry_inv lib t \<and> registry_evolves t0 t"

lemma kept_step: "registry_inv lib t0 \<Longrightarrow> registry_kept lib t0 t \<Longrightarrow> registry_step_ok lib t u \<Longrightarrow> registry_kept lib t0 u"
  unfolding registry_kept_def registry_step_ok_def using registry_evolves_trans by blast

lemma kept_refl: "registry_inv lib t \<Longrightarrow> registry_kept lib t t"
  by (simp add: registry_kept_def)

lemma env_lawful:
  assumes "crypto_env_allowed env"
  shows "registry_step_ok (xv_lib env) t (xv_others env n t)" and "lawful (xv_lib env) (xv_between env n)"
  using assms goes_step unfolding crypto_env_allowed_def lawful_def registry_goes_def by blast+

lemma interfered_step: "lawful lib b \<Longrightarrow> registry_step_ok lib t (interfered b t)"
  by (rule goes_step) (simp add: interfered_def upt_conv_Cons lawful_after)

definition kept_world :: "crypto_env \<Rightarrow> crypto_tables \<Rightarrow> crypto_world \<Rightarrow> bool" where
  "kept_world env t0 w \<longleftrightarrow> crypto_env_allowed env \<and> registry_inv (xv_lib env) t0 \<and> registry_kept (xv_lib env) t0 (cw_tables w)"

lemma pres_registry_transact:
  assumes m: "\<And>known b t x t'. lawful (xv_lib env) b \<Longrightarrow> m known b t = Inr (x, t') \<Longrightarrow> registry_goes (xv_lib env) t t'"
  shows "pres (kept_world env t0) (registry_transact env m)"
  unfolding pres_def
proof (intro allI impI)
  fix w assume w: "kept_world env t0 w"
  let ?b = "xv_between env (iw_tick (cw_identity w))" and ?t = "xv_others env (iw_tick (cw_identity w)) (cw_tables w)"
  from w have allowed: "crypto_env_allowed env" and inv: "registry_inv (xv_lib env) t0"
    and kept: "registry_kept (xv_lib env) t0 (cw_tables w)" by (simp_all add: kept_world_def)
  have t: "registry_kept (xv_lib env) t0 ?t" by (rule kept_step [OF inv kept env_lawful(1) [OF allowed]])
  have fail: "kept_world env t0 (v\<lparr>cw_tables := interfered ?b ?t\<rparr>)" for v :: crypto_world
    using kept_step [OF inv t interfered_step [OF env_lawful(2) [OF allowed]]] allowed inv by (simp add: kept_world_def)
  have ok: "kept_world env t0 (v\<lparr>cw_tables := t'\<rparr>)" if "m known ?b ?t = Inr (x, t')" for known x t' and v :: crypto_world
    using kept_step [OF inv t goes_step [OF m [OF env_lawful(2) [OF allowed] that]]] allowed inv by (simp add: kept_world_def)
  show "kept_world env t0 (snd (registry_transact env m w))"
    using fail ok by (auto simp: registry_transact_def Let_def split: identity_fault.splits sum.splits)
qed

lemma pres_on_identity: "pres (kept_world env t0) (on_identity m)"
  by (simp add: pres_def on_identity_def kept_world_def split: prod.splits)

text \<open>A transaction that only reads commits nothing.\<close>

lemma read_only_goes: "read_only m \<Longrightarrow> m t = Inr (x, t') \<Longrightarrow> registry_goes lib t t'"
  unfolding read_only_def by (metis goes_refl)

lemma registry_reads [intro]:
  "read_only (GetCryptoDeviceRegistryStatsByUserID u)" "read_only (ListCryptoDevicesByUserID u)"
  "read_only (GetCryptoDeviceByIDAndUserID i u)" "read_only (GetCurrentCryptoDeviceBundleByDeviceIDAndUserID i u)"
  "read_only (ListCryptoDeviceLinkIntentsByUserID u)"
  by (auto simp: read_only_def GetCryptoDeviceRegistryStatsByUserID_def Let_def ListCryptoDevicesByUserID_def one_row_Inr
      GetCryptoDeviceByIDAndUserID_def GetCurrentCryptoDeviceBundleByDeviceIDAndUserID_def ListCryptoDeviceLinkIntentsByUserID_def)

lemma pres_registry_read: "(\<And>known b. read_only (m known b)) \<Longrightarrow> pres (kept_world env t0) (registry_transact env m)"
  by (rule pres_registry_transact) (rule read_only_goes)

lemma pres_details: "pres (kept_world env t0) (registry_details env u i)"
  unfolding registry_details_def Let_def
  by (intro pres_intros pres_registry_read read_only_with_uuid read_only_ipg_query read_only_intros registry_reads)

lemma stale_tx_goes: "ExpireStale_tx parse u now t = Inr (x, t') \<Longrightarrow> registry_goes lib t t'"
  by (auto simp: ExpireStale_tx_def run_simps intro: stale_goes)

lemma pres_intents: "pres (kept_world env t0) (registry_intents env u now)"
  unfolding registry_intents_def Let_def
  by (rule pres_bindE [OF pres_registry_transact], rule stale_tx_goes)
    (auto intro!: pres_registry_read read_only_with_uuid read_only_ipg_query registry_reads)

lemma crypto_service_sel:
  "cry_repo (crypto_service env) = crypto_postgres env"
  "cry_authenticate (crypto_service env) = (\<lambda>token. on_identity (authenticate (identity_service (xv_identity env)) token))"
  "cry_now (crypto_service env) = on_identity (answer (\<lambda>t. Inr (iv_clock (xv_identity env) t)))"
  "cry_newID (crypto_service env) = on_identity (answer (\<lambda>t. Inr (iv_id (xv_identity env) t)))"
  "cry_newCryptoLinkApprovalChallenge (crypto_service env) = on_identity (answer (xv_linkChallenge env))"
  "cry_newCryptoBundlePublishChallenge (crypto_service env) = on_identity (answer (xv_publishChallenge env))"
  "cry_lib (crypto_service env) = xv_lib env"
  "cry_cryptoLinkIntentTTL (crypto_service env) = defaultCryptoLinkIntentTTL"
  "cry_cryptoBundlePublishChallengeTTL (crypto_service env) = defaultCryptoBundlePublishChallengeTTL"
  by (simp_all add: crypto_service_def Let_def identity_service_sel)

interpretation registry: crypto_registry "crypto_service env" "kept_world env t0"
proof unfold_locales
  show "pres (kept_world env t0) (reg_PublishCryptoDeviceBundle (cry_repo (crypto_service env)) u input at)"
    if "validateCryptoDeviceBundleConsistency (cry_lib (crypto_service env)) (pi_Bundle input) = Inr ()" for input u at
    using that by (auto simp: crypto_service_sel crypto_postgres_def Let_def intro!: pres_registry_transact intro: publish_tx_goes)
  show "pres (kept_world env t0) (reg_CreateFirstCryptoDevice (cry_repo (crypto_service env)) p)"
    if "device_params (cry_lib (crypto_service env)) True p" for p
    using that by (auto simp: crypto_service_sel crypto_postgres_def Let_def intro!: pres_registry_transact intro: create_tx_goes)
  show "pres (kept_world env t0) (reg_CreateCryptoDevice (cry_repo (crypto_service env)) p)"
    if "device_params (cry_lib (crypto_service env)) False p" for p
    using that by (auto simp: crypto_service_sel crypto_postgres_def Let_def intro!: pres_registry_transact intro: create_tx_goes)
  show "pres (kept_world env t0) (reg_CreateCryptoDeviceLinkIntent (cry_repo (crypto_service env)) x)" if "intent_params x" for x
    using that by (auto simp: crypto_service_sel crypto_postgres_def Let_def intro!: pres_registry_transact intro: intent_tx_goes)
  show "pres (kept_world env t0) (reg_ApproveCryptoDeviceLinkIntent (cry_repo (crypto_service env)) ap)" for ap
    by (auto simp: crypto_service_sel crypto_postgres_def Let_def intro!: pres_registry_transact intro: approve_tx_goes)
  show "pres (kept_world env t0) (reg_ExpireCryptoDeviceLinkIntent (cry_repo (crypto_service env)) u i at)" for u i at
    by (auto simp: crypto_service_sel crypto_postgres_def Let_def intro!: pres_registry_transact intro: expire_tx_goes)
  show "pres (kept_world env t0) (reg_RevokeCryptoDevice (cry_repo (crypto_service env)) rp)" for rp
    by (auto simp: crypto_service_sel crypto_postgres_def Let_def intro!: pres_registry_transact intro: revoke_tx_goes)
  show "pres (kept_world env t0) (reg_CreateCryptoDeviceBundlePublishChallenge (cry_repo (crypto_service env)) c)" for c
    by (auto simp: crypto_service_sel crypto_postgres_def Let_def intro!: pres_registry_transact intro: challenge_tx_goes)
qed (simp_all add: crypto_service_sel crypto_postgres_def Let_def pres_on_identity pres_details pres_intents
    pres_registry_read read_only_with_uuid read_only_ipg_query registry_reads ListCryptoDevices_tx_def)

section \<open>Requests\<close>

datatype CryptoRequest =
    RegisterFirstCryptoDeviceRequest string RegisterCryptoDeviceInput
  | RegisterPendingLinkedCryptoDeviceRequest string RegisterCryptoDeviceInput
  | ListCryptoDevicesRequest string
  | GetCryptoDeviceRequest string string
  | CreateCryptoDeviceBundlePublishChallengeRequest string string
  | PublishCryptoDeviceBundleRequest string PublishCryptoDeviceBundleInput
  | CreateCryptoDeviceLinkIntentRequest string string
  | ListCryptoDeviceLinkIntentsRequest string
  | ApproveCryptoDeviceLinkIntentRequest string string string CryptoDeviceLinkApprovalProof
  | ExpireCryptoDeviceLinkIntentRequest string string
  | RevokeCryptoDeviceRequest string string "string option"

definition crypto_request :: "crypto_env \<Rightarrow> CryptoRequest \<Rightarrow> (crypto_world, identity_error, unit) prog" where
  "crypto_request env request =
     (let s = crypto_service env in
      case request of
        RegisterFirstCryptoDeviceRequest token input \<Rightarrow> dropE (RegisterFirstCryptoDevice s token input)
      | RegisterPendingLinkedCryptoDeviceRequest token input \<Rightarrow> dropE (RegisterPendingLinkedCryptoDevice s token input)
      | ListCryptoDevicesRequest token \<Rightarrow> dropE (ListCryptoDevices s token)
      | GetCryptoDeviceRequest token i \<Rightarrow> dropE (GetCryptoDevice s token i)
      | CreateCryptoDeviceBundlePublishChallengeRequest token i \<Rightarrow> dropE (CreateCryptoDeviceBundlePublishChallenge s token i)
      | PublishCryptoDeviceBundleRequest token input \<Rightarrow> dropE (PublishCryptoDeviceBundle s token input)
      | CreateCryptoDeviceLinkIntentRequest token i \<Rightarrow> dropE (CreateCryptoDeviceLinkIntent s token i)
      | ListCryptoDeviceLinkIntentsRequest token \<Rightarrow> dropE (ListCryptoDeviceLinkIntents s token)
      | ApproveCryptoDeviceLinkIntentRequest token x a evidence \<Rightarrow> dropE (ApproveCryptoDeviceLinkIntent s token x a evidence)
      | ExpireCryptoDeviceLinkIntentRequest token x \<Rightarrow> dropE (ExpireCryptoDeviceLinkIntent s token x)
      | RevokeCryptoDeviceRequest token i reason \<Rightarrow> dropE (RevokeCryptoDevice s token i reason))"

fun serve_crypto :: "crypto_env \<Rightarrow> CryptoRequest list \<Rightarrow> crypto_world \<Rightarrow> crypto_world" where
  "serve_crypto env [] w = w"
| "serve_crypto env (r # rs) w = serve_crypto env rs (snd (crypto_request env r w))"

lemma crypto_request_pres: "pres (kept_world env t0) (crypto_request env request)"
  unfolding crypto_request_def Let_def
  by (cases request; simp only: CryptoRequest.case)
    (intro pres_dropE registry.registration_pres registry.publication_pres registry.device_operations_pres
      registry.intent_operations_pres)+

lemma serve_crypto_kept:
  assumes "crypto_env_allowed env" and "registry_inv (xv_lib env) (cw_tables w)"
  shows "registry_kept (xv_lib env) (cw_tables w) (cw_tables (serve_crypto env rs w))"
proof -
  have "kept_world env t0 v \<Longrightarrow> kept_world env t0 (serve_crypto env rs v)" for v t0
    using crypto_request_pres by (induction rs arbitrary: v) (simp_all add: pres_def)
  from this [of "cw_tables w" w] assms show ?thesis by (simp add: kept_world_def kept_refl)
qed

section \<open>Answers\<close>

lemma on_identity_Inr: "on_identity m w = (r, w') \<Longrightarrow> cw_tables w' = cw_tables w \<and> fst (m (cw_identity w)) = r"
  by (auto simp: on_identity_def split: prod.splits)

lemma registry_transact_Inr:
  assumes "registry_transact env m w = (Inr x, w')"
  obtains n known where "n = iw_tick (cw_identity w)"
    and "m known (xv_between env n) (xv_others env n (cw_tables w)) = Inr (x, cw_tables w')"
  using assms by (auto simp: registry_transact_def Let_def split: identity_fault.splits sum.splits)

lemma registry_transact_kept:
  assumes "crypto_env_allowed env" and "registry_inv (xv_lib env) (cw_tables w)"
  shows "registry_inv (xv_lib env) (xv_others env n (cw_tables w)) \<and>
    registry_evolves (cw_tables w) (xv_others env n (cw_tables w)) \<and> lawful (xv_lib env) (xv_between env n)"
  using env_lawful [OF assms(1)] assms(2) by (simp add: registry_step_ok_def)

lemma shown_earlier:
  assumes ev: "registry_evolves t s" and shown: "shown_bundle s u i digest" and ok: "bundles_ok lib (crypto_device_bundles u)"
  shows "shown_bundle t u i digest"
proof -
  from shown obtain c where c: "c \<in> set (crypto_device_bundles u)" "cb_CryptoDeviceID c = i" "cb_BundleDigest c = digest"
    and old: "\<forall>y\<in>set (crypto_device_bundles s). cb_CryptoDeviceID y = i \<longrightarrow> cb_BundleVersion y \<le> cb_BundleVersion c"
    and new: "\<forall>n. find_current_bundle u i = Some n \<longrightarrow>
        n = c \<or> cb_BundleVersion c < cb_BundleVersion n \<and> n \<notin> set (crypto_device_bundles s)"
    unfolding shown_bundle_def by blast
  have old': "cb_BundleVersion y \<le> cb_BundleVersion c" if "y \<in> set (crypto_device_bundles t)" "cb_CryptoDeviceID y = i" for y
  proof -
    from ev that(1) obtain y' where "y' \<in> set (crypto_device_bundles s)" "bundle_moves y y'" by (auto simp: registry_evolves_def)
    with bundle_moves_key old that(2) show ?thesis by metis
  qed
  have "n = c \<or> cb_BundleVersion c < cb_BundleVersion n \<and> n \<notin> set (crypto_device_bundles t)" if n: "find_current_bundle u i = Some n" for n
  proof -
    have "cb_CryptoDeviceID n = i" using n find_current_bundle_iff [OF ok] by simp
    with new n old' show ?thesis by fastforce
  qed
  with c old' show ?thesis unfolding shown_bundle_def by blast
qed

lemma approve_answer:
  assumes allowed: "crypto_env_allowed env" and inv: "registry_inv (xv_lib env) (cw_tables w)"
    and run: "ApproveCryptoDeviceLinkIntent (crypto_service env) token linkIntentID approverID evidence w = (Inr (z, d), w')"
  shows "\<exists>userID now signed. normalizeCryptoDeviceLinkApprovalProof evidence = Inr signed \<and>
    approval (iv_parse (xv_identity env)) (xv_lib env)
      \<lparr>ap_UserID = userID, ap_LinkIntentID = trim_space linkIntentID, ap_ApproverCryptoDeviceID = trim_space approverID,
       ap_Proof = signed, ap_ApprovedAt = now\<rparr> (cw_tables w) z d (cw_tables w') \<and>
    (\<forall>i. iv_parse (xv_identity env) (trim_space approverID) = Some i \<longrightarrow> not_revoked (cw_tables w) i) \<and> not_revoked (cw_tables w) (cd_ID d)"
proof -
  from run obtain a v now v' signed where
      "on_identity (authenticate (identity_service (xv_identity env)) token) w = (Inr a, v)"
      "on_identity (answer (\<lambda>t. Inr (iv_clock (xv_identity env) t))) v = (Inr now, v')"
    and norm: "normalizeCryptoDeviceLinkApprovalProof evidence = Inr signed"
    and tx: "registry_transact env (\<lambda>_ b. ApproveCryptoDeviceLinkIntent_tx (iv_parse (xv_identity env)) (xv_lib env) b
        \<lparr>ap_UserID = self a, ap_LinkIntentID = trim_space linkIntentID, ap_ApproverCryptoDeviceID = trim_space approverID,
         ap_Proof = signed, ap_ApprovedAt = now\<rparr>) v' = (Inr (z, d), w')"
    by (auto simp: ApproveCryptoDeviceLinkIntent_def crypto_service_sel crypto_postgres_def Let_def bindE_Inr_iff prog_run
        normalizeRequiredID_def split: if_splits)
  then have tables: "cw_tables v' = cw_tables w" by (metis on_identity_Inr)
  obtain n where tx': "ApproveCryptoDeviceLinkIntent_tx (iv_parse (xv_identity env)) (xv_lib env) (xv_between env n)
        \<lparr>ap_UserID = self a, ap_LinkIntentID = trim_space linkIntentID, ap_ApproverCryptoDeviceID = trim_space approverID,
         ap_Proof = signed, ap_ApprovedAt = now\<rparr> (xv_others env n (cw_tables w)) = Inr ((z, d), cw_tables w')"
    using registry_transact_Inr [OF tx] tables by metis
  have kept: "registry_inv (xv_lib env) (xv_others env n (cw_tables w))" "lawful (xv_lib env) (xv_between env n)"
      "registry_evolves (cw_tables w) (xv_others env n (cw_tables w))"
    using registry_transact_kept [OF allowed inv] by simp_all
  note A = approve_tx_result [OF kept(2,1) tx']
  then have "registry_inv (xv_lib env) (cw_tables w')" using goes_later [OF kept(1)] by blast
  then have "bundles_ok (xv_lib env) (crypto_device_bundles (cw_tables w'))" by (simp add: registry_inv_def)
  with A have "approval (iv_parse (xv_identity env)) (xv_lib env)
        \<lparr>ap_UserID = self a, ap_LinkIntentID = trim_space linkIntentID, ap_ApproverCryptoDeviceID = trim_space approverID,
         ap_Proof = signed, ap_ApprovedAt = now\<rparr> (cw_tables w) z d (cw_tables w')"
    using shown_earlier [OF kept(3)] unfolding approval_def by blast
  with A norm revoked_later [OF kept(1,3)] show ?thesis
    unfolding ApproveCryptoDeviceLinkIntentParams.select_convs by blast
qed

lemma publish_answer:
  assumes allowed: "crypto_env_allowed env" and inv: "registry_inv (xv_lib env) (cw_tables w)"
    and run: "PublishCryptoDeviceBundle (crypto_service env) token input w = (Inr x, w')"
  obtains i c sent at e n where "x = details_of (e, n)"
    and "iv_parse (xv_identity env) (trim_space (pi_CryptoDeviceID input)) = Some i"
    and "normalizeCryptoDeviceBundleInput (xv_lib env) (pi_Bundle input) at = Inr (pi_Bundle sent)"
    and "\<And>p. pi_Proof sent = Some p \<Longrightarrow> \<exists>q. pi_Proof input = Some q \<and> normalizeCryptoDeviceBundlePublishProof q = Inr p"
    and "pi_CryptoDeviceID sent = trim_space (pi_CryptoDeviceID input)"
    and "publication (xv_lib env) i sent at c e n (cw_tables w')"
    and "\<exists>d\<in>set (crypto_devices (cw_tables w)). cd_ID d = i \<and> activated d \<Longrightarrow> publish_evidence (xv_lib env) sent c"
    and "\<forall>y\<in>set (crypto_device_bundles (cw_tables w)). cb_CryptoDeviceID y = i \<longrightarrow> cb_BundleVersion y \<le> cb_BundleVersion c"
    and "not_revoked (cw_tables w) i"
    and "registry_inv (xv_lib env) (cw_tables w')" "registry_evolves (cw_tables w) (cw_tables w')"
proof -
  let ?lib = "xv_lib env" and ?parse = "iv_parse (xv_identity env)"
  from run obtain a v at v' bun details v2 evidence y where
      "on_identity (authenticate (identity_service (xv_identity env)) token) w = (Inr a, v)"
      "on_identity (answer (\<lambda>t. Inr (iv_clock (xv_identity env) t))) v = (Inr at, v')"
    and bun: "normalizeCryptoDeviceBundleInput ?lib (pi_Bundle input) at = Inr bun"
    and details: "registry_details env (self a) (trim_space (pi_CryptoDeviceID input)) v' = (Inr details, v2)"
    and needed: "required_proof (cd_Status (details_Device details)) (pi_Proof input) = Inr evidence"
    and tx: "registry_transact env (\<lambda>_ b. PublishCryptoDeviceBundle_tx ?parse ?lib b (self a)
        \<lparr>pi_CryptoDeviceID = trim_space (pi_CryptoDeviceID input), pi_Bundle = bun, pi_Proof = evidence\<rparr> at) v2 = (Inr y, w')"
      "x = details_of y"
    by (auto simp: PublishCryptoDeviceBundle_def crypto_service_sel crypto_postgres_def Let_def bindE_Inr_iff prog_run
        normalizeRequiredID_def split: if_splits)
  let ?sent = "\<lparr>pi_CryptoDeviceID = trim_space (pi_CryptoDeviceID input), pi_Bundle = bun, pi_Proof = evidence\<rparr>"
  obtain e n where y: "y = (e, n)" by fastforce
  have "cw_tables v' = cw_tables w" using \<open>on_identity _ w = _\<close> \<open>on_identity _ v = _\<close> on_identity_Inr by metis
  then have "kept_world env (cw_tables w) v'" using allowed inv by (simp add: kept_world_def kept_refl)
  then have "kept_world env (cw_tables w) v2" using presD [OF pres_details _ details] by blast
  then have v2: "registry_inv ?lib (cw_tables v2)" "registry_evolves (cw_tables w) (cw_tables v2)"
    by (simp_all add: kept_world_def registry_kept_def)
  obtain k where tx': "PublishCryptoDeviceBundle_tx ?parse ?lib (xv_between env k) (self a) ?sent at (xv_others env k (cw_tables v2))
      = Inr ((e, n), cw_tables w')"
    using registry_transact_Inr [OF tx(1)] y by metis
  note K = registry_transact_kept [OF allowed v2(1), of k]
  have ev: "registry_evolves (cw_tables w) (xv_others env k (cw_tables v2))" using registry_evolves_trans [OF v2(2)] K by blast
  have auth: "validateCryptoDeviceBundleConsistency ?lib (pi_Bundle ?sent) = Inr ()" using normalized_consistent [OF bun] by simp
  have given: "\<exists>q. pi_Proof input = Some q \<and> normalizeCryptoDeviceBundlePublishProof q = Inr p" if "pi_Proof ?sent = Some p" for p
    using needed that by (auto simp: required_proof_def bindS_Inr_iff split: if_splits option.splits)
  obtain i c where i: "?parse (pi_CryptoDeviceID ?sent) = Some i" and pub: "publication ?lib i ?sent at c e n (cw_tables w')"
    and proven: "\<exists>d\<in>set (crypto_devices (xv_others env k (cw_tables v2))). cd_ID d = i \<and> activated d \<Longrightarrow> publish_evidence ?lib ?sent c"
    and below: "\<forall>x\<in>set (crypto_device_bundles (xv_others env k (cw_tables v2))). cb_CryptoDeviceID x = i \<longrightarrow>
        cb_BundleVersion x \<le> cb_BundleVersion c"
    and live: "not_revoked (xv_others env k (cw_tables v2)) i"
    and goes: "registry_goes ?lib (xv_others env k (cw_tables v2)) (cw_tables w')"
    by (rule publish_tx_result [OF _ _ auth tx']) (use K in blast)+
  have kept: "registry_inv ?lib (cw_tables w') \<and> registry_evolves (xv_others env k (cw_tables v2)) (cw_tables w')"
    using goes_later [OF _ goes] K by blast
  have "publish_evidence ?lib ?sent c" if "\<exists>d\<in>set (crypto_devices (cw_tables w)). cd_ID d = i \<and> activated d"
  proof (rule proven)
    from that obtain d where d: "d \<in> set (crypto_devices (cw_tables w))" "cd_ID d = i" "activated d" by blast
    obtain d' where "d' \<in> set (crypto_devices (xv_others env k (cw_tables v2)))" "device_moves d d'"
      by (rule device_later [OF ev d(1)])
    with d device_moves_fields show "\<exists>d\<in>set (crypto_devices (xv_others env k (cw_tables v2))). cd_ID d = i \<and> activated d" by metis
  qed
  moreover have "registry_evolves (cw_tables w) (cw_tables w')" using registry_evolves_trans [OF ev] K kept by blast
  moreover have "not_revoked (cw_tables w) i" using revoked_later [OF _ ev live] K by blast
  moreover have "cb_BundleVersion x \<le> cb_BundleVersion c"
    if x: "x \<in> set (crypto_device_bundles (cw_tables w))" "cb_CryptoDeviceID x = i" for x
  proof -
    from ev x(1) obtain x' where x': "x' \<in> set (crypto_device_bundles (xv_others env k (cw_tables v2)))" "bundle_moves x x'"
      by (auto simp: registry_evolves_def)
    then have "cb_CryptoDeviceID x' = cb_CryptoDeviceID x" "cb_BundleVersion x' = cb_BundleVersion x"
      by (simp_all add: bundle_moves_key)
    with below x'(1) x(2) show ?thesis by metis
  qed
  ultimately show thesis
    using tx(2) y i bun given pub kept by (intro that [of e n i at ?sent c]) simp_all
qed

text \<open>A proof names the version it replaces, and versions only grow: it is accepted once.\<close>

lemma publish_not_twice:
  assumes allowed: "crypto_env_allowed env" and inv: "registry_inv (xv_lib env) (cw_tables w)"
    and device: "d \<in> set (crypto_devices (cw_tables w))" "activated d"
      "iv_parse (xv_identity env) (trim_space (pi_CryptoDeviceID input)) = Some (cd_ID d)"
    and first: "PublishCryptoDeviceBundle (crypto_service env) token input w = (Inr x, w1)"
    and again: "iv_parse (xv_identity env) (trim_space (pi_CryptoDeviceID input')) = Some (cd_ID d)"
      "pi_Proof input' = pi_Proof input"
    and second: "PublishCryptoDeviceBundle (crypto_service env) token' input' (serve_crypto env rs w1) = (Inr y, w2)"
  shows False
proof -
  let ?lib = "xv_lib env" and ?t = "cw_tables (serve_crypto env rs w1)"
  obtain i c sent at e n where i: "iv_parse (xv_identity env) (trim_space (pi_CryptoDeviceID input)) = Some i"
    and one: "\<And>p. pi_Proof sent = Some p \<Longrightarrow> \<exists>q. pi_Proof input = Some q \<and> normalizeCryptoDeviceBundlePublishProof q = Inr p"
      "publication ?lib i sent at c e n (cw_tables w1)"
      "\<exists>d\<in>set (crypto_devices (cw_tables w)). cd_ID d = i \<and> activated d \<Longrightarrow> publish_evidence ?lib sent c"
    and inv1: "registry_inv ?lib (cw_tables w1)" "registry_evolves (cw_tables w) (cw_tables w1)"
    by (rule publish_answer [OF allowed inv first]) blast
  have kept: "registry_inv ?lib ?t" "registry_evolves (cw_tables w1) ?t"
    using serve_crypto_kept [OF allowed inv1(1)] by (simp_all add: registry_kept_def)
  obtain i' c' sent' at' e' n' where i': "iv_parse (xv_identity env) (trim_space (pi_CryptoDeviceID input')) = Some i'"
    and two: "\<And>p. pi_Proof sent' = Some p \<Longrightarrow> \<exists>q. pi_Proof input' = Some q \<and> normalizeCryptoDeviceBundlePublishProof q = Inr p"
      "\<exists>d\<in>set (crypto_devices ?t). cd_ID d = i' \<and> activated d \<Longrightarrow> publish_evidence ?lib sent' c'"
    and below: "\<forall>y\<in>set (crypto_device_bundles ?t). cb_CryptoDeviceID y = i' \<longrightarrow> cb_BundleVersion y \<le> cb_BundleVersion c'"
    by (rule publish_answer [OF allowed kept(1) second]) blast
  have ids: "i = cd_ID d" "i' = cd_ID d" using i i' device(3) again(1) by simp_all
  have ev: "registry_evolves (cw_tables w) ?t" using registry_evolves_trans [OF inv1(2) kept(2)] .
  obtain d' where "d' \<in> set (crypto_devices ?t)" "device_moves d d'" by (rule device_later [OF ev device(1)])
  then have "\<exists>d\<in>set (crypto_devices ?t). cd_ID d = i' \<and> activated d" using device_moves_fields device(2) ids by metis
  from two(2) [OF this] obtain p' where p': "pi_Proof sent' = Some p'" "pp_PreviousBundleVersion (bpp_Payload p') = cb_BundleVersion c'"
    by (auto simp: publish_evidence_def)
  have "\<exists>d\<in>set (crypto_devices (cw_tables w)). cd_ID d = i \<and> activated d" using device ids by blast
  from one(3) [OF this] obtain p where p: "pi_Proof sent = Some p" "pp_PreviousBundleVersion (bpp_Payload p) = cb_BundleVersion c"
    by (auto simp: publish_evidence_def)
  have "p = p'" using one(1) [OF p(1)] two(1) [OF p'(1)] again(2) by auto
  then have same: "cb_BundleVersion c' = cb_BundleVersion c" using p p' by simp
  have n: "n \<in> set (crypto_device_bundles (cw_tables w1))" "cb_CryptoDeviceID n = i" "cb_BundleVersion n = cb_BundleVersion c + 1"
    using one(2) inv1(1) by (auto simp: publication_def registry_inv_def find_current_bundle_iff) (auto simp: bundle_of_def)
  from kept(2) n(1) obtain n2 where "n2 \<in> set (crypto_device_bundles ?t)" "bundle_moves n n2" by (auto simp: registry_evolves_def)
  with below bundle_moves_key n(2,3) ids have "cb_BundleVersion c + 1 \<le> cb_BundleVersion c'" by metis
  with same show False by simp
qed

end
