(* ===== verification/Crypto_Properties.thy ===== *)
theory Crypto_Properties
  imports Crypto_Requests
begin

text \<open>What the crypto device registry guarantees, under every interleaving with other servers and every failure.\<close>

lemma served_kept:
  assumes "crypto_env_allowed env" and "registry_inv (xv_lib env) (cw_tables w)"
  shows "registry_inv (xv_lib env) (cw_tables (serve_crypto env rs w))"
    and "registry_evolves (cw_tables w) (cw_tables (serve_crypto env rs w))"
  using serve_crypto_kept [OF assms] by (simp_all add: registry_kept_def)

text \<open>C33: whatever requests are served, in whatever interleaving and with whatever failures, the tables of the registry stay
  consistent: keys, checks and foreign keys hold, each device has one current bundle whose version it tracks, the versions
  of its bundles are gapless and share one identity key, every bundle is authentic, at most one intent of a device is
  pending, and each owner has at most one activated device that nobody approved.\<close>

theorem registry_stays_consistent:
  assumes "crypto_env_allowed env" and "registry_inv (xv_lib env) (cw_tables w)"
  shows "registry_inv (xv_lib env) (cw_tables (serve_crypto env rs w))"
  using assms by (rule served_kept)

text \<open>C34: starting from an empty registry, a device that was ever activated is the first device of its owner or was approved,
  by an approved intent, by a device from which a chain of approvals leads to that first device; and that first device is
  the only one of its owner that no device approved.\<close>

theorem activated_devices_are_vouched:
  assumes "crypto_env_allowed env" and "crypto_devices (cw_tables w) = []" and "crypto_device_bundles (cw_tables w) = []"
    and "crypto_device_link_intents (cw_tables w) = []" and "crypto_device_bundle_publish_challenges (cw_tables w) = []"
  shows "\<forall>d\<in>set (crypto_devices (cw_tables (serve_crypto env rs w))). activated d \<longrightarrow>
    (\<exists>r\<in>set (crypto_devices (cw_tables (serve_crypto env rs w))). first_device r \<and> cd_UserID r = cd_UserID d \<and>
       (linked_by (crypto_devices (cw_tables (serve_crypto env rs w))))\<^sup>*\<^sup>* (cd_ID d) (cd_ID r) \<and>
       (\<forall>e\<in>set (crypto_devices (cw_tables (serve_crypto env rs w))).
          cd_UserID e = cd_UserID d \<and> first_device e \<longrightarrow> e = r)) \<and>
    (\<forall>a. cd_LinkedByCryptoDeviceID d = Some a \<longrightarrow>
       (\<exists>x\<in>set (crypto_device_link_intents (cw_tables (serve_crypto env rs w))).
          ci_PendingCryptoDeviceID x = cd_ID d \<and> ci_ApproverCryptoDeviceID x = Some a \<and>
          ci_Status x = CryptoDeviceLinkIntentStatusApproved))"
    (is "\<forall>d\<in>set ?ds. activated d \<longrightarrow> ?P d")
proof (intro ballI impI)
  fix d assume d: "d \<in> set ?ds" "activated d"
  have "registry_inv (xv_lib env) (cw_tables w)"
    using assms by (simp add: registry_inv_def registered_devices_ok_def bundles_ok_def intents_ok_def challenges_ok_def)
  then have inv: "registry_inv (xv_lib env) (cw_tables (serve_crypto env rs w))" using assms(1) by (intro served_kept)
  then have devs: "registered_devices_ok ?ds" by (simp add: registry_inv_def)
  with d have "vouched ?ds d" by (simp add: registered_devices_ok_def)
  then obtain r where r: "r \<in> set ?ds" "first_device r" "cd_UserID r = cd_UserID d" "(linked_by ?ds)\<^sup>*\<^sup>* (cd_ID d) (cd_ID r)"
    by (auto simp: vouched_def)
  have "\<forall>e\<in>set ?ds. \<forall>f\<in>set ?ds. first_device e \<longrightarrow> first_device f \<longrightarrow> cd_UserID e = cd_UserID f \<longrightarrow> e = f"
    using devs unfolding registered_devices_ok_def by (elim conjE)
  with r have "\<forall>e\<in>set ?ds. cd_UserID e = cd_UserID d \<and> first_device e \<longrightarrow> e = r" by simp
  moreover have "\<exists>x\<in>set (crypto_device_link_intents (cw_tables (serve_crypto env rs w))).
      ci_PendingCryptoDeviceID x = cd_ID d \<and> ci_ApproverCryptoDeviceID x = Some a \<and> ci_Status x = CryptoDeviceLinkIntentStatusApproved"
    if a: "cd_LinkedByCryptoDeviceID d = Some a" for a
  proof -
    have ints: "intents_ok ?ds (crypto_device_link_intents (cw_tables (serve_crypto env rs w)))" using inv by (simp add: registry_inv_def)
    with a d(1) obtain x where x: "x \<in> set (crypto_device_link_intents (cw_tables (serve_crypto env rs w)))"
        "ci_PendingCryptoDeviceID x = cd_ID d" "ci_ApproverCryptoDeviceID x = Some a"
      unfolding intents_ok_def by blast
    with ints have "intent_check x" by (simp add: intents_ok_def intent_ok_def)
    with x show ?thesis by (auto simp: intent_check_def)
  qed
  ultimately show "?P d" using r by blast
qed

text \<open>C35: once a crypto device is revoked, whatever happens in between, no bundle is ever published for it, no intent makes
  it active and it approves no other device.\<close>

theorem revoked_crypto_devices_stay_out:
  assumes allowed: "crypto_env_allowed env" and inv: "registry_inv (xv_lib env) (cw_tables w)"
    and d: "d \<in> set (crypto_devices (cw_tables w))" "cd_Status d = CryptoDeviceStatusRevoked"
  shows "(\<forall>token input x. iv_parse (xv_identity env) (trim_space (pi_CryptoDeviceID input)) = Some (cd_ID d) \<longrightarrow>
      fst (PublishCryptoDeviceBundle (crypto_service env) token input (serve_crypto env rs w)) \<noteq> Inr x) \<and>
    (\<forall>token linkIntentID approverID evidence x. iv_parse (xv_identity env) (trim_space approverID) = Some (cd_ID d) \<longrightarrow>
      fst (ApproveCryptoDeviceLinkIntent (crypto_service env) token linkIntentID approverID evidence (serve_crypto env rs w)) \<noteq> Inr x) \<and>
    (\<forall>token linkIntentID approverID evidence z e.
      fst (ApproveCryptoDeviceLinkIntent (crypto_service env) token linkIntentID approverID evidence (serve_crypto env rs w)) = Inr (z, e) \<longrightarrow>
      cd_ID e \<noteq> cd_ID d)"
proof -
  let ?v = "serve_crypto env rs w"
  have kept: "registry_inv (xv_lib env) (cw_tables ?v)" "registry_evolves (cw_tables w) (cw_tables ?v)"
    using allowed inv by (rule served_kept)+
  have out: "\<not> not_revoked (cw_tables ?v) (cd_ID d)"
    using revoked_later [OF kept] d by (auto simp: not_revoked_def)
  have "fst (PublishCryptoDeviceBundle (crypto_service env) token input ?v) \<noteq> Inr x"
    if "iv_parse (xv_identity env) (trim_space (pi_CryptoDeviceID input)) = Some (cd_ID d)" for token input x
  proof
    assume "fst (PublishCryptoDeviceBundle (crypto_service env) token input ?v) = Inr x"
    then obtain w' where "PublishCryptoDeviceBundle (crypto_service env) token input ?v = (Inr x, w')" by (metis prod.collapse)
    then show False by (rule publish_answer [OF allowed kept(1)]) (use that out in simp)
  qed
  moreover have "(iv_parse (xv_identity env) (trim_space approverID) = Some (cd_ID d) \<longrightarrow> False) \<and> cd_ID e \<noteq> cd_ID d"
    if "fst (ApproveCryptoDeviceLinkIntent (crypto_service env) token linkIntentID approverID evidence ?v) = Inr (z, e)"
    for token linkIntentID approverID evidence z e
  proof -
    from that obtain w' where "ApproveCryptoDeviceLinkIntent (crypto_service env) token linkIntentID approverID evidence ?v = (Inr (z, e), w')"
      by (metis prod.collapse)
    from approve_answer [OF allowed kept(1) this] out show ?thesis by auto
  qed
  ultimately show ?thesis by (metis surj_pair)
qed

text \<open>C36: a successful approval left the pending device active, linked by an activated device of the same user under every
  bundle key of which the signature verifies; the signed digest is the one of the intent and of the newest bundle that the
  device had at some time during the request, and unless another bundle was published during the request that bundle is
  the current one.\<close>

theorem approval_is_signed_by_owner_device:
  assumes allowed: "crypto_env_allowed env" and inv: "registry_inv (xv_lib env) (cw_tables w)"
    and run: "ApproveCryptoDeviceLinkIntent (crypto_service env) token linkIntentID approverID evidence w = (Inr (z, d), w')"
  shows "\<exists>signed. normalizeCryptoDeviceLinkApprovalProof evidence = Inr signed \<and>
    z \<in> set (crypto_device_link_intents (cw_tables w')) \<and> ci_Status z = CryptoDeviceLinkIntentStatusApproved \<and>
    lp_ApprovalChallenge (lap_Payload signed) = ci_ApprovalChallenge z \<and>
    lp_PendingBundleDigest (lap_Payload signed) = ci_BundleDigest z \<and>
    d \<in> set (crypto_devices (cw_tables w')) \<and> cd_Status d = CryptoDeviceStatusActive \<and>
    cd_ID d = ci_PendingCryptoDeviceID z \<and> lp_PendingCryptoDeviceID (lap_Payload signed) = cd_ID d \<and>
    (\<exists>c\<in>set (crypto_device_bundles (cw_tables w')). cb_CryptoDeviceID c = cd_ID d \<and>
       cb_BundleDigest c = lp_PendingBundleDigest (lap_Payload signed) \<and>
       (\<forall>y\<in>set (crypto_device_bundles (cw_tables w)). cb_CryptoDeviceID y = cd_ID d \<longrightarrow> cb_BundleVersion y \<le> cb_BundleVersion c) \<and>
       (\<forall>n. find_current_bundle (cw_tables w') (cd_ID d) = Some n \<longrightarrow>
          n = c \<or> cb_BundleVersion c < cb_BundleVersion n \<and> n \<notin> set (crypto_device_bundles (cw_tables w)))) \<and>
    (\<exists>e\<in>set (crypto_devices (cw_tables w')). activated e \<and> cd_UserID e = cd_UserID d \<and>
       iv_parse (xv_identity env) (trim_space approverID) = Some (cd_ID e) \<and> cd_LinkedByCryptoDeviceID d = Some (cd_ID e) \<and>
       (\<forall>k\<in>set (crypto_device_bundles (cw_tables w')). cb_CryptoDeviceID k = cd_ID e \<longrightarrow>
          VerifyCryptoDeviceLinkApprovalSignature (xv_lib env) (cb_IdentityPublicKey k) signed = Inr ()))"
proof -
  obtain userID now signed where norm: "normalizeCryptoDeviceLinkApprovalProof evidence = Inr signed"
    and app: "approval (iv_parse (xv_identity env)) (xv_lib env)
      \<lparr>ap_UserID = userID, ap_LinkIntentID = trim_space linkIntentID, ap_ApproverCryptoDeviceID = trim_space approverID,
       ap_Proof = signed, ap_ApprovedAt = now\<rparr> (cw_tables w) z d (cw_tables w')"
    using approve_answer [OF allowed inv run] by blast
  then show ?thesis
    unfolding approval_def shown_bundle_def ApproveCryptoDeviceLinkIntentParams.select_convs by (intro exI [of _ signed] conjI) blast+
qed

text \<open>C37: a successful publication left exactly the validated bundle current, under the identity key all bundles of the
  device share, with the next version and without a challenge; when the device had been activated before, the request
  carried a proof for that change whose signature verifies under that key.\<close>

theorem publication_is_proven:
  assumes allowed: "crypto_env_allowed env" and inv: "registry_inv (xv_lib env) (cw_tables w)"
    and run: "PublishCryptoDeviceBundle (crypto_service env) token input w = (Inr x, w')"
  shows "\<exists>n. details_CurrentBundle x = Some n \<and>
    iv_parse (xv_identity env) (trim_space (pi_CryptoDeviceID input)) = Some (cb_CryptoDeviceID n) \<and>
    find_current_bundle (cw_tables w') (cb_CryptoDeviceID n) = Some n \<and> authentic (xv_lib env) n \<and>
    cb_BundleDigest n = bi_BundleDigest (pi_Bundle input) \<and> cb_IdentityPublicKey n = bi_IdentityPublicKey (pi_Bundle input) \<and>
    (\<forall>b\<in>set (crypto_device_bundles (cw_tables w')). cb_CryptoDeviceID b = cb_CryptoDeviceID n \<longrightarrow>
       cb_IdentityPublicKey b = cb_IdentityPublicKey n) \<and>
    (\<forall>y\<in>set (crypto_device_bundle_publish_challenges (cw_tables w')). cc_CryptoDeviceID y \<noteq> cb_CryptoDeviceID n) \<and>
    ((\<exists>d\<in>set (crypto_devices (cw_tables w)). cd_ID d = cb_CryptoDeviceID n \<and> activated d) \<longrightarrow>
       (\<exists>q p. pi_Proof input = Some q \<and> normalizeCryptoDeviceBundlePublishProof q = Inr p \<and>
          VerifyCryptoDeviceBundlePublishSignature (xv_lib env) (cb_IdentityPublicKey n) p = Inr () \<and>
          pp_NewBundleDigest (bpp_Payload p) = cb_BundleDigest n \<and>
          pp_PreviousBundleVersion (bpp_Payload p) + 1 = cb_BundleVersion n))"
proof -
  obtain i c sent at e n where x: "x = details_of (e, n)"
    and i: "iv_parse (xv_identity env) (trim_space (pi_CryptoDeviceID input)) = Some i"
    and norm: "normalizeCryptoDeviceBundleInput (xv_lib env) (pi_Bundle input) at = Inr (pi_Bundle sent)"
    and given: "\<And>p. pi_Proof sent = Some p \<Longrightarrow> \<exists>q. pi_Proof input = Some q \<and> normalizeCryptoDeviceBundlePublishProof q = Inr p"
    and pub: "publication (xv_lib env) i sent at c e n (cw_tables w')"
    and ev: "\<exists>d\<in>set (crypto_devices (cw_tables w)). cd_ID d = i \<and> activated d \<Longrightarrow> publish_evidence (xv_lib env) sent c"
    by (rule publish_answer [OF allowed inv run]) blast
  have n: "n = bundle_of i (cb_BundleVersion c + 1) (pi_Bundle sent) at" using pub by (simp add: publication_def)
  have same: "bi_BundleDigest (pi_Bundle sent) = bi_BundleDigest (pi_Bundle input)"
      "bi_IdentityPublicKey (pi_Bundle sent) = bi_IdentityPublicKey (pi_Bundle input)"
    using normalized_fields [OF norm] by simp_all
  have f: "cb_CryptoDeviceID n = i" "cb_BundleVersion n = cb_BundleVersion c + 1" "cb_BundleDigest n = bi_BundleDigest (pi_Bundle sent)"
      "cb_IdentityPublicKey n = bi_IdentityPublicKey (pi_Bundle sent)"
    by (simp_all add: n bundle_of_def)
  have "authentic (xv_lib env) n" using normalized_consistent [OF norm] by (simp add: authentic_def n)
  moreover have "\<exists>q p. pi_Proof input = Some q \<and> normalizeCryptoDeviceBundlePublishProof q = Inr p \<and>
      VerifyCryptoDeviceBundlePublishSignature (xv_lib env) (cb_IdentityPublicKey n) p = Inr () \<and>
      pp_NewBundleDigest (bpp_Payload p) = cb_BundleDigest n \<and> pp_PreviousBundleVersion (bpp_Payload p) + 1 = cb_BundleVersion n"
    if "\<exists>d\<in>set (crypto_devices (cw_tables w)). cd_ID d = cb_CryptoDeviceID n \<and> activated d"
  proof -
    from ev that f(1) obtain p where "pi_Proof sent = Some p"
        "VerifyCryptoDeviceBundlePublishSignature (xv_lib env) (cb_IdentityPublicKey n) p = Inr ()"
        "pp_PreviousBundleVersion (bpp_Payload p) = cb_BundleVersion c" "pp_NewBundleDigest (bpp_Payload p) = cb_BundleDigest n"
      by (auto simp: publish_evidence_def f)
    with given f(2) show ?thesis by metis
  qed
  ultimately show ?thesis
    using x i pub f(1,3,4) same by (intro exI [of _ n]) (simp add: details_of_def publication_def)
qed

text \<open>C38: a proof is accepted once: after a publication for an activated device the same proof is refused for that device
  with any bundle, whatever requests were served in between.\<close>

theorem publish_proof_is_single_use:
  assumes "crypto_env_allowed env" and "registry_inv (xv_lib env) (cw_tables w)"
    and "d \<in> set (crypto_devices (cw_tables w))" and "activated d"
    and "iv_parse (xv_identity env) (trim_space (pi_CryptoDeviceID input)) = Some (cd_ID d)"
    and "PublishCryptoDeviceBundle (crypto_service env) token input w = (Inr x, w1)"
    and "iv_parse (xv_identity env) (trim_space (pi_CryptoDeviceID input')) = Some (cd_ID d)"
    and "pi_Proof input' = pi_Proof input"
  shows "fst (PublishCryptoDeviceBundle (crypto_service env) token' input' (serve_crypto env rs w1)) \<noteq> Inr y"
  using publish_not_twice [OF assms] by (metis prod.collapse)

section \<open>What the code leaves out\<close>

text \<open>The digest that approvals and publications sign has no KEM field and no expiry: with one and the same digest any other
  complete KEM key passes, and its signature is never verified.\<close>

lemma bundle_digest_leaves_out_kem:
  assumes "validateCryptoDeviceBundleConsistency lib b = Inr ()"
    and "key \<noteq> []" and "signature \<noteq> []" and "trim_space i \<noteq> []"
  shows "validateCryptoDeviceBundleConsistency lib
    (b\<lparr>bi_KEMPublicKey := key, bi_KEMKeyID := Some i, bi_KEMSignature := signature, bi_ExpiresAt := e\<rparr>) = Inr ()"
  using assms
  by (auto simp: validateCryptoDeviceBundleConsistency_def computeCryptoDeviceBundleDigest_def kem_shape_def bindS_Inr_iff
      split: if_splits)

text \<open>An identifier that is not empty and not a UUID makes the storage panic.\<close>

lemma malformed_device_id_panics:
  assumes "cry_authenticate (crypto_service env) token w = (Inr a, v)"
    and "trim_space cryptoDeviceID \<noteq> []" and "iv_parse (xv_identity env) (trim_space cryptoDeviceID) = None"
    and "iv_fault (xv_identity env) (iw_tick (cw_identity v)) = Works"
  shows "fst (GetCryptoDevice (crypto_service env) token cryptoDeviceID w) = Inl Panic"
  using assms
  by (simp add: GetCryptoDevice_def bindE_def liftE_def normalizeRequiredID_def crypto_service_def crypto_postgres_def Let_def
      registry_details_def registry_transact_def with_uuid_def mustParseUUID_def bindT_def liftT_def)

end
