(* ===== verification/Crypto_Sample.thy ===== *)
theory Crypto_Sample
  imports Crypto_Properties Identity_Sample
begin

text \<open>A small registry on which the properties are run: \<open>anna\<close> registers a first device, links a second one and publishes new
  bundles, in the deployment of \<open>Identity_Sample\<close>. A key is one byte, a digest is 31 zero bytes and the first byte of the
  message, and a signature is the digest followed by the key.\<close>

definition sample_digest :: "string \<Rightarrow> string" where
  "sample_digest m = replicate 31 (CHR 0x00) @ take 1 (m @ [CHR 0x00])"

definition sample_lib :: crypto_lib where
  "sample_lib = \<lparr>lib_P256 = (\<lambda>k. length k = 1), lib_Verify = (\<lambda>k h r s. r = SetBytes h \<and> s = SetBytes k), lib_Sum256 = sample_digest,
     lib_Marshal = (\<lambda>p. Inr (bd_SignedPrekeyID p @ bd_IdentityPublicKey p)), lib_RFC3339Nano = (\<lambda>t. if t < 20 then ''early'' else ''late'')\<rparr>"

definition sign_with :: "string \<Rightarrow> string \<Rightarrow> string" where
  "sign_with k m = sample_digest m @ replicate 31 (CHR 0x00) @ k"

definition sample_input :: "string \<Rightarrow> string \<Rightarrow> CryptoDeviceBundleInput" where
  "sample_input k p = \<lparr>bi_CryptoSuite = ''suite'', bi_IdentityPublicKey = k, bi_SignedPrekeyPublic = ''P'', bi_SignedPrekeyID = p,
     bi_SignedPrekeySignature = sign_with k ''P'', bi_KEMPublicKey = [], bi_KEMKeyID = None, bi_KEMSignature = [],
     bi_OneTimePrekeysTotal = 2, bi_OneTimePrekeysAvailable = 1, bi_BundleDigest = sample_digest (p @ std_EncodeToString k),
     bi_ExpiresAt = None\<rparr>"

definition registry_env :: "(nat \<Rightarrow> interference) \<Rightarrow> crypto_env" where
  "registry_env between = \<lparr>xv_identity = calm_env, xv_lib = sample_lib, xv_others = (\<lambda>_ t. t), xv_between = between,
     xv_linkChallenge = (\<lambda>_. Inr ''link''), xv_publishChallenge = (\<lambda>_. Inr ''publish'')\<rparr>"

definition quiet :: interference where
  "quiet k t = t"

lemma quiet_run [simp]: "interfered quiet t = t"
  by (simp add: interfered_def quiet_def upt_conv_Cons)

definition calm_registry :: crypto_env where
  "calm_registry = registry_env (\<lambda>_. quiet)"

definition scene :: "crypto_tables \<Rightarrow> nat \<Rightarrow> crypto_world" where
  "scene t n = \<lparr>cw_identity = moment identity_sample_db n, cw_tables = t\<rparr>"

definition no_registry :: crypto_tables where
  "no_registry = \<lparr>crypto_devices = [], crypto_device_bundles = [], crypto_device_link_intents = [],
     crypto_device_bundle_publish_challenges = []\<rparr>"

lemma registry_env_sel [simp]:
  "xv_identity (registry_env b) = calm_env" "xv_lib (registry_env b) = sample_lib" "xv_between (registry_env b) = b"
  "xv_others (registry_env b) n t = t"
  by (simp_all add: registry_env_def)

lemma scene_sel [simp]: "cw_tables (scene t n) = t" "cw_identity (scene t n) = moment identity_sample_db n"
  by (simp_all add: scene_def)

lemma calm_registry_allowed: "crypto_env_allowed calm_registry"
  by (simp add: crypto_env_allowed_def calm_registry_def quiet_def)

section \<open>Calls\<close>

lemma registry_calls:
  "cry_now (crypto_service (registry_env b)) (scene t n) = (Inr (int n), scene t (n + 1))"
  "cry_newID (crypto_service (registry_env b)) (scene t n) = (Inr (tick_id n), scene t (n + 1))"
  "cry_newCryptoLinkApprovalChallenge (crypto_service (registry_env b)) (scene t n) = (Inr ''link'', scene t (n + 1))"
  "cry_newCryptoBundlePublishChallenge (crypto_service (registry_env b)) (scene t n) = (Inr ''publish'', scene t (n + 1))"
  "cry_lib (crypto_service (registry_env b)) = sample_lib"
  "cry_repo (crypto_service (registry_env b)) = crypto_postgres (registry_env b)"
  "cry_cryptoLinkIntentTTL (crypto_service (registry_env b)) = defaultCryptoLinkIntentTTL"
  "cry_cryptoBundlePublishChallengeTTL (crypto_service (registry_env b)) = defaultCryptoBundlePublishChallengeTTL"
  by (simp_all add: crypto_service_sel on_identity_def answer_def scene_def moment_def)
    (simp_all add: registry_env_def calm_env_def identity_sample_env_def)

lemma registry_transact_scene:
  "registry_transact (registry_env b) m (scene t n) =
     (case m (known_user identity_sample_db) (b n) t of
        Inl e \<Rightarrow> (Inl e, scene (interfered (b n) t) (n + 1)) | Inr (x, t') \<Rightarrow> (Inr x, scene t' (n + 1)))"
  by (simp add: registry_transact_def others_moved_def scene_def moment_def Let_def split: sum.split prod.split)
    (simp add: calm_env_def identity_sample_env_def)

lemma sample_untouched: "n < 900 \<Longrightarrow> \<not> shouldTouchSession 0 (int n + 1) defaultSessionTouchInterval"
  by (simp add: shouldTouchSession_def defaultSessionTouchInterval_def time_Zero_def)

lemma next_tick: "n + 1 + 1 = n + (2::nat)"
  by simp

lemma registry_auth:
  "n < 900 \<Longrightarrow> cry_authenticate (crypto_service (registry_env b)) (identity_bearer (CHR ''1'')) (scene t n) = (Inr anna_auth, scene t (n + 2))"
  unfolding crypto_service_sel registry_env_sel on_identity_def authenticate_def
  by (simp add: scene_def calm_run calm_parse anna_session anna_lookup sample_untouched next_tick del: One_nat_def calm_sel add_2_eq_Suc add_2_eq_Suc')

lemmas registry_run_simps = prog_step prog_run registry_calls registry_transact_scene registry_auth Let_def

section \<open>A run\<close>

definition settled :: "identity_error + 'a \<times> crypto_tables \<Rightarrow> bool" where
  "settled r \<longleftrightarrow> (case r of Inl _ \<Rightarrow> False | Inr _ \<Rightarrow> True)"

definition after_tx :: "identity_error + 'a \<times> crypto_tables \<Rightarrow> crypto_tables" where
  "after_tx r = snd (projr r)"

definition result_tx :: "identity_error + 'a \<times> crypto_tables \<Rightarrow> 'a" where
  "result_tx r = fst (projr r)"

lemma settledD: "settled r \<Longrightarrow> r = Inr (result_tx r, after_tx r)"
  by (auto simp: settled_def after_tx_def result_tx_def split: sum.splits)

text \<open>The first device, the pending one, its intent and the approval by the first device.\<close>

definition register_input :: "string \<Rightarrow> RegisterCryptoDeviceInput" where
  "register_input k = \<lparr>rc_DeviceLabel = Some ''phone'', rc_Bundle = sample_input k ''1pre''\<rparr>"

definition sample_known :: "uuid \<Rightarrow> bool" where
  "sample_known = known_user identity_sample_db"

definition device1 :: CryptoDevice where
  "device1 = new_crypto_device (tick_id 3) ''u1'' ''phone'' CryptoDeviceStatusActive 2 (Some 2)"

definition bundle1 :: CryptoDeviceBundle where
  "bundle1 = bundle_of (tick_id 3) 1 (sample_input ''K'' ''1pre'') 2"

definition state1 :: crypto_tables where
  "state1 = no_registry\<lparr>crypto_devices := [device1], crypto_device_bundles := [bundle1]\<rparr>"

definition device2 :: CryptoDevice where
  "device2 = new_crypto_device (tick_id 9) ''u1'' ''phone'' CryptoDeviceStatusPendingLink 7 None"

definition bundle2 :: CryptoDeviceBundle where
  "bundle2 = bundle_of (tick_id 9) 1 (sample_input ''L'' ''1pre'') 7"

definition state2 :: crypto_tables where
  "state2 = state1\<lparr>crypto_devices := [device1, device2], crypto_device_bundles := [bundle1, bundle2]\<rparr>"

lemma digest_length: "length (sample_digest m) = 32"
  by (simp add: sample_digest_def)

lemma SetBytes_zeros: "SetBytes (replicate n (CHR 0x00) @ k) = SetBytes k"
proof -
  have "foldl (\<lambda>n c. n * 256 + val c) 0 (replicate n (CHR 0x00)) = 0" by (induction n) (simp_all add: val_def)
  then show ?thesis by (simp add: SetBytes_def)
qed

lemma sample_signature:
  "length k = 1 \<Longrightarrow> length (sign_with k m) = 64 \<and> signed_by sample_lib k m (sign_with k m)"
  by (simp add: sign_with_def signed_by_def sample_lib_def digest_length SetBytes_zeros)

lemma sample_consistent:
  assumes "length k = 1"
  shows "validateCryptoDeviceBundleConsistency sample_lib (sample_input k p) = Inr ()"
  using sample_signature [OF assms, of "''P''"] assms
  by (simp add: validateCryptoDeviceBundleConsistency_def sample_input_def computeCryptoDeviceBundleDigest_def kem_shape_def bindS_def)
    (simp add: sample_lib_def)

lemma sample_texts:
  "trim_space ''suite'' = ''suite''" "rune_count ''suite'' = 5" "trim_space ''1pre'' = ''1pre''" "trim_space ''2pre'' = ''2pre''"
  "rune_count ''1pre'' = 4" "rune_count ''2pre'' = 4" "normalizeDeviceLabel (Some ''phone'') = Inr ''phone''"
  by code_simp+

lemma sample_normal:
  assumes "length k = 1" and "p = ''1pre'' \<or> p = ''2pre''"
  shows "normalizeCryptoDeviceBundleInput sample_lib (sample_input k p) now = Inr (sample_input k p)"
proof -
  have norm: "(sample_input k p)\<lparr>bi_CryptoSuite := ''suite'', bi_SignedPrekeyID := p, bi_KEMKeyID := None\<rparr> = sample_input k p"
    by (simp add: sample_input_def)
  have "k \<noteq> []" "sign_with k ''P'' \<noteq> []" "sample_digest m \<noteq> []" for m
    using assms(1) by (auto simp: sign_with_def sample_digest_def)
  with norm assms(2) sample_consistent [OF assms(1), of p] show ?thesis
    unfolding normalizeCryptoDeviceBundleInput_def
    by (auto simp: sample_input_def sample_texts maxCryptoSuiteLen_def maxSignedPrekeyIDLen_def Let_def kem_shape_def bindS_def)
qed

lemma sample_inputs:
  "normalizeCryptoDeviceBundleInput sample_lib (sample_input ''K'' ''1pre'') now = Inr (sample_input ''K'' ''1pre'')"
  "normalizeCryptoDeviceBundleInput sample_lib (sample_input ''K'' ''2pre'') now = Inr (sample_input ''K'' ''2pre'')"
  "normalizeCryptoDeviceBundleInput sample_lib (sample_input ''L'' ''1pre'') now = Inr (sample_input ''L'' ''1pre'')"
  "normalizeCryptoDeviceBundleInput sample_lib (sample_input ''L'' ''2pre'') now = Inr (sample_input ''L'' ''2pre'')"
  by (rule sample_normal; simp)+

lemma tx1:
  "createCryptoDevice_tx sample_parse sample_known
     \<lparr>cp_Device = new_crypto_device (tick_id 3) ''u1'' ''phone'' CryptoDeviceStatusActive 2 (Some 2),
      cp_Bundle = bundle_of '''' 1 (sample_input ''K'' ''1pre'') 2\<rparr> True no_registry = Inr ((device1, bundle1), state1)"
  by code_simp

lemma tx2:
  "createCryptoDevice_tx sample_parse sample_known
     \<lparr>cp_Device = new_crypto_device (tick_id 9) ''u1'' ''phone'' CryptoDeviceStatusPendingLink 7 None,
      cp_Bundle = bundle_of '''' 1 (sample_input ''L'' ''1pre'') 7\<rparr> False state1 = Inr ((device2, bundle2), state2)"
  by code_simp

lemma stats1:
  "query (GetCryptoDeviceRegistryStatsByUserID ''u1'') state1 = Inr ((1, 1, 0), state1)" "sample_parse ''u1'' = Some ''u1''"
  by code_simp+

lemma first_registers:
  "RegisterFirstCryptoDevice (crypto_service (registry_env b)) (identity_bearer (CHR ''1'')) (register_input ''K'') (scene no_registry 0) =
     (Inr (details_of (device1, bundle1)), scene state1 5)"
  unfolding RegisterFirstCryptoDevice_def
  by (simp add: register_input_def registry_run_simps sample_inputs sample_texts anna_session crypto_postgres_def calm_parse
      tx1 [unfolded sample_known_def] del: One_nat_def calm_sel)

lemma second_registers:
  "RegisterPendingLinkedCryptoDevice (crypto_service (registry_env b)) (identity_bearer (CHR ''1'')) (register_input ''L'') (scene state1 5) =
     (Inr (details_of (device2, bundle2)), scene state2 11)"
  unfolding RegisterPendingLinkedCryptoDevice_def
  by (simp add: register_input_def registry_run_simps sample_inputs sample_texts anna_session crypto_postgres_def calm_parse
      with_uuid_def stats1 mustParseUUID_def bindT_def tx_run tx2 [unfolded sample_known_def] del: One_nat_def calm_sel)

text \<open>The intent for the second device and its approval.\<close>

lemma details_run:
  assumes "GetCryptoDeviceByIDAndUserID i u t = Inr (d, t)" and "GetCurrentCryptoDeviceBundleByDeviceIDAndUserID i u t = Inr (c, t)"
    and "sample_parse i = Some i" and "sample_parse u = Some u"
  shows "registry_details (registry_env b) u i (scene t n) = (Inr (details_of (d, c)), scene t (n + 2))"
  unfolding registry_details_def
  by (simp add: registry_run_simps with_uuid_def mustParseUUID_def bindT_def query_def mapErrT_def tx_run assms calm_parse details_of_def
      del: calm_sel)

lemma details_of_sel [simp]: "details_Device (details_of x) = fst x" "details_CurrentBundle (details_of x) = Some (snd x)"
  by (simp_all add: details_of_def)

definition intent3 :: CryptoDeviceLinkIntent where
  "intent3 = \<lparr>ci_ID = tick_id 17, ci_UserID = ''u1'', ci_PendingCryptoDeviceID = cd_ID device2,
     ci_Status = CryptoDeviceLinkIntentStatusPending, ci_BundleDigest = cb_BundleDigest bundle2, ci_CreatedAt = 16,
     ci_ExpiresAt = 16 + defaultCryptoLinkIntentTTL, ci_ApprovedAt = None, ci_ExpiredAt = None,
     ci_ApproverCryptoDeviceID = None, ci_ApprovalChallenge = ''link''\<rparr>"

definition state3 :: crypto_tables where
  "state3 = state2\<lparr>crypto_device_link_intents := [intent3]\<rparr>"

lemma tx3: "CreateCryptoDeviceLinkIntent_tx sample_parse sample_known quiet intent3 state2 = Inr (intent3, state3)"
  by code_simp

lemma device2_facts:
  "GetCryptoDeviceByIDAndUserID (tick_id 9) ''u1'' state2 = Inr (device2, state2)"
  "GetCurrentCryptoDeviceBundleByDeviceIDAndUserID (tick_id 9) ''u1'' state2 = Inr (bundle2, state2)"
  "sample_parse (tick_id 9) = Some (tick_id 9)" "normalizeRequiredID (tick_id 9) = Inr (tick_id 9)"
  "cd_Status device2 = CryptoDeviceStatusPendingLink"
  by code_simp+

lemma intent_created:
  assumes "b 18 = quiet"
  shows "CreateCryptoDeviceLinkIntent (crypto_service (registry_env b)) (identity_bearer (CHR ''1'')) (tick_id 9) (scene state2 11) =
     (Inr intent3, scene state3 19)"
  unfolding CreateCryptoDeviceLinkIntent_def
  by (simp add: registry_run_simps anna_session crypto_postgres_def calm_parse assms device2_facts
      details_run [OF device2_facts(1,2,3) stats1(2)] tx3 [unfolded sample_known_def intent3_def] intent3_def del: One_nat_def calm_sel)

definition approval_payload :: CryptoDeviceLinkApprovalPayload where
  "approval_payload = \<lparr>lp_Version = 1, lp_LinkIntentID = tick_id 17, lp_ApproverCryptoDeviceID = tick_id 3,
     lp_PendingCryptoDeviceID = tick_id 9, lp_PendingBundleDigest = ci_BundleDigest intent3, lp_ApprovalChallenge = ''link'',
     lp_ChallengeExpiresAt = ci_ExpiresAt intent3, lp_IssuedAt = 20\<rparr>"

definition approval_proof :: CryptoDeviceLinkApprovalProof where
  "approval_proof = \<lparr>lap_Payload = approval_payload,
     lap_Signature = sign_with ''K'' (buildCryptoDeviceLinkApprovalSigningMessage sample_lib approval_payload)\<rparr>"

definition approve_params :: ApproveCryptoDeviceLinkIntentParams where
  "approve_params = \<lparr>ap_UserID = ''u1'', ap_LinkIntentID = tick_id 17, ap_ApproverCryptoDeviceID = tick_id 3, ap_Proof = approval_proof,
     ap_ApprovedAt = 21\<rparr>"

definition intent4 :: CryptoDeviceLinkIntent where
  "intent4 = approved_intent 21 (tick_id 3) intent3"

definition device4 :: CryptoDevice where
  "device4 = linked_device 21 (tick_id 3) device2"

definition state4 :: crypto_tables where
  "state4 = state3\<lparr>crypto_devices := [device1, device4], crypto_device_link_intents := [intent4]\<rparr>"

lemma tx4: "ApproveCryptoDeviceLinkIntent_tx sample_parse sample_lib quiet approve_params state3 = Inr ((intent4, device4), state4)"
  by code_simp

lemma approval_input:
  "normalizeCryptoDeviceLinkApprovalProof approval_proof = Inr approval_proof" "normalizeRequiredID (tick_id 17) = Inr (tick_id 17)"
  "normalizeRequiredID (tick_id 3) = Inr (tick_id 3)"
  by code_simp+

lemma intent_approved:
  assumes "b 22 = quiet"
  shows "ApproveCryptoDeviceLinkIntent (crypto_service (registry_env b)) (identity_bearer (CHR ''1'')) (tick_id 17) (tick_id 3) approval_proof
     (scene state3 19) = (Inr (intent4, device4), scene state4 23)"
  unfolding ApproveCryptoDeviceLinkIntent_def
  by (simp add: registry_run_simps anna_session crypto_postgres_def calm_parse assms approval_input tx4 [unfolded approve_params_def]
      del: One_nat_def calm_sel)

text \<open>A challenge for the first device, a new bundle, and the revocation of the second device.\<close>

definition challenge5 :: CryptoDeviceBundlePublishChallenge where
  "challenge5 = \<lparr>cc_CryptoDeviceID = cd_ID device1, cc_CurrentBundleVersion = cb_BundleVersion bundle1,
     cc_CurrentBundleDigest = cb_BundleDigest bundle1, cc_PublishChallenge = ''publish'', cc_CreatedAt = 28,
     cc_ExpiresAt = 28 + defaultCryptoBundlePublishChallengeTTL\<rparr>"

definition state5 :: crypto_tables where
  "state5 = state4\<lparr>crypto_device_bundle_publish_challenges := [challenge5]\<rparr>"

lemma tx5: "CreateCryptoDeviceBundlePublishChallenge_tx sample_parse challenge5 state4 = Inr (challenge5, state5)"
  by code_simp

lemma device1_facts:
  "GetCryptoDeviceByIDAndUserID (tick_id 3) ''u1'' state4 = Inr (device1, state4)"
  "GetCurrentCryptoDeviceBundleByDeviceIDAndUserID (tick_id 3) ''u1'' state4 = Inr (bundle1, state4)"
  "GetCryptoDeviceByIDAndUserID (tick_id 3) ''u1'' state5 = Inr (device1, state5)"
  "GetCurrentCryptoDeviceBundleByDeviceIDAndUserID (tick_id 3) ''u1'' state5 = Inr (bundle1, state5)"
  "sample_parse (tick_id 3) = Some (tick_id 3)" "cd_Status device1 = CryptoDeviceStatusActive"
  by code_simp+

lemma challenge_created:
  "CreateCryptoDeviceBundlePublishChallenge (crypto_service (registry_env b)) (identity_bearer (CHR ''1'')) (tick_id 3) (scene state4 23) =
     (Inr challenge5, scene state5 30)"
  unfolding CreateCryptoDeviceBundlePublishChallenge_def
  by (simp add: registry_run_simps anna_session crypto_postgres_def calm_parse approval_input device1_facts
      details_run [OF device1_facts(1,2,5) stats1(2)] tx5 [unfolded challenge5_def] challenge5_def del: One_nat_def calm_sel)

definition publish_payload :: CryptoDeviceBundlePublishProofPayload where
  "publish_payload = \<lparr>pp_Version = 1, pp_CryptoDeviceID = tick_id 3, pp_PreviousBundleVersion = 1,
     pp_PreviousBundleDigest = cb_BundleDigest bundle1, pp_NewBundleDigest = bi_BundleDigest (sample_input ''K'' ''2pre''),
     pp_PublishChallenge = ''publish'', pp_ChallengeExpiresAt = cc_ExpiresAt challenge5, pp_IssuedAt = 30\<rparr>"

definition publish_proof :: CryptoDeviceBundlePublishProof where
  "publish_proof = \<lparr>bpp_Payload = publish_payload,
     bpp_Signature = sign_with ''K'' (buildCryptoDeviceBundlePublishSigningMessage sample_lib publish_payload)\<rparr>"

definition publish_input :: PublishCryptoDeviceBundleInput where
  "publish_input = \<lparr>pi_CryptoDeviceID = tick_id 3, pi_Bundle = sample_input ''K'' ''2pre'', pi_Proof = Some publish_proof\<rparr>"

definition bundle6 :: CryptoDeviceBundle where
  "bundle6 = bundle_of (tick_id 3) 2 (sample_input ''K'' ''2pre'') 32"

definition device6 :: CryptoDevice where
  "device6 = tracking (tick_id 3) ''u1'' 2 32 device1"

definition state6 :: crypto_tables where
  "state6 = state4\<lparr>crypto_devices := [device6, device4], crypto_device_bundles := [superseded (tick_id 3) 32 bundle1, bundle2, bundle6]\<rparr>"

lemma tx6: "PublishCryptoDeviceBundle_tx sample_parse sample_lib quiet ''u1'' publish_input 32 state5 = Inr ((device6, bundle6), state6)"
  by code_simp

lemma publish_normal: "normalizeCryptoDeviceBundlePublishProof publish_proof = Inr publish_proof"
  by code_simp

lemma bundle_published:
  assumes "b 35 = quiet"
  shows "PublishCryptoDeviceBundle (crypto_service (registry_env b)) (identity_bearer (CHR ''1'')) publish_input (scene state5 30) =
     (Inr (details_of (device6, bundle6)), scene state6 36)"
  unfolding PublishCryptoDeviceBundle_def
  by (simp add: registry_run_simps anna_session crypto_postgres_def calm_parse approval_input device1_facts sample_inputs assms
      details_run [OF device1_facts(3,4,5) stats1(2)] tx6 [unfolded publish_input_def] publish_input_def required_proof_def publish_normal
      bindS_def del: One_nat_def calm_sel)

definition device7 :: CryptoDevice where
  "device7 = revoked 38 None (Some CryptoDeviceRevokedBySelf) device4"

definition state7 :: crypto_tables where
  "state7 = state6\<lparr>crypto_devices := [device6, device7]\<rparr>"

lemma tx7:
  "RevokeCryptoDevice_tx sample_parse quiet
     \<lparr>rp_UserID = ''u1'', rp_CryptoDeviceID = tick_id 9, rp_RevokedAt = 38, rp_RevocationReason = None,
      rp_RevokedByActor = CryptoDeviceRevokedBySelf\<rparr> state6 = Inr (device7, state7)"
  by code_simp

lemma no_reason: "normalizeOptionalString [] maxRevocationReasonLen = Inr None"
  by code_simp

lemma device_revoked:
  assumes "b 39 = quiet"
  shows "RevokeCryptoDevice (crypto_service (registry_env b)) (identity_bearer (CHR ''1'')) (tick_id 9) None (scene state6 36) =
     (Inr device7, scene state7 40)"
  unfolding RevokeCryptoDevice_def
  by (simp add: registry_run_simps anna_session crypto_postgres_def calm_parse device2_facts assms no_reason tx7 del: One_nat_def calm_sel)

section \<open>A publication that races with an approval\<close>

text \<open>The second device, still pending, publishes another bundle without a proof; the approval of its first bundle commits
  after the publication has read the device and before it writes.\<close>

definition race_step :: interference where
  "race_step k t =
     (if k = 3 then (case ApproveCryptoDeviceLinkIntent_tx sample_parse sample_lib quiet approve_params t of Inl _ \<Rightarrow> t | Inr (_, t') \<Rightarrow> t')
      else t)"

definition race_registry :: crypto_env where
  "race_registry = registry_env (\<lambda>n. if n = 24 then race_step else quiet)"

definition race_input :: PublishCryptoDeviceBundleInput where
  "race_input = \<lparr>pi_CryptoDeviceID = tick_id 9, pi_Bundle = sample_input ''L'' ''2pre'', pi_Proof = None\<rparr>"

definition bundle8 :: CryptoDeviceBundle where
  "bundle8 = bundle_of (tick_id 9) 2 (sample_input ''L'' ''2pre'') 21"

definition device8 :: CryptoDevice where
  "device8 = tracking (tick_id 9) ''u1'' 2 21 device4"

definition state8 :: crypto_tables where
  "state8 = state4\<lparr>crypto_devices := [device1, device8], crypto_device_bundles := [bundle1, superseded (tick_id 9) 21 bundle2, bundle8]\<rparr>"

lemma tx8: "PublishCryptoDeviceBundle_tx sample_parse sample_lib race_step ''u1'' race_input 21 state3 = Inr ((device8, bundle8), state8)"
proof -
  have none_late: "holding kept (race_step 4) = (\<lambda>t. t)" for kept by (simp add: holding_def race_step_def fun_eq_iff)
  show ?thesis unfolding PublishCryptoDeviceBundle_tx_def none_late by code_simp
qed

lemma race_details:
  "GetCryptoDeviceByIDAndUserID (tick_id 9) ''u1'' state3 = Inr (device2, state3)"
  "GetCurrentCryptoDeviceBundleByDeviceIDAndUserID (tick_id 9) ''u1'' state3 = Inr (bundle2, state3)"
  by code_simp+

lemma race_published:
  "PublishCryptoDeviceBundle (crypto_service race_registry) (identity_bearer (CHR ''1'')) race_input (scene state3 19) =
     (Inr (details_of (device8, bundle8)), scene state8 25)"
  unfolding PublishCryptoDeviceBundle_def race_registry_def
  by (simp add: registry_run_simps anna_session crypto_postgres_def calm_parse device2_facts sample_inputs
      details_run [OF race_details device2_facts(3) stats1(2)] tx8 [unfolded race_input_def] race_input_def required_proof_def
      crypto_status_defs del: One_nat_def calm_sel)

lemma race_allowed: "crypto_env_allowed race_registry"
proof -
  have approves: "registry_run sample_lib t s"
    if "ApproveCryptoDeviceLinkIntent_tx sample_parse sample_lib quiet approve_params t = Inr (x, s)" and inv: "registry_inv sample_lib t"
    for t x s
  proof (rule transactions_are_runs [of _ quiet "OpApproveIntent approve_params", OF _ _ inv])
    show "crypto_op_tx sample_parse sample_lib sample_known quiet (OpApproveIntent approve_params) t = Inr ((), s)"
      by (simp add: crypto_op_tx_def ignore_result_def bindT_def that tx_run)
  qed (simp_all add: crypto_op_allowed_def quiet_def)
  have "registry_run sample_lib t (race_step k t)" if "registry_inv sample_lib t" for k t
    using approves [of t, OF _ that] by (auto simp: race_step_def split: sum.split)
  then show ?thesis by (simp add: crypto_env_allowed_def race_registry_def quiet_def)
qed

section \<open>An approval that races with a publication\<close>

text \<open>The second device publishes another bundle; the intent for its first one is committed after the publication has expired
  the intents of the device, so it stays pending.\<close>

definition late_intent :: interference where
  "late_intent k t =
     (if k = 4 then (case CreateCryptoDeviceLinkIntent_tx sample_parse sample_known quiet intent3 t of Inl _ \<Rightarrow> t | Inr (_, t') \<Rightarrow> t')
      else t)"

definition bundle9 :: CryptoDeviceBundle where
  "bundle9 = bundle_of (tick_id 9) 2 (sample_input ''L'' ''2pre'') 18"

definition device9 :: CryptoDevice where
  "device9 = tracking (tick_id 9) ''u1'' 2 18 device2"

definition state9 :: crypto_tables where
  "state9 = state3\<lparr>crypto_devices := [device1, device9], crypto_device_bundles := [bundle1, superseded (tick_id 9) 18 bundle2, bundle9]\<rparr>"

lemma published9:
  "SupersedeCurrentCryptoDeviceBundle (tick_id 9) 18 state3 =
     Inr ((), state3\<lparr>crypto_device_bundles := [bundle1, superseded (tick_id 9) 18 bundle2]\<rparr>)"
  "CreateCryptoDeviceBundle bundle9 (state3\<lparr>crypto_device_bundles := [bundle1, superseded (tick_id 9) 18 bundle2]\<rparr>) =
     Inr (bundle9, state3\<lparr>crypto_device_bundles := [bundle1, superseded (tick_id 9) 18 bundle2, bundle9]\<rparr>)"
  "UpdateCryptoDeviceBundleTracking (tick_id 9) ''u1'' 2 18
       (state3\<lparr>crypto_device_bundles := [bundle1, superseded (tick_id 9) 18 bundle2, bundle9]\<rparr>) = Inr (device9, state9)"
  "expire_seen state2 (tick_id 9) 18 state9 = Inr ((), state9)"
  "DeleteCryptoDeviceBundlePublishChallengeByDeviceID (tick_id 9) state9 = Inr ((), state9)"
  "cd_Status device9 = CryptoDeviceStatusPendingLink" "cb_BundleVersion bundle2 = 1"
  "cb_IdentityPublicKey bundle2 = bi_IdentityPublicKey (sample_input ''L'' ''2pre'')"
  by code_simp+

lemma bundle2_current: "find_current_bundle state2 (tick_id 9) = Some bundle2" "find_current_bundle state3 (tick_id 9) = Some bundle2"
  by code_simp+

lemma state2_intents: "crypto_device_link_intents state2 = []"
  by code_simp

lemma late_commit: "holding (publication_locks (tick_id 9)) (late_intent 4) state2 = state3" "late_intent 0 t = t" "late_intent 1 t = t"
  "late_intent 3 t = t"
  by (simp_all add: holding_def publication_locks_def late_intent_def tx3 state3_def state2_intents)

lemma race_input_sel:
  "pi_CryptoDeviceID race_input = tick_id 9" "pi_Bundle race_input = sample_input ''L'' ''2pre''" "sample_parse ''u1'' = Some ''u1''"
  by (simp_all add: race_input_def stats1(2))

lemma tx9: "PublishCryptoDeviceBundle_tx sample_parse sample_lib late_intent ''u1'' race_input 18 state2 = Inr ((device9, bundle9), state9)"
  unfolding PublishCryptoDeviceBundle_tx_def
  by (simp add: bindT_def query_def mapErrT_def with_uuid_def mustParseUUID_def liftT_def tx_run after_commits_def others_commit_def
      snapshot_def Let_def race_input_sel device2_facts late_commit GetCurrentCryptoDeviceBundleByDeviceID_def one_row_def bundle2_current
      published9 bundle9_def [symmetric] crypto_status_defs del: One_nat_def)

text \<open>An approval that has read the intent and the first bundle before the publication commits goes through after it.\<close>

definition late_publication :: interference where
  "late_publication k t = (if k = 5 \<and> t = state3 then state9 else t)"

lemma state9_commit: "registry_commit sample_lib state3 state9"
proof (rule commit_publish [OF bundle2_current(2) _ published9(8,1)])
  show "validateCryptoDeviceBundleConsistency sample_lib (sample_input ''L'' ''2pre'') = Inr ()" by code_simp
  show "CreateCryptoDeviceBundle (bundle_of (tick_id 9) (cb_BundleVersion bundle2 + 1) (sample_input ''L'' ''2pre'') 18)
      (state3\<lparr>crypto_device_bundles := [bundle1, superseded (tick_id 9) 18 bundle2]\<rparr>) =
    Inr (bundle9, state3\<lparr>crypto_device_bundles := [bundle1, superseded (tick_id 9) 18 bundle2, bundle9]\<rparr>)"
    using published9(2,7) by (simp add: bundle9_def)
  show "UpdateCryptoDeviceBundleTracking (tick_id 9) ''u1'' (cb_BundleVersion bundle2 + 1) 18
      (state3\<lparr>crypto_device_bundles := [bundle1, superseded (tick_id 9) 18 bundle2, bundle9]\<rparr>) = Inr (device9, state9)"
    using published9(3,7) by simp
  show "(if cd_Status device9 = CryptoDeviceStatusPendingLink then expire_seen state2 (tick_id 9) 18 else returnT ()) state9 = Inr ((), state9)"
    by (simp add: published9)
qed (rule published9)

definition late_registry :: crypto_env where
  "late_registry = registry_env (\<lambda>n. if n = 22 then late_publication else quiet)"

lemma late_allowed: "crypto_env_allowed late_registry"
  using state9_commit by (auto simp: crypto_env_allowed_def late_registry_def late_publication_def quiet_def intro: run_commit)

definition device10 :: CryptoDevice where
  "device10 = linked_device 21 (tick_id 3) device9"

definition state10 :: crypto_tables where
  "state10 = state9\<lparr>crypto_devices := [device1, device10], crypto_device_link_intents := [intent4]\<rparr>"

lemma tx10:
  "ApproveCryptoDeviceLinkIntent_tx sample_parse sample_lib late_publication approve_params state3 = Inr ((intent4, device10), state10)"
  by code_simp

lemma late_approved:
  "ApproveCryptoDeviceLinkIntent (crypto_service late_registry) (identity_bearer (CHR ''1'')) (tick_id 17) (tick_id 3) approval_proof
     (scene state3 19) = (Inr (intent4, device10), scene state10 23)"
  unfolding ApproveCryptoDeviceLinkIntent_def late_registry_def
  by (simp add: registry_run_simps anna_session crypto_postgres_def calm_parse approval_input tx10 [unfolded approve_params_def]
      del: One_nat_def calm_sel)

end
