(* ===== verification/Crypto_Messages.thy ===== *)
theory Crypto_Messages
  imports Crypto_Model
begin

text \<open>
  The messages that approvals and publications sign determine the payload they are built from: their fields are lines, a
  field never contains a line feed, and the encodings of numbers, bytes and instants are injective.
\<close>

abbreviation line_feed :: char where "line_feed \<equiv> CHR 0x0A"

lemma line_split:
  "line_feed \<notin> set v \<Longrightarrow> line_feed \<notin> set v' \<Longrightarrow> v @ line_feed # r = v' @ line_feed # r' \<longleftrightarrow> v = v' \<and> r = r'"
  by (induction v arbitrary: v') (case_tac v'; auto)+

section \<open>Numbers\<close>

definition digit_value :: "char \<Rightarrow> nat" where
  "digit_value c = of_char c - 48"

lemma read_show_nat: "foldl (\<lambda>a c. a * 10 + digit_value c) 0 (show_nat n) = n"
proof (induction n rule: show_nat.induct)
  case (1 n)
  have digit: "digit_value (char_of (48 + m)) = m" if "m < 10" for m :: nat
    using that by (simp add: digit_value_def)
  show ?case
  proof (cases "n < 10")
    case True
    then show ?thesis by (simp add: show_nat.simps [of n] digit)
  next
    case False
    then show ?thesis using 1 by (simp add: show_nat.simps [of n] digit)
  qed
qed

lemma show_nat_digits: "\<forall>c\<in>set (show_nat n). \<exists>m<10. c = char_of (48 + m :: nat)"
proof (induction n rule: show_nat.induct)
  case (1 n)
  have last: "\<exists>m<10. char_of (48 + n mod 10) = char_of (48 + m :: nat)" by (rule exI [of _ "n mod 10"]) simp
  show ?case
  proof (cases "n < 10")
    case True
    then show ?thesis by (auto simp: show_nat.simps [of n])
  next
    case False
    then have parts: "set (show_nat n) = insert (char_of (48 + n mod 10)) (set (show_nat (n div 10)))"
      by (simp add: show_nat.simps [of n])
    show ?thesis unfolding parts using 1 [OF False] last by blast
  qed
qed

lemma digit_plain: "(m::nat) < 10 \<Longrightarrow> char_of (48 + m) \<noteq> line_feed \<and> char_of (48 + m) \<noteq> CHR ''-''"
proof -
  assume "m < 10"
  then have "of_char (char_of (48 + m)) = 48 + m" by simp
  then show ?thesis by (auto simp del: of_char_of)
qed

lemma show_nat_plain: "line_feed \<notin> set (show_nat n)" "CHR ''-'' \<notin> set (show_nat n)"
  using show_nat_digits [of n] digit_plain by metis+

lemma show_nat_inj: "show_nat n = show_nat m \<longleftrightarrow> n = m"
  using read_show_nat by metis

lemma show_int_plain: "line_feed \<notin> set (show_int i)"
  using show_nat_plain(1) by (simp add: show_int_def)

lemma show_int_inj: "show_int i = show_int j \<longleftrightarrow> i = j"
proof
  have minus: "CHR ''-'' # s \<noteq> show_nat n" for s n using show_nat_plain(2) [of n] by (metis list.set_intros(1))
  assume "show_int i = show_int j"
  then show "i = j" using minus minus [symmetric] by (auto simp: show_int_def show_nat_inj split: if_splits)
qed simp

section \<open>Bytes\<close>

lemma std_alphabet: "distinct (map std_char [0..<64])" "\<forall>n\<in>set [0..<64]. std_char n \<noteq> CHR ''='' \<and> std_char n \<noteq> line_feed"
  by code_simp+

lemma std_char_inj: "inj_on std_char {..<64}"
  using std_alphabet(1) by (simp add: distinct_map atLeast0LessThan)

lemma std_char_plain: "n < 64 \<Longrightarrow> std_char n \<noteq> CHR ''='' \<and> std_char n \<noteq> line_feed"
  using std_alphabet(2) by (auto simp del: upt_rec_numeral)

lemma std_padding: "set (case k of 0 \<Rightarrow> [] | Suc 0 \<Rightarrow> ''=='' | _ \<Rightarrow> ''='') \<subseteq> {CHR ''=''}"
proof (cases k)
  case (Suc j)
  then show ?thesis by (cases j) auto
qed simp

lemma std_body: "filter (\<lambda>c. c \<noteq> CHR ''='') (std_EncodeToString s) = map std_char (b64_groups (map val s))"
proof -
  have "filter (\<lambda>c. c \<noteq> CHR ''='') (case length s mod 3 of 0 \<Rightarrow> [] | Suc 0 \<Rightarrow> ''=='' | _ \<Rightarrow> ''='') = []"
    using std_padding [of "length s mod 3"] by (auto simp: filter_empty_conv)
  moreover have "filter (\<lambda>c. c \<noteq> CHR ''='') (map std_char (b64_groups (map val s))) = map std_char (b64_groups (map val s))"
    using base64_groups_of [of s] std_char_plain by (auto simp: filter_id_conv)
  ultimately show ?thesis by (simp add: std_EncodeToString_def)
qed

lemma std_plain: "line_feed \<notin> set (std_EncodeToString s)"
proof -
  have "line_feed \<notin> std_char ` set (b64_groups (map val s))" using base64_groups_of [of s] std_char_plain by fastforce
  moreover have "line_feed \<notin> set (case length s mod 3 of 0 \<Rightarrow> [] | Suc 0 \<Rightarrow> ''=='' | _ \<Rightarrow> ''='')"
    using std_padding [of "length s mod 3"] by auto
  ultimately show ?thesis by (simp add: std_EncodeToString_def)
qed

lemma std_inj: "std_EncodeToString s = std_EncodeToString t \<longleftrightarrow> s = t"
proof
  assume "std_EncodeToString s = std_EncodeToString t"
  then have "map std_char (b64_groups (map val s)) = map std_char (b64_groups (map val t))" using std_body by metis
  moreover have "inj_on std_char (set (b64_groups (map val s)) \<union> set (b64_groups (map val t)))"
    by (rule inj_on_subset [OF std_char_inj]) (use base64_groups_of [of s] base64_groups_of [of t] in auto)
  ultimately have "b64_groups (map val s) = b64_groups (map val t)" by (simp add: inj_on_map_eq_map)
  moreover have "b64_ungroup (b64_groups (map val s)) = Some (map val s)" "b64_ungroup (b64_groups (map val t)) = Some (map val t)"
    by (rule b64_ungroup_groups, simp add: val_less)+
  ultimately have "map val s = map val t" by (metis option.inject)
  then show "s = t" by (rule map_injective) (metis byte_val injI)
qed simp

section \<open>Messages\<close>

text \<open>What \<open>time.Time.Format\<close> with \<open>RFC3339Nano\<close> does on the instants \<open>T\<close>.\<close>

definition instants_text :: "crypto_lib \<Rightarrow> int set \<Rightarrow> bool" where
  "instants_text lib T \<longleftrightarrow> inj_on (lib_RFC3339Nano lib) T \<and> (\<forall>x\<in>T. line_feed \<notin> set (lib_RFC3339Nano lib x))"

definition approval_lines :: "int set \<Rightarrow> CryptoDeviceLinkApprovalPayload \<Rightarrow> bool" where
  "approval_lines T p \<longleftrightarrow>
     line_feed \<notin> set (lp_LinkIntentID p) \<and> line_feed \<notin> set (lp_ApproverCryptoDeviceID p) \<and>
     line_feed \<notin> set (lp_PendingCryptoDeviceID p) \<and> lp_ChallengeExpiresAt p \<in> T \<and> lp_IssuedAt p \<in> T"

definition publish_lines :: "int set \<Rightarrow> CryptoDeviceBundlePublishProofPayload \<Rightarrow> bool" where
  "publish_lines T p \<longleftrightarrow> line_feed \<notin> set (pp_CryptoDeviceID p) \<and> pp_ChallengeExpiresAt p \<in> T \<and> pp_IssuedAt p \<in> T"

lemmas plain = show_int_plain std_plain

lemma approval_message_inj:
  assumes "instants_text lib T" and "approval_lines T p" and "approval_lines T q"
    and "buildCryptoDeviceLinkApprovalSigningMessage lib p = buildCryptoDeviceLinkApprovalSigningMessage lib q"
  shows "p = q"
  using assms
  by (cases p; cases q; simp add: buildCryptoDeviceLinkApprovalSigningMessage_def Let_def instants_text_def approval_lines_def
      line_split plain show_int_inj std_inj; blast dest: inj_onD)

lemma publish_message_inj:
  assumes "instants_text lib T" and "publish_lines T p" and "publish_lines T q"
    and "buildCryptoDeviceBundlePublishSigningMessage lib p = buildCryptoDeviceBundlePublishSigningMessage lib q"
  shows "p = q"
  using assms
  by (cases p; cases q; simp add: buildCryptoDeviceBundlePublishSigningMessage_def Let_def instants_text_def publish_lines_def
      line_split plain show_int_inj std_inj; blast dest: inj_onD)

text \<open>C39: for payloads whose identifiers hold no line feed, as a parsed UUID never does, and whose instants the time format
  keeps apart and writes without line feeds, an approval and a publication never sign the same message, and a message stands
  for one payload only; so a signature given for one intent, device, digest or challenge cannot be used for another.\<close>

theorem signed_messages_bind_payloads:
  assumes "instants_text lib T" and "approval_lines T p" and "approval_lines T q" and "publish_lines T r" and "publish_lines T s"
  shows "(buildCryptoDeviceLinkApprovalSigningMessage lib p = buildCryptoDeviceLinkApprovalSigningMessage lib q \<longleftrightarrow> p = q) \<and>
    (buildCryptoDeviceBundlePublishSigningMessage lib r = buildCryptoDeviceBundlePublishSigningMessage lib s \<longleftrightarrow> r = s) \<and>
    buildCryptoDeviceLinkApprovalSigningMessage lib p \<noteq> buildCryptoDeviceBundlePublishSigningMessage lib r"
proof (intro conjI)
  show "buildCryptoDeviceLinkApprovalSigningMessage lib p \<noteq> buildCryptoDeviceBundlePublishSigningMessage lib r"
    by (simp add: buildCryptoDeviceLinkApprovalSigningMessage_def buildCryptoDeviceBundlePublishSigningMessage_def Let_def)
qed (use assms approval_message_inj publish_message_inj in blast)+

end
