(* ===== verification/Crypto_Witnesses.thy ===== *)
theory Crypto_Witnesses
  imports Crypto_Sample Crypto_Messages
begin

text \<open>Runs of the sample registry on which its properties are applied, and the race between a publication and an approval.\<close>

section \<open>The run\<close>

definition anna_first :: CryptoRequest where
  "anna_first = RegisterFirstCryptoDeviceRequest (identity_bearer (CHR ''1'')) (register_input ''K'')"

definition anna_links :: "CryptoRequest list" where
  "anna_links = [RegisterPendingLinkedCryptoDeviceRequest (identity_bearer (CHR ''1'')) (register_input ''L''),
     CreateCryptoDeviceLinkIntentRequest (identity_bearer (CHR ''1'')) (tick_id 9)]"

definition anna_publishes :: "CryptoRequest list" where
  "anna_publishes = [ApproveCryptoDeviceLinkIntentRequest (identity_bearer (CHR ''1'')) (tick_id 17) (tick_id 3) approval_proof,
     CreateCryptoDeviceBundlePublishChallengeRequest (identity_bearer (CHR ''1'')) (tick_id 3)]"

definition anna_revokes :: "CryptoRequest list" where
  "anna_revokes = [PublishCryptoDeviceBundleRequest (identity_bearer (CHR ''1'')) publish_input,
     RevokeCryptoDeviceRequest (identity_bearer (CHR ''1'')) (tick_id 9) None]"

lemma serve_append: "serve_crypto env (rs @ qs) w = serve_crypto env qs (serve_crypto env rs w)"
  by (induction rs arbitrary: w) simp_all

lemmas serve_step = crypto_request_def dropE_def prog_step prog_run Let_def calm_registry_def

lemma serve1: "serve_crypto calm_registry [anna_first] (scene no_registry 0) = scene state1 5"
  by (simp add: anna_first_def serve_step first_registers)

lemma serve3: "serve_crypto calm_registry (anna_first # anna_links) (scene no_registry 0) = scene state3 19"
  using serve1 by (simp add: anna_links_def serve_step second_registers intent_created)

lemma serve5: "serve_crypto calm_registry (anna_first # anna_links @ anna_publishes) (scene no_registry 0) = scene state5 30"
  using serve3 serve_append [of calm_registry "anna_first # anna_links" anna_publishes]
  by (simp add: anna_publishes_def serve_step intent_approved challenge_created)

lemma serve7:
  "serve_crypto calm_registry (anna_first # anna_links @ anna_publishes @ anna_revokes) (scene no_registry 0) = scene state7 40"
  using serve5 serve_append [of calm_registry "anna_first # anna_links @ anna_publishes" anna_revokes]
  by (simp add: anna_revokes_def serve_step bundle_published device_revoked)

lemma no_registry_inv: "registry_inv (xv_lib calm_registry) (cw_tables (scene no_registry 0))"
  by (simp add: no_registry_def registry_inv_def registered_devices_ok_def bundles_ok_def intents_ok_def challenges_ok_def)

lemma sample_registry_inv:
  "registry_inv (xv_lib calm_registry) (cw_tables (scene state3 19))"
  "registry_inv (xv_lib calm_registry) (cw_tables (scene state5 30))"
  "registry_inv (xv_lib calm_registry) (cw_tables (scene state7 40))"
  using served_kept(1) [OF calm_registry_allowed no_registry_inv] serve3 serve5 serve7 by metis+

section \<open>Witnesses\<close>

theorem registry_stays_consistent_witness: "registry_inv sample_lib state7 \<and> crypto_devices state7 = [device6, device7]"
  using registry_stays_consistent [OF calm_registry_allowed no_registry_inv, of "anna_first # anna_links @ anna_publishes @ anna_revokes"]
  unfolding serve7 by (simp add: calm_registry_def state7_def)

lemma device4_last: "device4 \<in> set (crypto_devices state5)" "activated device4"
  by (simp_all add: state5_def state4_def device4_def)

lemma empty_registry:
  "crypto_devices (cw_tables (scene no_registry 0)) = []" "crypto_device_bundles (cw_tables (scene no_registry 0)) = []"
  "crypto_device_link_intents (cw_tables (scene no_registry 0)) = []"
  "crypto_device_bundle_publish_challenges (cw_tables (scene no_registry 0)) = []"
  by (simp_all add: no_registry_def)

theorem activated_devices_are_vouched_witness:
  "\<exists>r\<in>set (crypto_devices state5). first_device r \<and> (linked_by (crypto_devices state5))\<^sup>*\<^sup>* (cd_ID device4) (cd_ID r)"
  using activated_devices_are_vouched [OF calm_registry_allowed empty_registry, of "anna_first # anna_links @ anna_publishes"]
    device4_last
  unfolding serve5 scene_sel by blast

lemma device7_last:
  "device7 \<in> set (crypto_devices (cw_tables (scene state7 40)))" "cd_Status device7 = CryptoDeviceStatusRevoked"
  "cd_ID device7 = tick_id 9"
  by (simp_all add: state7_def device7_def revoked_def device4_def device2_def new_crypto_device_def)

lemma race_target: "iv_parse (xv_identity calm_registry) (trim_space (pi_CryptoDeviceID race_input)) = Some (tick_id 9)"
  by code_simp

theorem revoked_crypto_devices_stay_out_witness:
  "\<forall>x. fst (PublishCryptoDeviceBundle (crypto_service calm_registry) (identity_bearer (CHR ''1'')) race_input (scene state7 40)) \<noteq> Inr x"
  using revoked_crypto_devices_stay_out [OF calm_registry_allowed sample_registry_inv(3) device7_last(1,2), of "[]"] race_target
  by (simp add: device7_last(3))

theorem approval_is_signed_by_owner_device_witness:
  "\<exists>e\<in>set (crypto_devices state4). activated e \<and> cd_LinkedByCryptoDeviceID device4 = Some (cd_ID e)"
  using approval_is_signed_by_owner_device [OF calm_registry_allowed sample_registry_inv(1)
      intent_approved [of "\<lambda>_. quiet", OF refl, folded calm_registry_def]]
  unfolding scene_sel by blast

theorem publication_is_proven_witness:
  "\<exists>p. normalizeCryptoDeviceBundlePublishProof publish_proof = Inr p \<and>
     VerifyCryptoDeviceBundlePublishSignature sample_lib ''K'' p = Inr ()"
proof -
  have "device1 \<in> set (crypto_devices state5)" "cd_ID device1 = cb_CryptoDeviceID bundle6" "activated device1"
      "cb_IdentityPublicKey bundle6 = ''K''"
    by (simp_all add: state5_def state4_def device1_def bundle6_def bundle_of_def new_crypto_device_def activated_def sample_input_def)
  then show ?thesis
    using publication_is_proven [OF calm_registry_allowed sample_registry_inv(2)
        bundle_published [of "\<lambda>_. quiet", OF refl, folded calm_registry_def]]
    by (auto simp: publish_input_def calm_registry_def)
qed

lemma publish_target:
  "device1 \<in> set (crypto_devices (cw_tables (scene state5 30)))" "activated device1"
  "iv_parse (xv_identity calm_registry) (trim_space (pi_CryptoDeviceID publish_input)) = Some (cd_ID device1)"
  by code_simp+

theorem publish_proof_is_single_use_witness:
  "fst (PublishCryptoDeviceBundle (crypto_service calm_registry) (identity_bearer (CHR ''1'')) publish_input (scene state6 36)) \<noteq>
     Inr (details_of (device6, bundle6))"
  using publish_proof_is_single_use [OF calm_registry_allowed sample_registry_inv(2) publish_target
      bundle_published [of "\<lambda>_. quiet", OF refl, folded calm_registry_def] publish_target(3) refl, of _ "[]"]
  by simp

definition sample_approval :: CryptoDeviceLinkApprovalPayload where
  "sample_approval = approval_payload\<lparr>lp_ChallengeExpiresAt := 30, lp_IssuedAt := 0\<rparr>"

definition sample_publication :: CryptoDeviceBundlePublishProofPayload where
  "sample_publication = publish_payload\<lparr>pp_ChallengeExpiresAt := 30, pp_IssuedAt := 0\<rparr>"

lemma sample_lines:
  "instants_text sample_lib {0, 30}" "approval_lines {0, 30} sample_approval"
  "approval_lines {0, 30} (sample_approval\<lparr>lp_Version := 2\<rparr>)" "publish_lines {0, 30} sample_publication"
  by (simp add: instants_text_def sample_lib_def) code_simp+

theorem signed_messages_bind_payloads_witness:
  "buildCryptoDeviceLinkApprovalSigningMessage sample_lib sample_approval \<noteq>
     buildCryptoDeviceLinkApprovalSigningMessage sample_lib (sample_approval\<lparr>lp_Version := 2\<rparr>)"
  using signed_messages_bind_payloads [OF sample_lines(1,2,3,4,4)]
  by (simp add: sample_approval_def approval_payload_def)

section \<open>An approval of a bundle that is replaced\<close>

text \<open>An approval can leave the device active with a current bundle whose digest nobody signed: a publication commits between
  the read of the old bundle and the approval's write, and it has not expired the intent, which was created after its expiring
  statement (\<open>tx9\<close>).\<close>

lemma unsigned_digest: "cb_BundleDigest bundle9 \<noteq> ci_BundleDigest intent4" "find_current_bundle state10 (cd_ID device10) = Some bundle9"
  "cd_Status device10 = CryptoDeviceStatusActive"
  by code_simp+

lemma approval_racing_publication_activates_unsigned_bundle:
  "\<exists>env token x a evidence w z d w' n. crypto_env_allowed env \<and> registry_inv (xv_lib env) (cw_tables w) \<and>
     ApproveCryptoDeviceLinkIntent (crypto_service env) token x a evidence w = (Inr (z, d), w') \<and>
     cd_Status d = CryptoDeviceStatusActive \<and> find_current_bundle (cw_tables w') (cd_ID d) = Some n \<and>
     cb_BundleDigest n \<noteq> ci_BundleDigest z"
proof -
  have "registry_inv (xv_lib late_registry) (cw_tables (scene state3 19))"
    using sample_registry_inv(1) by (simp add: late_registry_def calm_registry_def)
  with late_allowed late_approved unsigned_digest show ?thesis
    by (intro exI [of _ late_registry] exI [of _ "identity_bearer (CHR ''1'')"] exI [of _ "tick_id 17"] exI [of _ "tick_id 3"]
        exI [of _ approval_proof] exI [of _ "scene state3 19"] exI [of _ intent4] exI [of _ device10] exI [of _ "scene state10 23"]
        exI [of _ bundle9]) simp
qed

section \<open>A publication without proof on an active device\<close>

lemma race_outcome:
  "cd_Status device8 = CryptoDeviceStatusActive" "map ci_PendingCryptoDeviceID (crypto_device_link_intents state8) = [cb_CryptoDeviceID bundle8]"
  "map ci_BundleDigest (crypto_device_link_intents state8) \<noteq> [cb_BundleDigest bundle8]"
  by code_simp+

text \<open>C40: the proof that an active device needs can be avoided by publishing while the approval commits: the publication read
  the device as pending, so it asks for no proof, and it is answered with success for a device that is active by then; no
  intent of the device shows the digest of its current bundle.\<close>

theorem publication_racing_approval_needs_no_proof:
  "\<exists>env token input w x n w'. crypto_env_allowed env \<and> registry_inv (xv_lib env) (cw_tables w) \<and>
     PublishCryptoDeviceBundle (crypto_service env) token input w = (Inr x, w') \<and> pi_Proof input = None \<and>
     cd_Status (details_Device x) = CryptoDeviceStatusActive \<and> details_CurrentBundle x = Some n \<and>
     filter (\<lambda>z. ci_PendingCryptoDeviceID z = cb_CryptoDeviceID n \<and> ci_BundleDigest z = cb_BundleDigest n)
       (crypto_device_link_intents (cw_tables w')) = []"
proof -
  have "registry_inv (xv_lib race_registry) (cw_tables (scene state3 19))"
    using sample_registry_inv(1) by (simp add: race_registry_def calm_registry_def)
  moreover have "filter (\<lambda>z. ci_PendingCryptoDeviceID z = cb_CryptoDeviceID bundle8 \<and> ci_BundleDigest z = cb_BundleDigest bundle8)
       (crypto_device_link_intents (cw_tables (scene state8 25))) = []"
    using race_outcome(2,3) by (auto simp: Cons_eq_map_conv filter_empty_conv)
  ultimately show ?thesis
    using race_allowed race_published race_outcome(1)
    by (intro exI [of _ race_registry] exI [of _ "identity_bearer (CHR ''1'')"] exI [of _ race_input] exI [of _ "scene state3 19"]
        exI [of _ "details_of (device8, bundle8)"] exI [of _ bundle8] exI [of _ "scene state8 25"]) (simp add: race_input_def)
qed

end
