(* ===== verification/Spec2Isabelle.thy ===== *)
theory Spec2Isabelle
  imports Rtc_Examples Delivery_Witnesses Chat_Witnesses Identity_Witnesses Crypto_Witnesses
begin

text \<open>
  A verification library for the Go services of AeroChat.

  \<^bold>\<open>The program.\<close> AeroChat is a messenger made of services under \<^verbatim>\<open>services/\<close>: \<^verbatim>\<open>aero-identity\<close> (accounts, sessions,
  devices), \<^verbatim>\<open>aero-chat\<close> (direct chats, groups, messages, attachments), \<^verbatim>\<open>aero-rtc-control\<close> (calls and their
  media) and \<^verbatim>\<open>aero-gateway\<close> (the public edge). Each keeps its state in Postgres through queries generated by
  sqlc. Identity and chat tell RTC about revoked authority through an outbox and a delivery worker.

  \<^bold>\<open>Conventions.\<close> \<open>Prelude\<close> holds the vocabulary: a fallible function is a value of \<open>error + 'a\<close>, a database
  transaction (\<open>tx\<close>) fails without effect or returns a value and the new database, a service method (\<open>prog\<close>)
  runs in a world that other actors change as well. The preservation calculus (\<open>keeps\<close> for transactions,
  \<open>pres\<close> for programs, collected in \<open>pres_intros\<close>) proves invariants by the structure of the code. Strings are
  byte lists, \<open>strings.TrimSpace\<close> is \<open>trim_space\<close>, a UUID is its canonical text and the parser of
  \<^verbatim>\<open>google/uuid\<close> a parameter with the law \<open>parser_ok\<close>. Instants are nanoseconds as \<open>int\<close>.

  \<open>Go_Text\<close> has the runes and the ASCII letters of Go strings.

  Every interaction with something outside the process has a number, its tick. An environment record
  (\<open>rtc_env\<close>, \<open>delivery_env\<close>, \<open>chat_env\<close>, \<open>identity_env\<close>, \<open>crypto_env\<close>) fixes for each tick which transactions other processes commit just before ours,
  whether our statement reaches the database and its answer reaches us, what the clock and the remote
  services answer. A theorem over every environment holds for every interleaving of transactions and every
  failure. Transactions are atomic where the code locks what it reads before it writes; those of the crypto device
  registry do not, and other transactions commit between their statements.

  \<^bold>\<open>Calls\<close> (\<^verbatim>\<open>services/aero-rtc-control\<close>). \<open>Rtc_Model\<close>: structs, errors, validators and ICE servers of
  \<^verbatim>\<open>internal/domain/rtc\<close>. \<open>Rtc_Store\<close>, \<open>Rtc_Schema\<close>: the tables of \<^verbatim>\<open>db/schema\<close> with their constraints and the
  queries of \<^verbatim>\<open>internal/storage/sqlc\<close>. \<open>Rtc_Slot\<close>: the media slot guard. \<open>Rtc_Repository\<close>: the transactions of
  \<^verbatim>\<open>internal/storage/postgres/repository.go\<close>. \<open>Rtc_Lifecycle\<close>: the invariant \<open>rtc_inv\<close> (schema, lifecycle) and
  that each transaction keeps it. \<open>Rtc_Service\<close>: \<^verbatim>\<open>service.go\<close> over its interfaces, with the locale
  \<open>rtc_repository\<close>. \<open>Rtc_Handler\<close>: the Connect handlers. \<open>Rtc_World\<close>: the repository methods in the world, the
  locale \<open>store_invariant\<close> and its sublocale into \<open>rtc_repository\<close>. \<open>Rtc_History\<close>: interpretations for the
  invariant and for the history of rows. \<open>Rtc_Outcomes\<close>, \<open>Rtc_Properties\<close>, \<open>Rtc_Prune\<close>, \<open>Rtc_Guard\<close>: what each
  operation achieves. \<open>Rtc_Sample\<close>, \<open>Rtc_Witnesses\<close>, \<open>Rtc_Examples\<close>: runs on a small deployment.

  \<^bold>\<open>Deliveries\<close> (\<^verbatim>\<open>internal/domain/delivery\<close> and \<^verbatim>\<open>internal/storage/postgres/authority_delivery.go\<close> of chat and
  identity; the packages differ in their event type only, so the model is polymorphic in it).
  \<open>Delivery_Model\<close>: events, claims, receipts, backoff. \<open>Delivery_Store\<close>: tables and statements.
  \<open>Delivery_Worker\<close>: \<open>Step\<close> and \<open>Run\<close> over the interfaces, and the repository; locale \<open>delivery_worker\<close>.
  \<open>Delivery_Invariant\<close>: locale \<open>delivery_tables\<close>, its interpretation and the invariant. \<open>Delivery_Lease\<close>: fences
  and leases. \<open>Delivery_Outcomes\<close>, \<open>Delivery_Progress\<close>: results of a step, progress, termination of \<open>Run\<close>.
  \<open>Delivery_Spec\<close>: the abstract tickets that the tables implement. \<open>Delivery_Witnesses\<close>: a sample run.

  \<^bold>\<open>Groups\<close> (\<^verbatim>\<open>services/aero-chat\<close>, \<^verbatim>\<open>libs/go/auth\<close>). \<open>Session_Token\<close>: the bearer tokens, with base64url and hex.
  \<open>Chat_Policy\<close>: roles, the table of permissions, the normalisers and the judgement of \<^verbatim>\<open>group_authorization.go\<close>.
  \<open>Chat_Store\<close>: the tables, their constraints, the authority trigger of migration 24 and the statements of
  \<^verbatim>\<open>internal/storage/sqlc\<close>. \<open>Chat_Repository\<close>: the transactions of \<^verbatim>\<open>internal/storage/postgres/repository.go\<close>.
  \<open>Chat_Service\<close>: the group operations of \<^verbatim>\<open>internal/domain/chat/service.go\<close> over its interfaces, with the locale
  \<open>chat_repository\<close>. \<open>Chat_World\<close>: the repository in the world, other writers included; locale \<open>chat_tables\<close> and its
  sublocale into \<open>chat_repository\<close>. \<open>Chat_Invariant\<close>, \<open>Chat_Keeps\<close>: the invariant of the tables, the machine of
  authority revisions, their preservation and the interpretation. \<open>Chat_Groups\<close>: sequences of requests.
  \<open>Chat_Authority\<close>: the authority check. \<open>Chat_Quiet\<close> is a calculus for runs without other writers, \<open>Chat_Steps\<close> the
  abstract machine of groups (members with roles and restrictions, links), \<open>Chat_Refine\<close>, \<open>Chat_Ops\<close> and
  \<open>Chat_Contract\<close> show that each operation refines it; \<open>Chat_Invites\<close> follows an invite token from its creation to
  its use. \<open>Chat_Sample\<close>, \<open>Chat_Witnesses\<close>: runs on a small deployment, and a run in which a racing writer leaves
  a group without an owner.

  \<^bold>\<open>Accounts, sessions and friends\<close> (\<^verbatim>\<open>services/aero-identity\<close>). \<open>Identity_Model\<close>: structs, errors, normalisers and the
  password admission of \<^verbatim>\<open>internal/domain/identity\<close>. \<open>Identity_Store\<close>: the tables with their constraints and the queries.
  \<open>Identity_Repository\<close>: the transactions of \<^verbatim>\<open>repository.go\<close> and \<^verbatim>\<open>social_graph.go\<close>. \<open>Identity_Service\<close>: the operations of
  \<^verbatim>\<open>service.go\<close>, \<^verbatim>\<open>social_graph.go\<close> and \<^verbatim>\<open>session_authorization.go\<close> over the interfaces of the service, with the locales
  \<open>identity_interfaces\<close> and \<open>identity_repository\<close>. \<open>Identity_World\<close>: the repository in the world, with other identity
  services and delivery workers. \<open>Identity_Invariant\<close>, \<open>Identity_Keeps\<close>, \<open>Identity_Revoke\<close>, \<open>Identity_Kept\<close>: the invariant of
  the tables and how rows evolve, kept by every transaction. \<open>Identity_Requests\<close>: sequences of requests, the locales
  \<open>identity_rows\<close> and \<open>identity_tables\<close> with their interpretations. \<open>Identity_Sessions\<close>: revoked sessions and the outbox.
  \<open>Identity_Accounts\<close>: tokens and passwords from registration to use. \<open>Identity_Checks\<close>: the authority check and the
  admission. \<open>Identity_Input\<close>: accepted input and the CHECKs. \<open>Identity_Social\<close>: blocks and friends. \<open>Identity_Sample\<close>,
  \<open>Identity_Witnesses\<close>: runs on a small deployment. The identity service shares the outbox tables with \<open>Delivery_Store\<close>: a
  revocation inserts the event that a delivery worker takes.

  \<^bold>\<open>Crypto devices\<close> (\<^verbatim>\<open>services/aero-identity\<close>, the files \<^verbatim>\<open>crypto_device*.go\<close>). \<open>Crypto_Model\<close>: structs, signing messages,
  digest, verification and normalisers of \<^verbatim>\<open>internal/domain/identity\<close>; what \<^verbatim>\<open>crypto/x509\<close>, \<^verbatim>\<open>crypto/ecdsa\<close>, \<^verbatim>\<open>crypto/sha256\<close>,
  \<^verbatim>\<open>encoding/json\<close> and the time format do is the parameter \<open>crypto_lib\<close>. \<open>Crypto_Store\<close>: the tables of the migrations 3 to 5 with
  their constraints and the statements. \<open>Crypto_Repository\<close>: the transactions. They read without locks under READ COMMITTED, so
  \<open>b k\<close> is what other transactions commit just before the \<open>k\<close>-th reading statement or the first write; what they still commit
  between the first write and the commit is discussed there, and a late link intent during a publication is modelled.
  \<open>Crypto_Invariant\<close>, \<open>Crypto_Keeps\<close>, \<open>Crypto_Approval\<close>: the invariant \<open>registry_inv\<close>, the evolution of rows and their
  preservation by every change. \<open>Crypto_Commits\<close>: what transactions commit (\<open>registry_commit\<close>) and sequences of it
  (\<open>registry_run\<close>), whenever the transactions began. \<open>Crypto_Transactions\<close>: every transaction, interrupted by runs, commits a
  run, and what a successful approval or publication means. \<open>Crypto_Service\<close>: the operations over their interfaces, locale \<open>crypto_registry\<close>.
  \<open>Crypto_World\<close>: the repository in the world; other servers commit any \<open>registry_run\<close>, before and during our
  transactions. \<open>Crypto_Requests\<close>: the interpretation and sequences of requests. \<open>Crypto_Properties\<close>: consistency, the chain of
  approvals, revoked devices, signed approvals and proven publications. \<open>Crypto_Messages\<close>: the signed messages determine their
  payloads. \<open>Crypto_Sample\<close>, \<open>Crypto_Witnesses\<close>: a run of the registry, the race in which a publication needs no proof, and the
  race in which an approval activates a bundle that nobody signed.

  \<^bold>\<open>Fuel.\<close> \<open>retrySlot\<close> has the three attempts of the code. \<open>Run\<close> takes a number of rounds; \<open>Run_stops\<close> shows how
  many suffice once the context is done. All other recursion is structural or has a measure.

  \<^bold>\<open>Not modelled.\<close> Generated protobuf code, the web client and the infrastructure files are out of scope. The
  media store and media control, direct chats, messages, attachments and encrypted lanes of chat are the plan of later
  extensions. Argon2id, SHA-256 and ECDSA are parameters; the registration of web push
  subscriptions checks URLs with \<^verbatim>\<open>net/url\<close> and is left out, their storage is modelled. Loggers, HTTP servers,
  configuration from the environment and process
  start are I/O. Rounding of instants to microseconds by Postgres is not modelled.
\<close>

end
